(* ===== verification/GoText.thy ===== *)
theory GoText
  imports Main "HOL-Library.Word" "HOL-Library.Sublist"
begin

text \<open>
  Prelude: what the Go code uses of the packages \<^verbatim>\<open>strings\<close>, \<^verbatim>\<open>strconv\<close>, \<^verbatim>\<open>unicode/utf8\<close> and
  \<^verbatim>\<open>time\<close>, and the generic lemmas on lists the components share.
  A Go string is its list of bytes, a \<open>string\<close> here. White space is Go's
  \<^verbatim>\<open>unicode.IsSpace\<close>, with the multi-byte spaces spelled as their UTF-8 bytes. Case mapping acts on
  the ASCII letters only (the identifiers and keywords the program folds are ASCII; CJK text has no
  case). A \<^verbatim>\<open>time.Time\<close> is the number of nanoseconds since the first instant of year 1 UTC, which is
  the zero of the type, so \<^verbatim>\<open>IsZero\<close>, \<^verbatim>\<open>Before\<close>, \<^verbatim>\<open>Add\<close> and \<^verbatim>\<open>Truncate\<close> are integer arithmetic;
  the location and the monotonic reading carry no meaning in the modelled code.
\<close>

section \<open>Collections of facts\<close>

named_theorems str_simps "rewriting of the string library"
named_theorems store_frame "fields an operation of the store leaves unchanged"

section \<open>Time\<close>

type_synonym gotime = int
type_synonym duration = int

definition second :: duration where "second = 1000000000"
definition minute :: duration where "minute = 60 * second"
definition hour :: duration where "hour = 60 * minute"

definition is_zero :: "gotime \<Rightarrow> bool" where "is_zero t \<longleftrightarrow> t = 0"

definition time_truncate :: "gotime \<Rightarrow> duration \<Rightarrow> gotime" where
  "time_truncate t d = t - t mod d"

definition unix_zero :: int where "unix_zero = 62135596800"

definition unix_seconds :: "gotime \<Rightarrow> int" where
  "unix_seconds t = t div second - unix_zero"

definition unix_time :: "int \<Rightarrow> gotime" where
  "unix_time s = (s + unix_zero) * second"

lemma second_pos [simp]: "0 < second"
  by (simp add: second_def)

lemma unix_time_seconds [simp]: "unix_time (unix_seconds t) = time_truncate t second"
  by (simp add: unix_time_def unix_seconds_def time_truncate_def minus_mod_eq_mult_div)

lemma unix_seconds_time [simp]: "unix_seconds (unix_time s) = s"
  by (simp add: unix_time_def unix_seconds_def second_def)

lemma time_truncate_truncate [simp]:
  "0 < d \<Longrightarrow> time_truncate (time_truncate t d) d = time_truncate t d"
  by (simp add: time_truncate_def minus_mod_eq_mult_div)

lemma time_truncate_le: "0 < d \<Longrightarrow> time_truncate t d \<le> t"
  by (simp add: time_truncate_def)

lemma time_truncate_add_multiple:
  "0 < d \<Longrightarrow> time_truncate (time_truncate t d + k * d) d = time_truncate t d + k * d"
  by (simp add: time_truncate_def minus_mod_eq_mult_div)

section \<open>ASCII case\<close>

definition lower_char :: "char \<Rightarrow> char" where
  "lower_char c = (let n = of_char c :: nat in if 65 \<le> n \<and> n \<le> 90 then char_of (n + 32) else c)"

definition upper_char :: "char \<Rightarrow> char" where
  "upper_char c = (let n = of_char c :: nat in if 97 \<le> n \<and> n \<le> 122 then char_of (n - 32) else c)"

definition to_lower :: "string \<Rightarrow> string" where "to_lower s = map lower_char s"
definition to_upper :: "string \<Rightarrow> string" where "to_upper s = map upper_char s"
definition equal_fold :: "string \<Rightarrow> string \<Rightarrow> bool" where
  "equal_fold a b \<longleftrightarrow> to_lower a = to_lower b"

lemma lower_char_idem [simp]: "lower_char (lower_char c) = lower_char c"
  by (simp add: lower_char_def Let_def)

lemma upper_char_idem [simp]: "upper_char (upper_char c) = upper_char c"
proof (cases "97 \<le> (of_char c :: nat) \<and> (of_char c :: nat) \<le> 122")
  case True
  then have "(of_char c - 32) mod 256 = (of_char c :: nat) - 32"
    by (intro mod_less) linarith
  with True show ?thesis by (auto simp: upper_char_def Let_def)
next
  case False
  then have "upper_char c = c" by (auto simp: upper_char_def Let_def)
  then show ?thesis by simp
qed

lemma to_lower_idem [simp]: "to_lower (to_lower s) = to_lower s"
  by (simp add: to_lower_def)

lemma to_upper_idem [simp]: "to_upper (to_upper s) = to_upper s"
  by (simp add: to_upper_def)

lemma to_lower_Nil [simp]: "to_lower [] = []" and to_upper_Nil [simp]: "to_upper [] = []"
  by (simp_all add: to_lower_def to_upper_def)

lemma to_lower_eq_Nil [simp]: "to_lower s = [] \<longleftrightarrow> s = []"
  and to_upper_eq_Nil [simp]: "to_upper s = [] \<longleftrightarrow> s = []"
  by (simp_all add: to_lower_def to_upper_def)

lemma length_to_lower [simp]: "length (to_lower s) = length s"
  and length_to_upper [simp]: "length (to_upper s) = length s"
  by (simp_all add: to_lower_def to_upper_def)

lemma equal_fold_refl [simp]: "equal_fold a a"
  by (simp add: equal_fold_def)

lemma equal_fold_sym: "equal_fold a b \<longleftrightarrow> equal_fold b a"
  by (auto simp: equal_fold_def)

lemma equal_fold_trans: "equal_fold a b \<Longrightarrow> equal_fold b c \<Longrightarrow> equal_fold a c"
  by (simp add: equal_fold_def)

section \<open>White space\<close>

definition ascii_ws :: "char \<Rightarrow> bool" where
  "ascii_ws c \<longleftrightarrow> (let n = of_char c :: nat in n = 32 \<or> (9 \<le> n \<and> n \<le> 13))"

definition ws2 :: "char \<Rightarrow> char \<Rightarrow> bool" where
  "ws2 a b \<longleftrightarrow> a = CHR 0xC2 \<and> (b = CHR 0x85 \<or> b = CHR 0xA0)"

definition ws3 :: "char \<Rightarrow> char \<Rightarrow> char \<Rightarrow> bool" where
  "ws3 a b c \<longleftrightarrow>
     (let n = of_char c :: nat in
       (a = CHR 0xE1 \<and> b = CHR 0x9A \<and> n = 0x80)
     \<or> (a = CHR 0xE2 \<and> b = CHR 0x80 \<and> ((0x80 \<le> n \<and> n \<le> 0x8A) \<or> n = 0xA8 \<or> n = 0xA9 \<or> n = 0xAF))
     \<or> (a = CHR 0xE2 \<and> b = CHR 0x81 \<and> n = 0x9F)
     \<or> (a = CHR 0xE3 \<and> b = CHR 0x80 \<and> n = 0x80))"

text \<open>Bytes of the white space at the front of a string, and at the front of a reversed string.\<close>

fun ws_len :: "string \<Rightarrow> nat" where
  "ws_len [] = 0"
| "ws_len [a] = (if ascii_ws a then 1 else 0)"
| "ws_len [a, b] = (if ascii_ws a then 1 else if ws2 a b then 2 else 0)"
| "ws_len (a # b # c # s) =
     (if ascii_ws a then 1 else if ws2 a b then 2 else if ws3 a b c then 3 else 0)"

fun ws_len_rev :: "string \<Rightarrow> nat" where
  "ws_len_rev [] = 0"
| "ws_len_rev [c] = (if ascii_ws c then 1 else 0)"
| "ws_len_rev [c, b] = (if ascii_ws c then 1 else if ws2 b c then 2 else 0)"
| "ws_len_rev (c # b # a # s) =
     (if ascii_ws c then 1 else if ws2 b c then 2 else if ws3 a b c then 3 else 0)"

function trim_left :: "string \<Rightarrow> string" where
  "trim_left s = (if s = [] \<or> ws_len s = 0 then s else trim_left (drop (ws_len s) s))"
  by pat_completeness auto
termination
  by (relation "measure length") auto

function trim_right_rev :: "string \<Rightarrow> string" where
  "trim_right_rev s =
     (if s = [] \<or> ws_len_rev s = 0 then s else trim_right_rev (drop (ws_len_rev s) s))"
  by pat_completeness auto
termination
  by (relation "measure length") auto

declare trim_left.simps [simp del] trim_right_rev.simps [simp del]

definition trim_right :: "string \<Rightarrow> string" where
  "trim_right s = rev (trim_right_rev (rev s))"

definition trim_space :: "string \<Rightarrow> string" where
  "trim_space s = trim_right (trim_left s)"

lemma ws_len_trim_left: "ws_len (trim_left s) = 0"
proof (induction s rule: trim_left.induct)
  case (1 s)
  then show ?case
    by (cases "s = [] \<or> ws_len s = 0") (auto simp: trim_left.simps [of s])
qed

lemma ws_len_trim_right_rev: "ws_len_rev (trim_right_rev s) = 0"
proof (induction s rule: trim_right_rev.induct)
  case (1 s)
  then show ?case
    by (cases "s = [] \<or> ws_len_rev s = 0") (auto simp: trim_right_rev.simps [of s])
qed

lemma trim_left_id: "ws_len s = 0 \<Longrightarrow> trim_left s = s"
  by (simp add: trim_left.simps)

lemma trim_right_rev_id: "ws_len_rev s = 0 \<Longrightarrow> trim_right_rev s = s"
  by (simp add: trim_right_rev.simps)

lemma trim_right_rev_suffix: "suffix (trim_right_rev s) s"
proof (induction s rule: trim_right_rev.induct)
  case (1 s)
  show ?case
  proof (cases "s = [] \<or> ws_len_rev s = 0")
    case True
    then show ?thesis by (simp add: trim_right_rev.simps [of s])
  next
    case False
    with "1.IH" have "suffix (trim_right_rev (drop (ws_len_rev s) s)) s"
      by (meson suffix_drop suffix_order.trans)
    with False show ?thesis by (simp add: trim_right_rev.simps [of s])
  qed
qed

lemma trim_right_prefix: "prefix (trim_right s) s"
  using trim_right_rev_suffix [of "rev s"]
  by (simp add: trim_right_def suffix_to_prefix)

lemma ws_len_prefix: "prefix p s \<Longrightarrow> ws_len s = 0 \<Longrightarrow> ws_len p = 0"
  by (cases p rule: ws_len.cases; cases s rule: ws_len.cases)
     (auto simp: prefix_def split: if_splits)

lemma trim_space_idem [simp]: "trim_space (trim_space s) = trim_space s"
proof -
  have "ws_len (trim_right (trim_left s)) = 0"
    by (rule ws_len_prefix [OF trim_right_prefix ws_len_trim_left])
  then have "trim_left (trim_right (trim_left s)) = trim_right (trim_left s)"
    by (rule trim_left_id)
  moreover have "trim_right (trim_right t) = trim_right t" for t
    by (simp add: trim_right_def trim_right_rev_id ws_len_trim_right_rev)
  ultimately show ?thesis by (simp add: trim_space_def)
qed

lemma trim_space_Nil [simp]: "trim_space [] = []"
  by (simp add: trim_space_def trim_right_def trim_left.simps trim_right_rev.simps)

definition trimmed :: "string \<Rightarrow> bool" where
  "trimmed s \<longleftrightarrow> ws_len s = 0 \<and> ws_len_rev (rev s) = 0"

lemma trimmed_iff: "trimmed s \<longleftrightarrow> trim_space s = s"
proof
  assume "trimmed s"
  then show "trim_space s = s"
    by (simp add: trimmed_def trim_space_def trim_right_def trim_left_id trim_right_rev_id)
next
  assume eq: "trim_space s = s"
  have "ws_len (trim_space s) = 0" unfolding trim_space_def
    by (rule ws_len_prefix [OF trim_right_prefix ws_len_trim_left])
  moreover have "ws_len_rev (rev (trim_space s)) = 0"
    by (simp add: trim_space_def trim_right_def ws_len_trim_right_rev)
  ultimately show "trimmed s" using eq by (simp add: trimmed_def)
qed

section \<open>Trimming and case mapping together\<close>

lemma of_lower_char:
  "(of_char (lower_char c) :: nat) = (if 65 \<le> (of_char c :: nat) \<and> (of_char c :: nat) \<le> 90 then of_char c + 32 else of_char c)"
  by (simp add: lower_char_def Let_def)

lemma of_upper_char:
  "(of_char (upper_char c) :: nat) = (if 97 \<le> (of_char c :: nat) \<and> (of_char c :: nat) \<le> 122 then of_char c - 32 else of_char c)"
  by (auto simp: upper_char_def Let_def)

lemma char_eq_iff_nat: "c = d \<longleftrightarrow> (of_char c :: nat) = of_char d"
  by simp

lemma ascii_ws_lower [simp]: "ascii_ws (lower_char c) = ascii_ws c"
  by (auto simp: ascii_ws_def Let_def of_lower_char)

lemma ascii_ws_upper [simp]: "ascii_ws (upper_char c) = ascii_ws c"
  by (auto simp: ascii_ws_def Let_def of_upper_char)

lemma lower_char_high:
  "128 \<le> (of_char d :: nat) \<Longrightarrow> lower_char c = d \<longleftrightarrow> c = d"
  by (auto simp: char_eq_iff_nat of_lower_char simp del: of_char_eq_iff)

lemma upper_char_high:
  "128 \<le> (of_char d :: nat) \<Longrightarrow> upper_char c = d \<longleftrightarrow> c = d"
  by (auto simp: char_eq_iff_nat of_upper_char simp del: of_char_eq_iff)

lemma ws2_lower [simp]: "ws2 (lower_char a) (lower_char b) = ws2 a b"
  by (simp add: ws2_def lower_char_high)

lemma ws2_upper [simp]: "ws2 (upper_char a) (upper_char b) = ws2 a b"
  by (simp add: ws2_def upper_char_high)

lemma ws3_lower [simp]: "ws3 (lower_char a) (lower_char b) (lower_char c) = ws3 a b c"
  by (auto simp: ws3_def Let_def lower_char_high of_lower_char)

lemma ws3_upper [simp]: "ws3 (upper_char a) (upper_char b) (upper_char c) = ws3 a b c"
  by (auto simp: ws3_def Let_def upper_char_high of_upper_char)

lemma ws_len_lower [simp]: "ws_len (map lower_char s) = ws_len s"
  and ws_len_upper [simp]: "ws_len (map upper_char s) = ws_len s"
  and ws_len_rev_lower [simp]: "ws_len_rev (map lower_char s) = ws_len_rev s"
  and ws_len_rev_upper [simp]: "ws_len_rev (map upper_char s) = ws_len_rev s"
  by (cases s rule: ws_len.cases; simp)+

lemma trimmed_lower [simp]: "trimmed (to_lower s) = trimmed s"
  and trimmed_upper [simp]: "trimmed (to_upper s) = trimmed s"
  by (simp_all add: trimmed_def to_lower_def to_upper_def rev_map)

lemma trimmed_trim_space [simp]: "trimmed (trim_space s)"
  by (simp add: trimmed_iff)

lemma trim_space_lower_trim [simp]: "trim_space (to_lower (trim_space s)) = to_lower (trim_space s)"
  and trim_space_upper_trim [simp]: "trim_space (to_upper (trim_space s)) = to_upper (trim_space s)"
  by (simp_all flip: trimmed_iff)

section \<open>Substrings\<close>

definition has_prefix :: "string \<Rightarrow> string \<Rightarrow> bool" where
  "has_prefix s p \<longleftrightarrow> take (length p) s = p"

definition has_suffix :: "string \<Rightarrow> string \<Rightarrow> bool" where
  "has_suffix s p \<longleftrightarrow> has_prefix (rev s) (rev p)"

fun contains_str :: "string \<Rightarrow> string \<Rightarrow> bool" where
  "contains_str [] p \<longleftrightarrow> p = []"
| "contains_str (c # s) p \<longleftrightarrow> has_prefix (c # s) p \<or> contains_str s p"

fun index_byte :: "string \<Rightarrow> char \<Rightarrow> nat option" where
  "index_byte [] x = None"
| "index_byte (c # s) x = (if c = x then Some 0 else map_option Suc (index_byte s x))"

definition trim_prefix :: "string \<Rightarrow> string \<Rightarrow> string" where
  "trim_prefix s p = (if has_prefix s p then drop (length p) s else s)"

definition trim_suffix :: "string \<Rightarrow> string \<Rightarrow> string" where
  "trim_suffix s p = (if has_suffix s p then take (length s - length p) s else s)"

definition trim_cutset :: "string \<Rightarrow> string \<Rightarrow> string" where
  "trim_cutset s cs = rev (dropWhile (\<lambda>c. c \<in> set cs) (rev (dropWhile (\<lambda>c. c \<in> set cs) s)))"

fun split_on :: "char \<Rightarrow> string \<Rightarrow> string list" where
  "split_on x [] = [[]]"
| "split_on x (c # s) =
     (case split_on x s of
        [] \<Rightarrow> [[c]]
      | l # ls \<Rightarrow> if c = x then [] # l # ls else (c # l) # ls)"

fun join_str :: "string \<Rightarrow> string list \<Rightarrow> string" where
  "join_str sep [] = []"
| "join_str sep [x] = x"
| "join_str sep (x # y # ys) = x @ sep @ join_str sep (y # ys)"

lemma has_prefix_iff: "has_prefix s p \<longleftrightarrow> prefix p s"
  by (auto simp: has_prefix_def prefix_def) (metis append_take_drop_id)

lemma contains_str_iff: "contains_str s p \<longleftrightarrow> sublist p s"
  by (induction s) (auto simp: has_prefix_iff sublist_Cons_right)

lemma split_on_nonempty [simp]: "split_on x s \<noteq> []"
  by (cases s) (auto split: list.splits)

lemma join_split [simp]: "join_str [x] (split_on x s) = s"
proof (induction s)
  case (Cons c s)
  then show ?case by (cases "split_on x s"; cases "tl (split_on x s)") (auto split: if_splits)
qed simp

section \<open>Runes\<close>

definition cont_byte :: "char \<Rightarrow> bool" where
  "cont_byte c \<longleftrightarrow> (let n = of_char c :: nat in 0x80 \<le> n \<and> n \<le> 0xBF)"

text \<open>Bytes consumed by \<^verbatim>\<open>utf8.DecodeRune\<close> at the front of a nonempty string (1 for an invalid byte).\<close>

definition rune_len :: "string \<Rightarrow> nat" where
  "rune_len s =
     (let a = (of_char (s ! 0) :: nat); c = (\<lambda>i. i < length s \<and> cont_byte (s ! i));
          b = (if 1 < length s then of_char (s ! 1) else (0 :: nat))
      in if a < 0x80 then 1
         else if 0xC2 \<le> a \<and> a \<le> 0xDF \<and> c 1 then 2
         else if 0xE0 \<le> a \<and> a \<le> 0xEF \<and> c 1 \<and> c 2 \<and> (a = 0xE0 \<longrightarrow> 0xA0 \<le> b) \<and> (a = 0xED \<longrightarrow> b \<le> 0x9F) then 3
         else if 0xF0 \<le> a \<and> a \<le> 0xF4 \<and> c 1 \<and> c 2 \<and> c 3 \<and> (a = 0xF0 \<longrightarrow> 0x90 \<le> b) \<and> (a = 0xF4 \<longrightarrow> b \<le> 0x8F) then 4
         else 1)"

lemma rune_len_pos [simp]: "0 < rune_len s"
  by (simp add: rune_len_def Let_def)

function rune_count :: "string \<Rightarrow> nat" where
  "rune_count s = (if s = [] then 0 else Suc (rune_count (drop (rune_len s) s)))"
  by pat_completeness auto
termination
  by (relation "measure length") auto

declare rune_count.simps [simp del]

lemma rune_count_Nil [simp]: "rune_count [] = 0"
  by (simp add: rune_count.simps)

lemma rune_count_le: "rune_count s \<le> length s"
proof (induction s rule: rune_count.induct)
  case (1 s)
  show ?case
  proof (cases "s = []")
    case False
    then have "rune_count (drop (rune_len s) s) \<le> length s - rune_len s" using "1.IH" by simp
    moreover have "0 < rune_len s" by simp
    moreover have "0 < length s" using False by simp
    ultimately have "Suc (rune_count (drop (rune_len s) s)) \<le> length s" by linarith
    with False show ?thesis by (subst rune_count.simps) simp
  qed simp
qed

lemma rune_count_eq_0 [simp]: "rune_count s = 0 \<longleftrightarrow> s = []"
  by (auto simp: rune_count.simps [of s])

section \<open>Decimal and hexadecimal text\<close>

fun nat_str :: "nat \<Rightarrow> string" where
  "nat_str n = (if n < 10 then [char_of (48 + n)] else nat_str (n div 10) @ [char_of (48 + n mod 10)])"

declare nat_str.simps [simp del]

definition int_str :: "int \<Rightarrow> string" where
  "int_str i = (if i < 0 then CHR ''-'' # nat_str (nat (- i)) else nat_str (nat i))"

definition bool_str :: "bool \<Rightarrow> string" where
  "bool_str b = (if b then ''true'' else ''false'')"

definition hex_digit :: "nat \<Rightarrow> char" where
  "hex_digit n = (if n < 10 then char_of (48 + n) else char_of (87 + n))"

definition hex_byte :: "char \<Rightarrow> string" where
  "hex_byte c = (let n = of_char c :: nat in [hex_digit (n div 16), hex_digit (n mod 16)])"

definition hex_encode :: "string \<Rightarrow> string" where
  "hex_encode s = concat (map hex_byte s)"

definition lower_hex :: "char \<Rightarrow> bool" where
  "lower_hex c \<longleftrightarrow> (let n = of_char c :: nat in (48 \<le> n \<and> n \<le> 57) \<or> (97 \<le> n \<and> n \<le> 102))"

lemma lower_hex_digit [simp]: "n < 16 \<Longrightarrow> lower_hex (hex_digit n)"
  by (auto simp: lower_hex_def hex_digit_def Let_def)

lemma length_hex_encode [simp]: "length (hex_encode s) = 2 * length s"
  by (induction s) (simp_all add: hex_encode_def hex_byte_def Let_def)

lemma hex_encode_lower_hex: "list_all lower_hex (hex_encode s)"
proof (induction s)
  case (Cons c s)
  have "(of_char c :: nat) < 256" by simp
  then have "(of_char c :: nat) div 16 < 16" by linarith
  with Cons show ?case by (simp add: hex_encode_def hex_byte_def Let_def)
qed (simp add: hex_encode_def)

lemma hex_digit_inj: "m < 16 \<Longrightarrow> n < 16 \<Longrightarrow> hex_digit m = hex_digit n \<Longrightarrow> m = n"
  by (auto simp: hex_digit_def char_eq_iff_nat simp del: of_char_eq_iff split: if_splits)

lemma hex_byte_inj: "hex_byte c = hex_byte d \<Longrightarrow> c = d"
proof -
  assume eq: "hex_byte c = hex_byte d"
  define m n where "m = (of_char c :: nat)" and "n = (of_char d :: nat)"
  have b: "m < 256" "n < 256" by (simp_all add: m_def n_def)
  then have q: "m div 16 < 16" "n div 16 < 16" by auto
  from eq have "hex_digit (m div 16) = hex_digit (n div 16)" "hex_digit (m mod 16) = hex_digit (n mod 16)"
    by (simp_all add: hex_byte_def Let_def m_def n_def)
  with q have "m div 16 = n div 16" "m mod 16 = n mod 16" by (simp_all add: hex_digit_inj)
  then have "m = n" by (metis div_mult_mod_eq)
  then show ?thesis by (simp add: m_def n_def)
qed

lemma hex_encode_inj [simp]: "hex_encode s = hex_encode t \<longleftrightarrow> s = t"
proof
  show "hex_encode s = hex_encode t \<Longrightarrow> s = t"
  proof (induction s arbitrary: t)
    case Nil
    then show ?case by (cases t) (simp_all add: hex_encode_def hex_byte_def Let_def)
  next
    case (Cons c s)
    then obtain d t' where t: "t = d # t'"
      by (cases t) (simp_all add: hex_encode_def hex_byte_def Let_def)
    have len: "length (hex_byte c) = length (hex_byte d)" by (simp add: hex_byte_def Let_def)
    from Cons.prems t have "hex_byte c @ hex_encode s = hex_byte d @ hex_encode t'"
      by (simp add: hex_encode_def)
    with len have "hex_byte c = hex_byte d" "hex_encode s = hex_encode t'" by simp_all
    with Cons.IH t hex_byte_inj show ?case by blast
  qed
qed simp

lemma lower_hex_lower_char: "lower_hex c \<Longrightarrow> lower_char c = c"
  by (auto simp: lower_hex_def lower_char_def Let_def)

lemma lower_hex_not_ws: "lower_hex c \<Longrightarrow> \<not> ascii_ws c \<and> (of_char c :: nat) < 128"
  by (auto simp: lower_hex_def ascii_ws_def Let_def)

lemma to_lower_hex: "list_all lower_hex s \<Longrightarrow> to_lower s = s"
  by (induction s) (auto simp: to_lower_def lower_hex_lower_char)

lemma trimmed_ascii:
  assumes "list_all (\<lambda>c. \<not> ascii_ws c \<and> (of_char c :: nat) < 128) s"
  shows "trimmed s"
proof -
  have ws: "ws_len t = 0" if "list_all (\<lambda>c. \<not> ascii_ws c \<and> (of_char c :: nat) < 128) t" for t
    using that by (cases t rule: ws_len.cases) (auto simp: ws2_def ws3_def)
  have "ws_len_rev t = 0" if "list_all (\<lambda>c. \<not> ascii_ws c \<and> (of_char c :: nat) < 128) t" for t
    using that by (cases t rule: ws_len.cases) (auto simp: ws2_def ws3_def)
  with ws assms show ?thesis by (simp add: trimmed_def list_all_rev)
qed

lemma trimmed_hex: "list_all lower_hex s \<Longrightarrow> trimmed s"
  by (rule trimmed_ascii) (auto simp: list_all_iff dest: lower_hex_not_ws)

section \<open>Lists scanned by index\<close>

text \<open>The first element a Go \<^verbatim>\<open>for\<close> loop with a \<^verbatim>\<open>break\<close> or \<^verbatim>\<open>return\<close> stops at is
  \<open>List.find\<close>; its index, -1 in the code when there is none, is an option here.\<close>

fun find_index_of :: "('a \<Rightarrow> bool) \<Rightarrow> 'a list \<Rightarrow> nat option" where
  "find_index_of p [] = None"
| "find_index_of p (x # xs) = (if p x then Some 0 else map_option Suc (find_index_of p xs))"

lemma find_index_of_Some:
  "find_index_of p xs = Some i \<Longrightarrow> i < length xs \<and> p (xs ! i) \<and> (\<forall>j<i. \<not> p (xs ! j))"
  by (induction xs arbitrary: i) (auto simp: less_Suc_eq_0_disj split: if_splits)

lemma find_index_of_SomeD [dest]:
  assumes "find_index_of p xs = Some i"
  shows "i < length xs" and "p (xs ! i)"
  using find_index_of_Some [OF assms] by auto

lemma find_index_of_None [simp]: "find_index_of p xs = None \<longleftrightarrow> (\<forall>x\<in>set xs. \<not> p x)"
  by (induction xs) auto

lemma find_index_of_find: "map_option ((!) xs) (find_index_of p xs) = List.find p xs"
  by (induction xs) (auto simp: option.map_comp o_def)

lemma map_nth_update_same: "i < length xs \<Longrightarrow> f y = f (xs ! i) \<Longrightarrow> map f (xs[i := y]) = map f xs"
  by (metis list_update_id map_update)

lemma set_update_cases: "x \<in> set (xs[i := y]) \<Longrightarrow> x = y \<or> x \<in> set xs"
  using set_update_subset_insert by fastforce

lemma distinct_map_inj: "distinct (map f xs) \<Longrightarrow> x \<in> set xs \<Longrightarrow> y \<in> set xs \<Longrightarrow> f x = f y \<Longrightarrow> x = y"
  by (auto simp: distinct_map inj_on_def)

lemma distinct_map_nth:
  "distinct (map f xs) \<Longrightarrow> i < length xs \<Longrightarrow> j < length xs \<Longrightarrow> f (xs ! i) = f (xs ! j) \<Longrightarrow> i = j"
  by (metis distinct_conv_nth length_map nth_map)

end
