(* ===== verification/GoModel.thy ===== *)
theory GoModel
  imports Complex_Main GoText
begin

text \<open>
  The data of \<^verbatim>\<open>internal/model\<close>: the persisted structs as records with the Go field names behind a
  prefix per struct, and the string enumerations as datatypes. A pointer field is an \<open>option\<close>.
  \<^verbatim>\<open>uint64\<close> generations keep their width, because 0 is a reserved value the code tests for.
  \<^verbatim>\<open>float64\<close> measurements are only carried along and are rationals here.
\<close>

section \<open>Enumerations\<close>

datatype risk_level = RiskUnset | RiskUnknown | RiskLow | RiskMedium | RiskHigh

datatype finding_status = FindingUnset | FindingOpen | FindingAssigned | FindingResolved | FindingVerified

datatype change_status =
    StatusUnset | StatusDraft | StatusChecking | StatusCheckFailed | StatusReadyForExperiment | StatusExperimentQueued
  | StatusExperimentRunning | StatusWaitingApproval | StatusApproved | StatusRejected | StatusCompleted

datatype passport_status = PassportUnset | PassportActive | PassportConsumed | PassportRevoked | PassportExpired

datatype outbox_status = OutboxUnset | OutboxPending | OutboxProcessing | OutboxCompleted | OutboxDead

datatype outbox_stage = StageNone | StagePrepare | StageApply | StageFinalize

datatype idempotency_status = IdempotencyUnset | IdempotencyPending | IdempotencySucceeded

text \<open>The JSON text of a change status, where the code prints or concatenates one.\<close>

fun change_status_text :: "change_status \<Rightarrow> string" where
  "change_status_text StatusUnset = []"
| "change_status_text StatusDraft = ''DRAFT''"
| "change_status_text StatusChecking = ''CHECKING''"
| "change_status_text StatusCheckFailed = ''CHECK_FAILED''"
| "change_status_text StatusReadyForExperiment = ''READY_FOR_EXPERIMENT''"
| "change_status_text StatusExperimentQueued = ''EXPERIMENT_QUEUED''"
| "change_status_text StatusExperimentRunning = ''EXPERIMENT_RUNNING''"
| "change_status_text StatusWaitingApproval = ''WAITING_APPROVAL''"
| "change_status_text StatusApproved = ''APPROVED''"
| "change_status_text StatusRejected = ''REJECTED''"
| "change_status_text StatusCompleted = ''COMPLETED''"

section \<open>Organizations, people and access\<close>

record retention_policy =
  ret_AuditDays :: int
  ret_IntegrationEventDays :: int
  ret_OutcomeSignalDays :: int
  ret_IdempotencyHours :: int
  ret_AgentConversationDays :: int
  ret_ArtifactBodyDays :: int
  ret_LegalHold :: bool

record organization =
  org_ID :: string
  org_Name :: string
  org_Slug :: string
  org_EmailDomains :: "string list"
  org_AllowDomainJoin :: bool
  org_SSOEnforced :: bool
  org_ApplicationAccessControlled :: bool
  org_Retention :: retention_policy
  org_CreatedBy :: string
  org_CreatedAt :: gotime
  org_UpdatedAt :: gotime

record user =
  usr_ID :: string
  usr_OrganizationID :: string
  usr_OrganizationName :: string
  usr_Name :: string
  usr_Email :: string
  usr_Role :: string
  usr_EnterpriseAdmin :: bool
  usr_Active :: bool
  usr_IdentityProvider :: string
  usr_Subject :: string
  usr_LastLoginAt :: "gotime option"

record application_grant =
  grant_OrganizationID :: string
  grant_UserID :: string
  grant_ApplicationID :: string
  grant_CanSubmit :: bool
  grant_CanReview :: bool
  grant_UpdatedBy :: string
  grant_UpdatedAt :: gotime

record application =
  app_OrganizationID :: string
  app_ID :: string
  app_Name :: string
  app_Owner :: string
  app_Kind :: string
  app_Runtime :: string
  app_RepositoryURL :: string
  app_Tier :: string
  app_Lifecycle :: string
  app_Database :: string
  app_Schema :: string
  app_Environment :: string
  app_Dependencies :: "string list"
  app_Tags :: "string list"
  app_Description :: string

section \<open>Risk policies and findings\<close>

record risk_policy =
  pol_OrganizationID :: string
  pol_ID :: string
  pol_Code :: string
  pol_Name :: string
  pol_Description :: string
  pol_Pattern :: string
  pol_Severity :: risk_level
  pol_Blocking :: bool
  pol_Enabled :: bool
  pol_Builtin :: bool
  pol_Environments :: "string list"
  pol_ChangeTypes :: "string list"
  pol_ArtifactKinds :: "string list"
  pol_Suggestion :: string
  pol_Version :: int
  pol_HitCount :: int
  pol_LastHitAt :: "gotime option"
  pol_CreatedAt :: gotime
  pol_UpdatedAt :: gotime
  pol_UpdatedBy :: string

record finding =
  fnd_ID :: string
  fnd_Code :: string
  fnd_Severity :: risk_level
  fnd_Title :: string
  fnd_Detail :: string
  fnd_Evidence :: string
  fnd_Suggestion :: string
  fnd_Blocking :: bool
  fnd_RuleVersion :: int
  fnd_Status :: finding_status
  fnd_OwnerID :: string
  fnd_OwnerName :: string
  fnd_DueAt :: "gotime option"
  fnd_Resolution :: string
  fnd_ResolvedAt :: "gotime option"
  fnd_VerifiedByID :: string
  fnd_VerifiedByName :: string
  fnd_VerificationComment :: string
  fnd_VerifiedAt :: "gotime option"
  fnd_UpdatedAt :: gotime

section \<open>Changes\<close>

record change_artifact =
  art_ID :: string
  art_Kind :: string
  art_Name :: string
  art_Source :: string
  art_Language :: string
  art_Content :: string
  art_ContentSHA256 :: string

record release_plan =
  plan_Strategy :: string
  plan_CanaryPercent :: int
  plan_ObservationMinutes :: int
  plan_AutoRollback :: bool
  plan_SuccessMetrics :: "string list"

record evidence =
  ev_ID :: string
  ev_Kind :: string
  ev_Title :: string
  ev_Value :: string
  ev_Source :: string
  ev_ObservedAt :: gotime

record experiment_report =
  exp_ID :: string
  exp_Kind :: string
  exp_Mode :: string
  exp_Status :: string
  exp_StartedAt :: gotime
  exp_FinishedAt :: gotime
  exp_DurationMS :: int
  exp_DatasetRows :: int
  exp_LockWaitMS :: int
  exp_P99BeforeMS :: rat
  exp_P99AfterMS :: rat
  exp_FailedTransactions :: int
  exp_RollbackVerified :: bool
  exp_ChecksTotal :: int
  exp_ChecksPassed :: int
  exp_Strategy :: string
  exp_CanaryPercent :: int
  exp_ObservationMinutes :: int
  exp_ExecutionError :: string
  exp_ArtifactSHA256 :: string
  exp_RuleSetVersion :: string
  exp_AttemptID :: string
  exp_LeaseGeneration :: "64 word"
  exp_InputSHA256 :: string
  exp_ResultDigest :: string
  exp_Evidence :: "evidence list"

record agent_tool_call_record =
  call_Name :: string
  call_Args :: string
  call_ResultSummary :: string
  call_Error :: string
  call_DurationMs :: int

record agent_analysis =
  an_Provider :: string
  an_Model :: string
  an_AdvisoryRisk :: risk_level
  an_Risk :: risk_level
  an_Summary :: string
  an_Reasons :: "string list"
  an_Suggestions :: "string list"
  an_EvidenceIDs :: "string list"
  an_Steps :: int
  an_ToolCalls :: int
  an_Tokens :: int
  an_TraceID :: string
  an_InjectionSuspected :: bool
  an_ToolCallLog :: "agent_tool_call_record list"
  an_GeneratedAt :: gotime

record timeline_entry =
  tl_ID :: string
  tl_Status :: change_status
  tl_Title :: string
  tl_Detail :: string
  tl_Actor :: string
  tl_CreatedAt :: gotime

record change_comment =
  cmt_ID :: string
  cmt_AuthorID :: string
  cmt_AuthorName :: string
  cmt_AuthorRole :: string
  cmt_Content :: string
  cmt_CreatedAt :: gotime

record check_run =
  run_ID :: string
  run_ArtifactSHA256 :: string
  run_RuleSetVersion :: string
  run_Status :: string
  run_Findings :: int
  run_Blocking :: int
  run_CheckedAt :: gotime

record change_request =
  chg_OrganizationID :: string
  chg_ID :: string
  chg_Title :: string
  chg_ApplicationID :: string
  chg_ApplicationName :: string
  chg_Environment :: string
  chg_ChangeType :: string
  chg_RepositoryURL :: string
  chg_Branch :: string
  chg_CommitSHA :: string
  chg_ArtifactSHA256 :: string
  chg_SQLSHA256 :: string
  chg_RollbackSHA256 :: string
  chg_RuleSetVersion :: string
  chg_Artifacts :: "change_artifact list"
  chg_SQL :: string
  chg_RollbackSQL :: string
  chg_RollbackPlan :: string
  chg_ReleasePlan :: release_plan
  chg_Description :: string
  chg_Source :: string
  chg_AgentTaskID :: string
  chg_RequestKey :: string
  chg_SubmitterID :: string
  chg_SubmitterName :: string
  chg_ReviewerID :: string
  chg_ReviewerName :: string
  chg_ReviewComment :: string
  chg_Status :: change_status
  chg_Risk :: risk_level
  chg_PlannedAt :: gotime
  chg_CreatedAt :: gotime
  chg_UpdatedAt :: gotime
  chg_Version :: int
  chg_Findings :: "finding list"
  chg_CheckRun :: "check_run option"
  chg_Experiment :: "experiment_report option"
  chg_Analysis :: "agent_analysis option"
  chg_Timeline :: "timeline_entry list"
  chg_Comments :: "change_comment list"

section \<open>Audit trail, passports, outbox, idempotency, integration\<close>

record audit_event =
  aud_OrganizationID :: string
  aud_ID :: string
  aud_ChangeID :: string
  aud_RequestID :: string
  aud_ActorID :: string
  aud_ActorName :: string
  aud_ActorType :: string
  aud_AuthMethod :: string
  aud_Action :: string
  aud_ResourceType :: string
  aud_ResourceID :: string
  aud_ResourceVersionBefore :: int
  aud_ResourceVersionAfter :: int
  aud_RequestDigest :: string
  aud_Result :: string
  aud_ReasonCode :: string
  aud_RelatedEventID :: string
  aud_AttemptID :: string
  aud_PassportID :: string
  aud_Detail :: string
  aud_CreatedAt :: gotime
  aud_PrevHash :: string
  aud_Hash :: string

record passport =
  pass_ID :: string
  pass_OrganizationID :: string
  pass_ChangeID :: string
  pass_ArtifactSHA256 :: string
  pass_Environment :: string
  pass_RuleSetVersion :: string
  pass_ApproverID :: string
  pass_ApproverName :: string
  pass_Status :: passport_status
  pass_TokenSHA256 :: string
  pass_IssuedAt :: gotime
  pass_ExpiresAt :: gotime
  pass_RevokedAt :: "gotime option"
  pass_RevokedByID :: string
  pass_ConsumedAt :: "gotime option"
  pass_ConsumedBy :: string

record stored_passport = passport +
  pass_TokenSHA256Stored :: string

record outbox_event =
  out_ID :: string
  out_OrganizationID :: string
  out_AggregateType :: string
  out_AggregateID :: string
  out_EventType :: string
  out_Payload :: string
  out_Status :: outbox_status
  out_Attempts :: int
  out_MaxAttempts :: int
  out_AttemptID :: string
  out_LeaseGeneration :: "64 word"
  out_Stage :: outbox_stage
  out_StageStartedAt :: "gotime option"
  out_StageUpdatedAt :: "gotime option"
  out_InputSHA256 :: string
  out_ResultDigest :: string
  out_NextAttemptAt :: gotime
  out_LockedBy :: string
  out_LockedUntil :: "gotime option"
  out_LastError :: string
  out_CreatedAt :: gotime
  out_UpdatedAt :: gotime
  out_CompletedAt :: "gotime option"

record idempotency_record =
  idem_OrganizationID :: string
  idem_ActorID :: string
  idem_Operation :: string
  idem_Resource :: string
  idem_Key :: string
  idem_RequestDigest :: string
  idem_Status :: idempotency_status
  idem_Generation :: "64 word"
  idem_ClaimToken :: string
  idem_ClaimTokenSHA256 :: string
  idem_HTTPStatus :: int
  idem_Result :: string
  idem_ResultDigest :: string
  idem_ResponseRef :: string
  idem_CreatedAt :: gotime
  idem_UpdatedAt :: gotime
  idem_CompletedAt :: "gotime option"
  idem_ExpiresAt :: "gotime option"

record integration_event =
  int_OrganizationID :: string
  int_ID :: string
  int_Provider :: string
  int_ExternalID :: string
  int_EventType :: string
  int_Status :: string
  int_ChangeID :: string
  int_Project :: string
  int_Pipeline :: string
  int_CommitSHA :: string
  int_ExternalURL :: string
  int_Detail :: string
  int_OccurredAt :: gotime
  int_ReceivedAt :: gotime

record organization_invite =
  inv_ID :: string
  inv_OrganizationID :: string
  inv_OrganizationName :: string
  inv_Email :: string
  inv_Role :: string
  inv_TokenHash :: string
  inv_Status :: string
  inv_ExpiresAt :: gotime
  inv_CreatedByID :: string
  inv_CreatedByName :: string
  inv_CreatedAt :: gotime
  inv_AcceptedByID :: string
  inv_AcceptedAt :: "gotime option"

record user_credential =
  cred_UserID :: string
  cred_PasswordSalt :: string
  cred_PasswordHash :: string
  cred_IdentityProvider :: string
  cred_Subject :: string

record application_grant_input =
  gin_ApplicationID :: string
  gin_CanSubmit :: bool
  gin_CanReview :: bool

record outcome_signal =
  sig_OrganizationID :: string
  sig_ID :: string
  sig_ExternalID :: string
  sig_Source :: string
  sig_Kind :: string
  sig_Status :: string
  sig_ChangeID :: string
  sig_IncidentID :: string
  sig_OperationID :: string
  sig_Severity :: string
  sig_MetricName :: string
  sig_MetricUnit :: string
  sig_MetricDirection :: string
  sig_BaselineValue :: "rat option"
  sig_ObservedValue :: "rat option"
  sig_ObjectiveValue :: "rat option"
  sig_Tolerance :: "rat option"
  sig_BaselineWindowStart :: "gotime option"
  sig_BaselineWindowEnd :: "gotime option"
  sig_ObservationWindowStart :: "gotime option"
  sig_ObservationWindowEnd :: "gotime option"
  sig_ExternalURL :: string
  sig_Detail :: string
  sig_OccurredAt :: gotime
  sig_ReceivedAt :: gotime

section \<open>Zero values\<close>

text \<open>What Go leaves in the fields a composite literal does not name.\<close>

definition zero_retention_policy :: retention_policy where
  "zero_retention_policy = \<lparr> ret_AuditDays = 0, ret_IntegrationEventDays = 0, ret_OutcomeSignalDays = 0, 
     ret_IdempotencyHours = 0, ret_AgentConversationDays = 0, ret_ArtifactBodyDays = 0, 
     ret_LegalHold = False \<rparr>"

definition zero_organization :: organization where
  "zero_organization = \<lparr> org_ID = [], org_Name = [], org_Slug = [], org_EmailDomains = [], 
     org_AllowDomainJoin = False, org_SSOEnforced = False, 
     org_ApplicationAccessControlled = False, org_Retention = zero_retention_policy, 
     org_CreatedBy = [], org_CreatedAt = 0, org_UpdatedAt = 0 \<rparr>"

definition zero_user :: user where
  "zero_user = \<lparr> usr_ID = [], usr_OrganizationID = [], usr_OrganizationName = [], usr_Name = [], 
     usr_Email = [], usr_Role = [], usr_EnterpriseAdmin = False, usr_Active = False, 
     usr_IdentityProvider = [], usr_Subject = [], usr_LastLoginAt = None \<rparr>"

definition zero_application_grant :: application_grant where
  "zero_application_grant = \<lparr> grant_OrganizationID = [], grant_UserID = [], grant_ApplicationID = [], 
     grant_CanSubmit = False, grant_CanReview = False, grant_UpdatedBy = [], 
     grant_UpdatedAt = 0 \<rparr>"

definition zero_application :: application where
  "zero_application = \<lparr> app_OrganizationID = [], app_ID = [], app_Name = [], app_Owner = [], app_Kind = [], 
     app_Runtime = [], app_RepositoryURL = [], app_Tier = [], app_Lifecycle = [], 
     app_Database = [], app_Schema = [], app_Environment = [], app_Dependencies = [], 
     app_Tags = [], app_Description = [] \<rparr>"

definition zero_risk_policy :: risk_policy where
  "zero_risk_policy = \<lparr> pol_OrganizationID = [], pol_ID = [], pol_Code = [], pol_Name = [], pol_Description = [], 
     pol_Pattern = [], pol_Severity = RiskUnset, pol_Blocking = False, pol_Enabled = False, 
     pol_Builtin = False, pol_Environments = [], pol_ChangeTypes = [], pol_ArtifactKinds = [], 
     pol_Suggestion = [], pol_Version = 0, pol_HitCount = 0, pol_LastHitAt = None, 
     pol_CreatedAt = 0, pol_UpdatedAt = 0, pol_UpdatedBy = [] \<rparr>"

definition zero_finding :: finding where
  "zero_finding = \<lparr> fnd_ID = [], fnd_Code = [], fnd_Severity = RiskUnset, fnd_Title = [], fnd_Detail = [], 
     fnd_Evidence = [], fnd_Suggestion = [], fnd_Blocking = False, fnd_RuleVersion = 0, 
     fnd_Status = FindingUnset, fnd_OwnerID = [], fnd_OwnerName = [], fnd_DueAt = None, 
     fnd_Resolution = [], fnd_ResolvedAt = None, fnd_VerifiedByID = [], fnd_VerifiedByName = [], 
     fnd_VerificationComment = [], fnd_VerifiedAt = None, fnd_UpdatedAt = 0 \<rparr>"

definition zero_change_artifact :: change_artifact where
  "zero_change_artifact = \<lparr> art_ID = [], art_Kind = [], art_Name = [], art_Source = [], art_Language = [], 
     art_Content = [], art_ContentSHA256 = [] \<rparr>"

definition zero_release_plan :: release_plan where
  "zero_release_plan = \<lparr> plan_Strategy = [], plan_CanaryPercent = 0, plan_ObservationMinutes = 0, 
     plan_AutoRollback = False, plan_SuccessMetrics = [] \<rparr>"

definition zero_evidence :: evidence where
  "zero_evidence = \<lparr> ev_ID = [], ev_Kind = [], ev_Title = [], ev_Value = [], ev_Source = [], ev_ObservedAt = 0 \<rparr>"

definition zero_experiment_report :: experiment_report where
  "zero_experiment_report = \<lparr> exp_ID = [], exp_Kind = [], exp_Mode = [], exp_Status = [], exp_StartedAt = 0, 
     exp_FinishedAt = 0, exp_DurationMS = 0, exp_DatasetRows = 0, exp_LockWaitMS = 0, 
     exp_P99BeforeMS = 0, exp_P99AfterMS = 0, exp_FailedTransactions = 0, 
     exp_RollbackVerified = False, exp_ChecksTotal = 0, exp_ChecksPassed = 0, exp_Strategy = [], 
     exp_CanaryPercent = 0, exp_ObservationMinutes = 0, exp_ExecutionError = [], 
     exp_ArtifactSHA256 = [], exp_RuleSetVersion = [], exp_AttemptID = [], 
     exp_LeaseGeneration = 0, exp_InputSHA256 = [], exp_ResultDigest = [], exp_Evidence = [] \<rparr>"

definition zero_agent_analysis :: agent_analysis where
  "zero_agent_analysis = \<lparr> an_Provider = [], an_Model = [], an_AdvisoryRisk = RiskUnset, an_Risk = RiskUnset, 
     an_Summary = [], an_Reasons = [], an_Suggestions = [], an_EvidenceIDs = [],
     an_Steps = 0, an_ToolCalls = 0, an_Tokens = 0, an_TraceID = [], an_InjectionSuspected = False,
     an_ToolCallLog = [], 
     an_GeneratedAt = 0 \<rparr>"

definition zero_timeline_entry :: timeline_entry where
  "zero_timeline_entry = \<lparr> tl_ID = [], tl_Status = StatusUnset, tl_Title = [], tl_Detail = [], tl_Actor = [], 
     tl_CreatedAt = 0 \<rparr>"

definition zero_change_comment :: change_comment where
  "zero_change_comment = \<lparr> cmt_ID = [], cmt_AuthorID = [], cmt_AuthorName = [], cmt_AuthorRole = [], cmt_Content = [], 
     cmt_CreatedAt = 0 \<rparr>"

definition zero_check_run :: check_run where
  "zero_check_run = \<lparr> run_ID = [], run_ArtifactSHA256 = [], run_RuleSetVersion = [], run_Status = [], 
     run_Findings = 0, run_Blocking = 0, run_CheckedAt = 0 \<rparr>"

definition zero_change_request :: change_request where
  "zero_change_request = \<lparr> chg_OrganizationID = [], chg_ID = [], chg_Title = [], chg_ApplicationID = [], 
     chg_ApplicationName = [], chg_Environment = [], chg_ChangeType = [], 
     chg_RepositoryURL = [], chg_Branch = [], chg_CommitSHA = [], chg_ArtifactSHA256 = [], 
     chg_SQLSHA256 = [], chg_RollbackSHA256 = [], chg_RuleSetVersion = [], chg_Artifacts = [], 
     chg_SQL = [], chg_RollbackSQL = [], chg_RollbackPlan = [], 
     chg_ReleasePlan = zero_release_plan, chg_Description = [], chg_Source = [], 
     chg_AgentTaskID = [], chg_RequestKey = [], chg_SubmitterID = [], chg_SubmitterName = [], 
     chg_ReviewerID = [], chg_ReviewerName = [], chg_ReviewComment = [], 
     chg_Status = StatusUnset, chg_Risk = RiskUnset, chg_PlannedAt = 0, chg_CreatedAt = 0, 
     chg_UpdatedAt = 0, chg_Version = 0, chg_Findings = [], chg_CheckRun = None, 
     chg_Experiment = None, chg_Analysis = None, chg_Timeline = [], chg_Comments = [] \<rparr>"

definition zero_audit_event :: audit_event where
  "zero_audit_event = \<lparr> aud_OrganizationID = [], aud_ID = [], aud_ChangeID = [], aud_RequestID = [], 
     aud_ActorID = [], aud_ActorName = [], aud_ActorType = [], aud_AuthMethod = [], 
     aud_Action = [], aud_ResourceType = [], aud_ResourceID = [], aud_ResourceVersionBefore = 0, 
     aud_ResourceVersionAfter = 0, aud_RequestDigest = [], aud_Result = [], aud_ReasonCode = [], 
     aud_RelatedEventID = [], aud_AttemptID = [], aud_PassportID = [], aud_Detail = [], 
     aud_CreatedAt = 0, aud_PrevHash = [], aud_Hash = [] \<rparr>"

definition zero_passport :: passport where
  "zero_passport = \<lparr> pass_ID = [], pass_OrganizationID = [], pass_ChangeID = [], pass_ArtifactSHA256 = [], 
     pass_Environment = [], pass_RuleSetVersion = [], pass_ApproverID = [], 
     pass_ApproverName = [], pass_Status = PassportUnset, pass_TokenSHA256 = [], 
     pass_IssuedAt = 0, pass_ExpiresAt = 0, pass_RevokedAt = None, pass_RevokedByID = [], 
     pass_ConsumedAt = None, pass_ConsumedBy = [] \<rparr>"

definition zero_outbox_event :: outbox_event where
  "zero_outbox_event = \<lparr> out_ID = [], out_OrganizationID = [], out_AggregateType = [], out_AggregateID = [], 
     out_EventType = [], out_Payload = [], out_Status = OutboxUnset, out_Attempts = 0, 
     out_MaxAttempts = 0, out_AttemptID = [], out_LeaseGeneration = 0, out_Stage = StageNone, 
     out_StageStartedAt = None, out_StageUpdatedAt = None, out_InputSHA256 = [], 
     out_ResultDigest = [], out_NextAttemptAt = 0, out_LockedBy = [], out_LockedUntil = None, 
     out_LastError = [], out_CreatedAt = 0, out_UpdatedAt = 0, out_CompletedAt = None \<rparr>"

definition zero_idempotency_record :: idempotency_record where
  "zero_idempotency_record = \<lparr> idem_OrganizationID = [], idem_ActorID = [], idem_Operation = [], idem_Resource = [], 
     idem_Key = [], idem_RequestDigest = [], idem_Status = IdempotencyUnset, 
     idem_Generation = 0, idem_ClaimToken = [], idem_ClaimTokenSHA256 = [], idem_HTTPStatus = 0, 
     idem_Result = [], idem_ResultDigest = [], idem_ResponseRef = [], idem_CreatedAt = 0, 
     idem_UpdatedAt = 0, idem_CompletedAt = None, idem_ExpiresAt = None \<rparr>"

definition zero_integration_event :: integration_event where
  "zero_integration_event = \<lparr> int_OrganizationID = [], int_ID = [], int_Provider = [], int_ExternalID = [], 
     int_EventType = [], int_Status = [], int_ChangeID = [], int_Project = [], 
     int_Pipeline = [], int_CommitSHA = [], int_ExternalURL = [], int_Detail = [], 
     int_OccurredAt = 0, int_ReceivedAt = 0 \<rparr>"

definition zero_organization_invite :: organization_invite where
  "zero_organization_invite = \<lparr> inv_ID = [], inv_OrganizationID = [], inv_OrganizationName = [], inv_Email = [], 
     inv_Role = [], inv_TokenHash = [], inv_Status = [], inv_ExpiresAt = 0, 
     inv_CreatedByID = [], inv_CreatedByName = [], inv_CreatedAt = 0, inv_AcceptedByID = [], 
     inv_AcceptedAt = None \<rparr>"

definition zero_user_credential :: user_credential where
  "zero_user_credential = \<lparr> cred_UserID = [], cred_PasswordSalt = [], cred_PasswordHash = [], 
     cred_IdentityProvider = [], cred_Subject = [] \<rparr>"

definition zero_application_grant_input :: application_grant_input where
  "zero_application_grant_input = \<lparr> gin_ApplicationID = [], gin_CanSubmit = False, gin_CanReview = False \<rparr>"

definition zero_outcome_signal :: outcome_signal where
  "zero_outcome_signal = \<lparr> sig_OrganizationID = [], sig_ID = [], sig_ExternalID = [], sig_Source = [], sig_Kind = [], 
     sig_Status = [], sig_ChangeID = [], sig_IncidentID = [], sig_OperationID = [], 
     sig_Severity = [], sig_MetricName = [], sig_MetricUnit = [], sig_MetricDirection = [], 
     sig_BaselineValue = None, sig_ObservedValue = None, sig_ObjectiveValue = None, 
     sig_Tolerance = None, sig_BaselineWindowStart = None, sig_BaselineWindowEnd = None, 
     sig_ObservationWindowStart = None, sig_ObservationWindowEnd = None, sig_ExternalURL = [], 
     sig_Detail = [], sig_OccurredAt = 0, sig_ReceivedAt = 0 \<rparr>"

lemmas zero_defs =
  zero_retention_policy_def zero_organization_def zero_user_def zero_application_grant_def
  zero_application_def zero_risk_policy_def zero_finding_def zero_change_artifact_def
  zero_release_plan_def zero_evidence_def zero_experiment_report_def zero_agent_analysis_def
  zero_timeline_entry_def zero_change_comment_def zero_check_run_def zero_change_request_def
  zero_audit_event_def zero_passport_def zero_outbox_event_def zero_idempotency_record_def
  zero_integration_event_def zero_organization_invite_def zero_user_credential_def
  zero_application_grant_input_def zero_outcome_signal_def

end
