(* ===== verification/GoJson.thy ===== *)
theory GoJson
  imports GoText
begin

text \<open>
  The output of \<^verbatim>\<open>json.Marshal\<close> on the values the program serialises before hashing or signing
  them, and the RFC 3339 form of a time. A value is a tree of strings, integers, booleans, null,
  arrays and objects with their fields in declaration order; an empty \<^verbatim>\<open>omitempty\<close> field is left
  out of the list. String escaping is Go's, with the HTML escapes; bytes from 0x80 are copied,
  which is what Go does for valid UTF-8 other than U+2028 and U+2029 (the strings come out of the
  request decoder, which replaces invalid sequences). The main fact is that encoding is injective,
  so equal bytes mean equal values.
\<close>

section \<open>Values and their text\<close>

datatype json = JStr string | JInt int | JBool bool | JNull | JArr "json list" | JObj "(string \<times> json) list"

definition json_char :: "char \<Rightarrow> string" where
  "json_char c =
     (let n = of_char c :: nat in
      if n = 34 then [CHR 0x5C, CHR 0x22]
      else if n = 92 then [CHR 0x5C, CHR 0x5C]
      else if n = 8 then [CHR 0x5C, CHR ''b'']
      else if n = 12 then [CHR 0x5C, CHR ''f'']
      else if n = 10 then [CHR 0x5C, CHR ''n'']
      else if n = 13 then [CHR 0x5C, CHR ''r'']
      else if n = 9 then [CHR 0x5C, CHR ''t'']
      else if n < 32 \<or> n = 60 \<or> n = 62 \<or> n = 38
      then [CHR 0x5C, CHR ''u'', CHR ''0'', CHR ''0'', hex_digit (n div 16), hex_digit (n mod 16)]
      else [c])"

definition json_string :: "string \<Rightarrow> string" where
  "json_string s = CHR 0x22 # concat (map json_char s) @ [CHR 0x22]"

fun json_enc :: "json \<Rightarrow> string"
  and json_rest :: "json list \<Rightarrow> string"
  and json_frest :: "(string \<times> json) list \<Rightarrow> string" where
  "json_enc (JStr s) = json_string s"
| "json_enc (JInt i) = int_str i"
| "json_enc (JBool b) = bool_str b"
| "json_enc JNull = ''null''"
| "json_enc (JArr []) = ''[]''"
| "json_enc (JArr (v # vs)) = CHR ''['' # json_enc v @ json_rest vs"
| "json_enc (JObj []) = ''{}''"
| "json_enc (JObj ((k, v) # fs)) = CHR ''{'' # json_string k @ CHR '':'' # json_enc v @ json_frest fs"
| "json_rest [] = '']''"
| "json_rest (v # vs) = CHR '','' # json_enc v @ json_rest vs"
| "json_frest [] = ''}''"
| "json_frest ((k, v) # fs) = CHR '','' # json_string k @ CHR '':'' # json_enc v @ json_frest fs"

definition omit_empty :: "string \<Rightarrow> string \<Rightarrow> (string \<times> json) list" where
  "omit_empty k s = (if s = [] then [] else [(k, JStr s)])"

definition omit_zero :: "string \<Rightarrow> int \<Rightarrow> (string \<times> json) list" where
  "omit_zero k i = (if i = 0 then [] else [(k, JInt i)])"

section \<open>Times\<close>

text \<open>Year, month and day of a day number counted from the first day of year 1 (proleptic
  Gregorian), by eras of 400 years that start in March.\<close>

definition civil_date :: "int \<Rightarrow> int \<times> int \<times> int" where
  "civil_date days =
     (let z = days + 306;
          era = z div 146097;
          doe = z mod 146097;
          yoe = (doe - doe div 1460 + doe div 36524 - doe div 146096) div 365;
          doy = doe - (365 * yoe + yoe div 4 - yoe div 100);
          mp = (5 * doy + 2) div 153;
          d = doy - (153 * mp + 2) div 5 + 1;
          m = (if mp < 10 then mp + 3 else mp - 9);
          y = yoe + era * 400
      in (if m \<le> 2 then y + 1 else y, m, d))"

definition pad_int :: "nat \<Rightarrow> int \<Rightarrow> string" where
  "pad_int w i = (let s = nat_str (nat i) in replicate (w - length s) (CHR ''0'') @ s)"

definition frac_str :: "int \<Rightarrow> string" where
  "frac_str ns = (if ns = 0 then [] else CHR ''.'' # rev (dropWhile (\<lambda>c. c = CHR ''0'') (rev (pad_int 9 ns))))"

definition clock_str :: "gotime \<Rightarrow> string" where
  "clock_str t =
     (let (y, m, d) = civil_date (t div (24 * hour)); s = t div second mod 86400
      in pad_int 4 y @ ''-'' @ pad_int 2 m @ ''-'' @ pad_int 2 d @ ''T''
         @ pad_int 2 (s div 3600) @ '':'' @ pad_int 2 (s div 60 mod 60) @ '':'' @ pad_int 2 (s mod 60))"

text \<open>\<^verbatim>\<open>time.RFC3339Nano\<close> of a UTC time, as \<^verbatim>\<open>Time.MarshalJSON\<close> prints it, and \<^verbatim>\<open>time.RFC3339\<close>.\<close>

definition rfc3339_nano :: "gotime \<Rightarrow> string" where
  "rfc3339_nano t = clock_str t @ frac_str (t mod second) @ ''Z''"

definition rfc3339 :: "gotime \<Rightarrow> string" where
  "rfc3339 t = clock_str t @ ''Z''"

section \<open>Encoding is injective\<close>

definition hex_val :: "char \<Rightarrow> nat" where
  "hex_val c = (let n = of_char c in if n < 58 then n - 48 else n - 87)"

lemma hex_val_digit [simp]: "n < 16 \<Longrightarrow> hex_val (hex_digit n) = n"
  by (auto simp: hex_val_def hex_digit_def Let_def)

fun json_unchar :: "string \<Rightarrow> (char \<times> string) option" where
  "json_unchar [] = None"
| "json_unchar (c # r) =
     (if c = CHR 0x22 then None
      else if c \<noteq> CHR 0x5C then Some (c, r)
      else (case r of
         [] \<Rightarrow> None
       | e # r' \<Rightarrow>
          if e = CHR ''u'' then Some (char_of (hex_val (r' ! 2) * 16 + hex_val (r' ! 3)), drop 4 r')
          else if e = CHR ''b'' then Some (CHR 0x08, r')
          else if e = CHR ''f'' then Some (CHR 0x0C, r')
          else if e = CHR ''n'' then Some (CHR 0x0A, r')
          else if e = CHR ''r'' then Some (CHR 0x0D, r')
          else if e = CHR ''t'' then Some (CHR 0x09, r')
          else Some (e, r')))"

lemma json_unchar_char: "json_unchar (json_char c @ r) = Some (c, r)"
proof -
  define n where "n = (of_char c :: nat)"
  have n: "n < 256" and c: "c = char_of n" by (simp_all add: n_def)
  have d: "n div 16 < 16" "n div 16 * 16 + n mod 16 = n" using n by auto
  have q: "char_of n = CHR 0x22 \<longleftrightarrow> n = 34" "char_of n = CHR 0x5C \<longleftrightarrow> n = 92"
    using n by (simp_all add: char_eq_iff_nat del: of_char_eq_iff)
  have ctl: "CHR 0x08 = char_of (8 :: nat)" "CHR 0x09 = char_of (9 :: nat)" "CHR 0x0A = char_of (10 :: nat)"
    "CHR 0x0C = char_of (12 :: nat)" "CHR 0x0D = char_of (13 :: nat)"
    by (simp_all add: char_eq_iff_nat del: of_char_eq_iff)
  show ?thesis
    unfolding c json_char_def Let_def using n d q ctl
    by (auto simp: numeral_2_eq_2 numeral_3_eq_3)
qed

lemma json_unchar_quote [simp]: "json_unchar (CHR 0x22 # r) = None"
  by simp

lemma json_char_nonempty [simp]: "json_char c \<noteq> []"
  by (simp add: json_char_def Let_def)

lemma json_chars_inj:
  "concat (map json_char s) @ CHR 0x22 # r = concat (map json_char t) @ CHR 0x22 # r' \<Longrightarrow> s = t \<and> r = r'"
proof (induction s arbitrary: t)
  case Nil
  then show ?case
  proof (cases t)
    case (Cons d t')
    from Nil Cons have "json_unchar (json_char d @ concat (map json_char t') @ CHR 0x22 # r') = None"
      by (metis append_assoc append_Nil concat.simps(1,2) json_unchar_quote list.simps(8,9))
    then show ?thesis by (simp only: json_unchar_char) simp
  qed simp
next
  case (Cons c s)
  show ?case
  proof (cases t)
    case Nil
    with Cons.prems have "json_unchar (json_char c @ concat (map json_char s) @ CHR 0x22 # r) = None"
      by (metis append_assoc append_Nil concat.simps(1,2) json_unchar_quote list.simps(8,9))
    then show ?thesis by (simp only: json_unchar_char) simp
  next
    case (Cons d t')
    with Cons.prems have "json_char c @ concat (map json_char s) @ CHR 0x22 # r
        = json_char d @ concat (map json_char t') @ CHR 0x22 # r'" by simp
    then have "c = d \<and> concat (map json_char s) @ CHR 0x22 # r = concat (map json_char t') @ CHR 0x22 # r'"
      by (metis json_unchar_char option.inject prod.inject)
    with Cons Cons.IH show ?thesis by blast
  qed
qed

lemma json_string_inj: "json_string s @ r = json_string t @ r' \<longleftrightarrow> s = t \<and> r = r'"
  using json_chars_inj [of s r t r'] by (auto simp: json_string_def)

definition digit_char :: "char \<Rightarrow> bool" where
  "digit_char c \<longleftrightarrow> (let n = of_char c :: nat in 48 \<le> n \<and> n \<le> 57)"

lemma nat_str_digits: "list_all digit_char (nat_str n)"
proof (induction n rule: nat_str.induct)
  case (1 n)
  show ?case
  proof (cases "n < 10")
    case True
    then show ?thesis by (subst nat_str.simps) (simp add: digit_char_def)
  next
    case False
    have "n mod 10 < 10" by simp
    then have "digit_char (char_of (48 + n mod 10))" by (auto simp: digit_char_def Let_def)
    with False "1.IH" show ?thesis by (subst nat_str.simps) simp
  qed
qed

definition digits_val :: "string \<Rightarrow> nat" where
  "digits_val s = foldl (\<lambda>a c. a * 10 + (of_char c - 48)) 0 s"

lemma digits_val_nat_str [simp]: "digits_val (nat_str n) = n"
proof (induction n rule: nat_str.induct)
  case (1 n)
  show ?case
  proof (cases "n < 10")
    case True
    then show ?thesis by (subst nat_str.simps) (simp add: digits_val_def)
  next
    case False
    then have "digits_val (nat_str n) = digits_val (nat_str (n div 10)) * 10 + n mod 10"
      by (subst nat_str.simps) (simp add: digits_val_def)
    with False "1.IH" show ?thesis by simp
  qed
qed

lemma nat_str_inj [simp]: "nat_str m = nat_str n \<longleftrightarrow> m = n"
  by (metis digits_val_nat_str)

lemma nat_str_nonempty [simp]: "nat_str n \<noteq> []"
  by (subst nat_str.simps) simp

definition stops :: "string \<Rightarrow> bool" where
  "stops r \<longleftrightarrow> (case r of [] \<Rightarrow> True | c # _ \<Rightarrow> \<not> digit_char c)"

lemma nat_str_prefix_inj:
  assumes "nat_str m @ r = nat_str n @ r'" "stops r" "stops r'"
  shows "m = n \<and> r = r'"
proof -
  have "takeWhile digit_char (nat_str k @ q) = nat_str k" if "stops q" for k q
    using nat_str_digits [of k] that
    by (cases q) (auto simp: stops_def list_all_iff takeWhile_append2)
  with assms have "nat_str m = nat_str n" by metis
  with assms(1) show ?thesis by simp
qed

lemma nat_str_hd: "\<exists>c t. nat_str n = c # t \<and> digit_char c"
  using nat_str_digits [of n] by (cases "nat_str n") auto

lemma digit_char_punct [simp]:
  "\<not> digit_char (CHR '']'')" "\<not> digit_char (CHR ''}'')" "\<not> digit_char (CHR '','')" "\<not> digit_char (CHR ''-'')"
  "\<not> digit_char (CHR 0x22)" "\<not> digit_char (CHR ''t'')" "\<not> digit_char (CHR ''f'')"
  "\<not> digit_char (CHR ''n'')" "\<not> digit_char (CHR ''['')" "\<not> digit_char (CHR ''{'')"
  by (simp_all add: digit_char_def)

lemma nat_str_not_minus: "nat_str n @ r \<noteq> CHR ''-'' # q"
  using nat_str_hd [of n] by auto

lemma int_str_inj:
  assumes eq: "int_str i @ r = int_str j @ r'" and st: "stops r" "stops r'"
  shows "i = j \<and> r = r'"
proof (cases "i < 0"; cases "j < 0")
  assume "i < 0" "j < 0"
  with eq st nat_str_prefix_inj [of "nat (- i)" r "nat (- j)" r'] show ?thesis
    by (auto simp: int_str_def)
next
  assume "\<not> i < 0" "\<not> j < 0"
  with eq st nat_str_prefix_inj [of "nat i" r "nat j" r'] show ?thesis
    by (auto simp: int_str_def)
next
  assume "i < 0" "\<not> j < 0"
  with eq nat_str_not_minus [of "nat j" r'] show ?thesis
    by (simp add: int_str_def) metis
next
  assume "\<not> i < 0" "j < 0"
  with eq nat_str_not_minus [of "nat i" r] show ?thesis
    by (simp add: int_str_def)
qed

lemma stops_Cons [simp]: "stops (c # r) \<longleftrightarrow> \<not> digit_char c"
  and stops_Nil [simp]: "stops []"
  by (simp_all add: stops_def)

lemma stops_rest [simp]: "stops (json_rest vs @ r)" and stops_frest [simp]: "stops (json_frest fs @ r)"
  by (cases vs; simp) (cases fs; auto)

text \<open>The first byte tells the kind of a value.\<close>

fun json_kind :: "json \<Rightarrow> nat" where
  "json_kind (JStr _) = 0" | "json_kind (JInt _) = 1" | "json_kind (JBool _) = 2"
| "json_kind JNull = 3" | "json_kind (JArr _) = 4" | "json_kind (JObj _) = 5"

definition first_kind :: "char \<Rightarrow> nat" where
  "first_kind c = (if c = CHR 0x22 then 0 else if c = CHR ''t'' \<or> c = CHR ''f'' then 2
     else if c = CHR ''n'' then 3 else if c = CHR ''['' then 4 else if c = CHR ''{'' then 5
     else if c = CHR ''-'' \<or> digit_char c then 1 else 6)"

lemma first_kind_digit: "digit_char c \<Longrightarrow> first_kind c = 1"
proof -
  assume c: "digit_char c"
  then have "\<And>x. \<not> digit_char x \<Longrightarrow> c \<noteq> x" by blast
  with c show ?thesis by (simp add: first_kind_def)
qed

lemma int_str_first: "\<exists>c t. int_str i = c # t \<and> first_kind c = 1"
proof (cases "i < 0")
  case True
  then show ?thesis by (simp add: int_str_def first_kind_def)
next
  case False
  then show ?thesis using nat_str_hd [of "nat i"] by (auto simp: int_str_def first_kind_digit)
qed

lemma json_enc_first: "\<exists>c t. json_enc v = c # t \<and> first_kind c = json_kind v"
proof (cases v)
  case (JInt i)
  then show ?thesis using int_str_first by simp
next
  case (JArr vs)
  then show ?thesis by (cases vs) (simp_all add: first_kind_def)
next
  case (JObj fs)
  then show ?thesis by (cases fs; cases "hd fs") (simp_all add: first_kind_def)
qed (simp_all add: json_string_def bool_str_def first_kind_def)

lemma json_enc_kind: "json_enc v @ r = json_enc w @ r' \<Longrightarrow> json_kind v = json_kind w"
  using json_enc_first [of v] json_enc_first [of w] by auto

lemma json_kind_le: "json_kind v \<le> 5"
  by (cases v) simp_all

lemma json_enc_not_close: "json_enc v @ r \<noteq> CHR '']'' # q"
proof -
  obtain c t where c: "json_enc v = c # t" "first_kind c = json_kind v"
    using json_enc_first by blast
  have "first_kind (CHR '']'') = 6" by (simp add: first_kind_def digit_char_def)
  with c json_kind_le [of v] show ?thesis by auto
qed

theorem json_enc_prefix_inj:
  shows "json_enc v @ r = json_enc w @ r' \<Longrightarrow> stops r \<Longrightarrow> stops r' \<Longrightarrow> v = w \<and> r = r'"
    and "json_rest vs @ r = json_rest ws @ r' \<Longrightarrow> vs = ws \<and> r = r'"
    and "json_frest fs @ r = json_frest gs @ r' \<Longrightarrow> fs = gs \<and> r = r'"
proof (induction v and vs and fs arbitrary: w r r' and ws r r' and gs r r' rule: json_enc_json_rest_json_frest.induct)
  case (1 s)
  then show ?case using json_enc_kind [OF "1.prems"(1)] by (cases w) (auto simp: json_string_inj)
next
  case (2 i)
  then show ?case using json_enc_kind [OF "2.prems"(1)] by (cases w) (auto dest: int_str_inj)
next
  case (3 b)
  then show ?case using json_enc_kind [OF "3.prems"(1)] by (cases w) (auto simp: bool_str_def split: if_splits)
next
  case 4
  then show ?case using json_enc_kind [OF "4.prems"(1)] by (cases w) auto
next
  case 5
  obtain us where w: "w = JArr us" using json_enc_kind [OF "5.prems"(1)] by (cases w) auto
  show ?case
  proof (cases us)
    case (Cons u us')
    with 5 w have "json_enc u @ (json_rest us' @ r') = CHR '']'' # r" by simp
    then show ?thesis using json_enc_not_close by blast
  qed (use 5 w in simp)
next
  case (6 v vs)
  obtain us where w: "w = JArr us" using json_enc_kind [OF "6.prems"(1)] by (cases w) auto
  show ?case
  proof (cases us)
    case Nil
    with "6.prems"(1) w have "json_enc v @ (json_rest vs @ r) = CHR '']'' # r'" by simp
    then show ?thesis using json_enc_not_close by blast
  next
    case (Cons u us')
    with w "6.prems"(1) have "json_enc v @ json_rest vs @ r = json_enc u @ json_rest us' @ r'" by simp
    then have "v = u \<and> json_rest vs @ r = json_rest us' @ r'" by (rule "6.IH"(1)) simp_all
    with "6.IH"(2) w Cons show ?thesis by blast
  qed
next
  case 7
  obtain us where w: "w = JObj us" using json_enc_kind [OF "7.prems"(1)] by (cases w) auto
  show ?case
  proof (cases us)
    case (Cons ku us')
    obtain k u where "ku = (k, u)" by (cases ku)
    with 7 w Cons show ?thesis by (simp add: json_string_def)
  qed (use 7 w in simp)
next
  case (8 k v fs)
  obtain us where w: "w = JObj us" using json_enc_kind [OF "8.prems"(1)] by (cases w) auto
  show ?case
  proof (cases us)
    case Nil
    with "8.prems"(1) w show ?thesis by (simp add: json_string_def)
  next
    case (Cons ku us')
    obtain k' u where ku: "ku = (k', u)" by (cases ku)
    from w Cons ku "8.prems"(1)
    have "json_string k @ (CHR '':'' # json_enc v @ json_frest fs @ r)
        = json_string k' @ (CHR '':'' # json_enc u @ json_frest us' @ r')" by simp
    then have k: "k = k'" and e: "json_enc v @ json_frest fs @ r = json_enc u @ json_frest us' @ r'"
      by (simp_all add: json_string_inj)
    from e have "v = u \<and> json_frest fs @ r = json_frest us' @ r'" by (rule "8.IH"(1)) simp_all
    with "8.IH"(2) w Cons ku k show ?thesis by blast
  qed
next
  case 9
  then show ?case by (cases ws) auto
next
  case (10 v vs)
  show ?case
  proof (cases ws)
    case (Cons u us)
    with "10.prems" have "json_enc v @ json_rest vs @ r = json_enc u @ json_rest us @ r'" by simp
    then have "v = u \<and> json_rest vs @ r = json_rest us @ r'" by (rule "10.IH"(1)) simp_all
    with "10.IH"(2) Cons show ?thesis by blast
  qed (use "10.prems" in simp)
next
  case 11
  show ?case
  proof (cases gs)
    case (Cons ku us)
    obtain k u where "ku = (k, u)" by (cases ku)
    with 11 Cons show ?thesis by simp
  qed (use 11 in simp)
next
  case (12 k v fs)
  show ?case
  proof (cases gs)
    case (Cons ku us)
    obtain k' u where ku: "ku = (k', u)" by (cases ku)
    from Cons ku "12.prems"
    have "json_string k @ (CHR '':'' # json_enc v @ json_frest fs @ r)
        = json_string k' @ (CHR '':'' # json_enc u @ json_frest us @ r')" by simp
    then have k: "k = k'" and e: "json_enc v @ json_frest fs @ r = json_enc u @ json_frest us @ r'"
      by (simp_all add: json_string_inj)
    from e have "v = u \<and> json_frest fs @ r = json_frest us @ r'" by (rule "12.IH"(1)) simp_all
    with "12.IH"(2) Cons ku k show ?thesis by blast
  qed (use "12.prems" in simp)
qed

corollary json_enc_inj: "json_enc v = json_enc w \<longleftrightarrow> v = w"
  using json_enc_prefix_inj(1) [of v "[]" w "[]"] by auto

section \<open>Objects with omitted fields\<close>

lemma map_of_omit_empty [simp]:
  "map_of (omit_empty k s @ fs) k' = (if k' = k \<and> s \<noteq> [] then Some (JStr s) else map_of fs k')"
  by (simp add: omit_empty_def)

lemma map_of_omit_zero [simp]:
  "map_of (omit_zero k i @ fs) k' = (if k' = k \<and> i \<noteq> 0 then Some (JInt i) else map_of fs k')"
  by (simp add: omit_zero_def)

end
