(* ===== verification/GoCrypto.thy ===== *)
theory GoCrypto
  imports GoText
begin

unbundle bit_operations_syntax

text \<open>
  The pieces of \<^verbatim>\<open>crypto/sha256\<close>, \<^verbatim>\<open>crypto/hmac\<close> and \<^verbatim>\<open>encoding/base64\<close> (RawURLEncoding) the
  program calls, written as the standards define them and executable. The lemmas give what the
  rest of the development uses: the shape of a digest, and that decoding inverts encoding.
\<close>

section \<open>SHA-256\<close>

type_synonym w32 = "32 word"

definition sha_k :: "w32 list" where
  "sha_k =
    [1116352408, 1899447441, 3049323471, 3921009573, 961987163, 1508970993, 2453635748, 2870763221,
     3624381080, 310598401, 607225278, 1426881987, 1925078388, 2162078206, 2614888103, 3248222580,
     3835390401, 4022224774, 264347078, 604807628, 770255983, 1249150122, 1555081692, 1996064986,
     2554220882, 2821834349, 2952996808, 3210313671, 3336571891, 3584528711, 113926993, 338241895,
     666307205, 773529912, 1294757372, 1396182291, 1695183700, 1986661051, 2177026350, 2456956037,
     2730485921, 2820302411, 3259730800, 3345764771, 3516065817, 3600352804, 4094571909, 275423344,
     430227734, 506948616, 659060556, 883997877, 958139571, 1322822218, 1537002063, 1747873779,
     1955562222, 2024104815, 2227730452, 2361852424, 2428436474, 2756734187, 3204031479, 3329325298]"

definition sha_init :: "w32 list" where
  "sha_init = [1779033703, 3144134277, 1013904242, 2773480762, 1359893119, 2600822924, 528734635, 1541459225]"

definition rotr :: "nat \<Rightarrow> w32 \<Rightarrow> w32" where
  "rotr n w = (drop_bit n w) OR (push_bit (32 - n) w)"

definition sigma0 :: "w32 \<Rightarrow> w32" where
  "sigma0 w = rotr 7 w XOR rotr 18 w XOR drop_bit 3 w"
definition sigma1 :: "w32 \<Rightarrow> w32" where
  "sigma1 w = rotr 17 w XOR rotr 19 w XOR drop_bit 10 w"

text \<open>The schedule is kept newest word first.\<close>

primrec sha_sched :: "nat \<Rightarrow> w32 list \<Rightarrow> w32 list" where
  "sha_sched 0 r = r"
| "sha_sched (Suc n) r = sha_sched n ((sigma1 (r ! 1) + r ! 6 + sigma0 (r ! 14) + r ! 15) # r)"

fun sha_round :: "w32 list \<Rightarrow> w32 \<times> w32 \<Rightarrow> w32 list" where
  "sha_round [a, b, c, d, e, f, g, h] (k, w) =
     (let s1 = rotr 6 e XOR rotr 11 e XOR rotr 25 e;
          ch = (e AND f) XOR (NOT e AND g);
          t1 = h + s1 + ch + k + w;
          s0 = rotr 2 a XOR rotr 13 a XOR rotr 22 a;
          maj = (a AND b) XOR (a AND c) XOR (b AND c)
      in [t1 + (s0 + maj), a, b, c, d + t1, e, f, g])"
| "sha_round st _ = st"

definition sha_block :: "w32 list \<Rightarrow> w32 list \<Rightarrow> w32 list" where
  "sha_block st blk =
     map2 (+) st (foldl sha_round st (zip sha_k (rev (sha_sched 48 (rev blk)))))"

fun be_words :: "string \<Rightarrow> w32 list" where
  "be_words (a # b # c # d # s) =
     word_of_nat (((of_char a * 256 + of_char b) * 256 + of_char c) * 256 + of_char d) # be_words s"
| "be_words _ = []"

fun sha_blocks :: "w32 list \<Rightarrow> w32 list \<Rightarrow> w32 list" where
  "sha_blocks st ws =
     (if length ws < 16 then st else sha_blocks (sha_block st (take 16 ws)) (drop 16 ws))"

declare sha_blocks.simps [simp del]

definition be64 :: "nat \<Rightarrow> string" where
  "be64 n = map (\<lambda>i. char_of (n div 256 ^ i mod 256)) [7, 6, 5, 4, 3, 2, 1, 0]"

definition sha_pad :: "string \<Rightarrow> string" where
  "sha_pad s = s @ [CHR 0x80] @ replicate ((119 - length s mod 64) mod 64) (CHR 0x00) @ be64 (8 * length s)"

definition word_bytes :: "w32 \<Rightarrow> string" where
  "word_bytes w = map (\<lambda>i. char_of (unat (drop_bit i w) mod 256)) [24, 16, 8, 0]"

definition sha256_sum :: "string \<Rightarrow> string" where
  "sha256_sum s = concat (map word_bytes (sha_blocks sha_init (be_words (sha_pad s))))"

lemma length_sha_round [simp]: "length (sha_round st kw) = length st"
  by (cases "(st, kw)" rule: sha_round.cases) (simp_all add: Let_def)

lemma length_sha_rounds [simp]: "length (foldl sha_round st kws) = length st"
  by (induction kws arbitrary: st) auto

lemma length_sha_block [simp]: "length (sha_block st blk) = length st"
  by (simp add: sha_block_def)

lemma length_sha_blocks [simp]: "length (sha_blocks st ws) = length st"
proof (induction st ws rule: sha_blocks.induct)
  case (1 st ws)
  then show ?case by (subst sha_blocks.simps) auto
qed

lemma length_sha256_sum [simp]: "length (sha256_sum s) = 32"
proof -
  have "length (concat (map word_bytes ws)) = 4 * length ws" for ws
    by (induction ws) (simp_all add: word_bytes_def)
  then show ?thesis by (simp add: sha256_sum_def sha_init_def)
qed

section \<open>HMAC-SHA256\<close>

definition xor_byte :: "nat \<Rightarrow> char \<Rightarrow> char" where
  "xor_byte n c = char_of (n XOR of_char c)"

definition hmac_key :: "string \<Rightarrow> string" where
  "hmac_key k = (let k' = (if 64 < length k then sha256_sum k else k)
                 in k' @ replicate (64 - length k') (CHR 0x00))"

definition hmac_sha256 :: "string \<Rightarrow> string \<Rightarrow> string" where
  "hmac_sha256 k m =
     sha256_sum (map (xor_byte 0x5c) (hmac_key k) @ sha256_sum (map (xor_byte 0x36) (hmac_key k) @ m))"

lemma length_hmac_sha256 [simp]: "length (hmac_sha256 k m) = 32"
  by (simp add: hmac_sha256_def)

section \<open>Raw URL base64\<close>

definition b64_char :: "nat \<Rightarrow> char" where
  "b64_char n = (if n < 26 then char_of (65 + n) else if n < 52 then char_of (71 + n)
     else if n < 62 then char_of (n - 4) else if n = 62 then CHR ''-'' else CHR ''_'')"

definition b64_val :: "char \<Rightarrow> nat option" where
  "b64_val c = (let n = of_char c :: nat in
     if 65 \<le> n \<and> n \<le> 90 then Some (n - 65) else if 97 \<le> n \<and> n \<le> 122 then Some (n - 71)
     else if 48 \<le> n \<and> n \<le> 57 then Some (n + 4) else if c = CHR ''-'' then Some 62
     else if c = CHR ''_'' then Some 63 else None)"

fun b64_sextets :: "nat list \<Rightarrow> nat list" where
  "b64_sextets [] = []"
| "b64_sextets [a] = [a div 4, a mod 4 * 16]"
| "b64_sextets [a, b] = [a div 4, a mod 4 * 16 + b div 16, b mod 16 * 4]"
| "b64_sextets (a # b # c # r) =
     a div 4 # (a mod 4 * 16 + b div 16) # (b mod 16 * 4 + c div 64) # c mod 64 # b64_sextets r"

fun b64_bytes :: "nat list \<Rightarrow> nat list option" where
  "b64_bytes [] = Some []"
| "b64_bytes [a] = None"
| "b64_bytes [a, b] = Some [a * 4 + b div 16]"
| "b64_bytes [a, b, c] = Some [a * 4 + b div 16, b mod 16 * 16 + c div 4]"
| "b64_bytes (a # b # c # d # r) =
     map_option (\<lambda>bs. (a * 4 + b div 16) # (b mod 16 * 16 + c div 4) # (c mod 4 * 64 + d) # bs) (b64_bytes r)"

definition base64_encode :: "string \<Rightarrow> string" where
  "base64_encode s = map b64_char (b64_sextets (map of_char s))"

text \<open>Decoding skips line breaks, refuses any other byte outside the alphabet and a trailing single
  sextet, and ignores left-over bits (the decoder is not the strict one).\<close>

definition base64_decode :: "string \<Rightarrow> string option" where
  "base64_decode s =
     (let vs = map b64_val (filter (\<lambda>c. c \<noteq> CHR 0x0A \<and> c \<noteq> CHR 0x0D) s)
      in if None \<in> set vs then None else map_option (map char_of) (b64_bytes (map the vs)))"

lemma b64_sextets_bound: "list_all (\<lambda>n. n < 256) bs \<Longrightarrow> list_all (\<lambda>n. n < 64) (b64_sextets bs)"
  by (induction bs rule: b64_sextets.induct) auto

lemma b64_bytes_sextets: "list_all (\<lambda>n. n < 256) bs \<Longrightarrow> b64_bytes (b64_sextets bs) = Some bs"
  by (induction bs rule: b64_sextets.induct) auto

lemma b64_val_char: "n < 64 \<Longrightarrow> b64_val (b64_char n) = Some n"
  by (auto simp: b64_char_def b64_val_def Let_def)

definition b64_alphabet :: "char \<Rightarrow> bool" where
  "b64_alphabet c \<longleftrightarrow> b64_val c \<noteq> None"

lemma base64_encode_alphabet: "list_all b64_alphabet (base64_encode s)"
proof -
  have "list_all (\<lambda>n. n < 64) (b64_sextets (map of_char s))"
    by (rule b64_sextets_bound) (simp add: list_all_iff)
  then show ?thesis
    by (auto simp: base64_encode_def list_all_iff b64_alphabet_def b64_val_char)
qed

lemma b64_alphabet_simps [simp]:
  "\<not> b64_alphabet (CHR ''.'')" "\<not> b64_alphabet (CHR 0x0A)" "\<not> b64_alphabet (CHR 0x0D)"
  by (simp_all add: b64_alphabet_def b64_val_def Let_def)

lemma base64_encode_filter: "filter (\<lambda>c. c \<noteq> CHR 0x0A \<and> c \<noteq> CHR 0x0D) (base64_encode s) = base64_encode s"
  by (rule filter_True) (use base64_encode_alphabet [of s] in \<open>auto simp: list_all_iff\<close>)

lemma base64_roundtrip [simp]: "base64_decode (base64_encode s) = Some s"
proof -
  let ?bs = "map of_char s :: nat list"
  have small: "list_all (\<lambda>n. n < 256) ?bs" by (simp add: list_all_iff)
  have sx: "list_all (\<lambda>n. n < 64) (b64_sextets ?bs)" by (rule b64_sextets_bound [OF small])
  have vs: "map b64_val (base64_encode s) = map Some (b64_sextets ?bs)"
    using sx by (simp add: base64_encode_def list_all_iff b64_val_char)
  have "map_option (map char_of) (b64_bytes (b64_sextets ?bs)) = Some s"
    by (simp add: b64_bytes_sextets [OF small] o_def)
  moreover have "None \<notin> set (map b64_val (base64_encode s))" by (simp only: vs) auto
  moreover have "map the (map b64_val (base64_encode s)) = b64_sextets ?bs" by (simp only: vs) simp
  ultimately show ?thesis
    unfolding base64_decode_def Let_def base64_encode_filter by simp
qed

lemma base64_encode_inj: "base64_encode s = base64_encode t \<Longrightarrow> s = t"
  by (metis base64_roundtrip option.inject)

lemma base64_encode_Nil [simp]: "base64_encode s = [] \<longleftrightarrow> s = []"
  using base64_encode_inj [of s "[]"] by (auto simp: base64_encode_def)

end
