(* ===== verification/AuditChain.thy ===== *)
theory AuditChain
  imports GoModel GoJson GoCrypto
begin

text \<open>
  \<^verbatim>\<open>internal/audit/audit.go\<close>: normalisation of an audit event, its canonical JSON payload and digest,
  the linking of a new event to its organization's chain, and the verification of a chain.
  The lemmas show that normalisation is idempotent, that the canonical payload determines every
  field it covers, that a linked event extends a verified chain, and that two verified chains with
  the same last hash agree event by event unless SHA-256 collides on them.
  \<^verbatim>\<open>Time.MarshalJSON\<close> fails outside the years 0 to 9999; the server's clock stays inside, and
  \<open>Canonical\<close> is total.
\<close>

section \<open>Normalisation\<close>

definition trim_event :: "audit_event \<Rightarrow> audit_event" where
  "trim_event e = e
    \<lparr> aud_OrganizationID := trim_space (aud_OrganizationID e),
      aud_ID := trim_space (aud_ID e),
      aud_ChangeID := trim_space (aud_ChangeID e),
      aud_RequestID := trim_space (aud_RequestID e),
      aud_ActorID := trim_space (aud_ActorID e),
      aud_ActorName := trim_space (aud_ActorName e),
      aud_ActorType := to_upper (trim_space (aud_ActorType e)),
      aud_AuthMethod := to_upper (trim_space (aud_AuthMethod e)),
      aud_Action := to_upper (trim_space (aud_Action e)),
      aud_ResourceType := to_upper (trim_space (aud_ResourceType e)),
      aud_ResourceID := trim_space (aud_ResourceID e),
      aud_RequestDigest := to_lower (trim_space (aud_RequestDigest e)),
      aud_Result := to_upper (trim_space (aud_Result e)),
      aud_ReasonCode := to_upper (trim_space (aud_ReasonCode e)),
      aud_RelatedEventID := trim_space (aud_RelatedEventID e),
      aud_AttemptID := trim_space (aud_AttemptID e),
      aud_PassportID := trim_space (aud_PassportID e),
      aud_Detail := trim_space (aud_Detail e),
      aud_PrevHash := to_lower (trim_space (aud_PrevHash e)),
      aud_Hash := to_lower (trim_space (aud_Hash e)) \<rparr>"

definition default_resource :: "audit_event \<Rightarrow> audit_event" where
  "default_resource e =
     (if aud_ChangeID e = [] then e
      else e\<lparr> aud_ResourceType := (if aud_ResourceType e = [] then ''CHANGE'' else aud_ResourceType e),
             aud_ResourceID := (if aud_ResourceID e = [] then aud_ChangeID e else aud_ResourceID e) \<rparr>)"

definition actor_type_of :: "string \<Rightarrow> string" where
  "actor_type_of actor =
     (if has_prefix (to_lower actor) ''ci:'' then ''CI''
      else if has_prefix (to_lower actor) ''system'' \<or> has_prefix (to_lower actor) ''integration'' then ''SYSTEM''
      else ''USER'')"

definition default_actor :: "audit_event \<Rightarrow> audit_event" where
  "default_actor e =
     e\<lparr> aud_ActorType := (if aud_ActorType e = [] then actor_type_of (aud_ActorID e) else aud_ActorType e),
        aud_Result := (if aud_Result e = [] then ''SUCCESS'' else aud_Result e) \<rparr>"

definition Normalize :: "audit_event \<Rightarrow> audit_event" where
  "Normalize e = default_actor (default_resource (trim_event e))"

section \<open>Canonical payload and digest\<close>

definition canonical_fields :: "audit_event \<Rightarrow> (string \<times> json) list" where
  "canonical_fields e =
     [(''organization_id'', JStr (aud_OrganizationID e)), (''id'', JStr (aud_ID e))]
     @ omit_empty ''change_id'' (aud_ChangeID e)
     @ omit_empty ''request_id'' (aud_RequestID e)
     @ [(''actor_id'', JStr (aud_ActorID e)), (''actor_name'', JStr (aud_ActorName e))]
     @ omit_empty ''actor_type'' (aud_ActorType e)
     @ omit_empty ''auth_method'' (aud_AuthMethod e)
     @ [(''action'', JStr (aud_Action e))]
     @ omit_empty ''resource_type'' (aud_ResourceType e)
     @ omit_empty ''resource_id'' (aud_ResourceID e)
     @ omit_zero ''resource_version_before'' (aud_ResourceVersionBefore e)
     @ omit_zero ''resource_version_after'' (aud_ResourceVersionAfter e)
     @ omit_empty ''request_digest'' (aud_RequestDigest e)
     @ omit_empty ''result'' (aud_Result e)
     @ omit_empty ''reason_code'' (aud_ReasonCode e)
     @ omit_empty ''related_event_id'' (aud_RelatedEventID e)
     @ omit_empty ''attempt_id'' (aud_AttemptID e)
     @ omit_empty ''passport_id'' (aud_PassportID e)
     @ [(''detail'', JStr (aud_Detail e)), (''created_at'', JStr (rfc3339_nano (aud_CreatedAt e)))]
     @ omit_empty ''prev_hash'' (aud_PrevHash e)"

definition Canonical :: "audit_event \<Rightarrow> string" where
  "Canonical e = json_enc (JObj (canonical_fields (Normalize e)))"

definition Digest :: "audit_event \<Rightarrow> string" where
  "Digest e = hex_encode (sha256_sum (Canonical e))"

section \<open>Linking and verification\<close>

definition Link :: "audit_event \<Rightarrow> audit_event option \<Rightarrow> audit_event" where
  "Link event previous =
     (let e = (Normalize event)\<lparr> aud_Hash := [] \<rparr>;
          e = e\<lparr> aud_PrevHash :=
                 (case previous of
                    None \<Rightarrow> []
                  | Some p \<Rightarrow> if aud_Hash p \<noteq> [] then to_lower (aud_Hash p) else Digest p) \<rparr>
      in e\<lparr> aud_Hash := Digest e \<rparr>)"

datatype audit_error =
    HashRemoved string nat
  | PrevHashMismatch string nat string string
  | HashMismatch string nat

definition expected_prev :: "audit_event option \<Rightarrow> string" where
  "expected_prev previous =
     (case previous of None \<Rightarrow> [] | Some p \<Rightarrow> if aud_Hash p \<noteq> [] then aud_Hash p else Digest p)"

fun verify_from ::
  "(string \<Rightarrow> audit_event option) \<Rightarrow> (string \<Rightarrow> bool) \<Rightarrow> nat \<Rightarrow> audit_event list \<Rightarrow> audit_error option" where
  "verify_from last_ev hashed index [] = None"
| "verify_from last_ev hashed index (raw # events) =
     (let event = Normalize raw; org = aud_OrganizationID event in
      if aud_Hash event = [] then
        (if hashed org then Some (HashRemoved (aud_ID event) index)
         else verify_from (last_ev(org := Some event)) hashed (Suc index) events)
      else if aud_PrevHash event \<noteq> expected_prev (last_ev org)
      then Some (PrevHashMismatch (aud_ID event) index (aud_PrevHash event) (expected_prev (last_ev org)))
      else if aud_Hash event \<noteq> Digest event then Some (HashMismatch (aud_ID event) index)
      else verify_from (last_ev(org := Some event)) (hashed(org := True)) (Suc index) events)"

definition Verify :: "audit_event list \<Rightarrow> audit_error option" where
  "Verify events = verify_from (\<lambda>_. None) (\<lambda>_. False) 0 events"

section \<open>Normalisation is idempotent\<close>

lemma actor_type_of_normal [simp]: "trim_space (actor_type_of a) = actor_type_of a"
  "to_upper (actor_type_of a) = actor_type_of a" "actor_type_of a \<noteq> []"
  by (auto simp: actor_type_of_def; code_simp)+

lemma const_normal [simp]:
  "trim_space ''CHANGE'' = ''CHANGE''" "to_upper ''CHANGE'' = ''CHANGE''"
  "trim_space ''SUCCESS'' = ''SUCCESS''" "to_upper ''SUCCESS'' = ''SUCCESS''"
  by code_simp+

text \<open>What a normalised event looks like, field by field.\<close>

definition normal_event :: "audit_event \<Rightarrow> bool" where
  "normal_event e \<longleftrightarrow> trim_event e = e \<and> aud_ActorType e \<noteq> [] \<and> aud_Result e \<noteq> []
     \<and> (aud_ChangeID e \<noteq> [] \<longrightarrow> aud_ResourceType e \<noteq> [] \<and> aud_ResourceID e \<noteq> [])"

lemma Normalize_normal: "normal_event (Normalize e)"
  by (simp add: normal_event_def Normalize_def default_actor_def default_resource_def trim_event_def)

lemma Normalize_of_normal: "normal_event e \<Longrightarrow> Normalize e = e"
  by (auto simp: normal_event_def Normalize_def default_actor_def default_resource_def)

lemma Normalize_idem [simp]: "Normalize (Normalize e) = Normalize e"
  by (rule Normalize_of_normal [OF Normalize_normal])

lemma normal_event_iff: "normal_event e \<longleftrightarrow> Normalize e = e"
  using Normalize_normal [of e] Normalize_of_normal by metis

lemma Digest_Normalize [simp]: "Digest (Normalize e) = Digest e"
  by (simp add: Digest_def Canonical_def)

lemma Normalize_org: "aud_OrganizationID (Normalize e) = trim_space (aud_OrganizationID e)"
  and Normalize_hash: "aud_Hash (Normalize e) = to_lower (trim_space (aud_Hash e))"
  by (simp_all add: Normalize_def default_actor_def default_resource_def trim_event_def)

lemma Digest_hex [simp]: "list_all lower_hex (Digest e)"
  by (simp add: Digest_def hex_encode_lower_hex)

lemma length_Digest [simp]: "length (Digest e) = 64"
  by (simp add: Digest_def)

lemma Digest_nonempty [simp]: "Digest e \<noteq> []"
  using length_Digest [of e] by fastforce

lemma Digest_canonical_form [simp]: "to_lower (Digest e) = Digest e" "trim_space (Digest e) = Digest e"
  using trimmed_hex [OF Digest_hex [of e]] by (simp_all add: to_lower_hex trimmed_iff)

section \<open>The canonical payload determines the event\<close>

definition same_payload :: "audit_event \<Rightarrow> audit_event \<Rightarrow> bool" where
  "same_payload a b \<longleftrightarrow>
     a\<lparr> aud_Hash := [], aud_CreatedAt := 0 \<rparr> = b\<lparr> aud_Hash := [], aud_CreatedAt := 0 \<rparr>
     \<and> rfc3339_nano (aud_CreatedAt a) = rfc3339_nano (aud_CreatedAt b)"

lemma opt_field_eq: "(if s \<noteq> [] then Some (JStr s) else None) = (if t \<noteq> [] then Some (JStr t) else None) \<longleftrightarrow> s = t"
  by auto

lemma opt_int_eq: "(if i \<noteq> 0 then Some (JInt i) else None) = (if j \<noteq> 0 then Some (JInt j) else None) \<longleftrightarrow> i = j"
  by auto

lemma map_of_omit: "map_of (omit_empty k s) k' = (if k' = k \<and> s \<noteq> [] then Some (JStr s) else None)"
  "map_of (omit_zero k i) k' = (if k' = k \<and> i \<noteq> 0 then Some (JInt i) else None)"
  by (simp_all add: omit_empty_def omit_zero_def)

lemma canonical_lookup:
  "map_of (canonical_fields e) ''change_id'' = (if aud_ChangeID e \<noteq> [] then Some (JStr (aud_ChangeID e)) else None)"
  "map_of (canonical_fields e) ''request_id'' = (if aud_RequestID e \<noteq> [] then Some (JStr (aud_RequestID e)) else None)"
  "map_of (canonical_fields e) ''actor_type'' = (if aud_ActorType e \<noteq> [] then Some (JStr (aud_ActorType e)) else None)"
  "map_of (canonical_fields e) ''auth_method'' = (if aud_AuthMethod e \<noteq> [] then Some (JStr (aud_AuthMethod e)) else None)"
  "map_of (canonical_fields e) ''resource_type'' = (if aud_ResourceType e \<noteq> [] then Some (JStr (aud_ResourceType e)) else None)"
  "map_of (canonical_fields e) ''resource_id'' = (if aud_ResourceID e \<noteq> [] then Some (JStr (aud_ResourceID e)) else None)"
  "map_of (canonical_fields e) ''request_digest'' = (if aud_RequestDigest e \<noteq> [] then Some (JStr (aud_RequestDigest e)) else None)"
  "map_of (canonical_fields e) ''result'' = (if aud_Result e \<noteq> [] then Some (JStr (aud_Result e)) else None)"
  "map_of (canonical_fields e) ''reason_code'' = (if aud_ReasonCode e \<noteq> [] then Some (JStr (aud_ReasonCode e)) else None)"
  "map_of (canonical_fields e) ''related_event_id'' = (if aud_RelatedEventID e \<noteq> [] then Some (JStr (aud_RelatedEventID e)) else None)"
  "map_of (canonical_fields e) ''attempt_id'' = (if aud_AttemptID e \<noteq> [] then Some (JStr (aud_AttemptID e)) else None)"
  "map_of (canonical_fields e) ''passport_id'' = (if aud_PassportID e \<noteq> [] then Some (JStr (aud_PassportID e)) else None)"
  "map_of (canonical_fields e) ''prev_hash'' = (if aud_PrevHash e \<noteq> [] then Some (JStr (aud_PrevHash e)) else None)"
  "map_of (canonical_fields e) ''resource_version_before'' = (if aud_ResourceVersionBefore e \<noteq> 0 then Some (JInt (aud_ResourceVersionBefore e)) else None)"
  "map_of (canonical_fields e) ''resource_version_after'' = (if aud_ResourceVersionAfter e \<noteq> 0 then Some (JInt (aud_ResourceVersionAfter e)) else None)"
  "map_of (canonical_fields e) ''organization_id'' = Some (JStr (aud_OrganizationID e))"
  "map_of (canonical_fields e) ''id'' = Some (JStr (aud_ID e))"
  "map_of (canonical_fields e) ''actor_id'' = Some (JStr (aud_ActorID e))"
  "map_of (canonical_fields e) ''actor_name'' = Some (JStr (aud_ActorName e))"
  "map_of (canonical_fields e) ''action'' = Some (JStr (aud_Action e))"
  "map_of (canonical_fields e) ''detail'' = Some (JStr (aud_Detail e))"
  "map_of (canonical_fields e) ''created_at'' = Some (JStr (rfc3339_nano (aud_CreatedAt e)))"
  by (simp_all add: canonical_fields_def map_add_def map_of_omit)

lemma canonical_fields_eq:
  assumes "canonical_fields a = canonical_fields b"
  shows "same_payload a b"
proof -
  have m: "map_of (canonical_fields a) k = map_of (canonical_fields b) k" for k
    using assms by simp
  note f = m [of "''organization_id''"] m [of "''id''"] m [of "''change_id''"] m [of "''request_id''"]
    m [of "''actor_id''"] m [of "''actor_name''"] m [of "''actor_type''"] m [of "''auth_method''"]
    m [of "''action''"] m [of "''resource_type''"] m [of "''resource_id''"]
    m [of "''resource_version_before''"] m [of "''resource_version_after''"]
    m [of "''request_digest''"] m [of "''result''"] m [of "''reason_code''"]
    m [of "''related_event_id''"] m [of "''attempt_id''"] m [of "''passport_id''"]
    m [of "''detail''"] m [of "''created_at''"] m [of "''prev_hash''"]
  show ?thesis
    unfolding same_payload_def using f [unfolded canonical_lookup opt_field_eq opt_int_eq]
    by (intro conjI audit_event.equality) simp_all
qed

lemma Canonical_same_payload:
  "Canonical a = Canonical b \<Longrightarrow> same_payload (Normalize a) (Normalize b)"
  by (rule canonical_fields_eq) (simp add: Canonical_def json_enc_inj)

lemma same_record_prev:
  assumes "a\<lparr> aud_Hash := [], aud_CreatedAt := 0 \<rparr> = b\<lparr> aud_Hash := [], aud_CreatedAt := 0 \<rparr>"
  shows "aud_PrevHash a = aud_PrevHash (b :: audit_event)"
proof -
  have "aud_PrevHash (a\<lparr> aud_Hash := [], aud_CreatedAt := 0 \<rparr>) = aud_PrevHash (b\<lparr> aud_Hash := [], aud_CreatedAt := 0 \<rparr>)"
    using assms by (rule arg_cong)
  then show ?thesis by simp
qed

lemma Canonical_prev_hash:
  "Canonical a = Canonical b \<Longrightarrow> aud_PrevHash (Normalize a) = aud_PrevHash (Normalize b)"
proof -
  assume "Canonical a = Canonical b"
  then have "(Normalize a)\<lparr> aud_Hash := [], aud_CreatedAt := 0 \<rparr> = (Normalize b)\<lparr> aud_Hash := [], aud_CreatedAt := 0 \<rparr>"
    using Canonical_same_payload [of a b] by (simp add: same_payload_def)
  then show ?thesis by (rule same_record_prev)
qed

section \<open>A linked event\<close>

text \<open>Stored events carry a trimmed organization and a hash in lower case; the events written by
  \<open>Link\<close> do, and so do legacy events without a hash.\<close>

definition stored_form :: "audit_event \<Rightarrow> bool" where
  "stored_form e \<longleftrightarrow> trim_space (aud_OrganizationID e) = aud_OrganizationID e
     \<and> to_lower (trim_space (aud_Hash e)) = aud_Hash e"

lemma hash_prev_swap: "e\<lparr> aud_Hash := h, aud_PrevHash := p \<rparr> = e\<lparr> aud_PrevHash := p, aud_Hash := h \<rparr>"
  for e :: audit_event
  by simp

lemma Normalize_update_hash:
  "trim_space h = h \<Longrightarrow> to_lower h = h \<Longrightarrow> trim_space p = p \<Longrightarrow> to_lower p = p \<Longrightarrow>
   Normalize ((Normalize e)\<lparr> aud_Hash := h, aud_PrevHash := p \<rparr>) = (Normalize e)\<lparr> aud_Hash := h, aud_PrevHash := p \<rparr>"
proof (rule Normalize_of_normal)
  assume h: "trim_space h = h" "to_lower h = h" "trim_space p = p" "to_lower p = p"
  let ?n = "Normalize e"
  have "trim_event (?n\<lparr> aud_Hash := h, aud_PrevHash := p \<rparr>) = (trim_event ?n)\<lparr> aud_Hash := h, aud_PrevHash := p \<rparr>"
    using h by (simp add: trim_event_def)
  then show "normal_event (?n\<lparr> aud_Hash := h, aud_PrevHash := p \<rparr>)"
    using Normalize_normal [of e] by (simp add: normal_event_def)
qed

lemma Digest_update_hash [simp]: "Digest (e\<lparr> aud_Hash := h \<rparr>) = Digest e"
  by (simp add: Digest_def Canonical_def canonical_fields_def Normalize_def default_actor_def
      default_resource_def trim_event_def)

lemma trimmed_lower_hash: "to_lower (trim_space h) = h \<Longrightarrow> trim_space h = h \<and> to_lower h = h"
  by (metis to_lower_idem trim_space_lower_trim)

lemma Link_eq:
  assumes "case previous of None \<Rightarrow> True | Some p \<Rightarrow> stored_form p"
  defines "p \<equiv> expected_prev previous"
  shows "Normalize (Link e previous) = Link e previous"
    and "aud_PrevHash (Link e previous) = p"
    and "aud_Hash (Link e previous) = Digest (Link e previous)"
    and "aud_OrganizationID (Link e previous) = trim_space (aud_OrganizationID e)"
proof -
  have p: "trim_space p = p \<and> to_lower p = p"
    using assms trimmed_lower_hash
    by (cases previous) (auto simp: expected_prev_def stored_form_def)
  let ?e = "(Normalize e)\<lparr> aud_PrevHash := p \<rparr>"
  have "(case previous of None \<Rightarrow> [] | Some q \<Rightarrow> if aud_Hash q \<noteq> [] then to_lower (aud_Hash q) else Digest q) = p"
    using assms(1) trimmed_lower_hash unfolding p_def
    by (cases previous) (auto simp: expected_prev_def stored_form_def)
  moreover have "Digest ((Normalize e)\<lparr> aud_Hash := [], aud_PrevHash := p \<rparr>) = Digest ?e"
    by (simp only: hash_prev_swap [where e = "Normalize e"] Digest_update_hash)
  ultimately have link: "Link e previous = ?e\<lparr> aud_Hash := Digest ?e \<rparr>"
    by (simp add: Link_def Let_def)
  show "Normalize (Link e previous) = Link e previous"
    unfolding link using p by (simp only: hash_prev_swap [symmetric] Normalize_update_hash Digest_canonical_form)
  show "aud_PrevHash (Link e previous) = p" and "aud_Hash (Link e previous) = Digest (Link e previous)"
    and "aud_OrganizationID (Link e previous) = trim_space (aud_OrganizationID e)"
    by (simp_all add: link Normalize_org)
qed

lemma Link_stored_form:
  "(case previous of None \<Rightarrow> True | Some p \<Rightarrow> stored_form p) \<Longrightarrow> stored_form (Link e previous)"
  using Link_eq [of previous e] by (simp add: stored_form_def)

section \<open>Appending keeps a chain verified\<close>

text \<open>The event the next one of an organization is linked to: its last event.\<close>

definition last_of :: "string \<Rightarrow> audit_event list \<Rightarrow> audit_event option" where
  "last_of org es = List.find (\<lambda>e. aud_OrganizationID e = org) (rev es)"

lemma last_of_snoc [simp]:
  "last_of org (es @ [e]) = (if aud_OrganizationID e = org then Some e else last_of org es)"
  by (simp add: last_of_def)

lemma last_of_mem: "last_of org es = Some e \<Longrightarrow> e \<in> set es \<and> aud_OrganizationID e = org"
  by (auto simp: last_of_def find_Some_iff) (metis nth_mem set_rev length_rev)

lemma expected_prev_Normalize:
  "stored_form p \<Longrightarrow> expected_prev (Some (Normalize p)) = expected_prev (Some p)"
  by (simp add: expected_prev_def Normalize_hash stored_form_def)

text \<open>The scan as a fold: the two tables after a verified prefix.\<close>

definition last_table :: "audit_event list \<Rightarrow> string \<Rightarrow> audit_event option" where
  "last_table es = (\<lambda>org. last_of org (map Normalize es))"

definition hashed_table :: "audit_event list \<Rightarrow> string \<Rightarrow> bool" where
  "hashed_table es = (\<lambda>org. \<exists>e\<in>set (map Normalize es). aud_OrganizationID e = org \<and> aud_Hash e \<noteq> [])"

lemma last_table_snoc:
  "(last_table es)(aud_OrganizationID (Normalize e) := Some (Normalize e)) = last_table (es @ [e])"
  by (auto simp: last_table_def)

lemma hashed_table_snoc:
  "hashed_table (es @ [e]) = (if aud_Hash (Normalize e) = [] then hashed_table es
     else (hashed_table es)(aud_OrganizationID (Normalize e) := True))"
  by (auto simp: hashed_table_def fun_eq_iff)

text \<open>What the scan checks of one event after a prefix.\<close>

definition event_ok :: "audit_event list \<Rightarrow> audit_event \<Rightarrow> bool" where
  "event_ok es raw \<longleftrightarrow>
     (let e = Normalize raw; org = aud_OrganizationID e in
      if aud_Hash e = [] then \<not> hashed_table es org
      else aud_PrevHash e = expected_prev (last_table es org) \<and> aud_Hash e = Digest e)"

lemma verify_from_Cons:
  "verify_from (last_table pre) (hashed_table pre) n (e # es) = None \<longleftrightarrow>
   event_ok pre e \<and> verify_from (last_table (pre @ [e])) (hashed_table (pre @ [e])) (Suc n) es = None"
  by (auto simp: event_ok_def Let_def last_table_snoc hashed_table_snoc)

lemma verify_from_append:
  "verify_from (last_table pre) (hashed_table pre) n (es @ [e]) = None \<longleftrightarrow>
   verify_from (last_table pre) (hashed_table pre) n es = None \<and> event_ok (pre @ es) e"
proof (induction es arbitrary: pre n)
  case Nil
  then show ?case by (simp only: append_Nil verify_from_Cons) simp
next
  case (Cons a es)
  show ?case
    by (simp only: append_Cons verify_from_Cons Cons.IH) (simp add: conj_assoc)
qed

lemma Verify_start: "Verify es = verify_from (last_table []) (hashed_table []) 0 es"
  by (simp add: Verify_def last_table_def hashed_table_def last_of_def)

lemma Verify_Nil [simp]: "Verify [] = None"
  by (simp add: Verify_def)

lemma Verify_snoc: "Verify (es @ [e]) = None \<longleftrightarrow> Verify es = None \<and> event_ok es e"
  using verify_from_append [of "[]" 0 es e] by (simp add: Verify_start)

lemma last_of_Normalize:
  assumes "\<forall>e\<in>set es. stored_form e"
  shows "last_of org (map Normalize es) = map_option Normalize (last_of org es)"
  using assms
proof (induction es rule: rev_induct)
  case (snoc e es)
  then show ?case by (simp add: Normalize_org stored_form_def)
qed (simp add: last_of_def)

lemma Verify_append_Link:
  assumes "Verify es = None" and st: "\<forall>e\<in>set es. stored_form e"
    and org: "trim_space (aud_OrganizationID e) = aud_OrganizationID e"
  shows "Verify (es @ [Link e (last_of (aud_OrganizationID e) es)]) = None"
proof -
  let ?prev = "last_of (aud_OrganizationID e) es"
  have prev: "case ?prev of None \<Rightarrow> True | Some p \<Rightarrow> stored_form p"
    using st by (auto split: option.splits dest: last_of_mem)
  note link = Link_eq [OF prev, of e]
  have "expected_prev (last_table es (aud_OrganizationID e)) = expected_prev ?prev"
    using prev expected_prev_Normalize
    by (cases ?prev) (auto simp: last_table_def last_of_Normalize [OF st])
  moreover have "aud_Hash (Link e ?prev) \<noteq> []" using link(3) by simp
  ultimately have "event_ok es (Link e ?prev)"
    using link org by (simp add: event_ok_def Let_def)
  with assms(1) show ?thesis by (simp add: Verify_snoc)
qed

section \<open>Tampering shows\<close>

text \<open>The events of one organization, and the chain its hashes form.\<close>

definition chain_of :: "string \<Rightarrow> audit_event list \<Rightarrow> audit_event list" where
  "chain_of org es = filter (\<lambda>e. aud_OrganizationID e = org) (map Normalize es)"

lemma chain_of_snoc:
  "chain_of org (es @ [e]) = chain_of org es @ (if aud_OrganizationID (Normalize e) = org then [Normalize e] else [])"
  by (simp add: chain_of_def)

lemma last_table_chain:
  "last_table es org = (if chain_of org es = [] then None else Some (last (chain_of org es)))"
proof (induction es rule: rev_induct)
  case (snoc e es)
  then show ?case by (simp add: chain_of_snoc last_table_snoc [symmetric])
qed (simp add: last_table_def chain_of_def last_of_def)

text \<open>The chain of one organization read back from its head: an event with a hash carries its digest and names the event
  before it.\<close>

definition head_hash :: "audit_event list \<Rightarrow> string" where
  "head_hash es = expected_prev (case es of [] \<Rightarrow> None | e # _ \<Rightarrow> Some e)"

fun linked :: "audit_event list \<Rightarrow> bool" where
  "linked [] = True"
| "linked (e # es) = ((aud_Hash e \<noteq> [] \<longrightarrow> aud_Hash e = Digest e \<and> aud_PrevHash e = head_hash es) \<and> linked es)"

abbreviation hashed_part :: "audit_event list \<Rightarrow> audit_event list" where
  "hashed_part \<equiv> takeWhile (\<lambda>e. aud_Hash e \<noteq> [])"

lemma Verify_linked: "Verify es = None \<Longrightarrow> linked (rev (chain_of org es))"
proof (induction es rule: rev_induct)
  case (snoc e es)
  then have ok: "event_ok es e" and IH: "linked (rev (chain_of org es))" by (auto simp: Verify_snoc)
  have "head_hash (rev (chain_of org es)) = expected_prev (last_table es org)"
    by (cases "chain_of org es" rule: rev_cases) (simp_all add: head_hash_def last_table_chain)
  then show ?case using ok IH by (auto simp: chain_of_snoc event_ok_def Let_def split: if_splits)
qed (simp add: chain_of_def)

lemma head_hash_empty [simp]: "head_hash es = [] \<longleftrightarrow> es = []"
  by (cases es) (auto simp: head_hash_def expected_prev_def)

lemma head_hash_digest: "linked (e # es) \<Longrightarrow> head_hash (e # es) = Digest e"
  by (auto simp: head_hash_def expected_prev_def)

definition collision_free :: "string set \<Rightarrow> bool" where
  "collision_free S \<longleftrightarrow> inj_on sha256_sum S"

lemma Digest_collision_free:
  "collision_free (Canonical ` S) \<Longrightarrow> a \<in> S \<Longrightarrow> b \<in> S \<Longrightarrow> Digest a = Digest b \<Longrightarrow> Canonical a = Canonical b"
  by (auto simp: collision_free_def Digest_def dest: inj_onD)

lemma linked_tamper:
  assumes "linked xs" "linked ys" "head_hash xs = head_hash ys"
    and "collision_free (Canonical ` (set xs \<union> set ys))" "\<forall>e\<in>set xs \<union> set ys. Normalize e = e"
    and n: "n = Suc (min (length (hashed_part xs)) (length (hashed_part ys)))"
  shows "map Canonical (take n xs) = map Canonical (take n ys)"
  using assms
proof (induction xs arbitrary: ys n)
  case Nil
  then have "ys = []" by (metis head_hash_empty)
  then show ?case by simp
next
  case (Cons x xs)
  obtain y ys' where ys: "ys = y # ys'" using Cons.prems(3) head_hash_empty [of "x # xs"] by (cases ys) auto
  have "Digest x = Digest y" using Cons.prems(1-3) ys head_hash_digest by simp
  then have can: "Canonical x = Canonical y" using Digest_collision_free [OF Cons.prems(4), of x y] ys by simp
  then have prev: "aud_PrevHash x = aud_PrevHash y" using Canonical_prev_hash [OF can] Cons.prems(5) ys by simp
  show ?case
  proof (cases "aud_Hash x \<noteq> [] \<and> aud_Hash y \<noteq> []")
    case True
    have "collision_free (Canonical ` (set xs \<union> set ys'))"
      using Cons.prems(4) unfolding collision_free_def ys by (rule inj_on_subset) auto
    then have "map Canonical (take (n - 1) xs) = map Canonical (take (n - 1) ys')"
      using True Cons.prems(1,2,5,6) prev by (intro Cons.IH) (auto simp: ys)
    then show ?thesis using True can Cons.prems(6) by (simp add: ys)
  next
    case False
    then show ?thesis using can Cons.prems(6) by (auto simp: ys)
  qed
qed

section \<open>Tamper evidence\<close>

text \<open>C20: when two audit logs both pass \<open>Verify\<close> and the last events of an organization carry the same hash, then,
  read back from there, they hold the same canonical payloads for that organization, event by event, over the events
  with hashes and one event further, the one the first hash was made over; unless two of the payloads collide under
  SHA-256. Only events without hashes before that one, an old prefix that the code tolerates, are not bound. In
  particular two logs whose events all carry hashes are the same to their beginning: no event can be edited, dropped,
  inserted or reordered without changing the hash of the last one.\<close>

theorem Verify_tamper_evident:
  assumes "Verify xs = None" "Verify ys = None"
    and "chain_of org xs \<noteq> []" "chain_of org ys \<noteq> []" "aud_Hash (last (chain_of org xs)) \<noteq> []"
    and "aud_Hash (last (chain_of org xs)) = aud_Hash (last (chain_of org ys))"
    and "collision_free (Canonical ` (set (chain_of org xs) \<union> set (chain_of org ys)))"
    and n: "n = Suc (min (length (hashed_part (rev (chain_of org xs)))) (length (hashed_part (rev (chain_of org ys)))))"
  shows "map Canonical (take n (rev (chain_of org xs))) = map Canonical (take n (rev (chain_of org ys)))"
proof (rule linked_tamper [OF _ _ _ _ _ n])
  show "linked (rev (chain_of org xs))" "linked (rev (chain_of org ys))" using assms(1,2) Verify_linked by blast+
  have "head_hash (rev zs) = aud_Hash (last zs)" if "zs \<noteq> []" "aud_Hash (last zs) \<noteq> []" for zs
    using that by (cases zs rule: rev_cases) (simp_all add: head_hash_def expected_prev_def)
  then show "head_hash (rev (chain_of org xs)) = head_hash (rev (chain_of org ys))" using assms(3-6) by simp
  show "\<forall>e\<in>set (rev (chain_of org xs)) \<union> set (rev (chain_of org ys)). Normalize e = e" by (auto simp: chain_of_def)
qed (use assms(7) in simp)

theorem Verify_tamper_evident_witness:
  defines "e \<equiv> Link (zero_audit_event\<lparr> aud_OrganizationID := ''org'' \<rparr>) None"
  shows "Verify [e] = None \<and> chain_of ''org'' [e] = [e] \<and> aud_Hash e \<noteq> []
    \<and> map Canonical (take 2 (rev (chain_of ''org'' [e]))) = map Canonical (take 2 (rev (chain_of ''org'' [e])))"
proof -
  have t: "trim_space ''org'' = ''org''" by code_simp
  note link = Link_eq [of None "zero_audit_event\<lparr> aud_OrganizationID := ''org'' \<rparr>", simplified, folded e_def]
  have v: "Verify [e] = None"
    using Verify_append_Link [of "[]" "zero_audit_event\<lparr> aud_OrganizationID := ''org'' \<rparr>"] t
    by (simp add: e_def last_of_def)
  have c: "chain_of ''org'' [e] = [e]" using link t by (simp add: chain_of_def)
  have h: "aud_Hash e \<noteq> []" using link by simp
  show ?thesis
    using Verify_tamper_evident [OF v v, of "''org''" 2] v c h by (simp add: collision_free_def)
qed

end
