(* ===== verification/Texts.thy ===== *)
theory Texts
  imports Main
begin

text \<open>
  The non-ASCII string constants of the source that a modelled definition compares or stores, as
  their UTF-8 bytes.
\<close>

definition txt_role_developer :: string where
  "txt_role_developer = [
    CHR 0xE5, CHR 0x90, CHR 0x8E, CHR 0xE7, CHR 0xAB, CHR 0xAF, CHR 0xE5, CHR 0xBC, CHR 0x80,
    CHR 0xE5, CHR 0x8F, CHR 0x91]"

definition txt_role_reviewer :: string where
  "txt_role_reviewer = [
    CHR 0xE6, CHR 0x95, CHR 0xB0, CHR 0xE6, CHR 0x8D, CHR 0xAE, CHR 0xE5, CHR 0xBA, CHR 0x93,
    CHR 0xE5, CHR 0xAE, CHR 0xA1, CHR 0xE6, CHR 0xA0, CHR 0xB8, CHR 0xE4, CHR 0xBA, CHR 0xBA]"

definition txt_role_owner :: string where
  "txt_role_owner = [
    CHR 0xE6, CHR 0x8A, CHR 0x80, CHR 0xE6, CHR 0x9C, CHR 0xAF, CHR 0xE8, CHR 0xB4, CHR 0x9F,
    CHR 0xE8, CHR 0xB4, CHR 0xA3, CHR 0xE4, CHR 0xBA, CHR 0xBA]"

definition txt_passport_expired_detail :: string where
  "txt_passport_expired_detail = [
    CHR 0xE7, CHR 0xAD, CHR 0xBE, CHR 0xE5, CHR 0x8F, CHR 0x91, CHR 0xE6, CHR 0x96, CHR 0xB0,
    CHR 0xE9, CHR 0x80, CHR 0x9A, CHR 0xE8, CHR 0xA1, CHR 0x8C, CHR 0xE8, CHR 0xAF, CHR 0x81,
    CHR 0xE5, CHR 0x89, CHR 0x8D, CHR 0xE7, CHR 0x89, CHR 0xA9, CHR 0xE5, CHR 0x8C, CHR 0x96,
    CHR 0xE6, CHR 0x97, CHR 0xA2, CHR 0xE6, CHR 0x9C, CHR 0x89, CHR 0xE9, CHR 0x80, CHR 0x9A,
    CHR 0xE8, CHR 0xA1, CHR 0x8C, CHR 0xE8, CHR 0xAF, CHR 0x81, CHR 0xE8, CHR 0x87, CHR 0xAA,
    CHR 0xE7, CHR 0x84, CHR 0xB6, CHR 0xE8, CHR 0xBF, CHR 0x87, CHR 0xE6, CHR 0x9C, CHR 0x9F,
    CHR 0xE7, CHR 0x8A, CHR 0xB6, CHR 0xE6, CHR 0x80, CHR 0x81]"

definition txt_consumed_title :: string where
  "txt_consumed_title = [
    CHR 0x43, CHR 0x49, CHR 0x20, CHR 0xE9, CHR 0x80, CHR 0x9A, CHR 0xE8, CHR 0xA1, CHR 0x8C,
    CHR 0xE8, CHR 0xAF, CHR 0x81, CHR 0xE5, CHR 0xB7, CHR 0xB2, CHR 0xE6, CHR 0xB6, CHR 0x88,
    CHR 0xE8, CHR 0xB4, CHR 0xB9]"

definition txt_consumed_detail :: string where
  "txt_consumed_detail = [
    CHR 0xE5, CHR 0x88, CHR 0xB6, CHR 0xE5, CHR 0x93, CHR 0x81, CHR 0xE6, CHR 0x91, CHR 0x98,
    CHR 0xE8, CHR 0xA6, CHR 0x81, CHR 0xE3, CHR 0x80, CHR 0x81, CHR 0xE7, CHR 0x8E, CHR 0xAF,
    CHR 0xE5, CHR 0xA2, CHR 0x83, CHR 0xE4, CHR 0xB8, CHR 0x8E, CHR 0xE8, CHR 0xA7, CHR 0x84,
    CHR 0xE5, CHR 0x88, CHR 0x99, CHR 0xE7, CHR 0x89, CHR 0x88, CHR 0xE6, CHR 0x9C, CHR 0xAC,
    CHR 0xE9, CHR 0xAA, CHR 0x8C, CHR 0xE8, CHR 0xAF, CHR 0x81, CHR 0xE9, CHR 0x80, CHR 0x9A,
    CHR 0xE8, CHR 0xBF, CHR 0x87, CHR 0xEF, CHR 0xBC, CHR 0x8C, CHR 0xE7, CHR 0x94, CHR 0x9F,
    CHR 0xE4, CHR 0xBA, CHR 0xA7, CHR 0xE5, CHR 0x8F, CHR 0x98, CHR 0xE6, CHR 0x9B, CHR 0xB4,
    CHR 0xE8, CHR 0x87, CHR 0xAA, CHR 0xE5, CHR 0x8A, CHR 0xA8, CHR 0xE9, CHR 0x97, CHR 0xAD,
    CHR 0xE7, CHR 0x8E, CHR 0xAF]"

definition txt_completed_suffix :: string where
  "txt_completed_suffix = [
    CHR 0xEF, CHR 0xBC, CHR 0x9B, CHR 0xE5, CHR 0x8F, CHR 0x98, CHR 0xE6, CHR 0x9B, CHR 0xB4,
    CHR 0xE7, CHR 0x8A, CHR 0xB6, CHR 0xE6, CHR 0x80, CHR 0x81, CHR 0xE5, CHR 0xB7, CHR 0xB2,
    CHR 0xE5, CHR 0x8E, CHR 0x9F, CHR 0xE5, CHR 0xAD, CHR 0x90, CHR 0xE6, CHR 0x9B, CHR 0xB4,
    CHR 0xE6, CHR 0x96, CHR 0xB0, CHR 0xE4, CHR 0xB8, CHR 0xBA, CHR 0x20, CHR 0x43, CHR 0x4F,
    CHR 0x4D, CHR 0x50, CHR 0x4C, CHR 0x45, CHR 0x54, CHR 0x45, CHR 0x44]"

lemma roles_distinct [simp]: "txt_role_owner \<noteq> txt_role_reviewer" "txt_role_reviewer \<noteq> txt_role_owner"
  "txt_role_owner \<noteq> txt_role_developer" "txt_role_developer \<noteq> txt_role_owner"
  "txt_role_reviewer \<noteq> txt_role_developer" "txt_role_developer \<noteq> txt_role_reviewer"
  by (simp_all add: txt_role_owner_def txt_role_reviewer_def txt_role_developer_def)

end
