(* ===== verification/Tables.thy ===== *)
theory Tables
  imports GoText
begin

text \<open>
  The collections of the store are slices searched by an identifier, from the front. This theory
  states once what the store relies on: how a search behaves after an in-place update, an append and
  a removal, and that the identifiers stay distinct. Each collection of the store is an instance.
\<close>

definition lookup_by :: "('a \<Rightarrow> 'k) \<Rightarrow> 'k \<Rightarrow> 'a list \<Rightarrow> 'a option" where
  "lookup_by key k xs = List.find (\<lambda>x. key x = k) xs"

definition index_by :: "('a \<Rightarrow> 'k) \<Rightarrow> 'k \<Rightarrow> 'a list \<Rightarrow> nat option" where
  "index_by key k xs = find_index_of (\<lambda>x. key x = k) xs"

lemma lookup_by_Nil [simp]: "lookup_by key k [] = None"
  and lookup_by_Cons: "lookup_by key k (x # xs) = (if key x = k then Some x else lookup_by key k xs)"
  by (simp_all add: lookup_by_def)

lemma lookup_by_append: "lookup_by key k (xs @ ys) = (case lookup_by key k xs of None \<Rightarrow> lookup_by key k ys | Some x \<Rightarrow> Some x)"
  by (induction xs) (auto simp: lookup_by_Cons)

lemma lookup_by_None [simp]: "lookup_by key k xs = None \<longleftrightarrow> k \<notin> key ` set xs"
  by (induction xs) (auto simp: lookup_by_Cons)

lemma lookup_by_Some: "lookup_by key k xs = Some x \<Longrightarrow> x \<in> set xs \<and> key x = k"
  by (induction xs) (auto simp: lookup_by_Cons split: if_splits)

lemma lookup_by_distinct: "distinct (map key xs) \<Longrightarrow> x \<in> set xs \<Longrightarrow> lookup_by key (key x) xs = Some x"
  by (induction xs) (auto simp: lookup_by_Cons rev_image_eqI)

lemma index_by_None [simp]: "index_by key k xs = None \<longleftrightarrow> k \<notin> key ` set xs"
  by (auto simp: index_by_def)

lemma index_by_Some: "index_by key k xs = Some i \<Longrightarrow> i < length xs \<and> key (xs ! i) = k \<and> lookup_by key k xs = Some (xs ! i)"
  by (induction xs arbitrary: i) (auto simp: index_by_def lookup_by_Cons split: if_splits)

lemma index_by_lookup: "map_option ((!) xs) (index_by key k xs) = lookup_by key k xs"
  by (simp add: index_by_def lookup_by_def find_index_of_find)

lemma lookup_by_update:
  "index_by key k xs = Some i \<Longrightarrow> key y = k \<Longrightarrow>
   lookup_by key k' (xs[i := y]) = (if k' = k then Some y else lookup_by key k' xs)"
  by (induction xs arbitrary: i) (auto simp: index_by_def lookup_by_Cons split: if_splits)

lemma index_by_update:
  "i < length xs \<Longrightarrow> key y = key (xs ! i) \<Longrightarrow> index_by key k (xs[i := y]) = index_by key k xs"
  by (induction xs arbitrary: i) (auto simp: index_by_def less_Suc_eq_0_disj split: nat.splits)

lemma keys_update: "i < length xs \<Longrightarrow> key y = key (xs ! i) \<Longrightarrow> map key (xs[i := y]) = map key xs"
  by (rule map_nth_update_same)

locale keyed_table =
  fixes rows :: "'s \<Rightarrow> 'a list" and set_rows :: "'a list \<Rightarrow> 's \<Rightarrow> 's" and key :: "'a \<Rightarrow> 'k"
  assumes rows_set [simp]: "rows (set_rows xs s) = xs"
begin

definition keys_distinct :: "'s \<Rightarrow> bool" where
  "keys_distinct s \<longleftrightarrow> distinct (map key (rows s))"

lemma lookup_row_update:
  "index_by key k (rows s) = Some i \<Longrightarrow> key y = k \<Longrightarrow>
   lookup_by key k' (rows (set_rows ((rows s)[i := y]) s)) = (if k' = k then Some y else lookup_by key k' (rows s))"
  by (simp add: lookup_by_update)

lemma keys_distinct_update:
  "index_by key k (rows s) = Some i \<Longrightarrow> key y = k \<Longrightarrow> keys_distinct s \<Longrightarrow>
   keys_distinct (set_rows ((rows s)[i := y]) s)"
  by (auto simp: keys_distinct_def keys_update dest: index_by_Some)

lemma keys_distinct_append:
  "key y \<notin> key ` set (rows s) \<Longrightarrow> keys_distinct s \<Longrightarrow> keys_distinct (set_rows (rows s @ [y]) s)"
  by (simp add: keys_distinct_def)

lemma lookup_row_append:
  "key y \<notin> key ` set (rows s) \<Longrightarrow> lookup_by key (key y) (rows (set_rows (rows s @ [y]) s)) = Some y"
  using lookup_by_None [of key "key y" "rows s"] by (simp add: lookup_by_append lookup_by_Cons del: lookup_by_None)

lemma row_unique:
  "keys_distinct s \<Longrightarrow> x \<in> set (rows s) \<Longrightarrow> y \<in> set (rows s) \<Longrightarrow> key x = key y \<Longrightarrow> x = y"
  by (rule distinct_map_inj [where f = key and xs = "rows s"]) (simp_all add: keys_distinct_def)

lemma other_rows_kept:
  "index_by key k (rows s) = Some i \<Longrightarrow> x \<in> set (rows s) \<Longrightarrow> key x \<noteq> k \<Longrightarrow>
   x \<in> set (rows (set_rows ((rows s)[i := y]) s))"
  by (auto simp: in_set_conv_nth dest!: index_by_Some) (metis length_list_update nth_list_update_neq)

end

end
