(* ===== verification/Store.thy ===== *)
theory Store
  imports AuditChain Texts Tables
begin

text \<open>
  \<^verbatim>\<open>internal/store/store.go\<close>: the in-memory state of the store, the outcome of saving it, the audit
  events every mutation appends, and the operations on changes, policies and integration events.
  An operation runs under the store's lock, so it is one function from the state to its result and
  the next state. What it reads from outside (the clock, fresh identifiers, the outcome of the save)
  is in its environment. The agent conversations and model configurations of the state are not
  modelled.
\<close>

section \<open>State, environment, errors\<close>

record db =
  db_Organizations :: "organization list"
  db_Invites :: "organization_invite list"
  db_Credentials :: "user_credential list"
  db_Applications :: "application list"
  db_Users :: "user list"
  db_Changes :: "change_request list"
  db_Audits :: "audit_event list"
  db_Policies :: "risk_policy list"
  db_ApplicationGrants :: "application_grant list"
  db_Outbox :: "outbox_event list"
  db_Passports :: "stored_passport list"
  db_IntegrationEvents :: "integration_event list"
  db_OutcomeSignals :: "outcome_signal list"
  db_IdempotencyRecords :: "idempotency_record list"

definition empty_db :: db where
  "empty_db = \<lparr> db_Organizations = [], db_Invites = [], db_Credentials = [], db_Applications = [],
     db_Users = [], db_Changes = [], db_Audits = [], db_Policies = [], db_ApplicationGrants = [],
     db_Outbox = [], db_Passports = [], db_IntegrationEvents = [], db_OutcomeSignals = [],
     db_IdempotencyRecords = [] \<rparr>"

text \<open>The sentinel errors of the store and of the service. A wrapped error (\<^verbatim>\<open>%w\<close>) is the sentinel it
  wraps; \<open>IndexPanic\<close> is a run-time panic on a slice index.\<close>

datatype err =
    ErrNotFound | ErrConflict | ErrConcurrentWrite
  | ErrPassportExpired | ErrPassportInactive | ErrPassportTokenMismatch | ErrPassportChangeInvalid
  | ErrPassportReplay
  | ErrIdempotencyConflict | ErrIdempotencyPending | ErrIdempotencyClaimLost | ErrIdempotencyResultConflict
  | ErrPolicyCodeExists | ErrEventNotDead | ErrEntropy | ErrBackend
  | ErrForbidden | ErrValidation | ErrInvalidState | ErrExperiment string
  | ErrRuleSetChanged | ErrSigner
  | IndexPanic

text \<open>The outcome of \<^verbatim>\<open>saveLocked\<close>: saved, or failed with an error and the state \<^verbatim>\<open>restoreLocked\<close>
  installed from the backend or from the last persisted bytes, if it could read one.\<close>

datatype save = Saved | SaveFailed err "db option"

record env =
  env_now :: gotime
  env_later :: gotime
  env_id :: "nat \<Rightarrow> string"
  env_audit_id :: "nat \<Rightarrow> string"
  env_audit_now :: "nat \<Rightarrow> gotime"
  env_save :: save

definition saved_env :: "gotime \<Rightarrow> env" where
  "saved_env now = \<lparr> env_now = now, env_later = now, env_id = nat_str, env_audit_id = nat_str,
     env_audit_now = (\<lambda>_. now), env_save = Saved \<rparr>"

definition save_locked :: "env \<Rightarrow> db \<Rightarrow> err option \<times> db" where
  "save_locked e d =
     (case env_save e of
        Saved \<Rightarrow> (None, d)
      | SaveFailed er None \<Rightarrow> (Some er, d)
      | SaveFailed er (Some d') \<Rightarrow> (Some er, d'))"

text \<open>The common ending of a mutation: save, and return the error or the value read back from the
  state.\<close>

definition save_return :: "env \<Rightarrow> 'a \<Rightarrow> db \<Rightarrow> (err + 'a) \<times> db" where
  "save_return e x d =
     (case save_locked e d of (None, d') \<Rightarrow> (Inr x, d') | (Some er, d') \<Rightarrow> (Inl er, d'))"

lemma save_locked_Saved [simp]: "env_save e = Saved \<Longrightarrow> save_locked e d = (None, d)"
  by (simp add: save_locked_def)

lemma save_return_Saved [simp]: "env_save e = Saved \<Longrightarrow> save_return e x d = (Inr x, d)"
  by (simp add: save_return_def)

lemma saved_env_save [simp]: "env_save (saved_env n) = Saved"
  by (simp add: saved_env_def)

lemma save_return_cases:
  obtains "save_return e x d = (Inr x, d)" "env_save e = Saved"
  | er d' where "save_return e x d = (Inl er, d')" "env_save e = SaveFailed er (Some d')"
  | er where "save_return e x d = (Inl er, d)" "env_save e = SaveFailed er None"
  by (cases "env_save e") (auto simp: save_return_def save_locked_def split: option.splits prod.splits)

text \<open>A store with a single process: a failed save restores the state of the last successful one.\<close>

definition clean_save :: "env \<Rightarrow> db \<Rightarrow> bool" where
  "clean_save e d = (case env_save e of Saved \<Rightarrow> True | SaveFailed er r \<Rightarrow> r = Some d)"

lemma clean_save_Saved [simp]: "env_save e = Saved \<Longrightarrow> clean_save e d"
  by (simp add: clean_save_def)

lemma clean_save_return:
  "clean_save e d \<Longrightarrow> env_save e = Saved \<and> save_return e x d' = (Inr x, d') \<or> (\<exists>er. save_return e x d' = (Inl er, d))"
  by (cases "env_save e") (auto simp: clean_save_def save_return_def save_locked_def)

section \<open>Audit events of a mutation\<close>

definition fill_versions :: "change_request \<Rightarrow> audit_event \<Rightarrow> audit_event" where
  "fill_versions c ev =
     ev\<lparr> aud_ResourceVersionAfter :=
           (if aud_ResourceVersionAfter ev = 0 then chg_Version c else aud_ResourceVersionAfter ev),
         aud_ResourceVersionBefore :=
           (if aud_ResourceVersionBefore ev = 0 \<and> chg_Version c > 1 then chg_Version c - 1
            else aud_ResourceVersionBefore ev),
         aud_RequestDigest :=
           (if aud_RequestDigest ev = [] then chg_ArtifactSHA256 c else aud_RequestDigest ev) \<rparr>"

definition enrich_audit :: "db \<Rightarrow> audit_event \<Rightarrow> audit_event" where
  "enrich_audit d ev =
     (if aud_ChangeID ev = [] then ev
      else
        let ev = ev\<lparr> aud_ResourceType := ''CHANGE'', aud_ResourceID := aud_ChangeID ev \<rparr> in
        case List.find (\<lambda>c. chg_ID c = aud_ChangeID ev \<and> chg_OrganizationID c = aud_OrganizationID ev) (db_Changes d) of
          None \<Rightarrow> ev
        | Some c \<Rightarrow> fill_versions c ev)"

definition append_audit :: "env \<Rightarrow> db \<Rightarrow> audit_event \<Rightarrow> db" where
  "append_audit e d ev =
     (let n = length (db_Audits d);
          ev = ev\<lparr> aud_ID := (if aud_ID ev = [] then env_audit_id e n else aud_ID ev) \<rparr>;
          ev = ev\<lparr> aud_CreatedAt := (if is_zero (aud_CreatedAt ev) then env_audit_now e n else aud_CreatedAt ev) \<rparr>;
          ev = enrich_audit d ev;
          previous = last_of (aud_OrganizationID ev) (db_Audits d)
      in d\<lparr> db_Audits := db_Audits d @ [Link ev previous] \<rparr>)"

definition append_audits :: "env \<Rightarrow> audit_event list \<Rightarrow> db \<Rightarrow> db" where
  "append_audits e evs d = foldl (append_audit e) d evs"

definition VerifyAuditChain :: "db \<Rightarrow> string \<Rightarrow> audit_error option" where
  "VerifyAuditChain d org = Verify (filter (\<lambda>ev. org = [] \<or> aud_OrganizationID ev = org) (db_Audits d))"

section \<open>The audit log only grows, by linked events\<close>

text \<open>\<open>log_ext es es'\<close>: the log \<open>es'\<close> is \<open>es\<close> followed by events linked to their organization's last
  event, as \<open>append_audit\<close> links them.\<close>

inductive log_ext :: "audit_event list \<Rightarrow> audit_event list \<Rightarrow> bool" where
  log_refl [simp, intro]: "log_ext es es"
| log_step: "log_ext es es' \<Longrightarrow> trim_space (aud_OrganizationID ev) = aud_OrganizationID ev \<Longrightarrow>
    log_ext es (es' @ [Link ev (last_of (aud_OrganizationID ev) es')])"

inductive_cases log_extE: "log_ext es es'"

lemma log_ext_trans: "log_ext es es' \<Longrightarrow> log_ext es' es'' \<Longrightarrow> log_ext es es''"
  by (rotate_tac 1, induction rule: log_ext.induct) (auto intro: log_step)

lemma log_ext_prefix: "log_ext es es' \<Longrightarrow> \<exists>new. es' = es @ new"
  by (induction rule: log_ext.induct) auto

definition log_ok :: "audit_event list \<Rightarrow> bool" where
  "log_ok es \<longleftrightarrow> Verify es = None \<and> (\<forall>ev\<in>set es. stored_form ev)"

lemma log_ok_Nil [simp]: "log_ok []"
  by (simp add: log_ok_def)

lemma log_ok_ext: "log_ext es es' \<Longrightarrow> log_ok es \<Longrightarrow> log_ok es'"
proof (induction rule: log_ext.induct)
  case (log_step es es' ev)
  have prev: "case last_of (aud_OrganizationID ev) es' of None \<Rightarrow> True | Some p \<Rightarrow> stored_form p"
    using log_step by (auto simp: log_ok_def split: option.splits dest: last_of_mem)
  show ?case
    using log_step Verify_append_Link [of es' ev] Link_stored_form [OF prev, of ev]
    by (simp add: log_ok_def)
qed

text \<open>An organization's own chain verifies when the whole log does.\<close>

lemma chain_of_filter:
  "\<forall>e\<in>set es. stored_form e \<Longrightarrow>
   chain_of org (filter (\<lambda>ev. aud_OrganizationID ev = org) es) = chain_of org es"
  by (induction es) (auto simp: chain_of_def Normalize_org stored_form_def)

lemma hashed_table_chain: "hashed_table es org \<longleftrightarrow> (\<exists>e\<in>set (chain_of org es). aud_Hash e \<noteq> [])"
  by (auto simp: hashed_table_def chain_of_def)

lemma Verify_filter:
  assumes "log_ok es"
  shows "Verify (filter (\<lambda>ev. aud_OrganizationID ev = org) es) = None"
  using assms
proof (induction es rule: rev_induct)
  case (snoc e es)
  then have IH: "Verify (filter (\<lambda>ev. aud_OrganizationID ev = org) es) = None" and ok: "event_ok es e"
    and st: "\<forall>e\<in>set es. stored_form e" "stored_form e"
    by (auto simp: log_ok_def Verify_snoc)
  have "event_ok (filter (\<lambda>ev. aud_OrganizationID ev = org) es) e" if "aud_OrganizationID e = org"
    using ok that st by (auto simp: event_ok_def Let_def hashed_table_chain last_table_chain
        chain_of_filter Normalize_org stored_form_def)
  with IH show ?case by (auto simp: Verify_snoc)
qed simp

lemma VerifyAuditChain_ok: "log_ok (db_Audits d) \<Longrightarrow> VerifyAuditChain d org = None"
  using Verify_filter [of "db_Audits d" org] by (cases "org = []") (simp_all add: VerifyAuditChain_def log_ok_def)

section \<open>What appending an event leaves alone\<close>

lemma enrich_audit_org [simp]: "aud_OrganizationID (enrich_audit d ev) = aud_OrganizationID ev"
  by (simp add: enrich_audit_def fill_versions_def Let_def split: option.splits)

lemma append_audit_frame [store_frame]:
  "db_Organizations (append_audit e d ev) = db_Organizations d"
  "db_Invites (append_audit e d ev) = db_Invites d"
  "db_Credentials (append_audit e d ev) = db_Credentials d"
  "db_Applications (append_audit e d ev) = db_Applications d"
  "db_Users (append_audit e d ev) = db_Users d"
  "db_Changes (append_audit e d ev) = db_Changes d"
  "db_Policies (append_audit e d ev) = db_Policies d"
  "db_ApplicationGrants (append_audit e d ev) = db_ApplicationGrants d"
  "db_Outbox (append_audit e d ev) = db_Outbox d"
  "db_Passports (append_audit e d ev) = db_Passports d"
  "db_IntegrationEvents (append_audit e d ev) = db_IntegrationEvents d"
  "db_OutcomeSignals (append_audit e d ev) = db_OutcomeSignals d"
  "db_IdempotencyRecords (append_audit e d ev) = db_IdempotencyRecords d"
  by (simp_all add: append_audit_def Let_def)

lemma append_audits_Nil [simp]: "append_audits e [] d = d"
  and append_audits_Cons [simp]: "append_audits e (ev # evs) d = append_audits e evs (append_audit e d ev)"
  by (simp_all add: append_audits_def)

lemma append_audits_frame [store_frame]:
  "db_Organizations (append_audits e evs d) = db_Organizations d"
  "db_Invites (append_audits e evs d) = db_Invites d"
  "db_Credentials (append_audits e evs d) = db_Credentials d"
  "db_Applications (append_audits e evs d) = db_Applications d"
  "db_Users (append_audits e evs d) = db_Users d"
  "db_Changes (append_audits e evs d) = db_Changes d"
  "db_Policies (append_audits e evs d) = db_Policies d"
  "db_ApplicationGrants (append_audits e evs d) = db_ApplicationGrants d"
  "db_Outbox (append_audits e evs d) = db_Outbox d"
  "db_Passports (append_audits e evs d) = db_Passports d"
  "db_IntegrationEvents (append_audits e evs d) = db_IntegrationEvents d"
  "db_OutcomeSignals (append_audits e evs d) = db_OutcomeSignals d"
  "db_IdempotencyRecords (append_audits e evs d) = db_IdempotencyRecords d"
  by (induction evs arbitrary: d) (simp_all add: store_frame)

definition org_trimmed :: "audit_event \<Rightarrow> bool" where
  "org_trimmed ev \<longleftrightarrow> trim_space (aud_OrganizationID ev) = aud_OrganizationID ev"

lemma append_audit_log_ext:
  "org_trimmed ev \<Longrightarrow> log_ext (db_Audits d) (db_Audits (append_audit e d ev))"
  using log_step [OF log_refl, of "enrich_audit d (ev\<lparr> aud_ID := i, aud_CreatedAt := t \<rparr>)" "db_Audits d" for i t]
  by (simp add: append_audit_def Let_def org_trimmed_def)

lemma append_audits_log_ext:
  "list_all org_trimmed evs \<Longrightarrow> log_ext (db_Audits d) (db_Audits (append_audits e evs d))"
  by (induction evs arbitrary: d) (auto intro: log_ext_trans append_audit_log_ext)

section \<open>The contract of a mutation: it extends the log\<close>

text \<open>Every operation of the store meets this contract; its clients get the rest from it. \<open>pre\<close> is
  what the operation needs of its arguments and of the state (trimmed organization identifiers).\<close>

locale audited =
  fixes op :: "env \<Rightarrow> db \<Rightarrow> 'r \<times> db" and pre :: "db \<Rightarrow> bool"
  assumes extends: "env_save e = Saved \<Longrightarrow> pre d \<Longrightarrow> log_ext (db_Audits d) (db_Audits (snd (op e d)))"
begin

lemma keeps_log_ok: "env_save e = Saved \<Longrightarrow> pre d \<Longrightarrow> log_ok (db_Audits d) \<Longrightarrow> log_ok (db_Audits (snd (op e d)))"
  using extends log_ok_ext by blast

lemma append_only: "env_save e = Saved \<Longrightarrow> pre d \<Longrightarrow> \<exists>new. db_Audits (snd (op e d)) = db_Audits d @ new"
  using extends log_ext_prefix by blast

lemma keeps_chain:
  "env_save e = Saved \<Longrightarrow> pre d \<Longrightarrow> log_ok (db_Audits d) \<Longrightarrow> VerifyAuditChain (snd (op e d)) org = None"
  using keeps_log_ok VerifyAuditChain_ok by blast

end

section \<open>The tables of the store\<close>

interpretation changes: keyed_table db_Changes "\<lambda>xs d. d\<lparr> db_Changes := xs \<rparr>" chg_ID
  by unfold_locales simp

interpretation policies: keyed_table db_Policies "\<lambda>xs d. d\<lparr> db_Policies := xs \<rparr>" pol_ID
  by unfold_locales simp

interpretation users: keyed_table db_Users "\<lambda>xs d. d\<lparr> db_Users := xs \<rparr>" usr_ID
  by unfold_locales simp

interpretation applications: keyed_table db_Applications "\<lambda>xs d. d\<lparr> db_Applications := xs \<rparr>" app_ID
  by unfold_locales simp

interpretation organizations: keyed_table db_Organizations "\<lambda>xs d. d\<lparr> db_Organizations := xs \<rparr>" org_ID
  by unfold_locales simp

section \<open>Changes, users, applications\<close>

definition find_or_not_found :: "'a option \<Rightarrow> err + 'a" where
  "find_or_not_found r = (case r of None \<Rightarrow> Inl ErrNotFound | Some x \<Rightarrow> Inr x)"

definition Change :: "db \<Rightarrow> string \<Rightarrow> err + change_request" where
  "Change d i = find_or_not_found (lookup_by chg_ID i (db_Changes d))"

definition User :: "db \<Rightarrow> string \<Rightarrow> err + user" where
  "User d i = find_or_not_found (lookup_by usr_ID i (db_Users d))"

definition Application :: "db \<Rightarrow> string \<Rightarrow> err + application" where
  "Application d i = find_or_not_found (lookup_by app_ID i (db_Applications d))"

definition CreateChange :: "change_request \<Rightarrow> audit_event \<Rightarrow> env \<Rightarrow> db \<Rightarrow> (err + unit) \<times> db" where
  "CreateChange change ev e d =
     save_return e () (append_audit e (d\<lparr> db_Changes := db_Changes d @ [change] \<rparr>) ev)"

text \<open>An update function mutates the stored change in place and may then fail: what it wrote before
  failing stays.\<close>

type_synonym 'a update = "'a \<Rightarrow> err option \<times> 'a"

definition UpdateChange ::
  "string \<Rightarrow> change_request update \<Rightarrow> audit_event list \<Rightarrow> env \<Rightarrow> db \<Rightarrow> (err + change_request) \<times> db" where
  "UpdateChange i upd evs e d =
     (case index_by chg_ID i (db_Changes d) of
        None \<Rightarrow> (Inl ErrNotFound, d)
      | Some n \<Rightarrow>
          (case upd (db_Changes d ! n) of
             (Some er, c) \<Rightarrow> (Inl er, d\<lparr> db_Changes := (db_Changes d)[n := c] \<rparr>)
           | (None, c) \<Rightarrow>
               let c = c\<lparr> chg_UpdatedAt := env_now e, chg_Version := chg_Version c + 1 \<rparr>
               in save_return e c (append_audits e evs (d\<lparr> db_Changes := (db_Changes d)[n := c] \<rparr>))))"

section \<open>Risk policies\<close>

definition Policy :: "db \<Rightarrow> string \<Rightarrow> err + risk_policy" where
  "Policy d i = find_or_not_found (lookup_by pol_ID i (db_Policies d))"

definition PolicyByCode :: "db \<Rightarrow> string \<Rightarrow> err + risk_policy" where
  "PolicyByCode d code = find_or_not_found (lookup_by pol_Code code (db_Policies d))"

definition PolicyForOrganization :: "db \<Rightarrow> string \<Rightarrow> string \<Rightarrow> err + risk_policy" where
  "PolicyForOrganization d org i =
     find_or_not_found (List.find (\<lambda>p. pol_OrganizationID p = org \<and> pol_ID p = i) (db_Policies d))"

definition PolicyByCodeForOrganization :: "db \<Rightarrow> string \<Rightarrow> string \<Rightarrow> err + risk_policy" where
  "PolicyByCodeForOrganization d org code =
     find_or_not_found (List.find (\<lambda>p. pol_OrganizationID p = org \<and> pol_Code p = code) (db_Policies d))"

definition CreatePolicy :: "risk_policy \<Rightarrow> audit_event \<Rightarrow> env \<Rightarrow> db \<Rightarrow> (err + unit) \<times> db" where
  "CreatePolicy policy ev e d =
     (if list_ex (\<lambda>p. pol_OrganizationID p = pol_OrganizationID policy \<and> pol_Code p = pol_Code policy) (db_Policies d)
      then (Inl ErrPolicyCodeExists, d)
      else save_return e () (append_audit e (d\<lparr> db_Policies := db_Policies d @ [policy] \<rparr>) ev))"

definition UpdatePolicy ::
  "string \<Rightarrow> risk_policy update \<Rightarrow> audit_event list \<Rightarrow> env \<Rightarrow> db \<Rightarrow> (err + risk_policy) \<times> db" where
  "UpdatePolicy i upd evs e d =
     (case index_by pol_ID i (db_Policies d) of
        None \<Rightarrow> (Inl ErrNotFound, d)
      | Some n \<Rightarrow>
          (case upd (db_Policies d ! n) of
             (Some er, p) \<Rightarrow> (Inl er, d\<lparr> db_Policies := (db_Policies d)[n := p] \<rparr>)
           | (None, p) \<Rightarrow>
               let p = p\<lparr> pol_Version := pol_Version p + 1, pol_UpdatedAt := env_now e \<rparr>
               in save_return e p (append_audits e evs (d\<lparr> db_Policies := (db_Policies d)[n := p] \<rparr>))))"

definition hit_policy :: "gotime \<Rightarrow> risk_policy \<Rightarrow> risk_policy" where
  "hit_policy now p = p\<lparr> pol_HitCount := pol_HitCount p + 1, pol_LastHitAt := Some now \<rparr>"

definition RecordPolicyHits :: "string list \<Rightarrow> env \<Rightarrow> db \<Rightarrow> (err + unit) \<times> db" where
  "RecordPolicyHits codes e d =
     (if codes = [] then (Inr (), d)
      else save_return e ()
        (d\<lparr> db_Policies := map (\<lambda>p. if pol_Code p \<in> set codes then hit_policy (env_now e) p else p) (db_Policies d) \<rparr>))"

definition RecordPolicyHitsForOrganization :: "string \<Rightarrow> string list \<Rightarrow> env \<Rightarrow> db \<Rightarrow> (err + unit) \<times> db" where
  "RecordPolicyHitsForOrganization org codes e d =
     (if codes = [] then (Inr (), d)
      else save_return e ()
        (d\<lparr> db_Policies := map (\<lambda>p. if pol_OrganizationID p = org \<and> pol_Code p \<in> set codes
                                     then hit_policy (env_now e) p else p) (db_Policies d) \<rparr>))"

section \<open>Integration events and outcome signals\<close>

definition RecordIntegrationEvent ::
  "integration_event \<Rightarrow> audit_event \<Rightarrow> env \<Rightarrow> db \<Rightarrow> (err + integration_event \<times> bool) \<times> db" where
  "RecordIntegrationEvent event ev e d =
     (case List.find (\<lambda>x. int_OrganizationID x = int_OrganizationID event \<and> int_Provider x = int_Provider event
                          \<and> int_ExternalID x = int_ExternalID event) (db_IntegrationEvents d) of
        Some existing \<Rightarrow> (Inr (existing, False), d)
      | None \<Rightarrow>
          save_return e (event, True)
            (append_audit e (d\<lparr> db_IntegrationEvents := db_IntegrationEvents d @ [event] \<rparr>) ev))"

definition RecordOutcomeSignal ::
  "outcome_signal \<Rightarrow> audit_event \<Rightarrow> env \<Rightarrow> db \<Rightarrow> (err + outcome_signal \<times> bool) \<times> db" where
  "RecordOutcomeSignal signal ev e d =
     (case List.find (\<lambda>x. sig_OrganizationID x = sig_OrganizationID signal \<and> sig_Source x = sig_Source signal
                          \<and> sig_ExternalID x = sig_ExternalID signal) (db_OutcomeSignals d) of
        Some existing \<Rightarrow> (Inr (existing, False), d)
      | None \<Rightarrow>
          save_return e (signal, True)
            (append_audit e (d\<lparr> db_OutcomeSignals := db_OutcomeSignals d @ [signal] \<rparr>) ev))"

section \<open>The mutations meet the contract\<close>

lemma log_ext_save_return:
  "env_save e = Saved \<Longrightarrow> log_ext es (db_Audits d) \<Longrightarrow> log_ext es (db_Audits (snd (save_return e x d)))"
  by simp

lemma append_audit_after:
  "org_trimmed ev \<Longrightarrow> db_Audits d = es \<Longrightarrow> log_ext es (db_Audits (append_audit e d ev))"
  using append_audit_log_ext by blast

lemma append_audits_after:
  "list_all org_trimmed evs \<Longrightarrow> db_Audits d = es \<Longrightarrow> log_ext es (db_Audits (append_audits e evs d))"
  using append_audits_log_ext by blast

lemmas log_ext_intros = append_audit_after append_audits_after

interpretation create_change: audited "CreateChange change ev" "\<lambda>_. org_trimmed ev" for change ev
  by unfold_locales (auto simp: CreateChange_def intro!: log_ext_intros)

interpretation update_change: audited "UpdateChange i upd evs" "\<lambda>_. list_all org_trimmed evs" for i upd evs
  by unfold_locales (auto simp: UpdateChange_def Let_def split: option.splits prod.splits intro!: log_ext_intros)

interpretation create_policy: audited "CreatePolicy policy ev" "\<lambda>_. org_trimmed ev" for policy ev
  by unfold_locales (auto simp: CreatePolicy_def intro!: log_ext_intros)

interpretation update_policy: audited "UpdatePolicy i upd evs" "\<lambda>_. list_all org_trimmed evs" for i upd evs
  by unfold_locales (auto simp: UpdatePolicy_def Let_def split: option.splits prod.splits intro!: log_ext_intros)

interpretation record_hits: audited "RecordPolicyHits codes" "\<lambda>_. True" for codes
  by unfold_locales (auto simp: RecordPolicyHits_def)

interpretation record_hits_org: audited "RecordPolicyHitsForOrganization org codes" "\<lambda>_. True" for org codes
  by unfold_locales (auto simp: RecordPolicyHitsForOrganization_def)

interpretation record_integration: audited "RecordIntegrationEvent event ev" "\<lambda>_. org_trimmed ev" for event ev
  by unfold_locales (auto simp: RecordIntegrationEvent_def split: option.splits intro!: log_ext_intros)

interpretation record_signal: audited "RecordOutcomeSignal signal ev" "\<lambda>_. org_trimmed ev" for signal ev
  by unfold_locales (auto simp: RecordOutcomeSignal_def split: option.splits intro!: log_ext_intros)

section \<open>What the operations do\<close>

lemma UpdateChange_found:
  assumes "env_save e = Saved" and n: "index_by chg_ID i (db_Changes d) = Some n"
    and upd: "upd (db_Changes d ! n) = (None, c)"
  defines "c' \<equiv> c\<lparr> chg_UpdatedAt := env_now e, chg_Version := chg_Version c + 1 \<rparr>"
  shows "UpdateChange i upd evs e d =
           (Inr c', append_audits e evs (d\<lparr> db_Changes := (db_Changes d)[n := c'] \<rparr>))"
  using assms by (simp add: UpdateChange_def Let_def)

lemma UpdateChange_Inr:
  assumes "UpdateChange i upd evs e d = (Inr c', d')"
  obtains n c where "env_save e = Saved" "index_by chg_ID i (db_Changes d) = Some n"
    "upd (db_Changes d ! n) = (None, c)"
    "c' = c\<lparr> chg_UpdatedAt := env_now e, chg_Version := chg_Version c + 1 \<rparr>"
    "d' = append_audits e evs (d\<lparr> db_Changes := (db_Changes d)[n := c'] \<rparr>)"
  using assms
  by (auto simp: UpdateChange_def Let_def save_return_def save_locked_def
      split: option.splits prod.splits save.splits)

definition policy_scope :: "risk_policy \<Rightarrow> string \<times> string" where
  "policy_scope p = (pol_OrganizationID p, pol_Code p)"

lemma CreatePolicy_scopes:
  "env_save e = Saved \<Longrightarrow> distinct (map policy_scope (db_Policies d)) \<Longrightarrow>
   distinct (map policy_scope (db_Policies (snd (CreatePolicy policy ev e d))))"
  by (auto simp: CreatePolicy_def store_frame policy_scope_def list_ex_iff)

definition int_scope :: "integration_event \<Rightarrow> string \<times> string \<times> string" where
  "int_scope x = (int_OrganizationID x, int_Provider x, int_ExternalID x)"

lemma find_int_scope:
  "List.find (\<lambda>x. int_OrganizationID x = int_OrganizationID event \<and> int_Provider x = int_Provider event
                \<and> int_ExternalID x = int_ExternalID event) = lookup_by int_scope (int_scope event)"
  by (rule ext) (simp add: lookup_by_def int_scope_def)

text \<open>C26: after a restart-free run the audit log of every organization verifies: appending any events with
  trimmed organization identifiers to a log that verifies leaves every organization's chain
  verified, whatever the clock, the generated identifiers and the changes they refer to.\<close>

theorem append_audits_keep_chains:
  assumes "log_ok (db_Audits d)" and "list_all org_trimmed evs"
  shows "VerifyAuditChain (append_audits e evs d) org = None"
  using assms log_ok_ext append_audits_log_ext VerifyAuditChain_ok by blast

definition sample_event :: audit_event where
  "sample_event = zero_audit_event\<lparr> aud_OrganizationID := ''org_1'', aud_Action := ''CREATE'' \<rparr>"

lemma sample_event_trimmed [simp]: "org_trimmed sample_event"
  unfolding org_trimmed_def sample_event_def by (simp, code_simp)

theorem append_audits_keep_chains_witness:
  "VerifyAuditChain (append_audits (saved_env 1) [sample_event, sample_event] empty_db) ''org_1'' = None"
  by (rule append_audits_keep_chains) (simp_all add: empty_db_def)

text \<open>An event whose organization identifier has surrounding white space is linked to the wrong
  predecessor: when its organization already has hashed events, the log stops verifying after the append
  (the search for the previous event compares the raw identifier, the link stores the trimmed one).\<close>

lemma append_untrimmed_breaks_chain:
  assumes ok: "log_ok (db_Audits d)" and "\<not> org_trimmed ev"
    and p: "p \<in> set (db_Audits d)" "aud_OrganizationID p = trim_space (aud_OrganizationID ev)" "aud_Hash p \<noteq> []"
  shows "Verify (db_Audits (append_audit e d ev)) \<noteq> None"
proof -
  let ?es = "db_Audits d" and ?org = "trim_space (aud_OrganizationID ev)"
  have st: "\<forall>e\<in>set ?es. stored_form e" using ok by (simp add: log_ok_def)
  have none: "last_of (aud_OrganizationID ev) ?es = None"
  proof (rule ccontr)
    assume "last_of (aud_OrganizationID ev) ?es \<noteq> None"
    then obtain q where "q \<in> set ?es" "aud_OrganizationID q = aud_OrganizationID ev"
      using last_of_mem by fastforce
    with st assms(2) show False by (auto simp: stored_form_def org_trimmed_def)
  qed
  obtain ev' where ev': "db_Audits (append_audit e d ev) = ?es @ [Link ev' None]"
    and org: "aud_OrganizationID ev' = aud_OrganizationID ev"
    by (simp add: append_audit_def Let_def none)
  note link = Link_eq [of None ev', simplified]
  obtain q where q: "last_of ?org (map Normalize ?es) = Some q"
  proof (cases "last_of ?org (map Normalize ?es)")
    case None
    then have "\<forall>x\<in>set ?es. aud_OrganizationID (Normalize x) \<noteq> ?org"
      by (auto simp: last_of_def find_None_iff)
    with p st show ?thesis by (auto simp: Normalize_org stored_form_def)
  qed
  have "expected_prev (Some q) \<noteq> []" by (simp add: expected_prev_def)
  then have "\<not> event_ok ?es (Link ev' None)"
    using link org q by (auto simp: event_ok_def Let_def last_table_def expected_prev_def)
  with ev' show ?thesis by (simp add: Verify_snoc)
qed

lemma append_untrimmed_breaks_chain_witness:
  defines "d \<equiv> append_audit (saved_env 1) empty_db sample_event"
  shows "Verify (db_Audits (append_audit (saved_env 1) d (sample_event\<lparr> aud_OrganizationID := '' org_1'' \<rparr>))) \<noteq> None"
proof -
  have "db_Audits d \<noteq> []" by (simp add: d_def append_audit_def Let_def)
  have ok: "log_ok (db_Audits d)"
    unfolding d_def by (rule log_ok_ext [OF append_audit_log_ext]) (simp_all add: empty_db_def)
  obtain ev where d: "db_Audits d = [Link ev None]" and org: "aud_OrganizationID ev = ''org_1''"
    by (simp add: d_def append_audit_def Let_def empty_db_def last_of_def sample_event_def)
  have t: "trim_space ''org_1'' = ''org_1''" "trim_space '' org_1'' = ''org_1''" by code_simp+
  show ?thesis
    by (rule append_untrimmed_breaks_chain [OF ok, of _ "Link ev None"])
      (use Link_eq [of None ev] in \<open>simp_all add: org_trimmed_def d org t\<close>)
qed

end
