(* ===== verification/Integrity.thy ===== *)
theory Integrity
  imports GoModel GoJson GoCrypto "HOL-Library.List_Lexorder" "HOL-Library.Char_ord" "HOL-Library.Multiset"
begin

text \<open>
  The digests of \<^verbatim>\<open>internal/changegate/integrity.go\<close> that bind an approval to what was approved: the
  digest of a change (\<open>ChangeDigest\<close>) and the version of the enabled risk rules
  (\<open>RuleSetVersion\<close>). Both are shown to determine what they cover unless SHA-256 collides, and the
  rule version not to depend on the order of the rules or on the disabled ones.
\<close>

definition SHA256 :: "string \<Rightarrow> string" where
  "SHA256 s = hex_encode (sha256_sum s)"

lemma SHA256_hex [simp]: "list_all lower_hex (SHA256 s)" "length (SHA256 s) = 64"
  by (simp_all add: SHA256_def hex_encode_lower_hex)

lemma SHA256_nonempty: "SHA256 s \<noteq> []"
  by (metis SHA256_hex(2) list.size(3) zero_neq_numeral)

text \<open>No two different payloads of a set share their SHA-256.\<close>

definition no_collision :: "string set \<Rightarrow> bool" where
  "no_collision S \<longleftrightarrow> inj_on sha256_sum S"

lemma SHA256_no_collision:
  "no_collision S \<Longrightarrow> a \<in> S \<Longrightarrow> b \<in> S \<Longrightarrow> SHA256 a = SHA256 b \<longleftrightarrow> a = b"
  by (auto simp: no_collision_def SHA256_def dest: inj_onD)

section \<open>The digest of a change\<close>

definition digest_artifact :: "change_artifact \<Rightarrow> json" where
  "digest_artifact a =
     JObj [(''kind'', JStr (art_Kind a)), (''name'', JStr (trim_space (art_Name a))),
           (''source'', JStr (trim_space (art_Source a))), (''language'', JStr (trim_space (art_Language a))),
           (''content_sha256'', JStr (art_ContentSHA256 a))]"

definition digest_envelope ::
  "string \<Rightarrow> string \<Rightarrow> change_artifact list \<Rightarrow> string \<Rightarrow> string \<Rightarrow> string \<Rightarrow> json" where
  "digest_envelope environment changeType artifacts sqlSHA256 rollbackSHA256 rollbackPlan =
     JObj [(''environment'', JStr (trim_space environment)), (''change_type'', JStr (trim_space changeType)),
           (''artifacts'', if artifacts = [] then JNull else JArr (map digest_artifact artifacts)),
           (''sql_sha256'', JStr sqlSHA256), (''rollback_sql_sha256'', JStr rollbackSHA256),
           (''rollback_plan_sha256'', JStr (SHA256 rollbackPlan))]"

definition ChangeDigest ::
  "string \<Rightarrow> string \<Rightarrow> change_artifact list \<Rightarrow> string \<Rightarrow> string \<Rightarrow> string \<Rightarrow> string" where
  "ChangeDigest environment changeType artifacts sqlSHA256 rollbackSHA256 rollbackPlan =
     SHA256 (json_enc (digest_envelope environment changeType artifacts sqlSHA256 rollbackSHA256 rollbackPlan))"

definition artifact_key :: "change_artifact \<Rightarrow> string \<times> string \<times> string \<times> string \<times> string" where
  "artifact_key a = (art_Kind a, trim_space (art_Name a), trim_space (art_Source a), trim_space (art_Language a),
     art_ContentSHA256 a)"

lemma digest_artifact_inj: "digest_artifact a = digest_artifact b \<longleftrightarrow> artifact_key a = artifact_key b"
  by (auto simp: digest_artifact_def artifact_key_def)

lemma map_factor:
  assumes h: "\<And>a b. f a = f b \<Longrightarrow> g a = g b" and "map f as = map f bs"
  shows "map g as = map g bs"
  using assms(2)
proof (induction as arbitrary: bs)
  case (Cons a as)
  then obtain b bs' where bs: "bs = b # bs'" "f a = f b" "map f as = map f bs'" by auto
  show ?case using h [OF bs(2)] Cons.IH [OF bs(3)] bs(1) by simp
qed simp

lemma map_digest_artifact_inj: "map digest_artifact as = map digest_artifact bs \<Longrightarrow> map artifact_key as = map artifact_key bs"
  using map_factor [of digest_artifact artifact_key as bs] digest_artifact_inj by blast

lemma digest_envelope_inj:
  assumes "digest_envelope e t as s r p = digest_envelope e' t' as' s' r' p'"
  shows "trim_space e = trim_space e'" "trim_space t = trim_space t'" "map artifact_key as = map artifact_key as'"
    "s = s'" "r = r'" "SHA256 p = SHA256 p'"
  using assms by (auto simp: digest_envelope_def split: if_splits dest: map_digest_artifact_inj)

section \<open>The version of the enabled rules\<close>

definition rule_line :: "risk_policy \<Rightarrow> string" where
  "rule_line p =
     pol_Code p @ ''|'' @ int_str (pol_Version p) @ ''|'' @ bool_str (pol_Blocking p) @ ''|'' @ pol_Pattern p @ ''|''
     @ join_str '','' (pol_Environments p) @ ''|'' @ join_str '','' (pol_ChangeTypes p) @ ''|''
     @ join_str '','' (pol_ArtifactKinds p)"

definition rule_lines :: "risk_policy list \<Rightarrow> string list" where
  "rule_lines policies = sort (map rule_line (filter pol_Enabled policies))"

definition RuleSetVersion :: "risk_policy list \<Rightarrow> string" where
  "RuleSetVersion policies = ''sha256:'' @ SHA256 (join_str [CHR 0x0A] (rule_lines policies))"

lemma rule_lines_mset:
  "mset (map rule_line (filter pol_Enabled ps)) = mset (map rule_line (filter pol_Enabled qs)) \<longleftrightarrow>
   rule_lines ps = rule_lines qs"
proof
  assume "mset (map rule_line (filter pol_Enabled ps)) = mset (map rule_line (filter pol_Enabled qs))"
  then show "rule_lines ps = rule_lines qs"
    unfolding rule_lines_def by (intro properties_for_sort) simp_all
next
  assume "rule_lines ps = rule_lines qs"
  then have "mset (rule_lines ps) = mset (rule_lines qs)" by simp
  then show "mset (map rule_line (filter pol_Enabled ps)) = mset (map rule_line (filter pol_Enabled qs))"
    by (simp only: rule_lines_def mset_sort)
qed

lemma append_sep_inj: "c \<notin> set x \<Longrightarrow> c \<notin> set z \<Longrightarrow> x @ c # r = z @ c # r' \<Longrightarrow> x = z \<and> r = r'"
proof (induction x arbitrary: z)
  case Nil
  then show ?case by (cases z) auto
next
  case (Cons a x)
  then show ?case by (cases z) auto
qed

lemma join_lines_inj:
  assumes "\<forall>x\<in>set xs \<union> set ys. CHR 0x0A \<notin> set x \<and> x \<noteq> []"
    and "join_str [CHR 0x0A] xs = join_str [CHR 0x0A] ys"
  shows "xs = ys"
  using assms
proof (induction "[CHR 0x0A] :: string" xs arbitrary: ys rule: join_str.induct)
  case 1
  then show ?case by (cases ys rule: remdups_adj.cases) auto
next
  case (2 x)
  then show ?case by (cases ys rule: remdups_adj.cases) auto
next
  case (3 x y xs)
  show ?case
  proof (cases ys)
    case Nil
    with 3 show ?thesis by simp
  next
    case (Cons z zs)
    show ?thesis
    proof (cases zs)
      case Nil
      with 3 Cons have "CHR 0x0A \<in> set z" by (metis append_Cons in_set_conv_decomp join_str.simps(2,3) append_Nil)
      with 3 Cons show ?thesis by simp
    next
      case (Cons u us)
      with 3 \<open>ys = z # zs\<close> have eq: "x @ CHR 0x0A # join_str [CHR 0x0A] (y # xs) = z @ CHR 0x0A # join_str [CHR 0x0A] (u # us)"
        by simp
      have "x = z \<and> join_str [CHR 0x0A] (y # xs) = join_str [CHR 0x0A] (u # us)"
        by (rule append_sep_inj [OF _ _ eq]) (use 3(2) \<open>ys = z # zs\<close> in simp_all)
      moreover have "\<forall>x\<in>set (y # xs) \<union> set (u # us). CHR 0x0A \<notin> set x \<and> x \<noteq> []"
        using 3(2) Cons \<open>ys = z # zs\<close> by auto
      ultimately show ?thesis using 3(1) [of "u # us"] Cons \<open>ys = z # zs\<close> by auto
    qed
  qed
qed

lemma rule_line_nonempty [simp]: "rule_line p \<noteq> []"
  by (simp add: rule_line_def)

lemma RuleSetVersion_lines:
  assumes "no_collision {join_str [CHR 0x0A] (rule_lines ps), join_str [CHR 0x0A] (rule_lines qs)}"
    and "\<forall>p\<in>set ps \<union> set qs. CHR 0x0A \<notin> set (rule_line p)"
    and "RuleSetVersion ps = RuleSetVersion qs"
  shows "rule_lines ps = rule_lines qs"
proof (rule join_lines_inj)
  show "join_str [CHR 0x0A] (rule_lines ps) = join_str [CHR 0x0A] (rule_lines qs)"
    using assms(1,3) by (auto simp: RuleSetVersion_def SHA256_no_collision)
  show "\<forall>x\<in>set (rule_lines ps) \<union> set (rule_lines qs). CHR 0x0A \<notin> set x \<and> x \<noteq> []"
    using assms(2) by (auto simp: rule_lines_def)
qed

lemma digit_no_bar: "digit_char c \<Longrightarrow> c \<noteq> CHR ''|''"
  by (auto simp: digit_char_def Let_def)

lemma int_str_no_bar [simp]: "CHR ''|'' \<notin> set (int_str i)"
proof -
  have "CHR ''|'' \<notin> set (nat_str n)" for n
    using nat_str_digits [of n] digit_no_bar by (auto simp: list_all_iff)
  then show ?thesis by (auto simp: int_str_def)
qed

lemma int_str_eq_iff: "int_str i = int_str j \<longleftrightarrow> i = j"
  using int_str_inj [of i "[]" j "[]"] by (auto simp: stops_def)

lemma rule_line_version:
  assumes "CHR ''|'' \<notin> set (pol_Code p)" "CHR ''|'' \<notin> set (pol_Code q)" and "rule_line p = rule_line q"
  shows "pol_Code p = pol_Code q \<and> pol_Version p = pol_Version q"
proof -
  obtain r r' where eq: "pol_Code p @ CHR ''|'' # int_str (pol_Version p) @ CHR ''|'' # r
      = pol_Code q @ CHR ''|'' # int_str (pol_Version q) @ CHR ''|'' # r'"
    using assms(3) by (simp add: rule_line_def)
  have "pol_Code p = pol_Code q \<and> int_str (pol_Version p) @ CHR ''|'' # r = int_str (pol_Version q) @ CHR ''|'' # r'"
    by (rule append_sep_inj [OF assms(1,2) eq])
  moreover from this have "int_str (pol_Version p) = int_str (pol_Version q)"
    using append_sep_inj [OF int_str_no_bar int_str_no_bar] by blast
  ultimately show ?thesis by (simp add: int_str_eq_iff)
qed

text \<open>The enabled rules of a set after one rule is replaced.\<close>

lemma filter_map_update_mset:
  assumes "n < length ps" and "P (ps ! n)"
  shows "mset (map f (filter P ps)) = add_mset (f (ps ! n)) (mset (map f (filter P (take n ps @ drop (Suc n) ps))))"
  using assms by (subst id_take_nth_drop [OF assms(1)]) simp

lemma rule_lines_update:
  assumes n: "n < length ps" "pol_Enabled (ps ! n)"
    and q: "pol_Enabled q \<Longrightarrow> rule_line q \<noteq> rule_line (ps ! n)"
  shows "rule_lines (ps[n := q]) \<noteq> rule_lines ps"
proof -
  let ?rest = "mset (map rule_line (filter pol_Enabled (take n ps @ drop (Suc n) ps)))"
  have old: "mset (map rule_line (filter pol_Enabled ps)) = add_mset (rule_line (ps ! n)) ?rest"
    by (rule filter_map_update_mset) (use n in simp_all)
  have new: "mset (map rule_line (filter pol_Enabled (ps[n := q]))) =
      (if pol_Enabled q then add_mset (rule_line q) ?rest else ?rest)"
    using n(1) by (simp add: upd_conv_take_nth_drop)
  show ?thesis
    unfolding rule_lines_mset [symmetric] old new using q by simp
qed

section \<open>Properties\<close>

text \<open>C27: equal change digests mean the same environment, change type, artifacts (kind, name, source,
  language and content digest, in order), SQL digest, rollback digest and rollback plan, unless SHA-256 collides
  on the two envelopes or on the two plans: an approval bound to the digest is bound to all of them.\<close>

theorem ChangeDigest_binds:
  assumes "ChangeDigest e t as s r p = ChangeDigest e' t' as' s' r' p'"
    and "no_collision {json_enc (digest_envelope e t as s r p), json_enc (digest_envelope e' t' as' s' r' p')}"
    and "no_collision {p, p'}"
  shows "trim_space e = trim_space e' \<and> trim_space t = trim_space t' \<and> map artifact_key as = map artifact_key as'
    \<and> s = s' \<and> r = r' \<and> p = p'"
proof -
  have "digest_envelope e t as s r p = digest_envelope e' t' as' s' r' p'"
    using assms(1,2) by (simp add: ChangeDigest_def SHA256_no_collision json_enc_inj)
  from digest_envelope_inj [OF this] show ?thesis
    using assms(3) by (simp add: SHA256_no_collision)
qed

theorem ChangeDigest_binds_witness:
  "trim_space ''prod'' = trim_space ''prod'' \<and> trim_space ''DDL'' = trim_space ''DDL''
   \<and> map artifact_key [zero_change_artifact] = map artifact_key [zero_change_artifact]
   \<and> ''a'' = ''a'' \<and> ''b'' = ''b'' \<and> ''c'' = ''c''"
  by (rule ChangeDigest_binds [OF refl]) (simp_all add: no_collision_def)

text \<open>The rule set version depends only on the multiset of enabled rules: reordering the rules, or
  adding, changing and removing disabled ones, leaves it unchanged.\<close>

lemma RuleSetVersion_enabled_only:
  assumes "mset (filter pol_Enabled ps) = mset (filter pol_Enabled qs)"
  shows "RuleSetVersion ps = RuleSetVersion qs"
proof -
  have "mset (map rule_line (filter pol_Enabled ps)) = mset (map rule_line (filter pol_Enabled qs))"
    using assms by simp
  then show ?thesis unfolding rule_lines_mset by (simp add: RuleSetVersion_def)
qed

lemma RuleSetVersion_enabled_only_witness:
  "RuleSetVersion [zero_risk_policy\<lparr> pol_Enabled := True, pol_Code := ''A'' \<rparr>,
      zero_risk_policy\<lparr> pol_Enabled := True, pol_Code := ''B'' \<rparr>, zero_risk_policy]
   = RuleSetVersion [zero_risk_policy\<lparr> pol_Enabled := True, pol_Code := ''B'' \<rparr>,
      zero_risk_policy\<lparr> pol_Enabled := True, pol_Code := ''A'' \<rparr>]"
  by (rule RuleSetVersion_enabled_only) (simp add: zero_risk_policy_def)

text \<open>Replacing an enabled rule by one with the same code and another version, or disabling it, changes
  the text the rule set version digests (the store increments the version on every update), provided the rule
  texts hold no newline; so the version stays the same only if SHA-256 collides on exactly those two texts,
  and a passport issued before the update does not match after it.\<close>

lemma RuleSetVersion_update_changes:
  fixes ps :: "risk_policy list"
  defines "old \<equiv> join_str [CHR 0x0A] (rule_lines ps)"
  assumes "n < length ps" "pol_Enabled (ps ! n)"
    and "CHR ''|'' \<notin> set (pol_Code (ps ! n))" "pol_Code q = pol_Code (ps ! n)"
    and "pol_Enabled q \<longrightarrow> pol_Version q \<noteq> pol_Version (ps ! n)"
    and "\<forall>p\<in>set (q # ps). CHR 0x0A \<notin> set (rule_line p)"
  defines "new \<equiv> join_str [CHR 0x0A] (rule_lines (ps[n := q]))"
  shows "new \<noteq> old \<and> (RuleSetVersion (ps[n := q]) = RuleSetVersion ps \<longleftrightarrow> sha256_sum new = sha256_sum old)"
proof -
  have "rule_lines (ps[n := q]) \<noteq> rule_lines ps"
    using assms(2-6) by (intro rule_lines_update) (auto dest: rule_line_version [of q "ps ! n", rotated 2])
  moreover have "\<forall>x\<in>set (rule_lines (ps[n := q])) \<union> set (rule_lines ps). CHR 0x0A \<notin> set x \<and> x \<noteq> []"
    using assms(7) by (auto simp: rule_lines_def dest!: set_update_cases)
  ultimately have "new \<noteq> old"
    using join_lines_inj unfolding old_def new_def by blast
  then show ?thesis by (simp add: RuleSetVersion_def SHA256_def old_def new_def)
qed

lemma RuleSetVersion_update_changes_witness:
  defines "p \<equiv> zero_risk_policy\<lparr> pol_Enabled := True, pol_Code := ''A'' \<rparr>"
  shows "join_str [CHR 0x0A] (rule_lines ([p][0 := p\<lparr> pol_Version := 2 \<rparr>])) \<noteq> join_str [CHR 0x0A] (rule_lines [p])"
proof -
  have "list_all (\<lambda>p. list_all (\<lambda>c. c \<noteq> CHR 0x0A) (rule_line p)) [p\<lparr> pol_Version := 2 \<rparr>, p]"
    unfolding p_def by code_simp
  then have "\<forall>q\<in>set [p\<lparr> pol_Version := 2 \<rparr>, p]. CHR 0x0A \<notin> set (rule_line q)"
    by (auto simp: list_all_iff)
  then show ?thesis
    using RuleSetVersion_update_changes [of 0 "[p]" "p\<lparr> pol_Version := 2 \<rparr>"]
    by (simp add: p_def zero_risk_policy_def)
qed

text \<open>The separators of a rule's text are not escaped: two rules that apply in different environments
  print the same line, and so get the same rule set version.\<close>

lemma RuleSetVersion_ambiguous:
  "RuleSetVersion [zero_risk_policy\<lparr> pol_Enabled := True, pol_Environments := [''a,b''] \<rparr>]
   = RuleSetVersion [zero_risk_policy\<lparr> pol_Enabled := True, pol_Environments := [''a'', ''b''] \<rparr>]"
  by (simp add: RuleSetVersion_def rule_lines_def rule_line_def)

end
