(* ===== verification/PassportStore.thy ===== *)
theory PassportStore
  imports Store Integrity
begin

text \<open>
  \<^verbatim>\<open>internal/store/passport.go\<close>: the one-time passports of approved changes, for the file and memory
  backends: creation, consumption, revocation, expiry, and the audit-only mutation \<^verbatim>\<open>RecordAudit\<close>.
  The lemmas show that a change has at most one passport that is still active, that a passport only
  moves from active to a terminal status, that consuming it completes its change and records the
  event in the same step, that the same consumer can repeat the call and nobody else can, and what
  a failed save leaves behind.
\<close>

section \<open>Operations\<close>

definition publicPassport :: "gotime \<Rightarrow> stored_passport \<Rightarrow> bool \<Rightarrow> passport" where
  "publicPassport now item includeTokenHash =
     (let p = passport.truncate item;
          p = p\<lparr> pass_TokenSHA256 := (if includeTokenHash then pass_TokenSHA256Stored item else []) \<rparr>
      in if \<not> includeTokenHash \<and> pass_Status p = PassportActive \<and> pass_ExpiresAt p \<le> now
         then p\<lparr> pass_Status := PassportExpired \<rparr> else p)"

definition Passport :: "gotime \<Rightarrow> db \<Rightarrow> string \<Rightarrow> err + passport" where
  "Passport now d i =
     (case lookup_by pass_ID i (db_Passports d) of
        None \<Rightarrow> Inl ErrNotFound | Some item \<Rightarrow> Inr (publicPassport now item True))"

text \<open>The change a passport belongs to.\<close>

definition pass_change :: "passport \<Rightarrow> string \<times> string" where
  "pass_change p = (pass_OrganizationID p, pass_ChangeID p)"

definition same_change :: "'a passport_scheme \<Rightarrow> 'b passport_scheme \<Rightarrow> bool" where
  "same_change a b \<longleftrightarrow> pass_OrganizationID a = pass_OrganizationID b \<and> pass_ChangeID a = pass_ChangeID b"

definition expiry_audit :: "stored_passport \<Rightarrow> gotime \<Rightarrow> audit_event" where
  "expiry_audit item now = zero_audit_event
     \<lparr> aud_OrganizationID := pass_OrganizationID item, aud_ChangeID := pass_ChangeID item,
       aud_ActorID := ''system'', aud_ActorName := ''ChangeGuard'', aud_ActorType := ''SYSTEM'',
       aud_Action := ''PASSPORT_EXPIRED'', aud_PassportID := pass_ID item,
       aud_Detail := txt_passport_expired_detail, aud_CreatedAt := now \<rparr>"

definition stale_for :: "passport \<Rightarrow> gotime \<Rightarrow> stored_passport \<Rightarrow> bool" where
  "stale_for p now item \<longleftrightarrow> same_change item p \<and> pass_Status item = PassportActive \<and> \<not> now < pass_ExpiresAt item"

definition expire_at :: "passport \<Rightarrow> env \<Rightarrow> db \<Rightarrow> nat \<Rightarrow> db" where
  "expire_at p e d n =
     (let item = db_Passports d ! n in
      if stale_for p (env_now e) item
      then append_audit e
             (d\<lparr> db_Passports := (db_Passports d)[n := item\<lparr> pass_Status := PassportExpired \<rparr>] \<rparr>)
             (expiry_audit item (env_now e))
      else d)"

definition expire_stale :: "passport \<Rightarrow> env \<Rightarrow> db \<Rightarrow> db" where
  "expire_stale p e d = foldl (expire_at p e) d [0..<length (db_Passports d)]"

definition store_passport :: "passport \<Rightarrow> stored_passport" where
  "store_passport p = passport.extend (p\<lparr> pass_TokenSHA256 := [] \<rparr>) (stored_passport.fields (pass_TokenSHA256 p))"

definition CreatePassport :: "passport \<Rightarrow> audit_event \<Rightarrow> env \<Rightarrow> db \<Rightarrow> (err + unit) \<times> db" where
  "CreatePassport p ev e d =
     (if list_ex (\<lambda>item. pass_ID item = pass_ID p
          \<or> (same_change item p \<and> pass_Status item = PassportActive \<and> env_now e < pass_ExpiresAt item)) (db_Passports d)
      then (Inl ErrConflict, d)
      else
        let d' = expire_stale p e d;
            d' = append_audit e (d'\<lparr> db_Passports := db_Passports d' @ [store_passport p] \<rparr>) ev
        in case save_locked e d' of
             (None, d') \<Rightarrow> (Inr (), d')
           | (Some er, d') \<Rightarrow> (Inl er, d'\<lparr> db_Passports := db_Passports d, db_Audits := db_Audits d \<rparr>))"

definition sameConsumerReplay :: "stored_passport \<Rightarrow> string \<Rightarrow> string \<Rightarrow> bool" where
  "sameConsumerReplay item tokenSHA256 consumer \<longleftrightarrow>
     pass_Status item = PassportConsumed \<and> trim_space (pass_ConsumedBy item) \<noteq> [] \<and> trim_space consumer \<noteq> []
     \<and> pass_TokenSHA256Stored item = tokenSHA256 \<and> pass_ConsumedBy item = consumer"

text \<open>Writing one row back after a failed save: the slice is the restored one, and a row past its end
  panics.\<close>

definition put_back :: "nat \<Rightarrow> 'a \<Rightarrow> 'a list \<Rightarrow> 'a list option" where
  "put_back n x xs = (if n < length xs then Some (xs[n := x]) else None)"

definition bound_change :: "db \<Rightarrow> stored_passport \<Rightarrow> change_request \<Rightarrow> bool" where
  "bound_change d item c \<longleftrightarrow>
     chg_Status c = StatusApproved \<and> chg_ArtifactSHA256 c = pass_ArtifactSHA256 item
     \<and> chg_Environment c = pass_Environment item \<and> chg_RuleSetVersion c = pass_RuleSetVersion item
     \<and> RuleSetVersion (filter (\<lambda>p. pol_OrganizationID p = pass_OrganizationID item) (db_Policies d)) = pass_RuleSetVersion item"

definition change_of :: "db \<Rightarrow> stored_passport \<Rightarrow> nat option" where
  "change_of d item =
     find_index_of (\<lambda>c. chg_ID c = pass_ChangeID item \<and> chg_OrganizationID c = pass_OrganizationID item) (db_Changes d)"

definition expire_on_use :: "nat \<Rightarrow> audit_event \<Rightarrow> env \<Rightarrow> db \<Rightarrow> (err + passport) \<times> db" where
  "expire_on_use n ev e d =
     (let item = db_Passports d ! n;
          d' = append_audit e (d\<lparr> db_Passports := (db_Passports d)[n := item\<lparr> pass_Status := PassportExpired \<rparr>] \<rparr>)
                 (ev\<lparr> aud_Action := ''PASSPORT_EXPIRED'' \<rparr>)
      in case save_locked e d' of
           (None, d') \<Rightarrow> (Inl ErrPassportExpired, d')
         | (Some er, d') \<Rightarrow>
             (case put_back n item (db_Passports d') of
                None \<Rightarrow> (Inl IndexPanic, d')
              | Some ps \<Rightarrow> (Inl er, d'\<lparr> db_Passports := ps, db_Audits := db_Audits d \<rparr>)))"

definition consumed_item :: "stored_passport \<Rightarrow> string \<Rightarrow> gotime \<Rightarrow> stored_passport" where
  "consumed_item item consumer tm =
     item\<lparr> pass_Status := PassportConsumed, pass_ConsumedAt := Some tm, pass_ConsumedBy := consumer \<rparr>"

definition completed_change :: "change_request \<Rightarrow> string \<Rightarrow> gotime \<Rightarrow> string \<Rightarrow> change_request" where
  "completed_change c consumer tm tid =
     c\<lparr> chg_Status := StatusCompleted, chg_UpdatedAt := tm, chg_Version := chg_Version c + 1,
        chg_Timeline := chg_Timeline c @
          [\<lparr> tl_ID = tid, tl_Status = StatusCompleted, tl_Title = txt_consumed_title,
             tl_Detail = txt_consumed_detail, tl_Actor = consumer, tl_CreatedAt = tm \<rparr>] \<rparr>"

definition consume_passport ::
  "nat \<Rightarrow> nat \<Rightarrow> string \<Rightarrow> gotime \<Rightarrow> audit_event \<Rightarrow> env \<Rightarrow> db \<Rightarrow> (err + passport) \<times> db" where
  "consume_passport n m consumer tm ev e d =
     (let item = db_Passports d ! n;
          c = db_Changes d ! m;
          item' = consumed_item item consumer tm;
          d' = append_audit e
                 (d\<lparr> db_Passports := (db_Passports d)[n := item'],
                     db_Changes := (db_Changes d)[m := completed_change c consumer tm (env_id e 0)] \<rparr>)
                 (ev\<lparr> aud_Action := ''PASSPORT_CONSUMED_AND_CHANGE_COMPLETED'',
                      aud_Detail := aud_Detail ev @ txt_completed_suffix \<rparr>)
      in case save_locked e d' of
           (None, d') \<Rightarrow> (Inr (publicPassport (env_later e) item' False), d')
         | (Some er, d') \<Rightarrow>
             (case (put_back n item (db_Passports d'), put_back m c (db_Changes d')) of
                (Some ps, Some cs) \<Rightarrow>
                  (Inl er, d'\<lparr> db_Passports := ps, db_Changes := cs, db_Audits := db_Audits d \<rparr>)
              | (Some ps, None) \<Rightarrow> (Inl IndexPanic, d'\<lparr> db_Passports := ps \<rparr>)
              | (None, _) \<Rightarrow> (Inl IndexPanic, d')))"

definition UsePassport ::
  "string \<Rightarrow> string \<Rightarrow> string \<Rightarrow> gotime \<Rightarrow> bool \<Rightarrow> audit_event \<Rightarrow> env \<Rightarrow> db \<Rightarrow> (err + passport) \<times> db" where
  "UsePassport i tokenSHA256 consumer tm consume ev e d =
     (case index_by pass_ID i (db_Passports d) of
        None \<Rightarrow> (Inl ErrNotFound, d)
      | Some n \<Rightarrow>
          let item = db_Passports d ! n in
          if pass_TokenSHA256Stored item \<noteq> tokenSHA256 then (Inl ErrPassportTokenMismatch, d)
          else if pass_Status item = PassportExpired then (Inl ErrPassportExpired, d)
          else if consume \<and> pass_Status item = PassportConsumed then
            (if sameConsumerReplay item tokenSHA256 consumer
             then (Inr (publicPassport (env_later e) item False), d)
             else (Inl ErrPassportReplay, d))
          else if pass_Status item \<noteq> PassportActive then (Inl ErrPassportInactive, d)
          else if \<not> tm < pass_ExpiresAt item then expire_on_use n ev e d
          else
            (case change_of d item of
               None \<Rightarrow> (Inl ErrPassportChangeInvalid, d)
             | Some m \<Rightarrow>
                 if \<not> bound_change d item (db_Changes d ! m) then (Inl ErrPassportChangeInvalid, d)
                 else if consume then consume_passport n m consumer tm ev e d
                 else (Inr (publicPassport (env_later e) item False), d)))"

definition revoked_item :: "stored_passport \<Rightarrow> string \<Rightarrow> gotime \<Rightarrow> stored_passport" where
  "revoked_item item actor tm =
     item\<lparr> pass_Status := PassportRevoked, pass_RevokedAt := Some tm, pass_RevokedByID := actor \<rparr>"

definition RevokePassport ::
  "string \<Rightarrow> string \<Rightarrow> string \<Rightarrow> gotime \<Rightarrow> audit_event \<Rightarrow> env \<Rightarrow> db \<Rightarrow> (err + passport) \<times> db" where
  "RevokePassport org i actor tm ev e d =
     (case find_index_of (\<lambda>item. pass_ID item = i \<and> pass_OrganizationID item = org) (db_Passports d) of
        None \<Rightarrow> (Inl ErrNotFound, d)
      | Some n \<Rightarrow>
          let item = db_Passports d ! n; item' = revoked_item item actor tm in
          if pass_Status item \<noteq> PassportActive then (Inl ErrPassportInactive, d)
          else
            (case save_locked e (append_audit e (d\<lparr> db_Passports := (db_Passports d)[n := item'] \<rparr>) ev) of
               (None, d') \<Rightarrow> (Inr (publicPassport (env_later e) item' False), d')
             | (Some er, d') \<Rightarrow>
                 (case put_back n item (db_Passports d') of
                    None \<Rightarrow> (Inl IndexPanic, d')
                  | Some ps \<Rightarrow> (Inl er, d'\<lparr> db_Passports := ps, db_Audits := db_Audits d \<rparr>))))"

definition revocable :: "string \<Rightarrow> string \<Rightarrow> stored_passport \<Rightarrow> bool" where
  "revocable org change item \<longleftrightarrow>
     pass_OrganizationID item = org \<and> pass_ChangeID item = change \<and> pass_Status item = PassportActive"

definition RevokePassportsByChange ::
  "string \<Rightarrow> string \<Rightarrow> string \<Rightarrow> gotime \<Rightarrow> audit_event \<Rightarrow> env \<Rightarrow> db \<Rightarrow> (err + unit) \<times> db" where
  "RevokePassportsByChange org change actor tm ev e d =
     (if \<not> list_ex (revocable org change) (db_Passports d) then (Inr (), d)
      else
        let d' = d\<lparr> db_Passports := map (\<lambda>item. if revocable org change item then revoked_item item actor tm else item)
                                      (db_Passports d) \<rparr>
        in case save_locked e (append_audit e d' ev) of
             (None, d') \<Rightarrow> (Inr (), d')
           | (Some er, d') \<Rightarrow> (Inl er, d'\<lparr> db_Passports := db_Passports d, db_Audits := db_Audits d \<rparr>))"

definition RecordAudit :: "audit_event \<Rightarrow> env \<Rightarrow> db \<Rightarrow> (err + unit) \<times> db" where
  "RecordAudit ev e d =
     (case save_locked e (append_audit e d ev) of
        (None, d') \<Rightarrow> (Inr (), d')
      | (Some er, d') \<Rightarrow> (Inl er, d'\<lparr> db_Audits := db_Audits d \<rparr>))"

section \<open>The life of one passport\<close>

text \<open>The abstract machine of a passport: from \<open>PassportActive\<close> to one of three terminal statuses.\<close>

inductive pass_step :: "stored_passport \<Rightarrow> stored_passport \<Rightarrow> bool" where
  step_expire: "pass_Status a = PassportActive \<Longrightarrow> pass_step a (a\<lparr> pass_Status := PassportExpired \<rparr>)"
| step_consume: "pass_Status a = PassportActive \<Longrightarrow> tm < pass_ExpiresAt a \<Longrightarrow> pass_step a (consumed_item a consumer tm)"
| step_revoke: "pass_Status a = PassportActive \<Longrightarrow> pass_step a (revoked_item a actor tm)"

inductive_cases pass_stepE: "pass_step a b"

definition terminal :: "passport_status \<Rightarrow> bool" where
  "terminal st \<longleftrightarrow> st = PassportConsumed \<or> st = PassportRevoked \<or> st = PassportExpired"

text \<open>What an issued passport is bound to, which no step changes.\<close>

definition binding :: "stored_passport \<Rightarrow> stored_passport" where
  "binding a = a\<lparr> pass_Status := PassportUnset, pass_RevokedAt := None, pass_RevokedByID := [],
     pass_ConsumedAt := None, pass_ConsumedBy := [] \<rparr>"

lemma pass_step_active: "pass_step a b \<Longrightarrow> pass_Status a = PassportActive"
  by (auto elim: pass_stepE)

lemma pass_step_terminal: "pass_step a b \<Longrightarrow> terminal (pass_Status b)"
  by (auto elim!: pass_stepE simp: terminal_def consumed_item_def revoked_item_def)

lemma pass_step_binding: "pass_step a b \<Longrightarrow> binding b = binding a"
  by (auto elim!: pass_stepE simp: binding_def consumed_item_def revoked_item_def)

lemma pass_step_keys:
  "pass_step a b \<Longrightarrow> pass_ID b = pass_ID a \<and> pass_OrganizationID b = pass_OrganizationID a \<and> pass_ChangeID b = pass_ChangeID a"
  by (auto elim!: pass_stepE simp: consumed_item_def revoked_item_def)

text \<open>The rows of a later state: every earlier row at its place, at most one step further.\<close>

definition row_next :: "stored_passport \<Rightarrow> stored_passport \<Rightarrow> bool" where
  "row_next a b \<longleftrightarrow> a = b \<or> pass_step a b"

definition rows_next :: "stored_passport list \<Rightarrow> stored_passport list \<Rightarrow> bool" where
  "rows_next xs ys \<longleftrightarrow> length xs \<le> length ys \<and> (\<forall>i<length xs. row_next (xs ! i) (ys ! i))"

lemma row_next_refl [simp]: "row_next a a"
  by (simp add: row_next_def)

lemma row_next_trans: "row_next a b \<Longrightarrow> row_next b c \<Longrightarrow> row_next a c"
  using pass_step_active pass_step_terminal by (fastforce simp: row_next_def terminal_def)

lemma rows_next_refl [simp]: "rows_next xs xs"
  by (simp add: rows_next_def row_next_def)

lemma rows_next_trans: "rows_next xs ys \<Longrightarrow> rows_next ys zs \<Longrightarrow> rows_next xs zs"
  unfolding rows_next_def by (meson less_le_trans le_trans row_next_trans)

lemma rows_next_update: "n < length xs \<Longrightarrow> row_next (xs ! n) y \<Longrightarrow> rows_next xs (xs[n := y])"
  by (auto simp: rows_next_def row_next_def nth_list_update)

lemma rows_next_map: "(\<And>x. x \<in> set xs \<Longrightarrow> row_next x (f x)) \<Longrightarrow> rows_next xs (map f xs)"
  by (auto simp: rows_next_def)

lemma rows_next_append: "rows_next xs ys \<Longrightarrow> rows_next xs (ys @ zs)"
  by (auto simp: rows_next_def nth_append)

lemma rows_next_terminal:
  "rows_next xs ys \<Longrightarrow> i < length xs \<Longrightarrow> terminal (pass_Status (xs ! i)) \<Longrightarrow> i < length ys \<and> ys ! i = xs ! i"
  using pass_step_active by (fastforce simp: rows_next_def row_next_def terminal_def)

section \<open>Expiry of the stale passports of a change\<close>

definition expired_if_stale :: "passport \<Rightarrow> gotime \<Rightarrow> stored_passport \<Rightarrow> stored_passport" where
  "expired_if_stale p now item = (if stale_for p now item then item\<lparr> pass_Status := PassportExpired \<rparr> else item)"

lemma expire_at_rows:
  "db_Passports (expire_at p e d n) =
     (if n < length (db_Passports d) then (db_Passports d)[n := expired_if_stale p (env_now e) (db_Passports d ! n)]
      else db_Passports d)"
  by (cases "n < length (db_Passports d)") (auto simp: expire_at_def expired_if_stale_def Let_def store_frame list_update_beyond)

lemma expire_prefix_rows:
  assumes "n \<le> length (db_Passports d)"
  shows "db_Passports (foldl (expire_at p e) d [0..<n]) =
     map (expired_if_stale p (env_now e)) (take n (db_Passports d)) @ drop n (db_Passports d)"
  using assms
proof (induction n)
  case (Suc n)
  let ?f = "expired_if_stale p (env_now e)" and ?xs = "db_Passports d"
  have n: "n < length ?xs" using Suc.prems by simp
  have "(map ?f (take n ?xs) @ drop n ?xs)[n := ?f (?xs ! n)] = map ?f (take (Suc n) ?xs) @ drop (Suc n) ?xs"
    using n by (simp add: list_update_append Cons_nth_drop_Suc [symmetric] take_Suc_conv_app_nth)
  moreover have "(map ?f (take n ?xs) @ drop n ?xs) ! n = ?xs ! n"
    using n by (simp add: nth_append)
  ultimately show ?case using Suc n by (simp add: expire_at_rows)
qed simp

lemma expire_stale_rows:
  "db_Passports (expire_stale p e d) = map (expired_if_stale p (env_now e)) (db_Passports d)"
  by (simp add: expire_stale_def expire_prefix_rows)

lemma expire_at_frame [store_frame]:
  "db_Changes (expire_at p e d n) = db_Changes d" "db_Policies (expire_at p e d n) = db_Policies d"
  by (auto simp: expire_at_def Let_def store_frame)

lemma expire_stale_frame [store_frame]:
  "db_Changes (expire_stale p e d) = db_Changes d" "db_Policies (expire_stale p e d) = db_Policies d"
proof -
  have "db_Changes (foldl (expire_at p e) d ns) = db_Changes d \<and> db_Policies (foldl (expire_at p e) d ns) = db_Policies d" for ns
    by (induction ns arbitrary: d) (simp_all add: store_frame)
  then show "db_Changes (expire_stale p e d) = db_Changes d" "db_Policies (expire_stale p e d) = db_Policies d"
    by (simp_all add: expire_stale_def)
qed

definition orgs_trimmed :: "db \<Rightarrow> bool" where
  "orgs_trimmed d \<longleftrightarrow> (\<forall>item\<in>set (db_Passports d). trim_space (pass_OrganizationID item) = pass_OrganizationID item)"

lemma expire_stale_log:
  assumes "orgs_trimmed d"
  shows "log_ext (db_Audits d) (db_Audits (expire_stale p e d))"
proof -
  have "orgs_trimmed d \<Longrightarrow> \<forall>n\<in>set ns. n < length (db_Passports d) \<Longrightarrow>
      log_ext (db_Audits d) (db_Audits (foldl (expire_at p e) d ns))" for ns d
  proof (induction ns arbitrary: d)
    case (Cons n ns)
    have n: "n < length (db_Passports d)" using Cons.prems by simp
    have step: "log_ext (db_Audits d) (db_Audits (expire_at p e d n))"
      using Cons.prems(1) n
      by (auto simp: expire_at_def Let_def org_trimmed_def expiry_audit_def orgs_trimmed_def intro!: append_audit_after)
    have ot: "orgs_trimmed (expire_at p e d n)"
      using Cons.prems(1) n
      by (auto simp: orgs_trimmed_def expire_at_rows expired_if_stale_def dest!: set_update_cases)
    have "log_ext (db_Audits (expire_at p e d n)) (db_Audits (foldl (expire_at p e) (expire_at p e d n) ns))"
      using Cons.prems(2) n by (intro Cons.IH ot) (simp add: expire_at_rows)
    with step show ?case by (auto intro: log_ext_trans)
  qed simp
  from this [OF assms, of "[0..<length (db_Passports d)]"] show ?thesis by (simp add: expire_stale_def)
qed

section \<open>The contract of a passport operation\<close>

text \<open>A mutation that extends the log and moves each passport at most one step.\<close>

locale passport_op = audited op pre
  for op :: "env \<Rightarrow> db \<Rightarrow> 'r \<times> db" and pre :: "db \<Rightarrow> bool" +
  assumes rows: "env_save e = Saved \<Longrightarrow> rows_next (db_Passports d) (db_Passports (snd (op e d)))"
begin

lemma keeps_terminal:
  "env_save e = Saved \<Longrightarrow> i < length (db_Passports d) \<Longrightarrow> terminal (pass_Status (db_Passports d ! i)) \<Longrightarrow>
   db_Passports (snd (op e d)) ! i = db_Passports d ! i"
  using rows rows_next_terminal by blast

lemma keeps_binding:
  assumes "env_save e = Saved" "i < length (db_Passports d)"
  shows "binding (db_Passports (snd (op e d)) ! i) = binding (db_Passports d ! i)"
  using rows [OF assms(1), of d] assms(2) pass_step_binding by (auto simp: rows_next_def row_next_def)

end

lemma consumed_step: "pass_Status a = PassportActive \<Longrightarrow> tm < pass_ExpiresAt a \<Longrightarrow> row_next a (consumed_item a consumer tm)"
  by (simp add: row_next_def step_consume)

lemma expired_step: "pass_Status a = PassportActive \<Longrightarrow> row_next a (a\<lparr> pass_Status := PassportExpired \<rparr>)"
  by (simp add: row_next_def step_expire)

lemma revoked_step: "pass_Status a = PassportActive \<Longrightarrow> row_next a (revoked_item a actor tm)"
  by (simp add: row_next_def step_revoke)

lemma CreatePassport_Saved:
  assumes "env_save e = Saved"
  shows "CreatePassport p ev e d =
    (if list_ex (\<lambda>item. pass_ID item = pass_ID p
          \<or> (same_change item p \<and> pass_Status item = PassportActive \<and> env_now e < pass_ExpiresAt item)) (db_Passports d)
     then (Inl ErrConflict, d)
     else (Inr (), append_audit e ((expire_stale p e d)\<lparr> db_Passports :=
             map (expired_if_stale p (env_now e)) (db_Passports d) @ [store_passport p] \<rparr>) ev))"
  using assms by (simp add: CreatePassport_def Let_def expire_stale_rows)

interpretation create_passport: passport_op "CreatePassport p ev" "\<lambda>d. orgs_trimmed d \<and> org_trimmed ev" for p ev
proof unfold_locales
  show "log_ext (db_Audits d) (db_Audits (snd (CreatePassport p ev e d)))"
    if "env_save e = Saved" "orgs_trimmed d \<and> org_trimmed ev" for e d
    using that by (auto simp: CreatePassport_Saved intro!: log_ext_trans [OF expire_stale_log append_audit_after])
  show "rows_next (db_Passports d) (db_Passports (snd (CreatePassport p ev e d)))" if "env_save e = Saved" for e d
    using that by (auto simp: CreatePassport_Saved store_frame expired_if_stale_def stale_for_def
        intro!: rows_next_append rows_next_map expired_step)
qed

lemma UsePassport_cases:
  obtains (untouched) r where "UsePassport i tok consumer tm consume ev e d = (r, d)"
  | (expire) n where "index_by pass_ID i (db_Passports d) = Some n" "n < length (db_Passports d)"
      "pass_Status (db_Passports d ! n) = PassportActive" "pass_ExpiresAt (db_Passports d ! n) \<le> tm"
      "UsePassport i tok consumer tm consume ev e d = expire_on_use n ev e d"
  | (consume) n m where "consume" "index_by pass_ID i (db_Passports d) = Some n" "n < length (db_Passports d)"
      "pass_TokenSHA256Stored (db_Passports d ! n) = tok"
      "pass_Status (db_Passports d ! n) = PassportActive" "tm < pass_ExpiresAt (db_Passports d ! n)"
      "change_of d (db_Passports d ! n) = Some m" "m < length (db_Changes d)"
      "bound_change d (db_Passports d ! n) (db_Changes d ! m)"
      "UsePassport i tok consumer tm consume ev e d = consume_passport n m consumer tm ev e d"
proof (cases "index_by pass_ID i (db_Passports d)")
  case None
  then show ?thesis by (intro untouched) (simp add: UsePassport_def del: index_by_None)
next
  case (Some n)
  have n: "n < length (db_Passports d)" using Some by (auto dest: index_by_Some)
  show ?thesis
    using untouched expire [OF Some n] consume [OF _ Some n] Some
    by (fastforce simp: UsePassport_def Let_def change_of_def not_less split: if_splits option.splits)
qed

interpretation use_passport: passport_op "UsePassport i tok consumer tm consume ev" "\<lambda>_. org_trimmed ev"
  for i tok consumer tm consume ev
proof unfold_locales
  show "log_ext (db_Audits d) (db_Audits (snd (UsePassport i tok consumer tm consume ev e d)))"
    if "env_save e = Saved" "org_trimmed ev" for e d
    using that by (cases rule: UsePassport_cases [of i tok consumer tm consume ev e d])
      (auto simp: expire_on_use_def consume_passport_def Let_def org_trimmed_def intro!: append_audit_after)
  show "rows_next (db_Passports d) (db_Passports (snd (UsePassport i tok consumer tm consume ev e d)))"
    if "env_save e = Saved" for e d
    using that by (cases rule: UsePassport_cases [of i tok consumer tm consume ev e d])
      (auto simp: expire_on_use_def consume_passport_def Let_def store_frame
        intro!: rows_next_update expired_step consumed_step)
qed

interpretation revoke_passport: passport_op "RevokePassport org i actor tm ev" "\<lambda>_. org_trimmed ev"
  for org i actor tm ev
  by unfold_locales (auto simp: RevokePassport_def Let_def store_frame split: option.splits
      intro!: append_audit_after rows_next_update revoked_step)

interpretation revoke_by_change: passport_op "RevokePassportsByChange org change actor tm ev" "\<lambda>_. org_trimmed ev"
  for org change actor tm ev
  by unfold_locales (auto simp: RevokePassportsByChange_def Let_def store_frame revocable_def row_next_def
      intro!: append_audit_after rows_next_map step_revoke)

interpretation record_audit: passport_op "RecordAudit ev" "\<lambda>_. org_trimmed ev" for ev
  by unfold_locales (auto simp: RecordAudit_def store_frame intro!: append_audit_after)

section \<open>A failed save leaves the state alone\<close>

text \<open>In a store with a single process the state restored after a failed save is the one of the last
  successful save, which is the state the operation started from.\<close>

definition local_save :: "env \<Rightarrow> db \<Rightarrow> bool" where
  "local_save e d = (case env_save e of Saved \<Rightarrow> True | SaveFailed er r \<Rightarrow> r = None \<or> r = Some d)"

lemma append_audit_only_log: "\<exists>l. append_audit e d ev = d\<lparr> db_Audits := l \<rparr>"
  by (auto simp: append_audit_def Let_def)

lemma append_audits_only_log: "\<exists>l. append_audits e evs d = d\<lparr> db_Audits := l \<rparr>"
proof (induction evs arbitrary: d)
  case Nil
  have "append_audits e [] d = d\<lparr> db_Audits := db_Audits d \<rparr>" by simp
  then show ?case by blast
next
  case (Cons ev evs)
  obtain l where l: "append_audit e d ev = d\<lparr> db_Audits := l \<rparr>" using append_audit_only_log by blast
  from Cons [of "d\<lparr> db_Audits := l \<rparr>"] show ?case by (auto simp: l)
qed

lemma expire_stale_only: "\<exists>ps l. expire_stale p e d = d\<lparr> db_Passports := ps, db_Audits := l \<rparr>"
proof -
  have step: "\<exists>ps l. expire_at p e d n = d\<lparr> db_Passports := ps, db_Audits := l \<rparr>" for d n
  proof (cases "stale_for p (env_now e) (db_Passports d ! n)")
    case True
    then show ?thesis
      using append_audit_only_log [of e "d\<lparr> db_Passports := (db_Passports d)
          [n := (db_Passports d ! n)\<lparr> pass_Status := PassportExpired \<rparr>] \<rparr>"
          "expiry_audit (db_Passports d ! n) (env_now e)"]
      by (auto simp: expire_at_def Let_def)
  next
    case False
    then have "expire_at p e d n = d\<lparr> db_Passports := db_Passports d, db_Audits := db_Audits d \<rparr>"
      by (simp add: expire_at_def Let_def)
    then show ?thesis by blast
  qed
  have "\<exists>ps l. foldl (expire_at p e) d ns = d\<lparr> db_Passports := ps, db_Audits := l \<rparr>" for ns
  proof (induction ns arbitrary: d)
    case Nil
    have "foldl (expire_at p e) d [] = d\<lparr> db_Passports := db_Passports d, db_Audits := db_Audits d \<rparr>" by simp
    then show ?case by blast
  next
    case (Cons n ns)
    obtain ps l where "expire_at p e d n = d\<lparr> db_Passports := ps, db_Audits := l \<rparr>" using step by blast
    with Cons [of "d\<lparr> db_Passports := ps, db_Audits := l \<rparr>"] show ?case by auto
  qed
  then show ?thesis by (simp add: expire_stale_def)
qed

lemma save_locked_failed:
  "env_save e \<noteq> Saved \<Longrightarrow> local_save e d \<Longrightarrow> \<exists>er. save_locked e d' = (Some er, d') \<or> save_locked e d' = (Some er, d)"
  by (cases "env_save e") (auto simp: local_save_def save_locked_def)

lemma CreatePassport_failed:
  assumes "env_save e \<noteq> Saved" "local_save e d"
  shows "snd (CreatePassport p ev e d) = d"
proof -
  obtain ps l where ex: "expire_stale p e d = d\<lparr> db_Passports := ps, db_Audits := l \<rparr>" using expire_stale_only by blast
  let ?d = "d\<lparr> db_Audits := l, db_Passports := ps @ [store_passport p] \<rparr>"
  obtain l' where ap: "append_audit e ?d ev = ?d\<lparr> db_Audits := l' \<rparr>" using append_audit_only_log by blast
  show ?thesis
    using save_locked_failed [OF assms, of "append_audit e ?d ev"]
    by (auto simp: CreatePassport_def Let_def ex ap)
qed

lemma put_back_same [simp]: "n < length xs \<Longrightarrow> put_back n (xs ! n) (xs[n := y]) = Some xs"
  "n < length xs \<Longrightarrow> put_back n (xs ! n) xs = Some xs"
  by (simp_all add: put_back_def)

lemma UsePassport_failed:
  assumes "env_save e \<noteq> Saved" "local_save e d"
  shows "snd (UsePassport i tok consumer tm consume ev e d) = d"
proof (cases rule: UsePassport_cases [of i tok consumer tm consume ev e d])
  case (expire n)
  let ?d = "d\<lparr> db_Passports := (db_Passports d)[n := (db_Passports d ! n)\<lparr> pass_Status := PassportExpired \<rparr>] \<rparr>"
  obtain l where "append_audit e ?d (ev\<lparr> aud_Action := ''PASSPORT_EXPIRED'' \<rparr>) = ?d\<lparr> db_Audits := l \<rparr>"
    using append_audit_only_log by blast
  then show ?thesis
    using save_locked_failed [OF assms, of "?d\<lparr> db_Audits := l \<rparr>"] expire
    by (auto simp: expire_on_use_def Let_def)
next
  case (consume n m)
  let ?d = "d\<lparr> db_Passports := (db_Passports d)[n := consumed_item (db_Passports d ! n) consumer tm],
     db_Changes := (db_Changes d)[m := completed_change (db_Changes d ! m) consumer tm (env_id e 0)] \<rparr>"
  obtain l where "append_audit e ?d (ev\<lparr> aud_Action := ''PASSPORT_CONSUMED_AND_CHANGE_COMPLETED'',
      aud_Detail := aud_Detail ev @ txt_completed_suffix \<rparr>) = ?d\<lparr> db_Audits := l \<rparr>"
    using append_audit_only_log by blast
  then show ?thesis
    using save_locked_failed [OF assms, of "?d\<lparr> db_Audits := l \<rparr>"] consume
    by (auto simp: consume_passport_def Let_def)
qed simp

lemma RevokePassport_failed:
  assumes "env_save e \<noteq> Saved" "local_save e d"
  shows "snd (RevokePassport org i actor tm ev e d) = d"
proof (cases "find_index_of (\<lambda>item. pass_ID item = i \<and> pass_OrganizationID item = org) (db_Passports d)")
  case None
  then show ?thesis by (simp add: RevokePassport_def del: find_index_of_None)
next
  case (Some n)
  let ?d = "d\<lparr> db_Passports := (db_Passports d)[n := revoked_item (db_Passports d ! n) actor tm] \<rparr>"
  obtain l where "append_audit e ?d ev = ?d\<lparr> db_Audits := l \<rparr>" using append_audit_only_log by blast
  then show ?thesis
    using save_locked_failed [OF assms, of "?d\<lparr> db_Audits := l \<rparr>"] Some find_index_of_SomeD(1) [OF Some]
    by (auto simp: RevokePassport_def Let_def)
qed

lemma RevokePassportsByChange_failed:
  assumes "env_save e \<noteq> Saved" "local_save e d"
  shows "snd (RevokePassportsByChange org change actor tm ev e d) = d"
proof -
  let ?d = "d\<lparr> db_Passports := map (\<lambda>item. if revocable org change item then revoked_item item actor tm else item) (db_Passports d) \<rparr>"
  obtain l where "append_audit e ?d ev = ?d\<lparr> db_Audits := l \<rparr>" using append_audit_only_log by blast
  then show ?thesis
    using save_locked_failed [OF assms, of "?d\<lparr> db_Audits := l \<rparr>"]
    by (auto simp: RevokePassportsByChange_def Let_def)
qed

lemma RecordAudit_failed:
  assumes "env_save e \<noteq> Saved" "local_save e d"
  shows "snd (RecordAudit ev e d) = d"
proof -
  obtain l where "append_audit e d ev = d\<lparr> db_Audits := l \<rparr>" using append_audit_only_log by blast
  then show ?thesis
    using save_locked_failed [OF assms, of "d\<lparr> db_Audits := l \<rparr>"] by (auto simp: RecordAudit_def)
qed

section \<open>Runs of the passport operations\<close>

inductive passport_trans :: "db \<Rightarrow> db \<Rightarrow> bool" where
  trans_create: "local_save e d \<Longrightarrow> orgs_trimmed d \<Longrightarrow> org_trimmed ev \<Longrightarrow> trim_space (pass_OrganizationID p) = pass_OrganizationID p \<Longrightarrow>
     passport_trans d (snd (CreatePassport p ev e d))"
| trans_use: "local_save e d \<Longrightarrow> org_trimmed ev \<Longrightarrow> passport_trans d (snd (UsePassport i tok consumer tm consume ev e d))"
| trans_revoke: "local_save e d \<Longrightarrow> org_trimmed ev \<Longrightarrow> passport_trans d (snd (RevokePassport org i actor tm ev e d))"
| trans_revoke_change: "local_save e d \<Longrightarrow> org_trimmed ev \<Longrightarrow> passport_trans d (snd (RevokePassportsByChange org change actor tm ev e d))"
| trans_audit: "local_save e d \<Longrightarrow> org_trimmed ev \<Longrightarrow> passport_trans d (snd (RecordAudit ev e d))"

inductive_cases passport_transE: "passport_trans d d'"

inductive passport_run :: "db \<Rightarrow> db \<Rightarrow> bool" where
  run_refl [simp, intro]: "passport_run d d"
| run_step: "passport_run d d' \<Longrightarrow> passport_trans d' d'' \<Longrightarrow> passport_run d d''"

lemma passport_trans_rows: "passport_trans d d' \<Longrightarrow> rows_next (db_Passports d) (db_Passports d')"
  by (induction rule: passport_trans.induct)
    (metis (no_types, lifting) create_passport.rows use_passport.rows revoke_passport.rows revoke_by_change.rows
      record_audit.rows CreatePassport_failed UsePassport_failed RevokePassport_failed
      RevokePassportsByChange_failed RecordAudit_failed rows_next_refl)+

lemma passport_trans_log: "passport_trans d d' \<Longrightarrow> log_ext (db_Audits d) (db_Audits d')"
  by (induction rule: passport_trans.induct)
    (metis (no_types, lifting) create_passport.extends use_passport.extends revoke_passport.extends revoke_by_change.extends
      record_audit.extends CreatePassport_failed UsePassport_failed RevokePassport_failed
      RevokePassportsByChange_failed RecordAudit_failed log_refl)+

lemma passport_run_rows: "passport_run d d' \<Longrightarrow> rows_next (db_Passports d) (db_Passports d')"
  by (induction rule: passport_run.induct) (auto intro: rows_next_trans passport_trans_rows)

lemma passport_run_log: "passport_run d d' \<Longrightarrow> log_ext (db_Audits d) (db_Audits d')"
  by (induction rule: passport_run.induct) (auto intro: log_ext_trans passport_trans_log)

section \<open>At most one active passport per change\<close>

definition one_active :: "stored_passport list \<Rightarrow> bool" where
  "one_active ps \<longleftrightarrow> (\<forall>i<length ps. \<forall>j<length ps. pass_Status (ps ! i) = PassportActive \<longrightarrow>
     pass_Status (ps ! j) = PassportActive \<longrightarrow> same_change (ps ! i) (ps ! j) \<longrightarrow> i = j)"

definition passports_inv :: "db \<Rightarrow> bool" where
  "passports_inv d \<longleftrightarrow> distinct (map pass_ID (db_Passports d)) \<and> one_active (db_Passports d) \<and> orgs_trimmed d"

lemma row_next_active: "row_next a b \<Longrightarrow> pass_Status b = PassportActive \<Longrightarrow> pass_Status a = PassportActive"
  using pass_step_terminal by (fastforce simp: row_next_def terminal_def)

lemma row_next_keys:
  "row_next a b \<Longrightarrow> pass_ID b = pass_ID a \<and> pass_OrganizationID b = pass_OrganizationID a \<and> pass_ChangeID b = pass_ChangeID a"
  using pass_step_keys by (auto simp: row_next_def)

lemma rows_next_ids:
  assumes "rows_next xs ys" "length ys = length xs"
  shows "map pass_ID ys = map pass_ID xs" "map pass_OrganizationID ys = map pass_OrganizationID xs"
  using assms row_next_keys by (auto simp: rows_next_def intro!: nth_equalityI)

lemma rows_next_one_active:
  assumes "rows_next xs ys" "length ys = length xs" "one_active xs"
  shows "one_active ys"
  unfolding one_active_def
proof (intro allI impI)
  fix i j
  assume ij: "i < length ys" "j < length ys" "pass_Status (ys ! i) = PassportActive"
    "pass_Status (ys ! j) = PassportActive" "same_change (ys ! i) (ys ! j)"
  then have r: "row_next (xs ! i) (ys ! i)" "row_next (xs ! j) (ys ! j)"
    using assms by (auto simp: rows_next_def)
  then have "same_change (xs ! i) (xs ! j)"
    using ij(5) row_next_keys [OF r(1)] row_next_keys [OF r(2)] by (simp add: same_change_def)
  then show "i = j"
    using assms(2,3) ij row_next_active [OF r(1)] row_next_active [OF r(2)] by (simp add: one_active_def)
qed

lemma passports_inv_next:
  assumes "rows_next (db_Passports d) (db_Passports d')" "length (db_Passports d') = length (db_Passports d)"
    and "passports_inv d"
  shows "passports_inv d'"
proof -
  have "set (map pass_OrganizationID (db_Passports d')) = set (map pass_OrganizationID (db_Passports d))"
    using rows_next_ids(2) [OF assms(1,2)] by simp
  then have "orgs_trimmed d'"
    using assms(3) unfolding passports_inv_def orgs_trimmed_def by (metis (no_types, lifting) imageE image_eqI set_map)
  then show ?thesis
    using assms rows_next_ids(1) [OF assms(1,2)] rows_next_one_active [OF assms(1,2)] by (simp add: passports_inv_def)
qed

lemma one_active_snoc:
  assumes "one_active xs" and "\<And>x. x \<in> set xs \<Longrightarrow> pass_Status x = PassportActive \<Longrightarrow> \<not> same_change x y"
  shows "one_active (xs @ [y])"
  unfolding one_active_def
proof (intro allI impI)
  fix i j
  assume ij: "i < length (xs @ [y])" "j < length (xs @ [y])" "pass_Status ((xs @ [y]) ! i) = PassportActive"
    "pass_Status ((xs @ [y]) ! j) = PassportActive" "same_change ((xs @ [y]) ! i) ((xs @ [y]) ! j)"
  have sym: "same_change a b \<Longrightarrow> same_change b a" for a b :: stored_passport
    by (auto simp: same_change_def)
  show "i = j"
  proof (cases "i < length xs"; cases "j < length xs")
    assume "i < length xs" "j < length xs"
    with ij assms(1) show ?thesis by (simp add: one_active_def nth_append)
  next
    assume l: "i < length xs" "\<not> j < length xs"
    then have "j = length xs" using ij(2) by simp
    with l ij assms(2) [of "xs ! i"] show ?thesis by (simp add: nth_append)
  next
    assume l: "\<not> i < length xs" "j < length xs"
    then have "i = length xs" using ij(1) by simp
    with l ij assms(2) [of "xs ! j"] sym show ?thesis by (simp add: nth_append)
  qed (use ij in simp)
qed

lemma store_passport_simps [simp]:
  "pass_ID (store_passport p) = pass_ID p" "pass_OrganizationID (store_passport p) = pass_OrganizationID p"
  "pass_ChangeID (store_passport p) = pass_ChangeID p" "pass_Status (store_passport p) = pass_Status p"
  "pass_TokenSHA256Stored (store_passport p) = pass_TokenSHA256 p"
  "pass_ExpiresAt (store_passport p) = pass_ExpiresAt p" "pass_TokenSHA256 (store_passport p) = []"
  by (simp_all add: store_passport_def passport.defs stored_passport.defs)

lemma CreatePassport_inv:
  assumes saved: "env_save e = Saved" and inv: "passports_inv d"
    and org: "trim_space (pass_OrganizationID p) = pass_OrganizationID p"
  shows "passports_inv (snd (CreatePassport p ev e d))"
proof (cases "list_ex (\<lambda>item. pass_ID item = pass_ID p
          \<or> (same_change item p \<and> pass_Status item = PassportActive \<and> env_now e < pass_ExpiresAt item)) (db_Passports d)")
  case True
  with saved inv show ?thesis by (simp add: CreatePassport_Saved)
next
  case False
  let ?xs = "map (expired_if_stale p (env_now e)) (db_Passports d)"
  have rn: "rows_next (db_Passports d) ?xs"
    by (rule rows_next_map) (auto simp: expired_if_stale_def stale_for_def intro: expired_step)
  have inv': "passports_inv (d\<lparr> db_Passports := ?xs \<rparr>)"
    by (rule passports_inv_next [OF _ _ inv]) (use rn in simp_all)
  have "\<not> same_change x (store_passport p)" if x: "x \<in> set ?xs" "pass_Status x = PassportActive" for x
  proof
    assume same: "same_change x (store_passport p)"
    obtain y where y: "y \<in> set (db_Passports d)" "x = expired_if_stale p (env_now e) y" using x(1) by auto
    with x(2) have "x = y" "\<not> stale_for p (env_now e) y"
      by (auto simp: expired_if_stale_def split: if_splits)
    with same x(2) y False show False
      by (auto simp: stale_for_def list_ex_iff same_change_def)
  qed
  then have "one_active (?xs @ [store_passport p])"
    using inv' by (intro one_active_snoc) (auto simp: passports_inv_def)
  moreover have "pass_ID p \<notin> pass_ID ` set ?xs"
    using False rows_next_ids(1) [OF rn] by (auto simp: list_ex_iff expired_if_stale_def)
  ultimately show ?thesis
    using saved False inv' org by (auto simp: CreatePassport_Saved passports_inv_def store_frame orgs_trimmed_def)
qed

lemma RevokePassport_rows_length:
  "env_save e = Saved \<Longrightarrow> length (db_Passports (snd (RevokePassport org i actor tm ev e d))) = length (db_Passports d)"
  by (auto simp: RevokePassport_def Let_def store_frame split: option.splits)

lemma RevokePassportsByChange_rows_length:
  "env_save e = Saved \<Longrightarrow>
   length (db_Passports (snd (RevokePassportsByChange org change actor tm ev e d))) = length (db_Passports d)"
  by (auto simp: RevokePassportsByChange_def Let_def store_frame)

lemma RecordAudit_rows_length:
  "env_save e = Saved \<Longrightarrow> length (db_Passports (snd (RecordAudit ev e d))) = length (db_Passports d)"
  by (auto simp: RecordAudit_def store_frame)

lemma passport_trans_length:
  "passport_trans d d' \<Longrightarrow> length (db_Passports d') = length (db_Passports d) \<or>
     (\<exists>p ev e. env_save e = Saved \<and> trim_space (pass_OrganizationID p) = pass_OrganizationID p
        \<and> d' = snd (CreatePassport p ev e d))"
proof (induction rule: passport_trans.induct)
  case (trans_create e d ev p)
  then show ?case by (cases "env_save e = Saved") (auto simp: CreatePassport_failed)
next
  case (trans_use e d ev i tok consumer tm consume)
  then show ?case
  proof (cases "env_save e = Saved")
    case True
    then show ?thesis
      by (cases rule: UsePassport_cases [of i tok consumer tm consume ev e d])
        (auto simp: expire_on_use_def consume_passport_def Let_def store_frame)
  qed (simp add: UsePassport_failed)
next
  case (trans_revoke e d ev org i actor tm)
  then show ?case
    using RevokePassport_rows_length by (cases "env_save e = Saved") (simp_all add: RevokePassport_failed)
next
  case (trans_revoke_change e d ev org change actor tm)
  then show ?case
    using RevokePassportsByChange_rows_length by (cases "env_save e = Saved") (simp_all add: RevokePassportsByChange_failed)
next
  case (trans_audit e d ev)
  then show ?case
    using RecordAudit_rows_length by (cases "env_save e = Saved") (simp_all add: RecordAudit_failed)
qed

lemma passport_trans_inv: "passport_trans d d' \<Longrightarrow> passports_inv d \<Longrightarrow> passports_inv d'"
  using passport_trans_length passport_trans_rows passports_inv_next CreatePassport_inv by blast

lemma passport_run_inv: "passport_run d d' \<Longrightarrow> passports_inv d \<Longrightarrow> passports_inv d'"
  by (induction rule: passport_run.induct) (auto intro: passport_trans_inv)

section \<open>A consumed passport\<close>

lemma index_by_rows_next:
  assumes "rows_next xs ys" and "index_by pass_ID i xs = Some n"
  shows "index_by pass_ID i ys = Some n"
proof -
  have len: "length xs \<le> length ys" using assms(1) by (simp add: rows_next_def)
  have n: "n < length xs" "pass_ID (xs ! n) = i" "\<forall>j<n. pass_ID (xs ! j) \<noteq> i"
    using find_index_of_Some [of _ xs n] assms(2) by (auto simp: index_by_def)
  have keys: "\<forall>j<length xs. pass_ID (ys ! j) = pass_ID (xs ! j)"
    using assms(1) row_next_keys by (auto simp: rows_next_def)
  have find: "find_index_of P zs = Some k" if "k < length zs" "P (zs ! k)" "\<forall>j<k. \<not> P (zs ! j)" for P k and zs :: "stored_passport list"
    using that
  proof (induction zs arbitrary: k)
    case (Cons z zs)
    show ?case
    proof (cases k)
      case (Suc k')
      have "\<not> P z" using Cons.prems(3) Suc by force
      moreover have "find_index_of P zs = Some k'"
        using Cons.prems Suc by (intro Cons.IH) auto
      ultimately show ?thesis using Suc by simp
    qed (use Cons.prems in simp)
  qed simp
  show ?thesis
    unfolding index_by_def using n keys len by (intro find) auto
qed

lemma consumed_item_simps [simp]:
  "pass_Status (consumed_item a c tm) = PassportConsumed" "pass_ConsumedBy (consumed_item a c tm) = c"
  "pass_ConsumedAt (consumed_item a c tm) = Some tm" "pass_TokenSHA256Stored (consumed_item a c tm) = pass_TokenSHA256Stored a"
  "pass_ID (consumed_item a c tm) = pass_ID a"
  by (simp_all add: consumed_item_def)

lemma publicPassport_terminal:
  "pass_Status a \<noteq> PassportActive \<Longrightarrow> publicPassport now a False = publicPassport now' a False"
  by (simp add: publicPassport_def passport.defs Let_def)

lemma UsePassport_Inr_consumed:
  assumes "UsePassport i tok consumer tm True ev e d = (Inr p, d')"
  obtains n where "index_by pass_ID i (db_Passports d') = Some n" "pass_Status (db_Passports d' ! n) = PassportConsumed"
    "pass_ConsumedBy (db_Passports d' ! n) = consumer" "pass_TokenSHA256Stored (db_Passports d' ! n) = tok"
    "p = publicPassport (env_later e) (db_Passports d' ! n) False"
proof (cases "index_by pass_ID i (db_Passports d)")
  case None
  with assms show ?thesis by (simp add: UsePassport_def del: index_by_None)
next
  case (Some n)
  have n: "n < length (db_Passports d)" using Some by (auto dest: index_by_Some)
  let ?item = "db_Passports d ! n"
  show ?thesis
  proof (cases "pass_Status ?item = PassportConsumed")
    case True
    with assms Some have "d' = d" "sameConsumerReplay ?item tok consumer" "p = publicPassport (env_later e) ?item False"
      by (auto simp: UsePassport_def Let_def split: if_splits)
    with that Some True show ?thesis by (auto simp: sameConsumerReplay_def)
  next
    case False
    with assms Some obtain m where use: "consume_passport n m consumer tm ev e d = (Inr p, d')"
      and tok: "pass_TokenSHA256Stored ?item = tok"
      by (auto simp: UsePassport_def Let_def expire_on_use_def split: if_splits option.splits prod.splits)
    then have d': "db_Passports d' = (db_Passports d)[n := consumed_item ?item consumer tm]"
      and p: "p = publicPassport (env_later e) (consumed_item ?item consumer tm) False"
      by (auto simp: consume_passport_def Let_def save_locked_def store_frame split: option.splits prod.splits save.splits)
    have "index_by pass_ID i (db_Passports d') = Some n"
      using Some n by (simp add: d' index_by_update)
    then show ?thesis using n tok p by (intro that [of n]) (simp_all add: d')
  qed
qed

lemma UsePassport_on_consumed:
  assumes "index_by pass_ID i (db_Passports d) = Some n" "pass_Status (db_Passports d ! n) = PassportConsumed"
    "pass_TokenSHA256Stored (db_Passports d ! n) = tok"
  shows "UsePassport i tok consumer tm True ev e d =
    (if sameConsumerReplay (db_Passports d ! n) tok consumer
     then (Inr (publicPassport (env_later e) (db_Passports d ! n) False), d) else (Inl ErrPassportReplay, d))"
  using assms by (simp add: UsePassport_def Let_def)

lemma UsePassport_fresh:
  assumes "UsePassport i tok consumer tm True ev e d = (Inr p, d')"
    and "index_by pass_ID i (db_Passports d) = Some n" "pass_Status (db_Passports d ! n) \<noteq> PassportConsumed"
  shows "\<exists>m. pass_TokenSHA256Stored (db_Passports d ! n) = tok \<and> pass_Status (db_Passports d ! n) = PassportActive
    \<and> tm < pass_ExpiresAt (db_Passports d ! n) \<and> change_of d (db_Passports d ! n) = Some m
    \<and> bound_change d (db_Passports d ! n) (db_Changes d ! m) \<and> consume_passport n m consumer tm ev e d = (Inr p, d')"
  using assms
  by (auto simp: UsePassport_def Let_def expire_on_use_def split: if_splits option.splits prod.splits)

section \<open>Properties\<close>

text \<open>C3: a successful first consumption is one atomic step: the passport was active, unexpired and presented
  with its own token; its change was approved with the same artifact digest, environment and rule set, which
  was also the current one; the step marks the passport consumed by this consumer, completes the change, and
  appends exactly one audit event with the consumption action, and writes nothing else.\<close>

theorem UsePassport_consume_atomic:
  assumes use: "UsePassport i tok consumer tm True ev e d = (Inr p, d')"
    and n: "index_by pass_ID i (db_Passports d) = Some n"
    and fresh: "pass_Status (db_Passports d ! n) \<noteq> PassportConsumed"
  shows "\<exists>m a. let item = db_Passports d ! n; c = db_Changes d ! m in
    pass_Status item = PassportActive \<and> tm < pass_ExpiresAt item \<and> pass_TokenSHA256Stored item = tok
    \<and> change_of d item = Some m \<and> chg_Status c = StatusApproved
    \<and> chg_ArtifactSHA256 c = pass_ArtifactSHA256 item \<and> chg_Environment c = pass_Environment item
    \<and> chg_RuleSetVersion c = pass_RuleSetVersion item
    \<and> RuleSetVersion (filter (\<lambda>p. pol_OrganizationID p = pass_OrganizationID item) (db_Policies d)) = pass_RuleSetVersion item
    \<and> d' = d\<lparr> db_Passports := (db_Passports d)[n := consumed_item item consumer tm],
             db_Changes := (db_Changes d)[m := completed_change c consumer tm (env_id e 0)],
             db_Audits := db_Audits d @ [a] \<rparr>
    \<and> aud_Action a = ''PASSPORT_CONSUMED_AND_CHANGE_COMPLETED''"
proof -
  obtain m where guards: "pass_TokenSHA256Stored (db_Passports d ! n) = tok" "pass_Status (db_Passports d ! n) = PassportActive"
      "tm < pass_ExpiresAt (db_Passports d ! n)" "change_of d (db_Passports d ! n) = Some m"
      "bound_change d (db_Passports d ! n) (db_Changes d ! m)"
    and run: "consume_passport n m consumer tm ev e d = (Inr p, d')"
    using UsePassport_fresh [OF assms] by blast
  let ?a = "ev\<lparr> aud_Action := ''PASSPORT_CONSUMED_AND_CHANGE_COMPLETED'', aud_Detail := aud_Detail ev @ txt_completed_suffix \<rparr>"
  let ?d = "d\<lparr> db_Passports := (db_Passports d)[n := consumed_item (db_Passports d ! n) consumer tm],
     db_Changes := (db_Changes d)[m := completed_change (db_Changes d ! m) consumer tm (env_id e 0)] \<rparr>"
  have "env_save e = Saved"
    using run by (auto simp: consume_passport_def Let_def save_locked_def split: save.splits option.splits prod.splits)
  then have d': "d' = append_audit e ?d ?a"
    using run by (auto simp: consume_passport_def Let_def)
  obtain a where a: "append_audit e ?d ?a = ?d\<lparr> db_Audits := db_Audits d @ [a] \<rparr>"
    and act: "aud_Action a = ''PASSPORT_CONSUMED_AND_CHANGE_COMPLETED''"
  proof -
    have act: "aud_Action (Link x q) = to_upper (trim_space (aud_Action x))" for x q
      by (simp add: Link_def Let_def Normalize_def default_actor_def default_resource_def trim_event_def)
    have enr: "aud_Action (enrich_audit d0 x) = aud_Action x" for d0 x
      by (simp add: enrich_audit_def fill_versions_def Let_def split: option.splits)
    have "to_upper (trim_space ''PASSPORT_CONSUMED_AND_CHANGE_COMPLETED'') = ''PASSPORT_CONSUMED_AND_CHANGE_COMPLETED''"
      by code_simp
    then show ?thesis
      by (intro that [of "last (db_Audits (append_audit e ?d ?a))"]) (simp_all add: append_audit_def Let_def act enr)
  qed
  show ?thesis using guards act unfolding Let_def d' a bound_change_def by blast
qed

definition sample_passport :: passport where
  "sample_passport = zero_passport\<lparr> pass_ID := ''pass_1'', pass_OrganizationID := ''org_1'', pass_ChangeID := ''chg_1'',
     pass_Status := PassportActive, pass_TokenSHA256 := ''hash'', pass_ExpiresAt := 100,
     pass_RuleSetVersion := RuleSetVersion [] \<rparr>"

definition sample_db :: db where
  "sample_db = empty_db\<lparr> db_Passports := [store_passport sample_passport],
     db_Changes := [zero_change_request\<lparr> chg_ID := ''chg_1'', chg_OrganizationID := ''org_1'',
       chg_Status := StatusApproved, chg_RuleSetVersion := RuleSetVersion [] \<rparr>] \<rparr>"

lemma sample_index: "index_by pass_ID ''pass_1'' (db_Passports sample_db) = Some 0"
  by (simp add: sample_db_def sample_passport_def index_by_def)

lemma sample_bound: "change_of sample_db (db_Passports sample_db ! 0) = Some 0"
  "bound_change sample_db (db_Passports sample_db ! 0) (db_Changes sample_db ! 0)"
  by (simp_all add: sample_db_def sample_passport_def change_of_def bound_change_def store_passport_def
      empty_db_def zero_change_request_def zero_passport_def passport.defs stored_passport.defs)

lemma sample_use:
  "UsePassport ''pass_1'' ''hash'' ''ci:1'' 50 True sample_event (saved_env 50) sample_db =
   consume_passport 0 0 ''ci:1'' 50 sample_event (saved_env 50) sample_db"
  using sample_index sample_bound
  by (simp add: UsePassport_def Let_def) (simp add: sample_db_def sample_passport_def)

lemma sample_consumed:
  obtains p d' where "UsePassport ''pass_1'' ''hash'' ''ci:1'' 50 True sample_event (saved_env 50) sample_db = (Inr p, d')"
  by (simp add: sample_use consume_passport_def Let_def)

lemma sample_status: "pass_Status (db_Passports sample_db ! 0) = PassportActive"
  by (simp add: sample_db_def sample_passport_def)

theorem UsePassport_consume_atomic_witness:
  "\<exists>p d' a. UsePassport ''pass_1'' ''hash'' ''ci:1'' 50 True sample_event (saved_env 50) sample_db = (Inr p, d')
     \<and> db_Audits d' = [a] \<and> aud_Action a = ''PASSPORT_CONSUMED_AND_CHANGE_COMPLETED''"
proof -
  obtain p d' where use: "UsePassport ''pass_1'' ''hash'' ''ci:1'' 50 True sample_event (saved_env 50) sample_db = (Inr p, d')"
    by (rule sample_consumed)
  from UsePassport_consume_atomic [OF use sample_index] sample_status
  obtain a where "db_Audits d' = db_Audits sample_db @ [a]" "aud_Action a = ''PASSPORT_CONSUMED_AND_CHANGE_COMPLETED''"
    by (auto simp: Let_def)
  with use show ?thesis by (simp add: sample_db_def empty_db_def)
qed

text \<open>C7: once a passport is consumed, then after any further passport operations by anyone a further consumption gets
  the same passport back exactly when it presents the same token and names the same consumer, and this is not blank; with
  another token it is refused as a mismatch, by another consumer as a replay; and nothing is written in any case.\<close>

theorem UsePassport_replay:
  assumes use: "UsePassport i tok consumer tm True ev e d = (Inr p, d')" and run: "passport_run d' d''"
  shows "UsePassport i tok' other tm2 True ev2 e2 d'' =
    (if tok' \<noteq> tok then Inl ErrPassportTokenMismatch
     else if other = consumer \<and> trim_space consumer \<noteq> [] then Inr p else Inl ErrPassportReplay, d'')"
proof -
  obtain n where n: "index_by pass_ID i (db_Passports d') = Some n" "pass_Status (db_Passports d' ! n) = PassportConsumed"
    "pass_ConsumedBy (db_Passports d' ! n) = consumer" "pass_TokenSHA256Stored (db_Passports d' ! n) = tok"
    "p = publicPassport (env_later e) (db_Passports d' ! n) False"
    by (rule UsePassport_Inr_consumed [OF use])
  note rows = passport_run_rows [OF run]
  have n'': "index_by pass_ID i (db_Passports d'') = Some n"
    by (rule index_by_rows_next [OF rows n(1)])
  have same: "db_Passports d'' ! n = db_Passports d' ! n"
    using rows_next_terminal [OF rows, of n] n(1,2) index_by_Some by (fastforce simp: terminal_def)
  show ?thesis
  proof (cases "tok' = tok")
    case True
    then show ?thesis using n(2-5) publicPassport_terminal [of "db_Passports d' ! n"]
      by (auto simp: UsePassport_on_consumed [OF n''] same sameConsumerReplay_def)
  next
    case False
    then show ?thesis using n(4) by (simp add: UsePassport_def n'' same)
  qed
qed

theorem UsePassport_replay_witness:
  "\<exists>p d'. UsePassport ''pass_1'' ''hash'' ''ci:1'' 50 True sample_event (saved_env 50) sample_db = (Inr p, d')
     \<and> UsePassport ''pass_1'' ''hash'' ''ci:1'' 70 True sample_event (saved_env 70) d' = (Inr p, d')
     \<and> UsePassport ''pass_1'' ''hash'' ''ci:2'' 70 True sample_event (saved_env 70) d' = (Inl ErrPassportReplay, d')
     \<and> UsePassport ''pass_1'' ''other'' ''ci:1'' 70 True sample_event (saved_env 70) d' = (Inl ErrPassportTokenMismatch, d')"
proof -
  obtain p d' where use: "UsePassport ''pass_1'' ''hash'' ''ci:1'' 50 True sample_event (saved_env 50) sample_db = (Inr p, d')"
    by (rule sample_consumed)
  have "trim_space ''ci:1'' \<noteq> []" by code_simp
  then show ?thesis
    by (intro exI [of _ p] exI [of _ d']) (simp add: use UsePassport_replay [OF use run_refl])
qed

text \<open>C6: in any run of the passport operations, from a state where every change has at most one active passport
  and identifiers are distinct, it stays so: a change never has two passports that could both be consumed.\<close>

theorem passport_run_one_active:
  assumes "passport_run d d'" and "passports_inv d"
  shows "distinct (map pass_ID (db_Passports d')) \<and>
    (\<forall>a\<in>set (db_Passports d'). \<forall>b\<in>set (db_Passports d').
      pass_Status a = PassportActive \<longrightarrow> pass_Status b = PassportActive \<longrightarrow> same_change a b \<longrightarrow> a = b)"
  using passport_run_inv [OF assms] by (fastforce simp: passports_inv_def one_active_def in_set_conv_nth)

theorem passport_run_one_active_witness:
  "distinct (map pass_ID (db_Passports (snd (CreatePassport sample_passport sample_event (saved_env 1) empty_db))))"
proof -
  have t: "trim_space ''org_1'' = ''org_1''" by code_simp
  have "passport_run empty_db (snd (CreatePassport sample_passport sample_event (saved_env 1) empty_db))"
    by (rule run_step [OF run_refl], rule trans_create)
      (simp_all add: local_save_def orgs_trimmed_def empty_db_def sample_passport_def zero_passport_def t)
  moreover have "passports_inv empty_db"
    by (simp add: passports_inv_def one_active_def orgs_trimmed_def empty_db_def)
  ultimately show ?thesis using passport_run_one_active by blast
qed

text \<open>No run of the passport operations changes what an issued passport is bound to, and a passport that is
  consumed, revoked or expired never changes again; the audit log only grows and stays verified.\<close>

lemma passport_run_monotone:
  assumes "passport_run d d'" and "n < length (db_Passports d)"
  shows "binding (db_Passports d' ! n) = binding (db_Passports d ! n)
    \<and> (terminal (pass_Status (db_Passports d ! n)) \<longrightarrow> db_Passports d' ! n = db_Passports d ! n)
    \<and> (\<exists>new. db_Audits d' = db_Audits d @ new)
    \<and> (log_ok (db_Audits d) \<longrightarrow> VerifyAuditChain d' org = None)"
proof -
  note rows = passport_run_rows [OF assms(1)] and log = passport_run_log [OF assms(1)]
  have "row_next (db_Passports d ! n) (db_Passports d' ! n)"
    using rows assms(2) by (simp add: rows_next_def)
  then have "binding (db_Passports d' ! n) = binding (db_Passports d ! n)"
    using pass_step_binding by (auto simp: row_next_def)
  then show ?thesis
    using rows_next_terminal [OF rows assms(2)] log_ext_prefix [OF log] VerifyAuditChain_ok [OF log_ok_ext [OF log]]
    by blast
qed

lemma passport_run_monotone_witness:
  "\<exists>d'. passport_run sample_db d' \<and> pass_Status (db_Passports d' ! 0) = PassportConsumed
     \<and> binding (db_Passports d' ! 0) = binding (db_Passports sample_db ! 0)"
proof -
  let ?r = "UsePassport ''pass_1'' ''hash'' ''ci:1'' 50 True sample_event (saved_env 50) sample_db"
  have run: "passport_run sample_db (snd ?r)"
    by (rule run_step [OF run_refl], rule trans_use) (simp_all add: local_save_def)
  have "pass_Status (db_Passports (snd ?r) ! 0) = PassportConsumed"
    by (simp add: sample_use consume_passport_def Let_def store_frame) (simp add: sample_db_def)
  moreover have "binding (db_Passports (snd ?r) ! 0) = binding (db_Passports sample_db ! 0)"
    using passport_run_monotone [OF run, of 0] by (simp add: sample_db_def)
  ultimately show ?thesis using run by blast
qed

text \<open>When the save fails in a store with a single process (nothing is restored, or the state of the last
  successful save is), none of the passport operations leaves a trace: creating, consuming, expiring on use,
  revoking one or all of a change, and recording an audit event return the state they started from.\<close>

lemma passport_ops_failed_save:
  assumes "env_save e \<noteq> Saved" and "local_save e d"
  shows "snd (CreatePassport p ev e d) = d \<and> snd (UsePassport i tok consumer tm consume ev e d) = d
    \<and> snd (RevokePassport org i actor tm ev e d) = d \<and> snd (RevokePassportsByChange org change actor tm ev e d) = d
    \<and> snd (RecordAudit ev e d) = d"
  using assms by (simp add: CreatePassport_failed UsePassport_failed RevokePassport_failed
      RevokePassportsByChange_failed RecordAudit_failed)

lemma passport_ops_failed_save_witness:
  "snd (UsePassport ''pass_1'' ''hash'' ''ci:1'' 50 True sample_event
     ((saved_env 50)\<lparr> env_save := SaveFailed ErrBackend (Some sample_db) \<rparr>) sample_db) = sample_db"
  using passport_ops_failed_save [of "(saved_env 50)\<lparr> env_save := SaveFailed ErrBackend (Some sample_db) \<rparr>" sample_db]
  by (simp add: local_save_def)

text \<open>When the save of a new passport fails and a newer state written by another process is restored, the
  rollback overwrites that state's passports and audit log with the old ones, and the next successful save of
  any operation persists them: a consumption and its audit events made by the other process are lost.\<close>

lemma CreatePassport_overwrites_latest:
  fixes ev :: audit_event
  assumes "env_save e = SaveFailed er (Some latest)" and "env_save e2 = Saved"
    and "\<not> list_ex (\<lambda>item. pass_ID item = pass_ID p
          \<or> (same_change item p \<and> pass_Status item = PassportActive \<and> env_now e < pass_ExpiresAt item)) (db_Passports d)"
  defines "d1 \<equiv> snd (CreatePassport p ev e d)"
  shows "d1 = latest\<lparr> db_Passports := db_Passports d, db_Audits := db_Audits d \<rparr>
    \<and> db_Passports (snd (RecordPolicyHits codes e2 d1)) = db_Passports d
    \<and> db_Audits (snd (RecordPolicyHits codes e2 d1)) = db_Audits d"
  using assms by (simp add: CreatePassport_def Let_def save_locked_def RecordPolicyHits_def)

lemma CreatePassport_overwrites_latest_witness:
  "\<exists>latest. pass_Status (db_Passports latest ! 0) = PassportConsumed
     \<and> pass_Status (db_Passports (snd (CreatePassport (sample_passport\<lparr> pass_ID := ''pass_2'', pass_ChangeID := ''chg_2'' \<rparr>)
          sample_event ((saved_env 60)\<lparr> env_save := SaveFailed ErrConcurrentWrite (Some latest) \<rparr>) sample_db)) ! 0) = PassportActive"
proof -
  let ?latest = "snd (UsePassport ''pass_1'' ''hash'' ''ci:1'' 50 True sample_event (saved_env 50) sample_db)"
  have c: "pass_Status (db_Passports ?latest ! 0) = PassportConsumed"
    by (simp add: sample_use consume_passport_def Let_def store_frame) (simp add: sample_db_def)
  have "\<not> list_ex (\<lambda>item. pass_ID item = ''pass_2'' \<or> (same_change item (sample_passport\<lparr> pass_ID := ''pass_2'', pass_ChangeID := ''chg_2'' \<rparr>)
      \<and> pass_Status item = PassportActive \<and> 60 < pass_ExpiresAt item)) (db_Passports sample_db)"
    by (simp add: sample_db_def same_change_def sample_passport_def)
  then have "snd (CreatePassport (sample_passport\<lparr> pass_ID := ''pass_2'', pass_ChangeID := ''chg_2'' \<rparr>)
          sample_event ((saved_env 60)\<lparr> env_save := SaveFailed ErrConcurrentWrite (Some ?latest) \<rparr>) sample_db)
      = ?latest\<lparr> db_Passports := db_Passports sample_db, db_Audits := db_Audits sample_db \<rparr>"
    using CreatePassport_overwrites_latest [of "(saved_env 60)\<lparr> env_save := SaveFailed ErrConcurrentWrite (Some ?latest) \<rparr>"
        ErrConcurrentWrite ?latest "saved_env 60" "sample_passport\<lparr> pass_ID := ''pass_2'', pass_ChangeID := ''chg_2'' \<rparr>"
        sample_db sample_event]
    by (simp add: saved_env_def)
  then show ?thesis using c sample_status by (intro exI [of _ ?latest]) simp
qed

text \<open>A check without consumption writes only when it finds the passport expired: it then returns the expiry
  error, and with the save done the passport is marked expired, one event is appended and nothing else changes.\<close>

lemma UsePassport_check_writes_expiry:
  assumes "UsePassport i tok consumer tm False ev e d = (r, d')" and "d' \<noteq> d" and "env_save e = Saved"
  shows "r = Inl ErrPassportExpired \<and> (\<exists>n a. index_by pass_ID i (db_Passports d) = Some n
    \<and> pass_Status (db_Passports d ! n) = PassportActive \<and> pass_ExpiresAt (db_Passports d ! n) \<le> tm
    \<and> d' = d\<lparr> db_Passports := (db_Passports d)[n := (db_Passports d ! n)\<lparr> pass_Status := PassportExpired \<rparr>],
             db_Audits := db_Audits d @ [a] \<rparr>)"
proof (cases rule: UsePassport_cases [of i tok consumer tm False ev e d])
  case (expire n)
  let ?d = "d\<lparr> db_Passports := (db_Passports d)[n := (db_Passports d ! n)\<lparr> pass_Status := PassportExpired \<rparr>] \<rparr>"
  obtain a where a: "append_audit e ?d (ev\<lparr> aud_Action := ''PASSPORT_EXPIRED'' \<rparr>) = ?d\<lparr> db_Audits := db_Audits d @ [a] \<rparr>"
    by (auto simp: append_audit_def Let_def)
  have "r = Inl ErrPassportExpired" "d' = append_audit e ?d (ev\<lparr> aud_Action := ''PASSPORT_EXPIRED'' \<rparr>)"
    using assms(1,3) expire(5) by (simp_all add: expire_on_use_def Let_def)
  then show ?thesis using expire(1,3,4) a by blast
qed (use assms in auto)

lemma UsePassport_check_writes_expiry_witness:
  "\<exists>d'. UsePassport ''pass_1'' ''hash'' [] 200 False sample_event (saved_env 200) sample_db = (Inl ErrPassportExpired, d')
     \<and> d' \<noteq> sample_db \<and> pass_Status (db_Passports d' ! 0) = PassportExpired"
proof -
  let ?r = "UsePassport ''pass_1'' ''hash'' [] 200 False sample_event (saved_env 200) sample_db"
  have r: "?r = expire_on_use 0 sample_event (saved_env 200) sample_db"
    using sample_index by (simp add: UsePassport_def Let_def) (simp add: sample_db_def sample_passport_def)
  have st: "pass_Status (db_Passports (snd ?r) ! 0) = PassportExpired"
    unfolding r by (simp add: expire_on_use_def Let_def store_frame) (simp add: sample_db_def)
  then have ne: "snd ?r \<noteq> sample_db" using sample_status by auto
  then have "fst ?r = Inl ErrPassportExpired"
    using UsePassport_check_writes_expiry [of _ _ _ _ _ _ _ "fst ?r" "snd ?r"] by simp
  with st ne show ?thesis by (metis prod.collapse)
qed

end
