(* ===== verification/Fencing.thy ===== *)
theory Fencing
  imports GoText
begin

text \<open>
  The contract of a generation-fenced row: acquiring it increments a 64-bit generation, working on it
  leaves the generation alone, and whoever works must present the current generation. Clients get that
  a holder is fenced out by every later acquisition, up to the wrap-around of the counter. The outbox
  leases and the idempotency claims are the two instances.
\<close>

locale fenced =
  fixes gen :: "'r \<Rightarrow> 64 word" and acquire :: "'r \<Rightarrow> 'r \<Rightarrow> bool" and work :: "'r \<Rightarrow> 'r \<Rightarrow> bool"
    and holds :: "64 word \<Rightarrow> 'r \<Rightarrow> bool"
  assumes acquire_gen: "acquire r r' \<Longrightarrow> gen r' = gen r + 1"
    and work_gen: "work r r' \<Longrightarrow> gen r' = gen r"
    and holds_gen: "holds g r \<Longrightarrow> gen r = g"
begin

text \<open>\<open>later k r r'\<close>: the row went from \<open>r\<close> to \<open>r'\<close> with \<open>k\<close> acquisitions on the way.\<close>

inductive later :: "nat \<Rightarrow> 'r \<Rightarrow> 'r \<Rightarrow> bool" where
  later_refl: "later 0 r r"
| later_work: "later k r r' \<Longrightarrow> work r' r'' \<Longrightarrow> later k r r''"
| later_acquire: "later k r r' \<Longrightarrow> acquire r' r'' \<Longrightarrow> later (Suc k) r r''"

lemma later_gen: "later k r r' \<Longrightarrow> gen r' = gen r + of_nat k"
  by (induction rule: later.induct) (auto simp: work_gen acquire_gen algebra_simps)

lemma of_nat_nonzero:
  assumes "0 < k" "k < 2 ^ 64"
  shows "of_nat k \<noteq> (0 :: 64 word)"
proof
  assume "of_nat k = (0 :: 64 word)"
  then have "unat (of_nat k :: 64 word) = 0" by (simp only: unat_0)
  then have "k mod 2 ^ LENGTH(64) = 0" by (simp only: unat_of_nat)
  moreover have "k mod 2 ^ LENGTH(64) = k" using assms(2) by (intro mod_less) simp
  ultimately show False using assms(1) by linarith
qed

lemma fenced_out:
  assumes "later k r r'" "0 < k" "k < 2 ^ 64"
  shows "\<not> holds (gen r) r'"
proof
  assume "holds (gen r) r'"
  then have "gen r + of_nat k = gen r" using holds_gen later_gen [OF assms(1)] by metis
  then have "of_nat k = (0 :: 64 word)" by (metis add_cancel_left_right)
  with of_nat_nonzero [OF assms(2,3)] show False by blast
qed

end

end
