(* ===== verification/OutboxStore.thy ===== *)
theory OutboxStore
  imports Store Fencing
begin

text \<open>
  \<^verbatim>\<open>internal/store/outbox.go\<close>, for the file and memory backends: the transactional outbox the experiment
  workers consume under leases. A claim takes the due event with the earliest due time, increments its
  lease generation and locks it until a deadline; every later operation of the worker presents the
  generation. The lemmas show that a lease is exclusive, that a worker fenced by a later claim can
  change nothing, that a failed event is retried after a bounded delay or becomes a dead letter, that
  a result is recorded once, and that a change and its event are written together.
\<close>

section \<open>Enqueueing\<close>

definition fill_event :: "env \<Rightarrow> outbox_event \<Rightarrow> outbox_event" where
  "fill_event e ev =
     (let now = env_now e in
      ev\<lparr> out_ID := (if out_ID ev = [] then env_id e 0 else out_ID ev),
          out_Status := (if out_Status ev = OutboxUnset then OutboxPending else out_Status ev),
          out_MaxAttempts := (if out_MaxAttempts ev \<le> 0 then 5 else out_MaxAttempts ev),
          out_NextAttemptAt := (if is_zero (out_NextAttemptAt ev) then now else out_NextAttemptAt ev),
          out_CreatedAt := (if is_zero (out_CreatedAt ev) then now else out_CreatedAt ev),
          out_UpdatedAt := now \<rparr>)"

definition UpdateChangeWithOutbox ::
  "string \<Rightarrow> change_request update \<Rightarrow> outbox_event \<Rightarrow> audit_event list \<Rightarrow> env \<Rightarrow> db \<Rightarrow> (err + change_request) \<times> db" where
  "UpdateChangeWithOutbox i upd event evs e d =
     (case index_by chg_ID i (db_Changes d) of
        None \<Rightarrow> (Inl ErrNotFound, d)
      | Some n \<Rightarrow>
          (case upd (db_Changes d ! n) of
             (Some er, c) \<Rightarrow> (Inl er, d)
           | (None, c) \<Rightarrow>
               let c = c\<lparr> chg_UpdatedAt := env_now e, chg_Version := chg_Version c + 1 \<rparr>;
                   d' = d\<lparr> db_Changes := (db_Changes d)[n := c], db_Outbox := db_Outbox d @ [fill_event e event] \<rparr>
               in save_return e c (append_audits e evs d')))"

definition open_experiment :: "string \<Rightarrow> outbox_event \<Rightarrow> bool" where
  "open_experiment change ev \<longleftrightarrow>
     out_EventType ev = ''experiment.requested'' \<and> out_AggregateID ev = change
     \<and> out_Status ev \<noteq> OutboxCompleted \<and> out_Status ev \<noteq> OutboxDead"

definition experiment_event :: "env \<Rightarrow> nat \<Rightarrow> change_request \<Rightarrow> outbox_event" where
  "experiment_event e k c = zero_outbox_event
     \<lparr> out_ID := env_id e k, out_OrganizationID := chg_OrganizationID c, out_AggregateType := ''change'',
       out_AggregateID := chg_ID c, out_EventType := ''experiment.requested'', out_Status := OutboxPending,
       out_MaxAttempts := 5, out_InputSHA256 := chg_ArtifactSHA256 c, out_NextAttemptAt := env_now e,
       out_CreatedAt := env_now e, out_UpdatedAt := env_now e \<rparr>"

definition awaits_experiment :: "change_request \<Rightarrow> bool" where
  "awaits_experiment c \<longleftrightarrow> chg_Status c = StatusExperimentQueued \<or> chg_Status c = StatusExperimentRunning"

definition ensure_one :: "env \<Rightarrow> outbox_event list \<Rightarrow> change_request \<Rightarrow> outbox_event list" where
  "ensure_one e outbox c =
     (if awaits_experiment c \<and> \<not> list_ex (open_experiment (chg_ID c)) outbox
      then outbox @ [experiment_event e (length outbox) c] else outbox)"

definition EnsureExperimentOutbox :: "env \<Rightarrow> db \<Rightarrow> (err + unit) \<times> db" where
  "EnsureExperimentOutbox e d =
     (let outbox = foldl (ensure_one e) (db_Outbox d) (db_Changes d) in
      if length outbox = length (db_Outbox d) then (Inr (), d)
      else save_return e () (d\<lparr> db_Outbox := outbox \<rparr>))"

section \<open>Leases\<close>

definition eligible :: "gotime \<Rightarrow> outbox_event \<Rightarrow> bool" where
  "eligible now ev \<longleftrightarrow>
     out_Status ev = OutboxPending
     \<or> (out_Status ev = OutboxProcessing \<and> (case out_LockedUntil ev of None \<Rightarrow> False | Some t \<Rightarrow> t \<le> now))"

definition due :: "gotime \<Rightarrow> outbox_event \<Rightarrow> bool" where
  "due now ev \<longleftrightarrow> eligible now ev \<and> out_NextAttemptAt ev \<le> now"

definition select_step :: "gotime \<Rightarrow> outbox_event list \<Rightarrow> nat option \<Rightarrow> nat \<Rightarrow> nat option" where
  "select_step now outbox sel n =
     (if \<not> due now (outbox ! n) then sel
      else case sel of
             None \<Rightarrow> Some n
           | Some m \<Rightarrow> if out_NextAttemptAt (outbox ! n) < out_NextAttemptAt (outbox ! m) then Some n else Some m)"

definition select_due :: "gotime \<Rightarrow> outbox_event list \<Rightarrow> nat option" where
  "select_due now outbox = foldl (select_step now outbox) None [0..<length outbox]"

definition claim_input :: "db \<Rightarrow> outbox_event \<Rightarrow> string" where
  "claim_input d ev =
     (if out_InputSHA256 ev = [] \<and> out_EventType ev = ''experiment.requested''
      then (case lookup_by chg_ID (out_AggregateID ev) (db_Changes d) of
              None \<Rightarrow> [] | Some c \<Rightarrow> chg_ArtifactSHA256 c)
      else out_InputSHA256 ev)"

definition claim_row :: "string \<Rightarrow> duration \<Rightarrow> string \<Rightarrow> string \<Rightarrow> gotime \<Rightarrow> outbox_event \<Rightarrow> outbox_event" where
  "claim_row worker lease input attempt now ev =
     ev\<lparr> out_InputSHA256 := input,
         out_Status := OutboxProcessing,
         out_Attempts := out_Attempts ev + 1,
         out_AttemptID := (if out_AttemptID ev = [] then attempt else out_AttemptID ev),
         out_LeaseGeneration := out_LeaseGeneration ev + 1,
         out_LockedBy := worker,
         out_LockedUntil := Some (now + lease),
         out_UpdatedAt := now,
         out_Stage := (if out_Stage ev = StageNone then StagePrepare else out_Stage ev),
         out_StageStartedAt := (if out_Stage ev = StageNone then Some now else out_StageStartedAt ev),
         out_StageUpdatedAt := Some now \<rparr>"

definition ClaimOutbox :: "string \<Rightarrow> duration \<Rightarrow> env \<Rightarrow> db \<Rightarrow> (err + outbox_event) \<times> db" where
  "ClaimOutbox worker lease e d =
     (case select_due (env_now e) (db_Outbox d) of
        None \<Rightarrow> (Inl ErrNotFound, d)
      | Some n \<Rightarrow>
          let ev = db_Outbox d ! n;
              ev' = claim_row worker lease (claim_input d ev) (env_id e 0) (env_now e) ev
          in save_return e ev' (d\<lparr> db_Outbox := (db_Outbox d)[n := ev'] \<rparr>))"

definition validOutboxLease :: "outbox_event \<Rightarrow> string \<Rightarrow> 64 word \<Rightarrow> gotime \<Rightarrow> bool" where
  "validOutboxLease ev worker generation now \<longleftrightarrow>
     out_Status ev = OutboxProcessing \<and> out_LockedBy ev = worker \<and> out_LeaseGeneration ev = generation
     \<and> (case out_LockedUntil ev of None \<Rightarrow> False | Some t \<Rightarrow> now < t)"

text \<open>The operations of the lease holder share one shape: find the event by its identifier, check the
  lease, rewrite the row, save.\<close>

definition complete_row :: "gotime \<Rightarrow> outbox_event \<Rightarrow> outbox_event" where
  "complete_row now ev =
     ev\<lparr> out_Status := OutboxCompleted, out_CompletedAt := Some now, out_LockedBy := [], out_LockedUntil := None,
         out_LastError := [], out_UpdatedAt := now \<rparr>"

definition CompleteOutbox :: "string \<Rightarrow> string \<Rightarrow> 64 word \<Rightarrow> env \<Rightarrow> db \<Rightarrow> (err + unit) \<times> db" where
  "CompleteOutbox i worker generation e d =
     (case index_by out_ID i (db_Outbox d) of
        None \<Rightarrow> (Inl ErrNotFound, d)
      | Some n \<Rightarrow>
          if \<not> validOutboxLease (db_Outbox d ! n) worker generation (env_now e) then (Inl ErrConcurrentWrite, d)
          else save_return e () (d\<lparr> db_Outbox := (db_Outbox d)[n := complete_row (env_now e) (db_Outbox d ! n)] \<rparr>))"

definition renew_row :: "duration \<Rightarrow> gotime \<Rightarrow> outbox_event \<Rightarrow> outbox_event" where
  "renew_row lease now ev = ev\<lparr> out_LockedUntil := Some (now + lease), out_UpdatedAt := now \<rparr>"

definition RenewOutbox :: "string \<Rightarrow> string \<Rightarrow> 64 word \<Rightarrow> duration \<Rightarrow> env \<Rightarrow> db \<Rightarrow> (err + unit) \<times> db" where
  "RenewOutbox i worker generation lease e d =
     (case index_by out_ID i (db_Outbox d) of
        None \<Rightarrow> (Inl ErrNotFound, d)
      | Some n \<Rightarrow>
          if \<not> validOutboxLease (db_Outbox d ! n) worker generation (env_now e) then (Inl ErrConcurrentWrite, d)
          else save_return e () (d\<lparr> db_Outbox := (db_Outbox d)[n := renew_row lease (env_now e) (db_Outbox d ! n)] \<rparr>))"

definition minInt :: "int \<Rightarrow> int \<Rightarrow> int" where
  "minInt left right = (if left < right then left else right)"

definition unlocked :: "string \<Rightarrow> gotime \<Rightarrow> outbox_event \<Rightarrow> outbox_event" where
  "unlocked cause now ev =
     ev\<lparr> out_LastError := cause, out_LockedBy := [], out_LockedUntil := None, out_UpdatedAt := now \<rparr>"

definition reset_attempt :: "outbox_event \<Rightarrow> outbox_event" where
  "reset_attempt ev =
     ev\<lparr> out_Status := OutboxPending, out_AttemptID := [], out_Stage := StageNone, out_StageStartedAt := None,
         out_StageUpdatedAt := None, out_ResultDigest := [] \<rparr>"

definition fail_row :: "string \<Rightarrow> gotime \<Rightarrow> outbox_event \<Rightarrow> outbox_event" where
  "fail_row cause now ev =
     (let ev = unlocked cause now ev in
      if out_Attempts ev \<ge> out_MaxAttempts ev then ev\<lparr> out_Status := OutboxDead \<rparr>
      else (reset_attempt ev)\<lparr> out_NextAttemptAt := now + 2 ^ nat (minInt (out_Attempts ev) 6) * second \<rparr>)"

text \<open>A negative shift count panics after the row has been reset; \<open>Attempts\<close> is negative in no state the
  operations reach.\<close>

definition FailOutbox :: "string \<Rightarrow> string \<Rightarrow> 64 word \<Rightarrow> string \<Rightarrow> env \<Rightarrow> db \<Rightarrow> (err + unit) \<times> db" where
  "FailOutbox i worker generation cause e d =
     (case index_by out_ID i (db_Outbox d) of
        None \<Rightarrow> (Inl ErrNotFound, d)
      | Some n \<Rightarrow>
          let ev = db_Outbox d ! n in
          if \<not> validOutboxLease ev worker generation (env_now e) then (Inl ErrConcurrentWrite, d)
          else if out_Attempts ev < out_MaxAttempts ev \<and> out_Attempts ev < 0 then
            (Inl IndexPanic, d\<lparr> db_Outbox := (db_Outbox d)[n := reset_attempt (unlocked cause (env_now e) ev)] \<rparr>)
          else save_return e () (d\<lparr> db_Outbox := (db_Outbox d)[n := fail_row cause (env_now e) ev] \<rparr>))"

definition checkpoint_row :: "outbox_stage \<Rightarrow> gotime \<Rightarrow> outbox_event \<Rightarrow> outbox_event" where
  "checkpoint_row stage now ev =
     ev\<lparr> out_StageStartedAt := (if out_Stage ev \<noteq> stage then Some now else out_StageStartedAt ev),
         out_Stage := stage, out_StageUpdatedAt := Some now, out_UpdatedAt := now \<rparr>"

definition CheckpointExperimentOutbox ::
  "string \<Rightarrow> string \<Rightarrow> 64 word \<Rightarrow> outbox_stage \<Rightarrow> string \<Rightarrow> env \<Rightarrow> db \<Rightarrow> (err + unit) \<times> db" where
  "CheckpointExperimentOutbox i worker generation stage inputSHA256 e d =
     (case index_by out_ID i (db_Outbox d) of
        None \<Rightarrow> (Inl ErrNotFound, d)
      | Some n \<Rightarrow>
          if \<not> validOutboxLease (db_Outbox d ! n) worker generation (env_now e)
             \<or> out_InputSHA256 (db_Outbox d ! n) \<noteq> inputSHA256 then (Inl ErrConcurrentWrite, d)
          else save_return e ()
            (d\<lparr> db_Outbox := (db_Outbox d)[n := checkpoint_row stage (env_now e) (db_Outbox d ! n)] \<rparr>))"

definition finalize_row :: "string \<Rightarrow> gotime \<Rightarrow> outbox_event \<Rightarrow> outbox_event" where
  "finalize_row resultDigest now ev =
     ev\<lparr> out_ResultDigest := resultDigest, out_Stage := StageFinalize, out_StageStartedAt := Some now,
         out_StageUpdatedAt := Some now, out_UpdatedAt := now \<rparr>"

definition FinalizeExperimentOutbox ::
  "string \<Rightarrow> string \<Rightarrow> 64 word \<Rightarrow> string \<Rightarrow> string \<Rightarrow> string \<Rightarrow> change_request update \<Rightarrow> audit_event list
     \<Rightarrow> env \<Rightarrow> db \<Rightarrow> (err + change_request) \<times> db" where
  "FinalizeExperimentOutbox i worker generation attempt inputSHA256 resultDigest upd evs e d =
     (case index_by out_ID i (db_Outbox d) of
        None \<Rightarrow> (Inl ErrNotFound, d)
      | Some n \<Rightarrow>
          let ev = db_Outbox d ! n in
          if \<not> validOutboxLease ev worker generation (env_now e) \<or> out_AttemptID ev \<noteq> attempt
             \<or> out_InputSHA256 ev \<noteq> inputSHA256 then (Inl ErrConcurrentWrite, d)
          else
            (case index_by chg_ID (out_AggregateID ev) (db_Changes d) of
               None \<Rightarrow> (Inl ErrNotFound, d)
             | Some m \<Rightarrow>
                 if out_ResultDigest ev \<noteq> [] then
                   (if out_ResultDigest ev \<noteq> resultDigest then (Inl ErrConcurrentWrite, d)
                    else (Inr (db_Changes d ! m), d))
                 else
                   (case upd (db_Changes d ! m) of
                      (Some er, c) \<Rightarrow> (Inl er, d)
                    | (None, c) \<Rightarrow>
                        let c = c\<lparr> chg_UpdatedAt := env_now e, chg_Version := chg_Version c + 1 \<rparr>;
                            d' = append_audits e evs (d\<lparr> db_Changes := (db_Changes d)[m := c] \<rparr>)
                        in save_return e c
                             (d'\<lparr> db_Outbox := (db_Outbox d')[n := finalize_row resultDigest (env_now e) ev] \<rparr>))))"

definition retry_row :: "gotime \<Rightarrow> outbox_event \<Rightarrow> outbox_event" where
  "retry_row now ev =
     (reset_attempt ev)\<lparr> out_Attempts := 0, out_LastError := [], out_NextAttemptAt := now, out_UpdatedAt := now \<rparr>"

definition retry_audit :: "string \<Rightarrow> env \<Rightarrow> audit_event \<Rightarrow> audit_event" where
  "retry_audit org e entry =
     entry\<lparr> aud_OrganizationID := org,
            aud_ID := (if aud_ID entry = [] then env_id e 0 else aud_ID entry),
            aud_CreatedAt := (if is_zero (aud_CreatedAt entry) then env_now e else aud_CreatedAt entry) \<rparr>"

definition RetryOutbox :: "string \<Rightarrow> string \<Rightarrow> audit_event list \<Rightarrow> env \<Rightarrow> db \<Rightarrow> (err + unit) \<times> db" where
  "RetryOutbox org i audit e d =
     (case find_index_of (\<lambda>ev. out_ID ev = i \<and> out_OrganizationID ev = org) (db_Outbox d) of
        None \<Rightarrow> (Inl ErrNotFound, d)
      | Some n \<Rightarrow>
          if out_Status (db_Outbox d ! n) \<noteq> OutboxDead then (Inl ErrEventNotDead, d)
          else
            let d' = d\<lparr> db_Outbox := (db_Outbox d)[n := retry_row (env_now e) (db_Outbox d ! n)] \<rparr>;
                d' = (case audit of [] \<Rightarrow> d' | entry # _ \<Rightarrow> append_audit e d' (retry_audit org e entry))
            in save_return e () d')"

section \<open>Log and tables\<close>

interpretation outbox: keyed_table db_Outbox "\<lambda>xs d. d\<lparr> db_Outbox := xs \<rparr>" out_ID
  by unfold_locales simp

interpretation change_with_outbox: audited "UpdateChangeWithOutbox i upd event evs" "\<lambda>_. list_all org_trimmed evs"
  for i upd event evs
  by unfold_locales (auto simp: UpdateChangeWithOutbox_def Let_def split: option.splits prod.splits intro!: log_ext_intros)

interpretation ensure_outbox: audited EnsureExperimentOutbox "\<lambda>_. True"
  by unfold_locales (auto simp: EnsureExperimentOutbox_def Let_def)

interpretation claim_outbox: audited "ClaimOutbox worker lease" "\<lambda>_. True" for worker lease
  by unfold_locales (auto simp: ClaimOutbox_def Let_def split: option.splits)

interpretation complete_outbox: audited "CompleteOutbox i worker generation" "\<lambda>_. True" for i worker generation
  by unfold_locales (auto simp: CompleteOutbox_def split: option.splits)

interpretation renew_outbox: audited "RenewOutbox i worker generation lease" "\<lambda>_. True" for i worker generation lease
  by unfold_locales (auto simp: RenewOutbox_def split: option.splits)

interpretation fail_outbox: audited "FailOutbox i worker generation cause" "\<lambda>_. True" for i worker generation cause
  by unfold_locales (auto simp: FailOutbox_def Let_def split: option.splits)

interpretation checkpoint_outbox: audited "CheckpointExperimentOutbox i worker generation stage input" "\<lambda>_. True"
  for i worker generation stage input
  by unfold_locales (auto simp: CheckpointExperimentOutbox_def split: option.splits)

interpretation finalize_outbox:
  audited "FinalizeExperimentOutbox i worker generation attempt input result upd evs" "\<lambda>_. list_all org_trimmed evs"
  for i worker generation attempt input result upd evs
  by unfold_locales (auto simp: FinalizeExperimentOutbox_def Let_def split: option.splits prod.splits intro!: log_ext_intros)

interpretation retry_outbox: audited "RetryOutbox org i audit" "\<lambda>_. trim_space org = org" for org i audit
  by unfold_locales (auto simp: RetryOutbox_def Let_def retry_audit_def org_trimmed_def
      split: option.splits list.splits intro!: log_ext_intros)

section \<open>Selection\<close>

definition select_inv :: "gotime \<Rightarrow> outbox_event list \<Rightarrow> nat \<Rightarrow> nat option \<Rightarrow> bool" where
  "select_inv now outbox k sel \<longleftrightarrow>
     (case sel of
        None \<Rightarrow> \<forall>n<k. \<not> due now (outbox ! n)
      | Some m \<Rightarrow> m < k \<and> due now (outbox ! m)
          \<and> (\<forall>n<k. due now (outbox ! n) \<longrightarrow> out_NextAttemptAt (outbox ! m) \<le> out_NextAttemptAt (outbox ! n)))"

lemma select_step_inv: "select_inv now outbox k sel \<Longrightarrow> select_inv now outbox (Suc k) (select_step now outbox sel k)"
  by (cases sel) (auto simp: select_inv_def select_step_def less_Suc_eq dest: order_less_imp_le order_trans)

lemma select_prefix: "select_inv now outbox k (foldl (select_step now outbox) None [0..<k])"
proof (induction k)
  case (Suc k)
  from select_step_inv [OF Suc] show ?case by simp
qed (simp add: select_inv_def)

lemma select_due_inv: "select_inv now outbox (length outbox) (select_due now outbox)"
  by (simp add: select_due_def select_prefix)

lemma select_due_None: "select_due now outbox = None \<longleftrightarrow> (\<forall>ev\<in>set outbox. \<not> due now ev)"
proof (cases "select_due now outbox")
  case None
  then show ?thesis using select_due_inv [of now outbox] by (auto simp: select_inv_def in_set_conv_nth)
next
  case (Some m)
  then have "outbox ! m \<in> set outbox" "due now (outbox ! m)"
    using select_due_inv [of now outbox] by (auto simp: select_inv_def)
  with Some show ?thesis by auto
qed

lemma select_due_Some:
  assumes "select_due now outbox = Some m"
  shows "m < length outbox" "due now (outbox ! m)"
    "\<And>ev. ev \<in> set outbox \<Longrightarrow> due now ev \<Longrightarrow> out_NextAttemptAt (outbox ! m) \<le> out_NextAttemptAt ev"
  using select_due_inv [of now outbox] assms by (auto simp: select_inv_def in_set_conv_nth)

lemma ClaimOutbox_Inr:
  assumes "ClaimOutbox worker lease e d = (Inr ev', d')"
  obtains n where "env_save e = Saved" "select_due (env_now e) (db_Outbox d) = Some n" "n < length (db_Outbox d)"
    "due (env_now e) (db_Outbox d ! n)"
    "ev' = claim_row worker lease (claim_input d (db_Outbox d ! n)) (env_id e 0) (env_now e) (db_Outbox d ! n)"
    "d' = d\<lparr> db_Outbox := (db_Outbox d)[n := ev'] \<rparr>"
  using assms select_due_Some
  by (auto simp: ClaimOutbox_def Let_def save_return_def save_locked_def
      split: option.splits prod.splits save.splits)

section \<open>Fencing\<close>

text \<open>What the holder of a lease, an operator or the enqueuing code can do to a row.\<close>

inductive outbox_work :: "outbox_event \<Rightarrow> outbox_event \<Rightarrow> bool" where
  work_none: "outbox_work r r"
| work_complete: "outbox_work r (complete_row now r)"
| work_renew: "outbox_work r (renew_row lease now r)"
| work_fail: "outbox_work r (fail_row cause now r)"
| work_panic: "outbox_work r (reset_attempt (unlocked cause now r))"
| work_checkpoint: "outbox_work r (checkpoint_row stage now r)"
| work_finalize: "outbox_work r (finalize_row result now r)"
| work_retry: "outbox_work r (retry_row now r)"

definition outbox_acquire :: "outbox_event \<Rightarrow> outbox_event \<Rightarrow> bool" where
  "outbox_acquire r r' \<longleftrightarrow> (\<exists>worker lease input attempt now. r' = claim_row worker lease input attempt now r)"

lemmas row_defs = complete_row_def renew_row_def fail_row_def unlocked_def reset_attempt_def checkpoint_row_def
  finalize_row_def retry_row_def claim_row_def

interpretation lease: fenced out_LeaseGeneration outbox_acquire outbox_work
  "\<lambda>g r. \<exists>worker now. validOutboxLease r worker g now"
  by unfold_locales
    (auto simp: outbox_acquire_def validOutboxLease_def row_defs Let_def elim!: outbox_work.cases)

lemma outbox_work_id: "outbox_work r r' \<Longrightarrow> out_ID r' = out_ID r"
  by (auto simp: row_defs Let_def elim!: outbox_work.cases)

lemma outbox_acquire_id: "outbox_acquire r r' \<Longrightarrow> out_ID r' = out_ID r"
  by (auto simp: outbox_acquire_def row_defs)

lemma row_ids [simp]: "out_ID (complete_row now r) = out_ID r" "out_ID (renew_row l now r) = out_ID r"
  "out_ID (fail_row cause now r) = out_ID r" "out_ID (reset_attempt r) = out_ID r" "out_ID (unlocked cause now r) = out_ID r"
  "out_ID (checkpoint_row st now r) = out_ID r" "out_ID (finalize_row res now r) = out_ID r"
  "out_ID (retry_row now r) = out_ID r" "out_ID (claim_row w l i a now r) = out_ID r"
  by (simp_all add: row_defs Let_def)

text \<open>One operation on the outbox; the label is the identifier of the event a claim took.\<close>

inductive outbox_trans :: "string option \<Rightarrow> db \<Rightarrow> db \<Rightarrow> bool" where
  trans_claim: "ClaimOutbox worker lease e d = (Inr ev, d') \<Longrightarrow> outbox_trans (Some (out_ID ev)) d d'"
| trans_complete: "clean_save e d \<Longrightarrow> outbox_trans None d (snd (CompleteOutbox i worker g e d))"
| trans_renew: "clean_save e d \<Longrightarrow> outbox_trans None d (snd (RenewOutbox i worker g lease e d))"
| trans_fail: "clean_save e d \<Longrightarrow> outbox_trans None d (snd (FailOutbox i worker g cause e d))"
| trans_checkpoint: "clean_save e d \<Longrightarrow> outbox_trans None d (snd (CheckpointExperimentOutbox i worker g stage input e d))"
| trans_finalize: "clean_save e d \<Longrightarrow> outbox_trans None d (snd (FinalizeExperimentOutbox i worker g attempt input result upd evs e d))"
| trans_retry: "clean_save e d \<Longrightarrow> outbox_trans None d (snd (RetryOutbox org i audit e d))"
| trans_enqueue: "clean_save e d \<Longrightarrow> out_ID (fill_event e event) \<notin> out_ID ` set (db_Outbox d) \<Longrightarrow>
    outbox_trans None d (snd (UpdateChangeWithOutbox i upd event evs e d))"
| trans_ensure: "clean_save e d \<Longrightarrow> distinct (map out_ID (foldl (ensure_one e) (db_Outbox d) (db_Changes d))) \<Longrightarrow>
    outbox_trans None d (snd (EnsureExperimentOutbox e d))"

text \<open>What a step does to the rows: an update of one row by work or by the claim, or new rows at the end.\<close>

definition work_rows :: "outbox_event list \<Rightarrow> outbox_event list \<Rightarrow> bool" where
  "work_rows xs ys \<longleftrightarrow> (\<exists>n y. n < length xs \<and> outbox_work (xs ! n) y \<and> ys = xs[n := y]) \<or> (\<exists>zs. ys = xs @ zs \<and> distinct (map out_ID ys))"

lemma save_return_outbox:
  assumes "clean_save e d" and "work_rows xs (db_Outbox d')" and "work_rows xs (db_Outbox d)"
  shows "work_rows xs (db_Outbox (snd (save_return e x d')))"
  using clean_save_return [OF assms(1), of x d'] assms(2,3) by auto

lemma work_rows_update: "n < length xs \<Longrightarrow> outbox_work (xs ! n) y \<Longrightarrow> work_rows xs (xs[n := y])"
  by (auto simp: work_rows_def)

lemma work_rows_same: "distinct (map out_ID xs) \<Longrightarrow> work_rows xs xs"
  by (auto simp: work_rows_def)

lemma index_by_len: "index_by key i xs = Some n \<Longrightarrow> n < length xs"
  by (auto dest: index_by_Some)

lemma outbox_trans_rows:
  assumes "outbox_trans l d d'" and dist: "distinct (map out_ID (db_Outbox d))"
  shows "case l of None \<Rightarrow> work_rows (db_Outbox d) (db_Outbox d')
    | Some i \<Rightarrow> \<exists>n y. n < length (db_Outbox d) \<and> out_ID (db_Outbox d ! n) = i \<and> outbox_acquire (db_Outbox d ! n) y
        \<and> db_Outbox d' = (db_Outbox d)[n := y]"
  using assms
proof (cases rule: outbox_trans.cases)
  case (trans_claim worker lease e ev)
  from trans_claim(2) obtain n where n: "n < length (db_Outbox d)"
    "ev = claim_row worker lease (claim_input d (db_Outbox d ! n)) (env_id e 0) (env_now e) (db_Outbox d ! n)"
    "d' = d\<lparr> db_Outbox := (db_Outbox d)[n := ev] \<rparr>"
    by (rule ClaimOutbox_Inr)
  have "outbox_acquire (db_Outbox d ! n) ev"
    unfolding outbox_acquire_def using n(2) by blast
  moreover from this have "out_ID (db_Outbox d ! n) = out_ID ev" using outbox_acquire_id by fastforce
  ultimately show ?thesis using n(1,3) trans_claim(1) by auto
next
  case (trans_complete e i worker g)
  then show ?thesis using work_rows_same [OF dist]
    by (auto simp: CompleteOutbox_def dest: index_by_len split: option.splits
        intro!: save_return_outbox work_rows_update outbox_work.intros)
next
  case (trans_renew e i worker g lease)
  then show ?thesis using work_rows_same [OF dist]
    by (auto simp: RenewOutbox_def dest: index_by_len split: option.splits
        intro!: save_return_outbox work_rows_update outbox_work.intros)
next
  case (trans_fail e i worker g cause)
  then show ?thesis using work_rows_same [OF dist]
    by (auto simp: FailOutbox_def Let_def dest: index_by_len split: option.splits
        intro!: save_return_outbox work_rows_update outbox_work.intros)
next
  case (trans_checkpoint e i worker g stage input)
  then show ?thesis using work_rows_same [OF dist]
    by (auto simp: CheckpointExperimentOutbox_def dest: index_by_len split: option.splits
        intro!: save_return_outbox work_rows_update outbox_work.intros)
next
  case (trans_finalize e i worker g attempt input result upd evs)
  then show ?thesis using work_rows_same [OF dist]
    by (auto simp: FinalizeExperimentOutbox_def Let_def store_frame dest: index_by_len split: option.splits prod.splits
        intro!: save_return_outbox work_rows_update outbox_work.intros)
next
  case (trans_retry e org i audit)
  then show ?thesis using work_rows_same [OF dist]
    by (auto simp: RetryOutbox_def Let_def store_frame split: option.splits list.splits
        intro!: save_return_outbox work_rows_update outbox_work.intros)
next
  case (trans_enqueue e event i upd evs)
  then have "work_rows (db_Outbox d) (db_Outbox d @ [fill_event e event])"
    using dist by (auto simp: work_rows_def)
  with trans_enqueue show ?thesis using work_rows_same [OF dist]
    by (auto simp: UpdateChangeWithOutbox_def Let_def store_frame split: option.splits prod.splits
        intro!: save_return_outbox)
next
  case (trans_ensure e)
  have "\<exists>zs. foldl (ensure_one e) xs cs = xs @ zs" for xs cs
  proof (induction cs arbitrary: xs)
    case (Cons c cs)
    show ?case using Cons [of "ensure_one e xs c"] by (auto simp: ensure_one_def)
  qed simp
  then have "work_rows (db_Outbox d) (foldl (ensure_one e) (db_Outbox d) (db_Changes d))"
    using trans_ensure by (auto simp: work_rows_def)
  with trans_ensure show ?thesis using work_rows_same [OF dist]
    by (auto simp: EnsureExperimentOutbox_def Let_def intro!: save_return_outbox)
qed

section \<open>Runs\<close>

text \<open>\<open>outbox_run i k d d'\<close>: a sequence of outbox operations in which \<open>k\<close> claims took event \<open>i\<close>.\<close>

inductive outbox_run :: "string \<Rightarrow> nat \<Rightarrow> db \<Rightarrow> db \<Rightarrow> bool" for i :: string where
  orun_refl: "outbox_run i 0 d d"
| orun_step: "outbox_run i k d d' \<Longrightarrow> outbox_trans l d' d'' \<Longrightarrow> outbox_run i (if l = Some i then Suc k else k) d d''"

lemma outbox_trans_distinct:
  assumes "outbox_trans l d d'" "distinct (map out_ID (db_Outbox d))"
  shows "distinct (map out_ID (db_Outbox d'))"
proof (cases l)
  case None
  with outbox_trans_rows [OF assms] have "work_rows (db_Outbox d) (db_Outbox d')" by simp
  then show ?thesis using assms(2) outbox_work_id by (auto simp: work_rows_def keys_update)
next
  case (Some j)
  with outbox_trans_rows [OF assms] show ?thesis using assms(2) outbox_acquire_id by (auto simp: keys_update)
qed

lemma outbox_trans_row:
  assumes "outbox_trans l d d'" "distinct (map out_ID (db_Outbox d))"
    and n: "n < length (db_Outbox d)" "out_ID (db_Outbox d ! n) = i"
  shows "n < length (db_Outbox d') \<and>
    (if l = Some i then outbox_acquire (db_Outbox d ! n) (db_Outbox d' ! n)
     else outbox_work (db_Outbox d ! n) (db_Outbox d' ! n))"
proof (cases l)
  case None
  with outbox_trans_rows [OF assms(1,2)] have "work_rows (db_Outbox d) (db_Outbox d')" by simp
  then show ?thesis using None n(1) work_none
    by (auto simp: work_rows_def nth_list_update nth_append)
next
  case (Some j)
  with outbox_trans_rows [OF assms(1,2)] obtain m y where m: "m < length (db_Outbox d)" "out_ID (db_Outbox d ! m) = j"
    "outbox_acquire (db_Outbox d ! m) y" "db_Outbox d' = (db_Outbox d)[m := y]" by auto
  show ?thesis
  proof (cases "j = i")
    case True
    then have "m = n" using distinct_map_nth [OF assms(2) m(1) n(1)] m(2) n(2) by simp
    with m n Some True show ?thesis by simp
  next
    case False
    with m n have "m \<noteq> n" by auto
    with m n Some False show ?thesis by (simp add: work_none)
  qed
qed

lemma outbox_run_row:
  assumes "outbox_run i k d d'" "distinct (map out_ID (db_Outbox d))"
    "n < length (db_Outbox d)" "out_ID (db_Outbox d ! n) = i"
  shows "distinct (map out_ID (db_Outbox d')) \<and> n < length (db_Outbox d') \<and> out_ID (db_Outbox d' ! n) = i
    \<and> lease.later k (db_Outbox d ! n) (db_Outbox d' ! n)"
  using assms
proof (induction rule: outbox_run.induct)
  case (orun_refl d)
  then show ?case by (simp add: lease.later_refl)
next
  case (orun_step k d d' l d'')
  then have IH: "distinct (map out_ID (db_Outbox d'))" "n < length (db_Outbox d')" "out_ID (db_Outbox d' ! n) = i"
    "lease.later k (db_Outbox d ! n) (db_Outbox d' ! n)" by auto
  note row = outbox_trans_row [OF orun_step.hyps(2) IH(1-3)]
  show ?case
  proof (cases "l = Some i")
    case True
    with row have "outbox_acquire (db_Outbox d' ! n) (db_Outbox d'' ! n)" by simp
    with IH row outbox_trans_distinct [OF orun_step.hyps(2) IH(1)] outbox_acquire_id True show ?thesis
      by (auto intro: lease.later_acquire)
  next
    case False
    with row have "outbox_work (db_Outbox d' ! n) (db_Outbox d'' ! n)" by simp
    with IH row outbox_trans_distinct [OF orun_step.hyps(2) IH(1)] outbox_work_id False show ?thesis
      by (auto intro: lease.later_work)
  qed
qed

lemma index_by_distinct:
  assumes "distinct (map key xs)" "n < length xs"
  shows "index_by key (key (xs ! n)) xs = Some n"
proof (cases "index_by key (key (xs ! n)) xs")
  case None
  with assms(2) show ?thesis by (auto simp del: index_by_None simp: index_by_def)
next
  case (Some m)
  with index_by_Some [OF Some] distinct_map_nth [OF assms(1), of m n] assms(2) show ?thesis by simp
qed

lemma fenced_operations:
  assumes "index_by out_ID i (db_Outbox d) = Some n" and "\<forall>worker now. \<not> validOutboxLease (db_Outbox d ! n) worker g now"
  shows "CompleteOutbox i w g e d = (Inl ErrConcurrentWrite, d)"
    "RenewOutbox i w g lease e d = (Inl ErrConcurrentWrite, d)"
    "FailOutbox i w g cause e d = (Inl ErrConcurrentWrite, d)"
    "CheckpointExperimentOutbox i w g stage input e d = (Inl ErrConcurrentWrite, d)"
    "FinalizeExperimentOutbox i w g attempt input result upd evs e d = (Inl ErrConcurrentWrite, d)"
  using assms by (simp_all add: CompleteOutbox_def RenewOutbox_def FailOutbox_def CheckpointExperimentOutbox_def
      FinalizeExperimentOutbox_def Let_def)

section \<open>Properties\<close>

text \<open>C10: a worker whose event was claimed again, by anyone, is fenced out for good: whatever operations came in
  between, completing, renewing, failing, checkpointing or finalizing with the old lease generation is refused
  as a concurrent write and changes nothing, until the 64-bit generation has wrapped around.\<close>

theorem stale_worker_fenced:
  assumes dist: "distinct (map out_ID (db_Outbox d))"
    and claim: "ClaimOutbox worker lease e d = (Inr ev, d1)"
    and run: "outbox_run (out_ID ev) k d1 d2" and k: "0 < k" "k < 2 ^ 64"
  defines "i \<equiv> out_ID ev" and "g \<equiv> out_LeaseGeneration ev"
  shows "CompleteOutbox i w g e2 d2 = (Inl ErrConcurrentWrite, d2)
    \<and> RenewOutbox i w g l e2 d2 = (Inl ErrConcurrentWrite, d2)
    \<and> FailOutbox i w g cause e2 d2 = (Inl ErrConcurrentWrite, d2)
    \<and> CheckpointExperimentOutbox i w g stage input e2 d2 = (Inl ErrConcurrentWrite, d2)
    \<and> FinalizeExperimentOutbox i w g attempt input result upd evs e2 d2 = (Inl ErrConcurrentWrite, d2)"
proof -
  from claim obtain n where n: "n < length (db_Outbox d)" "d1 = d\<lparr> db_Outbox := (db_Outbox d)[n := ev] \<rparr>"
    by (rule ClaimOutbox_Inr)
  have d1: "distinct (map out_ID (db_Outbox d1))"
    using outbox_trans_distinct [OF trans_claim [OF claim] dist] .
  have row: "n < length (db_Outbox d1)" "db_Outbox d1 ! n = ev" using n by simp_all
  note r = outbox_run_row [OF run d1 row(1)] row(2)
  then have later: "lease.later k ev (db_Outbox d2 ! n)" and n2: "n < length (db_Outbox d2)"
    "out_ID (db_Outbox d2 ! n) = i" "distinct (map out_ID (db_Outbox d2))" by (auto simp: i_def)
  have idx: "index_by out_ID i (db_Outbox d2) = Some n"
    using index_by_distinct [OF n2(3,1)] n2(2) by simp
  have none: "\<forall>worker now. \<not> validOutboxLease (db_Outbox d2 ! n) worker g now"
    using lease.fenced_out [OF later k] by (simp add: g_def)
  show ?thesis by (simp add: fenced_operations [OF idx none])
qed

definition sample_outbox :: outbox_event where
  "sample_outbox = zero_outbox_event\<lparr> out_ID := ''out_1'', out_Status := OutboxPending, out_MaxAttempts := 5,
     out_AggregateID := ''chg_1'' \<rparr>"

definition outbox_db :: db where
  "outbox_db = empty_db\<lparr> db_Outbox := [sample_outbox], db_Changes := [zero_change_request\<lparr> chg_ID := ''chg_1'' \<rparr>] \<rparr>"

lemma outbox_db_simps [simp]: "db_Outbox outbox_db = [sample_outbox]" "db_Changes outbox_db = [zero_change_request\<lparr> chg_ID := ''chg_1'' \<rparr>]"
  "out_ID sample_outbox = ''out_1''"
  by (simp_all add: outbox_db_def sample_outbox_def)

lemma saved_env_simps [simp]: "env_now (saved_env t) = t" "env_later (saved_env t) = t" "env_id (saved_env t) k = nat_str k"
  by (simp_all add: saved_env_def)

lemma select_single: "select_due now [ev] = (if due now ev then Some 0 else None)"
  by (simp add: select_due_def select_step_def)

lemma ClaimOutbox_single:
  "db_Outbox d = [ev] \<Longrightarrow> due t ev \<Longrightarrow>
   ClaimOutbox w l (saved_env t) d =
     (Inr (claim_row w l (claim_input d ev) (nat_str 0) t ev),
      d\<lparr> db_Outbox := [claim_row w l (claim_input d ev) (nat_str 0) t ev] \<rparr>)"
  by (simp add: ClaimOutbox_def select_single Let_def)

definition first_claim :: outbox_event where
  "first_claim = claim_row ''w1'' 60 (claim_input outbox_db sample_outbox) (nat_str 0) 10 sample_outbox"

lemma first_claim: "ClaimOutbox ''w1'' 60 (saved_env 10) outbox_db = (Inr first_claim, outbox_db\<lparr> db_Outbox := [first_claim] \<rparr>)"
  unfolding first_claim_def
  by (rule ClaimOutbox_single) (simp_all add: due_def eligible_def sample_outbox_def zero_outbox_event_def)

lemma first_claim_simps [simp]: "out_ID first_claim = ''out_1''" "out_LeaseGeneration first_claim = 1"
  "out_Status first_claim = OutboxProcessing" "out_LockedUntil first_claim = Some 70" "out_LockedBy first_claim = ''w1''"
  "out_NextAttemptAt first_claim = 0" "out_Attempts first_claim = 1" "out_MaxAttempts first_claim = 5"
  "out_AggregateID first_claim = ''chg_1''" "out_ResultDigest first_claim = []"
  "out_InputSHA256 first_claim = []" "out_AttemptID first_claim = nat_str 0"
  by (simp_all add: first_claim_def claim_row_def sample_outbox_def zero_outbox_event_def claim_input_def)

theorem stale_worker_fenced_witness:
  "\<exists>d2. CompleteOutbox ''out_1'' ''w1'' 1 (saved_env 200) d2 = (Inl ErrConcurrentWrite, d2)
     \<and> outbox_run ''out_1'' 1 (outbox_db\<lparr> db_Outbox := [first_claim] \<rparr>) d2"
proof -
  let ?d1 = "outbox_db\<lparr> db_Outbox := [first_claim] \<rparr>"
  have due: "due 100 first_claim" by (simp add: due_def eligible_def)
  define ev2 where "ev2 = claim_row ''w2'' 60 (claim_input ?d1 first_claim) (nat_str 0) 100 first_claim"
  have c2: "ClaimOutbox ''w2'' 60 (saved_env 100) ?d1 = (Inr ev2, ?d1\<lparr> db_Outbox := [ev2] \<rparr>)"
    unfolding ev2_def by (rule ClaimOutbox_single) (use due in simp_all)
  have "out_ID ev2 = ''out_1''" by (simp add: ev2_def)
  then have run: "outbox_run (out_ID first_claim) 1 ?d1 (?d1\<lparr> db_Outbox := [ev2] \<rparr>)"
    using orun_step [OF orun_refl trans_claim [OF c2], of "''out_1''"] by simp
  have dist: "distinct (map out_ID (db_Outbox outbox_db))" by simp
  have "CompleteOutbox ''out_1'' ''w1'' 1 (saved_env 200) (?d1\<lparr> db_Outbox := [ev2] \<rparr>)
      = (Inl ErrConcurrentWrite, ?d1\<lparr> db_Outbox := [ev2] \<rparr>)"
    using stale_worker_fenced [OF dist first_claim run, of "''w1''" "saved_env 200"] by simp
  with run show ?thesis by (intro exI [of _ "?d1\<lparr> db_Outbox := [ev2] \<rparr>"]) simp
qed

text \<open>A claimed event is not claimed again, by any worker, before the deadline of its lease.\<close>

lemma claimed_event_locked:
  assumes dist: "distinct (map out_ID (db_Outbox d))"
    and claim: "ClaimOutbox worker lease e d = (Inr ev, d1)"
    and again: "ClaimOutbox worker2 lease2 e2 d1 = (Inr ev2, d2)" and "out_ID ev2 = out_ID ev"
  shows "env_now e + lease \<le> env_now e2"
proof -
  from claim obtain n where n: "n < length (db_Outbox d)" "d1 = d\<lparr> db_Outbox := (db_Outbox d)[n := ev] \<rparr>"
    and ev: "ev = claim_row worker lease (claim_input d (db_Outbox d ! n)) (env_id e 0) (env_now e) (db_Outbox d ! n)"
    by (rule ClaimOutbox_Inr)
  have locked: "out_Status ev = OutboxProcessing" "out_LockedUntil ev = Some (env_now e + lease)"
    by (simp_all add: ev claim_row_def)
  from again obtain m where m: "m < length (db_Outbox d1)" "due (env_now e2) (db_Outbox d1 ! m)"
    and ev2: "ev2 = claim_row worker2 lease2 (claim_input d1 (db_Outbox d1 ! m)) (env_id e2 0) (env_now e2) (db_Outbox d1 ! m)"
    by (rule ClaimOutbox_Inr)
  have "out_ID ev2 = out_ID (db_Outbox d1 ! m)" by (simp add: ev2)
  have "distinct (map out_ID (db_Outbox d1))"
    by (rule outbox_trans_distinct [OF trans_claim [OF claim] dist])
  then have "m = n"
    using m(1) n \<open>out_ID ev2 = out_ID (db_Outbox d1 ! m)\<close> assms(4)
    by (intro distinct_map_nth [of out_ID "db_Outbox d1"]) simp_all
  with m n locked show ?thesis by (simp add: due_def eligible_def)
qed

lemma claimed_event_locked_witness:
  "\<exists>ev2 d2. ClaimOutbox ''w2'' 60 (saved_env 100) (outbox_db\<lparr> db_Outbox := [first_claim] \<rparr>) = (Inr ev2, d2)
     \<and> 10 + 60 \<le> (100 :: int)"
proof -
  let ?d1 = "outbox_db\<lparr> db_Outbox := [first_claim] \<rparr>"
  define ev2 where "ev2 = claim_row ''w2'' 60 (claim_input ?d1 first_claim) (nat_str 0) 100 first_claim"
  have c2: "ClaimOutbox ''w2'' 60 (saved_env 100) ?d1 = (Inr ev2, ?d1\<lparr> db_Outbox := [ev2] \<rparr>)"
    unfolding ev2_def by (rule ClaimOutbox_single) (simp_all add: due_def eligible_def)
  have "distinct (map out_ID (db_Outbox outbox_db))" "out_ID ev2 = out_ID first_claim" by (simp_all add: ev2_def)
  from claimed_event_locked [OF this(1) first_claim c2 this(2)] c2 show ?thesis by auto
qed

text \<open>A claim takes a due event with the earliest due time (pending, or with an expired lease), and reports
  that there is none exactly when no event is due.\<close>

lemma ClaimOutbox_selects:
  "(\<forall>ev d'. ClaimOutbox worker lease e d = (Inr ev, d') \<longrightarrow>
      (\<exists>n<length (db_Outbox d). out_ID ev = out_ID (db_Outbox d ! n) \<and> due (env_now e) (db_Outbox d ! n)
        \<and> out_LeaseGeneration ev = out_LeaseGeneration (db_Outbox d ! n) + 1
        \<and> (\<forall>other\<in>set (db_Outbox d). due (env_now e) other \<longrightarrow>
             out_NextAttemptAt (db_Outbox d ! n) \<le> out_NextAttemptAt other)))
   \<and> (ClaimOutbox worker lease e d = (Inl ErrNotFound, d) \<or> (\<exists>ev\<in>set (db_Outbox d). due (env_now e) ev))"
proof (intro conjI allI impI)
  fix ev d'
  assume "ClaimOutbox worker lease e d = (Inr ev, d')"
  then obtain n where "select_due (env_now e) (db_Outbox d) = Some n"
    "ev = claim_row worker lease (claim_input d (db_Outbox d ! n)) (env_id e 0) (env_now e) (db_Outbox d ! n)"
    by (rule ClaimOutbox_Inr)
  then show "\<exists>n<length (db_Outbox d). out_ID ev = out_ID (db_Outbox d ! n) \<and> due (env_now e) (db_Outbox d ! n)
        \<and> out_LeaseGeneration ev = out_LeaseGeneration (db_Outbox d ! n) + 1
        \<and> (\<forall>other\<in>set (db_Outbox d). due (env_now e) other \<longrightarrow>
             out_NextAttemptAt (db_Outbox d ! n) \<le> out_NextAttemptAt other)"
    using select_due_Some by (intro exI [of _ n]) (simp add: claim_row_def)
next
  show "ClaimOutbox worker lease e d = (Inl ErrNotFound, d) \<or> (\<exists>ev\<in>set (db_Outbox d). due (env_now e) ev)"
    using select_due_None [of "env_now e" "db_Outbox d"]
    by (cases "select_due (env_now e) (db_Outbox d)") (auto simp: ClaimOutbox_def)
qed

lemma ClaimOutbox_selects_witness:
  "\<exists>n<1. out_ID first_claim = out_ID ([sample_outbox] ! n)"
  using ClaimOutbox_selects [of "''w1''" 60 "saved_env 10" outbox_db] first_claim by auto

text \<open>When the holder reports a failure, the event becomes a dead letter exactly when its attempts have
  reached the maximum; otherwise it is pending again, with a fresh attempt and no lock, and is due after a
  delay of two to the number of attempts seconds, capped at 64 seconds.\<close>

lemma FailOutbox_backoff:
  assumes n: "index_by out_ID i (db_Outbox d) = Some n" and valid: "validOutboxLease (db_Outbox d ! n) w g (env_now e)"
    and "0 \<le> out_Attempts (db_Outbox d ! n)" and saved: "env_save e = Saved"
  shows "\<exists>ev'. FailOutbox i w g cause e d = (Inr (), d\<lparr> db_Outbox := (db_Outbox d)[n := ev'] \<rparr>)
    \<and> out_LockedBy ev' = [] \<and> out_LockedUntil ev' = None \<and> out_LastError ev' = cause
    \<and> (if out_MaxAttempts (db_Outbox d ! n) \<le> out_Attempts (db_Outbox d ! n) then out_Status ev' = OutboxDead
       else out_Status ev' = OutboxPending \<and> out_AttemptID ev' = [] \<and> out_ResultDigest ev' = []
         \<and> out_NextAttemptAt ev' = env_now e + 2 ^ nat (min (out_Attempts (db_Outbox d ! n)) 6) * second
         \<and> env_now e < out_NextAttemptAt ev' \<and> out_NextAttemptAt ev' \<le> env_now e + 64 * second)"
proof -
  let ?a = "out_Attempts (db_Outbox d ! n)"
  have "(2 :: int) ^ nat (min ?a 6) \<le> 2 ^ 6" by (rule power_increasing) (use assms(3) in auto)
  then have bound: "2 ^ nat (min ?a 6) * second \<le> 64 * second" by (intro mult_right_mono) (simp_all add: second_def)
  have pos: "0 < 2 ^ nat (min ?a 6) * second" by simp
  have mi: "minInt ?a 6 = min ?a 6" by (simp add: minInt_def min_def)
  have "FailOutbox i w g cause e d = (Inr (), d\<lparr> db_Outbox := (db_Outbox d)[n := fail_row cause (env_now e) (db_Outbox d ! n)] \<rparr>)"
    using assms by (simp add: FailOutbox_def Let_def)
  then show ?thesis
    using bound pos by (intro exI [of _ "fail_row cause (env_now e) (db_Outbox d ! n)"])
      (simp add: fail_row_def unlocked_def reset_attempt_def Let_def mi)
qed

lemma FailOutbox_backoff_witness:
  "\<exists>ev'. FailOutbox ''out_1'' ''w1'' 1 ''boom'' (saved_env 20) (outbox_db\<lparr> db_Outbox := [first_claim] \<rparr>)
      = (Inr (), outbox_db\<lparr> db_Outbox := [ev'] \<rparr>) \<and> out_Status ev' = OutboxPending
      \<and> out_NextAttemptAt ev' = 20 + 2 ^ nat (min 1 6) * second"
  using FailOutbox_backoff [of "''out_1''" "outbox_db\<lparr> db_Outbox := [first_claim] \<rparr>" 0 "''w1''" 1 "saved_env 20" "''boom''"]
  by (auto simp: index_by_def validOutboxLease_def)

text \<open>The result of an attempt is recorded once: after a finalization with a result digest, and while its
  lease is still valid, repeating it returns the stored change without running the update or writing
  anything, and finalizing with another digest is refused.\<close>

lemma Finalize_once:
  assumes fin: "FinalizeExperimentOutbox i w g attempt input result upd evs e d = (Inr c, d')" and "result \<noteq> []"
    and n: "index_by out_ID i (db_Outbox d') = Some n" "validOutboxLease (db_Outbox d' ! n) w g (env_now e2)"
    and m: "index_by chg_ID (out_AggregateID (db_Outbox d' ! n)) (db_Changes d') = Some m"
  shows "FinalizeExperimentOutbox i w g attempt input result upd2 evs2 e2 d' = (Inr (db_Changes d' ! m), d')
    \<and> (other \<noteq> result \<longrightarrow> FinalizeExperimentOutbox i w g attempt input other upd2 evs2 e2 d' = (Inl ErrConcurrentWrite, d'))"
proof -
  obtain k where k: "index_by out_ID i (db_Outbox d) = Some k" "out_AttemptID (db_Outbox d ! k) = attempt"
    "out_InputSHA256 (db_Outbox d ! k) = input"
    and d': "db_Outbox d' = db_Outbox d \<and> out_ResultDigest (db_Outbox d ! k) = result
      \<or> db_Outbox d' = (db_Outbox d)[k := finalize_row result (env_now e) (db_Outbox d ! k)]"
    using fin by (auto simp: FinalizeExperimentOutbox_def Let_def save_return_def save_locked_def store_frame
        split: option.splits prod.splits if_splits save.splits)
  have len: "k < length (db_Outbox d)" using k(1) by (auto dest: index_by_Some)
  have "index_by out_ID i (db_Outbox d') = Some k"
    using d' k(1) len by (auto simp: index_by_update)
  then have "n = k" using n(1) by simp
  then have "out_AttemptID (db_Outbox d' ! n) = attempt" "out_InputSHA256 (db_Outbox d' ! n) = input"
    "out_ResultDigest (db_Outbox d' ! n) = result"
    using d' k len by (auto simp: finalize_row_def)
  then show ?thesis
    using n m assms(2) by (simp add: FinalizeExperimentOutbox_def Let_def)
qed

lemma Finalize_once_witness:
  "\<exists>c d'. FinalizeExperimentOutbox ''out_1'' ''w1'' 1 (nat_str 0) [] ''digest'' (Pair None) [] (saved_env 20)
      (outbox_db\<lparr> db_Outbox := [first_claim] \<rparr>) = (Inr c, d')
    \<and> FinalizeExperimentOutbox ''out_1'' ''w1'' 1 (nat_str 0) [] ''other'' (Pair None) [] (saved_env 30) d' = (Inl ErrConcurrentWrite, d')"
proof -
  let ?d = "outbox_db\<lparr> db_Outbox := [first_claim] \<rparr>"
  define c where "c = (zero_change_request\<lparr> chg_ID := ''chg_1'' \<rparr>)\<lparr> chg_UpdatedAt := 20, chg_Version := 1 \<rparr>"
  define d' where "d' = ?d\<lparr> db_Changes := [c], db_Outbox := [finalize_row ''digest'' 20 first_claim] \<rparr>"
  have fin: "FinalizeExperimentOutbox ''out_1'' ''w1'' 1 (nat_str 0) [] ''digest'' (Pair None) [] (saved_env 20) ?d = (Inr c, d')"
    by (simp add: FinalizeExperimentOutbox_def index_by_def validOutboxLease_def Let_def c_def d'_def zero_change_request_def)
  have "index_by out_ID ''out_1'' (db_Outbox d') = Some 0" "validOutboxLease (db_Outbox d' ! 0) ''w1'' 1 (env_now (saved_env 30))"
    "index_by chg_ID (out_AggregateID (db_Outbox d' ! 0)) (db_Changes d') = Some 0"
    by (simp_all add: d'_def c_def index_by_def validOutboxLease_def finalize_row_def)
  from Finalize_once [OF fin _ this, of "Pair None" "[]" "''other''"] fin show ?thesis by auto
qed

text \<open>A change and the event announcing it are written together or not at all: on success the state has the
  updated change and exactly one more event, on any error it is the state from before.\<close>

lemma UpdateChangeWithOutbox_atomic:
  assumes "clean_save e d" and "UpdateChangeWithOutbox i upd event evs e d = (r, d')"
  shows "case r of
      Inl er \<Rightarrow> d' = d
    | Inr c \<Rightarrow> (\<exists>n c0. index_by chg_ID i (db_Changes d) = Some n \<and> upd (db_Changes d ! n) = (None, c0)
        \<and> c = c0\<lparr> chg_UpdatedAt := env_now e, chg_Version := chg_Version c0 + 1 \<rparr>
        \<and> db_Changes d' = (db_Changes d)[n := c] \<and> db_Outbox d' = db_Outbox d @ [fill_event e event])"
proof (cases "index_by chg_ID i (db_Changes d)")
  case None
  with assms show ?thesis by (auto simp: UpdateChangeWithOutbox_def simp del: index_by_None)
next
  case (Some n)
  obtain er c0 where upd: "upd (db_Changes d ! n) = (er, c0)" by fastforce
  show ?thesis
  proof (cases er)
    case None
    let ?c = "c0\<lparr> chg_UpdatedAt := env_now e, chg_Version := chg_Version c0 + 1 \<rparr>"
    let ?d = "append_audits e evs (d\<lparr> db_Changes := (db_Changes d)[n := ?c], db_Outbox := db_Outbox d @ [fill_event e event] \<rparr>)"
    have run: "(r, d') = save_return e ?c ?d"
      using assms(2) Some upd None by (simp add: UpdateChangeWithOutbox_def Let_def)
    from clean_save_return [OF assms(1), of ?c ?d] show ?thesis
    proof
      assume "env_save e = Saved \<and> save_return e ?c ?d = (Inr ?c, ?d)"
      with run Some upd None show ?thesis by (simp add: store_frame)
    next
      assume "\<exists>er. save_return e ?c ?d = (Inl er, d)"
      with run show ?thesis by auto
    qed
  next
    case (Some er')
    with assms(2) \<open>index_by chg_ID i (db_Changes d) = Some n\<close> upd show ?thesis
      by (auto simp: UpdateChangeWithOutbox_def)
  qed
qed

lemma UpdateChangeWithOutbox_atomic_witness:
  "\<exists>c d'. UpdateChangeWithOutbox ''chg_1'' (Pair None) sample_outbox [] (saved_env 5) outbox_db = (Inr c, d')
     \<and> db_Outbox d' = [sample_outbox, fill_event (saved_env 5) sample_outbox]"
proof -
  let ?r = "UpdateChangeWithOutbox ''chg_1'' (Pair None) sample_outbox [] (saved_env 5) outbox_db"
  obtain c d' where r: "?r = (Inr c, d')"
    by (simp add: UpdateChangeWithOutbox_def index_by_def Let_def)
  from UpdateChangeWithOutbox_atomic [OF _ r] r show ?thesis by (auto simp: clean_save_def)
qed

lemma ensure_one_keeps: "list_ex P outbox \<Longrightarrow> list_ex P (ensure_one e outbox c)"
  by (simp add: ensure_one_def)

lemma foldl_ensure_keeps: "list_ex P outbox \<Longrightarrow> list_ex P (foldl (ensure_one e) outbox cs)"
  by (induction cs arbitrary: outbox) (simp_all add: ensure_one_keeps)

lemma foldl_ensure_covers:
  "c \<in> set cs \<Longrightarrow> awaits_experiment c \<Longrightarrow> list_ex (open_experiment (chg_ID c)) (foldl (ensure_one e) outbox cs)"
proof (induction cs arbitrary: outbox)
  case (Cons a cs)
  have "list_ex (open_experiment (chg_ID c)) (ensure_one e outbox c)" if "awaits_experiment c"
    using that by (auto simp: ensure_one_def open_experiment_def experiment_event_def)
  then show ?case using Cons by (auto intro: foldl_ensure_keeps)
qed simp

lemma foldl_ensure_done:
  "\<forall>c\<in>set cs. awaits_experiment c \<longrightarrow> list_ex (open_experiment (chg_ID c)) outbox \<Longrightarrow> foldl (ensure_one e) outbox cs = outbox"
  by (induction cs) (auto simp: ensure_one_def)

text \<open>The recovery scan at start-up leaves an open experiment event for every change that is queued or
  running, and running it again writes nothing.\<close>

lemma EnsureExperimentOutbox_covers:
  fixes d :: db
  assumes "env_save e = Saved"
  defines "d' \<equiv> snd (EnsureExperimentOutbox e d)"
  shows "(\<forall>c\<in>set (db_Changes d'). awaits_experiment c \<longrightarrow> list_ex (open_experiment (chg_ID c)) (db_Outbox d'))
    \<and> EnsureExperimentOutbox e2 d' = (Inr (), d')"
proof -
  let ?o = "foldl (ensure_one e) (db_Outbox d) (db_Changes d)"
  have d': "db_Changes d' = db_Changes d \<and> db_Outbox d' = ?o"
  proof (cases "length ?o = length (db_Outbox d)")
    case True
    have "\<exists>zs. foldl (ensure_one e) xs cs = xs @ zs" for xs cs
    proof (induction cs arbitrary: xs)
      case (Cons c cs)
      show ?case using Cons [of "ensure_one e xs c"] by (auto simp: ensure_one_def)
    qed simp
    with True have "?o = db_Outbox d" by (metis append_Nil2 append_eq_conv_conj length_append add_cancel_left_right length_0_conv)
    with True show ?thesis by (simp add: d'_def EnsureExperimentOutbox_def Let_def)
  qed (use assms in \<open>simp add: d'_def EnsureExperimentOutbox_def Let_def\<close>)
  then have cov: "\<forall>c\<in>set (db_Changes d'). awaits_experiment c \<longrightarrow> list_ex (open_experiment (chg_ID c)) (db_Outbox d')"
    using foldl_ensure_covers by auto
  then show ?thesis
    using foldl_ensure_done [OF cov, of e2] by (simp add: EnsureExperimentOutbox_def Let_def)
qed

lemma EnsureExperimentOutbox_covers_witness:
  "length (db_Outbox (snd (EnsureExperimentOutbox (saved_env 3)
     (empty_db\<lparr> db_Changes := [zero_change_request\<lparr> chg_ID := ''c'', chg_Status := StatusExperimentQueued \<rparr>] \<rparr>)))) = 1
   \<and> EnsureExperimentOutbox (saved_env 9) (snd (EnsureExperimentOutbox (saved_env 3) empty_db)) = (Inr (), empty_db)"
  using EnsureExperimentOutbox_covers [of "saved_env 3" empty_db "saved_env 9"]
  by (simp add: EnsureExperimentOutbox_def Let_def ensure_one_def awaits_experiment_def empty_db_def)

end
