(* ===== verification/IdempotencyStore.thy ===== *)
theory IdempotencyStore
  imports Store Fencing Integrity
begin

text \<open>
  \<^verbatim>\<open>internal/store/idempotency.go\<close>, for the file and memory backends: the claims under which a mutating
  request runs at most once. A scope (organization, actor, operation, resource, key) has at most one
  record; the record is pending under a claim token and a generation, and then succeeded with a
  result that is replayed. The lemmas show that scopes stay unique, that a claim taken over cannot
  finish or abort any more, that a recorded result is replayed and never replaced, and what the
  cleanup removes. The claim token comes from the random source; an empty one stands for its failure.
\<close>

section \<open>Operations\<close>

definition sameIdempotencyScope :: "idempotency_record \<Rightarrow> idempotency_record \<Rightarrow> bool" where
  "sameIdempotencyScope l r \<longleftrightarrow>
     idem_OrganizationID l = idem_OrganizationID r \<and> idem_ActorID l = idem_ActorID r
     \<and> idem_Operation l = idem_Operation r \<and> idem_Resource l = idem_Resource r \<and> idem_Key l = idem_Key r"

definition publicIdempotencyRecord :: "idempotency_record \<Rightarrow> idempotency_record" where
  "publicIdempotencyRecord r = r\<lparr> idem_ClaimToken := [] \<rparr>"

definition assignIdempotencyClaim :: "env \<Rightarrow> idempotency_record \<Rightarrow> idempotency_record option" where
  "assignIdempotencyClaim e r =
     (if env_id e 0 = [] then None
      else Some (r\<lparr> idem_ClaimToken := env_id e 0, idem_ClaimTokenSHA256 := SHA256 (env_id e 0) \<rparr>))"

definition matchingIdempotencyClaim :: "idempotency_record \<Rightarrow> idempotency_record \<Rightarrow> bool" where
  "matchingIdempotencyClaim stored claimed \<longleftrightarrow>
     \<not> (idem_Generation stored = 0 \<or> idem_Generation claimed \<noteq> idem_Generation stored
        \<or> idem_ClaimToken claimed = [] \<or> idem_ClaimTokenSHA256 stored = [])
     \<and> SHA256 (idem_ClaimToken claimed) = idem_ClaimTokenSHA256 stored"

definition idempotencyResultDigest :: "string \<Rightarrow> string \<Rightarrow> int \<Rightarrow> string" where
  "idempotencyResultDigest result responseRef status =
     SHA256 (result @ [CHR 0x00] @ responseRef @ [CHR 0x00] @ int_str status)"

text \<open>A failed save puts the old records back into whatever state was restored.\<close>

definition save_records :: "env \<Rightarrow> 'a \<Rightarrow> idempotency_record list \<Rightarrow> db \<Rightarrow> (err + 'a) \<times> db" where
  "save_records e x previous d =
     (case save_locked e d of
        (None, d') \<Rightarrow> (Inr x, d')
      | (Some er, d') \<Rightarrow> (Inl er, d'\<lparr> db_IdempotencyRecords := previous \<rparr>))"

text \<open>A claim that failed still carries the record found: the error comes with it.\<close>

datatype begin_result = Claimed idempotency_record | Replay idempotency_record | Refused err idempotency_record

definition pending_record :: "env \<Rightarrow> idempotency_record \<Rightarrow> idempotency_record" where
  "pending_record e r =
     (let created = (if is_zero (idem_CreatedAt r) then env_now e else idem_CreatedAt r) in
      r\<lparr> idem_CreatedAt := created, idem_UpdatedAt := created \<rparr>)"

definition BeginIdempotency :: "idempotency_record \<Rightarrow> env \<Rightarrow> db \<Rightarrow> begin_result \<times> db" where
  "BeginIdempotency r e d =
     (case List.find (\<lambda>x. sameIdempotencyScope x r) (db_IdempotencyRecords d) of
        Some existing \<Rightarrow>
          (if idem_RequestDigest existing \<noteq> idem_RequestDigest r
           then Refused ErrIdempotencyConflict (publicIdempotencyRecord existing)
           else if idem_Status existing = IdempotencySucceeded then Replay (publicIdempotencyRecord existing)
           else Refused ErrIdempotencyPending (publicIdempotencyRecord existing), d)
      | None \<Rightarrow>
          (case assignIdempotencyClaim e (r\<lparr> idem_Status := IdempotencyPending, idem_Generation := 1 \<rparr>) of
             None \<Rightarrow> (Refused ErrEntropy zero_idempotency_record, d)
           | Some r \<Rightarrow>
               let r = pending_record e r in
               (case save_records e r (db_IdempotencyRecords d)
                       (d\<lparr> db_IdempotencyRecords := db_IdempotencyRecords d @ [r] \<rparr>) of
                  (Inr r, d') \<Rightarrow> (Claimed r, d')
                | (Inl er, d') \<Rightarrow> (Refused er zero_idempotency_record, d'))))"

definition same_request :: "idempotency_record \<Rightarrow> idempotency_record \<Rightarrow> bool" where
  "same_request r x \<longleftrightarrow> sameIdempotencyScope x r \<and> idem_RequestDigest x = idem_RequestDigest r"

definition succeeded_record :: "env \<Rightarrow> string \<Rightarrow> string \<Rightarrow> int \<Rightarrow> idempotency_record \<Rightarrow> idempotency_record" where
  "succeeded_record e encoded responseRef status r =
     r\<lparr> idem_Status := IdempotencySucceeded, idem_HTTPStatus := status, idem_Result := encoded,
        idem_ResultDigest := idempotencyResultDigest encoded responseRef status, idem_ResponseRef := responseRef,
        idem_UpdatedAt := env_now e, idem_CompletedAt := Some (env_now e),
        idem_ExpiresAt := Some (env_now e + 72 * hour) \<rparr>"

definition CompleteIdempotency ::
  "idempotency_record \<Rightarrow> json \<Rightarrow> string \<Rightarrow> int \<Rightarrow> env \<Rightarrow> db \<Rightarrow> (err + idempotency_record) \<times> db" where
  "CompleteIdempotency r result responseRef status e d =
     (let encoded = json_enc result; resultDigest = idempotencyResultDigest encoded responseRef status in
      case find_index_of (same_request r) (db_IdempotencyRecords d) of
        None \<Rightarrow> (Inl ErrNotFound, d)
      | Some n \<Rightarrow>
          let item = db_IdempotencyRecords d ! n in
          if idem_Status item = IdempotencySucceeded then
            (if idem_ResponseRef item \<noteq> responseRef \<or> idem_HTTPStatus item \<noteq> status \<or> idem_ResultDigest item = []
                \<or> idem_ResultDigest item \<noteq> resultDigest
             then (Inl ErrIdempotencyResultConflict, d) else (Inr (publicIdempotencyRecord item), d))
          else if \<not> matchingIdempotencyClaim item r then (Inl ErrIdempotencyClaimLost, d)
          else
            let item' = succeeded_record e encoded responseRef status item in
            save_records e (publicIdempotencyRecord item') (db_IdempotencyRecords d)
              (d\<lparr> db_IdempotencyRecords := (db_IdempotencyRecords d)[n := item'] \<rparr>))"

definition AbortIdempotency :: "idempotency_record \<Rightarrow> env \<Rightarrow> db \<Rightarrow> (err + unit) \<times> db" where
  "AbortIdempotency r e d =
     (let xs = db_IdempotencyRecords d in
      case find_index_of (\<lambda>x. same_request r x \<and> idem_Status x = IdempotencyPending) xs of
        None \<Rightarrow> (Inr (), d)
      | Some n \<Rightarrow>
          if \<not> matchingIdempotencyClaim (xs ! n) r then (Inl ErrIdempotencyClaimLost, d)
          else save_records e () xs (d\<lparr> db_IdempotencyRecords := take n xs @ drop (Suc n) xs \<rparr>))"

text \<open>Without fresh random bytes the generation has been incremented in memory before the error returns.\<close>

definition TakeoverIdempotency :: "idempotency_record \<Rightarrow> env \<Rightarrow> db \<Rightarrow> (err + idempotency_record) \<times> db" where
  "TakeoverIdempotency observed e d =
     (let xs = db_IdempotencyRecords d in
      case find_index_of (same_request observed) xs of
        None \<Rightarrow> (Inl ErrNotFound, d)
      | Some n \<Rightarrow>
          let item = xs ! n in
          if idem_Status item \<noteq> IdempotencyPending \<or> idem_Generation observed = 0
             \<or> idem_Generation item \<noteq> idem_Generation observed then (Inl ErrIdempotencyClaimLost, d)
          else
            let item = item\<lparr> idem_Generation := idem_Generation item + 1 \<rparr> in
            (case assignIdempotencyClaim e item of
               None \<Rightarrow> (Inl ErrEntropy, d\<lparr> db_IdempotencyRecords := xs[n := item] \<rparr>)
             | Some item \<Rightarrow>
                 let item = item\<lparr> idem_UpdatedAt := env_now e \<rparr> in
                 save_records e item xs (d\<lparr> db_IdempotencyRecords := xs[n := item] \<rparr>)))"

definition expired_record :: "string \<Rightarrow> gotime \<Rightarrow> idempotency_record \<Rightarrow> bool" where
  "expired_record org tm x \<longleftrightarrow> idem_OrganizationID x = org \<and> idem_Status x = IdempotencySucceeded
     \<and> (case idem_ExpiresAt x of None \<Rightarrow> False | Some t \<Rightarrow> t \<le> tm)"

text \<open>The scan that keeps a record or counts it as removed, up to the limit.\<close>

fun cleanup :: "(idempotency_record \<Rightarrow> bool) \<Rightarrow> int \<Rightarrow> idempotency_record list \<Rightarrow> idempotency_record list \<times> int" where
  "cleanup gone limit [] = ([], 0)"
| "cleanup gone limit (x # xs) =
     (if 0 < limit \<and> gone x
      then (case cleanup gone (limit - 1) xs of (kept, removed) \<Rightarrow> (kept, removed + 1))
      else (case cleanup gone limit xs of (kept, removed) \<Rightarrow> (x # kept, removed)))"

definition CleanupExpiredIdempotency :: "string \<Rightarrow> gotime \<Rightarrow> int \<Rightarrow> env \<Rightarrow> db \<Rightarrow> (err + int) \<times> db" where
  "CleanupExpiredIdempotency org tm limit e d =
     (let limit = (if limit \<le> 0 \<or> 1000 < limit then 100 else limit);
          (kept, removed) = cleanup (expired_record org tm) limit (db_IdempotencyRecords d)
      in if removed = 0 then (Inr 0, d) else save_return e removed (d\<lparr> db_IdempotencyRecords := kept \<rparr>))"

section \<open>The log is left alone\<close>

lemma save_records_Saved [simp]: "env_save e = Saved \<Longrightarrow> save_records e x xs d = (Inr x, d)"
  by (simp add: save_records_def)

lemma begin_audits:
  "env_save e = Saved \<Longrightarrow> db_Audits (snd (BeginIdempotency r e d)) = db_Audits d"
  by (auto simp: BeginIdempotency_def assignIdempotencyClaim_def Let_def split: option.splits)

interpretation begin_idempotency: audited "BeginIdempotency r" "\<lambda>_. True" for r
  by unfold_locales (simp add: begin_audits)

interpretation complete_idempotency: audited "CompleteIdempotency r result ref status" "\<lambda>_. True" for r result ref status
  by unfold_locales (auto simp: CompleteIdempotency_def Let_def split: option.splits)

interpretation abort_idempotency: audited "AbortIdempotency r" "\<lambda>_. True" for r
  by unfold_locales (auto simp: AbortIdempotency_def Let_def split: option.splits)

interpretation takeover_idempotency: audited "TakeoverIdempotency r" "\<lambda>_. True" for r
  by unfold_locales (auto simp: TakeoverIdempotency_def assignIdempotencyClaim_def Let_def split: option.splits)

interpretation cleanup_idempotency: audited "CleanupExpiredIdempotency org tm limit" "\<lambda>_. True" for org tm limit
  by unfold_locales (auto simp: CleanupExpiredIdempotency_def Let_def split: prod.splits)

section \<open>One record per scope\<close>

definition idem_scope :: "idempotency_record \<Rightarrow> string \<times> string \<times> string \<times> string \<times> string" where
  "idem_scope r = (idem_OrganizationID r, idem_ActorID r, idem_Operation r, idem_Resource r, idem_Key r)"

lemma same_scope_iff: "sameIdempotencyScope l r \<longleftrightarrow> idem_scope l = idem_scope r"
  by (simp add: sameIdempotencyScope_def idem_scope_def)

lemma find_scope: "List.find (\<lambda>x. sameIdempotencyScope x r) = lookup_by idem_scope (idem_scope r)"
  by (rule ext) (simp add: lookup_by_def same_scope_iff)

interpretation idempotency: keyed_table db_IdempotencyRecords "\<lambda>xs d. d\<lparr> db_IdempotencyRecords := xs \<rparr>" idem_scope
  by unfold_locales simp

abbreviation scopes_unique :: "db \<Rightarrow> bool" where
  "scopes_unique \<equiv> idempotency.keys_distinct"

lemma scope_updates [simp]:
  "idem_scope (succeeded_record e j ref st r) = idem_scope r" "idem_scope (publicIdempotencyRecord r) = idem_scope r"
  "idem_scope (pending_record e r) = idem_scope r" "idem_scope (r\<lparr> idem_Generation := g \<rparr>) = idem_scope r"
  "idem_scope (r\<lparr> idem_UpdatedAt := t \<rparr>) = idem_scope r" "idem_scope (r\<lparr> idem_Status := s \<rparr>) = idem_scope r"
  "idem_scope (r\<lparr> idem_Status := s, idem_Generation := g \<rparr>) = idem_scope r"
  by (simp_all add: succeeded_record_def publicIdempotencyRecord_def pending_record_def idem_scope_def Let_def)

lemma assign_scope: "assignIdempotencyClaim e r = Some r' \<Longrightarrow> idem_scope r' = idem_scope r"
  by (auto simp: assignIdempotencyClaim_def idem_scope_def split: if_splits)

text \<open>An index found by the request's scope and digest is the one of the scope's only record.\<close>

lemma same_request_index:
  "find_index_of (same_request r) xs = Some n \<Longrightarrow> n < length xs \<and> idem_scope (xs ! n) = idem_scope r
     \<and> idem_RequestDigest (xs ! n) = idem_RequestDigest r"
  using find_index_of_Some by (fastforce simp: same_request_def same_scope_iff)

lemma unique_request_index:
  assumes "distinct (map idem_scope xs)" "n < length xs" "idem_scope (xs ! n) = idem_scope r"
    "idem_RequestDigest (xs ! n) = idem_RequestDigest r"
  shows "find_index_of (same_request r) xs = Some n"
proof (cases "find_index_of (same_request r) xs")
  case None
  with assms(2-4) show ?thesis by (auto simp: same_request_def same_scope_iff)
next
  case (Some m)
  with same_request_index [OF Some] distinct_map_nth [OF assms(1), of m n] assms(2,3) show ?thesis by simp
qed

lemma save_records_clean:
  "clean_save e d \<Longrightarrow> env_save e = Saved \<and> save_records e x (db_IdempotencyRecords d) d' = (Inr x, d')
     \<or> (\<exists>er. save_records e x (db_IdempotencyRecords d) d' = (Inl er, d))"
  by (cases "env_save e") (auto simp: clean_save_def save_records_def save_locked_def)

text \<open>One operation on the records; \<open>TakeoverIdempotency\<close> with a working random source.\<close>

inductive idem_trans :: "db \<Rightarrow> db \<Rightarrow> bool" where
  trans_begin: "clean_save e d \<Longrightarrow> idem_trans d (snd (BeginIdempotency r e d))"
| trans_complete: "clean_save e d \<Longrightarrow> idem_trans d (snd (CompleteIdempotency r result ref status e d))"
| trans_abort: "clean_save e d \<Longrightarrow> idem_trans d (snd (AbortIdempotency r e d))"
| trans_takeover: "clean_save e d \<Longrightarrow> idem_trans d (snd (TakeoverIdempotency r e d))"
| trans_cleanup: "clean_save e d \<Longrightarrow> idem_trans d (snd (CleanupExpiredIdempotency org tm limit e d))"

inductive idem_run :: "db \<Rightarrow> db \<Rightarrow> bool" where
  irun_refl: "idem_run d d"
| irun_step: "idem_run d d' \<Longrightarrow> idem_trans d' d'' \<Longrightarrow> idem_run d d''"

lemma save_records_unique:
  assumes "clean_save e d" "distinct (map idem_scope (db_IdempotencyRecords d))"
    "distinct (map idem_scope (db_IdempotencyRecords d'))"
  shows "distinct (map idem_scope (db_IdempotencyRecords (snd (save_records e x (db_IdempotencyRecords d) d'))))"
  using save_records_clean [OF assms(1), of x d'] assms(2,3) by auto

lemma cleanup_sub: "cleanup gone limit xs = (kept, removed) \<Longrightarrow>
    set kept \<subseteq> set xs \<and> (distinct (map f xs) \<longrightarrow> distinct (map f kept)) \<and> 0 \<le> removed \<and> (0 \<le> limit \<longrightarrow> removed \<le> limit)
    \<and> int (length kept) = int (length xs) - removed \<and> (\<forall>x\<in>set xs - set kept. gone x)"
proof (induction xs arbitrary: limit kept removed)
  case (Cons x xs)
  show ?case
  proof (cases "0 < limit \<and> gone x")
    case True
    obtain kept' removed' where c: "cleanup gone (limit - 1) xs = (kept', removed')" by fastforce
    with Cons.prems True have "kept = kept'" "removed = removed' + 1" by auto
    with Cons.IH [OF c] True show ?thesis by auto
  next
    case False
    obtain kept' removed' where c: "cleanup gone limit xs = (kept', removed')" by fastforce
    with Cons.prems False have "kept = x # kept'" "removed = removed'" by auto
    with Cons.IH [OF c] show ?thesis by auto
  qed
qed simp

lemma distinct_remove_nth: "distinct (map f xs) \<Longrightarrow> distinct (map f (take n xs @ drop (Suc n) xs))"
proof (cases "n < length xs")
  case True
  assume "distinct (map f xs)"
  then have "distinct (map f (take n xs @ xs ! n # drop (Suc n) xs))"
    using id_take_nth_drop [OF True] by simp
  then show ?thesis by simp
qed simp

lemma Begin_unique:
  assumes "clean_save e d" "scopes_unique d"
  shows "scopes_unique (snd (BeginIdempotency r e d))"
proof (cases "List.find (\<lambda>x. sameIdempotencyScope x r) (db_IdempotencyRecords d)")
  case None
  note free = None
  show ?thesis
  proof (cases "assignIdempotencyClaim e (r\<lparr> idem_Status := IdempotencyPending, idem_Generation := 1 \<rparr>)")
    case None
    with free assms show ?thesis by (simp add: BeginIdempotency_def)
  next
    case (Some r')
    let ?r = "pending_record e r'"
    have "idem_scope ?r \<notin> idem_scope ` set (db_IdempotencyRecords d)"
      using free assign_scope [OF Some] by (auto simp: find_None_iff same_scope_iff)
    then have "distinct (map idem_scope (db_IdempotencyRecords d @ [?r]))"
      using assms(2) by (simp add: idempotency.keys_distinct_def)
    then have "scopes_unique (snd (save_records e ?r (db_IdempotencyRecords d)
        (d\<lparr> db_IdempotencyRecords := db_IdempotencyRecords d @ [?r] \<rparr>)))"
      using save_records_unique [OF assms(1), of "d\<lparr> db_IdempotencyRecords := db_IdempotencyRecords d @ [?r] \<rparr>" ?r] assms(2)
      by (simp add: idempotency.keys_distinct_def)
    with free Some show ?thesis
      by (auto simp: BeginIdempotency_def Let_def split: prod.split sum.split)
  qed
qed (use assms in \<open>simp add: BeginIdempotency_def\<close>)

lemma takeover_keys:
  assumes "find_index_of (same_request r) xs = Some n" "assignIdempotencyClaim e ((xs ! n)\<lparr> idem_Generation := g \<rparr>) = Some y"
  shows "map idem_scope (xs[n := y\<lparr> idem_UpdatedAt := t \<rparr>]) = map idem_scope xs"
  using same_request_index [OF assms(1)] assign_scope [OF assms(2)] by (intro keys_update) simp_all

lemma idem_trans_unique: "idem_trans d d' \<Longrightarrow> scopes_unique d \<Longrightarrow> scopes_unique d'"
proof (induction rule: idem_trans.induct)
  case (trans_complete e d r result ref status)
  then show ?case unfolding idempotency.keys_distinct_def
    by (auto simp: CompleteIdempotency_def Let_def keys_update dest: same_request_index split: option.splits
        intro!: save_records_unique)
next
  case (trans_abort e d r)
  show ?case using trans_abort unfolding idempotency.keys_distinct_def
    by (auto simp: AbortIdempotency_def Let_def split: option.splits intro!: save_records_unique distinct_remove_nth
        simp del: map_append distinct_append)
next
  case (trans_takeover e d r)
  then show ?case unfolding idempotency.keys_distinct_def
    by (auto simp: TakeoverIdempotency_def Let_def keys_update takeover_keys split: option.splits
        intro!: save_records_unique)
next
  case (trans_cleanup e d org tm limit)
  let ?limit = "if limit \<le> 0 \<or> 1000 < limit then 100 else limit"
  obtain kept removed where c: "cleanup (expired_record org tm) ?limit (db_IdempotencyRecords d) = (kept, removed)"
    by fastforce
  have kept: "scopes_unique (d\<lparr> db_IdempotencyRecords := kept \<rparr>)"
    using cleanup_sub [OF c, of idem_scope] trans_cleanup(2) by (simp add: idempotency.keys_distinct_def)
  have "CleanupExpiredIdempotency org tm limit e d =
      (if removed = 0 then (Inr 0, d) else save_return e removed (d\<lparr> db_IdempotencyRecords := kept \<rparr>))"
    unfolding CleanupExpiredIdempotency_def Let_def c by simp
  with clean_save_return [OF trans_cleanup(1), of removed "d\<lparr> db_IdempotencyRecords := kept \<rparr>"] kept trans_cleanup(2)
  show ?case by auto
qed (rule Begin_unique)

lemma idem_run_unique: "idem_run d d' \<Longrightarrow> scopes_unique d \<Longrightarrow> scopes_unique d'"
  by (induction rule: idem_run.induct) (auto intro: idem_trans_unique)

section \<open>Fencing of claims\<close>

inductive idem_work :: "idempotency_record \<Rightarrow> idempotency_record \<Rightarrow> bool" where
  "idem_work r (succeeded_record e encoded ref status r)"

definition idem_acquire :: "idempotency_record \<Rightarrow> idempotency_record \<Rightarrow> bool" where
  "idem_acquire r r' \<longleftrightarrow> (\<exists>e. assignIdempotencyClaim e (r\<lparr> idem_Generation := idem_Generation r + 1 \<rparr>) = Some r')"

interpretation claim: fenced idem_Generation idem_acquire idem_work
  "\<lambda>g r. \<exists>claimed. idem_Generation claimed = g \<and> matchingIdempotencyClaim r claimed"
  by unfold_locales
    (auto simp: idem_acquire_def assignIdempotencyClaim_def matchingIdempotencyClaim_def succeeded_record_def
      elim!: idem_work.cases split: if_splits)

lemma takeover_acquires:
  "assignIdempotencyClaim e (r\<lparr> idem_Generation := idem_Generation r + 1 \<rparr>) = Some r' \<Longrightarrow> claim.later 1 r r'"
  using claim.later_acquire [OF claim.later_refl, of r r'] by (auto simp: idem_acquire_def)

lemma Takeover_Inr:
  assumes "TakeoverIdempotency observed e d = (Inr taken, d')"
  obtains n item where "env_save e = Saved" "find_index_of (same_request observed) (db_IdempotencyRecords d) = Some n"
    "idem_Status (db_IdempotencyRecords d ! n) = IdempotencyPending" "idem_Generation observed \<noteq> 0"
    "idem_Generation (db_IdempotencyRecords d ! n) = idem_Generation observed"
    "assignIdempotencyClaim e ((db_IdempotencyRecords d ! n)\<lparr> idem_Generation := idem_Generation (db_IdempotencyRecords d ! n) + 1 \<rparr>) = Some item"
    "taken = item\<lparr> idem_UpdatedAt := env_now e \<rparr>" "d' = d\<lparr> db_IdempotencyRecords := (db_IdempotencyRecords d)[n := taken] \<rparr>"
  using assms
  by (auto simp: TakeoverIdempotency_def Let_def save_records_def save_locked_def
      split: option.splits if_splits prod.splits save.splits)

section \<open>Properties\<close>

text \<open>In any run of the operations each scope (organization, actor, operation, resource, key) has at most one
  record, so a key is claimed at most once at a time.\<close>

lemma idem_run_one_record:
  assumes "idem_run d d'" and "scopes_unique d"
  shows "\<forall>x\<in>set (db_IdempotencyRecords d'). \<forall>y\<in>set (db_IdempotencyRecords d'). sameIdempotencyScope x y \<longrightarrow> x = y"
  using idempotency.row_unique [OF idem_run_unique [OF assms]] by (simp add: same_scope_iff)

definition sample_claim :: idempotency_record where
  "sample_claim = zero_idempotency_record\<lparr> idem_OrganizationID := ''org_1'', idem_Key := ''k'', idem_RequestDigest := ''d'' \<rparr>"

definition begun :: idempotency_record where
  "begun = pending_record (saved_env 5) (sample_claim\<lparr> idem_Status := IdempotencyPending, idem_Generation := 1,
     idem_ClaimToken := nat_str 0, idem_ClaimTokenSHA256 := SHA256 (nat_str 0) \<rparr>)"

lemma begun_run: "BeginIdempotency sample_claim (saved_env 5) empty_db = (Claimed begun, empty_db\<lparr> db_IdempotencyRecords := [begun] \<rparr>)"
  by (simp add: BeginIdempotency_def assignIdempotencyClaim_def begun_def saved_env_def empty_db_def Let_def)

lemma idem_run_one_record_witness:
  "\<exists>d'. idem_run empty_db d' \<and> length (db_IdempotencyRecords d') = 1
     \<and> (\<forall>x\<in>set (db_IdempotencyRecords d'). \<forall>y\<in>set (db_IdempotencyRecords d'). sameIdempotencyScope x y \<longrightarrow> x = y)"
proof -
  have "idem_run empty_db (snd (BeginIdempotency sample_claim (saved_env 5) empty_db))"
    by (rule irun_step [OF irun_refl trans_begin]) simp
  then have run: "idem_run empty_db (empty_db\<lparr> db_IdempotencyRecords := [begun] \<rparr>)" by (simp add: begun_run)
  have "scopes_unique empty_db" by (simp add: idempotency.keys_distinct_def empty_db_def)
  from idem_run_one_record [OF run this] run show ?thesis by (intro exI [of _ "empty_db\<lparr> db_IdempotencyRecords := [begun] \<rparr>"]) simp
qed

text \<open>A claim that was taken over is fenced: with its generation, whatever its token, neither completing nor
  aborting nor a second takeover has any effect, while the new claim is the one the stored record matches
  (unless the 64-bit generation wrapped around to the reserved value 0).\<close>

lemma Takeover_fences:
  assumes unique: "scopes_unique d" and take: "TakeoverIdempotency observed e d = (Inr taken, d')"
    and old: "same_request observed old" "idem_Generation old = idem_Generation observed"
  shows "CompleteIdempotency old result ref status e2 d' = (Inl ErrIdempotencyClaimLost, d')
    \<and> AbortIdempotency old e2 d' = (Inl ErrIdempotencyClaimLost, d')
    \<and> TakeoverIdempotency old e2 d' = (Inl ErrIdempotencyClaimLost, d')
    \<and> (idem_Generation observed + 1 \<noteq> 0 \<longrightarrow>
        (\<exists>stored\<in>set (db_IdempotencyRecords d'). matchingIdempotencyClaim stored taken))"
proof -
  obtain n item where n: "find_index_of (same_request observed) (db_IdempotencyRecords d) = Some n"
    and pend: "idem_Status (db_IdempotencyRecords d ! n) = IdempotencyPending" and g0: "idem_Generation observed \<noteq> 0"
    and g: "idem_Generation (db_IdempotencyRecords d ! n) = idem_Generation observed"
    and acq: "assignIdempotencyClaim e ((db_IdempotencyRecords d ! n)\<lparr> idem_Generation := idem_Generation (db_IdempotencyRecords d ! n) + 1 \<rparr>) = Some item"
    and taken: "taken = item\<lparr> idem_UpdatedAt := env_now e \<rparr>"
    and d': "d' = d\<lparr> db_IdempotencyRecords := (db_IdempotencyRecords d)[n := taken] \<rparr>"
    using take by (rule Takeover_Inr)
  note idx = same_request_index [OF n]
  have sc: "idem_scope old = idem_scope observed" "idem_RequestDigest old = idem_RequestDigest observed"
    using old by (auto simp: same_request_def same_scope_iff)
  have taken': "idem_scope taken = idem_scope observed" "idem_RequestDigest taken = idem_RequestDigest observed"
    "idem_Status taken = IdempotencyPending" "idem_Generation taken = idem_Generation observed + 1"
    "idem_ClaimToken taken \<noteq> []" "idem_ClaimTokenSHA256 taken = SHA256 (idem_ClaimToken taken)"
    using acq idx pend g assign_scope [OF acq] by (auto simp: assignIdempotencyClaim_def taken split: if_splits)
  have xs: "db_IdempotencyRecords d' ! n = taken" "n < length (db_IdempotencyRecords d')"
    "distinct (map idem_scope (db_IdempotencyRecords d'))"
    using idx unique taken'(1) by (simp_all add: d' idempotency.keys_distinct_def keys_update)
  have found: "find_index_of (same_request old) (db_IdempotencyRecords d') = Some n"
    using unique_request_index [OF xs(3,2), of old] taken' sc xs(1) by simp
  have found': "find_index_of (\<lambda>x. same_request old x \<and> idem_Status x = IdempotencyPending) (db_IdempotencyRecords d') = Some n"
  proof (cases "find_index_of (\<lambda>x. same_request old x \<and> idem_Status x = IdempotencyPending) (db_IdempotencyRecords d')")
    case None
    with xs taken' sc show ?thesis by (auto simp: same_request_def same_scope_iff dest!: bspec [OF _ nth_mem])
  next
    case (Some m)
    then have "m < length (db_IdempotencyRecords d')" "idem_scope (db_IdempotencyRecords d' ! m) = idem_scope old"
      by (auto simp: same_request_def same_scope_iff)
    with Some distinct_map_nth [OF xs(3), of m n] xs(1,2) taken' sc show ?thesis by simp
  qed
  have "\<not> matchingIdempotencyClaim item old"
    using claim.fenced_out [OF takeover_acquires [OF acq]] old(2) g by auto
  then have "\<not> matchingIdempotencyClaim taken old"
    by (simp add: taken matchingIdempotencyClaim_def)
  moreover have "idem_Generation observed + 1 \<noteq> 0 \<longrightarrow> matchingIdempotencyClaim taken taken"
    using taken' SHA256_nonempty by (auto simp: matchingIdempotencyClaim_def)
  moreover have "taken \<in> set (db_IdempotencyRecords d')" using xs(1,2) nth_mem by metis
  ultimately show ?thesis
    using found found' xs(1) taken' old(2)
    by (auto simp: CompleteIdempotency_def AbortIdempotency_def TakeoverIdempotency_def Let_def)
qed

lemma Takeover_fences_witness:
  "\<exists>taken d'. TakeoverIdempotency begun (saved_env 9) (empty_db\<lparr> db_IdempotencyRecords := [begun] \<rparr>) = (Inr taken, d')
     \<and> CompleteIdempotency begun JNull ''ref'' 200 (saved_env 10) d' = (Inl ErrIdempotencyClaimLost, d')"
proof -
  let ?d = "empty_db\<lparr> db_IdempotencyRecords := [begun] \<rparr>"
  have b: "same_request begun begun" "idem_Status begun = IdempotencyPending" "idem_Generation begun = 1"
    by (simp_all add: same_request_def same_scope_iff begun_def pending_record_def Let_def)
  obtain taken d' where t: "TakeoverIdempotency begun (saved_env 9) ?d = (Inr taken, d')"
    using b by (simp add: TakeoverIdempotency_def Let_def assignIdempotencyClaim_def saved_env_def)
  have "scopes_unique ?d" by (simp add: idempotency.keys_distinct_def)
  from Takeover_fences [OF this t b(1) refl] t show ?thesis by blast
qed

lemma find_request_scope:
  assumes "find_index_of (same_request r) xs = Some n" "distinct (map idem_scope xs)"
  shows "lookup_by idem_scope (idem_scope r) xs = Some (xs ! n)"
  using same_request_index [OF assms(1)] lookup_by_distinct [OF assms(2), of "xs ! n"] by simp

text \<open>A recorded result is replayed and never replaced: after a completion, the same request gets the
  recorded response without a write, a request with another body under the key is refused as a conflict, and
  completing again is accepted, without a write, only for the same response reference, status and result digest.\<close>

lemma Complete_replays:
  assumes unique: "scopes_unique d" and saved: "env_save e = Saved"
    and fin: "CompleteIdempotency r result ref status e d = (Inr snap, d')"
    and fresh: "\<forall>x\<in>set (db_IdempotencyRecords d). same_request r x \<longrightarrow> idem_Status x \<noteq> IdempotencySucceeded"
  shows "(same_request r r2 \<longrightarrow> BeginIdempotency r2 e2 d' = (Replay snap, d'))
    \<and> (sameIdempotencyScope r2 r \<and> idem_RequestDigest r2 \<noteq> idem_RequestDigest r \<longrightarrow>
        BeginIdempotency r2 e2 d' = (Refused ErrIdempotencyConflict snap, d'))
    \<and> (same_request r r2 \<longrightarrow> CompleteIdempotency r2 result2 ref2 status2 e2 d' =
        (if ref2 = ref \<and> status2 = status
            \<and> idempotencyResultDigest (json_enc result2) ref2 status2 = idempotencyResultDigest (json_enc result) ref status
         then (Inr snap, d') else (Inl ErrIdempotencyResultConflict, d')))
    \<and> idem_Result snap = json_enc result \<and> idem_HTTPStatus snap = status \<and> idem_ResponseRef snap = ref"
proof -
  obtain n where n: "find_index_of (same_request r) (db_IdempotencyRecords d) = Some n"
    using fin by (cases "find_index_of (same_request r) (db_IdempotencyRecords d)")
      (simp_all add: CompleteIdempotency_def Let_def del: find_index_of_None)
  let ?x = "db_IdempotencyRecords d ! n" and ?xs = "db_IdempotencyRecords d'"
  let ?y = "succeeded_record e (json_enc result) ref status ?x"
  have "n < length (db_IdempotencyRecords d)" using n by auto
  moreover have "idem_Status ?x \<noteq> IdempotencySucceeded" using fresh n find_index_of_SomeD [OF n] nth_mem by blast
  ultimately have d': "d' = d\<lparr> db_IdempotencyRecords := (db_IdempotencyRecords d)[n := ?y] \<rparr>"
    and snap: "snap = publicIdempotencyRecord ?y"
    using fin n saved by (auto simp: CompleteIdempotency_def Let_def split: if_splits)
  note idx = same_request_index [OF n]
  have xs: "?xs ! n = ?y" "n < length ?xs" "distinct (map idem_scope ?xs)"
    using idx unique by (simp_all add: d' idempotency.keys_distinct_def keys_update)
  have y: "idem_scope ?y = idem_scope r" "idem_RequestDigest ?y = idem_RequestDigest r" "idem_Status ?y = IdempotencySucceeded"
    "idem_ResponseRef ?y = ref" "idem_HTTPStatus ?y = status" "idem_Result ?y = json_enc result"
    "idem_ResultDigest ?y = idempotencyResultDigest (json_enc result) ref status"
    using idx by (simp_all add: succeeded_record_def idem_scope_def)
  have look: "lookup_by idem_scope (idem_scope r) ?xs = Some ?y"
    using lookup_by_distinct [OF xs(3), of ?y] xs(1,2) y(1) nth_mem by metis
  have begin2: "BeginIdempotency r2 e2 d' = (if idem_RequestDigest r \<noteq> idem_RequestDigest r2
      then Refused ErrIdempotencyConflict snap else Replay snap, d')" if "idem_scope r2 = idem_scope r"
    using look y that by (simp add: BeginIdempotency_def find_scope snap)
  have complete2: "CompleteIdempotency r2 result2 ref2 status2 e2 d' =
        (if ref2 = ref \<and> status2 = status
            \<and> idempotencyResultDigest (json_enc result2) ref2 status2 = idempotencyResultDigest (json_enc result) ref status
         then (Inr snap, d') else (Inl ErrIdempotencyResultConflict, d'))" if "same_request r r2"
  proof -
    have "find_index_of (same_request r2) ?xs = Some n"
      using unique_request_index [OF xs(3,2), of r2] xs(1) y that by (auto simp: same_request_def same_scope_iff)
    then show ?thesis
      using xs(1) y by (auto simp: CompleteIdempotency_def Let_def snap idempotencyResultDigest_def SHA256_nonempty)
  qed
  show ?thesis
    using begin2 complete2 y(4-6) by (auto simp: same_request_def same_scope_iff snap publicIdempotencyRecord_def)
qed

lemma Complete_replays_witness:
  "\<exists>snap d'. CompleteIdempotency begun JNull ''ref'' 200 (saved_env 10) (empty_db\<lparr> db_IdempotencyRecords := [begun] \<rparr>) = (Inr snap, d')
     \<and> BeginIdempotency begun (saved_env 11) d' = (Replay snap, d') \<and> idem_Result snap = ''null''"
proof -
  let ?d = "empty_db\<lparr> db_IdempotencyRecords := [begun] \<rparr>"
  have b: "same_request begun begun" "idem_Status begun = IdempotencyPending" "matchingIdempotencyClaim begun begun"
    by (simp_all add: same_request_def same_scope_iff begun_def pending_record_def Let_def matchingIdempotencyClaim_def SHA256_nonempty)
  obtain snap d' where t: "CompleteIdempotency begun JNull ''ref'' 200 (saved_env 10) ?d = (Inr snap, d')"
    using b by (simp add: CompleteIdempotency_def Let_def)
  have "scopes_unique ?d" by (simp add: idempotency.keys_distinct_def)
  from Complete_replays [OF this _ t, of begun "saved_env 11"] b t show ?thesis by auto
qed

text \<open>The cleanup removes only succeeded records of the organization whose expiry has passed, at most the
  limit of them (100 for a limit outside 1 to 1000) and never a pending claim.\<close>

lemma Cleanup_removes_only_expired:
  assumes "CleanupExpiredIdempotency org tm limit e d = (Inr removed, d')" and "env_save e = Saved"
  shows "set (db_IdempotencyRecords d') \<subseteq> set (db_IdempotencyRecords d)
    \<and> (\<forall>x\<in>set (db_IdempotencyRecords d) - set (db_IdempotencyRecords d'). expired_record org tm x)
    \<and> int (length (db_IdempotencyRecords d')) = int (length (db_IdempotencyRecords d)) - removed
    \<and> 0 \<le> removed \<and> removed \<le> (if limit \<le> 0 \<or> 1000 < limit then 100 else limit)"
proof -
  let ?limit = "if limit \<le> 0 \<or> 1000 < limit then 100 else limit"
  obtain kept k where c: "cleanup (expired_record org tm) ?limit (db_IdempotencyRecords d) = (kept, k)" by fastforce
  note sub = cleanup_sub [OF c, of idem_scope]
  have "CleanupExpiredIdempotency org tm limit e d =
      (if k = 0 then (Inr 0, d) else (Inr k, d\<lparr> db_IdempotencyRecords := kept \<rparr>))"
    unfolding CleanupExpiredIdempotency_def Let_def c using assms(2) by simp
  with assms(1) have "k = removed \<and> (d' = d\<lparr> db_IdempotencyRecords := kept \<rparr> \<or> removed = 0 \<and> d' = d)"
    by (auto split: if_splits)
  with sub show ?thesis by (auto split: if_splits)
qed

lemma Cleanup_removes_only_expired_witness:
  "\<exists>removed d'. CleanupExpiredIdempotency ''org_1'' 50 10 (saved_env 50) (empty_db\<lparr> db_IdempotencyRecords := [begun] \<rparr>) = (Inr removed, d')
     \<and> 0 \<le> removed \<and> db_IdempotencyRecords d' = [begun]"
proof -
  have "\<not> expired_record ''org_1'' 50 begun"
    by (simp add: expired_record_def begun_def pending_record_def Let_def)
  then have run: "CleanupExpiredIdempotency ''org_1'' 50 10 (saved_env 50) (empty_db\<lparr> db_IdempotencyRecords := [begun] \<rparr>)
      = (Inr 0, empty_db\<lparr> db_IdempotencyRecords := [begun] \<rparr>)"
    by (simp add: CleanupExpiredIdempotency_def)
  from Cleanup_removes_only_expired [OF run] run show ?thesis by auto
qed

end
