(* ===== verification/Members.thy ===== *)
theory Members
  imports Store
begin

text \<open>
  \<^verbatim>\<open>internal/store/organization.go\<close> and the application tables of \<^verbatim>\<open>store.go\<close>: enterprises, members,
  invitations, credentials, applications and the grants that say which member may submit or review
  changes of which application. The lemmas show that email addresses stay unique (and which operation
  breaks that), that an invitation is accepted at most once, that no two enterprises claim an email
  domain, and that an update of a member replaces exactly his grants. The sorted listings of the file
  (members, audit events, invitations) are not modelled.
\<close>

section \<open>Roles and invitation states\<close>

definition RoleDeveloper :: string where "RoleDeveloper = txt_role_developer"
definition RoleReviewer :: string where "RoleReviewer = txt_role_reviewer"
definition RoleOwner :: string where "RoleOwner = txt_role_owner"

definition InvitePending :: string where "InvitePending = ''PENDING''"
definition InviteAccepted :: string where "InviteAccepted = ''ACCEPTED''"
definition InviteRevoked :: string where "InviteRevoked = ''REVOKED''"

lemma invite_states [simp]:
  "InviteAccepted \<noteq> InvitePending" "InviteRevoked \<noteq> InvitePending" "InviteAccepted \<noteq> InviteRevoked"
  by (simp_all add: InvitePending_def InviteAccepted_def InviteRevoked_def)

section \<open>Reading\<close>

definition Organization :: "db \<Rightarrow> string \<Rightarrow> err + organization" where
  "Organization d i = find_or_not_found (lookup_by org_ID i (db_Organizations d))"

definition OrganizationBySlug :: "db \<Rightarrow> string \<Rightarrow> err + organization" where
  "OrganizationBySlug d slug =
     find_or_not_found (List.find (\<lambda>o'. equal_fold (org_Slug o') (trim_space slug)) (db_Organizations d))"

definition OrganizationByDomain :: "db \<Rightarrow> string \<Rightarrow> err + organization" where
  "OrganizationByDomain d domain =
     (let domain = to_lower (trim_space domain) in
      find_or_not_found (List.find (\<lambda>o'. org_AllowDomainJoin o'
        \<and> list_ex (\<lambda>allowed. equal_fold (trim_space allowed) domain) (org_EmailDomains o')) (db_Organizations d)))"

definition ApplicationsByOrganization :: "db \<Rightarrow> string \<Rightarrow> application list" where
  "ApplicationsByOrganization d org = filter (\<lambda>a. app_OrganizationID a = org) (db_Applications d)"

definition UserByEmail :: "db \<Rightarrow> string \<Rightarrow> err + user" where
  "UserByEmail d email =
     (let email = to_lower (trim_space email) in
      find_or_not_found (List.find (\<lambda>u. equal_fold (usr_Email u) email) (db_Users d)))"

definition Credential :: "db \<Rightarrow> string \<Rightarrow> err + user_credential" where
  "Credential d i = find_or_not_found (lookup_by cred_UserID i (db_Credentials d))"

fun find_sso :: "user list \<Rightarrow> string \<Rightarrow> string \<Rightarrow> user_credential list \<Rightarrow> (user \<times> user_credential) option" where
  "find_sso us provider subject [] = None"
| "find_sso us provider subject (c # cs) =
     (if cred_IdentityProvider c \<noteq> provider \<or> cred_Subject c \<noteq> subject then find_sso us provider subject cs
      else case lookup_by usr_ID (cred_UserID c) us of
             Some u \<Rightarrow> Some (u, c)
           | None \<Rightarrow> find_sso us provider subject cs)"

definition SSOUser :: "db \<Rightarrow> string \<Rightarrow> string \<Rightarrow> err + (user \<times> user_credential)" where
  "SSOUser d provider subject = find_or_not_found (find_sso (db_Users d) provider subject (db_Credentials d))"

definition ApplicationGrantsByUser :: "db \<Rightarrow> string \<Rightarrow> string \<Rightarrow> application_grant list" where
  "ApplicationGrantsByUser d org u =
     filter (\<lambda>g. grant_OrganizationID g = org \<and> grant_UserID g = u) (db_ApplicationGrants d)"

definition HasApplicationGrants :: "db \<Rightarrow> string \<Rightarrow> bool" where
  "HasApplicationGrants d org =
     (case lookup_by org_ID org (db_Organizations d) of
        None \<Rightarrow> False | Some o' \<Rightarrow> org_ApplicationAccessControlled o')"

definition ActiveEnterpriseAdminCount :: "db \<Rightarrow> string \<Rightarrow> nat" where
  "ActiveEnterpriseAdminCount d org =
     length (filter (\<lambda>u. usr_OrganizationID u = org \<and> usr_Active u \<and> usr_EnterpriseAdmin u) (db_Users d))"

definition DomainClaimedByOther :: "db \<Rightarrow> string \<Rightarrow> string \<Rightarrow> bool" where
  "DomainClaimedByOther d org domain =
     (let domain = to_lower (trim_space domain) in
      list_ex (\<lambda>o'. org_ID o' \<noteq> org \<and> org_AllowDomainJoin o'
        \<and> list_ex (\<lambda>item. equal_fold (trim_space item) domain) (org_EmailDomains o')) (db_Organizations d))"

definition HasActiveSSOAdmin :: "db \<Rightarrow> string \<Rightarrow> bool" where
  "HasActiveSSOAdmin d org =
     list_ex (\<lambda>u. usr_OrganizationID u = org \<and> usr_Active u \<and> usr_EnterpriseAdmin u
       \<and> list_ex (\<lambda>c. cred_UserID c = usr_ID u \<and> cred_IdentityProvider c \<noteq> [] \<and> cred_Subject c \<noteq> [])
            (db_Credentials d)) (db_Users d)"

section \<open>Enterprises\<close>

definition CreateEnterprise ::
  "organization \<Rightarrow> user \<Rightarrow> user_credential \<Rightarrow> risk_policy list \<Rightarrow> audit_event \<Rightarrow> env \<Rightarrow> db \<Rightarrow> (err + unit) \<times> db" where
  "CreateEnterprise organization u credential policies ev e d =
     (if list_ex (\<lambda>o'. equal_fold (org_Slug o') (org_Slug organization)) (db_Organizations d) then (Inl ErrConflict, d)
      else if list_ex (\<lambda>x. equal_fold (usr_Email x) (usr_Email u)) (db_Users d) then (Inl ErrConflict, d)
      else save_return e () (append_audit e
        (d\<lparr> db_Organizations := db_Organizations d @ [organization], db_Users := db_Users d @ [u],
            db_Credentials := db_Credentials d @ [credential], db_Policies := db_Policies d @ policies \<rparr>) ev))"

definition claims_domain :: "string \<Rightarrow> organization \<Rightarrow> bool" where
  "claims_domain domain o' \<longleftrightarrow>
     org_AllowDomainJoin o' \<and> list_ex (\<lambda>x. equal_fold domain (trim_space x)) (org_EmailDomains o')"

definition domain_conflict :: "organization \<Rightarrow> nat \<Rightarrow> organization list \<Rightarrow> bool" where
  "domain_conflict candidate n orgs \<longleftrightarrow>
     org_AllowDomainJoin candidate
     \<and> list_ex (\<lambda>m. m \<noteq> n
         \<and> list_ex (\<lambda>x. claims_domain (trim_space x) (orgs ! m)) (org_EmailDomains candidate)) [0..<length orgs]"

definition UpdateOrganization ::
  "string \<Rightarrow> organization update \<Rightarrow> audit_event \<Rightarrow> env \<Rightarrow> db \<Rightarrow> (err + organization) \<times> db" where
  "UpdateOrganization i upd ev e d =
     (case index_by org_ID i (db_Organizations d) of
        None \<Rightarrow> (Inl ErrNotFound, d)
      | Some n \<Rightarrow>
          (case upd (db_Organizations d ! n) of
             (Some er, _) \<Rightarrow> (Inl er, d)
           | (None, candidate) \<Rightarrow>
               if domain_conflict candidate n (db_Organizations d) then (Inl ErrConflict, d)
               else
                 let candidate = candidate\<lparr> org_UpdatedAt := env_now e \<rparr>
                 in save_return e candidate
                      (append_audit e (d\<lparr> db_Organizations := (db_Organizations d)[n := candidate] \<rparr>) ev)))"

section \<open>Invitations\<close>

definition open_invite :: "gotime \<Rightarrow> organization_invite \<Rightarrow> bool" where
  "open_invite now iv \<longleftrightarrow> inv_Status iv = InvitePending \<and> now < inv_ExpiresAt iv"

definition CreateInvite :: "organization_invite \<Rightarrow> audit_event \<Rightarrow> env \<Rightarrow> db \<Rightarrow> (err + unit) \<times> db" where
  "CreateInvite invite ev e d =
     (if list_ex (\<lambda>x. inv_OrganizationID x = inv_OrganizationID invite \<and> equal_fold (inv_Email x) (inv_Email invite)
                       \<and> open_invite (env_now e) x) (db_Invites d)
      then (Inl ErrConflict, d)
      else save_return e () (append_audit e (d\<lparr> db_Invites := db_Invites d @ [invite] \<rparr>) ev))"

definition InviteByTokenHash :: "gotime \<Rightarrow> db \<Rightarrow> string \<Rightarrow> err + organization_invite" where
  "InviteByTokenHash now d hash =
     find_or_not_found (List.find (\<lambda>x. inv_TokenHash x = hash \<and> open_invite now x) (db_Invites d))"

definition PendingInviteByEmail :: "gotime \<Rightarrow> db \<Rightarrow> string \<Rightarrow> err + organization_invite" where
  "PendingInviteByEmail now d email =
     find_or_not_found (List.find (\<lambda>x. equal_fold (inv_Email x) (trim_space email) \<and> open_invite now x) (db_Invites d))"

definition accepted_invite :: "string \<Rightarrow> gotime \<Rightarrow> organization_invite \<Rightarrow> organization_invite" where
  "accepted_invite u now iv =
     iv\<lparr> inv_Status := InviteAccepted, inv_AcceptedByID := u, inv_AcceptedAt := Some now \<rparr>"

definition email_taken :: "user \<Rightarrow> db \<Rightarrow> bool" where
  "email_taken u d \<longleftrightarrow> list_ex (\<lambda>x. equal_fold (usr_Email x) (usr_Email u)) (db_Users d)"

definition AcceptInvite ::
  "string \<Rightarrow> user \<Rightarrow> user_credential \<Rightarrow> audit_event \<Rightarrow> env \<Rightarrow> db \<Rightarrow> (err + user) \<times> db" where
  "AcceptInvite inviteID u credential ev e d =
     (if email_taken u d then (Inl ErrConflict, d)
      else
        case find_index_of (\<lambda>iv. inv_ID iv = inviteID \<and> inv_Status iv = InvitePending
                                  \<and> env_now e \<le> inv_ExpiresAt iv) (db_Invites d) of
          None \<Rightarrow> (Inl ErrNotFound, d)
        | Some n \<Rightarrow>
            let invite = db_Invites d ! n in
            if inv_OrganizationID invite \<noteq> usr_OrganizationID u \<or> \<not> equal_fold (inv_Email invite) (usr_Email u)
               \<or> inv_Role invite \<noteq> usr_Role u
            then (Inl ErrConflict, d)
            else save_return e u (append_audit e
              (d\<lparr> db_Invites := (db_Invites d)[n := accepted_invite (usr_ID u) (env_now e) invite],
                  db_Users := db_Users d @ [u], db_Credentials := db_Credentials d @ [credential] \<rparr>) ev))"

text \<open>A single sign-on account may come with an invitation, which is looked up by its identifier
  only.\<close>

definition CreateSSOUser ::
  "user \<Rightarrow> user_credential \<Rightarrow> string \<Rightarrow> audit_event \<Rightarrow> env \<Rightarrow> db \<Rightarrow> (err + user) \<times> db" where
  "CreateSSOUser u credential inviteID ev e d =
     (let add = (\<lambda>invites. save_return e u (append_audit e
            (d\<lparr> db_Invites := invites, db_Users := db_Users d @ [u], db_Credentials := db_Credentials d @ [credential] \<rparr>) ev))
      in if email_taken u d then (Inl ErrConflict, d)
         else if inviteID = [] then add (db_Invites d)
         else
           case find_index_of (\<lambda>iv. inv_ID iv = inviteID \<and> open_invite (env_now e) iv) (db_Invites d) of
             None \<Rightarrow> (Inl ErrNotFound, d)
           | Some n \<Rightarrow> add ((db_Invites d)[n := accepted_invite (usr_ID u) (env_now e) (db_Invites d ! n)]))"

definition RevokeInvite :: "string \<Rightarrow> string \<Rightarrow> audit_event \<Rightarrow> env \<Rightarrow> db \<Rightarrow> (err + unit) \<times> db" where
  "RevokeInvite org inviteID ev e d =
     (case find_index_of (\<lambda>iv. inv_ID iv = inviteID \<and> inv_OrganizationID iv = org \<and> inv_Status iv = InvitePending)
             (db_Invites d) of
        None \<Rightarrow> (Inl ErrNotFound, d)
      | Some n \<Rightarrow>
          save_return e () (append_audit e
            (d\<lparr> db_Invites := (db_Invites d)[n := (db_Invites d ! n)\<lparr> inv_Status := InviteRevoked \<rparr>] \<rparr>) ev))"

section \<open>Sign-in and members\<close>

definition login_credentials ::
  "string \<Rightarrow> (user_credential \<Rightarrow> user_credential) \<Rightarrow> user_credential list \<Rightarrow> user_credential list" where
  "login_credentials i upd cs =
     (case index_by cred_UserID i cs of
        Some n \<Rightarrow> cs[n := upd (cs ! n)]
      | None \<Rightarrow> cs @ [upd (zero_user_credential\<lparr> cred_UserID := i \<rparr>)])"

definition UpdateIdentityLogin ::
  "string \<Rightarrow> (user \<Rightarrow> user) \<Rightarrow> (user_credential \<Rightarrow> user_credential) \<Rightarrow> audit_event \<Rightarrow> env \<Rightarrow> db \<Rightarrow> (err + user) \<times> db" where
  "UpdateIdentityLogin i updu updc ev e d =
     (case index_by usr_ID i (db_Users d) of
        None \<Rightarrow> (Inl ErrNotFound, d)
      | Some n \<Rightarrow>
          let u = updu (db_Users d ! n)
          in save_return e u (append_audit e
               (d\<lparr> db_Users := (db_Users d)[n := u], db_Credentials := login_credentials i updc (db_Credentials d) \<rparr>) ev))"

text \<open>The rows that replace a member's grants: a blank or repeated application is skipped, an unknown
  one aborts the update, a grant of nothing is dropped.\<close>

definition app_exists :: "db \<Rightarrow> string \<Rightarrow> string \<Rightarrow> bool" where
  "app_exists d org i \<longleftrightarrow> list_ex (\<lambda>a. app_ID a = i \<and> app_OrganizationID a = org) (db_Applications d)"

definition grant_row :: "string \<Rightarrow> string \<Rightarrow> string \<Rightarrow> gotime \<Rightarrow> application_grant_input \<Rightarrow> application_grant" where
  "grant_row org u by now g =
     \<lparr> grant_OrganizationID = org, grant_UserID = u, grant_ApplicationID = trim_space (gin_ApplicationID g),
       grant_CanSubmit = gin_CanSubmit g, grant_CanReview = gin_CanReview g, grant_UpdatedBy = by,
       grant_UpdatedAt = now \<rparr>"

fun grant_rows ::
  "(string \<Rightarrow> bool) \<Rightarrow> (application_grant_input \<Rightarrow> application_grant) \<Rightarrow> string list
    \<Rightarrow> application_grant_input list \<Rightarrow> application_grant list option" where
  "grant_rows exists_app row seen [] = Some []"
| "grant_rows exists_app row seen (g # gs) =
     (let i = trim_space (gin_ApplicationID g) in
      if i = [] then grant_rows exists_app row seen gs
      else if \<not> exists_app i then None
      else if i \<in> set seen then grant_rows exists_app row seen gs
      else if \<not> gin_CanSubmit g \<and> \<not> gin_CanReview g then grant_rows exists_app row (i # seen) gs
      else map_option ((#) (row g)) (grant_rows exists_app row (i # seen) gs))"

definition control_access :: "string \<Rightarrow> gotime \<Rightarrow> organization list \<Rightarrow> organization list" where
  "control_access org now orgs =
     (case index_by org_ID org orgs of
        None \<Rightarrow> orgs
      | Some n \<Rightarrow> orgs[n := (orgs ! n)\<lparr> org_ApplicationAccessControlled := True, org_UpdatedAt := now \<rparr>])"

definition UpdateMember ::
  "string \<Rightarrow> string \<Rightarrow> user update \<Rightarrow> application_grant_input list \<Rightarrow> audit_event \<Rightarrow> env \<Rightarrow> db \<Rightarrow> (err + user) \<times> db" where
  "UpdateMember org i upd grants ev e d =
     (case find_index_of (\<lambda>u. usr_ID u = i \<and> usr_OrganizationID u = org) (db_Users d) of
        None \<Rightarrow> (Inl ErrNotFound, d)
      | Some n \<Rightarrow>
          (case upd (db_Users d ! n) of
             (Some er, _) \<Rightarrow> (Inl er, d)
           | (None, candidate) \<Rightarrow>
               (case grant_rows (app_exists d org) (grant_row org i (aud_ActorID ev) (env_now e)) [] grants of
                  None \<Rightarrow> (Inl ErrNotFound, d)
                | Some replacement \<Rightarrow>
                    save_return e candidate (append_audit e
                      (d\<lparr> db_ApplicationGrants :=
                            filter (\<lambda>g. grant_OrganizationID g \<noteq> org \<or> grant_UserID g \<noteq> i) (db_ApplicationGrants d)
                            @ replacement,
                          db_Organizations := control_access org (env_now e) (db_Organizations d),
                          db_Users := (db_Users d)[n := candidate] \<rparr>) ev))))"

section \<open>Single sign-on\<close>

text \<open>\<open>updateExisting\<close>, on the user and the credential at the two positions. The credential is the one
  of the table before the refusals, so a credential that was appended for a user without one stays
  appended when the sign-on is refused.\<close>

definition sso_refused :: "user \<Rightarrow> user \<Rightarrow> user_credential \<Rightarrow> bool" where
  "sso_refused identity u c \<longleftrightarrow>
     \<not> usr_Active u
     \<or> usr_IdentityProvider u \<noteq> [] \<and> \<not> equal_fold (usr_IdentityProvider u) (usr_IdentityProvider identity)
     \<or> cred_IdentityProvider c \<noteq> [] \<and> \<not> equal_fold (cred_IdentityProvider c) (usr_IdentityProvider identity)
     \<or> cred_Subject c \<noteq> [] \<and> cred_Subject c \<noteq> usr_Subject identity"

definition sso_user :: "user \<Rightarrow> gotime \<Rightarrow> user \<Rightarrow> user" where
  "sso_user identity now u =
     u\<lparr> usr_Name := usr_Name identity,
        usr_Email := (if usr_Email identity \<noteq> [] then usr_Email identity else usr_Email u),
        usr_IdentityProvider := usr_IdentityProvider identity, usr_LastLoginAt := Some now \<rparr>"

definition update_existing ::
  "user \<Rightarrow> audit_event \<Rightarrow> env \<Rightarrow> nat \<Rightarrow> nat \<Rightarrow> db \<Rightarrow> (err + user) \<times> db" where
  "update_existing identity ev e n k d =
     (let u = db_Users d ! n; c = db_Credentials d ! k in
      if sso_refused identity u c then (Inl ErrConflict, d)
      else
        let u = sso_user identity (env_now e) u;
            c = c\<lparr> cred_IdentityProvider := usr_IdentityProvider identity, cred_Subject := usr_Subject identity \<rparr>;
            ev = ev\<lparr> aud_OrganizationID := usr_OrganizationID u, aud_ActorID := usr_ID u, aud_ActorName := usr_Name u \<rparr>
        in save_return e u (append_audit e
             (d\<lparr> db_Users := (db_Users d)[n := u], db_Credentials := (db_Credentials d)[k := c] \<rparr>) ev))"

definition sso_match :: "user \<Rightarrow> user list \<Rightarrow> user_credential \<Rightarrow> bool" where
  "sso_match identity us c \<longleftrightarrow>
     cred_IdentityProvider c = usr_IdentityProvider identity \<and> cred_Subject c = usr_Subject identity
     \<and> cred_UserID c \<in> usr_ID ` set us"

text \<open>The search for an invitation to an existing enterprise keeps what the last matching invitation
  set, and stops at the first enterprise with an identifier.\<close>

fun invited_to ::
  "organization list \<Rightarrow> (organization_invite \<Rightarrow> bool) \<Rightarrow> nat \<Rightarrow> organization_invite list
    \<Rightarrow> organization \<times> string \<times> nat option \<Rightarrow> organization \<times> string \<times> nat option" where
  "invited_to orgs fits n [] acc = acc"
| "invited_to orgs fits n (iv # invs) acc =
     (let acc = (if fits iv
                 then case lookup_by org_ID (inv_OrganizationID iv) orgs of
                        None \<Rightarrow> acc | Some o' \<Rightarrow> (o', inv_Role iv, Some n)
                 else acc)
      in if org_ID (fst acc) \<noteq> [] then acc else invited_to orgs fits (Suc n) invs acc)"

definition domain_of :: "string \<Rightarrow> string option" where
  "domain_of email = (case split_on (CHR ''@'') (to_lower email) of [_, domain] \<Rightarrow> Some domain | _ \<Rightarrow> None)"

definition joined_by_domain :: "organization list \<Rightarrow> string \<Rightarrow> organization option" where
  "joined_by_domain orgs email =
     (case domain_of email of
        None \<Rightarrow> None
      | Some domain \<Rightarrow>
          List.find (\<lambda>o'. org_AllowDomainJoin o' \<and> list_ex (\<lambda>x. equal_fold x domain) (org_EmailDomains o')
                         \<and> org_ID o' \<noteq> []) orgs)"

definition sso_role :: "string \<Rightarrow> string \<Rightarrow> string" where
  "sso_role invited declared =
     (let role = (if invited = [] then declared else invited) in
      if role \<noteq> RoleDeveloper \<and> role \<noteq> RoleReviewer \<and> role \<noteq> RoleOwner then RoleDeveloper else role)"

definition provision_sso ::
  "user \<Rightarrow> audit_event \<Rightarrow> env \<Rightarrow> organization \<Rightarrow> string \<Rightarrow> nat option \<Rightarrow> db \<Rightarrow> (err + user) \<times> db" where
  "provision_sso identity ev e organization role accepted d =
     (let u = identity\<lparr> usr_ID := env_id e 0, usr_OrganizationID := org_ID organization,
                        usr_OrganizationName := org_Name organization,
                        usr_Role := sso_role role (usr_Role identity), usr_Active := True,
                        usr_EnterpriseAdmin := False, usr_LastLoginAt := Some (env_now e) \<rparr>;
          credential = zero_user_credential
            \<lparr> cred_UserID := usr_ID u, cred_IdentityProvider := usr_IdentityProvider u, cred_Subject := usr_Subject u \<rparr>;
          invites = (case accepted of
                       None \<Rightarrow> db_Invites d
                     | Some k \<Rightarrow> (db_Invites d)[k := accepted_invite (usr_ID u) (env_now e) (db_Invites d ! k)]);
          ev = ev\<lparr> aud_OrganizationID := org_ID organization, aud_ActorID := usr_ID u, aud_ActorName := usr_Name u \<rparr>
      in save_return e u (append_audit e
           (d\<lparr> db_Invites := invites, db_Users := db_Users d @ [u],
               db_Credentials := db_Credentials d @ [credential] \<rparr>) ev))"

definition UpsertSSOUser :: "user \<Rightarrow> audit_event \<Rightarrow> env \<Rightarrow> db \<Rightarrow> (err + user) \<times> db" where
  "UpsertSSOUser identity ev e d =
     (case find_index_of (sso_match identity (db_Users d)) (db_Credentials d) of
        Some k \<Rightarrow>
          (case index_by usr_ID (cred_UserID (db_Credentials d ! k)) (db_Users d) of
             Some n \<Rightarrow> update_existing identity ev e n k d
           | None \<Rightarrow> (Inl IndexPanic, d))
      | None \<Rightarrow>
          (case find_index_of (\<lambda>u. equal_fold (usr_Email u) (usr_Email identity)) (db_Users d) of
             Some n \<Rightarrow>
               (case index_by cred_UserID (usr_ID (db_Users d ! n)) (db_Credentials d) of
                  Some k \<Rightarrow> update_existing identity ev e n k d
                | None \<Rightarrow>
                    update_existing identity ev e n (length (db_Credentials d))
                      (d\<lparr> db_Credentials := db_Credentials d
                            @ [zero_user_credential\<lparr> cred_UserID := usr_ID (db_Users d ! n) \<rparr>] \<rparr>))
           | None \<Rightarrow>
               let (organization, role, accepted) =
                     invited_to (db_Organizations d)
                       (\<lambda>iv. equal_fold (inv_Email iv) (usr_Email identity) \<and> open_invite (env_now e) iv)
                       0 (db_Invites d) (zero_organization, [], None)
               in if org_ID organization \<noteq> [] then provision_sso identity ev e organization role accepted d
                  else case joined_by_domain (db_Organizations d) (usr_Email identity) of
                         None \<Rightarrow> (Inl ErrNotFound, d)
                       | Some o' \<Rightarrow> provision_sso identity ev e o' role accepted d))"

section \<open>Applications\<close>

definition same_app :: "application \<Rightarrow> application \<Rightarrow> bool" where
  "same_app x a \<longleftrightarrow>
     equal_fold (app_Name x) (app_Name a)
     \<or> trim_space (app_Database a) \<noteq> [] \<and> equal_fold (app_Database x) (app_Database a)
       \<and> equal_fold (app_Schema x) (app_Schema a)"

definition CreateApplication :: "application \<Rightarrow> audit_event \<Rightarrow> env \<Rightarrow> db \<Rightarrow> (err + unit) \<times> db" where
  "CreateApplication app ev e d =
     (if list_ex (\<lambda>x. app_OrganizationID x = app_OrganizationID app \<and> same_app x app) (db_Applications d)
      then (Inl ErrConflict, d)
      else save_return e () (append_audit e
        (d\<lparr> db_Applications := db_Applications d @ [app],
            db_Organizations := control_access (app_OrganizationID app) (env_now e) (db_Organizations d) \<rparr>) ev))"

definition UpdateApplication ::
  "string \<Rightarrow> string \<Rightarrow> application update \<Rightarrow> audit_event \<Rightarrow> env \<Rightarrow> db \<Rightarrow> (err + application) \<times> db" where
  "UpdateApplication org i upd ev e d =
     (case find_index_of (\<lambda>a. app_ID a = i \<and> app_OrganizationID a = org) (db_Applications d) of
        None \<Rightarrow> (Inl ErrNotFound, d)
      | Some n \<Rightarrow>
          (case upd (db_Applications d ! n) of
             (Some er, _) \<Rightarrow> (Inl er, d)
           | (None, candidate) \<Rightarrow>
               if list_ex (\<lambda>m. m \<noteq> n \<and> app_OrganizationID (db_Applications d ! m) = org
                              \<and> same_app (db_Applications d ! m) candidate) [0..<length (db_Applications d)]
               then (Inl ErrConflict, d)
               else save_return e candidate (append_audit e
                      (d\<lparr> db_Applications := (db_Applications d)[n := candidate] \<rparr>) ev)))"

section \<open>The operations extend the audit log\<close>

lemma invited_to_org:
  "org_ID (fst acc) = [] \<Longrightarrow> org_ID (fst (invited_to orgs fits n invs acc)) \<noteq> [] \<Longrightarrow>
   fst (invited_to orgs fits n invs acc) \<in> set orgs"
  by (induction orgs fits n invs acc rule: invited_to.induct)
    (auto simp: Let_def image_iff split: if_splits option.splits dest!: lookup_by_Some)

lemma invited_to_accepted:
  "n = length pre \<Longrightarrow> (\<And>k. snd (snd acc) = Some k \<Longrightarrow> k < length (pre @ invs) \<and> fits ((pre @ invs) ! k)) \<Longrightarrow>
   snd (snd (invited_to orgs fits n invs acc)) = Some m \<Longrightarrow> m < length (pre @ invs) \<and> fits ((pre @ invs) ! m)"
proof (induction orgs fits n invs acc arbitrary: pre m rule: invited_to.induct)
  case (2 orgs fits n iv invs acc)
  define a' where "a' = (if fits iv then case lookup_by org_ID (inv_OrganizationID iv) orgs of
      None \<Rightarrow> acc | Some o' \<Rightarrow> (o', inv_Role iv, Some n) else acc)"
  have step: "invited_to orgs fits n (iv # invs) acc =
      (if org_ID (fst a') \<noteq> [] then a' else invited_to orgs fits (Suc n) invs a')"
    by (simp only: invited_to.simps Let_def a'_def)
  have acc: "k < length (pre @ iv # invs) \<and> fits ((pre @ iv # invs) ! k)" if "snd (snd a') = Some k" for k
    using 2(2,3) that by (auto simp: a'_def nth_append split: if_splits option.splits)
  show ?case
  proof (cases "org_ID (fst a') = []")
    case True
    then show ?thesis using 2(1) [OF a'_def, of "pre @ [iv]" m] acc 2(2,4) unfolding step by simp
  next
    case False
    then show ?thesis using acc [of m] 2(4) unfolding step by simp
  qed
qed simp

lemma joined_by_domain_mem: "joined_by_domain orgs email = Some o' \<Longrightarrow> o' \<in> set orgs"
  by (auto simp: joined_by_domain_def find_Some_iff split: option.splits)

definition members_trimmed :: "db \<Rightarrow> bool" where
  "members_trimmed d \<longleftrightarrow>
     (\<forall>o'\<in>set (db_Organizations d). trim_space (org_ID o') = org_ID o')
     \<and> (\<forall>u\<in>set (db_Users d). trim_space (usr_OrganizationID u) = usr_OrganizationID u)"

lemma update_existing_log:
  "env_save e = Saved \<Longrightarrow> n < length (db_Users d) \<Longrightarrow> members_trimmed d \<Longrightarrow>
   log_ext (db_Audits d) (db_Audits (snd (update_existing identity ev e n k d)))"
  by (auto simp: update_existing_def Let_def sso_user_def org_trimmed_def members_trimmed_def intro!: log_ext_intros)

lemma provision_sso_log:
  "env_save e = Saved \<Longrightarrow> o' \<in> set (db_Organizations d) \<Longrightarrow> members_trimmed d \<Longrightarrow>
   log_ext (db_Audits d) (db_Audits (snd (provision_sso identity ev e o' role acc d)))"
  by (auto simp: provision_sso_def Let_def org_trimmed_def members_trimmed_def intro!: log_ext_intros)

lemma invited_to_invite:
  "org_ID (fst acc) = [] \<Longrightarrow> org_ID (fst (invited_to orgs fits n invs acc)) \<noteq> [] \<Longrightarrow>
   \<exists>iv\<in>set invs. fits iv \<and> inv_OrganizationID iv = org_ID (fst (invited_to orgs fits n invs acc))"
  by (induction orgs fits n invs acc rule: invited_to.induct)
    (auto simp: Let_def image_iff split: if_splits option.splits dest!: lookup_by_Some)

text \<open>An enterprise takes an unknown identity in when an open invitation to it carries the address, or
  when it lets the address's domain join.\<close>

definition invites_email :: "gotime \<Rightarrow> db \<Rightarrow> string \<Rightarrow> organization \<Rightarrow> bool" where
  "invites_email now d email o' \<longleftrightarrow>
     (\<exists>iv\<in>set (db_Invites d). equal_fold (inv_Email iv) email \<and> open_invite now iv \<and> inv_OrganizationID iv = org_ID o')"

definition domain_joins :: "string \<Rightarrow> organization \<Rightarrow> bool" where
  "domain_joins email o' \<longleftrightarrow> org_AllowDomainJoin o'
     \<and> (\<exists>domain. domain_of email = Some domain \<and> (\<exists>x\<in>set (org_EmailDomains o'). equal_fold x domain))"

lemma joined_by_domain_joins: "joined_by_domain orgs email = Some o' \<Longrightarrow> domain_joins email o'"
  by (auto simp: joined_by_domain_def domain_joins_def find_Some_iff list_ex_iff split: option.splits)

lemma UpsertSSOUser_cases:
  obtains (linked) k n where "find_index_of (sso_match identity (db_Users d)) (db_Credentials d) = Some k"
      "index_by usr_ID (cred_UserID (db_Credentials d ! k)) (db_Users d) = Some n"
      "UpsertSSOUser identity ev e d = update_existing identity ev e n k d"
  | (email) n k d' where "find_index_of (sso_match identity (db_Users d)) (db_Credentials d) = None"
      "find_index_of (\<lambda>u. equal_fold (usr_Email u) (usr_Email identity)) (db_Users d) = Some n"
      "\<exists>cs. d' = d\<lparr> db_Credentials := cs \<rparr>"
      "UpsertSSOUser identity ev e d = update_existing identity ev e n k d'"
  | (new) organization role acc where
      "find_index_of (\<lambda>u. equal_fold (usr_Email u) (usr_Email identity)) (db_Users d) = None"
      "organization \<in> set (db_Organizations d)"
      "\<And>k. acc = Some k \<Longrightarrow> k < length (db_Invites d) \<and> open_invite (env_now e) (db_Invites d ! k)"
      "invites_email (env_now e) d (usr_Email identity) organization \<or> domain_joins (usr_Email identity) organization"
      "UpsertSSOUser identity ev e d = provision_sso identity ev e organization role acc d"
  | (unknown) "UpsertSSOUser identity ev e d = (Inl ErrNotFound, d)"
proof (cases "find_index_of (sso_match identity (db_Users d)) (db_Credentials d)")
  case (Some k)
  then have "sso_match identity (db_Users d) (db_Credentials d ! k)" by blast
  then obtain n where "index_by usr_ID (cred_UserID (db_Credentials d ! k)) (db_Users d) = Some n"
    by (cases "index_by usr_ID (cred_UserID (db_Credentials d ! k)) (db_Users d)") (auto simp: sso_match_def)
  then show thesis using Some by (intro linked) (auto simp: UpsertSSOUser_def)
next
  case None
  note no_link = None
  show thesis
  proof (cases "find_index_of (\<lambda>u. equal_fold (usr_Email u) (usr_Email identity)) (db_Users d)")
    case (Some n)
    show thesis
    proof (cases "index_by cred_UserID (usr_ID (db_Users d ! n)) (db_Credentials d)")
      case (Some k)
      have same: "\<exists>cs. d = d\<lparr> db_Credentials := cs \<rparr>" by (rule exI [of _ "db_Credentials d"]) simp
      show thesis
        by (rule email [OF no_link \<open>find_index_of _ (db_Users d) = Some n\<close> same, of k])
          (simp add: UpsertSSOUser_def no_link Some \<open>find_index_of _ (db_Users d) = Some n\<close> del: find_index_of_None)
    next
      case None
      show thesis
        by (rule email [OF no_link \<open>find_index_of _ (db_Users d) = Some n\<close>
              exI [of _ "db_Credentials d @ [zero_user_credential\<lparr> cred_UserID := usr_ID (db_Users d ! n) \<rparr>]"], OF refl,
              of "length (db_Credentials d)"])
          (simp add: UpsertSSOUser_def no_link None \<open>find_index_of _ (db_Users d) = Some n\<close>
            del: find_index_of_None index_by_None)
    qed
  next
    case None
    let ?fits = "\<lambda>iv. equal_fold (inv_Email iv) (usr_Email identity) \<and> open_invite (env_now e) iv"
    obtain organization role acc where r: "invited_to (db_Organizations d) ?fits 0 (db_Invites d) (zero_organization, [], None)
        = (organization, role, acc)"
      by (metis prod.exhaust)
    have acc: "k < length (db_Invites d) \<and> open_invite (env_now e) (db_Invites d ! k)" if "acc = Some k" for k
      using invited_to_accepted [of 0 "[]" "(zero_organization, [], None)" "db_Invites d" ?fits "db_Organizations d" k] that
      unfolding r by simp
    show thesis
    proof (cases "org_ID organization = []")
      case True
      show thesis
      proof (cases "joined_by_domain (db_Organizations d) (usr_Email identity)")
        case None
        show thesis
          by (rule unknown) (simp add: UpsertSSOUser_def no_link \<open>find_index_of _ (db_Users d) = None\<close> r True None
              del: find_index_of_None)
      next
        case (Some o')
        show thesis
          by (rule new [where role = role, OF \<open>find_index_of _ (db_Users d) = None\<close> joined_by_domain_mem [OF Some] acc
              disjI2 [OF joined_by_domain_joins [OF Some]]])
            (simp_all add: UpsertSSOUser_def no_link \<open>find_index_of _ (db_Users d) = None\<close> r True Some
              del: find_index_of_None)
      qed
    next
      case False
      then have "organization \<in> set (db_Organizations d)"
        using invited_to_org [of "(zero_organization, [], None)" "db_Organizations d" ?fits 0 "db_Invites d"]
        unfolding r by (simp add: zero_organization_def)
      moreover have "invites_email (env_now e) d (usr_Email identity) organization"
        using invited_to_invite [of "(zero_organization, [], None)" "db_Organizations d" ?fits 0 "db_Invites d"] False
        unfolding r by (auto simp: zero_organization_def invites_email_def)
      ultimately show thesis
        by (intro new [where role = role, OF None _ acc]) (simp_all add: UpsertSSOUser_def no_link None r False del: find_index_of_None)
    qed
  qed
qed

interpretation create_enterprise: audited "CreateEnterprise organization u c ps ev" "\<lambda>_. org_trimmed ev" for organization u c ps ev
  by unfold_locales (auto simp: CreateEnterprise_def intro!: log_ext_intros)

interpretation update_organization: audited "UpdateOrganization i upd ev" "\<lambda>_. org_trimmed ev" for i upd ev
  by unfold_locales (auto simp: UpdateOrganization_def Let_def split: option.splits prod.splits intro!: log_ext_intros)

interpretation create_invite: audited "CreateInvite invite ev" "\<lambda>_. org_trimmed ev" for invite ev
  by unfold_locales (auto simp: CreateInvite_def intro!: log_ext_intros)

interpretation accept_invite: audited "AcceptInvite i u c ev" "\<lambda>_. org_trimmed ev" for i u c ev
  by unfold_locales (auto simp: AcceptInvite_def Let_def split: option.splits intro!: log_ext_intros)

interpretation create_sso_user: audited "CreateSSOUser u c i ev" "\<lambda>_. org_trimmed ev" for u c i ev
  by unfold_locales (auto simp: CreateSSOUser_def Let_def split: option.splits intro!: log_ext_intros)

interpretation revoke_invite: audited "RevokeInvite org i ev" "\<lambda>_. org_trimmed ev" for org i ev
  by unfold_locales (auto simp: RevokeInvite_def split: option.splits intro!: log_ext_intros)

interpretation identity_login: audited "UpdateIdentityLogin i updu updc ev" "\<lambda>_. org_trimmed ev" for i updu updc ev
  by unfold_locales (auto simp: UpdateIdentityLogin_def Let_def split: option.splits intro!: log_ext_intros)

interpretation update_member: audited "UpdateMember org i upd gs ev" "\<lambda>_. org_trimmed ev" for org i upd gs ev
  by unfold_locales (auto simp: UpdateMember_def Let_def split: option.splits prod.splits intro!: log_ext_intros)

interpretation upsert_sso: audited "UpsertSSOUser identity ev" members_trimmed for identity ev
proof
  fix e :: env and d :: db assume e: "env_save e = Saved" and pre: "members_trimmed d"
  show "log_ext (db_Audits d) (db_Audits (snd (UpsertSSOUser identity ev e d)))"
  proof (cases rule: UpsertSSOUser_cases [of identity d ev e])
    case (linked k n)
    then show ?thesis using update_existing_log [OF e _ pre] index_by_Some by metis
  next
    case (email n k d')
    then obtain cs where d': "d' = d\<lparr> db_Credentials := cs \<rparr>" by blast
    have "n < length (db_Users d)" using email(2) by blast
    with d' have "n < length (db_Users d')" "members_trimmed d'" "db_Audits d' = db_Audits d"
      using pre by (simp_all add: members_trimmed_def)
    then show ?thesis using update_existing_log [OF e, of n d' identity ev k] email(4) by simp
  next
    case (new organization role acc)
    then show ?thesis using provision_sso_log [OF e _ pre] by simp
  qed simp
qed

interpretation create_application: audited "CreateApplication app ev" "\<lambda>_. org_trimmed ev" for app ev
  by unfold_locales (auto simp: CreateApplication_def intro!: log_ext_intros)

interpretation update_application: audited "UpdateApplication org i upd ev" "\<lambda>_. org_trimmed ev" for org i upd ev
  by unfold_locales (auto simp: UpdateApplication_def Let_def split: option.splits prod.splits intro!: log_ext_intros)

section \<open>Email addresses and email domains\<close>

definition email_key :: "user \<Rightarrow> string" where
  "email_key u = to_lower (usr_Email u)"

interpretation emails: keyed_table db_Users "\<lambda>xs d. d\<lparr> db_Users := xs \<rparr>" email_key
  by unfold_locales simp

interpretation invites: keyed_table db_Invites "\<lambda>xs d. d\<lparr> db_Invites := xs \<rparr>" inv_ID
  by unfold_locales simp

lemma email_taken_iff: "email_taken u d \<longleftrightarrow> email_key u \<in> email_key ` set (db_Users d)"
  unfolding email_taken_def list_ex_iff equal_fold_def email_key_def image_iff by (metis (no_types, lifting))

lemma distinct_key_update:
  "distinct (map f xs) \<Longrightarrow> n < length xs \<Longrightarrow> (\<And>m. m < length xs \<Longrightarrow> f (xs ! m) = f y \<Longrightarrow> m = n) \<Longrightarrow>
   distinct (map f (xs[n := y]))"
  by (auto simp: distinct_conv_nth nth_list_update split: if_splits)

definition share_domain :: "organization \<Rightarrow> organization \<Rightarrow> bool" where
  "share_domain a b \<longleftrightarrow> org_AllowDomainJoin a \<and> org_AllowDomainJoin b
     \<and> (\<exists>x\<in>set (org_EmailDomains a). \<exists>y\<in>set (org_EmailDomains b). equal_fold (trim_space x) (trim_space y))"

lemma share_domain_sym: "share_domain a b \<longleftrightarrow> share_domain b a"
  unfolding share_domain_def by (meson equal_fold_sym)

lemma share_domain_cong:
  "org_AllowDomainJoin a = org_AllowDomainJoin a' \<Longrightarrow> org_EmailDomains a = org_EmailDomains a' \<Longrightarrow>
   share_domain a b = share_domain a' b"
  by (simp add: share_domain_def)

lemma domain_conflict_iff:
  "domain_conflict c n orgs \<longleftrightarrow> (\<exists>m<length orgs. m \<noteq> n \<and> share_domain c (orgs ! m))"
proof -
  have "share_domain c o' \<longleftrightarrow>
      org_AllowDomainJoin c \<and> (\<exists>x\<in>set (org_EmailDomains c). claims_domain (trim_space x) o')" for o'
    by (auto simp: share_domain_def claims_domain_def list_ex_iff)
  then show ?thesis by (auto simp: domain_conflict_def list_ex_iff)
qed

definition domains_exclusive :: "organization list \<Rightarrow> bool" where
  "domains_exclusive orgs \<longleftrightarrow>
     (\<forall>m<length orgs. \<forall>n<length orgs. m \<noteq> n \<longrightarrow> \<not> share_domain (orgs ! m) (orgs ! n))"

lemma domains_exclusive_update:
  assumes "domains_exclusive orgs" "n < length orgs" "\<forall>m<length orgs. m \<noteq> n \<longrightarrow> \<not> share_domain c (orgs ! m)"
  shows "domains_exclusive (orgs[n := c])"
  using assms by (auto simp: domains_exclusive_def nth_list_update) (metis share_domain_sym)

lemma domains_exclusive_control [simp]:
  "domains_exclusive orgs \<Longrightarrow> domains_exclusive (control_access i now orgs)"
proof (cases "index_by org_ID i orgs")
  case (Some n)
  assume ex: "domains_exclusive orgs"
  have n: "n < length orgs" using index_by_Some [OF Some] by blast
  have "\<not> share_domain ((orgs ! n)\<lparr> org_ApplicationAccessControlled := True, org_UpdatedAt := now \<rparr>) (orgs ! m)"
    if "m < length orgs" "m \<noteq> n" for m
    using ex n that by (simp add: domains_exclusive_def share_domain_def)
  then show ?thesis using ex n Some by (auto simp: control_access_def intro!: domains_exclusive_update)
qed (simp add: control_access_def del: index_by_None)

lemma domains_exclusive_append:
  "domains_exclusive orgs \<Longrightarrow> \<not> org_AllowDomainJoin c \<Longrightarrow> domains_exclusive (orgs @ [c])"
  by (auto simp: domains_exclusive_def nth_append share_domain_def)

section \<open>Runs of the member operations\<close>

definition members_ok :: "db \<Rightarrow> bool" where
  "members_ok d \<longleftrightarrow> emails.keys_distinct d \<and> users.keys_distinct d \<and> invites.keys_distinct d
     \<and> domains_exclusive (db_Organizations d)"

lemma members_okI:
  "distinct (map email_key (db_Users d)) \<Longrightarrow> distinct (map usr_ID (db_Users d)) \<Longrightarrow>
   distinct (map inv_ID (db_Invites d)) \<Longrightarrow> domains_exclusive (db_Organizations d) \<Longrightarrow> members_ok d"
  by (simp add: members_ok_def emails.keys_distinct_def users.keys_distinct_def invites.keys_distinct_def)

lemma members_okD:
  "members_ok d \<Longrightarrow> distinct (map email_key (db_Users d)) \<and> distinct (map usr_ID (db_Users d))
     \<and> distinct (map inv_ID (db_Invites d)) \<and> domains_exclusive (db_Organizations d)"
  by (simp add: members_ok_def emails.keys_distinct_def users.keys_distinct_def invites.keys_distinct_def)

text \<open>An invitation that is no longer pending never changes again.\<close>

definition invites_next :: "organization_invite list \<Rightarrow> organization_invite list \<Rightarrow> bool" where
  "invites_next xs ys \<longleftrightarrow> length xs \<le> length ys
     \<and> (\<forall>n<length xs. inv_ID (ys ! n) = inv_ID (xs ! n) \<and> (inv_Status (xs ! n) \<noteq> InvitePending \<longrightarrow> ys ! n = xs ! n))"

lemma invites_next_refl [simp, intro]: "invites_next xs xs"
  by (simp add: invites_next_def)

lemma invites_next_trans: "invites_next xs ys \<Longrightarrow> invites_next ys zs \<Longrightarrow> invites_next xs zs"
  by (auto simp: invites_next_def)

lemma invites_next_append [simp]: "invites_next xs (xs @ ys)"
  by (auto simp: invites_next_def nth_append)

lemma invites_next_update:
  "inv_Status (xs ! n) = InvitePending \<Longrightarrow> inv_ID y = inv_ID (xs ! n) \<Longrightarrow> invites_next xs (xs[n := y])"
  by (cases "n < length xs") (auto simp: invites_next_def nth_list_update)

text \<open>The contract of the member operations: with a single process and what \<open>pre\<close> asks of the arguments
  (fresh identifiers, callbacks that keep identifier and address) they keep the invariant, and the
  invitations only move forward.\<close>

locale member_op =
  fixes op :: "env \<Rightarrow> db \<Rightarrow> 'r \<times> db" and pre :: "env \<Rightarrow> db \<Rightarrow> bool"
  assumes keeps: "env_save e = Saved \<Longrightarrow> pre e d \<Longrightarrow> members_ok d \<Longrightarrow> members_ok (snd (op e d))"
    and forward: "env_save e = Saved \<Longrightarrow> invites_next (db_Invites d) (db_Invites (snd (op e d)))"
    and undone: "clean_save e d \<Longrightarrow> env_save e \<noteq> Saved \<Longrightarrow>
      db_Users (snd (op e d)) = db_Users d \<and> db_Invites (snd (op e d)) = db_Invites d
      \<and> db_Organizations (snd (op e d)) = db_Organizations d"
begin

lemma keeps_members: "clean_save e d \<Longrightarrow> pre e d \<Longrightarrow> members_ok d \<Longrightarrow> members_ok (snd (op e d))"
proof (cases "env_save e = Saved")
  case False
  assume "clean_save e d" "members_ok d"
  with undone False show ?thesis by (auto dest!: members_okD intro: members_okI)
qed (rule keeps)

lemma moves_forward: "clean_save e d \<Longrightarrow> invites_next (db_Invites d) (db_Invites (snd (op e d)))"
  using forward undone by (cases "env_save e = Saved") auto

end

lemma clean_failed: "clean_save e d \<Longrightarrow> env_save e \<noteq> Saved \<Longrightarrow> snd (save_return e x d') = d"
  using clean_save_return [of e d x d'] by auto

lemma members_ok_add_user:
  "members_ok d \<Longrightarrow> \<not> email_taken u d \<Longrightarrow> usr_ID u \<notin> usr_ID ` set (db_Users d) \<Longrightarrow>
   db_Users d' = db_Users d @ [u] \<Longrightarrow> map inv_ID (db_Invites d') = map inv_ID (db_Invites d) \<Longrightarrow>
   domains_exclusive (db_Organizations d') \<Longrightarrow> members_ok d'"
  by (intro members_okI) (auto simp: email_taken_iff dest!: members_okD)

lemma members_ok_set_user:
  assumes ok: "members_ok d" and n: "n < length (db_Users d)" and "usr_ID u = usr_ID (db_Users d ! n)"
    and email: "\<And>m. m < length (db_Users d) \<Longrightarrow> email_key (db_Users d ! m) = email_key u \<Longrightarrow> m = n"
    and "db_Users d' = (db_Users d)[n := u]" "db_Invites d' = db_Invites d" "domains_exclusive (db_Organizations d')"
  shows "members_ok d'"
proof (rule members_okI)
  show "distinct (map email_key (db_Users d'))"
    unfolding assms(5) using members_okD [OF ok] n email by (intro distinct_key_update) auto
  show "distinct (map usr_ID (db_Users d'))"
    using members_okD [OF ok] n assms(3,5) by (simp add: keys_update)
qed (use members_okD [OF ok] assms(6,7) in simp_all)

lemma same_email_index:
  "members_ok d \<Longrightarrow> n < length (db_Users d) \<Longrightarrow> m < length (db_Users d) \<Longrightarrow>
   email_key (db_Users d ! m) = email_key (db_Users d ! n) \<Longrightarrow> m = n"
  using distinct_map_nth [of email_key "db_Users d" m n] members_okD by blast

interpretation m_create_enterprise: member_op "CreateEnterprise organization u c ps ev"
  "\<lambda>e d. usr_ID u \<notin> usr_ID ` set (db_Users d) \<and> \<not> org_AllowDomainJoin organization" for organization u c ps ev
proof
  fix e :: env and d :: db assume "env_save e = Saved" "usr_ID u \<notin> usr_ID ` set (db_Users d) \<and> \<not> org_AllowDomainJoin organization"
    and ok: "members_ok d"
  then show "members_ok (snd (CreateEnterprise organization u c ps ev e d))"
    by (auto simp: CreateEnterprise_def store_frame email_taken_def members_okD domains_exclusive_append
        intro!: members_ok_add_user [OF ok, of u])
qed (auto simp: CreateEnterprise_def store_frame clean_failed)

interpretation m_update_organization: member_op "UpdateOrganization i upd ev" "\<lambda>_ _. True" for i upd ev
proof
  fix e :: env and d :: db assume e: "env_save e = Saved" and ok: "members_ok d"
  have "domains_exclusive ((db_Organizations d)[n := c\<lparr> org_UpdatedAt := env_now e \<rparr>])"
    if "index_by org_ID i (db_Organizations d) = Some n" "\<not> domain_conflict c n (db_Organizations d)" for n c
    using that members_okD [OF ok] index_by_Some [OF that(1)]
    by (intro domains_exclusive_update) (auto simp: domain_conflict_iff share_domain_def)
  with e ok show "members_ok (snd (UpdateOrganization i upd ev e d))"
    by (auto simp: UpdateOrganization_def Let_def store_frame dest!: members_okD intro!: members_okI
        split: option.splits prod.splits)
qed (auto simp: UpdateOrganization_def Let_def store_frame clean_failed split: option.splits prod.splits)

interpretation m_create_invite: member_op "CreateInvite iv ev" "\<lambda>e d. inv_ID iv \<notin> inv_ID ` set (db_Invites d)" for iv ev
proof
  fix e :: env and d :: db assume "env_save e = Saved" "inv_ID iv \<notin> inv_ID ` set (db_Invites d)" "members_ok d"
  then show "members_ok (snd (CreateInvite iv ev e d))"
    by (auto simp: CreateInvite_def store_frame dest!: members_okD intro!: members_okI)
qed (auto simp: CreateInvite_def store_frame clean_failed)

lemma accepted_invite_ids:
  "n < length iv \<Longrightarrow> map inv_ID (iv[n := accepted_invite u tm (iv ! n)]) = map inv_ID iv"
  by (simp add: keys_update accepted_invite_def)

interpretation m_accept_invite: member_op "AcceptInvite i u c ev" "\<lambda>e d. usr_ID u \<notin> usr_ID ` set (db_Users d)" for i u c ev
proof
  fix e :: env and d :: db assume "env_save e = Saved" "usr_ID u \<notin> usr_ID ` set (db_Users d)" and ok: "members_ok d"
  then show "members_ok (snd (AcceptInvite i u c ev e d))"
    by (auto simp: AcceptInvite_def Let_def store_frame accepted_invite_ids members_okD split: option.splits
        intro!: members_ok_add_user [OF ok, of u])
qed (auto simp: AcceptInvite_def Let_def store_frame clean_failed accepted_invite_def split: option.splits
      intro!: invites_next_update)

interpretation m_create_sso_user: member_op "CreateSSOUser u c i ev" "\<lambda>e d. usr_ID u \<notin> usr_ID ` set (db_Users d)" for u c i ev
proof
  fix e :: env and d :: db assume "env_save e = Saved" "usr_ID u \<notin> usr_ID ` set (db_Users d)" and ok: "members_ok d"
  then show "members_ok (snd (CreateSSOUser u c i ev e d))"
    by (auto simp: CreateSSOUser_def Let_def store_frame accepted_invite_ids members_okD split: option.splits
        intro!: members_ok_add_user [OF ok, of u])
qed (auto simp: CreateSSOUser_def Let_def store_frame clean_failed accepted_invite_def open_invite_def split: option.splits
      intro!: invites_next_update)

interpretation m_revoke_invite: member_op "RevokeInvite org i ev" "\<lambda>_ _. True" for org i ev
proof
  fix e :: env and d :: db assume "env_save e = Saved" "members_ok d"
  then show "members_ok (snd (RevokeInvite org i ev e d))"
    by (auto simp: RevokeInvite_def store_frame keys_update dest!: members_okD intro!: members_okI split: option.splits)
qed (auto simp: RevokeInvite_def store_frame clean_failed split: option.splits intro!: invites_next_update)

definition keeps_identity :: "(user \<Rightarrow> user) \<Rightarrow> bool" where
  "keeps_identity f \<longleftrightarrow> (\<forall>u. usr_ID (f u) = usr_ID u \<and> usr_Email (f u) = usr_Email u)"

interpretation m_identity_login: member_op "UpdateIdentityLogin i updu updc ev" "\<lambda>_ _. keeps_identity updu" for i updu updc ev
proof
  fix e :: env and d :: db assume e: "env_save e = Saved" "keeps_identity updu" and ok: "members_ok d"
  show "members_ok (snd (UpdateIdentityLogin i updu updc ev e d))"
  proof (cases "index_by usr_ID i (db_Users d)")
    case (Some n)
    then have n: "n < length (db_Users d)" using index_by_Some by metis
    then show ?thesis using e Some same_email_index [OF ok n] members_okD [OF ok]
      by (simp add: UpdateIdentityLogin_def Let_def keeps_identity_def)
        (rule members_ok_set_user [OF ok n], auto simp: store_frame email_key_def)
  qed (use ok in \<open>simp add: UpdateIdentityLogin_def del: index_by_None\<close>)
qed (auto simp: UpdateIdentityLogin_def Let_def store_frame clean_failed split: option.splits)

interpretation m_update_member: member_op "UpdateMember org i upd gs ev" "\<lambda>_ _. keeps_identity (\<lambda>u. snd (upd u))" for org i upd gs ev
proof
  fix e :: env and d :: db assume e: "env_save e = Saved" "keeps_identity (\<lambda>u. snd (upd u))" and ok: "members_ok d"
  show "members_ok (snd (UpdateMember org i upd gs ev e d))"
  proof (cases "find_index_of (\<lambda>u. usr_ID u = i \<and> usr_OrganizationID u = org) (db_Users d)")
    case (Some n)
    then have n: "n < length (db_Users d)" by blast
    have keep: "usr_ID u' = usr_ID (db_Users d ! n)" "email_key u' = email_key (db_Users d ! n)"
      if "upd (db_Users d ! n) = (None, u')" for u'
      using e(2) that by (auto simp: keeps_identity_def email_key_def dest!: spec [of _ "db_Users d ! n"])
    have "members_ok d'" if "upd (db_Users d ! n) = (None, u')" "db_Users d' = (db_Users d)[n := u']"
      "db_Invites d' = db_Invites d" "domains_exclusive (db_Organizations d')" for u' d'
      by (rule members_ok_set_user [OF ok n keep(1) [OF that(1)] same_email_index [OF ok n] that(2-4)])
        (simp_all add: keep(2) [OF that(1)])
    then show ?thesis using e(1) Some ok members_okD [OF ok]
      by (simp add: UpdateMember_def Let_def store_frame split: prod.splits option.splits)
  qed (use ok in \<open>simp add: UpdateMember_def del: find_index_of_None\<close>)
qed (auto simp: UpdateMember_def Let_def store_frame clean_failed split: option.splits prod.splits)

text \<open>A sign-on is harmless when the identity's address is not one of another member.\<close>

definition sso_email_safe :: "user \<Rightarrow> db \<Rightarrow> bool" where
  "sso_email_safe identity d \<longleftrightarrow>
     (\<forall>c\<in>set (db_Credentials d). sso_match identity (db_Users d) c \<longrightarrow>
        (\<forall>u\<in>set (db_Users d). email_key u = email_key identity \<longrightarrow> usr_ID u = cred_UserID c))"

lemma update_existing_members:
  assumes "env_save e = Saved" and ok: "members_ok d" and "db_Users d' = db_Users d" "db_Invites d' = db_Invites d"
    "db_Organizations d' = db_Organizations d" and n: "n < length (db_Users d)"
    and email: "\<And>m. m < length (db_Users d) \<Longrightarrow> email_key (db_Users d ! m) = email_key identity \<Longrightarrow> m = n"
  shows "members_ok (snd (update_existing identity ev e n k d'))"
proof -
  have "members_ok d'" using ok assms(3-5) by (auto dest!: members_okD intro: members_okI)
  moreover have "members_ok d''" if "db_Users d'' = (db_Users d)[n := sso_user identity now (db_Users d ! n)]"
      "db_Invites d'' = db_Invites d" "db_Organizations d'' = db_Organizations d" for d'' now
  proof (rule members_ok_set_user [OF ok n _ _ that(1,2)])
    fix m assume m: "m < length (db_Users d)"
      "email_key (db_Users d ! m) = email_key (sso_user identity now (db_Users d ! n))"
    show "m = n"
    proof (cases "usr_Email identity = []")
      case True
      then show ?thesis using m by (intro same_email_index [OF ok n]) (simp_all add: sso_user_def email_key_def)
    next
      case False
      then show ?thesis using m by (intro email) (simp_all add: sso_user_def email_key_def)
    qed
  qed (use that(3) members_okD [OF ok] in \<open>simp_all add: sso_user_def\<close>)
  ultimately show ?thesis using assms(1,3-5) by (auto simp: update_existing_def Let_def store_frame)
qed

interpretation m_upsert_sso: member_op "UpsertSSOUser identity ev"
  "\<lambda>e d. sso_email_safe identity d \<and> env_id e 0 \<notin> usr_ID ` set (db_Users d)" for identity ev
proof
  fix e :: env and d :: db
  assume e: "env_save e = Saved" and pre: "sso_email_safe identity d \<and> env_id e 0 \<notin> usr_ID ` set (db_Users d)"
    and ok: "members_ok d"
  show "members_ok (snd (UpsertSSOUser identity ev e d))"
  proof (cases rule: UpsertSSOUser_cases [of identity d ev e])
    case (linked k n)
    have n: "n < length (db_Users d)" "usr_ID (db_Users d ! n) = cred_UserID (db_Credentials d ! k)"
      using index_by_Some [OF linked(2)] by auto
    have c: "db_Credentials d ! k \<in> set (db_Credentials d)" "sso_match identity (db_Users d) (db_Credentials d ! k)"
      using linked(1) by auto
    have "m = n" if "m < length (db_Users d)" "email_key (db_Users d ! m) = email_key identity" for m
      using pre c n that distinct_map_nth [of usr_ID "db_Users d" m n] members_okD [OF ok]
      by (auto simp: sso_email_safe_def)
    then show ?thesis unfolding linked(3) by (intro update_existing_members [OF e ok _ _ _ n(1)]) auto
  next
    case (email n k d')
    then have n: "n < length (db_Users d)" "email_key (db_Users d ! n) = email_key identity"
      by (auto simp: equal_fold_def email_key_def)
    from email obtain cs where d': "d' = d\<lparr> db_Credentials := cs \<rparr>" by blast
    show ?thesis unfolding email(4) using same_email_index [OF ok n(1)] n(2)
      by (intro update_existing_members [OF e ok _ _ _ n(1)]) (auto simp: d')
  next
    case (new organization role acc)
    define iv where "iv = (case acc of None \<Rightarrow> db_Invites d
        | Some k \<Rightarrow> (db_Invites d)[k := accepted_invite (env_id e 0) (env_now e) (db_Invites d ! k)])"
    have "map inv_ID iv = map inv_ID (db_Invites d)"
      using new(3) by (auto simp: iv_def accepted_invite_ids split: option.splits)
    moreover have "\<not> email_taken (u\<lparr> usr_ID := env_id e 0 \<rparr>) d" if "usr_Email u = usr_Email identity" for u
      using new(1) that by (auto simp: email_taken_def list_ex_iff)
    ultimately have "members_ok d'" if "db_Users d' = db_Users d @ [u]" "usr_ID u = env_id e 0"
      "usr_Email u = usr_Email identity" "db_Invites d' = iv" "db_Organizations d' = db_Organizations d" for u d'
      using members_ok_add_user [OF ok, of u d'] that pre members_okD [OF ok] new(1)
      by (auto simp: email_taken_def list_ex_iff)
    then show ?thesis using e unfolding new(5)
      by (simp add: provision_sso_def Let_def store_frame iv_def cong: option.case_cong)
  qed (use ok in simp)
next
  fix e :: env and d :: db assume e: "env_save e = Saved"
  show "invites_next (db_Invites d) (db_Invites (snd (UpsertSSOUser identity ev e d)))"
  proof (cases rule: UpsertSSOUser_cases [of identity d ev e])
    case (new organization role acc)
    then show ?thesis using e
      by (auto simp: provision_sso_def Let_def store_frame open_invite_def accepted_invite_def split: option.splits
          intro!: invites_next_update)
  qed (use e in \<open>auto simp: update_existing_def Let_def store_frame\<close>)
next
  fix e :: env and d :: db assume e: "clean_save e d" "env_save e \<noteq> Saved"
  show "db_Users (snd (UpsertSSOUser identity ev e d)) = db_Users d \<and> db_Invites (snd (UpsertSSOUser identity ev e d)) = db_Invites d
      \<and> db_Organizations (snd (UpsertSSOUser identity ev e d)) = db_Organizations d"
    by (cases rule: UpsertSSOUser_cases [of identity d ev e])
      (auto simp: update_existing_def provision_sso_def Let_def clean_failed [OF e])
qed

interpretation m_create_application: member_op "CreateApplication app ev" "\<lambda>_ _. True" for app ev
proof
  fix e :: env and d :: db assume "env_save e = Saved" "members_ok d"
  then show "members_ok (snd (CreateApplication app ev e d))"
    by (auto simp: CreateApplication_def store_frame dest!: members_okD intro!: members_okI)
qed (auto simp: CreateApplication_def store_frame clean_failed)

interpretation m_update_application: member_op "UpdateApplication org i upd ev" "\<lambda>_ _. True" for org i upd ev
proof
  fix e :: env and d :: db assume "env_save e = Saved" "members_ok d"
  then show "members_ok (snd (UpdateApplication org i upd ev e d))"
    by (auto simp: UpdateApplication_def store_frame dest!: members_okD intro!: members_okI split: option.splits prod.splits)
qed (auto simp: UpdateApplication_def store_frame clean_failed split: option.splits prod.splits)

inductive member_trans :: "db \<Rightarrow> db \<Rightarrow> bool" where
  mt_enterprise: "clean_save e d \<Longrightarrow> usr_ID u \<notin> usr_ID ` set (db_Users d) \<Longrightarrow> \<not> org_AllowDomainJoin organization \<Longrightarrow>
     member_trans d (snd (CreateEnterprise organization u c ps ev e d))"
| mt_organization: "clean_save e d \<Longrightarrow> member_trans d (snd (UpdateOrganization i upd ev e d))"
| mt_invite: "clean_save e d \<Longrightarrow> inv_ID iv \<notin> inv_ID ` set (db_Invites d) \<Longrightarrow>
     member_trans d (snd (CreateInvite iv ev e d))"
| mt_accept: "clean_save e d \<Longrightarrow> usr_ID u \<notin> usr_ID ` set (db_Users d) \<Longrightarrow>
     member_trans d (snd (AcceptInvite i u c ev e d))"
| mt_sso_user: "clean_save e d \<Longrightarrow> usr_ID u \<notin> usr_ID ` set (db_Users d) \<Longrightarrow>
     member_trans d (snd (CreateSSOUser u c i ev e d))"
| mt_revoke: "clean_save e d \<Longrightarrow> member_trans d (snd (RevokeInvite org i ev e d))"
| mt_login: "clean_save e d \<Longrightarrow> keeps_identity updu \<Longrightarrow>
     member_trans d (snd (UpdateIdentityLogin i updu updc ev e d))"
| mt_member: "clean_save e d \<Longrightarrow> keeps_identity (\<lambda>u. snd (upd' u)) \<Longrightarrow>
     member_trans d (snd (UpdateMember org i upd' gs ev e d))"
| mt_sso: "clean_save e d \<Longrightarrow> sso_email_safe identity d \<Longrightarrow> env_id e 0 \<notin> usr_ID ` set (db_Users d) \<Longrightarrow>
     member_trans d (snd (UpsertSSOUser identity ev e d))"
| mt_application: "clean_save e d \<Longrightarrow> member_trans d (snd (CreateApplication app ev e d))"
| mt_update_application: "clean_save e d \<Longrightarrow> member_trans d (snd (UpdateApplication org i upd'' ev e d))"

inductive member_run :: "db \<Rightarrow> db \<Rightarrow> bool" where
  member_refl [simp, intro]: "member_run d d"
| member_step: "member_run d d' \<Longrightarrow> member_trans d' d'' \<Longrightarrow> member_run d d''"

lemma member_trans_ok: "member_trans d d' \<Longrightarrow> members_ok d \<Longrightarrow> members_ok d'"
  by (induction rule: member_trans.induct)
    (simp_all add: m_create_enterprise.keeps_members m_update_organization.keeps_members m_create_invite.keeps_members
      m_accept_invite.keeps_members m_create_sso_user.keeps_members m_revoke_invite.keeps_members
      m_identity_login.keeps_members m_update_member.keeps_members m_upsert_sso.keeps_members
      m_create_application.keeps_members m_update_application.keeps_members)

lemma member_trans_invites: "member_trans d d' \<Longrightarrow> invites_next (db_Invites d) (db_Invites d')"
  by (induction rule: member_trans.induct)
    (simp_all add: m_create_enterprise.moves_forward m_update_organization.moves_forward m_create_invite.moves_forward
      m_accept_invite.moves_forward m_create_sso_user.moves_forward m_revoke_invite.moves_forward
      m_identity_login.moves_forward m_update_member.moves_forward m_upsert_sso.moves_forward
      m_create_application.moves_forward m_update_application.moves_forward)

lemma member_run_ok: "member_run d d' \<Longrightarrow> members_ok d \<Longrightarrow> members_ok d'"
  by (induction rule: member_run.induct) (auto intro: member_trans_ok)

lemma member_run_invites: "member_run d d' \<Longrightarrow> invites_next (db_Invites d) (db_Invites d')"
  by (induction rule: member_run.induct) (auto intro: member_trans_invites invites_next_trans)

lemma AcceptInvite_Inr:
  assumes "AcceptInvite i u c ev e d = (Inr v, d')"
  obtains n where "env_save e = Saved" "v = u" "n < length (db_Invites d)" "inv_ID (db_Invites d ! n) = i"
    "inv_Status (db_Invites d ! n) = InvitePending" "env_now e \<le> inv_ExpiresAt (db_Invites d ! n)"
    "inv_OrganizationID (db_Invites d ! n) = usr_OrganizationID u" "inv_Role (db_Invites d ! n) = usr_Role u"
    "equal_fold (inv_Email (db_Invites d ! n)) (usr_Email u)"
    "db_Invites d' = (db_Invites d)[n := accepted_invite (usr_ID u) (env_now e) (db_Invites d ! n)]"
    "db_Users d' = db_Users d @ [u]"
  using assms
  by (auto simp: AcceptInvite_def Let_def save_return_def save_locked_def store_frame
      split: if_splits option.splits prod.splits save.splits dest!: find_index_of_Some)

lemma AcceptInvite_closed:
  assumes "distinct (map inv_ID (db_Invites d))" "n < length (db_Invites d)" "inv_Status (db_Invites d ! n) \<noteq> InvitePending"
  shows "\<exists>er. AcceptInvite (inv_ID (db_Invites d ! n)) u c ev e d = (Inl er, d)"
proof -
  have "find_index_of (\<lambda>iv. inv_ID iv = inv_ID (db_Invites d ! n) \<and> inv_Status iv = InvitePending
      \<and> env_now e \<le> inv_ExpiresAt iv) (db_Invites d) = None"
    using assms distinct_map_inj [OF assms(1) _ nth_mem [OF assms(2)]] by auto
  then show ?thesis by (auto simp: AcceptInvite_def simp del: find_index_of_None)
qed

text \<open>C28: the addresses of the members stay unique up to case, and no two enterprises that let members join by
  email domain claim the same domain, in any run of the member operations in which no sign-on gives a member that is
  known by his subject the address of another member and the identifiers of new members and invitations are
  fresh. The excluded sign-on does break the uniqueness: \<open>UpsertSSOUser_duplicates_email\<close>.\<close>

theorem member_run_keeps_emails_unique:
  assumes "member_run d d'" and "members_ok d"
  shows "distinct (map email_key (db_Users d'))
    \<and> (\<forall>m<length (db_Organizations d'). \<forall>n<length (db_Organizations d'). m \<noteq> n \<longrightarrow>
         \<not> share_domain (db_Organizations d' ! m) (db_Organizations d' ! n))"
  using members_okD [OF member_run_ok [OF assms]] by (simp add: domains_exclusive_def)

text \<open>An invitation is accepted at most once: after it was accepted, no later operation reopens or
  reassigns it, and a second acceptance, by whomever and at whatever time, fails and changes nothing.\<close>

lemma invitation_accepted_once:
  assumes "AcceptInvite i u c ev e d = (Inr v, d1)" and "members_ok d" and "usr_ID u \<notin> usr_ID ` set (db_Users d)"
    and "member_run d1 d2"
  shows "(\<exists>iv\<in>set (db_Invites d2). inv_ID iv = i \<and> inv_Status iv = InviteAccepted \<and> inv_AcceptedByID iv = usr_ID u)
    \<and> (\<exists>er. AcceptInvite i u' c' ev' e' d2 = (Inl er, d2))"
proof -
  obtain n where n: "env_save e = Saved" "n < length (db_Invites d)" "inv_ID (db_Invites d ! n) = i"
    and inv1: "db_Invites d1 = (db_Invites d)[n := accepted_invite (usr_ID u) (env_now e) (db_Invites d ! n)]"
    using assms(1) by (rule AcceptInvite_Inr)
  have "members_ok d1"
    using m_accept_invite.keeps [OF n(1), of u d i c ev] assms(1-3) by simp
  then have ids: "distinct (map inv_ID (db_Invites d2))"
    using member_run_ok [OF assms(4)] members_okD by blast
  have n2: "n < length (db_Invites d2)" "db_Invites d2 ! n = accepted_invite (usr_ID u) (env_now e) (db_Invites d ! n)"
    using member_run_invites [OF assms(4)] n(2) by (auto simp: invites_next_def inv1 accepted_invite_def)
  then have acc: "inv_ID (db_Invites d2 ! n) = i" "inv_Status (db_Invites d2 ! n) = InviteAccepted"
    "inv_AcceptedByID (db_Invites d2 ! n) = usr_ID u"
    using n(3) by (simp_all add: accepted_invite_def)
  then have "\<exists>er. AcceptInvite i u' c' ev' e' d2 = (Inl er, d2)"
    using AcceptInvite_closed [OF ids n2(1), of u' c' ev' e'] by simp
  with acc nth_mem [OF n2(1)] show ?thesis by blast
qed

section \<open>Grants\<close>

lemma grant_rows_seen: "grant_rows ex row seen gs = Some rs \<Longrightarrow> (\<And>g. grant_ApplicationID (row g) = trim_space (gin_ApplicationID g)) \<Longrightarrow>
   r \<in> set rs \<Longrightarrow> grant_ApplicationID r \<notin> set seen \<and> ex (grant_ApplicationID r) \<and> grant_ApplicationID r \<noteq> []"
  by (induction ex row seen gs arbitrary: rs rule: grant_rows.induct) (fastforce simp: Let_def split: if_splits)+

lemma grant_rows_distinct: "grant_rows ex row seen gs = Some rs \<Longrightarrow>
   (\<And>g. grant_ApplicationID (row g) = trim_space (gin_ApplicationID g)) \<Longrightarrow> distinct (map grant_ApplicationID rs)"
proof (induction ex row seen gs arbitrary: rs rule: grant_rows.induct)
  case (2 ex row seen g gs)
  then show ?case
    using grant_rows_seen [of ex row "trim_space (gin_ApplicationID g) # seen" gs]
    by (fastforce simp: Let_def split: if_splits)
qed simp

lemma grant_rows_spec:
  assumes "grant_rows ex row seen gs = Some rs" "\<And>g. grant_ApplicationID (row g) = trim_space (gin_ApplicationID g)"
    and "a \<noteq> []" "a \<notin> set seen"
  shows "(\<exists>r\<in>set rs. grant_ApplicationID r = a \<and> P r) \<longleftrightarrow>
     (\<exists>g. List.find (\<lambda>g. trim_space (gin_ApplicationID g) = a) gs = Some g \<and> (gin_CanSubmit g \<or> gin_CanReview g) \<and> P (row g))"
  using assms
proof (induction ex row seen gs arbitrary: rs rule: grant_rows.induct)
  case (2 ex row seen g gs)
  let ?i = "trim_space (gin_ApplicationID g)"
  consider "?i = []" | "?i \<noteq> []" "?i \<in> set seen" | "?i \<noteq> []" "?i \<notin> set seen" "\<not> gin_CanSubmit g" "\<not> gin_CanReview g"
    | rs' where "?i \<noteq> []" "?i \<notin> set seen" "gin_CanSubmit g \<or> gin_CanReview g" "rs = row g # rs'"
        "grant_rows ex row (?i # seen) gs = Some rs'"
    using 2(5) by (auto simp: Let_def split: if_splits)
  then show ?case
  proof cases
    case 1
    then show ?thesis using 2 by (simp add: Let_def)
  next
    case 2
    then show ?thesis using "2.IH"(2) "2.prems" by (auto simp: Let_def split: if_splits)
  next
    case 3
    then show ?thesis using "2.IH"(3) "2.prems" grant_rows_seen [of ex row "?i # seen" gs rs]
      by (cases "a = ?i") (auto simp: Let_def split: if_splits)
  next
    case (4 rs')
    then show ?thesis using "2.IH"(4) "2.prems" grant_rows_seen [OF 4(5)]
      by (cases "a = ?i") (auto simp: Let_def split: if_splits)
  qed
qed simp

lemma control_access_grants:
  "HasApplicationGrants (d\<lparr> db_Organizations := control_access org now (db_Organizations d) \<rparr>) org
   \<longleftrightarrow> org \<in> org_ID ` set (db_Organizations d)"
proof (cases "index_by org_ID org (db_Organizations d)")
  case None
  then have "lookup_by org_ID org (db_Organizations d) = None" "org \<notin> org_ID ` set (db_Organizations d)" by simp_all
  then show ?thesis by (simp add: HasApplicationGrants_def control_access_def None del: index_by_None lookup_by_None)
next
  case (Some n)
  then show ?thesis using index_by_Some [OF Some] nth_mem [of n "db_Organizations d"]
    by (auto simp: HasApplicationGrants_def control_access_def
        lookup_by_update [OF Some, of "(db_Organizations d ! n)\<lparr> org_ApplicationAccessControlled := True, org_UpdatedAt := now \<rparr>"])
qed

lemma UpdateMember_Inr:
  assumes "UpdateMember org i upd grants ev e d = (Inr v, d')"
  obtains n rs where "find_index_of (\<lambda>u. usr_ID u = i \<and> usr_OrganizationID u = org) (db_Users d) = Some n"
    "upd (db_Users d ! n) = (None, v)"
    "grant_rows (app_exists d org) (grant_row org i (aud_ActorID ev) (env_now e)) [] grants = Some rs"
    "d' = append_audit e (d\<lparr> db_ApplicationGrants :=
            filter (\<lambda>g. grant_OrganizationID g \<noteq> org \<or> grant_UserID g \<noteq> i) (db_ApplicationGrants d) @ rs,
          db_Organizations := control_access org (env_now e) (db_Organizations d),
          db_Users := (db_Users d)[n := v] \<rparr>) ev"
  using assms
  by (auto simp: UpdateMember_def save_return_def save_locked_def
      split: option.splits prod.splits save.splits)

lemma grant_rows_owner: "grant_rows ex (grant_row org u by now) seen gs = Some rs \<Longrightarrow> r \<in> set rs \<Longrightarrow>
   grant_OrganizationID r = org \<and> grant_UserID r = u"
proof (induction ex "grant_row org u by now" seen gs arbitrary: rs rule: grant_rows.induct)
  case (2 ex seen g gs)
  then show ?case by (fastforce simp: Let_def grant_row_def split: if_splits)
qed simp

lemma HasApplicationGrants_cong:
  "db_Organizations d = db_Organizations d' \<Longrightarrow> HasApplicationGrants d org = HasApplicationGrants d' org"
  by (simp add: HasApplicationGrants_def)

lemma UpdateMember_grants:
  assumes "UpdateMember org i upd grants ev e d = (Inr v, d')"
  shows "a \<noteq> [] \<Longrightarrow> (\<exists>g\<in>set (ApplicationGrantsByUser d' org i). grant_ApplicationID g = a \<and> grant_CanSubmit g) \<longleftrightarrow>
      (\<exists>g. List.find (\<lambda>g. trim_space (gin_ApplicationID g) = a) grants = Some g \<and> gin_CanSubmit g)"
    and "a \<noteq> [] \<Longrightarrow> (\<exists>g\<in>set (ApplicationGrantsByUser d' org i). grant_ApplicationID g = a \<and> grant_CanReview g) \<longleftrightarrow>
      (\<exists>g. List.find (\<lambda>g. trim_space (gin_ApplicationID g) = a) grants = Some g \<and> gin_CanReview g)"
    and "\<forall>g\<in>set (ApplicationGrantsByUser d' org i). app_exists d org (grant_ApplicationID g)"
    and "distinct (map grant_ApplicationID (ApplicationGrantsByUser d' org i))"
    and "(org', u') \<noteq> (org, i) \<Longrightarrow> ApplicationGrantsByUser d' org' u' = ApplicationGrantsByUser d org' u'"
    and "org \<in> org_ID ` set (db_Organizations d) \<Longrightarrow> HasApplicationGrants d' org"
proof -
  let ?row = "grant_row org i (aud_ActorID ev) (env_now e)"
  obtain n rs where rs: "grant_rows (app_exists d org) ?row [] grants = Some rs"
    and d': "d' = append_audit e (d\<lparr> db_ApplicationGrants :=
            filter (\<lambda>g. grant_OrganizationID g \<noteq> org \<or> grant_UserID g \<noteq> i) (db_ApplicationGrants d) @ rs,
          db_Organizations := control_access org (env_now e) (db_Organizations d),
          db_Users := (db_Users d)[n := v] \<rparr>) ev"
    using assms by (rule UpdateMember_Inr)
  have own: "filter (\<lambda>g. grant_OrganizationID g = org \<and> grant_UserID g = i) rs = rs"
    using grant_rows_owner [OF rs] by (simp add: filter_id_conv)
  have mine: "ApplicationGrantsByUser d' org i = rs"
    by (simp add: ApplicationGrantsByUser_def d' store_frame own filter_empty_conv)
  have row: "grant_ApplicationID (?row g) = trim_space (gin_ApplicationID g)"
    "grant_CanSubmit (?row g) = gin_CanSubmit g" "grant_CanReview (?row g) = gin_CanReview g" for g
    by (simp_all add: grant_row_def)
  show "a \<noteq> [] \<Longrightarrow> (\<exists>g\<in>set (ApplicationGrantsByUser d' org i). grant_ApplicationID g = a \<and> grant_CanSubmit g) \<longleftrightarrow>
      (\<exists>g. List.find (\<lambda>g. trim_space (gin_ApplicationID g) = a) grants = Some g \<and> gin_CanSubmit g)"
    using grant_rows_spec [OF rs row(1), of a grant_CanSubmit] by (auto simp: mine row)
  show "a \<noteq> [] \<Longrightarrow> (\<exists>g\<in>set (ApplicationGrantsByUser d' org i). grant_ApplicationID g = a \<and> grant_CanReview g) \<longleftrightarrow>
      (\<exists>g. List.find (\<lambda>g. trim_space (gin_ApplicationID g) = a) grants = Some g \<and> gin_CanReview g)"
    using grant_rows_spec [OF rs row(1), of a grant_CanReview] by (auto simp: mine row)
  show "\<forall>g\<in>set (ApplicationGrantsByUser d' org i). app_exists d org (grant_ApplicationID g)"
    using grant_rows_seen [OF rs row(1)] by (simp add: mine)
  show "distinct (map grant_ApplicationID (ApplicationGrantsByUser d' org i))"
    using grant_rows_distinct [OF rs row(1)] by (simp add: mine)
  show "ApplicationGrantsByUser d' org' u' = ApplicationGrantsByUser d org' u'" if "(org', u') \<noteq> (org, i)"
  proof -
    have "filter (\<lambda>g. grant_OrganizationID g = org' \<and> grant_UserID g = u') rs = []"
      using grant_rows_owner [OF rs] that by (auto simp: filter_empty_conv)
    moreover have "(grant_OrganizationID g = org' \<and> grant_UserID g = u') \<and> (grant_OrganizationID g \<noteq> org \<or> grant_UserID g \<noteq> i)
        \<longleftrightarrow> grant_OrganizationID g = org' \<and> grant_UserID g = u'" for g :: application_grant
      using that by auto
    ultimately show ?thesis by (simp add: ApplicationGrantsByUser_def d' store_frame conj_commute)
  qed
  show "HasApplicationGrants d' org" if "org \<in> org_ID ` set (db_Organizations d)"
    using control_access_grants [of org "env_now e" d] that
    by (simp add: d' store_frame HasApplicationGrants_def)
qed

text \<open>A successful update of a member replaces exactly his grants: he may submit (or review) the changes
  of an application afterwards if and only if the first entry for that application in the request says so;
  every application granted exists in his enterprise; the grants of everybody else are unchanged; and the
  enterprise is under application access control from then on.\<close>

lemma UpdateMember_replaces_grants:
  assumes "UpdateMember org i upd grants ev e d = (Inr v, d')"
  shows "(\<forall>a. a \<noteq> [] \<longrightarrow>
      ((\<exists>g\<in>set (ApplicationGrantsByUser d' org i). grant_ApplicationID g = a \<and> grant_CanSubmit g) \<longleftrightarrow>
       (\<exists>g. List.find (\<lambda>g. trim_space (gin_ApplicationID g) = a) grants = Some g \<and> gin_CanSubmit g))
      \<and> ((\<exists>g\<in>set (ApplicationGrantsByUser d' org i). grant_ApplicationID g = a \<and> grant_CanReview g) \<longleftrightarrow>
       (\<exists>g. List.find (\<lambda>g. trim_space (gin_ApplicationID g) = a) grants = Some g \<and> gin_CanReview g)))
    \<and> (\<forall>g\<in>set (ApplicationGrantsByUser d' org i). app_exists d org (grant_ApplicationID g))
    \<and> (\<forall>org' u'. (org', u') \<noteq> (org, i) \<longrightarrow> ApplicationGrantsByUser d' org' u' = ApplicationGrantsByUser d org' u')
    \<and> (org \<in> org_ID ` set (db_Organizations d) \<longrightarrow> HasApplicationGrants d' org)"
  using UpdateMember_grants [OF assms] by blast

lemma sso_role_known: "sso_role r s \<in> {RoleDeveloper, RoleReviewer, RoleOwner}"
  by (auto simp: sso_role_def Let_def)

lemma update_existing_Inr:
  "update_existing identity ev e n k d = (Inr u, d') \<Longrightarrow> env_save e = Saved \<and> \<not> sso_refused identity (db_Users d ! n) (db_Credentials d ! k)
    \<and> u = sso_user identity (env_now e) (db_Users d ! n) \<and> db_Users d' = (db_Users d)[n := u]"
  by (auto simp: update_existing_def Let_def save_return_def save_locked_def store_frame
      split: if_splits option.splits prod.splits save.splits)


text \<open>A sign-on by a linked identity whose address changed at the identity provider to that of another
  member is accepted, and gives two members the same address.\<close>

lemma UpsertSSOUser_duplicates_email:
  assumes "env_save e = Saved" and "find_index_of (sso_match identity (db_Users d)) (db_Credentials d) = Some k"
    and "index_by usr_ID (cred_UserID (db_Credentials d ! k)) (db_Users d) = Some n"
    and "\<not> sso_refused identity (db_Users d ! n) (db_Credentials d ! k)"
    and "m < length (db_Users d)" "m \<noteq> n" "usr_Email identity \<noteq> []" "email_key (db_Users d ! m) = email_key identity"
  shows "(\<exists>u. fst (UpsertSSOUser identity ev e d) = Inr u)
    \<and> \<not> distinct (map email_key (db_Users (snd (UpsertSSOUser identity ev e d))))"
proof -
  have n: "n < length (db_Users d)" using index_by_Some [OF assms(3)] by blast
  have us: "db_Users (snd (UpsertSSOUser identity ev e d)) = (db_Users d)[n := sso_user identity (env_now e) (db_Users d ! n)]"
    and ok: "\<exists>u. fst (UpsertSSOUser identity ev e d) = Inr u"
    using assms(1-4) by (simp_all add: UpsertSSOUser_def update_existing_def Let_def store_frame)
  have "map email_key ((db_Users d)[n := sso_user identity (env_now e) (db_Users d ! n)]) ! m
      = map email_key ((db_Users d)[n := sso_user identity (env_now e) (db_Users d ! n)]) ! n"
    using assms(5-8) n by (simp add: sso_user_def email_key_def)
  then have "\<not> distinct (map email_key ((db_Users d)[n := sso_user identity (env_now e) (db_Users d ! n)]))"
    using assms(5,6) n nth_eq_iff_index_eq [of "map email_key ((db_Users d)[n := sso_user identity (env_now e) (db_Users d ! n)])" m n]
    by auto
  with us ok show ?thesis by simp
qed

section \<open>Sample enterprise\<close>

definition admin_ann :: user where
  "admin_ann = zero_user\<lparr> usr_ID := ''usr_ann'', usr_OrganizationID := ''org_1'', usr_Email := ''ann@acme.io'',
     usr_Role := RoleOwner, usr_EnterpriseAdmin := True, usr_Active := True, usr_IdentityProvider := ''oidc'' \<rparr>"

definition dev_bob :: user where
  "dev_bob = zero_user\<lparr> usr_ID := ''usr_bob'', usr_OrganizationID := ''org_1'', usr_Email := ''bob@acme.io'',
     usr_Role := RoleDeveloper, usr_Active := True \<rparr>"

definition acme :: organization where
  "acme = zero_organization\<lparr> org_ID := ''org_1'', org_Slug := ''acme'', org_EmailDomains := [''acme.io''] \<rparr>"

definition bob_invite :: organization_invite where
  "bob_invite = zero_organization_invite\<lparr> inv_ID := ''inv_1'', inv_OrganizationID := ''org_1'',
     inv_Email := ''bob@acme.io'', inv_Role := RoleDeveloper, inv_Status := InvitePending, inv_ExpiresAt := 100 \<rparr>"

definition members_db :: db where
  "members_db = empty_db\<lparr> db_Organizations := [acme], db_Users := [admin_ann], db_Invites := [bob_invite],
     db_Credentials := [\<lparr> cred_UserID = ''usr_ann'', cred_PasswordSalt = [], cred_PasswordHash = [],
       cred_IdentityProvider = ''oidc'', cred_Subject = ''sub_ann'' \<rparr>],
     db_Applications := [zero_application\<lparr> app_OrganizationID := ''org_1'', app_ID := ''app_1'' \<rparr>] \<rparr>"

lemmas members_samples = members_db_def admin_ann_def dev_bob_def acme_def bob_invite_def zero_defs empty_db_def

lemma members_db_ok: "members_ok members_db"
  by (intro members_okI) (simp_all add: members_samples domains_exclusive_def)

lemma bob_joins: "\<exists>d1. AcceptInvite ''inv_1'' dev_bob zero_user_credential sample_event (saved_env 10) members_db = (Inr dev_bob, d1)"
  by (simp add: AcceptInvite_def members_samples email_taken_def equal_fold_def Let_def saved_env_def save_return_def
      save_locked_def to_lower_def lower_char_def)

lemma invitation_accepted_once_witness:
  "\<exists>d1 er. AcceptInvite ''inv_1'' dev_bob zero_user_credential sample_event (saved_env 10) members_db = (Inr dev_bob, d1)
     \<and> AcceptInvite ''inv_1'' (dev_bob\<lparr> usr_ID := ''usr_eve'' \<rparr>) zero_user_credential sample_event (saved_env 20) d1 = (Inl er, d1)"
proof -
  obtain d1 where b: "AcceptInvite ''inv_1'' dev_bob zero_user_credential sample_event (saved_env 10) members_db = (Inr dev_bob, d1)"
    using bob_joins by blast
  have "usr_ID dev_bob \<notin> usr_ID ` set (db_Users members_db)" by (simp add: members_samples)
  then show ?thesis
    using invitation_accepted_once [OF b members_db_ok _ member_refl, of "dev_bob\<lparr> usr_ID := ''usr_eve'' \<rparr>"
        zero_user_credential sample_event "saved_env 20"] b by blast
qed

theorem member_run_keeps_emails_unique_witness:
  "distinct (map email_key (db_Users (snd (AcceptInvite ''inv_1'' dev_bob zero_user_credential sample_event (saved_env 10) members_db))))"
proof -
  have "member_run members_db (snd (AcceptInvite ''inv_1'' dev_bob zero_user_credential sample_event (saved_env 10) members_db))"
    by (rule member_step [OF member_refl mt_accept]) (simp_all add: members_samples)
  from member_run_keeps_emails_unique [OF this members_db_ok] show ?thesis by simp
qed

lemma UpdateMember_replaces_grants_witness:
  "\<exists>d' v. UpdateMember ''org_1'' ''usr_ann'' (\<lambda>u. (None, u)) [\<lparr> gin_ApplicationID = ''app_1'', gin_CanSubmit = True, gin_CanReview = False \<rparr>]
       sample_event (saved_env 10) members_db = (Inr v, d')
     \<and> (\<exists>g\<in>set (ApplicationGrantsByUser d' ''org_1'' ''usr_ann''). grant_ApplicationID g = ''app_1'' \<and> grant_CanSubmit g)
     \<and> HasApplicationGrants d' ''org_1''"
proof -
  let ?g = "\<lparr> gin_ApplicationID = ''app_1'', gin_CanSubmit = True, gin_CanReview = False \<rparr>"
  have t: "trim_space ''app_1'' = ''app_1''" by code_simp
  obtain v d' where u: "UpdateMember ''org_1'' ''usr_ann'' (\<lambda>u. (None, u)) [?g] sample_event (saved_env 10) members_db = (Inr v, d')"
    by (simp add: UpdateMember_def members_samples app_exists_def t saved_env_def save_return_def save_locked_def)
  have "''org_1'' \<in> org_ID ` set (db_Organizations members_db)" by (simp add: members_samples)
  moreover have "List.find (\<lambda>g. trim_space (gin_ApplicationID g) = ''app_1'') [?g] = Some ?g" by (simp add: t)
  ultimately show ?thesis using UpdateMember_replaces_grants [OF u] u by fastforce
qed


lemma UpsertSSOUser_duplicates_email_witness:
  defines "d \<equiv> members_db\<lparr> db_Users := [admin_ann, dev_bob] \<rparr>"
    and "identity \<equiv> admin_ann\<lparr> usr_Subject := ''sub_ann'', usr_Email := ''BOB@acme.io'' \<rparr>"
  shows "\<not> distinct (map email_key (db_Users (snd (UpsertSSOUser identity sample_event (saved_env 10) d))))"
  by (rule conjunct2 [OF UpsertSSOUser_duplicates_email [where k = 0 and n = 0 and m = 1]])
    (simp_all add: d_def identity_def members_samples sso_match_def index_by_def sso_refused_def email_key_def
      to_lower_def lower_char_def, code_simp)

end
