(* ===== verification/ServiceTexts.thy ===== *)
theory ServiceTexts
  imports Main
begin

text \<open>
  The non-ASCII string constants of the service layer that a modelled definition compares or stores, as
  their UTF-8 bytes.
\<close>

definition txt_app_created :: string where
  "txt_app_created = [
    CHR 0xE7, CHR 0xBA, CHR 0xB3, CHR 0xE7, CHR 0xAE, CHR 0xA1, CHR 0xE5, CHR 0xBA, CHR 0x94,
    CHR 0xE7, CHR 0x94, CHR 0xA8, CHR 0x20]"

definition txt_app_updated :: string where
  "txt_app_updated = [
    CHR 0xE6, CHR 0x9B, CHR 0xB4, CHR 0xE6, CHR 0x96, CHR 0xB0, CHR 0xE7, CHR 0xBA, CHR 0xB3,
    CHR 0xE7, CHR 0xAE, CHR 0xA1, CHR 0xE5, CHR 0xBA, CHR 0x94, CHR 0xE7, CHR 0x94, CHR 0xA8,
    CHR 0x20]"

definition txt_kind_backend :: string where
  "txt_kind_backend = [
    CHR 0xE5, CHR 0x90, CHR 0x8E, CHR 0xE7, CHR 0xAB, CHR 0xAF, CHR 0xE6, CHR 0x9C, CHR 0x8D,
    CHR 0xE5, CHR 0x8A, CHR 0xA1]"

definition txt_tier_important :: string where
  "txt_tier_important = [
    CHR 0xE9, CHR 0x87, CHR 0x8D, CHR 0xE8, CHR 0xA6, CHR 0x81]"

definition txt_lifecycle_production :: string where
  "txt_lifecycle_production = [
    CHR 0xE7, CHR 0x94, CHR 0x9F, CHR 0xE4, CHR 0xBA, CHR 0xA7, CHR 0xE8, CHR 0xBF, CHR 0x90,
    CHR 0xE8, CHR 0xA1, CHR 0x8C]"

definition txt_env_readonly :: string where
  "txt_env_readonly = [
    CHR 0xE7, CHR 0x94, CHR 0x9F, CHR 0xE4, CHR 0xBA, CHR 0xA7, CHR 0x20, CHR 0x2F, CHR 0x20,
    CHR 0xE5, CHR 0x8F, CHR 0xAA, CHR 0xE8, CHR 0xAF, CHR 0xBB]"

end
