(* ===== verification/Access.thy ===== *)
theory Access
  imports Members ServiceTexts
begin

text \<open>
  The parts of \<^verbatim>\<open>internal/service/service.go\<close> every handler uses: who may act (\<open>activeActor\<close>,
  \<open>canUseApplication\<close>), the normalisation of request fields, and the audit events and timeline entries a
  handler writes. A handler is a function of its arguments, of what it reads from outside (the clock,
  random identifiers, and the environment of each of its calls of the store, in order) and of the state
  of the store.
\<close>

section \<open>The environment of a handler\<close>

record senv =
  se_now :: gotime
  se_rand :: "nat \<Rightarrow> string"
  se_call :: "nat \<Rightarrow> env"

definition NewID :: "senv \<Rightarrow> string \<Rightarrow> nat \<Rightarrow> string" where
  "NewID h pre n = pre @ se_rand h n"

definition calm :: "gotime \<Rightarrow> senv" where
  "calm now = \<lparr> se_now = now, se_rand = nat_str, se_call = (\<lambda>_. saved_env now) \<rparr>"

lemma calm_call [simp]: "se_call (calm now) k = saved_env now" "se_now (calm now) = now"
  by (simp_all add: calm_def)

section \<open>Request fields\<close>

fun norm_items :: "string list \<Rightarrow> string list \<Rightarrow> string list" where
  "norm_items seen [] = []"
| "norm_items seen (item # items) =
     (let value = trim_space item in
      if value = [] \<or> value \<in> set seen then norm_items seen items
      else value # norm_items (value # seen) items)"

definition normalizeStringList :: "string list \<Rightarrow> string list" where
  "normalizeStringList items = norm_items [] items"

definition defaultString :: "string \<Rightarrow> string \<Rightarrow> string" where
  "defaultString value fallback = (if trim_space value \<noteq> [] then trim_space value else fallback)"

definition validRuneLength :: "string \<Rightarrow> nat \<Rightarrow> nat \<Rightarrow> bool" where
  "validRuneLength value least most \<longleftrightarrow> least \<le> rune_count value \<and> rune_count value \<le> most"

lemma norm_items_set: "set (norm_items seen items) = trim_space ` set items - insert [] (set seen)"
  by (induction seen items rule: norm_items.induct) (auto simp: Let_def)

lemma norm_items_distinct: "distinct (norm_items seen items)"
  by (induction seen items rule: norm_items.induct) (auto simp: Let_def norm_items_set)

lemma norm_items_id:
  "distinct items \<Longrightarrow> list_all (\<lambda>x. trimmed x \<and> x \<noteq> []) items \<Longrightarrow> set seen \<inter> set items = {} \<Longrightarrow> norm_items seen items = items"
  by (induction seen items rule: norm_items.induct) (auto simp: Let_def trimmed_iff)

lemma normalizeStringList_set: "set (normalizeStringList items) = trim_space ` set items - {[]}"
  by (simp add: normalizeStringList_def norm_items_set)

lemma normalizeStringList_distinct [simp]: "distinct (normalizeStringList items)"
  by (simp add: normalizeStringList_def norm_items_distinct)

lemma normalizeStringList_idem [simp]: "normalizeStringList (normalizeStringList items) = normalizeStringList items"
  by (subst normalizeStringList_def, rule norm_items_id) (auto simp: list_all_iff normalizeStringList_set)

section \<open>Actors\<close>

definition activeActor :: "db \<Rightarrow> string \<Rightarrow> err + user" where
  "activeActor d i =
     (case User d i of Inl _ \<Rightarrow> Inl ErrForbidden | Inr u \<Rightarrow> if usr_Active u then Inr u else Inl ErrForbidden)"

definition grant_allows :: "string \<Rightarrow> application_grant \<Rightarrow> bool" where
  "grant_allows capability g =
     (if capability = ''submit'' then grant_CanSubmit g
      else if capability = ''review'' then grant_CanReview g
      else grant_CanSubmit g \<or> grant_CanReview g)"

definition canUseApplication :: "db \<Rightarrow> user \<Rightarrow> string \<Rightarrow> string \<Rightarrow> bool" where
  "canUseApplication d actor app capability =
     (if usr_EnterpriseAdmin actor \<or> usr_Role actor = RoleOwner then True
      else if \<not> HasApplicationGrants d (usr_OrganizationID actor) then True
      else case List.find (\<lambda>g. grant_ApplicationID g = app)
                  (ApplicationGrantsByUser d (usr_OrganizationID actor) (usr_ID actor)) of
             None \<Rightarrow> False | Some g \<Rightarrow> grant_allows capability g)"

lemma activeActor_Inr:
  "activeActor d i = Inr u \<longleftrightarrow> lookup_by usr_ID i (db_Users d) = Some u \<and> usr_Active u"
  by (cases "lookup_by usr_ID i (db_Users d)")
    (auto simp: activeActor_def User_def find_or_not_found_def simp del: lookup_by_None)

lemma activeActor_ID: "activeActor d i = Inr u \<Longrightarrow> usr_ID u = i \<and> u \<in> set (db_Users d) \<and> usr_Active u"
  by (auto simp: activeActor_Inr dest: lookup_by_Some)

lemma canUse_cong:
  "db_Organizations d = db_Organizations d' \<Longrightarrow> db_ApplicationGrants d = db_ApplicationGrants d' \<Longrightarrow>
   canUseApplication d actor app c = canUseApplication d' actor app c"
  by (simp add: canUseApplication_def HasApplicationGrants_def ApplicationGrantsByUser_def)

section \<open>Audit events and timeline entries\<close>

definition timeline :: "senv \<Rightarrow> nat \<Rightarrow> change_status \<Rightarrow> string \<Rightarrow> string \<Rightarrow> string \<Rightarrow> timeline_entry" where
  "timeline h n status title detail actor =
     \<lparr> tl_ID = NewID h ''tl_'' n, tl_Status = status, tl_Title = title, tl_Detail = detail, tl_Actor = actor,
       tl_CreatedAt = se_now h \<rparr>"

definition audit :: "senv \<Rightarrow> nat \<Rightarrow> user \<Rightarrow> string \<Rightarrow> string \<Rightarrow> string \<Rightarrow> audit_event" where
  "audit h n actor changeID action detail =
     (let i = to_lower (usr_ID actor);
          (actorType, authMethod) =
            (if has_prefix i ''ci:'' then (''CI'', ''BEARER_PASSPORT'')
             else if has_prefix i ''system'' \<or> has_prefix i ''integration'' then (''SYSTEM'', ''INTERNAL'')
             else (''USER'', ''SESSION''))
      in zero_audit_event
           \<lparr> aud_OrganizationID := usr_OrganizationID actor, aud_ID := NewID h ''audit_'' n, aud_ChangeID := changeID,
             aud_ActorID := usr_ID actor, aud_ActorName := usr_Name actor, aud_ActorType := actorType,
             aud_AuthMethod := authMethod, aud_Action := action, aud_ResourceType := ''CHANGE'',
             aud_ResourceID := changeID, aud_Result := ''SUCCESS'', aud_Detail := detail, aud_CreatedAt := se_now h \<rparr>)"

definition auditChangeVersion :: "audit_event \<Rightarrow> change_request \<Rightarrow> audit_event" where
  "auditChangeVersion ev before =
     ev\<lparr> aud_ResourceVersionBefore := chg_Version before, aud_ResourceVersionAfter := chg_Version before + 1,
         aud_RequestDigest := chg_ArtifactSHA256 before \<rparr>"

definition auditPassport :: "audit_event \<Rightarrow> string \<Rightarrow> audit_event" where
  "auditPassport ev i = ev\<lparr> aud_PassportID := i \<rparr>"

definition auditExperiment :: "audit_event \<Rightarrow> string \<Rightarrow> string \<Rightarrow> audit_event" where
  "auditExperiment ev related attempt = ev\<lparr> aud_RelatedEventID := related, aud_AttemptID := attempt \<rparr>"

lemma audit_fields [simp]:
  "aud_OrganizationID (audit h n actor c a t) = usr_OrganizationID actor"
  "aud_ChangeID (audit h n actor c a t) = c" "aud_ActorID (audit h n actor c a t) = usr_ID actor"
  "aud_Action (audit h n actor c a t) = a"
  by (simp_all add: audit_def Let_def)

lemma audit_trimmed [simp]:
  "org_trimmed (audit h n actor c a t) \<longleftrightarrow> trim_space (usr_OrganizationID actor) = usr_OrganizationID actor"
  "org_trimmed (auditChangeVersion ev before) \<longleftrightarrow> org_trimmed ev"
  "org_trimmed (auditPassport ev i) \<longleftrightarrow> org_trimmed ev"
  "org_trimmed (auditExperiment ev r at') \<longleftrightarrow> org_trimmed ev"
  by (simp_all add: org_trimmed_def auditChangeVersion_def auditPassport_def auditExperiment_def)

section \<open>What a grant is worth\<close>

lemma find_distinct: "distinct (map f xs) \<Longrightarrow> List.find (\<lambda>x. f x = a) xs = Some y \<longleftrightarrow> y \<in> set xs \<and> f y = a"
  using lookup_by_distinct [of f xs y] lookup_by_Some [of f a xs y] by (auto simp: lookup_by_def)

lemma find_allows:
  assumes "distinct (map f xs)"
  shows "(case List.find (\<lambda>x. f x = a) xs of None \<Rightarrow> False | Some y \<Rightarrow> P y) \<longleftrightarrow> (\<exists>y\<in>set xs. f y = a \<and> P y)"
proof (cases "List.find (\<lambda>x. f x = a) xs")
  case None
  then have "\<forall>x\<in>set xs. f x \<noteq> a" by (auto simp: find_None_iff)
  with None show ?thesis by simp
next
  case (Some y)
  have "y \<in> set xs" "f y = a" using Some find_distinct [OF assms, of a y] by blast+
  moreover have "z = y" if "z \<in> set xs" "f z = a" for z
    using that calculation distinct_map_inj [OF assms, of z y] by simp
  ultimately show ?thesis unfolding Some option.case by blast
qed

text \<open>An administrator's update of a member decides what the member may do: afterwards, an ordinary
  member of an enterprise may submit (or review) the changes of an application if and only if the first
  entry for it in the update said so; the rights of every other member are as before, up to the enterprise
  being under access control.\<close>

lemma UpdateMember_decides_access:
  assumes upd: "UpdateMember org i upd grants ev e d = (Inr v, d')" and org: "org \<in> org_ID ` set (db_Organizations d)"
    and u: "usr_ID u = i" "usr_OrganizationID u = org" "\<not> usr_EnterpriseAdmin u" "usr_Role u \<noteq> RoleOwner" and "a \<noteq> []"
  shows "(canUseApplication d' u a ''submit'' \<longleftrightarrow>
       (\<exists>g. List.find (\<lambda>g. trim_space (gin_ApplicationID g) = a) grants = Some g \<and> gin_CanSubmit g))
    \<and> (canUseApplication d' u a ''review'' \<longleftrightarrow>
       (\<exists>g. List.find (\<lambda>g. trim_space (gin_ApplicationID g) = a) grants = Some g \<and> gin_CanReview g))"
proof -
  note m = UpdateMember_grants [OF upd]
  have "canUseApplication d' u a c \<longleftrightarrow>
      (\<exists>g\<in>set (ApplicationGrantsByUser d' org i). grant_ApplicationID g = a \<and> grant_allows c g)" for c
    using u m(6) [OF org] find_allows [OF m(4), where a = a and P = "grant_allows c"] by (simp add: canUseApplication_def)
  then show ?thesis using m(1,2) [OF \<open>a \<noteq> []\<close>] by (simp add: grant_allows_def)
qed

lemma UpdateMember_decides_access_witness:
  defines "g \<equiv> \<lparr> gin_ApplicationID = ''app_1'', gin_CanSubmit = True, gin_CanReview = False \<rparr>"
    and "d \<equiv> members_db\<lparr> db_Users := [admin_ann, dev_bob] \<rparr>"
  shows "\<exists>v d'. UpdateMember ''org_1'' ''usr_bob'' (\<lambda>u. (None, u)) [g] sample_event (saved_env 10) d = (Inr v, d')
    \<and> canUseApplication d' dev_bob ''app_1'' ''submit'' \<and> \<not> canUseApplication d' dev_bob ''app_1'' ''review''"
proof -
  have t: "trim_space ''app_1'' = ''app_1''" by code_simp
  obtain v d' where u: "UpdateMember ''org_1'' ''usr_bob'' (\<lambda>u. (None, u)) [g] sample_event (saved_env 10) d = (Inr v, d')"
    by (simp add: UpdateMember_def d_def g_def members_samples app_exists_def t saved_env_def save_return_def save_locked_def)
  have "''org_1'' \<in> org_ID ` set (db_Organizations d)" by (simp add: d_def members_samples)
  from UpdateMember_decides_access [OF u this, of dev_bob "''app_1''"] u show ?thesis
    by (simp add: dev_bob_def zero_user_def g_def t RoleOwner_def RoleDeveloper_def)
qed

end
