(* ===== verification/Dependencies.thy ===== *)
theory Dependencies
  imports Access
begin

text \<open>
  The application catalogue of \<^verbatim>\<open>internal/service/service.go\<close>: \<open>CreateApplication\<close>, \<open>UpdateApplication\<close>
  and the check of the declared dependencies, whose depth-first search for a cycle keeps a map from
  service to colour (0 new, 1 on the path, 2 finished) that the recursion mutates. The search is
  modelled with fuel for its depth; \<open>visit_total\<close> shows that the number of services suffices, and
  \<open>hasCycle_iff\<close> that it answers exactly whether a cycle can be reached. The properties lift this to the
  catalogue: its dependency graph is closed and acyclic in every run of the handlers.
\<close>

section \<open>The search for a cycle\<close>

type_synonym graph = "string \<Rightarrow> string list"
type_synonym colours = "string \<Rightarrow> nat"

fun visit :: "nat \<Rightarrow> graph \<Rightarrow> string \<Rightarrow> colours \<Rightarrow> (bool \<times> colours) option"
and visit_all :: "nat \<Rightarrow> graph \<Rightarrow> string list \<Rightarrow> colours \<Rightarrow> (bool \<times> colours) option" where
  "visit 0 g n st = None"
| "visit (Suc f) g n st =
     (if st n = 1 then Some (True, st)
      else if st n = 2 then Some (False, st)
      else case visit_all f g (g n) (st(n := 1)) of
             None \<Rightarrow> None
           | Some (True, st') \<Rightarrow> Some (True, st')
           | Some (False, st') \<Rightarrow> Some (False, st'(n := 2)))"
| "visit_all f g [] st = Some (False, st)"
| "visit_all f g (m # ms) st =
     (case visit f g m st of
        None \<Rightarrow> None
      | Some (True, st') \<Rightarrow> Some (True, st')
      | Some (False, st') \<Rightarrow> visit_all f g ms st')"

definition edges :: "graph \<Rightarrow> (string \<times> string) set" where
  "edges g = {(x, y). y \<in> set (g x)}"

lemma edges_iff [simp]: "(x, y) \<in> edges g \<longleftrightarrow> y \<in> set (g x)"
  by (simp add: edges_def)

text \<open>The colours of a search that has found no cycle: a finished service has finished successors, and lies
  on no cycle.\<close>

definition finished_ok :: "graph \<Rightarrow> colours \<Rightarrow> bool" where
  "finished_ok g st \<longleftrightarrow> (\<forall>x. st x = 2 \<longrightarrow> (\<forall>y\<in>set (g x). st y = 2) \<and> (x, x) \<notin> (edges g)\<^sup>+)"

lemma finished_closed: "finished_ok g st \<Longrightarrow> (x, y) \<in> (edges g)\<^sup>* \<Longrightarrow> st x = 2 \<Longrightarrow> st y = 2"
  by (rotate_tac 1, induction rule: rtrancl_induct) (auto simp: finished_ok_def)

text \<open>A search that finds no cycle leaves the path as it was and only adds finished services, among them the
  ones it was started on.\<close>

definition search_next :: "colours \<Rightarrow> colours \<Rightarrow> bool" where
  "search_next st st' \<longleftrightarrow> (\<forall>x. (st' x = 1 \<longleftrightarrow> st x = 1) \<and> (st x = 2 \<longrightarrow> st' x = 2))"

lemma search_next_refl [simp]: "search_next st st"
  by (simp add: search_next_def)

lemma search_next_trans: "search_next st st' \<Longrightarrow> search_next st' st'' \<Longrightarrow> search_next st st''"
  by (simp add: search_next_def)

lemma visit_False:
  "visit f g n st = Some (False, st') \<Longrightarrow> finished_ok g st \<Longrightarrow>
     finished_ok g st' \<and> search_next st st' \<and> st' n = 2"
  "visit_all f g ms st = Some (False, st') \<Longrightarrow> finished_ok g st \<Longrightarrow>
     finished_ok g st' \<and> search_next st st' \<and> (\<forall>m\<in>set ms. st' m = 2)"
proof (induction f g n st and f g ms st arbitrary: st' and st' rule: visit_visit_all.induct)
  case (2 f g n st)
  show ?case
  proof (cases "st n = 2")
    case True
    with 2 show ?thesis by simp
  next
    case False
    with 2(2) obtain s where n: "st n \<noteq> 1" and s: "visit_all f g (g n) (st(n := 1)) = Some (False, s)"
      and st': "st' = s(n := 2)"
      by (auto split: if_splits option.splits prod.splits bool.splits)
    have ok: "finished_ok g (st(n := 1))" using 2(3) False unfolding finished_ok_def by (auto split: if_splits)
    note IH = conjunct1 [OF 2(1) [OF n False s ok]] conjunct1 [OF conjunct2 [OF 2(1) [OF n False s ok]]]
      conjunct2 [OF conjunct2 [OF 2(1) [OF n False s ok]]]
    have sn: "s n = 1" using IH(2) by (simp add: search_next_def)
    have cyc: "(n, n) \<notin> (edges g)\<^sup>+"
    proof
      assume "(n, n) \<in> (edges g)\<^sup>+"
      then obtain m where "m \<in> set (g n)" "(m, n) \<in> (edges g)\<^sup>*" by (auto dest: tranclD)
      with IH(3) finished_closed [OF IH(1)] sn show False by force
    qed
    have "finished_ok g st'" using IH(1,3) cyc unfolding finished_ok_def st' by auto
    moreover have "search_next st st'"
      using IH(2) n False unfolding search_next_def st' by (auto split: if_splits)
    moreover have "st' n = 2" by (simp add: st')
    ultimately show ?thesis by blast
  qed
next
  case (4 f g m ms st)
  then obtain s where s: "visit f g m st = Some (False, s)" "visit_all f g ms s = Some (False, st')"
    by (auto split: option.splits prod.splits bool.splits)
  with 4(1) [OF s(1) 4(4)] have 1: "finished_ok g s" "search_next st s" "s m = 2" by auto
  with 4(2) [OF s(1) refl refl s(2)] have 2: "finished_ok g st'" "search_next s st'" "\<forall>m\<in>set ms. st' m = 2" by auto
  with 1 show ?case by (auto intro: search_next_trans simp: search_next_def)
qed simp_all

text \<open>A search that reports a cycle is on one: every service on the path reaches the current one.\<close>

definition path_to :: "graph \<Rightarrow> colours \<Rightarrow> string \<Rightarrow> bool" where
  "path_to g st n \<longleftrightarrow> (\<forall>x. st x = 1 \<longrightarrow> (x, n) \<in> (edges g)\<^sup>+)"

definition cycle_from :: "graph \<Rightarrow> string \<Rightarrow> bool" where
  "cycle_from g n \<longleftrightarrow> (\<exists>y. (n, y) \<in> (edges g)\<^sup>* \<and> (y, y) \<in> (edges g)\<^sup>+)"

lemma cycle_from_step: "m \<in> set (g n) \<Longrightarrow> cycle_from g m \<Longrightarrow> cycle_from g n"
  unfolding cycle_from_def by (metis converse_rtrancl_into_rtrancl edges_iff)

lemma visit_True:
  "visit f g n st = Some (True, st') \<Longrightarrow> finished_ok g st \<Longrightarrow> path_to g st n \<Longrightarrow> cycle_from g n"
  "visit_all f g ms st = Some (True, st') \<Longrightarrow> finished_ok g st \<Longrightarrow> \<forall>m\<in>set ms. path_to g st m \<Longrightarrow>
     \<exists>m\<in>set ms. cycle_from g m"
proof (induction f g n st and f g ms st arbitrary: st' and st' rule: visit_visit_all.induct)
  case (2 f g n st)
  show ?case
  proof (cases "st n = 1")
    case True
    with 2(4) have "(n, n) \<in> (edges g)\<^sup>+" by (simp add: path_to_def)
    then show ?thesis by (auto simp: cycle_from_def)
  next
    case False
    with 2(2) have n: "st n \<noteq> 2" and s: "visit_all f g (g n) (st(n := 1)) = Some (True, st')"
      by (auto split: if_splits option.splits prod.splits bool.splits)
    have "finished_ok g (st(n := 1))" using 2(3) n unfolding finished_ok_def by (auto split: if_splits)
    moreover have "\<forall>m\<in>set (g n). path_to g (st(n := 1)) m"
      using 2(4) by (auto simp: path_to_def intro: trancl_into_trancl)
    ultimately show ?thesis using 2(1) False n s cycle_from_step by blast
  qed
next
  case (4 f g m ms st)
  show ?case
  proof (cases "visit f g m st")
    case (Some r)
    then obtain c s where r: "visit f g m st = Some (c, s)" by (cases "the (visit f g m st)") auto
    show ?thesis
    proof (cases c)
      case True
      with r 4 show ?thesis by auto
    next
      case False
      with r 4(3) have s: "visit_all f g ms s = Some (True, st')" by simp
      from visit_False(1) [of f g m st s] r False 4(4) have "finished_ok g s" "search_next st s" by auto
      moreover from this 4(5) have "\<forall>m\<in>set ms. path_to g s m" by (simp add: path_to_def search_next_def)
      ultimately show ?thesis using 4(2) [OF r, of c s st'] s False r by auto
    qed
  qed (use 4 in simp)
qed simp_all

text \<open>Enough fuel: the depth of the search is bounded by the number of services not yet on the path.\<close>

definition new_in :: "string set \<Rightarrow> colours \<Rightarrow> nat" where
  "new_in U st = card {x\<in>U. st x \<noteq> 1 \<and> st x \<noteq> 2}"

lemma new_in_mono: "finite U \<Longrightarrow> search_next st st' \<Longrightarrow> new_in U st' \<le> new_in U st"
  unfolding new_in_def search_next_def by (rule card_mono) auto

lemma new_in_visit: "finite U \<Longrightarrow> n \<in> U \<Longrightarrow> st n \<noteq> 1 \<Longrightarrow> st n \<noteq> 2 \<Longrightarrow> new_in U (st(n := 1)) < new_in U st"
  unfolding new_in_def by (rule psubset_card_mono) auto

lemma visit_total:
  "finite U \<Longrightarrow> \<forall>x\<in>U. set (g x) \<subseteq> U \<Longrightarrow> n \<in> U \<Longrightarrow> new_in U st < f \<Longrightarrow> finished_ok g st \<Longrightarrow> visit f g n st \<noteq> None"
  "finite U \<Longrightarrow> \<forall>x\<in>U. set (g x) \<subseteq> U \<Longrightarrow> set ms \<subseteq> U \<Longrightarrow> new_in U st < f \<Longrightarrow> finished_ok g st \<Longrightarrow>
     visit_all f g ms st \<noteq> None"
proof (induction f g n st and f g ms st rule: visit_visit_all.induct)
  case (2 f g n st)
  show ?case
  proof (cases "st n = 1 \<or> st n = 2")
    case False
    then have "new_in U (st(n := 1)) < f" using new_in_visit [of U n st] 2 by auto
    moreover have "finished_ok g (st(n := 1))"
      using 2(6) False unfolding finished_ok_def by (auto split: if_splits)
    ultimately have "visit_all f g (g n) (st(n := 1)) \<noteq> None" using 2(1) [of] 2(2-4) False by blast
    then show ?thesis using False by (auto split: option.splits prod.splits bool.splits)
  qed auto
next
  case (4 f g m ms st)
  then obtain c s where s: "visit f g m st = Some (c, s)" by fastforce
  show ?case
  proof (cases c)
    case False
    with visit_False(1) [of f g m st s] s 4(7) have "finished_ok g s" "search_next st s" by auto
    then have "new_in U s < f" using new_in_mono [of U st s] 4 by auto
    with \<open>finished_ok g s\<close> have "visit_all f g ms s \<noteq> None" using 4(2) [OF s refl] 4 False by auto
    then show ?thesis using s False by simp
  qed (use s in simp)
qed simp_all

definition hasCycle :: "graph \<Rightarrow> nat \<Rightarrow> string \<Rightarrow> bool option" where
  "hasCycle g bound n = map_option fst (visit (Suc bound) g n (\<lambda>_. 0))"

lemma hasCycle_iff:
  assumes "finite U" "\<forall>x\<in>U. set (g x) \<subseteq> U" "n \<in> U" "card U \<le> bound"
  shows "hasCycle g bound n = Some (cycle_from g n)"
proof -
  have ok: "finished_ok g (\<lambda>_. 0)" and path: "path_to g (\<lambda>_. 0) n" by (simp_all add: finished_ok_def path_to_def)
  have "new_in U (\<lambda>_. 0) < Suc bound" using assms(4) by (simp add: new_in_def)
  then obtain c st where r: "visit (Suc bound) g n (\<lambda>_. 0) = Some (c, st)"
    using visit_total(1) [OF assms(1-3) _ ok] by fastforce
  have "c = cycle_from g n"
  proof (cases c)
    case True
    with visit_True(1) [of "Suc bound" g n "\<lambda>_. 0" st] r ok path show ?thesis by simp
  next
    case False
    with visit_False(1) [of "Suc bound" g n "\<lambda>_. 0" st] r ok have fin: "finished_ok g st" "st n = 2" by auto
    then have "\<not> cycle_from g n"
      using finished_closed [OF fin(1)] by (auto simp: cycle_from_def finished_ok_def)
    with False show ?thesis by simp
  qed
  with r show ?thesis by (simp add: hasCycle_def)
qed

section \<open>The handlers\<close>

record save_application_input =
  sai_Name :: string
  sai_Owner :: string
  sai_Kind :: string
  sai_Runtime :: string
  sai_RepositoryURL :: string
  sai_Tier :: string
  sai_Lifecycle :: string
  sai_Database :: string
  sai_Schema :: string
  sai_Environment :: string
  sai_Dependencies :: "string list"
  sai_Tags :: "string list"
  sai_Description :: string

definition valid_application_input :: "save_application_input \<Rightarrow> bool" where
  "valid_application_input x \<longleftrightarrow>
     validRuneLength (trim_space (sai_Name x)) 1 100 \<and> validRuneLength (trim_space (sai_Database x)) 0 100
     \<and> validRuneLength (trim_space (sai_Schema x)) 0 100 \<and> validRuneLength (trim_space (sai_Owner x)) 1 100
     \<and> validRuneLength (trim_space (sai_RepositoryURL x)) 0 500 \<and> validRuneLength (trim_space (sai_Environment x)) 0 120
     \<and> validRuneLength (trim_space (sai_Description x)) 0 2000"

text \<open>The map from service to dependencies, in which a later row of the same identifier replaces an earlier
  one.\<close>

definition dep_graph :: "application list \<Rightarrow> graph" where
  "dep_graph apps n = (case lookup_by app_ID n (rev apps) of None \<Rightarrow> [] | Some a \<Rightarrow> app_Dependencies a)"

definition search_bound :: "application list \<Rightarrow> string \<Rightarrow> string list \<Rightarrow> nat" where
  "search_bound apps i deps = length (i # map app_ID apps @ concat (map app_Dependencies apps) @ deps)"

definition validateApplicationDependencies :: "db \<Rightarrow> string \<Rightarrow> string \<Rightarrow> string list \<Rightarrow> err option" where
  "validateApplicationDependencies d org i deps =
     (let apps = ApplicationsByOrganization d org in
      if list_ex (\<lambda>x. x = i \<and> i \<noteq> [] \<or> x \<notin> app_ID ` set apps) deps then Some ErrValidation
      else if i = [] then None
      else case hasCycle ((dep_graph apps)(i := deps)) (search_bound apps i deps) i of
             Some False \<Rightarrow> None | _ \<Rightarrow> Some ErrValidation)"

definition default_environment :: "string \<Rightarrow> string" where
  "default_environment value = (if trim_space value = [] then txt_env_readonly else trim_space value)"

definition new_application :: "senv \<Rightarrow> user \<Rightarrow> save_application_input \<Rightarrow> application" where
  "new_application h actor x =
     \<lparr> app_OrganizationID = usr_OrganizationID actor, app_ID = NewID h ''app_'' 0,
       app_Name = trim_space (sai_Name x), app_Owner = trim_space (sai_Owner x),
       app_Kind = defaultString (sai_Kind x) txt_kind_backend, app_Runtime = defaultString (sai_Runtime x) ''Go'',
       app_RepositoryURL = trim_space (sai_RepositoryURL x), app_Tier = defaultString (sai_Tier x) txt_tier_important,
       app_Lifecycle = defaultString (sai_Lifecycle x) txt_lifecycle_production,
       app_Database = trim_space (sai_Database x), app_Schema = trim_space (sai_Schema x),
       app_Environment = default_environment (sai_Environment x),
       app_Dependencies = normalizeStringList (sai_Dependencies x), app_Tags = normalizeStringList (sai_Tags x),
       app_Description = trim_space (sai_Description x) \<rparr>"

definition edit_application :: "save_application_input \<Rightarrow> application \<Rightarrow> application" where
  "edit_application x a =
     a\<lparr> app_Name := trim_space (sai_Name x), app_Owner := trim_space (sai_Owner x),
        app_Kind := defaultString (sai_Kind x) (app_Kind a), app_Runtime := defaultString (sai_Runtime x) (app_Runtime a),
        app_RepositoryURL := trim_space (sai_RepositoryURL x), app_Tier := defaultString (sai_Tier x) (app_Tier a),
        app_Lifecycle := defaultString (sai_Lifecycle x) (app_Lifecycle a),
        app_Database := trim_space (sai_Database x), app_Schema := trim_space (sai_Schema x),
        app_Environment := default_environment (sai_Environment x),
        app_Dependencies := normalizeStringList (sai_Dependencies x), app_Tags := normalizeStringList (sai_Tags x),
        app_Description := trim_space (sai_Description x) \<rparr>"

definition conflict_invalid :: "(err + 'a) \<times> db \<Rightarrow> (err + 'a) \<times> db" where
  "conflict_invalid r = (case fst r of Inl ErrConflict \<Rightarrow> (Inl ErrValidation, snd r) | _ \<Rightarrow> r)"

text \<open>The checks of a handler read the store before it takes the store's lock for its write: \<open>snap\<close> is the
  state they read, \<open>d\<close> the state the write finds. Without concurrent requests the two are equal.\<close>

definition CreateApplication_service ::
  "senv \<Rightarrow> save_application_input \<Rightarrow> string \<Rightarrow> db \<Rightarrow> db \<Rightarrow> (err + application) \<times> db" where
  "CreateApplication_service h x actorID snap d =
     (case activeActor snap actorID of
        Inl _ \<Rightarrow> (Inl ErrForbidden, d)
      | Inr actor \<Rightarrow>
          if \<not> usr_EnterpriseAdmin actor \<and> usr_Role actor \<noteq> RoleOwner then (Inl ErrForbidden, d)
          else if \<not> valid_application_input x then (Inl ErrValidation, d)
          else case validateApplicationDependencies snap (usr_OrganizationID actor) []
                      (normalizeStringList (sai_Dependencies x)) of
                 Some er \<Rightarrow> (Inl er, d)
               | None \<Rightarrow>
                   let app = new_application h actor x in
                   (case conflict_invalid (CreateApplication app
                            (audit h 1 actor [] ''CREATE_APPLICATION'' (txt_app_created @ app_Name app)) (se_call h 0) d) of
                      (Inl er, d') \<Rightarrow> (Inl er, d')
                    | (Inr _, d') \<Rightarrow> (Inr app, d')))"

definition UpdateApplication_service ::
  "senv \<Rightarrow> string \<Rightarrow> save_application_input \<Rightarrow> string \<Rightarrow> db \<Rightarrow> db \<Rightarrow> (err + application) \<times> db" where
  "UpdateApplication_service h i x actorID snap d =
     (case activeActor snap actorID of
        Inl _ \<Rightarrow> (Inl ErrForbidden, d)
      | Inr actor \<Rightarrow>
          if \<not> usr_EnterpriseAdmin actor \<and> usr_Role actor \<noteq> RoleOwner then (Inl ErrForbidden, d)
          else if \<not> valid_application_input x then (Inl ErrValidation, d)
          else case validateApplicationDependencies snap (usr_OrganizationID actor) i
                      (normalizeStringList (sai_Dependencies x)) of
                 Some er \<Rightarrow> (Inl er, d)
               | None \<Rightarrow>
                   conflict_invalid (UpdateApplication (usr_OrganizationID actor) i (\<lambda>a. (None, edit_application x a))
                     (audit h 0 actor [] ''UPDATE_APPLICATION'' (txt_app_updated @ trim_space (sai_Name x))) (se_call h 0) d))"

section \<open>The catalogue stays closed and acyclic\<close>

definition apps_ok :: "application list \<Rightarrow> bool" where
  "apps_ok apps \<longleftrightarrow> distinct (map app_ID apps) \<and> [] \<notin> app_ID ` set apps
     \<and> (\<forall>a\<in>set apps. set (app_Dependencies a) \<subseteq> app_ID ` set apps) \<and> acyclic (edges (dep_graph apps))"

definition catalogue_ok :: "db \<Rightarrow> bool" where
  "catalogue_ok d \<longleftrightarrow> (\<forall>org. apps_ok (ApplicationsByOrganization d org))"

lemma dep_graph_mem: "y \<in> set (dep_graph apps n) \<Longrightarrow> \<exists>a\<in>set apps. app_ID a = n \<and> y \<in> set (app_Dependencies a)"
  using lookup_by_Some [of app_ID n "rev apps"] by (cases "lookup_by app_ID n (rev apps)") (auto simp: dep_graph_def)

lemma dep_graph_distinct:
  "distinct (map app_ID apps) \<Longrightarrow> a \<in> set apps \<Longrightarrow> dep_graph apps (app_ID a) = app_Dependencies a"
  using lookup_by_distinct [of app_ID "rev apps" a] by (simp add: dep_graph_def rev_map [symmetric])

text \<open>Replacing the successors of one node creates a cycle only through that node.\<close>

lemma trancl_fun_upd:
  "(x, y) \<in> (edges (g(i := ds)))\<^sup>+ \<Longrightarrow>
   (x, y) \<in> (edges g)\<^sup>+ \<or> ((x, i) \<in> (edges (g(i := ds)))\<^sup>* \<and> (i, y) \<in> (edges (g(i := ds)))\<^sup>+)"
proof (induction rule: trancl_induct)
  case (base y)
  then show ?case by (cases "x = i") auto
next
  case (step y z)
  show ?case
  proof (cases "y = i")
    case True
    with step.hyps have "(x, i) \<in> (edges (g(i := ds)))\<^sup>*" "(i, z) \<in> (edges (g(i := ds)))\<^sup>+"
      by (blast intro: trancl_into_rtrancl)+
    then show ?thesis by blast
  next
    case False
    with step.hyps have "(y, z) \<in> edges g" by simp
    with step.IH step.hyps show ?thesis by (auto intro: trancl_into_trancl)
  qed
qed

lemma acyclic_fun_upd:
  assumes "acyclic (edges g)" "(i, i) \<notin> (edges (g(i := ds)))\<^sup>+"
  shows "acyclic (edges (g(i := ds)))"
  unfolding acyclic_def
proof (intro allI notI)
  fix y assume "(y, y) \<in> (edges (g(i := ds)))\<^sup>+"
  with trancl_fun_upd [OF this] assms show False
    by (auto simp: acyclic_def dest: trancl_rtrancl_trancl)
qed

lemma validate_None:
  assumes "validateApplicationDependencies d org i deps = None" and "apps = ApplicationsByOrganization d org"
    and "i \<in> app_ID ` set apps" "[] \<notin> app_ID ` set apps"
    and closed: "\<forall>a\<in>set apps. set (app_Dependencies a) \<subseteq> app_ID ` set apps"
  shows "set deps \<subseteq> app_ID ` set apps \<and> (i, i) \<notin> (edges ((dep_graph apps)(i := deps)))\<^sup>+"
proof -
  let ?g = "(dep_graph apps)(i := deps)" and ?U = "app_ID ` set apps"
  have deps: "set deps \<subseteq> ?U" using assms(1,2) by (auto simp: validateApplicationDependencies_def Let_def list_ex_iff split: if_splits)
  have "i \<noteq> []" using assms(3,4) by blast
  with assms(1,2) have "hasCycle ?g (search_bound apps i deps) i = Some False"
    by (auto simp: validateApplicationDependencies_def Let_def split: if_splits option.splits bool.splits)
  moreover have "hasCycle ?g (search_bound apps i deps) i = Some (cycle_from ?g i)"
  proof (rule hasCycle_iff [of ?U])
    show "\<forall>x\<in>?U. set (?g x) \<subseteq> ?U" using closed deps by (auto dest!: dep_graph_mem)
    show "card ?U \<le> search_bound apps i deps"
      using card_image_le [of "set apps" app_ID] card_length [of apps] by (simp add: search_bound_def)
  qed (use assms(3) in simp_all)
  ultimately have "\<not> cycle_from ?g i" by simp
  with deps show ?thesis by (auto simp: cycle_from_def)
qed

lemma apps_ok_update:
  assumes ok: "apps_ok apps" and n: "n < length apps" and a: "app_ID a = app_ID (apps ! n)"
    and deps: "set (app_Dependencies a) \<subseteq> app_ID ` set apps"
    and cyc: "(app_ID a, app_ID a) \<notin> (edges ((dep_graph apps)(app_ID a := app_Dependencies a)))\<^sup>+"
  shows "apps_ok (apps[n := a])"
proof -
  have ids: "map app_ID (apps[n := a]) = map app_ID apps" using n a by (rule keys_update)
  then have U: "app_ID ` set (apps[n := a]) = app_ID ` set apps" by (metis list.set_map)
  have dist: "distinct (map app_ID (apps[n := a]))" using ok ids by (simp add: apps_ok_def)
  have "dep_graph (apps[n := a]) = (dep_graph apps)(app_ID a := app_Dependencies a)"
  proof
    fix x
    show "dep_graph (apps[n := a]) x = ((dep_graph apps)(app_ID a := app_Dependencies a)) x"
    proof (cases "x = app_ID a")
      case True
      then show ?thesis using dep_graph_distinct [OF dist, of a] set_update_memI [OF n] by simp
    next
      case False
      show ?thesis
      proof (cases "x \<in> app_ID ` set apps")
        case True
        then obtain b where b: "b \<in> set apps" "app_ID b = x" by auto
        with False a have "b \<in> set (apps[n := a])"
          using n by (auto simp: in_set_conv_nth) (metis nth_list_update_neq)
        with b show ?thesis using dep_graph_distinct [OF dist, of b] dep_graph_distinct [of apps b] ok False
          by (auto simp: apps_ok_def)
      next
        case nomem: False
        then have "lookup_by app_ID x (rev apps) = None" "lookup_by app_ID x (rev (apps[n := a])) = None"
          using U by (simp_all)
        then show ?thesis using False by (simp add: dep_graph_def del: lookup_by_None)
      qed
    qed
  qed
  then show ?thesis using ok ids U dist deps cyc
    by (auto simp: apps_ok_def intro!: acyclic_fun_upd dest!: set_update_cases)
qed

lemma filter_update:
  "n < length xs \<Longrightarrow> P (xs ! n) \<Longrightarrow> P y \<Longrightarrow>
   \<exists>m<length (filter P xs). filter P xs ! m = xs ! n \<and> filter P (xs[n := y]) = (filter P xs)[m := y]"
proof (induction xs arbitrary: n)
  case (Cons x xs)
  show ?case
  proof (cases n)
    case 0
    then show ?thesis using Cons.prems by auto
  next
    case (Suc k)
    then obtain m where "m < length (filter P xs)" "filter P xs ! m = xs ! k" "filter P (xs[k := y]) = (filter P xs)[m := y]"
      using Cons.IH [of k] Cons.prems by auto
    then show ?thesis using Suc by (cases "P x") (auto intro: exI [of _ "Suc m"])
  qed
qed simp

lemma filter_update_other:
  "n < length xs \<Longrightarrow> \<not> P (xs ! n) \<Longrightarrow> \<not> P y \<Longrightarrow> filter P (xs[n := y]) = filter P xs"
  by (induction xs arbitrary: n) (auto split: nat.splits)

lemma apps_ok_append:
  assumes ok: "apps_ok apps" and new: "app_ID a \<notin> app_ID ` set apps" "app_ID a \<noteq> []"
    and deps: "set (app_Dependencies a) \<subseteq> app_ID ` set apps"
  shows "apps_ok (apps @ [a])"
proof -
  have dist: "distinct (map app_ID (apps @ [a]))" using ok new by (auto simp: apps_ok_def)
  have g: "dep_graph (apps @ [a]) = (dep_graph apps)(app_ID a := app_Dependencies a)"
    by (rule ext) (simp add: dep_graph_def lookup_by_Cons)
  have "(x, app_ID a) \<notin> edges ((dep_graph apps)(app_ID a := app_Dependencies a))" for x
    using ok new deps by (auto simp: apps_ok_def dest!: dep_graph_mem)
  then have "(app_ID a, app_ID a) \<notin> (edges ((dep_graph apps)(app_ID a := app_Dependencies a)))\<^sup>+"
    by (meson tranclD2)
  then show ?thesis using ok new deps dist by (auto simp: apps_ok_def g intro!: acyclic_fun_upd)
qed

lemma catalogue_ok_cong: "db_Applications d = db_Applications d' \<Longrightarrow> catalogue_ok d = catalogue_ok d'"
  by (simp add: catalogue_ok_def ApplicationsByOrganization_def)

lemma conflict_invalid_snd [simp]: "snd (conflict_invalid r) = snd r"
  by (auto simp: conflict_invalid_def split: sum.splits err.splits)

lemma UpdateApplication_rows:
  assumes "clean_save e d"
  shows "db_Applications (snd (UpdateApplication org i (\<lambda>a. (None, f a)) ev e d)) = db_Applications d
    \<or> (\<exists>n<length (db_Applications d). app_ID (db_Applications d ! n) = i \<and> app_OrganizationID (db_Applications d ! n) = org
         \<and> db_Applications (snd (UpdateApplication org i (\<lambda>a. (None, f a)) ev e d))
             = (db_Applications d)[n := f (db_Applications d ! n)])"
proof (cases "env_save e = Saved")
  case True
  then show ?thesis
    by (auto simp: UpdateApplication_def store_frame split: option.splits dest!: find_index_of_Some)
next
  case False
  then show ?thesis
    by (auto simp: UpdateApplication_def clean_failed [OF assms False] split: option.splits)
qed

lemma catalogue_ok_UpdateApplication:
  assumes ok: "catalogue_ok d" and e: "clean_save e d"
    and v: "validateApplicationDependencies d org i deps = None"
    and f: "\<And>a. app_ID (f a) = app_ID a \<and> app_OrganizationID (f a) = app_OrganizationID a \<and> app_Dependencies (f a) = deps"
  shows "catalogue_ok (snd (UpdateApplication org i (\<lambda>a. (None, f a)) ev e d))"
proof (cases "db_Applications (snd (UpdateApplication org i (\<lambda>a. (None, f a)) ev e d)) = db_Applications d")
  case True
  then show ?thesis using ok catalogue_ok_cong by blast
next
  case False
  then obtain n where n: "n < length (db_Applications d)" "app_ID (db_Applications d ! n) = i"
    "app_OrganizationID (db_Applications d ! n) = org"
    and rows: "db_Applications (snd (UpdateApplication org i (\<lambda>a. (None, f a)) ev e d))
      = (db_Applications d)[n := f (db_Applications d ! n)]"
    using UpdateApplication_rows [OF e, of org i f ev] by blast
  let ?a = "f (db_Applications d ! n)" and ?apps = "ApplicationsByOrganization d org"
  have okapps: "apps_ok ?apps" using ok by (simp add: catalogue_ok_def)
  have mem: "i \<in> app_ID ` set ?apps" using n nth_mem [OF n(1)] by (auto simp: ApplicationsByOrganization_def)
  have v': "set deps \<subseteq> app_ID ` set ?apps" "(i, i) \<notin> (edges ((dep_graph ?apps)(i := deps)))\<^sup>+"
    using validate_None [OF v refl mem] okapps by (auto simp: apps_ok_def)
  obtain m where m: "m < length ?apps" "?apps ! m = db_Applications d ! n"
    "filter (\<lambda>a. app_OrganizationID a = org) ((db_Applications d)[n := ?a]) = ?apps[m := ?a]"
    using filter_update [of n "db_Applications d" "\<lambda>a. app_OrganizationID a = org" ?a] n f
    by (auto simp: ApplicationsByOrganization_def)
  have "apps_ok (?apps[m := ?a])"
    using apps_ok_update [OF okapps m(1), of ?a] v' m(2) n f by simp
  moreover have "filter (\<lambda>a. app_OrganizationID a = org') ((db_Applications d)[n := ?a])
      = ApplicationsByOrganization d org'" if "org' \<noteq> org" for org'
    using filter_update_other [of n "db_Applications d" "\<lambda>a. app_OrganizationID a = org'" ?a] n f that
    by (simp add: ApplicationsByOrganization_def)
  ultimately show ?thesis using ok m(3) unfolding catalogue_ok_def ApplicationsByOrganization_def rows by metis
qed

lemma UpdateApplication_service_keeps:
  assumes ok: "catalogue_ok d" and e: "clean_save (se_call h 0) d"
  shows "catalogue_ok (snd (UpdateApplication_service h i x actorID d d))"
proof -
  have "catalogue_ok (snd (UpdateApplication org i (\<lambda>a. (None, edit_application x a)) ev (se_call h 0) d))"
    if "validateApplicationDependencies d org i (normalizeStringList (sai_Dependencies x)) = None" for org ev
    by (rule catalogue_ok_UpdateApplication [OF ok e that]) (simp add: edit_application_def)
  with ok show ?thesis by (auto simp: UpdateApplication_service_def split: sum.splits option.splits)
qed

lemma CreateApplication_service_keeps:
  assumes ok: "catalogue_ok d" and e: "clean_save (se_call h 0) d"
    and fresh: "NewID h ''app_'' 0 \<notin> app_ID ` set (db_Applications d)"
  shows "catalogue_ok (snd (CreateApplication_service h x actorID d d))"
proof -
  have "catalogue_ok (snd (CreateApplication app ev (se_call h 0) d))"
    if v: "validateApplicationDependencies d org [] deps = None" and app: "app_ID app = NewID h ''app_'' 0"
      "app_OrganizationID app = org" "app_Dependencies app = deps" for app ev org deps
  proof (cases "db_Applications (snd (CreateApplication app ev (se_call h 0) d)) = db_Applications d")
    case False
    then have rows: "db_Applications (snd (CreateApplication app ev (se_call h 0) d)) = db_Applications d @ [app]"
      by (cases "env_save (se_call h 0) = Saved") (auto simp: CreateApplication_def store_frame clean_failed [OF e] split: if_splits)
    have okapps: "apps_ok (ApplicationsByOrganization d o')" for o' using ok by (simp add: catalogue_ok_def)
    have "set deps \<subseteq> app_ID ` set (ApplicationsByOrganization d org)"
      using v by (auto simp: validateApplicationDependencies_def Let_def list_ex_iff split: if_splits)
    then have "apps_ok (ApplicationsByOrganization d org @ [app])"
      using okapps app fresh by (intro apps_ok_append) (auto simp: ApplicationsByOrganization_def NewID_def)
    then show ?thesis using okapps app(2) unfolding catalogue_ok_def ApplicationsByOrganization_def rows by simp
  qed (use ok catalogue_ok_cong in blast)
  then have "catalogue_ok (snd (CreateApplication (new_application h actor x) ev (se_call h 0) d))"
    if "validateApplicationDependencies d (usr_OrganizationID actor) [] (normalizeStringList (sai_Dependencies x)) = None"
    for actor ev using that by (simp add: new_application_def)
  moreover have "snd (case conflict_invalid r of (Inl er, d') \<Rightarrow> (Inl er, d') | (Inr _, d') \<Rightarrow> (Inr a, d')) = snd r" for r :: "(err + unit) \<times> db" and a :: application
    using conflict_invalid_snd [of r] by (cases "conflict_invalid r") (auto split: sum.splits simp del: conflict_invalid_snd)
  ultimately show ?thesis using ok
    by (auto simp: CreateApplication_service_def Let_def simp del: conflict_invalid_snd split: sum.splits option.splits)
qed

inductive catalogue_run :: "db \<Rightarrow> db \<Rightarrow> bool" where
  catalogue_refl [simp, intro]: "catalogue_run d d"
| catalogue_create: "catalogue_run d d' \<Longrightarrow> clean_save (se_call h 0) d' \<Longrightarrow>
     NewID h ''app_'' 0 \<notin> app_ID ` set (db_Applications d') \<Longrightarrow>
     catalogue_run d (snd (CreateApplication_service h x actorID d' d'))"
| catalogue_update: "catalogue_run d d' \<Longrightarrow> clean_save (se_call h 0) d' \<Longrightarrow>
     catalogue_run d (snd (UpdateApplication_service h i x actorID d' d'))"

lemma catalogue_run_ok: "catalogue_run d d' \<Longrightarrow> catalogue_ok d \<Longrightarrow> catalogue_ok d'"
  by (induction rule: catalogue_run.induct) (auto intro: CreateApplication_service_keeps UpdateApplication_service_keeps)

text \<open>C30: when requests do not overlap, the dependencies of every enterprise's services stay acyclic and
  name only services of the enterprise, whatever services are created and updated.\<close>

theorem catalogue_stays_acyclic:
  assumes "catalogue_run d d'" and "catalogue_ok d"
  shows "acyclic (edges (dep_graph (ApplicationsByOrganization d' org)))
    \<and> (\<forall>a\<in>set (ApplicationsByOrganization d' org). set (app_Dependencies a) \<subseteq> app_ID ` set (ApplicationsByOrganization d' org))"
  using catalogue_run_ok [OF assms] by (simp add: catalogue_ok_def apps_ok_def)

text \<open>C13: the dependency check always ends, within a depth of the number of services and dependencies, and
  accepts new dependencies of a service exactly when they name other services of the enterprise and leave its
  dependency graph acyclic.\<close>

theorem validateApplicationDependencies_exact:
  assumes "catalogue_ok d" and "apps = ApplicationsByOrganization d org" and "i \<in> app_ID ` set apps"
  shows "(set deps \<subseteq> app_ID ` set apps \<longrightarrow> (\<exists>c. hasCycle ((dep_graph apps)(i := deps)) (search_bound apps i deps) i = Some c))
    \<and> (validateApplicationDependencies d org i deps = None \<longleftrightarrow>
        set deps \<subseteq> app_ID ` set apps - {i} \<and> acyclic (edges ((dep_graph apps)(i := deps))))"
proof -
  let ?U = "app_ID ` set apps"
  have ok: "apps_ok apps" using assms(1,2) by (simp add: catalogue_ok_def)
  have bound: "card ?U \<le> search_bound apps i deps"
    using card_image_le [of "set apps" app_ID] card_length [of apps] by (simp add: search_bound_def)
  have total: "hasCycle ((dep_graph apps)(i := ds)) (search_bound apps i deps) i
      = Some (cycle_from ((dep_graph apps)(i := ds)) i)" if "set ds \<subseteq> ?U" for ds
    by (rule hasCycle_iff [of ?U]) (use ok that assms(3) bound in \<open>auto simp: apps_ok_def dest!: dep_graph_mem\<close>)
  have "i \<noteq> []" using ok assms(3) unfolding apps_ok_def by blast
  have acyc: "acyclic (edges ((dep_graph apps)(i := deps)))" if "\<not> cycle_from ((dep_graph apps)(i := deps)) i"
    using ok that by (intro acyclic_fun_upd) (auto simp: apps_ok_def cycle_from_def)
  have self: "(i, i) \<in> edges ((dep_graph apps)(i := deps))" if "i \<in> set deps" using that by simp
  show ?thesis
  proof (cases "set deps \<subseteq> ?U - {i}")
    case True
    then have sub: "set deps \<subseteq> ?U" by blast
    have "validateApplicationDependencies d org i deps = None \<longleftrightarrow> \<not> cycle_from ((dep_graph apps)(i := deps)) i"
      using True total [OF sub] \<open>i \<noteq> []\<close> unfolding assms(2) [symmetric]
      by (auto simp: validateApplicationDependencies_def Let_def assms(2) [symmetric] list_ex_iff split: bool.splits)
    with True acyc total [of deps] show ?thesis
      by (auto simp: cycle_from_def acyclic_def)
  next
    case False
    then have "validateApplicationDependencies d org i deps = Some ErrValidation"
      using \<open>i \<noteq> []\<close> by (auto simp: validateApplicationDependencies_def Let_def assms(2) [symmetric] list_ex_iff)
    with False total [of deps] self show ?thesis by (auto simp: acyclic_def)
  qed
qed

section \<open>Samples\<close>

definition service_of :: "string \<Rightarrow> string list \<Rightarrow> application" where
  "service_of i deps = zero_application\<lparr> app_OrganizationID := ''org_1'', app_ID := i, app_Name := i, app_Dependencies := deps \<rparr>"

definition catalogue_db :: db where
  "catalogue_db = members_db\<lparr> db_Applications := [service_of ''a'' [], service_of ''b'' []] \<rparr>"

definition depends_on :: "string \<Rightarrow> string \<Rightarrow> save_application_input" where
  "depends_on i j = \<lparr> sai_Name = i, sai_Owner = ''ann'', sai_Kind = [], sai_Runtime = [], sai_RepositoryURL = [],
     sai_Tier = [], sai_Lifecycle = [], sai_Database = [], sai_Schema = [], sai_Environment = [],
     sai_Dependencies = [j], sai_Tags = [], sai_Description = [] \<rparr>"

lemma catalogue_db_ok: "catalogue_ok catalogue_db"
  unfolding catalogue_ok_def
proof
  fix org
  have "edges (dep_graph (ApplicationsByOrganization catalogue_db org)) = {}"
    by (auto simp: edges_def dep_graph_def ApplicationsByOrganization_def catalogue_db_def service_of_def zero_application_def lookup_by_Cons)
  then show "apps_ok (ApplicationsByOrganization catalogue_db org)"
    by (simp add: apps_ok_def) (simp add: ApplicationsByOrganization_def catalogue_db_def service_of_def zero_application_def acyclic_def)
qed

lemma trim_ab [simp]: "trim_space ''a'' = ''a''" "trim_space ''b'' = ''b''" "trim_space ''ann'' = ''ann''"
  by code_simp+

lemma runes_ab [simp]: "rune_count ''a'' = 1" "rune_count ''b'' = 1" "rune_count ''ann'' = 3"
  by code_simp+

lemma ann_acts: "activeActor (catalogue_db\<lparr> db_Applications := as \<rparr>) ''usr_ann'' = Inr admin_ann"
  "activeActor catalogue_db ''usr_ann'' = Inr admin_ann" "usr_EnterpriseAdmin admin_ann" "usr_OrganizationID admin_ann = ''org_1''"
  by (simp_all add: activeActor_Inr lookup_by_Cons catalogue_db_def members_samples)

lemma depends_valid: "valid_application_input (depends_on ''a'' ''b'')" "valid_application_input (depends_on ''b'' ''a'')"
  by (simp_all add: valid_application_input_def depends_on_def validRuneLength_def)

lemma depends_deps: "normalizeStringList (sai_Dependencies (depends_on i ''a'')) = [''a'']"
  "normalizeStringList (sai_Dependencies (depends_on i ''b'')) = [''b'']"
  by (simp_all add: depends_on_def normalizeStringList_def)

lemma edit_ab: "app_Dependencies (edit_application (depends_on i ''a'') a) = [''a'']"
  "app_Dependencies (edit_application (depends_on i ''b'') a) = [''b'']"
  "app_Name (edit_application (depends_on i j) a) = trim_space i" "app_Database (edit_application (depends_on i j) a) = []"
  "app_ID (edit_application x a) = app_ID a" "app_OrganizationID (edit_application x a) = app_OrganizationID a"
  by (simp_all add: edit_application_def depends_deps) (simp_all add: depends_on_def)

lemma sample_rows [simp]: "db_Applications catalogue_db = [service_of ''a'' [], service_of ''b'' []]"
  "app_ID (service_of i ds) = i" "app_OrganizationID (service_of i ds) = ''org_1''" "app_Dependencies (service_of i ds) = ds"
  "app_Name (service_of i ds) = i" "app_Database (service_of i ds) = []"
  by (simp_all add: catalogue_db_def service_of_def zero_application_def)

lemma fold_ab [simp]: "\<not> equal_fold ''a'' ''b''" "\<not> equal_fold ''b'' ''a''"
  by (unfold equal_fold_def, code_simp+)

lemma first_update:
  "db_Applications (snd (UpdateApplication_service (calm 10) ''a'' (depends_on ''a'' ''b'') ''usr_ann'' catalogue_db catalogue_db))
   = [edit_application (depends_on ''a'' ''b'') (service_of ''a'' []), service_of ''b'' []]"
  "\<exists>a. fst (UpdateApplication_service (calm 10) ''a'' (depends_on ''a'' ''b'') ''usr_ann'' catalogue_db catalogue_db) = Inr a"
proof -
  have v: "validateApplicationDependencies catalogue_db ''org_1'' ''a'' [''b''] = None"
    by (simp add: validateApplicationDependencies_def Let_def ApplicationsByOrganization_def hasCycle_def search_bound_def dep_graph_def lookup_by_Cons)
  show "db_Applications (snd (UpdateApplication_service (calm 10) ''a'' (depends_on ''a'' ''b'') ''usr_ann'' catalogue_db catalogue_db))
   = [edit_application (depends_on ''a'' ''b'') (service_of ''a'' []), service_of ''b'' []]"
    "\<exists>a. fst (UpdateApplication_service (calm 10) ''a'' (depends_on ''a'' ''b'') ''usr_ann'' catalogue_db catalogue_db) = Inr a"
    by (simp_all add: UpdateApplication_service_def ann_acts depends_valid depends_deps v UpdateApplication_def store_frame
        conflict_invalid_def same_app_def edit_ab)
qed

lemma second_update:
  assumes "db_Applications d = [edit_application (depends_on ''a'' ''b'') (service_of ''a'' []), service_of ''b'' []]"
  shows "db_Applications (snd (UpdateApplication_service (calm 10) ''b'' (depends_on ''b'' ''a'') ''usr_ann'' catalogue_db d))
     = [edit_application (depends_on ''a'' ''b'') (service_of ''a'' []), edit_application (depends_on ''b'' ''a'') (service_of ''b'' [])]"
    "\<exists>a. fst (UpdateApplication_service (calm 10) ''b'' (depends_on ''b'' ''a'') ''usr_ann'' catalogue_db d) = Inr a"
proof -
  have v: "validateApplicationDependencies catalogue_db ''org_1'' ''b'' [''a''] = None"
    by (simp add: validateApplicationDependencies_def Let_def ApplicationsByOrganization_def hasCycle_def search_bound_def dep_graph_def lookup_by_Cons)
  show "db_Applications (snd (UpdateApplication_service (calm 10) ''b'' (depends_on ''b'' ''a'') ''usr_ann'' catalogue_db d))
     = [edit_application (depends_on ''a'' ''b'') (service_of ''a'' []), edit_application (depends_on ''b'' ''a'') (service_of ''b'' [])]"
    "\<exists>a. fst (UpdateApplication_service (calm 10) ''b'' (depends_on ''b'' ''a'') ''usr_ann'' catalogue_db d) = Inr a"
    using assms by (simp_all add: UpdateApplication_service_def ann_acts depends_valid depends_deps v UpdateApplication_def store_frame
        conflict_invalid_def same_app_def edit_ab)
qed

theorem catalogue_stays_acyclic_witness:
  "acyclic (edges (dep_graph (ApplicationsByOrganization
      (snd (UpdateApplication_service (calm 10) ''a'' (depends_on ''a'' ''b'') ''usr_ann'' catalogue_db catalogue_db)) ''org_1'')))"
  by (rule conjunct1 [OF catalogue_stays_acyclic [OF catalogue_update [OF catalogue_refl] catalogue_db_ok]]) simp

theorem validateApplicationDependencies_exact_witness:
  "\<exists>c. hasCycle ((dep_graph (ApplicationsByOrganization catalogue_db ''org_1''))(''a'' := [''b'']))
     (search_bound (ApplicationsByOrganization catalogue_db ''org_1'') ''a'' [''b'']) ''a'' = Some c"
  by (rule conjunct1 [OF validateApplicationDependencies_exact [OF catalogue_db_ok refl], rule_format])
    (simp_all add: ApplicationsByOrganization_def)

text \<open>Two updates that overlap can together create the cycle each of them rules out: the check reads the
  catalogue before the store's lock is taken for the write.\<close>

lemma overlapping_updates_make_cycle:
  "\<exists>d1 d2 a b. UpdateApplication_service (calm 10) ''a'' (depends_on ''a'' ''b'') ''usr_ann'' catalogue_db catalogue_db = (Inr a, d1)
     \<and> UpdateApplication_service (calm 10) ''b'' (depends_on ''b'' ''a'') ''usr_ann'' catalogue_db d1 = (Inr b, d2)
     \<and> \<not> acyclic (edges (dep_graph (ApplicationsByOrganization d2 ''org_1'')))"
proof -
  obtain d1 a where 1: "UpdateApplication_service (calm 10) ''a'' (depends_on ''a'' ''b'') ''usr_ann'' catalogue_db catalogue_db = (Inr a, d1)"
    using first_update(2) by (metis prod.collapse)
  then have d1: "db_Applications d1 = [edit_application (depends_on ''a'' ''b'') (service_of ''a'' []), service_of ''b'' []]"
    using first_update(1) by simp
  obtain d2 b where 2: "UpdateApplication_service (calm 10) ''b'' (depends_on ''b'' ''a'') ''usr_ann'' catalogue_db d1 = (Inr b, d2)"
    using second_update(2) [OF d1] by (metis prod.collapse)
  then have d2: "db_Applications d2 = [edit_application (depends_on ''a'' ''b'') (service_of ''a'' []),
      edit_application (depends_on ''b'' ''a'') (service_of ''b'' [])]"
    using second_update(1) [OF d1] by simp
  let ?g = "dep_graph (ApplicationsByOrganization d2 ''org_1'')"
  have "(''a'', ''b'') \<in> edges ?g" "(''b'', ''a'') \<in> edges ?g"
    by (simp_all add: dep_graph_def ApplicationsByOrganization_def d2 edit_ab lookup_by_Cons)
  then have "(''a'', ''a'') \<in> (edges ?g)\<^sup>+" by (meson r_into_trancl trancl_into_trancl)
  with 1 2 show ?thesis unfolding acyclic_def by blast
qed

end
