(* ===== verification/Regex.thy ===== *)
theory Regex
  imports GoText
begin

text \<open>
  What the source uses of Go's \<^verbatim>\<open>regexp\<close>: the fixed patterns of the secret redaction and of the checkers
  are terms of \<open>re\<close>, matched on the runes of a text. \<open>ends\<close> lists the ends of the matches from a
  position in the order in which Go prefers them (leftmost-first: an alternative before the next, a greedy
  repetition longest first, a lazy one shortest first); \<open>ends_den\<close> shows that it lists exactly the matches
  of the denotation. Patterns that users enter are compiled at run time; they are a parameter of the
  checkers that run them.
\<close>

section \<open>Patterns and their matches\<close>

function runes :: "string \<Rightarrow> string list" where
  "runes s = (if s = [] then [] else take (rune_len s) s # runes (drop (rune_len s) s))"
  by pat_completeness auto
termination by (relation "measure length") auto

declare runes.simps [simp del]

lemma runes_Nil [simp]: "runes [] = []"
  by (simp add: runes.simps)

lemma concat_runes [simp]: "concat (runes s) = s"
proof (induction s rule: runes.induct)
  case (1 s)
  then show ?case by (cases "s = []") (simp_all add: runes.simps [of s])
qed

datatype re =
    Eps
  | Cls "string \<Rightarrow> bool"
  | Assert "string option \<Rightarrow> string option \<Rightarrow> bool"
  | Seq re re
  | Alt re re
  | Star re
  | LazyStar re

definition before :: "string list \<Rightarrow> nat \<Rightarrow> string option" where
  "before rs i = (if i = 0 then None else Some (rs ! (i - 1)))"

definition after :: "string list \<Rightarrow> nat \<Rightarrow> string option" where
  "after rs i = (if i < length rs then Some (rs ! i) else None)"

text \<open>Repetition from a position: the steps that advance, each followed by a repetition, before or after
  stopping here.\<close>

definition first_dups :: "'a list \<Rightarrow> 'a list" where
  "first_dups xs = rev (remdups (rev xs))"

fun star_from :: "bool \<Rightarrow> (nat \<Rightarrow> nat list) \<Rightarrow> nat \<Rightarrow> nat \<Rightarrow> nat list" where
  "star_from greedy step 0 i = [i]"
| "star_from greedy step (Suc k) i =
     (let more = concat (map (star_from greedy step k) (filter (\<lambda>j. i < j) (step i)))
      in first_dups (if greedy then more @ [i] else i # more))"

fun ends :: "re \<Rightarrow> string list \<Rightarrow> nat \<Rightarrow> nat list" where
  "ends Eps rs i = [i]"
| "ends (Cls p) rs i = (if i < length rs \<and> p (rs ! i) then [Suc i] else [])"
| "ends (Assert p) rs i = (if p (before rs i) (after rs i) then [i] else [])"
| "ends (Seq r q) rs i = first_dups (concat (map (ends q rs) (ends r rs i)))"
| "ends (Alt r q) rs i = first_dups (ends r rs i @ ends q rs i)"
| "ends (Star r) rs i = star_from True (ends r rs) (length rs - i) i"
| "ends (LazyStar r) rs i = star_from False (ends r rs) (length rs - i) i"

fun den :: "re \<Rightarrow> string list \<Rightarrow> (nat \<times> nat) set" where
  "den Eps rs = Id"
| "den (Cls p) rs = {(i, Suc i) |i. i < length rs \<and> p (rs ! i)}"
| "den (Assert p) rs = {(i, i) |i. p (before rs i) (after rs i)}"
| "den (Seq r q) rs = den r rs O den q rs"
| "den (Alt r q) rs = den r rs \<union> den q rs"
| "den (Star r) rs = (den r rs)\<^sup>*"
| "den (LazyStar r) rs = (den r rs)\<^sup>*"

lemma set_first_dups [simp]: "set (first_dups xs) = set xs"
  by (simp add: first_dups_def)

lemma den_bounds: "(i, j) \<in> den r rs \<Longrightarrow> i \<le> j \<and> (i < j \<longrightarrow> j \<le> length rs)"
proof (induction r arbitrary: i j)
  case (Seq r q)
  then obtain k where "(i, k) \<in> den r rs" "(k, j) \<in> den q rs" by auto
  with Seq.IH show ?case by fastforce
next
  case (Star r)
  from Star.prems have "(i, j) \<in> (den r rs)\<^sup>*" by simp
  then show ?case by (induction rule: rtrancl_induct) (use Star.IH in fastforce)+
next
  case (LazyStar r)
  from LazyStar.prems have "(i, j) \<in> (den r rs)\<^sup>*" by simp
  then show ?case by (induction rule: rtrancl_induct) (use LazyStar.IH in fastforce)+
qed auto

lemma star_from_sound: "j \<in> set (star_from g step k i) \<Longrightarrow> (i, j) \<in> {(a, b). b \<in> set (step a)}\<^sup>*"
  by (induction g step k i rule: star_from.induct)
    (auto simp: Let_def intro: converse_rtrancl_into_rtrancl split: if_splits)

lemma star_from_complete:
  assumes "(i, j) \<in> {(a, b). b \<in> set (step a)}\<^sup>*"
    and "\<And>a b. a \<le> n \<Longrightarrow> b \<in> set (step a) \<Longrightarrow> a \<le> b \<and> b \<le> n" and "i \<le> n" and "n - i \<le> k"
  shows "j \<in> set (star_from g step k i)"
  using assms
proof (induction arbitrary: k rule: converse_rtrancl_induct)
  case base
  show ?case by (cases k) (simp_all add: Let_def)
next
  case (step i m)
  have m: "m \<in> set (step i)" using step.hyps(1) by simp
  show ?case
  proof (cases "m = i")
    case True
    show ?thesis using step.IH [OF step.prems(1), of k] step.prems(2,3) unfolding True by simp
  next
    case False
    with step.prems(1) [OF step.prems(2) m] have lt: "i < m" "m \<le> n" by auto
    then obtain k' where k: "k = Suc k'" using step.prems(3) by (cases k) auto
    have "j \<in> set (star_from g step k' m)" using step.IH [OF step.prems(1), of k'] lt k step.prems(3) by simp
    with m lt show ?thesis by (auto simp: k Let_def)
  qed
qed

lemma star_from_den:
  assumes R: "\<And>a b. a \<le> n \<Longrightarrow> b \<in> set (step a) \<longleftrightarrow> (a, b) \<in> R"
    and bounds: "\<And>a b. (a, b) \<in> R \<Longrightarrow> a \<le> b \<and> (a < b \<longrightarrow> b \<le> n)" and "i \<le> n"
  shows "j \<in> set (star_from g step (n - i) i) \<longleftrightarrow> (i, j) \<in> R\<^sup>*"
proof -
  let ?S = "{(a, b). b \<in> set (step a)}"
  have le: "b \<le> n" if "a \<le> n" "(a, b) \<in> R" for a b using bounds [OF that(2)] that(1) by (cases "a = b") auto
  have "(i, j) \<in> R\<^sup>* \<and> j \<le> n" if "(i, j) \<in> ?S\<^sup>*"
    using that
  proof (induction rule: rtrancl_induct)
    case (step y z)
    with R have "(y, z) \<in> R" by simp
    with step.IH le show ?case by (auto intro: rtrancl_into_rtrancl)
  qed (simp add: assms(3))
  moreover have "(i, j) \<in> ?S\<^sup>* \<and> j \<le> n" if "(i, j) \<in> R\<^sup>*"
    using that
  proof (induction rule: rtrancl_induct)
    case (step y z)
    with R have "(y, z) \<in> ?S" by simp
    with step.IH step.hyps le show ?case by (auto intro: rtrancl_into_rtrancl)
  qed (simp add: assms(3))
  ultimately show ?thesis
    using star_from_sound [of j g step "n - i" i] star_from_complete [of i j step n "n - i" g] R bounds le assms(3)
    by (meson order_refl)
qed

lemma ends_den: "i \<le> length rs \<Longrightarrow> j \<in> set (ends r rs i) \<longleftrightarrow> (i, j) \<in> den r rs"
proof (induction r arbitrary: i j)
  case (Seq r q)
  have "k \<le> length rs" if "(i, k) \<in> den r rs" for k using den_bounds [OF that] Seq.prems by (cases "i < k") auto
  then show ?case using Seq by auto
next
  case (Star r)
  then show ?case using star_from_den [of "length rs" "ends r rs" "den r rs" i j True] den_bounds by simp
next
  case (LazyStar r)
  then show ?case using star_from_den [of "length rs" "ends r rs" "den r rs" i j False] den_bounds by simp
qed auto

section \<open>Notation of the source\<close>

definition one_of :: "string \<Rightarrow> re" where
  "one_of cs = Cls (\<lambda>x. case x of [c] \<Rightarrow> c \<in> set cs | _ \<Rightarrow> False)"

definition none_of :: "string \<Rightarrow> re" where
  "none_of cs = Cls (\<lambda>x. case x of [c] \<Rightarrow> c \<notin> set cs | _ \<Rightarrow> True)"

definition in_class :: "(char \<Rightarrow> bool) \<Rightarrow> re" where
  "in_class p = Cls (\<lambda>x. case x of [c] \<Rightarrow> p c | _ \<Rightarrow> False)"

definition between :: "nat \<Rightarrow> nat \<Rightarrow> char \<Rightarrow> bool" where
  "between a b c \<longleftrightarrow> a \<le> of_char c \<and> of_char c \<le> b"

definition is_digit :: "char \<Rightarrow> bool" where "is_digit c \<longleftrightarrow> between 48 57 c"
definition is_upper :: "char \<Rightarrow> bool" where "is_upper c \<longleftrightarrow> between 65 90 c"
definition is_letter :: "char \<Rightarrow> bool" where "is_letter c \<longleftrightarrow> between 65 90 c \<or> between 97 122 c"
definition is_word :: "char \<Rightarrow> bool" where "is_word c \<longleftrightarrow> is_letter c \<or> is_digit c \<or> c = CHR ''_''"

text \<open>The class \<open>[[:space:]]\<close> and the class \<open>\\s\<close>, which lacks the vertical tab.\<close>

definition posix_space :: re where
  "posix_space = one_of [CHR 0x09, CHR 0x0A, CHR 0x0B, CHR 0x0C, CHR 0x0D, CHR 0x20]"

definition perl_space :: re where
  "perl_space = one_of [CHR 0x09, CHR 0x0A, CHR 0x0C, CHR 0x0D, CHR 0x20]"

definition any_rune :: re where "any_rune = Cls (\<lambda>_. True)"
definition any_but_newline :: re where "any_but_newline = Cls (\<lambda>x. x \<noteq> [CHR 0x0A])"

definition Plus :: "re \<Rightarrow> re" where "Plus r = Seq r (Star r)"
definition Opt :: "re \<Rightarrow> re" where "Opt r = Alt r Eps"

fun seqs :: "re list \<Rightarrow> re" where
  "seqs [] = Eps"
| "seqs [r] = r"
| "seqs (r # q # rest) = Seq r (seqs (q # rest))"

fun alts :: "re list \<Rightarrow> re" where
  "alts [] = Cls (\<lambda>_. False)"
| "alts [r] = r"
| "alts (r # q # rest) = Alt r (alts (q # rest))"

definition times :: "nat \<Rightarrow> re \<Rightarrow> re" where
  "times n r = seqs (replicate n r)"

definition lit :: "string \<Rightarrow> re" where
  "lit s = seqs (map (\<lambda>c. Cls (\<lambda>x. x = [c])) s)"

text \<open>A letter under \<open>(?i)\<close>: both cases, and the Kelvin sign for k and the long s for s.\<close>

definition fold_char :: "char \<Rightarrow> re" where
  "fold_char c = Cls (\<lambda>x. x = [lower_char c] \<or> x = [upper_char c]
     \<or> lower_char c = CHR ''k'' \<and> x = [CHR 0xE2, CHR 0x84, CHR 0xAA]
     \<or> lower_char c = CHR ''s'' \<and> x = [CHR 0xC5, CHR 0xBF])"

definition lit_i :: "string \<Rightarrow> re" where
  "lit_i s = seqs (map fold_char s)"

definition word_at :: "string option \<Rightarrow> bool" where
  "word_at x = (case x of Some [c] \<Rightarrow> is_word c | _ \<Rightarrow> False)"

definition word_boundary :: re where "word_boundary = Assert (\<lambda>p n. word_at p \<noteq> word_at n)"
definition text_begin :: re where "text_begin = Assert (\<lambda>p n. p = None)"
definition text_end :: re where "text_end = Assert (\<lambda>p n. n = None)"
definition line_begin :: re where "line_begin = Assert (\<lambda>p n. p = None \<or> p = Some [CHR 0x0A])"
definition line_end :: re where "line_end = Assert (\<lambda>p n. n = None \<or> n = Some [CHR 0x0A])"

section \<open>Searching, submatches, replacing\<close>

definition match_string :: "re \<Rightarrow> string \<Rightarrow> bool" where
  "match_string r s = (let rs = runes s in list_ex (\<lambda>i. ends r rs i \<noteq> []) [0..<Suc (length rs)])"

text \<open>A pattern as the sequence of its groups: the ends of the groups of the matches from a position, in order
  of preference.\<close>

fun groups :: "re list \<Rightarrow> string list \<Rightarrow> nat \<Rightarrow> nat list list" where
  "groups [] rs i = [[]]"
| "groups (r # q) rs i = concat (map (\<lambda>j. map ((#) j) (groups q rs j)) (ends r rs i))"

fun pieces :: "string list \<Rightarrow> nat \<Rightarrow> nat list \<Rightarrow> string list" where
  "pieces rs i [] = []"
| "pieces rs i (j # js) = concat (take (j - i) (drop i rs)) # pieces rs j js"

definition submatch :: "re list \<Rightarrow> string \<Rightarrow> string list option" where
  "submatch pat s =
     (let rs = runes s in
      case List.find (\<lambda>i. groups pat rs i \<noteq> []) [0..<Suc (length rs)] of
        None \<Rightarrow> None
      | Some i \<Rightarrow> Some (pieces rs i (hd (groups pat rs i))))"

text \<open>\<open>ReplaceAllString\<close>, for patterns that do not match the empty text; the replacement is a function of
  the texts of the groups.\<close>

fun replace_from :: "re list \<Rightarrow> (string list \<Rightarrow> string) \<Rightarrow> string list \<Rightarrow> nat \<Rightarrow> nat \<Rightarrow> string" where
  "replace_from pat f rs 0 i = concat (drop i rs)"
| "replace_from pat f rs (Suc k) i =
     (if length rs \<le> i then []
      else case groups pat rs i of
             [] \<Rightarrow> rs ! i @ replace_from pat f rs k (Suc i)
           | js # _ \<Rightarrow>
               if js \<noteq> [] \<and> i < last js then f (pieces rs i js) @ replace_from pat f rs k (last js)
               else rs ! i @ replace_from pat f rs k (Suc i))"

definition replace_all :: "re list \<Rightarrow> (string list \<Rightarrow> string) \<Rightarrow> string \<Rightarrow> string" where
  "replace_all pat f s = (let rs = runes s in replace_from pat f rs (length rs) 0)"

lemma groups_seqs: "(groups [r] rs i \<noteq> []) = (ends r rs i \<noteq> [])"
  by (auto simp: concat_eq_Nil_conv)

lemma match_string_den:
  "match_string r s \<longleftrightarrow> (\<exists>i j. i \<le> length (runes s) \<and> (i, j) \<in> den r (runes s))"
proof -
  have "ends r rs i \<noteq> [] \<longleftrightarrow> (\<exists>j. (i, j) \<in> den r rs)" if "i \<le> length rs" for i rs
    using ends_den [OF that, of _ r] by (metis list.set_intros(1) list.exhaust empty_iff list.set(1))
  then show ?thesis by (auto simp: match_string_def Let_def list_ex_iff less_Suc_eq_le simp del: upt_Suc)
qed

text \<open>A text without a match is left alone.\<close>

lemma replace_from_none:
  "\<forall>j<length rs. i \<le> j \<longrightarrow> groups pat rs j = [] \<Longrightarrow> replace_from pat f rs k i = concat (drop i rs)"
proof (induction pat f rs k i rule: replace_from.induct)
  case (2 pat f rs k i)
  then show ?case by (cases "length rs \<le> i") (auto simp: Cons_nth_drop_Suc [symmetric])
qed simp

lemma replace_all_none: "\<forall>j<length (runes s). groups pat (runes s) j = [] \<Longrightarrow> replace_all pat f s = s"
  using replace_from_none [of "runes s" 0 pat f "length (runes s)"] by (simp add: replace_all_def Let_def)

end
