(* ===== verification/Redact.thy ===== *)
theory Redact
  imports Regex Integrity
begin

text \<open>
  The redaction of secrets in \<^verbatim>\<open>internal/changegate/integrity.go\<close>: private keys, bearer tokens,
  credentials in URIs, AWS access keys and secret-looking assignments are replaced in what is stored,
  while the digests that bind a change are taken of the text before the redaction.
\<close>

section \<open>The patterns\<close>

definition key_sep :: "string \<Rightarrow> string \<Rightarrow> re" where
  "key_sep a b = seqs [lit_i a, Opt (one_of ''_-''), lit_i b]"

definition secret_words :: re where
  "secret_words = alts [lit_i ''password'', lit_i ''passwd'', lit_i ''pwd'', lit_i ''token'', lit_i ''secret'',
     key_sep ''api'' ''key'', key_sep ''access'' ''key'', key_sep ''private'' ''key'', key_sep ''client'' ''secret'',
     key_sep ''signing'' ''key'', lit_i ''credential'']"

definition assignmentPattern :: "re list" where
  "assignmentPattern =
     [seqs [text_begin, Star posix_space, Plus (none_of ''#:=''), Star posix_space, one_of '':='', Star posix_space],
      seqs [Star any_but_newline, text_end]]"

definition dquote :: string where "dquote = [CHR 0x22]"

definition jsonSecretPattern :: "re list" where
  "jsonSecretPattern =
     [seqs [lit dquote, secret_words, lit dquote, Star posix_space, lit '':'', Star posix_space],
      seqs [lit dquote, Star (none_of dquote), lit dquote]]"

definition bearerPattern :: "re list" where
  "bearerPattern =
     [seqs [lit_i ''authorization'', Star posix_space, one_of '':='', Star posix_space, lit_i ''bearer'', Plus posix_space],
      Plus (none_of [CHR 0x09, CHR 0x0A, CHR 0x0B, CHR 0x0C, CHR 0x0D, CHR 0x20, CHR 0x22, CHR 0x27])]"

definition no_host :: re where
  "no_host = none_of [CHR ''/'', CHR ''@'', CHR 0x09, CHR 0x0A, CHR 0x0B, CHR 0x0C, CHR 0x0D, CHR 0x20]"

definition uriCredentialPattern :: "re list" where
  "uriCredentialPattern =
     [seqs [in_class is_letter, Star (in_class (\<lambda>c. is_letter c \<or> is_digit c \<or> c \<in> set ''+.-'')), lit ''://'',
            Plus no_host, lit '':''],
      Plus no_host, lit ''@'']"

definition key_words :: re where
  "key_words = Star (in_class (\<lambda>c. is_upper c \<or> is_digit c \<or> c = CHR '' ''))"

definition privateKeyPattern :: "re list" where
  "privateKeyPattern =
     [seqs [lit ''-----BEGIN '', key_words, lit ''PRIVATE KEY-----'', LazyStar any_rune,
            lit ''-----END '', key_words, lit ''PRIVATE KEY-----'']]"

definition awsAccessKeyPattern :: "re list" where
  "awsAccessKeyPattern =
     [seqs [word_boundary, alts [lit ''AKIA'', lit ''ASIA''],
            times 16 (in_class (\<lambda>c. is_upper c \<or> is_digit c)), word_boundary]]"

section \<open>Redaction\<close>

definition redactInlineSecrets :: "string \<Rightarrow> string" where
  "redactInlineSecrets value =
     (let value = replace_all privateKeyPattern (\<lambda>_. ''[REDACTED_PRIVATE_KEY]'') value;
          value = replace_all bearerPattern (\<lambda>g. g ! 0 @ ''[REDACTED]'') value;
          value = replace_all uriCredentialPattern (\<lambda>g. g ! 0 @ ''[REDACTED]'' @ g ! 2) value;
          value = replace_all awsAccessKeyPattern (\<lambda>_. ''[REDACTED_AWS_ACCESS_KEY]'') value
      in replace_all jsonSecretPattern (\<lambda>g. g ! 0 @ dquote @ ''[REDACTED]'' @ dquote) value)"

definition isSecretReference :: "string \<Rightarrow> bool" where
  "isSecretReference value =
     (let lower = to_lower (trim_space (trim_cutset value [CHR 0x22, CHR 0x27])) in
      lower = [] \<or> contains_str lower ''${'' \<or> contains_str lower ''{{'' \<or> contains_str lower ''secretkeyref''
      \<or> contains_str lower ''valuefrom'' \<or> has_prefix lower ''vault:'' \<or> has_prefix lower ''env:''
      \<or> lower = ''[redacted]'' \<or> lower = ''null'' \<or> lower = ''~'')"

definition assignment :: "string \<Rightarrow> (string \<times> string) option" where
  "assignment line =
     (case submatch assignmentPattern line of Some [k, v] \<Rightarrow> Some (k, v) | _ \<Rightarrow> None)"

definition redact_line :: "string \<Rightarrow> string" where
  "redact_line line =
     (case assignment line of
        None \<Rightarrow> line
      | Some (k, v) \<Rightarrow>
          let key = trim_space (trim_cutset k ('' :='' @ [CHR 0x09, CHR 0x22, CHR 0x27])) in
          if match_string secret_words key \<and> \<not> isSecretReference v then k @ ''[REDACTED]'' else line)"

definition newline :: string where "newline = [CHR 0x0A]"

definition Redact :: "string \<Rightarrow> string" where
  "Redact value = join_str newline (map redact_line (split_on (CHR 0x0A) (redactInlineSecrets value)))"

fun leadingSpaces :: "string \<Rightarrow> int" where
  "leadingSpaces [] = 0"
| "leadingSpaces (c # s) =
     (if c = CHR '' '' then 1 + leadingSpaces s else if c = CHR 0x09 then 2 + leadingSpaces s else 0)"

text \<open>The documents of a YAML stream, with the lines of the current one collected in front.\<close>

fun split_documents :: "string list \<Rightarrow> string list \<Rightarrow> string list" where
  "split_documents current [] = [join_str newline current]"
| "split_documents current (line # lines) =
     (if trim_space line = ''---'' then join_str newline current # split_documents [] lines
      else split_documents (current @ [line]) lines)"

definition splitYAMLDocuments :: "string \<Rightarrow> string list" where
  "splitYAMLDocuments value = split_documents [] (split_on (CHR 0x0A) value)"

definition secretKindPattern :: re where
  "secretKindPattern = seqs [line_begin, Star posix_space, lit_i ''kind:'', Star posix_space, lit_i ''Secret'',
     Star posix_space, line_end]"

text \<open>The lines of a Secret manifest; \<open>block\<close> is the indentation of the open \<^verbatim>\<open>data\<close> block, -1 outside one.\<close>

fun redact_secret_lines :: "int \<Rightarrow> string list \<Rightarrow> string list" where
  "redact_secret_lines block [] = []"
| "redact_secret_lines block (line # lines) =
     (let trimmed = trim_space line;
          indent = leadingSpaces line;
          content = trimmed \<noteq> [] \<and> \<not> has_prefix trimmed ''#'';
          redacted = (if 0 \<le> block \<and> content \<and> \<not> indent \<le> block then assignment line else None);
          block = (if 0 \<le> block \<and> content \<and> indent \<le> block then -1 else block);
          lower = to_lower (trim_suffix trimmed '':'')
      in case redacted of
           Some (k, _) \<Rightarrow> (k @ ''[REDACTED]'') # redact_secret_lines block lines
         | None \<Rightarrow>
             line # redact_secret_lines (if lower = ''data'' \<or> lower = ''stringdata'' then indent else block) lines)"

definition redact_document :: "string \<Rightarrow> string" where
  "redact_document doc =
     (if match_string secretKindPattern doc
      then join_str newline (redact_secret_lines (-1) (split_on (CHR 0x0A) doc)) else doc)"

definition redactKubernetesSecrets :: "string \<Rightarrow> string" where
  "redactKubernetesSecrets value =
     join_str (newline @ ''---'' @ newline) (map redact_document (splitYAMLDocuments value))"

section \<open>Artifacts\<close>

definition ArtifactConfig :: string where "ArtifactConfig = ''CONFIG''"
definition ArtifactKubernetes :: string where "ArtifactKubernetes = ''KUBERNETES''"
definition ArtifactDatabase :: string where "ArtifactDatabase = ''DATABASE''"

definition PrepareArtifact :: "change_artifact \<Rightarrow> change_artifact" where
  "PrepareArtifact item =
     item\<lparr> art_ContentSHA256 := SHA256 (art_Content item),
           art_Content := (if art_Kind item = ArtifactKubernetes
                           then redactKubernetesSecrets (redactInlineSecrets (art_Content item))
                           else Redact (art_Content item)),
           art_Name := trim_space (art_Name item), art_Source := trim_space (art_Source item),
           art_Language := trim_space (art_Language item) \<rparr>"

definition hex_char :: "char \<Rightarrow> bool" where
  "hex_char c \<longleftrightarrow> is_digit c \<or> between 97 102 c \<or> between 65 70 c"

definition PrepareStoredArtifact :: "change_artifact \<Rightarrow> change_artifact" where
  "PrepareStoredArtifact item =
     (let stored = to_lower (trim_space (art_ContentSHA256 item));
          prepared = PrepareArtifact item
      in if length stored = 64 \<and> list_all hex_char stored then prepared\<lparr> art_ContentSHA256 := stored \<rparr> else prepared)"

section \<open>The digest of what was submitted survives the storage\<close>

lemma lower_hex_hex_char: "lower_hex c \<Longrightarrow> hex_char c"
  by (auto simp: lower_hex_def hex_char_def is_digit_def between_def Let_def)

definition digest_known :: "change_artifact \<Rightarrow> bool" where
  "digest_known item \<longleftrightarrow> length (art_ContentSHA256 item) = 64 \<and> list_all lower_hex (art_ContentSHA256 item)"

lemma PrepareArtifact_known: "digest_known (PrepareArtifact item)"
  by (simp add: digest_known_def PrepareArtifact_def)

lemma PrepareArtifact_key:
  "artifact_key (PrepareArtifact item) =
     (art_Kind item, trim_space (art_Name item), trim_space (art_Source item), trim_space (art_Language item),
      SHA256 (art_Content item))"
  by (simp add: PrepareArtifact_def artifact_key_def)

lemma PrepareStoredArtifact_known:
  assumes "digest_known item"
  shows "artifact_key (PrepareStoredArtifact item) = artifact_key item" "digest_known (PrepareStoredArtifact item)"
proof -
  have "to_lower (trim_space (art_ContentSHA256 item)) = art_ContentSHA256 item"
    using assms trimmed_hex [of "art_ContentSHA256 item"] by (simp add: digest_known_def to_lower_hex trimmed_iff)
  moreover have "list_all hex_char (art_ContentSHA256 item)"
    using assms by (auto simp: digest_known_def list_all_iff lower_hex_hex_char)
  ultimately have "PrepareStoredArtifact item = (PrepareArtifact item)\<lparr> art_ContentSHA256 := art_ContentSHA256 item \<rparr>"
    using assms by (simp add: PrepareStoredArtifact_def Let_def digest_known_def)
  then show "artifact_key (PrepareStoredArtifact item) = artifact_key item" "digest_known (PrepareStoredArtifact item)"
    using assms by (simp_all add: artifact_key_def PrepareArtifact_def digest_known_def)
qed

lemma ChangeDigest_keys:
  "map artifact_key as = map artifact_key bs \<Longrightarrow> ChangeDigest env ty as s r p = ChangeDigest env ty bs s r p"
proof -
  assume "map artifact_key as = map artifact_key bs"
  then have "map digest_artifact as = map digest_artifact bs"
    by (induction as bs rule: list_induct2') (auto simp: digest_artifact_inj)
  moreover from this have "as = [] \<longleftrightarrow> bs = []" by (metis list.map_disc_iff)
  ultimately have "digest_envelope env ty as s r p = digest_envelope env ty bs s r p"
    unfolding digest_envelope_def by (simp only:)
  then show ?thesis by (simp only: ChangeDigest_def)
qed

lemma stored_known: "digest_known item \<Longrightarrow>
    artifact_key ((PrepareStoredArtifact ^^ n) item) = artifact_key item \<and> digest_known ((PrepareStoredArtifact ^^ n) item)"
  by (induction n) (auto simp: PrepareStoredArtifact_known)

text \<open>However often stored artifacts are prepared again, their digests are those of the bytes that were
  submitted, before any redaction, and the digest of the change is the one of its submission.\<close>

lemma stored_artifacts_keep_digest:
  "ChangeDigest env ty (map ((PrepareStoredArtifact ^^ n) \<circ> PrepareArtifact) as) s r p =
     ChangeDigest env ty (map PrepareArtifact as) s r p
   \<and> map (art_ContentSHA256 \<circ> (PrepareStoredArtifact ^^ n) \<circ> PrepareArtifact) as = map (SHA256 \<circ> art_Content) as"
proof -
  have k: "artifact_key ((PrepareStoredArtifact ^^ n) (PrepareArtifact a)) = artifact_key (PrepareArtifact a)" for a
    using stored_known [OF PrepareArtifact_known] by blast
  have "art_ContentSHA256 ((PrepareStoredArtifact ^^ n) (PrepareArtifact a)) = SHA256 (art_Content a)" for a
    using k [of a] unfolding PrepareArtifact_key by (simp add: artifact_key_def)
  then show ?thesis using k by (auto intro!: ChangeDigest_keys)
qed

end
