(* ===== verification/CheckerTexts.thy ===== *)
theory CheckerTexts
  imports Main
begin

text \<open>
  The non-ASCII string constants of the static checkers that a modelled definition compares or stores, as their UTF-8
  bytes.
\<close>

definition txt_env_production :: string where
  "txt_env_production = [
    CHR 0xE7, CHR 0x94, CHR 0x9F, CHR 0xE4, CHR 0xBA, CHR 0xA7]"

definition txt_secret_exposure :: string where
  "txt_secret_exposure = [
    CHR 0xE9, CHR 0x85, CHR 0x8D, CHR 0xE7, CHR 0xBD, CHR 0xAE, CHR 0xE4, CHR 0xB8, CHR 0xAD,
    CHR 0xE5, CHR 0xAD, CHR 0x98, CHR 0xE5, CHR 0x9C, CHR 0xA8, CHR 0xE7, CHR 0x96, CHR 0x91,
    CHR 0xE4, CHR 0xBC, CHR 0xBC, CHR 0xE6, CHR 0x98, CHR 0x8E, CHR 0xE6, CHR 0x96, CHR 0x87,
    CHR 0xE5, CHR 0x87, CHR 0xAD, CHR 0xE6, CHR 0x8D, CHR 0xAE, CHR 0xEF, CHR 0xBC, CHR 0x9B,
    CHR 0xE5, CHR 0x8E, CHR 0x9F, CHR 0xE5, CHR 0x80, CHR 0xBC, CHR 0xE5, CHR 0xB7, CHR 0xB2,
    CHR 0xE5, CHR 0x9C, CHR 0xA8, CHR 0xE6, CHR 0x8C, CHR 0x81, CHR 0xE4, CHR 0xB9, CHR 0x85,
    CHR 0xE5, CHR 0x8C, CHR 0x96, CHR 0xE5, CHR 0x89, CHR 0x8D, CHR 0xE8, CHR 0x84, CHR 0xB1,
    CHR 0xE6, CHR 0x95, CHR 0x8F, CHR 0xE3, CHR 0x80, CHR 0x82]"

definition txt_debug_enabled :: string where
  "txt_debug_enabled = [
    CHR 0xE7, CHR 0x94, CHR 0x9F, CHR 0xE4, CHR 0xBA, CHR 0xA7, CHR 0xE9, CHR 0x85, CHR 0x8D,
    CHR 0xE7, CHR 0xBD, CHR 0xAE, CHR 0xE5, CHR 0x90, CHR 0xAF, CHR 0xE7, CHR 0x94, CHR 0xA8,
    CHR 0xE4, CHR 0xBA, CHR 0x86, CHR 0x20, CHR 0x64, CHR 0x65, CHR 0x62, CHR 0x75, CHR 0x67,
    CHR 0xE3, CHR 0x80, CHR 0x81, CHR 0x74, CHR 0x72, CHR 0x61, CHR 0x63, CHR 0x65, CHR 0xE3,
    CHR 0x80, CHR 0x81, CHR 0x64, CHR 0x65, CHR 0x76, CHR 0x20, CHR 0xE6, CHR 0x88, CHR 0x96,
    CHR 0xE8, CHR 0xAF, CHR 0xA6, CHR 0xE7, CHR 0xBB, CHR 0x86, CHR 0xE8, CHR 0xAF, CHR 0x8A,
    CHR 0xE6, CHR 0x96, CHR 0xAD, CHR 0xE6, CHR 0xA8, CHR 0xA1, CHR 0xE5, CHR 0xBC, CHR 0x8F,
    CHR 0xE3, CHR 0x80, CHR 0x82]"

definition txt_auth_disabled :: string where
  "txt_auth_disabled = [
    CHR 0xE7, CHR 0x94, CHR 0x9F, CHR 0xE4, CHR 0xBA, CHR 0xA7, CHR 0xE9, CHR 0x85, CHR 0x8D,
    CHR 0xE7, CHR 0xBD, CHR 0xAE, CHR 0xE5, CHR 0x85, CHR 0xB3, CHR 0xE9, CHR 0x97, CHR 0xAD,
    CHR 0xE4, CHR 0xBA, CHR 0x86, CHR 0xE8, CHR 0xAE, CHR 0xA4, CHR 0xE8, CHR 0xAF, CHR 0x81,
    CHR 0x2F, CHR 0xE6, CHR 0x8E, CHR 0x88, CHR 0xE6, CHR 0x9D, CHR 0x83, CHR 0xE6, CHR 0x88,
    CHR 0x96, CHR 0xE5, CHR 0xBC, CHR 0x80, CHR 0xE6, CHR 0x94, CHR 0xBE, CHR 0xE4, CHR 0xBA,
    CHR 0x86, CHR 0xE5, CHR 0x8C, CHR 0xBF, CHR 0xE5, CHR 0x90, CHR 0x8D, CHR 0xE8, CHR 0xAE,
    CHR 0xBF, CHR 0xE9, CHR 0x97, CHR 0xAE, CHR 0xE3, CHR 0x80, CHR 0x82]"

definition txt_tls_disabled :: string where
  "txt_tls_disabled = [
    CHR 0xE7, CHR 0x94, CHR 0x9F, CHR 0xE4, CHR 0xBA, CHR 0xA7, CHR 0xE9, CHR 0x85, CHR 0x8D,
    CHR 0xE7, CHR 0xBD, CHR 0xAE, CHR 0xE8, CHR 0xB7, CHR 0xB3, CHR 0xE8, CHR 0xBF, CHR 0x87,
    CHR 0xE4, CHR 0xBA, CHR 0x86, CHR 0x20, CHR 0x54, CHR 0x4C, CHR 0x53, CHR 0x2F, CHR 0xE8,
    CHR 0xAF, CHR 0x81, CHR 0xE4, CHR 0xB9, CHR 0xA6, CHR 0xE6, CHR 0xA0, CHR 0xA1, CHR 0xE9,
    CHR 0xAA, CHR 0x8C, CHR 0xEF, CHR 0xBC, CHR 0x8C, CHR 0xE5, CHR 0x8F, CHR 0xAF, CHR 0xE8,
    CHR 0x83, CHR 0xBD, CHR 0xE9, CHR 0x81, CHR 0xAD, CHR 0xE5, CHR 0x8F, CHR 0x97, CHR 0xE4,
    CHR 0xB8, CHR 0xAD, CHR 0xE9, CHR 0x97, CHR 0xB4, CHR 0xE4, CHR 0xBA, CHR 0xBA, CHR 0xE6,
    CHR 0x94, CHR 0xBB, CHR 0xE5, CHR 0x87, CHR 0xBB, CHR 0xE3, CHR 0x80, CHR 0x82]"

definition txt_k8s_latest :: string where
  "txt_k8s_latest = [
    CHR 0x4B, CHR 0x75, CHR 0x62, CHR 0x65, CHR 0x72, CHR 0x6E, CHR 0x65, CHR 0x74, CHR 0x65,
    CHR 0x73, CHR 0x20, CHR 0xE6, CHR 0xB8, CHR 0x85, CHR 0xE5, CHR 0x8D, CHR 0x95, CHR 0xE4,
    CHR 0xBD, CHR 0xBF, CHR 0xE7, CHR 0x94, CHR 0xA8, CHR 0x20, CHR 0x6C, CHR 0x61, CHR 0x74,
    CHR 0x65, CHR 0x73, CHR 0x74, CHR 0x20, CHR 0xE9, CHR 0x95, CHR 0x9C, CHR 0xE5, CHR 0x83,
    CHR 0x8F, CHR 0xEF, CHR 0xBC, CHR 0x8C, CHR 0xE6, CHR 0x97, CHR 0xA0, CHR 0xE6, CHR 0xB3,
    CHR 0x95, CHR 0xE7, CHR 0xBB, CHR 0x91, CHR 0xE5, CHR 0xAE, CHR 0x9A, CHR 0xE4, CHR 0xB8,
    CHR 0x8D, CHR 0xE5, CHR 0x8F, CHR 0xAF, CHR 0xE5, CHR 0x8F, CHR 0x98, CHR 0xE5, CHR 0x88,
    CHR 0xB6, CHR 0xE5, CHR 0x93, CHR 0x81, CHR 0xE3, CHR 0x80, CHR 0x82]"

definition txt_k8s_privileged :: string where
  "txt_k8s_privileged = [
    CHR 0xE5, CHR 0xAE, CHR 0xB9, CHR 0xE5, CHR 0x99, CHR 0xA8, CHR 0xE5, CHR 0x90, CHR 0xAF,
    CHR 0xE7, CHR 0x94, CHR 0xA8, CHR 0xE4, CHR 0xBA, CHR 0x86, CHR 0x20, CHR 0x70, CHR 0x72,
    CHR 0x69, CHR 0x76, CHR 0x69, CHR 0x6C, CHR 0x65, CHR 0x67, CHR 0x65, CHR 0x64, CHR 0x20,
    CHR 0xE7, CHR 0x89, CHR 0xB9, CHR 0xE6, CHR 0x9D, CHR 0x83, CHR 0xE6, CHR 0xA8, CHR 0xA1,
    CHR 0xE5, CHR 0xBC, CHR 0x8F, CHR 0xE3, CHR 0x80, CHR 0x82]"

definition txt_k8s_host_ns :: string where
  "txt_k8s_host_ns = [
    CHR 0xE5, CHR 0xB7, CHR 0xA5, CHR 0xE4, CHR 0xBD, CHR 0x9C, CHR 0xE8, CHR 0xB4, CHR 0x9F,
    CHR 0xE8, CHR 0xBD, CHR 0xBD, CHR 0xE5, CHR 0x85, CHR 0xB1, CHR 0xE4, CHR 0xBA, CHR 0xAB,
    CHR 0xE5, CHR 0xAE, CHR 0xBF, CHR 0xE4, CHR 0xB8, CHR 0xBB, CHR 0xE6, CHR 0x9C, CHR 0xBA,
    CHR 0xE7, CHR 0xBD, CHR 0x91, CHR 0xE7, CHR 0xBB, CHR 0x9C, CHR 0xE6, CHR 0x88, CHR 0x96,
    CHR 0x20, CHR 0x50, CHR 0x49, CHR 0x44, CHR 0x20, CHR 0xE5, CHR 0x91, CHR 0xBD, CHR 0xE5,
    CHR 0x90, CHR 0x8D, CHR 0xE7, CHR 0xA9, CHR 0xBA, CHR 0xE9, CHR 0x97, CHR 0xB4, CHR 0xE3,
    CHR 0x80, CHR 0x82]"

definition txt_k8s_escalation :: string where
  "txt_k8s_escalation = [
    CHR 0xE5, CHR 0xAE, CHR 0xB9, CHR 0xE5, CHR 0x99, CHR 0xA8, CHR 0xE5, CHR 0x85, CHR 0x81,
    CHR 0xE8, CHR 0xAE, CHR 0xB8, CHR 0xE8, CHR 0xBF, CHR 0x9B, CHR 0xE7, CHR 0xA8, CHR 0x8B,
    CHR 0xE6, CHR 0x8F, CHR 0x90, CHR 0xE5, CHR 0x8D, CHR 0x87, CHR 0xE6, CHR 0x9D, CHR 0x83,
    CHR 0xE9, CHR 0x99, CHR 0x90, CHR 0xE3, CHR 0x80, CHR 0x82]"

definition txt_k8s_root :: string where
  "txt_k8s_root = [
    CHR 0xE5, CHR 0xAE, CHR 0xB9, CHR 0xE5, CHR 0x99, CHR 0xA8, CHR 0xE8, CHR 0xA2, CHR 0xAB,
    CHR 0xE6, CHR 0x98, CHR 0xBE, CHR 0xE5, CHR 0xBC, CHR 0x8F, CHR 0xE9, CHR 0x85, CHR 0x8D,
    CHR 0xE7, CHR 0xBD, CHR 0xAE, CHR 0xE4, CHR 0xB8, CHR 0xBA, CHR 0x20, CHR 0x72, CHR 0x6F,
    CHR 0x6F, CHR 0x74, CHR 0x20, CHR 0xE6, CHR 0x88, CHR 0x96, CHR 0xE5, CHR 0x85, CHR 0x81,
    CHR 0xE8, CHR 0xAE, CHR 0xB8, CHR 0x20, CHR 0x72, CHR 0x6F, CHR 0x6F, CHR 0x74, CHR 0x20,
    CHR 0xE8, CHR 0xBA, CHR 0xAB, CHR 0xE4, CHR 0xBB, CHR 0xBD, CHR 0xE8, CHR 0xBF, CHR 0x90,
    CHR 0xE8, CHR 0xA1, CHR 0x8C, CHR 0xE3, CHR 0x80, CHR 0x82]"

definition txt_k8s_host_path :: string where
  "txt_k8s_host_path = [
    CHR 0xE5, CHR 0xB7, CHR 0xA5, CHR 0xE4, CHR 0xBD, CHR 0x9C, CHR 0xE8, CHR 0xB4, CHR 0x9F,
    CHR 0xE8, CHR 0xBD, CHR 0xBD, CHR 0xE6, CHR 0x8C, CHR 0x82, CHR 0xE8, CHR 0xBD, CHR 0xBD,
    CHR 0xE5, CHR 0xAE, CHR 0xBF, CHR 0xE4, CHR 0xB8, CHR 0xBB, CHR 0xE6, CHR 0x9C, CHR 0xBA,
    CHR 0x20, CHR 0x68, CHR 0x6F, CHR 0x73, CHR 0x74, CHR 0x50, CHR 0x61, CHR 0x74, CHR 0x68,
    CHR 0xEF, CHR 0xBC, CHR 0x8C, CHR 0xE7, CHR 0xAA, CHR 0x81, CHR 0xE7, CHR 0xA0, CHR 0xB4,
    CHR 0xE4, CHR 0xBA, CHR 0x86, CHR 0xE5, CHR 0xAE, CHR 0xB9, CHR 0xE5, CHR 0x99, CHR 0xA8,
    CHR 0xE6, CHR 0x96, CHR 0x87, CHR 0xE4, CHR 0xBB, CHR 0xB6, CHR 0xE7, CHR 0xB3, CHR 0xBB,
    CHR 0xE7, CHR 0xBB, CHR 0x9F, CHR 0xE9, CHR 0x9A, CHR 0x94, CHR 0xE7, CHR 0xA6, CHR 0xBB,
    CHR 0xE3, CHR 0x80, CHR 0x82]"

definition txt_k8s_no_blocks :: string where
  "txt_k8s_no_blocks = [
    CHR 0xE5, CHR 0xB7, CHR 0xA5, CHR 0xE4, CHR 0xBD, CHR 0x9C, CHR 0xE8, CHR 0xB4, CHR 0x9F,
    CHR 0xE8, CHR 0xBD, CHR 0xBD, CHR 0xE6, CHR 0x9C, CHR 0xAA, CHR 0xE5, CHR 0x8F, CHR 0x91,
    CHR 0xE7, CHR 0x8E, CHR 0xB0, CHR 0xE5, CHR 0x8F, CHR 0xAF, CHR 0xE5, CHR 0xAE, CHR 0xA1,
    CHR 0xE8, CHR 0xAE, CHR 0xA1, CHR 0xE7, CHR 0x9A, CHR 0x84, CHR 0xE5, CHR 0xAE, CHR 0xB9,
    CHR 0xE5, CHR 0x99, CHR 0xA8, CHR 0x20, CHR 0x72, CHR 0x65, CHR 0x73, CHR 0x6F, CHR 0x75,
    CHR 0x72, CHR 0x63, CHR 0x65, CHR 0x73, CHR 0x20, CHR 0xE9, CHR 0x85, CHR 0x8D, CHR 0xE7,
    CHR 0xBD, CHR 0xAE, CHR 0xE3, CHR 0x80, CHR 0x82]"

definition txt_k8s_resources :: string where
  "txt_k8s_resources = [
    CHR 0xE5, CHR 0xAE, CHR 0xB9, CHR 0xE5, CHR 0x99, CHR 0xA8, CHR 0xE6, CHR 0xB2, CHR 0xA1,
    CHR 0xE6, CHR 0x9C, CHR 0x89, CHR 0xE5, CHR 0x90, CHR 0x8C, CHR 0xE6, CHR 0x97, CHR 0xB6,
    CHR 0xE5, CHR 0xA3, CHR 0xB0, CHR 0xE6, CHR 0x98, CHR 0x8E, CHR 0x20, CHR 0x43, CHR 0x50,
    CHR 0x55, CHR 0x2F, CHR 0xE5, CHR 0x86, CHR 0x85, CHR 0xE5, CHR 0xAD, CHR 0x98, CHR 0x20,
    CHR 0x72, CHR 0x65, CHR 0x71, CHR 0x75, CHR 0x65, CHR 0x73, CHR 0x74, CHR 0x73, CHR 0x20,
    CHR 0xE4, CHR 0xB8, CHR 0x8E, CHR 0x20, CHR 0x6C, CHR 0x69, CHR 0x6D, CHR 0x69, CHR 0x74,
    CHR 0x73, CHR 0xE3, CHR 0x80, CHR 0x82]"

definition txt_k8s_probes :: string where
  "txt_k8s_probes = [
    CHR 0xE9, CHR 0x95, CHR 0xBF, CHR 0xE6, CHR 0x9C, CHR 0x9F, CHR 0xE8, CHR 0xBF, CHR 0x90,
    CHR 0xE8, CHR 0xA1, CHR 0x8C, CHR 0xE5, CHR 0xAE, CHR 0xB9, CHR 0xE5, CHR 0x99, CHR 0xA8,
    CHR 0xE7, CHR 0xBC, CHR 0xBA, CHR 0xE5, CHR 0xB0, CHR 0x91, CHR 0x20, CHR 0x72, CHR 0x65,
    CHR 0x61, CHR 0x64, CHR 0x69, CHR 0x6E, CHR 0x65, CHR 0x73, CHR 0x73, CHR 0x50, CHR 0x72,
    CHR 0x6F, CHR 0x62, CHR 0x65, CHR 0x20, CHR 0xE6, CHR 0x88, CHR 0x96, CHR 0x20, CHR 0x6C,
    CHR 0x69, CHR 0x76, CHR 0x65, CHR 0x6E, CHR 0x65, CHR 0x73, CHR 0x73, CHR 0x50, CHR 0x72,
    CHR 0x6F, CHR 0x62, CHR 0x65, CHR 0xE3, CHR 0x80, CHR 0x82]"

definition txt_k8s_single :: string where
  "txt_k8s_single = [
    CHR 0xE7, CHR 0x94, CHR 0x9F, CHR 0xE4, CHR 0xBA, CHR 0xA7, CHR 0xE5, CHR 0xB7, CHR 0xA5,
    CHR 0xE4, CHR 0xBD, CHR 0x9C, CHR 0xE8, CHR 0xB4, CHR 0x9F, CHR 0xE8, CHR 0xBD, CHR 0xBD,
    CHR 0xE4, CHR 0xBB, CHR 0x85, CHR 0xE6, CHR 0x9C, CHR 0x89, CHR 0xE4, CHR 0xB8, CHR 0x80,
    CHR 0xE4, CHR 0xB8, CHR 0xAA, CHR 0xE5, CHR 0x89, CHR 0xAF, CHR 0xE6, CHR 0x9C, CHR 0xAC,
    CHR 0xEF, CHR 0xBC, CHR 0x8C, CHR 0xE5, CHR 0x8D, CHR 0x87, CHR 0xE7, CHR 0xBA, CHR 0xA7,
    CHR 0xE6, CHR 0x88, CHR 0x96, CHR 0xE8, CHR 0x8A, CHR 0x82, CHR 0xE7, CHR 0x82, CHR 0xB9,
    CHR 0xE6, CHR 0x95, CHR 0x85, CHR 0xE9, CHR 0x9A, CHR 0x9C, CHR 0xE4, CHR 0xBC, CHR 0x9A,
    CHR 0xE7, CHR 0x9B, CHR 0xB4, CHR 0xE6, CHR 0x8E, CHR 0xA5, CHR 0xE4, CHR 0xB8, CHR 0xAD,
    CHR 0xE6, CHR 0x96, CHR 0xAD, CHR 0xE6, CHR 0x9C, CHR 0x8D, CHR 0xE5, CHR 0x8A, CHR 0xA1,
    CHR 0xE3, CHR 0x80, CHR 0x82]"

definition txt_no_release_rollback :: string where
  "txt_no_release_rollback = [
    CHR 0xE5, CHR 0xBD, CHR 0x93, CHR 0xE5, CHR 0x89, CHR 0x8D, CHR 0xE5, CHR 0x8F, CHR 0x98,
    CHR 0xE6, CHR 0x9B, CHR 0xB4, CHR 0xE6, CHR 0xB2, CHR 0xA1, CHR 0xE6, CHR 0x9C, CHR 0x89,
    CHR 0xE5, CHR 0x8F, CHR 0xAF, CHR 0xE6, CHR 0x89, CHR 0xA7, CHR 0xE8, CHR 0xA1, CHR 0x8C,
    CHR 0xE7, CHR 0x9A, CHR 0x84, CHR 0xE7, CHR 0x89, CHR 0x88, CHR 0xE6, CHR 0x9C, CHR 0xAC,
    CHR 0xE5, CHR 0x9B, CHR 0x9E, CHR 0xE9, CHR 0x80, CHR 0x80, CHR 0xE3, CHR 0x80, CHR 0x81,
    CHR 0xE9, CHR 0x85, CHR 0x8D, CHR 0xE7, CHR 0xBD, CHR 0xAE, CHR 0xE6, CHR 0x81, CHR 0xA2,
    CHR 0xE5, CHR 0xA4, CHR 0x8D, CHR 0xE6, CHR 0x88, CHR 0x96, CHR 0xE6, CHR 0x95, CHR 0xB0,
    CHR 0xE6, CHR 0x8D, CHR 0xAE, CHR 0xE8, CHR 0xA1, CHR 0xA5, CHR 0xE5, CHR 0x81, CHR 0xBF,
    CHR 0xE6, CHR 0xAD, CHR 0xA5, CHR 0xE9, CHR 0xAA, CHR 0xA4, CHR 0xE3, CHR 0x80, CHR 0x82]"

definition txt_rollback_plan_empty :: string where
  "txt_rollback_plan_empty = [
    CHR 0x72, CHR 0x6F, CHR 0x6C, CHR 0x6C, CHR 0x62, CHR 0x61, CHR 0x63, CHR 0x6B, CHR 0x5F,
    CHR 0x70, CHR 0x6C, CHR 0x61, CHR 0x6E, CHR 0x20, CHR 0xE4, CHR 0xB8, CHR 0xBA, CHR 0xE7,
    CHR 0xA9, CHR 0xBA]"

definition txt_full_release :: string where
  "txt_full_release = [
    CHR 0xE5, CHR 0x85, CHR 0xA8, CHR 0xE9, CHR 0x87, CHR 0x8F, CHR 0xE5, CHR 0x8F, CHR 0x91,
    CHR 0xE5, CHR 0xB8, CHR 0x83]"

definition txt_full_release_detail :: string where
  "txt_full_release_detail = [
    CHR 0xE7, CHR 0x94, CHR 0x9F, CHR 0xE4, CHR 0xBA, CHR 0xA7, CHR 0xE7, CHR 0x8E, CHR 0xAF,
    CHR 0xE5, CHR 0xA2, CHR 0x83, CHR 0xE8, CHR 0xAE, CHR 0xA1, CHR 0xE5, CHR 0x88, CHR 0x92,
    CHR 0xE7, CHR 0x9B, CHR 0xB4, CHR 0xE6, CHR 0x8E, CHR 0xA5, CHR 0xE5, CHR 0x85, CHR 0xA8,
    CHR 0xE9, CHR 0x87, CHR 0x8F, CHR 0xE5, CHR 0x8F, CHR 0x91, CHR 0xE5, CHR 0xB8, CHR 0x83,
    CHR 0xEF, CHR 0xBC, CHR 0x8C, CHR 0xE6, CHR 0x95, CHR 0x85, CHR 0xE9, CHR 0x9A, CHR 0x9C,
    CHR 0xE5, CHR 0xBD, CHR 0xB1, CHR 0xE5, CHR 0x93, CHR 0x8D, CHR 0xE5, CHR 0x8D, CHR 0x8A,
    CHR 0xE5, CHR 0xBE, CHR 0x84, CHR 0xE8, CHR 0xBE, CHR 0x83, CHR 0xE5, CHR 0xA4, CHR 0xA7,
    CHR 0xE3, CHR 0x80, CHR 0x82]"

definition txt_no_metrics :: string where
  "txt_no_metrics = [
    CHR 0xE5, CHR 0x8F, CHR 0x91, CHR 0xE5, CHR 0xB8, CHR 0x83, CHR 0xE8, CHR 0xAE, CHR 0xA1,
    CHR 0xE5, CHR 0x88, CHR 0x92, CHR 0xE6, CHR 0xB2, CHR 0xA1, CHR 0xE6, CHR 0x9C, CHR 0x89,
    CHR 0xE9, CHR 0x85, CHR 0x8D, CHR 0xE7, CHR 0xBD, CHR 0xAE, CHR 0xE9, CHR 0x94, CHR 0x99,
    CHR 0xE8, CHR 0xAF, CHR 0xAF, CHR 0xE7, CHR 0x8E, CHR 0x87, CHR 0xE3, CHR 0x80, CHR 0x81,
    CHR 0xE5, CHR 0xBB, CHR 0xB6, CHR 0xE8, CHR 0xBF, CHR 0x9F, CHR 0xE6, CHR 0x88, CHR 0x96,
    CHR 0xE4, CHR 0xB8, CHR 0x9A, CHR 0xE5, CHR 0x8A, CHR 0xA1, CHR 0xE6, CHR 0x88, CHR 0x90,
    CHR 0xE5, CHR 0x8A, CHR 0x9F, CHR 0xE6, CHR 0x8C, CHR 0x87, CHR 0xE6, CHR 0xA0, CHR 0x87,
    CHR 0xE3, CHR 0x80, CHR 0x82]"

definition txt_empty_sql :: string where
  "txt_empty_sql = [
    CHR 0xE5, CHR 0x8F, CHR 0x98, CHR 0xE6, CHR 0x9B, CHR 0xB4, CHR 0xE5, CHR 0x8D, CHR 0x95,
    CHR 0xE6, CHR 0xB2, CHR 0xA1, CHR 0xE6, CHR 0x9C, CHR 0x89, CHR 0xE5, CHR 0x8F, CHR 0xAF,
    CHR 0xE6, CHR 0x89, CHR 0xA7, CHR 0xE8, CHR 0xA1, CHR 0x8C, CHR 0xE8, CHR 0xAF, CHR 0xAD,
    CHR 0xE5, CHR 0x8F, CHR 0xA5, CHR 0xE3, CHR 0x80, CHR 0x82]"

definition txt_no_rollback :: string where
  "txt_no_rollback = [
    CHR 0xE5, CHR 0x8F, CHR 0x91, CHR 0xE7, CHR 0x94, CHR 0x9F, CHR 0xE5, CHR 0xBC, CHR 0x82,
    CHR 0xE5, CHR 0xB8, CHR 0xB8, CHR 0xE6, CHR 0x97, CHR 0xB6, CHR 0xE7, CHR 0xBC, CHR 0xBA,
    CHR 0xE5, CHR 0xB0, CHR 0x91, CHR 0xE6, CHR 0x98, CHR 0x8E, CHR 0xE7, CHR 0xA1, CHR 0xAE,
    CHR 0xE6, CHR 0x81, CHR 0xA2, CHR 0xE5, CHR 0xA4, CHR 0x8D, CHR 0xE6, CHR 0xAD, CHR 0xA5,
    CHR 0xE9, CHR 0xAA, CHR 0xA4, CHR 0xE3, CHR 0x80, CHR 0x82]"

definition txt_rollback_sql_empty :: string where
  "txt_rollback_sql_empty = [
    CHR 0x72, CHR 0x6F, CHR 0x6C, CHR 0x6C, CHR 0x62, CHR 0x61, CHR 0x63, CHR 0x6B, CHR 0x5F,
    CHR 0x73, CHR 0x71, CHR 0x6C, CHR 0x20, CHR 0xE4, CHR 0xB8, CHR 0xBA, CHR 0xE7, CHR 0xA9,
    CHR 0xBA]"

definition txt_many_1 :: string where
  "txt_many_1 = [
    CHR 0xE5, CHR 0xBD, CHR 0x93, CHR 0xE5, CHR 0x89, CHR 0x8D, CHR 0xE5, CHR 0x8C, CHR 0x85,
    CHR 0xE5, CHR 0x90, CHR 0xAB, CHR 0x20]"

definition txt_many_2 :: string where
  "txt_many_2 = [
    CHR 0x20, CHR 0xE6, CHR 0x9D, CHR 0xA1, CHR 0x20, CHR 0x53, CHR 0x51, CHR 0x4C, CHR 0xEF,
    CHR 0xBC, CHR 0x8C, CHR 0xE5, CHR 0xA4, CHR 0xB1, CHR 0xE8, CHR 0xB4, CHR 0xA5, CHR 0xE6,
    CHR 0x97, CHR 0xB6, CHR 0xE5, CHR 0xAE, CHR 0x9A, CHR 0xE4, CHR 0xBD, CHR 0x8D, CHR 0xE5,
    CHR 0x92, CHR 0x8C, CHR 0xE5, CHR 0x9B, CHR 0x9E, CHR 0xE6, CHR 0xBB, CHR 0x9A, CHR 0xE6,
    CHR 0x88, CHR 0x90, CHR 0xE6, CHR 0x9C, CHR 0xAC, CHR 0xE8, CHR 0xBE, CHR 0x83, CHR 0xE9,
    CHR 0xAB, CHR 0x98, CHR 0xE3, CHR 0x80, CHR 0x82]"

definition txt_update_all :: string where
  "txt_update_all = [
    CHR 0xE8, CHR 0xAF, CHR 0xAD, CHR 0xE5, CHR 0x8F, CHR 0xA5, CHR 0xE5, CHR 0x8F, CHR 0xAF,
    CHR 0xE8, CHR 0x83, CHR 0xBD, CHR 0xE6, CHR 0x9B, CHR 0xB4, CHR 0xE6, CHR 0x96, CHR 0xB0,
    CHR 0xE6, CHR 0x95, CHR 0xB4, CHR 0xE5, CHR 0xBC, CHR 0xA0, CHR 0xE8, CHR 0xA1, CHR 0xA8,
    CHR 0xE3, CHR 0x80, CHR 0x82]"

definition txt_delete_all :: string where
  "txt_delete_all = [
    CHR 0xE8, CHR 0xAF, CHR 0xAD, CHR 0xE5, CHR 0x8F, CHR 0xA5, CHR 0xE5, CHR 0x8F, CHR 0xAF,
    CHR 0xE8, CHR 0x83, CHR 0xBD, CHR 0xE5, CHR 0x88, CHR 0xA0, CHR 0xE9, CHR 0x99, CHR 0xA4,
    CHR 0xE6, CHR 0x95, CHR 0xB4, CHR 0xE5, CHR 0xBC, CHR 0xA0, CHR 0xE8, CHR 0xA1, CHR 0xA8,
    CHR 0xE7, CHR 0x9A, CHR 0x84, CHR 0xE6, CHR 0x95, CHR 0xB0, CHR 0xE6, CHR 0x8D, CHR 0xAE,
    CHR 0xE3, CHR 0x80, CHR 0x82]"

definition txt_unbatched :: string where
  "txt_unbatched = [
    CHR 0xE6, CHR 0x9D, CHR 0xA1, CHR 0xE4, CHR 0xBB, CHR 0xB6, CHR 0x20, CHR 0x44, CHR 0x4D,
    CHR 0x4C, CHR 0x20, CHR 0xE7, CHR 0xBC, CHR 0xBA, CHR 0xE5, CHR 0xB0, CHR 0x91, CHR 0x20,
    CHR 0x4C, CHR 0x49, CHR 0x4D, CHR 0x49, CHR 0x54, CHR 0x2F, CHR 0xE5, CHR 0x88, CHR 0x86,
    CHR 0xE6, CHR 0x89, CHR 0xB9, CHR 0xE8, CHR 0xBE, CHR 0xB9, CHR 0xE7, CHR 0x95, CHR 0x8C,
    CHR 0xEF, CHR 0xBC, CHR 0x8C, CHR 0xE5, CHR 0x8F, CHR 0xAF, CHR 0xE8, CHR 0x83, CHR 0xBD,
    CHR 0xE5, CHR 0x9C, CHR 0xA8, CHR 0xE5, CHR 0x8D, CHR 0x95, CHR 0xE4, CHR 0xBA, CHR 0x8B,
    CHR 0xE5, CHR 0x8A, CHR 0xA1, CHR 0xE4, CHR 0xB8, CHR 0xAD, CHR 0xE9, CHR 0x94, CHR 0x81,
    CHR 0xE4, CHR 0xBD, CHR 0x8F, CHR 0xE5, CHR 0xA4, CHR 0xA7, CHR 0xE9, CHR 0x87, CHR 0x8F,
    CHR 0xE8, CHR 0xA1, CHR 0x8C, CHR 0xE5, CHR 0xB9, CHR 0xB6, CHR 0xE6, CHR 0x8B, CHR 0x89,
    CHR 0xE9, CHR 0x95, CHR 0xBF, CHR 0x20, CHR 0x57, CHR 0x41, CHR 0x4C, CHR 0x2F, CHR 0xE5,
    CHR 0x9B, CHR 0x9E, CHR 0xE6, CHR 0xBB, CHR 0x9A, CHR 0xE7, CHR 0xAA, CHR 0x97, CHR 0xE5,
    CHR 0x8F, CHR 0xA3, CHR 0xE3, CHR 0x80, CHR 0x82]"

definition txt_not_null :: string where
  "txt_not_null = [
    CHR 0xE5, CHR 0x8E, CHR 0x86, CHR 0xE5, CHR 0x8F, CHR 0xB2, CHR 0xE6, CHR 0x95, CHR 0xB0,
    CHR 0xE6, CHR 0x8D, CHR 0xAE, CHR 0xE6, CHR 0x97, CHR 0xA0, CHR 0xE6, CHR 0xB3, CHR 0x95,
    CHR 0xE8, CHR 0x87, CHR 0xAA, CHR 0xE5, CHR 0x8A, CHR 0xA8, CHR 0xE6, CHR 0xBB, CHR 0xA1,
    CHR 0xE8, CHR 0xB6, CHR 0xB3, CHR 0xE9, CHR 0x9D, CHR 0x9E, CHR 0xE7, CHR 0xA9, CHR 0xBA,
    CHR 0xE7, CHR 0xBA, CHR 0xA6, CHR 0xE6, CHR 0x9D, CHR 0x9F, CHR 0xEF, CHR 0xBC, CHR 0x8C,
    CHR 0xE8, CHR 0xBF, CHR 0x81, CHR 0xE7, CHR 0xA7, CHR 0xBB, CHR 0xE5, CHR 0x8F, CHR 0xAF,
    CHR 0xE8, CHR 0x83, CHR 0xBD, CHR 0xE7, CHR 0x9B, CHR 0xB4, CHR 0xE6, CHR 0x8E, CHR 0xA5,
    CHR 0xE5, CHR 0xA4, CHR 0xB1, CHR 0xE8, CHR 0xB4, CHR 0xA5, CHR 0xE3, CHR 0x80, CHR 0x82]"

definition txt_index :: string where
  "txt_index = [
    CHR 0xE9, CHR 0xAB, CHR 0x98, CHR 0xE5, CHR 0x86, CHR 0x99, CHR 0xE5, CHR 0x85, CHR 0xA5,
    CHR 0xE8, CHR 0xA1, CHR 0xA8, CHR 0xE7, CHR 0x9B, CHR 0xB4, CHR 0xE6, CHR 0x8E, CHR 0xA5,
    CHR 0xE5, CHR 0x88, CHR 0x9B, CHR 0xE5, CHR 0xBB, CHR 0xBA, CHR 0xE7, CHR 0xB4, CHR 0xA2,
    CHR 0xE5, CHR 0xBC, CHR 0x95, CHR 0xE5, CHR 0x8F, CHR 0xAF, CHR 0xE8, CHR 0x83, CHR 0xBD,
    CHR 0xE6, CHR 0x89, CHR 0xA9, CHR 0xE5, CHR 0xA4, CHR 0xA7, CHR 0xE9, CHR 0x94, CHR 0x81,
    CHR 0xE7, CHR 0xAD, CHR 0x89, CHR 0xE5, CHR 0xBE, CHR 0x85, CHR 0xE7, CHR 0xAA, CHR 0x97,
    CHR 0xE5, CHR 0x8F, CHR 0xA3, CHR 0xE3, CHR 0x80, CHR 0x82]"

definition txt_fk :: string where
  "txt_fk = [
    CHR 0xE7, CHR 0x9B, CHR 0xB4, CHR 0xE6, CHR 0x8E, CHR 0xA5, CHR 0xE6, CHR 0xB7, CHR 0xBB,
    CHR 0xE5, CHR 0x8A, CHR 0xA0, CHR 0xE5, CHR 0xA4, CHR 0x96, CHR 0xE9, CHR 0x94, CHR 0xAE,
    CHR 0xE4, CHR 0xBC, CHR 0x9A, CHR 0xE5, CHR 0x9C, CHR 0xA8, CHR 0xE5, CHR 0x88, CHR 0x9B,
    CHR 0xE5, CHR 0xBB, CHR 0xBA, CHR 0xE6, CHR 0x97, CHR 0xB6, CHR 0xE6, CHR 0x95, CHR 0xB4,
    CHR 0xE8, CHR 0xA1, CHR 0xA8, CHR 0xE6, CHR 0xA0, CHR 0xA1, CHR 0xE9, CHR 0xAA, CHR 0x8C,
    CHR 0xE5, CHR 0xB9, CHR 0xB6, CHR 0xE6, CHR 0x8C, CHR 0x81, CHR 0xE6, CHR 0x9C, CHR 0x89,
    CHR 0xE8, CHR 0xBE, CHR 0x83, CHR 0xE9, CHR 0x95, CHR 0xBF, CHR 0xE6, CHR 0x97, CHR 0xB6,
    CHR 0xE9, CHR 0x97, CHR 0xB4, CHR 0xE9, CHR 0x94, CHR 0x81, CHR 0xE3, CHR 0x80, CHR 0x82]"

definition txt_for_update :: string where
  "txt_for_update = [
    CHR 0x46, CHR 0x4F, CHR 0x52, CHR 0x20, CHR 0x55, CHR 0x50, CHR 0x44, CHR 0x41, CHR 0x54,
    CHR 0x45, CHR 0x20, CHR 0xE7, CHR 0xBC, CHR 0xBA, CHR 0xE5, CHR 0xB0, CHR 0x91, CHR 0x20,
    CHR 0x4C, CHR 0x49, CHR 0x4D, CHR 0x49, CHR 0x54, CHR 0x20, CHR 0xE6, CHR 0x88, CHR 0x96,
    CHR 0xE6, CHR 0x98, CHR 0x8E, CHR 0xE7, CHR 0xA1, CHR 0xAE, CHR 0xE4, CHR 0xB8, CHR 0xBB,
    CHR 0xE9, CHR 0x94, CHR 0xAE, CHR 0xE8, CHR 0x8C, CHR 0x83, CHR 0xE5, CHR 0x9B, CHR 0xB4,
    CHR 0xEF, CHR 0xBC, CHR 0x8C, CHR 0xE5, CHR 0x8F, CHR 0xAF, CHR 0xE8, CHR 0x83, CHR 0xBD,
    CHR 0xE9, CHR 0x94, CHR 0x81, CHR 0xE4, CHR 0xBD, CHR 0x8F, CHR 0xE8, CHR 0xBF, CHR 0x87,
    CHR 0xE9, CHR 0x87, CHR 0x8F, CHR 0xE8, CHR 0xA1, CHR 0x8C, CHR 0xE3, CHR 0x80, CHR 0x82]"

definition txt_heavy :: string where
  "txt_heavy = [
    CHR 0xE9, CHR 0x87, CHR 0x8D, CHR 0xE5, CHR 0x86, CHR 0x99, CHR 0xE5, CHR 0x9E, CHR 0x8B,
    CHR 0x20, CHR 0x44, CHR 0x44, CHR 0x4C, CHR 0x20, CHR 0xE5, CHR 0x8F, CHR 0xAF, CHR 0xE8,
    CHR 0x83, CHR 0xBD, CHR 0xE8, CHR 0xA7, CHR 0xA6, CHR 0xE5, CHR 0x8F, CHR 0x91, CHR 0xE8,
    CHR 0xA1, CHR 0xA8, CHR 0xE9, CHR 0x87, CHR 0x8D, CHR 0xE5, CHR 0x86, CHR 0x99, CHR 0xE4,
    CHR 0xB8, CHR 0x8E, CHR 0xE9, CHR 0x95, CHR 0xBF, CHR 0xE4, CHR 0xBA, CHR 0x8B, CHR 0xE5,
    CHR 0x8A, CHR 0xA1, CHR 0xEF, CHR 0xBC, CHR 0x8C, CHR 0xE9, CHR 0x98, CHR 0xBB, CHR 0xE5,
    CHR 0xA1, CHR 0x9E, CHR 0xE8, CHR 0xAF, CHR 0xBB, CHR 0xE5, CHR 0x86, CHR 0x99, CHR 0xE3,
    CHR 0x80, CHR 0x82]"

definition txt_mixed :: string where
  "txt_mixed = [
    CHR 0xE5, CHR 0x90, CHR 0x8C, CHR 0xE4, CHR 0xB8, CHR 0x80, CHR 0xE5, CHR 0x8F, CHR 0x98,
    CHR 0xE6, CHR 0x9B, CHR 0xB4, CHR 0xE5, CHR 0x90, CHR 0x8C, CHR 0xE6, CHR 0x97, CHR 0xB6,
    CHR 0xE5, CHR 0x8C, CHR 0x85, CHR 0xE5, CHR 0x90, CHR 0xAB, CHR 0x20, CHR 0x44, CHR 0x44,
    CHR 0x4C, CHR 0x20, CHR 0xE4, CHR 0xB8, CHR 0x8E, CHR 0xE5, CHR 0xA4, CHR 0xA7, CHR 0xE6,
    CHR 0x89, CHR 0xB9, CHR 0xE9, CHR 0x87, CHR 0x8F, CHR 0x20, CHR 0x44, CHR 0x4D, CHR 0x4C,
    CHR 0xEF, CHR 0xBC, CHR 0x8C, CHR 0xE4, CHR 0xBA, CHR 0x8B, CHR 0xE5, CHR 0x8A, CHR 0xA1,
    CHR 0xE8, CHR 0xBE, CHR 0xB9, CHR 0xE7, CHR 0x95, CHR 0x8C, CHR 0xE4, CHR 0xB8, CHR 0x8E,
    CHR 0xE5, CHR 0x9B, CHR 0x9E, CHR 0xE6, CHR 0xBB, CHR 0x9A, CHR 0xE6, CHR 0x88, CHR 0x90,
    CHR 0xE6, CHR 0x9C, CHR 0xAC, CHR 0xE9, CHR 0x9A, CHR 0xBE, CHR 0xE4, CHR 0xBB, CHR 0xA5,
    CHR 0xE6, CHR 0x8E, CHR 0xA7, CHR 0xE5, CHR 0x88, CHR 0xB6, CHR 0xE3, CHR 0x80, CHR 0x82]"

definition txt_lock_timeout :: string where
  "txt_lock_timeout = [
    CHR 0xE9, CHR 0xAB, CHR 0x98, CHR 0xE9, CHR 0x94, CHR 0x81, CHR 0xE9, CHR 0xA3, CHR 0x8E,
    CHR 0xE9, CHR 0x99, CHR 0xA9, CHR 0xE8, CHR 0xAF, CHR 0xAD, CHR 0xE5, CHR 0x8F, CHR 0xA5,
    CHR 0xE6, CHR 0x9C, CHR 0xAA, CHR 0xE5, CHR 0xA3, CHR 0xB0, CHR 0xE6, CHR 0x98, CHR 0x8E,
    CHR 0x20, CHR 0x6C, CHR 0x6F, CHR 0x63, CHR 0x6B, CHR 0x5F, CHR 0x74, CHR 0x69, CHR 0x6D,
    CHR 0x65, CHR 0x6F, CHR 0x75, CHR 0x74, CHR 0x2F, CHR 0x73, CHR 0x74, CHR 0x61, CHR 0x74,
    CHR 0x65, CHR 0x6D, CHR 0x65, CHR 0x6E, CHR 0x74, CHR 0x5F, CHR 0x74, CHR 0x69, CHR 0x6D,
    CHR 0x65, CHR 0x6F, CHR 0x75, CHR 0x74, CHR 0xEF, CHR 0xBC, CHR 0x8C, CHR 0xE9, CHR 0x94,
    CHR 0x81, CHR 0xE5, CHR 0x86, CHR 0xB2, CHR 0xE7, CHR 0xAA, CHR 0x81, CHR 0xE6, CHR 0x97,
    CHR 0xB6, CHR 0xE5, CHR 0x8F, CHR 0xAF, CHR 0xE8, CHR 0x83, CHR 0xBD, CHR 0xE9, CHR 0x95,
    CHR 0xBF, CHR 0xE6, CHR 0x97, CHR 0xB6, CHR 0xE9, CHR 0x97, CHR 0xB4, CHR 0xE9, CHR 0x98,
    CHR 0xBB, CHR 0xE5, CHR 0xA1, CHR 0x9E, CHR 0xE4, CHR 0xB8, CHR 0x9A, CHR 0xE5, CHR 0x8A,
    CHR 0xA1, CHR 0xE3, CHR 0x80, CHR 0x82]"

definition txt_lock_timeout_ev :: string where
  "txt_lock_timeout_ev = [
    CHR 0x6C, CHR 0x6F, CHR 0x63, CHR 0x6B, CHR 0x5F, CHR 0x74, CHR 0x69, CHR 0x6D, CHR 0x65,
    CHR 0x6F, CHR 0x75, CHR 0x74, CHR 0x20, CHR 0xE6, CHR 0x9C, CHR 0xAA, CHR 0xE5, CHR 0xA3,
    CHR 0xB0, CHR 0xE6, CHR 0x98, CHR 0x8E]"

definition txt_default_env :: string where
  "txt_default_env = [
    CHR 0xE7, CHR 0x94, CHR 0x9F, CHR 0xE4, CHR 0xBA, CHR 0xA7, CHR 0xE7, CHR 0x8E, CHR 0xAF,
    CHR 0xE5, CHR 0xA2, CHR 0x83]"

definition txt_default_type :: string where
  "txt_default_type = [
    CHR 0xE6, CHR 0xB7, CHR 0xB7, CHR 0xE5, CHR 0x90, CHR 0x88, CHR 0xE5, CHR 0x8F, CHR 0x91,
    CHR 0xE5, CHR 0xB8, CHR 0x83]"

definition txt_test_artifact :: string where
  "txt_test_artifact = [
    CHR 0xE8, CHR 0xA7, CHR 0x84, CHR 0xE5, CHR 0x88, CHR 0x99, CHR 0xE8, CHR 0xAF, CHR 0x95,
    CHR 0xE8, CHR 0xB7, CHR 0x91, CHR 0xE5, CHR 0x88, CHR 0xB6, CHR 0xE5, CHR 0x93, CHR 0x81]"

definition txt_test_rollback :: string where
  "txt_test_rollback = [
    CHR 0xE8, CHR 0xA7, CHR 0x84, CHR 0xE5, CHR 0x88, CHR 0x99, CHR 0xE8, CHR 0xAF, CHR 0x95,
    CHR 0xE8, CHR 0xB7, CHR 0x91, CHR 0xE4, CHR 0xBD, CHR 0xBF, CHR 0xE7, CHR 0x94, CHR 0xA8,
    CHR 0xE7, CHR 0x9A, CHR 0x84, CHR 0xE6, CHR 0xA8, CHR 0xA1, CHR 0xE6, CHR 0x8B, CHR 0x9F,
    CHR 0xE5, CHR 0x9B, CHR 0x9E, CHR 0xE6, CHR 0xBB, CHR 0x9A, CHR 0xE6, CHR 0x96, CHR 0xB9,
    CHR 0xE6, CHR 0xA1, CHR 0x88]"

definition txt_canary :: string where
  "txt_canary = [
    CHR 0xE9, CHR 0x87, CHR 0x91, CHR 0xE4, CHR 0xB8, CHR 0x9D, CHR 0xE9, CHR 0x9B, CHR 0x80,
    CHR 0xE5, CHR 0x8F, CHR 0x91, CHR 0xE5, CHR 0xB8, CHR 0x83]"

definition txt_metric_errors :: string where
  "txt_metric_errors = [
    CHR 0xE9, CHR 0x94, CHR 0x99, CHR 0xE8, CHR 0xAF, CHR 0xAF, CHR 0xE7, CHR 0x8E, CHR 0x87]"

definition txt_metric_p99 :: string where
  "txt_metric_p99 = [
    CHR 0x50, CHR 0x39, CHR 0x39, CHR 0x20, CHR 0xE5, CHR 0xBB, CHR 0xB6, CHR 0xE8, CHR 0xBF,
    CHR 0x9F]"

end
