(* ===== verification/GateChecker.thy ===== *)
theory GateChecker
  imports Redact CheckerTexts
begin

text \<open>
  \<^verbatim>\<open>internal/changegate/checker.go\<close>: the static checks of configuration and Kubernetes artifacts. A check
  returns detections, each with the code of the rule that decides its severity, a detail and an evidence
  that quotes no value of the artifact.
\<close>

section \<open>Detections and evidence\<close>

record detection =
  det_Code :: string
  det_Detail :: string
  det_Evidence :: string

definition detect :: "string \<Rightarrow> string \<Rightarrow> string \<Rightarrow> detection" where
  "detect code detail evidence = \<lparr> det_Code = code, det_Detail = detail, det_Evidence = evidence \<rparr>"

lemma detect_simps [simp]: "det_Code (detect c t v) = c" "det_Evidence (detect c t v) = v" "det_Detail (detect c t v) = t"
  by (simp_all add: detect_def)

definition IsProduction :: "string \<Rightarrow> bool" where
  "IsProduction environment \<longleftrightarrow>
     contains_str (to_lower (trim_space environment)) ''prod'' \<or> contains_str environment txt_env_production"

definition safeLineEvidence :: "string \<Rightarrow> nat \<Rightarrow> string \<Rightarrow> string" where
  "safeLineEvidence name line detail =
     (let name = (if trim_space name = [] then ''artifact'' else trim_space name) in
      if line = 0 then name @ '': '' @ detail else name @ '' line '' @ nat_str line @ '': '' @ detail)"

definition containsDetection :: "detection list \<Rightarrow> string \<Rightarrow> bool" where
  "containsDetection items code \<longleftrightarrow> list_ex (\<lambda>x. det_Code x = code) items"

fun unique_detections :: "string list \<Rightarrow> detection list \<Rightarrow> detection list" where
  "unique_detections seen [] = []"
| "unique_detections seen (x # xs) =
     (let key = det_Code x @ ''|'' @ det_Evidence x in
      if key \<in> set seen then unique_detections seen xs else x # unique_detections (key # seen) xs)"

definition uniqueDetections :: "detection list \<Rightarrow> detection list" where
  "uniqueDetections items = unique_detections [] items"

section \<open>Configuration files\<close>

definition quotes :: string where "quotes = [CHR 0x5C, CHR 0x22, CHR 0x27]"

definition parseAssignment :: "string \<Rightarrow> (string \<times> string) option" where
  "parseAssignment line =
     (let trimmed = trim_space line;
          seps = map the (filter (\<lambda>x. x \<noteq> None) [index_byte trimmed (CHR ''=''), index_byte trimmed (CHR '':'')])
      in if trimmed = [] \<or> has_prefix trimmed ''#'' then None
         else case seps of
                [] \<Rightarrow> None
              | x # xs \<Rightarrow>
                  let separator = foldl min x xs;
                      key = trim_space (trim_cutset (take separator trimmed) quotes);
                      value = trim_space (takeWhile (\<lambda>c. c \<noteq> CHR ''#'') (drop (separator + 1) trimmed))
                  in if separator = 0 \<or> key = [] then None else Some (key, value))"

definition normalizeKey :: "string \<Rightarrow> string" where
  "normalizeKey value = filter (\<lambda>c. c \<notin> set ''_-. '') (to_lower (trim_space value))"

definition normalizeValue :: "string \<Rightarrow> string" where
  "normalizeValue value = to_lower (trim_space (trim_cutset value quotes))"

definition isRedactedMarker :: "string \<Rightarrow> bool" where
  "isRedactedMarker value \<longleftrightarrow>
     normalizeValue value \<in> set [''[redacted]'', ''[redacted_private_key]'', ''[redacted_aws_access_key]'']"

definition isTruthyOrDebug :: "string \<Rightarrow> bool" where
  "isTruthyOrDebug value \<longleftrightarrow>
     value \<in> set [''true'', ''1'', ''on'', ''yes'', ''debug'', ''trace'', ''dev'', ''development'']"

definition isFalse :: "string \<Rightarrow> bool" where
  "isFalse value \<longleftrightarrow> value \<in> set [''false'', ''0'', ''off'', ''no'', ''disabled'']"

definition isDebugKey :: "string \<Rightarrow> bool" where
  "isDebugKey key \<longleftrightarrow>
     key \<in> set [''debug'', ''trace'', ''dev'', ''devmode'', ''development'', ''developmentmode'', ''profiling'', ''verbose'']"

definition authSettingUnsafe :: "string \<Rightarrow> string \<Rightarrow> bool" where
  "authSettingUnsafe key value =
     (if key \<in> set [''auth'', ''authenabled'', ''authentication'', ''authenticationenabled'', ''authorization'',
                    ''authorizationenabled'', ''security'', ''securityenabled'']
      then isFalse value
      else if key \<in> set [''disableauth'', ''authdisabled'', ''allowanonymous'', ''anonymousaccess'', ''anonymousenabled'']
      then isTruthyOrDebug value
      else False)"

definition tlsSettingUnsafe :: "string \<Rightarrow> string \<Rightarrow> bool" where
  "tlsSettingUnsafe key value =
     (if key \<in> set [''skiptlsverify'', ''skipverify'', ''insecureskipverify'', ''tlsinsecure'']
      then isTruthyOrDebug value
      else if key \<in> set [''verifyssl'', ''verifytls'', ''tlsverify'', ''rejectunauthorized''] then isFalse value
      else if key = ''sslmode'' then value \<in> set [''disable'', ''insecure'', ''allow'']
      else False)"

text \<open>The checks of one assignment; \<open>section\<close> is the indentation of the open authentication section, -1
  outside one.\<close>

definition config_line :: "string \<Rightarrow> bool \<Rightarrow> nat \<Rightarrow> int \<Rightarrow> int \<Rightarrow> string \<Rightarrow> string \<Rightarrow> detection list" where
  "config_line name production n section indent key value =
     (let k = normalizeKey key; v = normalizeValue value;
          evidence = (\<lambda>suffix. safeLineEvidence name n (key @ suffix))
      in (if match_string secret_words key \<and> (isRedactedMarker value \<or> \<not> isSecretReference value)
          then [detect ''CONFIG_SECRET_EXPOSURE'' txt_secret_exposure (evidence ''=[REDACTED]'')] else [])
       @ (if production \<and> isDebugKey k \<and> isTruthyOrDebug v
          then [detect ''CONFIG_DEBUG_ENABLED'' txt_debug_enabled (evidence ''=enabled'')] else [])
       @ (if production \<and> (authSettingUnsafe k v \<or> 0 \<le> section \<and> section < indent \<and> k = ''enabled'' \<and> isFalse v)
          then [detect ''CONFIG_AUTH_DISABLED'' txt_auth_disabled (evidence ''=unsafe'')] else [])
       @ (if production \<and> tlsSettingUnsafe k v
          then [detect ''CONFIG_TLS_VERIFY_DISABLED'' txt_tls_disabled (evidence ''=unsafe'')] else []))"

fun config_lines :: "string \<Rightarrow> bool \<Rightarrow> nat \<Rightarrow> int \<Rightarrow> string list \<Rightarrow> detection list" where
  "config_lines name production n section [] = []"
| "config_lines name production n section (raw # lines) =
     (let trimmed = trim_space raw;
          indent = leadingSpaces raw;
          section = (if 0 \<le> section \<and> trimmed \<noteq> [] \<and> \<not> has_prefix trimmed ''#'' \<and> indent \<le> section then -1 else section)
      in case parseAssignment raw of
           None \<Rightarrow> config_lines name production (n + 1) section lines
         | Some (key, value) \<Rightarrow>
             let section = (if normalizeKey key \<in> set [''auth'', ''authentication'', ''authorization'', ''security'']
                               \<and> normalizeValue value = [] then indent else section)
             in config_line name production n section indent key value
                @ config_lines name production (n + 1) section lines)"

definition skipVerifyPattern :: re where
  "skipVerifyPattern =
     seqs [line_begin, Plus posix_space,
           alts [seqs [lit ''skip'', Opt (one_of ''_-''), lit ''verify''],
                 seqs [lit ''insecure'', Opt (one_of ''_-''), lit ''skip'', Opt (one_of ''_-''), lit ''verify'']],
           lit '':'', Star posix_space, alts [lit ''true'', lit ''1'', lit ''on'', lit ''yes''], word_boundary]"

definition CheckConfig :: "string \<Rightarrow> string \<Rightarrow> bool \<Rightarrow> detection list" where
  "CheckConfig content name production =
     (let findings = config_lines name production 1 (-1) (split_on (CHR 0x0A) content) in
      uniqueDetections
        (if production \<and> match_string skipVerifyPattern (to_lower content)
            \<and> \<not> containsDetection findings ''CONFIG_TLS_VERIFY_DISABLED''
         then findings @ [detect ''CONFIG_TLS_VERIFY_DISABLED'' txt_tls_disabled
                            (safeLineEvidence name 0 ''tls verification disabled'')]
         else findings))"

section \<open>Kubernetes manifests\<close>

definition spaces :: string where
  "spaces = [CHR 0x09, CHR 0x0A, CHR 0x0B, CHR 0x0C, CHR 0x0D, CHR 0x20]"

definition documentKindPattern :: "re list" where
  "documentKindPattern =
     [seqs [line_begin, Star posix_space, lit_i ''kind:'', Star posix_space],
      Plus (alts (in_class is_letter # [fold_char (CHR ''k''), fold_char (CHR ''s'')])),
      seqs [Star posix_space, line_end]]"

definition k8sLatestImage :: re where
  "k8sLatestImage =
     seqs [text_begin, Star posix_space, lit_i ''image:'', Star posix_space, Plus (none_of (CHR ''#'' # spaces)),
           lit_i '':latest'', Alt (one_of (CHR ''#'' # spaces)) text_end]"

definition k8sPrivileged :: re where
  "k8sPrivileged =
     seqs [text_begin, Star posix_space, lit_i ''privileged:'', Star posix_space, lit_i ''true'', word_boundary]"

definition k8sHostNamespace :: re where
  "k8sHostNamespace =
     seqs [text_begin, Star posix_space, alts [lit_i ''hostnetwork'', lit_i ''hostpid''], lit '':'', Star posix_space,
           lit_i ''true'', word_boundary]"

definition k8sEscalation :: re where
  "k8sEscalation =
     seqs [text_begin, Star posix_space, lit_i ''allowprivilegeescalation:'', Star posix_space, lit_i ''true'',
           word_boundary]"

definition k8sRoot :: re where
  "k8sRoot =
     seqs [text_begin, Star posix_space,
           alts [seqs [lit_i ''runasuser:'', Star posix_space, lit ''0'', word_boundary],
                 seqs [lit_i ''runasnonroot:'', Star posix_space, lit_i ''false'', word_boundary]]]"

definition k8sHostPath :: re where
  "k8sHostPath = seqs [text_begin, Star posix_space, lit_i ''hostpath:'', Star posix_space, text_end]"

definition k8sReplicas :: "re list" where
  "k8sReplicas =
     [seqs [line_begin, Star posix_space, lit_i ''replicas:'', Star posix_space], Plus (in_class is_digit), word_boundary]"

definition kubernetesKind :: "string \<Rightarrow> string" where
  "kubernetesKind doc = (case submatch documentKindPattern doc of Some g \<Rightarrow> g ! 1 | None \<Rightarrow> [])"

definition isPodSpecKind :: "string \<Rightarrow> bool" where
  "isPodSpecKind kind \<longleftrightarrow> to_lower kind \<in>
     set [''deployment'', ''statefulset'', ''replicaset'', ''daemonset'', ''job'', ''cronjob'', ''pod'']"

definition requiresHealthProbes :: "string \<Rightarrow> bool" where
  "requiresHealthProbes kind \<longleftrightarrow> to_lower kind \<in> set [''deployment'', ''statefulset'', ''replicaset'', ''daemonset'', ''pod'']"

definition requiresReplicaSafety :: "string \<Rightarrow> bool" where
  "requiresReplicaSafety kind \<longleftrightarrow> to_lower kind \<in> set [''deployment'', ''statefulset'', ''replicaset'']"

fun first_matching :: "nat \<Rightarrow> re \<Rightarrow> string list \<Rightarrow> nat option" where
  "first_matching n pattern [] = None"
| "first_matching n pattern (raw # lines) =
     (if match_string pattern (trim_space raw) then Some n else first_matching (n + 1) pattern lines)"

definition firstMatchingLine :: "string list \<Rightarrow> re \<Rightarrow> nat option" where
  "firstMatchingLine lines pattern = first_matching 1 pattern lines"

text \<open>The items of the \<^verbatim>\<open>containers\<close> and \<^verbatim>\<open>initContainers\<close> lists: whether the line is in such a list, the
  indentation of the list and of its items (-1 before the first), and the lines of the current item.\<close>

type_synonym block_state = "bool \<times> int \<times> int \<times> string list"

definition flush :: "string list \<Rightarrow> string list list" where
  "flush current = (if current = [] then [] else [current])"

definition container_step :: "block_state \<Rightarrow> string \<Rightarrow> string list list \<times> block_state" where
  "container_step st line =
     (let (inside, sec, item, current) = st;
          trimmed = trim_space line;
          indent = leadingSpaces line;
          lower = to_lower (trim_suffix trimmed '':'');
          starts = (has_prefix trimmed ''- '' \<and> sec \<le> indent);
          item' = (if starts \<and> item < 0 then indent else item)
      in if lower = ''containers'' \<or> lower = ''initcontainers'' then (flush current, (True, indent, -1, []))
         else if \<not> inside then ([], st)
         else if starts \<and> indent = item' then (flush current, (inside, sec, item', [trim_prefix trimmed ''- '']))
         else if trimmed \<noteq> [] \<and> \<not> has_prefix trimmed ''#'' \<and> indent \<le> sec
         then (flush current, (False, sec, item', []))
         else ([], (inside, sec, item', if current = [] then [] else current @ [line])))"

fun container_blocks :: "block_state \<Rightarrow> string list \<Rightarrow> string list list" where
  "container_blocks st [] = flush (snd (snd (snd st)))"
| "container_blocks st (line # lines) =
     (let (out, st') = container_step st line in out @ container_blocks st' lines)"

definition containerBlocks :: "string list \<Rightarrow> string list list" where
  "containerBlocks lines = container_blocks (False, -1, -1, []) lines"

fun containerBlockName :: "string list \<Rightarrow> string" where
  "containerBlockName [] = []"
| "containerBlockName (line # lines) =
     (case parseAssignment line of
        Some (key, value) \<Rightarrow> if equal_fold key ''name'' then trim_cutset value quotes else containerBlockName lines
      | None \<Rightarrow> containerBlockName lines)"

definition line_checks :: "(re \<times> string \<times> string \<times> string) list" where
  "line_checks =
     [(k8sLatestImage, ''K8S_LATEST_IMAGE'', txt_k8s_latest, ''image=:latest''),
      (k8sPrivileged, ''K8S_PRIVILEGED'', txt_k8s_privileged, ''privileged=true''),
      (k8sHostNamespace, ''K8S_HOST_NAMESPACE'', txt_k8s_host_ns, ''host namespace=true''),
      (k8sEscalation, ''K8S_PRIVILEGE_ESCALATION'', txt_k8s_escalation, ''allowPrivilegeEscalation=true''),
      (k8sRoot, ''K8S_RUN_AS_ROOT'', txt_k8s_root, ''runAsRoot=true''),
      (k8sHostPath, ''K8S_HOST_PATH'', txt_k8s_host_path, ''hostPath volume'')]"

definition check_lines :: "string \<Rightarrow> string list \<Rightarrow> detection list" where
  "check_lines name lines =
     concat (map (\<lambda>(pattern, code, detail, label).
        case firstMatchingLine lines pattern of
          None \<Rightarrow> []
        | Some line \<Rightarrow> [detect code detail (safeLineEvidence name line label)]) line_checks)"

definition check_block :: "string \<Rightarrow> string \<Rightarrow> nat \<times> string list \<Rightarrow> detection list" where
  "check_block name kind ib =
     (let (index, block) = ib;
          lower = to_lower (join_str newline block);
          parsed = containerBlockName block;
          containerName = (if parsed \<noteq> [] then parsed else ''container#'' @ nat_str (index + 1))
      in (if \<not> contains_str lower ''resources:'' \<or> \<not> contains_str lower ''requests:'' \<or> \<not> contains_str lower ''limits:''
          then [detect ''K8S_RESOURCE_LIMITS'' txt_k8s_resources
                  (safeLineEvidence name 0 (containerName @ '' resources incomplete''))] else [])
       @ (if requiresHealthProbes kind
             \<and> (\<not> contains_str lower ''readinessprobe:'' \<or> \<not> contains_str lower ''livenessprobe:'')
          then [detect ''K8S_HEALTH_PROBES'' txt_k8s_probes
                  (safeLineEvidence name 0 (containerName @ '' health probes incomplete''))] else []))"

definition replicas_of :: "string \<Rightarrow> nat" where
  "replicas_of doc =
     (case submatch k8sReplicas doc of None \<Rightarrow> 1 | Some g \<Rightarrow> min (digits_val (g ! 1)) (2 ^ 63 - 1))"

definition check_containers :: "string \<Rightarrow> string \<Rightarrow> string list \<Rightarrow> detection list" where
  "check_containers name kind lines =
     (let blocks = containerBlocks lines in
      (if blocks = []
       then [detect ''K8S_RESOURCE_LIMITS'' txt_k8s_no_blocks
               (safeLineEvidence name 0 (kind @ '' containers missing''))] else [])
      @ concat (map (check_block name kind) (enumerate 0 blocks)))"

definition check_replicas :: "string \<Rightarrow> bool \<Rightarrow> string \<Rightarrow> string \<Rightarrow> detection list" where
  "check_replicas name production kind doc =
     (if production \<and> requiresReplicaSafety kind \<and> replicas_of doc \<le> 1
      then [detect ''K8S_SINGLE_REPLICA'' txt_k8s_single
              (safeLineEvidence name 0 (kind @ '' replicas='' @ nat_str (replicas_of doc)))] else [])"

definition check_document :: "string \<Rightarrow> bool \<Rightarrow> string \<Rightarrow> detection list" where
  "check_document name production doc =
     (let found = kubernetesKind doc;
          kind = (if found = [] then ''PodSpecFragment'' else found);
          lines = split_on (CHR 0x0A) doc
      in if found \<noteq> [] \<and> \<not> isPodSpecKind found then []
         else check_lines name lines @ check_containers name kind lines @ check_replicas name production kind doc)"

definition CheckKubernetes :: "string \<Rightarrow> string \<Rightarrow> bool \<Rightarrow> detection list" where
  "CheckKubernetes content name production =
     uniqueDetections (concat (map (check_document name production) (splitYAMLDocuments content)))"

section \<open>Which rules a check reports\<close>

definition det_key :: "detection \<Rightarrow> string" where
  "det_key x = det_Code x @ CHR ''|'' # det_Evidence x"

definition plain_code :: "detection \<Rightarrow> bool" where
  "plain_code x \<longleftrightarrow> CHR ''|'' \<notin> set (det_Code x)"

lemma unique_detections_Cons:
  "unique_detections seen (x # xs) =
     (if det_key x \<in> set seen then unique_detections seen xs else x # unique_detections (det_key x # seen) xs)"
  by (simp add: det_key_def Let_def)

declare unique_detections.simps(2) [simp del]

text \<open>Dropping repeated detections loses no code, because no code contains the separator of the key.\<close>

lemma unique_detections_codes:
  "list_all plain_code (xs @ ys) \<Longrightarrow>
   det_Code ` set (unique_detections (map det_key ys) xs) \<union> det_Code ` set ys = det_Code ` set (xs @ ys)"
proof (induction xs arbitrary: ys)
  case (Cons x xs)
  show ?case
  proof (cases "det_key x \<in> det_key ` set ys")
    case True
    then obtain y where y: "y \<in> set ys" "det_key y = det_key x" by (metis imageE)
    then have "det_Code y = det_Code x"
      using Cons.prems append_sep_inj [of "CHR ''|''" "det_Code y" "det_Code x" "det_Evidence y" "det_Evidence x"]
      by (auto simp: det_key_def plain_code_def list_all_iff)
    then have "det_Code x \<in> det_Code ` set ys" using y(1) by (metis imageI)
    with True Cons.IH [of ys] Cons.prems show ?thesis by (auto simp: unique_detections_Cons)
  next
    case False
    with Cons.IH [of "x # ys"] Cons.prems show ?thesis by (auto simp: unique_detections_Cons)
  qed
qed simp

lemma containsDetection_iff: "containsDetection xs code \<longleftrightarrow> code \<in> det_Code ` set xs"
  by (auto simp: containsDetection_def list_ex_iff)

lemma contains_unique:
  assumes "list_all plain_code xs"
  shows "containsDetection (uniqueDetections xs) code \<longleftrightarrow> code \<in> det_Code ` set xs"
  using unique_detections_codes [of xs "[]"] assms by (simp add: uniqueDetections_def containsDetection_iff)

lemma concat_codes: "c \<in> det_Code ` set (concat (map f xs)) \<longleftrightarrow> (\<exists>x\<in>set xs. c \<in> det_Code ` set (f x))"
  by auto

lemma first_matching_None: "first_matching n p xs = None \<longleftrightarrow> (\<forall>x\<in>set xs. \<not> match_string p (trim_space x))"
  by (induction n p xs rule: first_matching.induct) auto

definition matches :: "re \<Rightarrow> string list \<Rightarrow> bool" where
  "matches p lines \<longleftrightarrow> (\<exists>x\<in>set lines. match_string p (trim_space x))"

lemma check_line_codes:
  "code \<in> det_Code ` set (case firstMatchingLine lines p of None \<Rightarrow> []
      | Some line \<Rightarrow> [detect c t (safeLineEvidence name line l)]) \<longleftrightarrow> c = code \<and> matches p lines"
  using first_matching_None [of 1 p lines]
  by (cases "firstMatchingLine lines p") (auto simp: firstMatchingLine_def matches_def)

lemma check_lines_codes:
  "code \<in> det_Code ` set (check_lines name lines) \<longleftrightarrow> (\<exists>p t l. (p, code, t, l) \<in> set line_checks \<and> matches p lines)"
  unfolding check_lines_def concat_codes by (simp only: Bex_def split_paired_Ex case_prod_conv check_line_codes) blast

definition scanned :: "string \<Rightarrow> bool" where
  "scanned doc \<longleftrightarrow> kubernetesKind doc = [] \<or> isPodSpecKind (kubernetesKind doc)"

definition other_codes :: "string set" where
  "other_codes = {''K8S_RESOURCE_LIMITS'', ''K8S_HEALTH_PROBES'', ''K8S_SINGLE_REPLICA''}"

lemma check_block_codes: "det_Code ` set (check_block name kind ib) \<subseteq> other_codes"
  by (cases ib) (auto simp: check_block_def Let_def other_codes_def)

lemma check_rest_codes:
  "det_Code ` set (check_containers name kind lines) \<subseteq> other_codes"
  "det_Code ` set (check_replicas name production kind doc) \<subseteq> other_codes"
proof -
  have "det_Code ` set (concat (map (check_block name kind) bs)) \<subseteq> other_codes" for bs
    using check_block_codes [of name kind] by (simp add: image_UN) blast
  then show "det_Code ` set (check_containers name kind lines) \<subseteq> other_codes"
    by (auto simp: check_containers_def Let_def image_Un other_codes_def)
  show "det_Code ` set (check_replicas name production kind doc) \<subseteq> other_codes"
    by (auto simp: check_replicas_def other_codes_def)
qed

lemma check_document_codes:
  assumes "code \<notin> other_codes"
  shows "code \<in> det_Code ` set (check_document name production doc) \<longleftrightarrow>
      scanned doc \<and> code \<in> det_Code ` set (check_lines name (split_on (CHR 0x0A) doc))"
proof (cases "scanned doc")
  case True
  define kind where "kind = (if kubernetesKind doc = [] then ''PodSpecFragment'' else kubernetesKind doc)"
  have "check_document name production doc = check_lines name (split_on (CHR 0x0A) doc)
      @ check_containers name kind (split_on (CHR 0x0A) doc) @ check_replicas name production kind doc"
    using True by (auto simp: check_document_def scanned_def Let_def kind_def)
  then have "code \<in> det_Code ` set (check_document name production doc) \<longleftrightarrow> code \<in> det_Code ` set (check_lines name (split_on (CHR 0x0A) doc))"
    using assms check_rest_codes(1) [of name kind "split_on (CHR 0x0A) doc"] check_rest_codes(2) [of name production kind doc]
    by (simp only: set_append image_Un) blast
  with True show ?thesis by blast
qed (simp add: check_document_def scanned_def Let_def)

lemma line_check_codes:
  "(p, code, t, l) \<in> set line_checks \<Longrightarrow> code \<notin> other_codes \<and> CHR ''|'' \<notin> set code"
  "(p, code, t, l) \<in> set line_checks \<Longrightarrow> (p', code, t', l') \<in> set line_checks \<Longrightarrow> p' = p"
  by (auto simp: line_checks_def other_codes_def)

text \<open>A Kubernetes artifact is reported for a latest image, a privileged container, a host namespace,
  privilege escalation, root or a host path exactly when a line of one of its scanned documents matches the
  pattern of that rule; a document of another kind is never scanned, one without a kind always.\<close>

lemma CheckKubernetes_reports:
  assumes rule: "(p, code, t, l) \<in> set line_checks"
  shows "containsDetection (CheckKubernetes content name production) code \<longleftrightarrow>
    (\<exists>doc\<in>set (splitYAMLDocuments content). scanned doc
       \<and> matches p (split_on (CHR 0x0A) doc))"
proof -
  let ?all = "concat (map (check_document name production) (splitYAMLDocuments content))"
  have "CHR ''|'' \<notin> set c" if "c \<in> det_Code ` set (check_document name production doc)" for c doc
  proof (cases "c \<in> other_codes")
    case False
    then show ?thesis using that check_document_codes check_lines_codes line_check_codes(1) by metis
  qed (auto simp: other_codes_def)
  then have plain: "list_all plain_code ?all"
    by (auto simp: list_all_iff plain_code_def)
  have "(\<exists>p t l. (p, code, t, l) \<in> set line_checks \<and> matches p lines) \<longleftrightarrow> matches p lines" for lines
    using rule line_check_codes(2) [OF rule] by blast
  then have "code \<in> det_Code ` set (check_document name production doc) \<longleftrightarrow>
      scanned doc \<and> matches p (split_on (CHR 0x0A) doc)" for doc
    using check_document_codes [of code name production doc] line_check_codes(1) [OF rule]
    by (simp only: check_lines_codes simp_thms)
  then show ?thesis
    unfolding CheckKubernetes_def contains_unique [OF plain] concat_codes by (rule bex_cong [OF refl])
qed

lemma CheckKubernetes_reports_witness:
  "(k8sPrivileged, ''K8S_PRIVILEGED'', txt_k8s_privileged, ''privileged=true'') \<in> set line_checks
   \<and> containsDetection (CheckKubernetes ''privileged: true'' ''pod'' False) ''K8S_PRIVILEGED''"
proof -
  have rule: "(k8sPrivileged, ''K8S_PRIVILEGED'', txt_k8s_privileged, ''privileged=true'') \<in> set line_checks"
    by (simp add: line_checks_def)
  have "splitYAMLDocuments ''privileged: true'' = [''privileged: true'']" by code_simp
  moreover have "scanned ''privileged: true''" unfolding scanned_def by (rule disjI1) code_simp
  moreover have "match_string k8sPrivileged (trim_space ''privileged: true'')" by code_simp
  moreover have "split_on (CHR 0x0A) ''privileged: true'' = [''privileged: true'']" by simp
  ultimately have "\<exists>doc\<in>set (splitYAMLDocuments ''privileged: true''). scanned doc \<and> matches k8sPrivileged (split_on (CHR 0x0A) doc)"
    by (simp add: matches_def)
  with rule CheckKubernetes_reports [OF rule] show ?thesis by blast
qed

end
