(* ===== verification/Checker.thy ===== *)
theory Checker
  imports GateChecker Access
begin

text \<open>
  \<^verbatim>\<open>internal/checker/checker.go\<close>: the rule check of a change. The checker collects hits, each a rule with
  a detail and an evidence, in the order in which the code appends findings; numbering the hits gives the
  findings. Rules may carry a regular expression written by a user; \<open>compile\<close>, a parameter, is what
  \<^verbatim>\<open>regexp.Compile\<close> makes of one: a matcher, or none for an invalid expression.
\<close>

section \<open>Inputs and results\<close>

record check_context =
  ctx_Environment :: string
  ctx_ChangeType :: string
  ctx_ArtifactKind :: string

record release_input =
  rel_SQL :: string
  rel_RollbackSQL :: string
  rel_RollbackPlan :: string
  rel_Artifacts :: "change_artifact list"
  rel_ReleasePlan :: release_plan

record check_result =
  res_Statements :: "string list"
  res_Findings :: "finding list"
  res_Risk :: risk_level
  res_MatchedPolicyCodes :: "string list"

type_synonym regexp_compile = "string \<Rightarrow> (string \<Rightarrow> bool) option"

record hit =
  hit_rule :: risk_policy
  hit_detail :: string
  hit_evidence :: string

definition new_hit :: "string \<Rightarrow> string \<Rightarrow> risk_policy \<Rightarrow> hit" where
  "new_hit detail evidence p = \<lparr> hit_rule = p, hit_detail = detail, hit_evidence = evidence \<rparr>"

lemma new_hit_simps [simp]: "hit_rule (new_hit t v p) = p" "hit_detail (new_hit t v p) = t" "hit_evidence (new_hit t v p) = v"
  by (simp_all add: new_hit_def)

fun risk_rank :: "risk_level \<Rightarrow> nat" where
  "risk_rank RiskUnset = 0" | "risk_rank RiskUnknown = 0" | "risk_rank RiskLow = 1"
| "risk_rank RiskMedium = 2" | "risk_rank RiskHigh = 3"

definition maxRisk :: "risk_level \<Rightarrow> risk_level \<Rightarrow> risk_level" where
  "maxRisk left right = (if risk_rank left < risk_rank right then right else left)"

definition containsFold :: "string list \<Rightarrow> string \<Rightarrow> bool" where
  "containsFold items value \<longleftrightarrow> list_ex (\<lambda>item. equal_fold (trim_space item) (trim_space value)) items"

definition policyApplies :: "risk_policy \<Rightarrow> check_context \<Rightarrow> bool" where
  "policyApplies p c \<longleftrightarrow>
     \<not> (pol_ArtifactKinds p \<noteq> [] \<and> \<not> containsFold (pol_ArtifactKinds p) (ctx_ArtifactKind c))
     \<and> \<not> (pol_Environments p \<noteq> [] \<and> \<not> containsFold (pol_Environments p) (ctx_Environment c))
     \<and> \<not> (pol_ChangeTypes p \<noteq> [] \<and> \<not> containsFold (pol_ChangeTypes p) (ctx_ChangeType c))"

definition applicablePolicy :: "risk_policy list \<Rightarrow> string \<Rightarrow> check_context \<Rightarrow> risk_policy option" where
  "applicablePolicy policies code c = List.find (\<lambda>p. pol_Code p = code \<and> pol_Enabled p \<and> policyApplies p c) policies"

definition defaultValue :: "string \<Rightarrow> string \<Rightarrow> string" where
  "defaultValue value fallback = (if trim_space value = [] then fallback else trim_space value)"

fun unique_codes :: "string list \<Rightarrow> string list \<Rightarrow> string list" where
  "unique_codes seen [] = []"
| "unique_codes seen (x # xs) =
     (if x \<noteq> [] \<and> x \<notin> set seen then x # unique_codes (x # seen) xs else unique_codes seen xs)"

definition uniqueCodes :: "string list \<Rightarrow> string list" where
  "uniqueCodes items = unique_codes [] items"

text \<open>\<^verbatim>\<open>strings.Fields\<close>: the text between white space.\<close>

function fields_from :: "string \<Rightarrow> string \<Rightarrow> string list" where
  "fields_from word s =
     (if s = [] then (if word = [] then [] else [word])
      else if ws_len s \<noteq> 0 then (if word = [] then [] else [word]) @ fields_from [] (drop (ws_len s) s)
      else fields_from (word @ [hd s]) (tl s))"
  by pat_completeness auto
termination by (relation "measure (\<lambda>(w, s). length s)") auto

declare fields_from.simps [simp del]

definition compact :: "string \<Rightarrow> string" where
  "compact value =
     (let value = join_str '' '' (fields_from [] (Redact value)) in
      if 180 < length value then take 177 value @ ''...'' else value)"

definition compactMatch :: "change_artifact \<Rightarrow> string \<Rightarrow> string" where
  "compactMatch a m =
     (let name = (if trim_space (art_Name a) = [] then art_Kind a else trim_space (art_Name a))
      in compact (name @ '': '' @ m))"

definition findingFromPolicy :: "senv \<Rightarrow> nat \<Rightarrow> hit \<Rightarrow> finding" where
  "findingFromPolicy h n x =
     \<lparr> fnd_ID = NewID h ''ev_rule_'' n, fnd_Code = pol_Code (hit_rule x), fnd_Severity = pol_Severity (hit_rule x),
       fnd_Title = pol_Name (hit_rule x),
       fnd_Detail = (if trim_space (hit_detail x) = [] then pol_Description (hit_rule x) else hit_detail x),
       fnd_Evidence = hit_evidence x, fnd_Suggestion = pol_Suggestion (hit_rule x),
       fnd_Blocking = pol_Blocking (hit_rule x), fnd_RuleVersion = pol_Version (hit_rule x),
       fnd_Status = FindingOpen, fnd_OwnerID = [], fnd_OwnerName = [], fnd_DueAt = None, fnd_Resolution = [],
       fnd_ResolvedAt = None, fnd_VerifiedByID = [], fnd_VerifiedByName = [], fnd_VerificationComment = [],
       fnd_VerifiedAt = None, fnd_UpdatedAt = se_now h \<rparr>"

definition findings_of :: "senv \<Rightarrow> nat \<Rightarrow> hit list \<Rightarrow> finding list" where
  "findings_of h n hits = map (\<lambda>(i, x). findingFromPolicy h i x) (enumerate n hits)"

definition risk_of :: "risk_level \<Rightarrow> hit list \<Rightarrow> risk_level" where
  "risk_of start hits = foldl (\<lambda>r x. maxRisk r (pol_Severity (hit_rule x))) start hits"

section \<open>Splitting into statements\<close>

text \<open>The four flags of the scanner, of which at most one is set.\<close>

datatype sql_mode = Plain | Single | Double | LineComment | BlockComment

text \<open>One step of the scanner: the next mode, whether the following byte is consumed too, and whether the
  statement ends here (the byte is then not part of it).\<close>

definition sql_step :: "sql_mode \<Rightarrow> char \<Rightarrow> char option \<Rightarrow> sql_mode \<times> bool \<times> bool" where
  "sql_step mode c following =
     (if mode = LineComment then (if c = CHR 0x0A then Plain else LineComment, False, False)
      else if mode = BlockComment then
        (if c = CHR ''*'' \<and> following = Some (CHR ''/'') then (Plain, True, False) else (BlockComment, False, False))
      else if mode = Plain \<and> c = CHR ''-'' \<and> following = Some (CHR ''-'') then (LineComment, True, False)
      else if mode = Plain \<and> c = CHR ''/'' \<and> following = Some (CHR ''*'') then (BlockComment, True, False)
      else if c = CHR 0x27 \<and> mode \<noteq> Double then
        (if mode = Single \<and> following = Some (CHR 0x27) then (Single, True, False)
         else (if mode = Single then Plain else Single, False, False))
      else if c = CHR 0x22 \<and> mode \<noteq> Single then (if mode = Double then Plain else Double, False, False)
      else if c = CHR '';'' \<and> mode = Plain then (Plain, False, True)
      else (mode, False, False))"

definition next_byte :: "string \<Rightarrow> char option" where
  "next_byte s = (case s of [] \<Rightarrow> None | c # _ \<Rightarrow> Some c)"

function split_from :: "sql_mode \<Rightarrow> string \<Rightarrow> string \<Rightarrow> string list" where
  "split_from mode buf [] = (if trim_space buf \<noteq> [] then [trim_space buf] else [])"
| "split_from mode buf (c # s) =
     (let (mode', two, cut) = sql_step mode c (next_byte s) in
      if cut then (if trim_space buf \<noteq> [] then [trim_space buf @ '';''] else []) @ split_from mode' [] s
      else if two then split_from mode' (buf @ c # take 1 s) (drop 1 s)
      else split_from mode' (buf @ [c]) s)"
  by pat_completeness auto
termination by (relation "measure (\<lambda>(m, b, s). length s)") auto

declare split_from.simps [simp del]

definition SplitStatements :: "string \<Rightarrow> string list" where
  "SplitStatements input = split_from Plain [] input"

section \<open>The patterns of the SQL checks\<close>

text \<open>All of them are case-insensitive; \<open>kw\<close> is a keyword, \<open>sp\<close> is \<open>\\s+\<close>, \<open>ident\<close> an unquoted identifier.\<close>

definition kw :: "string \<Rightarrow> re" where "kw s = lit_i s"
definition sp :: re where "sp = Plus perl_space"

definition fold_extra :: "re list" where
  "fold_extra = [fold_char (CHR ''k''), fold_char (CHR ''s'')]"

definition ident :: re where
  "ident = seqs [alts (in_class (\<lambda>c. is_letter c \<or> c = CHR ''_'') # fold_extra),
                 Star (alts (in_class (\<lambda>c. is_word c \<or> c = CHR ''$'') # fold_extra))]"

definition foreignKeyPattern :: re where
  "foreignKeyPattern =
     alts [seqs [word_boundary, kw ''FOREIGN'', sp, kw ''KEY'', word_boundary],
           seqs [word_boundary, kw ''REFERENCES'', sp, ident]]"

definition addConstraintPattern :: re where
  "addConstraintPattern =
     alts [seqs [word_boundary, kw ''ADD'', sp, Opt (seqs [kw ''CONSTRAINT'', sp, ident, sp]), kw ''FOREIGN'', sp,
                 kw ''KEY'', word_boundary],
           seqs [word_boundary, kw ''ADD'', sp, kw ''CONSTRAINT'', sp, ident, sp, kw ''FOREIGN'', sp, kw ''KEY'',
                 word_boundary]]"

definition notValidPattern :: re where
  "notValidPattern = seqs [word_boundary, kw ''NOT'', sp, kw ''VALID'', word_boundary]"

definition forUpdatePattern :: re where
  "forUpdatePattern =
     seqs [word_boundary, kw ''FOR'', sp, kw ''UPDATE'', Opt (seqs [sp, kw ''OF'', sp, ident]),
           Opt (alts [seqs [sp, kw ''NOWAIT''], seqs [sp, kw ''SKIP'', sp, kw ''LOCKED'']]), word_boundary]"

definition limitPattern :: re where
  "limitPattern = seqs [word_boundary, kw ''LIMIT'', sp, Plus (in_class is_digit), word_boundary]"

definition batchHintPattern :: re where
  "batchHintPattern =
     seqs [word_boundary,
           alts [kw ''BATCH'', kw ''CHUNK'', kw ''ROWNUM'',
                 seqs [kw ''FETCH'', sp, kw ''FIRST'', sp, Plus (in_class is_digit), sp, kw ''ROWS'', sp, kw ''ONLY'']],
           word_boundary]"

definition heavyDDLPattern :: re where
  "heavyDDLPattern =
     seqs [word_boundary,
           alts [seqs [kw ''VACUUM'', sp, kw ''FULL''],
                 seqs [kw ''CLUSTER'', sp, ident],
                 seqs [kw ''REINDEX'', sp, alts [kw ''TABLE'', kw ''INDEX'', kw ''DATABASE'', kw ''SYSTEM''], word_boundary],
                 seqs [kw ''ALTER'', sp, kw ''TABLE'', Star any_rune, kw ''ALTER'', sp, kw ''COLUMN'', Star any_rune,
                       kw ''TYPE'', word_boundary]]]"

definition timeout_pattern :: "string \<Rightarrow> re" where
  "timeout_pattern setting =
     seqs [word_boundary,
           alts [seqs [kw ''SET'', Opt (seqs [sp, kw ''LOCAL'']), sp, kw setting, word_boundary],
                 seqs [kw setting, Star perl_space, lit ''='']]]"

definition lockTimeoutPattern :: re where "lockTimeoutPattern = timeout_pattern ''lock_timeout''"
definition statementTimeoutPattern :: re where "statementTimeoutPattern = timeout_pattern ''statement_timeout''"

definition ddlVerbPattern :: re where
  "ddlVerbPattern =
     seqs [text_begin, Star perl_space,
           alts [kw ''CREATE'', kw ''ALTER'', kw ''DROP'', kw ''REINDEX'', kw ''CLUSTER'', kw ''VACUUM'', kw ''TRUNCATE''],
           word_boundary]"

definition whereClausePattern :: re where
  "whereClausePattern = seqs [word_boundary, kw ''WHERE'', word_boundary]"

definition hasPrimaryKeyPredicate :: "string \<Rightarrow> bool" where
  "hasPrimaryKeyPredicate upper \<longleftrightarrow>
     list_ex (contains_str upper) ['' ID ='', '' ID='', ''.ID ='', ''.ID='', '' PK ='', '' PK='', ''_ID ='', ''_ID='', '' PRIMARY KEY'']"

section \<open>What the checks look at in a statement\<close>

definition is_update :: "string \<Rightarrow> bool" where
  "is_update stmt \<longleftrightarrow> has_prefix (trim_space (to_upper stmt)) ''UPDATE ''"

definition is_delete :: "string \<Rightarrow> bool" where
  "is_delete stmt \<longleftrightarrow>
     has_prefix (trim_space (to_upper stmt)) ''DELETE FROM '' \<or> has_prefix (trim_space (to_upper stmt)) ''DELETE ''"

definition has_where :: "string \<Rightarrow> bool" where
  "has_where stmt = match_string whereClausePattern stmt"

definition has_batch_bound :: "string \<Rightarrow> bool" where
  "has_batch_bound stmt \<longleftrightarrow> match_string limitPattern stmt \<or> match_string batchHintPattern stmt"

definition unbatched :: "string \<Rightarrow> bool" where
  "unbatched stmt \<longleftrightarrow> (is_update stmt \<or> is_delete stmt) \<and> has_where stmt \<and> \<not> has_batch_bound stmt"

definition bounded_dml :: "string \<Rightarrow> bool" where
  "bounded_dml stmt \<longleftrightarrow> (is_update stmt \<or> is_delete stmt) \<and> has_batch_bound stmt"

definition not_null_without_default :: "string \<Rightarrow> bool" where
  "not_null_without_default stmt \<longleftrightarrow> (let upper = to_upper stmt in
     contains_str upper '' ADD '' \<and> contains_str upper '' NOT NULL'' \<and> \<not> contains_str upper '' DEFAULT '')"

definition index_not_concurrent :: "string \<Rightarrow> bool" where
  "index_not_concurrent stmt \<longleftrightarrow> (let upper = to_upper stmt in
     (contains_str upper ''CREATE INDEX '' \<or> contains_str upper ''CREATE UNIQUE INDEX '')
     \<and> \<not> contains_str upper ''INDEX CONCURRENTLY '')"

definition fk_without_not_valid :: "string \<Rightarrow> bool" where
  "fk_without_not_valid stmt \<longleftrightarrow> (let upper = to_upper stmt in
     (match_string addConstraintPattern stmt \<or> contains_str upper ''ADD CONSTRAINT'' \<and> match_string foreignKeyPattern stmt
      \<or> contains_str upper ''FOREIGN KEY'' \<and> contains_str upper ''REFERENCES'')
     \<and> \<not> match_string notValidPattern stmt)"

definition unbounded_for_update :: "string \<Rightarrow> bool" where
  "unbounded_for_update stmt \<longleftrightarrow>
     match_string forUpdatePattern stmt \<and> \<not> match_string limitPattern stmt \<and> \<not> hasPrimaryKeyPredicate (to_upper stmt)"

definition heavy_ddl :: "string \<Rightarrow> bool" where
  "heavy_ddl stmt = match_string heavyDDLPattern stmt"

definition ddl_verb :: "string \<Rightarrow> bool" where
  "ddl_verb stmt = match_string ddlVerbPattern stmt"

definition sets_ddl :: "string \<Rightarrow> bool" where
  "sets_ddl stmt \<longleftrightarrow> index_not_concurrent stmt \<or> fk_without_not_valid stmt \<or> heavy_ddl stmt \<or> ddl_verb stmt"

definition sets_bulk :: "string \<Rightarrow> bool" where
  "sets_bulk stmt \<longleftrightarrow> unbatched stmt \<or> bounded_dml stmt"

definition needs_timeout :: "string \<Rightarrow> bool" where
  "needs_timeout stmt \<longleftrightarrow> unbatched stmt \<or> bounded_dml stmt \<or> not_null_without_default stmt \<or> index_not_concurrent stmt
     \<or> fk_without_not_valid stmt \<or> unbounded_for_update stmt \<or> heavy_ddl stmt
     \<or> ddl_verb stmt \<and> (let upper = to_upper stmt in contains_str upper ''ALTER TABLE'' \<or> contains_str upper ''DROP INDEX''
                         \<or> contains_str upper ''CREATE INDEX'')"

section \<open>The check of SQL\<close>

text \<open>The rule a code stands for is the last applicable one with that code.\<close>

definition active_rule :: "risk_policy list \<Rightarrow> string \<Rightarrow> risk_policy option" where
  "active_rule rules code = List.find (\<lambda>p. pol_Code p = code) (rev rules)"

definition add_if :: "bool \<Rightarrow> risk_policy list \<Rightarrow> string \<Rightarrow> string \<Rightarrow> string \<Rightarrow> hit list" where
  "add_if b rules code detail evidence =
     (if b then (case active_rule rules code of None \<Rightarrow> [] | Some p \<Rightarrow> [new_hit detail evidence p]) else [])"

definition compiled_rules :: "regexp_compile \<Rightarrow> risk_policy list \<Rightarrow> (risk_policy \<times> (string \<Rightarrow> bool)) list" where
  "compiled_rules compile rules =
     concat (map (\<lambda>p. if trim_space (pol_Pattern p) = [] then []
                      else case compile (pol_Pattern p) of None \<Rightarrow> [] | Some m \<Rightarrow> [(p, m)]) rules)"

definition builtin_hits :: "risk_policy list \<Rightarrow> string \<Rightarrow> hit list" where
  "builtin_hits rules stmt =
     (let add = (\<lambda>b code detail. add_if b rules code detail (compact stmt)) in
      add (is_update stmt \<and> \<not> has_where stmt) ''UPDATE_WITHOUT_WHERE'' txt_update_all
      @ add (is_delete stmt \<and> \<not> has_where stmt) ''DELETE_WITHOUT_WHERE'' txt_delete_all
      @ add (unbatched stmt) ''UNBATCHED_LARGE_DML'' txt_unbatched
      @ add (not_null_without_default stmt) ''ADD_NOT_NULL_WITHOUT_DEFAULT'' txt_not_null
      @ add (index_not_concurrent stmt) ''INDEX_NOT_CONCURRENT'' txt_index
      @ add (fk_without_not_valid stmt) ''FK_WITHOUT_NOT_VALID'' txt_fk
      @ add (unbounded_for_update stmt) ''SELECT_FOR_UPDATE_UNBOUNDED'' txt_for_update
      @ add (heavy_ddl stmt) ''HEAVY_DDL_REWRITE'' txt_heavy)"

definition custom_hits :: "(risk_policy \<times> (string \<Rightarrow> bool)) list \<Rightarrow> string \<Rightarrow> hit list" where
  "custom_hits compiled stmt =
     concat (map (\<lambda>(p, m). if m stmt then [new_hit (pol_Description p) (compact stmt) p] else []) compiled)"

definition sql_rules :: "check_context \<Rightarrow> risk_policy list \<Rightarrow> risk_policy list" where
  "sql_rules c policies = filter (\<lambda>p. pol_Enabled p \<and> policyApplies p c) policies"

definition sql_hits :: "regexp_compile \<Rightarrow> string \<Rightarrow> string \<Rightarrow> check_context \<Rightarrow> risk_policy list \<Rightarrow> hit list" where
  "sql_hits compile sql rollbackSQL c policies =
     (let statements = SplitStatements sql;
          rules = sql_rules c policies;
          compiled = compiled_rules compile rules;
          combined = sql @ newline @ rollbackSQL;
          n = nat_str (length statements)
      in add_if (trim_space sql = []) rules ''EMPTY_SQL'' txt_empty_sql []
         @ add_if (trim_space rollbackSQL = []) rules ''MISSING_ROLLBACK'' txt_no_rollback txt_rollback_sql_empty
         @ add_if (8 < length statements) rules ''TOO_MANY_STATEMENTS'' (txt_many_1 @ n @ txt_many_2) (''statements='' @ n)
         @ concat (map (\<lambda>stmt. builtin_hits rules stmt @ custom_hits compiled stmt) statements)
         @ add_if (list_ex sets_ddl statements \<and> list_ex sets_bulk statements) rules
             ''MIXED_DDL_DML_TRANSACTION'' txt_mixed (''statements='' @ n)
         @ add_if (list_ex needs_timeout statements \<and> \<not> match_string lockTimeoutPattern combined
                   \<and> \<not> match_string statementTimeoutPattern combined) rules
             ''MISSING_LOCK_TIMEOUT'' txt_lock_timeout txt_lock_timeout_ev)"

definition CheckWithPolicies ::
  "regexp_compile \<Rightarrow> senv \<Rightarrow> nat \<Rightarrow> string \<Rightarrow> string \<Rightarrow> check_context \<Rightarrow> risk_policy list \<Rightarrow> check_result" where
  "CheckWithPolicies compile h n sql rollbackSQL c policies =
     (let hits = sql_hits compile sql rollbackSQL c policies in
      \<lparr> res_Statements = SplitStatements sql, res_Findings = findings_of h n hits, res_Risk = risk_of RiskLow hits,
        res_MatchedPolicyCodes = map (pol_Code \<circ> hit_rule) hits \<rparr>)"

section \<open>The check of a release\<close>

definition append_finding :: "bool \<Rightarrow> risk_policy list \<Rightarrow> string \<Rightarrow> check_context \<Rightarrow> string \<Rightarrow> string \<Rightarrow> hit list" where
  "append_finding b policies code c detail evidence =
     (if b then (case applicablePolicy policies code c of None \<Rightarrow> [] | Some p \<Rightarrow> [new_hit detail evidence p]) else [])"

definition artifact_detections :: "check_context \<Rightarrow> change_artifact \<Rightarrow> detection list" where
  "artifact_detections c a =
     (let content = trim_space (art_Content a); production = IsProduction (ctx_Environment c) in
      if art_Kind a = ArtifactKubernetes then CheckKubernetes content (art_Name a) production
      else if art_Kind a = ArtifactConfig then CheckConfig content (art_Name a) production
      else [])"

definition artifact_rule_hit :: "regexp_compile \<Rightarrow> check_context \<Rightarrow> change_artifact \<Rightarrow> risk_policy \<Rightarrow> hit list" where
  "artifact_rule_hit compile c a p =
     (if trim_space (pol_Pattern p) = [] \<or> pol_ArtifactKinds p = [] \<or> \<not> policyApplies p c then []
      else case compile (pol_Pattern p) of
             None \<Rightarrow> []
           | Some m \<Rightarrow>
               if m (trim_space (art_Content a))
               then [new_hit (pol_Description p) (compactMatch a ''custom policy match'') p] else [])"

definition artifact_rule_hits :: "regexp_compile \<Rightarrow> check_context \<Rightarrow> risk_policy list \<Rightarrow> change_artifact \<Rightarrow> hit list" where
  "artifact_rule_hits compile c policies a = concat (map (artifact_rule_hit compile c a) policies)"

definition artifact_hits :: "regexp_compile \<Rightarrow> check_context \<Rightarrow> risk_policy list \<Rightarrow> change_artifact \<Rightarrow> hit list" where
  "artifact_hits compile c policies a =
     (if trim_space (art_Content a) = [] then []
      else let c = c\<lparr> ctx_ArtifactKind := art_Kind a \<rparr> in
           concat (map (\<lambda>d. append_finding True policies (det_Code d) c (det_Detail d) (det_Evidence d))
                     (artifact_detections c a))
           @ artifact_rule_hits compile c policies a)"

definition release_hits :: "regexp_compile \<Rightarrow> release_input \<Rightarrow> check_context \<Rightarrow> risk_policy list \<Rightarrow> hit list" where
  "release_hits compile x c policies =
     (let none = c\<lparr> ctx_ArtifactKind := [] \<rparr>;
          production = (contains_str (to_lower (ctx_Environment c)) ''prod''
                        \<or> contains_str (ctx_Environment c) txt_env_production);
          strategy = trim_space (plan_Strategy (rel_ReleasePlan x))
      in append_finding (trim_space (rel_RollbackPlan x) = [] \<and> trim_space (rel_RollbackSQL x) = []) policies
           ''MISSING_RELEASE_ROLLBACK'' none txt_no_release_rollback txt_rollback_plan_empty
         @ concat (map (artifact_hits compile c policies) (rel_Artifacts x))
         @ append_finding (production \<and> (strategy = [] \<or> strategy = txt_full_release)) policies
             ''PRODUCTION_FULL_RELEASE'' none txt_full_release_detail (''strategy='' @ defaultValue strategy txt_full_release)
         @ append_finding (plan_SuccessMetrics (rel_ReleasePlan x) = []) policies
             ''MISSING_OBSERVATION_METRICS'' none txt_no_metrics ''success_metrics=0'')"

definition all_hits :: "regexp_compile \<Rightarrow> release_input \<Rightarrow> check_context \<Rightarrow> risk_policy list \<Rightarrow> hit list" where
  "all_hits compile x c policies =
     (if trim_space (rel_SQL x) = [] then []
      else sql_hits compile (rel_SQL x) (rel_RollbackSQL x) (c\<lparr> ctx_ArtifactKind := ArtifactDatabase \<rparr>) policies)
     @ release_hits compile x c policies"

definition CheckReleaseWithPolicies ::
  "regexp_compile \<Rightarrow> senv \<Rightarrow> nat \<Rightarrow> release_input \<Rightarrow> check_context \<Rightarrow> risk_policy list \<Rightarrow> check_result" where
  "CheckReleaseWithPolicies compile h n x c policies =
     (let sql = CheckWithPolicies compile h n (rel_SQL x) (rel_RollbackSQL x) (c\<lparr> ctx_ArtifactKind := ArtifactDatabase \<rparr>) policies;
          has_sql = (trim_space (rel_SQL x) \<noteq> []);
          hits = all_hits compile x c policies
      in \<lparr> res_Statements = (if has_sql then res_Statements sql else []),
           res_Findings = findings_of h n hits,
           res_Risk = risk_of (if has_sql then maxRisk RiskLow (res_Risk sql) else RiskLow) hits,
           res_MatchedPolicyCodes = uniqueCodes (map (pol_Code \<circ> hit_rule) hits) \<rparr>)"

section \<open>The statements cover the input\<close>

definition statements_of :: "string list \<Rightarrow> string list" where
  "statements_of parts =
     map (\<lambda>b. trim_space b @ '';'') (filter (\<lambda>b. trim_space b \<noteq> []) (butlast parts))
     @ (if trim_space (last parts) = [] then [] else [trim_space (last parts)])"

lemma statements_of_Cons:
  "parts \<noteq> [] \<Longrightarrow> statements_of (b # parts) =
     (if trim_space b \<noteq> [] then [trim_space b @ '';''] else []) @ statements_of parts"
  by (simp add: statements_of_def)

lemma sql_step_cut: "sql_step mode c x = (mode', two, True) \<Longrightarrow> c = CHR '';'' \<and> mode = Plain \<and> mode' = Plain"
  by (auto simp: sql_step_def split: if_splits)

lemma join_Cons: "parts \<noteq> [] \<Longrightarrow> join_str sep (b # parts) = b @ sep @ join_str sep parts"
  by (cases parts) simp_all

lemma split_from_partition:
  "\<exists>parts. parts \<noteq> [] \<and> join_str '';'' parts = buf @ s \<and> split_from mode buf s = statements_of parts"
proof (induction mode buf s rule: split_from.induct)
  case (1 mode buf)
  show ?case by (rule exI [of _ "[buf]"]) (simp add: split_from.simps statements_of_def)
next
  case (2 mode buf c s)
  obtain mode' two cut where st: "sql_step mode c (next_byte s) = (mode', two, cut)" by (cases "sql_step mode c (next_byte s)")
  consider "cut" | "\<not> cut" "two" | "\<not> cut" "\<not> two" by blast
  then show ?case
  proof cases
    case 1
    then have c: "c = CHR '';''" using sql_step_cut [of mode c "next_byte s" mode' two] st by simp
    from 2(1) [OF st [symmetric] refl refl] 1 obtain parts where
      p: "parts \<noteq> []" "join_str '';'' parts = s" "split_from mode' [] s = statements_of parts" by auto
    have "split_from mode buf (c # s) = statements_of (buf # parts)"
      using st 1 p by (simp add: split_from.simps(2) [of mode buf c s] statements_of_Cons)
    moreover have "join_str '';'' (buf # parts) = buf @ c # s" using p c by (simp add: join_Cons)
    ultimately show ?thesis by (intro exI [of _ "buf # parts"]) simp
  next
    case 2
    with "2.IH"(2) [OF st [symmetric] refl refl] st show ?thesis
      by (auto simp: split_from.simps(2) [of mode buf c s])
  next
    case 3
    with "2.IH"(3) [OF st [symmetric] refl refl] st show ?thesis
      by (auto simp: split_from.simps(2) [of mode buf c s])
  qed
qed

text \<open>The statements are the parts of the input between some of its semicolons, trimmed, without the
  blank ones: nothing but separators and white space is lost, and nothing is invented.\<close>

lemma SplitStatements_partition:
  "\<exists>parts. parts \<noteq> [] \<and> join_str '';'' parts = input \<and> SplitStatements input = statements_of parts"
  using split_from_partition [of "[]" input Plain] by (simp add: SplitStatements_def)

definition plain_sql :: "char \<Rightarrow> bool" where
  "plain_sql c \<longleftrightarrow> c \<noteq> CHR 0x27 \<and> c \<noteq> CHR 0x22 \<and> c \<noteq> CHR ''-'' \<and> c \<noteq> CHR ''/''"

lemma sql_step_plain: "plain_sql c \<Longrightarrow> sql_step Plain c x = (Plain, False, c = CHR '';'')"
  by (simp add: sql_step_def plain_sql_def)

lemma split_from_plain:
  "list_all plain_sql s \<Longrightarrow>
   split_from Plain buf s = statements_of ((buf @ hd (split_on (CHR '';'') s)) # tl (split_on (CHR '';'') s))"
proof (induction s arbitrary: buf)
  case Nil
  show ?case by (simp add: split_from.simps statements_of_def)
next
  case (Cons c s)
  obtain l ls where l: "split_on (CHR '';'') s = l # ls" by (cases "split_on (CHR '';'') s") auto
  have st: "sql_step Plain c (next_byte s) = (Plain, False, c = CHR '';'')"
    using Cons.prems by (simp add: sql_step_plain)
  have "split_from Plain b s = statements_of ((b @ l) # ls)" for b using Cons.IH [of b] Cons.prems l by simp
  with l st show ?case
    by (cases "c = CHR '';''") (simp_all add: split_from.simps(2) statements_of_Cons)
qed

text \<open>On a text without quotes, dashes and slashes the scanner is the plain split at semicolons.\<close>

lemma SplitStatements_plain:
  assumes "list_all plain_sql input"
  shows "SplitStatements input = statements_of (split_on (CHR '';'') input)"
  using split_from_plain [OF assms, of "[]"] by (simp add: SplitStatements_def)

lemma SplitStatements_plain_witness:
  "SplitStatements ''update t; select 1'' = statements_of [''update t'', '' select 1'']"
  using SplitStatements_plain [of "''update t; select 1''"] by (simp add: plain_sql_def)

section \<open>Risk and rules of a result\<close>

lemma risk_of_rank: "risk_rank (risk_of r hits) = Max (insert (risk_rank r) ((risk_rank \<circ> pol_Severity \<circ> hit_rule) ` set hits))"
proof (induction hits arbitrary: r)
  case (Cons x hits)
  have "risk_rank (maxRisk r (pol_Severity (hit_rule x))) = max (risk_rank r) (risk_rank (pol_Severity (hit_rule x)))"
    by (auto simp: maxRisk_def)
  moreover have "risk_of r (x # hits) = risk_of (maxRisk r (pol_Severity (hit_rule x))) hits" by (simp add: risk_of_def)
  ultimately show ?case using Cons.IH [of "maxRisk r (pol_Severity (hit_rule x))"]
    by (cases "hits = []") (auto simp: max.assoc)
qed (simp add: risk_of_def)

lemma findings_of_set:
  "x \<in> set hits \<Longrightarrow> \<exists>k. findingFromPolicy h k x \<in> set (findings_of h n hits)"
  by (force simp: findings_of_def in_set_conv_nth nth_enumerate_eq)

lemma findings_of_from: "f \<in> set (findings_of h n hits) \<Longrightarrow> \<exists>k. \<exists>x\<in>set hits. f = findingFromPolicy h k x"
  by (auto simp: findings_of_def in_set_conv_nth [of _ "enumerate n hits"] nth_enumerate_eq) (use nth_mem in blast)

lemma findingFromPolicy_simps [simp]:
  "fnd_Code (findingFromPolicy h k x) = pol_Code (hit_rule x)"
  "fnd_Severity (findingFromPolicy h k x) = pol_Severity (hit_rule x)"
  "fnd_Blocking (findingFromPolicy h k x) = pol_Blocking (hit_rule x)"
  "fnd_Status (findingFromPolicy h k x) = FindingOpen"
  "fnd_RuleVersion (findingFromPolicy h k x) = pol_Version (hit_rule x)"
  by (simp_all add: findingFromPolicy_def)

lemma active_rule_in: "active_rule rules code = Some p \<Longrightarrow> p \<in> set rules \<and> pol_Code p = code"
  by (auto simp: active_rule_def find_Some_iff) (metis nth_mem set_rev length_rev)

lemma add_if_in: "x \<in> set (add_if b rules code t v) \<Longrightarrow> hit_rule x \<in> set rules"
  using active_rule_in [of rules code] by (cases b; cases "active_rule rules code") (simp_all add: add_if_def)

lemma builtin_hits_in: "x \<in> set (builtin_hits rules stmt) \<Longrightarrow> hit_rule x \<in> set rules"
  by (auto simp: builtin_hits_def Let_def intro: add_if_in)

lemma custom_hits_in: "x \<in> set (custom_hits (compiled_rules compile rules) stmt) \<Longrightarrow> hit_rule x \<in> set rules"
proof -
  assume "x \<in> set (custom_hits (compiled_rules compile rules) stmt)"
  then obtain p m where "(p, m) \<in> set (compiled_rules compile rules)" "hit_rule x = p"
    by (auto simp: custom_hits_def split: if_splits)
  then show ?thesis by (auto simp: compiled_rules_def split: if_splits option.splits)
qed

lemma sql_hits_in: "x \<in> set (sql_hits compile sql rb c policies) \<Longrightarrow> hit_rule x \<in> set (sql_rules c policies)"
  by (auto simp: sql_hits_def Let_def intro: add_if_in builtin_hits_in custom_hits_in)

lemma applicablePolicy_in:
  "applicablePolicy policies code c = Some p \<Longrightarrow> p \<in> set policies \<and> pol_Code p = code \<and> pol_Enabled p \<and> policyApplies p c"
  by (auto simp: applicablePolicy_def find_Some_iff)

lemma append_finding_in:
  "x \<in> set (append_finding b policies code c t v) \<Longrightarrow>
   hit_rule x \<in> set policies \<and> pol_Enabled (hit_rule x) \<and> policyApplies (hit_rule x) c"
  using applicablePolicy_in [of policies code c]
  by (cases b; cases "applicablePolicy policies code c") (simp_all add: append_finding_def)

lemma artifact_rule_hit_in:
  "x \<in> set (artifact_rule_hit compile c a p) \<Longrightarrow> hit_rule x = p \<and> trim_space (pol_Pattern p) \<noteq> []
    \<and> pol_ArtifactKinds p \<noteq> [] \<and> policyApplies p c"
  by (auto simp: artifact_rule_hit_def split: if_splits option.splits)

lemma artifact_rule_hits_in: "x \<in> set (artifact_rule_hits compile c policies a) \<Longrightarrow> hit_rule x \<in> set policies
    \<and> trim_space (pol_Pattern (hit_rule x)) \<noteq> [] \<and> pol_ArtifactKinds (hit_rule x) \<noteq> [] \<and> policyApplies (hit_rule x) c"
  by (auto simp: artifact_rule_hits_def dest: artifact_rule_hit_in)

definition artifact_rule :: "risk_policy \<Rightarrow> bool" where
  "artifact_rule p \<longleftrightarrow> trim_space (pol_Pattern p) \<noteq> [] \<and> pol_ArtifactKinds p \<noteq> []"

text \<open>The kinds of artifacts that a release is checked for: its SQL, its artifacts with content, and none for the plan.\<close>

definition checked_kinds :: "release_input \<Rightarrow> string set" where
  "checked_kinds x =
     insert [] ((if trim_space (rel_SQL x) = [] then {} else {ArtifactDatabase})
       \<union> art_Kind ` {a \<in> set (rel_Artifacts x). trim_space (art_Content a) \<noteq> []})"

text \<open>A rule that can report something: it applies to one of these kinds in the environment and to the type of the change, and
  it is enabled, or has an expression for artifacts.\<close>

definition rule_in_force :: "release_input \<Rightarrow> check_context \<Rightarrow> risk_policy \<Rightarrow> bool" where
  "rule_in_force x c p \<longleftrightarrow>
     (\<exists>k\<in>checked_kinds x. policyApplies p (c\<lparr> ctx_ArtifactKind := k \<rparr>)) \<and> (pol_Enabled p \<or> artifact_rule p)"

lemma artifact_hits_in:
  assumes "x \<in> set (artifact_hits compile c policies a)"
  shows "hit_rule x \<in> set policies \<and> (pol_Enabled (hit_rule x) \<or> artifact_rule (hit_rule x))
    \<and> trim_space (art_Content a) \<noteq> [] \<and> policyApplies (hit_rule x) (c\<lparr> ctx_ArtifactKind := art_Kind a \<rparr>)"
  using assms unfolding artifact_hits_def Let_def artifact_rule_def
  by (auto dest: append_finding_in artifact_rule_hits_in split: if_splits)

lemma release_hits_in:
  assumes "x \<in> set (release_hits compile y c policies)"
  shows "hit_rule x \<in> set policies \<and> rule_in_force y c (hit_rule x)"
proof -
  consider b code t v where "x \<in> set (append_finding b policies code (c\<lparr> ctx_ArtifactKind := [] \<rparr>) t v)"
    | a where "a \<in> set (rel_Artifacts y)" "x \<in> set (artifact_hits compile c policies a)"
    using assms by (auto simp: release_hits_def Let_def)
  then show ?thesis
    by cases (fastforce simp: rule_in_force_def checked_kinds_def dest: append_finding_in artifact_hits_in)+
qed

lemma all_hits_in:
  assumes "x \<in> set (all_hits compile y c policies)"
  shows "hit_rule x \<in> set policies \<and> rule_in_force y c (hit_rule x)"
proof -
  consider "x \<in> set (sql_hits compile (rel_SQL y) (rel_RollbackSQL y) (c\<lparr> ctx_ArtifactKind := ArtifactDatabase \<rparr>) policies)"
      "trim_space (rel_SQL y) \<noteq> []"
    | "x \<in> set (release_hits compile y c policies)"
    using assms by (auto simp: all_hits_def split: if_splits)
  then show ?thesis
    by cases (auto dest!: sql_hits_in release_hits_in simp: sql_rules_def rule_in_force_def checked_kinds_def)
qed

lemma unique_codes_set: "set (unique_codes seen xs) = set xs - insert [] (set seen)"
  by (induction seen xs rule: unique_codes.induct) auto

lemma uniqueCodes_set [simp]: "set (uniqueCodes xs) = set xs - {[]}"
  by (simp add: uniqueCodes_def unique_codes_set)

lemma Max_absorb:
  fixes k :: "'a::linorder"
  assumes "finite B" "A \<subseteq> B"
  shows "Max (insert (Max (insert k A)) B) = Max (insert k B)"
proof (cases "B = {}")
  case False
  have A: "finite A" using assms finite_subset by blast
  have "Max (insert k A \<union> B) = max (Max (insert k A)) (Max B)" using A assms False by (intro Max_Un) auto
  moreover have "insert k A \<union> B = insert k B" using assms by blast
  ultimately show ?thesis using assms False by simp
qed (use assms in simp)

lemma release_risk_rank:
  "risk_rank (res_Risk (CheckReleaseWithPolicies compile h n x c policies)) =
     Max (insert 1 ((risk_rank \<circ> fnd_Severity) ` set (res_Findings (CheckReleaseWithPolicies compile h n x c policies))))"
proof -
  let ?sev = "\<lambda>hs. (risk_rank \<circ> pol_Severity \<circ> hit_rule) ` set hs"
  let ?hits = "all_hits compile x c policies"
  let ?sql = "sql_hits compile (rel_SQL x) (rel_RollbackSQL x) (c\<lparr> ctx_ArtifactKind := ArtifactDatabase \<rparr>) policies"
  have sev: "(\<lambda>x. risk_rank (fnd_Severity x)) ` set (findings_of h n hs) = ?sev hs" for hs
    using findings_of_set [of _ hs h n] findings_of_from [of _ h n hs]
    by (auto simp: image_iff) (metis findingFromPolicy_simps(2))+
  have mr: "risk_rank (maxRisk a b) = max (risk_rank a) (risk_rank b)" for a b by (simp add: maxRisk_def)
  have "?sev ?sql \<subseteq> ?sev ?hits" if "trim_space (rel_SQL x) \<noteq> []" using that by (auto simp: all_hits_def)
  then have "Max (insert (Max (insert 1 (?sev ?sql))) (?sev ?hits)) = Max (insert 1 (?sev ?hits))" if "trim_space (rel_SQL x) \<noteq> []"
    using that by (intro Max_absorb) auto
  moreover have "max 1 (Max (insert 1 (?sev ?sql))) = Max (insert 1 (?sev ?sql))" by (intro max_absorb2 Max_ge) auto
  ultimately show ?thesis
    by (simp add: CheckReleaseWithPolicies_def CheckWithPolicies_def Let_def sev risk_of_rank mr del: Max_insert)
qed

lemma unique_codes_distinct: "distinct (unique_codes seen xs)"
  by (induction seen xs rule: unique_codes.induct) (auto simp: unique_codes_set)

lemma uniqueCodes_distinct [simp]: "distinct (uniqueCodes xs)"
  by (simp add: uniqueCodes_def unique_codes_distinct)

text \<open>C31: every finding of a release check is open and carries code, severity, blocking flag and version of a
  rule of the rule set that applies, for the environment, the type of the change and a kind of artifact that is checked,
  and that is enabled or has an expression for artifacts; the matched codes are the codes of the findings, each once;
  and the risk is the highest severity found, at least low.\<close>

theorem CheckRelease_sound:
  fixes compile h n x c policies
  defines "r \<equiv> CheckReleaseWithPolicies compile h n x c policies"
  shows "(\<forall>f\<in>set (res_Findings r). fnd_Status f = FindingOpen \<and> (\<exists>p\<in>set policies. rule_in_force x c p
        \<and> fnd_Code f = pol_Code p \<and> fnd_Severity f = pol_Severity p \<and> fnd_Blocking f = pol_Blocking p
        \<and> fnd_RuleVersion f = pol_Version p))
    \<and> set (res_MatchedPolicyCodes r) = fnd_Code ` set (res_Findings r) - {[]} \<and> distinct (res_MatchedPolicyCodes r)
    \<and> risk_rank (res_Risk r) = Max (insert 1 ((risk_rank \<circ> fnd_Severity) ` set (res_Findings r)))"
proof -
  let ?hits = "all_hits compile x c policies"
  have f: "res_Findings r = findings_of h n ?hits" "res_MatchedPolicyCodes r = uniqueCodes (map (pol_Code \<circ> hit_rule) ?hits)"
    by (simp_all add: r_def CheckReleaseWithPolicies_def Let_def)
  have "fnd_Code ` set (findings_of h n ?hits) = (pol_Code \<circ> hit_rule) ` set ?hits"
    using findings_of_set [of _ ?hits h n] findings_of_from [of _ h n ?hits]
    by (auto simp: image_iff) (metis findingFromPolicy_simps(1))+
  moreover have "\<exists>p\<in>set policies. rule_in_force x c p \<and> fnd_Code g = pol_Code p
      \<and> fnd_Severity g = pol_Severity p \<and> fnd_Blocking g = pol_Blocking p \<and> fnd_RuleVersion g = pol_Version p"
    if "g \<in> set (findings_of h n ?hits)" for g
    using findings_of_from [OF that] all_hits_in by force
  moreover have "fnd_Status g = FindingOpen" if "g \<in> set (findings_of h n ?hits)" for g
    using findings_of_from [OF that] by auto
  ultimately show ?thesis
    using release_risk_rank [of compile h n x c policies] f
    by (auto simp: r_def)
qed

lemma add_if_active: "active_rule rules code = Some p \<Longrightarrow> add_if True rules code t v = [new_hit t v p]"
  by (simp add: add_if_def)

text \<open>An UPDATE or DELETE that the checker recognises and that has no WHERE is reported under the rule in
  force, with that rule's blocking flag, and the risk is at least its severity.\<close>

lemma unconditional_dml_reported:
  fixes compile h n x c policies
  defines "rules \<equiv> sql_rules (c\<lparr> ctx_ArtifactKind := ArtifactDatabase \<rparr>) policies"
    and "r \<equiv> CheckReleaseWithPolicies compile h n x c policies"
  assumes sql: "trim_space (rel_SQL x) \<noteq> []" and stmt: "stmt \<in> set (SplitStatements (rel_SQL x))" "\<not> has_where stmt"
    and verb: "is_update stmt \<and> code = ''UPDATE_WITHOUT_WHERE'' \<or> is_delete stmt \<and> code = ''DELETE_WITHOUT_WHERE''"
    and rule: "active_rule rules code = Some p"
  shows "(\<exists>f\<in>set (res_Findings r). fnd_Code f = code \<and> fnd_Blocking f = pol_Blocking p)
    \<and> risk_rank (pol_Severity p) \<le> risk_rank (res_Risk r)"
proof -
  let ?hits = "all_hits compile x c policies"
  have "\<exists>t. new_hit t (compact stmt) p \<in> set (builtin_hits rules stmt)"
    using verb stmt(2) add_if_active [OF rule] by (auto simp: builtin_hits_def Let_def)
  then obtain t where "new_hit t (compact stmt) p \<in> set ?hits"
    using sql stmt(1) by (auto simp: all_hits_def sql_hits_def Let_def rules_def)
  from findings_of_set [OF this, of h n] obtain k where
    f: "findingFromPolicy h k (new_hit t (compact stmt) p) \<in> set (res_Findings r)"
    by (auto simp: r_def CheckReleaseWithPolicies_def Let_def)
  moreover have "pol_Code p = code" using active_rule_in [OF rule] by blast
  moreover have "risk_rank (pol_Severity p) \<le> risk_rank (res_Risk r)"
  proof -
    let ?S = "(risk_rank \<circ> fnd_Severity) ` set (res_Findings r)"
    have "risk_rank (pol_Severity p) \<in> ?S" using imageI [OF f, of "risk_rank \<circ> fnd_Severity"] by simp
    then have "risk_rank (pol_Severity p) \<le> Max (insert 1 ?S)" by (intro Max_ge) auto
    then show ?thesis using release_risk_rank [of compile h n x c policies] by (simp only: r_def)
  qed
  ultimately show ?thesis by force
qed

section \<open>Gaps of the check\<close>

definition delete_rule :: risk_policy where
  "delete_rule = zero_risk_policy\<lparr> pol_ID := ''pol_delete_all'', pol_Code := ''DELETE_WITHOUT_WHERE'',
     pol_Severity := RiskHigh, pol_Blocking := True, pol_Enabled := True, pol_Version := 1 \<rparr>"

definition sql_release :: "string \<Rightarrow> release_input" where
  "sql_release sql = \<lparr> rel_SQL = sql, rel_RollbackSQL = ''select 1'', rel_RollbackPlan = [], rel_Artifacts = [],
     rel_ReleasePlan = zero_release_plan \<rparr>"

definition delete_all :: string where "delete_all = ''DELETE FROM users''"
definition delete_all_lines :: string where "delete_all_lines = ''DELETE'' @ newline @ ''FROM users''"

lemma delete_rule_simps [simp]:
  "pol_Code delete_rule = ''DELETE_WITHOUT_WHERE''" "pol_Enabled delete_rule" "pol_Pattern delete_rule = []"
  "policyApplies delete_rule c" "pol_Blocking delete_rule" "pol_Severity delete_rule = RiskHigh"
  by (simp_all add: delete_rule_def zero_risk_policy_def policyApplies_def)

lemma delete_all_facts:
  "SplitStatements delete_all = [delete_all]" "is_delete delete_all" "\<not> has_where delete_all"
  "SplitStatements delete_all_lines = [delete_all_lines]" "\<not> is_delete delete_all_lines" "\<not> has_where delete_all_lines"
  "trim_space delete_all \<noteq> []" "trim_space delete_all_lines \<noteq> []"
  subgoal by code_simp
  subgoal by code_simp
  subgoal by code_simp
  subgoal by code_simp
  subgoal by code_simp
  subgoal by code_simp
  subgoal by code_simp
  subgoal by code_simp
  done

lemma delete_rule_only:
  "code \<noteq> ''DELETE_WITHOUT_WHERE'' \<Longrightarrow> add_if b (sql_rules c [delete_rule]) code t v = []"
  "add_if True (sql_rules c [delete_rule]) ''DELETE_WITHOUT_WHERE'' t v = [new_hit t v delete_rule]"
  "code \<noteq> ''DELETE_WITHOUT_WHERE'' \<Longrightarrow> append_finding b [delete_rule] code c t v = []"
  "custom_hits (compiled_rules compile (sql_rules c [delete_rule])) stmt = []"
  by (simp_all add: add_if_def active_rule_def sql_rules_def append_finding_def applicablePolicy_def custom_hits_def
      compiled_rules_def)

lemma add_if_no: "\<not> b \<Longrightarrow> add_if b rules code t v = []"
  by (simp add: add_if_def)

lemma delete_builtin_hits:
  "builtin_hits (sql_rules c [delete_rule]) stmt =
     (if is_delete stmt \<and> \<not> has_where stmt then [new_hit txt_delete_all (compact stmt) delete_rule] else [])"
  by (cases "is_delete stmt \<and> \<not> has_where stmt") (simp_all add: builtin_hits_def Let_def delete_rule_only add_if_no)

lemma delete_all_hits:
  "trim_space sql \<noteq> [] \<Longrightarrow> all_hits compile (sql_release sql) c [delete_rule] =
     concat (map (\<lambda>stmt. if is_delete stmt \<and> \<not> has_where stmt
                          then [new_hit txt_delete_all (compact stmt) delete_rule] else []) (SplitStatements sql))"
  by (simp add: all_hits_def sql_hits_def release_hits_def sql_release_def Let_def delete_rule_only delete_builtin_hits)

text \<open>With the rule against unconditional deletes in force, \<^verbatim>\<open>DELETE FROM users\<close> is reported as a
  blocking high risk, but the same statement with a line break after \<^verbatim>\<open>DELETE\<close> passes without a finding.\<close>

lemma line_break_hides_delete:
  "(\<exists>f. res_Findings (CheckReleaseWithPolicies compile h n (sql_release delete_all) c [delete_rule]) = [f]
      \<and> fnd_Code f = ''DELETE_WITHOUT_WHERE'' \<and> fnd_Blocking f \<and> fnd_Severity f = RiskHigh)
   \<and> res_Findings (CheckReleaseWithPolicies compile h n (sql_release delete_all_lines) c [delete_rule]) = []"
  using delete_all_facts by (simp add: CheckReleaseWithPolicies_def Let_def findings_of_def delete_all_hits)

text \<open>A rule with an expression for artifacts reports a match in an artifact even when it is disabled,
  and so outside the rule set that the rule set version covers.\<close>

lemma disabled_rule_reports:
  assumes "a \<in> set (rel_Artifacts x)" "trim_space (art_Content a) \<noteq> []" "p \<in> set policies" "\<not> pol_Enabled p"
    and "artifact_rule p" "policyApplies p (c\<lparr> ctx_ArtifactKind := art_Kind a \<rparr>)"
    and "compile (pol_Pattern p) = Some m" "m (trim_space (art_Content a))"
  shows "(\<exists>f\<in>set (res_Findings (CheckReleaseWithPolicies compile h n x c policies)).
            fnd_Code f = pol_Code p \<and> fnd_Blocking f = pol_Blocking p)
    \<and> RuleSetVersion policies = RuleSetVersion (removeAll p policies)"
proof -
  let ?hit = "new_hit (pol_Description p) (compactMatch a ''custom policy match'') p"
  have "?hit \<in> set (artifact_rule_hit compile (c\<lparr> ctx_ArtifactKind := art_Kind a \<rparr>) a p)"
    using assms by (simp add: artifact_rule_hit_def artifact_rule_def)
  then have "?hit \<in> set (all_hits compile x c policies)"
    using assms(1-3) by (auto simp: all_hits_def release_hits_def artifact_hits_def artifact_rule_hits_def Let_def)
  from findings_of_set [OF this, of h n] obtain k where
    "findingFromPolicy h k ?hit \<in> set (res_Findings (CheckReleaseWithPolicies compile h n x c policies))"
    by (auto simp: CheckReleaseWithPolicies_def Let_def)
  moreover have "filter pol_Enabled (removeAll p policies) = filter pol_Enabled policies"
    using assms(4) by (induction policies) auto
  then have "rule_lines policies = rule_lines (removeAll p policies)" by (simp add: rule_lines_def)
  ultimately show ?thesis by (force simp: RuleSetVersion_def)
qed

definition draft_rule :: risk_policy where
  "draft_rule = zero_risk_policy\<lparr> pol_Code := ''NO_TODO'', pol_Pattern := ''TODO'', pol_Blocking := True,
     pol_ArtifactKinds := [ArtifactConfig] \<rparr>"

definition todo_artifact :: change_artifact where
  "todo_artifact = zero_change_artifact\<lparr> art_Kind := ArtifactConfig, art_Content := ''x: TODO'' \<rparr>"

lemma disabled_rule_reports_witness:
  defines "x \<equiv> (sql_release [])\<lparr> rel_Artifacts := [todo_artifact] \<rparr>"
    and "compile \<equiv> \<lambda>pat. Some (\<lambda>text. contains_str text pat)"
    and "c \<equiv> \<lparr> ctx_Environment = ''prod'', ctx_ChangeType = [], ctx_ArtifactKind = [] \<rparr>"
  shows "\<not> pol_Enabled draft_rule \<and> (\<exists>f\<in>set (res_Findings (CheckReleaseWithPolicies compile (calm 10) 1 x c [draft_rule])).
            fnd_Code f = ''NO_TODO'' \<and> fnd_Blocking f)"
proof -
  have facts: "trim_space (art_Content todo_artifact) \<noteq> []" "artifact_rule draft_rule"
    "policyApplies draft_rule (c\<lparr> ctx_ArtifactKind := art_Kind todo_artifact \<rparr>)"
    "contains_str (trim_space (art_Content todo_artifact)) (pol_Pattern draft_rule)"
    unfolding c_def
    subgoal by code_simp
    subgoal by code_simp
    subgoal by code_simp
    subgoal by code_simp
    done
  have off: "\<not> pol_Enabled draft_rule" by (simp add: draft_rule_def zero_risk_policy_def)
  have "\<exists>f\<in>set (res_Findings (CheckReleaseWithPolicies compile (calm 10) 1 x c [draft_rule])).
      fnd_Code f = pol_Code draft_rule \<and> fnd_Blocking f = pol_Blocking draft_rule"
    using disabled_rule_reports [of todo_artifact x draft_rule "[draft_rule]" c compile _ "calm 10" 1] facts off
    by (simp add: x_def compile_def)
  with off show ?thesis by (simp add: draft_rule_def zero_risk_policy_def)
qed

lemma unconditional_dml_reported_witness:
  "\<exists>f\<in>set (res_Findings (CheckReleaseWithPolicies (\<lambda>_. None) (calm 10) 1 (sql_release delete_all)
       \<lparr> ctx_Environment = ''prod'', ctx_ChangeType = [], ctx_ArtifactKind = [] \<rparr> [delete_rule])).
     fnd_Code f = ''DELETE_WITHOUT_WHERE'' \<and> fnd_Blocking f"
  using unconditional_dml_reported [of "sql_release delete_all" delete_all "''DELETE_WITHOUT_WHERE''"
      "\<lparr> ctx_Environment = ''prod'', ctx_ChangeType = [], ctx_ArtifactKind = [] \<rparr>" "[delete_rule]" delete_rule "\<lambda>_. None" "calm 10" 1]
    delete_all_facts
  by (simp add: sql_release_def active_rule_def sql_rules_def)

lemma delete_all_findings:
  "\<exists>f. res_Findings (CheckReleaseWithPolicies compile h n (sql_release delete_all) c [delete_rule]) = [f]
     \<and> fnd_Code f = ''DELETE_WITHOUT_WHERE'' \<and> fnd_Severity f = RiskHigh"
  using delete_all_facts by (simp add: CheckReleaseWithPolicies_def Let_def findings_of_def delete_all_hits)

theorem CheckRelease_sound_witness:
  "\<exists>r. r = CheckReleaseWithPolicies (\<lambda>_. None) (calm 10) 1 (sql_release delete_all)
         \<lparr> ctx_Environment = ''prod'', ctx_ChangeType = [], ctx_ArtifactKind = [] \<rparr> [delete_rule]
     \<and> set (res_MatchedPolicyCodes r) = {''DELETE_WITHOUT_WHERE''} \<and> risk_rank (res_Risk r) = 3"
proof -
  let ?c = "\<lparr> ctx_Environment = ''prod'', ctx_ChangeType = [], ctx_ArtifactKind = [] \<rparr>"
  obtain f where f: "res_Findings (CheckReleaseWithPolicies (\<lambda>_. None) (calm 10) 1 (sql_release delete_all) ?c [delete_rule]) = [f]"
    "fnd_Code f = ''DELETE_WITHOUT_WHERE''" "fnd_Severity f = RiskHigh"
    using delete_all_findings by blast
  note sound = CheckRelease_sound [of "\<lambda>_. None" "calm 10" 1 "sql_release delete_all" ?c "[delete_rule]"]
  have "risk_rank (res_Risk (CheckReleaseWithPolicies (\<lambda>_. None) (calm 10) 1 (sql_release delete_all) ?c [delete_rule])) =
      Max (insert 1 ((risk_rank \<circ> fnd_Severity) ` set [f]))"
    using sound unfolding f(1) by blast
  moreover have "Max (insert 1 ((risk_rank \<circ> fnd_Severity) ` set [f])) = 3" by (simp add: f)
  moreover have "set (res_MatchedPolicyCodes (CheckReleaseWithPolicies (\<lambda>_. None) (calm 10) 1 (sql_release delete_all) ?c [delete_rule]))
      = fnd_Code ` set [f] - {[]}"
    using sound unfolding f(1) by blast
  ultimately show ?thesis using f by auto
qed

end
