(* ===== verification/LifecycleTexts.thy ===== *)
theory LifecycleTexts
  imports Main
begin

text \<open>
  The non-ASCII string constants of the life cycle of a change that a modelled definition compares or stores, as their UTF-8
  bytes.
\<close>

definition txt_env_default :: string where
  "txt_env_default = [
    CHR 0xE7, CHR 0x94, CHR 0x9F, CHR 0xE4, CHR 0xBA, CHR 0xA7, CHR 0xE7, CHR 0x8E, CHR 0xAF,
    CHR 0xE5, CHR 0xA2, CHR 0x83]"

definition txt_artifact_suffix :: string where
  "txt_artifact_suffix = [
    CHR 0x20, CHR 0xE5, CHR 0x8F, CHR 0x98, CHR 0xE6, CHR 0x9B, CHR 0xB4, CHR 0xE8, CHR 0xAF,
    CHR 0x81, CHR 0xE6, CHR 0x8D, CHR 0xAE]"

definition txt_artifact_sql :: string where
  "txt_artifact_sql = [
    CHR 0xE6, CHR 0x95, CHR 0xB0, CHR 0xE6, CHR 0x8D, CHR 0xAE, CHR 0xE5, CHR 0xBA, CHR 0x93,
    CHR 0x20, CHR 0x53, CHR 0x51, CHR 0x4C]"

definition txt_artifact_source :: string where
  "txt_artifact_source = [
    CHR 0xE5, CHR 0x8F, CHR 0x98, CHR 0xE6, CHR 0x9B, CHR 0xB4, CHR 0xE5, CHR 0x8D, CHR 0x95]"

definition txt_type_joint :: string where
  "txt_type_joint = [
    CHR 0xE8, CHR 0x81, CHR 0x94, CHR 0xE5, CHR 0x90, CHR 0x88, CHR 0xE5, CHR 0x8F, CHR 0x98,
    CHR 0xE6, CHR 0x9B, CHR 0xB4]"

definition txt_type_database :: string where
  "txt_type_database = [
    CHR 0xE6, CHR 0x95, CHR 0xB0, CHR 0xE6, CHR 0x8D, CHR 0xAE, CHR 0xE5, CHR 0xBA, CHR 0x93,
    CHR 0xE5, CHR 0x8F, CHR 0x98, CHR 0xE6, CHR 0x9B, CHR 0xB4]"

definition txt_type_config :: string where
  "txt_type_config = [
    CHR 0xE9, CHR 0x85, CHR 0x8D, CHR 0xE7, CHR 0xBD, CHR 0xAE, CHR 0xE5, CHR 0x8F, CHR 0x98,
    CHR 0xE6, CHR 0x9B, CHR 0xB4]"

definition txt_type_k8s :: string where
  "txt_type_k8s = [
    CHR 0x4B, CHR 0x75, CHR 0x62, CHR 0x65, CHR 0x72, CHR 0x6E, CHR 0x65, CHR 0x74, CHR 0x65,
    CHR 0x73, CHR 0x20, CHR 0xE5, CHR 0x8F, CHR 0x98, CHR 0xE6, CHR 0x9B, CHR 0xB4]"

definition txt_type_production :: string where
  "txt_type_production = [
    CHR 0xE7, CHR 0x94, CHR 0x9F, CHR 0xE4, CHR 0xBA, CHR 0xA7, CHR 0xE5, CHR 0x8F, CHR 0x98,
    CHR 0xE6, CHR 0x9B, CHR 0xB4]"

definition txt_strategy_full :: string where
  "txt_strategy_full = [
    CHR 0xE5, CHR 0x85, CHR 0xA8, CHR 0xE9, CHR 0x87, CHR 0x8F, CHR 0xE5, CHR 0x8F, CHR 0x91,
    CHR 0xE5, CHR 0xB8, CHR 0x83]"

definition txt_create_title :: string where
  "txt_create_title = [
    CHR 0xE5, CHR 0x88, CHR 0x9B, CHR 0xE5, CHR 0xBB, CHR 0xBA, CHR 0xE7, CHR 0xBB, CHR 0x9F,
    CHR 0xE4, CHR 0xB8, CHR 0x80, CHR 0xE5, CHR 0x8F, CHR 0x98, CHR 0xE6, CHR 0x9B, CHR 0xB4,
    CHR 0xE5, CHR 0x8D, CHR 0x95]"

definition txt_create_1 :: string where
  "txt_create_1 = [
    CHR 0xE5, CHR 0xB7, CHR 0xB2, CHR 0xE7, CHR 0x99, CHR 0xBB, CHR 0xE8, CHR 0xAE, CHR 0xB0,
    CHR 0x20]"

definition txt_create_2 :: string where
  "txt_create_2 = [
    CHR 0x20, CHR 0xE7, CHR 0xB1, CHR 0xBB, CHR 0xE5, CHR 0x8F, CHR 0x98, CHR 0xE6, CHR 0x9B,
    CHR 0xB4, CHR 0xE8, CHR 0xAF, CHR 0x81, CHR 0xE6, CHR 0x8D, CHR 0xAE, CHR 0xE3, CHR 0x80,
    CHR 0x81, CHR 0xE5, CHR 0x9B, CHR 0x9E, CHR 0xE6, CHR 0xBB, CHR 0x9A, CHR 0xE6, CHR 0x96,
    CHR 0xB9, CHR 0xE6, CHR 0xA1, CHR 0x88, CHR 0xE5, CHR 0x92, CHR 0x8C, CHR 0xE8, CHR 0xAE,
    CHR 0xA1, CHR 0xE5, CHR 0x88, CHR 0x92, CHR 0xE7, CHR 0xAA, CHR 0x97, CHR 0xE5, CHR 0x8F,
    CHR 0xA3]"

definition txt_create_audit :: string where
  "txt_create_audit = [
    CHR 0xE5, CHR 0x88, CHR 0x9B, CHR 0xE5, CHR 0xBB, CHR 0xBA, CHR 0xE7, CHR 0xA0, CHR 0x94,
    CHR 0xE5, CHR 0x8F, CHR 0x91, CHR 0xE5, CHR 0x8F, CHR 0x91, CHR 0xE5, CHR 0xB8, CHR 0x83,
    CHR 0xE5, CHR 0x8F, CHR 0x98, CHR 0xE6, CHR 0x9B, CHR 0xB4, CHR 0xE5, CHR 0x8D, CHR 0x95]"

definition txt_update_title :: string where
  "txt_update_title = [
    CHR 0xE6, CHR 0x9B, CHR 0xB4, CHR 0xE6, CHR 0x96, CHR 0xB0, CHR 0xE5, CHR 0x8F, CHR 0x98,
    CHR 0xE6, CHR 0x9B, CHR 0xB4, CHR 0xE6, CHR 0x96, CHR 0xB9, CHR 0xE6, CHR 0xA1, CHR 0x88]"

definition txt_update_detail :: string where
  "txt_update_detail = [
    CHR 0x53, CHR 0x51, CHR 0x4C, CHR 0xE3, CHR 0x80, CHR 0x81, CHR 0xE9, CHR 0x85, CHR 0x8D,
    CHR 0xE7, CHR 0xBD, CHR 0xAE, CHR 0xE3, CHR 0x80, CHR 0x81, CHR 0x4B, CHR 0x75, CHR 0x62,
    CHR 0x65, CHR 0x72, CHR 0x6E, CHR 0x65, CHR 0x74, CHR 0x65, CHR 0x73, CHR 0x20, CHR 0xE6,
    CHR 0x88, CHR 0x96, CHR 0xE5, CHR 0x9B, CHR 0x9E, CHR 0xE6, CHR 0xBB, CHR 0x9A, CHR 0xE6,
    CHR 0x96, CHR 0xB9, CHR 0xE6, CHR 0xA1, CHR 0x88, CHR 0xE5, CHR 0xB7, CHR 0xB2, CHR 0xE4,
    CHR 0xBF, CHR 0xAE, CHR 0xE6, CHR 0x94, CHR 0xB9, CHR 0xEF, CHR 0xBC, CHR 0x8C, CHR 0xE5,
    CHR 0x8E, CHR 0x86, CHR 0xE5, CHR 0x8F, CHR 0xB2, CHR 0xE8, CHR 0xAE, CHR 0xB0, CHR 0xE5,
    CHR 0xBD, CHR 0x95, CHR 0xE4, CHR 0xBF, CHR 0x9D, CHR 0xE7, CHR 0x95, CHR 0x99]"

definition txt_update_audit :: string where
  "txt_update_audit = [
    CHR 0xE4, CHR 0xBF, CHR 0xAE, CHR 0xE6, CHR 0x94, CHR 0xB9, CHR 0xE5, CHR 0x8F, CHR 0x98,
    CHR 0xE6, CHR 0x9B, CHR 0xB4, CHR 0xE5, CHR 0x86, CHR 0x85, CHR 0xE5, CHR 0xAE, CHR 0xB9,
    CHR 0xE5, CHR 0xB9, CHR 0xB6, CHR 0xE9, CHR 0x87, CHR 0x8D, CHR 0xE7, CHR 0xBD, CHR 0xAE,
    CHR 0xE5, CHR 0xBE, CHR 0x85, CHR 0xE6, CHR 0xA3, CHR 0x80, CHR 0xE6, CHR 0x9F, CHR 0xA5,
    CHR 0xE7, CHR 0x8A, CHR 0xB6, CHR 0xE6, CHR 0x80, CHR 0x81]"

definition txt_revoke_on_update :: string where
  "txt_revoke_on_update = [
    CHR 0xE5, CHR 0x8F, CHR 0x98, CHR 0xE6, CHR 0x9B, CHR 0xB4, CHR 0xE5, CHR 0x86, CHR 0x85,
    CHR 0xE5, CHR 0xAE, CHR 0xB9, CHR 0xE4, CHR 0xBF, CHR 0xAE, CHR 0xE6, CHR 0x94, CHR 0xB9,
    CHR 0xEF, CHR 0xBC, CHR 0x8C, CHR 0xE6, CHR 0x92, CHR 0xA4, CHR 0xE9, CHR 0x94, CHR 0x80,
    CHR 0xE6, CHR 0x97, CHR 0xA7, CHR 0xE9, CHR 0x80, CHR 0x9A, CHR 0xE8, CHR 0xA1, CHR 0x8C,
    CHR 0xE8, CHR 0xAF, CHR 0x81]"

definition txt_finding_1 :: string where
  "txt_finding_1 = [
    CHR 0xE9, CHR 0xA3, CHR 0x8E, CHR 0xE9, CHR 0x99, CHR 0xA9, CHR 0xE9, CHR 0xA1, CHR 0xB9,
    CHR 0x20]"

definition txt_assign_2 :: string where
  "txt_assign_2 = [
    CHR 0x20, CHR 0xE5, CHR 0xB7, CHR 0xB2, CHR 0xE6, CHR 0xB4, CHR 0xBE, CHR 0xE7, CHR 0xBB,
    CHR 0x99, CHR 0x20]"

definition txt_assign_3 :: string where
  "txt_assign_3 = [
    CHR 0xEF, CHR 0xBC, CHR 0x8C, CHR 0xE8, CHR 0xA6, CHR 0x81, CHR 0xE6, CHR 0xB1, CHR 0x82,
    CHR 0xE4, CHR 0xBA, CHR 0x8E, CHR 0x20]"

definition txt_assign_4 :: string where
  "txt_assign_4 = [
    CHR 0x20, CHR 0xE5, CHR 0x89, CHR 0x8D, CHR 0xE5, CHR 0xAE, CHR 0x8C, CHR 0xE6, CHR 0x88,
    CHR 0x90, CHR 0xE6, CHR 0x95, CHR 0xB4, CHR 0xE6, CHR 0x94, CHR 0xB9]"

definition txt_assign_title :: string where
  "txt_assign_title = [
    CHR 0xE9, CHR 0xA3, CHR 0x8E, CHR 0xE9, CHR 0x99, CHR 0xA9, CHR 0xE6, CHR 0x95, CHR 0xB4,
    CHR 0xE6, CHR 0x94, CHR 0xB9, CHR 0xE6, CHR 0xB4, CHR 0xBE, CHR 0xE5, CHR 0x8D, CHR 0x95]"

definition txt_resolve_2 :: string where
  "txt_resolve_2 = [
    CHR 0x20, CHR 0xE5, CHR 0xB7, CHR 0xB2, CHR 0xE6, CHR 0x8F, CHR 0x90, CHR 0xE4, CHR 0xBA,
    CHR 0xA4, CHR 0xE6, CHR 0x95, CHR 0xB4, CHR 0xE6, CHR 0x94, CHR 0xB9, CHR 0xEF, CHR 0xBC,
    CHR 0x8C, CHR 0xE7, CHR 0xAD, CHR 0x89, CHR 0xE5, CHR 0xBE, CHR 0x85, CHR 0xE5, CHR 0xAE,
    CHR 0xA1, CHR 0xE6, CHR 0xA0, CHR 0xB8, CHR 0xE4, CHR 0xBA, CHR 0xBA, CHR 0xE5, CHR 0xA4,
    CHR 0x8D, CHR 0xE6, CHR 0xA0, CHR 0xB8]"

definition txt_resolve_title :: string where
  "txt_resolve_title = [
    CHR 0xE6, CHR 0x8F, CHR 0x90, CHR 0xE4, CHR 0xBA, CHR 0xA4, CHR 0xE9, CHR 0xA3, CHR 0x8E,
    CHR 0xE9, CHR 0x99, CHR 0xA9, CHR 0xE6, CHR 0x95, CHR 0xB4, CHR 0xE6, CHR 0x94, CHR 0xB9]"

definition txt_verify_default :: string where
  "txt_verify_default = [
    CHR 0xE6, CHR 0x95, CHR 0xB4, CHR 0xE6, CHR 0x94, CHR 0xB9, CHR 0xE8, CHR 0xAF, CHR 0x81,
    CHR 0xE6, CHR 0x8D, CHR 0xAE, CHR 0xE5, CHR 0xB7, CHR 0xB2, CHR 0xE6, CHR 0xA0, CHR 0xB8,
    CHR 0xE5, CHR 0xAF, CHR 0xB9, CHR 0xEF, CHR 0xBC, CHR 0x8C, CHR 0xE5, CHR 0xA4, CHR 0x8D,
    CHR 0xE6, CHR 0xA0, CHR 0xB8, CHR 0xE9, CHR 0x80, CHR 0x9A, CHR 0xE8, CHR 0xBF, CHR 0x87]"

definition txt_verify_title :: string where
  "txt_verify_title = [
    CHR 0xE9, CHR 0xA3, CHR 0x8E, CHR 0xE9, CHR 0x99, CHR 0xA9, CHR 0xE5, CHR 0xA4, CHR 0x8D,
    CHR 0xE6, CHR 0xA0, CHR 0xB8, CHR 0xE9, CHR 0x80, CHR 0x9A, CHR 0xE8, CHR 0xBF, CHR 0x87]"

definition txt_verify_reject_title :: string where
  "txt_verify_reject_title = [
    CHR 0xE9, CHR 0xA3, CHR 0x8E, CHR 0xE9, CHR 0x99, CHR 0xA9, CHR 0xE6, CHR 0x95, CHR 0xB4,
    CHR 0xE6, CHR 0x94, CHR 0xB9, CHR 0xE9, CHR 0x80, CHR 0x80, CHR 0xE5, CHR 0x9B, CHR 0x9E]"

definition txt_closed_title :: string where
  "txt_closed_title = [
    CHR 0xE9, CHR 0x98, CHR 0xBB, CHR 0xE6, CHR 0x96, CHR 0xAD, CHR 0xE9, CHR 0xA3, CHR 0x8E,
    CHR 0xE9, CHR 0x99, CHR 0xA9, CHR 0xE5, CHR 0xB7, CHR 0xB2, CHR 0xE9, CHR 0x97, CHR 0xAD,
    CHR 0xE7, CHR 0x8E, CHR 0xAF]"

definition txt_closed_sql :: string where
  "txt_closed_sql = [
    CHR 0xE6, CHR 0x89, CHR 0x80, CHR 0xE6, CHR 0x9C, CHR 0x89, CHR 0xE9, CHR 0x98, CHR 0xBB,
    CHR 0xE6, CHR 0x96, CHR 0xAD, CHR 0xE9, CHR 0xA3, CHR 0x8E, CHR 0xE9, CHR 0x99, CHR 0xA9,
    CHR 0xE9, CHR 0xA1, CHR 0xB9, CHR 0xE5, CHR 0x9D, CHR 0x87, CHR 0xE5, CHR 0xAE, CHR 0x8C,
    CHR 0xE6, CHR 0x88, CHR 0x90, CHR 0xE6, CHR 0x95, CHR 0xB4, CHR 0xE6, CHR 0x94, CHR 0xB9,
    CHR 0xE4, CHR 0xB8, CHR 0x8E, CHR 0xE7, CHR 0x8B, CHR 0xAC, CHR 0xE7, CHR 0xAB, CHR 0x8B,
    CHR 0xE5, CHR 0xA4, CHR 0x8D, CHR 0xE6, CHR 0xA0, CHR 0xB8, CHR 0xEF, CHR 0xBC, CHR 0x8C,
    CHR 0xE5, CHR 0x8F, CHR 0xAF, CHR 0xE4, CHR 0xBB, CHR 0xA5, CHR 0xE8, CHR 0xBF, CHR 0x9B,
    CHR 0xE5, CHR 0x85, CHR 0xA5, CHR 0x20, CHR 0x50, CHR 0x6F, CHR 0x73, CHR 0x74, CHR 0x67,
    CHR 0x72, CHR 0x65, CHR 0x53, CHR 0x51, CHR 0x4C, CHR 0x20, CHR 0xE5, CHR 0xBD, CHR 0xB1,
    CHR 0xE5, CHR 0xAD, CHR 0x90, CHR 0xE6, CHR 0xBC, CHR 0x94, CHR 0xE7, CHR 0xBB, CHR 0x83]"

definition txt_closed_static :: string where
  "txt_closed_static = [
    CHR 0xE6, CHR 0x89, CHR 0x80, CHR 0xE6, CHR 0x9C, CHR 0x89, CHR 0xE9, CHR 0x98, CHR 0xBB,
    CHR 0xE6, CHR 0x96, CHR 0xAD, CHR 0xE9, CHR 0xA3, CHR 0x8E, CHR 0xE9, CHR 0x99, CHR 0xA9,
    CHR 0xE9, CHR 0xA1, CHR 0xB9, CHR 0xE5, CHR 0x9D, CHR 0x87, CHR 0xE5, CHR 0xAE, CHR 0x8C,
    CHR 0xE6, CHR 0x88, CHR 0x90, CHR 0xE6, CHR 0x95, CHR 0xB4, CHR 0xE6, CHR 0x94, CHR 0xB9,
    CHR 0xE4, CHR 0xB8, CHR 0x8E, CHR 0xE7, CHR 0x8B, CHR 0xAC, CHR 0xE7, CHR 0xAB, CHR 0x8B,
    CHR 0xE5, CHR 0xA4, CHR 0x8D, CHR 0xE6, CHR 0xA0, CHR 0xB8, CHR 0xEF, CHR 0xBC, CHR 0x8C,
    CHR 0xE9, CHR 0x9D, CHR 0x99, CHR 0xE6, CHR 0x80, CHR 0x81, CHR 0xE9, CHR 0x97, CHR 0xA8,
    CHR 0xE7, CHR 0xA6, CHR 0x81, CHR 0xE9, CHR 0x80, CHR 0x9A, CHR 0xE8, CHR 0xBF, CHR 0x87,
    CHR 0xEF, CHR 0xBC, CHR 0x8C, CHR 0xE7, CHR 0xAD, CHR 0x89, CHR 0xE5, CHR 0xBE, CHR 0x85,
    CHR 0xE7, CHR 0x8B, CHR 0xAC, CHR 0xE7, CHR 0xAB, CHR 0x8B, CHR 0xE5, CHR 0xAE, CHR 0xA1,
    CHR 0xE6, CHR 0x89, CHR 0xB9]"

definition txt_same_service :: string where
  "txt_same_service = [
    CHR 0xE5, CHR 0x90, CHR 0x8C, CHR 0xE4, CHR 0xB8, CHR 0x80, CHR 0xE6, CHR 0x9C, CHR 0x8D,
    CHR 0xE5, CHR 0x8A, CHR 0xA1]"

definition txt_upstream :: string where
  "txt_upstream = [
    CHR 0xE7, CHR 0x9B, CHR 0xB4, CHR 0xE6, CHR 0x8E, CHR 0xA5, CHR 0xE4, CHR 0xB8, CHR 0x8A,
    CHR 0xE6, CHR 0xB8, CHR 0xB8]"

definition txt_downstream :: string where
  "txt_downstream = [
    CHR 0xE7, CHR 0x9B, CHR 0xB4, CHR 0xE6, CHR 0x8E, CHR 0xA5, CHR 0xE4, CHR 0xB8, CHR 0x8B,
    CHR 0xE6, CHR 0xB8, CHR 0xB8]"

definition txt_win_1 :: string where
  "txt_win_1 = [
    CHR 0xE2, CHR 0x80, CHR 0x9C]"

definition txt_win_2 :: string where
  "txt_win_2 = [
    CHR 0xE2, CHR 0x80, CHR 0x9D, CHR 0xE5, CHR 0x9C, CHR 0xA8, CHR 0x20, CHR 0x39, CHR 0x30,
    CHR 0x20, CHR 0xE5, CHR 0x88, CHR 0x86, CHR 0xE9, CHR 0x92, CHR 0x9F, CHR 0xE4, CHR 0xBF,
    CHR 0x9D, CHR 0xE6, CHR 0x8A, CHR 0xA4, CHR 0xE7, CHR 0xAA, CHR 0x97, CHR 0xE5, CHR 0x8F,
    CHR 0xA3, CHR 0xE5, CHR 0x86, CHR 0x85, CHR 0xE5, CHR 0xB7, CHR 0xB2, CHR 0xE6, CHR 0x9C,
    CHR 0x89, CHR 0xE5, CHR 0x8F, CHR 0x98, CHR 0xE6, CHR 0x9B, CHR 0xB4, CHR 0xE2, CHR 0x80,
    CHR 0x9C]"

definition txt_win_3 :: string where
  "txt_win_3 = [
    CHR 0xE2, CHR 0x80, CHR 0x9D, CHR 0xEF, CHR 0xBC, CHR 0x88]"

definition txt_win_4 :: string where
  "txt_win_4 = [
    CHR 0xEF, CHR 0xBC, CHR 0x89, CHR 0xE3, CHR 0x80, CHR 0x82]"

definition txt_under_minute :: string where
  "txt_under_minute = [
    CHR 0xE4, CHR 0xB8, CHR 0x8D, CHR 0xE8, CHR 0xB6, CHR 0xB3, CHR 0x20, CHR 0x31, CHR 0x20,
    CHR 0xE5, CHR 0x88, CHR 0x86, CHR 0xE9, CHR 0x92, CHR 0x9F]"

definition txt_minutes :: string where
  "txt_minutes = [
    CHR 0x20, CHR 0xE5, CHR 0x88, CHR 0x86, CHR 0xE9, CHR 0x92, CHR 0x9F]"

definition txt_submit_ok_title :: string where
  "txt_submit_ok_title = [
    CHR 0xE8, CHR 0xA7, CHR 0x84, CHR 0xE5, CHR 0x88, CHR 0x99, CHR 0xE6, CHR 0xA3, CHR 0x80,
    CHR 0xE6, CHR 0x9F, CHR 0xA5, CHR 0xE9, CHR 0x80, CHR 0x9A, CHR 0xE8, CHR 0xBF, CHR 0x87]"

definition txt_submit_1 :: string where
  "txt_submit_1 = [
    CHR 0xE8, CHR 0xAF, CHR 0x86, CHR 0xE5, CHR 0x88, CHR 0xAB, CHR 0x20]"

definition txt_submit_2 :: string where
  "txt_submit_2 = [
    CHR 0x20, CHR 0xE7, CHR 0xB1, CHR 0xBB, CHR 0xE5, CHR 0x8F, CHR 0x98, CHR 0xE6, CHR 0x9B,
    CHR 0xB4, CHR 0xE8, CHR 0xAF, CHR 0x81, CHR 0xE6, CHR 0x8D, CHR 0xAE, CHR 0xE5, CHR 0x92,
    CHR 0x8C, CHR 0x20]"

definition txt_submit_3 :: string where
  "txt_submit_3 = [
    CHR 0x20, CHR 0xE6, CHR 0x9D, CHR 0xA1, CHR 0x20, CHR 0x53, CHR 0x51, CHR 0x4C, CHR 0xEF,
    CHR 0xBC, CHR 0x8C, CHR 0xE5, CHR 0x91, CHR 0xBD, CHR 0xE4, CHR 0xB8, CHR 0xAD, CHR 0x20]"

definition txt_submit_4 :: string where
  "txt_submit_4 = [
    CHR 0x20, CHR 0xE9, CHR 0xA1, CHR 0xB9, CHR 0xE8, CHR 0xA7, CHR 0x84, CHR 0xE5, CHR 0x88,
    CHR 0x99, CHR 0xE8, CHR 0xAF, CHR 0x81, CHR 0xE6, CHR 0x8D, CHR 0xAE]"

definition txt_submit_blocked_title :: string where
  "txt_submit_blocked_title = [
    CHR 0xE8, CHR 0xA7, CHR 0x84, CHR 0xE5, CHR 0x88, CHR 0x99, CHR 0xE6, CHR 0xA3, CHR 0x80,
    CHR 0xE6, CHR 0x9F, CHR 0xA5, CHR 0xE9, CHR 0x98, CHR 0xBB, CHR 0xE6, CHR 0x96, CHR 0xAD]"

definition txt_submit_blocked :: string where
  "txt_submit_blocked = [
    CHR 0xE5, CHR 0x8F, CHR 0x91, CHR 0xE7, CHR 0x8E, CHR 0xB0, CHR 0xE5, CHR 0x8F, CHR 0x91,
    CHR 0xE5, CHR 0xB8, CHR 0x83, CHR 0xE7, CHR 0xAA, CHR 0x97, CHR 0xE5, CHR 0x8F, CHR 0xA3,
    CHR 0xE5, CHR 0x86, CHR 0xB2, CHR 0xE7, CHR 0xAA, CHR 0x81, CHR 0xE3, CHR 0x80, CHR 0x81,
    CHR 0xE9, CHR 0x85, CHR 0x8D, CHR 0xE7, CHR 0xBD, CHR 0xAE, CHR 0xE6, CHR 0xB3, CHR 0x84,
    CHR 0xE5, CHR 0xAF, CHR 0x86, CHR 0xE3, CHR 0x80, CHR 0x81, CHR 0x4B, CHR 0x75, CHR 0x62,
    CHR 0x65, CHR 0x72, CHR 0x6E, CHR 0x65, CHR 0x74, CHR 0x65, CHR 0x73, CHR 0x20, CHR 0xE5,
    CHR 0xAE, CHR 0x89, CHR 0xE5, CHR 0x85, CHR 0xA8, CHR 0xE5, CHR 0x9F, CHR 0xBA, CHR 0xE7,
    CHR 0xBA, CHR 0xBF, CHR 0xE3, CHR 0x80, CHR 0x81, CHR 0xE5, CHR 0x8D, CHR 0xB1, CHR 0xE9,
    CHR 0x99, CHR 0xA9, CHR 0x20, CHR 0x53, CHR 0x51, CHR 0x4C, CHR 0x20, CHR 0xE6, CHR 0x88,
    CHR 0x96, CHR 0xE7, CHR 0xBC, CHR 0xBA, CHR 0xE5, CHR 0xA4, CHR 0xB1, CHR 0xE5, CHR 0x9B,
    CHR 0x9E, CHR 0xE6, CHR 0xBB, CHR 0x9A, CHR 0xE7, CHR 0xAD, CHR 0x89, CHR 0xE9, CHR 0x98,
    CHR 0xBB, CHR 0xE6, CHR 0x96, CHR 0xAD, CHR 0xE9, CHR 0xA1, CHR 0xB9]"

definition txt_static_ok_title :: string where
  "txt_static_ok_title = [
    CHR 0xE7, CHR 0xA1, CHR 0xAE, CHR 0xE5, CHR 0xAE, CHR 0x9A, CHR 0xE6, CHR 0x80, CHR 0xA7,
    CHR 0xE9, CHR 0x9D, CHR 0x99, CHR 0xE6, CHR 0x80, CHR 0x81, CHR 0xE9, CHR 0x97, CHR 0xA8,
    CHR 0xE7, CHR 0xA6, CHR 0x81, CHR 0xE9, CHR 0x80, CHR 0x9A, CHR 0xE8, CHR 0xBF, CHR 0x87,
    CHR 0xEF, CHR 0xBC, CHR 0x8C, CHR 0xE7, CHR 0xAD, CHR 0x89, CHR 0xE5, CHR 0xBE, CHR 0x85,
    CHR 0xE5, CHR 0xAE, CHR 0xA1, CHR 0xE6, CHR 0x89, CHR 0xB9]"

definition txt_static_ok :: string where
  "txt_static_ok = [
    CHR 0xE9, CHR 0x85, CHR 0x8D, CHR 0xE7, CHR 0xBD, CHR 0xAE, CHR 0xE4, CHR 0xB8, CHR 0x8E,
    CHR 0x20, CHR 0x4B, CHR 0x75, CHR 0x62, CHR 0x65, CHR 0x72, CHR 0x6E, CHR 0x65, CHR 0x74,
    CHR 0x65, CHR 0x73, CHR 0x20, CHR 0xE5, CHR 0x88, CHR 0xB6, CHR 0xE5, CHR 0x93, CHR 0x81,
    CHR 0xE5, CHR 0xB7, CHR 0xB2, CHR 0xE5, CHR 0xAE, CHR 0x8C, CHR 0xE6, CHR 0x88, CHR 0x90,
    CHR 0xE7, CHR 0x9C, CHR 0x9F, CHR 0xE5, CHR 0xAE, CHR 0x9E, CHR 0xE8, CHR 0xA7, CHR 0x84,
    CHR 0xE5, CHR 0x88, CHR 0x99, CHR 0xE6, CHR 0xA3, CHR 0x80, CHR 0xE6, CHR 0x9F, CHR 0xA5,
    CHR 0xEF, CHR 0xBC, CHR 0x9B, CHR 0xE6, CHR 0x9C, CHR 0xAA, CHR 0xE4, CHR 0xBC, CHR 0xAA,
    CHR 0xE9, CHR 0x80, CHR 0xA0, CHR 0xE8, CHR 0xBF, CHR 0x90, CHR 0xE8, CHR 0xA1, CHR 0x8C,
    CHR 0xE6, CHR 0x97, CHR 0xB6, CHR 0xE6, CHR 0xBC, CHR 0x94, CHR 0xE7, CHR 0xBB, CHR 0x83,
    CHR 0xE7, CHR 0xBB, CHR 0x93, CHR 0xE6, CHR 0x9E, CHR 0x9C]"

definition txt_revoke_on_submit :: string where
  "txt_revoke_on_submit = [
    CHR 0xE5, CHR 0x8F, CHR 0x98, CHR 0xE6, CHR 0x9B, CHR 0xB4, CHR 0xE9, CHR 0x87, CHR 0x8D,
    CHR 0xE6, CHR 0x96, CHR 0xB0, CHR 0xE6, CHR 0x8F, CHR 0x90, CHR 0xE4, CHR 0xBA, CHR 0xA4,
    CHR 0xE6, CHR 0xA3, CHR 0x80, CHR 0xE6, CHR 0x9F, CHR 0xA5, CHR 0xEF, CHR 0xBC, CHR 0x8C,
    CHR 0xE6, CHR 0x92, CHR 0xA4, CHR 0xE9, CHR 0x94, CHR 0x80, CHR 0xE6, CHR 0x97, CHR 0xA7,
    CHR 0xE9, CHR 0x80, CHR 0x9A, CHR 0xE8, CHR 0xA1, CHR 0x8C, CHR 0xE8, CHR 0xAF, CHR 0x81]"

definition txt_analysis_title :: string where
  "txt_analysis_title = [
    CHR 0xE7, CHR 0x94, CHR 0x9F, CHR 0xE6, CHR 0x88, CHR 0x90, CHR 0x20, CHR 0x41, CHR 0x49,
    CHR 0x20, CHR 0xE5, CHR 0x8F, CHR 0x82, CHR 0xE8, CHR 0x80, CHR 0x83, CHR 0xE6, CHR 0x84,
    CHR 0x8F, CHR 0xE8, CHR 0xA7, CHR 0x81]"

definition txt_analysis_detail :: string where
  "txt_analysis_detail = [
    CHR 0xE6, CHR 0xA8, CHR 0xA1, CHR 0xE5, CHR 0x9E, CHR 0x8B, CHR 0xE4, CHR 0xBB, CHR 0x85,
    CHR 0xE8, CHR 0xBE, CHR 0x93, CHR 0xE5, CHR 0x87, CHR 0xBA, CHR 0xE5, CHR 0x8F, CHR 0x82,
    CHR 0xE8, CHR 0x80, CHR 0x83, CHR 0xE7, CHR 0xBB, CHR 0x93, CHR 0xE8, CHR 0xAE, CHR 0xBA,
    CHR 0xEF, CHR 0xBC, CHR 0x8C, CHR 0xE4, CHR 0xB8, CHR 0x8D, CHR 0xE5, CHR 0x8F, CHR 0x82,
    CHR 0xE4, CHR 0xB8, CHR 0x8E, CHR 0xE6, CHR 0x94, CHR 0xBE, CHR 0xE8, CHR 0xA1, CHR 0x8C,
    CHR 0xE5, CHR 0x86, CHR 0xB3, CHR 0xE7, CHR 0xAD, CHR 0x96, CHR 0xEF, CHR 0xBC, CHR 0x9B,
    CHR 0x70, CHR 0x72, CHR 0x6F, CHR 0x76, CHR 0x69, CHR 0x64, CHR 0x65, CHR 0x72, CHR 0x3D]"

definition txt_system :: string where
  "txt_system = [
    CHR 0xE7, CHR 0xB3, CHR 0xBB, CHR 0xE7, CHR 0xBB, CHR 0x9F]"

definition txt_queue_title :: string where
  "txt_queue_title = [
    CHR 0xE8, CHR 0xBF, CHR 0x9B, CHR 0xE5, CHR 0x85, CHR 0xA5, CHR 0xE6, CHR 0xBC, CHR 0x94,
    CHR 0xE7, CHR 0xBB, CHR 0x83, CHR 0xE9, CHR 0x98, CHR 0x9F, CHR 0xE5, CHR 0x88, CHR 0x97]"

definition txt_queue_detail :: string where
  "txt_queue_detail = [
    CHR 0xE5, CHR 0x8F, CHR 0xAF, CHR 0xE9, CHR 0x9D, CHR 0xA0, CHR 0x20, CHR 0x57, CHR 0x6F,
    CHR 0x72, CHR 0x6B, CHR 0x65, CHR 0x72, CHR 0x20, CHR 0xE5, CHR 0xB0, CHR 0x86, CHR 0xE6,
    CHR 0x89, CHR 0xA7, CHR 0xE8, CHR 0xA1, CHR 0x8C, CHR 0xE5, CHR 0xBD, CHR 0xB1, CHR 0xE5,
    CHR 0xAD, CHR 0x90, CHR 0xE5, CHR 0xBA, CHR 0x93, CHR 0xE5, CHR 0x8F, CHR 0x98, CHR 0xE6,
    CHR 0x9B, CHR 0xB4, CHR 0xE3, CHR 0x80, CHR 0x81, CHR 0xE5, CHR 0x9B, CHR 0x9E, CHR 0xE6,
    CHR 0xBB, CHR 0x9A, CHR 0xE4, CHR 0xB8, CHR 0x8E, CHR 0xE6, CHR 0x8C, CHR 0x87, CHR 0xE6,
    CHR 0xA0, CHR 0x87, CHR 0xE9, CHR 0x87, CHR 0x87, CHR 0xE9, CHR 0x9B, CHR 0x86]"

definition txt_queue_audit :: string where
  "txt_queue_audit = [
    CHR 0xE6, CHR 0x8F, CHR 0x90, CHR 0xE4, CHR 0xBA, CHR 0xA4, CHR 0xE5, CHR 0xBD, CHR 0xB1,
    CHR 0xE5, CHR 0xAD, CHR 0x90, CHR 0xE5, CHR 0xBA, CHR 0x93, CHR 0xE6, CHR 0xBC, CHR 0x94,
    CHR 0xE7, CHR 0xBB, CHR 0x83, CHR 0xE4, CHR 0xBB, CHR 0xBB, CHR 0xE5, CHR 0x8A, CHR 0xA1,
    CHR 0xE5, CHR 0xB9, CHR 0xB6, CHR 0xE5, CHR 0x86, CHR 0x99, CHR 0xE5, CHR 0x85, CHR 0xA5,
    CHR 0xE4, CHR 0xBA, CHR 0x8B, CHR 0xE5, CHR 0x8A, CHR 0xA1, CHR 0x20, CHR 0x4F, CHR 0x75,
    CHR 0x74, CHR 0x62, CHR 0x6F, CHR 0x78]"

definition txt_comment_audit :: string where
  "txt_comment_audit = [
    CHR 0xE6, CHR 0xB7, CHR 0xBB, CHR 0xE5, CHR 0x8A, CHR 0xA0, CHR 0xE5, CHR 0x8D, CHR 0x8F,
    CHR 0xE4, CHR 0xBD, CHR 0x9C, CHR 0xE8, CHR 0xAF, CHR 0x84, CHR 0xE8, CHR 0xAE, CHR 0xBA]"

definition txt_approve_default :: string where
  "txt_approve_default = [
    CHR 0xE8, CHR 0xAF, CHR 0x81, CHR 0xE6, CHR 0x8D, CHR 0xAE, CHR 0xE5, CHR 0xB7, CHR 0xB2,
    CHR 0xE6, CHR 0xA0, CHR 0xB8, CHR 0xE5, CHR 0xAF, CHR 0xB9, CHR 0xEF, CHR 0xBC, CHR 0x8C,
    CHR 0xE5, CHR 0x90, CHR 0x8C, CHR 0xE6, CHR 0x84, CHR 0x8F, CHR 0xE6, CHR 0x8C, CHR 0x89,
    CHR 0xE8, CHR 0xAE, CHR 0xA1, CHR 0xE5, CHR 0x88, CHR 0x92, CHR 0xE7, CHR 0xAA, CHR 0x97,
    CHR 0xE5, CHR 0x8F, CHR 0xA3, CHR 0xE6, CHR 0x89, CHR 0xA7, CHR 0xE8, CHR 0xA1, CHR 0x8C]"

definition txt_approve_title :: string where
  "txt_approve_title = [
    CHR 0xE5, CHR 0xAE, CHR 0xA1, CHR 0xE6, CHR 0x89, CHR 0xB9, CHR 0xE9, CHR 0x80, CHR 0x9A,
    CHR 0xE8, CHR 0xBF, CHR 0x87]"

definition txt_reject_title :: string where
  "txt_reject_title = [
    CHR 0xE5, CHR 0xAE, CHR 0xA1, CHR 0xE6, CHR 0x89, CHR 0xB9, CHR 0xE9, CHR 0xA9, CHR 0xB3,
    CHR 0xE5, CHR 0x9B, CHR 0x9E]"

definition txt_revoke_on_reject :: string where
  "txt_revoke_on_reject = [
    CHR 0xE5, CHR 0xAE, CHR 0xA1, CHR 0xE6, CHR 0x89, CHR 0xB9, CHR 0xE9, CHR 0xA9, CHR 0xB3,
    CHR 0xE5, CHR 0x9B, CHR 0x9E, CHR 0xEF, CHR 0xBC, CHR 0x8C, CHR 0xE6, CHR 0x92, CHR 0xA4,
    CHR 0xE9, CHR 0x94, CHR 0x80, CHR 0xE6, CHR 0x97, CHR 0xA7, CHR 0xE9, CHR 0x80, CHR 0x9A,
    CHR 0xE8, CHR 0xA1, CHR 0x8C, CHR 0xE8, CHR 0xAF, CHR 0x81]"

definition txt_policy_create :: string where
  "txt_policy_create = [
    CHR 0xE5, CHR 0x88, CHR 0x9B, CHR 0xE5, CHR 0xBB, CHR 0xBA, CHR 0xE8, CHR 0x87, CHR 0xAA,
    CHR 0xE5, CHR 0xAE, CHR 0x9A, CHR 0xE4, CHR 0xB9, CHR 0x89, CHR 0xE9, CHR 0xA3, CHR 0x8E,
    CHR 0xE9, CHR 0x99, CHR 0xA9, CHR 0xE8, CHR 0xA7, CHR 0x84, CHR 0xE5, CHR 0x88, CHR 0x99,
    CHR 0x20]"

definition txt_policy_update :: string where
  "txt_policy_update = [
    CHR 0xE6, CHR 0x9B, CHR 0xB4, CHR 0xE6, CHR 0x96, CHR 0xB0, CHR 0xE9, CHR 0xA3, CHR 0x8E,
    CHR 0xE9, CHR 0x99, CHR 0xA9, CHR 0xE8, CHR 0xA7, CHR 0x84, CHR 0xE5, CHR 0x88, CHR 0x99,
    CHR 0x20]"

definition txt_lparen :: string where
  "txt_lparen = [
    CHR 0xEF, CHR 0xBC, CHR 0x88]"

definition txt_rparen :: string where
  "txt_rparen = [
    CHR 0xEF, CHR 0xBC, CHR 0x89]"

definition txt_enable :: string where
  "txt_enable = [
    CHR 0xE5, CHR 0x90, CHR 0xAF, CHR 0xE7, CHR 0x94, CHR 0xA8]"

definition txt_disable :: string where
  "txt_disable = [
    CHR 0xE5, CHR 0x81, CHR 0x9C, CHR 0xE7, CHR 0x94, CHR 0xA8]"

definition txt_policy_toggle :: string where
  "txt_policy_toggle = [
    CHR 0xE9, CHR 0xA3, CHR 0x8E, CHR 0xE9, CHR 0x99, CHR 0xA9, CHR 0xE8, CHR 0xA7, CHR 0x84,
    CHR 0xE5, CHR 0x88, CHR 0x99, CHR 0x20]"

end
