(* ===== verification/Drafting.thy ===== *)
theory Drafting
  imports Redact Access PassportStore LifecycleTexts
begin

text \<open>
  The creation and the edit of a change in \<^verbatim>\<open>internal/service/service.go\<close>: the normalisation of artifacts
  and release plan, the source of a change, the validation of a draft, and the handlers \<open>create\<close> and
  \<open>Update\<close>. Notifications to subscribers (\<open>publish\<close>) are not modelled.
\<close>

section \<open>Artifacts and plans\<close>

record create_change_input =
  cci_Title :: string
  cci_ApplicationID :: string
  cci_Environment :: string
  cci_ChangeType :: string
  cci_RepositoryURL :: string
  cci_Branch :: string
  cci_CommitSHA :: string
  cci_Artifacts :: "change_artifact list"
  cci_SQL :: string
  cci_RollbackSQL :: string
  cci_RollbackPlan :: string
  cci_ReleasePlan :: release_plan
  cci_Description :: string
  cci_PlannedAt :: gotime
  cci_AgentTaskID :: string

definition allowed_kind :: "string \<Rightarrow> bool" where
  "allowed_kind kind \<longleftrightarrow> kind \<in> set [ArtifactConfig, ArtifactKubernetes, ArtifactDatabase]"

definition normal_artifact :: "senv \<Rightarrow> nat \<Rightarrow> change_artifact \<Rightarrow> change_artifact" where
  "normal_artifact h n item = PrepareArtifact
     (item\<lparr> art_ID := (if art_ID item = [] then NewID h ''artifact_'' n else art_ID item),
            art_Name := defaultString (art_Name item) (art_Kind item @ txt_artifact_suffix) \<rparr>)"

definition sql_artifact :: "senv \<Rightarrow> nat \<Rightarrow> string \<Rightarrow> change_artifact" where
  "sql_artifact h n sqlText = PrepareArtifact
     \<lparr> art_ID = NewID h ''artifact_'' n, art_Kind = ArtifactDatabase, art_Name = txt_artifact_sql,
       art_Source = txt_artifact_source, art_Language = ''SQL'', art_Content = sqlText, art_ContentSHA256 = [] \<rparr>"

definition hasArtifactKind :: "change_artifact list \<Rightarrow> string \<Rightarrow> bool" where
  "hasArtifactKind items kind \<longleftrightarrow> list_ex (\<lambda>a. art_Kind a = kind) items"

definition normalizeArtifacts :: "senv \<Rightarrow> change_artifact list \<Rightarrow> string \<Rightarrow> err + change_artifact list" where
  "normalizeArtifacts h items sqlText =
     (if list_ex (\<lambda>a. \<not> allowed_kind (art_Kind a) \<or> trim_space (art_Content a) = []) items then Inl ErrValidation
      else Inr (map (\<lambda>(n, a). normal_artifact h n a) (enumerate 0 items)
                @ (if trim_space sqlText \<noteq> [] \<and> \<not> hasArtifactKind items ArtifactDatabase
                   then [sql_artifact h (length items) sqlText] else [])))"

definition deriveChangeType :: "change_artifact list \<Rightarrow> string" where
  "deriveChangeType items =
     (let kinds = remdups (map art_Kind items) in
      if 1 < length kinds then txt_type_joint
      else if ArtifactDatabase \<in> set kinds then txt_type_database
      else if ArtifactConfig \<in> set kinds then txt_type_config
      else if ArtifactKubernetes \<in> set kinds then txt_type_k8s
      else txt_type_production)"

definition artifactBytes :: "change_artifact list \<Rightarrow> nat" where
  "artifactBytes items =
     sum_list (map (\<lambda>a. length (art_Name a) + length (art_Source a) + length (art_Language a) + length (art_Content a)) items)"

definition normalizeReleasePlan :: "release_plan \<Rightarrow> release_plan" where
  "normalizeReleasePlan plan =
     (let percent = plan_CanaryPercent plan;
          percent = (if percent < 0 then 0 else percent);
          percent = (if 100 < percent then 100 else percent);
          minutes = plan_ObservationMinutes plan;
          minutes = (if minutes \<le> 0 then 15 else minutes);
          minutes = (if 1440 < minutes then 1440 else minutes)
      in plan\<lparr> plan_Strategy := defaultString (plan_Strategy plan) txt_strategy_full,
               plan_CanaryPercent := percent, plan_ObservationMinutes := minutes,
               plan_SuccessMetrics := normalizeStringList (plan_SuccessMetrics plan) \<rparr>)"

section \<open>The source of a change\<close>

text \<open>The loop over the runes accepts single-byte runes of a small alphabet only, so it can go over bytes.\<close>

definition validAgentTaskID :: "string \<Rightarrow> bool" where
  "validAgentTaskID value \<longleftrightarrow>
     value = [] \<or> length value \<le> 128 \<and> list_all (\<lambda>c. is_letter c \<or> is_digit c \<or> c = CHR ''_'' \<or> c = CHR ''-'') value"

definition changeSource :: "string \<Rightarrow> string" where
  "changeSource agentTaskID = (if trim_space agentTaskID \<noteq> [] then ''agent_task'' else ''console'')"

definition trustedReleaseSources :: "string list" where
  "trustedReleaseSources = [[], ''console'', ''agent_task'']"

definition trustedForRelease :: "change_request \<Rightarrow> bool" where
  "trustedForRelease c \<longleftrightarrow> trim_space (chg_Source c) \<in> set trustedReleaseSources"

section \<open>The draft of a request\<close>

text \<open>What a request says about a change once it is accepted, shared by \<open>create\<close> and \<open>Update\<close>: \<open>fallback\<close>
  is the environment when the request names none.\<close>

record draft =
  dr_Environment :: string
  dr_ChangeType :: string
  dr_Artifacts :: "change_artifact list"
  dr_Digest :: string

definition credential_free :: "create_change_input \<Rightarrow> bool" where
  "credential_free x \<longleftrightarrow> Redact (cci_SQL x) = cci_SQL x \<and> Redact (cci_RollbackSQL x) = cci_RollbackSQL x"

definition bounded_input :: "create_change_input \<Rightarrow> change_artifact list \<Rightarrow> bool" where
  "bounded_input x artifacts \<longleftrightarrow>
     (let sqlText = trim_space (cci_SQL x) in
      validRuneLength (trim_space (cci_Title x)) 1 120 \<and> validRuneLength (trim_space (cci_Environment x)) 0 64
      \<and> validRuneLength (trim_space (cci_ChangeType x)) 0 64 \<and> validRuneLength (trim_space (cci_Description x)) 0 4000
      \<and> validRuneLength (trim_space (cci_RepositoryURL x)) 0 500 \<and> validRuneLength (trim_space (cci_Branch x)) 0 120
      \<and> validRuneLength (trim_space (cci_CommitSHA x)) 0 120 \<and> length sqlText \<le> 1048576
      \<and> length (trim_space (cci_RollbackSQL x)) \<le> 1048576 \<and> length (trim_space (cci_RollbackPlan x)) \<le> 8000
      \<and> artifactBytes artifacts \<le> 2097152 \<and> \<not> (sqlText = [] \<and> artifacts = [])
      \<and> \<not> (hasArtifactKind artifacts ArtifactDatabase \<and> sqlText = []))"

definition draft_of :: "senv \<Rightarrow> string \<Rightarrow> create_change_input \<Rightarrow> err + draft" where
  "draft_of h fallback x =
     (if \<not> credential_free x then Inl ErrValidation
      else case normalizeArtifacts h (cci_Artifacts x) (cci_SQL x) of
             Inl er \<Rightarrow> Inl er
           | Inr artifacts \<Rightarrow>
               let environment = defaultString (cci_Environment x) fallback;
                   declared = trim_space (cci_ChangeType x);
                   changeType = (if declared = [] then deriveChangeType artifacts else declared)
               in if \<not> bounded_input x artifacts then Inl ErrValidation
                  else Inr \<lparr> dr_Environment = environment, dr_ChangeType = changeType, dr_Artifacts = artifacts,
                             dr_Digest = ChangeDigest environment changeType artifacts (SHA256 (cci_SQL x))
                               (SHA256 (cci_RollbackSQL x)) (cci_RollbackPlan x) \<rparr>)"

text \<open>The fields of a change that the request decides.\<close>

definition write_draft :: "create_change_input \<Rightarrow> application \<Rightarrow> draft \<Rightarrow> gotime \<Rightarrow> change_request \<Rightarrow> change_request" where
  "write_draft x app dr planned c =
     c\<lparr> chg_Title := trim_space (cci_Title x), chg_ApplicationID := app_ID app, chg_ApplicationName := app_Name app,
        chg_Environment := dr_Environment dr, chg_ChangeType := dr_ChangeType dr,
        chg_RepositoryURL := trim_space (cci_RepositoryURL x), chg_Branch := trim_space (cci_Branch x),
        chg_CommitSHA := trim_space (cci_CommitSHA x), chg_ArtifactSHA256 := dr_Digest dr,
        chg_SQLSHA256 := SHA256 (cci_SQL x), chg_RollbackSHA256 := SHA256 (cci_RollbackSQL x),
        chg_Artifacts := dr_Artifacts dr, chg_SQL := Redact (trim_space (cci_SQL x)),
        chg_RollbackSQL := Redact (trim_space (cci_RollbackSQL x)),
        chg_RollbackPlan := Redact (trim_space (cci_RollbackPlan x)),
        chg_ReleasePlan := normalizeReleasePlan (cci_ReleasePlan x),
        chg_Description := Redact (trim_space (cci_Description x)), chg_PlannedAt := planned,
        chg_Status := StatusDraft, chg_Risk := RiskUnknown \<rparr>"

definition may_use_application :: "db \<Rightarrow> user \<Rightarrow> string \<Rightarrow> application option" where
  "may_use_application d actor i =
     (case Application d i of
        Inl _ \<Rightarrow> None
      | Inr app \<Rightarrow>
          if app_OrganizationID app \<noteq> usr_OrganizationID actor \<or> \<not> canUseApplication d actor (app_ID app) ''submit''
          then None else Some app)"

section \<open>The handlers\<close>

definition new_change ::
  "senv \<Rightarrow> user \<Rightarrow> application \<Rightarrow> draft \<Rightarrow> string \<Rightarrow> string \<Rightarrow> gotime \<Rightarrow> create_change_input \<Rightarrow> change_request" where
  "new_change h actor app dr requestKey agentTaskID planned x =
     (let k = Suc (length (cci_Artifacts x)) in
      write_draft x app dr planned
        (zero_change_request
           \<lparr> chg_OrganizationID := usr_OrganizationID actor, chg_ID := NewID h ''chg_'' k,
             chg_Source := changeSource agentTaskID, chg_AgentTaskID := agentTaskID, chg_RequestKey := requestKey,
             chg_SubmitterID := usr_ID actor, chg_SubmitterName := usr_Name actor,
             chg_CreatedAt := se_now h, chg_UpdatedAt := se_now h, chg_Version := 1,
             chg_Timeline := [timeline h (k + 1) StatusDraft txt_create_title
               (txt_create_1 @ nat_str (length (dr_Artifacts dr)) @ txt_create_2) (usr_Name actor)] \<rparr>))"

definition create ::
  "senv \<Rightarrow> create_change_input \<Rightarrow> string \<Rightarrow> string \<Rightarrow> string \<Rightarrow> db \<Rightarrow> db \<Rightarrow> (err + change_request) \<times> db" where
  "create h x actorID requestKey agentTaskID snap d =
     (case activeActor snap actorID of
        Inl _ \<Rightarrow> (Inl ErrForbidden, d)
      | Inr actor \<Rightarrow>
          (case may_use_application snap actor (cci_ApplicationID x) of
             None \<Rightarrow> (Inl ErrValidation, d)
           | Some app \<Rightarrow>
               (case draft_of h txt_env_default x of
                  Inl er \<Rightarrow> (Inl er, d)
                | Inr dr \<Rightarrow>
                    let agentTaskID = trim_space agentTaskID;
                        planned = (if is_zero (cci_PlannedAt x) then se_now h + 24 * hour else cci_PlannedAt x)
                    in if trim_space (cci_AgentTaskID x) \<noteq> agentTaskID \<or> \<not> validAgentTaskID agentTaskID
                       then (Inl ErrValidation, d)
                       else if \<not> is_zero (cci_PlannedAt x) \<and> \<not> se_now h < cci_PlannedAt x then (Inl ErrValidation, d)
                       else let change = new_change h actor app dr requestKey agentTaskID planned x;
                                ev = audit h (length (cci_Artifacts x) + 3) actor (chg_ID change) ''CREATE'' txt_create_audit
                            in case CreateChange change ev (se_call h 0) d of
                                 (Inl er, d') \<Rightarrow> (Inl er, d')
                               | (Inr _, d') \<Rightarrow> (Inr change, d'))))"

definition Create :: "senv \<Rightarrow> create_change_input \<Rightarrow> string \<Rightarrow> db \<Rightarrow> db \<Rightarrow> (err + change_request) \<times> db" where
  "Create h x actorID snap d = create h x actorID [] [] snap d"

definition CreateVerified ::
  "senv \<Rightarrow> create_change_input \<Rightarrow> string \<Rightarrow> string \<Rightarrow> db \<Rightarrow> db \<Rightarrow> (err + change_request) \<times> db" where
  "CreateVerified h x actorID verifiedAgentTaskID snap d = create h x actorID [] verifiedAgentTaskID snap d"

definition editable :: "change_status \<Rightarrow> bool" where
  "editable s \<longleftrightarrow> s \<in> set [StatusDraft, StatusCheckFailed, StatusRejected, StatusApproved]"

definition edited_change ::
  "senv \<Rightarrow> user \<Rightarrow> application \<Rightarrow> draft \<Rightarrow> gotime \<Rightarrow> create_change_input \<Rightarrow> change_request \<Rightarrow> change_request" where
  "edited_change h actor app dr planned x c =
     (write_draft x app dr planned c)
       \<lparr> chg_RuleSetVersion := [], chg_Findings := [], chg_CheckRun := None, chg_Experiment := None,
         chg_Analysis := None, chg_ReviewerID := [], chg_ReviewerName := [], chg_ReviewComment := [],
         chg_Timeline := chg_Timeline c @ [timeline h (length (cci_Artifacts x) + 1) StatusDraft txt_update_title
                                             txt_update_detail (usr_Name actor)] \<rparr>"

definition revoke_passports :: "senv \<Rightarrow> nat \<Rightarrow> user \<Rightarrow> string \<Rightarrow> string \<Rightarrow> nat \<Rightarrow> db \<Rightarrow> db" where
  "revoke_passports h n actor i detail k d =
     snd (RevokePassportsByChange (usr_OrganizationID actor) i (usr_ID actor) (se_now h)
            (audit h n actor i ''PASSPORTS_REVOKED'' detail) (se_call h k) d)"

definition Update ::
  "senv \<Rightarrow> string \<Rightarrow> create_change_input \<Rightarrow> string \<Rightarrow> db \<Rightarrow> db \<Rightarrow> (err + change_request) \<times> db" where
  "Update h i x actorID snap d =
     (case activeActor snap actorID of
        Inl _ \<Rightarrow> (Inl ErrForbidden, d)
      | Inr actor \<Rightarrow>
          (case Change snap i of
             Inl er \<Rightarrow> (Inl er, d)
           | Inr c \<Rightarrow>
               if chg_OrganizationID c \<noteq> usr_OrganizationID actor \<or> chg_SubmitterID c \<noteq> usr_ID actor
                  \<or> \<not> canUseApplication snap actor (chg_ApplicationID c) ''submit'' then (Inl ErrForbidden, d)
               else if \<not> editable (chg_Status c) then (Inl ErrInvalidState, d)
               else (case may_use_application snap actor (cci_ApplicationID x) of
                       None \<Rightarrow> (Inl ErrValidation, d)
                     | Some app \<Rightarrow>
                         (case draft_of h (chg_Environment c) x of
                            Inl er \<Rightarrow> (Inl er, d)
                          | Inr dr \<Rightarrow>
                              let planned = (if is_zero (cci_PlannedAt x) then chg_PlannedAt c else cci_PlannedAt x)
                              in if \<not> se_now h < planned then (Inl ErrValidation, d)
                                 else case UpdateChange i (\<lambda>item. (None, edited_change h actor app dr planned x item))
                                             [audit h (length (cci_Artifacts x) + 2) actor i ''UPDATE'' txt_update_audit]
                                             (se_call h 0) d of
                                        (Inl er, d') \<Rightarrow> (Inl er, d')
                                      | (Inr c', d') \<Rightarrow>
                                          (Inr c', revoke_passports h (length (cci_Artifacts x) + 3) actor i
                                                     txt_revoke_on_update 1 d')))))"

end
