(* ===== verification/Findings.thy ===== *)
theory Findings
  imports Drafting
begin

text \<open>
  The findings of a change in \<^verbatim>\<open>internal/service/service.go\<close>: which ones block, and their life from
  assignment over resolution to verification by a second person.
\<close>

section \<open>Blocking findings\<close>

definition legacyBlocking :: "string list" where
  "legacyBlocking =
     [''EMPTY_SQL'', ''MISSING_ROLLBACK'', ''UPDATE_WITHOUT_WHERE'', ''DELETE_WITHOUT_WHERE'', ''DROP_TABLE'',
      ''TRUNCATE'', ''ADD_NOT_NULL_WITHOUT_DEFAULT'', ''FK_WITHOUT_NOT_VALID'', ''HEAVY_DDL_REWRITE'']"

definition isBlockingFinding :: "finding \<Rightarrow> bool" where
  "isBlockingFinding f \<longleftrightarrow> fnd_Blocking f \<or> fnd_Code f \<in> set legacyBlocking"

definition hasBlockingFinding :: "finding list \<Rightarrow> bool" where
  "hasBlockingFinding fs \<longleftrightarrow> list_ex (\<lambda>f. isBlockingFinding f \<and> fnd_Status f \<noteq> FindingVerified) fs"

definition findingIndex :: "finding list \<Rightarrow> string \<Rightarrow> nat option" where
  "findingIndex fs i = index_by fnd_ID i fs"

definition allBlockingFindingsVerified :: "finding list \<Rightarrow> bool" where
  "allBlockingFindingsVerified fs \<longleftrightarrow>
     list_ex isBlockingFinding fs \<and> list_all (\<lambda>f. isBlockingFinding f \<longrightarrow> fnd_Status f = FindingVerified) fs"

lemma allVerified_not_blocking: "allBlockingFindingsVerified fs \<Longrightarrow> \<not> hasBlockingFinding fs"
  by (auto simp: allBlockingFindingsVerified_def hasBlockingFinding_def list_ex_iff list_all_iff)

section \<open>Assignment\<close>

definition settled :: "change_status \<Rightarrow> bool" where
  "settled s \<longleftrightarrow> s = StatusApproved \<or> s = StatusCompleted"

definition reviewer_role :: "string \<Rightarrow> bool" where
  "reviewer_role r \<longleftrightarrow> r = RoleReviewer \<or> r = RoleOwner"

record assign_finding_input =
  afi_OwnerID :: string
  afi_DueAt :: gotime

definition date_minute :: "gotime \<Rightarrow> string" where
  "date_minute t = map (\<lambda>c. if c = CHR ''T'' then CHR '' '' else c) (take (length (clock_str t) - 3) (clock_str t))"

definition assigned :: "user \<Rightarrow> gotime \<Rightarrow> gotime \<Rightarrow> finding \<Rightarrow> finding" where
  "assigned owner due now f =
     f\<lparr> fnd_Status := FindingAssigned, fnd_OwnerID := usr_ID owner, fnd_OwnerName := usr_Name owner,
        fnd_DueAt := Some due, fnd_UpdatedAt := now \<rparr>"

text \<open>An update of one finding of a change, with an entry in the timeline; without the finding the update
  fails.\<close>

definition update_finding ::
  "string \<Rightarrow> (finding \<Rightarrow> finding) \<Rightarrow> (change_status \<Rightarrow> timeline_entry) \<Rightarrow> change_request update" where
  "update_finding i f entry c =
     (case findingIndex (chg_Findings c) i of
        None \<Rightarrow> (Some ErrValidation, c)
      | Some n \<Rightarrow>
          (None, c\<lparr> chg_Findings := (chg_Findings c)[n := f (chg_Findings c ! n)],
                    chg_Timeline := chg_Timeline c @ [entry (chg_Status c)] \<rparr>))"

definition AssignFinding ::
  "senv \<Rightarrow> string \<Rightarrow> string \<Rightarrow> string \<Rightarrow> assign_finding_input \<Rightarrow> db \<Rightarrow> db \<Rightarrow> (err + change_request) \<times> db" where
  "AssignFinding h changeID findingID actorID x snap d =
     (case activeActor snap actorID of
        Inl _ \<Rightarrow> (Inl ErrForbidden, d)
      | Inr actor \<Rightarrow>
          if \<not> reviewer_role (usr_Role actor) then (Inl ErrForbidden, d)
          else (case activeActor snap (afi_OwnerID x) of
                  Inl _ \<Rightarrow> (Inl ErrValidation, d)
                | Inr owner \<Rightarrow>
                    (case Change snap changeID of
                       Inl er \<Rightarrow> (Inl er, d)
                     | Inr c \<Rightarrow>
                         if chg_OrganizationID c \<noteq> usr_OrganizationID actor
                            \<or> usr_OrganizationID owner \<noteq> usr_OrganizationID actor
                            \<or> \<not> canUseApplication snap actor (chg_ApplicationID c) ''review''
                            \<or> \<not> canUseApplication snap owner (chg_ApplicationID c) ''submit''
                         then (Inl ErrForbidden, d)
                         else if settled (chg_Status c) then (Inl ErrInvalidState, d)
                         else if findingIndex (chg_Findings c) findingID = None then (Inl ErrValidation, d)
                         else let now = se_now h;
                                  due = (if is_zero (afi_DueAt x) then now + 72 * hour else afi_DueAt x);
                                  detail = txt_finding_1 @ findingID @ txt_assign_2 @ usr_Name owner @ txt_assign_3
                                           @ date_minute due @ txt_assign_4
                              in if \<not> now < due then (Inl ErrValidation, d)
                                 else UpdateChange changeID
                                        (update_finding findingID (assigned owner due now)
                                           (\<lambda>s. timeline h 0 s txt_assign_title detail (usr_Name actor)))
                                        [audit h 1 actor changeID ''ASSIGN_FINDING'' detail] (se_call h 0) d)))"

section \<open>Resolution\<close>

definition may_resolve :: "user \<Rightarrow> change_request \<Rightarrow> finding \<Rightarrow> bool" where
  "may_resolve actor c f \<longleftrightarrow>
     (if fnd_OwnerID f = [] then chg_SubmitterID c = usr_ID actor \<or> usr_Role actor = RoleOwner
      else fnd_OwnerID f = usr_ID actor \<or> chg_SubmitterID c = usr_ID actor \<or> usr_Role actor = RoleOwner)"

definition resolved :: "user \<Rightarrow> string \<Rightarrow> gotime \<Rightarrow> finding \<Rightarrow> finding" where
  "resolved actor resolution now f =
     f\<lparr> fnd_Status := FindingResolved,
        fnd_OwnerID := (if fnd_OwnerID f = [] then usr_ID actor else fnd_OwnerID f),
        fnd_OwnerName := (if fnd_OwnerID f = [] then usr_Name actor else fnd_OwnerName f),
        fnd_Resolution := resolution, fnd_ResolvedAt := Some now, fnd_VerifiedAt := None, fnd_VerifiedByID := [],
        fnd_VerifiedByName := [], fnd_VerificationComment := [], fnd_UpdatedAt := now \<rparr>"

definition ResolveFinding ::
  "senv \<Rightarrow> string \<Rightarrow> string \<Rightarrow> string \<Rightarrow> string \<Rightarrow> db \<Rightarrow> db \<Rightarrow> (err + change_request) \<times> db" where
  "ResolveFinding h changeID findingID actorID resolution snap d =
     (case activeActor snap actorID of
        Inl _ \<Rightarrow> (Inl ErrForbidden, d)
      | Inr actor \<Rightarrow>
          (case Change snap changeID of
             Inl er \<Rightarrow> (Inl er, d)
           | Inr c \<Rightarrow>
               if settled (chg_Status c) then (Inl ErrInvalidState, d)
               else if chg_OrganizationID c \<noteq> usr_OrganizationID actor
                       \<or> \<not> canUseApplication snap actor (chg_ApplicationID c) ''submit'' then (Inl ErrForbidden, d)
               else (case findingIndex (chg_Findings c) findingID of
                       None \<Rightarrow> (Inl ErrValidation, d)
                     | Some n \<Rightarrow>
                         let f = chg_Findings c ! n;
                             text = trim_space resolution;
                             detail = txt_finding_1 @ findingID @ txt_resolve_2
                         in if \<not> may_resolve actor c f then (Inl ErrForbidden, d)
                            else if fnd_Status f = FindingVerified then (Inl ErrInvalidState, d)
                            else if \<not> validRuneLength text 5 1000 then (Inl ErrValidation, d)
                            else UpdateChange changeID
                                   (update_finding findingID (resolved actor text (se_now h))
                                      (\<lambda>s. timeline h 0 s txt_resolve_title detail (usr_Name actor)))
                                   [audit h 1 actor changeID ''RESOLVE_FINDING'' detail] (se_call h 0) d)))"

section \<open>Verification\<close>

record verify_finding_input =
  vfi_Approved :: bool
  vfi_Comment :: string

definition verified :: "user \<Rightarrow> bool \<Rightarrow> string \<Rightarrow> gotime \<Rightarrow> finding \<Rightarrow> finding" where
  "verified actor approved comment now f =
     f\<lparr> fnd_VerifiedByID := usr_ID actor, fnd_VerifiedByName := usr_Name actor, fnd_VerificationComment := comment,
        fnd_UpdatedAt := now, fnd_Status := (if approved then FindingVerified else FindingAssigned),
        fnd_VerifiedAt := (if approved then Some now else None) \<rparr>"

text \<open>When the last blocking finding of a failed check is verified, the check has passed and the change moves
  on: to the experiment with SQL, to the approval without.\<close>

definition passed_run :: "senv \<Rightarrow> nat \<Rightarrow> change_request \<Rightarrow> check_run" where
  "passed_run h n c =
     (case chg_CheckRun c of None \<Rightarrow> zero_check_run\<lparr> run_ID := NewID h ''check_'' n \<rparr> | Some r \<Rightarrow> r)
       \<lparr> run_ArtifactSHA256 := chg_ArtifactSHA256 c, run_RuleSetVersion := chg_RuleSetVersion c,
         run_Status := ''PASSED'', run_Blocking := 0, run_Findings := int (length (chg_Findings c)),
         run_CheckedAt := se_now h \<rparr>"

definition close_findings :: "senv \<Rightarrow> user \<Rightarrow> change_request \<Rightarrow> change_request" where
  "close_findings h actor c =
     (let c = c\<lparr> chg_CheckRun := Some (passed_run h 2 c) \<rparr>;
          (s, detail) = (if trim_space (chg_SQL c) \<noteq> [] then (StatusReadyForExperiment, txt_closed_sql)
                         else (StatusWaitingApproval, txt_closed_static))
      in c\<lparr> chg_Status := s, chg_Timeline := chg_Timeline c @ [timeline h 3 s txt_closed_title detail (usr_Name actor)] \<rparr>)"

definition verify_update :: "senv \<Rightarrow> user \<Rightarrow> string \<Rightarrow> bool \<Rightarrow> string \<Rightarrow> change_request update" where
  "verify_update h actor findingID approved comment c =
     (let title = (if approved then txt_verify_title else txt_verify_reject_title) in
      case update_finding findingID (verified actor approved comment (se_now h))
             (\<lambda>s. timeline h 0 s title comment (usr_Name actor)) c of
        (Some er, c') \<Rightarrow> (Some er, c')
      | (None, c') \<Rightarrow>
          (None, if approved \<and> chg_Status c' = StatusCheckFailed \<and> allBlockingFindingsVerified (chg_Findings c')
                 then close_findings h actor c' else c'))"

definition VerifyFinding ::
  "senv \<Rightarrow> string \<Rightarrow> string \<Rightarrow> string \<Rightarrow> verify_finding_input \<Rightarrow> db \<Rightarrow> db \<Rightarrow> (err + change_request) \<times> db" where
  "VerifyFinding h changeID findingID actorID x snap d =
     (case activeActor snap actorID of
        Inl _ \<Rightarrow> (Inl ErrForbidden, d)
      | Inr actor \<Rightarrow>
          if \<not> reviewer_role (usr_Role actor) then (Inl ErrForbidden, d)
          else (case Change snap changeID of
                  Inl er \<Rightarrow> (Inl er, d)
                | Inr c \<Rightarrow>
                    if settled (chg_Status c) then (Inl ErrInvalidState, d)
                    else if chg_OrganizationID c \<noteq> usr_OrganizationID actor
                            \<or> \<not> canUseApplication snap actor (chg_ApplicationID c) ''review'' then (Inl ErrForbidden, d)
                    else (case findingIndex (chg_Findings c) findingID of
                            None \<Rightarrow> (Inl ErrValidation, d)
                          | Some n \<Rightarrow>
                              let f = chg_Findings c ! n;
                                  comment = trim_space (vfi_Comment x);
                                  text = (if comment = [] then txt_verify_default else comment);
                                  action = (if vfi_Approved x then ''VERIFY_FINDING'' else ''REJECT_FINDING'')
                              in if fnd_Status f \<noteq> FindingResolved then (Inl ErrInvalidState, d)
                                 else if fnd_OwnerID f = usr_ID actor then (Inl ErrForbidden, d)
                                 else if 1000 < rune_count comment then (Inl ErrValidation, d)
                                 else if comment = [] \<and> \<not> vfi_Approved x then (Inl ErrValidation, d)
                                 else UpdateChange changeID (verify_update h actor findingID (vfi_Approved x) text)
                                        [audit h 1 actor changeID action text] (se_call h 0) d)))"

end
