(* ===== verification/Window.thy ===== *)
theory Window
  imports Checker Findings
begin

text \<open>
  The release windows of \<^verbatim>\<open>internal/service/service.go\<close> (\<open>releaseWindowFindings\<close>): a change that is planned
  within 90 minutes of another open change of the same service, or of a direct dependency in either
  direction, gets a finding, when the rule for it is enabled.
\<close>

definition releaseWindowProtection :: duration where "releaseWindowProtection = 90 * minute"

definition windowConflict :: string where "windowConflict = ''CHANGE_WINDOW_CONFLICT''"
definition windowOverlap :: string where "windowOverlap = ''DEPENDENCY_WINDOW_OVERLAP''"

definition window_policy :: "risk_policy list \<Rightarrow> string \<Rightarrow> risk_policy option" where
  "window_policy policies code =
     List.find (\<lambda>p. pol_Code p = code)
       (rev (filter (\<lambda>p. pol_Enabled p \<and> pol_Code p \<in> set [windowConflict, windowOverlap]) policies))"

definition app_by_id :: "application list \<Rightarrow> string \<Rightarrow> application option" where
  "app_by_id apps i = lookup_by app_ID i (rev apps)"

definition window_relation :: "application list \<Rightarrow> application \<Rightarrow> string \<Rightarrow> string \<Rightarrow> (string \<times> string) option" where
  "window_relation apps own current other =
     (if other = current then Some (windowConflict, txt_same_service)
      else if other \<in> set (app_Dependencies own) then Some (windowOverlap, txt_upstream)
      else if list_ex (\<lambda>a. app_ID a = other \<and> current \<in> set (app_Dependencies a)) apps
      then Some (windowOverlap, txt_downstream)
      else None)"

text \<open>\<^verbatim>\<open>Duration.Round(time.Minute)\<close>: half a minute rounds up.\<close>

definition formatWindowInterval :: "duration \<Rightarrow> string" where
  "formatWindowInterval delta =
     (let minutes = (delta + minute div 2) div minute in
      if minutes < 1 then txt_under_minute else int_str minutes @ txt_minutes)"

definition near :: "change_request \<Rightarrow> change_request \<Rightarrow> bool" where
  "near current other \<longleftrightarrow>
     \<not> (chg_ID other = chg_ID current \<or> chg_OrganizationID other \<noteq> chg_OrganizationID current
        \<or> is_zero (chg_PlannedAt other) \<or> chg_Status other = StatusRejected \<or> chg_Status other = StatusCompleted)
     \<and> \<not> releaseWindowProtection < \<bar>chg_PlannedAt current - chg_PlannedAt other\<bar>"

definition window_finding ::
  "gotime \<Rightarrow> application list \<Rightarrow> change_request \<Rightarrow> change_request \<Rightarrow> string \<Rightarrow> risk_policy \<Rightarrow> finding" where
  "window_finding now apps current other relation p =
     (let otherName = (if chg_ApplicationName other = []
                       then (case app_by_id apps (chg_ApplicationID other) of None \<Rightarrow> [] | Some a \<Rightarrow> app_Name a)
                       else chg_ApplicationName other)
      in zero_finding
           \<lparr> fnd_ID := ''window_'' @ to_lower (pol_Code p) @ ''_'' @ chg_ID other, fnd_Code := pol_Code p,
             fnd_Severity := pol_Severity p, fnd_Title := pol_Name p,
             fnd_Detail := relation @ txt_win_1 @ otherName @ txt_win_2 @ chg_Title other @ txt_win_3
                           @ change_status_text (chg_Status other) @ txt_win_4,
             fnd_Evidence := ''change_id='' @ chg_ID other @ ''; planned_at='' @ rfc3339 (chg_PlannedAt other)
                           @ ''; interval='' @ formatWindowInterval \<bar>chg_PlannedAt current - chg_PlannedAt other\<bar>,
             fnd_Suggestion := pol_Suggestion p, fnd_Blocking := pol_Blocking p, fnd_RuleVersion := pol_Version p,
             fnd_Status := FindingOpen, fnd_UpdatedAt := now \<rparr>)"

definition window_findings_for ::
  "gotime \<Rightarrow> application list \<Rightarrow> risk_policy list \<Rightarrow> application \<Rightarrow> change_request \<Rightarrow> change_request \<Rightarrow> finding list" where
  "window_findings_for now apps policies own current other =
     (if \<not> near current other then []
      else case window_relation apps own (chg_ApplicationID current) (chg_ApplicationID other) of
             None \<Rightarrow> []
           | Some (code, relation) \<Rightarrow>
               (case window_policy policies code of
                  None \<Rightarrow> []
                | Some p \<Rightarrow> [window_finding now apps current other relation p]))"

definition appendUniqueStrings :: "string list \<Rightarrow> string list \<Rightarrow> string list" where
  "appendUniqueStrings items values = unique_codes [] (items @ values)"

definition releaseWindowFindings ::
  "gotime \<Rightarrow> change_request \<Rightarrow> application list \<Rightarrow> change_request list \<Rightarrow> risk_policy list \<Rightarrow> finding list \<times> string list" where
  "releaseWindowFindings now current apps changes policies =
     (if is_zero (chg_PlannedAt current) then ([], [])
      else case app_by_id apps (chg_ApplicationID current) of
             None \<Rightarrow> ([], [])
           | Some own \<Rightarrow>
               let fs = concat (map (window_findings_for now apps policies own current) changes)
               in (fs, foldl (\<lambda>codes f. appendUniqueStrings codes [fnd_Code f]) [] fs))"

definition removeBaselineFindings :: "finding list \<Rightarrow> finding list" where
  "removeBaselineFindings fs = filter (\<lambda>f. \<not> (fnd_Code f = ''BASELINE_PASS'' \<or> fnd_Code f = ''RELEASE_BASELINE_PASS'')) fs"

section \<open>What the windows report\<close>

lemma find_SomeD: "List.find q xs = Some x \<Longrightarrow> x \<in> set xs \<and> q x"
  by (induction xs) (auto split: if_splits)

lemma window_policy_Some:
  "window_policy policies code = Some p \<Longrightarrow> p \<in> set policies \<and> pol_Code p = code \<and> pol_Enabled p"
  unfolding window_policy_def by (auto dest!: find_SomeD)

lemma window_policy_in: "code \<in> set [windowConflict, windowOverlap] \<Longrightarrow> p \<in> set policies \<Longrightarrow> pol_Code p = code \<Longrightarrow> pol_Enabled p
    \<Longrightarrow> window_policy policies code \<noteq> None"
  by (auto simp: window_policy_def find_None_iff)

lemma near_sym: "chg_Status a \<notin> {StatusRejected, StatusCompleted} \<Longrightarrow> \<not> is_zero (chg_PlannedAt a) \<Longrightarrow> near a b \<Longrightarrow> near b a"
  by (auto simp: near_def abs_minus_commute)

lemma window_finding_simps [simp]:
  "fnd_Code (window_finding now apps c o' r p) = pol_Code p" "fnd_Blocking (window_finding now apps c o' r p) = pol_Blocking p"
  "fnd_Status (window_finding now apps c o' r p) = FindingOpen"
  "fnd_Severity (window_finding now apps c o' r p) = pol_Severity p"
  by (simp_all add: window_finding_def Let_def)

lemma app_by_id_distinct:
  "distinct (map app_ID apps) \<Longrightarrow> app_by_id apps i = Some a \<longleftrightarrow> a \<in> set apps \<and> app_ID a = i"
  using lookup_by_distinct [of app_ID "rev apps" a] lookup_by_Some [of app_ID i "rev apps" a]
  by (auto simp: app_by_id_def rev_map [symmetric])

lemma window_relation_sym:
  assumes apps: "distinct (map app_ID apps)" and a: "own \<in> set apps" and b: "own' \<in> set apps"
    and r: "window_relation apps own (app_ID own) (app_ID own') = Some (code, rel)"
  shows "\<exists>rel'. window_relation apps own' (app_ID own') (app_ID own) = Some (code, rel')"
proof -
  have down: "list_ex (\<lambda>x. app_ID x = app_ID y \<and> i \<in> set (app_Dependencies x)) apps \<longleftrightarrow> i \<in> set (app_Dependencies y)"
    if "y \<in> set apps" for y i
    using that distinct_map_inj [OF apps _ that] by (auto simp: list_ex_iff)
  show ?thesis using r down [OF a] down [OF b] by (auto simp: window_relation_def split: if_splits)
qed

text \<open>Window conflicts are mutual: of two open planned changes of services in the catalogue, one is
  reported in the check of the other exactly when the other is reported in its own check.\<close>

lemma window_reports_mutual:
  assumes apps: "distinct (map app_ID apps)"
    and a: "chg_ApplicationID a \<in> app_ID ` set apps" "\<not> is_zero (chg_PlannedAt a)"
      "chg_Status a \<notin> {StatusRejected, StatusCompleted}"
    and b: "chg_ApplicationID b \<in> app_ID ` set apps" "\<not> is_zero (chg_PlannedAt b)"
      "chg_Status b \<notin> {StatusRejected, StatusCompleted}"
  shows "fst (releaseWindowFindings now a apps [b] policies) = [] \<longleftrightarrow> fst (releaseWindowFindings now b apps [a] policies) = []"
proof -
  obtain x where x: "x \<in> set apps" "app_ID x = chg_ApplicationID a" using a(1) by auto
  obtain y where y: "y \<in> set apps" "app_ID y = chg_ApplicationID b" using b(1) by auto
  have own: "app_by_id apps (chg_ApplicationID a) = Some x" "app_by_id apps (chg_ApplicationID b) = Some y"
    using app_by_id_distinct [OF apps] x y by blast+
  have none: "window_findings_for now apps policies own c other = [] \<longleftrightarrow>
      \<not> (near c other \<and> (\<exists>code. (\<exists>rel. window_relation apps own (chg_ApplicationID c) (chg_ApplicationID other) = Some (code, rel))
            \<and> window_policy policies code \<noteq> None))" for own c other
    by (auto simp: window_findings_for_def split: option.splits)
  have n: "near a b \<longleftrightarrow> near b a" using near_sym a b by blast
  have rel: "(\<exists>rel. window_relation apps x (chg_ApplicationID a) (chg_ApplicationID b) = Some (code, rel))
      \<longleftrightarrow> (\<exists>rel. window_relation apps y (chg_ApplicationID b) (chg_ApplicationID a) = Some (code, rel))" for code
    using window_relation_sym [OF apps] x(1) y(1) unfolding x(2) [symmetric] y(2) [symmetric] by blast
  have l: "fst (releaseWindowFindings now a apps [b] policies) = window_findings_for now apps policies x a b"
    by (simp add: releaseWindowFindings_def Let_def a(2) own)
  have r: "fst (releaseWindowFindings now b apps [a] policies) = window_findings_for now apps policies y b a"
    by (simp add: releaseWindowFindings_def Let_def b(2) own)
  show ?thesis unfolding l r none n rel by (rule refl)
qed

definition planned_change :: "string \<Rightarrow> gotime \<Rightarrow> change_request" where
  "planned_change i t = zero_change_request\<lparr> chg_ID := i, chg_ApplicationID := ''app_1'', chg_Status := StatusDraft, chg_PlannedAt := t \<rparr>"

lemma window_reports_mutual_witness:
  defines "apps \<equiv> [zero_application\<lparr> app_ID := ''app_1'' \<rparr>]"
    and "ps \<equiv> [zero_risk_policy\<lparr> pol_Code := windowConflict, pol_Enabled := True \<rparr>]"
  shows "fst (releaseWindowFindings 0 (planned_change ''a'' 1) apps [planned_change ''b'' 2] ps) \<noteq> []
    \<and> fst (releaseWindowFindings 0 (planned_change ''b'' 2) apps [planned_change ''a'' 1] ps) \<noteq> []"
proof -
  have "fst (releaseWindowFindings 0 (planned_change ''a'' 1) apps [planned_change ''b'' 2] ps) \<noteq> []"
    by (simp add: releaseWindowFindings_def Let_def apps_def ps_def planned_change_def zero_defs is_zero_def app_by_id_def lookup_by_Cons
        window_findings_for_def near_def releaseWindowProtection_def minute_def second_def window_relation_def window_policy_def
        windowConflict_def)
  moreover have "fst (releaseWindowFindings 0 (planned_change ''a'' 1) apps [planned_change ''b'' 2] ps) = []
      \<longleftrightarrow> fst (releaseWindowFindings 0 (planned_change ''b'' 2) apps [planned_change ''a'' 1] ps) = []"
    by (rule window_reports_mutual) (simp_all add: apps_def planned_change_def zero_defs is_zero_def)
  ultimately show ?thesis by blast
qed

end
