(* ===== verification/Lifecycle.thy ===== *)
theory Lifecycle
  imports Window OutboxStore
begin

text \<open>
  The life cycle of a change in \<^verbatim>\<open>internal/service/service.go\<close>: submission to the checks, the queue of the
  experiment, comments, approval and rejection, and the maintenance of the rules. The analyzer of the
  agent, a client of a language model, is the parameter \<open>analyze\<close>; \<open>compile\<close> is \<^verbatim>\<open>regexp.Compile\<close>.
\<close>

section \<open>Listings of the store the handlers read\<close>

text \<open>\<^verbatim>\<open>sort.Slice\<close> is not stable; rules that agree in all keys of the order are listed in the order of the
  table here.\<close>

definition PoliciesByOrganization :: "db \<Rightarrow> string \<Rightarrow> risk_policy list" where
  "PoliciesByOrganization d org =
     sort_key (\<lambda>p. \<not> pol_Builtin p) (sort_key (\<lambda>p. \<not> pol_Enabled p) (sort_key (\<lambda>p. - pol_UpdatedAt p)
       (filter (\<lambda>p. pol_OrganizationID p = org) (db_Policies d))))"

definition ChangesByOrganization :: "db \<Rightarrow> string \<Rightarrow> change_request list" where
  "ChangesByOrganization d org =
     rev (sort_key chg_CreatedAt (sort_key chg_ID (filter (\<lambda>c. chg_OrganizationID c = org) (db_Changes d))))"

lemma PoliciesByOrganization_mset: "mset (PoliciesByOrganization d org) = mset (filter (\<lambda>p. pol_OrganizationID p = org) (db_Policies d))"
  by (simp add: PoliciesByOrganization_def)

section \<open>Submission\<close>

definition trustedSQLExperiment :: "experiment_report option \<Rightarrow> change_request \<Rightarrow> bool" where
  "trustedSQLExperiment report c =
     (case report of
        None \<Rightarrow> False
      | Some r \<Rightarrow> equal_fold (exp_Mode r) ''POSTGRES'' \<and> equal_fold (exp_Status r) ''PASSED'' \<and> exp_RollbackVerified r
                  \<and> exp_ArtifactSHA256 r = chg_ArtifactSHA256 c \<and> exp_RuleSetVersion r = chg_RuleSetVersion c)"

definition normalizeAdvisoryRisk :: "agent_analysis \<Rightarrow> agent_analysis" where
  "normalizeAdvisoryRisk a =
     (let advisory = (if an_AdvisoryRisk a = RiskUnset then an_Risk a else an_AdvisoryRisk a)
      in a\<lparr> an_AdvisoryRisk := advisory, an_Risk := advisory \<rparr>)"

text \<open>What the deterministic checks make of a change: the check of the release, with the window findings
  appended when there are any.\<close>

definition check_change :: "regexp_compile \<Rightarrow> senv \<Rightarrow> db \<Rightarrow> change_request \<Rightarrow> check_result" where
  "check_change compile h d c =
     (let org = chg_OrganizationID c;
          policies = PoliciesByOrganization d org;
          r = CheckReleaseWithPolicies compile h 1
                \<lparr> rel_SQL = chg_SQL c, rel_RollbackSQL = chg_RollbackSQL c, rel_RollbackPlan = chg_RollbackPlan c,
                   rel_Artifacts = chg_Artifacts c, rel_ReleasePlan = chg_ReleasePlan c \<rparr>
                \<lparr> ctx_Environment = chg_Environment c, ctx_ChangeType = chg_ChangeType c, ctx_ArtifactKind = [] \<rparr> policies;
          (ws, codes) = releaseWindowFindings (se_now h) c (ApplicationsByOrganization d org)
                          (ChangesByOrganization d org) policies
      in if ws = [] then r
         else r\<lparr> res_Findings := removeBaselineFindings (res_Findings r) @ ws,
                 res_MatchedPolicyCodes := appendUniqueStrings (res_MatchedPolicyCodes r) codes,
                 res_Risk := foldl (\<lambda>k f. maxRisk k (fnd_Severity f)) (res_Risk r) ws \<rparr>)"

definition blocking_count :: "finding list \<Rightarrow> nat" where
  "blocking_count fs = length (filter (\<lambda>f. isBlockingFinding f \<and> fnd_Status f \<noteq> FindingVerified) fs)"

definition check_run_of :: "senv \<Rightarrow> nat \<Rightarrow> change_request \<Rightarrow> string \<Rightarrow> finding list \<Rightarrow> check_run" where
  "check_run_of h n c rules fs =
     \<lparr> run_ID = NewID h ''check_'' n, run_ArtifactSHA256 = chg_ArtifactSHA256 c, run_RuleSetVersion = rules,
       run_Status = (if 0 < blocking_count fs then ''BLOCKED'' else ''PASSED''), run_Findings = int (length fs),
       run_Blocking = int (blocking_count fs), run_CheckedAt = se_now h \<rparr>"

text \<open>The next status with the title and the detail of its timeline entry.\<close>

definition submit_outcome :: "change_request \<Rightarrow> check_result \<Rightarrow> change_status \<times> string \<times> string" where
  "submit_outcome c r =
     (if hasBlockingFinding (res_Findings r) then (StatusCheckFailed, txt_submit_blocked_title, txt_submit_blocked)
      else if trim_space (chg_SQL c) = [] then (StatusWaitingApproval, txt_static_ok_title, txt_static_ok)
      else (StatusReadyForExperiment, txt_submit_ok_title,
            txt_submit_1 @ nat_str (length (chg_Artifacts c)) @ txt_submit_2 @ nat_str (length (res_Statements r))
            @ txt_submit_3 @ nat_str (length (res_Findings r)) @ txt_submit_4))"

definition submit_update ::
  "senv \<Rightarrow> user \<Rightarrow> change_request \<Rightarrow> check_result \<Rightarrow> string \<Rightarrow> agent_analysis \<Rightarrow> change_request \<Rightarrow> change_request" where
  "submit_update h actor c r rules analysis item =
     (let n = length (res_Findings r) + 2;
          (s, title, detail) = submit_outcome c r
      in item\<lparr> chg_Findings := res_Findings r, chg_CheckRun := Some (check_run_of h n c rules (res_Findings r)),
               chg_Risk := res_Risk r, chg_RuleSetVersion := rules, chg_Experiment := None,
               chg_Analysis := Some analysis, chg_Status := s,
               chg_Timeline := chg_Timeline item @ [timeline h (n + 1) s title detail (usr_Name actor)]
                 @ (if an_Summary analysis \<noteq> []
                    then [timeline h (n + 2) s txt_analysis_title (txt_analysis_detail @ an_Provider analysis) txt_system]
                    else []) \<rparr>)"

definition Submit ::
  "regexp_compile \<Rightarrow> (change_request \<Rightarrow> agent_analysis) \<Rightarrow> senv \<Rightarrow> string \<Rightarrow> string \<Rightarrow> db \<Rightarrow> db \<Rightarrow> (err + change_request) \<times> db" where
  "Submit compile analyze h i actorID snap d =
     (case activeActor snap actorID of
        Inl _ \<Rightarrow> (Inl ErrForbidden, d)
      | Inr actor \<Rightarrow>
          (case Change snap i of
             Inl er \<Rightarrow> (Inl er, d)
           | Inr c \<Rightarrow>
               if chg_OrganizationID c \<noteq> usr_OrganizationID actor \<or> chg_SubmitterID c \<noteq> usr_ID actor
                  \<or> \<not> canUseApplication snap actor (chg_ApplicationID c) ''submit'' then (Inl ErrForbidden, d)
               else if \<not> trustedForRelease c then (Inl ErrForbidden, d)
               else if chg_Status c \<noteq> StatusDraft \<and> chg_Status c \<noteq> StatusCheckFailed then (Inl ErrInvalidState, d)
               else let d1 = revoke_passports h 0 actor i txt_revoke_on_submit 0 d;
                        rules = RuleSetVersion (PoliciesByOrganization snap (usr_OrganizationID actor));
                        r = check_change compile h snap c;
                        d2 = snd (RecordPolicyHitsForOrganization (usr_OrganizationID actor) (res_MatchedPolicyCodes r)
                                    (se_call h 1) d1);
                        run = check_run_of h (length (res_Findings r) + 2) c rules (res_Findings r);
                        analysis = normalizeAdvisoryRisk (analyze
                          (c\<lparr> chg_Findings := res_Findings r, chg_CheckRun := Some run, chg_Risk := res_Risk r,
                              chg_RuleSetVersion := rules \<rparr>));
                        detail = snd (snd (submit_outcome c r))
                    in UpdateChange i (\<lambda>item. (None, submit_update h actor c r rules analysis item))
                         [auditChangeVersion (audit h (length (res_Findings r) + 5) actor i ''SUBMIT_CHECK'' detail) c]
                         (se_call h 2) d2))"

section \<open>Experiment queue and comments\<close>

definition queue_event :: "user \<Rightarrow> string \<Rightarrow> change_request \<Rightarrow> outbox_event" where
  "queue_event actor i c = zero_outbox_event
     \<lparr> out_OrganizationID := usr_OrganizationID actor, out_AggregateType := ''change'', out_AggregateID := i,
       out_EventType := ''experiment.requested'', out_Status := OutboxPending, out_MaxAttempts := 5,
       out_InputSHA256 := chg_ArtifactSHA256 c \<rparr>"

definition queue_update :: "senv \<Rightarrow> user \<Rightarrow> change_request \<Rightarrow> change_request" where
  "queue_update h actor item =
     item\<lparr> chg_Status := StatusExperimentQueued,
           chg_Timeline := chg_Timeline item
             @ [timeline h 0 StatusExperimentQueued txt_queue_title txt_queue_detail (usr_Name actor)] \<rparr>"

definition QueueExperiment :: "senv \<Rightarrow> string \<Rightarrow> string \<Rightarrow> db \<Rightarrow> db \<Rightarrow> (err + change_request) \<times> db" where
  "QueueExperiment h i actorID snap d =
     (case activeActor snap actorID of
        Inl _ \<Rightarrow> (Inl ErrForbidden, d)
      | Inr actor \<Rightarrow>
          (case Change snap i of
             Inl er \<Rightarrow> (Inl er, d)
           | Inr c \<Rightarrow>
               if chg_OrganizationID c \<noteq> usr_OrganizationID actor
                  \<or> \<not> canUseApplication snap actor (chg_ApplicationID c) ''submit'' then (Inl ErrForbidden, d)
               else if chg_Status c \<noteq> StatusReadyForExperiment then (Inl ErrInvalidState, d)
               else if trim_space (chg_SQL c) = [] then (Inl ErrInvalidState, d)
               else if chg_SubmitterID c \<noteq> usr_ID actor \<and> usr_Role actor \<noteq> RoleOwner then (Inl ErrForbidden, d)
               else UpdateChangeWithOutbox i (\<lambda>item. (None, queue_update h actor item)) (queue_event actor i c)
                      [audit h 1 actor i ''QUEUE_EXPERIMENT'' txt_queue_audit] (se_call h 0) d))"

definition AddComment :: "senv \<Rightarrow> string \<Rightarrow> string \<Rightarrow> string \<Rightarrow> db \<Rightarrow> db \<Rightarrow> (err + change_request) \<times> db" where
  "AddComment h i actorID content snap d =
     (case activeActor snap actorID of
        Inl _ \<Rightarrow> (Inl ErrForbidden, d)
      | Inr actor \<Rightarrow>
          (case Change snap i of
             Inl er \<Rightarrow> (Inl er, d)
           | Inr c \<Rightarrow>
               if chg_OrganizationID c \<noteq> usr_OrganizationID actor
                  \<or> \<not> canUseApplication snap actor (chg_ApplicationID c) ''view'' then (Inl ErrForbidden, d)
               else let text = trim_space content;
                        comment = \<lparr> cmt_ID = NewID h ''cmt_'' 0, cmt_AuthorID = usr_ID actor, cmt_AuthorName = usr_Name actor,
                                     cmt_AuthorRole = usr_Role actor, cmt_Content = text, cmt_CreatedAt = se_now h \<rparr>
                    in if text = [] \<or> 1000 < rune_count text then (Inl ErrValidation, d)
                       else UpdateChange i (\<lambda>item. (None, item\<lparr> chg_Comments := chg_Comments item @ [comment] \<rparr>))
                              [audit h 1 actor i ''COMMENT'' txt_comment_audit] (se_call h 0) d))"

section \<open>Approval and rejection\<close>

text \<open>Who may decide on a change, and which changes are open to a decision.\<close>

definition decider_error :: "db \<Rightarrow> user \<Rightarrow> change_request \<Rightarrow> err option" where
  "decider_error d actor c =
     (if chg_OrganizationID c \<noteq> usr_OrganizationID actor
         \<or> \<not> canUseApplication d actor (chg_ApplicationID c) ''review'' then Some ErrForbidden
      else if \<not> trustedForRelease c then Some ErrForbidden
      else if chg_Status c \<noteq> StatusWaitingApproval then Some ErrInvalidState
      else if usr_ID actor = chg_SubmitterID c \<or> \<not> reviewer_role (usr_Role actor) then Some ErrForbidden
      else None)"

definition check_passed :: "change_request \<Rightarrow> bool" where
  "check_passed c \<longleftrightarrow> (case chg_CheckRun c of None \<Rightarrow> False | Some r \<Rightarrow> run_Status r = ''PASSED'' \<and> run_Blocking r = 0)"

definition decided :: "senv \<Rightarrow> change_status \<Rightarrow> string \<Rightarrow> user \<Rightarrow> string \<Rightarrow> change_request \<Rightarrow> change_request" where
  "decided h s title actor comment item =
     item\<lparr> chg_Status := s, chg_ReviewerID := usr_ID actor, chg_ReviewerName := usr_Name actor,
           chg_ReviewComment := comment,
           chg_Timeline := chg_Timeline item @ [timeline h 0 s title comment (usr_Name actor)] \<rparr>"

definition Approve :: "senv \<Rightarrow> string \<Rightarrow> string \<Rightarrow> string \<Rightarrow> db \<Rightarrow> db \<Rightarrow> (err + change_request) \<times> db" where
  "Approve h i actorID comment snap d =
     (case activeActor snap actorID of
        Inl _ \<Rightarrow> (Inl ErrForbidden, d)
      | Inr actor \<Rightarrow>
          (case Change snap i of
             Inl er \<Rightarrow> (Inl er, d)
           | Inr c \<Rightarrow>
               (case decider_error snap actor c of
                  Some er \<Rightarrow> (Inl er, d)
                | None \<Rightarrow>
                    let text = (if trim_space comment = [] then txt_approve_default else trim_space comment) in
                    if trim_space (chg_SQL c) \<noteq> [] \<and> \<not> trustedSQLExperiment (chg_Experiment c) c then (Inl ErrInvalidState, d)
                    else if trim_space (chg_SQL c) = [] \<and> \<not> check_passed c then (Inl ErrInvalidState, d)
                    else if \<not> allBlockingFindingsVerified (chg_Findings c) \<and> hasBlockingFinding (chg_Findings c)
                    then (Inl ErrInvalidState, d)
                    else if chg_Risk c = RiskHigh \<and> usr_Role actor \<noteq> RoleOwner then (Inl ErrForbidden, d)
                    else if \<not> validRuneLength text 1 2000 then (Inl ErrValidation, d)
                    else UpdateChange i (\<lambda>item. (None, decided h StatusApproved txt_approve_title actor text item))
                           [auditChangeVersion (audit h 1 actor i ''APPROVE'' text) c] (se_call h 0) d)))"

definition Reject :: "senv \<Rightarrow> string \<Rightarrow> string \<Rightarrow> string \<Rightarrow> db \<Rightarrow> db \<Rightarrow> (err + change_request) \<times> db" where
  "Reject h i actorID comment snap d =
     (case activeActor snap actorID of
        Inl _ \<Rightarrow> (Inl ErrForbidden, d)
      | Inr actor \<Rightarrow>
          (case Change snap i of
             Inl er \<Rightarrow> (Inl er, d)
           | Inr c \<Rightarrow>
               (case decider_error snap actor c of
                  Some er \<Rightarrow> (Inl er, d)
                | None \<Rightarrow>
                    if \<not> validRuneLength (trim_space comment) 1 2000 then (Inl ErrValidation, d)
                    else case UpdateChange i (\<lambda>item. (None, decided h StatusRejected txt_reject_title actor (trim_space comment) item))
                                [audit h 1 actor i ''REJECT'' (trim_space comment)] (se_call h 0) d of
                           (Inl er, d') \<Rightarrow> (Inl er, d')
                         | (Inr c', d') \<Rightarrow> (Inr c', revoke_passports h 2 actor i txt_revoke_on_reject 1 d'))))"

definition Complete :: "db \<Rightarrow> (err + change_request) \<times> db" where
  "Complete d = (Inl ErrInvalidState, d)"

section \<open>Rules\<close>

record save_risk_policy_input =
  spi_Code :: string
  spi_Name :: string
  spi_Description :: string
  spi_Pattern :: string
  spi_Severity :: risk_level
  spi_Blocking :: bool
  spi_Enabled :: bool
  spi_Environments :: "string list"
  spi_ChangeTypes :: "string list"
  spi_ArtifactKinds :: "string list"
  spi_Suggestion :: string

definition policy_code_ok :: "string \<Rightarrow> bool" where
  "policy_code_ok code \<longleftrightarrow> (case code of
     [] \<Rightarrow> False
   | c # cs \<Rightarrow> is_upper c \<and> 2 \<le> length cs \<and> length cs \<le> 63
       \<and> list_all (\<lambda>x. is_upper x \<or> is_digit x \<or> x = CHR ''_'') cs)"

definition validatePolicyInput :: "regexp_compile \<Rightarrow> save_risk_policy_input \<Rightarrow> bool \<Rightarrow> bool" where
  "validatePolicyInput compile x builtin \<longleftrightarrow>
     policy_code_ok (spi_Code x) \<and> validRuneLength (trim_space (spi_Name x)) 1 100
     \<and> validRuneLength (trim_space (spi_Description x)) 1 1000 \<and> validRuneLength (trim_space (spi_Suggestion x)) 1 1000
     \<and> validRuneLength (trim_space (spi_Pattern x)) 0 500
     \<and> spi_Severity x \<in> set [RiskLow, RiskMedium, RiskHigh]
     \<and> (builtin \<or> trim_space (spi_Pattern x) \<noteq> [])
     \<and> (trim_space (spi_Pattern x) \<noteq> [] \<longrightarrow> compile (spi_Pattern x) \<noteq> None)"

definition rule_owner :: "db \<Rightarrow> string \<Rightarrow> user option" where
  "rule_owner d actorID =
     (case activeActor d actorID of
        Inl _ \<Rightarrow> None | Inr actor \<Rightarrow> if usr_Role actor = RoleOwner then Some actor else None)"

definition edited_policy :: "save_risk_policy_input \<Rightarrow> user \<Rightarrow> risk_policy \<Rightarrow> risk_policy" where
  "edited_policy x actor p =
     p\<lparr> pol_Name := trim_space (spi_Name x), pol_Description := trim_space (spi_Description x),
        pol_Pattern := trim_space (spi_Pattern x), pol_Severity := spi_Severity x, pol_Blocking := spi_Blocking x,
        pol_Enabled := spi_Enabled x, pol_Environments := normalizeStringList (spi_Environments x),
        pol_ChangeTypes := normalizeStringList (spi_ChangeTypes x),
        pol_ArtifactKinds := normalizeStringList (spi_ArtifactKinds x),
        pol_Suggestion := trim_space (spi_Suggestion x), pol_UpdatedBy := usr_Name actor \<rparr>"

definition new_policy :: "senv \<Rightarrow> user \<Rightarrow> save_risk_policy_input \<Rightarrow> risk_policy" where
  "new_policy h actor x =
     edited_policy x actor
       (zero_risk_policy\<lparr> pol_OrganizationID := usr_OrganizationID actor, pol_ID := NewID h ''pol_'' 0,
          pol_Code := spi_Code x, pol_Builtin := False, pol_Version := 1, pol_CreatedAt := se_now h,
          pol_UpdatedAt := se_now h \<rparr>)"

definition named_policy :: "string \<Rightarrow> string \<Rightarrow> string" where
  "named_policy name code = name @ txt_lparen @ code @ txt_rparen"

definition CreatePolicy_service ::
  "regexp_compile \<Rightarrow> senv \<Rightarrow> save_risk_policy_input \<Rightarrow> string \<Rightarrow> db \<Rightarrow> db \<Rightarrow> (err + risk_policy) \<times> db" where
  "CreatePolicy_service compile h x actorID snap d =
     (case rule_owner snap actorID of
        None \<Rightarrow> (Inl ErrForbidden, d)
      | Some actor \<Rightarrow>
          let x = x\<lparr> spi_Code := to_upper (trim_space (spi_Code x)) \<rparr> in
          if \<not> validatePolicyInput compile x False then (Inl ErrValidation, d)
          else (case PolicyByCodeForOrganization snap (usr_OrganizationID actor) (spi_Code x) of
                  Inr _ \<Rightarrow> (Inl ErrValidation, d)
                | Inl _ \<Rightarrow>
                    let p = new_policy h actor x;
                        detail = txt_policy_create @ named_policy (pol_Name p) (pol_Code p)
                    in case CreatePolicy p (audit h 1 actor [] ''CREATE_POLICY'' detail) (se_call h 0) d of
                         (Inl er, d') \<Rightarrow> (Inl er, d') | (Inr _, d') \<Rightarrow> (Inr p, d')))"

definition UpdatePolicy_service ::
  "regexp_compile \<Rightarrow> senv \<Rightarrow> string \<Rightarrow> save_risk_policy_input \<Rightarrow> string \<Rightarrow> db \<Rightarrow> db \<Rightarrow> (err + risk_policy) \<times> db" where
  "UpdatePolicy_service compile h i x actorID snap d =
     (case rule_owner snap actorID of
        None \<Rightarrow> (Inl ErrForbidden, d)
      | Some actor \<Rightarrow>
          (case PolicyForOrganization snap (usr_OrganizationID actor) i of
             Inl er \<Rightarrow> (Inl er, d)
           | Inr current \<Rightarrow>
               let x = x\<lparr> spi_Code := pol_Code current,
                          spi_Pattern := (if pol_Builtin current then pol_Pattern current else spi_Pattern x) \<rparr>;
                   detail = txt_policy_update @ named_policy (trim_space (spi_Name x)) (pol_Code current)
               in if \<not> validatePolicyInput compile x (pol_Builtin current) then (Inl ErrValidation, d)
                  else UpdatePolicy i (\<lambda>p. (None, edited_policy x actor p))
                         [audit h 0 actor [] ''UPDATE_POLICY'' detail] (se_call h 0) d))"

definition TogglePolicy :: "senv \<Rightarrow> string \<Rightarrow> string \<Rightarrow> db \<Rightarrow> db \<Rightarrow> (err + risk_policy) \<times> db" where
  "TogglePolicy h i actorID snap d =
     (case rule_owner snap actorID of
        None \<Rightarrow> (Inl ErrForbidden, d)
      | Some actor \<Rightarrow>
          (case PolicyForOrganization snap (usr_OrganizationID actor) i of
             Inl er \<Rightarrow> (Inl er, d)
           | Inr current \<Rightarrow>
               let detail = (if pol_Enabled current then txt_disable else txt_enable) @ txt_policy_toggle
                            @ named_policy (pol_Name current) (pol_Code current)
               in UpdatePolicy i (\<lambda>p. (None, p\<lparr> pol_Enabled := \<not> pol_Enabled p, pol_UpdatedBy := usr_Name actor \<rparr>))
                    [audit h 0 actor [] ''TOGGLE_POLICY'' detail] (se_call h 0) d))"

end
