(* ===== verification/PassportToken.thy ===== *)
theory PassportToken
  imports Integrity GoJson GoCrypto Regex
begin

text \<open>
  \<^verbatim>\<open>internal/changegate/passport.go\<close>: the signed token of a passport. A token is \<^verbatim>\<open>cg1.<claims>.<mac>\<close>
  with the claims as JSON and an HMAC-SHA256 over the text before the last dot, both in raw URL base64.
  The decoder of the claims is what \<^verbatim>\<open>json.Decoder\<close> with \<^verbatim>\<open>DisallowUnknownFields\<close> does on a flat struct of
  strings and integers.
\<close>

section \<open>Claims\<close>

record passport_claims =
  cl_Version :: int
  cl_PassportID :: string
  cl_OrganizationID :: string
  cl_ChangeID :: string
  cl_ArtifactSHA256 :: string
  cl_Environment :: string
  cl_RuleSetVersion :: string
  cl_ApproverID :: string
  cl_IssuedAtUnix :: int
  cl_ExpiresAtUnix :: int

definition zero_claims :: passport_claims where
  "zero_claims = \<lparr> cl_Version = 0, cl_PassportID = [], cl_OrganizationID = [], cl_ChangeID = [], cl_ArtifactSHA256 = [],
     cl_Environment = [], cl_RuleSetVersion = [], cl_ApproverID = [], cl_IssuedAtUnix = 0, cl_ExpiresAtUnix = 0 \<rparr>"

definition claims_json :: "passport_claims \<Rightarrow> json" where
  "claims_json c =
     JObj [(''v'', JInt (cl_Version c)), (''jti'', JStr (cl_PassportID c)), (''org'', JStr (cl_OrganizationID c)),
           (''change'', JStr (cl_ChangeID c)), (''sha256'', JStr (cl_ArtifactSHA256 c)),
           (''env'', JStr (cl_Environment c)), (''rules'', JStr (cl_RuleSetVersion c)),
           (''approver'', JStr (cl_ApproverID c)), (''iat'', JInt (cl_IssuedAtUnix c)),
           (''exp'', JInt (cl_ExpiresAtUnix c))]"

section \<open>Decoding JSON text\<close>

definition json_ws :: "char \<Rightarrow> bool" where
  "json_ws c \<longleftrightarrow> c \<in> set [CHR 0x20, CHR 0x09, CHR 0x0A, CHR 0x0D]"

definition skip_ws :: "string \<Rightarrow> string" where
  "skip_ws s = dropWhile json_ws s"

definition expect :: "char \<Rightarrow> string \<Rightarrow> string option" where
  "expect c s = (case skip_ws s of [] \<Rightarrow> None | x # r \<Rightarrow> if x = c then Some r else None)"

definition hex_value :: "char \<Rightarrow> nat option" where
  "hex_value c = (let n = of_char c :: nat in
     if 48 \<le> n \<and> n \<le> 57 then Some (n - 48) else if 97 \<le> n \<and> n \<le> 102 then Some (n - 87)
     else if 65 \<le> n \<and> n \<le> 70 then Some (n - 55) else None)"

definition four_hex :: "string \<Rightarrow> nat option" where
  "four_hex s =
     (case map hex_value (take 4 s) of
        [Some a, Some b, Some c, Some d] \<Rightarrow> Some (((a * 16 + b) * 16 + c) * 16 + d)
      | _ \<Rightarrow> None)"

definition utf8_encode :: "nat \<Rightarrow> string" where
  "utf8_encode n =
     map char_of (if n < 0x80 then [n]
       else if n < 0x800 then [0xC0 + n div 64, 0x80 + n mod 64]
       else if n < 0x10000 then [0xE0 + n div 4096, 0x80 + n div 64 mod 64, 0x80 + n mod 64]
       else [0xF0 + n div 262144, 0x80 + n div 4096 mod 64, 0x80 + n div 64 mod 64, 0x80 + n mod 64])"

definition replacement :: string where "replacement = [CHR 0xEF, CHR 0xBF, CHR 0xBD]"

definition high_surrogate :: "nat \<Rightarrow> bool" where "high_surrogate n \<longleftrightarrow> 0xD800 \<le> n \<and> n < 0xDC00"
definition low_surrogate :: "nat \<Rightarrow> bool" where "low_surrogate n \<longleftrightarrow> 0xDC00 \<le> n \<and> n < 0xE000"

text \<open>A \<^verbatim>\<open>\uXXXX\<close> escape, after the backslash and the u: the text it stands for and the number of bytes it
  takes, with a following escape when the two are a surrogate pair.\<close>

definition unicode_escape :: "string \<Rightarrow> (string \<times> nat) option" where
  "unicode_escape s =
     (case four_hex s of
        None \<Rightarrow> None
      | Some n \<Rightarrow>
          if high_surrogate n then
            (case (take 2 (drop 4 s) = [CHR 0x5C, CHR ''u''], four_hex (drop 6 s)) of
               (True, Some m) \<Rightarrow> if low_surrogate m
                                 then Some (utf8_encode (0x10000 + (n - 0xD800) * 0x400 + (m - 0xDC00)), 10)
                                 else Some (replacement, 4)
             | _ \<Rightarrow> Some (replacement, 4))
          else if low_surrogate n then Some (replacement, 4)
          else Some (utf8_encode n, 4))"

definition simple_escape :: "char \<Rightarrow> char option" where
  "simple_escape e =
     map_of [(CHR 0x22, CHR 0x22), (CHR 0x5C, CHR 0x5C), (CHR ''/'', CHR ''/''), (CHR ''b'', CHR 0x08),
             (CHR ''f'', CHR 0x0C), (CHR ''n'', CHR 0x0A), (CHR ''r'', CHR 0x0D), (CHR ''t'', CHR 0x09)] e"

text \<open>One element of a string literal: its text and the rest.\<close>

definition string_item :: "string \<Rightarrow> (string \<times> string) option" where
  "string_item s =
     (case s of
        [] \<Rightarrow> None
      | c # r \<Rightarrow>
          if c = CHR 0x5C then
            (case r of
               [] \<Rightarrow> None
             | e # r' \<Rightarrow>
                 if e = CHR ''u'' then map_option (\<lambda>(t, n). (t, drop n r')) (unicode_escape r')
                 else map_option (\<lambda>x. ([x], r')) (simple_escape e))
          else if of_char c < (0x20 :: nat) then None
          else if of_char c < (0x80 :: nat) then Some ([c], r)
          else if rune_len s = 1 then Some (replacement, r)
          else Some (take (rune_len s) s, drop (rune_len s) s))"

lemma string_item_shorter: "string_item s = Some (t, r) \<Longrightarrow> length r < length s"
  using rune_len_pos [of s]
  by (auto simp: string_item_def simp del: rune_len_pos split: list.splits if_splits)

function string_body :: "string \<Rightarrow> (string \<times> string) option" where
  "string_body s =
     (if s \<noteq> [] \<and> hd s = CHR 0x22 then Some ([], tl s)
      else case string_item s of
             None \<Rightarrow> None
           | Some (t, r) \<Rightarrow> (case string_body r of None \<Rightarrow> None | Some (u, q) \<Rightarrow> Some (t @ u, q)))"
  by pat_completeness auto
termination by (relation "measure length") (auto dest: string_item_shorter)

declare string_body.simps [simp del]

text \<open>A value of a field: a string, an integer literal or null. Every other value is an error in this struct,
  because no field has its type.\<close>

datatype field_value = FStr string | FInt int | FNull

definition digits_of :: "string \<Rightarrow> string" where "digits_of s = takeWhile digit_char s"

definition integer_value :: "string \<Rightarrow> (int \<times> string) option" where
  "integer_value s =
     (let neg = (s \<noteq> [] \<and> hd s = CHR ''-'');
          r = (if neg then tl s else s);
          ds = digits_of r;
          n = int (digits_val ds);
          i = (if neg then - n else n)
      in if ds = [] \<or> 1 < length ds \<and> hd ds = CHR ''0'' \<or> i < - (2 ^ 63) \<or> 2 ^ 63 \<le> i then None
         else Some (i, drop (length ds) r))"

definition field_value :: "string \<Rightarrow> (field_value \<times> string) option" where
  "field_value s =
     (let s = skip_ws s in
      if s \<noteq> [] \<and> hd s = CHR 0x22 then map_option (\<lambda>(t, r). (FStr t, r)) (string_body (tl s))
      else if take 4 s = ''null'' then Some (FNull, drop 4 s)
      else map_option (\<lambda>(i, r). (FInt i, r)) (integer_value s))"

text \<open>Field names match exactly or, failing that, up to case; no two field names of the struct agree up to
  case, so the order of preference does not matter. The fold also maps the long s and the Kelvin sign.\<close>

function fold_name :: "string \<Rightarrow> string" where
  "fold_name [] = []"
| "fold_name (c # s) =
     (if take 2 (c # s) = [CHR 0xC5, CHR 0xBF] then CHR ''s'' # fold_name (drop 1 s)
      else if take 3 (c # s) = [CHR 0xE2, CHR 0x84, CHR 0xAA] then CHR ''k'' # fold_name (drop 2 s)
      else lower_char c # fold_name s)"
  by pat_completeness auto
termination by (relation "measure length") auto

definition set_string :: "(string \<Rightarrow> passport_claims \<Rightarrow> passport_claims) \<Rightarrow> field_value \<Rightarrow> passport_claims \<Rightarrow> passport_claims option" where
  "set_string f v c = (case v of FStr s \<Rightarrow> Some (f s c) | FNull \<Rightarrow> Some c | FInt _ \<Rightarrow> None)"

definition set_int :: "(int \<Rightarrow> passport_claims \<Rightarrow> passport_claims) \<Rightarrow> field_value \<Rightarrow> passport_claims \<Rightarrow> passport_claims option" where
  "set_int f v c = (case v of FInt i \<Rightarrow> Some (f i c) | FNull \<Rightarrow> Some c | FStr _ \<Rightarrow> None)"

definition set_field :: "string \<Rightarrow> field_value \<Rightarrow> passport_claims \<Rightarrow> passport_claims option" where
  "set_field name v c =
     (let k = fold_name name in
      if k = ''v'' then set_int (\<lambda>x. cl_Version_update (\<lambda>_. x)) v c
      else if k = ''jti'' then set_string (\<lambda>x. cl_PassportID_update (\<lambda>_. x)) v c
      else if k = ''org'' then set_string (\<lambda>x. cl_OrganizationID_update (\<lambda>_. x)) v c
      else if k = ''change'' then set_string (\<lambda>x. cl_ChangeID_update (\<lambda>_. x)) v c
      else if k = ''sha256'' then set_string (\<lambda>x. cl_ArtifactSHA256_update (\<lambda>_. x)) v c
      else if k = ''env'' then set_string (\<lambda>x. cl_Environment_update (\<lambda>_. x)) v c
      else if k = ''rules'' then set_string (\<lambda>x. cl_RuleSetVersion_update (\<lambda>_. x)) v c
      else if k = ''approver'' then set_string (\<lambda>x. cl_ApproverID_update (\<lambda>_. x)) v c
      else if k = ''iat'' then set_int (\<lambda>x. cl_IssuedAtUnix_update (\<lambda>_. x)) v c
      else if k = ''exp'' then set_int (\<lambda>x. cl_ExpiresAtUnix_update (\<lambda>_. x)) v c
      else None)"

definition member_of :: "string \<Rightarrow> (string \<times> field_value \<times> string) option" where
  "member_of s =
     (case expect (CHR 0x22) s of
        None \<Rightarrow> None
      | Some r \<Rightarrow>
          (case string_body r of
             None \<Rightarrow> None
           | Some (name, r) \<Rightarrow>
               (case expect (CHR '':'') r of
                  None \<Rightarrow> None
                | Some r \<Rightarrow> map_option (\<lambda>(v, r). (name, v, r)) (field_value r))))"

text \<open>The members of an object after its opening brace; the number of steps is bounded by the text.\<close>

fun members :: "nat \<Rightarrow> string \<Rightarrow> passport_claims \<Rightarrow> passport_claims option" where
  "members 0 s c = None"
| "members (Suc k) s c =
     (case member_of s of
        None \<Rightarrow> None
      | Some (name, v, r) \<Rightarrow>
          (case set_field name v c of
             None \<Rightarrow> None
           | Some c \<Rightarrow>
               (case expect (CHR '','') r of
                  Some r \<Rightarrow> members k r c
                | None \<Rightarrow> (case expect (CHR ''}'') r of Some _ \<Rightarrow> Some c | None \<Rightarrow> None))))"

definition decode_claims :: "string \<Rightarrow> passport_claims option" where
  "decode_claims s =
     (if take 4 (skip_ws s) = ''null'' then Some zero_claims
      else case expect (CHR ''{'') s of
             None \<Rightarrow> None
           | Some r \<Rightarrow>
               (case expect (CHR ''}'') r of Some _ \<Rightarrow> Some zero_claims | None \<Rightarrow> members (length r) r zero_claims))"

section \<open>Signing and verifying\<close>

datatype token_error = ErrSignerNotConfigured | ErrMalformedToken | ErrInvalidSignature

text \<open>A signer is its key; \<open>None\<close> is a nil signer.\<close>

definition NewSigner :: "string \<Rightarrow> string option" where
  "NewSigner secret = (if length (trim_space secret) < 32 then None else Some (trim_space secret))"

definition key_ok :: "string option \<Rightarrow> bool" where
  "key_ok k \<longleftrightarrow> (case k of None \<Rightarrow> False | Some key \<Rightarrow> 32 \<le> length key)"

definition Sign :: "string option \<Rightarrow> passport_claims \<Rightarrow> token_error + string" where
  "Sign k claims =
     (if \<not> key_ok k then Inl ErrSignerNotConfigured
      else let payload = json_enc (claims_json (claims\<lparr> cl_Version := 1 \<rparr>));
               signingInput = ''cg1.'' @ base64_encode payload;
               signature = base64_encode (hmac_sha256 (the k) signingInput)
           in Inr (signingInput @ ''.'' @ signature))"

definition claims_ok :: "passport_claims \<Rightarrow> bool" where
  "claims_ok c \<longleftrightarrow> cl_Version c = 1 \<and> cl_PassportID c \<noteq> [] \<and> cl_ChangeID c \<noteq> [] \<and> cl_ArtifactSHA256 c \<noteq> []
     \<and> cl_IssuedAtUnix c < cl_ExpiresAtUnix c"

definition Verify_token :: "string option \<Rightarrow> string \<Rightarrow> token_error + passport_claims" where
  "Verify_token k token =
     (if \<not> key_ok k then Inl ErrSignerNotConfigured
      else case split_on (CHR ''.'') token of
             [head, body, mac] \<Rightarrow>
               if head \<noteq> ''cg1'' \<or> body = [] \<or> mac = [] then Inl ErrMalformedToken
               else (case base64_decode mac of
                       None \<Rightarrow> Inl ErrMalformedToken
                     | Some provided \<Rightarrow>
                         if length provided \<noteq> 32 then Inl ErrMalformedToken
                         else if provided \<noteq> hmac_sha256 (the k) (head @ ''.'' @ body) then Inl ErrInvalidSignature
                         else (case base64_decode body of
                                 None \<Rightarrow> Inl ErrMalformedToken
                               | Some payload \<Rightarrow>
                                   (case decode_claims payload of
                                      None \<Rightarrow> Inl ErrMalformedToken
                                    | Some c \<Rightarrow> if claims_ok c then Inr c else Inl ErrMalformedToken)))
           | _ \<Rightarrow> Inl ErrMalformedToken)"

definition TokenSHA256 :: "string \<Rightarrow> string" where
  "TokenSHA256 token = hex_encode (sha256_sum token)"

definition ClaimsTimes :: "passport_claims \<Rightarrow> gotime \<times> gotime" where
  "ClaimsTimes c = (unix_time (cl_IssuedAtUnix c), unix_time (cl_ExpiresAtUnix c))"

definition NewPassportID :: "string option \<Rightarrow> string option" where
  "NewPassportID random = map_option (\<lambda>bytes. ''pass_'' @ hex_encode (take 16 bytes)) random"

section \<open>Decoding what was encoded\<close>

definition valid_utf8 :: "string \<Rightarrow> bool" where
  "valid_utf8 s \<longleftrightarrow> list_all (\<lambda>r. length r = 1 \<longrightarrow> of_char (hd r) < (128 :: nat)) (runes s)"

definition lead2 :: "char \<Rightarrow> bool" where
  "lead2 a \<longleftrightarrow> (0xC2 :: nat) \<le> of_char a \<and> of_char a \<le> (0xDF :: nat)"

definition lead3 :: "char \<Rightarrow> char \<Rightarrow> bool" where
  "lead3 a b \<longleftrightarrow> (0xE0 :: nat) \<le> of_char a \<and> of_char a \<le> (0xEF :: nat)
     \<and> (of_char a = (0xE0 :: nat) \<longrightarrow> (0xA0 :: nat) \<le> of_char b) \<and> (of_char a = (0xED :: nat) \<longrightarrow> of_char b \<le> (0x9F :: nat))"

definition lead4 :: "char \<Rightarrow> char \<Rightarrow> bool" where
  "lead4 a b \<longleftrightarrow> (0xF0 :: nat) \<le> of_char a \<and> of_char a \<le> (0xF4 :: nat)
     \<and> (of_char a = (0xF0 :: nat) \<longrightarrow> (0x90 :: nat) \<le> of_char b) \<and> (of_char a = (0xF4 :: nat) \<longrightarrow> of_char b \<le> (0x8F :: nat))"

lemma rune_len2: "lead2 a \<Longrightarrow> cont_byte b \<Longrightarrow> rune_len (a # b # t) = 2"
  by (simp add: rune_len_def Let_def lead2_def)

lemma rune_len3: "lead3 a b \<Longrightarrow> cont_byte b \<Longrightarrow> cont_byte c \<Longrightarrow> rune_len (a # b # c # t) = 3"
  by (simp add: rune_len_def Let_def lead3_def numeral_2_eq_2)

lemma rune_len4: "lead4 a b \<Longrightarrow> cont_byte b \<Longrightarrow> cont_byte c \<Longrightarrow> cont_byte d \<Longrightarrow> rune_len (a # b # c # d # t) = 4"
  by (simp add: rune_len_def Let_def lead4_def numeral_2_eq_2 numeral_3_eq_3)

lemma cont_byte_high: "cont_byte c \<Longrightarrow> 128 \<le> (of_char c :: nat)"
  by (simp add: cont_byte_def Let_def)

lemma rune_len_shape:
  assumes "rune_len s \<noteq> 1" "s \<noteq> []"
  shows "(\<exists>a b t. s = a # b # t \<and> lead2 a \<and> cont_byte b)
    \<or> (\<exists>a b c t. s = a # b # c # t \<and> lead3 a b \<and> cont_byte b \<and> cont_byte c)
    \<or> (\<exists>a b c d t. s = a # b # c # d # t \<and> lead4 a b \<and> cont_byte b \<and> cont_byte c \<and> cont_byte d)"
proof -
  let ?c = "\<lambda>i. i < length s \<and> cont_byte (s ! i)"
  have two: "\<exists>a b t. s = a # b # t" if "?c 1" using that by (cases s; cases "tl s") auto
  have three: "\<exists>a b c t. s = a # b # c # t" if "?c 1" "?c 2"
    using that by (cases s; cases "tl s"; cases "tl (tl s)") auto
  have four: "\<exists>a b c d t. s = a # b # c # d # t" if "?c 1" "?c 2" "?c 3"
    using that by (cases s; cases "tl s"; cases "tl (tl s)"; cases "tl (tl (tl s))") auto
  consider "lead2 (s ! 0)" "?c 1" | "lead3 (s ! 0) (s ! 1)" "?c 1" "?c 2" | "lead4 (s ! 0) (s ! 1)" "?c 1" "?c 2" "?c 3"
    using assms(1) unfolding rune_len_def Let_def lead2_def lead3_def lead4_def
    by (auto simp del: One_nat_def split: if_splits)
  then show ?thesis
  proof cases
    case 1
    then show ?thesis using two by auto
  next
    case 2
    then obtain a b c t where "s = a # b # c # t" using three by blast
    with 2 show ?thesis by (auto simp: numeral_2_eq_2)
  next
    case 3
    then obtain a b c d t where "s = a # b # c # d # t" using four by blast
    with 3 show ?thesis by (auto simp: numeral_2_eq_2 numeral_3_eq_3)
  qed
qed

lemma rune_len_cases:
  assumes "rune_len s \<noteq> 1" "s \<noteq> []"
  shows "rune_len (take (rune_len s) s @ t) = rune_len s \<and> rune_len s \<le> length s \<and> 2 \<le> rune_len s
    \<and> list_all (\<lambda>c. 128 \<le> (of_char c :: nat)) (take (rune_len s) s)"
  using rune_len_shape [OF assms]
proof (elim disjE exE conjE)
  fix a b u assume s: "s = a # b # u" "lead2 a" "cont_byte b"
  then have "128 \<le> (of_char a :: nat)" by (simp add: lead2_def)
  with s show ?thesis by (simp add: rune_len2 cont_byte_high numeral_2_eq_2 del: One_nat_def)
next
  fix a b c u assume s: "s = a # b # c # u" "lead3 a b" "cont_byte b" "cont_byte c"
  then have "128 \<le> (of_char a :: nat)" by (simp add: lead3_def)
  with s show ?thesis by (simp add: rune_len3 cont_byte_high)
next
  fix a b c d u assume s: "s = a # b # c # d # u" "lead4 a b" "cont_byte b" "cont_byte c" "cont_byte d"
  then have "128 \<le> (of_char a :: nat)" by (simp add: lead4_def)
  with s show ?thesis by (simp add: rune_len4 cont_byte_high)
qed

lemma json_char_high: "128 \<le> (of_char c :: nat) \<Longrightarrow> json_char c = [c]"
  by (simp add: json_char_def Let_def)

lemma four_hex_ctl: "n < 256 \<Longrightarrow> four_hex (CHR ''0'' # CHR ''0'' # hex_digit (n div 16) # hex_digit (n mod 16) # r) = Some n"
proof -
  assume "n < 256"
  then have d: "n div 16 < 16" "n mod 16 < 16" by auto
  have "hex_value (hex_digit k) = Some k" if "k < 16" for k
    using that by (auto simp: hex_value_def hex_digit_def Let_def)
  moreover have "hex_value (CHR ''0'') = Some 0" by (simp add: hex_value_def)
  ultimately show ?thesis using d by (simp add: four_hex_def)
qed

lemma string_item_char:
  assumes "(of_char c :: nat) < 128"
  shows "string_item (json_char c @ r) = Some ([c], r)" "hd (json_char c @ r) \<noteq> CHR 0x22"
proof -
  define n where "n = (of_char c :: nat)"
  have c: "c = char_of n" and n: "n < 128" using assms by (simp_all add: n_def)
  have ctl: "utf8_encode n = [c]" using n by (simp add: utf8_encode_def c)
  have surr: "\<not> high_surrogate n" "\<not> low_surrogate n" using n by (simp_all add: high_surrogate_def low_surrogate_def)
  have u: "unicode_escape (CHR ''0'' # CHR ''0'' # hex_digit (n div 16) # hex_digit (n mod 16) # r) = Some ([c], 4)"
    using four_hex_ctl [of n r] n surr ctl by (simp add: unicode_escape_def)
  have eqs: "c = CHR 0x22 \<longleftrightarrow> n = 34" "c = CHR 0x5C \<longleftrightarrow> n = 92" "c = CHR 0x08 \<longleftrightarrow> n = 8" "c = CHR 0x0C \<longleftrightarrow> n = 12"
    "c = CHR 0x0A \<longleftrightarrow> n = 10" "c = CHR 0x0D \<longleftrightarrow> n = 13" "c = CHR 0x09 \<longleftrightarrow> n = 9"
    by (simp_all add: n_def char_eq_iff_nat del: of_char_eq_iff)
  have "string_item (json_char c @ r) = Some ([c], r) \<and> hd (json_char c @ r) \<noteq> CHR 0x22"
  proof (cases "n = 34 \<or> n = 92 \<or> n = 8 \<or> n = 12 \<or> n = 10 \<or> n = 13 \<or> n = 9")
    case True
    then have "c = CHR 0x22 \<or> c = CHR 0x5C \<or> c = CHR 0x08 \<or> c = CHR 0x0C \<or> c = CHR 0x0A \<or> c = CHR 0x0D \<or> c = CHR 0x09"
      using eqs by simp
    then show ?thesis by (elim disjE) (simp_all add: json_char_def string_item_def simple_escape_def)
  next
    case no: False
    show ?thesis
    proof (cases "n < 32 \<or> n = 60 \<or> n = 62 \<or> n = 38")
      case True
      with no have "json_char c = [CHR 0x5C, CHR ''u'', CHR ''0'', CHR ''0'', hex_digit (n div 16), hex_digit (n mod 16)]"
        by (simp add: json_char_def Let_def n_def [symmetric])
      then show ?thesis using u by (simp add: string_item_def)
    next
      case False
      with no have "json_char c = [c]" "c \<noteq> CHR 0x5C" "c \<noteq> CHR 0x22"
        using eqs by (simp_all add: json_char_def Let_def n_def [symmetric])
      then show ?thesis using False n by (simp add: string_item_def n_def [symmetric])
    qed
  qed
  then show "string_item (json_char c @ r) = Some ([c], r)" "hd (json_char c @ r) \<noteq> CHR 0x22" by blast+
qed

lemma string_body_step:
  "s \<noteq> [] \<Longrightarrow> hd s \<noteq> CHR 0x22 \<Longrightarrow> string_item s = Some (t, r) \<Longrightarrow> string_body r = Some (u, q) \<Longrightarrow> string_body s = Some (t @ u, q)"
  by (simp add: string_body.simps [of s])

lemma string_body_json: "valid_utf8 s \<Longrightarrow> string_body (concat (map json_char s) @ CHR 0x22 # q) = Some (s, q)"
proof (induction s rule: runes.induct)
  case (1 s)
  show ?case
  proof (cases "s = []")
    case True
    then show ?thesis by (simp add: string_body.simps)
  next
    case False
    let ?x = "take (rune_len s) s" and ?s' = "drop (rune_len s) s"
    have v: "valid_utf8 ?s'" "length ?x = 1 \<longrightarrow> of_char (hd ?x) < (128 :: nat)"
      using 1(2) False by (simp_all add: valid_utf8_def runes.simps [of s])
    note IH = "1.IH" [OF False v(1)]
    have split: "concat (map json_char s) = concat (map json_char ?x) @ concat (map json_char ?s')"
      by (metis append_take_drop_id concat_append map_append)
    let ?rest = "concat (map json_char ?s') @ CHR 0x22 # q"
    have "string_item (concat (map json_char ?x) @ ?rest) = Some (?x, ?rest) \<and> hd (concat (map json_char ?x) @ ?rest) \<noteq> CHR 0x22
        \<and> concat (map json_char ?x) @ ?rest \<noteq> []"
    proof (cases "rune_len s = 1")
      case True
      with False obtain c where x: "?x = [c]" by (cases s) auto
      with v(2) have "of_char c < (128 :: nat)" by simp
      from string_item_char [OF this] x show ?thesis by simp
    next
      case n: False
      have m: "rune_len (?x @ ?rest) = rune_len s" "rune_len s \<le> length s" "2 \<le> rune_len s"
        "list_all (\<lambda>c. 128 \<le> (of_char c :: nat)) ?x"
        using rune_len_cases [OF n False, of ?rest] by blast+
      have "concat (map json_char y) = y" if "list_all (\<lambda>c. 128 \<le> (of_char c :: nat)) y" for y
        using that by (induction y) (simp_all add: json_char_high)
      then have copy: "concat (map json_char ?x) = ?x" using m(4) .
      obtain c y where x: "?x = c # y" "128 \<le> (of_char c :: nat)" using m(2-4) False by (cases ?x) auto
      have ne: "c \<noteq> CHR 0x22" "c \<noteq> CHR 0x5C" using x(2) by (auto simp: char_eq_iff_nat simp del: of_char_eq_iff)
      have td: "take (rune_len s) (?x @ ?rest) = ?x" "drop (rune_len s) (?x @ ?rest) = ?rest" using m(2) by simp_all
      have e: "?x @ ?rest = c # y @ ?rest" using x(1) by simp
      have "string_item (c # y @ ?rest) = Some (take (rune_len s) (c # y @ ?rest), drop (rune_len s) (c # y @ ?rest))"
        using m(1) [unfolded e] x(2) n ne by (simp add: string_item_def)
      then have "string_item (?x @ ?rest) = Some (?x, ?rest)" unfolding e [symmetric] td .
      then show ?thesis unfolding copy e using ne by simp
    qed
    then have "string_body (concat (map json_char ?x) @ ?rest) = Some (?x @ ?s', q)"
      using string_body_step IH by blast
    then show ?thesis by (simp add: split)
  qed
qed

lemma valid_ascii: "list_all (\<lambda>c. of_char c < (128 :: nat)) s \<Longrightarrow> valid_utf8 s"
proof (induction s)
  case (Cons c s)
  then have "rune_len (c # s) = 1" by (simp add: rune_len_def Let_def)
  with Cons show ?case by (simp add: valid_utf8_def runes.simps [of "c # s"])
qed (simp add: valid_utf8_def)

lemma nat_str_no_zero: "0 < n \<Longrightarrow> hd (nat_str n) \<noteq> CHR ''0''"
proof (induction n rule: nat_str.induct)
  case (1 n)
  show ?case
  proof (cases "n < 10")
    case True
    with 1(2) show ?thesis by (subst nat_str.simps) (auto simp: char_eq_iff_nat simp del: of_char_eq_iff)
  next
    case False
    then have "hd (nat_str (n div 10)) \<noteq> CHR ''0''" using 1(1) by simp
    with False show ?thesis by (subst nat_str.simps) simp
  qed
qed

lemma nat_str_zero: "nat_str 0 = ''0''"
  by code_simp

lemma takeWhile_nat_str: "stops r \<Longrightarrow> takeWhile digit_char (nat_str n @ r) = nat_str n"
  using nat_str_digits [of n] by (cases r) (auto simp: stops_def list_all_iff takeWhile_append2)

lemma integer_value_int_str:
  assumes "- (2 ^ 63) \<le> i" "i < 2 ^ 63" "stops r"
  shows "integer_value (int_str i @ r) = Some (i, r)"
proof -
  have hd: "hd (nat_str n @ q) \<noteq> CHR ''-''" for n q using nat_str_hd [of n] by auto
  have zero: "\<not> (1 < length (nat_str n) \<and> hd (nat_str n) = CHR ''0'')" for n
    using nat_str_no_zero [of n] nat_str_zero by (cases "n = 0") auto
  show ?thesis
  proof (cases "i < 0")
    case True
    then show ?thesis using assms zero [of "nat (- i)"]
      by (auto simp: integer_value_def int_str_def Let_def digits_of_def takeWhile_nat_str)
  next
    case False
    then show ?thesis using assms zero [of "nat i"] hd [of "nat i" r]
      by (auto simp: integer_value_def int_str_def Let_def digits_of_def takeWhile_nat_str)
  qed
qed

lemma skip_ws_id: "s \<noteq> [] \<Longrightarrow> \<not> json_ws (hd s) \<Longrightarrow> skip_ws s = s"
  by (cases s) (simp_all add: skip_ws_def)

lemma expect_hit [simp]: "\<not> json_ws c \<Longrightarrow> expect c (c # r) = Some r"
  by (simp add: expect_def skip_ws_def)

lemma expect_miss: "\<not> json_ws x \<Longrightarrow> x \<noteq> c \<Longrightarrow> expect c (x # r) = None"
  by (simp add: expect_def skip_ws_def)

lemma field_value_string: "valid_utf8 s \<Longrightarrow> field_value (json_string s @ r) = Some (FStr s, r)"
  using string_body_json [of s r] skip_ws_id [of "json_string s @ r"]
  by (simp add: field_value_def json_string_def json_ws_def)

lemma int_str_hd: "\<exists>c t. int_str i = c # t \<and> \<not> json_ws c \<and> c \<noteq> CHR 0x22 \<and> c \<noteq> CHR ''n''"
proof -
  obtain c t where c: "int_str i = c # t" "first_kind c = 1" using int_str_first by blast
  have "first_kind (CHR 0x22) \<noteq> 1" "first_kind (CHR ''n'') \<noteq> 1" "first_kind (CHR 0x20) \<noteq> 1"
    "first_kind (CHR 0x09) \<noteq> 1" "first_kind (CHR 0x0A) \<noteq> 1" "first_kind (CHR 0x0D) \<noteq> 1"
    by (simp_all add: first_kind_def digit_char_def)
  with c(2) have "c \<noteq> CHR 0x22" "c \<noteq> CHR ''n''" "\<not> json_ws c" by (auto simp: json_ws_def)
  with c(1) show ?thesis by blast
qed

lemma field_value_int: "- (2 ^ 63) \<le> i \<Longrightarrow> i < 2 ^ 63 \<Longrightarrow> stops r \<Longrightarrow> field_value (int_str i @ r) = Some (FInt i, r)"
  using integer_value_int_str [of i r] int_str_hd [of i] skip_ws_id [of "int_str i @ r"]
  by (auto simp: field_value_def Let_def)

lemma member_of_string:
  "valid_utf8 k \<Longrightarrow> valid_utf8 s \<Longrightarrow> member_of (json_string k @ CHR '':'' # json_string s @ r) = Some (k, FStr s, r)"
  using string_body_json [of k "CHR '':'' # json_string s @ r"] field_value_string [of s r]
  by (simp add: member_of_def json_string_def [of k] json_ws_def)

lemma member_of_int:
  "valid_utf8 k \<Longrightarrow> - (2 ^ 63) \<le> i \<Longrightarrow> i < 2 ^ 63 \<Longrightarrow> stops r \<Longrightarrow>
   member_of (json_string k @ CHR '':'' # int_str i @ r) = Some (k, FInt i, r)"
  using string_body_json [of k "CHR '':'' # int_str i @ r"] field_value_int [of i r]
  by (simp add: member_of_def json_string_def [of k] json_ws_def)

lemma members_next:
  "member_of s = Some (name, v, CHR '','' # r) \<Longrightarrow> set_field name v c = Some c' \<Longrightarrow> members (Suc k) s c = members k r c'"
  by (simp add: json_ws_def)

lemma members_last:
  "member_of s = Some (name, v, CHR ''}'' # r) \<Longrightarrow> set_field name v c = Some c' \<Longrightarrow> members (Suc k) s c = Some c'"
  by (simp add: json_ws_def expect_miss)

lemma set_field_names:
  "set_field ''v'' (FInt i) c = Some (c\<lparr> cl_Version := i \<rparr>)"
  "set_field ''jti'' (FStr s) c = Some (c\<lparr> cl_PassportID := s \<rparr>)"
  "set_field ''org'' (FStr s) c = Some (c\<lparr> cl_OrganizationID := s \<rparr>)"
  "set_field ''change'' (FStr s) c = Some (c\<lparr> cl_ChangeID := s \<rparr>)"
  "set_field ''sha256'' (FStr s) c = Some (c\<lparr> cl_ArtifactSHA256 := s \<rparr>)"
  "set_field ''env'' (FStr s) c = Some (c\<lparr> cl_Environment := s \<rparr>)"
  "set_field ''rules'' (FStr s) c = Some (c\<lparr> cl_RuleSetVersion := s \<rparr>)"
  "set_field ''approver'' (FStr s) c = Some (c\<lparr> cl_ApproverID := s \<rparr>)"
  "set_field ''iat'' (FInt i) c = Some (c\<lparr> cl_IssuedAtUnix := i \<rparr>)"
  "set_field ''exp'' (FInt i) c = Some (c\<lparr> cl_ExpiresAtUnix := i \<rparr>)"
proof -
  have "fold_name ''v'' = ''v''" "fold_name ''jti'' = ''jti''" "fold_name ''org'' = ''org''" "fold_name ''change'' = ''change''"
    "fold_name ''sha256'' = ''sha256''" "fold_name ''env'' = ''env''" "fold_name ''rules'' = ''rules''"
    "fold_name ''approver'' = ''approver''" "fold_name ''iat'' = ''iat''" "fold_name ''exp'' = ''exp''"
    by code_simp+
  then show "set_field ''v'' (FInt i) c = Some (c\<lparr> cl_Version := i \<rparr>)"
    "set_field ''jti'' (FStr s) c = Some (c\<lparr> cl_PassportID := s \<rparr>)"
    "set_field ''org'' (FStr s) c = Some (c\<lparr> cl_OrganizationID := s \<rparr>)"
    "set_field ''change'' (FStr s) c = Some (c\<lparr> cl_ChangeID := s \<rparr>)"
    "set_field ''sha256'' (FStr s) c = Some (c\<lparr> cl_ArtifactSHA256 := s \<rparr>)"
    "set_field ''env'' (FStr s) c = Some (c\<lparr> cl_Environment := s \<rparr>)"
    "set_field ''rules'' (FStr s) c = Some (c\<lparr> cl_RuleSetVersion := s \<rparr>)"
    "set_field ''approver'' (FStr s) c = Some (c\<lparr> cl_ApproverID := s \<rparr>)"
    "set_field ''iat'' (FInt i) c = Some (c\<lparr> cl_IssuedAtUnix := i \<rparr>)"
    "set_field ''exp'' (FInt i) c = Some (c\<lparr> cl_ExpiresAtUnix := i \<rparr>)"
    by (simp_all add: set_field_def Let_def set_int_def set_string_def)
qed

lemma names_valid:
  "valid_utf8 ''v''" "valid_utf8 ''jti''" "valid_utf8 ''org''" "valid_utf8 ''change''" "valid_utf8 ''sha256''"
  "valid_utf8 ''env''" "valid_utf8 ''rules''" "valid_utf8 ''approver''" "valid_utf8 ''iat''" "valid_utf8 ''exp''"
  by (auto intro!: valid_ascii)

definition claims_text_ok :: "passport_claims \<Rightarrow> bool" where
  "claims_text_ok c \<longleftrightarrow>
     valid_utf8 (cl_PassportID c) \<and> valid_utf8 (cl_OrganizationID c) \<and> valid_utf8 (cl_ChangeID c)
     \<and> valid_utf8 (cl_ArtifactSHA256 c) \<and> valid_utf8 (cl_Environment c) \<and> valid_utf8 (cl_RuleSetVersion c)
     \<and> valid_utf8 (cl_ApproverID c) \<and> - (2 ^ 63) \<le> cl_Version c \<and> cl_Version c < 2 ^ 63
     \<and> - (2 ^ 63) \<le> cl_IssuedAtUnix c \<and> cl_IssuedAtUnix c < 2 ^ 63
     \<and> - (2 ^ 63) \<le> cl_ExpiresAtUnix c \<and> cl_ExpiresAtUnix c < 2 ^ 63"

lemma decode_claims_json: "claims_text_ok c \<Longrightarrow> decode_claims (json_enc (claims_json c)) = Some c"
proof -
  assume ok: "claims_text_ok c"
  define body where "body = tl (json_enc (claims_json c))"
  have enc: "json_enc (claims_json c) = CHR ''{'' # body" by (simp add: body_def claims_json_def)
  have "\<exists>k. length body = k + 10" by (rule exI [of _ "length body - 10"]) (simp add: body_def claims_json_def json_string_def)
  then obtain k where k: "length body = Suc (Suc (Suc (Suc (Suc (Suc (Suc (Suc (Suc (Suc k)))))))))" by auto
  have "members (length body) body zero_claims = Some c"
    using ok unfolding k body_def claims_json_def claims_text_ok_def
    by (simp add: members_next [OF member_of_int] members_next [OF member_of_string] members_last [OF member_of_int]
        names_valid set_field_names del: members.simps)
  moreover have "expect (CHR ''}'') body = None"
    by (simp add: body_def claims_json_def json_string_def expect_miss json_ws_def)
  ultimately show ?thesis
    by (simp add: decode_claims_def enc skip_ws_def json_ws_def)
qed

lemma split_on_append: "x \<notin> set a \<Longrightarrow> split_on x (a @ x # b) = a # split_on x b"
  by (induction a) (auto split: list.splits)

lemma split_on_none: "x \<notin> set a \<Longrightarrow> split_on x a = [a]"
  by (induction a) auto

lemma base64_no_dot: "CHR ''.'' \<notin> set (base64_encode s)"
  using base64_encode_alphabet [of s] by (auto simp: list_all_iff)

lemma Sign_shape:
  assumes "Sign k c = Inr tok"
  obtains body where "body = base64_encode (json_enc (claims_json (c\<lparr> cl_Version := 1 \<rparr>)))" "key_ok k"
    "split_on (CHR ''.'') tok = [''cg1'', body, base64_encode (hmac_sha256 (the k) (''cg1'' @ ''.'' @ body))]"
proof
  let ?body = "base64_encode (json_enc (claims_json (c\<lparr> cl_Version := 1 \<rparr>)))"
  let ?mac = "base64_encode (hmac_sha256 (the k) (''cg1'' @ ''.'' @ ?body))"
  have tok: "tok = ''cg1'' @ CHR ''.'' # ?body @ CHR ''.'' # ?mac" and k: "key_ok k"
    using assms by (auto simp: Sign_def Let_def split: if_splits)
  show "split_on (CHR ''.'') tok = [''cg1'', ?body, ?mac]"
    unfolding tok using base64_no_dot
    by (subst split_on_append, simp)+ (simp add: split_on_none)
  show "key_ok k" by (rule k)
qed simp

lemma token_verifies:
  assumes "Sign k c = Inr tok" "claims_text_ok (c\<lparr> cl_Version := 1 \<rparr>)"
  shows "Verify_token k tok = (if claims_ok (c\<lparr> cl_Version := 1 \<rparr>) then Inr (c\<lparr> cl_Version := 1 \<rparr>) else Inl ErrMalformedToken)"
proof -
  obtain body where b: "body = base64_encode (json_enc (claims_json (c\<lparr> cl_Version := 1 \<rparr>)))" "key_ok k"
    "split_on (CHR ''.'') tok = [''cg1'', body, base64_encode (hmac_sha256 (the k) (''cg1'' @ ''.'' @ body))]"
    using Sign_shape [OF assms(1)] by blast
  have "json_enc (claims_json (c\<lparr> cl_Version := 1 \<rparr>)) \<noteq> []" by (simp add: claims_json_def)
  then have ne: "body \<noteq> []" using b(1) by simp
  have mac: "hmac_sha256 (the k) m \<noteq> []" for m
    by (metis length_hmac_sha256 list.size(3) zero_neq_numeral)
  have body: "base64_decode body = Some (json_enc (claims_json (c\<lparr> cl_Version := 1 \<rparr>)))" using b(1) by simp
  show ?thesis unfolding Verify_token_def b(3)
    using b(2) ne mac body decode_claims_json [OF assms(2)] by simp
qed

text \<open>C22: verifying a signed token with the key it was signed with gives the signed claims back, as version 1,
  when they name a passport, a change and a digest and have a positive lifetime; a token signed for other
  claims is refused as malformed. The texts of the claims must be valid UTF-8 and its numbers fit in 64 bits,
  as \<^verbatim>\<open>json.Marshal\<close> replaces anything else.\<close>

theorem Verify_Sign:
  assumes "Sign k c = Inr tok" "claims_text_ok (c\<lparr> cl_Version := 1 \<rparr>)"
  shows "Verify_token k tok = (if claims_ok (c\<lparr> cl_Version := 1 \<rparr>) then Inr (c\<lparr> cl_Version := 1 \<rparr>) else Inl ErrMalformedToken)
    \<and> (\<forall>k' c'. Verify_token k' tok = Inr c' \<longrightarrow> c' = c\<lparr> cl_Version := 1 \<rparr>)"
proof -
  obtain body mac where b: "body = base64_encode (json_enc (claims_json (c\<lparr> cl_Version := 1 \<rparr>)))"
    "split_on (CHR ''.'') tok = [''cg1'', body, mac]"
    using Sign_shape [OF assms(1)] by blast
  have "decode_claims payload = Some (c\<lparr> cl_Version := 1 \<rparr>)" if "base64_decode body = Some payload" for payload
    using that b(1) decode_claims_json [OF assms(2)] by simp
  then have "c' = c\<lparr> cl_Version := 1 \<rparr>" if "Verify_token k' tok = Inr c'" for k' c'
    using that unfolding Verify_token_def b(2) by (simp split: if_splits option.splits)
  with token_verifies [OF assms] show ?thesis by blast
qed

text \<open>C21: a token is accepted only if its third part decodes to the HMAC of its first two under the key of the
  verifier: whatever claims it yields, their text was signed with that key, up to collisions of the HMAC.\<close>

theorem Verify_needs_mac:
  assumes "Verify_token (Some key) tok = Inr c"
  shows "\<exists>body mac payload. tok = ''cg1.'' @ body @ ''.'' @ mac \<and> base64_decode mac = Some (hmac_sha256 key (''cg1.'' @ body))
    \<and> base64_decode body = Some payload \<and> decode_claims payload = Some c \<and> claims_ok c \<and> 32 \<le> length key"
proof -
  obtain head body mac where p: "split_on (CHR ''.'') tok = [head, body, mac]"
    using assms by (auto simp: Verify_token_def split: if_splits list.splits)
  have "tok = join_str ''.'' [head, body, mac]" using join_split [of "CHR ''.''" tok] unfolding p by simp
  then have tok: "tok = head @ ''.'' @ body @ ''.'' @ mac" by simp
  have facts: "head = ''cg1'' \<and> base64_decode mac = Some (hmac_sha256 key (head @ ''.'' @ body))
      \<and> (\<exists>payload. base64_decode body = Some payload \<and> decode_claims payload = Some c) \<and> claims_ok c \<and> 32 \<le> length key"
    using assms p by (auto simp: Verify_token_def key_ok_def split: if_splits option.splits)
  then obtain payload where "base64_decode body = Some payload" "decode_claims payload = Some c" by blast
  then show ?thesis using facts tok by (intro exI [of _ body] exI [of _ mac] exI [of _ payload]) simp
qed

definition sample_claims :: passport_claims where
  "sample_claims = zero_claims\<lparr> cl_PassportID := ''pass_1'', cl_OrganizationID := ''org_1'', cl_ChangeID := ''chg_1'',
     cl_ArtifactSHA256 := ''ab'', cl_Environment := ''prod'', cl_RuleSetVersion := ''sha256:0'', cl_ApproverID := ''usr_2'',
     cl_IssuedAtUnix := 100, cl_ExpiresAtUnix := 700 \<rparr>"

definition sample_key :: "string option" where "sample_key = Some (replicate 32 (CHR ''k''))"

lemma sample_key_ok: "key_ok sample_key"
  by (simp add: sample_key_def key_ok_def)

lemma sample_claims_ok: "claims_text_ok (sample_claims\<lparr> cl_Version := 1 \<rparr>)" "claims_ok (sample_claims\<lparr> cl_Version := 1 \<rparr>)"
  by (auto simp: sample_claims_def zero_claims_def claims_text_ok_def claims_ok_def intro!: valid_ascii)

lemma sample_signed: "\<exists>tok. Sign sample_key sample_claims = Inr tok"
  using sample_key_ok by (simp add: Sign_def Let_def)

lemma sample_token: "Sign sample_key sample_claims = Inr tok \<Longrightarrow> Verify_token sample_key tok = Inr (sample_claims\<lparr> cl_Version := 1 \<rparr>)"
  using token_verifies [OF _ sample_claims_ok(1)] sample_claims_ok(2) by simp

theorem Verify_Sign_witness:
  "\<exists>tok. Sign sample_key sample_claims = Inr tok \<and> Verify_token sample_key tok = Inr (sample_claims\<lparr> cl_Version := 1 \<rparr>)"
proof -
  obtain tok where t: "Sign sample_key sample_claims = Inr tok" using sample_signed by blast
  from Verify_Sign [OF t sample_claims_ok(1)] t show ?thesis using sample_claims_ok(2) by auto
qed

theorem Verify_needs_mac_witness:
  "\<exists>tok. Verify_token (Some (replicate 32 (CHR ''k''))) tok = Inr (sample_claims\<lparr> cl_Version := 1 \<rparr>)
    \<and> (\<exists>body mac. tok = ''cg1.'' @ body @ ''.'' @ mac
          \<and> base64_decode mac = Some (hmac_sha256 (replicate 32 (CHR ''k'')) (''cg1.'' @ body)))"
proof -
  obtain tok where "Sign sample_key sample_claims = Inr tok" using sample_signed by blast
  then have ok: "Verify_token (Some (replicate 32 (CHR ''k''))) tok = Inr (sample_claims\<lparr> cl_Version := 1 \<rparr>)"
    using sample_token by (simp add: sample_key_def)
  then show ?thesis using Verify_needs_mac [OF ok] by blast
qed

end
