(* ===== verification/GateTexts.thy ===== *)
theory GateTexts
  imports Main
begin

text \<open>
  The non-ASCII string constants of the passport service that a modelled definition compares or stores, as their UTF-8
  bytes.
\<close>

definition txt_issued_1 :: string where
  "txt_issued_1 = [
    CHR 0xE7, CHR 0xAD, CHR 0xBE, CHR 0xE5, CHR 0x8F, CHR 0x91, CHR 0xE7, CHR 0x9F, CHR 0xAD,
    CHR 0xE6, CHR 0x97, CHR 0xB6, CHR 0xE4, CHR 0xB8, CHR 0x80, CHR 0xE6, CHR 0xAC, CHR 0xA1,
    CHR 0xE6, CHR 0x80, CHR 0xA7, CHR 0xE9, CHR 0x80, CHR 0x9A, CHR 0xE8, CHR 0xA1, CHR 0x8C,
    CHR 0xE8, CHR 0xAF, CHR 0x81, CHR 0x20]"

definition txt_issued_2 :: string where
  "txt_issued_2 = [
    CHR 0xEF, CHR 0xBC, CHR 0x8C, CHR 0xE7, CHR 0xBB, CHR 0x91, CHR 0xE5, CHR 0xAE, CHR 0x9A,
    CHR 0xE5, CHR 0x88, CHR 0xB6, CHR 0xE5, CHR 0x93, CHR 0x81, CHR 0x20]"

definition txt_issued_3 :: string where
  "txt_issued_3 = [
    CHR 0xE3, CHR 0x80, CHR 0x81, CHR 0xE7, CHR 0x8E, CHR 0xAF, CHR 0xE5, CHR 0xA2, CHR 0x83,
    CHR 0x20]"

definition txt_issued_4 :: string where
  "txt_issued_4 = [
    CHR 0x20, CHR 0xE5, CHR 0x92, CHR 0x8C, CHR 0xE8, CHR 0xA7, CHR 0x84, CHR 0xE5, CHR 0x88,
    CHR 0x99, CHR 0xE7, CHR 0x89, CHR 0x88, CHR 0xE6, CHR 0x9C, CHR 0xAC, CHR 0x20]"

definition txt_gate_1 :: string where
  "txt_gate_1 = [
    CHR 0x43, CHR 0x49, CHR 0x20, CHR 0xE6, CHR 0xA0, CHR 0xA1, CHR 0xE9, CHR 0xAA, CHR 0x8C,
    CHR 0xE9, CHR 0x80, CHR 0x9A, CHR 0xE8, CHR 0xA1, CHR 0x8C, CHR 0xE8, CHR 0xAF, CHR 0x81,
    CHR 0x20]"

definition txt_gate_2 :: string where
  "txt_gate_2 = [
    CHR 0xEF, CHR 0xBC, CHR 0x8C, CHR 0xE5, CHR 0x88, CHR 0xB6, CHR 0xE5, CHR 0x93, CHR 0x81,
    CHR 0xE4, CHR 0xB8, CHR 0x8E, CHR 0xE7, CHR 0x8E, CHR 0xAF, CHR 0xE5, CHR 0xA2, CHR 0x83,
    CHR 0xE5, CHR 0x8C, CHR 0xB9, CHR 0xE9, CHR 0x85, CHR 0x8D]"

definition txt_gate_verified :: string where
  "txt_gate_verified = [
    CHR 0x43, CHR 0x49, CHR 0x20, CHR 0xE9, CHR 0xAA, CHR 0x8C, CHR 0xE7, CHR 0xAD, CHR 0xBE,
    CHR 0xE9, CHR 0x80, CHR 0x9A, CHR 0xE8, CHR 0xBF, CHR 0x87, CHR 0xEF, CHR 0xBC, CHR 0x9A]"

definition txt_gate_reason :: string where
  "txt_gate_reason = [
    CHR 0xE5, CHR 0x88, CHR 0xB6, CHR 0xE5, CHR 0x93, CHR 0x81, CHR 0xE6, CHR 0x91, CHR 0x98,
    CHR 0xE8, CHR 0xA6, CHR 0x81, CHR 0xE3, CHR 0x80, CHR 0x81, CHR 0xE7, CHR 0x8E, CHR 0xAF,
    CHR 0xE5, CHR 0xA2, CHR 0x83, CHR 0xE3, CHR 0x80, CHR 0x81, CHR 0xE8, CHR 0xA7, CHR 0x84,
    CHR 0xE5, CHR 0x88, CHR 0x99, CHR 0xE7, CHR 0x89, CHR 0x88, CHR 0xE6, CHR 0x9C, CHR 0xAC,
    CHR 0xE3, CHR 0x80, CHR 0x81, CHR 0xE5, CHR 0xAE, CHR 0xA1, CHR 0xE6, CHR 0x89, CHR 0xB9,
    CHR 0xE4, CHR 0xBA, CHR 0xBA, CHR 0xE5, CHR 0x92, CHR 0x8C, CHR 0xE6, CHR 0x9C, CHR 0x89,
    CHR 0xE6, CHR 0x95, CHR 0x88, CHR 0xE6, CHR 0x9C, CHR 0x9F, CHR 0xE5, CHR 0x9D, CHR 0x87,
    CHR 0xE5, CHR 0x8C, CHR 0xB9, CHR 0xE9, CHR 0x85, CHR 0x8D]"

definition txt_revoked_manually :: string where
  "txt_revoked_manually = [
    CHR 0xE4, CHR 0xBA, CHR 0xBA, CHR 0xE5, CHR 0xB7, CHR 0xA5, CHR 0xE6, CHR 0x92, CHR 0xA4,
    CHR 0xE9, CHR 0x94, CHR 0x80, CHR 0xE5, CHR 0x8F, CHR 0x98, CHR 0xE6, CHR 0x9B, CHR 0xB4,
    CHR 0xE9, CHR 0x80, CHR 0x9A, CHR 0xE8, CHR 0xA1, CHR 0x8C, CHR 0xE8, CHR 0xAF, CHR 0x81,
    CHR 0x20]"

end
