(* ===== verification/Gate.thy ===== *)
theory Gate
  imports Lifecycle PassportToken GateTexts
begin

text \<open>
  \<^verbatim>\<open>internal/service/passport.go\<close>: the passport of an approved change. \<open>IssuePassport\<close> signs a token over the
  facts of the approval and stores its hash; \<open>VerifyGate\<close> is what a CI job calls with the token before and
  during the deployment; \<open>RevokePassport\<close> takes a passport back. The listings for the console are not
  modelled. The lemmas show that an issued token opens the gate once, what an open gate implies, and when
  a passport can never be used.
\<close>

section \<open>Errors, requests and results\<close>

datatype gate_error =
    GateStore err | GateUnavailable | GateInvalid | GateExpired | GateRevoked | GateReplay
  | GateArtifactMismatch | GateEnvironmentMismatch | GateRuleSetChanged

record gate_request =
  gr_Token :: string
  gr_ArtifactSHA256 :: string
  gr_Environment :: string
  gr_Consumer :: string

record gate_result =
  gate_Allowed :: bool
  gate_Code :: string
  gate_Reason :: string
  gate_Passport :: passport
  gate_Replayed :: bool

record passport_service =
  psv_Signer :: "string option"
  psv_TTL :: duration

text \<open>\<open>ttl\<close> is what \<^verbatim>\<open>time.ParseDuration\<close> makes of the trimmed variable \<^verbatim>\<open>CHANGEGUARD_PASSPORT_TTL\<close>.\<close>

definition passportSignerFromEnvironment :: "string \<Rightarrow> duration option \<Rightarrow> passport_service" where
  "passportSignerFromEnvironment secret ttl =
     \<lparr> psv_Signer = NewSigner secret,
        psv_TTL = (case ttl of
                     Some t \<Rightarrow> if minute \<le> t \<and> t \<le> 30 * minute then t else 10 * minute
                   | None \<Rightarrow> 10 * minute) \<rparr>"

section \<open>Issue\<close>

definition issue_error :: "db \<Rightarrow> user \<Rightarrow> change_request \<Rightarrow> gate_error option" where
  "issue_error d actor c =
     (if chg_OrganizationID c \<noteq> usr_OrganizationID actor \<or> \<not> canUseApplication d actor (chg_ApplicationID c) ''review''
      then Some (GateStore ErrForbidden)
      else if \<not> trustedForRelease c then Some (GateStore ErrForbidden)
      else if usr_ID actor = chg_SubmitterID c \<or> chg_ReviewerID c = [] \<or> usr_ID actor \<noteq> chg_ReviewerID c
      then Some (GateStore ErrForbidden)
      else if chg_Status c \<noteq> StatusApproved \<or> \<not> check_passed c then Some (GateStore ErrInvalidState)
      else if chg_ArtifactSHA256 c = [] \<or> chg_RuleSetVersion c = []
              \<or> run_ArtifactSHA256 (the (chg_CheckRun c)) \<noteq> chg_ArtifactSHA256 c
              \<or> run_RuleSetVersion (the (chg_CheckRun c)) \<noteq> chg_RuleSetVersion c
      then Some GateInvalid
      else if RuleSetVersion (PoliciesByOrganization d (chg_OrganizationID c)) \<noteq> chg_RuleSetVersion c
      then Some GateRuleSetChanged
      else if (case chg_Experiment c of None \<Rightarrow> False
               | Some x \<Rightarrow> equal_fold (exp_Mode x) ''DEMO_ONLY'' \<or> equal_fold (exp_Status x) ''NOT_RUN'')
      then Some (GateStore ErrInvalidState)
      else if trim_space (chg_SQL c) \<noteq> [] \<and> \<not> trustedSQLExperiment (chg_Experiment c) c
      then Some (GateStore ErrInvalidState)
      else None)"

text \<open>The requested lifetime in seconds is converted to a 64-bit duration, which wraps around.\<close>

definition requested_ttl :: "int \<Rightarrow> duration" where
  "requested_ttl s = sint (word_of_int (s * second) :: 64 word)"

definition issue_ttl :: "duration \<Rightarrow> int \<Rightarrow> duration option" where
  "issue_ttl ttl s =
     (if 0 < s
      then let r = requested_ttl s in if r < minute \<or> 30 * minute < r then None else Some r
      else Some ttl)"

definition issued_claims :: "string \<Rightarrow> change_request \<Rightarrow> gotime \<Rightarrow> gotime \<Rightarrow> passport_claims" where
  "issued_claims i c now expires = zero_claims
     \<lparr> cl_PassportID := i, cl_OrganizationID := chg_OrganizationID c, cl_ChangeID := chg_ID c,
       cl_ArtifactSHA256 := chg_ArtifactSHA256 c, cl_Environment := chg_Environment c,
       cl_RuleSetVersion := chg_RuleSetVersion c, cl_ApproverID := chg_ReviewerID c,
       cl_IssuedAtUnix := unix_seconds now, cl_ExpiresAtUnix := unix_seconds expires \<rparr>"

definition issued_passport :: "string \<Rightarrow> change_request \<Rightarrow> string \<Rightarrow> gotime \<Rightarrow> gotime \<Rightarrow> passport" where
  "issued_passport i c token now expires = zero_passport
     \<lparr> pass_ID := i, pass_OrganizationID := chg_OrganizationID c, pass_ChangeID := chg_ID c,
       pass_ArtifactSHA256 := chg_ArtifactSHA256 c, pass_Environment := chg_Environment c,
       pass_RuleSetVersion := chg_RuleSetVersion c, pass_ApproverID := chg_ReviewerID c,
       pass_ApproverName := chg_ReviewerName c, pass_Status := PassportActive,
       pass_TokenSHA256 := TokenSHA256 token, pass_IssuedAt := now, pass_ExpiresAt := expires \<rparr>"

definition issue_audit :: "senv \<Rightarrow> user \<Rightarrow> change_request \<Rightarrow> passport \<Rightarrow> audit_event" where
  "issue_audit h actor c p =
     (auditPassport (audit h 0 actor (chg_ID c) ''PASSPORT_ISSUED''
        (txt_issued_1 @ pass_ID p @ txt_issued_2 @ pass_ArtifactSHA256 p @ txt_issued_3 @ pass_Environment p
         @ txt_issued_4 @ pass_RuleSetVersion p)) (pass_ID p))
       \<lparr> aud_RequestDigest := chg_ArtifactSHA256 c \<rparr>"

text \<open>\<open>entropy\<close> is the outcome of reading 16 random bytes.\<close>

definition IssuePassport ::
  "passport_service \<Rightarrow> senv \<Rightarrow> string option \<Rightarrow> string \<Rightarrow> string \<Rightarrow> int \<Rightarrow> db \<Rightarrow> db
     \<Rightarrow> (gate_error + passport \<times> string) \<times> db" where
  "IssuePassport v h entropy changeID actorID ttlSeconds snap d =
     (if psv_Signer v = None then (Inl GateUnavailable, d)
      else case activeActor snap actorID of
        Inl _ \<Rightarrow> (Inl (GateStore ErrForbidden), d)
      | Inr actor \<Rightarrow>
          (case Change snap changeID of
             Inl er \<Rightarrow> (Inl (GateStore er), d)
           | Inr c \<Rightarrow>
               (case issue_error snap actor c of
                  Some er \<Rightarrow> (Inl er, d)
                | None \<Rightarrow>
                    (case (issue_ttl (psv_TTL v) ttlSeconds, NewPassportID entropy) of
                       (None, _) \<Rightarrow> (Inl (GateStore ErrValidation), d)
                     | (Some _, None) \<Rightarrow> (Inl GateUnavailable, d)
                     | (Some ttl, Some i) \<Rightarrow>
                         let now = time_truncate (se_now h) second; expires = now + ttl in
                         (case Sign (psv_Signer v) (issued_claims i c now expires) of
                            Inl _ \<Rightarrow> (Inl GateUnavailable, d)
                          | Inr token \<Rightarrow>
                              let p = issued_passport i c token now expires in
                              (case CreatePassport p (issue_audit h actor c p) (se_call h 0) d of
                                 (Inr _, d') \<Rightarrow> (Inr (p\<lparr> pass_TokenSHA256 := [] \<rparr>, token), d')
                               | (Inl er, d') \<Rightarrow>
                                   (Inl (GateStore (if er = ErrConflict then ErrInvalidState else er)), d')))))))"

section \<open>The gate\<close>

definition claims_match :: "passport \<Rightarrow> passport_claims \<Rightarrow> bool" where
  "claims_match p c \<longleftrightarrow>
     pass_OrganizationID p = cl_OrganizationID c \<and> pass_ChangeID p = cl_ChangeID c
     \<and> pass_ArtifactSHA256 p = cl_ArtifactSHA256 c \<and> pass_Environment p = cl_Environment c
     \<and> pass_RuleSetVersion p = cl_RuleSetVersion c \<and> pass_ApproverID p = cl_ApproverID c
     \<and> (pass_IssuedAt p, pass_ExpiresAt p) = ClaimsTimes c"

definition change_matches :: "change_request \<Rightarrow> passport \<Rightarrow> bool" where
  "change_matches c p \<longleftrightarrow>
     chg_OrganizationID c = pass_OrganizationID p \<and> chg_ArtifactSHA256 c = pass_ArtifactSHA256 p
     \<and> chg_Environment c = pass_Environment p \<and> chg_RuleSetVersion c = pass_RuleSetVersion p"

text \<open>The checks before the passport is used: the passport the token names, or the error.\<close>

definition gate_checks :: "string option \<Rightarrow> gotime \<Rightarrow> gate_request \<Rightarrow> bool \<Rightarrow> db \<Rightarrow> gate_error + passport" where
  "gate_checks signer now x consume d =
     (case Verify_token signer (trim_space (gr_Token x)) of
        Inl _ \<Rightarrow> Inl GateInvalid
      | Inr claims \<Rightarrow>
          if \<not> equal_fold (trim_space (gr_ArtifactSHA256 x)) (cl_ArtifactSHA256 claims) then Inl GateArtifactMismatch
          else if \<not> equal_fold (trim_space (gr_Environment x)) (trim_space (cl_Environment claims))
          then Inl GateEnvironmentMismatch
          else (case Passport now d (cl_PassportID claims) of
                  Inl _ \<Rightarrow> Inl GateInvalid
                | Inr p \<Rightarrow>
                    if pass_Status p = PassportRevoked then Inl GateRevoked
                    else if pass_Status p = PassportExpired then Inl GateExpired
                    else if pass_Status p = PassportConsumed \<and> \<not> consume then Inl GateReplay
                    else if \<not> claims_match p claims then Inl GateInvalid
                    else (case Change d (pass_ChangeID p) of
                            Inl _ \<Rightarrow> Inl GateInvalid
                          | Inr c \<Rightarrow>
                              if \<not> change_matches c p then Inl GateInvalid
                              else if chg_Status c \<noteq> (if consume \<and> pass_Status p = PassportConsumed then StatusCompleted
                                                      else StatusApproved) then Inl GateInvalid
                              else if RuleSetVersion (PoliciesByOrganization d (chg_OrganizationID c)) \<noteq> pass_RuleSetVersion p
                              then Inl GateRuleSetChanged
                              else Inr p)))"

definition gate_consumer :: "string \<Rightarrow> string" where
  "gate_consumer s = (if trim_space s = [] then ''ci-gate'' else trim_space s)"

definition gate_actor :: "string \<Rightarrow> passport \<Rightarrow> user" where
  "gate_actor consumer p = zero_user
     \<lparr> usr_ID := ''ci:'' @ consumer, usr_OrganizationID := pass_OrganizationID p, usr_Name := consumer,
       usr_Role := ''CI'', usr_Active := True \<rparr>"

definition gate_audit :: "senv \<Rightarrow> nat \<Rightarrow> gate_request \<Rightarrow> string \<Rightarrow> passport \<Rightarrow> string \<Rightarrow> string \<Rightarrow> audit_event" where
  "gate_audit h n x consumer p action detail =
     (auditPassport (audit h n (gate_actor consumer p) (pass_ChangeID p) action detail) (pass_ID p))
       \<lparr> aud_RequestDigest := gr_ArtifactSHA256 x \<rparr>"

fun use_error :: "bool \<Rightarrow> err \<Rightarrow> gate_error" where
  "use_error consume ErrPassportExpired = GateExpired"
| "use_error consume ErrPassportReplay = GateReplay"
| "use_error consume ErrPassportInactive = (if consume then GateReplay else GateRevoked)"
| "use_error consume ErrPassportTokenMismatch = GateInvalid"
| "use_error consume ErrPassportChangeInvalid = GateInvalid"
| "use_error consume er = GateStore er"

definition gate_allowed :: "passport \<Rightarrow> bool \<Rightarrow> gate_result" where
  "gate_allowed validated replayed =
     \<lparr> gate_Allowed = True, gate_Code = ''GATE_ALLOWED'', gate_Reason = txt_gate_reason, gate_Passport = validated,
        gate_Replayed = replayed \<rparr>"

definition VerifyGate ::
  "passport_service \<Rightarrow> senv \<Rightarrow> gate_request \<Rightarrow> bool \<Rightarrow> db \<Rightarrow> db \<Rightarrow> (gate_error + gate_result) \<times> db" where
  "VerifyGate v h x consume snap d =
     (if psv_Signer v = None then (Inl GateUnavailable, d)
      else case gate_checks (psv_Signer v) (se_now h) x consume snap of
        Inl er \<Rightarrow> (Inl er, d)
      | Inr p \<Rightarrow>
          let consumer = gate_consumer (gr_Consumer x);
              action = (if consume then ''PASSPORT_CONSUMED'' else ''PASSPORT_VERIFIED'')
          in if 200 < length consumer then (Inl (GateStore ErrValidation), d)
             else (case UsePassport (pass_ID p) (TokenSHA256 (trim_space (gr_Token x))) consumer (se_now h) consume
                          (gate_audit h 0 x consumer p action (txt_gate_1 @ pass_ID p @ txt_gate_2)) (se_call h 0) d of
                     (Inl er, d') \<Rightarrow> (Inl (use_error consume er), d')
                   | (Inr validated, d') \<Rightarrow>
                       (Inr (gate_allowed validated (consume \<and> pass_Status p = PassportConsumed)),
                        if consume then d'
                        else snd (RecordAudit (gate_audit h 1 x consumer p action (txt_gate_verified @ pass_ID p))
                                    (se_call h 1) d'))))"

definition RevokePassport_service ::
  "senv \<Rightarrow> string \<Rightarrow> string \<Rightarrow> string \<Rightarrow> db \<Rightarrow> db \<Rightarrow> (err + passport) \<times> db" where
  "RevokePassport_service h changeID passportID actorID snap d =
     (case activeActor snap actorID of
        Inl _ \<Rightarrow> (Inl ErrForbidden, d)
      | Inr actor \<Rightarrow>
          (case Change snap changeID of
             Inl er \<Rightarrow> (Inl er, d)
           | Inr c \<Rightarrow>
               if chg_OrganizationID c \<noteq> usr_OrganizationID actor
                  \<or> \<not> canUseApplication snap actor (chg_ApplicationID c) ''review'' \<or> usr_ID actor = chg_SubmitterID c
               then (Inl ErrForbidden, d)
               else (case Passport (se_now h) snap passportID of
                       Inl _ \<Rightarrow> (Inl ErrNotFound, d)
                     | Inr p \<Rightarrow>
                         if pass_ChangeID p \<noteq> chg_ID c then (Inl ErrNotFound, d)
                         else RevokePassport (chg_OrganizationID c) passportID (usr_ID actor) (se_now h)
                                (audit h 0 actor (chg_ID c) ''PASSPORT_REVOKED'' (txt_revoked_manually @ passportID))
                                (se_call h 0) d)))"

section \<open>Facts about the parts\<close>

lemma b64_not_ws: "b64_alphabet c \<Longrightarrow> \<not> ascii_ws c \<and> (of_char c :: nat) < 128"
  by (auto simp: b64_alphabet_def b64_val_def ascii_ws_def Let_def split: if_splits)

lemma base64_plain: "list_all (\<lambda>c. \<not> ascii_ws c \<and> (of_char c :: nat) < 128) (base64_encode s)"
  using base64_encode_alphabet [of s] b64_not_ws by (auto simp: list_all_iff)

lemma Sign_trimmed:
  assumes "Sign k c = Inr tok"
  shows "trim_space tok = tok"
proof -
  obtain a b where tok: "tok = ''cg1.'' @ base64_encode a @ ''.'' @ base64_encode b"
    using assms by (auto simp: Sign_def Let_def split: if_splits)
  have "list_all (\<lambda>c. \<not> ascii_ws c \<and> (of_char c :: nat) < 128) ''cg1.''" by (simp add: ascii_ws_def)
  then have "list_all (\<lambda>c. \<not> ascii_ws c \<and> (of_char c :: nat) < 128) tok"
    using base64_plain [of a] base64_plain [of b] by (simp add: tok ascii_ws_def)
  then show ?thesis by (simp add: trimmed_ascii flip: trimmed_iff)
qed

lemma rules_of_organization:
  "RuleSetVersion (PoliciesByOrganization d org) = RuleSetVersion (filter (\<lambda>p. pol_OrganizationID p = org) (db_Policies d))"
  by (rule RuleSetVersion_enabled_only) (simp only: mset_filter PoliciesByOrganization_mset)

lemma public_simps [simp]:
  "pass_ID (publicPassport now item True) = pass_ID item" "pass_Status (publicPassport now item True) = pass_Status item"
  "pass_OrganizationID (publicPassport now item True) = pass_OrganizationID item"
  "pass_ChangeID (publicPassport now item True) = pass_ChangeID item"
  "pass_ArtifactSHA256 (publicPassport now item True) = pass_ArtifactSHA256 item"
  "pass_Environment (publicPassport now item True) = pass_Environment item"
  "pass_RuleSetVersion (publicPassport now item True) = pass_RuleSetVersion item"
  "pass_ApproverID (publicPassport now item True) = pass_ApproverID item"
  "pass_IssuedAt (publicPassport now item True) = pass_IssuedAt item"
  "pass_ExpiresAt (publicPassport now item True) = pass_ExpiresAt item"
  by (simp_all add: publicPassport_def passport.defs Let_def)

lemma Passport_Inr: "Passport now d i = Inr p \<longleftrightarrow> (\<exists>item. lookup_by pass_ID i (db_Passports d) = Some item \<and> p = publicPassport now item True)"
  by (auto simp: Passport_def simp del: lookup_by_None split: option.splits)

lemma Change_Inr: "Change d i = Inr c \<longleftrightarrow> lookup_by chg_ID i (db_Changes d) = Some c"
  by (auto simp: Change_def find_or_not_found_def simp del: lookup_by_None split: option.splits)

lemma CreatePassport_Inr:
  assumes "CreatePassport p ev e d = (Inr u, d')"
  shows "env_save e = Saved" "pass_ID p \<notin> pass_ID ` set (db_Passports d)"
    "db_Passports d' = map (expired_if_stale p (env_now e)) (db_Passports d) @ [store_passport p]"
    "db_Changes d' = db_Changes d" "db_Policies d' = db_Policies d" "db_Users d' = db_Users d"
proof -
  show s: "env_save e = Saved"
    using assms by (auto simp: CreatePassport_def Let_def save_locked_def split: if_splits save.splits option.splits prod.splits)
  show "pass_ID p \<notin> pass_ID ` set (db_Passports d)"
    using assms by (auto simp: CreatePassport_Saved [OF s] list_ex_iff split: if_splits)
  show "db_Passports d' = map (expired_if_stale p (env_now e)) (db_Passports d) @ [store_passport p]"
    "db_Changes d' = db_Changes d" "db_Policies d' = db_Policies d" "db_Users d' = db_Users d"
    using assms expire_stale_only [of p e d] by (auto simp: CreatePassport_Saved [OF s] store_frame split: if_splits)
qed

lemma expired_if_stale_ID [simp]: "pass_ID (expired_if_stale p now x) = pass_ID x"
  by (simp add: expired_if_stale_def)

lemma created_found:
  assumes "CreatePassport p ev e d = (Inr u, d')"
  shows "index_by pass_ID (pass_ID p) (db_Passports d') = Some (length (db_Passports d))"
    "db_Passports d' ! length (db_Passports d) = store_passport p"
    "lookup_by pass_ID (pass_ID p) (db_Passports d') = Some (store_passport p)"
proof -
  note c = CreatePassport_Inr [OF assms]
  have fresh: "index_by key k (xs @ [x]) = Some (length xs)" if "k \<notin> key ` set xs" "key x = k" for xs x k and key :: "'a \<Rightarrow> 'b"
    using that by (induction xs) (auto simp: index_by_def)
  show "index_by pass_ID (pass_ID p) (db_Passports d') = Some (length (db_Passports d))"
    using fresh [of "pass_ID p" pass_ID "map (expired_if_stale p (env_now e)) (db_Passports d)" "store_passport p"] c(2)
    by (auto simp: c(3) image_iff)
  from index_by_Some [OF this] show "lookup_by pass_ID (pass_ID p) (db_Passports d') = Some (store_passport p)"
    by (simp add: c(3) nth_append)
  show "db_Passports d' ! length (db_Passports d) = store_passport p" by (simp add: c(3) nth_append)
qed

lemma Issue_Inr:
  assumes "IssuePassport v h entropy changeID actorID s snap d = (Inr (p, token), d')"
  obtains actor c ttl i where "activeActor snap actorID = Inr actor" "Change snap changeID = Inr c"
    "issue_error snap actor c = None" "issue_ttl (psv_TTL v) s = Some ttl" "NewPassportID entropy = Some i"
    "Sign (psv_Signer v) (issued_claims i c (time_truncate (se_now h) second) (time_truncate (se_now h) second + ttl)) = Inr token"
    "CreatePassport (issued_passport i c token (time_truncate (se_now h) second) (time_truncate (se_now h) second + ttl))
       (issue_audit h actor c (issued_passport i c token (time_truncate (se_now h) second) (time_truncate (se_now h) second + ttl)))
       (se_call h 0) d = (Inr (), d')"
    "p = (issued_passport i c token (time_truncate (se_now h) second) (time_truncate (se_now h) second + ttl))\<lparr> pass_TokenSHA256 := [] \<rparr>"
  using assms unfolding IssuePassport_def Let_def
  by (auto split: if_splits sum.splits option.splits prod.splits)

definition ttl_ok :: "passport_service \<Rightarrow> bool" where
  "ttl_ok v \<longleftrightarrow> minute \<le> psv_TTL v \<and> psv_TTL v \<le> 30 * minute"

lemma environment_ttl [simp]: "ttl_ok (passportSignerFromEnvironment secret t)"
  by (auto simp: ttl_ok_def passportSignerFromEnvironment_def minute_def second_def split: option.splits)

lemma issue_ttl_range: "ttl_ok v \<Longrightarrow> issue_ttl (psv_TTL v) s = Some ttl \<Longrightarrow> minute \<le> ttl \<and> ttl \<le> 30 * minute"
  by (auto simp: ttl_ok_def issue_ttl_def Let_def split: if_splits)

text \<open>A change whose facts survive the JSON encoding of the claims, at a time that fits in it.\<close>

definition signable :: "change_request \<Rightarrow> gotime \<Rightarrow> bool" where
  "signable c now \<longleftrightarrow>
     list_all valid_utf8 [chg_OrganizationID c, chg_ID c, chg_ArtifactSHA256 c, chg_Environment c, chg_RuleSetVersion c,
       chg_ReviewerID c]
     \<and> 0 \<le> now \<and> now < 2 ^ 62 * second"

lemma issued_claims_text:
  assumes "signable c now" "NewPassportID entropy = Some i" "minute \<le> ttl" "ttl \<le> 30 * minute"
  defines "t \<equiv> time_truncate now second"
  shows "claims_text_ok ((issued_claims i c t (t + ttl))\<lparr> cl_Version := 1 \<rparr>)"
proof -
  have "valid_utf8 i" using assms(2)
    by (auto simp: NewPassportID_def list_all_iff intro!: valid_ascii) (metis hex_encode_lower_hex list_all_iff lower_hex_not_ws)
  moreover have b: "- unix_zero \<le> unix_seconds x \<and> unix_seconds x < 2 ^ 63" if "0 \<le> x" "x < 2 ^ 62 * second + 31 * minute" for x
  proof -
    have "x div second < 2 ^ 62 + 31 * 60"
      using that(2) by (simp add: minute_def second_def div_less_iff_less_mult)
    moreover have "0 \<le> x div second" using that(1) by (simp add: second_def pos_imp_zdiv_nonneg_iff)
    ultimately show ?thesis by (simp add: unix_seconds_def unix_zero_def)
  qed
  have "0 \<le> t" "t \<le> now"
    using assms(1) by (auto simp: t_def signable_def time_truncate_def second_def pos_mod_bound minus_mod_eq_mult_div)
  then have "0 \<le> t \<and> t < 2 ^ 62 * second + 31 * minute" "0 \<le> t + ttl \<and> t + ttl < 2 ^ 62 * second + 31 * minute"
    using assms(1,3,4) by (auto simp: signable_def minute_def second_def)
  note b [OF conjunct1 [OF this(1)] conjunct2 [OF this(1)]] b [OF conjunct1 [OF this(2)] conjunct2 [OF this(2)]]
  ultimately show ?thesis
    using assms(1) by (simp add: claims_text_ok_def issued_claims_def signable_def zero_claims_def unix_zero_def)
qed

lemma issue_error_None:
  assumes "issue_error d actor c = None"
  shows "usr_ID actor = chg_ReviewerID c" "chg_ReviewerID c \<noteq> chg_SubmitterID c" "chg_Status c = StatusApproved" "check_passed c"
    "chg_ArtifactSHA256 c \<noteq> []" "RuleSetVersion (PoliciesByOrganization d (chg_OrganizationID c)) = chg_RuleSetVersion c"
    "trim_space (chg_SQL c) \<noteq> [] \<Longrightarrow> trustedSQLExperiment (chg_Experiment c) c" "trustedForRelease c"
    "canUseApplication d actor (chg_ApplicationID c) ''review''"
  using assms by (simp_all add: issue_error_def split: if_splits)

lemma gate_checks_pass:
  assumes "Verify_token k (trim_space (gr_Token x)) = Inr cl"
    and "equal_fold (trim_space (gr_ArtifactSHA256 x)) (cl_ArtifactSHA256 cl)"
    and "equal_fold (trim_space (gr_Environment x)) (trim_space (cl_Environment cl))"
    and "lookup_by pass_ID (cl_PassportID cl) (db_Passports d) = Some item" "pass_Status item = PassportActive"
    and "claims_match (publicPassport now item True) cl"
    and "Change d (pass_ChangeID item) = Inr c" "change_matches c (publicPassport now item True)" "chg_Status c = StatusApproved"
    and "RuleSetVersion (PoliciesByOrganization d (chg_OrganizationID c)) = pass_RuleSetVersion item"
  shows "gate_checks k now x consume d = Inr (publicPassport now item True)"
proof -
  have "Passport now d (cl_PassportID cl) = Inr (publicPassport now item True)" using assms(4) by (simp add: Passport_Inr)
  then show ?thesis using assms by (simp add: gate_checks_def)
qed

lemma gate_checks_Inr:
  assumes "gate_checks k now x consume d = Inr p"
  obtains cl item c where "Verify_token k (trim_space (gr_Token x)) = Inr cl"
    "equal_fold (trim_space (gr_ArtifactSHA256 x)) (cl_ArtifactSHA256 cl)"
    "equal_fold (trim_space (gr_Environment x)) (trim_space (cl_Environment cl))"
    "lookup_by pass_ID (cl_PassportID cl) (db_Passports d) = Some item" "p = publicPassport now item True"
    "claims_match p cl" "pass_ID p = cl_PassportID cl" "Change d (pass_ChangeID p) = Inr c" "change_matches c p"
    "chg_Status c = (if consume \<and> pass_Status p = PassportConsumed then StatusCompleted else StatusApproved)"
    "RuleSetVersion (PoliciesByOrganization d (chg_OrganizationID c)) = pass_RuleSetVersion p"
    "pass_Status p = PassportConsumed \<Longrightarrow> consume"
proof -
  obtain cl where cl: "Verify_token k (trim_space (gr_Token x)) = Inr cl"
    "equal_fold (trim_space (gr_ArtifactSHA256 x)) (cl_ArtifactSHA256 cl)"
    "equal_fold (trim_space (gr_Environment x)) (trim_space (cl_Environment cl))"
    using assms by (auto simp: gate_checks_def split: sum.splits if_splits)
  then obtain item where item: "lookup_by pass_ID (cl_PassportID cl) (db_Passports d) = Some item" "p = publicPassport now item True"
    and status: "pass_Status p \<noteq> PassportRevoked" "pass_Status p \<noteq> PassportExpired" "pass_Status p = PassportConsumed \<longrightarrow> consume"
      "claims_match p cl"
    using assms unfolding gate_checks_def by (simp add: Passport_Inr split: sum.splits if_splits)
  have p: "Passport now d (cl_PassportID cl) = Inr p" using item by (simp add: Passport_Inr)
  obtain c where c: "Change d (pass_ChangeID p) = Inr c"
    using assms cl status by (auto simp: gate_checks_def p split: sum.splits if_splits)
  have "pass_ID p = cl_PassportID cl" using item lookup_by_Some by fastforce
  moreover have "change_matches c p"
    "chg_Status c = (if consume \<and> pass_Status p = PassportConsumed then StatusCompleted else StatusApproved)"
    "RuleSetVersion (PoliciesByOrganization d (chg_OrganizationID c)) = pass_RuleSetVersion p"
    using assms cl status by (simp_all add: gate_checks_def p c split: if_splits)
  ultimately show ?thesis using status(3) by (intro that [OF cl item status(4) _ c]) blast+
qed

lemma consume_Saved:
  "env_save e = Saved \<Longrightarrow> consume_passport n m consumer tm ev e d =
     (Inr (publicPassport (env_later e) (consumed_item (db_Passports d ! n) consumer tm) False),
      append_audit e (d\<lparr> db_Passports := (db_Passports d)[n := consumed_item (db_Passports d ! n) consumer tm],
          db_Changes := (db_Changes d)[m := completed_change (db_Changes d ! m) consumer tm (env_id e 0)] \<rparr>)
        (ev\<lparr> aud_Action := ''PASSPORT_CONSUMED_AND_CHANGE_COMPLETED'', aud_Detail := aud_Detail ev @ txt_completed_suffix \<rparr>))"
  by (simp add: consume_passport_def Let_def)

text \<open>Once a passport is consumed, the gate lets nobody but its consumer through again.\<close>

lemma consumed_refuses:
  assumes n: "index_by pass_ID i (db_Passports d) = Some n" "pass_Status (db_Passports d ! n) = PassportConsumed"
    and other: "pass_ConsumedBy (db_Passports d ! n) \<noteq> gate_consumer (gr_Consumer y)"
    and names: "\<And>p. gate_checks (psv_Signer v) (se_now h) y True snap = Inr p \<Longrightarrow> pass_ID p = i"
  shows "\<exists>er. VerifyGate v h y True snap d = (Inl er, d)"
proof (cases "gate_checks (psv_Signer v) (se_now h) y True snap")
  case (Inr p)
  have "\<exists>er. UsePassport i (TokenSHA256 (trim_space (gr_Token y))) (gate_consumer (gr_Consumer y)) (se_now h) True ev e d = (Inl er, d)" for ev e
    using n other by (auto simp: UsePassport_def Let_def sameConsumerReplay_def)
  then obtain er where "UsePassport i (TokenSHA256 (trim_space (gr_Token y))) (gate_consumer (gr_Consumer y)) (se_now h) True
      (gate_audit h 0 y (gate_consumer (gr_Consumer y)) p ''PASSPORT_CONSUMED'' (txt_gate_1 @ i @ txt_gate_2)) (se_call h 0) d = (Inl er, d)"
    by blast
  then show ?thesis by (simp add: VerifyGate_def Let_def Inr names [OF Inr])
qed (auto simp: VerifyGate_def)

section \<open>An issued passport opens the gate\<close>

lemma issued_simps [simp]:
  "pass_ID (issued_passport i c tok t u) = i" "pass_Status (issued_passport i c tok t u) = PassportActive"
  "pass_ExpiresAt (issued_passport i c tok t u) = u" "pass_IssuedAt (issued_passport i c tok t u) = t"
  "pass_ChangeID (issued_passport i c tok t u) = chg_ID c" "pass_TokenSHA256 (issued_passport i c tok t u) = TokenSHA256 tok"
  "pass_OrganizationID (issued_passport i c tok t u) = chg_OrganizationID c"
  "pass_ArtifactSHA256 (issued_passport i c tok t u) = chg_ArtifactSHA256 c"
  "pass_Environment (issued_passport i c tok t u) = chg_Environment c"
  "pass_RuleSetVersion (issued_passport i c tok t u) = chg_RuleSetVersion c"
  "pass_ApproverID (issued_passport i c tok t u) = chg_ReviewerID c"
  by (simp_all add: issued_passport_def)

lemma store_passport_more [simp]:
  "pass_ArtifactSHA256 (store_passport p) = pass_ArtifactSHA256 p" "pass_Environment (store_passport p) = pass_Environment p"
  "pass_RuleSetVersion (store_passport p) = pass_RuleSetVersion p" "pass_ApproverID (store_passport p) = pass_ApproverID p"
  "pass_IssuedAt (store_passport p) = pass_IssuedAt p"
  by (simp_all add: store_passport_def passport.defs stored_passport.defs)

lemma claims_simps [simp]:
  "cl_PassportID (issued_claims i c t u) = i" "cl_ArtifactSHA256 (issued_claims i c t u) = chg_ArtifactSHA256 c"
  "cl_Environment (issued_claims i c t u) = chg_Environment c" "cl_ChangeID (issued_claims i c t u) = chg_ID c"
  "cl_OrganizationID (issued_claims i c t u) = chg_OrganizationID c" "cl_ApproverID (issued_claims i c t u) = chg_ReviewerID c"
  "cl_RuleSetVersion (issued_claims i c t u) = chg_RuleSetVersion c"
  "cl_IssuedAtUnix (issued_claims i c t u) = unix_seconds t" "cl_ExpiresAtUnix (issued_claims i c t u) = unix_seconds u"
  by (simp_all add: issued_claims_def)

lemma whole_second: "time_truncate t second = t \<longleftrightarrow> t mod second = 0"
  by (simp add: time_truncate_def)

lemma change_found:
  assumes "lookup_by chg_ID i (db_Changes d) = Some c" "pass_ChangeID item = i" "pass_OrganizationID item = chg_OrganizationID c"
  shows "\<exists>m. change_of d item = Some m \<and> index_by chg_ID i (db_Changes d) = Some m \<and> db_Changes d ! m = c"
proof -
  have "find_index_of (\<lambda>x. chg_ID x = i \<and> chg_OrganizationID x = chg_OrganizationID c) xs = index_by chg_ID i xs
      \<and> (\<exists>m. index_by chg_ID i xs = Some m \<and> xs ! m = c)" if "lookup_by chg_ID i xs = Some c" for xs
    using that by (induction xs) (auto simp: index_by_def lookup_by_Cons split: if_splits)
  from this [OF assms(1)] assms(2,3) show ?thesis by (auto simp: change_of_def)
qed

text \<open>The token of a passport that was just issued, as the gate sees it.\<close>

lemma issued_token:
  assumes "ttl_ok v" "signable c (se_now h)" "chg_ID c \<noteq> []" "chg_ArtifactSHA256 c \<noteq> []"
    and "issue_ttl (psv_TTL v) s = Some ttl" "NewPassportID entropy = Some i"
    and "Sign (psv_Signer v) (issued_claims i c (time_truncate (se_now h) second) (time_truncate (se_now h) second + ttl)) = Inr tok"
  shows "Verify_token (psv_Signer v) (trim_space tok) =
    Inr ((issued_claims i c (time_truncate (se_now h) second) (time_truncate (se_now h) second + ttl))\<lparr> cl_Version := 1 \<rparr>)"
    and "psv_Signer v \<noteq> None"
proof -
  note ttl = issue_ttl_range [OF assms(1,5)]
  let ?t = "time_truncate (se_now h) second"
  have "?t div second < (?t + ttl) div second"
    using ttl zdiv_mono1 [of "?t + second" "?t + ttl" second] by (simp add: minute_def second_def)
  then have "claims_ok ((issued_claims i c ?t (?t + ttl))\<lparr> cl_Version := 1 \<rparr>)"
    using assms(3,4,6) by (auto simp: claims_ok_def unix_seconds_def NewPassportID_def issued_claims_def)
  then show "Verify_token (psv_Signer v) (trim_space tok) = Inr ((issued_claims i c ?t (?t + ttl))\<lparr> cl_Version := 1 \<rparr>)"
    using token_verifies [OF assms(7) issued_claims_text [OF assms(2,6) conjunct1 [OF ttl] conjunct2 [OF ttl]]]
      Sign_trimmed [OF assms(7)] by simp
  show "psv_Signer v \<noteq> None" using assms(7) by (auto simp: Sign_def key_ok_def split: if_splits option.splits)
qed

lemma issued_gate_run:
  assumes issue: "IssuePassport v h entropy i actorID s d d = (Inr (p, token), d')"
    and c: "Change d i = Inr c" "signable c (se_now h)" "i \<noteq> []" and v: "ttl_ok v" "pass_ExpiresAt p mod second = 0"
    and time: "se_now h2 < pass_ExpiresAt p" and saved: "env_save (se_call h2 0) = Saved"
    and req: "gr_Token x = token" "equal_fold (trim_space (gr_ArtifactSHA256 x)) (chg_ArtifactSHA256 c)"
      "equal_fold (trim_space (gr_Environment x)) (trim_space (chg_Environment c))"
      "length (gate_consumer (gr_Consumer x)) \<le> 200"
  obtains r d2 c2 n cl where "VerifyGate v h2 x True d' d' = (Inr r, d2)" "gate_Allowed r" "\<not> gate_Replayed r"
    "Change d2 i = Inr c2" "chg_Status c2 = StatusCompleted" "Verify_token (psv_Signer v) (trim_space token) = Inr cl"
    "index_by pass_ID (cl_PassportID cl) (db_Passports d2) = Some n" "pass_Status (db_Passports d2 ! n) = PassportConsumed"
    "pass_ConsumedBy (db_Passports d2 ! n) = gate_consumer (gr_Consumer x)"
proof -
  obtain actor ttl pid where a: "issue_error d actor c = None" "issue_ttl (psv_TTL v) s = Some ttl"
      "NewPassportID entropy = Some pid"
    and sign: "Sign (psv_Signer v) (issued_claims pid c (time_truncate (se_now h) second) (time_truncate (se_now h) second + ttl)) = Inr token"
    and create: "CreatePassport (issued_passport pid c token (time_truncate (se_now h) second) (time_truncate (se_now h) second + ttl))
       (issue_audit h actor c (issued_passport pid c token (time_truncate (se_now h) second) (time_truncate (se_now h) second + ttl)))
       (se_call h 0) d = (Inr (), d')"
    and p: "p = (issued_passport pid c token (time_truncate (se_now h) second) (time_truncate (se_now h) second + ttl))\<lparr> pass_TokenSHA256 := [] \<rparr>"
    using Issue_Inr [OF issue] c(1) by (metis sum.inject(2))
  define t where "t = time_truncate (se_now h) second"
  define q where "q = issued_passport pid c token t (t + ttl)"
  define item where "item = store_passport q"
  define n where "n = length (db_Passports d)"
  note ok = issue_error_None [OF a(1)]
  have look: "lookup_by chg_ID i (db_Changes d) = Some c" "chg_ID c = i"
    using c(1) lookup_by_Some [of chg_ID i "db_Changes d" c] by (simp_all add: Change_Inr)
  have "chg_ID c \<noteq> []" using look(2) c(3) by simp
  note tok = issued_token [OF v(1) c(2) this ok(5) a(2,3) sign, folded t_def]
  note frame = CreatePassport_Inr [OF create, folded t_def q_def]
  have found: "index_by pass_ID pid (db_Passports d') = Some n" "db_Passports d' ! n = item"
    "lookup_by pass_ID pid (db_Passports d') = Some item"
    using created_found [OF create] by (simp_all add: item_def q_def t_def n_def)
  have q: "pass_ID q = pid" by (simp add: q_def)
  have whole: "t mod second = 0" "(t + ttl) mod second = 0"
    using v(2) by (simp_all add: p t_def flip: whole_second)
  have claims: "claims_match (publicPassport (se_now h2) item True) ((issued_claims pid c t (t + ttl))\<lparr> cl_Version := 1 \<rparr>)"
    using whole by (simp add: claims_match_def item_def q_def ClaimsTimes_def time_truncate_def)
  have checks: "gate_checks (psv_Signer v) (se_now h2) x True d' = Inr (publicPassport (se_now h2) item True)"
  proof (rule gate_checks_pass [OF _ _ _ _ _ claims])
    show "Verify_token (psv_Signer v) (trim_space (gr_Token x)) = Inr ((issued_claims pid c t (t + ttl))\<lparr> cl_Version := 1 \<rparr>)"
      using tok(1) req(1) by simp
    show "RuleSetVersion (PoliciesByOrganization d' (chg_OrganizationID c)) = pass_RuleSetVersion item"
      using ok(6) frame(5) by (simp add: rules_of_organization item_def q_def)
  qed (use req found q look ok frame in \<open>simp_all add: item_def q_def change_matches_def Change_Inr\<close>)
  obtain m where m: "change_of d' item = Some m" "index_by chg_ID i (db_Changes d') = Some m" "db_Changes d' ! m = c"
    using change_found [of i d' c item] look frame(4) by (auto simp: item_def q_def)
  have bound: "bound_change d' item c"
    using ok frame(5) by (simp add: bound_change_def item_def q_def rules_of_organization)
  have use: "UsePassport pid (TokenSHA256 token) k (se_now h2) True ev e d' = consume_passport n m k (se_now h2) ev e d'" for k ev e
    using found q time m bound by (simp add: UsePassport_def Let_def p) (simp add: item_def q_def t_def)
  define k where "k = gate_consumer (gr_Consumer x)"
  define d2 where "d2 = snd (UsePassport pid (TokenSHA256 token) k (se_now h2) True
    (gate_audit h2 0 x k (publicPassport (se_now h2) item True) ''PASSPORT_CONSUMED'' (txt_gate_1 @ pid @ txt_gate_2)) (se_call h2 0) d')"
  have d2: "db_Passports d2 = (db_Passports d')[n := consumed_item item k (se_now h2)]"
    "db_Changes d2 = (db_Changes d')[m := completed_change c k (se_now h2) (env_id (se_call h2 0) 0)]"
    using found m by (simp_all add: d2_def use consume_Saved [OF saved] store_frame)
  have gate: "VerifyGate v h2 x True d' d' = (Inr (gate_allowed (publicPassport (env_later (se_call h2 0)) (consumed_item item k (se_now h2)) False) False), d2)"
    using tok(2) req(4) found q Sign_trimmed [OF sign] req(1)
    by (simp add: VerifyGate_def checks Let_def use consume_Saved [OF saved] d2_def k_def item_def q_def)
  have finished: "Change d2 i = Inr (completed_change c k (se_now h2) (env_id (se_call h2 0) 0))"
    using look by (simp add: Change_Inr d2 lookup_by_update [OF m(2)] completed_change_def)
  have "n < length (db_Passports d')" using found(1) index_by_Some by fastforce
  then have "index_by pass_ID pid (db_Passports d2) = Some n" "pass_Status (db_Passports d2 ! n) = PassportConsumed"
    "pass_ConsumedBy (db_Passports d2 ! n) = k"
    using found q by (auto simp: d2 index_by_update)
  then show ?thesis
    using gate finished tok(1) by (intro that [OF gate _ _ finished _ tok(1)]) (simp_all add: gate_allowed_def completed_change_def k_def)
qed

text \<open>C5: a passport that was just issued opens the gate. For a service configured with a lifetime the program
  accepts, the token \<open>IssuePassport\<close> returns for a change is let through by \<open>VerifyGate\<close>, in the state that the issue left, until the passport
  expires, when the expiry is a whole second and the request names the digest and the environment of the change: the
  change is then completed, and right after no other consumer gets through with the token, whatever it requests.\<close>

theorem issued_passport_opens_gate:
  assumes issue: "IssuePassport v h entropy i actorID s d d = (Inr (p, token), d')"
    and c: "Change d i = Inr c" "signable c (se_now h)" "i \<noteq> []" and v: "ttl_ok v" "pass_ExpiresAt p mod second = 0"
    and time: "se_now h2 < pass_ExpiresAt p" and saved: "env_save (se_call h2 0) = Saved"
    and req: "gr_Token x = token" "equal_fold (trim_space (gr_ArtifactSHA256 x)) (chg_ArtifactSHA256 c)"
      "equal_fold (trim_space (gr_Environment x)) (trim_space (chg_Environment c))"
      "length (gate_consumer (gr_Consumer x)) \<le> 200"
  shows "\<exists>r d2. VerifyGate v h2 x True d' d' = (Inr r, d2) \<and> gate_Allowed r \<and> \<not> gate_Replayed r
    \<and> (\<exists>c2. Change d2 i = Inr c2 \<and> chg_Status c2 = StatusCompleted)
    \<and> (\<forall>h3 y. gr_Token y = token \<longrightarrow> gate_consumer (gr_Consumer y) \<noteq> gate_consumer (gr_Consumer x)
          \<longrightarrow> (\<exists>er. VerifyGate v h3 y True d2 d2 = (Inl er, d2)))"
proof -
  obtain r d2 c2 n cl where run: "VerifyGate v h2 x True d' d' = (Inr r, d2)" "gate_Allowed r" "\<not> gate_Replayed r"
    "Change d2 i = Inr c2" "chg_Status c2 = StatusCompleted" "Verify_token (psv_Signer v) (trim_space token) = Inr cl"
    "index_by pass_ID (cl_PassportID cl) (db_Passports d2) = Some n" "pass_Status (db_Passports d2 ! n) = PassportConsumed"
    "pass_ConsumedBy (db_Passports d2 ! n) = gate_consumer (gr_Consumer x)"
    by (rule issued_gate_run [OF assms])
  have "\<exists>er. VerifyGate v h3 y True d2 d2 = (Inl er, d2)"
    if y: "gr_Token y = token" "gate_consumer (gr_Consumer y) \<noteq> gate_consumer (gr_Consumer x)" for h3 y
  proof (rule consumed_refuses [OF run(7,8)])
    show "\<And>q. gate_checks (psv_Signer v) (se_now h3) y True d2 = Inr q \<Longrightarrow> pass_ID q = cl_PassportID cl"
      by (erule gate_checks_Inr) (use run(6) y(1) in auto)
  qed (use run(9) y in simp)
  with run show ?thesis by blast
qed

section \<open>A sample\<close>

definition gate_service :: passport_service where
  "gate_service = passportSignerFromEnvironment (replicate 32 (CHR ''k'')) None"

definition gate_change :: change_request where
  "gate_change = zero_change_request
     \<lparr> chg_ID := ''chg_1'', chg_OrganizationID := ''org_1'', chg_SubmitterID := ''usr_sub'', chg_ReviewerID := ''usr_rev'',
       chg_Status := StatusApproved, chg_Environment := ''prod'', chg_ArtifactSHA256 := ''ab'', chg_RuleSetVersion := RuleSetVersion [],
       chg_CheckRun := Some (zero_check_run\<lparr> run_ArtifactSHA256 := ''ab'', run_RuleSetVersion := RuleSetVersion [],
         run_Status := ''PASSED'' \<rparr>) \<rparr>"

definition gate_db :: db where
  "gate_db = empty_db
     \<lparr> db_Users := [zero_user\<lparr> usr_ID := ''usr_rev'', usr_OrganizationID := ''org_1'', usr_Role := RoleReviewer, usr_Active := True \<rparr>],
       db_Changes := [gate_change] \<rparr>"

definition gate_entropy :: "string option" where "gate_entropy = Some ''0123456789abcdef''"

definition gate_request_of :: "string \<Rightarrow> gate_request" where
  "gate_request_of token = \<lparr> gr_Token = token, gr_ArtifactSHA256 = ''ab'', gr_Environment = ''prod'', gr_Consumer = ''ci:1'' \<rparr>"

lemma gate_key: "psv_Signer gate_service = Some (replicate 32 (CHR ''k''))" "psv_TTL gate_service = 10 * minute"
proof -
  have "trim_space (replicate 32 (CHR ''k'')) = replicate 32 (CHR ''k'')" by code_simp
  then show "psv_Signer gate_service = Some (replicate 32 (CHR ''k''))"
    by (simp add: gate_service_def passportSignerFromEnvironment_def NewSigner_def)
qed (simp add: gate_service_def passportSignerFromEnvironment_def)

lemma RuleSetVersion_text: "RuleSetVersion ps \<noteq> []" "valid_utf8 (RuleSetVersion ps)"
proof -
  have "list_all (\<lambda>c. (of_char c :: nat) < 128) (SHA256 s)" for s
    using hex_encode_lower_hex lower_hex_not_ws by (fastforce simp: SHA256_def list_all_iff)
  then show "valid_utf8 (RuleSetVersion ps)" by (auto simp: RuleSetVersion_def intro!: valid_ascii)
qed (simp add: RuleSetVersion_def)

lemma gate_change_signable: "signable gate_change (1000 * second)"
  by (auto simp: signable_def gate_change_def zero_change_request_def second_def RuleSetVersion_text intro!: valid_ascii)

lemma gate_issue:
  assumes "psv_Signer v = Some (replicate 32 (CHR ''k''))" "issue_ttl (psv_TTL v) s = Some ttl"
  obtains p token d' where "IssuePassport v (calm (1000 * second)) gate_entropy ''chg_1'' ''usr_rev'' s gate_db gate_db
      = (Inr (p, token), d')" "pass_ExpiresAt p = 1000 * second + ttl"
proof -
  let ?actor = "zero_user\<lparr> usr_ID := ''usr_rev'', usr_OrganizationID := ''org_1'', usr_Role := RoleReviewer, usr_Active := True \<rparr>"
  have actor: "activeActor gate_db ''usr_rev'' = Inr ?actor"
    by (simp add: activeActor_def User_def gate_db_def find_or_not_found_def lookup_by_def)
  have change: "Change gate_db ''chg_1'' = Inr gate_change"
    by (simp add: Change_def gate_db_def gate_change_def find_or_not_found_def lookup_by_def)
  have ok: "issue_error gate_db ?actor gate_change = None"
    by (simp add: issue_error_def gate_change_def zero_change_request_def canUseApplication_def HasApplicationGrants_def gate_db_def empty_db_def
        zero_user_def trustedForRelease_def trustedReleaseSources_def check_passed_def zero_check_run_def RuleSetVersion_text
        PoliciesByOrganization_def)
  have now: "time_truncate (1000 * second) second = 1000 * second" by (simp add: time_truncate_def)
  obtain i where i: "NewPassportID gate_entropy = Some i" by (simp add: NewPassportID_def gate_entropy_def)
  obtain token where token: "Sign (psv_Signer v) (issued_claims i gate_change (1000 * second) (1000 * second + ttl)) = Inr token"
    by (simp add: Sign_def Let_def assms(1) key_ok_def)
  let ?p = "issued_passport i gate_change token (1000 * second) (1000 * second + ttl)"
  have "db_Passports gate_db = []" by (simp add: gate_db_def empty_db_def)
  then obtain d' where create: "CreatePassport ?p (issue_audit (calm (1000 * second)) ?actor gate_change ?p)
      (saved_env (1000 * second)) gate_db = (Inr (), d')"
    by (simp add: CreatePassport_Saved)
  have "IssuePassport v (calm (1000 * second)) gate_entropy ''chg_1'' ''usr_rev'' s gate_db gate_db
      = (Inr (?p\<lparr> pass_TokenSHA256 := [] \<rparr>, token), d')"
    using token by (simp add: IssuePassport_def actor change ok assms i create now Let_def)
  then show ?thesis by (rule that) simp
qed

text \<open>The sample change is approved at second 1000 and its passport used ten seconds later.\<close>

lemma gate_sample:
  obtains p token d' where "IssuePassport gate_service (calm (1000 * second)) gate_entropy ''chg_1'' ''usr_rev'' 0 gate_db gate_db
      = (Inr (p, token), d')" "pass_ExpiresAt p mod second = 0" "se_now (calm (1010 * second)) < pass_ExpiresAt p"
proof -
  have "issue_ttl (psv_TTL gate_service) 0 = Some (600 * second)" by (simp add: issue_ttl_def gate_key minute_def)
  then obtain p token d' where run: "IssuePassport gate_service (calm (1000 * second)) gate_entropy ''chg_1'' ''usr_rev'' 0 gate_db gate_db
      = (Inr (p, token), d')" "pass_ExpiresAt p = 1000 * second + 600 * second"
    using gate_issue [OF gate_key(1)] by blast
  show ?thesis by (rule that [OF run(1)]) (simp_all add: run(2) second_def)
qed

lemma gate_sample_facts:
  "Change gate_db ''chg_1'' = Inr gate_change" "signable gate_change (se_now (calm (1000 * second)))" "ttl_ok gate_service"
  "gr_Token (gate_request_of token) = token" "''chg_1'' \<noteq> []" "env_save (se_call (calm (1010 * second)) 0) = Saved"
  "equal_fold (trim_space (gr_ArtifactSHA256 (gate_request_of token))) (chg_ArtifactSHA256 gate_change)"
  "equal_fold (trim_space (gr_Environment (gate_request_of token))) (trim_space (chg_Environment gate_change))"
  "length (gate_consumer (gr_Consumer (gate_request_of token))) \<le> 200"
proof -
  have t: "trim_space ''ab'' = ''ab''" "length (gate_consumer ''ci:1'') \<le> 200" by code_simp+
  then show "equal_fold (trim_space (gr_ArtifactSHA256 (gate_request_of token))) (chg_ArtifactSHA256 gate_change)"
    "length (gate_consumer (gr_Consumer (gate_request_of token))) \<le> 200"
    by (simp_all add: gate_request_of_def gate_change_def)
qed (use gate_change_signable in \<open>simp_all add: Change_def gate_db_def gate_change_def find_or_not_found_def lookup_by_def
      gate_service_def gate_request_of_def\<close>)

theorem issued_passport_opens_gate_witness:
  "\<exists>p token d' r d2. IssuePassport gate_service (calm (1000 * second)) gate_entropy ''chg_1'' ''usr_rev'' 0 gate_db gate_db
        = (Inr (p, token), d')
     \<and> VerifyGate gate_service (calm (1010 * second)) (gate_request_of token) True d' d' = (Inr r, d2) \<and> gate_Allowed r"
proof -
  obtain p token d' where issue: "IssuePassport gate_service (calm (1000 * second)) gate_entropy ''chg_1'' ''usr_rev'' 0 gate_db gate_db
      = (Inr (p, token), d')" and p: "pass_ExpiresAt p mod second = 0" "se_now (calm (1010 * second)) < pass_ExpiresAt p"
    by (rule gate_sample)
  note f = gate_sample_facts
  from issued_passport_opens_gate [OF issue f(1,2,5,3) p f(6,4,7,8,9)] issue show ?thesis by blast
qed

section \<open>What an open gate implies\<close>

lemma row_next_fields:
  "row_next a b \<Longrightarrow> pass_ID b = pass_ID a \<and> pass_OrganizationID b = pass_OrganizationID a \<and> pass_ChangeID b = pass_ChangeID a
     \<and> pass_ArtifactSHA256 b = pass_ArtifactSHA256 a \<and> pass_Environment b = pass_Environment a
     \<and> pass_RuleSetVersion b = pass_RuleSetVersion a \<and> pass_ExpiresAt b = pass_ExpiresAt a"
  unfolding row_next_def by (auto elim!: pass_stepE simp: consumed_item_def revoked_item_def)

lemma lookup_rows_next:
  assumes "rows_next xs ys" "lookup_by pass_ID i xs = Some a"
  obtains n where "index_by pass_ID i ys = Some n" "n < length ys" "row_next a (ys ! n)" "lookup_by pass_ID i ys = Some (ys ! n)"
proof -
  obtain n where n: "index_by pass_ID i xs = Some n" "xs ! n = a"
    using assms(2) index_by_lookup [of xs pass_ID i] by (cases "index_by pass_ID i xs") auto
  have "n < length xs" using index_by_Some [OF n(1)] by simp
  then show ?thesis
    using assms(1) n index_by_Some [OF index_by_rows_next [OF assms(1) n(1)]]
    by (intro that [OF index_by_rows_next [OF assms(1) n(1)]]) (auto simp: rows_next_def)
qed

text \<open>C2: the gate admits a deployment only for an approved change. When a request to consume is allowed,
  its token carries the signature of the service and names a passport and a change, and either the passport
  is already consumed, by this very consumer with this very token, and nothing is written; or the passport
  is active and not expired, the stored hash is the one of the token, the change is approved, the digest and
  the environment of the request are those of the change, the change was checked under the rules now in force,
  and the call consumes the passport and completes the change. The checks read an earlier state than the one
  the passport is used in; only the passports need to have moved on from one to the other.\<close>

theorem gate_admits_only_approved:
  assumes gate: "VerifyGate v h x True snap d = (Inr r, d')" and rows: "rows_next (db_Passports snap) (db_Passports d)"
  shows "\<exists>cl n. Verify_token (psv_Signer v) (trim_space (gr_Token x)) = Inr cl \<and> n < length (db_Passports d)
    \<and> pass_ID (db_Passports d ! n) = cl_PassportID cl
    \<and> pass_TokenSHA256Stored (db_Passports d ! n) = TokenSHA256 (trim_space (gr_Token x))
    \<and> (pass_Status (db_Passports d ! n) = PassportConsumed \<and> pass_ConsumedBy (db_Passports d ! n) = gate_consumer (gr_Consumer x) \<and> d' = d
       \<or> pass_Status (db_Passports d ! n) = PassportActive \<and> se_now h < pass_ExpiresAt (db_Passports d ! n)
         \<and> (\<exists>m < length (db_Changes d). let c = db_Changes d ! m in
              chg_ID c = cl_ChangeID cl \<and> chg_Status c = StatusApproved
              \<and> equal_fold (trim_space (gr_ArtifactSHA256 x)) (chg_ArtifactSHA256 c)
              \<and> equal_fold (trim_space (gr_Environment x)) (trim_space (chg_Environment c))
              \<and> chg_RuleSetVersion c = RuleSetVersion (PoliciesByOrganization d (chg_OrganizationID c))
              \<and> pass_Status (db_Passports d' ! n) = PassportConsumed \<and> chg_Status (db_Changes d' ! m) = StatusCompleted))"
proof -
  obtain p where checks: "gate_checks (psv_Signer v) (se_now h) x True snap = Inr p"
    using gate by (auto simp: VerifyGate_def split: if_splits sum.splits)
  let ?k = "gate_consumer (gr_Consumer x)" and ?tok = "TokenSHA256 (trim_space (gr_Token x))"
  let ?ev = "gate_audit h 0 x ?k p ''PASSPORT_CONSUMED'' (txt_gate_1 @ pass_ID p @ txt_gate_2)"
  obtain q where use: "UsePassport (pass_ID p) ?tok ?k (se_now h) True ?ev (se_call h 0) d = (Inr q, d')"
    using gate by (auto simp: VerifyGate_def checks Let_def split: if_splits sum.splits prod.splits)
  obtain cl item where cl: "Verify_token (psv_Signer v) (trim_space (gr_Token x)) = Inr cl"
      "equal_fold (trim_space (gr_ArtifactSHA256 x)) (cl_ArtifactSHA256 cl)"
      "equal_fold (trim_space (gr_Environment x)) (trim_space (cl_Environment cl))"
    and item: "lookup_by pass_ID (cl_PassportID cl) (db_Passports snap) = Some item" "p = publicPassport (se_now h) item True"
      "claims_match p cl" "pass_ID p = cl_PassportID cl"
    by (rule gate_checks_Inr [OF checks])
  obtain n where n: "index_by pass_ID (cl_PassportID cl) (db_Passports d) = Some n" "n < length (db_Passports d)"
      "row_next item (db_Passports d ! n)" "pass_ID (db_Passports d ! n) = cl_PassportID cl"
    by (rule lookup_rows_next [OF rows item(1)]) (use lookup_by_Some in fastforce)
  note same = row_next_fields [OF n(3)]
  show ?thesis
  proof (cases "pass_Status (db_Passports d ! n) = PassportConsumed")
    case True
    then show ?thesis using use cl(1) n
      by (intro exI [of _ cl] exI [of _ n]) (auto simp: UsePassport_def Let_def item(4) sameConsumerReplay_def split: if_splits)
  next
    case False
    have i: "index_by pass_ID (pass_ID p) (db_Passports d) = Some n" using n(1) item(4) by simp
    obtain m where m: "pass_TokenSHA256Stored (db_Passports d ! n) = ?tok" "pass_Status (db_Passports d ! n) = PassportActive"
      "se_now h < pass_ExpiresAt (db_Passports d ! n)" "change_of d (db_Passports d ! n) = Some m"
      "bound_change d (db_Passports d ! n) (db_Changes d ! m)"
      "consume_passport n m ?k (se_now h) ?ev (se_call h 0) d = (Inr q, d')"
      using UsePassport_fresh [OF use i False] by blast
    have mm: "m < length (db_Changes d)" "chg_ID (db_Changes d ! m) = pass_ChangeID (db_Passports d ! n)"
      "chg_OrganizationID (db_Changes d ! m) = pass_OrganizationID (db_Passports d ! n)"
      using find_index_of_Some [OF m(4) [unfolded change_of_def]] by auto
    have saved: "env_save (se_call h 0) = Saved"
      using m(6) by (auto simp: consume_passport_def Let_def save_locked_def split: save.splits option.splits prod.splits)
    have "pass_Status (db_Passports d' ! n) = PassportConsumed \<and> chg_Status (db_Changes d' ! m) = StatusCompleted"
      using m(6) n(2) mm(1) by (auto simp: consume_Saved [OF saved] store_frame completed_change_def)
    then have "let c = db_Changes d ! m in
              chg_ID c = cl_ChangeID cl \<and> chg_Status c = StatusApproved
              \<and> equal_fold (trim_space (gr_ArtifactSHA256 x)) (chg_ArtifactSHA256 c)
              \<and> equal_fold (trim_space (gr_Environment x)) (trim_space (chg_Environment c))
              \<and> chg_RuleSetVersion c = RuleSetVersion (PoliciesByOrganization d (chg_OrganizationID c))
              \<and> pass_Status (db_Passports d' ! n) = PassportConsumed \<and> chg_Status (db_Changes d' ! m) = StatusCompleted"
      using cl m(5) mm same item(2,3) by (auto simp: Let_def bound_change_def claims_match_def rules_of_organization)
    then show ?thesis using cl(1) n(2,4) m(1-3) mm(1) by blast
  qed
qed

text \<open>The sample again: an open gate for the sample token, and what the theorem says of it.\<close>

theorem gate_admits_only_approved_witness:
  "\<exists>token d' r d2 n. VerifyGate gate_service (calm (1010 * second)) (gate_request_of token) True d' d' = (Inr r, d2)
     \<and> pass_Status (db_Passports d' ! n) = PassportActive \<and> pass_Status (db_Passports d2 ! n) = PassportConsumed"
proof -
  note f = gate_sample_facts
  have active: "list_all (\<lambda>a. pass_Status a = PassportActive) (db_Passports d')"
    if "IssuePassport gate_service (calm (1000 * second)) gate_entropy ''chg_1'' ''usr_rev'' 0 gate_db gate_db = (Inr (p, token), d')"
    for p token d'
    by (rule Issue_Inr [OF that], drule CreatePassport_Inr(3)) (simp add: gate_db_def empty_db_def)
  obtain p token d' r d2 where run: "IssuePassport gate_service (calm (1000 * second)) gate_entropy ''chg_1'' ''usr_rev'' 0 gate_db gate_db
        = (Inr (p, token), d')" "VerifyGate gate_service (calm (1010 * second)) (gate_request_of token) True d' d' = (Inr r, d2)"
    by (rule gate_sample, rule issued_gate_run [OF _ f(1,2,5,3) _ _ f(6,4,7,8,9)]) blast+
  from gate_admits_only_approved [OF run(2) rows_next_refl] active [OF run(1)]
  obtain n where "n < length (db_Passports d')" "pass_Status (db_Passports d' ! n) = PassportActive"
    "pass_Status (db_Passports d2 ! n) = PassportConsumed"
    by (fastforce simp: list_all_length Let_def)
  with run(2) show ?thesis by blast
qed

section \<open>The lifetime of a passport\<close>

lemma requested_ttl_mod: "requested_ttl s = (s * second + 2 ^ 63) mod 2 ^ 64 - 2 ^ 63"
  by (simp only: requested_ttl_def int_word_sint) simp

lemma requested_ttl_small: "0 < s \<Longrightarrow> s < 2 ^ 33 \<Longrightarrow> requested_ttl s = s * second"
  by (simp add: requested_ttl_mod second_def)

lemma requested_ttl_wrap: "requested_ttl (2 ^ 55 + s) = requested_ttl s"
proof -
  have "(2 ^ 55 + s) * second + 2 ^ 63 = s * second + 2 ^ 63 + 2 ^ 64 * 1953125" by (simp add: second_def algebra_simps)
  then show ?thesis unfolding requested_ttl_mod by (simp only: mod_mult_self2)
qed

text \<open>A passport lives at least one minute and at most thirty, whatever the request asks for: the requested
  seconds when they are in range, the configured lifetime when none are requested. The conversion of the
  requested seconds wraps around, so some absurd requests are taken for short ones instead of being refused.\<close>

lemma passport_lifetime:
  assumes "IssuePassport v h entropy i actorID s snap d = (Inr (p, token), d')" "ttl_ok v"
  shows "minute \<le> pass_ExpiresAt p - pass_IssuedAt p \<and> pass_ExpiresAt p - pass_IssuedAt p \<le> 30 * minute
    \<and> pass_IssuedAt p \<le> se_now h \<and> pass_IssuedAt p mod second = 0
    \<and> (0 < s \<and> s < 2 ^ 33 \<longrightarrow> pass_ExpiresAt p - pass_IssuedAt p = s * second)
    \<and> (s \<le> 0 \<longrightarrow> pass_ExpiresAt p - pass_IssuedAt p = psv_TTL v)
    \<and> issue_ttl (psv_TTL v) (2 ^ 55 + 60) = Some minute"
proof -
  obtain ttl where ttl: "issue_ttl (psv_TTL v) s = Some ttl" and p: "pass_IssuedAt p = time_truncate (se_now h) second"
      "pass_ExpiresAt p = time_truncate (se_now h) second + ttl"
    by (rule Issue_Inr [OF assms(1)]) auto
  have "requested_ttl (2 ^ 55 + 60) = minute"
    by (simp only: requested_ttl_wrap) (simp add: requested_ttl_small minute_def)
  then have "issue_ttl (psv_TTL v) (2 ^ 55 + 60) = Some minute" by (simp add: issue_ttl_def Let_def minute_def second_def)
  moreover have "time_truncate (se_now h) second mod second = 0" by (simp add: time_truncate_def minus_mod_eq_mult_div)
  moreover have "0 < s \<and> s < 2 ^ 33 \<longrightarrow> ttl = s * second"
    using ttl requested_ttl_small [of s] by (auto simp: issue_ttl_def Let_def split: if_splits)
  moreover have "s \<le> 0 \<longrightarrow> ttl = psv_TTL v" using ttl by (auto simp: issue_ttl_def)
  ultimately show ?thesis
    using issue_ttl_range [OF assms(2) ttl] time_truncate_le [of second "se_now h"] by (simp add: p second_def)
qed

lemma passport_lifetime_witness:
  "\<exists>p token d'. IssuePassport gate_service (calm (1000 * second)) gate_entropy ''chg_1'' ''usr_rev'' 0 gate_db gate_db
      = (Inr (p, token), d') \<and> pass_ExpiresAt p - pass_IssuedAt p = 10 * minute"
proof -
  obtain p token d' where issue: "IssuePassport gate_service (calm (1000 * second)) gate_entropy ''chg_1'' ''usr_rev'' 0 gate_db gate_db
      = (Inr (p, token), d')" by (rule gate_sample)
  from passport_lifetime [OF issue gate_sample_facts(3)] have "pass_ExpiresAt p - pass_IssuedAt p = 10 * minute"
    by (simp add: gate_key)
  with issue show ?thesis by blast
qed

text \<open>C33: a passport that does not expire at a whole second never opens the gate: the expiry in its claims is
  cut to the second and differs from the stored one, so every request with its token is refused. The service
  accepts such a lifetime, 90.5 seconds say, in its configuration.\<close>

theorem fractional_lifetime_never_opens:
  assumes issue: "IssuePassport v h entropy i actorID s snap d = (Inr (p, token), d')" and v: "ttl_ok v"
    and c: "Change snap i = Inr c" "signable c (se_now h)" and frac: "pass_ExpiresAt p mod second \<noteq> 0"
    and later: "rows_next (db_Passports d') (db_Passports snap2)" and x: "gr_Token x = token"
  shows "\<exists>er. VerifyGate v h2 x consume snap2 d2 = (Inl er, d2)"
proof -
  obtain ttl pid where a: "issue_ttl (psv_TTL v) s = Some ttl" "NewPassportID entropy = Some pid"
    and sign: "Sign (psv_Signer v) (issued_claims pid c (time_truncate (se_now h) second) (time_truncate (se_now h) second + ttl)) = Inr token"
    and create: "\<exists>ev. CreatePassport (issued_passport pid c token (time_truncate (se_now h) second) (time_truncate (se_now h) second + ttl))
       ev (se_call h 0) d = (Inr (), d')"
    and p: "pass_ExpiresAt p = time_truncate (se_now h) second + ttl"
    by (rule Issue_Inr [OF issue]) (use c(1) in auto)
  let ?claims = "issued_claims pid c (time_truncate (se_now h) second) (time_truncate (se_now h) second + ttl)"
  let ?q = "issued_passport pid c token (time_truncate (se_now h) second) (time_truncate (se_now h) second + ttl)"
  note range = issue_ttl_range [OF v a(1)]
  have fits: "claims_text_ok (?claims\<lparr> cl_Version := 1 \<rparr>)"
    by (rule issued_claims_text [OF c(2) a(2) conjunct1 [OF range] conjunct2 [OF range]])
  have "lookup_by pass_ID pid (db_Passports d') = Some (store_passport ?q)" using created_found(3) create by fastforce
  from lookup_rows_next [OF later this] obtain n where
    n: "row_next (store_passport ?q) (db_Passports snap2 ! n)" "lookup_by pass_ID pid (db_Passports snap2) = Some (db_Passports snap2 ! n)"
    by blast
  have "\<exists>er. gate_checks (psv_Signer v) (se_now h2) x consume snap2 = Inl er"
  proof (cases "gate_checks (psv_Signer v) (se_now h2) x consume snap2")
    case (Inr r)
    obtain cl item where cl: "Verify_token (psv_Signer v) (trim_space token) = Inr cl"
      and item: "lookup_by pass_ID (cl_PassportID cl) (db_Passports snap2) = Some item" "claims_match (publicPassport (se_now h2) item True) cl"
      by (rule gate_checks_Inr [OF Inr]) (use x in auto)
    have "cl = ?claims\<lparr> cl_Version := 1 \<rparr>"
      using cl token_verifies [OF sign fits] Sign_trimmed [OF sign] by (simp split: if_splits)
    then have "item = db_Passports snap2 ! n" "pass_ExpiresAt item = unix_time (unix_seconds (pass_ExpiresAt p))"
      using item n(2) by (simp_all add: claims_match_def ClaimsTimes_def p)
    then have "pass_ExpiresAt p = time_truncate (pass_ExpiresAt p) second"
      using row_next_fields [OF n(1)] by (simp add: p)
    with frac whole_second [of "pass_ExpiresAt p"] show ?thesis by simp
  qed simp
  then show ?thesis by (auto simp: VerifyGate_def)
qed

theorem fractional_lifetime_never_opens_witness:
  defines "v \<equiv> passportSignerFromEnvironment (replicate 32 (CHR ''k'')) (Some (90 * second + 500000000))"
  shows "\<exists>p token d' er. IssuePassport v (calm (1000 * second)) gate_entropy ''chg_1'' ''usr_rev'' 0 gate_db gate_db
      = (Inr (p, token), d') \<and> VerifyGate v (calm (1010 * second)) (gate_request_of token) True d' d' = (Inl er, d')"
proof -
  have v: "psv_Signer v = Some (replicate 32 (CHR ''k''))" "issue_ttl (psv_TTL v) 0 = Some (90 * second + 500000000)"
    using gate_key(1) by (simp_all add: v_def gate_service_def passportSignerFromEnvironment_def issue_ttl_def minute_def second_def)
  obtain p token d' where issue: "IssuePassport v (calm (1000 * second)) gate_entropy ''chg_1'' ''usr_rev'' 0 gate_db gate_db
      = (Inr (p, token), d')" and p: "pass_ExpiresAt p = 1000 * second + (90 * second + 500000000)"
    using gate_issue [OF v] by blast
  have "ttl_ok v" by (simp add: v_def)
  moreover have "pass_ExpiresAt p mod second \<noteq> 0" by (simp add: p second_def)
  ultimately show ?thesis
    using fractional_lifetime_never_opens [OF issue _ gate_sample_facts(1,2) _ rows_next_refl gate_sample_facts(4)] issue by blast
qed

end
