(* ===== verification/WorkerTexts.thy ===== *)
theory WorkerTexts
  imports Main
begin

text \<open>
  The non-ASCII string constants of the experiment worker and the integrations that a modelled definition compares or stores, as their UTF-8
  bytes.
\<close>

definition txt_input_mismatch :: string where
  "txt_input_mismatch = [
    CHR 0xE6, CHR 0xBC, CHR 0x94, CHR 0xE7, CHR 0xBB, CHR 0x83, CHR 0xE8, CHR 0xBE, CHR 0x93,
    CHR 0xE5, CHR 0x85, CHR 0xA5, CHR 0xE6, CHR 0x91, CHR 0x98, CHR 0xE8, CHR 0xA6, CHR 0x81,
    CHR 0xE4, CHR 0xB8, CHR 0x8E, CHR 0xE5, CHR 0xBD, CHR 0x93, CHR 0xE5, CHR 0x89, CHR 0x8D,
    CHR 0xE5, CHR 0x88, CHR 0xB6, CHR 0xE5, CHR 0x93, CHR 0x81, CHR 0xE4, CHR 0xB8, CHR 0x8D,
    CHR 0xE4, CHR 0xB8, CHR 0x80, CHR 0xE8, CHR 0x87, CHR 0xB4]"

definition txt_input_changed :: string where
  "txt_input_changed = [
    CHR 0xE6, CHR 0xBC, CHR 0x94, CHR 0xE7, CHR 0xBB, CHR 0x83, CHR 0xE5, CHR 0xAE, CHR 0x8C,
    CHR 0xE6, CHR 0x88, CHR 0x90, CHR 0xE6, CHR 0x97, CHR 0xB6, CHR 0xE8, CHR 0xBE, CHR 0x93,
    CHR 0xE5, CHR 0x85, CHR 0xA5, CHR 0xE6, CHR 0x91, CHR 0x98, CHR 0xE8, CHR 0xA6, CHR 0x81,
    CHR 0xE5, CHR 0xB7, CHR 0xB2, CHR 0xE5, CHR 0x8F, CHR 0x98, CHR 0xE5, CHR 0x8C, CHR 0x96]"

definition txt_not_sql :: string where
  "txt_not_sql = [
    CHR 0xE9, CHR 0x9D, CHR 0x9E, CHR 0x20, CHR 0x53, CHR 0x51, CHR 0x4C, CHR 0x20, CHR 0xE5,
    CHR 0x8F, CHR 0x98, CHR 0xE6, CHR 0x9B, CHR 0xB4, CHR 0xE4, CHR 0xB8, CHR 0x8D, CHR 0xE6,
    CHR 0x89, CHR 0xA7, CHR 0xE8, CHR 0xA1, CHR 0x8C, CHR 0xE6, CHR 0x95, CHR 0xB0, CHR 0xE6,
    CHR 0x8D, CHR 0xAE, CHR 0xE5, CHR 0xBA, CHR 0x93, CHR 0xE5, CHR 0xBD, CHR 0xB1, CHR 0xE5,
    CHR 0xAD, CHR 0x90, CHR 0xE6, CHR 0xBC, CHR 0x94, CHR 0xE7, CHR 0xBB, CHR 0x83]"

definition txt_worker_name :: string where
  "txt_worker_name = [
    CHR 0xE6, CHR 0xBC, CHR 0x94, CHR 0xE7, CHR 0xBB, CHR 0x83, CHR 0x20, CHR 0x57, CHR 0x6F,
    CHR 0x72, CHR 0x6B, CHR 0x65, CHR 0x72]"

definition txt_worker_role :: string where
  "txt_worker_role = [
    CHR 0xE7, CHR 0xB3, CHR 0xBB, CHR 0xE7, CHR 0xBB, CHR 0x9F]"

definition txt_start_title :: string where
  "txt_start_title = [
    CHR 0xE5, CHR 0xBC, CHR 0x80, CHR 0xE5, CHR 0xA7, CHR 0x8B, CHR 0xE9, CHR 0xA2, CHR 0x84,
    CHR 0xE5, CHR 0x8F, CHR 0x91, CHR 0xE5, CHR 0xB8, CHR 0x83, CHR 0xE9, CHR 0xAA, CHR 0x8C,
    CHR 0xE8, CHR 0xAF, CHR 0x81]"

definition txt_start_detail :: string where
  "txt_start_detail = [
    CHR 0xE6, CHR 0x89, CHR 0xA7, CHR 0xE8, CHR 0xA1, CHR 0x8C, CHR 0xE5, CHR 0x8D, CHR 0x95,
    CHR 0xE4, CHR 0xBD, CHR 0x93, CHR 0xE9, CHR 0x9A, CHR 0x94, CHR 0xE7, CHR 0xA6, CHR 0xBB,
    CHR 0xE5, CHR 0xBD, CHR 0xB1, CHR 0xE5, CHR 0xAD, CHR 0x90, CHR 0xE4, CHR 0xBA, CHR 0x8B,
    CHR 0xE5, CHR 0x8A, CHR 0xA1, CHR 0xEF, CHR 0xBC, CHR 0x9B, CHR 0xE4, CHR 0xB8, CHR 0xAD,
    CHR 0xE6, CHR 0x96, CHR 0xAD, CHR 0xE5, CHR 0x90, CHR 0x8E, CHR 0xE7, CHR 0x94, CHR 0xB1,
    CHR 0xE6, CHR 0x96, CHR 0xB0, CHR 0x20, CHR 0x6C, CHR 0x65, CHR 0x61, CHR 0x73, CHR 0x65,
    CHR 0x20, CHR 0x67, CHR 0x65, CHR 0x6E, CHR 0x65, CHR 0x72, CHR 0x61, CHR 0x74, CHR 0x69,
    CHR 0x6F, CHR 0x6E, CHR 0x20, CHR 0xE4, CHR 0xBB, CHR 0x8E, CHR 0x20, CHR 0x41, CHR 0x50,
    CHR 0x50, CHR 0x4C, CHR 0x59, CHR 0x20, CHR 0xE9, CHR 0x87, CHR 0x8D, CHR 0xE8, CHR 0xB7,
    CHR 0x91]"

definition txt_start_audit_1 :: string where
  "txt_start_audit_1 = [
    CHR 0x57, CHR 0x6F, CHR 0x72, CHR 0x6B, CHR 0x65, CHR 0x72, CHR 0x20, CHR 0xE5, CHR 0xBC,
    CHR 0x80, CHR 0xE5, CHR 0xA7, CHR 0x8B, CHR 0xE6, CHR 0x89, CHR 0xA7, CHR 0xE8, CHR 0xA1,
    CHR 0x8C, CHR 0x20, CHR 0x61, CHR 0x74, CHR 0x74, CHR 0x65, CHR 0x6D, CHR 0x70, CHR 0x74,
    CHR 0x3D]"

definition txt_start_audit_2 :: string where
  "txt_start_audit_2 = [
    CHR 0x20, CHR 0x67, CHR 0x65, CHR 0x6E, CHR 0x65, CHR 0x72, CHR 0x61, CHR 0x74, CHR 0x69,
    CHR 0x6F, CHR 0x6E, CHR 0x3D]"

definition txt_finish_title :: string where
  "txt_finish_title = [
    CHR 0xE9, CHR 0xA2, CHR 0x84, CHR 0xE5, CHR 0x8F, CHR 0x91, CHR 0xE5, CHR 0xB8, CHR 0x83,
    CHR 0xE9, CHR 0xAA, CHR 0x8C, CHR 0xE8, CHR 0xAF, CHR 0x81, CHR 0xE5, CHR 0xAE, CHR 0x8C,
    CHR 0xE6, CHR 0x88, CHR 0x90, CHR 0xEF, CHR 0xBC, CHR 0x8C, CHR 0xE7, CHR 0xAD, CHR 0x89,
    CHR 0xE5, CHR 0xBE, CHR 0x85, CHR 0xE5, CHR 0xAE, CHR 0xA1, CHR 0xE6, CHR 0x89, CHR 0xB9]"

definition txt_finish_detail :: string where
  "txt_finish_detail = [
    CHR 0xE8, CHR 0xA7, CHR 0x84, CHR 0xE5, CHR 0x88, CHR 0x99, CHR 0xE3, CHR 0x80, CHR 0x81,
    CHR 0xE6, CHR 0x95, CHR 0xB0, CHR 0xE6, CHR 0x8D, CHR 0xAE, CHR 0xE5, CHR 0xBA, CHR 0x93,
    CHR 0xE6, CHR 0xBC, CHR 0x94, CHR 0xE7, CHR 0xBB, CHR 0x83, CHR 0xE3, CHR 0x80, CHR 0x81,
    CHR 0xE5, CHR 0x88, CHR 0xB6, CHR 0xE5, CHR 0x93, CHR 0x81, CHR 0xE6, CHR 0xA3, CHR 0x80,
    CHR 0xE6, CHR 0x9F, CHR 0xA5, CHR 0xE3, CHR 0x80, CHR 0x81, CHR 0xE5, CHR 0x8F, CHR 0x91,
    CHR 0xE5, CHR 0xB8, CHR 0x83, CHR 0xE7, CHR 0xAD, CHR 0x96, CHR 0xE7, CHR 0x95, CHR 0xA5,
    CHR 0xE5, CHR 0x92, CHR 0x8C, CHR 0xE6, CHR 0x99, CHR 0xBA, CHR 0xE8, CHR 0x83, CHR 0xBD,
    CHR 0xE5, CHR 0x88, CHR 0x86, CHR 0xE6, CHR 0x9E, CHR 0x90, CHR 0xE8, CHR 0xAF, CHR 0x81,
    CHR 0xE6, CHR 0x8D, CHR 0xAE, CHR 0xE5, CHR 0xB7, CHR 0xB2, CHR 0xE6, CHR 0xB1, CHR 0x87,
    CHR 0xE6, CHR 0x80, CHR 0xBB]"

definition txt_failed_title :: string where
  "txt_failed_title = [
    CHR 0xE9, CHR 0xA2, CHR 0x84, CHR 0xE5, CHR 0x8F, CHR 0x91, CHR 0xE5, CHR 0xB8, CHR 0x83,
    CHR 0xE9, CHR 0xAA, CHR 0x8C, CHR 0xE8, CHR 0xAF, CHR 0x81, CHR 0xE5, CHR 0xA4, CHR 0xB1,
    CHR 0xE8, CHR 0xB4, CHR 0xA5]"

definition txt_failed_detail :: string where
  "txt_failed_detail = [
    CHR 0xE9, CHR 0xAA, CHR 0x8C, CHR 0xE8, CHR 0xAF, CHR 0x81, CHR 0xE6, CHR 0x9C, CHR 0xAA,
    CHR 0xE9, CHR 0x80, CHR 0x9A, CHR 0xE8, CHR 0xBF, CHR 0x87, CHR 0xEF, CHR 0xBC, CHR 0x8C,
    CHR 0xE8, CHR 0xAF, CHR 0xB7, CHR 0xE4, CHR 0xBF, CHR 0xAE, CHR 0xE6, CHR 0xAD, CHR 0xA3,
    CHR 0xE5, CHR 0x90, CHR 0x8E, CHR 0xE9, CHR 0x87, CHR 0x8D, CHR 0xE6, CHR 0x96, CHR 0xB0,
    CHR 0xE6, CHR 0x8F, CHR 0x90, CHR 0xE4, CHR 0xBA, CHR 0xA4]"

definition txt_finish_audit :: string where
  "txt_finish_audit = [
    CHR 0xEF, CHR 0xBC, CHR 0x9B, CHR 0x61, CHR 0x74, CHR 0x74, CHR 0x65, CHR 0x6D, CHR 0x70,
    CHR 0x74, CHR 0x3D]"

definition txt_unsupported :: string where
  "txt_unsupported = [
    CHR 0x75, CHR 0x6E, CHR 0x73, CHR 0x75, CHR 0x70, CHR 0x70, CHR 0x6F, CHR 0x72, CHR 0x74,
    CHR 0x65, CHR 0x64, CHR 0x20, CHR 0x6F, CHR 0x75, CHR 0x74, CHR 0x62, CHR 0x6F, CHR 0x78,
    CHR 0x20, CHR 0x65, CHR 0x76, CHR 0x65, CHR 0x6E, CHR 0x74, CHR 0x20]"

definition txt_renew_failed :: string where
  "txt_renew_failed = [
    CHR 0xE7, CHR 0xBB, CHR 0xAD, CHR 0xE7, CHR 0xA7, CHR 0x9F, CHR 0xE5, CHR 0xBC, CHR 0x82,
    CHR 0xE6, CHR 0xAD, CHR 0xA5, CHR 0xE4, CHR 0xBB, CHR 0xBB, CHR 0xE5, CHR 0x8A, CHR 0xA1,
    CHR 0xE5, CHR 0xA4, CHR 0xB1, CHR 0xE8, CHR 0xB4, CHR 0xA5, CHR 0x3A, CHR 0x20]"

definition txt_ev_artifact_title :: string where
  "txt_ev_artifact_title = [
    CHR 0xE5, CHR 0x8F, CHR 0x98, CHR 0xE6, CHR 0x9B, CHR 0xB4, CHR 0xE5, CHR 0x88, CHR 0xB6,
    CHR 0xE5, CHR 0x93, CHR 0x81, CHR 0xE6, CHR 0xB8, CHR 0x85, CHR 0xE5, CHR 0x8D, CHR 0x95]"

definition txt_ev_artifact_1 :: string where
  "txt_ev_artifact_1 = [
    CHR 0x20, CHR 0xE9, CHR 0xA1, CHR 0xB9, CHR 0xEF, CHR 0xBC, CHR 0x9A]"

definition txt_ev_source :: string where
  "txt_ev_source = [
    CHR 0xE7, CHR 0xBB, CHR 0x9F, CHR 0xE4, CHR 0xB8, CHR 0x80, CHR 0xE5, CHR 0x8F, CHR 0x98,
    CHR 0xE6, CHR 0x9B, CHR 0xB4, CHR 0xE5, CHR 0x8D, CHR 0x95]"

definition txt_ev_release_title :: string where
  "txt_ev_release_title = [
    CHR 0xE5, CHR 0x8F, CHR 0x91, CHR 0xE5, CHR 0xB8, CHR 0x83, CHR 0xE7, CHR 0xAD, CHR 0x96,
    CHR 0xE7, CHR 0x95, CHR 0xA5]"

definition txt_ev_release_1 :: string where
  "txt_ev_release_1 = [
    CHR 0xEF, CHR 0xBC, CHR 0x8C, CHR 0xE7, CHR 0x81, CHR 0xB0, CHR 0xE5, CHR 0xBA, CHR 0xA6,
    CHR 0x20]"

definition txt_ev_release_2 :: string where
  "txt_ev_release_2 = [
    CHR 0x25, CHR 0xEF, CHR 0xBC, CHR 0x8C, CHR 0xE8, CHR 0xA7, CHR 0x82, CHR 0xE5, CHR 0xAF,
    CHR 0x9F, CHR 0x20]"

definition txt_ev_release_3 :: string where
  "txt_ev_release_3 = [
    CHR 0x20, CHR 0xE5, CHR 0x88, CHR 0x86, CHR 0xE9, CHR 0x92, CHR 0x9F]"

definition txt_ev_plan :: string where
  "txt_ev_plan = [
    CHR 0xE5, CHR 0x8F, CHR 0x91, CHR 0xE5, CHR 0xB8, CHR 0x83, CHR 0xE8, CHR 0xAE, CHR 0xA1,
    CHR 0xE5, CHR 0x88, CHR 0x92]"

definition txt_ev_metric_title :: string where
  "txt_ev_metric_title = [
    CHR 0xE6, CHR 0x88, CHR 0x90, CHR 0xE5, CHR 0x8A, CHR 0x9F, CHR 0xE5, CHR 0x88, CHR 0xA4,
    CHR 0xE5, CHR 0xAE, CHR 0x9A, CHR 0xE6, CHR 0x8C, CHR 0x87, CHR 0xE6, CHR 0xA0, CHR 0x87]"

definition txt_retry_dead :: string where
  "txt_retry_dead = [
    CHR 0xE4, CHR 0xBA, CHR 0xBA, CHR 0xE5, CHR 0xB7, CHR 0xA5, CHR 0xE9, CHR 0x87, CHR 0x8D,
    CHR 0xE8, CHR 0xAF, CHR 0x95, CHR 0xE6, CHR 0xAD, CHR 0xBB, CHR 0xE4, CHR 0xBF, CHR 0xA1,
    CHR 0xE4, CHR 0xBA, CHR 0x8B, CHR 0xE4, CHR 0xBB, CHR 0xB6, CHR 0x20]"

definition txt_int_unlinked :: string where
  "txt_int_unlinked = [
    CHR 0xE5, CHR 0xB7, CHR 0xB2, CHR 0xE6, CHR 0x8E, CHR 0xA5, CHR 0xE6, CHR 0x94, CHR 0xB6,
    CHR 0xE6, CHR 0xB5, CHR 0x81, CHR 0xE6, CHR 0xB0, CHR 0xB4, CHR 0xE7, CHR 0xBA, CHR 0xBF,
    CHR 0xE4, CHR 0xBA, CHR 0x8B, CHR 0xE4, CHR 0xBB, CHR 0xB6, CHR 0xEF, CHR 0xBC, CHR 0x8C,
    CHR 0xE4, CHR 0xBD, CHR 0x86, CHR 0xE6, CHR 0x9C, CHR 0xAA, CHR 0xE5, CHR 0x85, CHR 0xB3,
    CHR 0xE8, CHR 0x81, CHR 0x94, CHR 0xE5, CHR 0x88, CHR 0xB0, CHR 0xE5, CHR 0x8F, CHR 0x98,
    CHR 0xE6, CHR 0x9B, CHR 0xB4, CHR 0xE5, CHR 0x8D, CHR 0x95]"

definition txt_int_linked :: string where
  "txt_int_linked = [
    CHR 0xE6, CHR 0xB5, CHR 0x81, CHR 0xE6, CHR 0xB0, CHR 0xB4, CHR 0xE7, CHR 0xBA, CHR 0xBF,
    CHR 0xE4, CHR 0xBA, CHR 0x8B, CHR 0xE4, CHR 0xBB, CHR 0xB6, CHR 0xE5, CHR 0xB7, CHR 0xB2,
    CHR 0xE5, CHR 0x85, CHR 0xB3, CHR 0xE8, CHR 0x81, CHR 0x94, CHR 0xE5, CHR 0x88, CHR 0xB0,
    CHR 0xE5, CHR 0x8F, CHR 0x98, CHR 0xE6, CHR 0x9B, CHR 0xB4, CHR 0xE5, CHR 0x8D, CHR 0x95,
    CHR 0x20]"

definition txt_idem_audit :: string where
  "txt_idem_audit = [
    CHR 0xE5, CHR 0xB9, CHR 0x82, CHR 0xE7, CHR 0xAD, CHR 0x89, CHR 0xE8, CHR 0xAF, CHR 0xB7,
    CHR 0xE6, CHR 0xB1, CHR 0x82, CHR 0x20]"

definition txt_token_not_replayable :: string where
  "txt_token_not_replayable = [
    CHR 0xE9, CHR 0x80, CHR 0x9A, CHR 0xE8, CHR 0xA1, CHR 0x8C, CHR 0xE8, CHR 0xAF, CHR 0x81,
    CHR 0xE5, CHR 0xB7, CHR 0xB2, CHR 0xE7, CHR 0xAD, CHR 0xBE, CHR 0xE5, CHR 0x8F, CHR 0x91,
    CHR 0xEF, CHR 0xBC, CHR 0x9B, CHR 0xE6, CHR 0x98, CHR 0x8E, CHR 0xE6, CHR 0x96, CHR 0x87,
    CHR 0x20, CHR 0x54, CHR 0x6F, CHR 0x6B, CHR 0x65, CHR 0x6E, CHR 0x20, CHR 0xE4, CHR 0xBB,
    CHR 0x85, CHR 0xE5, CHR 0x9C, CHR 0xA8, CHR 0xE9, CHR 0xA6, CHR 0x96, CHR 0xE6, CHR 0xAC,
    CHR 0xA1, CHR 0xE6, CHR 0x88, CHR 0x90, CHR 0xE5, CHR 0x8A, CHR 0x9F, CHR 0xE5, CHR 0x93,
    CHR 0x8D, CHR 0xE5, CHR 0xBA, CHR 0x94, CHR 0xE4, CHR 0xB8, CHR 0xAD, CHR 0xE6, CHR 0x98,
    CHR 0xBE, CHR 0xE7, CHR 0xA4, CHR 0xBA, CHR 0xEF, CHR 0xBC, CHR 0x8C, CHR 0xE4, CHR 0xB8,
    CHR 0x8D, CHR 0xE8, CHR 0x83, CHR 0xBD, CHR 0xE9, CHR 0x87, CHR 0x8D, CHR 0xE6, CHR 0x98,
    CHR 0xBE, CHR 0xE6, CHR 0x88, CHR 0x96, CHR 0xE9, CHR 0x87, CHR 0x8D, CHR 0xE6, CHR 0x96,
    CHR 0xB0, CHR 0xE7, CHR 0xAD, CHR 0xBE, CHR 0xE5, CHR 0x8F, CHR 0x91]"

end
