(* ===== verification/Worker.thy ===== *)
theory Worker
  imports Lifecycle WorkerTexts
begin

text \<open>
  The experiment worker of \<^verbatim>\<open>internal/service/service.go\<close>: \<open>processOutboxEvent\<close> claims an event, runs the
  experiment of its change under the lease, and completes or fails the event. Between two calls of the
  store other processes and the renewal of the lease may act: \<open>we_world k\<close> is what they do to the state before
  the call number \<open>k\<close>. The shadow database (\<open>runner\<close>), the analyzer, and the JSON text of a report with its
  floating point numbers (\<open>marshal\<close>) are parameters. The lemmas show what an experiment decides, that
  nothing is decided for changed content, and that a worker empties the queue.
\<close>

section \<open>The report\<close>

text \<open>The distinct kinds in the order of their first artifact.\<close>

definition artifact_kinds :: "change_request \<Rightarrow> string list" where
  "artifact_kinds c = rev (remdups (rev (map art_Kind (chg_Artifacts c))))"

definition release_evidence :: "senv \<Rightarrow> nat \<Rightarrow> change_request \<Rightarrow> evidence list" where
  "release_evidence h n c =
     (let plan = chg_ReleasePlan c in
      [\<lparr> ev_ID = NewID h ''ev_artifact_'' n, ev_Kind = ''artifact'', ev_Title = txt_ev_artifact_title,
          ev_Value = nat_str (length (chg_Artifacts c)) @ txt_ev_artifact_1 @ join_str '' / '' (artifact_kinds c),
          ev_Source = txt_ev_source, ev_ObservedAt = se_now h \<rparr>,
       \<lparr> ev_ID = NewID h ''ev_release_'' (n + 1), ev_Kind = ''release'', ev_Title = txt_ev_release_title,
          ev_Value = plan_Strategy plan @ txt_ev_release_1 @ int_str (plan_CanaryPercent plan) @ txt_ev_release_2
            @ int_str (plan_ObservationMinutes plan) @ txt_ev_release_3,
          ev_Source = txt_ev_plan, ev_ObservedAt = se_now h \<rparr>,
       \<lparr> ev_ID = NewID h ''ev_metric_'' (n + 2), ev_Kind = ''metric'', ev_Title = txt_ev_metric_title,
          ev_Value = join_str '' / '' (plan_SuccessMetrics plan), ev_Source = txt_ev_plan, ev_ObservedAt = se_now h \<rparr>])"

definition enrichReleaseReport :: "senv \<Rightarrow> nat \<Rightarrow> experiment_report \<Rightarrow> change_request \<Rightarrow> experiment_report" where
  "enrichReleaseReport h n r c =
     (let mode = (if exp_Mode r = [] then ''DETERMINISTIC'' else exp_Mode r);
          total = int (length (chg_Artifacts c)) + 3
      in r\<lparr> exp_ID := (if exp_ID r = [] then NewID h ''validation_'' n else exp_ID r),
            exp_Kind := (if exp_Kind r = []
                         then (if trim_space (chg_SQL c) \<noteq> [] then ''DATABASE_AND_RELEASE_VALIDATION'' else ''RELEASE_VALIDATION'')
                         else exp_Kind r),
            exp_Mode := mode, exp_Strategy := plan_Strategy (chg_ReleasePlan c),
            exp_CanaryPercent := plan_CanaryPercent (chg_ReleasePlan c),
            exp_ObservationMinutes := plan_ObservationMinutes (chg_ReleasePlan c), exp_ChecksTotal := total,
            exp_ChecksPassed := (if exp_Status r = ''PASSED'' \<and> equal_fold mode ''POSTGRES'' then total else 0),
            exp_Evidence := exp_Evidence r @ release_evidence h (n + 1) c \<rparr>)"

section \<open>One experiment\<close>

record worker_env =
  we_world :: "nat \<Rightarrow> db \<Rightarrow> db"
  we_cancelled :: "nat \<Rightarrow> bool"
  we_renew :: "err option"
  we_text :: "err \<Rightarrow> string"

definition quiet_world :: worker_env where
  "quiet_world = \<lparr> we_world = (\<lambda>_ d. d), we_cancelled = (\<lambda>_. False), we_renew = None, we_text = (\<lambda>_. []) \<rparr>"

definition systemActor :: "string \<Rightarrow> user" where
  "systemActor org = zero_user\<lparr> usr_ID := ''system_worker'', usr_OrganizationID := org, usr_Name := txt_worker_name,
     usr_Role := txt_worker_role, usr_Active := True \<rparr>"

definition lease_str :: "outbox_event \<Rightarrow> string" where
  "lease_str ev = out_AttemptID ev @ txt_start_audit_2 @ nat_str (unat (out_LeaseGeneration ev))"

definition start_update :: "senv \<Rightarrow> outbox_event \<Rightarrow> change_request update" where
  "start_update h ev item =
     (if chg_ArtifactSHA256 item \<noteq> out_InputSHA256 ev then (Some (ErrExperiment txt_input_mismatch), item)
      else if \<not> awaits_experiment item then (Some ErrInvalidState, item)
      else (None, if chg_Status item = StatusExperimentQueued
                  then item\<lparr> chg_Status := StatusExperimentRunning,
                             chg_Timeline := chg_Timeline item
                               @ [timeline h 0 StatusExperimentRunning txt_start_title txt_start_detail txt_worker_name] \<rparr>
                  else item))"

definition start_audit :: "senv \<Rightarrow> outbox_event \<Rightarrow> change_request \<Rightarrow> audit_event" where
  "start_audit h ev c = auditExperiment (audit h 1 (systemActor (chg_OrganizationID c)) (out_AggregateID ev)
     ''EXPERIMENT_START'' (txt_start_audit_1 @ lease_str ev)) (out_ID ev) (out_AttemptID ev)"

definition experiment_report_of :: "senv \<Rightarrow> experiment_report \<Rightarrow> outbox_event \<Rightarrow> change_request \<Rightarrow> experiment_report" where
  "experiment_report_of h r ev c =
     (enrichReleaseReport h 2 r c)\<lparr> exp_AttemptID := out_AttemptID ev, exp_LeaseGeneration := out_LeaseGeneration ev,
        exp_InputSHA256 := out_InputSHA256 ev \<rparr>"

text \<open>The next status with the title and the detail of its timeline entry.\<close>

definition finish_outcome :: "experiment_report \<Rightarrow> change_request \<Rightarrow> change_status \<times> string \<times> string" where
  "finish_outcome r c =
     (if trustedSQLExperiment (Some r) c then (StatusWaitingApproval, txt_finish_title, txt_finish_detail)
      else (StatusCheckFailed, txt_failed_title, defaultString (exp_ExecutionError r) txt_failed_detail))"

definition finish_update ::
  "senv \<Rightarrow> outbox_event \<Rightarrow> experiment_report \<Rightarrow> agent_analysis \<Rightarrow> change_status \<times> string \<times> string \<Rightarrow> change_request update" where
  "finish_update h ev r analysis outcome item =
     (case outcome of (s, title, detail) \<Rightarrow>
        if chg_ArtifactSHA256 item \<noteq> out_InputSHA256 ev then (Some (ErrExperiment txt_input_changed), item)
        else (None, item\<lparr> chg_Experiment := Some r, chg_Analysis := Some analysis, chg_Status := s,
                chg_Timeline := chg_Timeline item @ [timeline h 6 s title detail txt_worker_name] \<rparr>))"

definition finish_audit :: "senv \<Rightarrow> outbox_event \<Rightarrow> change_request \<Rightarrow> string \<Rightarrow> audit_event" where
  "finish_audit h ev c detail = auditExperiment (audit h 7 (systemActor (chg_OrganizationID c)) (out_AggregateID ev)
     ''EXPERIMENT_FINISH'' (detail @ txt_finish_audit @ lease_str ev)) (out_ID ev) (out_AttemptID ev)"

definition finish_experiment ::
  "(change_request \<Rightarrow> agent_analysis) \<Rightarrow> (experiment_report \<Rightarrow> string option) \<Rightarrow> worker_env \<Rightarrow> senv \<Rightarrow> outbox_event \<Rightarrow> string
     \<Rightarrow> change_request \<Rightarrow> experiment_report \<Rightarrow> db \<Rightarrow> err option \<times> db" where
  "finish_experiment analyze marshal w h ev worker c r d =
     (case Change d (out_AggregateID ev) of
        Inl er \<Rightarrow> (Some er, d)
      | Inr latest \<Rightarrow>
          if chg_ArtifactSHA256 latest \<noteq> out_InputSHA256 ev then (Some (ErrExperiment txt_input_changed), d)
          else let analysis = normalizeAdvisoryRisk (analyze (latest\<lparr> chg_Experiment := Some r \<rparr>)) in
               if we_cancelled w 1 then (Some (ErrExperiment ''context canceled''), d)
               else (case marshal r of
                       None \<Rightarrow> (Some (ErrExperiment ''json''), d)
                     | Some encoded \<Rightarrow>
                         let digest = SHA256 encoded;
                             r' = r\<lparr> exp_ResultDigest := digest \<rparr>;
                             outcome = finish_outcome r c
                         in (case FinalizeExperimentOutbox (out_ID ev) worker (out_LeaseGeneration ev) (out_AttemptID ev)
                                    (out_InputSHA256 ev) digest (finish_update h ev r' analysis outcome)
                                    [finish_audit h ev c (snd (snd outcome))] (se_call h 5) (we_world w 5 d) of
                               (Inl er, d') \<Rightarrow> (Some er, d') | (Inr _, d') \<Rightarrow> (None, d'))))"

definition runExperiment ::
  "(change_request \<Rightarrow> experiment_report) \<Rightarrow> (change_request \<Rightarrow> agent_analysis) \<Rightarrow> (experiment_report \<Rightarrow> string option)
     \<Rightarrow> worker_env \<Rightarrow> senv \<Rightarrow> outbox_event \<Rightarrow> string \<Rightarrow> db \<Rightarrow> err option \<times> db" where
  "runExperiment runner analyze marshal w h ev worker d =
     (case Change d (out_AggregateID ev) of
        Inl er \<Rightarrow> (Some er, d)
      | Inr c \<Rightarrow>
          if out_InputSHA256 ev = [] \<or> out_InputSHA256 ev \<noteq> chg_ArtifactSHA256 c
          then (Some (ErrExperiment txt_input_mismatch), d)
          else if out_ResultDigest ev \<noteq> [] \<or> \<not> awaits_experiment c then (None, d)
          else (case CheckpointExperimentOutbox (out_ID ev) worker (out_LeaseGeneration ev) StagePrepare (out_InputSHA256 ev)
                       (se_call h 1) (we_world w 1 d) of
                  (Inl er, d1) \<Rightarrow> (Some er, d1)
                | (Inr _, d1) \<Rightarrow>
                    (case UpdateChange (out_AggregateID ev) (start_update h ev) [start_audit h ev c] (se_call h 2) (we_world w 2 d1) of
                       (Inl er, d2) \<Rightarrow> (Some er, d2)
                     | (Inr _, d2) \<Rightarrow>
                         if trim_space (chg_SQL c) = [] then (Some (ErrExperiment txt_not_sql), d2)
                         else (case CheckpointExperimentOutbox (out_ID ev) worker (out_LeaseGeneration ev) StageApply
                                      (out_InputSHA256 ev) (se_call h 3) (we_world w 3 d2) of
                                 (Inl er, d3) \<Rightarrow> (Some er, d3)
                               | (Inr _, d3) \<Rightarrow>
                                   if we_cancelled w 0 then (Some (ErrExperiment ''context canceled''), d3)
                                   else finish_experiment analyze marshal w h ev worker c
                                          (experiment_report_of h (runner c) ev c) (we_world w 4 d3)))))"

section \<open>One event\<close>

definition error_text :: "worker_env \<Rightarrow> err \<Rightarrow> string" where
  "error_text w er = (case er of ErrExperiment s \<Rightarrow> s | _ \<Rightarrow> we_text w er)"

definition worker_lease :: duration where "worker_lease = 2 * minute"

definition handle_event ::
  "(change_request \<Rightarrow> experiment_report) \<Rightarrow> (change_request \<Rightarrow> agent_analysis) \<Rightarrow> (experiment_report \<Rightarrow> string option)
     \<Rightarrow> worker_env \<Rightarrow> senv \<Rightarrow> outbox_event \<Rightarrow> string \<Rightarrow> db \<Rightarrow> err option \<times> db" where
  "handle_event runner analyze marshal w h ev worker d =
     (if out_EventType ev = ''experiment.requested'' then runExperiment runner analyze marshal w h ev worker d
      else (Some (ErrExperiment (txt_unsupported @ out_EventType ev)), d))"

definition settle_event :: "worker_env \<Rightarrow> senv \<Rightarrow> outbox_event \<Rightarrow> string \<Rightarrow> err option \<Rightarrow> db \<Rightarrow> db" where
  "settle_event w h ev worker outcome d =
     (let failure = (case (outcome, we_renew w) of
                       (None, Some er) \<Rightarrow> Some (ErrExperiment (txt_renew_failed @ error_text w er))
                     | _ \<Rightarrow> outcome)
      in snd (case failure of
                Some er \<Rightarrow> FailOutbox (out_ID ev) worker (out_LeaseGeneration ev) (error_text w er) (se_call h 6) (we_world w 6 d)
              | None \<Rightarrow> CompleteOutbox (out_ID ev) worker (out_LeaseGeneration ev) (se_call h 6) (we_world w 6 d)))"

definition processOutboxEvent ::
  "(change_request \<Rightarrow> experiment_report) \<Rightarrow> (change_request \<Rightarrow> agent_analysis) \<Rightarrow> (experiment_report \<Rightarrow> string option)
     \<Rightarrow> worker_env \<Rightarrow> senv \<Rightarrow> string \<Rightarrow> db \<Rightarrow> bool \<times> db" where
  "processOutboxEvent runner analyze marshal w h worker d =
     (case ClaimOutbox worker worker_lease (se_call h 0) (we_world w 0 d) of
        (Inl _, d0) \<Rightarrow> (False, d0)
      | (Inr ev, d0) \<Rightarrow>
          let (outcome, d1) = handle_event runner analyze marshal w h ev worker d0
          in (True, settle_event w h ev worker outcome d1))"

text \<open>The inner loop of a worker, which processes events until none is due. The fuel bounds the number of
  events processed; \<open>hs k\<close> is the environment of the round number \<open>k\<close>.\<close>

fun drain :: "(senv \<Rightarrow> db \<Rightarrow> bool \<times> db) \<Rightarrow> (nat \<Rightarrow> senv) \<Rightarrow> nat \<Rightarrow> nat \<Rightarrow> db \<Rightarrow> db option" where
  "drain step hs k 0 d = None"
| "drain step hs k (Suc fuel) d =
     (case step (hs k) d of (False, d') \<Rightarrow> Some d' | (True, d') \<Rightarrow> drain step hs (Suc k) fuel d')"

text \<open>\<open>action k d\<close> is the attempt number \<open>k\<close>.\<close>

fun retry_write :: "(nat \<Rightarrow> 's \<Rightarrow> err option \<times> 's) \<Rightarrow> nat \<Rightarrow> nat \<Rightarrow> 's \<Rightarrow> err option \<times> 's" where
  "retry_write action k 0 s = (None, s)"
| "retry_write action k (Suc left) s =
     (case action k s of
        (Some ErrConcurrentWrite, s') \<Rightarrow> if left = 0 then (Some ErrConcurrentWrite, s') else retry_write action (Suc k) left s'
      | (r, s') \<Rightarrow> (r, s'))"

definition retryConcurrentWrite :: "(nat \<Rightarrow> 's \<Rightarrow> err option \<times> 's) \<Rightarrow> 's \<Rightarrow> err option \<times> 's" where
  "retryConcurrentWrite action s = retry_write action 0 5 s"

section \<open>A worker empties the queue\<close>

definition attempts_ok :: "db \<Rightarrow> bool" where
  "attempts_ok d \<longleftrightarrow> list_all (\<lambda>ev. 0 \<le> out_Attempts ev) (db_Outbox d)"

text \<open>A step at time \<open>now\<close> that makes no event due that was not due before and no number of attempts
  negative.\<close>

definition not_more_due :: "gotime \<Rightarrow> db \<Rightarrow> db \<Rightarrow> bool" where
  "not_more_due now d d' \<longleftrightarrow> length (db_Outbox d') = length (db_Outbox d) \<and> attempts_ok d'
     \<and> (\<forall>n<length (db_Outbox d). due now (db_Outbox d' ! n) \<longrightarrow> due now (db_Outbox d ! n))"

lemma not_more_due_refl: "attempts_ok d \<Longrightarrow> not_more_due now d d"
  by (simp add: not_more_due_def)

lemma not_more_due_trans: "not_more_due now d d' \<Longrightarrow> not_more_due now d' d'' \<Longrightarrow> not_more_due now d d''"
  by (auto simp: not_more_due_def)

lemma not_more_due_ok: "not_more_due now d d' \<Longrightarrow> attempts_ok d'"
  by (simp add: not_more_due_def)

locale calm_op =
  fixes op :: "env \<Rightarrow> db \<Rightarrow> 'r \<times> db"
  assumes no_new_due: "env_save e = Saved \<Longrightarrow> attempts_ok d \<Longrightarrow> not_more_due (env_now e) d (snd (op e d))"
begin

lemma after: "env_save e = Saved \<Longrightarrow> env_now e = now \<Longrightarrow> not_more_due now d0 d \<Longrightarrow> not_more_due now d0 (snd (op e d))"
  using no_new_due not_more_due_trans not_more_due_ok by blast

end

lemma not_more_due_row:
  "attempts_ok d \<Longrightarrow> n < length (db_Outbox d) \<Longrightarrow> \<not> due now row \<Longrightarrow> 0 \<le> out_Attempts row \<Longrightarrow> db_Outbox d' = (db_Outbox d)[n := row]
   \<Longrightarrow> not_more_due now d d'"
  by (auto simp: not_more_due_def nth_list_update attempts_ok_def list_all_length)

lemma not_more_due_write:
  "attempts_ok d \<Longrightarrow> n < length (db_Outbox d) \<Longrightarrow> \<not> due now row \<Longrightarrow> 0 \<le> out_Attempts row
   \<Longrightarrow> not_more_due now d (d\<lparr> db_Outbox := (db_Outbox d)[n := row] \<rparr>)"
  by (rule not_more_due_row) simp_all

lemma not_more_due_same: "attempts_ok d \<Longrightarrow> db_Outbox d' = db_Outbox d \<Longrightarrow> not_more_due now d d'"
  by (simp add: not_more_due_def attempts_ok_def)

lemma lease_not_due: "validOutboxLease ev worker generation now \<Longrightarrow> \<not> eligible now ev"
  by (auto simp: validOutboxLease_def eligible_def split: option.splits)

lemma rows_not_due:
  "validOutboxLease ev worker generation now \<Longrightarrow> \<not> due now (checkpoint_row stage now ev)"
  "validOutboxLease ev worker generation now \<Longrightarrow> \<not> due now (finalize_row result now ev)"
  "\<not> due now (complete_row now ev)"
  using lease_not_due [of ev worker generation now]
  by (auto simp: due_def eligible_def checkpoint_row_def finalize_row_def complete_row_def)

lemma fail_row_not_due: "\<not> due now (fail_row cause now ev)"
proof -
  have "0 < (2 :: int) ^ k * second" for k by (simp add: second_def)
  then show ?thesis by (auto simp: fail_row_def Let_def due_def eligible_def unlocked_def not_le)
qed

lemma row_attempts [simp]:
  "out_Attempts (checkpoint_row stage now ev) = out_Attempts ev" "out_Attempts (finalize_row result now ev) = out_Attempts ev"
  "out_Attempts (complete_row now ev) = out_Attempts ev" "out_Attempts (fail_row cause now ev) = out_Attempts ev"
  by (simp_all add: checkpoint_row_def finalize_row_def complete_row_def fail_row_def Let_def reset_attempt_def unlocked_def)

lemma found_row:
  "index_by out_ID i (db_Outbox d) = Some n \<Longrightarrow> attempts_ok d \<Longrightarrow> n < length (db_Outbox d) \<and> 0 \<le> out_Attempts (db_Outbox d ! n)"
  using index_by_Some by (fastforce simp: attempts_ok_def list_all_length)

interpretation checkpoint_op: calm_op "CheckpointExperimentOutbox i worker generation stage input" for i worker generation stage input
  by unfold_locales (auto simp: CheckpointExperimentOutbox_def not_more_due_refl split: option.splits
      dest: found_row intro!: not_more_due_write rows_not_due)

interpretation complete_op: calm_op "CompleteOutbox i worker generation" for i worker generation
  by unfold_locales (auto simp: CompleteOutbox_def not_more_due_refl split: option.splits
      dest: found_row intro!: not_more_due_write rows_not_due)

interpretation update_op: calm_op "UpdateChange i upd evs" for i upd evs
  by unfold_locales (auto simp: UpdateChange_def Let_def store_frame split: option.splits prod.splits intro!: not_more_due_same)

interpretation fail_op: calm_op "FailOutbox i worker generation cause" for i worker generation cause
  by unfold_locales (auto simp: FailOutbox_def Let_def not_more_due_refl fail_row_not_due split: option.splits
      dest: found_row intro!: not_more_due_write)

interpretation finalize_op: calm_op "FinalizeExperimentOutbox i worker generation attempt input result upd evs"
  for i worker generation attempt input result upd evs
proof
  fix e :: env and d :: db assume e: "env_save e = Saved" and ok: "attempts_ok d"
  show "not_more_due (env_now e) d (snd (FinalizeExperimentOutbox i worker generation attempt input result upd evs e d))"
  proof (cases "index_by out_ID i (db_Outbox d)")
    case (Some n)
    have "not_more_due (env_now e) d d'"
      if "db_Outbox d' = (db_Outbox d)[n := finalize_row result (env_now e) (db_Outbox d ! n)]"
        "validOutboxLease (db_Outbox d ! n) worker generation (env_now e)" for d'
      using ok that found_row [OF Some ok] by (intro not_more_due_row [where n = n]) (auto intro!: rows_not_due)
    then show ?thesis using e Some ok
      by (auto simp: FinalizeExperimentOutbox_def Let_def store_frame not_more_due_refl split: option.splits prod.splits)
  qed (simp add: FinalizeExperimentOutbox_def not_more_due_refl ok del: index_by_None)
qed

definition steady :: "gotime \<Rightarrow> senv \<Rightarrow> bool" where
  "steady now h \<longleftrightarrow> (\<forall>k. env_save (se_call h k) = Saved \<and> env_now (se_call h k) = now)"

definition quiet :: "worker_env \<Rightarrow> bool" where
  "quiet w \<longleftrightarrow> (\<forall>k d. we_world w k d = d)"

lemma calm_steady [simp]: "steady now (calm now)" by (simp add: steady_def saved_env_def)
lemma quiet_world_quiet [simp]: "quiet quiet_world" by (simp add: quiet_def quiet_world_def)

lemma after_case:
  assumes "not_more_due now d (snd r)" "\<And>er x. not_more_due now d x \<Longrightarrow> not_more_due now d (snd (f er x))"
    "\<And>v x. not_more_due now d x \<Longrightarrow> not_more_due now d (snd (g v x))"
  shows "not_more_due now d (snd (case r of (Inl er, x) \<Rightarrow> f er x | (Inr v, x) \<Rightarrow> g v x))"
  using assms by (cases r; cases "fst r") auto

lemma finish_not_more_due:
  assumes h: "steady now h" "quiet w" and d: "not_more_due now d0 d"
  shows "not_more_due now d0 (snd (finish_experiment analyze marshal w h ev worker c r d))"
proof -
  have "not_more_due now d0 (snd (case FinalizeExperimentOutbox i worker generation attempt input result upd evs (se_call h 5) (we_world w 5 d) of
      (Inl er, d') \<Rightarrow> (Some er, d') | (Inr _, d') \<Rightarrow> (None, d')))" for i generation attempt input result upd evs
    using h d by (intro after_case) (auto simp: steady_def quiet_def intro: finalize_op.after)
  then show ?thesis using d by (simp add: finish_experiment_def Let_def split: sum.split option.split)
qed

lemma run_not_more_due:
  assumes h: "steady now h" "quiet w" and ok: "not_more_due now d0 d"
  shows "not_more_due now d0 (snd (runExperiment runner analyze marshal w h ev worker d))"
proof (cases "Change d (out_AggregateID ev)")
  case (Inr c)
  have s: "env_save (se_call h k) = Saved" "env_now (se_call h k) = now" "we_world w k x = x" for k x
    using h by (simp_all add: steady_def quiet_def)
  let ?gen = "out_LeaseGeneration ev" and ?in = "out_InputSHA256 ev"
  have 3: "not_more_due now d0 (snd (case CheckpointExperimentOutbox (out_ID ev) worker ?gen StageApply ?in (se_call h 3) x of
        (Inl er, d3) \<Rightarrow> (Some er, d3)
      | (Inr _, d3) \<Rightarrow> if we_cancelled w 0 then (Some (ErrExperiment ''context canceled''), d3)
                       else finish_experiment analyze marshal w h ev worker c (experiment_report_of h (runner c) ev c) d3))"
    if "not_more_due now d0 x" for x
    by (rule after_case, rule checkpoint_op.after [OF s(1,2) that]) (simp_all add: finish_not_more_due [OF h])
  have 2: "not_more_due now d0 (snd (case UpdateChange (out_AggregateID ev) (start_update h ev) [start_audit h ev c] (se_call h 2) x of
        (Inl er, d2) \<Rightarrow> (Some er, d2)
      | (Inr _, d2) \<Rightarrow> if trim_space (chg_SQL c) = [] then (Some (ErrExperiment txt_not_sql), d2)
          else (case CheckpointExperimentOutbox (out_ID ev) worker ?gen StageApply ?in (se_call h 3) d2 of
                  (Inl er, d3) \<Rightarrow> (Some er, d3)
                | (Inr _, d3) \<Rightarrow> if we_cancelled w 0 then (Some (ErrExperiment ''context canceled''), d3)
                                 else finish_experiment analyze marshal w h ev worker c (experiment_report_of h (runner c) ev c) d3)))"
    if "not_more_due now d0 x" for x
    by (rule after_case, rule update_op.after [OF s(1,2) that]) (simp_all add: 3)
  show ?thesis
    unfolding runExperiment_def Inr sum.case s(3)
    using after_case [OF checkpoint_op.after [OF s(1,2) ok] _ 2] ok by simp
qed (use ok in \<open>simp add: runExperiment_def\<close>)

lemma settle_not_more_due:
  "steady now h \<Longrightarrow> quiet w \<Longrightarrow> not_more_due now d0 d \<Longrightarrow> not_more_due now d0 (settle_event w h ev worker outcome d)"
  by (auto simp: settle_event_def Let_def steady_def quiet_def split: option.split intro: fail_op.after complete_op.after)

lemma due_count:
  assumes "not_more_due now d d'" "n < length (db_Outbox d)" "due now (db_Outbox d ! n)" "\<not> due now (db_Outbox d' ! n)"
  shows "length (filter (due now) (db_Outbox d')) < length (filter (due now) (db_Outbox d))"
  unfolding length_filter_conv_card using assms by (intro psubset_card_mono) (auto simp: not_more_due_def)

lemma claim_not_due: "0 < lease \<Longrightarrow> \<not> due now (claim_row worker lease input attempt now ev)"
  by (simp add: due_def eligible_def claim_row_def)

lemma process_progress:
  assumes h: "steady now h" "quiet w" and ok: "attempts_ok d"
  shows "case processOutboxEvent runner analyze marshal w h worker d of
      (False, d') \<Rightarrow> d' = d \<and> (\<forall>ev\<in>set (db_Outbox d). \<not> due now ev)
    | (True, d') \<Rightarrow> attempts_ok d' \<and> length (filter (due now) (db_Outbox d')) < length (filter (due now) (db_Outbox d))"
proof (cases "ClaimOutbox worker worker_lease (se_call h 0) d")
  case (Pair r d0)
  show ?thesis
  proof (cases r)
    case (Inl er)
    have "select_due now (db_Outbox d) = None" "d0 = d"
      using Pair Inl h by (auto simp: ClaimOutbox_def Let_def steady_def split: option.splits)
    then show ?thesis using Pair Inl h(2) by (simp add: processOutboxEvent_def quiet_def select_due_None)
  next
    case (Inr ev)
    obtain n where n: "n < length (db_Outbox d)" "due now (db_Outbox d ! n)"
      "ev = claim_row worker worker_lease (claim_input d (db_Outbox d ! n)) (env_id (se_call h 0) 0) now (db_Outbox d ! n)"
      "d0 = d\<lparr> db_Outbox := (db_Outbox d)[n := ev] \<rparr>"
      using ClaimOutbox_Inr [OF Pair [unfolded Inr]] h(1) by (auto simp: steady_def)
    have late: "\<not> due now ev" by (simp add: n(3) claim_not_due worker_lease_def minute_def second_def)
    have "0 \<le> out_Attempts ev" using ok n(1) by (simp add: n(3) claim_row_def attempts_ok_def list_all_length)
    then have 0: "not_more_due now d d0" using n(1) late ok by (simp add: n(4) not_more_due_write)
    obtain outcome d1 where out: "handle_event runner analyze marshal w h ev worker d0 = (outcome, d1)" by fastforce
    define d' where "d' = settle_event w h ev worker outcome d1"
    note start = not_more_due_refl [OF not_more_due_ok [OF 0]]
    have "not_more_due now d0 (snd (handle_event runner analyze marshal w h ev worker d0))"
      using run_not_more_due [OF h start] start by (simp add: handle_event_def)
    then have 1: "not_more_due now d0 d1" by (simp add: out)
    have late': "not_more_due now d0 d'" using settle_not_more_due [OF h 1] by (simp add: d'_def)
    have "not_more_due now d d'" by (rule not_more_due_trans [OF 0 late'])
    moreover have "\<not> due now (db_Outbox d' ! n)" using late' n(1) late by (auto simp: not_more_due_def n(4))
    moreover have "processOutboxEvent runner analyze marshal w h worker d = (True, d')"
      using h(2) by (simp add: processOutboxEvent_def quiet_def Pair Inr out d'_def)
    ultimately show ?thesis using due_count [OF _ n(1,2)] not_more_due_ok by fastforce
  qed
qed

text \<open>C23: a worker empties the queue. While the clock stands still, every save succeeds and nobody else
  interferes, each round makes one due event no longer due and none due again, whether the experiment
  succeeds, fails or panics: so after at most as many rounds as there are due events the inner loop of the
  worker ends, with no event due.\<close>

theorem worker_drains:
  assumes "\<And>k. steady now (hs k)" "quiet w" "attempts_ok d" "length (filter (due now) (db_Outbox d)) < fuel"
  shows "\<exists>d'. drain (\<lambda>h. processOutboxEvent runner analyze marshal w h worker) hs k fuel d = Some d'
    \<and> (\<forall>ev\<in>set (db_Outbox d'). \<not> due now ev)"
  using assms(3,4)
proof (induction fuel arbitrary: d k)
  case (Suc fuel)
  from process_progress [OF assms(1) [of k] assms(2) Suc.prems(1), of runner analyze marshal worker]
  show ?case using Suc.IH Suc.prems(2)
    by (cases "processOutboxEvent runner analyze marshal w (hs k) worker d"; cases "fst (processOutboxEvent runner analyze marshal w (hs k) worker d)")
      fastforce+
qed simp

definition queue_sample :: db where
  "queue_sample = empty_db\<lparr> db_Outbox :=
     [zero_outbox_event\<lparr> out_ID := ''out_1'', out_EventType := ''mail'', out_Status := OutboxPending, out_MaxAttempts := 1 \<rparr>,
      zero_outbox_event\<lparr> out_ID := ''out_2'', out_EventType := ''experiment.requested'', out_Status := OutboxPending \<rparr>] \<rparr>"

theorem worker_drains_witness:
  "\<exists>d'. drain (\<lambda>h. processOutboxEvent (\<lambda>_. zero_experiment_report) (\<lambda>_. zero_agent_analysis) (\<lambda>_. Some []) quiet_world h ''w1'')
      (\<lambda>_. calm 100) 0 3 queue_sample = Some d' \<and> list_all (\<lambda>ev. \<not> due 100 ev) (db_Outbox d')"
proof -
  have "attempts_ok queue_sample" by (simp add: attempts_ok_def queue_sample_def zero_outbox_event_def)
  moreover have "length (filter (due 100) (db_Outbox queue_sample)) < 3" by (simp add: queue_sample_def)
  ultimately show ?thesis
    using worker_drains [of 100 "\<lambda>_. calm 100" quiet_world queue_sample 3 "\<lambda>_. zero_experiment_report"
        "\<lambda>_. zero_agent_analysis" "\<lambda>_. Some []" "''w1''" 0] by (simp add: list_all_iff)
qed

section \<open>What an experiment decides\<close>

text \<open>The event \<open>ev\<close> as a worker holds it: the stored row is the event up to the stage of the experiment,
  under a valid lease.\<close>

definition holds_lease :: "string \<Rightarrow> gotime \<Rightarrow> outbox_event \<Rightarrow> nat \<Rightarrow> db \<Rightarrow> bool" where
  "holds_lease worker now ev n d \<longleftrightarrow>
     index_by out_ID (out_ID ev) (db_Outbox d) = Some n \<and> n < length (db_Outbox d)
     \<and> (let row = db_Outbox d ! n in
          validOutboxLease row worker (out_LeaseGeneration ev) now \<and> out_AttemptID row = out_AttemptID ev
          \<and> out_InputSHA256 row = out_InputSHA256 ev \<and> out_AggregateID row = out_AggregateID ev
          \<and> out_ResultDigest row = out_ResultDigest ev)"

lemma checkpoint_held:
  assumes "holds_lease worker now ev n d" "env_save e = Saved" "env_now e = now"
  obtains d' where "CheckpointExperimentOutbox (out_ID ev) worker (out_LeaseGeneration ev) stage (out_InputSHA256 ev) e d = (Inr (), d')"
    "holds_lease worker now ev n d'" "db_Changes d' = db_Changes d"
proof
  let ?d = "d\<lparr> db_Outbox := (db_Outbox d)[n := checkpoint_row stage now (db_Outbox d ! n)] \<rparr>"
  show "CheckpointExperimentOutbox (out_ID ev) worker (out_LeaseGeneration ev) stage (out_InputSHA256 ev) e d = (Inr (), ?d)"
    using assms by (simp add: CheckpointExperimentOutbox_def holds_lease_def Let_def)
  have "out_ID (checkpoint_row stage now (db_Outbox d ! n)) = out_ID (db_Outbox d ! n)" by (simp add: checkpoint_row_def)
  then show "holds_lease worker now ev n ?d"
    using assms(1) by (simp add: holds_lease_def Let_def index_by_update) (simp add: checkpoint_row_def validOutboxLease_def)
qed simp

lemma Change_index:
  assumes "Change d i = Inr c"
  obtains n where "index_by chg_ID i (db_Changes d) = Some n" "db_Changes d ! n = c" "chg_ID c = i"
  using assms index_by_lookup [of "db_Changes d" chg_ID i] lookup_by_Some [of chg_ID i "db_Changes d" c]
  by (cases "index_by chg_ID i (db_Changes d)")
    (auto simp: Change_def find_or_not_found_def simp del: lookup_by_None split: option.splits)

lemma UpdateChange_at:
  assumes "Change d i = Inr c" "upd c = (None, c')" "chg_ID c' = chg_ID c" "env_save e = Saved"
  obtains c2 d' where "UpdateChange i upd evs e d = (Inr c2, d')" "Change d' i = Inr c2" "db_Outbox d' = db_Outbox d"
    "c2 = c'\<lparr> chg_UpdatedAt := env_now e, chg_Version := chg_Version c' + 1 \<rparr>"
proof -
  obtain n where n: "index_by chg_ID i (db_Changes d) = Some n" "db_Changes d ! n = c" "chg_ID c = i"
    by (rule Change_index [OF assms(1)])
  let ?c2 = "c'\<lparr> chg_UpdatedAt := env_now e, chg_Version := chg_Version c' + 1 \<rparr>"
  let ?d' = "append_audits e evs (d\<lparr> db_Changes := (db_Changes d)[n := ?c2] \<rparr>)"
  show ?thesis
  proof (rule that)
    show "UpdateChange i upd evs e d = (Inr ?c2, ?d')" using n assms by (simp add: UpdateChange_def Let_def)
    show "Change ?d' i = Inr ?c2"
      using n assms by (simp add: Change_def find_or_not_found_def store_frame lookup_by_update [OF n(1)])
  qed (simp_all add: store_frame)
qed

lemma finalize_at:
  assumes "holds_lease worker now ev n d" "out_ResultDigest ev = []" "Change d (out_AggregateID ev) = Inr c"
    "upd c = (None, c')" "chg_ID c' = chg_ID c" "env_save e = Saved" "env_now e = now"
  obtains c2 d' where "FinalizeExperimentOutbox (out_ID ev) worker (out_LeaseGeneration ev) (out_AttemptID ev) (out_InputSHA256 ev)
      digest upd evs e d = (Inr c2, d')" "Change d' (out_AggregateID ev) = Inr c2" "out_ResultDigest (db_Outbox d' ! n) = digest"
    "c2 = c'\<lparr> chg_UpdatedAt := now, chg_Version := chg_Version c' + 1 \<rparr>"
proof -
  let ?i = "out_AggregateID ev"
  obtain m where m: "index_by chg_ID ?i (db_Changes d) = Some m" "db_Changes d ! m = c" "chg_ID c = ?i"
    by (rule Change_index [OF assms(3)])
  let ?c2 = "c'\<lparr> chg_UpdatedAt := now, chg_Version := chg_Version c' + 1 \<rparr>"
  let ?d1 = "append_audits e evs (d\<lparr> db_Changes := (db_Changes d)[m := ?c2] \<rparr>)"
  let ?d' = "?d1\<lparr> db_Outbox := (db_Outbox ?d1)[n := finalize_row digest now (db_Outbox d ! n)] \<rparr>"
  show ?thesis
  proof (rule that)
    show "FinalizeExperimentOutbox (out_ID ev) worker (out_LeaseGeneration ev) (out_AttemptID ev) (out_InputSHA256 ev)
      digest upd evs e d = (Inr ?c2, ?d')"
      using m assms by (simp add: FinalizeExperimentOutbox_def holds_lease_def Let_def)
    show "Change ?d' ?i = Inr ?c2"
      using m assms by (simp add: Change_def find_or_not_found_def store_frame lookup_by_update [OF m(1)])
    show "out_ResultDigest (db_Outbox ?d' ! n) = digest"
      using assms(1) by (simp add: holds_lease_def store_frame finalize_row_def)
  qed simp
qed

text \<open>C24: an experiment that runs to its end under its lease decides the change: the change waits for
  approval exactly if the report is a passed shadow run on Postgres with verified rollback, for the digest and
  the rule set of the change, and fails its check otherwise; the report is stored with the digest of its text,
  and the same digest is recorded on the event, so that an event claimed again after a crash is completed
  without a second run.\<close>

theorem experiment_decides:
  assumes h: "steady now h" "quiet w" "\<And>k. \<not> we_cancelled w k"
    and ev: "holds_lease worker now ev n d" "out_ResultDigest ev = []" "out_InputSHA256 ev = chg_ArtifactSHA256 c"
    and c: "Change d (out_AggregateID ev) = Inr c" "awaits_experiment c" "chg_ArtifactSHA256 c \<noteq> []" "trim_space (chg_SQL c) \<noteq> []"
    and r: "r = experiment_report_of h (runner c) ev c" "marshal r = Some encoded"
  shows "\<exists>d' c'. runExperiment runner analyze marshal w h ev worker d = (None, d')
    \<and> Change d' (out_AggregateID ev) = Inr c' \<and> chg_ArtifactSHA256 c' = chg_ArtifactSHA256 c
    \<and> chg_Status c' = (if trustedSQLExperiment (Some r) c then StatusWaitingApproval else StatusCheckFailed)
    \<and> chg_Experiment c' = Some (r\<lparr> exp_ResultDigest := SHA256 encoded \<rparr>) \<and> out_ResultDigest (db_Outbox d' ! n) = SHA256 encoded
    \<and> (\<forall>w2 h2 ev2. out_AggregateID ev2 = out_AggregateID ev \<longrightarrow> out_InputSHA256 ev2 = out_InputSHA256 ev
          \<longrightarrow> out_ResultDigest ev2 = SHA256 encoded \<longrightarrow> runExperiment runner analyze marshal w2 h2 ev2 worker d' = (None, d'))"
proof -
  have s: "env_save (se_call h k) = Saved" "env_now (se_call h k) = now" "we_world w k x = x" for k x
    using h by (simp_all add: steady_def quiet_def)
  obtain d1 where d1: "CheckpointExperimentOutbox (out_ID ev) worker (out_LeaseGeneration ev) StagePrepare (out_InputSHA256 ev) (se_call h 1) d
      = (Inr (), d1)" "holds_lease worker now ev n d1" "db_Changes d1 = db_Changes d"
    by (rule checkpoint_held [OF ev(1) s(1,2)])
  obtain c1 where c1: "start_update h ev c = (None, c1)" "chg_ID c1 = chg_ID c" "chg_ArtifactSHA256 c1 = chg_ArtifactSHA256 c"
    using c(2) ev(3) by (simp add: start_update_def)
  have "Change d1 (out_AggregateID ev) = Inr c" using c(1) d1(3) by (simp add: Change_def)
  then obtain c2 d2 where c2: "UpdateChange (out_AggregateID ev) (start_update h ev) [start_audit h ev c] (se_call h 2) d1 = (Inr c2, d2)"
      "Change d2 (out_AggregateID ev) = Inr c2" "db_Outbox d2 = db_Outbox d1"
      "c2 = c1\<lparr> chg_UpdatedAt := env_now (se_call h 2), chg_Version := chg_Version c1 + 1 \<rparr>"
    using UpdateChange_at [where upd = "start_update h ev" and c = c and c' = c1] c1(1,2) s(1) by blast
  have "holds_lease worker now ev n d2" using d1(2) c2(3) by (simp add: holds_lease_def)
  then obtain d3 where d3: "CheckpointExperimentOutbox (out_ID ev) worker (out_LeaseGeneration ev) StageApply (out_InputSHA256 ev) (se_call h 3) d2
      = (Inr (), d3)" "holds_lease worker now ev n d3" "db_Changes d3 = db_Changes d2"
    by (rule checkpoint_held [OF _ s(1,2)])
  have latest: "Change d3 (out_AggregateID ev) = Inr c2" using c2(2) d3(3) by (simp add: Change_def)
  define r' where "r' = r\<lparr> exp_ResultDigest := SHA256 encoded \<rparr>"
  define a where "a = normalizeAdvisoryRisk (analyze (c2\<lparr> chg_Experiment := Some r \<rparr>))"
  obtain c3 where c3: "finish_update h ev r' a (finish_outcome r c) c2 = (None, c3)" "chg_ID c3 = chg_ID c2"
      "chg_ArtifactSHA256 c3 = chg_ArtifactSHA256 c" "chg_Experiment c3 = Some r'" "chg_Status c3 = fst (finish_outcome r c)"
    using c1(3) ev(3) by (cases "finish_outcome r c") (simp add: finish_update_def c2(4))
  obtain c4 d4 where d4: "FinalizeExperimentOutbox (out_ID ev) worker (out_LeaseGeneration ev) (out_AttemptID ev) (out_InputSHA256 ev)
      (SHA256 encoded) (finish_update h ev r' a (finish_outcome r c)) [finish_audit h ev c (snd (snd (finish_outcome r c)))] (se_call h 5) d3
      = (Inr c4, d4)" "Change d4 (out_AggregateID ev) = Inr c4" "out_ResultDigest (db_Outbox d4 ! n) = SHA256 encoded"
      "c4 = c3\<lparr> chg_UpdatedAt := now, chg_Version := chg_Version c3 + 1 \<rparr>"
    using finalize_at [where upd = "finish_update h ev r' a (finish_outcome r c)" and c = c2 and c' = c3] d3(2) ev(2) latest c3(1,2) s(1,2) by blast
  have "finish_experiment analyze marshal w h ev worker c r d3 = (None, d4)"
    using c1(3) ev(3) h(3) r(2) d4(1) by (simp add: finish_experiment_def latest c2(4) Let_def s(3) r'_def a_def)
  then have "runExperiment runner analyze marshal w h ev worker d = (None, d4)"
    using c ev(2,3) h(3) d1(1) c2(1) d3(1) r(1) by (simp add: runExperiment_def s(3))
  moreover have "SHA256 encoded \<noteq> []"
    by (metis SHA256_hex(2) list.size(3) zero_neq_numeral)
  then have "runExperiment runner analyze marshal w2 h2 ev2 worker d4 = (None, d4)"
    if "out_AggregateID ev2 = out_AggregateID ev" "out_InputSHA256 ev2 = out_InputSHA256 ev" "out_ResultDigest ev2 = SHA256 encoded" for w2 h2 ev2
    using that d4(2,4) c3(3) c(3) ev(3) by (simp add: runExperiment_def)
  ultimately show ?thesis using d4(2-4) c3 by (auto simp: r'_def finish_outcome_def)
qed

definition held_event :: outbox_event where
  "held_event = zero_outbox_event
     \<lparr> out_ID := ''out_1'', out_EventType := ''experiment.requested'', out_AggregateID := ''chg_1'', out_Status := OutboxProcessing,
       out_LockedBy := ''w1'', out_LeaseGeneration := 1, out_LockedUntil := Some 200, out_InputSHA256 := ''ab'' \<rparr>"

definition queued_change :: change_request where
  "queued_change = zero_change_request
     \<lparr> chg_ID := ''chg_1'', chg_Status := StatusExperimentQueued, chg_ArtifactSHA256 := ''ab'', chg_SQL := ''select 1'' \<rparr>"

text \<open>A runner that reports success without a shadow database: the change fails its check.\<close>

theorem experiment_decides_witness:
  "\<exists>d' c'. runExperiment (\<lambda>_. zero_experiment_report\<lparr> exp_Mode := ''DEMO_ONLY'', exp_Status := ''PASSED'' \<rparr>) (\<lambda>_. zero_agent_analysis)
        (\<lambda>_. Some ''{}'') quiet_world (calm 100) held_event ''w1''
        (empty_db\<lparr> db_Outbox := [held_event], db_Changes := [queued_change] \<rparr>) = (None, d')
     \<and> Change d' ''chg_1'' = Inr c' \<and> chg_Status c' = StatusCheckFailed"
proof -
  let ?runner = "\<lambda>_ :: change_request. zero_experiment_report\<lparr> exp_Mode := ''DEMO_ONLY'', exp_Status := ''PASSED'' \<rparr>"
  let ?d = "empty_db\<lparr> db_Outbox := [held_event], db_Changes := [queued_change] \<rparr>"
  have f: "holds_lease ''w1'' 100 held_event 0 ?d" "out_ResultDigest held_event = []"
    "out_InputSHA256 held_event = chg_ArtifactSHA256 queued_change" "Change ?d (out_AggregateID held_event) = Inr queued_change"
    "awaits_experiment queued_change" "chg_ArtifactSHA256 queued_change \<noteq> []" "\<not> we_cancelled quiet_world k" for k
    by (simp_all add: holds_lease_def held_event_def queued_change_def zero_outbox_event_def index_by_def validOutboxLease_def
        Change_def find_or_not_found_def lookup_by_def awaits_experiment_def quiet_world_def)
  have sql: "trim_space (chg_SQL queued_change) \<noteq> []" by code_simp
  have "\<not> equal_fold ''DEMO_ONLY'' ''POSTGRES''" by code_simp
  then have "\<not> trustedSQLExperiment (Some (experiment_report_of (calm 100) (?runner queued_change) held_event queued_change)) queued_change"
    by (simp add: trustedSQLExperiment_def experiment_report_of_def enrichReleaseReport_def Let_def)
  then show ?thesis
    using experiment_decides [OF calm_steady quiet_world_quiet f(7) f(1-6) sql refl, where runner = ?runner and marshal = "\<lambda>_. Some ''{}''"
        and encoded = "''{}''" and analyze = "\<lambda>_. zero_agent_analysis"]
    by (auto simp: held_event_def)
qed

end
