(* ===== verification/Governance.thy ===== *)
theory Governance
  imports Gate Worker
begin

text \<open>
  What holds of every change however the handlers of the service and the workers interleave. A handler checks
  a snapshot of the state and writes to the state it finds later; here the snapshot may be any earlier state.
  The lemmas show that nobody's own approval stands, that a passport comes from a reviewer who is not the
  submitter, and that a change is completed only by the consumption of a passport for its content. The last
  part shows what such a stale snapshot can do.
\<close>

section \<open>The invariant\<close>

definition row_key :: "change_request \<Rightarrow> string \<times> string \<times> string" where
  "row_key c = (chg_ID c, chg_OrganizationID c, chg_SubmitterID c)"

text \<open>The changes of a later state: the earlier ones in their places, with identifier, organization and
  submitter unchanged, and new ones after them.\<close>

definition grows :: "db \<Rightarrow> db \<Rightarrow> bool" where
  "grows d d' \<longleftrightarrow> (\<exists>new. map row_key (db_Changes d') = map row_key (db_Changes d) @ new)"

definition independent :: "change_request \<Rightarrow> bool" where
  "independent c \<longleftrightarrow> (chg_Status c = StatusApproved \<or> chg_Status c = StatusCompleted \<longrightarrow> chg_ReviewerID c \<noteq> chg_SubmitterID c)"

definition same_release :: "change_request \<Rightarrow> stored_passport \<Rightarrow> bool" where
  "same_release c p \<longleftrightarrow> pass_ChangeID p = chg_ID c \<and> pass_OrganizationID p = chg_OrganizationID c
     \<and> pass_ArtifactSHA256 p = chg_ArtifactSHA256 c \<and> pass_Environment p = chg_Environment c
     \<and> pass_RuleSetVersion p = chg_RuleSetVersion c"

definition completed_by_passport :: "stored_passport list \<Rightarrow> change_request \<Rightarrow> bool" where
  "completed_by_passport ps c \<longleftrightarrow>
     (chg_Status c = StatusCompleted \<longrightarrow> (\<exists>p\<in>set ps. pass_Status p = PassportConsumed \<and> same_release c p))"

definition issued_independently :: "change_request list \<Rightarrow> stored_passport \<Rightarrow> bool" where
  "issued_independently cs p \<longleftrightarrow>
     (\<exists>c. lookup_by chg_ID (pass_ChangeID p) cs = Some c \<and> chg_OrganizationID c = pass_OrganizationID p
        \<and> pass_ApproverID p \<noteq> chg_SubmitterID c)"

definition governance_ok :: "db \<Rightarrow> bool" where
  "governance_ok d \<longleftrightarrow>
     list_all independent (db_Changes d) \<and> list_all (completed_by_passport (db_Passports d)) (db_Changes d)
     \<and> list_all (issued_independently (db_Changes d)) (db_Passports d)"

lemma grows_refl [simp]: "grows d d"
  by (simp add: grows_def)

lemma grows_trans: "grows d d' \<Longrightarrow> grows d' d'' \<Longrightarrow> grows d d''"
  by (auto simp: grows_def)

lemma lookup_keys:
  assumes "map row_key ys = map row_key xs @ new" "lookup_by chg_ID i xs = Some c"
  obtains n where "index_by chg_ID i ys = Some n" "n < length ys" "row_key (ys ! n) = row_key c"
    "lookup_by chg_ID i ys = Some (ys ! n)"
proof -
  have "\<exists>n. index_by chg_ID i ys = Some n \<and> row_key (ys ! n) = row_key c"
    using assms
  proof (induction xs arbitrary: ys)
    case (Cons x xs)
    obtain y ys' where ys: "ys = y # ys'" "row_key y = row_key x" "map row_key ys' = map row_key xs @ new"
      using Cons.prems(1) by (cases ys) auto
    show ?case
    proof (cases "chg_ID x = i")
      case True
      then show ?thesis using Cons.prems(2) ys(2) by (auto simp: ys(1) index_by_def lookup_by_Cons row_key_def)
    next
      case False
      then have "lookup_by chg_ID i xs = Some c" "chg_ID y \<noteq> i"
        using Cons.prems(2) ys(2) by (auto simp: lookup_by_Cons row_key_def)
      with Cons.IH [OF ys(3)] show ?thesis by (auto simp: ys(1) index_by_def)
    qed
  qed (simp add: lookup_by_def)
  then obtain n where "index_by chg_ID i ys = Some n" "row_key (ys ! n) = row_key c" by blast
  with that index_by_Some [of chg_ID i ys n] show ?thesis by blast
qed

lemma grows_lookup:
  assumes "grows d d'" "Change d i = Inr c"
  obtains n where "index_by chg_ID i (db_Changes d') = Some n" "n < length (db_Changes d')"
    "row_key (db_Changes d' ! n) = row_key c" "lookup_by chg_ID i (db_Changes d') = Some (db_Changes d' ! n)"
proof -
  obtain new where new: "map row_key (db_Changes d') = map row_key (db_Changes d) @ new" using assms(1) by (auto simp: grows_def)
  have "lookup_by chg_ID i (db_Changes d) = Some c" using assms(2) by (simp add: Change_Inr)
  then show ?thesis by (rule lookup_keys [OF new]) (rule that)
qed

lemma issued_keys:
  assumes "issued_independently xs p" "map row_key ys = map row_key xs @ new" "pass_ChangeID q = pass_ChangeID p"
    "pass_OrganizationID q = pass_OrganizationID p" "pass_ApproverID q = pass_ApproverID p"
  shows "issued_independently ys q"
proof -
  obtain c where c: "lookup_by chg_ID (pass_ChangeID p) xs = Some c" "chg_OrganizationID c = pass_OrganizationID p"
      "pass_ApproverID p \<noteq> chg_SubmitterID c"
    using assms(1) by (auto simp: issued_independently_def)
  obtain n where "row_key (ys ! n) = row_key c" "lookup_by chg_ID (pass_ChangeID p) ys = Some (ys ! n)"
    by (rule lookup_keys [OF assms(2) c(1)])
  then show ?thesis using c assms(3-5) by (auto simp: issued_independently_def row_key_def)
qed

lemma row_next_approver: "row_next a b \<Longrightarrow> pass_ApproverID b = pass_ApproverID a"
  unfolding row_next_def by (auto elim!: pass_stepE simp: consumed_item_def revoked_item_def)

text \<open>An edit of a change that the invariant allows: it leaves the key alone and does not decide, or it keeps the
  decision with its content, or it approves for someone else.\<close>

definition fair_edit :: "change_request \<Rightarrow> change_request \<Rightarrow> bool" where
  "fair_edit c c' \<longleftrightarrow> row_key c' = row_key c
     \<and> (chg_Status c' \<noteq> StatusApproved \<and> chg_Status c' \<noteq> StatusCompleted
        \<or> chg_Status c' = chg_Status c \<and> chg_ReviewerID c' = chg_ReviewerID c \<and> chg_ArtifactSHA256 c' = chg_ArtifactSHA256 c
          \<and> chg_Environment c' = chg_Environment c \<and> chg_RuleSetVersion c' = chg_RuleSetVersion c
        \<or> chg_Status c' = StatusApproved \<and> chg_ReviewerID c' \<noteq> chg_SubmitterID c')"

lemma fair_edit_refl [simp]: "fair_edit c c"
  by (simp add: fair_edit_def)

lemma fair_edit_stamp [simp]: "fair_edit c (c'\<lparr> chg_UpdatedAt := t, chg_Version := v \<rparr>) \<longleftrightarrow> fair_edit c c'"
  by (simp add: fair_edit_def row_key_def)

lemma fair_edit_keeps:
  assumes "fair_edit c c'" "independent c" "completed_by_passport ps c"
  shows "independent c'" "completed_by_passport ps c'" "row_key c' = row_key c"
  using assms by (auto simp: fair_edit_def independent_def completed_by_passport_def same_release_def row_key_def)

section \<open>The contract of a handler\<close>

text \<open>With every save done, a handler keeps the invariant, the changes it found, and the life of the passports,
  whatever earlier state its snapshot is. \<open>op h snap d\<close> is the handler in the environment \<open>h\<close>.\<close>

definition all_saved :: "senv \<Rightarrow> bool" where
  "all_saved h \<longleftrightarrow> (\<forall>k. env_save (se_call h k) = Saved)"

definition governed_step :: "db \<Rightarrow> db \<Rightarrow> bool" where
  "governed_step d d' \<longleftrightarrow> grows d d' \<and> rows_next (db_Passports d) (db_Passports d') \<and> (governance_ok d \<longrightarrow> governance_ok d')"

locale governed =
  fixes op :: "senv \<Rightarrow> db \<Rightarrow> db \<Rightarrow> 'r \<times> db"
  assumes step: "all_saved h \<Longrightarrow> grows snap d \<Longrightarrow> governed_step d (snd (op h snap d))"
begin

lemma keeps: "all_saved h \<Longrightarrow> grows snap d \<Longrightarrow> governance_ok d \<Longrightarrow> governance_ok (snd (op h snap d))"
  and extends: "all_saved h \<Longrightarrow> grows snap d \<Longrightarrow> grows d (snd (op h snap d))"
  using step by (auto simp: governed_step_def)

end

lemma governed_refl [simp]: "governed_step d d"
  by (simp add: governed_step_def)

lemma governed_trans: "governed_step d d' \<Longrightarrow> governed_step d' d'' \<Longrightarrow> governed_step d d''"
  using grows_trans rows_next_trans by (auto simp: governed_step_def)

text \<open>A step that touches neither changes nor passports.\<close>

lemma governed_frame:
  "db_Changes d' = db_Changes d \<Longrightarrow> db_Passports d' = db_Passports d \<Longrightarrow> governed_step d d'"
  by (simp add: governed_step_def grows_def governance_ok_def)

lemma governed_edit:
  assumes "db_Changes d' = (db_Changes d)[n := c]" "db_Passports d' = db_Passports d" "n < length (db_Changes d)"
    "fair_edit (db_Changes d ! n) c"
  shows "governed_step d d'"
proof -
  have keys: "map row_key (db_Changes d') = map row_key (db_Changes d)"
    using assms by (simp add: map_update fair_edit_def) (simp add: list_update_same_conv)
  then have "governance_ok d'" if "governance_ok d"
    using that assms fair_edit_keeps [OF assms(4)] issued_keys [of "db_Changes d" _ "db_Changes d'" "[]"]
    by (auto simp: governance_ok_def list_all_length nth_list_update)
  then show ?thesis using keys assms(2) by (auto simp: governed_step_def grows_def)
qed

section \<open>The operations of the store\<close>

lemma UpdateChange_governed:
  assumes "env_save e = Saved" "\<And>n. index_by chg_ID i (db_Changes d) = Some n \<Longrightarrow> fair_edit (db_Changes d ! n) (snd (upd (db_Changes d ! n)))"
  shows "governed_step d (snd (UpdateChange i upd evs e d))"
proof (cases "index_by chg_ID i (db_Changes d)")
  case (Some n)
  have n: "n < length (db_Changes d)" using index_by_Some [OF Some] by simp
  have fair: "fair_edit (db_Changes d ! n) (snd (upd (db_Changes d ! n)))" using assms(2) Some by blast
  obtain er c where u: "upd (db_Changes d ! n) = (er, c)" by fastforce
  show ?thesis
    using fair u n Some assms(1)
    by (cases er) (auto simp: UpdateChange_def Let_def store_frame intro: governed_edit [where n = n])
qed (simp add: UpdateChange_def del: index_by_None)

lemma UpdateChangeWithOutbox_governed:
  assumes "env_save e = Saved" "\<And>c. fair_edit c (snd (upd c))"
  shows "governed_step d (snd (UpdateChangeWithOutbox i upd event evs e d))"
proof (cases "index_by chg_ID i (db_Changes d)")
  case (Some n)
  have n: "n < length (db_Changes d)" using index_by_Some [OF Some] by simp
  obtain er c where u: "upd (db_Changes d ! n) = (er, c)" by fastforce
  with assms(2) [of "db_Changes d ! n"] show ?thesis
    using n Some assms(1)
    by (cases er) (auto simp: UpdateChangeWithOutbox_def Let_def store_frame intro: governed_edit [where n = n])
qed (simp add: UpdateChangeWithOutbox_def del: index_by_None)

lemma Finalize_governed:
  assumes "env_save e = Saved" "\<And>c. fair_edit c (snd (upd c))"
  shows "governed_step d (snd (FinalizeExperimentOutbox i worker generation attempt input result upd evs e d))"
proof (cases "\<exists>n m c. index_by out_ID i (db_Outbox d) = Some n \<and> index_by chg_ID (out_AggregateID (db_Outbox d ! n)) (db_Changes d) = Some m
    \<and> upd (db_Changes d ! m) = (None, c)")
  case True
  then obtain n m c where nm: "index_by out_ID i (db_Outbox d) = Some n"
    "index_by chg_ID (out_AggregateID (db_Outbox d ! n)) (db_Changes d) = Some m" "upd (db_Changes d ! m) = (None, c)" by blast
  then have "m < length (db_Changes d)" "fair_edit (db_Changes d ! m) c" using index_by_Some assms(2) [of "db_Changes d ! m"] by fastforce+
  with nm assms(1) show ?thesis
    by (auto simp: FinalizeExperimentOutbox_def Let_def store_frame intro: governed_edit [where n = m])
next
  case False
  then show ?thesis
    by (auto simp: FinalizeExperimentOutbox_def Let_def simp del: index_by_None split: option.splits prod.splits)
qed

lemma CreateChange_governed:
  assumes "env_save e = Saved" "chg_Status c = StatusDraft"
  shows "governed_step d (snd (CreateChange c ev e d))"
proof -
  let ?d = "snd (CreateChange c ev e d)"
  have changes: "db_Changes ?d = db_Changes d @ [c]" "db_Passports ?d = db_Passports d"
    using assms by (simp_all add: CreateChange_def store_frame)
  then show ?thesis
    using assms(2) issued_keys [of "db_Changes d" _ "db_Changes ?d" "[row_key c]"]
    by (auto simp: governed_step_def grows_def governance_ok_def list_all_iff independent_def completed_by_passport_def)
qed

text \<open>Operations on passports: the rows move on, and new rows were issued independently.\<close>

lemma governed_passports:
  assumes "db_Changes d' = db_Changes d" "rows_next (db_Passports d) (db_Passports d')"
    "governance_ok d \<Longrightarrow> list_all (issued_independently (db_Changes d)) (drop (length (db_Passports d)) (db_Passports d'))"
  shows "governed_step d d'"
proof -
  have "governance_ok d'" if ok: "governance_ok d"
  proof -
    have "completed_by_passport (db_Passports d') c" if "completed_by_passport (db_Passports d) c" for c
      using that rows_next_terminal [OF assms(2)]
      by (fastforce simp: completed_by_passport_def in_set_conv_nth terminal_def)
    moreover have "issued_independently (db_Changes d) (db_Passports d' ! n)" if "n < length (db_Passports d')" for n
    proof (cases "n < length (db_Passports d)")
      case True
      then have "row_next (db_Passports d ! n) (db_Passports d' ! n)" using assms(2) by (simp add: rows_next_def)
      then show ?thesis
        using ok True row_next_fields row_next_approver
          issued_keys [of "db_Changes d" "db_Passports d ! n" "db_Changes d" "[]" "db_Passports d' ! n"]
        by (auto simp: governance_ok_def list_all_length)
    next
      case False
      then show ?thesis using assms(3) [OF ok] that
        by (auto simp: list_all_length) (metis add_diff_inverse_nat diff_less_mono not_less)
    qed
    ultimately show ?thesis using ok assms(1) by (auto simp: governance_ok_def list_all_iff in_set_conv_nth)
  qed
  then show ?thesis using assms(1,2) by (simp add: governed_step_def grows_def)
qed

lemma revocations_governed:
  assumes "env_save e = Saved"
  shows "governed_step d (snd (RevokePassport org i actor tm ev e d))"
    and "governed_step d (snd (RevokePassportsByChange org i actor tm ev e d))"
    and "governed_step d (snd (RecordAudit ev e d))"
proof -
  show "governed_step d (snd (RevokePassport org i actor tm ev e d))"
    using revoke_passport.rows [OF assms] assms
    by (intro governed_passports) (auto simp: RevokePassport_def Let_def store_frame split: option.splits)
  show "governed_step d (snd (RevokePassportsByChange org i actor tm ev e d))"
    using revoke_by_change.rows [OF assms] assms
    by (intro governed_passports) (auto simp: RevokePassportsByChange_def Let_def store_frame)
  show "governed_step d (snd (RecordAudit ev e d))"
    using assms by (intro governed_frame) (auto simp: RecordAudit_def store_frame)
qed

lemma CreatePassport_governed:
  assumes "env_save e = Saved" "issued_independently (db_Changes d) (store_passport p)"
  shows "governed_step d (snd (CreatePassport p ev e d))"
proof (cases "fst (CreatePassport p ev e d)")
  case (Inl er)
  then have "snd (CreatePassport p ev e d) = d" using assms(1) by (simp add: CreatePassport_Saved split: if_splits)
  then show ?thesis by simp
next
  case (Inr u)
  then have run: "CreatePassport p ev e d = (Inr u, snd (CreatePassport p ev e d))" by (metis prod.collapse)
  show ?thesis
    using create_passport.rows [OF assms(1), of d p ev] CreatePassport_Inr(3,4) [OF run] assms(2)
    by (intro governed_passports) auto
qed

lemma UsePassport_governed:
  assumes saved: "env_save e = Saved"
  shows "governed_step d (snd (UsePassport i tok consumer tm consume ev e d))"
proof -
  let ?d' = "snd (UsePassport i tok consumer tm consume ev e d)"
  note rows = use_passport.rows [OF saved, of d i tok consumer tm consume ev]
  show ?thesis
  proof (cases rule: UsePassport_cases [of i tok consumer tm consume ev e d])
    case (untouched r)
    then show ?thesis by simp
  next
    case (expire n)
    then show ?thesis
      using rows saved by (intro governed_passports) (auto simp: expire_on_use_def Let_def store_frame)
  next
    case (consume n m)
    let ?item = "db_Passports d ! n" and ?c = "db_Changes d ! m"
    let ?c' = "completed_change ?c consumer tm (env_id e 0)"
    have ps: "db_Passports ?d' = (db_Passports d)[n := consumed_item ?item consumer tm]"
      and cs: "db_Changes ?d' = (db_Changes d)[m := ?c']"
      using saved by (simp_all add: consume(10) consume_Saved store_frame)
    let ?mid = "d\<lparr> db_Passports := db_Passports ?d' \<rparr>"
    have key: "chg_ID ?c = pass_ChangeID ?item" "chg_OrganizationID ?c = pass_OrganizationID ?item"
      using find_index_of_Some [OF consume(7) [unfolded change_of_def]] by auto
    have mid: "governed_step d ?mid" using rows by (intro governed_passports) (auto simp: ps)
    have keys: "map row_key (db_Changes ?d') = map row_key (db_Changes d)"
      using consume(8) by (simp add: cs map_update) (simp add: list_update_same_conv row_key_def completed_change_def)
    have "governance_ok ?d'" if ok: "governance_ok d"
    proof -
      have m: "governance_ok ?mid" using mid ok by (simp add: governed_step_def)
      have "independent ?c" using ok consume(8) by (simp add: governance_ok_def list_all_length)
      then have "independent ?c'" using consume(9) by (simp add: independent_def completed_change_def bound_change_def)
      moreover have "same_release ?c' (consumed_item ?item consumer tm)"
        using consume(9) key by (simp add: same_release_def completed_change_def bound_change_def consumed_item_def)
      then have "completed_by_passport (db_Passports ?d') ?c'"
        using consume(3) unfolding completed_by_passport_def ps
        by (auto intro!: bexI [of _ "consumed_item ?item consumer tm"] set_update_memI)
      ultimately show ?thesis
        using m issued_keys [of "db_Changes d" _ "db_Changes ?d'" "[]"] keys consume(8)
        by (auto simp: governance_ok_def list_all_length cs nth_list_update)
    qed
    then show ?thesis using rows keys by (auto simp: governed_step_def grows_def)
  qed
qed

section \<open>The handlers meet the contract\<close>

lemma all_savedD: "all_saved h \<Longrightarrow> env_save (se_call h k) = Saved"
  by (simp add: all_saved_def)

text \<open>A handler is a tree of checks that return early, with calls of the store at its leaves: these rules walk
  through the checks.\<close>

named_theorems governed_intro

lemma governed_if [governed_intro]:
  "(P \<Longrightarrow> governed_step d (snd a)) \<Longrightarrow> (\<not> P \<Longrightarrow> governed_step d (snd b)) \<Longrightarrow> governed_step d (snd (if P then a else b))"
  by simp

lemma governed_sum [governed_intro]:
  "(\<And>er. r = Inl er \<Longrightarrow> governed_step d (snd (f er))) \<Longrightarrow> (\<And>x. r = Inr x \<Longrightarrow> governed_step d (snd (g x)))
     \<Longrightarrow> governed_step d (snd (case r of Inl er \<Rightarrow> f er | Inr x \<Rightarrow> g x))"
  by (cases r) auto

lemma governed_option [governed_intro]:
  "(r = None \<Longrightarrow> governed_step d (snd a)) \<Longrightarrow> (\<And>x. r = Some x \<Longrightarrow> governed_step d (snd (g x)))
     \<Longrightarrow> governed_step d (snd (case r of None \<Rightarrow> a | Some x \<Rightarrow> g x))"
  by (cases r) auto

lemma governed_let [governed_intro]: "(\<And>x. x = a \<Longrightarrow> governed_step d (snd (f x))) \<Longrightarrow> governed_step d (snd (Let a f))"
  by simp

lemma governed_early [governed_intro]: "governed_step d (snd (r, d))"
  by simp

lemma governed_pair: "governed_step d (snd (f (fst r) (snd r))) \<Longrightarrow> governed_step d (snd (case r of (x, y) \<Rightarrow> f x y))"
  by (cases r) simp

lemma governed_call:
  "governed_step d (snd r) \<Longrightarrow> (\<And>er d'. governed_step d d' \<Longrightarrow> governed_step d (snd (f er d')))
     \<Longrightarrow> (\<And>x d'. r = (Inr x, d') \<Longrightarrow> governed_step d d' \<Longrightarrow> governed_step d (snd (g x d')))
     \<Longrightarrow> governed_step d (snd (case r of (Inl er, d') \<Rightarrow> f er d' | (Inr x, d') \<Rightarrow> g x d'))"
  by (cases r; cases "fst r") auto

lemma revoke_passports_governed: "all_saved h \<Longrightarrow> governed_step d d' \<Longrightarrow> governed_step d (revoke_passports h n actor i detail k d')"
  unfolding revoke_passports_def by (erule governed_trans) (rule revocations_governed(2), erule all_savedD)

lemma new_change_draft [simp]: "chg_Status (new_change h actor app dr key task planned x) = StatusDraft"
  by (simp add: new_change_def write_draft_def Let_def)

lemma edited_change_fair [simp]: "fair_edit c (edited_change h actor app dr planned x c)"
  by (simp add: fair_edit_def edited_change_def write_draft_def row_key_def)

lemma submit_update_fair [simp]: "fair_edit item (submit_update h actor c r rules analysis item)"
  by (simp add: fair_edit_def submit_update_def submit_outcome_def row_key_def Let_def)

lemma queue_update_fair [simp]: "fair_edit item (queue_update h actor item)"
  by (simp add: fair_edit_def queue_update_def row_key_def)

lemma comment_fair [simp]: "fair_edit item (item\<lparr> chg_Comments := cs \<rparr>)"
  by (simp add: fair_edit_def row_key_def)

lemma update_finding_fair [simp]: "fair_edit c (snd (update_finding i f entry c))"
  by (simp add: update_finding_def fair_edit_def row_key_def split: option.split)

lemma fair_edit_undecided: "fair_edit c c' \<Longrightarrow> row_key c'' = row_key c' \<Longrightarrow> chg_Status c'' \<noteq> StatusApproved
    \<Longrightarrow> chg_Status c'' \<noteq> StatusCompleted \<Longrightarrow> fair_edit c c''"
  by (simp add: fair_edit_def)

lemma verify_update_fair [simp]: "fair_edit c (snd (verify_update h actor i approved comment c))"
proof -
  have close: "row_key (close_findings h actor c') = row_key c'" "chg_Status (close_findings h actor c') \<noteq> StatusApproved"
    "chg_Status (close_findings h actor c') \<noteq> StatusCompleted" for c'
    by (simp_all add: close_findings_def Let_def row_key_def)
  obtain er c' where u: "update_finding i (verified actor approved comment (se_now h))
      (\<lambda>s. timeline h 0 s (if approved then txt_verify_title else txt_verify_reject_title) comment (usr_Name actor)) c = (er, c')"
    by fastforce
  with update_finding_fair have "fair_edit c c'" by (metis snd_conv)
  with u show ?thesis
    using fair_edit_undecided [OF _ close] by (cases er) (auto simp: verify_update_def Let_def)
qed

interpretation create: governed "\<lambda>h. create h x actorID key task" for x actorID key task
  by unfold_locales
    (unfold create_def, intro governed_intro governed_call, auto intro: CreateChange_governed all_savedD)

interpretation update: governed "\<lambda>h. Update h i x actorID" for i x actorID
  by unfold_locales
    (unfold Update_def, intro governed_intro governed_call, auto intro: UpdateChange_governed revoke_passports_governed all_savedD)

interpretation submit: governed "\<lambda>h. Submit compile analyze h i actorID" for compile analyze i actorID
proof unfold_locales
  fix h snap d
  assume h: "all_saved h"
  have hits: "governed_step d1 (snd (RecordPolicyHitsForOrganization org codes (se_call h 1) d1))" for org codes d1
    using all_savedD [OF h] by (intro governed_frame) (auto simp: RecordPolicyHitsForOrganization_def store_frame Let_def)
  have change: "governed_step d1 (snd (UpdateChange i (\<lambda>item. (None, submit_update h actor c r rules a item)) evs (se_call h 2) d1))"
    for actor c r rules a evs d1
    by (rule UpdateChange_governed) (simp_all add: all_savedD [OF h])
  have "governed_step d (snd (UpdateChange i (\<lambda>item. (None, submit_update h actor c r rules a item)) evs (se_call h 2)
      (snd (RecordPolicyHitsForOrganization org codes (se_call h 1) (revoke_passports h 0 actor i detail 0 d)))))"
    for actor c r rules a evs org codes detail
    by (rule governed_trans [OF _ change]) (rule governed_trans [OF _ hits], rule revoke_passports_governed [OF h governed_refl])
  then show "governed_step d (snd (Submit compile analyze h i actorID snap d))"
    unfolding Submit_def by (intro governed_intro) simp_all
qed

interpretation queue: governed "\<lambda>h. QueueExperiment h i actorID" for i actorID
  by unfold_locales
    (unfold QueueExperiment_def, intro governed_intro, auto intro: UpdateChangeWithOutbox_governed all_savedD)

interpretation comment: governed "\<lambda>h. AddComment h i actorID content" for i actorID content
  by unfold_locales (unfold AddComment_def, intro governed_intro, auto intro: UpdateChange_governed all_savedD)

interpretation assign: governed "\<lambda>h. AssignFinding h i findingID actorID x" for i findingID actorID x
  by unfold_locales (unfold AssignFinding_def, intro governed_intro, auto intro: UpdateChange_governed all_savedD)

interpretation resolve: governed "\<lambda>h. ResolveFinding h i findingID actorID resolution" for i findingID actorID resolution
  by unfold_locales (unfold ResolveFinding_def, intro governed_intro, auto intro: UpdateChange_governed all_savedD)

interpretation verify: governed "\<lambda>h. VerifyFinding h i findingID actorID x" for i findingID actorID x
  by unfold_locales (unfold VerifyFinding_def, intro governed_intro, auto intro: UpdateChange_governed all_savedD)

text \<open>An approval writes to the row it finds, whose submitter is the one of the snapshot: it is not the
  approver.\<close>

lemma decided_reject_fair [simp]: "fair_edit item (decided h StatusRejected title actor comment item)"
  by (simp add: fair_edit_def decided_def row_key_def)

lemma decided_approve_fair: "usr_ID actor \<noteq> chg_SubmitterID item \<Longrightarrow> fair_edit item (decided h StatusApproved title actor comment item)"
  by (simp add: fair_edit_def decided_def row_key_def)

lemma snapshot_submitter:
  assumes "grows snap d" "Change snap i = Inr c" "index_by chg_ID i (db_Changes d) = Some n"
  shows "chg_SubmitterID (db_Changes d ! n) = chg_SubmitterID c"
  by (rule grows_lookup [OF assms(1,2)]) (use assms(3) in \<open>simp add: row_key_def\<close>)

interpretation approve: governed "\<lambda>h. Approve h i actorID comment" for i actorID comment
proof unfold_locales
  fix h snap d
  assume h: "all_saved h" and snap: "grows snap d"
  have "governed_step d (snd (UpdateChange i (\<lambda>item. (None, decided h StatusApproved title actor reason item)) evs (se_call h 0) d))"
    if "Change snap i = Inr c" "decider_error snap actor c = None" for c actor title reason evs
    using snapshot_submitter [OF snap that(1)] that(2) all_savedD [OF h]
    by (intro UpdateChange_governed) (auto simp: decider_error_def split: if_splits intro!: decided_approve_fair)
  then show "governed_step d (snd (Approve h i actorID comment snap d))"
    unfolding Approve_def by (intro governed_intro) auto
qed

interpretation reject: governed "\<lambda>h. Reject h i actorID comment" for i actorID comment
  by unfold_locales
    (unfold Reject_def, intro governed_intro governed_call, auto intro: UpdateChange_governed revoke_passports_governed all_savedD)

section \<open>Passports\<close>

text \<open>A passport is issued by the reviewer of the snapshot, who is not its submitter.\<close>

interpretation issue: governed "\<lambda>h. IssuePassport v h entropy i actorID ttl" for v entropy i actorID ttl
proof unfold_locales
  fix h snap d
  assume h: "all_saved h" and snap: "grows snap d"
  have "governed_step d (snd (CreatePassport (issued_passport pid c token now expires) ev (se_call h 0) d))"
    if found: "Change snap i = Inr c" "issue_error snap actor c = None" for c actor pid token now expires ev
  proof (rule CreatePassport_governed [OF all_savedD [OF h]])
    have c: "chg_ReviewerID c \<noteq> chg_SubmitterID c" "chg_ID c = i"
      using found by (auto simp: issue_error_def Change_Inr dest!: lookup_by_Some split: if_splits)
    obtain n where "row_key (db_Changes d ! n) = row_key c" "lookup_by chg_ID i (db_Changes d) = Some (db_Changes d ! n)"
      by (rule grows_lookup [OF snap found(1)])
    with c show "issued_independently (db_Changes d) (store_passport (issued_passport pid c token now expires))"
      by (simp add: issued_independently_def issued_passport_def store_passport_def passport.defs row_key_def)
  qed
  note create = this
  show "governed_step d (snd (IssuePassport v h entropy i actorID ttl snap d))"
    unfolding IssuePassport_def by (intro governed_intro governed_pair) (simp_all add: create)
qed

interpretation gate: governed "\<lambda>h. VerifyGate v h x consume" for v x consume
proof unfold_locales
  fix h snap d
  assume h: "all_saved h"
  have "governed_step d' (snd (RecordAudit ev (se_call h 1) d'))" for ev d'
    by (rule revocations_governed(3)) (rule all_savedD [OF h])
  then show "governed_step d (snd (VerifyGate v h x consume snap d))"
    unfolding VerifyGate_def
    by (intro governed_intro governed_call) (auto intro: UsePassport_governed all_savedD [OF h] governed_trans)
qed

interpretation take_back: governed "\<lambda>h. RevokePassport_service h i passportID actorID" for i passportID actorID
  by unfold_locales
    (unfold RevokePassport_service_def, intro governed_intro, auto intro: revocations_governed(1) all_savedD)

section \<open>The worker\<close>

lemma start_update_fair: "fair_edit item (snd (start_update h ev item))"
  by (simp add: fair_edit_def start_update_def row_key_def)

lemma finish_update_fair:
  "fst outcome \<noteq> StatusApproved \<Longrightarrow> fst outcome \<noteq> StatusCompleted \<Longrightarrow> fair_edit item (snd (finish_update h ev r a outcome item))"
  by (cases outcome) (simp add: fair_edit_def finish_update_def row_key_def)

interpretation worker_start: governed "\<lambda>h _. UpdateChange i (start_update h ev) evs (se_call h 2)" for i ev evs
  by unfold_locales (rule UpdateChange_governed, simp_all add: all_savedD start_update_fair)

interpretation worker_finish: governed "\<lambda>h _. FinalizeExperimentOutbox i worker generation attempt input result
    (finish_update h ev r a (finish_outcome r' c)) evs (se_call h 5)" for i worker generation attempt input result ev r a r' c evs
  by unfold_locales
    (rule Finalize_governed, simp_all add: all_savedD, rule finish_update_fair, simp_all add: finish_outcome_def)

section \<open>Runs\<close>

text \<open>One step: a handler with a snapshot, one atomic write of a worker, or any step that leaves the changes and the
  passports alone: the members, the applications, the rules, the leases, the records of idempotency, and the
  audit chain.\<close>

inductive handler_step :: "senv \<Rightarrow> db \<Rightarrow> db \<Rightarrow> db \<Rightarrow> bool" where
  step_create: "handler_step h snap d (snd (create h x actorID key task snap d))"
| step_update: "handler_step h snap d (snd (Update h i x actorID snap d))"
| step_submit: "handler_step h snap d (snd (Submit compile analyze h i actorID snap d))"
| step_queue: "handler_step h snap d (snd (QueueExperiment h i actorID snap d))"
| step_comment: "handler_step h snap d (snd (AddComment h i actorID content snap d))"
| step_assign: "handler_step h snap d (snd (AssignFinding h i findingID actorID x snap d))"
| step_resolve: "handler_step h snap d (snd (ResolveFinding h i findingID actorID resolution snap d))"
| step_verify: "handler_step h snap d (snd (VerifyFinding h i findingID actorID x snap d))"
| step_approve: "handler_step h snap d (snd (Approve h i actorID comment snap d))"
| step_reject: "handler_step h snap d (snd (Reject h i actorID comment snap d))"
| step_issue: "handler_step h snap d (snd (IssuePassport v h entropy i actorID ttl snap d))"
| step_gate: "handler_step h snap d (snd (VerifyGate v h x consume snap d))"
| step_revoke: "handler_step h snap d (snd (RevokePassport_service h i passportID actorID snap d))"
| step_start: "handler_step h snap d (snd (UpdateChange i (start_update h ev) evs (se_call h 2) d))"
| step_finish: "handler_step h snap d (snd (FinalizeExperimentOutbox i worker generation attempt input result
    (finish_update h ev r a (finish_outcome r' c)) evs (se_call h 5) d))"
| step_elsewhere: "db_Changes d' = db_Changes d \<Longrightarrow> db_Passports d' = db_Passports d \<Longrightarrow> handler_step h snap d d'"

lemma handler_step_governed:
  assumes "handler_step h snap d d'" "all_saved h" "grows snap d"
  shows "governed_step d d'"
proof -
  note h = assms(2,3)
  show ?thesis
    using assms(1)
    by (cases rule: handler_step.cases)
      (simp_all only: create.step [OF h] update.step [OF h] submit.step [OF h] queue.step [OF h] comment.step [OF h]
        assign.step [OF h] resolve.step [OF h] verify.step [OF h] approve.step [OF h] reject.step [OF h] issue.step [OF h]
        gate.step [OF h] take_back.step [OF h] worker_start.step [OF h] worker_finish.step [OF h] governed_frame)
qed

text \<open>A run is the list of its states, the latest first; each step acts on the latest state and may have read any
  state before it.\<close>

inductive service_run :: "db list \<Rightarrow> bool" where
  run_start: "governance_ok d \<Longrightarrow> service_run [d]"
| run_step: "service_run (d # ds) \<Longrightarrow> snap \<in> set (d # ds) \<Longrightarrow> all_saved h \<Longrightarrow> handler_step h snap d d'
    \<Longrightarrow> service_run (d' # d # ds)"

inductive_cases service_runE: "service_run (d' # d # ds)"

lemma run_invariant:
  assumes "service_run ds"
  shows "governance_ok (hd ds) \<and> list_all (\<lambda>e. grows e (hd ds) \<and> rows_next (db_Passports e) (db_Passports (hd ds))) ds"
  using assms
proof (induction rule: service_run.induct)
  case (run_step d ds snap h d')
  have past: "grows e d" "rows_next (db_Passports e) (db_Passports d)" if "e \<in> set (d # ds)" for e
    using run_step.IH that by (auto simp: list_all_iff)
  have "governed_step d d'"
    using run_step.hyps past by (intro handler_step_governed) auto
  then show ?case
    using run_step.IH past grows_trans [of _ d d'] rows_next_trans [of _ "db_Passports d" "db_Passports d'"]
    by (auto simp: governed_step_def list_all_iff)
qed simp

lemma rows_next_status: "rows_next xs ys \<Longrightarrow> n < length xs \<Longrightarrow> pass_Status (xs ! n) \<noteq> PassportActive \<Longrightarrow>
    pass_Status (ys ! n) = pass_Status (xs ! n)"
  using pass_step_active by (fastforce simp: rows_next_def row_next_def)

lemma grows_submitters:
  assumes "grows e d"
  shows "length (db_Changes e) \<le> length (db_Changes d)"
    "n < length (db_Changes e) \<Longrightarrow> chg_SubmitterID (db_Changes d ! n) = chg_SubmitterID (db_Changes e ! n)"
proof -
  obtain new where new: "map row_key (db_Changes d) = map row_key (db_Changes e) @ new" using assms by (auto simp: grows_def)
  then have "length (map row_key (db_Changes d)) = length (map row_key (db_Changes e) @ new)" by simp
  then show le: "length (db_Changes e) \<le> length (db_Changes d)" by simp
  have "map row_key (db_Changes d) ! n = map row_key (db_Changes e) ! n" if "n < length (db_Changes e)"
    using that by (simp add: new nth_append)
  then show "n < length (db_Changes e) \<Longrightarrow> chg_SubmitterID (db_Changes d ! n) = chg_SubmitterID (db_Changes e ! n)"
    using le by (simp add: row_key_def)
qed

text \<open>C1: in every run of the service, whatever states the handlers read, nobody's own approval stands: an
  approved or completed change has a reviewer who is not its submitter. A completed change has a consumed
  passport for its digest, environment and rules, and a passport names an approver other than the submitter of
  its change. What an earlier state shows stays: the changes keep their submitter, and a consumed, revoked
  or expired passport keeps its status.\<close>

theorem run_separation_of_duties:
  assumes "service_run (d # ds)"
  shows "(\<forall>c\<in>set (db_Changes d).
        (chg_Status c = StatusApproved \<or> chg_Status c = StatusCompleted \<longrightarrow> chg_ReviewerID c \<noteq> chg_SubmitterID c)
        \<and> (chg_Status c = StatusCompleted \<longrightarrow>
             (\<exists>p\<in>set (db_Passports d). pass_Status p = PassportConsumed \<and> pass_ChangeID p = chg_ID c
                \<and> pass_ArtifactSHA256 p = chg_ArtifactSHA256 c \<and> pass_Environment p = chg_Environment c
                \<and> pass_RuleSetVersion p = chg_RuleSetVersion c)))
    \<and> (\<forall>p\<in>set (db_Passports d). \<exists>c\<in>set (db_Changes d). chg_ID c = pass_ChangeID p \<and> pass_ApproverID p \<noteq> chg_SubmitterID c)
    \<and> (\<forall>e\<in>set ds. length (db_Passports e) \<le> length (db_Passports d) \<and> length (db_Changes e) \<le> length (db_Changes d)
        \<and> (\<forall>n<length (db_Changes e). chg_SubmitterID (db_Changes d ! n) = chg_SubmitterID (db_Changes e ! n))
        \<and> (\<forall>n<length (db_Passports e). pass_Status (db_Passports e ! n) \<noteq> PassportActive
             \<longrightarrow> pass_Status (db_Passports d ! n) = pass_Status (db_Passports e ! n)))"
proof -
  have ok: "governance_ok d" using run_invariant [OF assms] by simp
  have past: "grows e d" "rows_next (db_Passports e) (db_Passports d)" if "e \<in> set ds" for e
    using run_invariant [OF assms] that by (auto simp: list_all_iff)
  have "chg_Status c = StatusApproved \<or> chg_Status c = StatusCompleted \<longrightarrow> chg_ReviewerID c \<noteq> chg_SubmitterID c"
    "chg_Status c = StatusCompleted \<longrightarrow> (\<exists>p\<in>set (db_Passports d). pass_Status p = PassportConsumed \<and> same_release c p)"
    if "c \<in> set (db_Changes d)" for c
    using ok that by (auto simp: governance_ok_def list_all_iff independent_def completed_by_passport_def)
  moreover have "\<exists>c\<in>set (db_Changes d). chg_ID c = pass_ChangeID p \<and> pass_ApproverID p \<noteq> chg_SubmitterID c"
    if "p \<in> set (db_Passports d)" for p
    using ok that by (fastforce simp: governance_ok_def list_all_iff issued_independently_def dest: lookup_by_Some)
  moreover have "length (db_Passports e) \<le> length (db_Passports d)"
    "\<forall>n<length (db_Passports e). pass_Status (db_Passports e ! n) \<noteq> PassportActive
       \<longrightarrow> pass_Status (db_Passports d ! n) = pass_Status (db_Passports e ! n)" if "e \<in> set ds" for e
    using past(2) [OF that] rows_next_status by (auto simp: rows_next_def)
  moreover have "length (db_Changes e) \<le> length (db_Changes d)"
    "\<forall>n<length (db_Changes e). chg_SubmitterID (db_Changes d ! n) = chg_SubmitterID (db_Changes e ! n)" if "e \<in> set ds" for e
    using grows_submitters [OF past(1) [OF that]] by auto
  ultimately show ?thesis by (fastforce simp: same_release_def)
qed

text \<open>A sample: a reviewer approves a change while its author replaces its content. The reviewer has read
  \<open>seen_db\<close>, the write finds \<open>replaced_db\<close>.\<close>

definition seen_change :: change_request where
  "seen_change = zero_change_request
     \<lparr> chg_ID := ''chg_1'', chg_OrganizationID := ''org_1'', chg_SubmitterID := ''usr_sub'', chg_Version := 3,
       chg_Status := StatusWaitingApproval, chg_ArtifactSHA256 := ''aa'',
       chg_CheckRun := Some (zero_check_run\<lparr> run_Status := ''PASSED'' \<rparr>) \<rparr>"

definition seen_db :: db where
  "seen_db = empty_db
     \<lparr> db_Users := [zero_user\<lparr> usr_ID := ''usr_rev'', usr_OrganizationID := ''org_1'', usr_Role := RoleReviewer, usr_Active := True \<rparr>],
       db_Changes := [seen_change] \<rparr>"

definition replaced_db :: db where
  "replaced_db = seen_db\<lparr> db_Changes := [seen_change\<lparr> chg_ArtifactSHA256 := ''bb'', chg_Version := 6 \<rparr>] \<rparr>"

lemma seen_approve:
  "Change seen_db ''chg_1'' = Inr seen_change" "activeActor seen_db ''usr_rev'' = Inr (hd (db_Users seen_db))"
  "decider_error seen_db (hd (db_Users seen_db)) seen_change = None" "trim_space (chg_SQL seen_change) = []"
  "check_passed seen_change" "hasBlockingFinding (chg_Findings seen_change) = False" "chg_Risk seen_change \<noteq> RiskHigh"
  by (code_simp)+

lemma seen_run:
  obtains c d where "Approve (calm 100) ''chg_1'' ''usr_rev'' [] seen_db seen_db = (Inr c, d)" "chg_Status c = StatusApproved"
    "db_Changes d = [c]"
proof -
  have t: "trim_space [] = []" "validRuneLength txt_approve_default 1 2000" by code_simp+
  have "\<exists>c d. Approve (calm 100) ''chg_1'' ''usr_rev'' [] seen_db seen_db = (Inr c, d) \<and> chg_Status c = StatusApproved \<and> db_Changes d = [c]"
    using seen_approve t
    by (simp add: Approve_def Let_def) (simp add: UpdateChange_def seen_db_def seen_change_def index_by_def Let_def decided_def store_frame)
  then show ?thesis using that by blast
qed

theorem run_separation_of_duties_witness:
  "\<exists>d. service_run [d, seen_db] \<and> chg_Status (hd (db_Changes d)) = StatusApproved
     \<and> chg_ReviewerID (hd (db_Changes d)) \<noteq> chg_SubmitterID (hd (db_Changes d))"
proof -
  define d where "d = snd (Approve (calm 100) ''chg_1'' ''usr_rev'' [] seen_db seen_db)"
  have ok: "governance_ok seen_db" by (simp add: governance_ok_def seen_db_def seen_change_def empty_db_def independent_def completed_by_passport_def)
  have "all_saved (calm 100)" by (simp add: all_saved_def)
  then have run: "service_run [d, seen_db]"
    using run_step [OF run_start [OF ok] _ _ step_approve, of seen_db "calm 100" "''chg_1''" "''usr_rev''" "[]"] by (simp add: d_def)
  obtain c where "d = snd (Inr c, d)" "chg_Status c = StatusApproved" "db_Changes d = [c]"
    by (rule seen_run) (simp add: d_def)
  then have "chg_Status (hd (db_Changes d)) = StatusApproved" by simp
  moreover have "hd (db_Changes d) \<in> set (db_Changes d)" by (simp add: \<open>db_Changes d = [c]\<close>)
  ultimately show ?thesis using run conjunct1 [OF run_separation_of_duties [OF run]] by blast
qed

section \<open>A stale approval\<close>

lemma Approve_accepted:
  assumes "Approve h i actorID comment snap d = (Inr c', d')"
  obtains actor seen reason where "activeActor snap actorID = Inr actor" "Change snap i = Inr seen"
    "decider_error snap actor seen = None"
    "\<And>d. Approve h i actorID comment snap d = UpdateChange i (\<lambda>item. (None, decided h StatusApproved txt_approve_title actor reason item))
        [auditChangeVersion (audit h 1 actor i ''APPROVE'' reason) seen] (se_call h 0) d"
proof -
  obtain actor where a: "activeActor snap actorID = Inr actor"
    using assms by (auto simp: Approve_def split: sum.splits)
  obtain seen where s: "Change snap i = Inr seen" using assms by (auto simp: Approve_def a split: sum.splits)
  have ok: "decider_error snap actor seen = None" using assms by (auto simp: Approve_def a s split: option.splits)
  show ?thesis
    by (rule that [OF a s ok, of "if trim_space comment = [] then txt_approve_default else trim_space comment"])
      (use assms in \<open>auto simp: Approve_def a s ok Let_def split: if_split_asm\<close>)
qed

lemma append_audit_digest:
  assumes "aud_RequestDigest ev \<noteq> []"
  shows "aud_RequestDigest (last (db_Audits (append_audit e d ev))) = to_lower (trim_space (aud_RequestDigest ev))"
proof -
  have trim: "aud_RequestDigest (Link ev' p) = to_lower (trim_space (aud_RequestDigest ev'))" for ev' p
    by (simp add: Link_def Let_def Normalize_def trim_event_def default_resource_def default_actor_def)
  have "aud_RequestDigest (enrich_audit d ev') = aud_RequestDigest ev'" if "aud_RequestDigest ev' \<noteq> []" for ev'
    using that by (simp add: enrich_audit_def Let_def fill_versions_def split: option.split)
  then show ?thesis using assms by (simp add: append_audit_def Let_def trim)
qed

text \<open>C25: an approval can apply to content nobody reviewed. The checks of an approval read one state and its write
  finds another, and the write checks nothing again: whatever became of the change in between, its new content
  becomes approved, even as a draft that was never checked, while the audit event records the digest and the
  version the reviewer saw.\<close>

theorem stale_approval_approves_unseen:
  assumes accepted: "Approve h i actorID comment snap snap = (Inr c1, d1)" and seen: "Change snap i = Inr seen"
    and found: "Change d i = Inr found" and digest: "chg_ArtifactSHA256 seen \<noteq> []"
  shows "\<exists>c' d'. Approve h i actorID comment snap d = (Inr c', d') \<and> Change d' i = Inr c'
    \<and> chg_Status c' = StatusApproved \<and> chg_ReviewerID c' = actorID \<and> chg_ArtifactSHA256 c' = chg_ArtifactSHA256 found
    \<and> chg_CheckRun c' = chg_CheckRun found \<and> aud_RequestDigest (last (db_Audits d')) = to_lower (trim_space (chg_ArtifactSHA256 seen))"
proof -
  obtain actor reason where a: "activeActor snap actorID = Inr actor" and
    run: "\<And>d. Approve h i actorID comment snap d = UpdateChange i (\<lambda>item. (None, decided h StatusApproved txt_approve_title actor reason item))
        [auditChangeVersion (audit h 1 actor i ''APPROVE'' reason) seen] (se_call h 0) d"
    by (rule Approve_accepted [OF accepted]) (use seen in auto)
  let ?upd = "\<lambda>item. (None, decided h StatusApproved txt_approve_title actor reason item)"
  let ?ev = "auditChangeVersion (audit h 1 actor i ''APPROVE'' reason) seen"
  have saved: "env_save (se_call h 0) = Saved" using accepted unfolding run by (elim UpdateChange_Inr)
  obtain c' d' where w: "UpdateChange i ?upd [?ev] (se_call h 0) d = (Inr c', d')" "Change d' i = Inr c'"
      "c' = (decided h StatusApproved txt_approve_title actor reason found)
         \<lparr> chg_UpdatedAt := env_now (se_call h 0), chg_Version := chg_Version (decided h StatusApproved txt_approve_title actor reason found) + 1 \<rparr>"
    by (rule UpdateChange_at [OF found, where upd = ?upd, OF refl _ saved]) (auto simp: decided_def)
  have "\<exists>d2. d' = append_audit (se_call h 0) d2 ?ev"
    using w(1) by (auto elim!: UpdateChange_Inr simp: append_audits_def)
  then have "aud_RequestDigest (last (db_Audits d')) = to_lower (trim_space (chg_ArtifactSHA256 seen))"
    using append_audit_digest digest by (auto simp: auditChangeVersion_def)
  then show ?thesis
    using w activeActor_ID [OF a] by (simp add: run decided_def)
qed

theorem stale_approval_approves_unseen_witness:
  "\<exists>c' d'. Approve (calm 100) ''chg_1'' ''usr_rev'' [] seen_db replaced_db = (Inr c', d')
     \<and> chg_Status c' = StatusApproved \<and> chg_ArtifactSHA256 c' = ''bb'' \<and> aud_RequestDigest (last (db_Audits d')) = ''aa''"
proof -
  obtain c d where run: "Approve (calm 100) ''chg_1'' ''usr_rev'' [] seen_db seen_db = (Inr c, d)" by (rule seen_run)
  have found: "Change replaced_db ''chg_1'' = Inr (seen_change\<lparr> chg_ArtifactSHA256 := ''bb'', chg_Version := 6 \<rparr>)"
    and "chg_ArtifactSHA256 seen_change = ''aa''" "to_lower (trim_space ''aa'') = ''aa''"
    by code_simp+
  then show ?thesis using stale_approval_approves_unseen [OF run seen_approve(1) found] by auto
qed

end


