(* ===== verification/IdempotentService.thy ===== *)
theory IdempotentService
  imports Governance IdempotencyStore
begin

text \<open>
  \<^verbatim>\<open>internal/service/idempotency.go\<close>: requests that run at most once under an idempotency key. A request claims
  its key, waits while another process holds it, recovers the result of a process that died after its side
  effect, or runs and records its result. The waiting loops are recursive functions over a fuel; the clock of
  each round is part of the environment, and with a clock that advances the fuel of 502 rounds is enough. Between
  two calls of the store other processes may act. The lemmas show that the loop ends, that a recorded result is
  replayed without a write, that a claim left behind without a side effect blocks its key, and that the
  recovery of a slow creation makes its first caller fail.
\<close>

section \<open>The environment of the loops\<close>

datatype 'e idem_error = IdemForbidden | IdemConflict | IdemInProgress | IdemStore err | IdemDecode | IdemExecute 'e

text \<open>\<open>ie_round k\<close> is the environment of round \<open>k\<close>, \<open>ie_world k j\<close> what other processes do before the call \<open>j\<close>
  of that round; \<open>ie_finish\<close> and \<open>ie_settle\<close> are the same for the loop that records the result, \<open>ie_during\<close> is what
  happens between the checks and the write of the handler.\<close>

record idem_env =
  ie_start :: gotime
  ie_round :: "nat \<Rightarrow> senv"
  ie_world :: "nat \<Rightarrow> nat \<Rightarrow> db \<Rightarrow> db"
  ie_finish :: "nat \<Rightarrow> senv"
  ie_settle :: "nat \<Rightarrow> db \<Rightarrow> db"
  ie_during :: "db \<Rightarrow> db"

text \<open>What a dead process may have left: the result, its reference and status, or nothing.\<close>

type_synonym reconcile = "db \<Rightarrow> idempotency_record \<Rightarrow> err + (json \<times> string \<times> int) option"

definition idempotencyRecoveryGrace :: duration where "idempotencyRecoveryGrace = 2 * second"

definition idem_deadline :: duration where "idem_deadline = 5 * second"

section \<open>Recording a result\<close>

fun complete_loop ::
  "idem_env \<Rightarrow> gotime \<Rightarrow> idempotency_record \<Rightarrow> json \<Rightarrow> string \<Rightarrow> int \<Rightarrow> nat \<Rightarrow> nat \<Rightarrow> db \<Rightarrow> ((err + idempotency_record) \<times> db) option" where
  "complete_loop e deadline r result ref status 0 k d = None"
| "complete_loop e deadline r result ref status (Suc fuel) k d =
     (case CompleteIdempotency r result ref status (se_call (ie_finish e k) 0) (ie_settle e k d) of
        (Inl er, d') \<Rightarrow>
          if er = ErrConcurrentWrite \<and> se_now (ie_finish e k) < deadline
          then complete_loop e deadline r result ref status fuel (Suc k) d'
          else Some (Inl er, d')
      | (Inr x, d') \<Rightarrow> Some (Inr x, d'))"

definition completeIdempotency ::
  "idem_env \<Rightarrow> idempotency_record \<Rightarrow> json \<Rightarrow> string \<Rightarrow> int \<Rightarrow> db \<Rightarrow> ((err + idempotency_record) \<times> db) option" where
  "completeIdempotency e r result ref status d =
     complete_loop e (se_now (ie_finish e 0) + idem_deadline) r result ref status 502 0 d"

section \<open>Claiming a key\<close>

text \<open>One round of the claim: settled with a record (claimed or to be replayed) or an error, another round, or a
  recovered result to be recorded under the claim that was taken over.\<close>

datatype 'e claim_step =
    Settled "'e idem_error + idempotency_record \<times> bool"
  | Again
  | Recover idempotency_record json string int

definition wait_or :: "bool \<Rightarrow> 'e idem_error \<Rightarrow> 'e claim_step" where
  "wait_or early er = (if early then Again else Settled (Inl er))"

definition recover_round ::
  "idem_env \<Rightarrow> gotime \<Rightarrow> reconcile option \<Rightarrow> idempotency_record \<Rightarrow> nat \<Rightarrow> db \<Rightarrow> 'e claim_step \<times> db" where
  "recover_round e deadline reconcile existing k d =
     (let early = (se_now (ie_round e k) < deadline) in
      case reconcile of
        None \<Rightarrow> (wait_or early IdemInProgress, d)
      | Some f \<Rightarrow>
          (case f d existing of
             Inl er \<Rightarrow> (Settled (Inl (IdemStore er)), d)
           | Inr None \<Rightarrow> (wait_or early IdemInProgress, d)
           | Inr (Some (result, ref, status)) \<Rightarrow>
               (case TakeoverIdempotency existing (se_call (ie_round e k) 1) (ie_world e k 1 d) of
                  (Inl er, d') \<Rightarrow>
                    (if er = ErrIdempotencyClaimLost \<and> early then Again else Settled (Inl (IdemStore er)), d')
                | (Inr takeover, d') \<Rightarrow> (Recover takeover result ref status, d'))))"

definition claim_round ::
  "idem_env \<Rightarrow> gotime \<Rightarrow> reconcile option \<Rightarrow> idempotency_record \<Rightarrow> nat \<Rightarrow> db \<Rightarrow> 'e claim_step \<times> db" where
  "claim_round e deadline reconcile r k d =
     (let now = se_now (ie_round e k); early = (now < deadline) in
      case BeginIdempotency r (se_call (ie_round e k) 0) (ie_world e k 0 d) of
        (Claimed x, d') \<Rightarrow> (Settled (Inr (x, True)), d')
      | (Replay x, d') \<Rightarrow> (Settled (Inr (x, False)), d')
      | (Refused er existing, d') \<Rightarrow>
          if er = ErrIdempotencyConflict then (Settled (Inl IdemConflict), d')
          else if er = ErrConcurrentWrite \<and> early then (Again, d')
          else if er = ErrIdempotencyPending then
            (if now - idem_UpdatedAt existing < idempotencyRecoveryGrace then (wait_or early IdemInProgress, d')
             else recover_round e deadline reconcile existing k d')
          else (Settled (Inl (IdemStore er)), d'))"

fun claim_loop ::
  "idem_env \<Rightarrow> gotime \<Rightarrow> reconcile option \<Rightarrow> idempotency_record \<Rightarrow> nat \<Rightarrow> nat \<Rightarrow> db
     \<Rightarrow> (('e idem_error + idempotency_record \<times> bool) \<times> db) option" where
  "claim_loop e deadline reconcile r 0 k d = None"
| "claim_loop e deadline reconcile r (Suc fuel) k d =
     (case claim_round e deadline reconcile r k d of
        (Settled x, d') \<Rightarrow> Some (x, d')
      | (Again, d') \<Rightarrow> claim_loop e deadline reconcile r fuel (Suc k) d'
      | (Recover takeover result ref status, d') \<Rightarrow>
          (case completeIdempotency e takeover result ref status d' of
             None \<Rightarrow> None
           | Some (Inl er, d'') \<Rightarrow> Some (Inl (IdemStore er), d'')
           | Some (Inr x, d'') \<Rightarrow> Some (Inr (x, False), d'')))"

definition claimIdempotency ::
  "idem_env \<Rightarrow> reconcile option \<Rightarrow> idempotency_record \<Rightarrow> db \<Rightarrow> (('e idem_error + idempotency_record \<times> bool) \<times> db) option" where
  "claimIdempotency e reconcile r d = claim_loop e (ie_start e + idem_deadline) reconcile r 502 0 d"

section \<open>Running at most once\<close>

definition idem_request :: "user \<Rightarrow> string \<Rightarrow> string \<Rightarrow> string \<Rightarrow> string \<Rightarrow> idempotency_record" where
  "idem_request actor operation resource key digest = zero_idempotency_record
     \<lparr> idem_OrganizationID := usr_OrganizationID actor, idem_ActorID := usr_ID actor, idem_Operation := operation,
       idem_Resource := resource, idem_Key := key, idem_RequestDigest := digest \<rparr>"

text \<open>\<open>execute snap d\<close> is the handler; \<open>marshal\<close> and \<open>unmarshal\<close> are the JSON text of its result. The result comes
  with the flag that says whether it is a replay.\<close>

definition executeIdempotent ::
  "('r \<Rightarrow> json) \<Rightarrow> (string \<Rightarrow> 'r option) \<Rightarrow> idem_env \<Rightarrow> string \<Rightarrow> string \<Rightarrow> string \<Rightarrow> string \<Rightarrow> string \<Rightarrow> int
     \<Rightarrow> (db \<Rightarrow> db \<Rightarrow> ('e + 'r) \<times> db) \<Rightarrow> reconcile option \<Rightarrow> db \<Rightarrow> (('e idem_error + 'r \<times> bool) \<times> db) option" where
  "executeIdempotent marshal unmarshal e actorID operation resource key digest status execute reconcile d =
     (case activeActor d actorID of
        Inl _ \<Rightarrow> Some (Inl IdemForbidden, d)
      | Inr actor \<Rightarrow>
          (case claimIdempotency e reconcile (idem_request actor operation resource key digest) d of
             None \<Rightarrow> None
           | Some (Inl er, d1) \<Rightarrow> Some (Inl er, d1)
           | Some (Inr (existing, False), d1) \<Rightarrow>
               (case unmarshal (idem_Result existing) of
                  None \<Rightarrow> Some (Inl IdemDecode, d1) | Some r \<Rightarrow> Some (Inr (r, True), d1))
           | Some (Inr (existing, True), d1) \<Rightarrow>
               (case execute d1 (ie_during e d1) of
                  (Inl er, d2) \<Rightarrow>
                    Some (Inl (IdemExecute er), snd (AbortIdempotency existing (se_call (ie_finish e 0) 0) (ie_settle e 0 d2)))
                | (Inr r, d2) \<Rightarrow>
                    (case completeIdempotency e existing (marshal r) (''change:'' @ resource) status d2 of
                       None \<Rightarrow> None
                     | Some (Inl er, d3) \<Rightarrow> Some (Inl (IdemStore er), d3)
                     | Some (Inr _, d3) \<Rightarrow> Some (Inr (r, False), d3)))))"

section \<open>The idempotent requests\<close>

definition Changes :: "db \<Rightarrow> change_request list" where
  "Changes d = sort_key (\<lambda>c. - chg_CreatedAt c) (db_Changes d)"

definition PassportsByChange :: "gotime \<Rightarrow> db \<Rightarrow> string \<Rightarrow> string \<Rightarrow> passport list" where
  "PassportsByChange now d org i =
     sort_key (\<lambda>p. - pass_IssuedAt p)
       (map (\<lambda>p. publicPassport now p False)
         (filter (\<lambda>p. pass_OrganizationID p = org \<and> pass_ChangeID p = i) (db_Passports d)))"

definition OutboxByOrganization :: "db \<Rightarrow> string \<Rightarrow> bool \<Rightarrow> int \<Rightarrow> outbox_event list" where
  "OutboxByOrganization d org includeCompleted limit =
     (let items = sort_key (\<lambda>ev. - out_UpdatedAt ev)
            (filter (\<lambda>ev. out_OrganizationID ev = org \<and> (includeCompleted \<or> out_Status ev \<noteq> OutboxCompleted)) (db_Outbox d))
      in if 0 < limit \<and> limit < int (length items) then take (nat limit) items else items)"

text \<open>What the recovery of each request looks for: its own side effect, by the same actor and not from before the
  claim.\<close>

definition created_by :: "idempotency_record \<Rightarrow> change_request \<Rightarrow> bool" where
  "created_by r c \<longleftrightarrow> chg_OrganizationID c = idem_OrganizationID r \<and> chg_SubmitterID c = idem_ActorID r
     \<and> chg_RequestKey c \<noteq> [] \<and> chg_RequestKey c = idem_Key r"

definition find_created :: "(change_request \<Rightarrow> json) \<Rightarrow> reconcile" where
  "find_created marshal d r =
     Inr (map_option (\<lambda>c. (marshal c, ''change:'' @ chg_ID c, 201)) (List.find (created_by r) (Changes d)))"

definition past_queue :: "change_status \<Rightarrow> bool" where
  "past_queue s \<longleftrightarrow> s \<in> {StatusExperimentQueued, StatusExperimentRunning, StatusWaitingApproval, StatusApproved, StatusCompleted}"

definition find_queued :: "(change_request \<Rightarrow> json) \<Rightarrow> string \<Rightarrow> reconcile" where
  "find_queued marshal i d r =
     (case Change d i of
        Inl er \<Rightarrow> Inl er
      | Inr c \<Rightarrow>
          Inr (if past_queue (chg_Status c)
                  \<and> list_ex (\<lambda>ev. out_AggregateID ev = i \<and> out_EventType ev = ''experiment.requested''
                       \<and> \<not> out_CreatedAt ev < idem_CreatedAt r) (OutboxByOrganization d (idem_OrganizationID r) True 0)
               then Some (marshal c, ''change:'' @ i, 200) else None))"

definition find_approved :: "(change_request \<Rightarrow> json) \<Rightarrow> string \<Rightarrow> reconcile" where
  "find_approved marshal i d r =
     (case Change d i of
        Inl er \<Rightarrow> Inl er
      | Inr c \<Rightarrow>
          Inr (if chg_Status c = StatusApproved \<and> chg_ReviewerID c = idem_ActorID r \<and> \<not> chg_UpdatedAt c < idem_CreatedAt r
               then Some (marshal c, ''change:'' @ i, 200) else None))"

definition find_issued :: "(passport \<Rightarrow> json) \<Rightarrow> gotime \<Rightarrow> string \<Rightarrow> reconcile" where
  "find_issued marshal now i d r =
     Inr (map_option (\<lambda>p. (marshal p, ''passport:'' @ pass_ID p, 201))
       (List.find (\<lambda>p. pass_ApproverID p = idem_ActorID r \<and> \<not> pass_IssuedAt p < time_truncate (idem_CreatedAt r) second)
         (PassportsByChange now d (idem_OrganizationID r) i)))"

text \<open>\<open>resolve\<close> asks the agent service for the task the request names; it is asked only when the request runs.\<close>

definition CreateIdempotent ::
  "(change_request \<Rightarrow> json) \<Rightarrow> (string \<Rightarrow> change_request option) \<Rightarrow> idem_env \<Rightarrow> senv \<Rightarrow> create_change_input \<Rightarrow> string
     \<Rightarrow> string \<Rightarrow> string \<Rightarrow> err + string \<Rightarrow> db \<Rightarrow> ((err idem_error + change_request \<times> bool) \<times> db) option" where
  "CreateIdempotent marshal unmarshal e h x actorID key digest resolve d =
     executeIdempotent marshal unmarshal e actorID ''CREATE_CHANGE'' ''change'' key digest 201
       (\<lambda>snap d'. case (if trim_space (cci_AgentTaskID x) = [] then Inr [] else resolve) of
                    Inl er \<Rightarrow> (Inl er, d') | Inr task \<Rightarrow> create h x actorID key task snap d')
       (Some (find_created marshal)) d"

definition QueueExperimentIdempotent ::
  "(change_request \<Rightarrow> json) \<Rightarrow> (string \<Rightarrow> change_request option) \<Rightarrow> idem_env \<Rightarrow> senv \<Rightarrow> string \<Rightarrow> string
     \<Rightarrow> string \<Rightarrow> string \<Rightarrow> db \<Rightarrow> ((err idem_error + change_request \<times> bool) \<times> db) option" where
  "QueueExperimentIdempotent marshal unmarshal e h i actorID key digest d =
     executeIdempotent marshal unmarshal e actorID ''QUEUE_EXPERIMENT'' i key digest 200
       (QueueExperiment h i actorID) (Some (find_queued marshal i)) d"

definition ApproveIdempotent ::
  "(change_request \<Rightarrow> json) \<Rightarrow> (string \<Rightarrow> change_request option) \<Rightarrow> idem_env \<Rightarrow> senv \<Rightarrow> string \<Rightarrow> string
     \<Rightarrow> string \<Rightarrow> string \<Rightarrow> string \<Rightarrow> db \<Rightarrow> ((err idem_error + change_request \<times> bool) \<times> db) option" where
  "ApproveIdempotent marshal unmarshal e h i actorID key digest comment d =
     executeIdempotent marshal unmarshal e actorID ''APPROVE'' i key digest 200
       (Approve h i actorID comment) (Some (find_approved marshal i)) d"

datatype passport_issue_result = FirstIssue passport string | AlreadyIssued passport string string

definition PassportAlreadyIssuedCode :: string where
  "PassportAlreadyIssuedCode = ''PASSPORT_ALREADY_ISSUED_TOKEN_NOT_REPLAYABLE''"

definition recordIdempotencyAudit :: "senv \<Rightarrow> user \<Rightarrow> idempotency_record \<Rightarrow> string \<Rightarrow> db \<Rightarrow> db" where
  "recordIdempotencyAudit h actor r action d =
     snd (RecordAudit
            ((audit h 0 actor (idem_Resource r) action (txt_idem_audit @ idem_Operation r))
               \<lparr> aud_RequestID := idem_Key r, aud_RequestDigest := idem_RequestDigest r, aud_ResourceID := idem_Resource r \<rparr>)
            (se_call h 0) d)"

text \<open>The first answer carries the token; a replay carries the passport without it.\<close>

definition IssuePassportIdempotent ::
  "(passport \<Rightarrow> json) \<Rightarrow> (string \<Rightarrow> passport option) \<Rightarrow> passport_service \<Rightarrow> idem_env \<Rightarrow> senv \<Rightarrow> senv \<Rightarrow> string option \<Rightarrow> string
     \<Rightarrow> string \<Rightarrow> string \<Rightarrow> string \<Rightarrow> int \<Rightarrow> db \<Rightarrow> ((gate_error idem_error + passport_issue_result \<times> bool) \<times> db) option" where
  "IssuePassportIdempotent marshal unmarshal v e h0 h entropy i actorID key digest ttl d =
     (case activeActor d actorID of
        Inl _ \<Rightarrow> Some (Inl IdemForbidden, d)
      | Inr actor \<Rightarrow>
          let r = idem_request actor ''ISSUE_PASSPORT'' i key digest;
              d0 = recordIdempotencyAudit h0 actor r ''IDEMPOTENCY_CLAIM'' d
          in case claimIdempotency e (Some (find_issued marshal (se_now h) i)) r d0 of
               None \<Rightarrow> None
             | Some (Inl er, d1) \<Rightarrow> Some (Inl er, d1)
             | Some (Inr (existing, False), d1) \<Rightarrow>
                 (case unmarshal (idem_Result existing) of
                    None \<Rightarrow> Some (Inl IdemDecode, d1)
                  | Some p \<Rightarrow> Some (Inr (AlreadyIssued p PassportAlreadyIssuedCode txt_token_not_replayable, True), d1))
             | Some (Inr (existing, True), d1) \<Rightarrow>
                 (case IssuePassport v h entropy i actorID ttl d1 (ie_during e d1) of
                    (Inl er, d2) \<Rightarrow>
                      Some (Inl (IdemExecute er), snd (AbortIdempotency existing (se_call (ie_finish e 0) 0) (ie_settle e 0 d2)))
                  | (Inr (p, token), d2) \<Rightarrow>
                      (case completeIdempotency e existing (marshal p) (''passport:'' @ pass_ID p) 201 d2 of
                         None \<Rightarrow> None
                       | Some (Inl er, d3) \<Rightarrow> Some (Inl (IdemStore er), d3)
                       | Some (Inr _, d3) \<Rightarrow> Some (Inr (FirstIssue p token, False), d3))))"

section \<open>The loops end\<close>

definition poll :: duration where "poll = 10000000"

text \<open>A clock that advances at least by the sleep between two rounds.\<close>

definition clock_ok :: "idem_env \<Rightarrow> bool" where
  "clock_ok e \<longleftrightarrow> ie_start e \<le> se_now (ie_round e 0)
     \<and> (\<forall>k. se_now (ie_round e k) + poll \<le> se_now (ie_round e (Suc k)))
     \<and> (\<forall>k. se_now (ie_finish e k) + poll \<le> se_now (ie_finish e (Suc k)))"

lemma complete_loop_ends:
  assumes "clock_ok e" "0 < fuel" "deadline \<le> se_now (ie_finish e k) + poll * int (fuel - 1)"
  shows "complete_loop e deadline r result ref status fuel k d \<noteq> None"
  using assms(2,3)
proof (induction fuel arbitrary: k d)
  case (Suc fuel)
  have step: "se_now (ie_finish e k) + poll \<le> se_now (ie_finish e (Suc k))" using assms(1) by (simp add: clock_ok_def)
  have "complete_loop e deadline r result ref status fuel (Suc k) d' \<noteq> None" if "se_now (ie_finish e k) < deadline" for d'
  proof (rule Suc.IH)
    show "0 < fuel" using Suc.prems(2) that by (cases fuel) (simp_all add: poll_def)
    then show "deadline \<le> se_now (ie_finish e (Suc k)) + poll * int (fuel - 1)"
      using Suc.prems(2) step by (cases fuel) (simp_all add: poll_def)
  qed
  then show ?case by (auto split: prod.split sum.split)
qed simp

lemma completeIdempotency_ends: "clock_ok e \<Longrightarrow> completeIdempotency e r result ref status d \<noteq> None"
  unfolding completeIdempotency_def by (rule complete_loop_ends) (simp_all add: poll_def idem_deadline_def second_def)

lemma again_early:
  "claim_round e deadline reconcile r k d = (Again, d') \<Longrightarrow> se_now (ie_round e k) < deadline"
  by (auto simp: claim_round_def recover_round_def wait_or_def Let_def
      split: prod.splits begin_result.splits option.splits sum.splits if_splits)

lemma claim_loop_ends:
  assumes "clock_ok e" "0 < fuel" "deadline \<le> se_now (ie_round e k) + poll * int (fuel - 1)"
  shows "(claim_loop e deadline reconcile r fuel k d :: (('e idem_error + idempotency_record \<times> bool) \<times> db) option) \<noteq> None"
  using assms(2,3)
proof (induction fuel arbitrary: k d)
  case (Suc fuel)
  obtain st :: "'e claim_step" and d' where run: "claim_round e deadline reconcile r k d = (st, d')" by fastforce
  show ?case
  proof (cases st)
    case Again
    have early: "se_now (ie_round e k) < deadline" using again_early run Again by blast
    have step: "se_now (ie_round e k) + poll \<le> se_now (ie_round e (Suc k))" using assms(1) by (simp add: clock_ok_def)
    have "0 < fuel" using Suc.prems(2) early by (cases fuel) (simp_all add: poll_def)
    moreover have "deadline \<le> se_now (ie_round e (Suc k)) + poll * int (fuel - 1)"
      using Suc.prems(2) step \<open>0 < fuel\<close> by (cases fuel) (simp_all add: poll_def)
    ultimately show ?thesis using Suc.IH by (simp add: run Again)
  next
    case (Recover takeover result ref status)
    obtain x d'' where "completeIdempotency e takeover result ref status d' = Some (x, d'')"
      using completeIdempotency_ends [OF assms(1), of takeover result ref status d'] by auto
    then show ?thesis by (cases x) (simp_all add: run Recover)
  qed (simp add: run)
qed simp

lemma claimIdempotency_ends: "clock_ok e \<Longrightarrow> claimIdempotency e reconcile r d \<noteq> None"
  unfolding claimIdempotency_def
  by (rule claim_loop_ends) (simp_all add: poll_def idem_deadline_def second_def clock_ok_def)

section \<open>A recorded result is replayed\<close>

text \<open>The record of the scope of a request.\<close>

definition idem_of :: "idempotency_record \<Rightarrow> db \<Rightarrow> idempotency_record option" where
  "idem_of r d = List.find (\<lambda>x. sameIdempotencyScope x r) (db_IdempotencyRecords d)"

lemma idem_of_frame: "db_IdempotencyRecords d' = db_IdempotencyRecords d \<Longrightarrow> idem_of r d' = idem_of r d"
  by (simp add: idem_of_def)

lemma idem_of_request:
  assumes "idem_of r d = Some x" "idem_RequestDigest x = idem_RequestDigest r"
  obtains n where "find_index_of (same_request r) (db_IdempotencyRecords d) = Some n" "db_IdempotencyRecords d ! n = x"
    "\<And>y d'. db_IdempotencyRecords d' = (db_IdempotencyRecords d)[n := y] \<Longrightarrow> sameIdempotencyScope y r \<Longrightarrow> idem_of r d' = Some y"
proof -
  have "\<exists>n. find_index_of (same_request r) xs = Some n \<and> n < length xs \<and> xs ! n = x
      \<and> (\<forall>y. sameIdempotencyScope y r \<longrightarrow> List.find (\<lambda>x. sameIdempotencyScope x r) (xs[n := y]) = Some y)"
    if "List.find (\<lambda>x. sameIdempotencyScope x r) xs = Some x" for xs
    using that
  proof (induction xs)
    case (Cons z zs)
    show ?case
    proof (cases "sameIdempotencyScope z r")
      case True
      then show ?thesis using Cons.prems assms(2) by (auto simp: same_request_def)
    next
      case False
      then obtain n where "find_index_of (same_request r) zs = Some n" "n < length zs" "zs ! n = x"
        "\<forall>y. sameIdempotencyScope y r \<longrightarrow> List.find (\<lambda>x. sameIdempotencyScope x r) (zs[n := y]) = Some y"
        using Cons by auto
      moreover have "\<not> same_request r z" using False by (simp add: same_request_def)
      ultimately show ?thesis using False by (intro exI [of _ "Suc n"]) simp
    qed
  qed simp
  from this [OF assms(1) [unfolded idem_of_def]] show ?thesis using that by (auto simp: idem_of_def)
qed

text \<open>The claim a request holds, and the record of its result.\<close>

definition claim_held :: "idempotency_record \<Rightarrow> idempotency_record \<Rightarrow> db \<Rightarrow> bool" where
  "claim_held r x d \<longleftrightarrow> idem_of r d = Some x \<and> idem_RequestDigest x = idem_RequestDigest r \<and> sameIdempotencyScope x r
     \<and> idem_Status x \<noteq> IdempotencySucceeded"

definition result_recorded :: "idempotency_record \<Rightarrow> json \<Rightarrow> db \<Rightarrow> bool" where
  "result_recorded r result d \<longleftrightarrow> (\<exists>y. idem_of r d = Some y \<and> idem_RequestDigest y = idem_RequestDigest r
     \<and> idem_Status y = IdempotencySucceeded \<and> idem_Result y = json_enc result)"

lemma find_append_None: "List.find P xs = None \<Longrightarrow> List.find P (xs @ ys) = List.find P ys"
  by (induction xs) (auto split: if_splits)

lemma Begin_claims:
  assumes "BeginIdempotency r e d = (Claimed x, d')"
  shows "claim_held r x d'"
proof -
  have none: "idem_of r d = None" using assms by (auto simp: BeginIdempotency_def idem_of_def split: option.splits if_splits)
  have x: "\<exists>r'. assignIdempotencyClaim e (r\<lparr> idem_Status := IdempotencyPending, idem_Generation := 1 \<rparr>) = Some r' \<and> x = pending_record e r'
      \<and> d' = d\<lparr> db_IdempotencyRecords := db_IdempotencyRecords d @ [x] \<rparr>"
    using assms by (auto simp: BeginIdempotency_def Let_def save_records_def save_locked_def
        split: option.splits if_splits save.splits sum.splits prod.splits)
  then have "sameIdempotencyScope x r" "idem_RequestDigest x = idem_RequestDigest r" "idem_Status x = IdempotencyPending"
    by (auto simp: same_scope_iff assignIdempotencyClaim_def pending_record_def Let_def idem_scope_def split: if_splits)
  moreover have "db_IdempotencyRecords d' = db_IdempotencyRecords d @ [x]" using x by auto
  ultimately show ?thesis using none by (simp add: claim_held_def idem_of_def find_append_None)
qed

text \<open>Nobody else touches the record of the request.\<close>

definition leaves_key :: "idempotency_record \<Rightarrow> (db \<Rightarrow> db) \<Rightarrow> bool" where
  "leaves_key r f \<longleftrightarrow> (\<forall>d. idem_of r (f d) = idem_of r d)"

lemma Complete_held:
  assumes held: "claim_held r x d" and run: "CompleteIdempotency r' result ref status e d = (o', d')"
    and r': "sameIdempotencyScope r' r" "idem_RequestDigest r' = idem_RequestDigest r"
  shows "case o' of Inr _ \<Rightarrow> result_recorded r result d' | Inl _ \<Rightarrow> claim_held r x d'"
proof -
  have same: "same_request r' = same_request r" using r' by (auto simp: fun_eq_iff same_request_def same_scope_iff)
  obtain n where n: "find_index_of (same_request r) (db_IdempotencyRecords d) = Some n" "db_IdempotencyRecords d ! n = x"
    "\<And>y d'. db_IdempotencyRecords d' = (db_IdempotencyRecords d)[n := y] \<Longrightarrow> sameIdempotencyScope y r \<Longrightarrow> idem_of r d' = Some y"
    using held idem_of_request [of r d x] by (auto simp: claim_held_def)
  let ?y = "succeeded_record e (json_enc result) ref status x"
  have y: "sameIdempotencyScope ?y r" "idem_RequestDigest ?y = idem_RequestDigest r"
    using held by (simp_all add: claim_held_def same_scope_iff succeeded_record_def idem_scope_def)
  have failed: "claim_held r x d'" if "db_IdempotencyRecords d' = db_IdempotencyRecords d"
    using held idem_of_frame [OF that] by (simp add: claim_held_def)
  show ?thesis
    using run held n(1,2) same y n(3) failed
    by (auto simp: CompleteIdempotency_def Let_def claim_held_def result_recorded_def save_records_def succeeded_record_def save_locked_def
        split: if_splits sum.splits option.splits prod.splits save.splits)
qed

lemma complete_loop_records:
  assumes "claim_held r x d" "complete_loop e deadline r' result ref status fuel k d = Some (Inr y, d')"
    "\<And>k. leaves_key r (ie_settle e k)" "sameIdempotencyScope r' r" "idem_RequestDigest r' = idem_RequestDigest r"
  shows "result_recorded r result d'"
  using assms(1,2)
proof (induction fuel arbitrary: k d)
  case (Suc fuel)
  have held: "claim_held r x (ie_settle e k d)"
    using Suc.prems(1) assms(3) by (simp add: claim_held_def leaves_key_def)
  obtain o' d1 where run: "CompleteIdempotency r' result ref status (se_call (ie_finish e k) 0) (ie_settle e k d) = (o', d1)" by fastforce
  note after = Complete_held [OF held run assms(4,5)]
  show ?case
  proof (cases o')
    case (Inl er)
    with Suc.prems(2) have "complete_loop e deadline r' result ref status fuel (Suc k) d1 = Some (Inr y, d')"
      by (simp add: run split: if_splits)
    then show ?thesis using Suc.IH after Inl by simp
  qed (use Suc.prems(2) after in \<open>simp add: run\<close>)
qed simp

lemma claim_loop_holds:
  "claim_loop e deadline reconcile r fuel k d = Some (Inr (x, True), d') \<Longrightarrow> claim_held r x d'"
proof (induction fuel arbitrary: k d)
  case (Suc fuel)
  have settled: "claim_held r x d2" if "claim_round e deadline reconcile r k d = (Settled (Inr (x, True)), d2)" for d2
    using that Begin_claims
    by (auto simp: claim_round_def recover_round_def wait_or_def Let_def
        split: prod.splits begin_result.splits option.splits sum.splits if_splits)
  show ?case
    using Suc.prems settled Suc.IH by (auto split: prod.splits claim_step.splits option.splits sum.splits)
qed simp

lemma executed_recorded:
  assumes run: "executeIdempotent marshal unmarshal e actorID operation resource key digest status execute reconcile d = Some (Inr (r, False), d')"
    and actor: "activeActor d actorID = Inr actor" and alone: "\<And>k. leaves_key (idem_request actor operation resource key digest) (ie_settle e k)"
    "leaves_key (idem_request actor operation resource key digest) (ie_during e)"
    and frame: "\<And>snap d. db_IdempotencyRecords (snd (execute snap d)) = db_IdempotencyRecords d"
  shows "result_recorded (idem_request actor operation resource key digest) (marshal r) d'"
proof -
  let ?r = "idem_request actor operation resource key digest"
  obtain x d1 where claim: "claimIdempotency e reconcile ?r d = Some (Inr (x, True) :: 'a idem_error + idempotency_record \<times> bool, d1)"
    and exec: "\<exists>d2 y. execute d1 (ie_during e d1) = (Inr r, d2) \<and> completeIdempotency e x (marshal r) (''change:'' @ resource) status d2 = Some (Inr y, d')"
    using run by (auto simp: executeIdempotent_def actor split: option.splits sum.splits prod.splits bool.splits)
  then obtain d2 y where d2: "execute d1 (ie_during e d1) = (Inr r, d2)"
    "completeIdempotency e x (marshal r) (''change:'' @ resource) status d2 = Some (Inr y, d')" by blast
  have held: "claim_held ?r x d1" using claim claim_loop_holds unfolding claimIdempotency_def by blast
  have "idem_of ?r d2 = idem_of ?r d1"
    using idem_of_frame [OF frame [of d1 "ie_during e d1"]] alone(2) by (simp add: d2(1) leaves_key_def)
  then have "claim_held ?r x d2" using held by (simp add: claim_held_def)
  then show ?thesis
    by (rule complete_loop_records [OF _ d2(2) [unfolded completeIdempotency_def] alone(1)])
      (use held in \<open>simp_all add: claim_held_def\<close>)
qed

lemma Begin_found:
  "idem_of r d = Some y \<Longrightarrow> BeginIdempotency r e d =
     (if idem_RequestDigest y \<noteq> idem_RequestDigest r then Refused ErrIdempotencyConflict (publicIdempotencyRecord y)
      else if idem_Status y = IdempotencySucceeded then Replay (publicIdempotencyRecord y)
      else Refused ErrIdempotencyPending (publicIdempotencyRecord y), d)"
  by (simp add: BeginIdempotency_def idem_of_def)

lemma claim_recorded:
  assumes "idem_of r (ie_world e 0 0 d) = Some y" "idem_Status y = IdempotencySucceeded"
  shows "claimIdempotency e reconcile r d =
     Some (if idem_RequestDigest y = idem_RequestDigest r then Inr (publicIdempotencyRecord y, False) else Inl IdemConflict, ie_world e 0 0 d)"
  by (simp add: claimIdempotency_def claim_round_def numeral_eq_Suc Begin_found [OF assms(1)] assms(2))

lemma recorded_replays:
  assumes "result_recorded (idem_request actor operation resource key digest) (marshal r) (ie_world e 0 0 d)"
    "activeActor d actorID = Inr actor" "unmarshal (json_enc (marshal r)) = Some r"
  shows "executeIdempotent marshal unmarshal e actorID operation resource key digest status execute reconcile d
      = Some (Inr (r, True), ie_world e 0 0 d)"
    and "digest' \<noteq> digest \<Longrightarrow> executeIdempotent marshal unmarshal e actorID operation resource key digest' status execute reconcile d
      = Some (Inl IdemConflict, ie_world e 0 0 d)"
proof -
  have scope: "idem_of (idem_request actor operation resource key x) = idem_of (idem_request actor operation resource key digest)" for x
    by (simp add: fun_eq_iff idem_of_def sameIdempotencyScope_def idem_request_def)
  have dig: "idem_RequestDigest (idem_request actor operation resource key x) = x" for x by (simp add: idem_request_def)
  obtain y where y: "idem_of (idem_request actor operation resource key digest) (ie_world e 0 0 d) = Some y" "idem_RequestDigest y = digest"
    "idem_Status y = IdempotencySucceeded" "idem_Result y = json_enc (marshal r)"
    using assms(1) by (auto simp: result_recorded_def dig)
  note claim = claim_recorded [OF y(1) y(3), unfolded dig y(2)]
  note refuse = claim_recorded [OF trans [OF fun_cong [OF scope [of digest']] y(1)] y(3), unfolded dig y(2)]
  show "executeIdempotent marshal unmarshal e actorID operation resource key digest status execute reconcile d
      = Some (Inr (r, True), ie_world e 0 0 d)"
    using assms(2,3) y(4) by (simp add: executeIdempotent_def publicIdempotencyRecord_def claim)
  show "executeIdempotent marshal unmarshal e actorID operation resource key digest' status execute reconcile d
      = Some (Inl IdemConflict, ie_world e 0 0 d)" if "digest' \<noteq> digest"
    using assms(2) that by (simp add: executeIdempotent_def refuse)
qed

text \<open>No handler touches the records of idempotency.\<close>

lemma field_tree:
  fixes f :: "db \<Rightarrow> 'f"
  shows "(c \<Longrightarrow> f (snd a) = y) \<Longrightarrow> (\<not> c \<Longrightarrow> f (snd b) = y) \<Longrightarrow> f (snd (if c then a else b)) = y"
    and "(\<And>er. f (snd (g1 er)) = y) \<Longrightarrow> (\<And>x. f (snd (g2 x)) = y) \<Longrightarrow> f (snd (case r of Inl er \<Rightarrow> g1 er | Inr x \<Rightarrow> g2 x)) = y"
    and "f (snd a) = y \<Longrightarrow> (\<And>x. f (snd (g3 x)) = y) \<Longrightarrow> f (snd (case q of None \<Rightarrow> a | Some x \<Rightarrow> g3 x)) = y"
    and "(\<And>x. f (snd (g4 x)) = y) \<Longrightarrow> f (snd (Let z g4)) = y"
  by (auto split: sum.split option.split)

lemmas records_tree = field_tree [where f = db_IdempotencyRecords]

lemma create_records:
  assumes "all_saved h"
  shows "db_IdempotencyRecords (snd (create h x actorID key task snap d)) = db_IdempotencyRecords d"
proof -
  have saved: "db_IdempotencyRecords (snd (CreateChange c ev (se_call h 0) d)) = db_IdempotencyRecords d" for c ev
    using all_savedD [OF assms] by (simp add: CreateChange_def store_frame)
  have "db_IdempotencyRecords (snd (case CreateChange c ev (se_call h 0) d of (Inl er, d') \<Rightarrow> (Inl er, d') | (Inr _, d') \<Rightarrow> (Inr c, d')))
      = db_IdempotencyRecords d" for c ev
    using saved [of c ev] by (cases "CreateChange c ev (se_call h 0) d"; cases "fst (CreateChange c ev (se_call h 0) d)") auto
  then show ?thesis
    unfolding create_def by (intro records_tree) simp_all
qed

text \<open>C11: a change is created once per idempotency key. After a request created a change, every later request of
  the same person with the same key and the same body gets that change back with the mark of a replay and
  writes nothing, even when its task cannot be verified any more; the same key with another body is
  refused. In between other processes may do anything but touch the record of the key.\<close>

theorem create_once_per_key:
  assumes first: "CreateIdempotent marshal unmarshal e h x actorID key digest resolve d = Some (Inr (c, False), d1)"
    and h: "all_saved h" and actor: "activeActor d actorID = Inr actor"
    and alone: "\<And>k. leaves_key (idem_request actor ''CREATE_CHANGE'' ''change'' key digest) (ie_settle e k)"
      "leaves_key (idem_request actor ''CREATE_CHANGE'' ''change'' key digest) (ie_during e)"
    and later: "idem_of (idem_request actor ''CREATE_CHANGE'' ''change'' key digest) (ie_world e2 0 0 d2)
        = idem_of (idem_request actor ''CREATE_CHANGE'' ''change'' key digest) d1" "activeActor d2 actorID = Inr actor"
    and json: "unmarshal (json_enc (marshal c)) = Some c"
  shows "CreateIdempotent marshal unmarshal e2 h2 x2 actorID key digest resolve2 d2 = Some (Inr (c, True), ie_world e2 0 0 d2)
    \<and> (digest' \<noteq> digest \<longrightarrow>
        CreateIdempotent marshal unmarshal e2 h2 x2 actorID key digest' resolve2 d2 = Some (Inl IdemConflict, ie_world e2 0 0 d2))"
proof -
  have "db_IdempotencyRecords (snd (case (if trim_space (cci_AgentTaskID x) = [] then Inr [] else resolve) of
      Inl er \<Rightarrow> (Inl er, d) | Inr task \<Rightarrow> create h x actorID key task snap d)) = db_IdempotencyRecords d" for snap d
    using create_records [OF h] by (simp split: sum.split)
  then have "result_recorded (idem_request actor ''CREATE_CHANGE'' ''change'' key digest) (marshal c) d1"
    by (rule executed_recorded [OF first [unfolded CreateIdempotent_def] actor alone])
  then have rec: "result_recorded (idem_request actor ''CREATE_CHANGE'' ''change'' key digest) (marshal c) (ie_world e2 0 0 d2)"
    by (simp add: result_recorded_def later(1))
  show ?thesis
    unfolding CreateIdempotent_def
    by (intro conjI impI; (rule recorded_replays(1) [where marshal = marshal and unmarshal = unmarshal and r = c, OF rec later(2) json]
        | erule recorded_replays(2) [where marshal = marshal and unmarshal = unmarshal and r = c, OF rec later(2) json]))
qed

definition quiet_idem :: "gotime \<Rightarrow> idem_env" where
  "quiet_idem now = \<lparr> ie_start = now, ie_round = (\<lambda>k. calm (now + int k * poll)), ie_world = (\<lambda>_ _ d. d),
     ie_finish = (\<lambda>k. calm (now + int k * poll)), ie_settle = (\<lambda>_ d. d), ie_during = (\<lambda>d. d) \<rparr>"

lemma quiet_idem_clock [simp]: "clock_ok (quiet_idem now)"
  by (simp add: clock_ok_def quiet_idem_def algebra_simps)

lemma leaves_key_id [simp]: "leaves_key r (\<lambda>d. d)"
  by (simp add: leaves_key_def)

text \<open>A sample creation: one configuration file for an application of the sample enterprise.\<close>

definition idem_app :: application where
  "idem_app = zero_application\<lparr> app_ID := ''app_1'', app_OrganizationID := ''org_1'', app_Name := ''shop'' \<rparr>"

definition idem_user :: user where
  "idem_user = zero_user\<lparr> usr_ID := ''usr_sub'', usr_OrganizationID := ''org_1'', usr_Role := RoleOwner, usr_Active := True \<rparr>"

definition idem_db :: db where
  "idem_db = empty_db\<lparr> db_Users := [idem_user], db_Applications := [idem_app] \<rparr>"

definition idem_artifact :: change_artifact where
  "idem_artifact = zero_change_artifact\<lparr> art_ID := ''a'', art_Kind := ArtifactConfig, art_Name := ''f'', art_Content := ''x=1'' \<rparr>"

definition idem_input :: create_change_input where
  "idem_input = \<lparr> cci_Title = ''t'', cci_ApplicationID = ''app_1'', cci_Environment = [], cci_ChangeType = [],
     cci_RepositoryURL = [], cci_Branch = [], cci_CommitSHA = [], cci_Artifacts = [idem_artifact], cci_SQL = [], cci_RollbackSQL = [],
     cci_RollbackPlan = [], cci_ReleasePlan = zero_release_plan, cci_Description = [], cci_PlannedAt = 0, cci_AgentTaskID = [] \<rparr>"

lemma idem_sample_parts:
  "activeActor idem_db ''usr_sub'' = Inr idem_user" "may_use_application idem_db idem_user ''app_1'' = Some idem_app"
  "credential_free idem_input" "trim_space [] = []" "validAgentTaskID []"
  "Redact (art_Content idem_artifact) = art_Content idem_artifact" "trim_space (art_Content idem_artifact) \<noteq> []"
  "trim_space (art_Name idem_artifact) = art_Name idem_artifact" "allowed_kind (art_Kind idem_artifact)"
  by (code_simp)+

text \<open>An undisturbed request with a new key runs once, and succeeds when its handler does.\<close>

lemma Begin_fresh:
  assumes "idem_of r d = None" "env_save e = Saved" "env_id e 0 \<noteq> []"
  obtains x where "BeginIdempotency r e d = (Claimed x, d\<lparr> db_IdempotencyRecords := db_IdempotencyRecords d @ [x] \<rparr>)" "matchingIdempotencyClaim x x"
    "idem_Status x = IdempotencyPending"
  using assms
  by (simp add: BeginIdempotency_def idem_of_def assignIdempotencyClaim_def Let_def pending_record_def
      matchingIdempotencyClaim_def SHA256_nonempty)

lemma Complete_fresh:
  assumes "claim_held r x d" "matchingIdempotencyClaim x x" "env_save e = Saved"
  shows "\<exists>y d'. CompleteIdempotency x result ref status e d = (Inr y, d') \<and> db_Users d' = db_Users d"
proof -
  obtain n where n: "find_index_of (same_request r) (db_IdempotencyRecords d) = Some n" "db_IdempotencyRecords d ! n = x"
    using assms(1) idem_of_request [of r d x] by (auto simp: claim_held_def)
  moreover have "same_request x = same_request r"
    using assms(1) by (auto simp: fun_eq_iff same_request_def same_scope_iff claim_held_def)
  ultimately show ?thesis using assms by (simp add: CompleteIdempotency_def Let_def claim_held_def)
qed

lemma quiet_request_runs:
  assumes "activeActor d actorID = Inr actor" "idem_of (idem_request actor operation resource key digest) d = None"
    and run: "\<And>x. \<exists>d'. execute (d0 x) (d0 x) = (Inr r, d') \<and> db_IdempotencyRecords d' = db_IdempotencyRecords (d0 x) \<and> db_Users d' = db_Users d"
    and d0: "d0 = (\<lambda>x. d\<lparr> db_IdempotencyRecords := db_IdempotencyRecords d @ [x] \<rparr>)"
  shows "\<exists>d'. executeIdempotent marshal unmarshal (quiet_idem now) actorID operation resource key digest status execute reconcile d
     = Some (Inr (r, False), d') \<and> db_Users d' = db_Users d"
proof -
  let ?r = "idem_request actor operation resource key digest"
  obtain x where x: "BeginIdempotency ?r (saved_env now) d = (Claimed x, d0 x)" "matchingIdempotencyClaim x x"
    using Begin_fresh [OF assms(2), of "saved_env now"] by (auto simp: saved_env_def d0 nat_str_nonempty)
  have claim: "claimIdempotency (quiet_idem now) reconcile ?r d = Some (Inr (x, True), d0 x)"
    by (simp add: claimIdempotency_def claim_round_def numeral_eq_Suc quiet_idem_def x(1))
  obtain d' where d': "execute (d0 x) (d0 x) = (Inr r, d')" "db_IdempotencyRecords d' = db_IdempotencyRecords (d0 x)" "db_Users d' = db_Users d"
    using run by blast
  have "claim_held ?r x d'" using Begin_claims [OF x(1)] idem_of_frame [OF d'(2)] by (simp add: claim_held_def)
  from Complete_fresh [OF this x(2)] obtain y d2 where
    "CompleteIdempotency x (marshal r) (''change:'' @ resource) status (saved_env now) d' = (Inr y, d2)"
    "db_Users d2 = db_Users d'" by (metis saved_env_save)
  then have "db_Users d2 = db_Users d"
    and "completeIdempotency (quiet_idem now) x (marshal r) (''change:'' @ resource) status d' = Some (Inr y, d2)"
    using d'(3) by (simp_all add: completeIdempotency_def numeral_eq_Suc quiet_idem_def)
  then show ?thesis using assms(1) d'(1) by (simp add: executeIdempotent_def claim) (simp add: quiet_idem_def)
qed

lemma idem_draft: "\<exists>dr. draft_of (calm 100) txt_env_default idem_input = Inr dr"
proof -
  have norm: "normalizeArtifacts (calm 100) [idem_artifact] [] = Inr [PrepareArtifact idem_artifact]"
    using idem_sample_parts(4,7,8,9)
    by (simp add: normalizeArtifacts_def normal_artifact_def defaultString_def)
      (simp add: idem_artifact_def)
  have prep: "PrepareArtifact idem_artifact = idem_artifact\<lparr> art_ContentSHA256 := SHA256 (art_Content idem_artifact) \<rparr>"
    using idem_sample_parts(4,6,8) by (simp add: PrepareArtifact_def) (simp add: idem_artifact_def ArtifactKubernetes_def ArtifactConfig_def zero_change_artifact_def)
  have "bounded_input idem_input [idem_artifact\<lparr> art_ContentSHA256 := s \<rparr>] = bounded_input idem_input [idem_artifact]" for s
    by (simp add: bounded_input_def artifactBytes_def hasArtifactKind_def)
  moreover have "rune_count (trim_space ''t'') = 1" "rune_count [] = 0" by code_simp+
  then have "bounded_input idem_input [idem_artifact]"
    using idem_sample_parts(4)
    by (simp add: bounded_input_def idem_input_def Let_def validRuneLength_def hasArtifactKind_def artifactBytes_def idem_artifact_def
        zero_change_artifact_def ArtifactConfig_def ArtifactDatabase_def)
  ultimately have "bounded_input idem_input [PrepareArtifact idem_artifact]" by (simp add: prep)
  then show ?thesis
    using idem_sample_parts(3) norm by (simp add: draft_of_def) (simp add: idem_input_def Let_def)
qed

lemma idem_create:
  obtains c where "\<And>rs. \<exists>d'. create (calm 100) idem_input ''usr_sub'' ''k'' [] (idem_db\<lparr> db_IdempotencyRecords := rs \<rparr>)
      (idem_db\<lparr> db_IdempotencyRecords := rs \<rparr>) = (Inr c, d') \<and> db_IdempotencyRecords d' = rs \<and> db_Users d' = [idem_user]"
proof -
  obtain dr where dr: "draft_of (calm 100) txt_env_default idem_input = Inr dr" using idem_draft by blast
  let ?d = "\<lambda>rs. idem_db\<lparr> db_IdempotencyRecords := rs \<rparr>"
  have snap: "activeActor (?d rs) i = activeActor idem_db i" "may_use_application (?d rs) u a = may_use_application idem_db u a" for rs i u a
    using canUse_cong [of "?d rs" idem_db] by (simp_all add: activeActor_def User_def may_use_application_def Application_def split: sum.split)
  have input: "cci_ApplicationID idem_input = ''app_1''" "cci_AgentTaskID idem_input = []" "cci_PlannedAt idem_input = 0"
    by (simp_all add: idem_input_def)
  let ?c = "new_change (calm 100) idem_user idem_app dr ''k'' [] (100 + 24 * hour) idem_input"
  show ?thesis
  proof (rule that [of ?c])
    show "\<exists>d'. create (calm 100) idem_input ''usr_sub'' ''k'' [] (?d rs) (?d rs) = (Inr ?c, d') \<and> db_IdempotencyRecords d' = rs \<and> db_Users d' = [idem_user]" for rs
      using idem_sample_parts(1,2,4,5)
      by (simp add: create_def snap input dr Let_def is_zero_def CreateChange_def store_frame) (simp add: idem_db_def)
  qed
qed

theorem create_once_per_key_witness:
  "\<exists>marshal unmarshal c d1.
     CreateIdempotent marshal unmarshal (quiet_idem 100) (calm 100) idem_input ''usr_sub'' ''k'' ''body'' (Inr []) idem_db = Some (Inr (c, False), d1)
   \<and> CreateIdempotent marshal unmarshal (quiet_idem 500) (calm 500) idem_input ''usr_sub'' ''k'' ''body'' (Inl ErrNotFound) d1 = Some (Inr (c, True), d1)"
proof -
  obtain c where c: "\<And>rs. \<exists>d'. create (calm 100) idem_input ''usr_sub'' ''k'' [] (idem_db\<lparr> db_IdempotencyRecords := rs \<rparr>)
      (idem_db\<lparr> db_IdempotencyRecords := rs \<rparr>) = (Inr c, d') \<and> db_IdempotencyRecords d' = rs \<and> db_Users d' = [idem_user]" using idem_create by blast
  define marshal :: "change_request \<Rightarrow> json" where "marshal = (\<lambda>c. JStr (chg_ID c))"
  define unmarshal :: "string \<Rightarrow> change_request option" where "unmarshal = (\<lambda>s. if s = json_enc (JStr (chg_ID c)) then Some c else None)"
  let ?r = "idem_request idem_user ''CREATE_CHANGE'' ''change'' ''k'' ''body''"
  have "trim_space (cci_AgentTaskID idem_input) = []" using idem_sample_parts(4) by (simp add: idem_input_def)
  then have "\<exists>d1. CreateIdempotent marshal unmarshal (quiet_idem 100) (calm 100) idem_input ''usr_sub'' ''k'' ''body'' (Inr []) idem_db = Some (Inr (c, False), d1)
      \<and> db_Users d1 = db_Users idem_db"
    unfolding CreateIdempotent_def
    by (intro quiet_request_runs [OF idem_sample_parts(1) _ _ refl]) (use c in \<open>simp_all add: idem_of_def idem_db_def empty_db_def\<close>)
  then obtain d1 where first: "CreateIdempotent marshal unmarshal (quiet_idem 100) (calm 100) idem_input ''usr_sub'' ''k'' ''body'' (Inr []) idem_db
      = Some (Inr (c, False), d1)" "db_Users d1 = db_Users idem_db" by blast
  then have users: "activeActor d1 ''usr_sub'' = Inr idem_user" using idem_sample_parts(1) by (simp add: activeActor_def User_def)
  have saved: "all_saved (calm 100)" by (simp add: all_saved_def)
  have json: "unmarshal (json_enc (marshal c)) = Some c" by (simp add: marshal_def unmarshal_def)
  have "ie_world (quiet_idem 500) 0 0 d1 = d1" "\<And>k. leaves_key ?r (ie_settle (quiet_idem 100) k)" "leaves_key ?r (ie_during (quiet_idem 100))"
    by (simp_all add: quiet_idem_def)
  with create_once_per_key [OF first(1) saved idem_sample_parts(1) _ _ _ users json, of "quiet_idem 500"] first(1) show ?thesis by metis
qed

section \<open>Claims without a side effect\<close>

lemma claim_loop_waits:
  assumes "\<And>k. claim_round e deadline reconcile r k d = (wait_or (se_now (ie_round e k) < deadline) IdemInProgress :: 'e claim_step, d)"
    "(claim_loop e deadline reconcile r fuel k d :: (('e idem_error + idempotency_record \<times> bool) \<times> db) option) \<noteq> None"
  shows "(claim_loop e deadline reconcile r fuel k d :: (('e idem_error + idempotency_record \<times> bool) \<times> db) option)
     = Some (Inl IdemInProgress, d)"
  using assms(2)
  by (induction fuel arbitrary: k) (simp_all add: assms(1) wait_or_def split: if_splits)

lemma clock_after_start:
  assumes "clock_ok e"
  shows "ie_start e \<le> se_now (ie_round e k)"
proof (induction k)
  case (Suc k)
  then show ?case using assms by (simp add: clock_ok_def poll_def) (meson add_increasing2 order_trans zero_le_numeral)
qed (use assms in \<open>simp add: clock_ok_def\<close>)

lemma Cleanup_keeps:
  assumes "cleanup gone limit xs = (kept, removed)" "List.find P xs = Some y" "\<not> gone y"
  shows "List.find P kept = Some y"
  using assms by (induction xs arbitrary: limit kept removed) (auto split: if_splits prod.splits)

text \<open>C34: a claim that was left behind before its side effect blocks its key for good. When a process dies
  between the claim of a key and the creation of the change, every later request with that key waits for the
  whole deadline and is told that the request is in progress, however old the claim is; and the cleanup of
  expired records never removes it.\<close>

theorem abandoned_claim_blocks:
  assumes clock: "clock_ok e" and quiet: "\<And>k j d. ie_world e k j d = d" and actor: "activeActor d actorID = Inr actor"
    and found: "idem_of (idem_request actor ''CREATE_CHANGE'' ''change'' key digest) d = Some y"
    and y: "idem_RequestDigest y = digest" "idem_Status y = IdempotencyPending" "idem_UpdatedAt y + idempotencyRecoveryGrace \<le> ie_start e"
    and unmade: "list_all (\<lambda>c. \<not> created_by (publicIdempotencyRecord y) c) (db_Changes d)" and saved: "env_save ec = Saved"
  shows "CreateIdempotent marshal unmarshal e h x actorID key digest resolve d = Some (Inl IdemInProgress, d)
    \<and> idem_of (idem_request actor ''CREATE_CHANGE'' ''change'' key digest) (snd (CleanupExpiredIdempotency org tm limit ec d)) = Some y"
proof -
  let ?r = "idem_request actor ''CREATE_CHANGE'' ''change'' key digest"
  have begin_pending: "BeginIdempotency ?r (se_call (ie_round e k) 0) d = (Refused ErrIdempotencyPending (publicIdempotencyRecord y), d)" for k
    using y(1,2) by (simp add: Begin_found [OF found]) (simp add: idem_request_def)
  have "List.find (created_by (publicIdempotencyRecord y)) (Changes d) = None"
    unfolding find_None_iff Changes_def set_sort using unmade unfolding list_all_iff by blast
  then have "find_created marshal d (publicIdempotencyRecord y) = Inr None" by (simp add: find_created_def)
  moreover have "idempotencyRecoveryGrace \<le> se_now (ie_round e k) - idem_UpdatedAt y" for k
    using clock_after_start [OF clock, of k] y(3) by simp
  ultimately have round: "claim_round e deadline (Some (find_created marshal)) ?r k d = (wait_or (se_now (ie_round e k) < deadline) IdemInProgress, d)"
    for deadline k
    by (simp add: claim_round_def recover_round_def Let_def begin_pending quiet not_less publicIdempotencyRecord_def)
  have "claimIdempotency e (Some (find_created marshal)) ?r d = Some (Inl IdemInProgress :: err idem_error + idempotency_record \<times> bool, d)"
    using claim_loop_waits [OF round] claimIdempotency_ends [OF clock] unfolding claimIdempotency_def by blast
  then have "CreateIdempotent marshal unmarshal e h x actorID key digest resolve d = Some (Inl IdemInProgress, d)"
    by (simp add: CreateIdempotent_def executeIdempotent_def actor)
  moreover have "idem_of ?r (snd (CleanupExpiredIdempotency org tm limit ec d)) = Some y"
  proof -
    let ?limit = "if limit \<le> 0 \<or> 1000 < limit then 100 else limit"
    obtain kept removed where c: "cleanup (expired_record org tm) ?limit (db_IdempotencyRecords d) = (kept, removed)" by fastforce
    have "List.find (\<lambda>x. sameIdempotencyScope x ?r) kept = Some y"
      using Cleanup_keeps [OF c found [unfolded idem_of_def]] y(2) by (simp add: expired_record_def)
    then show ?thesis
      using found saved by (simp add: CleanupExpiredIdempotency_def Let_def c) (simp add: idem_of_def store_frame)
  qed
  ultimately show ?thesis by simp
qed

definition abandoned_db :: db where
  "abandoned_db = idem_db\<lparr> db_IdempotencyRecords :=
     [(idem_request idem_user ''CREATE_CHANGE'' ''change'' ''k'' ''body'')
        \<lparr> idem_Status := IdempotencyPending, idem_Generation := 1, idem_UpdatedAt := 100 \<rparr>] \<rparr>"

theorem abandoned_claim_blocks_witness:
  "CreateIdempotent (\<lambda>_. JNull) (\<lambda>_. None) (quiet_idem (3000 * hour)) (calm 100) idem_input ''usr_sub'' ''k'' ''body'' (Inr []) abandoned_db
     = Some (Inl IdemInProgress, abandoned_db)"
proof -
  let ?y = "(idem_request idem_user ''CREATE_CHANGE'' ''change'' ''k'' ''body'')
        \<lparr> idem_Status := IdempotencyPending, idem_Generation := 1, idem_UpdatedAt := 100 \<rparr>"
  have f: "activeActor abandoned_db ''usr_sub'' = Inr idem_user"
    using idem_sample_parts(1) by (simp add: activeActor_def User_def abandoned_db_def)
  have y: "idem_of (idem_request idem_user ''CREATE_CHANGE'' ''change'' ''k'' ''body'') abandoned_db = Some ?y"
    by (simp add: idem_of_def abandoned_db_def sameIdempotencyScope_def)
  have "idem_RequestDigest ?y = ''body''" "idem_Status ?y = IdempotencyPending"
    "idem_UpdatedAt ?y + idempotencyRecoveryGrace \<le> ie_start (quiet_idem (3000 * hour))" "ie_world (quiet_idem (3000 * hour)) k j d = d"
    "list_all (\<lambda>c. \<not> created_by (publicIdempotencyRecord ?y) c) (db_Changes abandoned_db)" for k j d
    by (simp_all add: idem_request_def idempotencyRecoveryGrace_def quiet_idem_def hour_def minute_def second_def abandoned_db_def
        idem_db_def empty_db_def)
  with abandoned_claim_blocks [OF quiet_idem_clock _ f y, where ec = "saved_env 0"] show ?thesis by simp
qed

text \<open>The answer of a creation names its resource as \<open>change:change\<close>, the recovery names it by the identifier of the
  change: a creation that another request recovered while it was still running is refused its own result.\<close>

lemma recovered_creation_conflicts:
  assumes "idem_of r d = Some y" "idem_RequestDigest y = idem_RequestDigest r" "idem_Status y = IdempotencySucceeded"
    "idem_ResponseRef y = ''change:'' @ i" "i \<noteq> ''change''" "same_request x = same_request r"
  shows "CompleteIdempotency x result ''change:change'' status e d = (Inl ErrIdempotencyResultConflict, d)"
proof -
  obtain n where "find_index_of (same_request r) (db_IdempotencyRecords d) = Some n" "db_IdempotencyRecords d ! n = y"
    by (rule idem_of_request [OF assms(1,2)])
  then show ?thesis using assms(3-6) by (simp add: CompleteIdempotency_def Let_def)
qed

end
