(* ===== verification/OutcomeTexts.thy ===== *)
theory OutcomeTexts
  imports Main
begin

text \<open>
  The non-ASCII string constants of the outcome reports and the trial of rules that a modelled definition compares or stores, as their UTF-8
  bytes.
\<close>

definition txt_out_subject :: string where
  "txt_out_subject = [
    CHR 0xE8, CHR 0xBF, CHR 0x90, CHR 0xE7, CHR 0xBB, CHR 0xB4, CHR 0xE7, CHR 0xBB, CHR 0x93,
    CHR 0xE6, CHR 0x9E, CHR 0x9C]"

definition txt_out_incident :: string where
  "txt_out_incident = [
    CHR 0xE4, CHR 0xBA, CHR 0x8B, CHR 0xE6, CHR 0x95, CHR 0x85, CHR 0x20]"

definition txt_out_rollback :: string where
  "txt_out_rollback = [
    CHR 0xE5, CHR 0x9B, CHR 0x9E, CHR 0xE6, CHR 0xBB, CHR 0x9A, CHR 0x20]"

definition txt_out_sli :: string where
  "txt_out_sli = [
    CHR 0xE4, CHR 0xB8, CHR 0x9A, CHR 0xE5, CHR 0x8A, CHR 0xA1, CHR 0xE6, CHR 0x8C, CHR 0x87,
    CHR 0xE6, CHR 0xA0, CHR 0x87, CHR 0x20]"

definition txt_out_status :: string where
  "txt_out_status = [
    CHR 0x20, CHR 0xE7, CHR 0x8A, CHR 0xB6, CHR 0xE6, CHR 0x80, CHR 0x81, CHR 0x20]"

definition txt_out_source :: string where
  "txt_out_source = [
    CHR 0xEF, CHR 0xBC, CHR 0x8C, CHR 0xE6, CHR 0x9D, CHR 0xA5, CHR 0xE6, CHR 0xBA, CHR 0x90,
    CHR 0x20]"

definition txt_out_sep :: string where
  "txt_out_sep = [
    CHR 0xEF, CHR 0xBC, CHR 0x9B]"

definition txt_out_full :: string where
  "txt_out_full = [
    CHR 0xE5, CHR 0x85, CHR 0xA8, CHR 0xE9, CHR 0x87, CHR 0x8F]"

definition txt_test_artifact :: string where
  "txt_test_artifact = [
    CHR 0xE8, CHR 0xA7, CHR 0x84, CHR 0xE5, CHR 0x88, CHR 0x99, CHR 0xE8, CHR 0xAF, CHR 0x95,
    CHR 0xE8, CHR 0xB7, CHR 0x91, CHR 0xE5, CHR 0x88, CHR 0xB6, CHR 0xE5, CHR 0x93, CHR 0x81]"

definition txt_test_rollback :: string where
  "txt_test_rollback = [
    CHR 0xE8, CHR 0xA7, CHR 0x84, CHR 0xE5, CHR 0x88, CHR 0x99, CHR 0xE8, CHR 0xAF, CHR 0x95,
    CHR 0xE8, CHR 0xB7, CHR 0x91, CHR 0xE4, CHR 0xBD, CHR 0xBF, CHR 0xE7, CHR 0x94, CHR 0xA8,
    CHR 0xE7, CHR 0x9A, CHR 0x84, CHR 0xE6, CHR 0xA8, CHR 0xA1, CHR 0xE6, CHR 0x8B, CHR 0x9F,
    CHR 0xE5, CHR 0x9B, CHR 0x9E, CHR 0xE6, CHR 0xBB, CHR 0x9A, CHR 0xE6, CHR 0x96, CHR 0xB9,
    CHR 0xE6, CHR 0xA1, CHR 0x88]"

definition txt_test_strategy :: string where
  "txt_test_strategy = [
    CHR 0xE9, CHR 0x87, CHR 0x91, CHR 0xE4, CHR 0xB8, CHR 0x9D, CHR 0xE9, CHR 0x9B, CHR 0x80,
    CHR 0xE5, CHR 0x8F, CHR 0x91, CHR 0xE5, CHR 0xB8, CHR 0x83]"

definition txt_test_errors :: string where
  "txt_test_errors = [
    CHR 0xE9, CHR 0x94, CHR 0x99, CHR 0xE8, CHR 0xAF, CHR 0xAF, CHR 0xE7, CHR 0x8E, CHR 0x87]"

definition txt_test_latency :: string where
  "txt_test_latency = [
    CHR 0x50, CHR 0x39, CHR 0x39, CHR 0x20, CHR 0xE5, CHR 0xBB, CHR 0xB6, CHR 0xE8, CHR 0xBF,
    CHR 0x9F]"

definition txt_test_type :: string where
  "txt_test_type = [
    CHR 0xE6, CHR 0xB7, CHR 0xB7, CHR 0xE5, CHR 0x90, CHR 0x88, CHR 0xE5, CHR 0x8F, CHR 0x91,
    CHR 0xE5, CHR 0xB8, CHR 0x83]"

end
