(* ===== verification/Outcomes.thy ===== *)
theory Outcomes
  imports IdempotentService OutcomeTexts "HOL-Library.AList" "HOL-Library.Product_Lexorder"
begin

text \<open>
  \<^verbatim>\<open>internal/service/outcome_signals.go\<close>, the outcome report of \<^verbatim>\<open>service.go\<close> (2002--2407) and
  \<^verbatim>\<open>governance_trends.go\<close>: what the operations systems report after a release, how the latest report about
  each entity decides the state of a change, and the counts and rates of the governance reports. Floating point
  numbers are exact rationals; sums of durations wrap around at 64 bits, as in the source.
\<close>

section \<open>Rates and durations\<close>

definition round_half_away :: "rat \<Rightarrow> int" where
  "round_half_away x = (if 0 \<le> x then \<lfloor>x + 1 / 2\<rfloor> else - \<lfloor>1 / 2 - x\<rfloor>)"

definition roundTwo :: "rat \<Rightarrow> rat" where
  "roundTwo v = of_int (round_half_away (v * 100)) / 100"

definition percentage :: "nat \<Rightarrow> nat \<Rightarrow> rat" where
  "percentage n d = (if d = 0 then 0 else roundTwo (of_nat n / of_nat d * 100))"

text \<open>\<^verbatim>\<open>Time.Sub\<close> saturates, the sum of durations wraps around.\<close>

definition time_sub :: "gotime \<Rightarrow> gotime \<Rightarrow> duration" where
  "time_sub a b = max (- (2 ^ 63)) (min (2 ^ 63 - 1) (a - b))"

definition duration_sum :: "duration list \<Rightarrow> duration" where
  "duration_sum ds = sint (fold (\<lambda>x total. total + word_of_int x) ds (0 :: 64 word))"

definition average_minutes :: "duration list \<Rightarrow> rat" where
  "average_minutes ds =
     (if ds = [] then 0 else roundTwo (of_int (duration_sum ds) / of_int minute / of_nat (length ds)))"

definition tally :: "('a \<Rightarrow> bool) \<Rightarrow> 'a list \<Rightarrow> nat" where
  "tally P xs = length (filter P xs)"

section \<open>The latest report about each entity\<close>

text \<open>One pass over the reports, which keeps for each key the first report that no later one is newer than.\<close>

fun keep :: "('a \<Rightarrow> 'a \<Rightarrow> bool) \<Rightarrow> ('a \<Rightarrow> 'k) \<Rightarrow> 'a list \<Rightarrow> ('k \<times> 'a) list \<Rightarrow> ('k \<times> 'a) list" where
  "keep newer key [] m = m"
| "keep newer key (x # xs) m =
     keep newer key xs
       (case map_of m (key x) of
          None \<Rightarrow> AList.update (key x) x m
        | Some current \<Rightarrow> if newer x current then AList.update (key x) x m else m)"

definition best :: "('a \<Rightarrow> 'a \<Rightarrow> bool) \<Rightarrow> 'a \<Rightarrow> 'a option \<Rightarrow> 'a option" where
  "best newer x current = Some (case current of None \<Rightarrow> x | Some y \<Rightarrow> if newer x y then x else y)"

lemma keep_lookup:
  "map_of (keep newer key xs m) k = fold (best newer) (filter (\<lambda>x. key x = k) xs) (map_of m k)"
  by (induction xs arbitrary: m) (auto simp: best_def update_conv' split: option.split)

lemma keep_distinct [simp]: "distinct (map fst m) \<Longrightarrow> distinct (map fst (keep newer key xs m))"
  by (induction newer key xs m rule: keep.induct) (auto simp: distinct_update split: option.splits)

lemma keep_entry: "(k, x) \<in> set (keep newer key xs m) \<Longrightarrow> (k, x) \<in> set m \<or> (x \<in> set xs \<and> key x = k)"
proof (induction newer key xs m rule: keep.induct)
  case (2 newer key y ys m)
  have "set (AList.update (key y) y m) \<subseteq> insert (key y, y) (set m)" by (induction m) auto
  then show ?case using 2 by (auto split: option.splits if_splits)
qed simp

lemma fold_best_None: "fold (best newer) xs None = None \<longleftrightarrow> xs = []"
proof -
  have "fold (best newer) ys (Some y) \<noteq> None" for ys y by (induction ys arbitrary: y) (auto simp: best_def)
  then show ?thesis by (cases xs) (auto simp: best_def)
qed

lemma keep_keys: "fst ` set (keep newer key xs []) = key ` set xs"
proof -
  have "k \<notin> fst ` set (keep newer key xs []) \<longleftrightarrow> k \<notin> key ` set xs" for k
    unfolding map_of_eq_None_iff [symmetric] keep_lookup
    by (simp add: fold_best_None filter_empty_conv) auto
  then show ?thesis by blast
qed

lemma keep_length: "length (keep newer key xs []) = card (key ` set xs)"
proof -
  have "card (fst ` set (keep newer key xs [])) = length (keep newer key xs [])"
    using distinct_card [OF keep_distinct [of "[]" newer key xs]] by simp
  then show ?thesis by (simp add: keep_keys)
qed

locale latest_wins =
  fixes newer :: "'a \<Rightarrow> 'a \<Rightarrow> bool" and rank :: "'a \<Rightarrow> 'r :: linorder"
  assumes newer_rank: "newer x y \<longleftrightarrow> rank y < rank x"
begin

lemma fold_best:
  "fold (best newer) xs (Some y) = Some x \<Longrightarrow> x \<in> insert y (set xs) \<and> (\<forall>z\<in>insert y (set xs). rank z \<le> rank x)"
proof (induction xs arbitrary: y)
  case (Cons z zs)
  show ?case
  proof (cases "newer z y")
    case True
    then have "rank y < rank z" by (simp add: newer_rank)
    with Cons.IH [of z] Cons.prems True show ?thesis by (auto simp: best_def intro: order.trans less_imp_le)
  next
    case False
    then have "rank z \<le> rank y" by (simp add: newer_rank not_less)
    with Cons.IH [of y] Cons.prems False show ?thesis by (auto simp: best_def intro: order.trans)
  qed
qed simp

lemma fold_best_greatest:
  "fold (best newer) xs None = Some x \<Longrightarrow> x \<in> set xs \<and> (\<forall>z\<in>set xs. rank z \<le> rank x)"
  using fold_best [of "tl xs" "hd xs" x] by (cases xs) (auto simp: best_def)

lemma fold_best_iff:
  assumes "inj_on rank (set xs)"
  shows "fold (best newer) xs None = Some x \<longleftrightarrow> x \<in> set xs \<and> (\<forall>z\<in>set xs. \<not> newer z x)"
proof
  assume "fold (best newer) xs None = Some x"
  then show "x \<in> set xs \<and> (\<forall>z\<in>set xs. \<not> newer z x)" using fold_best_greatest by (fastforce simp: newer_rank not_less)
next
  assume x: "x \<in> set xs \<and> (\<forall>z\<in>set xs. \<not> newer z x)"
  then obtain y where y: "fold (best newer) xs None = Some y" using fold_best_None [of newer xs] by fastforce
  then have "rank x = rank y" using x fold_best_greatest [OF y] by (auto simp: newer_rank not_less intro: antisym)
  then show "fold (best newer) xs None = Some x" using assms x y fold_best_greatest [OF y] by (auto dest: inj_onD)
qed

lemma keep_values:
  assumes "\<forall>x\<in>set xs. \<forall>y\<in>set xs. key x = key y \<and> rank x = rank y \<longrightarrow> x = y"
  shows "snd ` set (keep newer key xs []) = {x \<in> set xs. \<forall>z\<in>set xs. key z = key x \<longrightarrow> \<not> newer z x}"
proof -
  have l: "map_of (keep newer key xs []) k = Some x \<longleftrightarrow>
      x \<in> set xs \<and> key x = k \<and> (\<forall>z\<in>set xs. key z = k \<longrightarrow> \<not> newer z x)" for k x
    using assms by (subst keep_lookup, simp, subst fold_best_iff) (auto simp: inj_on_def)
  have "(k, x) \<in> set (keep newer key xs []) \<longleftrightarrow> map_of (keep newer key xs []) k = Some x" for k x
    by (simp add: map_of_eq_Some_iff)
  then have "snd ` set (keep newer key xs []) = {x. \<exists>k. map_of (keep newer key xs []) k = Some x}"
    by (force simp: image_iff)
  then show ?thesis by (auto simp: l)
qed

end

section \<open>Statuses\<close>

definition OutcomeSignalIncident :: string where "OutcomeSignalIncident = ''INCIDENT''"
definition OutcomeSignalRollback :: string where "OutcomeSignalRollback = ''ROLLBACK''"
definition OutcomeSignalBusinessSLI :: string where "OutcomeSignalBusinessSLI = ''BUSINESS_SLI''"
definition MetricHigherIsBetter :: string where "MetricHigherIsBetter = ''HIGHER_IS_BETTER''"
definition MetricLowerIsBetter :: string where "MetricLowerIsBetter = ''LOWER_IS_BETTER''"

lemmas outcome_constants =
  OutcomeSignalIncident_def OutcomeSignalRollback_def OutcomeSignalBusinessSLI_def
  MetricHigherIsBetter_def MetricLowerIsBetter_def

text \<open>Whether a terminal status is a failure; no value for a status that is not terminal.\<close>

definition deploymentOutcome :: "string \<Rightarrow> bool option" where
  "deploymentOutcome value =
     (let s = to_upper (trim_space value) in
      if s \<in> set [''SUCCESS'', ''SUCCEEDED'', ''PASSED''] then Some False
      else if s \<in> set [''FAILURE'', ''FAILED'', ''ABORTED'', ''UNSTABLE'', ''CANCELED'', ''CANCELLED''] then Some True
      else None)"

definition rollbackOutcome :: "string \<Rightarrow> bool option" where
  "rollbackOutcome value =
     (let s = to_upper (trim_space value) in
      if s = ''SUCCEEDED'' then Some False
      else if s \<in> set [''FAILED'', ''CANCELED'', ''CANCELLED''] then Some True else None)"

definition isResolvedIncident :: "string \<Rightarrow> bool" where
  "isResolvedIncident value \<longleftrightarrow> to_upper (trim_space value) \<in> set [''RESOLVED'', ''CLOSED'']"

definition integrationEventTime :: "integration_event \<Rightarrow> gotime" where
  "integrationEventTime ev = (if \<not> is_zero (int_OccurredAt ev) then int_OccurredAt ev else int_ReceivedAt ev)"

text \<open>The value of an optional number the code dereferences after it has checked it is there.\<close>

definition businessSLIOutcome :: "outcome_signal \<Rightarrow> int" where
  "businessSLIOutcome x =
     (case (sig_BaselineValue x, sig_ObservedValue x) of
        (Some baseline, Some observed) \<Rightarrow>
          let tolerance = (case sig_Tolerance x of None \<Rightarrow> 0 | Some t \<Rightarrow> t);
              difference = observed - baseline
          in if abs difference \<le> tolerance then 0
             else let difference = (if sig_MetricDirection x = MetricLowerIsBetter then - difference else difference)
                  in if 0 < difference then 1 else - 1
      | _ \<Rightarrow> 0)"

definition businessObjectiveMet :: "outcome_signal \<Rightarrow> bool" where
  "businessObjectiveMet x =
     (case (sig_ObservedValue x, sig_ObjectiveValue x) of
        (Some observed, Some objective) \<Rightarrow>
          if sig_MetricDirection x = MetricLowerIsBetter then observed \<le> objective else objective \<le> observed
      | _ \<Rightarrow> False)"

definition businessSLIBracketsDeployment :: "outcome_signal \<Rightarrow> gotime \<Rightarrow> bool" where
  "businessSLIBracketsDeployment x deployedAt =
     (case (sig_BaselineWindowEnd x, sig_ObservationWindowStart x) of
        (Some finish, Some start) \<Rightarrow>
          \<not> is_zero deployedAt \<and> finish \<le> deployedAt + 5 * minute \<and> deployedAt - 5 * minute \<le> start
      | _ \<Rightarrow> False)"

section \<open>Recording a signal\<close>

definition finiteOutcomeValue :: "rat option \<Rightarrow> bool \<Rightarrow> bool" where
  "finiteOutcomeValue value needed = (case value of None \<Rightarrow> \<not> needed | Some _ \<Rightarrow> True)"

definition nonNegativeOutcomeValue :: "rat option \<Rightarrow> bool" where
  "nonNegativeOutcomeValue value = (case value of None \<Rightarrow> True | Some v \<Rightarrow> 0 \<le> v)"

definition validOutcomeWindow :: "gotime option \<Rightarrow> gotime option \<Rightarrow> gotime \<Rightarrow> bool" where
  "validOutcomeWindow start finish occurredAt =
     (case (start, finish) of
        (Some s, Some f) \<Rightarrow> s < f \<and> f \<le> occurredAt + 5 * minute
      | _ \<Rightarrow> False)"

definition windows_in_order :: "outcome_signal \<Rightarrow> bool" where
  "windows_in_order x =
     (case (sig_BaselineWindowEnd x, sig_ObservationWindowStart x) of
        (Some finish, Some start) \<Rightarrow> finish \<le> start
      | _ \<Rightarrow> False)"

definition validOutcomeSignal :: "outcome_signal \<Rightarrow> bool" where
  "validOutcomeSignal x \<longleftrightarrow>
     \<not> (sig_OrganizationID x = [] \<or> sig_ExternalID x = [] \<or> sig_Source x = [] \<or> sig_ChangeID x = []
        \<or> is_zero (sig_OccurredAt x) \<or> is_zero (sig_ReceivedAt x)
        \<or> \<not> validRuneLength (sig_ExternalID x) 1 160 \<or> \<not> validRuneLength (sig_Source x) 1 80
        \<or> \<not> validRuneLength (sig_ChangeID x) 1 128 \<or> \<not> validRuneLength (sig_Detail x) 0 1000)
     \<and> (if sig_Kind x = OutcomeSignalIncident
        then validRuneLength (sig_IncidentID x) 1 160
          \<and> sig_Status x \<in> set [''OPEN'', ''TRIGGERED'', ''ACKNOWLEDGED'', ''RESOLVED'', ''CLOSED'']
        else if sig_Kind x = OutcomeSignalRollback
        then validRuneLength (sig_OperationID x) 1 160
          \<and> sig_Status x \<in> set [''STARTED'', ''SUCCEEDED'', ''FAILED'', ''CANCELED'', ''CANCELLED'']
        else if sig_Kind x = OutcomeSignalBusinessSLI
        then sig_Status x = ''OBSERVED'' \<and> validRuneLength (sig_MetricName x) 1 160 \<and> validRuneLength (sig_MetricUnit x) 1 40
          \<and> (sig_MetricDirection x = MetricHigherIsBetter \<or> sig_MetricDirection x = MetricLowerIsBetter)
          \<and> finiteOutcomeValue (sig_BaselineValue x) True \<and> finiteOutcomeValue (sig_ObservedValue x) True
          \<and> finiteOutcomeValue (sig_ObjectiveValue x) False \<and> nonNegativeOutcomeValue (sig_Tolerance x)
          \<and> validOutcomeWindow (sig_BaselineWindowStart x) (sig_BaselineWindowEnd x) (sig_OccurredAt x)
          \<and> validOutcomeWindow (sig_ObservationWindowStart x) (sig_ObservationWindowEnd x) (sig_OccurredAt x)
          \<and> windows_in_order x
        else False)"

definition normal_signal :: "senv \<Rightarrow> outcome_signal \<Rightarrow> outcome_signal" where
  "normal_signal h x =
     x\<lparr> sig_OrganizationID := trim_space (sig_OrganizationID x), sig_ExternalID := trim_space (sig_ExternalID x),
        sig_Source := to_upper (trim_space (sig_Source x)), sig_Status := to_upper (trim_space (sig_Status x)),
        sig_ChangeID := trim_space (sig_ChangeID x), sig_IncidentID := trim_space (sig_IncidentID x),
        sig_OperationID := trim_space (sig_OperationID x), sig_Severity := to_upper (trim_space (sig_Severity x)),
        sig_MetricName := trim_space (sig_MetricName x), sig_MetricUnit := trim_space (sig_MetricUnit x),
        sig_Detail := Redact (trim_space (sig_Detail x)),
        sig_ID := (if sig_ID x = [] then NewID h ''outcome_'' 0 else sig_ID x),
        sig_ReceivedAt := (if is_zero (sig_ReceivedAt x) then se_now h else sig_ReceivedAt x) \<rparr>"

definition signal_subject :: "outcome_signal \<Rightarrow> string \<times> string" where
  "signal_subject x =
     (if sig_Kind x = OutcomeSignalIncident then (''INCIDENT_LINKED'', txt_out_incident @ sig_IncidentID x)
      else if sig_Kind x = OutcomeSignalRollback then (''ROLLBACK_EXECUTION_RECORDED'', txt_out_rollback @ sig_OperationID x)
      else if sig_Kind x = OutcomeSignalBusinessSLI then (''BUSINESS_SLI_RECORDED'', txt_out_sli @ sig_MetricName x)
      else (''OUTCOME_SIGNAL_RECORDED'', txt_out_subject))"

definition signal_audit :: "senv \<Rightarrow> outcome_signal \<Rightarrow> audit_event" where
  "signal_audit h x =
     (let (action, subject) = signal_subject x;
          detail = subject @ txt_out_status @ sig_Status x @ txt_out_source @ sig_Source x
                   @ (if sig_Detail x \<noteq> [] then txt_out_sep @ sig_Detail x else [])
      in zero_audit_event
           \<lparr> aud_OrganizationID := sig_OrganizationID x, aud_ID := NewID h ''aud_'' 1, aud_ChangeID := sig_ChangeID x,
             aud_ActorID := ''integration_operations'', aud_ActorName := sig_Source x, aud_Action := action,
             aud_Detail := detail, aud_CreatedAt := sig_ReceivedAt x \<rparr>)"

definition RecordOutcomeSignal_service ::
  "senv \<Rightarrow> outcome_signal \<Rightarrow> db \<Rightarrow> db \<Rightarrow> (err + outcome_signal \<times> bool) \<times> db" where
  "RecordOutcomeSignal_service h x snap d =
     (let x = normal_signal h x in
      if \<not> validOutcomeSignal x then (Inl ErrValidation, d)
      else case Change snap (sig_ChangeID x) of
             Inl _ \<Rightarrow> (Inl ErrValidation, d)
           | Inr c \<Rightarrow>
               if chg_OrganizationID c \<noteq> sig_OrganizationID x then (Inl ErrValidation, d)
               else RecordOutcomeSignal x (signal_audit h x) (se_call h 0) d)"

section \<open>The state of a change after its release\<close>

definition OutcomeSignalsByChange :: "db \<Rightarrow> string \<Rightarrow> string \<Rightarrow> outcome_signal list" where
  "OutcomeSignalsByChange d org i =
     sort_key (\<lambda>x. - sig_OccurredAt x)
       (filter (\<lambda>x. sig_OrganizationID x = org \<and> sig_ChangeID x = i) (db_OutcomeSignals d))"

text \<open>The identity of an entity: organization, source, change, kind, and the entity with the window of its
  comparison.\<close>

record outcome_identity =
  oi_organization :: string
  oi_source :: string
  oi_change :: string
  oi_kind :: string
  oi_entity :: string
  oi_start :: string
  oi_end :: string

definition sli_window :: "outcome_signal \<Rightarrow> (gotime \<times> gotime) option" where
  "sli_window x =
     (case (sig_ObservationWindowStart x, sig_ObservationWindowEnd x) of
        (Some s, Some f) \<Rightarrow> if \<not> is_zero s \<and> s < f then Some (s, f) else None
      | _ \<Rightarrow> None)"

definition outcome_entity :: "outcome_signal \<Rightarrow> string \<times> string \<times> string" where
  "outcome_entity x =
     (if sig_Kind x = OutcomeSignalIncident then (sig_IncidentID x, [], [])
      else if sig_Kind x = OutcomeSignalRollback then (sig_OperationID x, [], [])
      else if sig_Kind x = OutcomeSignalBusinessSLI
      then (case sli_window x of
              None \<Rightarrow> ([], [], [])
            | Some (s, f) \<Rightarrow> (to_lower (sig_MetricName x), rfc3339_nano s, rfc3339_nano f))
      else ([], [], []))"

definition identity_of :: "outcome_signal \<Rightarrow> outcome_identity" where
  "identity_of x =
     (case outcome_entity x of
        (entity, start, finish) \<Rightarrow>
          \<lparr> oi_organization = sig_OrganizationID x, oi_source = sig_Source x, oi_change = sig_ChangeID x,
             oi_kind = sig_Kind x, oi_entity = entity, oi_start = start, oi_end = finish \<rparr>)"

definition unidentified :: "outcome_signal \<Rightarrow> bool" where
  "unidentified x \<longleftrightarrow> trim_space (sig_Source x) = [] \<or> trim_space (fst (outcome_entity x)) = []"

definition signal_newer :: "outcome_signal \<Rightarrow> outcome_signal \<Rightarrow> bool" where
  "signal_newer x current \<longleftrightarrow>
     (if sig_OccurredAt x = sig_OccurredAt current
      then sig_ReceivedAt current < sig_ReceivedAt x
        \<or> (sig_ReceivedAt x = sig_ReceivedAt current \<and> sig_ID current < sig_ID x)
      else sig_OccurredAt current < sig_OccurredAt x)"

definition latest_step ::
  "outcome_signal \<Rightarrow> (outcome_identity \<Rightarrow> nat option) \<times> outcome_signal list
   \<Rightarrow> (outcome_identity \<Rightarrow> nat option) \<times> outcome_signal list" where
  "latest_step x s =
     (case s of
        (latest, res) \<Rightarrow>
          if unidentified x then (latest, res @ [x])
          else case latest (identity_of x) of
                 None \<Rightarrow> (latest(identity_of x \<mapsto> length res), res @ [x])
               | Some i \<Rightarrow> if signal_newer x (res ! i) then (latest, res[i := x]) else s)"

definition latestOutcomeSignals :: "outcome_signal list \<Rightarrow> outcome_signal list" where
  "latestOutcomeSignals signals = snd (fold latest_step signals (Map.empty, []))"

definition outcomeSignalStatus :: "outcome_signal \<Rightarrow> string" where
  "outcomeSignalStatus x =
     (if sig_Kind x = OutcomeSignalIncident \<and> sig_Status x \<in> set [''OPEN'', ''TRIGGERED'', ''ACKNOWLEDGED''] then ''BLOCK''
      else if sig_Kind x = OutcomeSignalIncident \<and> sig_Status x \<in> set [''RESOLVED'', ''CLOSED''] then ''PASS''
      else if sig_Kind x = OutcomeSignalRollback \<and> sig_Status x = ''FAILED'' then ''BLOCK''
      else if sig_Kind x = OutcomeSignalRollback \<and> sig_Status x = ''SUCCEEDED'' then ''PASS''
      else if sig_Kind x = OutcomeSignalBusinessSLI \<and> validOutcomeSignal x
      then (if businessSLIOutcome x < 0 \<or> (sig_ObjectiveValue x \<noteq> None \<and> \<not> businessObjectiveMet x) then ''BLOCK''
            else ''PASS'')
      else ''WARN'')"

definition worse_status :: "string \<Rightarrow> string \<Rightarrow> string" where
  "worse_status value status =
     (if status = ''BLOCK'' \<or> value = ''BLOCK'' then ''BLOCK''
      else if status = ''WARN'' \<or> value = ''WARN'' then ''WARN''
      else value)"

definition summarizeOutcomeSignals :: "outcome_signal list \<Rightarrow> string" where
  "summarizeOutcomeSignals signals =
     fold (\<lambda>x status. worse_status (outcomeSignalStatus x) status) (latestOutcomeSignals signals) ''NOT_RUN''"

section \<open>The governance report\<close>

record governance_control_coverage =
  gcc_CheckRunPercent :: rat
  gcc_ArtifactEvidencePercent :: rat
  gcc_RollbackPlanPercent :: rat
  gcc_SuccessMetricsPercent :: rat
  gcc_ProgressiveDeliveryPercent :: rat
  gcc_AutoRollbackPercent :: rat

record governance_flow_metrics =
  gfm_DecisionLeadTimeSampleCount :: nat
  gfm_AverageDecisionLeadMinutes :: rat
  gfm_ExperimentSampleCount :: nat
  gfm_ExperimentPassRatePercent :: rat
  gfm_DeploymentOutcomeSampleCount :: nat
  gfm_SuccessfulDeployments :: nat
  gfm_FailedDeployments :: nat
  gfm_DeploymentFailureRate :: rat
  gfm_BlockingFindingClosureRate :: rat
  gfm_DueFindingSampleCount :: nat
  gfm_OnTimeFindingClosureRate :: rat

record governance_operational_metrics =
  gom_RollbackOutcomeSampleCount :: nat
  gom_SuccessfulRollbacks :: nat
  gom_FailedRollbacks :: nat
  gom_RollbackSuccessRatePercent :: rat
  gom_LinkedIncidentCount :: nat
  gom_OpenIncidents :: nat
  gom_ResolvedIncidents :: nat
  gom_IncidentResolutionSampleCount :: nat
  gom_AverageIncidentResolutionMinutes :: rat
  gom_PostReleaseSampleCount :: nat
  gom_RemediationRequiredDeployments :: nat
  gom_PostReleaseRemediationRate :: rat

record governance_business_metrics =
  gbm_SLISampleCount :: nat
  gbm_ImprovedSLIs :: nat
  gbm_StableSLIs :: nat
  gbm_DegradedSLIs :: nat
  gbm_ObjectiveSampleCount :: nat
  gbm_ObjectivesMet :: nat
  gbm_ObjectiveAttainmentRatePercent :: rat

record governance_outcome_data_quality =
  gdq_ReleaseOutcomeObservable :: bool
  gdq_RollbackOutcomeObservable :: bool
  gdq_IncidentLinkageObservable :: bool
  gdq_BusinessSLIObservable :: bool
  gdq_MissingSignals :: "string list"

record governance_outcome_summary =
  gos_WindowDays :: int
  gos_WindowStartedAt :: gotime
  gos_GeneratedAt :: gotime
  gos_DefinitionVersion :: string
  gos_SourceWatermark :: gotime
  gos_Scope :: string
  gos_TotalChanges :: nat
  gos_ProductionChanges :: nat
  gos_CompletedChanges :: nat
  gos_AcceptedDecisions :: nat
  gos_RejectedDecisions :: nat
  gos_HighRiskChanges :: nat
  gos_TotalFindings :: nat
  gos_BlockingFindings :: nat
  gos_OpenBlockingFindings :: nat
  gos_VerifiedFindings :: nat
  gos_OverdueFindings :: nat
  gos_ControlCoverage :: governance_control_coverage
  gos_Flow :: governance_flow_metrics
  gos_Operations :: governance_operational_metrics
  gos_Business :: governance_business_metrics
  gos_OutcomeDataQuality :: governance_outcome_data_quality

fun fields_where :: "(char \<Rightarrow> bool) \<Rightarrow> string \<Rightarrow> string \<Rightarrow> string list" where
  "fields_where sep cur [] = (if cur = [] then [] else [rev cur])"
| "fields_where sep cur (c # s) =
     (if sep c then (if cur = [] then [] else [rev cur]) @ fields_where sep [] s else fields_where sep (c # cur) s)"

definition isProductionEnvironment :: "string \<Rightarrow> bool" where
  "isProductionEnvironment value \<longleftrightarrow>
     (let s = to_lower (trim_space value) in
      contains_str s txt_env_production
      \<or> list_ex (\<lambda>token. token = ''production'' \<or> token = ''prod'')
          (fields_where (\<lambda>c. of_char c < (97 :: nat) \<or> (122 :: nat) < of_char c) [] s))"

definition isProgressiveDelivery :: "string \<Rightarrow> bool" where
  "isProgressiveDelivery value \<longleftrightarrow>
     (let s = to_lower (trim_space value) in s \<noteq> [] \<and> \<not> contains_str s txt_out_full \<and> \<not> contains_str s ''full'')"

text \<open>The earliest decision of the time line; the zero time stands for none.\<close>

definition changeDecisionAt :: "change_request \<Rightarrow> gotime option" where
  "changeDecisionAt c =
     (let t = fold (\<lambda>x t. if tl_Status x \<noteq> StatusApproved \<and> tl_Status x \<noteq> StatusRejected then t
                          else if is_zero t \<or> tl_CreatedAt x < t then tl_CreatedAt x else t) (chg_Timeline c) 0
      in if is_zero t then None else Some t)"

definition decision_lead :: "change_request \<Rightarrow> duration option" where
  "decision_lead c =
     (case changeDecisionAt c of
        None \<Rightarrow> None
      | Some t \<Rightarrow> if chg_CreatedAt c \<le> t then Some (time_sub t (chg_CreatedAt c)) else None)"

definition closed_on_time :: "finding \<Rightarrow> bool" where
  "closed_on_time f =
     (case (fnd_DueAt f, fnd_VerifiedAt f) of (Some bound, Some t) \<Rightarrow> t \<le> bound | _ \<Rightarrow> False)"

definition overdue :: "gotime \<Rightarrow> finding \<Rightarrow> bool" where
  "overdue now f \<longleftrightarrow> fnd_Status f \<noteq> FindingVerified \<and> (case fnd_DueAt f of None \<Rightarrow> False | Some bound \<Rightarrow> bound < now)"

definition in_window :: "gotime \<times> gotime \<Rightarrow> gotime \<Rightarrow> bool" where
  "in_window w t \<longleftrightarrow> fst w \<le> t \<and> t \<le> snd w"

definition experiment_passed :: "change_request \<Rightarrow> bool" where
  "experiment_passed c = (case chg_Experiment c of None \<Rightarrow> False | Some x \<Rightarrow> exp_Status x = ''PASSED'')"

definition event_newer :: "integration_event \<Rightarrow> integration_event \<Rightarrow> bool" where
  "event_newer x current \<longleftrightarrow>
     integrationEventTime current < integrationEventTime x
     \<or> (integrationEventTime x = integrationEventTime current \<and> int_ReceivedAt current < int_ReceivedAt x)"

definition deployment_event :: "string set \<Rightarrow> gotime \<times> gotime \<Rightarrow> integration_event \<Rightarrow> bool" where
  "deployment_event ids w ev \<longleftrightarrow>
     int_ChangeID ev \<in> ids \<and> in_window w (integrationEventTime ev) \<and> deploymentOutcome (int_Status ev) \<noteq> None"

definition latest_deployments ::
  "string set \<Rightarrow> gotime \<times> gotime \<Rightarrow> integration_event list \<Rightarrow> (string \<times> integration_event) list" where
  "latest_deployments ids w events = keep event_newer int_ChangeID (filter (deployment_event ids w) events) []"

definition failed_event :: "integration_event \<Rightarrow> bool" where
  "failed_event ev \<longleftrightarrow> deploymentOutcome (int_Status ev) = Some True"

definition signal_key :: "(outcome_signal \<Rightarrow> string) \<Rightarrow> outcome_signal \<Rightarrow> string" where
  "signal_key entity x = sig_Source x @ CHR 0x00 # sig_ChangeID x @ CHR 0x00 # entity x"

definition occurred_later :: "outcome_signal \<Rightarrow> outcome_signal \<Rightarrow> bool" where
  "occurred_later x current \<longleftrightarrow> sig_OccurredAt current < sig_OccurredAt x"

definition linked_signal :: "string set \<Rightarrow> gotime \<Rightarrow> outcome_signal \<Rightarrow> bool" where
  "linked_signal ids now x \<longleftrightarrow> sig_ChangeID x \<in> ids \<and> sig_OccurredAt x \<le> now"

definition rollback_signal :: "gotime \<Rightarrow> outcome_signal \<Rightarrow> bool" where
  "rollback_signal start x \<longleftrightarrow> sig_Kind x = OutcomeSignalRollback \<and> start \<le> sig_OccurredAt x"

definition incident_signal :: "outcome_signal \<Rightarrow> bool" where
  "incident_signal x \<longleftrightarrow> sig_Kind x = OutcomeSignalIncident"

definition latest_rollbacks :: "gotime \<Rightarrow> outcome_signal list \<Rightarrow> (string \<times> outcome_signal) list" where
  "latest_rollbacks start signals =
     keep occurred_later (signal_key sig_OperationID)
       (filter (\<lambda>x. rollback_signal start x \<and> rollbackOutcome (sig_Status x) \<noteq> None) signals) []"

definition sli_signal :: "gotime \<Rightarrow> (string \<times> integration_event) list \<Rightarrow> outcome_signal \<Rightarrow> bool" where
  "sli_signal start deployments x \<longleftrightarrow>
     sig_Kind x = OutcomeSignalBusinessSLI \<and> start \<le> sig_OccurredAt x
     \<and> sig_BaselineValue x \<noteq> None \<and> sig_ObservedValue x \<noteq> None
     \<and> (case map_of deployments (sig_ChangeID x) of
          None \<Rightarrow> False
        | Some ev \<Rightarrow> deploymentOutcome (int_Status ev) = Some False \<and> businessSLIBracketsDeployment x (integrationEventTime ev))"

definition latest_slis ::
  "gotime \<Rightarrow> (string \<times> integration_event) list \<Rightarrow> outcome_signal list \<Rightarrow> (string \<times> outcome_signal) list" where
  "latest_slis start deployments signals =
     keep occurred_later (signal_key (\<lambda>x. to_lower (sig_MetricName x))) (filter (sli_signal start deployments) signals) []"

text \<open>When a change first needed a remedy: the earliest rollback or incident of the window.\<close>

definition remediations :: "gotime \<Rightarrow> outcome_signal list \<Rightarrow> (string \<times> outcome_signal) list" where
  "remediations start signals =
     keep (\<lambda>x current. sig_OccurredAt x < sig_OccurredAt current) sig_ChangeID
       (filter (\<lambda>x. rollback_signal start x \<or> (incident_signal x \<and> start \<le> sig_OccurredAt x)) signals) []"

text \<open>The history of one incident: whether it was seen in the window, since when it is open, its last status and the
  durations of its resolutions.\<close>

record incident_scan =
  is_observed :: bool
  is_open :: gotime
  is_status :: string
  is_resolved :: "duration list"

definition incident_event :: "gotime \<Rightarrow> outcome_signal \<Rightarrow> incident_scan \<Rightarrow> incident_scan" where
  "incident_event start x s =
     (let t = sig_OccurredAt x;
          s = s\<lparr> is_observed := is_observed s \<or> start \<le> t, is_status := sig_Status x \<rparr>
      in if isResolvedIncident (sig_Status x)
         then s\<lparr> is_open := 0,
                 is_resolved := (if \<not> is_zero (is_open s) \<and> start \<le> t \<and> is_open s \<le> t
                                 then is_resolved s @ [time_sub t (is_open s)] else is_resolved s) \<rparr>
         else if is_zero (is_open s) then s\<lparr> is_open := t \<rparr> else s)"

definition incident_history :: "gotime \<Rightarrow> outcome_signal list \<Rightarrow> incident_scan" where
  "incident_history start events =
     fold (incident_event start) (sort_key sig_OccurredAt events)
       \<lparr> is_observed = False, is_open = 0, is_status = [], is_resolved = [] \<rparr>"

definition incident_groups :: "outcome_signal list \<Rightarrow> outcome_signal list list" where
  "incident_groups signals =
     (let incidents = filter incident_signal signals; key = signal_key sig_IncidentID
      in map (\<lambda>k. filter (\<lambda>x. key x = k) incidents) (remdups (map key incidents)))"

definition needs_remedy :: "(string \<times> outcome_signal) list \<Rightarrow> integration_event \<Rightarrow> bool" where
  "needs_remedy remedies ev =
     (case map_of remedies (int_ChangeID ev) of
        None \<Rightarrow> False
      | Some x \<Rightarrow> integrationEventTime ev - 5 * minute \<le> sig_OccurredAt x)"

definition outcomeMissingSignals :: "nat \<Rightarrow> nat \<Rightarrow> nat \<Rightarrow> nat \<Rightarrow> string list" where
  "outcomeMissingSignals deployments rollbacks incidents business =
     (if deployments = 0 then [''linked terminal deployment outcome''] else [])
     @ (if rollbacks = 0 then [''terminal rollback execution outcome''] else [])
     @ (if incidents = 0 then [''incident-to-change linkage''] else [])
     @ (if business = 0 then [''pre/post deployment business SLI comparison''] else [])"

definition coverage_metrics :: "change_request list \<Rightarrow> governance_control_coverage" where
  "coverage_metrics changes =
     (let total = length changes;
          production = filter (\<lambda>c. isProductionEnvironment (chg_Environment c)) changes
      in \<lparr> gcc_CheckRunPercent = percentage (tally (\<lambda>c. chg_CheckRun c \<noteq> None) changes) total,
            gcc_ArtifactEvidencePercent =
              percentage (tally (\<lambda>c. chg_Artifacts c \<noteq> [] \<and> trim_space (chg_ArtifactSHA256 c) \<noteq> []) changes) total,
            gcc_RollbackPlanPercent =
              percentage (tally (\<lambda>c. trim_space (chg_RollbackPlan c) \<noteq> [] \<or> trim_space (chg_RollbackSQL c) \<noteq> []) changes) total,
            gcc_SuccessMetricsPercent = percentage (tally (\<lambda>c. plan_SuccessMetrics (chg_ReleasePlan c) \<noteq> []) changes) total,
            gcc_ProgressiveDeliveryPercent =
              percentage (tally (\<lambda>c. isProgressiveDelivery (plan_Strategy (chg_ReleasePlan c))) production) (length production),
            gcc_AutoRollbackPercent =
              percentage (tally (\<lambda>c. plan_AutoRollback (chg_ReleasePlan c)) production) (length production) \<rparr>)"

definition flow_metrics :: "change_request list \<Rightarrow> integration_event list \<Rightarrow> governance_flow_metrics" where
  "flow_metrics changes deployments =
     (let leads = List.map_filter decision_lead changes;
          experiments = tally (\<lambda>c. chg_Experiment c \<noteq> None) changes;
          findings = concat (map chg_Findings changes);
          blocking = filter fnd_Blocking findings;
          with_due = filter (\<lambda>f. fnd_DueAt f \<noteq> None) findings;
          failed = tally failed_event deployments
      in \<lparr> gfm_DecisionLeadTimeSampleCount = length leads, gfm_AverageDecisionLeadMinutes = average_minutes leads,
            gfm_ExperimentSampleCount = experiments,
            gfm_ExperimentPassRatePercent = percentage (tally experiment_passed changes) experiments,
            gfm_DeploymentOutcomeSampleCount = length deployments,
            gfm_SuccessfulDeployments = tally (\<lambda>ev. \<not> failed_event ev) deployments, gfm_FailedDeployments = failed,
            gfm_DeploymentFailureRate = percentage failed (length deployments),
            gfm_BlockingFindingClosureRate =
              percentage (tally (\<lambda>f. fnd_Status f = FindingVerified) blocking) (length blocking),
            gfm_DueFindingSampleCount = length with_due,
            gfm_OnTimeFindingClosureRate = percentage (tally closed_on_time with_due) (length with_due) \<rparr>)"

definition operational_metrics ::
  "gotime \<Rightarrow> integration_event list \<Rightarrow> outcome_signal list \<Rightarrow> governance_operational_metrics" where
  "operational_metrics start deployments signals =
     (let rollbacks = map snd (latest_rollbacks start signals);
          rolled_back = tally (\<lambda>x. rollbackOutcome (sig_Status x) \<noteq> Some True) rollbacks;
          histories = map (incident_history start) (incident_groups signals);
          seen = filter is_observed histories;
          resolutions = concat (map is_resolved histories);
          released = filter (\<lambda>ev. \<not> failed_event ev) deployments;
          remedied = tally (needs_remedy (remediations start signals)) released
      in \<lparr> gom_RollbackOutcomeSampleCount = length rollbacks, gom_SuccessfulRollbacks = rolled_back,
            gom_FailedRollbacks = tally (\<lambda>x. rollbackOutcome (sig_Status x) = Some True) rollbacks,
            gom_RollbackSuccessRatePercent = percentage rolled_back (length rollbacks),
            gom_LinkedIncidentCount = length seen,
            gom_OpenIncidents = tally (\<lambda>s. \<not> isResolvedIncident (is_status s)) seen,
            gom_ResolvedIncidents = tally (\<lambda>s. isResolvedIncident (is_status s)) seen,
            gom_IncidentResolutionSampleCount = length resolutions,
            gom_AverageIncidentResolutionMinutes = average_minutes resolutions,
            gom_PostReleaseSampleCount = length released, gom_RemediationRequiredDeployments = remedied,
            gom_PostReleaseRemediationRate = percentage remedied (length released) \<rparr>)"

definition business_metrics :: "outcome_signal list \<Rightarrow> governance_business_metrics" where
  "business_metrics slis =
     (let goals = filter (\<lambda>x. sig_ObjectiveValue x \<noteq> None) slis; met = tally businessObjectiveMet goals
      in \<lparr> gbm_SLISampleCount = length slis, gbm_ImprovedSLIs = tally (\<lambda>x. businessSLIOutcome x = 1) slis,
            gbm_StableSLIs = tally (\<lambda>x. businessSLIOutcome x \<noteq> 1 \<and> businessSLIOutcome x \<noteq> - 1) slis,
            gbm_DegradedSLIs = tally (\<lambda>x. businessSLIOutcome x = - 1) slis,
            gbm_ObjectiveSampleCount = length goals, gbm_ObjectivesMet = met,
            gbm_ObjectiveAttainmentRatePercent = percentage met (length goals) \<rparr>)"

definition governanceOutcomesForEvidence ::
  "change_request list \<Rightarrow> integration_event list \<Rightarrow> outcome_signal list \<Rightarrow> int \<Rightarrow> gotime \<Rightarrow> string
   \<Rightarrow> governance_outcome_summary" where
  "governanceOutcomesForEvidence changes events signals windowDays now scope =
     (let start = now - windowDays * 24 * hour;
          eligible = filter (\<lambda>c. in_window (start, now) (chg_CreatedAt c)) changes;
          ids = set (map chg_ID eligible);
          findings = concat (map chg_Findings eligible);
          blocking = filter fnd_Blocking findings;
          deployments = latest_deployments ids (start, now) events;
          linked = filter (linked_signal ids now) signals;
          flow = flow_metrics eligible (map snd deployments);
          operations = operational_metrics start (map snd deployments) linked;
          business = business_metrics (map snd (latest_slis start deployments linked))
      in \<lparr> gos_WindowDays = windowDays, gos_WindowStartedAt = start, gos_GeneratedAt = now,
            gos_DefinitionVersion = ''governance-outcomes-v3'', gos_SourceWatermark = now, gos_Scope = scope,
            gos_TotalChanges = length eligible,
            gos_ProductionChanges = tally (\<lambda>c. isProductionEnvironment (chg_Environment c)) eligible,
            gos_CompletedChanges = tally (\<lambda>c. chg_Status c = StatusCompleted) eligible,
            gos_AcceptedDecisions = tally (\<lambda>c. chg_Status c = StatusApproved \<or> chg_Status c = StatusCompleted) eligible,
            gos_RejectedDecisions = tally (\<lambda>c. chg_Status c = StatusRejected) eligible,
            gos_HighRiskChanges = tally (\<lambda>c. chg_Risk c = RiskHigh) eligible,
            gos_TotalFindings = length findings, gos_BlockingFindings = length blocking,
            gos_OpenBlockingFindings = tally (\<lambda>f. fnd_Status f \<noteq> FindingVerified) blocking,
            gos_VerifiedFindings = tally (\<lambda>f. fnd_Status f = FindingVerified) findings,
            gos_OverdueFindings = tally (overdue now) findings,
            gos_ControlCoverage = coverage_metrics eligible, gos_Flow = flow, gos_Operations = operations,
            gos_Business = business,
            gos_OutcomeDataQuality =
              \<lparr> gdq_ReleaseOutcomeObservable = 0 < gfm_DeploymentOutcomeSampleCount flow,
                 gdq_RollbackOutcomeObservable = 0 < gom_RollbackOutcomeSampleCount operations,
                 gdq_IncidentLinkageObservable = 0 < gom_LinkedIncidentCount operations,
                 gdq_BusinessSLIObservable = 0 < gbm_SLISampleCount business,
                 gdq_MissingSignals =
                   outcomeMissingSignals (gfm_DeploymentOutcomeSampleCount flow) (gom_RollbackOutcomeSampleCount operations)
                     (gom_LinkedIncidentCount operations) (gbm_SLISampleCount business) \<rparr> \<rparr>)"

section \<open>Monthly trends\<close>

record governance_trend_month =
  gtm_Month :: string
  gtm_Submitted :: nat
  gtm_Completed :: nat
  gtm_Rejected :: nat
  gtm_InFlight :: nat
  gtm_HighRisk :: nat
  gtm_RejectionRate :: rat
  gtm_HighRiskRate :: rat
  gtm_ApprovalHours :: rat

definition trendZone :: duration where "trendZone = 8 * hour"

text \<open>The number of a month, counted from the first month of year 0, and its text.\<close>

definition month_text :: "int \<Rightarrow> string" where
  "month_text m = pad_int 4 (m div 12) @ ''-'' @ pad_int 2 (m mod 12 + 1)"

definition month_of :: "gotime \<Rightarrow> int" where
  "month_of t = (case civil_date ((t + trendZone) div (24 * hour)) of (y, m, _) \<Rightarrow> 12 * y + m - 1)"

definition first_at :: "change_status set \<Rightarrow> change_request \<Rightarrow> gotime" where
  "first_at statuses c =
     fold (\<lambda>x t. if tl_Status x \<in> statuses \<and> (is_zero t \<or> tl_CreatedAt x < t) then tl_CreatedAt x else t) (chg_Timeline c) 0"

definition approvalLatencyHours :: "change_request \<Rightarrow> rat option" where
  "approvalLatencyHours c =
     (let waiting = first_at {StatusWaitingApproval} c; decided_at = first_at {StatusApproved, StatusRejected} c in
      if is_zero decided_at then None
      else let since = (if is_zero waiting then chg_CreatedAt c else waiting);
               hours = of_int (time_sub decided_at since) / of_int hour
           in if hours < 0 then None else Some hours)"

definition trend_month :: "change_request list \<Rightarrow> int \<Rightarrow> governance_trend_month" where
  "trend_month changes m =
     (let mine = filter (\<lambda>c. month_text (month_of (chg_CreatedAt c)) = month_text m) changes;
          completed = tally (\<lambda>c. chg_Status c = StatusCompleted) mine;
          rejected = tally (\<lambda>c. chg_Status c = StatusRejected) mine;
          high = tally (\<lambda>c. chg_Risk c = RiskHigh) mine;
          hours = List.map_filter approvalLatencyHours mine
      in \<lparr> gtm_Month = month_text m, gtm_Submitted = length mine, gtm_Completed = completed, gtm_Rejected = rejected,
            gtm_InFlight = tally (\<lambda>c. chg_Status c \<noteq> StatusCompleted \<and> chg_Status c \<noteq> StatusRejected) mine,
            gtm_HighRisk = high,
            gtm_RejectionRate = (if completed + rejected = 0 then - 1 else of_nat rejected / of_nat (completed + rejected)),
            gtm_HighRiskRate = (if mine = [] then - 1 else of_nat high / of_nat (length mine)),
            gtm_ApprovalHours = (if hours = [] then - 1 else sum_list hours / of_nat (length hours)) \<rparr>)"

definition governanceTrends :: "change_request list \<Rightarrow> int \<Rightarrow> gotime \<Rightarrow> governance_trend_month list" where
  "governanceTrends changes months now =
     (let n = (if months \<le> 0 then 6 else months)
      in map (\<lambda>i. trend_month changes (month_of now - int i)) (rev [0..<nat n]))"

section \<open>The state of a change is decided by the latest signals\<close>

interpretation recency: latest_wins signal_newer "\<lambda>x. (sig_OccurredAt x, sig_ReceivedAt x, sig_ID x)"
  by unfold_locales (auto simp: signal_newer_def less_prod_def)

text \<open>The signals about one entity, and what the pass over the signals has collected.\<close>

definition about :: "outcome_identity \<Rightarrow> outcome_signal list \<Rightarrow> outcome_signal list" where
  "about k xs = filter (\<lambda>x. \<not> unidentified x \<and> identity_of x = k) xs"

definition collected :: "outcome_signal list \<Rightarrow> (outcome_identity \<Rightarrow> nat option) \<times> outcome_signal list \<Rightarrow> bool" where
  "collected xs s \<longleftrightarrow>
     (\<forall>k i. fst s k = Some i \<longleftrightarrow> i < length (snd s) \<and> \<not> unidentified (snd s ! i) \<and> identity_of (snd s ! i) = k)
     \<and> (\<forall>k. map_option ((!) (snd s)) (fst s k) = fold (best signal_newer) (about k xs) None)
     \<and> (\<forall>x. unidentified x \<longrightarrow> (x \<in> set (snd s) \<longleftrightarrow> x \<in> set xs))"

lemma collectedD:
  assumes "collected xs (latest, res)"
  shows "latest k = Some i \<longleftrightarrow> i < length res \<and> \<not> unidentified (res ! i) \<and> identity_of (res ! i) = k"
    and "map_option ((!) res) (latest k) = fold (best signal_newer) (about k xs) None"
    and "unidentified x \<Longrightarrow> x \<in> set res \<longleftrightarrow> x \<in> set xs"
  using assms unfolding collected_def by simp_all

lemma about_snoc:
  "about k (xs @ [x]) = about k xs @ (if \<not> unidentified x \<and> identity_of x = k then [x] else [])"
  by (simp add: about_def)

lemma collected_unidentified:
  assumes c: "collected xs (latest, res)" and x: "unidentified x"
  shows "collected (xs @ [x]) (latest, res @ [x])"
proof -
  note d = collectedD [OF c]
  have a: "latest k = Some i \<longleftrightarrow> i < length (res @ [x]) \<and> \<not> unidentified ((res @ [x]) ! i) \<and> identity_of ((res @ [x]) ! i) = k"
    for k i using d(1) [of k i] x by (auto simp: nth_append less_Suc_eq)
  have "map_option ((!) (res @ [x])) (latest k) = map_option ((!) res) (latest k)" for k
    using d(1) [of k "the (latest k)"] by (cases "latest k") (simp_all add: nth_append)
  then have b: "map_option ((!) (res @ [x])) (latest k) = fold (best signal_newer) (about k (xs @ [x])) None" for k
    using d(2) x by (simp add: about_snoc)
  show ?thesis unfolding collected_def fst_conv snd_conv using a b d(3) by simp
qed

lemma collected_new:
  assumes c: "collected xs (latest, res)" and x: "\<not> unidentified x" and n: "latest (identity_of x) = None"
  shows "collected (xs @ [x]) (latest(identity_of x \<mapsto> length res), res @ [x])"
proof -
  note d = collectedD [OF c]
  let ?l = "latest(identity_of x \<mapsto> length res)"
  have a: "?l k = Some i \<longleftrightarrow> i < length (res @ [x]) \<and> \<not> unidentified ((res @ [x]) ! i) \<and> identity_of ((res @ [x]) ! i) = k"
    for k i using d(1) [of k i] n x by (cases "k = identity_of x") (auto simp: nth_append less_Suc_eq)
  have b: "map_option ((!) (res @ [x])) (?l k) = fold (best signal_newer) (about k (xs @ [x])) None" for k
  proof (cases "k = identity_of x")
    case True
    then have "fold (best signal_newer) (about k xs) None = None" using n d(2) [of k] by simp
    with True x show ?thesis by (simp add: about_snoc best_def)
  next
    case False
    then have "map_option ((!) (res @ [x])) (?l k) = map_option ((!) res) (latest k)"
      using d(1) [of k "the (latest k)"] by (cases "latest k") (simp_all add: nth_append)
    with False d(2) [of k] show ?thesis by (simp add: about_snoc)
  qed
  show ?thesis unfolding collected_def fst_conv snd_conv using a b d(3) x by auto
qed

lemma collected_known:
  assumes c: "collected xs (latest, res)" and x: "\<not> unidentified x" and s: "latest (identity_of x) = Some i"
  shows "collected (xs @ [x]) (latest, if signal_newer x (res ! i) then res[i := x] else res)"
proof -
  note d = collectedD [OF c]
  define res' where "res' = (if signal_newer x (res ! i) then res[i := x] else res)"
  have i: "i < length res" "\<not> unidentified (res ! i)" "identity_of (res ! i) = identity_of x"
    using s d(1) [of "identity_of x" i] by simp_all
  have at_j: "res' ! j = (if j = i \<and> signal_newer x (res ! i) then x else res ! j)" "length res' = length res" for j
    using i by (simp_all add: res'_def nth_list_update)
  have a: "latest k = Some j \<longleftrightarrow> j < length res' \<and> \<not> unidentified (res' ! j) \<and> identity_of (res' ! j) = k"
    for k j using d(1) [of k j] i x by (auto simp: at_j)
  have b: "map_option ((!) res') (latest k) = fold (best signal_newer) (about k (xs @ [x])) None" for k
  proof (cases "k = identity_of x")
    case True
    then have "fold (best signal_newer) (about k xs) None = Some (res ! i)" using s d(2) [of k] by simp
    with True x s show ?thesis by (simp add: about_snoc best_def at_j)
  next
    case False
    then have "map_option ((!) res') (latest k) = map_option ((!) res) (latest k)"
      using d(1) [of k "the (latest k)"] i(3) by (cases "latest k") (auto simp: at_j)
    with False d(2) [of k] show ?thesis by (simp add: about_snoc)
  qed
  have u: "y \<in> set res' \<longleftrightarrow> y \<in> set (xs @ [x])" if "unidentified y" for y
  proof -
    have "y \<in> set res' \<longleftrightarrow> (\<exists>j<length res. res' ! j = y)" by (simp add: in_set_conv_nth at_j(2))
    also have "\<dots> \<longleftrightarrow> (\<exists>j<length res. res ! j = y)" using that x i(2) by (auto simp: at_j(1))
    also have "\<dots> \<longleftrightarrow> y \<in> set xs" using d(3) [OF that] by (simp add: in_set_conv_nth)
    finally show ?thesis using that x by auto
  qed
  show ?thesis unfolding res'_def [symmetric] collected_def fst_conv snd_conv using a b u by simp
qed

lemma collected_fold: "collected xs s \<Longrightarrow> collected (xs @ ys) (fold latest_step ys s)"
proof (induction ys arbitrary: xs s)
  case (Cons y ys)
  obtain latest res where s: "s = (latest, res)" by force
  have "collected (xs @ [y]) (latest_step y s)"
  proof (cases "unidentified y")
    case True
    then show ?thesis using Cons.prems collected_unidentified [of xs latest res y] by (simp add: s latest_step_def)
  next
    case False
    then show ?thesis using Cons.prems collected_new [of xs latest res y] collected_known [of xs latest res y]
      by (cases "latest (identity_of y)") (simp_all add: s latest_step_def split: if_splits)
  qed
  then show ?case using Cons.IH [of "xs @ [y]"] by simp
qed simp

lemma set_latestOutcomeSignals:
  assumes "inj_on sig_ID (set signals)"
  shows "set (latestOutcomeSignals signals) =
    {x \<in> set signals. unidentified x \<or>
       (\<forall>y\<in>set signals. \<not> unidentified y \<and> identity_of y = identity_of x \<longrightarrow> \<not> signal_newer y x)}"
proof -
  obtain latest res where s: "fold latest_step signals (Map.empty, []) = (latest, res)" by force
  have "collected [] (Map.empty, [])" by (simp add: collected_def about_def)
  from collected_fold [OF this, of signals] have c: "collected signals (latest, res)" by (simp add: s)
  note d = collectedD [OF c]
  have inj: "inj_on (\<lambda>x. (sig_OccurredAt x, sig_ReceivedAt x, sig_ID x)) (set (about k signals))" for k
    using assms by (auto simp: inj_on_def about_def)
  have known: "x \<in> set res \<longleftrightarrow> fold (best signal_newer) (about (identity_of x) signals) None = Some x"
    if "\<not> unidentified x" for x
  proof
    assume "x \<in> set res"
    then obtain i where "i < length res" "res ! i = x" by (auto simp: in_set_conv_nth)
    with d(1) [of "identity_of x" i] that have "latest (identity_of x) = Some i" by simp
    with d(2) [of "identity_of x"] \<open>res ! i = x\<close>
    show "fold (best signal_newer) (about (identity_of x) signals) None = Some x" by simp
  next
    assume "fold (best signal_newer) (about (identity_of x) signals) None = Some x"
    with d(2) [of "identity_of x"] obtain i where "latest (identity_of x) = Some i" "res ! i = x" by auto
    with d(1) [of "identity_of x" i] show "x \<in> set res" by (simp add: in_set_conv_nth) blast
  qed
  have "x \<in> set (latestOutcomeSignals signals) \<longleftrightarrow> x \<in> set signals \<and> (unidentified x \<or>
       (\<forall>y\<in>set signals. \<not> unidentified y \<and> identity_of y = identity_of x \<longrightarrow> \<not> signal_newer y x))" for x
    using known [of x] d(3) [of x] recency.fold_best_iff [OF inj, of "identity_of x" x]
    by (cases "unidentified x") (auto simp: latestOutcomeSignals_def s about_def)
  then show ?thesis by blast
qed

lemma outcomeSignalStatus_cases: "outcomeSignalStatus x \<in> {''BLOCK'', ''WARN'', ''PASS''}"
  by (auto simp: outcomeSignalStatus_def)

lemma not_run:
  "''NOT_RUN'' \<in> {''NOT_RUN'', ''PASS'', ''WARN'', ''BLOCK''}" "(''NOT_RUN'' = ''BLOCK'') = False" "(''NOT_RUN'' = ''WARN'') = False"
  by simp_all

lemma worst_status:
  assumes "status \<in> {''NOT_RUN'', ''PASS'', ''WARN'', ''BLOCK''}"
  shows "fold (\<lambda>x status. worse_status (outcomeSignalStatus x) status) xs status =
    (if status = ''BLOCK'' \<or> (\<exists>x\<in>set xs. outcomeSignalStatus x = ''BLOCK'') then ''BLOCK''
     else if status = ''WARN'' \<or> (\<exists>x\<in>set xs. outcomeSignalStatus x = ''WARN'') then ''WARN''
     else if xs = [] then status else ''PASS'')"
  using assms
proof (induction xs arbitrary: status)
  case (Cons x xs)
  have s: "worse_status (outcomeSignalStatus x) status \<in> {''NOT_RUN'', ''PASS'', ''WARN'', ''BLOCK''}"
    using outcomeSignalStatus_cases [of x] by (auto simp: worse_status_def)
  from Cons.IH [OF s] outcomeSignalStatus_cases [of x] Cons.prems show ?case by (auto simp: worse_status_def)
qed simp

text \<open>C36: the state the operations signals give a change depends on the latest signal about each entity only,
  whatever the order in which they are listed: it is BLOCK exactly when one of them says so (an incident
  that is still open, a failed rollback, a degraded metric or a missed objective), else WARN when one of them
  is undecided, else PASS; a signal that names no entity is never replaced.\<close>

theorem release_state_by_latest:
  assumes "inj_on sig_ID (set signals)"
  shows "summarizeOutcomeSignals signals =
    (let current = {x \<in> set signals. unidentified x \<or>
           (\<forall>y\<in>set signals. \<not> unidentified y \<and> identity_of y = identity_of x \<longrightarrow> \<not> signal_newer y x)}
     in if \<exists>x\<in>current. outcomeSignalStatus x = ''BLOCK'' then ''BLOCK''
        else if \<exists>x\<in>current. outcomeSignalStatus x = ''WARN'' then ''WARN''
        else if signals = [] then ''NOT_RUN'' else ''PASS'')"
proof -
  have "latestOutcomeSignals signals = [] \<longleftrightarrow> signals = []"
  proof (cases "signals = []")
    case False
    then obtain x where x: "x \<in> set signals" by (cases signals) auto
    have "latestOutcomeSignals signals \<noteq> []"
    proof (cases "unidentified x")
      case True
      then have "x \<in> set (latestOutcomeSignals signals)" using x by (simp add: set_latestOutcomeSignals [OF assms])
      then show ?thesis by auto
    next
      case False
      then have "about (identity_of x) signals \<noteq> []" using x by (auto simp: about_def filter_empty_conv)
      then obtain y where "fold (best signal_newer) (about (identity_of x) signals) None = Some y"
        using fold_best_None [of signal_newer "about (identity_of x) signals"] by blast
      from recency.fold_best_greatest [OF this] have "y \<in> set (latestOutcomeSignals signals)"
        by (fastforce simp: set_latestOutcomeSignals [OF assms] about_def recency.newer_rank not_less)
      then show ?thesis by auto
    qed
    with False show ?thesis by simp
  qed (simp add: latestOutcomeSignals_def)
  then have "summarizeOutcomeSignals signals =
      (if \<exists>x\<in>set (latestOutcomeSignals signals). outcomeSignalStatus x = ''BLOCK'' then ''BLOCK''
       else if \<exists>x\<in>set (latestOutcomeSignals signals). outcomeSignalStatus x = ''WARN'' then ''WARN''
       else if signals = [] then ''NOT_RUN'' else ''PASS'')"
    unfolding summarizeOutcomeSignals_def worst_status [OF not_run(1)] by (simp only: not_run(2,3) simp_thms)
  then show ?thesis unfolding set_latestOutcomeSignals [OF assms] Let_def .
qed

definition incident_open :: outcome_signal where
  "incident_open = zero_outcome_signal\<lparr> sig_OrganizationID := ''org_1'', sig_ID := ''s1'', sig_Source := ''PAGER'',
     sig_Kind := ''INCIDENT'', sig_Status := ''OPEN'', sig_ChangeID := ''chg_1'', sig_IncidentID := ''inc_1'',
     sig_OccurredAt := 10, sig_ReceivedAt := 10 \<rparr>"

definition incident_resolved :: outcome_signal where
  "incident_resolved = incident_open\<lparr> sig_ID := ''s2'', sig_Status := ''RESOLVED'', sig_OccurredAt := 20, sig_ReceivedAt := 20 \<rparr>"

lemma incident_samples:
  "identity_of incident_resolved = identity_of incident_open" "\<not> unidentified incident_open" "\<not> unidentified incident_resolved"
  "signal_newer incident_resolved incident_open" "\<not> signal_newer incident_open incident_resolved"
  "\<not> signal_newer incident_open incident_open" "\<not> signal_newer incident_resolved incident_resolved"
  "outcomeSignalStatus incident_open = ''BLOCK''" "outcomeSignalStatus incident_resolved = ''PASS''"
  "sig_ID incident_open \<noteq> sig_ID incident_resolved"
  by (simp_all add: incident_resolved_def incident_open_def zero_outcome_signal_def identity_of_def outcome_entity_def
      outcome_constants unidentified_def signal_newer_def outcomeSignalStatus_def) (code_simp+)

theorem release_state_by_latest_witness:
  "summarizeOutcomeSignals [incident_resolved, incident_open] = ''PASS'' \<and> summarizeOutcomeSignals [incident_open] = ''BLOCK''"
proof
  have "{x \<in> set [incident_resolved, incident_open]. unidentified x \<or>
           (\<forall>y\<in>set [incident_resolved, incident_open]. \<not> unidentified y \<and> identity_of y = identity_of x \<longrightarrow> \<not> signal_newer y x)}
        = {incident_resolved}"
    using incident_samples by auto
  moreover have "inj_on sig_ID (set [incident_resolved, incident_open])" using incident_samples(10) by (auto simp: inj_on_def)
  ultimately show "summarizeOutcomeSignals [incident_resolved, incident_open] = ''PASS''"
    using release_state_by_latest [of "[incident_resolved, incident_open]"] by (simp add: incident_samples)
  have "{x \<in> set [incident_open]. unidentified x \<or>
           (\<forall>y\<in>set [incident_open]. \<not> unidentified y \<and> identity_of y = identity_of x \<longrightarrow> \<not> signal_newer y x)} = {incident_open}"
    using incident_samples by auto
  then show "summarizeOutcomeSignals [incident_open] = ''BLOCK''"
    using release_state_by_latest [of "[incident_open]"] by (simp add: incident_samples)
qed

section \<open>The governance report adds up\<close>

lemma percentage_range:
  assumes "n \<le> d"
  shows "0 \<le> percentage n d" "percentage n d \<le> 100"
proof -
  define q :: rat where "q = of_nat n / of_nat d"
  have q: "0 \<le> q" "q \<le> 1" using assms by (cases "d = 0"; simp add: q_def divide_le_eq_1)+
  have "\<lfloor>q * 100 * 100 + 1 / 2\<rfloor> \<le> 10000" using q(2) by (simp add: floor_le_iff)
  moreover have "0 \<le> \<lfloor>q * 100 * 100 + 1 / 2\<rfloor>" using q(1) by simp
  ultimately have "0 \<le> roundTwo (q * 100)" "roundTwo (q * 100) \<le> 100"
    using q(1) by (simp_all add: roundTwo_def round_half_away_def)
  then show "0 \<le> percentage n d" "percentage n d \<le> 100" by (simp_all add: percentage_def q_def)
qed

lemma tally_le [simp]: "tally P xs \<le> length xs"
  by (simp add: tally_def)

lemma tally_split: "tally P xs + tally (\<lambda>x. \<not> P x) xs = length xs"
  by (simp add: tally_def sum_length_filter_compl)

lemma tally_mono: "(\<And>x. x \<in> set xs \<Longrightarrow> P x \<Longrightarrow> Q x) \<Longrightarrow> tally P xs \<le> tally Q xs"
  by (induction xs) (auto simp: tally_def le_SucI)

lemma tally_filter: "tally P (filter Q xs) \<le> length (filter Q xs)"
  by simp

lemma deployments_of_changes: "length (latest_deployments (set (map chg_ID changes)) w events) \<le> length changes"
proof -
  have "int_ChangeID ` set (filter (deployment_event (set (map chg_ID changes)) w) events) \<subseteq> set (map chg_ID changes)"
    by (auto simp: deployment_event_def)
  then have "card (int_ChangeID ` set (filter (deployment_event (set (map chg_ID changes)) w) events)) \<le> card (set (map chg_ID changes))"
    by (rule card_mono [rotated]) simp
  also have "\<dots> \<le> length changes" using card_length [of "map chg_ID changes"] by simp
  finally show ?thesis by (simp add: latest_deployments_def keep_length)
qed

definition percent :: "rat \<Rightarrow> bool" where "percent r \<longleftrightarrow> 0 \<le> r \<and> r \<le> 100"

lemma percent_percentage [simp]: "n \<le> d \<Longrightarrow> percent (percentage n d)"
  by (simp add: percent_def percentage_range)

lemma tally_passed [simp]: "tally experiment_passed changes \<le> tally (\<lambda>c. \<exists>y. chg_Experiment c = Some y) changes"
  by (rule tally_mono) (auto simp: experiment_passed_def split: option.splits)

lemma coverage_percent:
  "percent (gcc_CheckRunPercent (coverage_metrics changes))" "percent (gcc_ArtifactEvidencePercent (coverage_metrics changes))"
  "percent (gcc_RollbackPlanPercent (coverage_metrics changes))" "percent (gcc_SuccessMetricsPercent (coverage_metrics changes))"
  "percent (gcc_ProgressiveDeliveryPercent (coverage_metrics changes))" "percent (gcc_AutoRollbackPercent (coverage_metrics changes))"
  by (simp_all add: coverage_metrics_def Let_def)

lemma flow_percent:
  "percent (gfm_ExperimentPassRatePercent (flow_metrics changes deployments))"
  "percent (gfm_DeploymentFailureRate (flow_metrics changes deployments))"
  "percent (gfm_BlockingFindingClosureRate (flow_metrics changes deployments))"
  "percent (gfm_OnTimeFindingClosureRate (flow_metrics changes deployments))"
  "gfm_SuccessfulDeployments (flow_metrics changes deployments) + gfm_FailedDeployments (flow_metrics changes deployments)
     = length deployments"
  "gfm_DeploymentOutcomeSampleCount (flow_metrics changes deployments) = length deployments"
  using tally_split [of failed_event deployments] by (simp_all add: flow_metrics_def Let_def)

lemma operational_counts:
  "percent (gom_RollbackSuccessRatePercent (operational_metrics start deployments signals))"
  "percent (gom_PostReleaseRemediationRate (operational_metrics start deployments signals))"
  "gom_SuccessfulRollbacks (operational_metrics start deployments signals) + gom_FailedRollbacks (operational_metrics start deployments signals)
     = gom_RollbackOutcomeSampleCount (operational_metrics start deployments signals)"
  "gom_OpenIncidents (operational_metrics start deployments signals) + gom_ResolvedIncidents (operational_metrics start deployments signals)
     = gom_LinkedIncidentCount (operational_metrics start deployments signals)"
  "gom_PostReleaseSampleCount (operational_metrics start deployments signals) = tally (\<lambda>ev. \<not> failed_event ev) deployments"
  using tally_split [of "\<lambda>x. rollbackOutcome (sig_Status x) = Some True" "map snd (latest_rollbacks start signals)"]
    tally_split [of "\<lambda>s. isResolvedIncident (is_status s)"
      "filter is_observed (map (incident_history start) (incident_groups signals))"]
  by (simp_all add: operational_metrics_def Let_def add.commute) (simp_all add: tally_def)

lemma business_counts:
  "percent (gbm_ObjectiveAttainmentRatePercent (business_metrics slis))"
  "gbm_ImprovedSLIs (business_metrics slis) + gbm_StableSLIs (business_metrics slis) + gbm_DegradedSLIs (business_metrics slis)
     = gbm_SLISampleCount (business_metrics slis)"
  by (simp_all add: business_metrics_def Let_def) (induction slis, auto simp: tally_def)

text \<open>C37: the numbers of a governance report add up, whatever the evidence: every deployment, rollback, incident
  and metric counted is counted in exactly one of its outcomes, no change is judged by two deployments,
  remedies are sought for the successful deployments only, and every rate is between 0 and 100 percent.\<close>

theorem governance_report_adds_up:
  fixes changes events signals windowDays now scope
  defines "g \<equiv> governanceOutcomesForEvidence changes events signals windowDays now scope"
  shows "gfm_SuccessfulDeployments (gos_Flow g) + gfm_FailedDeployments (gos_Flow g) = gfm_DeploymentOutcomeSampleCount (gos_Flow g)
    \<and> gfm_DeploymentOutcomeSampleCount (gos_Flow g) \<le> gos_TotalChanges g \<and> gos_TotalChanges g \<le> length changes
    \<and> gom_PostReleaseSampleCount (gos_Operations g) = gfm_SuccessfulDeployments (gos_Flow g)
    \<and> gom_SuccessfulRollbacks (gos_Operations g) + gom_FailedRollbacks (gos_Operations g) = gom_RollbackOutcomeSampleCount (gos_Operations g)
    \<and> gom_OpenIncidents (gos_Operations g) + gom_ResolvedIncidents (gos_Operations g) = gom_LinkedIncidentCount (gos_Operations g)
    \<and> gbm_ImprovedSLIs (gos_Business g) + gbm_StableSLIs (gos_Business g) + gbm_DegradedSLIs (gos_Business g)
        = gbm_SLISampleCount (gos_Business g)
    \<and> list_all (\<lambda>r. 0 \<le> r \<and> r \<le> 100)
        [gcc_CheckRunPercent (gos_ControlCoverage g), gcc_ArtifactEvidencePercent (gos_ControlCoverage g),
              gcc_RollbackPlanPercent (gos_ControlCoverage g), gcc_SuccessMetricsPercent (gos_ControlCoverage g),
              gcc_ProgressiveDeliveryPercent (gos_ControlCoverage g), gcc_AutoRollbackPercent (gos_ControlCoverage g),
              gfm_ExperimentPassRatePercent (gos_Flow g), gfm_DeploymentFailureRate (gos_Flow g),
              gfm_BlockingFindingClosureRate (gos_Flow g), gfm_OnTimeFindingClosureRate (gos_Flow g),
              gom_RollbackSuccessRatePercent (gos_Operations g), gom_PostReleaseRemediationRate (gos_Operations g),
              gbm_ObjectiveAttainmentRatePercent (gos_Business g)]"
proof -
  define eligible where "eligible = filter (\<lambda>c. in_window (now - windowDays * 24 * hour, now) (chg_CreatedAt c)) changes"
  define deployments where
    "deployments = map snd (latest_deployments (set (map chg_ID eligible)) (now - windowDays * 24 * hour, now) events)"
  have g: "gos_TotalChanges g = length eligible" "gos_ControlCoverage g = coverage_metrics eligible"
      "gos_Flow g = flow_metrics eligible deployments"
      "\<exists>linked. gos_Operations g = operational_metrics (now - windowDays * 24 * hour) deployments linked"
      "\<exists>slis. gos_Business g = business_metrics slis"
    by (auto simp: g_def governanceOutcomesForEvidence_def Let_def eligible_def deployments_def)
  then obtain linked slis where o: "gos_Operations g = operational_metrics (now - windowDays * 24 * hour) deployments linked"
      "gos_Business g = business_metrics slis"
    by blast
  have "gom_PostReleaseSampleCount (gos_Operations g) = gfm_SuccessfulDeployments (gos_Flow g)"
    unfolding g(3) o operational_counts by (simp add: flow_metrics_def Let_def)
  moreover have "length deployments \<le> length eligible" unfolding deployments_def length_map by (rule deployments_of_changes)
  moreover have "length eligible \<le> length changes" by (simp add: eligible_def)
  ultimately show ?thesis
    unfolding percent_def [symmetric]
    by (simp add: g(1-3) o coverage_percent flow_percent operational_counts business_counts)
qed

interpretation deployment_recency: latest_wins event_newer "\<lambda>ev. (integrationEventTime ev, int_ReceivedAt ev)"
  by unfold_locales (auto simp: event_newer_def less_prod_def)

interpretation rollback_recency: latest_wins occurred_later sig_OccurredAt
  by unfold_locales (simp add: occurred_later_def)

text \<open>Each change of the report that was deployed is judged by its latest terminal deployment in the window,
  once: the deployments counted are the changes with such an event, and the failed ones the changes whose
  latest event failed.\<close>

lemma deployments_judged_by_latest:
  fixes changes events signals windowDays now scope
  defines "w \<equiv> (now - windowDays * 24 * hour, now)"
  defines "judged \<equiv> {ev \<in> set events. in_window w (integrationEventTime ev) \<and> deploymentOutcome (int_Status ev) \<noteq> None
      \<and> (\<exists>c\<in>set changes. chg_ID c = int_ChangeID ev \<and> in_window w (chg_CreatedAt c))}"
  assumes "\<forall>x\<in>judged. \<forall>y\<in>judged. int_ChangeID x = int_ChangeID y \<and> integrationEventTime x = integrationEventTime y
      \<and> int_ReceivedAt x = int_ReceivedAt y \<longrightarrow> x = y"
  shows "gfm_DeploymentOutcomeSampleCount (gos_Flow (governanceOutcomesForEvidence changes events signals windowDays now scope))
      = card (int_ChangeID ` judged)
    \<and> gfm_FailedDeployments (gos_Flow (governanceOutcomesForEvidence changes events signals windowDays now scope))
      = card {ev \<in> judged. failed_event ev \<and> (\<forall>other\<in>judged. int_ChangeID other = int_ChangeID ev \<longrightarrow> \<not> event_newer other ev)}"
proof -
  define ids where "ids = set (map chg_ID (filter (\<lambda>c. in_window w (chg_CreatedAt c)) changes))"
  define ds where "ds = latest_deployments ids w events"
  have j: "set (filter (deployment_event ids w) events) = judged"
    by (force simp: judged_def ids_def deployment_event_def)
  have "fst ` set ds = int_ChangeID ` judged"
    unfolding ds_def latest_deployments_def keep_keys j ..
  moreover have "snd ` set ds = {ev \<in> judged. \<forall>other\<in>judged. int_ChangeID other = int_ChangeID ev \<longrightarrow> \<not> event_newer other ev}"
    unfolding ds_def latest_deployments_def j [symmetric]
    by (rule deployment_recency.keep_values) (unfold j, use assms(3) in simp)
  moreover have d: "k = int_ChangeID x" if "(k, x) \<in> set ds" for k x
    using keep_entry [of k x event_newer int_ChangeID "filter (deployment_event ids w) events" "[]"] that
    by (simp add: ds_def latest_deployments_def)
  moreover have dd: "distinct (map fst ds)" by (simp add: ds_def latest_deployments_def)
  moreover have "distinct (map snd ds)"
  proof -
    have "fst x = int_ChangeID (snd x)" if "x \<in> set ds" for x using d [of "fst x" "snd x"] that by simp
    then have "inj_on snd (set ds)" by (intro inj_onI prod_eqI) auto
    with dd show ?thesis by (simp add: distinct_map)
  qed
  moreover have "gos_Flow (governanceOutcomesForEvidence changes events signals windowDays now scope)
      = flow_metrics (filter (\<lambda>c. in_window w (chg_CreatedAt c)) changes) (map snd ds)"
    by (simp add: governanceOutcomesForEvidence_def Let_def ds_def ids_def w_def)
  ultimately show ?thesis using distinct_card [of "map fst ds"] distinct_card [of "filter failed_event (map snd ds)"]
    by (simp add: flow_metrics_def Let_def tally_def conj_ac)
qed

definition released_change :: change_request where
  "released_change = zero_change_request\<lparr> chg_ID := ''chg_1'', chg_CreatedAt := 99 * hour \<rparr>"

definition failed_run :: integration_event where
  "failed_run = zero_integration_event\<lparr> int_ID := ''e1'', int_ChangeID := ''chg_1'', int_Status := ''failed'',
     int_OccurredAt := 99 * hour + 1 \<rparr>"

definition passed_run_again :: integration_event where
  "passed_run_again = failed_run\<lparr> int_ID := ''e2'', int_Status := ''success'', int_OccurredAt := 99 * hour + 2 \<rparr>"

lemma deployment_samples:
  "deploymentOutcome (int_Status failed_run) = Some True" "deploymentOutcome (int_Status passed_run_again) = Some False"
  "integrationEventTime failed_run = 99 * hour + 1" "integrationEventTime passed_run_again = 99 * hour + 2"
  "int_ChangeID failed_run = ''chg_1''" "int_ChangeID passed_run_again = ''chg_1''" "failed_run \<noteq> passed_run_again"
  "chg_ID released_change = ''chg_1''" "chg_CreatedAt released_change = 99 * hour"
  by (code_simp, code_simp,
      simp_all add: failed_run_def passed_run_again_def released_change_def zero_integration_event_def
        zero_change_request_def integrationEventTime_def is_zero_def hour_def minute_def second_def)

lemma deployments_judged_by_latest_witness:
  defines "g \<equiv> governanceOutcomesForEvidence [released_change] [failed_run, passed_run_again] [] 1 (100 * hour) ''test''"
  shows "gfm_DeploymentOutcomeSampleCount (gos_Flow g) = 1 \<and> gfm_FailedDeployments (gos_Flow g) = 0"
proof -
  let ?w = "(100 * hour - 1 * 24 * hour, 100 * hour)"
  let ?judged = "{ev \<in> set [failed_run, passed_run_again]. in_window ?w (integrationEventTime ev) \<and> deploymentOutcome (int_Status ev) \<noteq> None
      \<and> (\<exists>c\<in>set [released_change]. chg_ID c = int_ChangeID ev \<and> in_window ?w (chg_CreatedAt c))}"
  have j: "?judged = {failed_run, passed_run_again}"
    by (auto simp: deployment_samples in_window_def hour_def minute_def second_def)
  have "\<forall>x\<in>?judged. \<forall>y\<in>?judged. int_ChangeID x = int_ChangeID y \<and> integrationEventTime x = integrationEventTime y
      \<and> int_ReceivedAt x = int_ReceivedAt y \<longrightarrow> x = y"
    unfolding j by (auto simp: deployment_samples)
  from deployments_judged_by_latest [OF this, of "[]" "''test''"]
  have g: "gfm_DeploymentOutcomeSampleCount (gos_Flow g) = card (int_ChangeID ` {failed_run, passed_run_again})
    \<and> gfm_FailedDeployments (gos_Flow g) = card {ev \<in> {failed_run, passed_run_again}. failed_event ev
        \<and> (\<forall>other\<in>{failed_run, passed_run_again}. int_ChangeID other = int_ChangeID ev \<longrightarrow> \<not> event_newer other ev)}"
    unfolding j g_def .
  have none: "{ev \<in> {failed_run, passed_run_again}. failed_event ev
        \<and> (\<forall>other\<in>{failed_run, passed_run_again}. int_ChangeID other = int_ChangeID ev \<longrightarrow> \<not> event_newer other ev)} = {}"
    by (auto simp: deployment_samples failed_event_def event_newer_def)
  show ?thesis using g unfolding none by (simp add: deployment_samples)
qed

section \<open>Sums of lead times overflow\<close>

lemma duration_sum_replicate: "duration_sum (replicate n t) = sint (word_of_int (int n * t) :: 64 word)"
proof -
  have "fold (\<lambda>x total. total + word_of_int x) (replicate n t) (w :: 64 word) = w + word_of_int (int n * t)" for w
    by (induction n arbitrary: w) (simp_all add: algebra_simps)
  then show ?thesis by (simp add: duration_sum_def)
qed

text \<open>The lead times of the decisions are added up in 64 bits of nanoseconds, about 292 years: a report over
  a year with three hundred changes that each waited a year for a decision shows a negative average lead time.\<close>

lemma lead_average_overflows:
  "\<exists>changes. gfm_DecisionLeadTimeSampleCount (gos_Flow (governanceOutcomesForEvidence changes [] [] 365 (400 * 24 * hour) scope)) = 300
    \<and> list_all (\<lambda>c. decision_lead c = Some (365 * 24 * hour)) changes
    \<and> gfm_AverageDecisionLeadMinutes (gos_Flow (governanceOutcomesForEvidence changes [] [] 365 (400 * 24 * hour) scope)) < 0"
proof -
  define e where "e = \<lparr> tl_ID = [], tl_Status = StatusApproved, tl_Title = [], tl_Detail = [], tl_Actor = [],
    tl_CreatedAt = 400 * 24 * hour \<rparr>"
  define c where "c = zero_change_request\<lparr> chg_CreatedAt := 35 * 24 * hour, chg_Timeline := [e] \<rparr>"
  let ?r = "governanceOutcomesForEvidence (replicate 300 c) [] [] 365 (400 * 24 * hour) scope"
  have "decision_lead c = Some (365 * 24 * hour)"
    by (simp add: decision_lead_def changeDecisionAt_def c_def e_def is_zero_def time_sub_def hour_def minute_def second_def)
  moreover have "in_window (400 * 24 * hour - 365 * 24 * hour, 400 * 24 * hour) (chg_CreatedAt c)"
    by (simp add: in_window_def c_def hour_def minute_def second_def)
  ultimately have f: "List.map_filter decision_lead
      (filter (\<lambda>c. in_window (400 * 24 * hour - 365 * 24 * hour, 400 * 24 * hour) (chg_CreatedAt c)) (replicate 300 c))
        = replicate 300 (365 * 24 * hour)"
    by (simp add: map_filter_def)
  have "sint (word_of_int (int 300 * (365 * 24 * hour)) :: 64 word) < - (10 ^ 18)"
    by (simp add: hour_def minute_def second_def)
  then have "average_minutes (replicate 300 (365 * 24 * hour)) < 0"
    by (simp add: average_minutes_def duration_sum_replicate roundTwo_def round_half_away_def minute_def second_def hour_def)
  with f \<open>decision_lead c = _\<close> show ?thesis
    by (intro exI [of _ "replicate 300 c"]) (simp add: list_all_iff governanceOutcomesForEvidence_def Let_def flow_metrics_def)
qed

end
