(* ===== verification/ConflictTexts.thy ===== *)
theory ConflictTexts
  imports Main
begin

text \<open>
  The non-ASCII string constants of the conflict radar that a modelled definition compares or stores, as their UTF-8
  bytes.
\<close>

definition txt_conf_same_app :: string where
  "txt_conf_same_app = [
    CHR 0xE5, CHR 0x90, CHR 0x8C, CHR 0xE4, CHR 0xB8, CHR 0x80, CHR 0xE5, CHR 0xBA, CHR 0x94,
    CHR 0xE7, CHR 0x94, CHR 0xA8, CHR 0xE5, CHR 0xB9, CHR 0xB6, CHR 0xE5, CHR 0x8F, CHR 0x91,
    CHR 0xE5, CHR 0x8F, CHR 0x91, CHR 0xE5, CHR 0xB8, CHR 0x83]"

definition txt_conf_dependency :: string where
  "txt_conf_dependency = [
    CHR 0xE4, CHR 0xB8, CHR 0x8A, CHR 0xE4, CHR 0xB8, CHR 0x8B, CHR 0xE6, CHR 0xB8, CHR 0xB8,
    CHR 0xE4, CHR 0xBE, CHR 0x9D, CHR 0xE8, CHR 0xB5, CHR 0x96, CHR 0xE5, CHR 0x90, CHR 0x8C,
    CHR 0xE6, CHR 0x97, CHR 0xB6, CHR 0xE5, CHR 0x8F, CHR 0x98, CHR 0xE6, CHR 0x9B, CHR 0xB4]"

definition txt_conf_stagger :: string where
  "txt_conf_stagger = [
    CHR 0xE5, CHR 0xBB, CHR 0xBA, CHR 0xE8, CHR 0xAE, CHR 0xAE, CHR 0xE5, CHR 0xB0, CHR 0x86,
    CHR 0xE4, CHR 0xB8, CHR 0xA4, CHR 0xE4, CHR 0xB8, CHR 0xAA, CHR 0xE5, CHR 0x8F, CHR 0x98,
    CHR 0xE6, CHR 0x9B, CHR 0xB4, CHR 0xE9, CHR 0x94, CHR 0x99, CHR 0xE5, CHR 0xB3, CHR 0xB0,
    CHR 0xEF, CHR 0xBC, CHR 0x8C, CHR 0xE5, CHR 0x89, CHR 0x8D, CHR 0xE4, CHR 0xB8, CHR 0x80,
    CHR 0xE5, CHR 0x8F, CHR 0x98, CHR 0xE6, CHR 0x9B, CHR 0xB4, CHR 0xE5, CHR 0xAE, CHR 0x8C,
    CHR 0xE6, CHR 0x88, CHR 0x90, CHR 0xE5, CHR 0xB9, CHR 0xB6, CHR 0xE8, CHR 0xA7, CHR 0x82,
    CHR 0xE5, CHR 0xAF, CHR 0x9F, CHR 0xE7, CHR 0xA8, CHR 0xB3, CHR 0xE5, CHR 0xAE, CHR 0x9A,
    CHR 0xE5, CHR 0x90, CHR 0x8E, CHR 0xE5, CHR 0x86, CHR 0x8D, CHR 0xE6, CHR 0x89, CHR 0xA7,
    CHR 0xE8, CHR 0xA1, CHR 0x8C, CHR 0xE5, CHR 0x90, CHR 0x8E, CHR 0xE4, CHR 0xB8, CHR 0x80,
    CHR 0xE5, CHR 0x8F, CHR 0x98, CHR 0xE6, CHR 0x9B, CHR 0xB4, CHR 0xE3, CHR 0x80, CHR 0x82]"

definition txt_conf_upstream :: string where
  "txt_conf_upstream = [
    CHR 0xE5, CHR 0xBB, CHR 0xBA, CHR 0xE8, CHR 0xAE, CHR 0xAE, CHR 0xE5, CHR 0x85, CHR 0x88,
    CHR 0xE5, CHR 0x8F, CHR 0x91, CHR 0xE5, CHR 0xB8, CHR 0x83, CHR 0xE4, CHR 0xB8, CHR 0x8A,
    CHR 0xE6, CHR 0xB8, CHR 0xB8, CHR 0xE5, CHR 0xB9, CHR 0xB6, CHR 0xE5, CHR 0xAE, CHR 0x8C,
    CHR 0xE6, CHR 0x88, CHR 0x90, CHR 0xE5, CHR 0x81, CHR 0xA5, CHR 0xE5, CHR 0xBA, CHR 0xB7,
    CHR 0xE6, CHR 0xA3, CHR 0x80, CHR 0xE6, CHR 0x9F, CHR 0xA5, CHR 0xEF, CHR 0xBC, CHR 0x8C,
    CHR 0xE5, CHR 0x86, CHR 0x8D, CHR 0xE6, CHR 0x94, CHR 0xBE, CHR 0xE8, CHR 0xA1, CHR 0x8C,
    CHR 0xE4, CHR 0xB8, CHR 0x8B, CHR 0xE6, CHR 0xB8, CHR 0xB8, CHR 0xE5, CHR 0x8F, CHR 0x98,
    CHR 0xE6, CHR 0x9B, CHR 0xB4, CHR 0xE3, CHR 0x80, CHR 0x82]"

definition txt_conf_database :: string where
  "txt_conf_database = [
    CHR 0xE5, CHR 0x85, CHR 0xB1, CHR 0xE4, CHR 0xBA, CHR 0xAB, CHR 0xE6, CHR 0x95, CHR 0xB0,
    CHR 0xE6, CHR 0x8D, CHR 0xAE, CHR 0xE5, CHR 0xBA, CHR 0x93, CHR 0xE5, CHR 0xAF, CHR 0xB9,
    CHR 0xE8, CHR 0xB1, CHR 0xA1]"

definition txt_conf_kubernetes :: string where
  "txt_conf_kubernetes = [
    CHR 0xE5, CHR 0x85, CHR 0xB1, CHR 0xE4, CHR 0xBA, CHR 0xAB, CHR 0x20, CHR 0x4B, CHR 0x75,
    CHR 0x62, CHR 0x65, CHR 0x72, CHR 0x6E, CHR 0x65, CHR 0x74, CHR 0x65, CHR 0x73, CHR 0x20,
    CHR 0xE5, CHR 0xB7, CHR 0xA5, CHR 0xE4, CHR 0xBD, CHR 0x9C, CHR 0xE8, CHR 0xB4, CHR 0x9F,
    CHR 0xE8, CHR 0xBD, CHR 0xBD]"

definition txt_conf_config :: string where
  "txt_conf_config = [
    CHR 0xE5, CHR 0x85, CHR 0xB1, CHR 0xE4, CHR 0xBA, CHR 0xAB, CHR 0xE9, CHR 0x85, CHR 0x8D,
    CHR 0xE7, CHR 0xBD, CHR 0xAE, CHR 0xE9, CHR 0xA1, CHR 0xB9]"

definition txt_conf_artifact :: string where
  "txt_conf_artifact = [
    CHR 0xE5, CHR 0x85, CHR 0xB1, CHR 0xE4, CHR 0xBA, CHR 0xAB, CHR 0xE5, CHR 0x8F, CHR 0x91,
    CHR 0xE5, CHR 0xB8, CHR 0x83, CHR 0xE5, CHR 0x88, CHR 0xB6, CHR 0xE5, CHR 0x93, CHR 0x81]"

end
