(* ===== verification/Conflict.thy ===== *)
theory Conflict
  imports Window ConflictTexts
begin

text \<open>
  \<^verbatim>\<open>internal/conflict/detector.go\<close>: the conflict radar, which compares the planned changes of an enterprise
  pairwise: two changes of one environment whose release windows overlap conflict when they release one
  application, write the same table, configuration key or workload, or release applications of which one depends
  on the other. The lemmas show that the radar reports exactly these pairs, once each, with consistent
  counts and scores, and that the order in which changes and applications are listed does not matter.
\<close>

section \<open>Reports\<close>

record conflict_reason =
  cr_Kind :: string
  cr_Label :: string
  cr_Resource :: string

record conflict_change_summary =
  cs_ID :: string
  cs_Title :: string
  cs_ApplicationID :: string
  cs_ApplicationName :: string
  cs_Environment :: string
  cs_Status :: change_status
  cs_Risk :: risk_level
  cs_PlannedAt :: gotime
  cs_WindowEnd :: gotime

record change_conflict =
  cc_ID :: string
  cc_Severity :: risk_level
  cc_Score :: int
  cc_ChangeA :: conflict_change_summary
  cc_ChangeB :: conflict_change_summary
  cc_OverlapStart :: gotime
  cc_OverlapEnd :: gotime
  cc_OverlapMinutes :: int
  cc_Reasons :: "conflict_reason list"
  cc_Recommendation :: string

record conflict_radar =
  radar_GeneratedAt :: gotime
  radar_WindowStart :: gotime
  radar_WindowEnd :: gotime
  radar_PlannedChanges :: nat
  radar_ConflictCount :: nat
  radar_HighRiskCount :: nat
  radar_AffectedApplications :: nat
  radar_SeverityDistribution :: "risk_level \<Rightarrow> nat"
  radar_Changes :: "conflict_change_summary list"
  radar_Conflicts :: "change_conflict list"

section \<open>The resources a change writes\<close>

text \<open>The class of the names: word characters, the two runes that fold to an ASCII letter, the dot and the quote.\<close>

definition name_rune :: re where
  "name_rune = Cls (\<lambda>x. (case x of [c] \<Rightarrow> is_word c \<or> c = CHR ''.'' \<or> c = CHR 0x22 | _ \<Rightarrow> False)
     \<or> x = [CHR 0xC5, CHR 0xBF] \<or> x = [CHR 0xE2, CHR 0x84, CHR 0xAA])"

definition two_words :: "string \<Rightarrow> string \<Rightarrow> re" where
  "two_words a b = seqs [word_boundary, lit_i a, Plus perl_space, lit_i b, Plus perl_space]"

definition sqlWritePatterns :: "re list list" where
  "sqlWritePatterns =
     [[two_words ''alter'' ''table'', Plus name_rune],
      [seqs [word_boundary, lit_i ''update'', Plus perl_space], Plus name_rune],
      [two_words ''insert'' ''into'', Plus name_rune],
      [two_words ''delete'' ''from'', Plus name_rune],
      [seqs [word_boundary, lit_i ''truncate'', Opt (Seq (Plus perl_space) (lit_i ''table'')), Plus perl_space], Plus name_rune]]"

text \<open>\<^verbatim>\<open>FindAllStringSubmatch\<close>, for patterns that do not match the empty text: the groups of the matches that do
  not overlap, from the left.\<close>

fun find_all_from :: "re list \<Rightarrow> string list \<Rightarrow> nat \<Rightarrow> nat \<Rightarrow> string list list" where
  "find_all_from pat rs 0 i = []"
| "find_all_from pat rs (Suc k) i =
     (if length rs \<le> i then []
      else case groups pat rs i of
             [] \<Rightarrow> find_all_from pat rs k (Suc i)
           | js # _ \<Rightarrow>
               if js \<noteq> [] \<and> i < last js then pieces rs i js # find_all_from pat rs k (last js)
               else find_all_from pat rs k (Suc i))"

definition find_all :: "re list \<Rightarrow> string \<Rightarrow> string list list" where
  "find_all pat s = (let rs = runes s in find_all_from pat rs (length rs) 0)"

definition normalizeResource :: "string \<Rightarrow> string" where
  "normalizeResource value = to_lower (trim_cutset (trim_space value) ''(),;'')"

definition sorted_keys :: "string list \<Rightarrow> string list" where
  "sorted_keys xs = sort (remdups xs)"

definition sqlTables :: "string \<Rightarrow> string list" where
  "sqlTables content = sorted_keys (filter (\<lambda>name. name \<noteq> [])
     (map (\<lambda>m. normalizeResource (m ! 1)) (concat (map (\<lambda>pat. find_all pat content) sqlWritePatterns))))"

definition configKey :: "string \<Rightarrow> string option" where
  "configKey raw =
     (let line = trim_space raw in
      if line = [] \<or> has_prefix line ''#'' \<or> has_prefix line ''//'' \<or> has_prefix line ''-'' then None
      else case find_index_of (\<lambda>c. c \<in> set '':='') line of
             None \<Rightarrow> None
           | Some n \<Rightarrow>
               let key = trim_space (take n line)
               in if n = 0 \<or> key = [] \<or> 96 < length key then None else Some (to_lower key))"

definition configKeys :: "string \<Rightarrow> string list" where
  "configKeys content = sorted_keys (List.map_filter configKey (split_on (CHR 0x0A) content))"

definition firstNonEmpty :: "string list \<Rightarrow> string" where
  "firstNonEmpty values = (case List.find (\<lambda>v. trim_space v \<noteq> []) values of None \<Rightarrow> [] | Some v \<Rightarrow> trim_space v)"

text \<open>The scan of a manifest: kind, name and namespace of the document read so far, and whether its metadata has
  begun.\<close>

record k8s_scan =
  ks_kind :: string
  ks_name :: string
  ks_namespace :: string
  ks_meta :: bool

definition k8s_start :: k8s_scan where
  "k8s_start = \<lparr> ks_kind = [], ks_name = [], ks_namespace = [], ks_meta = False \<rparr>"

definition k8s_flush :: "k8s_scan \<Rightarrow> string list" where
  "k8s_flush s =
     (if ks_kind s \<noteq> [] \<and> ks_name s \<noteq> []
      then [to_lower (firstNonEmpty [ks_namespace s, ''default''] @ ''/'' @ ks_kind s @ ''/'' @ ks_name s)] else [])"

definition k8s_line :: "k8s_scan \<Rightarrow> string \<Rightarrow> k8s_scan" where
  "k8s_line s line =
     (if has_prefix line ''kind:'' then s\<lparr> ks_kind := trim_space (trim_prefix line ''kind:'') \<rparr>
      else if line = ''metadata:'' then s\<lparr> ks_meta := True \<rparr>
      else if ks_meta s \<and> has_prefix line ''name:'' \<and> ks_name s = []
      then s\<lparr> ks_name := trim_space (trim_prefix line ''name:'') \<rparr>
      else if ks_meta s \<and> has_prefix line ''namespace:''
      then s\<lparr> ks_namespace := trim_space (trim_prefix line ''namespace:'') \<rparr>
      else s)"

fun k8s_objects :: "k8s_scan \<Rightarrow> string list \<Rightarrow> string list" where
  "k8s_objects s [] = k8s_flush s"
| "k8s_objects s (raw # lines) =
     (let line = trim_space raw in
      if line = ''---'' then k8s_flush s @ k8s_objects k8s_start lines
      else k8s_objects (k8s_line s line) lines)"

definition kubernetesObjects :: "string \<Rightarrow> string list" where
  "kubernetesObjects content = sorted_keys (k8s_objects k8s_start (split_on (CHR 0x0A) content))"

definition looksLikePath :: "string \<Rightarrow> bool" where
  "looksLikePath value \<longleftrightarrow> (let v = trim_space value in
     contains_str v ''/'' \<or> contains_str v [CHR 0x5C] \<or> contains_str v ''.'')"

definition artifact_resources :: "change_artifact \<Rightarrow> (string \<times> string) list" where
  "artifact_resources a =
     (let kind = to_upper (art_Kind a) in
      if kind = ''DATABASE'' then map (Pair ''DATABASE'') (sqlTables (art_Content a))
      else if kind = ''CONFIG''
      then map (\<lambda>key. (''CONFIG'', firstNonEmpty [art_Source a, art_Name a] @ '':'' @ key)) (configKeys (art_Content a))
      else if kind = ''KUBERNETES'' then map (Pair ''KUBERNETES'') (kubernetesObjects (art_Content a))
      else if looksLikePath (art_Source a) then [(''ARTIFACT'', art_Source a)] else [])"

text \<open>The set of resources, as a list without duplicates; the order of the map of the source is random, and the
  reasons drawn from it are sorted.\<close>

definition resources :: "change_request \<Rightarrow> (string \<times> string) list" where
  "resources c =
     remdups (filter (\<lambda>(kind, name). name \<noteq> [])
       (map (\<lambda>(kind, name). (kind, normalizeResource name))
         (map (Pair ''DATABASE'') (sqlTables (chg_SQL c)) @ concat (map artifact_resources (chg_Artifacts c)))))"

section \<open>Windows, reasons and scores\<close>

definition windowEnd :: "change_request \<Rightarrow> gotime" where
  "windowEnd c = chg_PlannedAt c + min 480 (max 30 (plan_ObservationMinutes (chg_ReleasePlan c))) * minute"

definition overlap :: "change_request \<Rightarrow> change_request \<Rightarrow> (gotime \<times> gotime) option" where
  "overlap l r =
     (let start = (if chg_PlannedAt l < chg_PlannedAt r then chg_PlannedAt r else chg_PlannedAt l);
          finish = (if windowEnd r < windowEnd l then windowEnd r else windowEnd l)
      in if start < finish then Some (start, finish) else None)"

definition resourceLabel :: "string \<Rightarrow> string \<times> int" where
  "resourceLabel kind =
     (if kind = ''DATABASE'' then (txt_conf_database, 88)
      else if kind = ''KUBERNETES'' then (txt_conf_kubernetes, 82)
      else if kind = ''CONFIG'' then (txt_conf_config, 76)
      else (txt_conf_artifact, 70))"

definition dependencyRelation :: "string \<Rightarrow> string \<Rightarrow> application list \<Rightarrow> string option" where
  "dependencyRelation l r apps =
     (case (app_by_id apps l, app_by_id apps r) of
        (Some left, Some right) \<Rightarrow>
          if r \<in> set (app_Dependencies left) then Some (app_Name right)
          else if l \<in> set (app_Dependencies right) then Some (app_Name left) else None
      | _ \<Rightarrow> None)"

definition shared_resources :: "change_request \<Rightarrow> change_request \<Rightarrow> (string \<times> string) list" where
  "shared_resources l r = filter (\<lambda>x. x \<in> set (resources r)) (resources l)"

definition same_application :: "change_request \<Rightarrow> change_request \<Rightarrow> bool" where
  "same_application l r \<longleftrightarrow> chg_ApplicationID l \<noteq> [] \<and> chg_ApplicationID l = chg_ApplicationID r"

definition raw_reasons :: "change_request \<Rightarrow> change_request \<Rightarrow> application list \<Rightarrow> (conflict_reason \<times> int) list" where
  "raw_reasons l r apps =
     (if same_application l r
      then [(\<lparr> cr_Kind = ''SAME_APPLICATION'', cr_Label = txt_conf_same_app, cr_Resource = chg_ApplicationName l \<rparr>, 90)] else [])
     @ map (\<lambda>(kind, name). (\<lparr> cr_Kind = ''SHARED_'' @ kind, cr_Label = fst (resourceLabel kind), cr_Resource = name \<rparr>,
                            snd (resourceLabel kind))) (shared_resources l r)
     @ (case dependencyRelation (chg_ApplicationID l) (chg_ApplicationID r) apps of
          None \<Rightarrow> []
        | Some name \<Rightarrow>
            [(\<lparr> cr_Kind = ''APPLICATION_DEPENDENCY'', cr_Label = txt_conf_dependency, cr_Resource = name \<rparr>, 65)])"

definition reasonsFor :: "change_request \<Rightarrow> change_request \<Rightarrow> application list \<Rightarrow> conflict_reason list \<times> int" where
  "reasonsFor l r apps =
     (sort_key cr_Kind (sort_key cr_Resource (map fst (raw_reasons l r apps))),
      fold (\<lambda>x. max (snd x)) (raw_reasons l r apps) 0)"

definition severityFor :: "int \<Rightarrow> risk_level" where
  "severityFor score = (if 80 \<le> score then RiskHigh else if 60 \<le> score then RiskMedium else RiskLow)"

definition recommendation :: "conflict_reason list \<Rightarrow> string" where
  "recommendation reasons =
     (if list_ex (\<lambda>x. cr_Kind x = ''SAME_APPLICATION'' \<or> has_prefix (cr_Kind x) ''SHARED_'') reasons
      then txt_conf_stagger else txt_conf_upstream)"

definition conflictID :: "string \<Rightarrow> string \<Rightarrow> string" where
  "conflictID l r = (if r < l then ''conf_'' @ r @ ''_'' @ l else ''conf_'' @ l @ ''_'' @ r)"

definition sameEnvironment :: "string \<Rightarrow> string \<Rightarrow> bool" where
  "sameEnvironment l r \<longleftrightarrow> equal_fold (trim_space l) (trim_space r)"

section \<open>The radar\<close>

definition terminal_status :: "change_status \<Rightarrow> bool" where
  "terminal_status s \<longleftrightarrow> s = StatusCheckFailed \<or> s = StatusRejected \<or> s = StatusCompleted"

definition summary_of :: "change_request \<Rightarrow> conflict_change_summary" where
  "summary_of c =
     \<lparr> cs_ID = chg_ID c, cs_Title = chg_Title c, cs_ApplicationID = chg_ApplicationID c,
        cs_ApplicationName = chg_ApplicationName c, cs_Environment = chg_Environment c, cs_Status = chg_Status c,
        cs_Risk = chg_Risk c, cs_PlannedAt = chg_PlannedAt c, cs_WindowEnd = windowEnd c \<rparr>"

definition conflict_score :: "change_request \<Rightarrow> change_request \<Rightarrow> gotime \<Rightarrow> gotime \<Rightarrow> int \<Rightarrow> int" where
  "conflict_score l r start finish score =
     min 100 (score + (if chg_Risk l = RiskHigh then 5 else 0) + (if chg_Risk r = RiskHigh then 5 else 0)
              + (if hour \<le> finish - start then 5 else 0))"

definition pair_conflict :: "application list \<Rightarrow> change_request \<Rightarrow> change_request \<Rightarrow> change_conflict option" where
  "pair_conflict apps l r =
     (if \<not> sameEnvironment (chg_Environment l) (chg_Environment r) then None
      else case overlap l r of
             None \<Rightarrow> None
           | Some (start, finish) \<Rightarrow>
               (case reasonsFor l r apps of
                  (reasons, score0) \<Rightarrow>
                    if reasons = [] then None
                    else let score = conflict_score l r start finish score0 in
                         Some \<lparr> cc_ID = conflictID (chg_ID l) (chg_ID r), cc_Severity = severityFor score, cc_Score = score,
                                cc_ChangeA = summary_of l, cc_ChangeB = summary_of r, cc_OverlapStart = start,
                                cc_OverlapEnd = finish, cc_OverlapMinutes = (finish - start) div minute,
                                cc_Reasons = reasons, cc_Recommendation = recommendation reasons \<rparr>))"

fun pairs_of :: "'a list \<Rightarrow> ('a \<times> 'a) list" where
  "pairs_of [] = []"
| "pairs_of (x # xs) = map (Pair x) xs @ pairs_of xs"

definition planned_in :: "gotime \<times> gotime \<Rightarrow> change_request \<Rightarrow> bool" where
  "planned_in window c \<longleftrightarrow> \<not> terminal_status (chg_Status c) \<and> \<not> is_zero (chg_PlannedAt c)
     \<and> fst window \<le> chg_PlannedAt c \<and> chg_PlannedAt c \<le> snd window"

definition active_changes :: "change_request list \<Rightarrow> gotime \<times> gotime \<Rightarrow> change_request list" where
  "active_changes changes window = sort_key chg_PlannedAt (sort_key chg_ID (filter (planned_in window) changes))"

definition radar_window :: "gotime \<Rightarrow> gotime \<Rightarrow> gotime \<Rightarrow> gotime \<times> gotime" where
  "radar_window now start finish =
     (let start = (if is_zero start then now - 24 * hour else start)
      in (start, if is_zero finish \<or> \<not> start < finish then start + 8 * 24 * hour else finish))"

definition Detect ::
  "gotime \<Rightarrow> change_request list \<Rightarrow> application list \<Rightarrow> gotime \<Rightarrow> gotime \<Rightarrow> conflict_radar" where
  "Detect now changes apps start finish =
     (let window = radar_window now start finish;
          active = active_changes changes window;
          found = List.map_filter (\<lambda>(l, r). map_option (Pair (l, r)) (pair_conflict apps l r)) (pairs_of active);
          conflicts = map snd found
      in \<lparr> radar_GeneratedAt = now, radar_WindowStart = fst window, radar_WindowEnd = snd window,
            radar_PlannedChanges = length active, radar_ConflictCount = length conflicts,
            radar_HighRiskCount = length (filter (\<lambda>x. cc_Severity x = RiskHigh) conflicts),
            radar_AffectedApplications =
              length (remdups (concat (map (\<lambda>((l, r), _). [chg_ApplicationID l, chg_ApplicationID r]) found))),
            radar_SeverityDistribution = (\<lambda>s. length (filter (\<lambda>x. cc_Severity x = s) conflicts)),
            radar_Changes = map summary_of active,
            radar_Conflicts = sort_key (\<lambda>x. - cc_Score x) (sort_key cc_OverlapStart conflicts) \<rparr>)"

section \<open>Exactly the overlapping related pairs\<close>

lemma windowEnd_after: "chg_PlannedAt c < windowEnd c"
  by (simp add: windowEnd_def minute_def second_def)

lemma overlap_iff: "overlap l r \<noteq> None \<longleftrightarrow> chg_PlannedAt l < windowEnd r \<and> chg_PlannedAt r < windowEnd l"
  using windowEnd_after [of l] windowEnd_after [of r] by (auto simp: overlap_def Let_def)

text \<open>The specification, written without the operations of the radar: a change is open within the bounds asked for
  when its status is not one of the three final ones and it has a planned time between the bounds, by default
  from a day ago and for eight days; its window lasts the minutes of its observation, at least 30 and at most
  480; and two changes clash when they are for one environment, start in each other's windows and are related
  by an application, a written resource or a dependency.\<close>

definition open_in :: "gotime \<Rightarrow> gotime \<Rightarrow> gotime \<Rightarrow> change_request \<Rightarrow> bool" where
  "open_in now start finish c \<longleftrightarrow>
     (let lower = (if start = 0 then now - 86400 * 10 ^ 9 else start);
          upper = (if finish = 0 \<or> finish \<le> lower then lower + 691200 * 10 ^ 9 else finish)
      in chg_Status c \<notin> {StatusCheckFailed, StatusRejected, StatusCompleted}
         \<and> chg_PlannedAt c \<noteq> 0 \<and> chg_PlannedAt c \<in> {lower..upper})"

definition watched_until :: "change_request \<Rightarrow> gotime" where
  "watched_until c = (let m = plan_ObservationMinutes (chg_ReleasePlan c)
     in chg_PlannedAt c + (if m < 30 then 30 else if 480 < m then 480 else m) * (60 * 10 ^ 9))"

definition depends_on_app :: "application list \<Rightarrow> string \<Rightarrow> string \<Rightarrow> bool" where
  "depends_on_app apps l r \<longleftrightarrow>
     (\<exists>left right. app_by_id apps l = Some left \<and> app_by_id apps r = Some right
        \<and> (r \<in> set (app_Dependencies left) \<or> l \<in> set (app_Dependencies right)))"

definition related :: "application list \<Rightarrow> change_request \<Rightarrow> change_request \<Rightarrow> bool" where
  "related apps l r \<longleftrightarrow> (chg_ApplicationID l \<noteq> [] \<and> chg_ApplicationID l = chg_ApplicationID r)
     \<or> set (resources l) \<inter> set (resources r) \<noteq> {}
     \<or> depends_on_app apps (chg_ApplicationID l) (chg_ApplicationID r)"

definition clashes :: "application list \<Rightarrow> change_request \<Rightarrow> change_request \<Rightarrow> bool" where
  "clashes apps l r \<longleftrightarrow> equal_fold (trim_space (chg_Environment l)) (trim_space (chg_Environment r))
     \<and> chg_PlannedAt l < watched_until r \<and> chg_PlannedAt r < watched_until l \<and> related apps l r"

lemma windowEnd_watched: "windowEnd c = watched_until c"
  by (simp add: windowEnd_def watched_until_def Let_def minute_def second_def min_def max_def)

lemma planned_in_open: "planned_in (radar_window now start finish) c \<longleftrightarrow> open_in now start finish c"
  by (auto simp: planned_in_def open_in_def radar_window_def terminal_status_def is_zero_def Let_def hour_def minute_def second_def)

lemma clashes_sym: "clashes apps l r \<longleftrightarrow> clashes apps r l"
  by (auto simp: clashes_def related_def depends_on_app_def intro: equal_fold_sym [THEN iffD1])

lemma raw_reasons_Nil: "raw_reasons l r apps = [] \<longleftrightarrow> \<not> related apps l r"
  by (auto simp: raw_reasons_def related_def same_application_def shared_resources_def dependencyRelation_def depends_on_app_def filter_empty_conv
      split: option.split)

lemma reasons_Nil: "fst (reasonsFor l r apps) = [] \<longleftrightarrow> \<not> related apps l r"
proof -
  have "length (fst (reasonsFor l r apps)) = length (raw_reasons l r apps)" by (simp add: reasonsFor_def)
  then show ?thesis by (metis length_0_conv raw_reasons_Nil)
qed

lemma pair_conflict_iff: "pair_conflict apps l r \<noteq> None \<longleftrightarrow> clashes apps l r"
  using overlap_iff [of l r] reasons_Nil [of l r apps]
  by (auto simp: pair_conflict_def clashes_def sameEnvironment_def windowEnd_watched [symmetric] Let_def split: prod.splits option.splits)

lemma pair_conflict_ids:
  "pair_conflict apps l r = Some x \<Longrightarrow> cc_ChangeA x = summary_of l \<and> cc_ChangeB x = summary_of r"
  by (auto simp: pair_conflict_def Let_def split: prod.splits option.splits if_splits)

lemma pairs_of_set: "(x, y) \<in> set (pairs_of xs) \<Longrightarrow> x \<in> set xs \<and> y \<in> set xs"
  by (induction xs) auto

lemma pairs_of_total: "x \<in> set xs \<Longrightarrow> y \<in> set xs \<Longrightarrow> x \<noteq> y \<Longrightarrow> (x, y) \<in> set (pairs_of xs) \<or> (y, x) \<in> set (pairs_of xs)"
  by (induction xs) auto

lemma pairs_of_distinct: "distinct xs \<Longrightarrow> distinct (pairs_of xs)"
  by (induction xs) (auto simp: distinct_map inj_on_def dest: pairs_of_set)

lemma pairs_of_irrefl: "distinct xs \<Longrightarrow> (x, x) \<notin> set (pairs_of xs)"
  by (induction xs) (auto dest: pairs_of_set)

lemma pairs_of_antisym: "distinct xs \<Longrightarrow> (x, y) \<in> set (pairs_of xs) \<Longrightarrow> (y, x) \<notin> set (pairs_of xs)"
  by (induction xs) (auto dest: pairs_of_set)

lemma filter_eq_single: "distinct xs \<Longrightarrow> x \<in> set xs \<Longrightarrow> filter (\<lambda>p. p = x) xs = [x]"
  by (induction xs) (auto simp: filter_empty_conv)

lemma set_active: "set (active_changes changes window) = {c \<in> set changes. planned_in window c}"
  by (simp add: active_changes_def)

lemma radar_conflicts_mset:
  "mset (radar_Conflicts (Detect now changes apps start finish))
     = mset (List.map_filter (\<lambda>p. pair_conflict apps (fst p) (snd p)) (pairs_of (active_changes changes (radar_window now start finish))))"
proof -
  have "map snd (List.map_filter (\<lambda>(l, r). map_option (Pair (l, r)) (pair_conflict apps l r)) ps)
      = List.map_filter (\<lambda>p. pair_conflict apps (fst p) (snd p)) ps" for ps
    by (induction ps) (auto simp: map_filter_simps split: option.split)
  then show ?thesis by (simp add: Detect_def Let_def)
qed

lemma map_filter_set: "x \<in> set (List.map_filter f xs) \<longleftrightarrow> (\<exists>p\<in>set xs. f p = Some x)"
  by (induction xs) (auto simp: map_filter_simps split: option.split)

lemma radar_conflict_pair:
  assumes "x \<in> set (radar_Conflicts (Detect now changes apps start finish))"
  obtains l r where "(l, r) \<in> set (pairs_of (active_changes changes (radar_window now start finish)))"
    "cc_ChangeA x = summary_of l" "cc_ChangeB x = summary_of r"
proof -
  have "x \<in> set (List.map_filter (\<lambda>p. pair_conflict apps (fst p) (snd p))
      (pairs_of (active_changes changes (radar_window now start finish))))"
    using assms mset_eq_setD [OF radar_conflicts_mset [of now changes apps start finish]] by simp
  then obtain p where p: "p \<in> set (pairs_of (active_changes changes (radar_window now start finish)))"
    "pair_conflict apps (fst p) (snd p) = Some x"
    by (auto simp: map_filter_set)
  with that [of "fst p" "snd p"] pair_conflict_ids [OF p(2)] show ?thesis by simp
qed

lemma radar_conflict_source:
  assumes "distinct (map chg_ID changes)" "x \<in> set (radar_Conflicts (Detect now changes apps start finish))"
  shows "\<exists>l\<in>set changes. \<exists>r\<in>set changes. chg_ID l \<noteq> chg_ID r \<and> cc_ChangeA x = summary_of l \<and> cc_ChangeB x = summary_of r"
proof -
  obtain l r where p: "(l, r) \<in> set (pairs_of (active_changes changes (radar_window now start finish)))"
    "cc_ChangeA x = summary_of l" "cc_ChangeB x = summary_of r"
    using radar_conflict_pair [OF assms(2)] .
  have lr: "l \<in> set changes" "r \<in> set changes" using pairs_of_set [OF p(1)] by (simp_all add: set_active)
  have "distinct (map chg_ID (active_changes changes (radar_window now start finish)))"
    using assms(1) by (simp add: active_changes_def distinct_map inj_on_def)
  then have "distinct (active_changes changes (radar_window now start finish))" by (simp only: distinct_map)
  from pairs_of_irrefl [OF this] p(1) have "l \<noteq> r" by metis
  then have "chg_ID l \<noteq> chg_ID r" using distinct_map_inj [OF assms(1) lr] by blast
  then show ?thesis using lr p(2,3) by blast
qed

lemma radar_counts_open:
  assumes ids: "distinct (map chg_ID changes)" and l: "l \<in> set changes" "planned_in (radar_window now start finish) l"
    and r: "r \<in> set changes" "planned_in (radar_window now start finish) r" and lr: "chg_ID l \<noteq> chg_ID r"
  shows "length (filter (\<lambda>x. {cs_ID (cc_ChangeA x), cs_ID (cc_ChangeB x)} = {chg_ID l, chg_ID r})
      (radar_Conflicts (Detect now changes apps start finish))) = (if clashes apps l r then 1 else 0)"
proof -
  let ?active = "active_changes changes (radar_window now start finish)"
  let ?pairs = "pairs_of ?active" and ?P = "\<lambda>x. {cs_ID (cc_ChangeA x), cs_ID (cc_ChangeB x)} = {chg_ID l, chg_ID r}"
  have active: "l \<in> set ?active" "r \<in> set ?active" using l r by (simp_all add: set_active)
  have inj: "c = c'" if "c \<in> set ?active" "c' \<in> set ?active" "chg_ID c = chg_ID c'" for c c'
    using distinct_map_inj [OF ids] that by (simp add: set_active)
  have "distinct (map chg_ID ?active)"
    using ids by (simp add: active_changes_def distinct_map inj_on_def)
  then have dist: "distinct ?active" by (simp add: distinct_map)
  have pair: "p = (l, r) \<or> p = (r, l)" if "p \<in> set ?pairs" "pair_conflict apps (fst p) (snd p) = Some x" "?P x" for p x
  proof -
    have "fst p \<in> set ?active" "snd p \<in> set ?active" using that(1) pairs_of_set [of "fst p" "snd p"] by auto
    moreover have "{chg_ID (fst p), chg_ID (snd p)} = {chg_ID l, chg_ID r}"
      using that(3) pair_conflict_ids [OF that(2)] by (simp add: summary_of_def)
    ultimately show ?thesis using inj active by (cases p) (auto simp: doubleton_eq_iff)
  qed
  obtain a b where ab: "(a, b) \<in> set ?pairs" "(a, b) = (l, r) \<or> (a, b) = (r, l)" "(b, a) \<notin> set ?pairs"
  proof -
    have "\<not> ((l, r) \<in> set ?pairs \<and> (r, l) \<in> set ?pairs)" using pairs_of_antisym [OF dist, of l r] by blast
    then show ?thesis using pairs_of_total [OF active] lr that by blast
  qed
  have P: "?P x \<longleftrightarrow> p = (a, b)" if "p \<in> set ?pairs" "pair_conflict apps (fst p) (snd p) = Some x" for p x
    using pair [OF that] ab pair_conflict_ids [OF that(2)] that(1) by (auto simp: summary_of_def)
  have "length (filter ?P (radar_Conflicts (Detect now changes apps start finish)))
      = length (filter ?P (List.map_filter (\<lambda>p. pair_conflict apps (fst p) (snd p)) ?pairs))"
    by (simp only: size_mset [symmetric] mset_filter radar_conflicts_mset)
  also have "\<dots> = length (List.map_filter (\<lambda>p. pair_conflict apps (fst p) (snd p)) (filter (\<lambda>p. p = (a, b)) ?pairs))"
  proof -
    have "length (filter ?P (List.map_filter (\<lambda>p. pair_conflict apps (fst p) (snd p)) ps))
      = length (List.map_filter (\<lambda>p. pair_conflict apps (fst p) (snd p)) (filter (\<lambda>p. p = (a, b)) ps))" if "set ps \<subseteq> set ?pairs" for ps
      using that
    proof (induction ps)
      case (Cons p ps)
      then have p: "p \<in> set ?pairs" by simp
      show ?case
      proof (cases "pair_conflict apps (fst p) (snd p)")
        case None
        then show ?thesis using Cons by (cases "p = (a, b)") (simp_all add: map_filter_simps)
      next
        case (Some x)
        then show ?thesis using Cons P [OF p Some] by (cases "p = (a, b)") (simp_all add: map_filter_simps)
      qed
    qed (simp add: map_filter_simps)
    then show ?thesis by simp
  qed
  also have "filter (\<lambda>p. p = (a, b)) ?pairs = [(a, b)]"
    using filter_eq_single [OF pairs_of_distinct [OF dist] ab(1)] .
  finally have "length (filter ?P (radar_Conflicts (Detect now changes apps start finish))) = (if pair_conflict apps a b = None then 0 else 1)"
    by (simp add: map_filter_simps split: option.split)
  moreover have "clashes apps a b \<longleftrightarrow> clashes apps l r" using ab(2) clashes_sym by auto
  ultimately show ?thesis using pair_conflict_iff [of apps a b] by auto
qed

lemma radar_conflict_open:
  assumes "x \<in> set (radar_Conflicts (Detect now changes apps start finish))"
  obtains l r where "l \<in> set changes" "r \<in> set changes" "open_in now start finish l" "open_in now start finish r"
    "cc_ChangeA x = summary_of l" "cc_ChangeB x = summary_of r"
  using radar_conflict_pair [OF assms] pairs_of_set by (metis (no_types, lifting) set_active mem_Collect_eq planned_in_open)

text \<open>C35: the radar reports exactly the pairs that clash. For any two listed changes with different identifiers there
  is one conflict when both are open within the bounds, they are for one environment, each starts before the
  window of the other ends, and they release one application, write one resource, or release applications of
  which one depends on the other; otherwise there is none. And no conflict names anything but two different
  changes of the list.\<close>

theorem radar_reports_exactly:
  assumes ids: "distinct (map chg_ID changes)" and l: "l \<in> set changes" and r: "r \<in> set changes"
    and lr: "chg_ID l \<noteq> chg_ID r"
  shows "length (filter (\<lambda>x. {cs_ID (cc_ChangeA x), cs_ID (cc_ChangeB x)} = {chg_ID l, chg_ID r})
      (radar_Conflicts (Detect now changes apps start finish)))
        = (if open_in now start finish l \<and> open_in now start finish r \<and> clashes apps l r then 1 else 0)
    \<and> (\<forall>x\<in>set (radar_Conflicts (Detect now changes apps start finish)). \<exists>a\<in>set changes. \<exists>b\<in>set changes.
         chg_ID a \<noteq> chg_ID b \<and> cc_ChangeA x = summary_of a \<and> cc_ChangeB x = summary_of b)"
proof -
  let ?R = "Detect now changes apps start finish" and ?ids = "\<lambda>x. {cs_ID (cc_ChangeA x), cs_ID (cc_ChangeB x)}"
  have "length (filter (\<lambda>x. ?ids x = {chg_ID l, chg_ID r}) (radar_Conflicts ?R))
      = (if open_in now start finish l \<and> open_in now start finish r \<and> clashes apps l r then 1 else 0)"
  proof (cases "open_in now start finish l \<and> open_in now start finish r")
    case True
    then show ?thesis using radar_counts_open [OF ids l _ r _ lr] by (simp add: planned_in_open)
  next
    case False
    have "?ids x \<noteq> {chg_ID l, chg_ID r}" if x: "x \<in> set (radar_Conflicts ?R)" for x
    proof
      assume same: "?ids x = {chg_ID l, chg_ID r}"
      obtain a b where ab: "a \<in> set changes" "b \<in> set changes" "open_in now start finish a" "open_in now start finish b"
        and sums: "cc_ChangeA x = summary_of a" "cc_ChangeB x = summary_of b"
        using radar_conflict_open [OF x] .
      have "{chg_ID a, chg_ID b} = {chg_ID l, chg_ID r}" using same by (simp add: sums summary_of_def)
      then have "{a, b} = {l, r}"
        using distinct_map_inj [OF ids ab(1) l] distinct_map_inj [OF ids ab(1) r] distinct_map_inj [OF ids ab(2) l]
          distinct_map_inj [OF ids ab(2) r] by (auto simp: doubleton_eq_iff)
      with ab(3,4) False show False by (auto simp: doubleton_eq_iff)
    qed
    then have "filter (\<lambda>x. ?ids x = {chg_ID l, chg_ID r}) (radar_Conflicts ?R) = []" by (simp add: filter_empty_conv)
    then show ?thesis using False by auto
  qed
  then show ?thesis using radar_conflict_source [OF ids, of _ now apps start finish] by blast
qed

definition radar_change :: "string \<Rightarrow> gotime \<Rightarrow> change_request" where
  "radar_change i t = zero_change_request
     \<lparr> chg_ID := i, chg_ApplicationID := ''app_1'', chg_Environment := ''prod'', chg_Status := StatusApproved, chg_PlannedAt := t \<rparr>"

definition radar_sample :: "change_request list" where
  "radar_sample = [radar_change ''a'' (10 * minute), radar_change ''b'' (20 * minute), radar_change ''c'' (90 * minute),
     (radar_change ''d'' (15 * minute)) \<lparr> chg_Status := StatusCompleted \<rparr>]"

theorem radar_reports_exactly_witness:
  "length (filter (\<lambda>x. {cs_ID (cc_ChangeA x), cs_ID (cc_ChangeB x)} = {''a'', ''b''})
      (radar_Conflicts (Detect 5 radar_sample [] 1 0))) = 1
   \<and> length (filter (\<lambda>x. {cs_ID (cc_ChangeA x), cs_ID (cc_ChangeB x)} = {''a'', ''c''})
      (radar_Conflicts (Detect 5 radar_sample [] 1 0))) = 0
   \<and> length (filter (\<lambda>x. {cs_ID (cc_ChangeA x), cs_ID (cc_ChangeB x)} = {''a'', ''d''})
      (radar_Conflicts (Detect 5 radar_sample [] 1 0))) = 0"
proof -
  let ?a = "radar_sample ! 0" and ?b = "radar_sample ! 1" and ?c = "radar_sample ! 2" and ?d = "radar_sample ! 3"
  have ids: "distinct (map chg_ID radar_sample)" "chg_ID ?a = ''a''" "chg_ID ?b = ''b''" "chg_ID ?c = ''c''" "chg_ID ?d = ''d''"
    and mem: "?a \<in> set radar_sample" "?b \<in> set radar_sample" "?c \<in> set radar_sample" "?d \<in> set radar_sample"
    by (simp_all add: radar_sample_def radar_change_def)
  have "open_in 5 1 0 ?a" "open_in 5 1 0 ?b" "\<not> open_in 5 1 0 ?d" "clashes [] ?a ?b" "\<not> clashes [] ?a ?c"
    by (simp_all add: open_in_def clashes_def related_def watched_until_def radar_sample_def radar_change_def Let_def
        zero_change_request_def zero_release_plan_def minute_def second_def)
  then show ?thesis
    using radar_reports_exactly [OF ids(1) mem(1,2), of 5 "[]" 1 0] radar_reports_exactly [OF ids(1) mem(1,3), of 5 "[]" 1 0]
      radar_reports_exactly [OF ids(1) mem(1,4), of 5 "[]" 1 0] ids(2-5) by simp
qed

section \<open>Scores and counts\<close>

lemma reasons_score:
  assumes "related apps l r"
  shows "65 \<le> snd (reasonsFor l r apps)" "snd (reasonsFor l r apps) \<le> 90"
proof -
  have label: "65 \<le> snd (resourceLabel k) \<and> snd (resourceLabel k) \<le> 90" for k by (simp add: resourceLabel_def)
  have "list_all (\<lambda>x. 65 \<le> snd x \<and> snd x \<le> 90) (raw_reasons l r apps)"
    using label
    by (simp add: raw_reasons_def list.pred_map comp_def split_def split: option.split) (simp add: list_all_iff)
  then have each: "65 \<le> snd x \<and> snd x \<le> 90" if "x \<in> set (raw_reasons l r apps)" for x
    using that by (simp add: list_all_iff)
  have mono: "s \<le> fold (\<lambda>x. max (snd x)) ys s" for ys :: "(conflict_reason \<times> int) list" and s
    by (induction ys arbitrary: s) (auto intro: order_trans [OF max.cobounded2])
  have upper: "(\<forall>x\<in>set ys. snd x \<le> 90) \<Longrightarrow> s \<le> 90 \<Longrightarrow> fold (\<lambda>x. max (snd x)) ys s \<le> 90"
    for ys :: "(conflict_reason \<times> int) list" and s
    by (induction ys arbitrary: s) auto
  obtain x ys where xs: "raw_reasons l r apps = x # ys" using assms raw_reasons_Nil by (cases "raw_reasons l r apps") auto
  have "max (snd x) 0 \<le> fold (\<lambda>x. max (snd x)) ys (max (snd x) 0)" by (rule mono)
  with each [of x] show "65 \<le> snd (reasonsFor l r apps)" by (simp add: reasonsFor_def xs)
  show "snd (reasonsFor l r apps) \<le> 90" using each upper [of "raw_reasons l r apps" 0] by (simp add: reasonsFor_def)
qed

lemma pair_conflict_score:
  assumes "pair_conflict apps l r = Some x"
  shows "65 \<le> cc_Score x \<and> cc_Score x \<le> 100 \<and> cc_Severity x = severityFor (cc_Score x) \<and> 0 \<le> cc_OverlapMinutes x
    \<and> cc_OverlapMinutes x \<le> 480 \<and> cc_Reasons x \<noteq> []"
proof -
  have rel: "related apps l r" using assms pair_conflict_iff [of apps l r] by (simp add: clashes_def)
  obtain start finish where o: "overlap l r = Some (start, finish)"
    using assms by (auto simp: pair_conflict_def split: if_splits option.splits)
  have x: "cc_Score x = conflict_score l r start finish (snd (reasonsFor l r apps))" "cc_Severity x = severityFor (cc_Score x)"
    "cc_OverlapMinutes x = (finish - start) div minute" "cc_Reasons x = fst (reasonsFor l r apps)"
    using assms o by (auto simp: pair_conflict_def Let_def split: if_splits prod.splits)
  have "0 \<le> finish - start" "finish - start \<le> 480 * minute"
    using o by (auto simp: overlap_def Let_def windowEnd_def split: if_splits)
      (auto simp: minute_def second_def min_def max_def split: if_splits)
  then have "0 \<le> (finish - start) div minute" "(finish - start) div minute \<le> 480"
    using zdiv_mono1 [of "finish - start" "480 * minute" minute] by (simp_all add: minute_def second_def)
  moreover have "65 \<le> cc_Score x \<and> cc_Score x \<le> 100" using reasons_score [OF rel] by (simp add: x(1) conflict_score_def)
  ultimately show ?thesis using x(2-4) rel reasons_Nil [of l r apps] by simp
qed

lemma severity_levels: "65 \<le> score \<Longrightarrow> severityFor score = (if 80 \<le> score then RiskHigh else RiskMedium)"
  by (simp add: severityFor_def)

section \<open>The order of the lists does not matter\<close>

lemma app_by_id_perm:
  assumes "mset apps = mset apps'" "distinct (map app_ID apps)"
  shows "app_by_id apps = app_by_id apps'"
proof -
  have d': "distinct (map app_ID apps')" using assms by (metis mset_eq_imp_distinct_iff mset_map)
  have found: "lookup_by app_ID i (rev xs) = Some a \<longleftrightarrow> a \<in> set xs \<and> app_ID a = i" if "distinct (map app_ID xs)" for xs i a
    using that lookup_by_distinct [of app_ID "rev xs" a] lookup_by_Some [of app_ID i "rev xs" a]
    by (auto simp: rev_map [symmetric])
  with assms(2) d' mset_eq_setD [OF assms(1)] have "app_by_id apps i = Some a \<longleftrightarrow> app_by_id apps' i = Some a" for i a
    by (simp add: app_by_id_def found)
  then have "app_by_id apps i = app_by_id apps' i" for i
    by (metis not_None_eq)
  then show ?thesis by (rule ext)
qed

text \<open>The radar is deterministic: it depends neither on the order in which the changes are listed nor on the
  order of the applications, when their identifiers are distinct.\<close>

lemma radar_order_irrelevant:
  assumes "mset changes = mset changes'" "distinct (map chg_ID changes)" "mset apps = mset apps'" "distinct (map app_ID apps)"
  shows "Detect now changes apps start finish = Detect now changes' apps' start finish"
proof -
  have "active_changes changes w = active_changes changes' w" for w
  proof -
    have "sort_key chg_ID (filter (planned_in w) changes) = sort_key chg_ID (filter (planned_in w) changes')"
    proof (rule sort_key_inj_key_eq)
      show "mset (filter (planned_in w) changes) = mset (sort_key chg_ID (filter (planned_in w) changes'))"
        using assms(1) by simp
      show "inj_on chg_ID (set (filter (planned_in w) changes))" using assms(2) by (auto simp: distinct_map inj_on_def)
    qed simp
    then show ?thesis by (simp add: active_changes_def)
  qed
  moreover have reasons: "reasonsFor l r apps = reasonsFor l r apps'" for l r
    unfolding reasonsFor_def raw_reasons_def dependencyRelation_def app_by_id_perm [OF assms(3,4)] ..
  have "pair_conflict apps = pair_conflict apps'"
    by (intro ext) (unfold pair_conflict_def reasons, rule refl)
  ultimately show ?thesis by (simp add: Detect_def)
qed

lemma radar_order_irrelevant_witness:
  "Detect 5 [radar_change ''a'' (10 * minute), radar_change ''b'' (20 * minute)] [] 1 0
     = Detect 5 [radar_change ''b'' (20 * minute), radar_change ''a'' (10 * minute)] [] 1 0"
  by (rule radar_order_irrelevant) (simp_all add: radar_change_def)

text \<open>A written table is found in the SQL of a change whatever the case of the words.\<close>

lemma table_found: "sqlTables ''Update  Orders set x=1; truncate logs'' = [''logs'', ''orders'']"
  by code_simp

end
