(* ===== verification/Views.thy ===== *)
theory Views
  imports Outcomes Conflict
begin

text \<open>
  What the service shows: the listings of the store (\<^verbatim>\<open>internal/store/store.go\<close>, \<^verbatim>\<open>organization.go\<close>,
  \<^verbatim>\<open>passport.go\<close>, \<^verbatim>\<open>outbox.go\<close>) and the handlers of \<^verbatim>\<open>internal/service/service.go\<close>, \<^verbatim>\<open>passport.go\<close> and
  \<^verbatim>\<open>outcome_signals.go\<close> that filter them by the enterprise of the reader and by the applications he was
  granted; and the two handlers that take reports from outside. A handler reads one state of the store. The
  lemmas show that what a reader gets depends on nothing he may not see, with the exceptions the code makes.
\<close>

section \<open>Listings of the store\<close>

definition limited :: "int \<Rightarrow> 'a list \<Rightarrow> 'a list" where
  "limited n xs = (if 0 < n \<and> n < int (length xs) then take (nat n) xs else xs)"

definition UsersByOrganization :: "db \<Rightarrow> string \<Rightarrow> user list" where
  "UsersByOrganization d org =
     sort_key (\<lambda>u. \<not> usr_Active u) (sort_key (\<lambda>u. \<not> usr_EnterpriseAdmin u) (sort_key usr_Name
       (filter (\<lambda>u. usr_OrganizationID u = org) (db_Users d))))"

definition AuditsByOrganizationAppendOrder :: "db \<Rightarrow> string \<Rightarrow> audit_event list" where
  "AuditsByOrganizationAppendOrder d org = filter (\<lambda>x. aud_OrganizationID x = org) (db_Audits d)"

definition AuditsByOrganization :: "db \<Rightarrow> string \<Rightarrow> int \<Rightarrow> audit_event list" where
  "AuditsByOrganization d org n =
     limited n (sort_key (\<lambda>x. - aud_CreatedAt x) (filter (\<lambda>x. aud_OrganizationID x = org) (db_Audits d)))"

definition Audits :: "db \<Rightarrow> int \<Rightarrow> audit_event list" where
  "Audits d n = limited n (sort_key (\<lambda>x. - aud_CreatedAt x) (db_Audits d))"

definition AuditsByChange :: "db \<Rightarrow> string \<Rightarrow> string \<Rightarrow> audit_event list" where
  "AuditsByChange d org i =
     sort_key aud_CreatedAt (filter (\<lambda>x. aud_OrganizationID x = org \<and> aud_ChangeID x = i) (db_Audits d))"

definition Policies :: "db \<Rightarrow> risk_policy list" where
  "Policies d =
     sort_key (\<lambda>p. \<not> pol_Builtin p) (sort_key (\<lambda>p. \<not> pol_Enabled p) (sort_key (\<lambda>p. - pol_UpdatedAt p) (db_Policies d)))"

definition InviteExpired :: string where "InviteExpired = ''EXPIRED''"

definition shown_invite :: "gotime \<Rightarrow> organization_invite \<Rightarrow> organization_invite" where
  "shown_invite now x =
     (if inv_Status x = InvitePending \<and> inv_ExpiresAt x < now then x\<lparr> inv_Status := InviteExpired \<rparr> else x)"

definition InvitesByOrganization :: "gotime \<Rightarrow> db \<Rightarrow> string \<Rightarrow> organization_invite list" where
  "InvitesByOrganization now d org =
     sort_key (\<lambda>x. - inv_CreatedAt x) (map (shown_invite now) (filter (\<lambda>x. inv_OrganizationID x = org) (db_Invites d)))"

definition OutcomeSignals :: "db \<Rightarrow> string \<Rightarrow> int \<Rightarrow> outcome_signal list" where
  "OutcomeSignals d org n =
     limited n (sort_key (\<lambda>x. - sig_OccurredAt x) (sort_key (\<lambda>x. - sig_ReceivedAt x)
       (filter (\<lambda>x. org = [] \<or> sig_OrganizationID x = org) (db_OutcomeSignals d))))"

definition IntegrationEvents :: "db \<Rightarrow> string \<Rightarrow> int \<Rightarrow> integration_event list" where
  "IntegrationEvents d org n =
     limited n (sort_key (\<lambda>x. - integrationEventTime x) (sort_key (\<lambda>x. - int_ReceivedAt x)
       (filter (\<lambda>x. org = [] \<or> int_OrganizationID x = org) (db_IntegrationEvents d))))"

definition IntegrationEventsByChange :: "db \<Rightarrow> string \<Rightarrow> string \<Rightarrow> integration_event list" where
  "IntegrationEventsByChange d org i =
     sort_key int_OccurredAt (filter (\<lambda>x. int_OrganizationID x = org \<and> int_ChangeID x = i) (db_IntegrationEvents d))"

definition PassportsByOrganization :: "gotime \<Rightarrow> db \<Rightarrow> string \<Rightarrow> passport list" where
  "PassportsByOrganization now d org =
     sort_key (\<lambda>p. - pass_IssuedAt p)
       (map (\<lambda>p. publicPassport now p False) (filter (\<lambda>p. pass_OrganizationID p = org) (db_Passports d)))"

record operations_summary =
  ops_StoreMode :: string
  ops_PendingEvents :: nat
  ops_ProcessingEvents :: nat
  ops_DeadEvents :: nat
  ops_OldestPendingAt :: "gotime option"

definition older :: "outbox_event \<Rightarrow> gotime option \<Rightarrow> gotime option" where
  "older ev t =
     (case t of None \<Rightarrow> Some (out_CreatedAt ev)
      | Some u \<Rightarrow> if out_CreatedAt ev < u then Some (out_CreatedAt ev) else t)"

text \<open>The mode of the store (memory, file, database) is a parameter.\<close>

definition OperationsSummary :: "string \<Rightarrow> db \<Rightarrow> string \<Rightarrow> operations_summary" where
  "OperationsSummary mode d org =
     (let events = filter (\<lambda>ev. \<not> (org \<noteq> [] \<and> out_OrganizationID ev \<noteq> org)) (db_Outbox d);
          pending = filter (\<lambda>ev. out_Status ev = OutboxPending) events
      in \<lparr> ops_StoreMode = mode, ops_PendingEvents = length pending,
            ops_ProcessingEvents = tally (\<lambda>ev. out_Status ev = OutboxProcessing) events,
            ops_DeadEvents = tally (\<lambda>ev. out_Status ev = OutboxDead) events,
            ops_OldestPendingAt = fold older pending None \<rparr>)"

section \<open>The dashboard\<close>

record dashboard =
  dash_PendingCount :: nat
  dash_ExperimentPassRate :: rat
  dash_HighRiskCount :: nat
  dash_AverageExperimentSec :: rat
  dash_RiskDistribution :: "risk_level \<Rightarrow> nat"
  dash_RecentChanges :: "change_request list"
  dash_PendingApprovals :: "change_request list"

definition pending_status :: "change_status \<Rightarrow> bool" where
  "pending_status s \<longleftrightarrow>
     s \<in> set [StatusDraft, StatusChecking, StatusReadyForExperiment, StatusExperimentQueued, StatusExperimentRunning,
             StatusWaitingApproval]"

definition dashboardForChanges :: "change_request list \<Rightarrow> dashboard" where
  "dashboardForChanges changes =
     (let experiments = List.map_filter chg_Experiment changes; n = length experiments in
      \<lparr> dash_PendingCount = tally (\<lambda>c. pending_status (chg_Status c)) changes,
         dash_ExperimentPassRate =
           (if n = 0 then 0 else of_nat (tally (\<lambda>x. exp_Status x = ''PASSED'') experiments) / of_nat n * 100),
         dash_HighRiskCount = tally (\<lambda>c. chg_Risk c = RiskHigh) changes,
         dash_AverageExperimentSec =
           (if n = 0 then 0 else of_int (duration_sum (map exp_DurationMS experiments)) / of_nat n / 1000),
         dash_RiskDistribution = (\<lambda>r. tally (\<lambda>c. chg_Risk c = r) changes),
         dash_RecentChanges = (if 6 < length changes then take 6 changes else changes),
         dash_PendingApprovals = filter (\<lambda>c. chg_Status c = StatusWaitingApproval) changes \<rparr>)"

definition DashboardByOrganization :: "db \<Rightarrow> string \<Rightarrow> dashboard" where
  "DashboardByOrganization d org = dashboardForChanges (ChangesByOrganization d org)"

definition Dashboard :: "db \<Rightarrow> dashboard" where
  "Dashboard d = dashboardForChanges (Changes d)"

section \<open>What a reader may see\<close>

definition visible_changes :: "db \<Rightarrow> user \<Rightarrow> change_request list" where
  "visible_changes d actor =
     filter (\<lambda>c. canUseApplication d actor (chg_ApplicationID c) ''view'') (ChangesByOrganization d (usr_OrganizationID actor))"

definition on_actor :: "db \<Rightarrow> string \<Rightarrow> (user \<Rightarrow> err + 'a) \<Rightarrow> err + 'a" where
  "on_actor d i f = (case activeActor d i of Inl e \<Rightarrow> Inl e | Inr actor \<Rightarrow> f actor)"

definition DashboardFor :: "db \<Rightarrow> string \<Rightarrow> err + dashboard" where
  "DashboardFor d i = on_actor d i (\<lambda>actor. Inr (dashboardForChanges (visible_changes d actor)))"

definition ChangesFor :: "db \<Rightarrow> string \<Rightarrow> err + change_request list" where
  "ChangesFor d i = on_actor d i (\<lambda>actor. Inr (visible_changes d actor))"

definition ApplicationsFor :: "db \<Rightarrow> string \<Rightarrow> err + application list" where
  "ApplicationsFor d i = on_actor d i (\<lambda>actor.
     Inr (filter (\<lambda>a. canUseApplication d actor (app_ID a) ''view'') (ApplicationsByOrganization d (usr_OrganizationID actor))))"

text \<open>The application and whether it may be used; the zero application stands for none.\<close>

definition ApplicationAccess :: "db \<Rightarrow> string \<Rightarrow> string \<Rightarrow> application option \<times> bool" where
  "ApplicationAccess d app i =
     (case activeActor d i of
        Inl _ \<Rightarrow> (None, False)
      | Inr actor \<Rightarrow>
          (case Application d (trim_space app) of
             Inl _ \<Rightarrow> (None, False)
           | Inr a \<Rightarrow>
               if app_OrganizationID a \<noteq> usr_OrganizationID actor then (None, False)
               else (Some a, canUseApplication d actor (app_ID a) ''view'')))"

definition UsersFor :: "db \<Rightarrow> string \<Rightarrow> err + user list" where
  "UsersFor d i = on_actor d i (\<lambda>actor. Inr (UsersByOrganization d (usr_OrganizationID actor)))"

definition ChangeFor :: "db \<Rightarrow> string \<Rightarrow> string \<Rightarrow> err + change_request" where
  "ChangeFor d c i = on_actor d i (\<lambda>actor.
     (case Change d c of
        Inl e \<Rightarrow> Inl e
      | Inr x \<Rightarrow>
          if chg_OrganizationID x \<noteq> usr_OrganizationID actor \<or> \<not> canUseApplication d actor (chg_ApplicationID x) ''view''
          then Inl ErrForbidden else Inr x))"

definition OutcomeSignalsForChange :: "db \<Rightarrow> string \<Rightarrow> string \<Rightarrow> err + outcome_signal list" where
  "OutcomeSignalsForChange d c i =
     (case ChangeFor d c i of
        Inl e \<Rightarrow> Inl e | Inr x \<Rightarrow> Inr (OutcomeSignalsByChange d (chg_OrganizationID x) (chg_ID x)))"

definition OutcomeSummaryForChange :: "db \<Rightarrow> string \<Rightarrow> string \<Rightarrow> err + string \<times> outcome_signal list" where
  "OutcomeSummaryForChange d c i =
     (case OutcomeSignalsForChange d c i of
        Inl e \<Rightarrow> Inl e | Inr signals \<Rightarrow> Inr (summarizeOutcomeSignals signals, signals))"

definition unrestricted :: "db \<Rightarrow> user \<Rightarrow> bool" where
  "unrestricted d actor \<longleftrightarrow>
     usr_EnterpriseAdmin actor \<or> usr_Role actor = RoleOwner \<or> \<not> HasApplicationGrants d (usr_OrganizationID actor)"

definition allowed_changes :: "db \<Rightarrow> user \<Rightarrow> string set" where
  "allowed_changes d actor = set (map chg_ID (visible_changes d actor))"

text \<open>The loop over the events, which stops as soon as it has found as many as were asked for.\<close>

fun visible_audits :: "string set \<Rightarrow> int \<Rightarrow> audit_event list \<Rightarrow> audit_event list \<Rightarrow> audit_event list" where
  "visible_audits allowed n acc [] = acc"
| "visible_audits allowed n acc (x # xs) =
     (let acc = (if aud_ChangeID x \<noteq> [] \<and> aud_ChangeID x \<in> allowed then acc @ [x] else acc)
      in if 0 < n \<and> n \<le> int (length acc) then acc else visible_audits allowed n acc xs)"

definition AuditsFor :: "db \<Rightarrow> string \<Rightarrow> int \<Rightarrow> err + audit_event list" where
  "AuditsFor d i n = on_actor d i (\<lambda>actor.
     let audits = AuditsByOrganization d (usr_OrganizationID actor) 0 in
     if unrestricted d actor then Inr (limited n audits)
     else Inr (visible_audits (allowed_changes d actor) n [] audits))"

definition AuditsForChange :: "db \<Rightarrow> string \<Rightarrow> string \<Rightarrow> err + audit_event list" where
  "AuditsForChange d c i =
     (case ChangeFor d c i of
        Inl e \<Rightarrow> Inl e | Inr x \<Rightarrow> Inr (AuditsByChange d (chg_OrganizationID x) (chg_ID x)))"

definition GovernanceTrendsFor :: "gotime \<Rightarrow> db \<Rightarrow> string \<Rightarrow> int \<Rightarrow> err + governance_trend_month list" where
  "GovernanceTrendsFor now d i months =
     (case ChangesFor d i of Inl e \<Rightarrow> Inl e | Inr changes \<Rightarrow> Inr (governanceTrends changes months now))"

definition ConflictRadarFor :: "gotime \<Rightarrow> db \<Rightarrow> string \<Rightarrow> gotime \<Rightarrow> gotime \<Rightarrow> err + conflict_radar" where
  "ConflictRadarFor now d i start finish =
     (case ChangesFor d i of
        Inl e \<Rightarrow> Inl e
      | Inr changes \<Rightarrow>
          (case ApplicationsFor d i of
             Inl e \<Rightarrow> Inl e | Inr applications \<Rightarrow> Inr (Detect now changes applications start finish)))"

definition IntegrationEventsFor :: "db \<Rightarrow> string \<Rightarrow> int \<Rightarrow> err + integration_event list" where
  "IntegrationEventsFor d i n = on_actor d i (\<lambda>actor. Inr (IntegrationEvents d (usr_OrganizationID actor) n))"

definition PoliciesFor :: "db \<Rightarrow> string \<Rightarrow> err + risk_policy list" where
  "PoliciesFor d i = on_actor d i (\<lambda>actor. Inr (PoliciesByOrganization d (usr_OrganizationID actor)))"

fun visible_signals :: "string set \<Rightarrow> int \<Rightarrow> outcome_signal list \<Rightarrow> outcome_signal list \<Rightarrow> outcome_signal list" where
  "visible_signals allowed n acc [] = acc"
| "visible_signals allowed n acc (x # xs) =
     (if sig_ChangeID x \<in> allowed
      then let acc = acc @ [x] in if 0 < n \<and> int (length acc) = n then acc else visible_signals allowed n acc xs
      else visible_signals allowed n acc xs)"

definition OutcomeSignalsFor :: "db \<Rightarrow> string \<Rightarrow> int \<Rightarrow> err + outcome_signal list" where
  "OutcomeSignalsFor d i n = on_actor d i (\<lambda>actor.
     Inr (visible_signals (allowed_changes d actor) n [] (OutcomeSignals d (usr_OrganizationID actor) 0)))"

definition PassportsForChange :: "gotime \<Rightarrow> db \<Rightarrow> string \<Rightarrow> string \<Rightarrow> err + passport list" where
  "PassportsForChange now d c i =
     (case ChangeFor d c i of
        Inl e \<Rightarrow> Inl e | Inr x \<Rightarrow> Inr (PassportsByChange now d (chg_OrganizationID x) (chg_ID x)))"

definition PassportsFor :: "gotime \<Rightarrow> db \<Rightarrow> string \<Rightarrow> err + passport list" where
  "PassportsFor now d i = on_actor d i (\<lambda>actor.
     let passports = PassportsByOrganization now d (usr_OrganizationID actor) in
     if unrestricted d actor then Inr passports
     else Inr (filter (\<lambda>p. pass_ChangeID p \<in> allowed_changes d actor) passports))"

definition GovernanceOutcomesFor :: "db \<Rightarrow> string \<Rightarrow> int \<Rightarrow> gotime \<Rightarrow> err + governance_outcome_summary" where
  "GovernanceOutcomesFor d i windowDays now =
     (if windowDays < 1 \<or> 365 < windowDays then Inl ErrValidation
      else on_actor d i (\<lambda>actor.
        let allowed = allowed_changes d actor in
        Inr (governanceOutcomesForEvidence (visible_changes d actor)
               (filter (\<lambda>x. int_ChangeID x \<in> allowed) (IntegrationEvents d (usr_OrganizationID actor) 0))
               (filter (\<lambda>x. sig_ChangeID x \<in> allowed) (OutcomeSignals d (usr_OrganizationID actor) 0))
               windowDays now ''actor_application_access'')))"

definition GlobalGovernanceOutcomes :: "db \<Rightarrow> int \<Rightarrow> gotime \<Rightarrow> governance_outcome_summary" where
  "GlobalGovernanceOutcomes d windowDays now =
     (let windowDays = (if windowDays < 1 \<or> 365 < windowDays then 30 else windowDays)
      in governanceOutcomesForEvidence (Changes d) (IntegrationEvents d [] 0) (OutcomeSignals d [] 0) windowDays now
           ''global_operations'')"

definition OperationsFor :: "string \<Rightarrow> db \<Rightarrow> string \<Rightarrow> err + operations_summary \<times> outbox_event list" where
  "OperationsFor mode d i = on_actor d i (\<lambda>actor.
     if \<not> usr_EnterpriseAdmin actor \<and> usr_Role actor \<noteq> RoleOwner then Inl ErrForbidden
     else Inr (OperationsSummary mode d (usr_OrganizationID actor), OutboxByOrganization d (usr_OrganizationID actor) False 100))"

definition GlobalOperations :: "string \<Rightarrow> db \<Rightarrow> operations_summary" where
  "GlobalOperations mode d = OperationsSummary mode d []"

section \<open>Events of the pipelines, retries and trials\<close>

definition pipeline_event :: "integration_event \<Rightarrow> integration_event" where
  "pipeline_event x =
     x\<lparr> int_Provider := to_upper (trim_space (int_Provider x)), int_Status := to_upper (trim_space (int_Status x)),
        int_EventType := to_upper (trim_space (int_EventType x)), int_OrganizationID := trim_space (int_OrganizationID x) \<rparr>"

definition dated_event :: "senv \<Rightarrow> integration_event \<Rightarrow> integration_event" where
  "dated_event h x =
     (let received = (if is_zero (int_ReceivedAt x) then se_now h else int_ReceivedAt x)
      in x\<lparr> int_ReceivedAt := received, int_OccurredAt := (if is_zero (int_OccurredAt x) then received else int_OccurredAt x),
            int_ID := (if int_ID x = [] then NewID h ''int'' 0 else int_ID x) \<rparr>)"

text \<open>The change an event is about: the named one if it belongs to the enterprise, else the first one with its
  commit.\<close>

definition named_change :: "db \<Rightarrow> integration_event \<Rightarrow> string" where
  "named_change d x =
     (if int_ChangeID x = [] then []
      else case Change d (int_ChangeID x) of
             Inl _ \<Rightarrow> []
           | Inr c \<Rightarrow> if chg_OrganizationID c \<noteq> int_OrganizationID x then [] else int_ChangeID x)"

definition linked_change :: "db \<Rightarrow> integration_event \<Rightarrow> string" where
  "linked_change d x =
     (let named = named_change d x in
      if named = [] \<and> int_CommitSHA x \<noteq> []
      then case List.find (\<lambda>c. equal_fold (trim_space (chg_CommitSHA c)) (trim_space (int_CommitSHA x)))
                  (ChangesByOrganization d (int_OrganizationID x)) of
             None \<Rightarrow> [] | Some c \<Rightarrow> chg_ID c
      else named)"

definition described_event :: "integration_event \<Rightarrow> integration_event" where
  "described_event x =
     x\<lparr> int_ExternalID :=
          (if int_ExternalID x = []
           then join_str '':'' [int_Provider x, int_Project x, int_Pipeline x, int_Status x, int_CommitSHA x]
           else int_ExternalID x),
        int_Detail :=
          (if int_Detail x = []
           then (if int_ChangeID x = [] then txt_int_unlinked else txt_int_linked @ int_ChangeID x)
           else int_Detail x) \<rparr>"

definition event_audit :: "senv \<Rightarrow> integration_event \<Rightarrow> audit_event" where
  "event_audit h x =
     zero_audit_event
       \<lparr> aud_OrganizationID := int_OrganizationID x, aud_ID := NewID h ''aud'' 1, aud_ChangeID := int_ChangeID x,
         aud_ActorID := ''integration_'' @ to_lower (int_Provider x), aud_ActorName := int_Provider x @ '' CI'',
         aud_Action := (if int_Provider x = ''JENKINS'' then ''JENKINS_BUILD_RECEIVED'' else ''GITLAB_PIPELINE_RECEIVED''),
         aud_Detail := int_Detail x, aud_CreatedAt := int_ReceivedAt x \<rparr>"

definition RecordIntegrationEvent_service ::
  "senv \<Rightarrow> integration_event \<Rightarrow> db \<Rightarrow> db \<Rightarrow> (err + integration_event \<times> bool) \<times> db" where
  "RecordIntegrationEvent_service h x snap d =
     (let x = pipeline_event x in
      if int_OrganizationID x = [] \<or> (int_Provider x \<noteq> ''GITLAB'' \<and> int_Provider x \<noteq> ''JENKINS'') then (Inl ErrValidation, d)
      else
        let x = dated_event h x;
            x = described_event (x\<lparr> int_ChangeID := linked_change snap x \<rparr>)
        in RecordIntegrationEvent x (event_audit h x) (se_call h 0) d)"

definition RetryOutbox_service :: "senv \<Rightarrow> string \<Rightarrow> string \<Rightarrow> db \<Rightarrow> db \<Rightarrow> (err + unit) \<times> db" where
  "RetryOutbox_service h i who snap d =
     (case activeActor snap who of
        Inl _ \<Rightarrow> (Inl ErrForbidden, d)
      | Inr actor \<Rightarrow>
          if \<not> usr_EnterpriseAdmin actor \<and> usr_Role actor \<noteq> RoleOwner then (Inl ErrForbidden, d)
          else
            (case RetryOutbox (usr_OrganizationID actor) i
                    [zero_audit_event
                       \<lparr> aud_ID := NewID h ''audit_'' 0, aud_ActorID := usr_ID actor, aud_ActorName := usr_Name actor,
                         aud_Action := ''RETRY_OUTBOX'', aud_Detail := txt_retry_dead @ i, aud_CreatedAt := se_now h \<rparr>]
                    (se_call h 0) d of
               (Inl ErrNotFound, d') \<Rightarrow> (Inl ErrNotFound, d')
             | (Inl _, d') \<Rightarrow> (Inl ErrInvalidState, d')
             | (Inr u, d') \<Rightarrow> (Inr u, d')))"

record test_risk_policy_input =
  trp_SQL :: string
  trp_RollbackSQL :: string
  trp_Environment :: string
  trp_ChangeType :: string
  trp_ArtifactKind :: string
  trp_Content :: string

definition trial_release :: "test_risk_policy_input \<Rightarrow> release_input" where
  "trial_release x =
     \<lparr> rel_SQL = [], rel_RollbackSQL = [], rel_RollbackPlan = txt_test_rollback,
        rel_Artifacts =
          [zero_change_artifact\<lparr> art_ID := ''artifact_test'', art_Kind := to_upper (trim_space (trp_ArtifactKind x)),
             art_Name := txt_test_artifact, art_Content := trp_Content x \<rparr>],
        rel_ReleasePlan =
          \<lparr> plan_Strategy = txt_test_strategy, plan_CanaryPercent = 10, plan_ObservationMinutes = 15,
             plan_AutoRollback = True, plan_SuccessMetrics = [txt_test_errors, txt_test_latency] \<rparr> \<rparr>"

definition TestPolicies ::
  "regexp_compile \<Rightarrow> senv \<Rightarrow> db \<Rightarrow> test_risk_policy_input \<Rightarrow> string \<Rightarrow> err + check_result" where
  "TestPolicies compile h d x i =
     (case activeActor d i of
        Inl _ \<Rightarrow> Inl ErrForbidden
      | Inr actor \<Rightarrow>
          let rules = PoliciesByOrganization d (usr_OrganizationID actor);
              c = (\<lambda>kind. \<lparr> ctx_Environment = defaultString (trp_Environment x) txt_env_default,
                             ctx_ChangeType = defaultString (trp_ChangeType x) kind, ctx_ArtifactKind = [] \<rparr>)
          in if trim_space (trp_SQL x) = [] \<and> trim_space (trp_Content x) = [] then Inl ErrValidation
             else if trim_space (trp_Content x) \<noteq> []
             then Inr (CheckReleaseWithPolicies compile h 0 (trial_release x) (c txt_test_type) rules)
             else Inr (CheckWithPolicies compile h 0 (trp_SQL x) (trp_RollbackSQL x) (c ''DDL'') rules))"

section \<open>A reader gets nothing that depends on what he may not see\<close>

definition sees_change :: "db \<Rightarrow> user \<Rightarrow> change_request \<Rightarrow> bool" where
  "sees_change d u c \<longleftrightarrow> chg_OrganizationID c = usr_OrganizationID u \<and> canUseApplication d u (chg_ApplicationID c) ''view''"

definition sees_app :: "db \<Rightarrow> user \<Rightarrow> application \<Rightarrow> bool" where
  "sees_app d u a \<longleftrightarrow> app_OrganizationID a = usr_OrganizationID u \<and> canUseApplication d u (app_ID a) ''view''"

definition sees_record :: "db \<Rightarrow> user \<Rightarrow> bool \<Rightarrow> string \<Rightarrow> string \<Rightarrow> bool" where
  "sees_record d u always org c \<longleftrightarrow> org = usr_OrganizationID u \<and> (always \<or> c \<noteq> [] \<and> c \<in> chg_ID ` {x \<in> set (db_Changes d). sees_change d u x})"

text \<open>Two states a reader cannot tell apart: the same grants, and the same changes, applications and records about
  them as far as he may see them. An administrator, and everyone in an enterprise without access control, sees
  all audit events and passports of the enterprise.\<close>

definition same_view :: "user \<Rightarrow> db \<Rightarrow> db \<Rightarrow> bool" where
  "same_view u d d' \<longleftrightarrow>
     HasApplicationGrants d (usr_OrganizationID u) = HasApplicationGrants d' (usr_OrganizationID u)
     \<and> ApplicationGrantsByUser d (usr_OrganizationID u) (usr_ID u) = ApplicationGrantsByUser d' (usr_OrganizationID u) (usr_ID u)
     \<and> filter (sees_change d u) (db_Changes d) = filter (sees_change d' u) (db_Changes d')
     \<and> filter (sees_app d u) (db_Applications d) = filter (sees_app d' u) (db_Applications d')
     \<and> filter (\<lambda>x. sees_record d u (unrestricted d u) (aud_OrganizationID x) (aud_ChangeID x)) (db_Audits d)
       = filter (\<lambda>x. sees_record d' u (unrestricted d' u) (aud_OrganizationID x) (aud_ChangeID x)) (db_Audits d')
     \<and> filter (\<lambda>x. sees_record d u (unrestricted d u) (pass_OrganizationID x) (pass_ChangeID x)) (db_Passports d)
       = filter (\<lambda>x. sees_record d' u (unrestricted d' u) (pass_OrganizationID x) (pass_ChangeID x)) (db_Passports d')
     \<and> filter (\<lambda>x. sees_record d u False (sig_OrganizationID x) (sig_ChangeID x)) (db_OutcomeSignals d)
       = filter (\<lambda>x. sees_record d' u False (sig_OrganizationID x) (sig_ChangeID x)) (db_OutcomeSignals d')
     \<and> filter (\<lambda>x. sees_record d u False (int_OrganizationID x) (int_ChangeID x)) (db_IntegrationEvents d)
       = filter (\<lambda>x. sees_record d' u False (int_OrganizationID x) (int_ChangeID x)) (db_IntegrationEvents d')"

lemma limited_le [simp]: "n \<le> 0 \<Longrightarrow> limited n xs = xs"
  by (simp add: limited_def)

lemma limited_cut: "acc \<noteq> [] \<Longrightarrow> int (length acc) = n \<Longrightarrow> limited n (acc @ ys) = acc"
  by (auto simp: limited_def)

lemma visible_audits_step:
  "n \<le> 0 \<or> int (length acc) < n \<Longrightarrow>
   visible_audits allowed n acc (x # xs) =
     (if aud_ChangeID x \<noteq> [] \<and> aud_ChangeID x \<in> allowed
      then if n = int (length acc) + 1 then acc @ [x] else visible_audits allowed n (acc @ [x]) xs
      else visible_audits allowed n acc xs)"
  by (auto simp: Let_def)

lemma visible_audits_filter:
  "n \<le> 0 \<or> int (length acc) < n \<Longrightarrow>
   visible_audits allowed n acc xs = limited n (acc @ filter (\<lambda>x. aud_ChangeID x \<noteq> [] \<and> aud_ChangeID x \<in> allowed) xs)"
proof (induction xs arbitrary: acc)
  case (Cons x xs)
  show ?case
  proof (cases "(aud_ChangeID x \<noteq> [] \<and> aud_ChangeID x \<in> allowed) \<and> n = int (length acc) + 1")
    case True
    then show ?thesis using limited_cut [of "acc @ [x]" n] Cons.prems by (simp add: visible_audits_step del: visible_audits.simps)
  next
    case False
    then show ?thesis using Cons.IH [of acc] Cons.IH [of "acc @ [x]"] Cons.prems
      by (auto simp: visible_audits_step simp del: visible_audits.simps)
  qed
qed (auto simp: limited_def)

lemma visible_signals_filter:
  "n \<le> 0 \<or> int (length acc) < n \<Longrightarrow>
   visible_signals allowed n acc xs = limited n (acc @ filter (\<lambda>x. sig_ChangeID x \<in> allowed) xs)"
proof (induction xs arbitrary: acc)
  case (Cons x xs)
  then show ?case using limited_cut [of "acc @ [x]" n] Cons.IH [of acc] Cons.IH [of "acc @ [x]"]
    by (cases "int (length acc) + 1 = n") (auto simp: Let_def)
qed (auto simp: limited_def)

lemma visible_all:
  "visible_audits allowed n [] xs = limited n (filter (\<lambda>x. aud_ChangeID x \<noteq> [] \<and> aud_ChangeID x \<in> allowed) xs)"
  "visible_signals allowed n [] ys = limited n (filter (\<lambda>x. sig_ChangeID x \<in> allowed) ys)"
  using visible_audits_filter [of n "[]" allowed xs] visible_signals_filter [of n "[]" allowed ys] by (simp_all add: linorder_le_less_linear)

lemma visible_changes_eq: "visible_changes d u = rev (sort_key chg_CreatedAt (sort_key chg_ID (filter (sees_change d u) (db_Changes d))))"
  unfolding visible_changes_def ChangesByOrganization_def rev_filter [symmetric] filter_sort filter_filter
  by (simp add: sees_change_def [abs_def] conj_commute)

lemma allowed_changes_eq: "allowed_changes d u = chg_ID ` {x \<in> set (db_Changes d). sees_change d u x}"
  by (simp add: allowed_changes_def visible_changes_eq)

lemma set_visible_changes: "set (visible_changes d u) = {c \<in> set (db_Changes d). sees_change d u c}"
  by (simp add: visible_changes_eq)

lemma same_views:
  assumes "same_view u d d'"
  shows "canUseApplication d u a c = canUseApplication d' u a c" and "unrestricted d u = unrestricted d' u"
    and "visible_changes d u = visible_changes d' u" and "allowed_changes d u = allowed_changes d' u"
  using assms by (simp_all add: same_view_def canUseApplication_def unrestricted_def visible_changes_eq allowed_changes_def)

lemma named_change_ID: "[] \<notin> chg_ID ` set xs \<Longrightarrow> x \<in> set xs \<Longrightarrow> chg_ID x \<noteq> []"
  by force

lemma filter_and: "filter P (filter Q xs) = filter (\<lambda>x. Q x \<and> P x) xs"
  by (simp add: conj_commute)

lemma audits_visible:
  assumes "activeActor d i = Inr u"
  shows "AuditsFor d i n = Inr (limited n (sort_key (\<lambda>x. - aud_CreatedAt x)
    (filter (\<lambda>x. sees_record d u (unrestricted d u) (aud_OrganizationID x) (aud_ChangeID x)) (db_Audits d))))"
proof -
  have p: "sees_record d u a org c \<longleftrightarrow> org = usr_OrganizationID u \<and> (a \<or> c \<noteq> [] \<and> c \<in> allowed_changes d u)" for a org c
    by (simp add: sees_record_def allowed_changes_eq)
  show ?thesis unfolding p AuditsFor_def on_actor_def assms AuditsByOrganization_def Let_def sum.case
    by (cases "unrestricted d u") (simp_all add: visible_all filter_sort conj_ac)
qed

lemma passports_visible:
  assumes "activeActor d i = Inr u" "[] \<notin> chg_ID ` set (db_Changes d)"
  shows "PassportsFor now d i = Inr (sort_key (\<lambda>p. - pass_IssuedAt p) (map (\<lambda>p. publicPassport now p False)
    (filter (\<lambda>p. sees_record d u (unrestricted d u) (pass_OrganizationID p) (pass_ChangeID p)) (db_Passports d))))"
proof -
  have p: "sees_record d u a org c \<longleftrightarrow> org = usr_OrganizationID u \<and> (a \<or> c \<in> allowed_changes d u)" for a org c
    using named_change_ID [OF assms(2)] by (auto simp: sees_record_def allowed_changes_eq)
  have m: "pass_ChangeID (publicPassport now p False) = pass_ChangeID p" for p
    by (simp add: publicPassport_def Let_def passport.truncate_def)
  show ?thesis unfolding p PassportsFor_def on_actor_def assms PassportsByOrganization_def Let_def sum.case
    by (cases "unrestricted d u") (simp_all add: filter_sort filter_map o_def m conj_ac)
qed

lemma signals_visible:
  assumes "[] \<notin> chg_ID ` set (db_Changes d)" "usr_OrganizationID u \<noteq> []"
  shows "filter (\<lambda>x. sig_ChangeID x \<in> allowed_changes d u) (OutcomeSignals d (usr_OrganizationID u) 0) =
     sort_key (\<lambda>x. - sig_OccurredAt x) (sort_key (\<lambda>x. - sig_ReceivedAt x)
       (filter (\<lambda>x. sees_record d u False (sig_OrganizationID x) (sig_ChangeID x)) (db_OutcomeSignals d)))"
    and "filter (\<lambda>x. int_ChangeID x \<in> allowed_changes d u) (IntegrationEvents d (usr_OrganizationID u) 0) =
     sort_key (\<lambda>x. - integrationEventTime x) (sort_key (\<lambda>x. - int_ReceivedAt x)
       (filter (\<lambda>x. sees_record d u False (int_OrganizationID x) (int_ChangeID x)) (db_IntegrationEvents d)))"
proof -
  have p: "sees_record d u False org c \<longleftrightarrow> org = usr_OrganizationID u \<and> c \<in> allowed_changes d u" for org c
    using named_change_ID [OF assms(1)] by (auto simp: sees_record_def allowed_changes_eq)
  show "filter (\<lambda>x. sig_ChangeID x \<in> allowed_changes d u) (OutcomeSignals d (usr_OrganizationID u) 0) =
     sort_key (\<lambda>x. - sig_OccurredAt x) (sort_key (\<lambda>x. - sig_ReceivedAt x)
       (filter (\<lambda>x. sees_record d u False (sig_OrganizationID x) (sig_ChangeID x)) (db_OutcomeSignals d)))"
    unfolding p using assms(2) by (simp add: OutcomeSignals_def filter_sort conj_commute)
  show "filter (\<lambda>x. int_ChangeID x \<in> allowed_changes d u) (IntegrationEvents d (usr_OrganizationID u) 0) =
     sort_key (\<lambda>x. - integrationEventTime x) (sort_key (\<lambda>x. - int_ReceivedAt x)
       (filter (\<lambda>x. sees_record d u False (int_OrganizationID x) (int_ChangeID x)) (db_IntegrationEvents d)))"
    unfolding p using assms(2) by (simp add: IntegrationEvents_def filter_sort conj_commute)
qed

lemma applications_visible:
  assumes "activeActor d i = Inr u"
  shows "ApplicationsFor d i = Inr (filter (sees_app d u) (db_Applications d))"
  by (simp add: ApplicationsFor_def on_actor_def assms ApplicationsByOrganization_def sees_app_def [abs_def] conj_commute)

text \<open>C12: a reader learns nothing about changes, applications and records he may not see: between two states of
  the store that agree on what he was granted and on the part he may see, his list of changes, dashboard,
  applications, conflict radar, trends, governance report, signals, audit events and passports are the same,
  counts and rates included.\<close>

theorem views_show_granted_only:
  assumes "activeActor d i = Inr u" "activeActor d' i = Inr u" "same_view u d d'" "usr_OrganizationID u \<noteq> []"
    "[] \<notin> chg_ID ` set (db_Changes d)" "[] \<notin> chg_ID ` set (db_Changes d')"
  shows "ChangesFor d i = ChangesFor d' i \<and> DashboardFor d i = DashboardFor d' i
    \<and> ApplicationsFor d i = ApplicationsFor d' i \<and> AuditsFor d i n = AuditsFor d' i n
    \<and> PassportsFor now d i = PassportsFor now d' i \<and> OutcomeSignalsFor d i n = OutcomeSignalsFor d' i n
    \<and> GovernanceTrendsFor now d i months = GovernanceTrendsFor now d' i months
    \<and> GovernanceOutcomesFor d i windowDays now = GovernanceOutcomesFor d' i windowDays now
    \<and> ConflictRadarFor now d i start finish = ConflictRadarFor now d' i start finish"
proof -
  note s = same_views [OF assms(3)] and v = assms(3) [unfolded same_view_def]
  have c: "ChangesFor d i = ChangesFor d' i" and a: "ApplicationsFor d i = ApplicationsFor d' i"
    using assms(1,2) v by (simp_all add: ChangesFor_def on_actor_def s applications_visible)
  have r: "filter (\<lambda>x. sig_ChangeID x \<in> allowed_changes d u) (OutcomeSignals d (usr_OrganizationID u) 0)
      = filter (\<lambda>x. sig_ChangeID x \<in> allowed_changes d' u) (OutcomeSignals d' (usr_OrganizationID u) 0)"
    "filter (\<lambda>x. int_ChangeID x \<in> allowed_changes d u) (IntegrationEvents d (usr_OrganizationID u) 0)
      = filter (\<lambda>x. int_ChangeID x \<in> allowed_changes d' u) (IntegrationEvents d' (usr_OrganizationID u) 0)"
    using v by (simp_all only: signals_visible assms(4-6) not_False_eq_True)
  have "AuditsFor d i n = AuditsFor d' i n" "PassportsFor now d i = PassportsFor now d' i"
    using v by (simp_all only: audits_visible [OF assms(1)] audits_visible [OF assms(2)] passports_visible [OF assms(1,5)]
        passports_visible [OF assms(2,6)])
  moreover have "OutcomeSignalsFor d i n = OutcomeSignalsFor d' i n"
    using r(1) by (simp add: OutcomeSignalsFor_def on_actor_def assms(1,2) visible_all)
  moreover have "GovernanceOutcomesFor d i windowDays now = GovernanceOutcomesFor d' i windowDays now"
    using r by (simp add: GovernanceOutcomesFor_def on_actor_def assms(1,2) Let_def s)
  ultimately show ?thesis
    unfolding ConflictRadarFor_def c a using c assms(1,2) by (simp add: DashboardFor_def on_actor_def s GovernanceTrendsFor_def)
qed

text \<open>A developer who was granted one application of two, and the same state with a change of the other
  application, with its audit event and its pipeline.\<close>

definition dev_grant :: application_grant where
  "dev_grant = \<lparr> grant_OrganizationID = ''org_1'', grant_UserID = ''usr_bob'', grant_ApplicationID = ''app_1'',
     grant_CanSubmit = True, grant_CanReview = False, grant_UpdatedBy = [], grant_UpdatedAt = 0 \<rparr>"

definition own_change :: change_request where
  "own_change = zero_change_request\<lparr> chg_OrganizationID := ''org_1'', chg_ID := ''chg_1'', chg_ApplicationID := ''app_1'',
     chg_Status := StatusWaitingApproval \<rparr>"

definition hidden_change :: change_request where
  "hidden_change = own_change\<lparr> chg_ID := ''chg_2'', chg_ApplicationID := ''app_2'' \<rparr>"

definition hidden_event :: integration_event where
  "hidden_event = zero_integration_event\<lparr> int_OrganizationID := ''org_1'', int_ID := ''e9'', int_ChangeID := ''chg_2'' \<rparr>"

definition granted_db :: db where
  "granted_db = members_db\<lparr> db_Organizations := [acme\<lparr> org_ApplicationAccessControlled := True \<rparr>], db_Users := [dev_bob],
     db_ApplicationGrants := [dev_grant], db_Changes := [own_change] \<rparr>"

definition fuller_db :: db where
  "fuller_db = granted_db\<lparr> db_Changes := [hidden_change, own_change], db_IntegrationEvents := [hidden_event],
     db_Audits := [zero_audit_event\<lparr> aud_OrganizationID := ''org_1'', aud_ChangeID := ''chg_2'' \<rparr>] \<rparr>"

lemmas granted_samples = fuller_db_def granted_db_def dev_grant_def own_change_def hidden_change_def hidden_event_def

lemma granted_facts:
  "activeActor granted_db ''usr_bob'' = Inr dev_bob" "activeActor fuller_db ''usr_bob'' = Inr dev_bob"
  "usr_OrganizationID dev_bob = ''org_1''" "usr_ID dev_bob = ''usr_bob''" "chg_ID own_change = ''chg_1''" "chg_ID hidden_change = ''chg_2''"
  "db_Changes granted_db = [own_change]" "db_Changes fuller_db = [hidden_change, own_change]"
  "HasApplicationGrants granted_db ''org_1''" "HasApplicationGrants fuller_db ''org_1''"
  "ApplicationGrantsByUser granted_db ''org_1'' ''usr_bob'' = [dev_grant]" "ApplicationGrantsByUser fuller_db ''org_1'' ''usr_bob'' = [dev_grant]"
  by (simp_all add: granted_samples members_samples activeActor_def User_def find_or_not_found_def HasApplicationGrants_def
      ApplicationGrantsByUser_def lookup_by_def)

lemma granted_can:
  "canUseApplication granted_db dev_bob a ''view'' \<longleftrightarrow> a = ''app_1''" "canUseApplication fuller_db dev_bob a ''view'' \<longleftrightarrow> a = ''app_1''"
  "\<not> unrestricted granted_db dev_bob" "\<not> unrestricted fuller_db dev_bob"
  by (simp_all add: canUseApplication_def granted_facts unrestricted_def)
    (simp_all add: dev_bob_def zero_user_def RoleDeveloper_def RoleOwner_def dev_grant_def grant_allows_def)

lemma granted_sees:
  "sees_change granted_db dev_bob own_change" "sees_change fuller_db dev_bob own_change" "\<not> sees_change fuller_db dev_bob hidden_change"
  by (simp_all add: sees_change_def granted_can granted_facts) (simp_all add: own_change_def hidden_change_def zero_change_request_def)

lemma granted_same: "same_view dev_bob granted_db fuller_db"
proof -
  have m: "{x \<in> set (db_Changes fuller_db). sees_change fuller_db dev_bob x} = {own_change}"
      "{x \<in> set (db_Changes granted_db). sees_change granted_db dev_bob x} = {own_change}"
    using granted_sees by (auto simp: granted_facts(7,8))
  have r: "sees_record fuller_db dev_bob False org c \<longleftrightarrow> org = ''org_1'' \<and> c = ''chg_1''"
      "sees_record granted_db dev_bob False org c \<longleftrightarrow> org = ''org_1'' \<and> c = ''chg_1''" for org c
    unfolding sees_record_def m by (auto simp: granted_facts)
  have a: "sees_app granted_db dev_bob = sees_app fuller_db dev_bob" by (simp add: sees_app_def [abs_def] granted_can)
  show ?thesis
    unfolding same_view_def granted_facts r granted_can a
    by (simp add: granted_facts granted_can granted_sees r) (simp add: granted_samples members_samples)
qed

theorem views_show_granted_only_witness:
  "DashboardFor fuller_db ''usr_bob'' = DashboardFor granted_db ''usr_bob''
   \<and> AuditsFor fuller_db ''usr_bob'' 0 = AuditsFor granted_db ''usr_bob'' 0
   \<and> fuller_db \<noteq> granted_db"
  using views_show_granted_only [of granted_db "''usr_bob''" dev_bob fuller_db, OF granted_facts(1,2) granted_same, of 0]
  by (simp add: granted_facts) (metis granted_facts(7,8) length_Cons n_not_Suc_n)

section \<open>What the listings do not filter\<close>

text \<open>The events of the pipelines are not filtered by the applications a reader was granted, unlike changes,
  audit events, signals and passports: every active member reads every event of his enterprise, also those
  about a change the service refuses to show him.\<close>

lemma integration_events_ignore_grants:
  assumes "activeActor d i = Inr u" "ev \<in> set (db_IntegrationEvents d)" "int_OrganizationID ev = usr_OrganizationID u"
    "Change d (int_ChangeID ev) = Inr c" "\<not> canUseApplication d u (chg_ApplicationID c) ''view''"
  shows "ChangeFor d (int_ChangeID ev) i = Inl ErrForbidden
    \<and> (\<exists>events. IntegrationEventsFor d i 0 = Inr events \<and> ev \<in> set events)"
  using assms by (simp add: ChangeFor_def on_actor_def IntegrationEventsFor_def IntegrationEvents_def)

lemma integration_events_ignore_grants_witness:
  "ChangeFor fuller_db ''chg_2'' ''usr_bob'' = Inl ErrForbidden
    \<and> (\<exists>events. IntegrationEventsFor fuller_db ''usr_bob'' 0 = Inr events \<and> hidden_event \<in> set events)"
proof -
  have "Change fuller_db (int_ChangeID hidden_event) = Inr hidden_change" "int_ChangeID hidden_event = ''chg_2''"
    "hidden_event \<in> set (db_IntegrationEvents fuller_db)" "int_OrganizationID hidden_event = usr_OrganizationID dev_bob"
    "\<not> canUseApplication fuller_db dev_bob (chg_ApplicationID hidden_change) ''view''"
    by (simp_all add: granted_can) (simp_all add: granted_samples members_samples Change_def find_or_not_found_def lookup_by_def)
  with integration_events_ignore_grants [OF granted_facts(2), of hidden_event hidden_change] show ?thesis by simp
qed

text \<open>Reading a change tells a change of another enterprise apart from none.\<close>

lemma ChangeFor_reveals:
  assumes "activeActor d i = Inr u"
  shows "ChangeFor d c i = Inl ErrNotFound \<longleftrightarrow> Change d c = Inl ErrNotFound"
    "Change d c = Inr x \<Longrightarrow> chg_OrganizationID x \<noteq> usr_OrganizationID u \<Longrightarrow> ChangeFor d c i = Inl ErrForbidden"
  using assms by (auto simp: ChangeFor_def on_actor_def Change_def find_or_not_found_def split: option.splits)

section \<open>A pipeline event is recorded once\<close>

definition event_key :: "integration_event \<Rightarrow> string \<times> string \<times> string" where
  "event_key x = (int_OrganizationID x, int_Provider x, int_ExternalID x)"

definition prepared_event :: "senv \<Rightarrow> db \<Rightarrow> integration_event \<Rightarrow> integration_event" where
  "prepared_event h snap x =
     (let x = dated_event h (pipeline_event x) in described_event (x\<lparr> int_ChangeID := linked_change snap x \<rparr>))"

lemma RecordIntegrationEvent_service_eq:
  "RecordIntegrationEvent_service h x snap d =
     (if int_OrganizationID (pipeline_event x) = []
         \<or> (int_Provider (pipeline_event x) \<noteq> ''GITLAB'' \<and> int_Provider (pipeline_event x) \<noteq> ''JENKINS'') then (Inl ErrValidation, d)
      else RecordIntegrationEvent (prepared_event h snap x) (event_audit h (prepared_event h snap x)) (se_call h 0) d)"
  by (simp add: RecordIntegrationEvent_service_def prepared_event_def Let_def)

lemma prepared_key: "event_key (prepared_event h snap x) = event_key (prepared_event h' snap' x)"
  by (simp add: event_key_def prepared_event_def dated_event_def described_event_def Let_def)

lemma prepared_fields:
  "int_OrganizationID (prepared_event h snap x) = int_OrganizationID (pipeline_event x)"
  "int_ChangeID (prepared_event h snap x) = linked_change snap (dated_event h (pipeline_event x))"
  by (simp_all add: prepared_event_def dated_event_def described_event_def Let_def)

lemma RecordIntegrationEvent_found:
  assumes "ev \<in> set (db_IntegrationEvents d)" "event_key ev = event_key x"
  shows "\<exists>old\<in>set (db_IntegrationEvents d). event_key old = event_key x \<and> RecordIntegrationEvent x audit' e d = (Inr (old, False), d)"
proof -
  let ?P = "\<lambda>y. int_OrganizationID y = int_OrganizationID x \<and> int_Provider y = int_Provider x \<and> int_ExternalID y = int_ExternalID x"
  from assms obtain old where f: "List.find ?P (db_IntegrationEvents d) = Some old"
    using find_None_iff [of ?P "db_IntegrationEvents d"] by (cases "List.find ?P (db_IntegrationEvents d)") (auto simp: event_key_def)
  then have "old \<in> set (db_IntegrationEvents d)" "event_key old = event_key x" by (auto simp: find_Some_iff event_key_def)
  with f show ?thesis by (auto simp: RecordIntegrationEvent_def)
qed

lemma linked_change_own:
  assumes "linked_change d x = c" "c \<noteq> []"
  shows "\<exists>y\<in>set (db_Changes d). chg_ID y = c \<and> chg_OrganizationID y = int_OrganizationID x"
proof -
  show ?thesis
  proof (cases "named_change d x = []")
    case True
    with assms obtain y where "y \<in> set (ChangesByOrganization d (int_OrganizationID x))" "chg_ID y = c"
      by (auto simp: linked_change_def Let_def dest!: find_SomeD split: if_splits option.splits)
    then show ?thesis by (auto simp: ChangesByOrganization_def)
  next
    case False
    with assms obtain y where y: "Change d (int_ChangeID x) = Inr y" "chg_OrganizationID y = int_OrganizationID x" "c = int_ChangeID x"
      by (auto simp: linked_change_def named_change_def Let_def split: if_splits sum.splits)
    with lookup_by_Some [of chg_ID "int_ChangeID x" "db_Changes d" y] show ?thesis by (auto simp: Change_Inr)
  qed
qed

text \<open>An event of a pipeline is recorded once and linked within its enterprise only: when its delivery was
  accepted, the event it is answered with is on record and names no change or one of its own enterprise, and
  every later delivery of it, read at whatever state, is answered with a recorded event and writes nothing.\<close>

lemma pipeline_event_recorded_once:
  assumes first: "RecordIntegrationEvent_service h x snap d = (Inr (ev, True), d')" and saved: "env_save (se_call h 0) = Saved"
    and kept: "set (db_IntegrationEvents d') \<subseteq> set (db_IntegrationEvents later)"
  shows "ev \<in> set (db_IntegrationEvents d')
    \<and> (int_ChangeID ev = [] \<or> (\<exists>c\<in>set (db_Changes snap). chg_ID c = int_ChangeID ev \<and> chg_OrganizationID c = int_OrganizationID ev))
    \<and> (\<exists>old. RecordIntegrationEvent_service h2 x snap2 later = (Inr (old, False), later) \<and> event_key old = event_key ev)"
proof -
  let ?P = "\<lambda>y. int_OrganizationID y = int_OrganizationID (prepared_event h snap x) \<and> int_Provider y = int_Provider (prepared_event h snap x)
    \<and> int_ExternalID y = int_ExternalID (prepared_event h snap x)"
  have ok: "\<not> (int_OrganizationID (pipeline_event x) = []
         \<or> (int_Provider (pipeline_event x) \<noteq> ''GITLAB'' \<and> int_Provider (pipeline_event x) \<noteq> ''JENKINS''))"
    using first by (auto simp: RecordIntegrationEvent_service_eq split: if_splits)
  then have r: "RecordIntegrationEvent (prepared_event h snap x) (event_audit h (prepared_event h snap x)) (se_call h 0) d = (Inr (ev, True), d')"
    using first unfolding RecordIntegrationEvent_service_eq by (simp only: if_False)
  then have ev: "ev = prepared_event h snap x" "ev \<in> set (db_IntegrationEvents d')"
    using saved by (auto simp: RecordIntegrationEvent_def store_frame split: option.splits)
  have l: "\<exists>c\<in>set (db_Changes snap). chg_ID c = int_ChangeID ev \<and> chg_OrganizationID c = int_OrganizationID ev" if "int_ChangeID ev \<noteq> []"
    using linked_change_own [of snap "dated_event h (pipeline_event x)" "int_ChangeID ev"] that
    by (simp add: ev(1) prepared_fields dated_event_def Let_def)
  have "ev \<in> set (db_IntegrationEvents later)" "event_key ev = event_key (prepared_event h2 snap2 x)"
    using ev kept prepared_key by auto
  from RecordIntegrationEvent_found [OF this, of "event_audit h2 (prepared_event h2 snap2 x)" "se_call h2 0"] this(2) ev(2) l ok show ?thesis
    by (auto simp: RecordIntegrationEvent_service_eq)
qed

definition pipeline_passed :: integration_event where
  "pipeline_passed = zero_integration_event\<lparr> int_OrganizationID := ''org_1'', int_Provider := ''gitlab'', int_ExternalID := ''run:7'',
     int_ChangeID := ''chg_1'', int_Status := ''success'' \<rparr>"

lemma pipeline_event_recorded_once_witness:
  "\<exists>ev d'. RecordIntegrationEvent_service (calm 10) pipeline_passed granted_db granted_db = (Inr (ev, True), d')
     \<and> (\<exists>old. RecordIntegrationEvent_service (calm 20) pipeline_passed granted_db d' = (Inr (old, False), d') \<and> event_key old = event_key ev)"
proof -
  have n: "pipeline_event pipeline_passed = pipeline_passed\<lparr> int_Provider := ''GITLAB'', int_Status := ''SUCCESS'' \<rparr>"
    by code_simp
  have "\<exists>ev d'. RecordIntegrationEvent_service (calm 10) pipeline_passed granted_db granted_db = (Inr (ev, True), d')"
    by (simp add: RecordIntegrationEvent_service_eq n RecordIntegrationEvent_def)
      (simp add: granted_samples members_samples pipeline_passed_def)
  then obtain ev d' where "RecordIntegrationEvent_service (calm 10) pipeline_passed granted_db granted_db = (Inr (ev, True), d')" by blast
  from pipeline_event_recorded_once [OF this, of d' "calm 20" granted_db] this show ?thesis by (auto simp: saved_env_def)
qed

end
