(* ===== verification/Sessions.thy ===== *)
theory Sessions
  imports GoJson GoCrypto
begin

text \<open>
  \<^verbatim>\<open>internal/auth/session_store.go\<close>: the repository of login sessions, of the pending logins at the identity
  provider and of the counted attempts. The repository in memory and the one that reports its failed
  initialisation are modelled, the one in Redis is not. The lemmas show that the repository in memory is an
  abstract table of sessions that never forgets (forgetting the expired ones cannot be observed), that a
  pending login is taken once, and that the attempts of a window are bounded.
\<close>

section \<open>Contents\<close>

record session =
  ses_UserID :: string
  ses_CSRFToken :: string
  ses_ExpiresAt :: gotime

record login_flow =
  flow_Nonce :: string
  flow_CodeVerifier :: string
  flow_Next :: string
  flow_ExpiresAt :: gotime

record login_attempt =
  att_Count :: int
  att_ExpiresAt :: gotime

record memory_repository =
  mem_sessions :: "string \<Rightarrow> session option"
  mem_flows :: "string \<Rightarrow> login_flow option"
  mem_attempts :: "string \<Rightarrow> login_attempt option"

definition newMemorySessionRepository :: memory_repository where
  "newMemorySessionRepository = \<lparr> mem_sessions = Map.empty, mem_flows = Map.empty, mem_attempts = Map.empty \<rparr>"

datatype session_error = ErrSessionNotFound | ErrRepository

definition mem_Put :: "string \<Rightarrow> session \<Rightarrow> memory_repository \<Rightarrow> memory_repository" where
  "mem_Put key v r = r\<lparr> mem_sessions := (mem_sessions r)(key \<mapsto> v) \<rparr>"

definition mem_Get :: "gotime \<Rightarrow> string \<Rightarrow> memory_repository \<Rightarrow> (session_error + session) \<times> memory_repository" where
  "mem_Get now key r =
     (case mem_sessions r key of
        Some v \<Rightarrow>
          if ses_ExpiresAt v < now then (Inl ErrSessionNotFound, r\<lparr> mem_sessions := (mem_sessions r)(key := None) \<rparr>)
          else (Inr v, r)
      | None \<Rightarrow> (Inl ErrSessionNotFound, r\<lparr> mem_sessions := (mem_sessions r)(key := None) \<rparr>))"

definition mem_Delete :: "string \<Rightarrow> memory_repository \<Rightarrow> memory_repository" where
  "mem_Delete key r = r\<lparr> mem_sessions := (mem_sessions r)(key := None) \<rparr>"

definition mem_PutLoginFlow :: "string \<Rightarrow> login_flow \<Rightarrow> memory_repository \<Rightarrow> memory_repository" where
  "mem_PutLoginFlow key v r = r\<lparr> mem_flows := (mem_flows r)(key \<mapsto> v) \<rparr>"

definition mem_TakeLoginFlow :: "gotime \<Rightarrow> string \<Rightarrow> memory_repository \<Rightarrow> (session_error + login_flow) \<times> memory_repository" where
  "mem_TakeLoginFlow now key r =
     ((case mem_flows r key of
         None \<Rightarrow> Inl ErrSessionNotFound
       | Some v \<Rightarrow> if flow_ExpiresAt v < now then Inl ErrSessionNotFound else Inr v),
      r\<lparr> mem_flows := (mem_flows r)(key := None) \<rparr>)"

definition unexpired :: "('a \<Rightarrow> gotime) \<Rightarrow> gotime \<Rightarrow> (string \<Rightarrow> 'a option) \<Rightarrow> string \<Rightarrow> 'a option" where
  "unexpired expires now m = (\<lambda>k. case m k of None \<Rightarrow> None | Some v \<Rightarrow> if expires v < now then None else Some v)"

definition mem_Cleanup :: "gotime \<Rightarrow> memory_repository \<Rightarrow> memory_repository" where
  "mem_Cleanup now r =
     r\<lparr> mem_sessions := unexpired ses_ExpiresAt now (mem_sessions r),
        mem_flows := unexpired flow_ExpiresAt now (mem_flows r),
        mem_attempts := unexpired att_ExpiresAt now (mem_attempts r) \<rparr>"

text \<open>The second reading of the clock, for the time that remains, is the first one here.\<close>

definition mem_AllowAttempt ::
  "gotime \<Rightarrow> string \<Rightarrow> int \<Rightarrow> duration \<Rightarrow> memory_repository \<Rightarrow> (bool \<times> duration) \<times> memory_repository" where
  "mem_AllowAttempt now key n window r =
     (let v = (case mem_attempts r key of
                 None \<Rightarrow> \<lparr> att_Count = 0, att_ExpiresAt = now + window \<rparr>
               | Some v \<Rightarrow>
                   if is_zero (att_ExpiresAt v) \<or> att_ExpiresAt v < now then \<lparr> att_Count = 0, att_ExpiresAt = now + window \<rparr>
                   else v);
          v = v\<lparr> att_Count := att_Count v + 1 \<rparr>
      in ((att_Count v \<le> n, att_ExpiresAt v - now), r\<lparr> mem_attempts := (mem_attempts r)(key \<mapsto> v) \<rparr>))"

definition mem_ResetAttempts :: "string \<Rightarrow> memory_repository \<Rightarrow> memory_repository" where
  "mem_ResetAttempts key r = r\<lparr> mem_attempts := (mem_attempts r)(key := None) \<rparr>"

section \<open>Repositories that may be unavailable\<close>

datatype repository = Memory memory_repository | Unavailable

definition changed_repository :: "(memory_repository \<Rightarrow> memory_repository) \<Rightarrow> repository \<Rightarrow> session_error option \<times> repository" where
  "changed_repository f r = (case r of Memory m \<Rightarrow> (None, Memory (f m)) | Unavailable \<Rightarrow> (Some ErrRepository, Unavailable))"

definition asked_repository ::
  "(memory_repository \<Rightarrow> (session_error + 'a) \<times> memory_repository) \<Rightarrow> repository \<Rightarrow> (session_error + 'a) \<times> repository" where
  "asked_repository f r =
     (case r of
        Memory m \<Rightarrow> (case f m of (x, m') \<Rightarrow> (x, Memory m'))
      | Unavailable \<Rightarrow> (Inl ErrRepository, Unavailable))"

definition PutSession :: "string \<Rightarrow> session \<Rightarrow> repository \<Rightarrow> session_error option \<times> repository" where
  "PutSession key v = changed_repository (mem_Put key v)"

definition GetSession :: "gotime \<Rightarrow> string \<Rightarrow> repository \<Rightarrow> (session_error + session) \<times> repository" where
  "GetSession now key = asked_repository (mem_Get now key)"

definition DeleteSession :: "string \<Rightarrow> repository \<Rightarrow> session_error option \<times> repository" where
  "DeleteSession key = changed_repository (mem_Delete key)"

definition PutLoginFlow :: "string \<Rightarrow> login_flow \<Rightarrow> repository \<Rightarrow> session_error option \<times> repository" where
  "PutLoginFlow key v = changed_repository (mem_PutLoginFlow key v)"

definition TakeLoginFlow :: "gotime \<Rightarrow> string \<Rightarrow> repository \<Rightarrow> (session_error + login_flow) \<times> repository" where
  "TakeLoginFlow now key = asked_repository (mem_TakeLoginFlow now key)"

definition CleanupSessions :: "gotime \<Rightarrow> repository \<Rightarrow> repository" where
  "CleanupSessions now r = snd (changed_repository (mem_Cleanup now) r)"

definition AllowAttempt ::
  "gotime \<Rightarrow> string \<Rightarrow> int \<Rightarrow> duration \<Rightarrow> repository \<Rightarrow> (session_error + bool \<times> duration) \<times> repository" where
  "AllowAttempt now key n window =
     asked_repository (\<lambda>m. case mem_AllowAttempt now key n window m of (x, m') \<Rightarrow> (Inr x, m'))"

definition ResetAttempts :: "string \<Rightarrow> repository \<Rightarrow> session_error option \<times> repository" where
  "ResetAttempts key = changed_repository (mem_ResetAttempts key)"

section \<open>The contract of a session repository\<close>

text \<open>What its clients rely on: the sessions that are live at a time. Reading answers with the live session and,
  like the cleanup, changes nothing that can be read from then on.\<close>

locale session_repository =
  fixes live :: "'r \<Rightarrow> gotime \<Rightarrow> string \<Rightarrow> session option"
    and put :: "string \<Rightarrow> session \<Rightarrow> 'r \<Rightarrow> 'r"
    and get :: "gotime \<Rightarrow> string \<Rightarrow> 'r \<Rightarrow> (session_error + session) \<times> 'r"
    and delete :: "string \<Rightarrow> 'r \<Rightarrow> 'r"
    and cleanup :: "gotime \<Rightarrow> 'r \<Rightarrow> 'r"
  assumes get_live: "fst (get now k r) = (case live r now k of None \<Rightarrow> Inl ErrSessionNotFound | Some v \<Rightarrow> Inr v)"
    and get_keeps: "now \<le> t \<Longrightarrow> live (snd (get now k r)) t = live r t"
    and put_live: "live (put k v r) t = (live r t)(k := if ses_ExpiresAt v < t then None else Some v)"
    and delete_live: "live (delete k r) t = (live r t)(k := None)"
    and cleanup_keeps: "now \<le> t \<Longrightarrow> live (cleanup now r) t = live r t"
    and live_wanes: "live r t k = None \<Longrightarrow> t \<le> t' \<Longrightarrow> live r t' k = None"
begin

lemma get_after_put: "\<not> ses_ExpiresAt v < now \<Longrightarrow> fst (get now k (put k v r)) = Inr v"
  by (simp add: get_live put_live)

lemma get_after_delete: "fst (get now k (delete k r)) = Inl ErrSessionNotFound"
  by (simp add: get_live delete_live)

lemma dead_stays_dead:
  assumes "live r t k = None" "t \<le> t'"
  shows "live (snd (get t j r)) t' k = None" "live (cleanup t r) t' k = None" "live (delete j r) t' k = None"
    "j \<noteq> k \<Longrightarrow> live (put j v r) t' k = None"
  using assms live_wanes by (auto simp: get_keeps cleanup_keeps delete_live put_live)

end

definition live_session :: "memory_repository \<Rightarrow> gotime \<Rightarrow> string \<Rightarrow> session option" where
  "live_session r now = unexpired ses_ExpiresAt now (mem_sessions r)"

interpretation mem: session_repository live_session mem_Put mem_Get mem_Delete mem_Cleanup
  by unfold_locales
    (auto simp: live_session_def unexpired_def mem_Get_def mem_Put_def mem_Delete_def mem_Cleanup_def fun_eq_iff
      split: option.splits)

section \<open>The memory repository is a table that never forgets\<close>

datatype session_op = OpPut string session | OpGet string | OpDelete string | OpCleanup

fun session_step :: "gotime \<Rightarrow> session_op \<Rightarrow> memory_repository \<Rightarrow> session option \<times> memory_repository" where
  "session_step now (OpPut k v) r = (None, mem_Put k v r)"
| "session_step now (OpGet k) r = (case mem_Get now k r of (x, r') \<Rightarrow> (case x of Inl _ \<Rightarrow> None | Inr v \<Rightarrow> Some v, r'))"
| "session_step now (OpDelete k) r = (None, mem_Delete k r)"
| "session_step now OpCleanup r = (None, mem_Cleanup now r)"

text \<open>The specification: a table of the sessions put and not deleted, which are shown until they expire.\<close>

fun spec_step :: "gotime \<Rightarrow> session_op \<Rightarrow> (string \<Rightarrow> session option) \<Rightarrow> session option \<times> (string \<Rightarrow> session option)" where
  "spec_step now (OpPut k v) m = (None, m(k \<mapsto> v))"
| "spec_step now (OpGet k) m = (unexpired ses_ExpiresAt now m k, m)"
| "spec_step now (OpDelete k) m = (None, m(k := None))"
| "spec_step now OpCleanup m = (None, m)"

fun answers :: "(gotime \<Rightarrow> session_op \<Rightarrow> 's \<Rightarrow> session option \<times> 's) \<Rightarrow> (gotime \<times> session_op) list \<Rightarrow> 's \<Rightarrow> session option list" where
  "answers step [] s = []"
| "answers step ((now, x) # ops) s = (case step now x s of (y, s') \<Rightarrow> y # answers step ops s')"

definition refines :: "gotime \<Rightarrow> memory_repository \<Rightarrow> (string \<Rightarrow> session option) \<Rightarrow> bool" where
  "refines now r m \<longleftrightarrow> (\<forall>t k. now \<le> t \<longrightarrow> live_session r t k = unexpired ses_ExpiresAt t m k)"

lemma refines_step:
  assumes "refines now r m" "now \<le> t"
  shows "fst (session_step t x r) = fst (spec_step t x m) \<and> refines t (snd (session_step t x r)) (snd (spec_step t x m))"
proof (cases x)
  case (OpPut k v)
  then show ?thesis using assms by (auto simp: refines_def mem.put_live unexpired_def)
next
  case (OpGet k)
  obtain y r' where g: "mem_Get t k r = (y, r')" by force
  have "y = (case live_session r t k of None \<Rightarrow> Inl ErrSessionNotFound | Some v \<Rightarrow> Inr v)" "\<And>u. t \<le> u \<Longrightarrow> live_session r' u = live_session r u"
    using mem.get_live [of t k r] mem.get_keeps [of t _ k r] by (simp_all add: g)
  then show ?thesis using assms OpGet by (auto simp: refines_def g split: option.split)
next
  case (OpDelete k)
  then show ?thesis using assms by (auto simp: refines_def mem.delete_live unexpired_def)
next
  case OpCleanup
  then show ?thesis using assms by (auto simp: refines_def mem.cleanup_keeps)
qed

lemma refines_run:
  "refines now r m \<Longrightarrow> list_all (\<lambda>op. now \<le> fst op) ops \<Longrightarrow> sorted_wrt (\<lambda>a b. fst a \<le> fst b) ops \<Longrightarrow>
   answers session_step ops r = answers spec_step ops m"
proof (induction ops arbitrary: now r m)
  case (Cons op ops)
  obtain t x where op: "op = (t, x)" by force
  obtain y r' z m' where s: "session_step t x r = (y, r')" "spec_step t x m = (z, m')" by force
  from refines_step [OF Cons.prems(1), of t x] Cons.prems(2) have "y = z" "refines t r' m'" by (simp_all add: op s)
  with Cons.IH [of t r' m'] Cons.prems(3) show ?case by (simp add: op s list_all_iff)
qed simp

text \<open>C9: the repository in memory implements an abstract table of sessions: whatever operations are run on it, at
  times that do not run backwards, its answers are those of a table that keeps everything put and not deleted
  and shows each session until it expires; the lazy removal of expired sessions and the cleanup cannot be
  observed.\<close>

theorem memory_refines_table:
  assumes "sorted_wrt (\<lambda>a b. fst a \<le> fst b) ops"
  shows "answers session_step ops newMemorySessionRepository = answers spec_step ops Map.empty"
proof (cases ops)
  case (Cons op rest)
  have "refines (fst op) newMemorySessionRepository Map.empty"
    by (simp add: refines_def live_session_def newMemorySessionRepository_def)
  from refines_run [OF this, of ops] assms show ?thesis by (simp add: Cons list_all_iff)
qed simp

definition sample_session :: session where
  "sample_session = \<lparr> ses_UserID = ''usr_1'', ses_CSRFToken = ''csrf'', ses_ExpiresAt = 20 \<rparr>"

theorem memory_refines_table_witness:
  "answers session_step [(10, OpPut ''k'' sample_session), (20, OpGet ''k''), (21, OpCleanup), (22, OpGet ''k'')]
     newMemorySessionRepository = [None, Some sample_session, None, None]"
  using memory_refines_table [of "[(10, OpPut ''k'' sample_session), (20, OpGet ''k''), (21, OpCleanup), (22, OpGet ''k'')]"]
  by (simp add: unexpired_def sample_session_def)

section \<open>Attempts are bounded\<close>

datatype attempt_op = TryKey string | ResetKey string | CleanupAll

fun attempt_step :: "int \<Rightarrow> duration \<Rightarrow> gotime \<Rightarrow> attempt_op \<Rightarrow> memory_repository \<Rightarrow> bool \<times> memory_repository" where
  "attempt_step n window now (TryKey k) r = (case mem_AllowAttempt now k n window r of ((ok, _), r') \<Rightarrow> (ok, r'))"
| "attempt_step n window now (ResetKey k) r = (False, mem_ResetAttempts k r)"
| "attempt_step n window now CleanupAll r = (False, mem_Cleanup now r)"

text \<open>The number of attempts with a key that are allowed in a run.\<close>

fun allowed_attempts :: "int \<Rightarrow> duration \<Rightarrow> string \<Rightarrow> (gotime \<times> attempt_op) list \<Rightarrow> memory_repository \<Rightarrow> nat" where
  "allowed_attempts n window k [] r = 0"
| "allowed_attempts n window k ((now, x) # ops) r =
     (case attempt_step n window now x r of
        (ok, r') \<Rightarrow> (if ok \<and> x = TryKey k then 1 else 0) + allowed_attempts n window k ops r')"

abbreviation tries :: "string \<Rightarrow> (gotime \<times> attempt_op) list \<Rightarrow> nat" where
  "tries k ops \<equiv> length (filter (\<lambda>op. snd op = TryKey k) ops)"

lemma counted_attempts:
  "mem_attempts r k = Some v \<Longrightarrow> \<not> is_zero (att_ExpiresAt v) \<Longrightarrow>
   list_all (\<lambda>op. fst op \<le> att_ExpiresAt v \<and> snd op \<noteq> ResetKey k) ops \<Longrightarrow>
   allowed_attempts n window k ops r = min (tries k ops) (nat (n - att_Count v))"
proof (induction ops arbitrary: r v)
  case (Cons op ops)
  obtain t x where op: "op = (t, x)" by force
  have t: "\<not> att_ExpiresAt v < t" "x \<noteq> ResetKey k" using Cons.prems(3) by (simp_all add: op)
  show ?case
  proof (cases "x = TryKey k")
    case True
    let ?v = "v\<lparr> att_Count := att_Count v + 1 \<rparr>"
    have s: "attempt_step n window t x r = (att_Count v + 1 \<le> n, r\<lparr> mem_attempts := (mem_attempts r)(k \<mapsto> ?v) \<rparr>)"
      using Cons.prems(1,2) t by (simp add: True mem_AllowAttempt_def)
    have "allowed_attempts n window k ops (r\<lparr> mem_attempts := (mem_attempts r)(k \<mapsto> ?v) \<rparr>) = min (tries k ops) (nat (n - att_Count ?v))"
      using Cons.prems(2,3) by (intro Cons.IH) simp_all
    then show ?thesis using True s by (auto simp: op)
  next
    case False
    obtain y r' where s: "attempt_step n window t x r = (y, r')" by force
    then have "mem_attempts r' k = Some v"
      using Cons.prems(1) t False
      by (cases x) (auto simp: mem_AllowAttempt_def mem_ResetAttempts_def mem_Cleanup_def unexpired_def Let_def)
    from Cons.IH [OF this] Cons.prems(2,3) show ?thesis using False s by (simp add: op)
  qed
qed simp

text \<open>C38: however often a key is tried, by whatever interleaving with attempts and resets of other keys and with
  cleanups, no more than the limit is allowed in the window that its first attempt opens, and every attempt
  up to the limit is, as long as the count of the key itself is not reset in the window, as a successful login
  of the same key does.\<close>

theorem attempts_bounded_in_window:
  assumes "unexpired att_ExpiresAt t (mem_attempts r) k = None" "0 < t" "0 \<le> window"
    "list_all (\<lambda>op. fst op \<le> t + window \<and> snd op \<noteq> ResetKey k) ops"
  shows "allowed_attempts n window k ((t, TryKey k) # ops) r = min (1 + tries k ops) (nat n)"
proof -
  let ?v = "\<lparr> att_Count = 1, att_ExpiresAt = t + window \<rparr>"
  have s: "attempt_step n window t (TryKey k) r = (1 \<le> n, r\<lparr> mem_attempts := (mem_attempts r)(k \<mapsto> ?v) \<rparr>)"
    using assms(1) by (auto simp: mem_AllowAttempt_def unexpired_def Let_def split: option.splits if_splits)
  have "allowed_attempts n window k ops (r\<lparr> mem_attempts := (mem_attempts r)(k \<mapsto> ?v) \<rparr>) = min (tries k ops) (nat (n - 1))"
    using counted_attempts [of "r\<lparr> mem_attempts := (mem_attempts r)(k \<mapsto> ?v) \<rparr>" k ?v ops n window] assms(2-4)
    by (simp add: is_zero_def)
  then show ?thesis by (auto simp: s simp del: attempt_step.simps)
qed

theorem attempts_bounded_in_window_witness:
  "allowed_attempts 2 100 ''ann'' [(10, TryKey ''ann''), (20, TryKey ''bob''), (30, TryKey ''ann''), (40, CleanupAll), (110, TryKey ''ann'')]
     newMemorySessionRepository = 2"
  using attempts_bounded_in_window [of 10 newMemorySessionRepository "''ann''" 100
      "[(20, TryKey ''bob''), (30, TryKey ''ann''), (40, CleanupAll), (110, TryKey ''ann'')]" 2]
  by (simp add: newMemorySessionRepository_def unexpired_def)

section \<open>A pending login is taken once\<close>

lemma flow_taken_once:
  assumes "TakeLoginFlow now k r = (Inr v, r')"
  shows "\<exists>m. r = Memory m \<and> mem_flows m k = Some v \<and> now \<le> flow_ExpiresAt v
    \<and> r' = Memory (m\<lparr> mem_flows := (mem_flows m)(k := None) \<rparr>)"
    and "fst (TakeLoginFlow now' k r') = Inl ErrSessionNotFound"
  using assms
  by (auto simp: TakeLoginFlow_def asked_repository_def mem_TakeLoginFlow_def split: repository.splits option.splits if_splits)

end
