(* ===== verification/AuthTexts.thy ===== *)
theory AuthTexts
  imports Main
begin

text \<open>
  The non-ASCII string constants of the sign-on and the management of members that a modelled definition compares or stores, as their UTF-8
  bytes.
\<close>

definition txt_auth_member :: string where
  "txt_auth_member = [
    CHR 0xE4, CHR 0xBC, CHR 0x81, CHR 0xE4, CHR 0xB8, CHR 0x9A, CHR 0xE6, CHR 0x88, CHR 0x90,
    CHR 0xE5, CHR 0x91, CHR 0x98]"

definition txt_auth_register :: string where
  "txt_auth_register = [
    CHR 0xE5, CHR 0x88, CHR 0x9B, CHR 0xE5, CHR 0xBB, CHR 0xBA, CHR 0xE4, CHR 0xBC, CHR 0x81,
    CHR 0xE4, CHR 0xB8, CHR 0x9A, CHR 0xE5, CHR 0xB7, CHR 0xA5, CHR 0xE4, CHR 0xBD, CHR 0x9C,
    CHR 0xE7, CHR 0xA9, CHR 0xBA, CHR 0xE9, CHR 0x97, CHR 0xB4, CHR 0xE5, CHR 0xB9, CHR 0xB6,
    CHR 0xE6, CHR 0x88, CHR 0x90, CHR 0xE4, CHR 0xB8, CHR 0xBA, CHR 0xE4, CHR 0xBC, CHR 0x81,
    CHR 0xE4, CHR 0xB8, CHR 0x9A, CHR 0xE7, CHR 0xAE, CHR 0xA1, CHR 0xE7, CHR 0x90, CHR 0x86,
    CHR 0xE5, CHR 0x91, CHR 0x98]"

definition txt_auth_login :: string where
  "txt_auth_login = [
    CHR 0xE4, CHR 0xBD, CHR 0xBF, CHR 0xE7, CHR 0x94, CHR 0xA8, CHR 0xE4, CHR 0xBC, CHR 0x81,
    CHR 0xE4, CHR 0xB8, CHR 0x9A, CHR 0xE9, CHR 0x82, CHR 0xAE, CHR 0xE7, CHR 0xAE, CHR 0xB1,
    CHR 0xE5, CHR 0x92, CHR 0x8C, CHR 0xE5, CHR 0xAF, CHR 0x86, CHR 0xE7, CHR 0xA0, CHR 0x81,
    CHR 0xE7, CHR 0x99, CHR 0xBB, CHR 0xE5, CHR 0xBD, CHR 0x95]"

definition txt_auth_org :: string where
  "txt_auth_org = [
    CHR 0xE6, CHR 0x9B, CHR 0xB4, CHR 0xE6, CHR 0x96, CHR 0xB0, CHR 0xE4, CHR 0xBC, CHR 0x81,
    CHR 0xE4, CHR 0xB8, CHR 0x9A, CHR 0xE5, CHR 0x90, CHR 0x8D, CHR 0xE7, CHR 0xA7, CHR 0xB0,
    CHR 0xE3, CHR 0x80, CHR 0x81, CHR 0xE9, CHR 0x82, CHR 0xAE, CHR 0xE7, CHR 0xAE, CHR 0xB1,
    CHR 0xE5, CHR 0x9F, CHR 0x9F, CHR 0xE5, CHR 0x90, CHR 0x8D, CHR 0xE5, CHR 0x92, CHR 0x8C,
    CHR 0x20, CHR 0x53, CHR 0x53, CHR 0x4F, CHR 0x20, CHR 0xE7, CHR 0xAD, CHR 0x96, CHR 0xE7,
    CHR 0x95, CHR 0xA5]"

definition txt_auth_member_1 :: string where
  "txt_auth_member_1 = [
    CHR 0xE8, CHR 0xB0, CHR 0x83, CHR 0xE6, CHR 0x95, CHR 0xB4, CHR 0xE6, CHR 0x88, CHR 0x90,
    CHR 0xE5, CHR 0x91, CHR 0x98, CHR 0x20]"

definition txt_auth_member_2 :: string where
  "txt_auth_member_2 = [
    CHR 0x20, CHR 0xE7, CHR 0x9A, CHR 0x84, CHR 0xE8, CHR 0xA7, CHR 0x92, CHR 0xE8, CHR 0x89,
    CHR 0xB2, CHR 0xE4, CHR 0xB8, CHR 0xBA, CHR 0x20]"

definition txt_auth_member_3 :: string where
  "txt_auth_member_3 = [
    CHR 0xEF, CHR 0xBC, CHR 0x8C, CHR 0xE5, CHR 0x90, CHR 0xAF, CHR 0xE7, CHR 0x94, CHR 0xA8,
    CHR 0xE7, CHR 0x8A, CHR 0xB6, CHR 0xE6, CHR 0x80, CHR 0x81, CHR 0xE4, CHR 0xB8, CHR 0xBA,
    CHR 0x20]"

definition txt_auth_member_4 :: string where
  "txt_auth_member_4 = [
    CHR 0xEF, CHR 0xBC, CHR 0x8C, CHR 0xE4, CHR 0xBC, CHR 0x81, CHR 0xE4, CHR 0xB8, CHR 0x9A,
    CHR 0xE7, CHR 0xAE, CHR 0xA1, CHR 0xE7, CHR 0x90, CHR 0x86, CHR 0xE5, CHR 0x91, CHR 0x98,
    CHR 0xE4, CHR 0xB8, CHR 0xBA, CHR 0x20]"

definition txt_auth_invite_1 :: string where
  "txt_auth_invite_1 = [
    CHR 0xE9, CHR 0x82, CHR 0x80, CHR 0xE8, CHR 0xAF, CHR 0xB7, CHR 0x20]"

definition txt_auth_invite_2 :: string where
  "txt_auth_invite_2 = [
    CHR 0x20, CHR 0xE4, CHR 0xBB, CHR 0xA5, CHR 0x20]"

definition txt_auth_invite_3 :: string where
  "txt_auth_invite_3 = [
    CHR 0x20, CHR 0xE8, CHR 0xBA, CHR 0xAB, CHR 0xE4, CHR 0xBB, CHR 0xBD, CHR 0xE5, CHR 0x8A,
    CHR 0xA0, CHR 0xE5, CHR 0x85, CHR 0xA5, CHR 0xE4, CHR 0xBC, CHR 0x81, CHR 0xE4, CHR 0xB8,
    CHR 0x9A]"

definition txt_auth_revoke :: string where
  "txt_auth_revoke = [
    CHR 0xE6, CHR 0x92, CHR 0xA4, CHR 0xE9, CHR 0x94, CHR 0x80, CHR 0xE4, CHR 0xBC, CHR 0x81,
    CHR 0xE4, CHR 0xB8, CHR 0x9A, CHR 0xE6, CHR 0x88, CHR 0x90, CHR 0xE5, CHR 0x91, CHR 0x98,
    CHR 0xE9, CHR 0x82, CHR 0x80, CHR 0xE8, CHR 0xAF, CHR 0xB7]"

definition txt_auth_accept_1 :: string where
  "txt_auth_accept_1 = [
    CHR 0xE6, CHR 0x8E, CHR 0xA5, CHR 0xE5, CHR 0x8F, CHR 0x97, CHR 0xE9, CHR 0x82, CHR 0x80,
    CHR 0xE8, CHR 0xAF, CHR 0xB7, CHR 0xE5, CHR 0xB9, CHR 0xB6, CHR 0xE4, CHR 0xBB, CHR 0xA5,
    CHR 0x20]"

definition txt_auth_accept_2 :: string where
  "txt_auth_accept_2 = [
    CHR 0x20, CHR 0xE8, CHR 0xBA, CHR 0xAB, CHR 0xE4, CHR 0xBB, CHR 0xBD, CHR 0xE5, CHR 0x8A,
    CHR 0xA0, CHR 0xE5, CHR 0x85, CHR 0xA5, CHR 0xE4, CHR 0xBC, CHR 0x81, CHR 0xE4, CHR 0xB8,
    CHR 0x9A]"

definition txt_auth_sso :: string where
  "txt_auth_sso = [
    CHR 0xE9, CHR 0x80, CHR 0x9A, CHR 0xE8, CHR 0xBF, CHR 0x87, CHR 0xE4, CHR 0xBC, CHR 0x81,
    CHR 0xE4, CHR 0xB8, CHR 0x9A, CHR 0xE8, CHR 0xBA, CHR 0xAB, CHR 0xE4, CHR 0xBB, CHR 0xBD,
    CHR 0xE5, CHR 0xB9, CHR 0xB3, CHR 0xE5, CHR 0x8F, CHR 0xB0, CHR 0xE7, CHR 0x99, CHR 0xBB,
    CHR 0xE5, CHR 0xBD, CHR 0x95]"

end
