(* ===== verification/Identity.thy ===== *)
theory Identity
  imports Access Sessions AuthTexts "HOL-Library.Char_ord"
begin

text \<open>
  The parts of \<^verbatim>\<open>internal/auth/auth.go\<close> and \<^verbatim>\<open>enterprise.go\<close> that keep no state of the store: the configuration,
  the checks of names and passwords, the derived passwords, and the verification of the identity tokens of an
  identity provider. What the provider answers, the parser of JSON, the RSA check of a signature, the parsers
  of addresses and of durations of the standard library are parameters.
\<close>

section \<open>Configuration\<close>

record auth_config =
  cfg_Mode :: string
  cfg_Issuer :: string
  cfg_ClientID :: string
  cfg_ClientSecret :: string
  cfg_RedirectURL :: string
  cfg_PublicURL :: string
  cfg_Scopes :: "string list"
  cfg_RoleClaim :: string
  cfg_OwnerValues :: "string list"
  cfg_ReviewerValues :: "string list"
  cfg_AllowedValues :: "string list"
  cfg_AllowedDomains :: "string list"
  cfg_TokenAuthMethod :: string
  cfg_SessionTTL :: duration
  cfg_HTTPTimeout :: duration
  cfg_SecureCookie :: bool
  cfg_RequireVerifiedEmail :: bool

type_synonym environment = "string \<Rightarrow> string"

definition parse_bool :: "string \<Rightarrow> bool option" where
  "parse_bool s =
     (if s \<in> set [''1'', ''t'', ''T'', ''TRUE'', ''true'', ''True''] then Some True
      else if s \<in> set [''0'', ''f'', ''F'', ''FALSE'', ''false'', ''False''] then Some False else None)"

definition envOr :: "environment \<Rightarrow> string \<Rightarrow> string \<Rightarrow> string" where
  "envOr getenv key fallback = (let v = trim_space (getenv key) in if v \<noteq> [] then v else fallback)"

definition durationOr :: "(string \<Rightarrow> duration option) \<Rightarrow> environment \<Rightarrow> string \<Rightarrow> duration \<Rightarrow> duration" where
  "durationOr parse getenv key fallback =
     (let v = trim_space (getenv key) in
      if v = [] then fallback else case parse v of None \<Rightarrow> fallback | Some t \<Rightarrow> t)"

definition boolOr :: "environment \<Rightarrow> string \<Rightarrow> bool \<Rightarrow> bool" where
  "boolOr getenv key fallback =
     (let v = trim_space (getenv key) in
      if v = [] then fallback else case parse_bool v of None \<Rightarrow> fallback | Some b \<Rightarrow> b)"

text \<open>The separators are the comma, the semicolon, the space and the full-width comma of three bytes.\<close>

fun split_values :: "string \<Rightarrow> string \<Rightarrow> string list" where
  "split_values cur [] = [rev cur]"
| "split_values cur (c # s) =
     (if c \<in> set '',; '' then rev cur # split_values [] s
      else case s of
             a # b # s' \<Rightarrow>
               if c = CHR 0xEF \<and> a = CHR 0xBC \<and> b = CHR 0x8C then rev cur # split_values [] s' else split_values (c # cur) s
           | _ \<Rightarrow> split_values (c # cur) s)"

definition splitValues :: "string \<Rightarrow> string list" where
  "splitValues value = filter (\<lambda>v. v \<noteq> []) (map trim_space (split_values [] value))"

definition trim_slashes :: "string \<Rightarrow> string" where
  "trim_slashes s = rev (dropWhile (\<lambda>c. c = CHR ''/'') (rev s))"

definition FromEnvironment :: "(string \<Rightarrow> duration option) \<Rightarrow> environment \<Rightarrow> auth_config" where
  "FromEnvironment parse getenv =
     (let given = to_lower (trim_space (getenv ''CHANGEGUARD_AUTH_MODE''));
          mode = (if given \<in> set [''local'', ''oidc'', ''hybrid''] then given else ''local'');
          redirectURL = envOr getenv ''CHANGEGUARD_OIDC_REDIRECT_URL'' ''http://localhost:8080/auth/callback'';
          publicURL = trim_slashes (trim_space (getenv ''CHANGEGUARD_PUBLIC_URL''));
          https = has_prefix (to_lower redirectURL) ''https://'' \<or> has_prefix (to_lower publicURL) ''https://''
      in \<lparr> cfg_Mode = mode, cfg_Issuer = trim_slashes (trim_space (getenv ''CHANGEGUARD_OIDC_ISSUER'')),
            cfg_ClientID = trim_space (getenv ''CHANGEGUARD_OIDC_CLIENT_ID''),
            cfg_ClientSecret = trim_space (getenv ''CHANGEGUARD_OIDC_CLIENT_SECRET''),
            cfg_RedirectURL = redirectURL, cfg_PublicURL = publicURL,
            cfg_Scopes = splitValues (envOr getenv ''CHANGEGUARD_OIDC_SCOPES'' ''openid profile email groups''),
            cfg_RoleClaim = envOr getenv ''CHANGEGUARD_OIDC_ROLE_CLAIM'' ''groups'',
            cfg_OwnerValues = splitValues (getenv ''CHANGEGUARD_OIDC_OWNER_VALUES''),
            cfg_ReviewerValues = splitValues (getenv ''CHANGEGUARD_OIDC_REVIEWER_VALUES''),
            cfg_AllowedValues = splitValues (getenv ''CHANGEGUARD_OIDC_ALLOWED_VALUES''),
            cfg_AllowedDomains = splitValues (getenv ''CHANGEGUARD_OIDC_ALLOWED_DOMAINS''),
            cfg_TokenAuthMethod = envOr getenv ''CHANGEGUARD_OIDC_TOKEN_AUTH_METHOD'' ''client_secret_post'',
            cfg_SessionTTL = durationOr parse getenv ''CHANGEGUARD_AUTH_SESSION_TTL'' (12 * hour),
            cfg_HTTPTimeout = durationOr parse getenv ''CHANGEGUARD_OIDC_HTTP_TIMEOUT'' (8 * second),
            cfg_SecureCookie = boolOr getenv ''CHANGEGUARD_AUTH_SECURE_COOKIE'' https,
            cfg_RequireVerifiedEmail = boolOr getenv ''CHANGEGUARD_OIDC_REQUIRE_VERIFIED_EMAIL'' True \<rparr>)"

text \<open>\<^verbatim>\<open>New\<close>, which repairs a configuration.\<close>

definition New_config :: "auth_config \<Rightarrow> auth_config" where
  "New_config c =
     c\<lparr> cfg_SessionTTL := (if cfg_SessionTTL c \<le> 0 then 12 * hour else cfg_SessionTTL c),
        cfg_HTTPTimeout := (if cfg_HTTPTimeout c \<le> 0 then 8 * second else cfg_HTTPTimeout c),
        cfg_Scopes := (if cfg_Scopes c = [] then [''openid'', ''profile'', ''email''] else cfg_Scopes c),
        cfg_RoleClaim := (if trim_space (cfg_RoleClaim c) = [] then ''groups'' else cfg_RoleClaim c) \<rparr>"

definition SessionAuthEnabled :: "auth_config \<Rightarrow> bool" where
  "SessionAuthEnabled c \<longleftrightarrow> cfg_Mode c = ''local'' \<or> cfg_Mode c = ''oidc'' \<or> cfg_Mode c = ''hybrid''"

definition OIDCEnabled :: "auth_config \<Rightarrow> bool" where
  "OIDCEnabled c \<longleftrightarrow>
     (cfg_Mode c = ''oidc'' \<or> cfg_Mode c = ''hybrid'') \<and> cfg_Issuer c \<noteq> [] \<and> cfg_ClientID c \<noteq> [] \<and> cfg_RedirectURL c \<noteq> []"

lemma FromEnvironment_enabled: "SessionAuthEnabled (New_config (FromEnvironment parse getenv))"
  by (simp add: SessionAuthEnabled_def New_config_def FromEnvironment_def Let_def)

section \<open>Names, addresses and passwords\<close>

definition validEmail :: "(string \<Rightarrow> string option) \<Rightarrow> string \<Rightarrow> bool" where
  "validEmail parse value \<longleftrightarrow>
     value \<noteq> [] \<and> length value \<le> 254
     \<and> (case parse value of None \<Rightarrow> False | Some a \<Rightarrow> equal_fold a (trim_space value)) \<and> contains_str value ''@''"

definition slug_char :: "char \<Rightarrow> bool" where
  "slug_char c \<longleftrightarrow> (CHR ''a'' \<le> c \<and> c \<le> CHR ''z'') \<or> (CHR ''0'' \<le> c \<and> c \<le> CHR ''9'')"

definition validSlug :: "string \<Rightarrow> bool" where
  "validSlug value \<longleftrightarrow>
     3 \<le> length value \<and> length value \<le> 40 \<and> slug_char (hd value) \<and> list_all (\<lambda>c. slug_char c \<or> c = CHR ''-'') (tl value)"

definition validPassword :: "string \<Rightarrow> bool" where
  "validPassword value \<longleftrightarrow>
     8 \<le> length value \<and> length value \<le> 128
     \<and> list_ex (\<lambda>c. (CHR ''a'' \<le> c \<and> c \<le> CHR ''z'') \<or> (CHR ''A'' \<le> c \<and> c \<le> CHR ''Z'')) value
     \<and> list_ex (\<lambda>c. CHR ''0'' \<le> c \<and> c \<le> CHR ''9'') value"

definition validRole :: "string \<Rightarrow> bool" where
  "validRole value \<longleftrightarrow> value = RoleDeveloper \<or> value = RoleReviewer \<or> value = RoleOwner"

definition emailDomain :: "string \<Rightarrow> string" where
  "emailDomain email =
     (let parts = split_on (CHR ''@'') (to_lower (trim_space email)) in if length parts \<noteq> 2 then [] else parts ! 1)"

fun normalize_domains :: "string list \<Rightarrow> string list \<Rightarrow> string list" where
  "normalize_domains seen [] = []"
| "normalize_domains seen (v # vs) =
     (let v = to_lower (trim_space (trim_prefix v ''@'')) in
      if v = [] \<or> \<not> contains_str v ''.'' \<or> v \<in> set seen then normalize_domains seen vs
      else v # normalize_domains (v # seen) vs)"

definition normalizeDomains :: "string list \<Rightarrow> string list" where
  "normalizeDomains values = normalize_domains [] values"

definition tokenKey :: "string \<Rightarrow> string" where
  "tokenKey raw = base64_encode (sha256_sum raw)"

definition pkceChallenge :: "string \<Rightarrow> string" where
  "pkceChallenge verifier = base64_encode (sha256_sum verifier)"

section \<open>Derived passwords\<close>

definition passwordIterations :: nat where "passwordIterations = 210000"

definition xor_bytes :: "string \<Rightarrow> string \<Rightarrow> string" where
  "xor_bytes a b = map2 (\<lambda>x y. xor_byte (of_char x) y) a b"

definition pbkdf2_step :: "string \<Rightarrow> string \<times> string \<Rightarrow> string \<times> string" where
  "pbkdf2_step password s = (case s of (previous, acc) \<Rightarrow> let p = hmac_sha256 password previous in (p, xor_bytes acc p))"

text \<open>The counter of a block as four bytes, the highest first.\<close>

definition be32 :: "nat \<Rightarrow> string" where
  "be32 n = map (\<lambda>i. char_of (n div 256 ^ i)) [3, 2, 1, 0]"

definition pbkdf2_block :: "string \<Rightarrow> string \<Rightarrow> nat \<Rightarrow> nat \<Rightarrow> string" where
  "pbkdf2_block password salt iterations block =
     (let first = hmac_sha256 password (salt @ be32 block)
      in snd ((pbkdf2_step password ^^ (iterations - 1)) (first, first)))"

definition pbkdf2SHA256 :: "string \<Rightarrow> string \<Rightarrow> nat \<Rightarrow> nat \<Rightarrow> string" where
  "pbkdf2SHA256 password salt iterations keyLength =
     take keyLength (concat (map (pbkdf2_block password salt iterations) [1..<(keyLength + 31) div 32 + 1]))"

text \<open>\<^verbatim>\<open>base64.RawStdEncoding\<close>, whose alphabet differs from the one of \<^verbatim>\<open>RawURLEncoding\<close> in two characters.\<close>

definition std_encode :: "string \<Rightarrow> string" where
  "std_encode s = map (\<lambda>c. if c = CHR ''-'' then CHR ''+'' else if c = CHR ''_'' then CHR ''/'' else c) (base64_encode s)"

definition std_decode :: "string \<Rightarrow> string option" where
  "std_decode s =
     (if list_ex (\<lambda>c. c = CHR ''-'' \<or> c = CHR ''_'') s then None
      else base64_decode (map (\<lambda>c. if c = CHR ''+'' then CHR ''-'' else if c = CHR ''/'' then CHR ''_'' else c) s))"

text \<open>\<open>salt\<close> is the outcome of reading 16 random bytes.\<close>

definition hashPassword :: "string option \<Rightarrow> string \<Rightarrow> (string \<times> string) option" where
  "hashPassword salt password =
     map_option (\<lambda>s. (std_encode s, std_encode (pbkdf2SHA256 password s passwordIterations 32))) salt"

definition verifyPassword :: "string \<Rightarrow> string \<Rightarrow> string \<Rightarrow> bool" where
  "verifyPassword password encodedSalt encodedHash =
     (case (std_decode encodedSalt, std_decode encodedHash) of
        (Some salt, Some expected) \<Rightarrow>
          expected \<noteq> [] \<and> pbkdf2SHA256 password salt passwordIterations (length expected) = expected
      | _ \<Rightarrow> False)"

lemma length_xor_bytes [simp]: "length (xor_bytes a b) = min (length a) (length b)"
  by (simp add: xor_bytes_def)

lemma length_pbkdf2_block [simp]: "length (pbkdf2_block password salt n k) = 32"
proof -
  have "length (fst ((pbkdf2_step password ^^ m) (s, s))) = 32 \<and> length (snd ((pbkdf2_step password ^^ m) (s, s))) = 32"
    if "length s = 32" for m s using that
    by (induction m) (auto simp: pbkdf2_step_def Let_def split: prod.split)
  then show ?thesis by (simp add: pbkdf2_block_def Let_def)
qed

lemma length_pbkdf2: "length (pbkdf2SHA256 password salt n 32) = 32"
  by (simp add: pbkdf2SHA256_def)

lemma std_roundtrip [simp]: "std_decode (std_encode s) = Some s"
proof -
  have a: "b64_alphabet c" if "c \<in> set (base64_encode s)" for c
    using base64_encode_alphabet [of s] that by (simp add: list_all_iff)
  have "b64_val (CHR ''+'') = None" "b64_val (CHR ''/'') = None" by code_simp+
  then have "c \<noteq> CHR ''+'' \<and> c \<noteq> CHR ''/''" if "b64_alphabet c" for c using that by (auto simp: b64_alphabet_def)
  then have "map (\<lambda>c. if c = CHR ''+'' then CHR ''-'' else if c = CHR ''/'' then CHR ''_'' else c)
      (map (\<lambda>c. if c = CHR ''-'' then CHR ''+'' else if c = CHR ''_'' then CHR ''/'' else c) (base64_encode s)) = base64_encode s"
    unfolding map_map using a by (intro map_idI) auto
  moreover have "\<not> list_ex (\<lambda>c. c = CHR ''-'' \<or> c = CHR ''_'') (std_encode s)"
    by (auto simp: std_encode_def list_ex_iff)
  ultimately show ?thesis by (simp add: std_decode_def std_encode_def)
qed

lemma verify_hashed: "hashPassword salt password = Some (encodedSalt, encodedHash) \<Longrightarrow> verifyPassword password encodedSalt encodedHash"
  using length_pbkdf2 [of password] by (auto simp: hashPassword_def verifyPassword_def length_0_conv [symmetric] simp del: length_0_conv)

section \<open>Identity tokens\<close>

text \<open>A claim as the JSON parser delivers it.\<close>

datatype claim =
    ClaimString string
  | ClaimNumber rat
  | ClaimBool bool
  | ClaimList "claim list"
  | ClaimOther

type_synonym claims = "string \<Rightarrow> claim option"

definition string_claim :: "claims \<Rightarrow> string \<Rightarrow> string" where
  "string_claim cs key = (case cs key of Some (ClaimString s) \<Rightarrow> s | _ \<Rightarrow> [])"

definition claim_text :: "claim \<Rightarrow> string option" where
  "claim_text c = (case c of ClaimString s \<Rightarrow> if s = [] then None else Some s | _ \<Rightarrow> None)"

definition claimValues :: "claim option \<Rightarrow> string list" where
  "claimValues value =
     (case value of
        Some (ClaimString s) \<Rightarrow> if s = [] then [] else [s]
      | Some (ClaimList items) \<Rightarrow> List.map_filter claim_text items
      | _ \<Rightarrow> [])"

text \<open>The conversion to an integer cuts the fraction off; numbers beyond 64 bits are not distinguished.\<close>

definition numberClaim :: "claim option \<Rightarrow> int option" where
  "numberClaim value =
     (case value of Some (ClaimNumber r) \<Rightarrow> Some (if 0 \<le> r then \<lfloor>r\<rfloor> else - \<lfloor>- r\<rfloor>) | _ \<Rightarrow> None)"

definition firstStringClaim :: "claims \<Rightarrow> string list \<Rightarrow> string" where
  "firstStringClaim cs keys =
     (case List.find (\<lambda>k. trim_space (string_claim cs k) \<noteq> []) keys of
        None \<Rightarrow> [] | Some k \<Rightarrow> trim_space (string_claim cs k))"

definition containsFold_auth :: "string list \<Rightarrow> string \<Rightarrow> bool" where
  "containsFold_auth items expected \<longleftrightarrow> list_ex (\<lambda>x. equal_fold (trim_space x) (trim_space expected)) items"

definition intersectsFold :: "string list \<Rightarrow> string list \<Rightarrow> bool" where
  "intersectsFold l r \<longleftrightarrow> list_ex (containsFold_auth r) l"

definition audienceContains :: "claim option \<Rightarrow> string \<Rightarrow> bool" where
  "audienceContains value expected \<longleftrightarrow> containsFold_auth (claimValues value) expected"

definition audienceLength :: "claim option \<Rightarrow> nat" where
  "audienceLength value = length (claimValues value)"

datatype claim_error =
  ClaimIssuer | ClaimAudience | ClaimParty | ClaimExpired | ClaimEarly | ClaimNonce | ClaimUnverified

definition validateClaims :: "auth_config \<Rightarrow> gotime \<Rightarrow> claims \<Rightarrow> string \<Rightarrow> claim_error option" where
  "validateClaims cfg now cs expectedNonce =
     (if string_claim cs ''iss'' \<noteq> cfg_Issuer cfg then Some ClaimIssuer
      else if \<not> audienceContains (cs ''aud'') (cfg_ClientID cfg) then Some ClaimAudience
      else if 1 < audienceLength (cs ''aud'') \<and> string_claim cs ''azp'' \<noteq> cfg_ClientID cfg then Some ClaimParty
      else if (case numberClaim (cs ''exp'') of None \<Rightarrow> True | Some t \<Rightarrow> unix_time t + 2 * minute < now) then Some ClaimExpired
      else if (case numberClaim (cs ''nbf'') of None \<Rightarrow> False | Some t \<Rightarrow> now + 2 * minute < unix_time t) then Some ClaimEarly
      else if expectedNonce = [] \<or> string_claim cs ''nonce'' \<noteq> expectedNonce then Some ClaimNonce
      else if (if cfg_RequireVerifiedEmail cfg then cs ''email_verified'' \<noteq> Some (ClaimBool True)
               else cs ''email_verified'' = Some (ClaimBool False)) then Some ClaimUnverified
      else None)"

definition identityFromClaims ::
  "auth_config \<Rightarrow> (string \<Rightarrow> string option) \<Rightarrow> gotime \<Rightarrow> claims \<Rightarrow> user option" where
  "identityFromClaims cfg parse now cs =
     (let email = to_lower (trim_space (string_claim cs ''email''));
          parts = split_on (CHR ''@'') (to_lower email);
          roles = claimValues (cs (cfg_RoleClaim cfg));
          name = firstStringClaim cs [''name'', ''preferred_username'', ''email'']
      in if string_claim cs ''sub'' = [] \<or> \<not> validEmail parse email then None
         else if cfg_AllowedDomains cfg \<noteq> [] \<and> (length parts \<noteq> 2 \<or> \<not> containsFold_auth (cfg_AllowedDomains cfg) (parts ! 1)) then None
         else if cfg_AllowedValues cfg \<noteq> [] \<and> \<not> intersectsFold roles (cfg_AllowedValues cfg) then None
         else Some (zero_user
           \<lparr> usr_Name := (if name = [] then txt_auth_member else name), usr_Email := email,
             usr_Role := (if intersectsFold roles (cfg_OwnerValues cfg) then RoleOwner
                          else if intersectsFold roles (cfg_ReviewerValues cfg) then RoleReviewer else RoleDeveloper),
             usr_IdentityProvider := cfg_Issuer cfg, usr_Subject := string_claim cs ''sub'', usr_LastLoginAt := Some now \<rparr>))"

text \<open>The keys of the provider. An exponent is read byte by byte into a 64-bit integer.\<close>

record jwk =
  jwk_Kty :: string
  jwk_Kid :: string
  jwk_Use :: string
  jwk_N :: string
  jwk_E :: string

definition exponent_of :: "string \<Rightarrow> int" where
  "exponent_of bytes = sint (fold (\<lambda>c e. push_bit 8 e + of_nat (of_char c)) bytes (0 :: 64 word))"

definition usable_key :: "string \<Rightarrow> jwk \<Rightarrow> bool" where
  "usable_key keyID k \<longleftrightarrow> \<not> (jwk_Kid k \<noteq> keyID \<or> jwk_Kty k \<noteq> ''RSA'' \<or> (jwk_Use k \<noteq> [] \<and> jwk_Use k \<noteq> ''sig''))"

definition rsa_key_of :: "string \<Rightarrow> jwk list \<Rightarrow> (string \<times> int) option" where
  "rsa_key_of keyID keys =
     (case List.find (usable_key keyID) keys of
        None \<Rightarrow> None
      | Some k \<Rightarrow>
          (case (base64_decode (jwk_N k), base64_decode (jwk_E k)) of
             (Some n, Some e) \<Rightarrow> if exponent_of e < 3 then None else Some (n, exponent_of e)
           | _ \<Rightarrow> None))"

text \<open>The answer of the provider is decoded over the keys of the last one, which live in the memory of a slice that
  is not cleared: the object at position \<open>i\<close> overwrites the fields it has of the key that was there, also beyond
  the end of the slice (\<open>kc_hidden\<close>), up to its capacity. An answer without keys leaves them, one with an empty list gets a
  new slice. Answers whose fields have other types than strings are not distinguished from failures.\<close>

record jwk_json =
  jj_Kty :: "string option"
  jj_Kid :: "string option"
  jj_Use :: "string option"
  jj_N :: "string option"
  jj_E :: "string option"

datatype key_answer = NoAnswer | NoKeys | Keys "jwk_json list"

definition zero_jwk :: jwk where
  "zero_jwk = \<lparr> jwk_Kty = [], jwk_Kid = [], jwk_Use = [], jwk_N = [], jwk_E = [] \<rparr>"

definition decode_over :: "jwk \<Rightarrow> jwk_json \<Rightarrow> jwk" where
  "decode_over k j =
     \<lparr> jwk_Kty = case_option (jwk_Kty k) id (jj_Kty j), jwk_Kid = case_option (jwk_Kid k) id (jj_Kid j),
       jwk_Use = case_option (jwk_Use k) id (jj_Use j), jwk_N = case_option (jwk_N k) id (jj_N j),
       jwk_E = case_option (jwk_E k) id (jj_E j) \<rparr>"

fun decode_keys :: "jwk list \<Rightarrow> jwk_json list \<Rightarrow> jwk list" where
  "decode_keys memory [] = []"
| "decode_keys [] (j # js) = decode_over zero_jwk j # decode_keys [] js"
| "decode_keys (k # memory) (j # js) = decode_over k j # decode_keys memory js"

record key_cache =
  kc_keys :: "jwk list"
  kc_hidden :: "jwk list"
  kc_expiry :: gotime

definition refreshed_keys :: "gotime \<Rightarrow> key_answer \<Rightarrow> key_cache \<Rightarrow> key_cache option" where
  "refreshed_keys now answer cache =
     (case answer of
        NoAnswer \<Rightarrow> None
      | NoKeys \<Rightarrow> Some (cache\<lparr> kc_expiry := now + hour \<rparr>)
      | Keys js \<Rightarrow>
          let memory = kc_keys cache @ kc_hidden cache in
          Some \<lparr> kc_keys = decode_keys memory js, kc_hidden = (if js = [] then [] else drop (length js) memory),
                 kc_expiry = now + hour \<rparr>)"

text \<open>The keys are kept for an hour; \<open>answer\<close> is what the provider answers, if it is asked.\<close>

definition rsaKey ::
  "gotime \<Rightarrow> key_answer \<Rightarrow> string \<Rightarrow> bool \<Rightarrow> key_cache \<Rightarrow> (string \<times> int) option \<times> key_cache" where
  "rsaKey now answer keyID force cache =
     (if \<not> force \<and> kc_keys cache \<noteq> [] \<and> now < kc_expiry cache then (rsa_key_of keyID (kc_keys cache), cache)
      else case refreshed_keys now answer cache of
             None \<Rightarrow> (None, cache)
           | Some cache' \<Rightarrow> (rsa_key_of keyID (kc_keys cache'), cache'))"

text \<open>The outside of the verification: the JSON parser, the RSA check (key, algorithm, text, signature) and the
  answers of the provider to the two requests for its keys.\<close>

record token_world =
  tw_json :: "string \<Rightarrow> claims option"
  tw_rsa :: "string \<times> int \<Rightarrow> string \<Rightarrow> string \<Rightarrow> string \<Rightarrow> bool"
  tw_keys :: "bool \<Rightarrow> key_answer"

definition signing_key :: "gotime \<Rightarrow> token_world \<Rightarrow> string \<Rightarrow> key_cache \<Rightarrow> (string \<times> int) option \<times> key_cache" where
  "signing_key now w keyID cache =
     (case rsaKey now (tw_keys w False) keyID False cache of
        (Some k, cache') \<Rightarrow> (Some k, cache')
      | (None, cache') \<Rightarrow> rsaKey now (tw_keys w True) keyID True cache')"

definition verifyIDToken ::
  "auth_config \<Rightarrow> gotime \<Rightarrow> token_world \<Rightarrow> string \<Rightarrow> string \<Rightarrow> key_cache \<Rightarrow> claims option \<times> key_cache" where
  "verifyIDToken cfg now w raw expectedNonce cache =
     (case split_on (CHR ''.'') raw of
        [a, b, c] \<Rightarrow>
          (case (base64_decode a, base64_decode b, base64_decode c) of
             (Some ha, Some cb, Some signature) \<Rightarrow>
               (case (tw_json w ha, tw_json w cb) of
                  (Some header, Some cs) \<Rightarrow>
                    let alg = string_claim header ''alg''; keyID = string_claim header ''kid'' in
                    if keyID = [] \<or> alg \<notin> set [''RS256'', ''RS384'', ''RS512''] then (None, cache)
                    else (case signing_key now w keyID cache of
                            (None, cache') \<Rightarrow> (None, cache')
                          | (Some k, cache') \<Rightarrow>
                              if \<not> tw_rsa w k alg (a @ ''.'' @ b) signature then (None, cache')
                              else if validateClaims cfg now cs expectedNonce \<noteq> None then (None, cache')
                              else (Some cs, cache'))
                | _ \<Rightarrow> (None, cache))
           | _ \<Rightarrow> (None, cache))
      | _ \<Rightarrow> (None, cache))"

text \<open>A token of three parts holds the claims and is signed over its first two parts, with one of the RSA algorithms and
  the key that the provider publishes under the identifier in the token.\<close>

definition signed_claims :: "gotime \<Rightarrow> token_world \<Rightarrow> string \<Rightarrow> key_cache \<Rightarrow> claims \<Rightarrow> bool" where
  "signed_claims now w raw cache cs \<longleftrightarrow>
     (\<exists>a b c ha cb header signature k.
        raw = a @ ''.'' @ b @ ''.'' @ c \<and> base64_decode a = Some ha \<and> base64_decode b = Some cb \<and> base64_decode c = Some signature
        \<and> tw_json w ha = Some header \<and> tw_json w cb = Some cs
        \<and> string_claim header ''alg'' \<in> {''RS256'', ''RS384'', ''RS512''} \<and> string_claim header ''kid'' \<noteq> []
        \<and> fst (signing_key now w (string_claim header ''kid'') cache) = Some k
        \<and> tw_rsa w k (string_claim header ''alg'') (a @ ''.'' @ b) signature)"

lemma verifyIDToken_Some:
  assumes "verifyIDToken cfg now w raw expectedNonce cache = (Some cs, cache')"
  shows "validateClaims cfg now cs expectedNonce = None" "signed_claims now w raw cache cs"
proof -
  from assms obtain a b c where s: "split_on (CHR ''.'') raw = [a, b, c]"
    by (auto simp: verifyIDToken_def split: list.splits)
  then have r: "raw = a @ ''.'' @ b @ ''.'' @ c" using join_split [of "CHR ''.''" raw] by simp
  obtain ha cb signature where d: "base64_decode a = Some ha" "base64_decode b = Some cb" "base64_decode c = Some signature"
    using assms s by (auto simp: verifyIDToken_def split: option.splits)
  obtain header where h: "tw_json w ha = Some header" "tw_json w cb = Some cs"
    using assms s d by (auto simp: verifyIDToken_def Let_def split: option.splits if_splits prod.splits)
  have v: "validateClaims cfg now cs expectedNonce = None" "string_claim header ''kid'' \<noteq> []"
      "string_claim header ''alg'' \<in> {''RS256'', ''RS384'', ''RS512''}"
    using assms s d h by (auto simp: verifyIDToken_def Let_def split: option.splits if_splits prod.splits)
  have "\<exists>k. fst (signing_key now w (string_claim header ''kid'') cache) = Some k
      \<and> tw_rsa w k (string_claim header ''alg'') (a @ ''.'' @ b) signature"
    using assms s d h by (auto simp: verifyIDToken_def Let_def split: option.splits if_splits prod.splits)
  with r d h v(2,3) show "signed_claims now w raw cache cs" unfolding signed_claims_def by blast
  show "validateClaims cfg now cs expectedNonce = None" by (rule v(1))
qed

lemma validateClaims_None:
  assumes "validateClaims cfg now cs expectedNonce = None"
  shows "string_claim cs ''iss'' = cfg_Issuer cfg" "expectedNonce \<noteq> []" "string_claim cs ''nonce'' = expectedNonce"
    "\<exists>t. numberClaim (cs ''exp'') = Some t \<and> now \<le> unix_time t + 2 * minute" "containsFold_auth (claimValues (cs ''aud'')) (cfg_ClientID cfg)"
  using assms by (auto simp: validateClaims_def audienceContains_def split: if_splits option.splits)

text \<open>A key that the provider publishes without a use, in the place of a key it published before for another
  use, is refused until the process restarts, because the answer is decoded over the old keys; with no keys
  kept the same answer is taken as it is.\<close>

lemma rotated_key_refused:
  assumes "jj_Use j = None" "jwk_Use old \<noteq> []" "jwk_Use old \<noteq> ''sig''"
  shows "fst (rsaKey now (Keys [j]) keyID True \<lparr> kc_keys = old # rest, kc_hidden = hidden, kc_expiry = t \<rparr>) = None
    \<and> fst (rsaKey now (Keys [j]) keyID True \<lparr> kc_keys = [], kc_hidden = [], kc_expiry = t \<rparr>)
        = rsa_key_of keyID [decode_over zero_jwk j]"
  using assms by (simp add: rsaKey_def refreshed_keys_def decode_over_def rsa_key_of_def usable_key_def)

definition sample_jwk :: jwk_json where
  "sample_jwk = \<lparr> jj_Kty = Some ''RSA'', jj_Kid = Some ''k2'', jj_Use = None, jj_N = Some ''AQAB'', jj_E = Some ''AQAB'' \<rparr>"

definition encryption_jwk :: jwk where
  "encryption_jwk = \<lparr> jwk_Kty = ''RSA'', jwk_Kid = ''k1'', jwk_Use = ''enc'', jwk_N = ''AQAB'', jwk_E = ''AQAB'' \<rparr>"

lemma rotated_key_refused_witness:
  "fst (rsaKey 10 (Keys [sample_jwk]) ''k2'' True \<lparr> kc_keys = [encryption_jwk], kc_hidden = [], kc_expiry = 5 \<rparr>) = None
   \<and> fst (rsaKey 10 (Keys [sample_jwk]) ''k2'' True \<lparr> kc_keys = [], kc_hidden = [], kc_expiry = 5 \<rparr>)
       = Some ([CHR 0x01, CHR 0x00, CHR 0x01], 65537)"
proof -
  have "rsa_key_of ''k2'' [decode_over zero_jwk sample_jwk] = Some ([CHR 0x01, CHR 0x00, CHR 0x01], 65537)" by code_simp
  with rotated_key_refused [of sample_jwk encryption_jwk 10 "''k2''" "[]" "[]" 5] show ?thesis
    by (simp add: sample_jwk_def encryption_jwk_def)
qed

end
