(* ===== verification/DefaultRules.thy ===== *)
theory DefaultRules
  imports Redact
begin

text \<open>
  The rules a new enterprise starts with (\<^verbatim>\<open>DefaultRiskPolicies\<close> of \<^verbatim>\<open>internal/model/policy.go\<close>), one
  definition per rule; texts outside ASCII are written as their UTF-8 bytes.
\<close>

definition builtin_rule ::
  "string \<Rightarrow> string \<Rightarrow> string \<Rightarrow> string \<Rightarrow> string \<Rightarrow> risk_level \<Rightarrow> bool \<Rightarrow> string list \<Rightarrow> string \<Rightarrow> risk_policy" where
  "builtin_rule i code name description pat severity blocking kinds suggestion =
     zero_risk_policy
       \<lparr> pol_ID := i, pol_Code := code, pol_Name := name, pol_Description := description, pol_Pattern := pat,
         pol_Severity := severity, pol_Blocking := blocking, pol_Enabled := True, pol_Builtin := True,
         pol_ArtifactKinds := kinds, pol_Suggestion := suggestion \<rparr>"

definition rule_empty_sql :: risk_policy where
  "rule_empty_sql =
     builtin_rule ''pol_empty_sql'' ''EMPTY_SQL''
     ([CHR 0xE5, CHR 0x8F, CHR 0x98, CHR 0xE6, CHR 0x9B, CHR 0xB4] @ '' SQL '' @ [CHR 0xE4, CHR 0xB8, CHR 0x8D,
     CHR 0xE8, CHR 0x83, CHR 0xBD, CHR 0xE4, CHR 0xB8, CHR 0xBA, CHR 0xE7, CHR 0xA9, CHR 0xBA])
     ([CHR 0xE9, CHR 0x98, CHR 0xBB, CHR 0xE6, CHR 0xAD, CHR 0xA2, CHR 0xE6, CHR 0xB2, CHR 0xA1, CHR 0xE6,
     CHR 0x9C, CHR 0x89, CHR 0xE6, CHR 0x89, CHR 0xA7, CHR 0xE8, CHR 0xA1, CHR 0x8C, CHR 0xE8, CHR 0xAF, CHR 0xAD,
     CHR 0xE5, CHR 0x8F, CHR 0xA5, CHR 0xE7, CHR 0x9A, CHR 0x84, CHR 0xE7, CHR 0xA9, CHR 0xBA, CHR 0xE5, CHR 0x8F,
     CHR 0x98, CHR 0xE6, CHR 0x9B, CHR 0xB4, CHR 0xE5, CHR 0x8D, CHR 0x95, CHR 0xE8, CHR 0xBF, CHR 0x9B, CHR 0xE5,
     CHR 0x85, CHR 0xA5, CHR 0xE5, CHR 0x90, CHR 0x8E, CHR 0xE7, CHR 0xBB, CHR 0xAD, CHR 0xE6, CHR 0xB5, CHR 0x81,
     CHR 0xE7, CHR 0xA8, CHR 0x8B, CHR 0xE3, CHR 0x80, CHR 0x82])
     [] RiskHigh True []
     ([CHR 0xE8, CHR 0xA1, CHR 0xA5, CHR 0xE5, CHR 0x85, CHR 0x85, CHR 0xE9, CHR 0x9C, CHR 0x80, CHR 0xE8,
     CHR 0xA6, CHR 0x81, CHR 0xE6, CHR 0x89, CHR 0xA7, CHR 0xE8, CHR 0xA1, CHR 0x8C, CHR 0xE7, CHR 0x9A,
     CHR 0x84] @ '' SQL '' @ [CHR 0xE5, CHR 0x90, CHR 0x8E, CHR 0xE9, CHR 0x87, CHR 0x8D, CHR 0xE6, CHR 0x96,
     CHR 0xB0, CHR 0xE6, CHR 0x8F, CHR 0x90, CHR 0xE4, CHR 0xBA, CHR 0xA4, CHR 0xE3, CHR 0x80, CHR 0x82])"

definition rule_missing_rollback :: risk_policy where
  "rule_missing_rollback =
     builtin_rule ''pol_missing_rollback'' ''MISSING_ROLLBACK''
     ([CHR 0xE5, CHR 0xBF, CHR 0x85, CHR 0xE9, CHR 0xA1, CHR 0xBB, CHR 0xE6, CHR 0x8F, CHR 0x90, CHR 0xE4,
     CHR 0xBE, CHR 0x9B, CHR 0xE5, CHR 0x9B, CHR 0x9E, CHR 0xE6, CHR 0xBB, CHR 0x9A, CHR 0xE6, CHR 0x96, CHR 0xB9,
     CHR 0xE6, CHR 0xA1, CHR 0x88])
     ([CHR 0xE7, CHR 0x94, CHR 0x9F, CHR 0xE4, CHR 0xBA, CHR 0xA7, CHR 0xE6, CHR 0x95, CHR 0xB0, CHR 0xE6,
     CHR 0x8D, CHR 0xAE, CHR 0xE5, CHR 0xBA, CHR 0x93, CHR 0xE5, CHR 0x8F, CHR 0x98, CHR 0xE6, CHR 0x9B, CHR 0xB4,
     CHR 0xE5, CHR 0xBF, CHR 0x85, CHR 0xE9, CHR 0xA1, CHR 0xBB, CHR 0xE7, CHR 0x99, CHR 0xBB, CHR 0xE8, CHR 0xAE,
     CHR 0xB0, CHR 0xE5, CHR 0x8F, CHR 0xAF, CHR 0xE4, CHR 0xBB, CHR 0xA5, CHR 0xE9, CHR 0xAA, CHR 0x8C, CHR 0xE8,
     CHR 0xAF, CHR 0x81, CHR 0xE7, CHR 0x9A, CHR 0x84, CHR 0xE5, CHR 0x9B, CHR 0x9E, CHR 0xE6, CHR 0xBB,
     CHR 0x9A] @ '' SQL'' @ [CHR 0xE3, CHR 0x80, CHR 0x82])
     [] RiskMedium True []
     ([CHR 0xE8, CHR 0xA1, CHR 0xA5, CHR 0xE5, CHR 0x85, CHR 0x85, CHR 0xE5, CHR 0x9B, CHR 0x9E, CHR 0xE6,
     CHR 0xBB, CHR 0x9A] @ '' SQL'' @ [CHR 0xEF, CHR 0xBC, CHR 0x8C, CHR 0xE6, CHR 0x97, CHR 0xA0, CHR 0xE6,
     CHR 0xB3, CHR 0x95, CHR 0xE5, CHR 0x9B, CHR 0x9E, CHR 0xE6, CHR 0xBB, CHR 0x9A, CHR 0xE6, CHR 0x97, CHR 0xB6,
     CHR 0xE9, CHR 0x9C, CHR 0x80, CHR 0xE8, CHR 0xB5, CHR 0xB0, CHR 0xE7, CHR 0x8B, CHR 0xAC, CHR 0xE7, CHR 0xAB,
     CHR 0x8B, CHR 0xE9, CHR 0xAB, CHR 0x98, CHR 0xE9, CHR 0xA3, CHR 0x8E, CHR 0xE9, CHR 0x99, CHR 0xA9, CHR 0xE5,
     CHR 0xAE, CHR 0xA1, CHR 0xE6, CHR 0x89, CHR 0xB9, CHR 0xE3, CHR 0x80, CHR 0x82])"

definition rule_many_statements :: risk_policy where
  "rule_many_statements =
     builtin_rule ''pol_many_statements'' ''TOO_MANY_STATEMENTS''
     ([CHR 0xE9, CHR 0x99, CHR 0x90, CHR 0xE5, CHR 0x88, CHR 0xB6, CHR 0xE5, CHR 0x8D, CHR 0x95, CHR 0xE6,
     CHR 0xAC, CHR 0xA1] @ '' SQL '' @ [CHR 0xE8, CHR 0xAF, CHR 0xAD, CHR 0xE5, CHR 0x8F, CHR 0xA5, CHR 0xE6,
     CHR 0x95, CHR 0xB0, CHR 0xE9, CHR 0x87, CHR 0x8F])
     ([CHR 0xE5, CHR 0x8D, CHR 0x95, CHR 0xE4, CHR 0xB8, CHR 0xAA, CHR 0xE5, CHR 0x8F, CHR 0x98, CHR 0xE6,
     CHR 0x9B, CHR 0xB4, CHR 0xE5, CHR 0x8C, CHR 0x85, CHR 0xE5, CHR 0x90, CHR 0xAB, CHR 0xE8, CHR 0xBF, CHR 0x87,
     CHR 0xE5, CHR 0xA4, CHR 0x9A, CHR 0xE8, CHR 0xAF, CHR 0xAD, CHR 0xE5, CHR 0x8F, CHR 0xA5, CHR 0xE6, CHR 0x97,
     CHR 0xB6, CHR 0xEF, CHR 0xBC, CHR 0x8C, CHR 0xE5, CHR 0xA4, CHR 0xB1, CHR 0xE8, CHR 0xB4, CHR 0xA5, CHR 0xE5,
     CHR 0xAE, CHR 0x9A, CHR 0xE4, CHR 0xBD, CHR 0x8D, CHR 0xE5, CHR 0x92, CHR 0x8C, CHR 0xE5, CHR 0x9B, CHR 0x9E,
     CHR 0xE6, CHR 0xBB, CHR 0x9A, CHR 0xE6, CHR 0x88, CHR 0x90, CHR 0xE6, CHR 0x9C, CHR 0xAC, CHR 0xE6, CHR 0x98,
     CHR 0xBE, CHR 0xE8, CHR 0x91, CHR 0x97, CHR 0xE5, CHR 0xA2, CHR 0x9E, CHR 0xE5, CHR 0x8A, CHR 0xA0, CHR 0xE3,
     CHR 0x80, CHR 0x82])
     [] RiskMedium False []
     ([CHR 0xE6, CHR 0x8C, CHR 0x89, CHR 0xE4, CHR 0xB8, CHR 0x9A, CHR 0xE5, CHR 0x8A, CHR 0xA1, CHR 0xE7,
     CHR 0x9B, CHR 0xAE, CHR 0xE6, CHR 0xA0, CHR 0x87, CHR 0xE5, CHR 0x92, CHR 0x8C, CHR 0xE5, CHR 0x9B, CHR 0x9E,
     CHR 0xE6, CHR 0xBB, CHR 0x9A, CHR 0xE8, CHR 0xBE, CHR 0xB9, CHR 0xE7, CHR 0x95, CHR 0x8C, CHR 0xE6, CHR 0x8B,
     CHR 0x86, CHR 0xE5, CHR 0x88, CHR 0x86, CHR 0xE5, CHR 0x8F, CHR 0x98, CHR 0xE6, CHR 0x9B, CHR 0xB4, CHR 0xE5,
     CHR 0x8D, CHR 0x95, CHR 0xE3, CHR 0x80, CHR 0x82])"

definition rule_update_all :: risk_policy where
  "rule_update_all =
     builtin_rule ''pol_update_all'' ''UPDATE_WITHOUT_WHERE''
     ([CHR 0xE7, CHR 0xA6, CHR 0x81, CHR 0xE6, CHR 0xAD, CHR 0xA2, CHR 0xE6, CHR 0x97, CHR 0xA0, CHR 0xE6,
     CHR 0x9D, CHR 0xA1, CHR 0xE4, CHR 0xBB, CHR 0xB6, CHR 0xE5, CHR 0x85, CHR 0xA8, CHR 0xE8, CHR 0xA1, CHR 0xA8,
     CHR 0xE6, CHR 0x9B, CHR 0xB4, CHR 0xE6, CHR 0x96, CHR 0xB0])
     (''UPDATE '' @ [CHR 0xE7, CHR 0xBC, CHR 0xBA, CHR 0xE5, CHR 0xB0, CHR 0x91] @ '' WHERE '' @ [CHR 0xE6,
     CHR 0x97, CHR 0xB6, CHR 0xE5, CHR 0x8F, CHR 0xAF, CHR 0xE8, CHR 0x83, CHR 0xBD, CHR 0xE4, CHR 0xBF, CHR 0xAE,
     CHR 0xE6, CHR 0x94, CHR 0xB9, CHR 0xE6, CHR 0x95, CHR 0xB4, CHR 0xE5, CHR 0xBC, CHR 0xA0, CHR 0xE8, CHR 0xA1,
     CHR 0xA8, CHR 0xE3, CHR 0x80, CHR 0x82])
     [] RiskHigh True []
     ([CHR 0xE8, CHR 0xA1, CHR 0xA5, CHR 0xE5, CHR 0x85, CHR 0x85, CHR 0xE6, CHR 0x98, CHR 0x8E, CHR 0xE7,
     CHR 0xA1, CHR 0xAE, CHR 0xE6, CHR 0x9D, CHR 0xA1, CHR 0xE4, CHR 0xBB, CHR 0xB6, CHR 0xEF, CHR 0xBC, CHR 0x8C,
     CHR 0xE5, CHR 0xB9, CHR 0xB6, CHR 0xE5, CHR 0x85, CHR 0x88, CHR 0xE7, CHR 0x94, CHR 0xA8] @ '' SELECT '' @
     [CHR 0xE6, CHR 0xA0, CHR 0xB8, CHR 0xE5, CHR 0xAF, CHR 0xB9, CHR 0xE5, CHR 0xBD, CHR 0xB1, CHR 0xE5,
     CHR 0x93, CHR 0x8D, CHR 0xE8, CHR 0x8C, CHR 0x83, CHR 0xE5, CHR 0x9B, CHR 0xB4, CHR 0xE3, CHR 0x80, CHR 0x82])"

definition rule_delete_all :: risk_policy where
  "rule_delete_all =
     builtin_rule ''pol_delete_all'' ''DELETE_WITHOUT_WHERE''
     ([CHR 0xE7, CHR 0xA6, CHR 0x81, CHR 0xE6, CHR 0xAD, CHR 0xA2, CHR 0xE6, CHR 0x97, CHR 0xA0, CHR 0xE6,
     CHR 0x9D, CHR 0xA1, CHR 0xE4, CHR 0xBB, CHR 0xB6, CHR 0xE5, CHR 0x85, CHR 0xA8, CHR 0xE8, CHR 0xA1, CHR 0xA8,
     CHR 0xE5, CHR 0x88, CHR 0xA0, CHR 0xE9, CHR 0x99, CHR 0xA4])
     (''DELETE '' @ [CHR 0xE7, CHR 0xBC, CHR 0xBA, CHR 0xE5, CHR 0xB0, CHR 0x91] @ '' WHERE '' @ [CHR 0xE6,
     CHR 0x97, CHR 0xB6, CHR 0xE5, CHR 0x8F, CHR 0xAF, CHR 0xE8, CHR 0x83, CHR 0xBD, CHR 0xE5, CHR 0x88, CHR 0xA0,
     CHR 0xE9, CHR 0x99, CHR 0xA4, CHR 0xE6, CHR 0x95, CHR 0xB4, CHR 0xE5, CHR 0xBC, CHR 0xA0, CHR 0xE8, CHR 0xA1,
     CHR 0xA8, CHR 0xE6, CHR 0x95, CHR 0xB0, CHR 0xE6, CHR 0x8D, CHR 0xAE, CHR 0xE3, CHR 0x80, CHR 0x82])
     [] RiskHigh True []
     ([CHR 0xE8, CHR 0xA1, CHR 0xA5, CHR 0xE5, CHR 0x85, CHR 0x85, CHR 0xE6, CHR 0x98, CHR 0x8E, CHR 0xE7,
     CHR 0xA1, CHR 0xAE, CHR 0xE6, CHR 0x9D, CHR 0xA1, CHR 0xE4, CHR 0xBB, CHR 0xB6, CHR 0xE5, CHR 0xB9, CHR 0xB6,
     CHR 0xE7, CHR 0xA1, CHR 0xAE, CHR 0xE8, CHR 0xAE, CHR 0xA4, CHR 0xE5, CHR 0xA4, CHR 0x87, CHR 0xE4, CHR 0xBB,
     CHR 0xBD, CHR 0xE5, CHR 0x92, CHR 0x8C, CHR 0xE5, CHR 0xBD, CHR 0xB1, CHR 0xE5, CHR 0x93, CHR 0x8D, CHR 0xE8,
     CHR 0xA1, CHR 0x8C, CHR 0xE6, CHR 0x95, CHR 0xB0, CHR 0xE3, CHR 0x80, CHR 0x82])"

definition rule_not_null_default :: risk_policy where
  "rule_not_null_default =
     builtin_rule ''pol_not_null_default'' ''ADD_NOT_NULL_WITHOUT_DEFAULT''
     ([CHR 0xE6, CHR 0x96, CHR 0xB0, CHR 0xE5, CHR 0xA2, CHR 0x9E, CHR 0xE9, CHR 0x9D, CHR 0x9E, CHR 0xE7,
     CHR 0xA9, CHR 0xBA, CHR 0xE5, CHR 0xAD, CHR 0x97, CHR 0xE6, CHR 0xAE, CHR 0xB5, CHR 0xE5, CHR 0xBF, CHR 0x85,
     CHR 0xE9, CHR 0xA1, CHR 0xBB, CHR 0xE6, CHR 0x8F, CHR 0x90, CHR 0xE4, CHR 0xBE, CHR 0x9B, CHR 0xE8, CHR 0xBF,
     CHR 0x81, CHR 0xE7, CHR 0xA7, CHR 0xBB, CHR 0xE6, CHR 0x96, CHR 0xB9, CHR 0xE6, CHR 0xA1, CHR 0x88])
     ([CHR 0xE5, CHR 0x8E, CHR 0x86, CHR 0xE5, CHR 0x8F, CHR 0xB2, CHR 0xE6, CHR 0x95, CHR 0xB0, CHR 0xE6,
     CHR 0x8D, CHR 0xAE, CHR 0xE6, CHR 0x97, CHR 0xA0, CHR 0xE6, CHR 0xB3, CHR 0x95, CHR 0xE7, CHR 0x9B, CHR 0xB4,
     CHR 0xE6, CHR 0x8E, CHR 0xA5, CHR 0xE6, CHR 0xBB, CHR 0xA1, CHR 0xE8, CHR 0xB6, CHR 0xB3, CHR 0xE6, CHR 0x96,
     CHR 0xB0, CHR 0xE5, CHR 0xA2, CHR 0x9E, CHR 0xE9, CHR 0x9D, CHR 0x9E, CHR 0xE7, CHR 0xA9, CHR 0xBA, CHR 0xE7,
     CHR 0xBA, CHR 0xA6, CHR 0xE6, CHR 0x9D, CHR 0x9F, CHR 0xE3, CHR 0x80, CHR 0x82])
     [] RiskHigh True []
     ([CHR 0xE5, CHR 0x85, CHR 0x88, CHR 0xE5, CHR 0xA2, CHR 0x9E, CHR 0xE5, CHR 0x8A, CHR 0xA0, CHR 0xE5,
     CHR 0x8F, CHR 0xAF, CHR 0xE7, CHR 0xA9, CHR 0xBA, CHR 0xE5, CHR 0xAD, CHR 0x97, CHR 0xE6, CHR 0xAE, CHR 0xB5,
     CHR 0xEF, CHR 0xBC, CHR 0x8C, CHR 0xE5, CHR 0x88, CHR 0x86, CHR 0xE6, CHR 0x89, CHR 0xB9, CHR 0xE5, CHR 0x9B,
     CHR 0x9E, CHR 0xE5, CHR 0xA1, CHR 0xAB, CHR 0xE5, CHR 0x90, CHR 0x8E, CHR 0xE5, CHR 0x86, CHR 0x8D, CHR 0xE6,
     CHR 0xB7, CHR 0xBB, CHR 0xE5, CHR 0x8A, CHR 0xA0, CHR 0xE9, CHR 0x9D, CHR 0x9E, CHR 0xE7, CHR 0xA9, CHR 0xBA,
     CHR 0xE7, CHR 0xBA, CHR 0xA6, CHR 0xE6, CHR 0x9D, CHR 0x9F, CHR 0xE3, CHR 0x80, CHR 0x82])"

definition rule_index_concurrent :: risk_policy where
  "rule_index_concurrent =
     builtin_rule ''pol_index_concurrent'' ''INDEX_NOT_CONCURRENT''
     ([CHR 0xE9, CHR 0xAB, CHR 0x98, CHR 0xE5, CHR 0x86, CHR 0x99, CHR 0xE5, CHR 0x85, CHR 0xA5, CHR 0xE8,
     CHR 0xA1, CHR 0xA8, CHR 0xE7, CHR 0xB4, CHR 0xA2, CHR 0xE5, CHR 0xBC, CHR 0x95, CHR 0xE5, CHR 0xB9, CHR 0xB6,
     CHR 0xE5, CHR 0x8F, CHR 0x91, CHR 0xE5, CHR 0x88, CHR 0x9B, CHR 0xE5, CHR 0xBB, CHR 0xBA])
     ([CHR 0xE7, CHR 0x9B, CHR 0xB4, CHR 0xE6, CHR 0x8E, CHR 0xA5, CHR 0xE5, CHR 0x88, CHR 0x9B, CHR 0xE5,
     CHR 0xBB, CHR 0xBA, CHR 0xE7, CHR 0xB4, CHR 0xA2, CHR 0xE5, CHR 0xBC, CHR 0x95, CHR 0xE5, CHR 0x8F, CHR 0xAF,
     CHR 0xE8, CHR 0x83, CHR 0xBD, CHR 0xE6, CHR 0x89, CHR 0xA9, CHR 0xE5, CHR 0xA4, CHR 0xA7, CHR 0xE9, CHR 0x94,
     CHR 0x81, CHR 0xE7, CHR 0xAD, CHR 0x89, CHR 0xE5, CHR 0xBE, CHR 0x85, CHR 0xE7, CHR 0xAA, CHR 0x97, CHR 0xE5,
     CHR 0x8F, CHR 0xA3, CHR 0xE3, CHR 0x80, CHR 0x82])
     [] RiskMedium False []
     ([CHR 0xE8, CHR 0xAF, CHR 0x84, CHR 0xE4, CHR 0xBC, CHR 0xB0, CHR 0xE4, CHR 0xBD, CHR 0xBF, CHR 0xE7,
     CHR 0x94, CHR 0xA8] @ '' CONCURRENTLY'' @ [CHR 0xEF, CHR 0xBC, CHR 0x8C, CHR 0xE5, CHR 0xB9, CHR 0xB6,
     CHR 0xE5, CHR 0x9C, CHR 0xA8, CHR 0xE4, CHR 0xBD, CHR 0x8E, CHR 0xE5, CHR 0xB3, CHR 0xB0, CHR 0xE6, CHR 0x9C,
     CHR 0x9F, CHR 0xE8, CHR 0xA7, CHR 0x82, CHR 0xE5, CHR 0xAF, CHR 0x9F, CHR 0xE9, CHR 0x94, CHR 0x81, CHR 0xE7,
     CHR 0xAD, CHR 0x89, CHR 0xE5, CHR 0xBE, CHR 0x85, CHR 0xE3, CHR 0x80, CHR 0x82])"

definition rule_unbatched_dml :: risk_policy where
  "rule_unbatched_dml =
     builtin_rule ''pol_unbatched_dml'' ''UNBATCHED_LARGE_DML''
     ([CHR 0xE5, CHR 0xA4, CHR 0xA7, CHR 0xE6, CHR 0x89, CHR 0xB9, CHR 0xE9, CHR 0x87, CHR 0x8F] @ '' DML '' @
     [CHR 0xE7, CHR 0xBC, CHR 0xBA, CHR 0xE5, CHR 0xB0, CHR 0x91, CHR 0xE5, CHR 0x88, CHR 0x86, CHR 0xE6,
     CHR 0x89, CHR 0xB9, CHR 0xE8, CHR 0xBE, CHR 0xB9, CHR 0xE7, CHR 0x95, CHR 0x8C])
     ([CHR 0xE6, CHR 0x97, CHR 0xA0] @ '' LIMIT/'' @ [CHR 0xE5, CHR 0x88, CHR 0x86, CHR 0xE6, CHR 0x89, CHR 0xB9,
     CHR 0xE4, CHR 0xB8, CHR 0x8A, CHR 0xE9, CHR 0x99, CHR 0x90, CHR 0xE7, CHR 0x9A, CHR 0x84] @
     '' UPDATE/DELETE '' @ [CHR 0xE5, CHR 0xAE, CHR 0xB9, CHR 0xE6, CHR 0x98, CHR 0x93, CHR 0xE5, CHR 0xBD,
     CHR 0xA2, CHR 0xE6, CHR 0x88, CHR 0x90, CHR 0xE5, CHR 0xA4, CHR 0xA7, CHR 0xE4, CHR 0xBA, CHR 0x8B, CHR 0xE5,
     CHR 0x8A, CHR 0xA1, CHR 0xEF, CHR 0xBC, CHR 0x8C, CHR 0xE6, CHR 0x94, CHR 0xBE, CHR 0xE5, CHR 0xA4, CHR 0xA7,
     CHR 0xE9, CHR 0x94, CHR 0x81, CHR 0xE6, CHR 0x8C, CHR 0x81, CHR 0xE6, CHR 0x9C, CHR 0x89, CHR 0xE6, CHR 0x97,
     CHR 0xB6, CHR 0xE9, CHR 0x97, CHR 0xB4, CHR 0xE5, CHR 0x92, CHR 0x8C] @ '' WAL/'' @ [CHR 0xE5, CHR 0x9B,
     CHR 0x9E, CHR 0xE6, CHR 0xBB, CHR 0x9A, CHR 0xE6, CHR 0x88, CHR 0x90, CHR 0xE6, CHR 0x9C, CHR 0xAC, CHR 0xE3,
     CHR 0x80, CHR 0x82])
     [] RiskMedium False []
     ([CHR 0xE6, CHR 0x8C, CHR 0x89, CHR 0xE4, CHR 0xB8, CHR 0xBB, CHR 0xE9, CHR 0x94, CHR 0xAE, CHR 0xE6,
     CHR 0x88, CHR 0x96, CHR 0xE6, CHR 0x97, CHR 0xB6, CHR 0xE9, CHR 0x97, CHR 0xB4, CHR 0xE7, CHR 0xAA, CHR 0x97,
     CHR 0xE5, CHR 0x8F, CHR 0xA3, CHR 0xE5, CHR 0x88, CHR 0x86, CHR 0xE6, CHR 0x89, CHR 0xB9, CHR 0xEF, CHR 0xBC,
     CHR 0x8C, CHR 0xE5, CHR 0x8D, CHR 0x95, CHR 0xE6, CHR 0x89, CHR 0xB9, CHR 0xE9, CHR 0x99, CHR 0x90, CHR 0xE5,
     CHR 0x88, CHR 0xB6, CHR 0xE8, CHR 0xA1, CHR 0x8C, CHR 0xE6, CHR 0x95, CHR 0xB0, CHR 0xE5, CHR 0xB9, CHR 0xB6,
     CHR 0xE6, CHR 0x8E, CHR 0xA7, CHR 0xE5, CHR 0x88, CHR 0xB6, CHR 0xE6, CHR 0x8F, CHR 0x90, CHR 0xE4, CHR 0xBA,
     CHR 0xA4, CHR 0xE8, CHR 0x8A, CHR 0x82, CHR 0xE5, CHR 0xA5, CHR 0x8F, CHR 0xEF, CHR 0xBC, CHR 0x9B, CHR 0xE7,
     CHR 0x94, CHR 0x9F, CHR 0xE4, CHR 0xBA, CHR 0xA7, CHR 0xE6, CHR 0x89, CHR 0xA7, CHR 0xE8, CHR 0xA1, CHR 0x8C,
     CHR 0xE5, CHR 0x89, CHR 0x8D, CHR 0xE5, CHR 0x9C, CHR 0xA8, CHR 0xE5, CHR 0xBD, CHR 0xB1, CHR 0xE5, CHR 0xAD,
     CHR 0x90, CHR 0xE5, CHR 0xBA, CHR 0x93, CHR 0xE9, CHR 0xAA, CHR 0x8C, CHR 0xE8, CHR 0xAF, CHR 0x81, CHR 0xE9,
     CHR 0x94, CHR 0x81, CHR 0xE7, CHR 0xAD, CHR 0x89, CHR 0xE5, CHR 0xBE, CHR 0x85, CHR 0xE3, CHR 0x80, CHR 0x82])"

definition rule_fk_not_valid :: risk_policy where
  "rule_fk_not_valid =
     builtin_rule ''pol_fk_not_valid'' ''FK_WITHOUT_NOT_VALID''
     ([CHR 0xE5, CHR 0xA4, CHR 0x96, CHR 0xE9, CHR 0x94, CHR 0xAE, CHR 0xE7, CHR 0xBA, CHR 0xA6, CHR 0xE6,
     CHR 0x9D, CHR 0x9F, CHR 0xE7, CHR 0xBC, CHR 0xBA, CHR 0xE5, CHR 0xB0, CHR 0x91] @ '' NOT VALID '' @
     [CHR 0xE5, CHR 0x88, CHR 0x86, CHR 0xE9, CHR 0x98, CHR 0xB6, CHR 0xE6, CHR 0xAE, CHR 0xB5])
     ([CHR 0xE7, CHR 0x9B, CHR 0xB4, CHR 0xE6, CHR 0x8E, CHR 0xA5] @ '' ADD FOREIGN KEY '' @ [CHR 0xE4, CHR 0xBC,
     CHR 0x9A, CHR 0xE5, CHR 0x9C, CHR 0xA8, CHR 0xE5, CHR 0x88, CHR 0x9B, CHR 0xE5, CHR 0xBB, CHR 0xBA, CHR 0xE6,
     CHR 0x97, CHR 0xB6, CHR 0xE6, CHR 0x89, CHR 0xAB, CHR 0xE6, CHR 0x8F, CHR 0x8F, CHR 0xE6, CHR 0x95, CHR 0xB4,
     CHR 0xE8, CHR 0xA1, CHR 0xA8, CHR 0xE6, CHR 0xA0, CHR 0xA1, CHR 0xE9, CHR 0xAA, CHR 0x8C, CHR 0xEF, CHR 0xBC,
     CHR 0x8C, CHR 0xE9, CHR 0x95, CHR 0xBF, CHR 0xE4, CHR 0xBA, CHR 0x8B, CHR 0xE5, CHR 0x8A, CHR 0xA1, CHR 0xE6,
     CHR 0x9C, CHR 0x9F, CHR 0xE9, CHR 0x97, CHR 0xB4, CHR 0xE6, CHR 0x8C, CHR 0x81, CHR 0xE6, CHR 0x9C,
     CHR 0x89] @ '' SHARE ROW EXCLUSIVE '' @ [CHR 0xE7, CHR 0xAD, CHR 0x89, CHR 0xE9, CHR 0x94, CHR 0x81,
     CHR 0xE3, CHR 0x80, CHR 0x82])
     [] RiskHigh True []
     ([CHR 0xE5, CHR 0x85, CHR 0x88] @ '' ADD CONSTRAINT ... NOT VALID'' @ [CHR 0xEF, CHR 0xBC, CHR 0x8C, CHR 0xE4,
     CHR 0xBD, CHR 0x8E, CHR 0xE5, CHR 0xB3, CHR 0xB0, CHR 0xE6, CHR 0x9C, CHR 0x9F, CHR 0xE5, CHR 0x86,
     CHR 0x8D] @ '' VALIDATE CONSTRAINT'' @ [CHR 0xEF, CHR 0xBC, CHR 0x9B, CHR 0xE6, CHR 0x88, CHR 0x96, CHR 0xE6,
     CHR 0x8B, CHR 0x86, CHR 0xE6, CHR 0x88, CHR 0x90, CHR 0xE7, CHR 0x8B, CHR 0xAC, CHR 0xE7, CHR 0xAB, CHR 0x8B,
     CHR 0xE7, CHR 0xBB, CHR 0xB4, CHR 0xE6, CHR 0x8A, CHR 0xA4, CHR 0xE7, CHR 0xAA, CHR 0x97, CHR 0xE5, CHR 0x8F,
     CHR 0xA3, CHR 0xE3, CHR 0x80, CHR 0x82])"

definition rule_select_for_update :: risk_policy where
  "rule_select_for_update =
     builtin_rule ''pol_select_for_update'' ''SELECT_FOR_UPDATE_UNBOUNDED''
     ([CHR 0xE6, CHR 0x97, CHR 0xA0, CHR 0xE8, CHR 0xBE, CHR 0xB9, CHR 0xE7, CHR 0x95, CHR 0x8C, CHR 0xE8,
     CHR 0xA1, CHR 0x8C, CHR 0xE9, CHR 0x94, CHR 0x81, CHR 0xE6, CHR 0x9F, CHR 0xA5, CHR 0xE8, CHR 0xAF, CHR 0xA2])
     (''SELECT ... FOR UPDATE '' @ [CHR 0xE7, CHR 0xBC, CHR 0xBA, CHR 0xE5, CHR 0xB0, CHR 0x91] @ '' LIMIT/'' @
     [CHR 0xE6, CHR 0x98, CHR 0x8E, CHR 0xE7, CHR 0xA1, CHR 0xAE, CHR 0xE4, CHR 0xB8, CHR 0xBB, CHR 0xE9,
     CHR 0x94, CHR 0xAE, CHR 0xE8, CHR 0x8C, CHR 0x83, CHR 0xE5, CHR 0x9B, CHR 0xB4, CHR 0xE6, CHR 0x97, CHR 0xB6,
     CHR 0xEF, CHR 0xBC, CHR 0x8C, CHR 0xE5, CHR 0x8F, CHR 0xAF, CHR 0xE8, CHR 0x83, CHR 0xBD, CHR 0xE9, CHR 0x94,
     CHR 0x81, CHR 0xE4, CHR 0xBD, CHR 0x8F, CHR 0xE8, CHR 0xBF, CHR 0x87, CHR 0xE9, CHR 0x87, CHR 0x8F, CHR 0xE8,
     CHR 0xA1, CHR 0x8C, CHR 0xE5, CHR 0xB9, CHR 0xB6, CHR 0xE6, CHR 0x8B, CHR 0x89, CHR 0xE9, CHR 0x95, CHR 0xBF,
     CHR 0xE4, CHR 0xBA, CHR 0x8B, CHR 0xE5, CHR 0x8A, CHR 0xA1, CHR 0xE3, CHR 0x80, CHR 0x82])
     [] RiskMedium False []
     ([CHR 0xE7, CHR 0xBC, CHR 0xA9, CHR 0xE5, CHR 0xB0, CHR 0x8F, CHR 0xE9, CHR 0x94, CHR 0x81, CHR 0xE5,
     CHR 0xAE, CHR 0x9A, CHR 0xE8, CHR 0x8C, CHR 0x83, CHR 0xE5, CHR 0x9B, CHR 0xB4, CHR 0xEF, CHR 0xBC, CHR 0x8C,
     CHR 0xE8, CHR 0xA1, CHR 0xA5, CHR 0xE5, CHR 0x85, CHR 0x85] @ '' LIMIT '' @ [CHR 0xE6, CHR 0x88, CHR 0x96,
     CHR 0xE4, CHR 0xB8, CHR 0xBB, CHR 0xE9, CHR 0x94, CHR 0xAE, CHR 0xE6, CHR 0x9D, CHR 0xA1, CHR 0xE4, CHR 0xBB,
     CHR 0xB6, CHR 0xEF, CHR 0xBC, CHR 0x8C, CHR 0xE5, CHR 0xB9, CHR 0xB6, CHR 0xE7, CHR 0xBC, CHR 0xA9, CHR 0xE7,
     CHR 0x9F, CHR 0xAD, CHR 0xE4, CHR 0xBA, CHR 0x8B, CHR 0xE5, CHR 0x8A, CHR 0xA1, CHR 0xE5, CHR 0x86, CHR 0x85,
     CHR 0xE4, CHR 0xB8, CHR 0x9A, CHR 0xE5, CHR 0x8A, CHR 0xA1, CHR 0xE9, CHR 0x80, CHR 0xBB, CHR 0xE8, CHR 0xBE,
     CHR 0x91, CHR 0xE3, CHR 0x80, CHR 0x82])"

definition rule_heavy_ddl :: risk_policy where
  "rule_heavy_ddl =
     builtin_rule ''pol_heavy_ddl'' ''HEAVY_DDL_REWRITE''
     ([CHR 0xE9, CHR 0x87, CHR 0x8D, CHR 0xE5, CHR 0x86, CHR 0x99, CHR 0xE5, CHR 0x9E, CHR 0x8B] @ '' DDL '' @
     [CHR 0xE9, CHR 0x95, CHR 0xBF, CHR 0xE4, CHR 0xBA, CHR 0x8B, CHR 0xE5, CHR 0x8A, CHR 0xA1, CHR 0xE9,
     CHR 0xA3, CHR 0x8E, CHR 0xE9, CHR 0x99, CHR 0xA9])
     (''VACUUM FULL'' @ [CHR 0xE3, CHR 0x80, CHR 0x81] @ ''CLUSTER'' @ [CHR 0xE3, CHR 0x80, CHR 0x81] @
     ''REINDEX'' @ [CHR 0xE3, CHR 0x80, CHR 0x81] @ ''ALTER TYPE '' @ [CHR 0xE7, CHR 0xAD, CHR 0x89, CHR 0xE5,
     CHR 0x8F, CHR 0xAF, CHR 0xE8, CHR 0x83, CHR 0xBD, CHR 0xE8, CHR 0xA7, CHR 0xA6, CHR 0xE5, CHR 0x8F, CHR 0x91,
     CHR 0xE8, CHR 0xA1, CHR 0xA8, CHR 0xE9, CHR 0x87, CHR 0x8D, CHR 0xE5, CHR 0x86, CHR 0x99, CHR 0xE4, CHR 0xB8,
     CHR 0x8E, CHR 0xE9, CHR 0x95, CHR 0xBF, CHR 0xE4, CHR 0xBA, CHR 0x8B, CHR 0xE5, CHR 0x8A, CHR 0xA1, CHR 0xEF,
     CHR 0xBC, CHR 0x8C, CHR 0xE9, CHR 0x98, CHR 0xBB, CHR 0xE5, CHR 0xA1, CHR 0x9E, CHR 0xE8, CHR 0xAF, CHR 0xBB,
     CHR 0xE5, CHR 0x86, CHR 0x99, CHR 0xE3, CHR 0x80, CHR 0x82])
     [] RiskHigh True []
     ([CHR 0xE6, CHR 0x94, CHR 0xB9, CHR 0xE7, CHR 0x94, CHR 0xA8] @ '' CONCURRENTLY/'' @ [CHR 0xE5, CHR 0x9C,
     CHR 0xA8, CHR 0xE7, CHR 0xBA, CHR 0xBF, CHR 0xE5, CHR 0xB7, CHR 0xA5, CHR 0xE5, CHR 0x85, CHR 0xB7, CHR 0xEF,
     CHR 0xBC, CHR 0x8C, CHR 0xE6, CHR 0x88, CHR 0x96, CHR 0xE6, CHR 0x8B, CHR 0x86, CHR 0xE5, CHR 0x88, CHR 0x86,
     CHR 0xE7, CHR 0xBB, CHR 0xB4, CHR 0xE6, CHR 0x8A, CHR 0xA4, CHR 0xE7, CHR 0xAA, CHR 0x97, CHR 0xE5, CHR 0x8F,
     CHR 0xA3, CHR 0xEF, CHR 0xBC, CHR 0x9B, CHR 0xE8, CHR 0xAE, CHR 0xBE, CHR 0xE7, CHR 0xBD, CHR 0xAE] @
     '' lock_timeout '' @ [CHR 0xE5, CHR 0xB9, CHR 0xB6, CHR 0xE5, CHR 0x87, CHR 0x86, CHR 0xE5, CHR 0xA4,
     CHR 0x87, CHR 0xE5, CHR 0x8F, CHR 0xAF, CHR 0xE8, CHR 0xA7, CHR 0x82, CHR 0xE6, CHR 0xB5, CHR 0x8B, CHR 0xE5,
     CHR 0x9B, CHR 0x9E, CHR 0xE6, CHR 0xBB, CHR 0x9A, CHR 0xE3, CHR 0x80, CHR 0x82])"

definition rule_missing_lock_timeout :: risk_policy where
  "rule_missing_lock_timeout =
     builtin_rule ''pol_missing_lock_timeout'' ''MISSING_LOCK_TIMEOUT''
     ([CHR 0xE9, CHR 0xAB, CHR 0x98, CHR 0xE9, CHR 0x94, CHR 0x81, CHR 0xE9, CHR 0xA3, CHR 0x8E, CHR 0xE9,
     CHR 0x99, CHR 0xA9, CHR 0xE5, CHR 0x8F, CHR 0x98, CHR 0xE6, CHR 0x9B, CHR 0xB4, CHR 0xE6, CHR 0x9C, CHR 0xAA,
     CHR 0xE5, CHR 0xA3, CHR 0xB0, CHR 0xE6, CHR 0x98, CHR 0x8E, CHR 0xE9, CHR 0x94, CHR 0x81, CHR 0xE8, CHR 0xB6,
     CHR 0x85, CHR 0xE6, CHR 0x97, CHR 0xB6])
     ([CHR 0xE5, CHR 0x8F, CHR 0xAF, CHR 0xE8, CHR 0x83, CHR 0xBD, CHR 0xE6, CHR 0x8C, CHR 0x81, CHR 0xE9,
     CHR 0x94, CHR 0x81, CHR 0xE7, CHR 0x9A, CHR 0x84] @ '' DDL/'' @ [CHR 0xE5, CHR 0xA4, CHR 0xA7, CHR 0xE6,
     CHR 0x89, CHR 0xB9, CHR 0xE9, CHR 0x87, CHR 0x8F] @ '' DML '' @ [CHR 0xE6, CHR 0x9C, CHR 0xAA, CHR 0xE5,
     CHR 0xA3, CHR 0xB0, CHR 0xE6, CHR 0x98, CHR 0x8E] @ '' lock_timeout'' @ [CHR 0xEF, CHR 0xBC, CHR 0x8C,
     CHR 0xE9, CHR 0x94, CHR 0x81, CHR 0xE7, CHR 0xAD, CHR 0x89, CHR 0xE5, CHR 0xBE, CHR 0x85, CHR 0xE4, CHR 0xBC,
     CHR 0x9A, CHR 0xE6, CHR 0x97, CHR 0xA0, CHR 0xE9, CHR 0x99, CHR 0x90, CHR 0xE5, CHR 0xA0, CHR 0x86, CHR 0xE7,
     CHR 0xA7, CHR 0xAF, CHR 0xE5, CHR 0xB9, CHR 0xB6, CHR 0xE6, CHR 0x94, CHR 0xBE, CHR 0xE5, CHR 0xA4, CHR 0xA7,
     CHR 0xE9, CHR 0x9B, CHR 0xAA, CHR 0xE5, CHR 0xB4, CHR 0xA9, CHR 0xE3, CHR 0x80, CHR 0x82])
     [] RiskMedium False []
     ([CHR 0xE5, CHR 0x9C, CHR 0xA8, CHR 0xE6, CHR 0x89, CHR 0xA7, CHR 0xE8, CHR 0xA1, CHR 0x8C, CHR 0xE8,
     CHR 0x84, CHR 0x9A, CHR 0xE6, CHR 0x9C, CHR 0xAC, CHR 0xE4, CHR 0xB8, CHR 0xAD, CHR 0xE8, CHR 0xAE, CHR 0xBE,
     CHR 0xE7, CHR 0xBD, CHR 0xAE, CHR 0xE5, CHR 0x90, CHR 0x88, CHR 0xE7, CHR 0x90, CHR 0x86] @
     '' lock_timeout/statement_timeout'' @ [CHR 0xEF, CHR 0xBC, CHR 0x8C, CHR 0xE5, CHR 0x86, CHR 0xB2, CHR 0xE7,
     CHR 0xAA, CHR 0x81, CHR 0xE6, CHR 0x97, CHR 0xB6, CHR 0xE5, CHR 0xBF, CHR 0xAB, CHR 0xE9, CHR 0x80, CHR 0x9F,
     CHR 0xE5, CHR 0xA4, CHR 0xB1, CHR 0xE8, CHR 0xB4, CHR 0xA5, CHR 0xE5, CHR 0xB9, CHR 0xB6, CHR 0xE9, CHR 0x87,
     CHR 0x8D, CHR 0xE8, CHR 0xAF, CHR 0x95, CHR 0xE3, CHR 0x80, CHR 0x82])"

definition rule_mixed_ddl_dml :: risk_policy where
  "rule_mixed_ddl_dml =
     builtin_rule ''pol_mixed_ddl_dml'' ''MIXED_DDL_DML_TRANSACTION''
     ([CHR 0xE5, CHR 0x90, CHR 0x8C, CHR 0xE4, CHR 0xB8, CHR 0x80, CHR 0xE5, CHR 0x8F, CHR 0x98, CHR 0xE6,
     CHR 0x9B, CHR 0xB4, CHR 0xE6, CHR 0xB7, CHR 0xB7, CHR 0xE7, CHR 0x94, CHR 0xA8] @ '' DDL '' @ [CHR 0xE4,
     CHR 0xB8, CHR 0x8E, CHR 0xE5, CHR 0xA4, CHR 0xA7, CHR 0xE6, CHR 0x89, CHR 0xB9, CHR 0xE9, CHR 0x87,
     CHR 0x8F] @ '' DML'')
     (''DDL '' @ [CHR 0xE4, CHR 0xB8, CHR 0x8E, CHR 0xE5, CHR 0xA4, CHR 0xA7, CHR 0xE6, CHR 0x89, CHR 0xB9,
     CHR 0xE9, CHR 0x87, CHR 0x8F] @ '' DML '' @ [CHR 0xE5, CHR 0x90, CHR 0x8C, CHR 0xE5, CHR 0x8D, CHR 0x95,
     CHR 0xE6, CHR 0x89, CHR 0xA7, CHR 0xE8, CHR 0xA1, CHR 0x8C, CHR 0xE4, CHR 0xBC, CHR 0x9A, CHR 0xE6, CHR 0x8B,
     CHR 0x89, CHR 0xE9, CHR 0x95, CHR 0xBF, CHR 0xE4, CHR 0xBA, CHR 0x8B, CHR 0xE5, CHR 0x8A, CHR 0xA1, CHR 0xE8,
     CHR 0xBE, CHR 0xB9, CHR 0xE7, CHR 0x95, CHR 0x8C, CHR 0xEF, CHR 0xBC, CHR 0x8C, CHR 0xE5, CHR 0xA4, CHR 0xB1,
     CHR 0xE8, CHR 0xB4, CHR 0xA5, CHR 0xE5, CHR 0x9B, CHR 0x9E, CHR 0xE6, CHR 0xBB, CHR 0x9A, CHR 0xE5, CHR 0x92,
     CHR 0x8C, CHR 0xE9, CHR 0x94, CHR 0x81, CHR 0xE7, CHR 0xAB, CHR 0x9E, CHR 0xE4, CHR 0xBA, CHR 0x89, CHR 0xE6,
     CHR 0x9B, CHR 0xB4, CHR 0xE9, CHR 0x9A, CHR 0xBE, CHR 0xE6, CHR 0x8E, CHR 0xA7, CHR 0xE5, CHR 0x88, CHR 0xB6,
     CHR 0xE3, CHR 0x80, CHR 0x82])
     [] RiskMedium False []
     ([CHR 0xE5, CHR 0xB0, CHR 0x86, CHR 0xE7, CHR 0xBB, CHR 0x93, CHR 0xE6, CHR 0x9E, CHR 0x84, CHR 0xE5,
     CHR 0x8F, CHR 0x98, CHR 0xE6, CHR 0x9B, CHR 0xB4, CHR 0xE4, CHR 0xB8, CHR 0x8E, CHR 0xE6, CHR 0x95, CHR 0xB0,
     CHR 0xE6, CHR 0x8D, CHR 0xAE, CHR 0xE5, CHR 0x9B, CHR 0x9E, CHR 0xE5, CHR 0xA1, CHR 0xAB, CHR 0xE6, CHR 0x8B,
     CHR 0x86, CHR 0xE6, CHR 0x88, CHR 0x90, CHR 0xE7, CHR 0x8B, CHR 0xAC, CHR 0xE7, CHR 0xAB, CHR 0x8B, CHR 0xE5,
     CHR 0x8F, CHR 0x98, CHR 0xE6, CHR 0x9B, CHR 0xB4, CHR 0xE5, CHR 0x8D, CHR 0x95, CHR 0xEF, CHR 0xBC, CHR 0x8C,
     CHR 0xE5, CHR 0x88, CHR 0x86, CHR 0xE5, CHR 0x88, CHR 0xAB, CHR 0xE6, CHR 0xBC, CHR 0x94, CHR 0xE7, CHR 0xBB,
     CHR 0x83, CHR 0xE4, CHR 0xB8, CHR 0x8E, CHR 0xE5, CHR 0xAE, CHR 0xA1, CHR 0xE6, CHR 0x89, CHR 0xB9, CHR 0xE3,
     CHR 0x80, CHR 0x82])"

definition rule_transaction_control :: risk_policy where
  "rule_transaction_control =
     builtin_rule ''pol_transaction_control'' ''TRANSACTION_CONTROL''
     ([CHR 0xE7, CHR 0xA6, CHR 0x81, CHR 0xE6, CHR 0xAD, CHR 0xA2, CHR 0xE4, CHR 0xBA, CHR 0x8B, CHR 0xE5,
     CHR 0x8A, CHR 0xA1, CHR 0xE6, CHR 0x8E, CHR 0xA7, CHR 0xE5, CHR 0x88, CHR 0xB6, CHR 0xE8, CHR 0xAF, CHR 0xAD,
     CHR 0xE5, CHR 0x8F, CHR 0xA5])
     ([CHR 0xE7, CHR 0x94, CHR 0xA8, CHR 0xE6, CHR 0x88, CHR 0xB7] @ '' SQL '' @ [CHR 0xE4, CHR 0xB8, CHR 0x8D,
     CHR 0xE8, CHR 0x83, CHR 0xBD, CHR 0xE7, CHR 0xBB, CHR 0x93, CHR 0xE6, CHR 0x9D, CHR 0x9F, CHR 0xE6, CHR 0x88,
     CHR 0x96, CHR 0xE5, CHR 0x88, CHR 0x87, CHR 0xE6, CHR 0x8D, CHR 0xA2, CHR 0xE5, CHR 0xBD, CHR 0xB1, CHR 0xE5,
     CHR 0xAD, CHR 0x90, CHR 0xE6, CHR 0xBC, CHR 0x94, CHR 0xE7, CHR 0xBB, CHR 0x83, CHR 0xE4, CHR 0xBA, CHR 0x8B,
     CHR 0xE5, CHR 0x8A, CHR 0xA1, CHR 0xEF, CHR 0xBC, CHR 0x8C, CHR 0xE5, CHR 0x90, CHR 0xA6, CHR 0xE5, CHR 0x88,
     CHR 0x99, CHR 0xE5, CHR 0x8F, CHR 0xAF, CHR 0xE8, CHR 0x83, CHR 0xBD, CHR 0xE7, CHR 0xBB, CHR 0x95, CHR 0xE8,
     CHR 0xBF, CHR 0x87, CHR 0xE8, CHR 0x87, CHR 0xAA, CHR 0xE5, CHR 0x8A, CHR 0xA8, CHR 0xE5, CHR 0x9B, CHR 0x9E,
     CHR 0xE6, CHR 0xBB, CHR 0x9A, CHR 0xE3, CHR 0x80, CHR 0x82])
     (''(?im)^'' @ [CHR 0x5C] @ ''s*(BEGIN|START'' @ [CHR 0x5C] @
     ''s+TRANSACTION|COMMIT|END|ROLLBACK|SAVEPOINT|RELEASE'' @ [CHR 0x5C] @ ''s+SAVEPOINT|PREPARE'' @ [CHR 0x5C] @
     ''s+TRANSACTION|COMMIT'' @ [CHR 0x5C] @ ''s+PREPARED|ROLLBACK'' @ [CHR 0x5C] @ ''s+PREPARED)'' @ [CHR 0x5C] @
     ''b'') RiskHigh True []
     ([CHR 0xE7, CHR 0xA7, CHR 0xBB, CHR 0xE9, CHR 0x99, CHR 0xA4, CHR 0xE4, CHR 0xBA, CHR 0x8B, CHR 0xE5,
     CHR 0x8A, CHR 0xA1, CHR 0xE6, CHR 0x8E, CHR 0xA7, CHR 0xE5, CHR 0x88, CHR 0xB6, CHR 0xE8, CHR 0xAF, CHR 0xAD,
     CHR 0xE5, CHR 0x8F, CHR 0xA5, CHR 0xEF, CHR 0xBC, CHR 0x8C, CHR 0xE7, CHR 0x94, CHR 0xB1, CHR 0xE5, CHR 0xBD,
     CHR 0xB1, CHR 0xE5, CHR 0xAD, CHR 0x90, CHR 0xE6, CHR 0xBC, CHR 0x94, CHR 0xE7, CHR 0xBB, CHR 0x83, CHR 0xE6,
     CHR 0x89, CHR 0xA7, CHR 0xE8, CHR 0xA1, CHR 0x8C, CHR 0xE5, CHR 0x99, CHR 0xA8, CHR 0xE7, CHR 0xBB, CHR 0x9F,
     CHR 0xE4, CHR 0xB8, CHR 0x80, CHR 0xE7, CHR 0xAE, CHR 0xA1, CHR 0xE7, CHR 0x90, CHR 0x86, CHR 0xE4, CHR 0xBA,
     CHR 0x8B, CHR 0xE5, CHR 0x8A, CHR 0xA1, CHR 0xE3, CHR 0x80, CHR 0x82])"

definition rule_psql_meta :: risk_policy where
  "rule_psql_meta =
     builtin_rule ''pol_psql_meta'' ''PSQL_META_COMMAND''
     ([CHR 0xE7, CHR 0xA6, CHR 0x81, CHR 0xE6, CHR 0xAD, CHR 0xA2] @ '' psql '' @ [CHR 0xE5, CHR 0x85, CHR 0x83,
     CHR 0xE5, CHR 0x91, CHR 0xBD, CHR 0xE4, CHR 0xBB, CHR 0xA4])
     ([CHR 0xE5, CHR 0x8F, CHR 0x8D, CHR 0xE6, CHR 0x96, CHR 0x9C, CHR 0xE6, CHR 0x9D, CHR 0xA0, CHR 0xE5,
     CHR 0x85, CHR 0x83, CHR 0xE5, CHR 0x91, CHR 0xBD, CHR 0xE4, CHR 0xBB, CHR 0xA4, CHR 0xE5, CHR 0x8F, CHR 0xAF,
     CHR 0xE8, CHR 0x83, CHR 0xBD, CHR 0xE8, CHR 0xAF, CHR 0xBB, CHR 0xE5, CHR 0x86, CHR 0x99, CHR 0xE6, CHR 0x96,
     CHR 0x87, CHR 0xE4, CHR 0xBB, CHR 0xB6, CHR 0xE6, CHR 0x88, CHR 0x96, CHR 0xE6, CHR 0x89, CHR 0xA7, CHR 0xE8,
     CHR 0xA1, CHR 0x8C, CHR 0xE5, CHR 0xA4, CHR 0x96, CHR 0xE9, CHR 0x83, CHR 0xA8, CHR 0xE7, CHR 0xA8, CHR 0x8B,
     CHR 0xE5, CHR 0xBA, CHR 0x8F, CHR 0xEF, CHR 0xBC, CHR 0x8C, CHR 0xE4, CHR 0xB8, CHR 0x8D, CHR 0xE8, CHR 0x83,
     CHR 0xBD, CHR 0xE8, CHR 0xBF, CHR 0x9B, CHR 0xE5, CHR 0x85, CHR 0xA5, CHR 0xE6, CHR 0xBC, CHR 0x94, CHR 0xE7,
     CHR 0xBB, CHR 0x83, CHR 0xE7, CHR 0x8E, CHR 0xAF, CHR 0xE5, CHR 0xA2, CHR 0x83, CHR 0xE3, CHR 0x80, CHR 0x82])
     (''(?m)^'' @ [CHR 0x5C] @ ''s*'' @ [CHR 0x5C, CHR 0x5C]) RiskHigh True []
     ([CHR 0xE5, CHR 0x8F, CHR 0xAA, CHR 0xE6, CHR 0x8F, CHR 0x90, CHR 0xE4, CHR 0xBA, CHR 0xA4, CHR 0xE6,
     CHR 0xA0, CHR 0x87, CHR 0xE5, CHR 0x87, CHR 0x86] @ '' PostgreSQL SQL'' @ [CHR 0xEF, CHR 0xBC, CHR 0x8C,
     CHR 0xE4, CHR 0xB8, CHR 0x8D, CHR 0xE8, CHR 0xA6, CHR 0x81, CHR 0xE5, CHR 0x8C, CHR 0x85, CHR 0xE5, CHR 0x90,
     CHR 0xAB] @ '' '' @ [CHR 0x5C] @ ''copy'' @ [CHR 0xE3, CHR 0x80, CHR 0x81, CHR 0x5C] @ ''!'' @ [CHR 0xE3,
     CHR 0x80, CHR 0x81, CHR 0x5C] @ ''gexec '' @ [CHR 0xE7, CHR 0xAD, CHR 0x89] @ '' psql '' @ [CHR 0xE5,
     CHR 0x91, CHR 0xBD, CHR 0xE4, CHR 0xBB, CHR 0xA4, CHR 0xE3, CHR 0x80, CHR 0x82])"

definition rule_drop_table :: risk_policy where
  "rule_drop_table =
     builtin_rule ''pol_drop_table'' ''DROP_TABLE''
     ([CHR 0xE5, CHR 0x88, CHR 0xA0, CHR 0xE9, CHR 0x99, CHR 0xA4, CHR 0xE8, CHR 0xA1, CHR 0xA8, CHR 0xE9,
     CHR 0xAB, CHR 0x98, CHR 0xE9, CHR 0xA3, CHR 0x8E, CHR 0xE9, CHR 0x99, CHR 0xA9, CHR 0xE6, CHR 0xA3, CHR 0x80,
     CHR 0xE6, CHR 0x9F, CHR 0xA5])
     ([CHR 0xE5, CHR 0x88, CHR 0xA0, CHR 0xE9, CHR 0x99, CHR 0xA4, CHR 0xE8, CHR 0xA1, CHR 0xA8, CHR 0xE5,
     CHR 0xB1, CHR 0x9E, CHR 0xE4, CHR 0xBA, CHR 0x8E, CHR 0xE4, CHR 0xB8, CHR 0x8D, CHR 0xE5, CHR 0x8F, CHR 0xAF,
     CHR 0xE9, CHR 0x80, CHR 0x86, CHR 0xE6, CHR 0x88, CHR 0x96, CHR 0xE9, CHR 0xAB, CHR 0x98, CHR 0xE6, CHR 0x81,
     CHR 0xA2, CHR 0xE5, CHR 0xA4, CHR 0x8D, CHR 0xE6, CHR 0x88, CHR 0x90, CHR 0xE6, CHR 0x9C, CHR 0xAC, CHR 0xE6,
     CHR 0x93, CHR 0x8D, CHR 0xE4, CHR 0xBD, CHR 0x9C, CHR 0xE3, CHR 0x80, CHR 0x82])
     (''(?is)'' @ [CHR 0x5C] @ ''bDROP'' @ [CHR 0x5C] @ ''s+TABLE'' @ [CHR 0x5C] @ ''b'') RiskHigh True []
     ([CHR 0xE4, CHR 0xBC, CHR 0x98, CHR 0xE5, CHR 0x85, CHR 0x88, CHR 0xE5, CHR 0xBD, CHR 0x92, CHR 0xE6,
     CHR 0xA1, CHR 0xA3, CHR 0xE6, CHR 0x88, CHR 0x96, CHR 0xE9, CHR 0x87, CHR 0x8D, CHR 0xE5, CHR 0x91, CHR 0xBD,
     CHR 0xE5, CHR 0x90, CHR 0x8D, CHR 0xEF, CHR 0xBC, CHR 0x8C, CHR 0xE9, CHR 0xAA, CHR 0x8C, CHR 0xE8, CHR 0xAF,
     CHR 0x81, CHR 0xE5, CHR 0xA4, CHR 0x87, CHR 0xE4, CHR 0xBB, CHR 0xBD, CHR 0xE5, CHR 0x90, CHR 0x8E, CHR 0xE5,
     CHR 0x8D, CHR 0x95, CHR 0xE7, CHR 0x8B, CHR 0xAC, CHR 0xE5, CHR 0xAE, CHR 0xA1, CHR 0xE6, CHR 0x89, CHR 0xB9,
     CHR 0xE3, CHR 0x80, CHR 0x82])"

definition rule_drop_column :: risk_policy where
  "rule_drop_column =
     builtin_rule ''pol_drop_column'' ''DROP_COLUMN''
     ([CHR 0xE5, CHR 0x88, CHR 0xA0, CHR 0xE9, CHR 0x99, CHR 0xA4, CHR 0xE5, CHR 0xAD, CHR 0x97, CHR 0xE6,
     CHR 0xAE, CHR 0xB5, CHR 0xE4, CHR 0xBE, CHR 0x9D, CHR 0xE8, CHR 0xB5, CHR 0x96, CHR 0xE6, CHR 0xA3, CHR 0x80,
     CHR 0xE6, CHR 0x9F, CHR 0xA5])
     ([CHR 0xE6, CHR 0x97, CHR 0xA7, CHR 0xE7, CHR 0x89, CHR 0x88, CHR 0xE6, CHR 0x9C, CHR 0xAC, CHR 0xE6,
     CHR 0x9C, CHR 0x8D, CHR 0xE5, CHR 0x8A, CHR 0xA1, CHR 0xE6, CHR 0x88, CHR 0x96, CHR 0xE7, CHR 0xA6, CHR 0xBB,
     CHR 0xE7, CHR 0xBA, CHR 0xBF, CHR 0xE4, CHR 0xBB, CHR 0xBB, CHR 0xE5, CHR 0x8A, CHR 0xA1, CHR 0xE5, CHR 0x8F,
     CHR 0xAF, CHR 0xE8, CHR 0x83, CHR 0xBD, CHR 0xE4, CHR 0xBB, CHR 0x8D, CHR 0xE5, CHR 0x9C, CHR 0xA8, CHR 0xE8,
     CHR 0xAF, CHR 0xBB, CHR 0xE5, CHR 0x8F, CHR 0x96, CHR 0xE8, CHR 0xAF, CHR 0xA5, CHR 0xE5, CHR 0xAD, CHR 0x97,
     CHR 0xE6, CHR 0xAE, CHR 0xB5, CHR 0xE3, CHR 0x80, CHR 0x82])
     (''(?is)'' @ [CHR 0x5C] @ ''bDROP'' @ [CHR 0x5C] @ ''s+COLUMN'' @ [CHR 0x5C] @ ''b'') RiskHigh True []
     ([CHR 0xE5, CHR 0x85, CHR 0x88, CHR 0xE5, CHR 0xAE, CHR 0x8C, CHR 0xE6, CHR 0x88, CHR 0x90, CHR 0xE4,
     CHR 0xBE, CHR 0x9D, CHR 0xE8, CHR 0xB5, CHR 0x96, CHR 0xE6, CHR 0x89, CHR 0xAB, CHR 0xE6, CHR 0x8F, CHR 0x8F,
     CHR 0xE5, CHR 0x92, CHR 0x8C, CHR 0xE8, CHR 0xAF, CHR 0xBB, CHR 0xE8, CHR 0xB7, CHR 0xAF, CHR 0xE5, CHR 0xBE,
     CHR 0x84, CHR 0xE4, CHR 0xB8, CHR 0x8B, CHR 0xE7, CHR 0xBA, CHR 0xBF, CHR 0xEF, CHR 0xBC, CHR 0x8C, CHR 0xE5,
     CHR 0x86, CHR 0x8D, CHR 0xE5, CHR 0x88, CHR 0x86, CHR 0xE9, CHR 0x98, CHR 0xB6, CHR 0xE6, CHR 0xAE, CHR 0xB5,
     CHR 0xE5, CHR 0x88, CHR 0xA0, CHR 0xE9, CHR 0x99, CHR 0xA4, CHR 0xE3, CHR 0x80, CHR 0x82])"

definition rule_alter_type :: risk_policy where
  "rule_alter_type =
     builtin_rule ''pol_alter_type'' ''ALTER_COLUMN_TYPE''
     ([CHR 0xE5, CHR 0xAD, CHR 0x97, CHR 0xE6, CHR 0xAE, CHR 0xB5, CHR 0xE7, CHR 0xB1, CHR 0xBB, CHR 0xE5,
     CHR 0x9E, CHR 0x8B, CHR 0xE5, CHR 0x8F, CHR 0x98, CHR 0xE6, CHR 0x9B, CHR 0xB4, CHR 0xE6, CHR 0xA3, CHR 0x80,
     CHR 0xE6, CHR 0x9F, CHR 0xA5])
     ([CHR 0xE5, CHR 0xAD, CHR 0x97, CHR 0xE6, CHR 0xAE, CHR 0xB5, CHR 0xE7, CHR 0xB1, CHR 0xBB, CHR 0xE5,
     CHR 0x9E, CHR 0x8B, CHR 0xE8, CHR 0xBD, CHR 0xAC, CHR 0xE6, CHR 0x8D, CHR 0xA2, CHR 0xE5, CHR 0x8F, CHR 0xAF,
     CHR 0xE8, CHR 0x83, CHR 0xBD, CHR 0xE5, CHR 0xBC, CHR 0x95, CHR 0xE5, CHR 0x8F, CHR 0x91, CHR 0xE8, CHR 0xA1,
     CHR 0xA8, CHR 0xE9, CHR 0x87, CHR 0x8D, CHR 0xE5, CHR 0x86, CHR 0x99, CHR 0xE3, CHR 0x80, CHR 0x81, CHR 0xE9,
     CHR 0x95, CHR 0xBF, CHR 0xE4, CHR 0xBA, CHR 0x8B, CHR 0xE5, CHR 0x8A, CHR 0xA1, CHR 0xE5, CHR 0x92, CHR 0x8C,
     CHR 0xE7, CHR 0xA3, CHR 0x81, CHR 0xE7, CHR 0x9B, CHR 0x98, CHR 0xE6, CHR 0x94, CHR 0xBE, CHR 0xE5, CHR 0xA4,
     CHR 0xA7, CHR 0xE3, CHR 0x80, CHR 0x82])
     (''(?is)ALTER'' @ [CHR 0x5C] @ ''s+TABLE['' @ [CHR 0x5C] @ ''s'' @ [CHR 0x5C] @ ''S]*ALTER'' @ [CHR 0x5C] @
     ''s+COLUMN['' @ [CHR 0x5C] @ ''s'' @ [CHR 0x5C] @ ''S]*TYPE'' @ [CHR 0x5C] @ ''b'') RiskHigh True []
     ([CHR 0xE5, CHR 0x9C, CHR 0xA8, CHR 0xE5, CHR 0xBD, CHR 0xB1, CHR 0xE5, CHR 0xAD, CHR 0x90, CHR 0xE5,
     CHR 0xBA, CHR 0x93, CHR 0xE6, CHR 0x8C, CHR 0x89, CHR 0xE6, CHR 0x8E, CHR 0xA5, CHR 0xE8, CHR 0xBF, CHR 0x91,
     CHR 0xE7, CHR 0x94, CHR 0x9F, CHR 0xE4, CHR 0xBA, CHR 0xA7, CHR 0xE7, CHR 0x9A, CHR 0x84, CHR 0xE6, CHR 0x95,
     CHR 0xB0, CHR 0xE6, CHR 0x8D, CHR 0xAE, CHR 0xE9, CHR 0x87, CHR 0x8F, CHR 0xE9, CHR 0xAA, CHR 0x8C, CHR 0xE8,
     CHR 0xAF, CHR 0x81, CHR 0xE8, CHR 0x80, CHR 0x97, CHR 0xE6, CHR 0x97, CHR 0xB6, CHR 0xE3, CHR 0x80, CHR 0x82])"

definition rule_unique_index :: risk_policy where
  "rule_unique_index =
     builtin_rule ''pol_unique_index'' ''UNIQUE_INDEX''
     ([CHR 0xE5, CHR 0x94, CHR 0xAF, CHR 0xE4, CHR 0xB8, CHR 0x80, CHR 0xE7, CHR 0xB4, CHR 0xA2, CHR 0xE5,
     CHR 0xBC, CHR 0x95, CHR 0xE5, CHR 0x8E, CHR 0x86, CHR 0xE5, CHR 0x8F, CHR 0xB2, CHR 0xE9, CHR 0x87, CHR 0x8D,
     CHR 0xE5, CHR 0xA4, CHR 0x8D, CHR 0xE6, CHR 0xA3, CHR 0x80, CHR 0xE6, CHR 0x9F, CHR 0xA5])
     ([CHR 0xE5, CHR 0xAD, CHR 0x98, CHR 0xE9, CHR 0x87, CHR 0x8F, CHR 0xE9, CHR 0x87, CHR 0x8D, CHR 0xE5,
     CHR 0xA4, CHR 0x8D, CHR 0xE5, CHR 0x80, CHR 0xBC, CHR 0xE4, CHR 0xBC, CHR 0x9A, CHR 0xE5, CHR 0xAF, CHR 0xBC,
     CHR 0xE8, CHR 0x87, CHR 0xB4, CHR 0xE5, CHR 0x94, CHR 0xAF, CHR 0xE4, CHR 0xB8, CHR 0x80, CHR 0xE7, CHR 0xB4,
     CHR 0xA2, CHR 0xE5, CHR 0xBC, CHR 0x95, CHR 0xE5, CHR 0x88, CHR 0x9B, CHR 0xE5, CHR 0xBB, CHR 0xBA, CHR 0xE5,
     CHR 0xA4, CHR 0xB1, CHR 0xE8, CHR 0xB4, CHR 0xA5, CHR 0xE3, CHR 0x80, CHR 0x82])
     (''(?is)CREATE'' @ [CHR 0x5C] @ ''s+UNIQUE'' @ [CHR 0x5C] @ ''s+INDEX'' @ [CHR 0x5C] @ ''b'') RiskMedium False []
     ([CHR 0xE5, CHR 0x85, CHR 0x88, CHR 0xE7, CHR 0xBB, CHR 0x9F, CHR 0xE8, CHR 0xAE, CHR 0xA1, CHR 0xE9,
     CHR 0x87, CHR 0x8D, CHR 0xE5, CHR 0xA4, CHR 0x8D, CHR 0xE5, CHR 0x80, CHR 0xBC, CHR 0xE5, CHR 0xB9, CHR 0xB6,
     CHR 0xE5, CHR 0x88, CHR 0xB6, CHR 0xE5, CHR 0xAE, CHR 0x9A, CHR 0xE6, CHR 0xB8, CHR 0x85, CHR 0xE7, CHR 0x90,
     CHR 0x86, CHR 0xE6, CHR 0x96, CHR 0xB9, CHR 0xE6, CHR 0xA1, CHR 0x88, CHR 0xE3, CHR 0x80, CHR 0x82])"

definition rule_set_not_null :: risk_policy where
  "rule_set_not_null =
     builtin_rule ''pol_set_not_null'' ''SET_NOT_NULL''
     ([CHR 0xE9, CHR 0x9D, CHR 0x9E, CHR 0xE7, CHR 0xA9, CHR 0xBA, CHR 0xE7, CHR 0xBA, CHR 0xA6, CHR 0xE6,
     CHR 0x9D, CHR 0x9F, CHR 0xE5, CHR 0x8E, CHR 0x86, CHR 0xE5, CHR 0x8F, CHR 0xB2, CHR 0xE6, CHR 0x95, CHR 0xB0,
     CHR 0xE6, CHR 0x8D, CHR 0xAE, CHR 0xE6, CHR 0xA3, CHR 0x80, CHR 0xE6, CHR 0x9F, CHR 0xA5])
     ([CHR 0xE6, CHR 0xB7, CHR 0xBB, CHR 0xE5, CHR 0x8A, CHR 0xA0, CHR 0xE9, CHR 0x9D, CHR 0x9E, CHR 0xE7,
     CHR 0xA9, CHR 0xBA, CHR 0xE7, CHR 0xBA, CHR 0xA6, CHR 0xE6, CHR 0x9D, CHR 0x9F, CHR 0xE5, CHR 0x89, CHR 0x8D,
     CHR 0xE9, CHR 0x9C, CHR 0x80, CHR 0xE8, CHR 0xA6, CHR 0x81, CHR 0xE7, CHR 0xA1, CHR 0xAE, CHR 0xE8, CHR 0xAE,
     CHR 0xA4, CHR 0xE5, CHR 0x8E, CHR 0x86, CHR 0xE5, CHR 0x8F, CHR 0xB2, CHR 0xE8, CHR 0xA1, CHR 0x8C, CHR 0xE5,
     CHR 0x85, CHR 0xA8, CHR 0xE9, CHR 0x83, CHR 0xA8, CHR 0xE6, CHR 0xBB, CHR 0xA1, CHR 0xE8, CHR 0xB6, CHR 0xB3,
     CHR 0xE6, CHR 0x9D, CHR 0xA1, CHR 0xE4, CHR 0xBB, CHR 0xB6, CHR 0xE3, CHR 0x80, CHR 0x82])
     (''(?is)ALTER'' @ [CHR 0x5C] @ ''s+(COLUMN'' @ [CHR 0x5C] @ ''s+)?[a-zA-Z_]['' @ [CHR 0x5C] @ ''w$]*'' @
     [CHR 0x5C] @ ''s+SET'' @ [CHR 0x5C] @ ''s+NOT'' @ [CHR 0x5C] @ ''s+NULL'') RiskMedium False []
     ([CHR 0xE5, CHR 0x85, CHR 0x88, CHR 0xE6, CHR 0xA3, CHR 0x80, CHR 0xE6, CHR 0x9F, CHR 0xA5, CHR 0xE7,
     CHR 0xA9, CHR 0xBA, CHR 0xE5, CHR 0x80, CHR 0xBC, CHR 0xE6, CHR 0x95, CHR 0xB0, CHR 0xE9, CHR 0x87, CHR 0x8F,
     CHR 0xEF, CHR 0xBC, CHR 0x8C, CHR 0xE5, CHR 0xBF, CHR 0x85, CHR 0xE8, CHR 0xA6, CHR 0x81, CHR 0xE6, CHR 0x97,
     CHR 0xB6, CHR 0xE5, CHR 0x88, CHR 0x86, CHR 0xE9, CHR 0x98, CHR 0xB6, CHR 0xE6, CHR 0xAE, CHR 0xB5, CHR 0xE6,
     CHR 0xB7, CHR 0xBB, CHR 0xE5, CHR 0x8A, CHR 0xA0, CHR 0xE7, CHR 0xBA, CHR 0xA6, CHR 0xE6, CHR 0x9D, CHR 0x9F,
     CHR 0xE3, CHR 0x80, CHR 0x82])"

definition rule_truncate :: risk_policy where
  "rule_truncate =
     builtin_rule ''pol_truncate'' ''TRUNCATE''
     ([CHR 0xE6, CHR 0xB8, CHR 0x85, CHR 0xE7, CHR 0xA9, CHR 0xBA, CHR 0xE8, CHR 0xA1, CHR 0xA8, CHR 0xE9,
     CHR 0xAB, CHR 0x98, CHR 0xE9, CHR 0xA3, CHR 0x8E, CHR 0xE9, CHR 0x99, CHR 0xA9, CHR 0xE6, CHR 0xA3, CHR 0x80,
     CHR 0xE6, CHR 0x9F, CHR 0xA5])
     (''TRUNCATE '' @ [CHR 0xE5, CHR 0xBD, CHR 0xB1, CHR 0xE5, CHR 0x93, CHR 0x8D, CHR 0xE8, CHR 0x8C, CHR 0x83,
     CHR 0xE5, CHR 0x9B, CHR 0xB4, CHR 0xE5, CHR 0xA4, CHR 0xA7, CHR 0xE4, CHR 0xB8, CHR 0x94, CHR 0xE9, CHR 0x80,
     CHR 0x9A, CHR 0xE5, CHR 0xB8, CHR 0xB8, CHR 0xE4, CHR 0xB8, CHR 0x8D, CHR 0xE8, CHR 0x83, CHR 0xBD, CHR 0xE6,
     CHR 0x8C, CHR 0x89, CHR 0xE8, CHR 0xA1, CHR 0x8C, CHR 0xE6, CHR 0x81, CHR 0xA2, CHR 0xE5, CHR 0xA4, CHR 0x8D,
     CHR 0xE3, CHR 0x80, CHR 0x82])
     (''(?is)'' @ [CHR 0x5C] @ ''bTRUNCATE'' @ [CHR 0x5C] @ ''b'') RiskHigh True []
     ([CHR 0xE5, CHR 0x8D, CHR 0x95, CHR 0xE7, CHR 0x8B, CHR 0xAC, CHR 0xE5, CHR 0xAE, CHR 0xA1, CHR 0xE6,
     CHR 0x89, CHR 0xB9, CHR 0xE5, CHR 0xB9, CHR 0xB6, CHR 0xE9, CHR 0xAA, CHR 0x8C, CHR 0xE8, CHR 0xAF, CHR 0x81,
     CHR 0xE5, CHR 0xA4, CHR 0x87, CHR 0xE4, CHR 0xBB, CHR 0xBD, CHR 0xE4, CHR 0xB8, CHR 0x8E, CHR 0xE6, CHR 0x81,
     CHR 0xA2, CHR 0xE5, CHR 0xA4, CHR 0x8D, CHR 0xE6, CHR 0xBC, CHR 0x94, CHR 0xE7, CHR 0xBB, CHR 0x83, CHR 0xE3,
     CHR 0x80, CHR 0x82])"

definition rule_release_rollback :: risk_policy where
  "rule_release_rollback =
     builtin_rule ''pol_release_rollback'' ''MISSING_RELEASE_ROLLBACK''
     ([CHR 0xE5, CHR 0x8F, CHR 0x91, CHR 0xE5, CHR 0xB8, CHR 0x83, CHR 0xE5, CHR 0x8F, CHR 0x98, CHR 0xE6,
     CHR 0x9B, CHR 0xB4, CHR 0xE5, CHR 0xBF, CHR 0x85, CHR 0xE9, CHR 0xA1, CHR 0xBB, CHR 0xE6, CHR 0x8F, CHR 0x90,
     CHR 0xE4, CHR 0xBE, CHR 0x9B, CHR 0xE5, CHR 0x9B, CHR 0x9E, CHR 0xE6, CHR 0xBB, CHR 0x9A, CHR 0xE6, CHR 0x96,
     CHR 0xB9, CHR 0xE6, CHR 0xA1, CHR 0x88])
     ([CHR 0xE4, CHR 0xBB, CHR 0xA3, CHR 0xE7, CHR 0xA0, CHR 0x81, CHR 0xE3, CHR 0x80, CHR 0x81, CHR 0xE9,
     CHR 0x85, CHR 0x8D, CHR 0xE7, CHR 0xBD, CHR 0xAE, CHR 0xE3, CHR 0x80, CHR 0x81] @ ''Kubernetes '' @
     [CHR 0xE5, CHR 0x92, CHR 0x8C] @ '' API '' @ [CHR 0xE5, CHR 0x8F, CHR 0x98, CHR 0xE6, CHR 0x9B, CHR 0xB4,
     CHR 0xE5, CHR 0xBF, CHR 0x85, CHR 0xE9, CHR 0xA1, CHR 0xBB, CHR 0xE8, CHR 0xAF, CHR 0xB4, CHR 0xE6, CHR 0x98,
     CHR 0x8E, CHR 0xE5, CHR 0x8F, CHR 0xAF, CHR 0xE6, CHR 0x89, CHR 0xA7, CHR 0xE8, CHR 0xA1, CHR 0x8C, CHR 0xE7,
     CHR 0x9A, CHR 0x84, CHR 0xE6, CHR 0x81, CHR 0xA2, CHR 0xE5, CHR 0xA4, CHR 0x8D, CHR 0xE6, CHR 0x96, CHR 0xB9,
     CHR 0xE5, CHR 0xBC, CHR 0x8F, CHR 0xE3, CHR 0x80, CHR 0x82])
     [] RiskHigh True []
     ([CHR 0xE5, CHR 0xA1, CHR 0xAB, CHR 0xE5, CHR 0x86, CHR 0x99, CHR 0xE7, CHR 0x89, CHR 0x88, CHR 0xE6,
     CHR 0x9C, CHR 0xAC, CHR 0xE5, CHR 0x9B, CHR 0x9E, CHR 0xE9, CHR 0x80, CHR 0x80, CHR 0xE3, CHR 0x80, CHR 0x81,
     CHR 0xE9, CHR 0x85, CHR 0x8D, CHR 0xE7, CHR 0xBD, CHR 0xAE, CHR 0xE6, CHR 0x81, CHR 0xA2, CHR 0xE5, CHR 0xA4,
     CHR 0x8D, CHR 0xE3, CHR 0x80, CHR 0x81, CHR 0xE6, CHR 0xB5, CHR 0x81, CHR 0xE9, CHR 0x87, CHR 0x8F, CHR 0xE5,
     CHR 0x88, CHR 0x87, CHR 0xE6, CHR 0x8D, CHR 0xA2, CHR 0xE6, CHR 0x88, CHR 0x96, CHR 0xE6, CHR 0x95, CHR 0xB0,
     CHR 0xE6, CHR 0x8D, CHR 0xAE, CHR 0xE8, CHR 0xA1, CHR 0xA5, CHR 0xE5, CHR 0x81, CHR 0xBF, CHR 0xE6, CHR 0xAD,
     CHR 0xA5, CHR 0xE9, CHR 0xAA, CHR 0xA4, CHR 0xE3, CHR 0x80, CHR 0x82])"

definition rule_k8s_latest :: risk_policy where
  "rule_k8s_latest =
     builtin_rule ''pol_k8s_latest'' ''K8S_LATEST_IMAGE''
     ([CHR 0xE7, CHR 0xA6, CHR 0x81, CHR 0xE6, CHR 0xAD, CHR 0xA2, CHR 0xE7, CHR 0x94, CHR 0x9F, CHR 0xE4,
     CHR 0xBA, CHR 0xA7, CHR 0xE9, CHR 0x95, CHR 0x9C, CHR 0xE5, CHR 0x83, CHR 0x8F, CHR 0xE4, CHR 0xBD, CHR 0xBF,
     CHR 0xE7, CHR 0x94, CHR 0xA8] @ '' latest '' @ [CHR 0xE6, CHR 0xA0, CHR 0x87, CHR 0xE7, CHR 0xAD, CHR 0xBE])
     (''latest '' @ [CHR 0xE6, CHR 0x97, CHR 0xA0, CHR 0xE6, CHR 0xB3, CHR 0x95, CHR 0xE5, CHR 0x94, CHR 0xAF,
     CHR 0xE4, CHR 0xB8, CHR 0x80, CHR 0xE5, CHR 0xAE, CHR 0x9A, CHR 0xE4, CHR 0xBD, CHR 0x8D, CHR 0xE7, CHR 0x89,
     CHR 0x88, CHR 0xE6, CHR 0x9C, CHR 0xAC, CHR 0xEF, CHR 0xBC, CHR 0x8C, CHR 0xE4, CHR 0xB9, CHR 0x9F, CHR 0xE4,
     CHR 0xBC, CHR 0x9A, CHR 0xE7, CHR 0xA0, CHR 0xB4, CHR 0xE5, CHR 0x9D, CHR 0x8F, CHR 0xE5, CHR 0x9B, CHR 0x9E,
     CHR 0xE6, CHR 0xBB, CHR 0x9A, CHR 0xE5, CHR 0x92, CHR 0x8C, CHR 0xE5, CHR 0xAE, CHR 0xA1, CHR 0xE8, CHR 0xAE,
     CHR 0xA1, CHR 0xE3, CHR 0x80, CHR 0x82])
     [] RiskHigh True [ArtifactKubernetes]
     ([CHR 0xE4, CHR 0xBD, CHR 0xBF, CHR 0xE7, CHR 0x94, CHR 0xA8, CHR 0xE4, CHR 0xB8, CHR 0x8D, CHR 0xE5,
     CHR 0x8F, CHR 0xAF, CHR 0xE5, CHR 0x8F, CHR 0x98, CHR 0xE7, CHR 0x89, CHR 0x88, CHR 0xE6, CHR 0x9C, CHR 0xAC,
     CHR 0xE5, CHR 0x8F, CHR 0xB7, CHR 0xE6, CHR 0x88, CHR 0x96, CHR 0xE9, CHR 0x95, CHR 0x9C, CHR 0xE5, CHR 0x83,
     CHR 0x8F] @ '' digest'' @ [CHR 0xE3, CHR 0x80, CHR 0x82])"

definition rule_k8s_privileged :: risk_policy where
  "rule_k8s_privileged =
     builtin_rule ''pol_k8s_privileged'' ''K8S_PRIVILEGED''
     ([CHR 0xE7, CHR 0xA6, CHR 0x81, CHR 0xE6, CHR 0xAD, CHR 0xA2, CHR 0xE5, CHR 0xAE, CHR 0xB9, CHR 0xE5,
     CHR 0x99, CHR 0xA8, CHR 0xE5, CHR 0xBC, CHR 0x80, CHR 0xE5, CHR 0x90, CHR 0xAF, CHR 0xE7, CHR 0x89, CHR 0xB9,
     CHR 0xE6, CHR 0x9D, CHR 0x83, CHR 0xE6, CHR 0xA8, CHR 0xA1, CHR 0xE5, CHR 0xBC, CHR 0x8F])
     (''privileged '' @ [CHR 0xE5, CHR 0xAE, CHR 0xB9, CHR 0xE5, CHR 0x99, CHR 0xA8, CHR 0xE6, CHR 0x8B, CHR 0xA5,
     CHR 0xE6, CHR 0x9C, CHR 0x89, CHR 0xE6, CHR 0x8E, CHR 0xA5, CHR 0xE8, CHR 0xBF, CHR 0x91, CHR 0xE5, CHR 0xAE,
     CHR 0xBF, CHR 0xE4, CHR 0xB8, CHR 0xBB, CHR 0xE6, CHR 0x9C, CHR 0xBA, CHR 0xE7, CHR 0x9A, CHR 0x84, CHR 0xE6,
     CHR 0x9D, CHR 0x83, CHR 0xE9, CHR 0x99, CHR 0x90, CHR 0xE3, CHR 0x80, CHR 0x82])
     [] RiskHigh True [ArtifactKubernetes]
     ([CHR 0xE5, CHR 0x85, CHR 0xB3, CHR 0xE9, CHR 0x97, CHR 0xAD] @ '' privileged'' @ [CHR 0xEF, CHR 0xBC,
     CHR 0x8C, CHR 0xE5, CHR 0xB9, CHR 0xB6, CHR 0xE6, CHR 0x8C, CHR 0x89, CHR 0xE6, CHR 0x9C, CHR 0x80, CHR 0xE5,
     CHR 0xB0, CHR 0x8F, CHR 0xE6, CHR 0x9D, CHR 0x83, CHR 0xE9, CHR 0x99, CHR 0x90, CHR 0xE8, CHR 0xA1, CHR 0xA5,
     CHR 0xE5, CHR 0x85, CHR 0x85] @ '' capabilities'' @ [CHR 0xE3, CHR 0x80, CHR 0x82])"

definition rule_k8s_resources :: risk_policy where
  "rule_k8s_resources =
     builtin_rule ''pol_k8s_resources'' ''K8S_RESOURCE_LIMITS''
     ([CHR 0xE5, CHR 0xB7, CHR 0xA5, CHR 0xE4, CHR 0xBD, CHR 0x9C, CHR 0xE8, CHR 0xB4, CHR 0x9F, CHR 0xE8,
     CHR 0xBD, CHR 0xBD, CHR 0xE5, CHR 0xBF, CHR 0x85, CHR 0xE9, CHR 0xA1, CHR 0xBB, CHR 0xE9, CHR 0x85, CHR 0x8D,
     CHR 0xE7, CHR 0xBD, CHR 0xAE, CHR 0xE8, CHR 0xB5, CHR 0x84, CHR 0xE6, CHR 0xBA, CHR 0x90, CHR 0xE7, CHR 0xBA,
     CHR 0xA6, CHR 0xE6, CHR 0x9D, CHR 0x9F])
     ([CHR 0xE7, CHR 0xBC, CHR 0xBA, CHR 0xE5, CHR 0xB0, CHR 0x91] @ '' requests '' @ [CHR 0xE6, CHR 0x88,
     CHR 0x96] @ '' limits '' @ [CHR 0xE4, CHR 0xBC, CHR 0x9A, CHR 0xE5, CHR 0xBD, CHR 0xB1, CHR 0xE5, CHR 0x93,
     CHR 0x8D, CHR 0xE8, CHR 0xB0, CHR 0x83, CHR 0xE5, CHR 0xBA, CHR 0xA6, CHR 0xE7, CHR 0xA8, CHR 0xB3, CHR 0xE5,
     CHR 0xAE, CHR 0x9A, CHR 0xE6, CHR 0x80, CHR 0xA7, CHR 0xE5, CHR 0x92, CHR 0x8C, CHR 0xE6, CHR 0x95, CHR 0x85,
     CHR 0xE9, CHR 0x9A, CHR 0x9C, CHR 0xE9, CHR 0x9A, CHR 0x94, CHR 0xE7, CHR 0xA6, CHR 0xBB, CHR 0xE3, CHR 0x80,
     CHR 0x82])
     [] RiskMedium False [ArtifactKubernetes]
     ([CHR 0xE6, CHR 0xA0, CHR 0xB9, CHR 0xE6, CHR 0x8D, CHR 0xAE, CHR 0xE5, CHR 0x8E, CHR 0x8B, CHR 0xE6,
     CHR 0xB5, CHR 0x8B, CHR 0xE7, CHR 0xBB, CHR 0x93, CHR 0xE6, CHR 0x9E, CHR 0x9C, CHR 0xE9, CHR 0x85, CHR 0x8D,
     CHR 0xE7, CHR 0xBD, CHR 0xAE] @ '' CPU'' @ [CHR 0xE3, CHR 0x80, CHR 0x81, CHR 0xE5, CHR 0x86, CHR 0x85,
     CHR 0xE5, CHR 0xAD, CHR 0x98] @ '' requests '' @ [CHR 0xE4, CHR 0xB8, CHR 0x8E] @ '' limits'' @ [CHR 0xE3,
     CHR 0x80, CHR 0x82])"

definition rule_k8s_host_namespace :: risk_policy where
  "rule_k8s_host_namespace =
     builtin_rule ''pol_k8s_host_namespace'' ''K8S_HOST_NAMESPACE''
     ([CHR 0xE7, CHR 0xA6, CHR 0x81, CHR 0xE6, CHR 0xAD, CHR 0xA2, CHR 0xE5, CHR 0x85, CHR 0xB1, CHR 0xE4,
     CHR 0xBA, CHR 0xAB, CHR 0xE5, CHR 0xAE, CHR 0xBF, CHR 0xE4, CHR 0xB8, CHR 0xBB, CHR 0xE6, CHR 0x9C, CHR 0xBA,
     CHR 0xE5, CHR 0x91, CHR 0xBD, CHR 0xE5, CHR 0x90, CHR 0x8D, CHR 0xE7, CHR 0xA9, CHR 0xBA, CHR 0xE9, CHR 0x97,
     CHR 0xB4])
     (''hostNetwork '' @ [CHR 0xE6, CHR 0x88, CHR 0x96] @ '' hostPID '' @ [CHR 0xE4, CHR 0xBC, CHR 0x9A, CHR 0xE6,
     CHR 0x89, CHR 0xA9, CHR 0xE5, CHR 0xA4, CHR 0xA7, CHR 0xE6, CHR 0xA8, CHR 0xAA, CHR 0xE5, CHR 0x90, CHR 0x91,
     CHR 0xE7, CHR 0xA7, CHR 0xBB, CHR 0xE5, CHR 0x8A, CHR 0xA8, CHR 0xE5, CHR 0x92, CHR 0x8C, CHR 0xE5, CHR 0xAE,
     CHR 0xBF, CHR 0xE4, CHR 0xB8, CHR 0xBB, CHR 0xE6, CHR 0x9C, CHR 0xBA, CHR 0xE4, CHR 0xBF, CHR 0xA1, CHR 0xE6,
     CHR 0x81, CHR 0xAF, CHR 0xE6, CHR 0x9A, CHR 0xB4, CHR 0xE9, CHR 0x9C, CHR 0xB2, CHR 0xE9, CHR 0xA3, CHR 0x8E,
     CHR 0xE9, CHR 0x99, CHR 0xA9, CHR 0xE3, CHR 0x80, CHR 0x82])
     [] RiskHigh True [ArtifactKubernetes]
     ([CHR 0xE5, CHR 0x85, CHR 0xB3, CHR 0xE9, CHR 0x97, CHR 0xAD] @ '' hostNetwork/hostPID'' @ [CHR 0xEF,
     CHR 0xBC, CHR 0x8C, CHR 0xE4, CHR 0xBD, CHR 0xBF, CHR 0xE7, CHR 0x94, CHR 0xA8, CHR 0xE9, CHR 0x9B, CHR 0x86,
     CHR 0xE7, CHR 0xBE, CHR 0xA4, CHR 0xE7, CHR 0xBD, CHR 0x91, CHR 0xE7, CHR 0xBB, CHR 0x9C, CHR 0xE4, CHR 0xB8,
     CHR 0x8E, CHR 0xE6, CHR 0xA0, CHR 0x87, CHR 0xE5, CHR 0x87, CHR 0x86, CHR 0xE6, CHR 0x9C, CHR 0x8D, CHR 0xE5,
     CHR 0x8A, CHR 0xA1, CHR 0xE5, CHR 0x8F, CHR 0x91, CHR 0xE7, CHR 0x8E, CHR 0xB0, CHR 0xE3, CHR 0x80, CHR 0x82])"

definition rule_k8s_escalation :: risk_policy where
  "rule_k8s_escalation =
     builtin_rule ''pol_k8s_escalation'' ''K8S_PRIVILEGE_ESCALATION''
     ([CHR 0xE7, CHR 0xA6, CHR 0x81, CHR 0xE6, CHR 0xAD, CHR 0xA2, CHR 0xE5, CHR 0xAE, CHR 0xB9, CHR 0xE5,
     CHR 0x99, CHR 0xA8, CHR 0xE6, CHR 0x8F, CHR 0x90, CHR 0xE5, CHR 0x8D, CHR 0x87, CHR 0xE6, CHR 0x9D, CHR 0x83,
     CHR 0xE9, CHR 0x99, CHR 0x90])
     (''allowPrivilegeEscalation '' @ [CHR 0xE4, CHR 0xBC, CHR 0x9A, CHR 0xE5, CHR 0x85, CHR 0x81, CHR 0xE8,
     CHR 0xAE, CHR 0xB8, CHR 0xE8, CHR 0xBF, CHR 0x9B, CHR 0xE7, CHR 0xA8, CHR 0x8B, CHR 0xE8, CHR 0x8E, CHR 0xB7,
     CHR 0xE5, CHR 0xBE, CHR 0x97, CHR 0xE8, CHR 0xB6, CHR 0x85, CHR 0xE5, CHR 0x87, CHR 0xBA, CHR 0xE9, CHR 0x95,
     CHR 0x9C, CHR 0xE5, CHR 0x83, CHR 0x8F, CHR 0xE5, CHR 0x9F, CHR 0xBA, CHR 0xE7, CHR 0xBA, CHR 0xBF, CHR 0xE7,
     CHR 0x9A, CHR 0x84, CHR 0xE6, CHR 0x9D, CHR 0x83, CHR 0xE9, CHR 0x99, CHR 0x90, CHR 0xE3, CHR 0x80, CHR 0x82])
     [] RiskHigh True [ArtifactKubernetes]
     ([CHR 0xE8, CHR 0xAE, CHR 0xBE, CHR 0xE7, CHR 0xBD, CHR 0xAE] @ '' allowPrivilegeEscalation: false '' @
     [CHR 0xE5, CHR 0xB9, CHR 0xB6, CHR 0xE6, CHR 0x94, CHR 0xB6, CHR 0xE6, CHR 0x95, CHR 0x9B] @
     '' capabilities'' @ [CHR 0xE3, CHR 0x80, CHR 0x82])"

definition rule_k8s_root :: risk_policy where
  "rule_k8s_root =
     builtin_rule ''pol_k8s_root'' ''K8S_RUN_AS_ROOT''
     ([CHR 0xE7, CHR 0xA6, CHR 0x81, CHR 0xE6, CHR 0xAD, CHR 0xA2, CHR 0xE5, CHR 0xAE, CHR 0xB9, CHR 0xE5,
     CHR 0x99, CHR 0xA8, CHR 0xE4, CHR 0xBB, CHR 0xA5] @ '' root '' @ [CHR 0xE8, CHR 0xBA, CHR 0xAB, CHR 0xE4,
     CHR 0xBB, CHR 0xBD, CHR 0xE8, CHR 0xBF, CHR 0x90, CHR 0xE8, CHR 0xA1, CHR 0x8C])
     (''root '' @ [CHR 0xE5, CHR 0xAE, CHR 0xB9, CHR 0xE5, CHR 0x99, CHR 0xA8, CHR 0xE5, CHR 0x9C, CHR 0xA8,
     CHR 0xE6, CHR 0xBC, CHR 0x8F, CHR 0xE6, CHR 0xB4, CHR 0x9E, CHR 0xE5, CHR 0x88, CHR 0xA9, CHR 0xE7, CHR 0x94,
     CHR 0xA8, CHR 0xE5, CHR 0x90, CHR 0x8E, CHR 0xE5, CHR 0x85, CHR 0xB7, CHR 0xE6, CHR 0x9C, CHR 0x89, CHR 0xE6,
     CHR 0x9B, CHR 0xB4, CHR 0xE5, CHR 0xA4, CHR 0xA7, CHR 0xE7, CHR 0x9A, CHR 0x84, CHR 0xE8, CHR 0x8A, CHR 0x82,
     CHR 0xE7, CHR 0x82, CHR 0xB9, CHR 0xE5, CHR 0xBD, CHR 0xB1, CHR 0xE5, CHR 0x93, CHR 0x8D, CHR 0xE9, CHR 0x9D,
     CHR 0xA2, CHR 0xE3, CHR 0x80, CHR 0x82])
     [] RiskHigh True [ArtifactKubernetes]
     ([CHR 0xE8, CHR 0xAE, CHR 0xBE, CHR 0xE7, CHR 0xBD, CHR 0xAE] @ '' runAsNonRoot: true '' @ [CHR 0xE5,
     CHR 0x92, CHR 0x8C, CHR 0xE9, CHR 0x9D, CHR 0x9E, CHR 0xE9, CHR 0x9B, CHR 0xB6] @ '' runAsUser'' @ [CHR 0xE3,
     CHR 0x80, CHR 0x82])"

definition rule_k8s_probes :: risk_policy where
  "rule_k8s_probes =
     builtin_rule ''pol_k8s_probes'' ''K8S_HEALTH_PROBES''
     ([CHR 0xE9, CHR 0x95, CHR 0xBF, CHR 0xE6, CHR 0x9C, CHR 0x9F, CHR 0xE8, CHR 0xBF, CHR 0x90, CHR 0xE8,
     CHR 0xA1, CHR 0x8C, CHR 0xE5, CHR 0xAE, CHR 0xB9, CHR 0xE5, CHR 0x99, CHR 0xA8, CHR 0xE5, CHR 0xBF, CHR 0x85,
     CHR 0xE9, CHR 0xA1, CHR 0xBB, CHR 0xE9, CHR 0x85, CHR 0x8D, CHR 0xE7, CHR 0xBD, CHR 0xAE, CHR 0xE5, CHR 0x81,
     CHR 0xA5, CHR 0xE5, CHR 0xBA, CHR 0xB7, CHR 0xE6, CHR 0x8E, CHR 0xA2, CHR 0xE9, CHR 0x92, CHR 0x88])
     ([CHR 0xE7, CHR 0xBC, CHR 0xBA, CHR 0xE5, CHR 0xB0, CHR 0x91, CHR 0xE5, CHR 0xB0, CHR 0xB1, CHR 0xE7,
     CHR 0xBB, CHR 0xAA, CHR 0xE5, CHR 0x92, CHR 0x8C, CHR 0xE5, CHR 0xAD, CHR 0x98, CHR 0xE6, CHR 0xB4, CHR 0xBB,
     CHR 0xE6, CHR 0x8E, CHR 0xA2, CHR 0xE9, CHR 0x92, CHR 0x88, CHR 0xE4, CHR 0xBC, CHR 0x9A, CHR 0xE5, CHR 0xAF,
     CHR 0xBC, CHR 0xE8, CHR 0x87, CHR 0xB4, CHR 0xE6, CHR 0x95, CHR 0x85, CHR 0xE9, CHR 0x9A, CHR 0x9C, CHR 0xE5,
     CHR 0xAE, CHR 0x9E, CHR 0xE4, CHR 0xBE, CHR 0x8B, CHR 0xE7, CHR 0xBB, CHR 0xA7, CHR 0xE7, CHR 0xBB, CHR 0xAD,
     CHR 0xE6, CHR 0x8E, CHR 0xA5, CHR 0xE6, CHR 0xB5, CHR 0x81, CHR 0xE9, CHR 0x87, CHR 0x8F, CHR 0xE6, CHR 0x88,
     CHR 0x96, CHR 0xE6, CHR 0x97, CHR 0xA0, CHR 0xE6, CHR 0xB3, CHR 0x95, CHR 0xE8, CHR 0x87, CHR 0xAA, CHR 0xE6,
     CHR 0x84, CHR 0x88, CHR 0xE3, CHR 0x80, CHR 0x82])
     [] RiskMedium True [ArtifactKubernetes]
     ([CHR 0xE9, CHR 0x85, CHR 0x8D, CHR 0xE7, CHR 0xBD, CHR 0xAE] @ '' readinessProbe '' @ [CHR 0xE4, CHR 0xB8,
     CHR 0x8E] @ '' livenessProbe'' @ [CHR 0xEF, CHR 0xBC, CHR 0x8C, CHR 0xE5, CHR 0xB9, CHR 0xB6, CHR 0xE4,
     CHR 0xBD, CHR 0xBF, CHR 0xE7, CHR 0x94, CHR 0xA8, CHR 0xE7, CHR 0x8B, CHR 0xAC, CHR 0xE7, CHR 0xAB, CHR 0x8B,
     CHR 0xE5, CHR 0x81, CHR 0xA5, CHR 0xE5, CHR 0xBA, CHR 0xB7, CHR 0xE7, CHR 0xAB, CHR 0xAF, CHR 0xE7, CHR 0x82,
     CHR 0xB9, CHR 0xE3, CHR 0x80, CHR 0x82])"

definition rule_k8s_replica :: risk_policy where
  "rule_k8s_replica =
     builtin_rule ''pol_k8s_replica'' ''K8S_SINGLE_REPLICA''
     ([CHR 0xE7, CHR 0x94, CHR 0x9F, CHR 0xE4, CHR 0xBA, CHR 0xA7, CHR 0xE6, CHR 0x9C, CHR 0x8D, CHR 0xE5,
     CHR 0x8A, CHR 0xA1, CHR 0xE4, CHR 0xB8, CHR 0x8D, CHR 0xE5, CHR 0xBE, CHR 0x97, CHR 0xE5, CHR 0x8D, CHR 0x95,
     CHR 0xE5, CHR 0x89, CHR 0xAF, CHR 0xE6, CHR 0x9C, CHR 0xAC, CHR 0xE8, CHR 0xBF, CHR 0x90, CHR 0xE8, CHR 0xA1,
     CHR 0x8C])
     ([CHR 0xE5, CHR 0x8D, CHR 0x95, CHR 0xE5, CHR 0x89, CHR 0xAF, CHR 0xE6, CHR 0x9C, CHR 0xAC, CHR 0xE5,
     CHR 0x9C, CHR 0xA8, CHR 0xE6, CHR 0xBB, CHR 0x9A, CHR 0xE5, CHR 0x8A, CHR 0xA8, CHR 0xE5, CHR 0x8D, CHR 0x87,
     CHR 0xE7, CHR 0xBA, CHR 0xA7, CHR 0xE5, CHR 0x92, CHR 0x8C, CHR 0xE8, CHR 0x8A, CHR 0x82, CHR 0xE7, CHR 0x82,
     CHR 0xB9, CHR 0xE6, CHR 0x95, CHR 0x85, CHR 0xE9, CHR 0x9A, CHR 0x9C, CHR 0xE6, CHR 0x97, CHR 0xB6, CHR 0xE4,
     CHR 0xBC, CHR 0x9A, CHR 0xE7, CHR 0x9B, CHR 0xB4, CHR 0xE6, CHR 0x8E, CHR 0xA5, CHR 0xE4, CHR 0xB8, CHR 0xAD,
     CHR 0xE6, CHR 0x96, CHR 0xAD, CHR 0xE3, CHR 0x80, CHR 0x82])
     [] RiskHigh True [ArtifactKubernetes]
     ([CHR 0xE7, CHR 0x94, CHR 0x9F, CHR 0xE4, CHR 0xBA, CHR 0xA7] @ '' Deployment/StatefulSet '' @ [CHR 0xE8,
     CHR 0x87, CHR 0xB3, CHR 0xE5, CHR 0xB0, CHR 0x91, CHR 0xE9, CHR 0x85, CHR 0x8D, CHR 0xE7, CHR 0xBD, CHR 0xAE,
     CHR 0xE4, CHR 0xB8, CHR 0xA4, CHR 0xE4, CHR 0xB8, CHR 0xAA, CHR 0xE5, CHR 0x89, CHR 0xAF, CHR 0xE6, CHR 0x9C,
     CHR 0xAC, CHR 0xE5, CHR 0xB9, CHR 0xB6, CHR 0xE8, CHR 0xAE, CHR 0xBE, CHR 0xE7, CHR 0xBD, CHR 0xAE] @
     '' PDB'' @ [CHR 0xE3, CHR 0x80, CHR 0x82])"

definition rule_k8s_host_path :: risk_policy where
  "rule_k8s_host_path =
     builtin_rule ''pol_k8s_host_path'' ''K8S_HOST_PATH''
     ([CHR 0xE9, CHR 0x99, CHR 0x90, CHR 0xE5, CHR 0x88, CHR 0xB6, CHR 0xE7, CHR 0x94, CHR 0x9F, CHR 0xE4,
     CHR 0xBA, CHR 0xA7, CHR 0xE5, CHR 0xB7, CHR 0xA5, CHR 0xE4, CHR 0xBD, CHR 0x9C, CHR 0xE8, CHR 0xB4, CHR 0x9F,
     CHR 0xE8, CHR 0xBD, CHR 0xBD, CHR 0xE6, CHR 0x8C, CHR 0x82, CHR 0xE8, CHR 0xBD, CHR 0xBD] @ '' hostPath'')
     (''hostPath '' @ [CHR 0xE7, CHR 0xBB, CHR 0x95, CHR 0xE8, CHR 0xBF, CHR 0x87, CHR 0xE5, CHR 0xAE, CHR 0xB9,
     CHR 0xE5, CHR 0x99, CHR 0xA8, CHR 0xE6, CHR 0x96, CHR 0x87, CHR 0xE4, CHR 0xBB, CHR 0xB6, CHR 0xE7, CHR 0xB3,
     CHR 0xBB, CHR 0xE7, CHR 0xBB, CHR 0x9F, CHR 0xE9, CHR 0x9A, CHR 0x94, CHR 0xE7, CHR 0xA6, CHR 0xBB, CHR 0xE5,
     CHR 0xB9, CHR 0xB6, CHR 0xE7, CHR 0xBB, CHR 0x91, CHR 0xE5, CHR 0xAE, CHR 0x9A, CHR 0xE5, CHR 0x85, CHR 0xB7,
     CHR 0xE4, CHR 0xBD, CHR 0x93, CHR 0xE8, CHR 0x8A, CHR 0x82, CHR 0xE7, CHR 0x82, CHR 0xB9, CHR 0xE3, CHR 0x80,
     CHR 0x82])
     [] RiskHigh True [ArtifactKubernetes]
     ([CHR 0xE6, CHR 0x94, CHR 0xB9, CHR 0xE7, CHR 0x94, CHR 0xA8] @ '' PVC'' @ [CHR 0xE3, CHR 0x80, CHR 0x81] @
     ''CSI '' @ [CHR 0xE6, CHR 0x88, CHR 0x96, CHR 0xE5, CHR 0x8F, CHR 0x97, CHR 0xE6, CHR 0x8E, CHR 0xA7,
     CHR 0xE4, CHR 0xB8, CHR 0xB4, CHR 0xE6, CHR 0x97, CHR 0xB6, CHR 0xE5, CHR 0x8D, CHR 0xB7, CHR 0xEF, CHR 0xBC,
     CHR 0x9B, CHR 0xE7, CHR 0xA1, CHR 0xAE, CHR 0xE9, CHR 0x9C, CHR 0x80, CHR 0xE4, CHR 0xBD, CHR 0xBF, CHR 0xE7,
     CHR 0x94, CHR 0xA8, CHR 0xE6, CHR 0x97, CHR 0xB6, CHR 0xE8, CHR 0xB5, CHR 0xB0, CHR 0xE7, CHR 0x8B, CHR 0xAC,
     CHR 0xE7, CHR 0xAB, CHR 0x8B, CHR 0xE5, CHR 0xAE, CHR 0x89, CHR 0xE5, CHR 0x85, CHR 0xA8, CHR 0xE5, CHR 0xAE,
     CHR 0xA1, CHR 0xE6, CHR 0x89, CHR 0xB9, CHR 0xE3, CHR 0x80, CHR 0x82])"

definition rule_config_secret :: risk_policy where
  "rule_config_secret =
     builtin_rule ''pol_config_secret'' ''CONFIG_SECRET_EXPOSURE''
     ([CHR 0xE9, CHR 0x85, CHR 0x8D, CHR 0xE7, CHR 0xBD, CHR 0xAE, CHR 0xE4, CHR 0xB8, CHR 0xAD, CHR 0xE7,
     CHR 0x96, CHR 0x91, CHR 0xE4, CHR 0xBC, CHR 0xBC, CHR 0xE5, CHR 0x8C, CHR 0x85, CHR 0xE5, CHR 0x90, CHR 0xAB,
     CHR 0xE6, CHR 0x98, CHR 0x8E, CHR 0xE6, CHR 0x96, CHR 0x87, CHR 0xE5, CHR 0xAF, CHR 0x86, CHR 0xE9, CHR 0x92,
     CHR 0xA5])
     ([CHR 0xE5, CHR 0x8F, CHR 0xA3, CHR 0xE4, CHR 0xBB, CHR 0xA4, CHR 0xE3, CHR 0x80, CHR 0x81] @ ''Token '' @
     [CHR 0xE6, CHR 0x88, CHR 0x96] @ '' Secret '' @ [CHR 0xE4, CHR 0xB8, CHR 0x8D, CHR 0xE5, CHR 0xBA, CHR 0x94,
     CHR 0xE7, CHR 0x9B, CHR 0xB4, CHR 0xE6, CHR 0x8E, CHR 0xA5, CHR 0xE8, CHR 0xBF, CHR 0x9B, CHR 0xE5, CHR 0x85,
     CHR 0xA5, CHR 0xE4, CHR 0xBB, CHR 0xA3, CHR 0xE7, CHR 0xA0, CHR 0x81, CHR 0xE4, CHR 0xBB, CHR 0x93, CHR 0xE5,
     CHR 0xBA, CHR 0x93, CHR 0xE5, CHR 0x92, CHR 0x8C, CHR 0xE5, CHR 0x8F, CHR 0x98, CHR 0xE6, CHR 0x9B, CHR 0xB4,
     CHR 0xE8, CHR 0xAF, CHR 0x81, CHR 0xE6, CHR 0x8D, CHR 0xAE, CHR 0xE3, CHR 0x80, CHR 0x82])
     [] RiskHigh True [ArtifactConfig]
     ([CHR 0xE6, CHR 0x94, CHR 0xB9, CHR 0xE7, CHR 0x94, CHR 0xA8, CHR 0xE4, CHR 0xBC, CHR 0x81, CHR 0xE4,
     CHR 0xB8, CHR 0x9A, CHR 0xE5, CHR 0xAF, CHR 0x86, CHR 0xE9, CHR 0x92, CHR 0xA5, CHR 0xE7, CHR 0xAE, CHR 0xA1,
     CHR 0xE7, CHR 0x90, CHR 0x86, CHR 0xE6, CHR 0x9C, CHR 0x8D, CHR 0xE5, CHR 0x8A, CHR 0xA1, CHR 0xE6, CHR 0x88,
     CHR 0x96] @ '' Kubernetes Secret '' @ [CHR 0xE5, CHR 0xBC, CHR 0x95, CHR 0xE7, CHR 0x94, CHR 0xA8, CHR 0xE3,
     CHR 0x80, CHR 0x82])"

definition rule_config_debug :: risk_policy where
  "rule_config_debug =
     builtin_rule ''pol_config_debug'' ''CONFIG_DEBUG_ENABLED''
     ([CHR 0xE7, CHR 0x94, CHR 0x9F, CHR 0xE4, CHR 0xBA, CHR 0xA7, CHR 0xE7, CHR 0x8E, CHR 0xAF, CHR 0xE5,
     CHR 0xA2, CHR 0x83, CHR 0xE7, CHR 0xA6, CHR 0x81, CHR 0xE6, CHR 0xAD, CHR 0xA2, CHR 0xE5, CHR 0xBC, CHR 0x80,
     CHR 0xE5, CHR 0x90, CHR 0xAF, CHR 0xE8, CHR 0xB0, CHR 0x83, CHR 0xE8, CHR 0xAF, CHR 0x95, CHR 0xE6, CHR 0xA8,
     CHR 0xA1, CHR 0xE5, CHR 0xBC, CHR 0x8F])
     ([CHR 0xE8, CHR 0xB0, CHR 0x83, CHR 0xE8, CHR 0xAF, CHR 0x95, CHR 0xE6, CHR 0xA8, CHR 0xA1, CHR 0xE5,
     CHR 0xBC, CHR 0x8F, CHR 0xE5, CHR 0x8F, CHR 0xAF, CHR 0xE8, CHR 0x83, CHR 0xBD, CHR 0xE6, CHR 0x9A, CHR 0xB4,
     CHR 0xE9, CHR 0x9C, CHR 0xB2, CHR 0xE5, CHR 0x86, CHR 0x85, CHR 0xE9, CHR 0x83, CHR 0xA8, CHR 0xE4, CHR 0xBF,
     CHR 0xA1, CHR 0xE6, CHR 0x81, CHR 0xAF, CHR 0xE5, CHR 0xB9, CHR 0xB6, CHR 0xE5, CHR 0xA2, CHR 0x9E, CHR 0xE5,
     CHR 0x8A, CHR 0xA0, CHR 0xE6, CHR 0x80, CHR 0xA7, CHR 0xE8, CHR 0x83, CHR 0xBD, CHR 0xE5, CHR 0xBC, CHR 0x80,
     CHR 0xE9, CHR 0x94, CHR 0x80, CHR 0xE3, CHR 0x80, CHR 0x82])
     [] RiskHigh True [ArtifactConfig]
     ([CHR 0xE7, CHR 0x94, CHR 0x9F, CHR 0xE4, CHR 0xBA, CHR 0xA7, CHR 0xE9, CHR 0x85, CHR 0x8D, CHR 0xE7,
     CHR 0xBD, CHR 0xAE, CHR 0xE5, CHR 0x85, CHR 0xB3, CHR 0xE9, CHR 0x97, CHR 0xAD] @ '' debug'' @ [CHR 0xE3,
     CHR 0x80, CHR 0x81] @ ''trace '' @ [CHR 0xE5, CHR 0x92, CHR 0x8C, CHR 0xE8, CHR 0xAF, CHR 0xA6, CHR 0xE7,
     CHR 0xBB, CHR 0x86, CHR 0xE9, CHR 0x94, CHR 0x99, CHR 0xE8, CHR 0xAF, CHR 0xAF, CHR 0xE8, CHR 0xBE, CHR 0x93,
     CHR 0xE5, CHR 0x87, CHR 0xBA, CHR 0xE3, CHR 0x80, CHR 0x82])"

definition rule_config_auth :: risk_policy where
  "rule_config_auth =
     builtin_rule ''pol_config_auth'' ''CONFIG_AUTH_DISABLED''
     ([CHR 0xE7, CHR 0x94, CHR 0x9F, CHR 0xE4, CHR 0xBA, CHR 0xA7, CHR 0xE7, CHR 0x8E, CHR 0xAF, CHR 0xE5,
     CHR 0xA2, CHR 0x83, CHR 0xE4, CHR 0xB8, CHR 0x8D, CHR 0xE5, CHR 0xBE, CHR 0x97, CHR 0xE5, CHR 0x85, CHR 0xB3,
     CHR 0xE9, CHR 0x97, CHR 0xAD, CHR 0xE8, CHR 0xAE, CHR 0xA4, CHR 0xE8, CHR 0xAF, CHR 0x81, CHR 0xE6, CHR 0x8E,
     CHR 0x88, CHR 0xE6, CHR 0x9D, CHR 0x83])
     ([CHR 0xE5, CHR 0x85, CHR 0xB3, CHR 0xE9, CHR 0x97, CHR 0xAD, CHR 0xE8, CHR 0xAE, CHR 0xA4, CHR 0xE8,
     CHR 0xAF, CHR 0x81, CHR 0xE3, CHR 0x80, CHR 0x81, CHR 0xE6, CHR 0x8E, CHR 0x88, CHR 0xE6, CHR 0x9D, CHR 0x83,
     CHR 0xE6, CHR 0x88, CHR 0x96, CHR 0xE5, CHR 0xBC, CHR 0x80, CHR 0xE6, CHR 0x94, CHR 0xBE, CHR 0xE5, CHR 0x8C,
     CHR 0xBF, CHR 0xE5, CHR 0x90, CHR 0x8D, CHR 0xE8, CHR 0xAE, CHR 0xBF, CHR 0xE9, CHR 0x97, CHR 0xAE, CHR 0xE4,
     CHR 0xBC, CHR 0x9A, CHR 0xE4, CHR 0xBD, CHR 0xBF, CHR 0xE5, CHR 0x86, CHR 0x85, CHR 0xE9, CHR 0x83, CHR 0xA8,
     CHR 0xE8, CHR 0x83, CHR 0xBD, CHR 0xE5, CHR 0x8A, CHR 0x9B, CHR 0xE7, CHR 0x9B, CHR 0xB4, CHR 0xE6, CHR 0x8E,
     CHR 0xA5, CHR 0xE6, CHR 0x9A, CHR 0xB4, CHR 0xE9, CHR 0x9C, CHR 0xB2, CHR 0xE3, CHR 0x80, CHR 0x82])
     [] RiskHigh True [ArtifactConfig]
     ([CHR 0xE6, CHR 0x81, CHR 0xA2, CHR 0xE5, CHR 0xA4, CHR 0x8D, CHR 0xE8, CHR 0xAE, CHR 0xA4, CHR 0xE8,
     CHR 0xAF, CHR 0x81, CHR 0xE6, CHR 0x8E, CHR 0x88, CHR 0xE6, CHR 0x9D, CHR 0x83, CHR 0xE5, CHR 0x9F, CHR 0xBA,
     CHR 0xE7, CHR 0xBA, CHR 0xBF, CHR 0xEF, CHR 0xBC, CHR 0x8C, CHR 0xE5, CHR 0xB9, CHR 0xB6, CHR 0xE9, CHR 0x80,
     CHR 0x9A, CHR 0xE8, CHR 0xBF, CHR 0x87, CHR 0xE6, CHR 0x9C, CHR 0x80, CHR 0xE5, CHR 0xB0, CHR 0x8F, CHR 0xE6,
     CHR 0x9D, CHR 0x83, CHR 0xE9, CHR 0x99, CHR 0x90, CHR 0xE8, CHR 0xA7, CHR 0x92, CHR 0xE8, CHR 0x89, CHR 0xB2,
     CHR 0xE5, CHR 0xBC, CHR 0x80, CHR 0xE6, CHR 0x94, CHR 0xBE, CHR 0xE8, CHR 0xAE, CHR 0xBF, CHR 0xE9, CHR 0x97,
     CHR 0xAE, CHR 0xE3, CHR 0x80, CHR 0x82])"

definition rule_config_tls :: risk_policy where
  "rule_config_tls =
     builtin_rule ''pol_config_tls'' ''CONFIG_TLS_VERIFY_DISABLED''
     ([CHR 0xE7, CHR 0x94, CHR 0x9F, CHR 0xE4, CHR 0xBA, CHR 0xA7, CHR 0xE7, CHR 0x8E, CHR 0xAF, CHR 0xE5,
     CHR 0xA2, CHR 0x83, CHR 0xE4, CHR 0xB8, CHR 0x8D, CHR 0xE5, CHR 0xBE, CHR 0x97, CHR 0xE8, CHR 0xB7, CHR 0xB3,
     CHR 0xE8, CHR 0xBF, CHR 0x87] @ '' TLS '' @ [CHR 0xE6, CHR 0xA0, CHR 0xA1, CHR 0xE9, CHR 0xAA, CHR 0x8C])
     ([CHR 0xE8, CHR 0xB7, CHR 0xB3, CHR 0xE8, CHR 0xBF, CHR 0x87, CHR 0xE8, CHR 0xAF, CHR 0x81, CHR 0xE4,
     CHR 0xB9, CHR 0xA6, CHR 0xE6, CHR 0xA0, CHR 0xA1, CHR 0xE9, CHR 0xAA, CHR 0x8C, CHR 0xE4, CHR 0xBC, CHR 0x9A,
     CHR 0xE4, CHR 0xBD, CHR 0xBF, CHR 0xE6, CHR 0x9C, CHR 0x8D, CHR 0xE5, CHR 0x8A, CHR 0xA1, CHR 0xE9, CHR 0x97,
     CHR 0xB4, CHR 0xE9, CHR 0x80, CHR 0x9A, CHR 0xE4, CHR 0xBF, CHR 0xA1, CHR 0xE6, CHR 0x9A, CHR 0xB4, CHR 0xE9,
     CHR 0x9C, CHR 0xB2, CHR 0xE4, CHR 0xBA, CHR 0x8E, CHR 0xE4, CHR 0xB8, CHR 0xAD, CHR 0xE9, CHR 0x97, CHR 0xB4,
     CHR 0xE4, CHR 0xBA, CHR 0xBA, CHR 0xE6, CHR 0x94, CHR 0xBB, CHR 0xE5, CHR 0x87, CHR 0xBB, CHR 0xE3, CHR 0x80,
     CHR 0x82])
     [] RiskHigh True [ArtifactConfig]
     ([CHR 0xE5, CHR 0x90, CHR 0xAF, CHR 0xE7, CHR 0x94, CHR 0xA8, CHR 0xE8, CHR 0xAF, CHR 0x81, CHR 0xE4,
     CHR 0xB9, CHR 0xA6, CHR 0xE9, CHR 0x93, CHR 0xBE, CHR 0xE5, CHR 0x92, CHR 0x8C, CHR 0xE4, CHR 0xB8, CHR 0xBB,
     CHR 0xE6, CHR 0x9C, CHR 0xBA, CHR 0xE5, CHR 0x90, CHR 0x8D, CHR 0xE6, CHR 0xA0, CHR 0xA1, CHR 0xE9, CHR 0xAA,
     CHR 0x8C, CHR 0xEF, CHR 0xBC, CHR 0x8C, CHR 0xE4, CHR 0xBF, CHR 0xAE, CHR 0xE5, CHR 0xA4, CHR 0x8D, CHR 0xE4,
     CHR 0xBF, CHR 0xA1, CHR 0xE4, CHR 0xBB, CHR 0xBB, CHR 0xE9, CHR 0x93, CHR 0xBE, CHR 0xE8, CHR 0x80, CHR 0x8C,
     CHR 0xE4, CHR 0xB8, CHR 0x8D, CHR 0xE6, CHR 0x98, CHR 0xAF, CHR 0xE5, CHR 0x85, CHR 0xB3, CHR 0xE9, CHR 0x97,
     CHR 0xAD, CHR 0xE9, CHR 0xAA, CHR 0x8C, CHR 0xE8, CHR 0xAF, CHR 0x81, CHR 0xE3, CHR 0x80, CHR 0x82])"

definition rule_full_release :: risk_policy where
  "rule_full_release =
     builtin_rule ''pol_full_release'' ''PRODUCTION_FULL_RELEASE''
     ([CHR 0xE7, CHR 0x94, CHR 0x9F, CHR 0xE4, CHR 0xBA, CHR 0xA7, CHR 0xE5, CHR 0x8F, CHR 0x91, CHR 0xE5,
     CHR 0xB8, CHR 0x83, CHR 0xE7, CHR 0xBC, CHR 0xBA, CHR 0xE5, CHR 0xB0, CHR 0x91, CHR 0xE7, CHR 0x81, CHR 0xB0,
     CHR 0xE5, CHR 0xBA, CHR 0xA6, CHR 0xE7, CHR 0xAD, CHR 0x96, CHR 0xE7, CHR 0x95, CHR 0xA5])
     ([CHR 0xE6, CHR 0xA0, CHR 0xB8, CHR 0xE5, CHR 0xBF, CHR 0x83, CHR 0xE6, CHR 0x9C, CHR 0x8D, CHR 0xE5,
     CHR 0x8A, CHR 0xA1, CHR 0xE7, CHR 0x9B, CHR 0xB4, CHR 0xE6, CHR 0x8E, CHR 0xA5, CHR 0xE5, CHR 0x85, CHR 0xA8,
     CHR 0xE9, CHR 0x87, CHR 0x8F, CHR 0xE5, CHR 0x8F, CHR 0x91, CHR 0xE5, CHR 0xB8, CHR 0x83, CHR 0xE4, CHR 0xBC,
     CHR 0x9A, CHR 0xE6, CHR 0x89, CHR 0xA9, CHR 0xE5, CHR 0xA4, CHR 0xA7, CHR 0xE6, CHR 0x95, CHR 0x85, CHR 0xE9,
     CHR 0x9A, CHR 0x9C, CHR 0xE5, CHR 0xBD, CHR 0xB1, CHR 0xE5, CHR 0x93, CHR 0x8D, CHR 0xE5, CHR 0x8D, CHR 0x8A,
     CHR 0xE5, CHR 0xBE, CHR 0x84, CHR 0xE3, CHR 0x80, CHR 0x82])
     [] RiskMedium False []
     ([CHR 0xE4, CHR 0xBD, CHR 0xBF, CHR 0xE7, CHR 0x94, CHR 0xA8, CHR 0xE9, CHR 0x87, CHR 0x91, CHR 0xE4,
     CHR 0xB8, CHR 0x9D, CHR 0xE9, CHR 0x9B, CHR 0x80, CHR 0xE6, CHR 0x88, CHR 0x96, CHR 0xE8, CHR 0x93, CHR 0x9D,
     CHR 0xE7, CHR 0xBB, CHR 0xBF, CHR 0xE5, CHR 0x8F, CHR 0x91, CHR 0xE5, CHR 0xB8, CHR 0x83, CHR 0xEF, CHR 0xBC,
     CHR 0x8C, CHR 0xE5, CHR 0xB9, CHR 0xB6, CHR 0xE8, CHR 0xAE, CHR 0xBE, CHR 0xE7, CHR 0xBD, CHR 0xAE, CHR 0xE8,
     CHR 0xA7, CHR 0x82, CHR 0xE5, CHR 0xAF, CHR 0x9F, CHR 0xE7, CHR 0xAA, CHR 0x97, CHR 0xE5, CHR 0x8F, CHR 0xA3,
     CHR 0xE3, CHR 0x80, CHR 0x82])"

definition rule_missing_metrics :: risk_policy where
  "rule_missing_metrics =
     builtin_rule ''pol_missing_metrics'' ''MISSING_OBSERVATION_METRICS''
     ([CHR 0xE5, CHR 0x8F, CHR 0x91, CHR 0xE5, CHR 0xB8, CHR 0x83, CHR 0xE8, CHR 0xAE, CHR 0xA1, CHR 0xE5,
     CHR 0x88, CHR 0x92, CHR 0xE7, CHR 0xBC, CHR 0xBA, CHR 0xE5, CHR 0xB0, CHR 0x91, CHR 0xE6, CHR 0x88, CHR 0x90,
     CHR 0xE5, CHR 0x8A, CHR 0x9F, CHR 0xE5, CHR 0x88, CHR 0xA4, CHR 0xE5, CHR 0xAE, CHR 0x9A, CHR 0xE6, CHR 0x8C,
     CHR 0x87, CHR 0xE6, CHR 0xA0, CHR 0x87])
     ([CHR 0xE6, CHR 0xB2, CHR 0xA1, CHR 0xE6, CHR 0x9C, CHR 0x89, CHR 0xE9, CHR 0x94, CHR 0x99, CHR 0xE8,
     CHR 0xAF, CHR 0xAF, CHR 0xE7, CHR 0x8E, CHR 0x87, CHR 0xE3, CHR 0x80, CHR 0x81, CHR 0xE5, CHR 0xBB, CHR 0xB6,
     CHR 0xE8, CHR 0xBF, CHR 0x9F, CHR 0xE6, CHR 0x88, CHR 0x96, CHR 0xE4, CHR 0xB8, CHR 0x9A, CHR 0xE5, CHR 0x8A,
     CHR 0xA1, CHR 0xE6, CHR 0x8C, CHR 0x87, CHR 0xE6, CHR 0xA0, CHR 0x87, CHR 0xE6, CHR 0x97, CHR 0xB6, CHR 0xE6,
     CHR 0x97, CHR 0xA0, CHR 0xE6, CHR 0xB3, CHR 0x95, CHR 0xE8, CHR 0x87, CHR 0xAA, CHR 0xE5, CHR 0x8A, CHR 0xA8,
     CHR 0xE5, CHR 0x88, CHR 0xA4, CHR 0xE6, CHR 0x96, CHR 0xAD, CHR 0xE5, CHR 0x8F, CHR 0x91, CHR 0xE5, CHR 0xB8,
     CHR 0x83, CHR 0xE6, CHR 0x98, CHR 0xAF, CHR 0xE5, CHR 0x90, CHR 0xA6, CHR 0xE5, CHR 0xAE, CHR 0x89, CHR 0xE5,
     CHR 0x85, CHR 0xA8, CHR 0xE3, CHR 0x80, CHR 0x82])
     [] RiskMedium False []
     ([CHR 0xE8, CHR 0x87, CHR 0xB3, CHR 0xE5, CHR 0xB0, CHR 0x91, CHR 0xE9, CHR 0x85, CHR 0x8D, CHR 0xE7,
     CHR 0xBD, CHR 0xAE, CHR 0xE9, CHR 0x94, CHR 0x99, CHR 0xE8, CHR 0xAF, CHR 0xAF, CHR 0xE7, CHR 0x8E, CHR 0x87,
     CHR 0xE3, CHR 0x80, CHR 0x81] @ ''P99 '' @ [CHR 0xE5, CHR 0x92, CHR 0x8C, CHR 0xE4, CHR 0xB8, CHR 0x80,
     CHR 0xE4, CHR 0xB8, CHR 0xAA, CHR 0xE6, CHR 0xA0, CHR 0xB8, CHR 0xE5, CHR 0xBF, CHR 0x83, CHR 0xE4, CHR 0xB8,
     CHR 0x9A, CHR 0xE5, CHR 0x8A, CHR 0xA1, CHR 0xE6, CHR 0x8C, CHR 0x87, CHR 0xE6, CHR 0xA0, CHR 0x87, CHR 0xE3,
     CHR 0x80, CHR 0x82])"

definition rule_change_window_conflict :: risk_policy where
  "rule_change_window_conflict =
     builtin_rule ''pol_change_window_conflict'' ''CHANGE_WINDOW_CONFLICT''
     ([CHR 0xE5, CHR 0x90, CHR 0x8C, CHR 0xE4, CHR 0xB8, CHR 0x80, CHR 0xE6, CHR 0x9C, CHR 0x8D, CHR 0xE5,
     CHR 0x8A, CHR 0xA1, CHR 0xE5, CHR 0x8F, CHR 0x91, CHR 0xE5, CHR 0xB8, CHR 0x83, CHR 0xE7, CHR 0xAA, CHR 0x97,
     CHR 0xE5, CHR 0x8F, CHR 0xA3, CHR 0xE5, CHR 0x86, CHR 0xB2, CHR 0xE7, CHR 0xAA, CHR 0x81])
     ([CHR 0xE5, CHR 0x90, CHR 0x8C, CHR 0xE4, CHR 0xB8, CHR 0x80, CHR 0xE6, CHR 0x9C, CHR 0x8D, CHR 0xE5,
     CHR 0x8A, CHR 0xA1, CHR 0xE5, CHR 0x9C, CHR 0xA8, CHR 0xE4, CHR 0xBF, CHR 0x9D, CHR 0xE6, CHR 0x8A, CHR 0xA4,
     CHR 0xE7, CHR 0xAA, CHR 0x97, CHR 0xE5, CHR 0x8F, CHR 0xA3, CHR 0xE5, CHR 0x86, CHR 0x85, CHR 0xE5, CHR 0xAE,
     CHR 0x89, CHR 0xE6, CHR 0x8E, CHR 0x92, CHR 0xE5, CHR 0xA4, CHR 0x9A, CHR 0xE4, CHR 0xB8, CHR 0xAA, CHR 0xE6,
     CHR 0x9C, CHR 0xAA, CHR 0xE9, CHR 0x97, CHR 0xAD, CHR 0xE7, CHR 0x8E, CHR 0xAF, CHR 0xE5, CHR 0x8F, CHR 0x98,
     CHR 0xE6, CHR 0x9B, CHR 0xB4, CHR 0xEF, CHR 0xBC, CHR 0x8C, CHR 0xE5, CHR 0xAE, CHR 0xB9, CHR 0xE6, CHR 0x98,
     CHR 0x93, CHR 0xE9, CHR 0x80, CHR 0xA0, CHR 0xE6, CHR 0x88, CHR 0x90, CHR 0xE7, CHR 0x89, CHR 0x88, CHR 0xE6,
     CHR 0x9C, CHR 0xAC, CHR 0xE8, CHR 0xA6, CHR 0x86, CHR 0xE7, CHR 0x9B, CHR 0x96, CHR 0xE3, CHR 0x80, CHR 0x81,
     CHR 0xE5, CHR 0x9B, CHR 0x9E, CHR 0xE6, CHR 0xBB, CHR 0x9A, CHR 0xE5, CHR 0x9F, CHR 0xBA, CHR 0xE7, CHR 0xBA,
     CHR 0xBF, CHR 0xE6, CHR 0xB7, CHR 0xB7, CHR 0xE4, CHR 0xB9, CHR 0xB1, CHR 0xE5, CHR 0x92, CHR 0x8C, CHR 0xE8,
     CHR 0xB4, CHR 0xA3, CHR 0xE4, CHR 0xBB, CHR 0xBB, CHR 0xE8, CHR 0xBE, CHR 0xB9, CHR 0xE7, CHR 0x95, CHR 0x8C,
     CHR 0xE4, CHR 0xB8, CHR 0x8D, CHR 0xE6, CHR 0xB8, CHR 0x85, CHR 0xE3, CHR 0x80, CHR 0x82])
     [] RiskHigh True []
     ([CHR 0xE8, CHR 0xB0, CHR 0x83, CHR 0xE6, CHR 0x95, CHR 0xB4, CHR 0xE8, CHR 0xAE, CHR 0xA1, CHR 0xE5,
     CHR 0x88, CHR 0x92, CHR 0xE6, CHR 0x97, CHR 0xB6, CHR 0xE9, CHR 0x97, CHR 0xB4, CHR 0xEF, CHR 0xBC, CHR 0x8C,
     CHR 0xE6, CHR 0x88, CHR 0x96, CHR 0xE5, CHR 0x85, CHR 0x88, CHR 0xE5, CHR 0x85, CHR 0xB3, CHR 0xE9, CHR 0x97,
     CHR 0xAD, CHR 0xE5, CHR 0xB7, CHR 0xB2, CHR 0xE6, CHR 0x9C, CHR 0x89, CHR 0xE5, CHR 0x8F, CHR 0x98, CHR 0xE6,
     CHR 0x9B, CHR 0xB4, CHR 0xE5, CHR 0xB9, CHR 0xB6, CHR 0xE7, CHR 0xA1, CHR 0xAE, CHR 0xE8, CHR 0xAE, CHR 0xA4,
     CHR 0xE5, CHR 0x94, CHR 0xAF, CHR 0xE4, CHR 0xB8, CHR 0x80, CHR 0xE5, CHR 0x8F, CHR 0x91, CHR 0xE5, CHR 0xB8,
     CHR 0x83, CHR 0xE8, CHR 0xB4, CHR 0x9F, CHR 0xE8, CHR 0xB4, CHR 0xA3, CHR 0xE4, CHR 0xBA, CHR 0xBA, CHR 0xE3,
     CHR 0x80, CHR 0x81, CHR 0xE7, CHR 0x89, CHR 0x88, CHR 0xE6, CHR 0x9C, CHR 0xAC, CHR 0xE4, CHR 0xB8, CHR 0x8E,
     CHR 0xE5, CHR 0x9B, CHR 0x9E, CHR 0xE6, CHR 0xBB, CHR 0x9A, CHR 0xE5, CHR 0x9F, CHR 0xBA, CHR 0xE7, CHR 0xBA,
     CHR 0xBF, CHR 0xE3, CHR 0x80, CHR 0x82])"

definition rule_dependency_window_overlap :: risk_policy where
  "rule_dependency_window_overlap =
     builtin_rule ''pol_dependency_window_overlap'' ''DEPENDENCY_WINDOW_OVERLAP''
     ([CHR 0xE4, CHR 0xB8, CHR 0x8A, CHR 0xE4, CHR 0xB8, CHR 0x8B, CHR 0xE6, CHR 0xB8, CHR 0xB8, CHR 0xE6,
     CHR 0x9C, CHR 0x8D, CHR 0xE5, CHR 0x8A, CHR 0xA1, CHR 0xE5, CHR 0x8F, CHR 0x91, CHR 0xE5, CHR 0xB8, CHR 0x83,
     CHR 0xE7, CHR 0xAA, CHR 0x97, CHR 0xE5, CHR 0x8F, CHR 0xA3, CHR 0xE9, CHR 0x87, CHR 0x8D, CHR 0xE5, CHR 0x8F,
     CHR 0xA0])
     ([CHR 0xE7, CHR 0x9B, CHR 0xB4, CHR 0xE6, CHR 0x8E, CHR 0xA5, CHR 0xE4, CHR 0xBE, CHR 0x9D, CHR 0xE8,
     CHR 0xB5, CHR 0x96, CHR 0xE6, CHR 0x88, CHR 0x96, CHR 0xE8, CHR 0xA2, CHR 0xAB, CHR 0xE4, CHR 0xBE, CHR 0x9D,
     CHR 0xE8, CHR 0xB5, CHR 0x96, CHR 0xE6, CHR 0x9C, CHR 0x8D, CHR 0xE5, CHR 0x8A, CHR 0xA1, CHR 0xE5, CHR 0x90,
     CHR 0x8C, CHR 0xE6, CHR 0x97, CHR 0xB6, CHR 0xE5, CHR 0x8F, CHR 0x91, CHR 0xE5, CHR 0xB8, CHR 0x83, CHR 0xEF,
     CHR 0xBC, CHR 0x8C, CHR 0xE4, CHR 0xBC, CHR 0x9A, CHR 0xE5, CHR 0xA2, CHR 0x9E, CHR 0xE5, CHR 0x8A, CHR 0xA0,
     CHR 0xE8, CHR 0x81, CHR 0x94, CHR 0xE8, CHR 0xB0, CHR 0x83, CHR 0xE5, CHR 0xA4, CHR 0xB1, CHR 0xE8, CHR 0xB4,
     CHR 0xA5, CHR 0xE5, CHR 0x92, CHR 0x8C, CHR 0xE6, CHR 0x95, CHR 0x85, CHR 0xE9, CHR 0x9A, CHR 0x9C, CHR 0xE5,
     CHR 0xBD, CHR 0x92, CHR 0xE5, CHR 0x9B, CHR 0xA0, CHR 0xE6, CHR 0x88, CHR 0x90, CHR 0xE6, CHR 0x9C, CHR 0xAC,
     CHR 0xE3, CHR 0x80, CHR 0x82])
     [] RiskMedium False []
     ([CHR 0xE4, CHR 0xB8, CHR 0x8E, CHR 0xE4, CHR 0xB8, CHR 0x8A, CHR 0xE4, CHR 0xB8, CHR 0x8B, CHR 0xE6,
     CHR 0xB8, CHR 0xB8, CHR 0xE8, CHR 0xB4, CHR 0x9F, CHR 0xE8, CHR 0xB4, CHR 0xA3, CHR 0xE4, CHR 0xBA, CHR 0xBA,
     CHR 0xE7, CHR 0xA1, CHR 0xAE, CHR 0xE8, CHR 0xAE, CHR 0xA4, CHR 0xE5, CHR 0x85, CHR 0xBC, CHR 0xE5, CHR 0xAE,
     CHR 0xB9, CHR 0xE9, CHR 0xA1, CHR 0xBA, CHR 0xE5, CHR 0xBA, CHR 0x8F, CHR 0xE3, CHR 0x80, CHR 0x81, CHR 0xE8,
     CHR 0x81, CHR 0x94, CHR 0xE5, CHR 0x8A, CHR 0xA8, CHR 0xE8, CHR 0xA7, CHR 0x82, CHR 0xE5, CHR 0xAF, CHR 0x9F,
     CHR 0xE6, CHR 0x8C, CHR 0x87, CHR 0xE6, CHR 0xA0, CHR 0x87, CHR 0xE5, CHR 0x92, CHR 0x8C, CHR 0xE8, CHR 0x81,
     CHR 0x94, CHR 0xE5, CHR 0x90, CHR 0x88, CHR 0xE5, CHR 0x9B, CHR 0x9E, CHR 0xE6, CHR 0xBB, CHR 0x9A, CHR 0xE6,
     CHR 0x96, CHR 0xB9, CHR 0xE6, CHR 0xA1, CHR 0x88, CHR 0xEF, CHR 0xBC, CHR 0x8C, CHR 0xE5, CHR 0xBF, CHR 0x85,
     CHR 0xE8, CHR 0xA6, CHR 0x81, CHR 0xE6, CHR 0x97, CHR 0xB6, CHR 0xE9, CHR 0x94, CHR 0x99, CHR 0xE5, CHR 0xB3,
     CHR 0xB0, CHR 0xE5, CHR 0x8F, CHR 0x91, CHR 0xE5, CHR 0xB8, CHR 0x83, CHR 0xE3, CHR 0x80, CHR 0x82])"

definition default_rules :: "risk_policy list" where
  "default_rules =
     [rule_empty_sql, rule_missing_rollback, rule_many_statements, rule_update_all, rule_delete_all, rule_not_null_default, 
      rule_index_concurrent, rule_unbatched_dml, rule_fk_not_valid, rule_select_for_update, rule_heavy_ddl, rule_missing_lock_timeout, 
      rule_mixed_ddl_dml, rule_transaction_control, rule_psql_meta, rule_drop_table, rule_drop_column, rule_alter_type, 
      rule_unique_index, rule_set_not_null, rule_truncate, rule_release_rollback, rule_k8s_latest, rule_k8s_privileged, 
      rule_k8s_resources, rule_k8s_host_namespace, rule_k8s_escalation, rule_k8s_root, rule_k8s_probes, rule_k8s_replica, 
      rule_k8s_host_path, rule_config_secret, rule_config_debug, rule_config_auth, rule_config_tls, rule_full_release, 
      rule_missing_metrics, rule_change_window_conflict, rule_dependency_window_overlap]"

definition updated_by_system :: string where
  "updated_by_system = ([CHR 0xE7, CHR 0xB3, CHR 0xBB, CHR 0xE7, CHR 0xBB, CHR 0x9F, CHR 0xE5, CHR 0x86, CHR 0x85, CHR 0xE7,
     CHR 0xBD, CHR 0xAE])"

definition DefaultRiskPolicies :: "gotime \<Rightarrow> risk_policy list" where
  "DefaultRiskPolicies now =
     map (\<lambda>p. p\<lparr> pol_Version := 1, pol_CreatedAt := now, pol_UpdatedAt := now, pol_UpdatedBy := updated_by_system \<rparr>)
       default_rules"

lemmas default_rule_defs = builtin_rule_def rule_empty_sql_def
  rule_missing_rollback_def
  rule_many_statements_def
  rule_update_all_def
  rule_delete_all_def
  rule_not_null_default_def
  rule_index_concurrent_def
  rule_unbatched_dml_def
  rule_fk_not_valid_def
  rule_select_for_update_def
  rule_heavy_ddl_def
  rule_missing_lock_timeout_def
  rule_mixed_ddl_dml_def
  rule_transaction_control_def
  rule_psql_meta_def
  rule_drop_table_def
  rule_drop_column_def
  rule_alter_type_def
  rule_unique_index_def
  rule_set_not_null_def
  rule_truncate_def
  rule_release_rollback_def
  rule_k8s_latest_def
  rule_k8s_privileged_def
  rule_k8s_resources_def
  rule_k8s_host_namespace_def
  rule_k8s_escalation_def
  rule_k8s_root_def
  rule_k8s_probes_def
  rule_k8s_replica_def
  rule_k8s_host_path_def
  rule_config_secret_def
  rule_config_debug_def
  rule_config_auth_def
  rule_config_tls_def
  rule_full_release_def
  rule_missing_metrics_def
  rule_change_window_conflict_def
  rule_dependency_window_overlap_def

lemma default_codes:
  "map pol_Code default_rules =
     [''EMPTY_SQL'', 
      ''MISSING_ROLLBACK'', 
      ''TOO_MANY_STATEMENTS'', 
      ''UPDATE_WITHOUT_WHERE'', 
      ''DELETE_WITHOUT_WHERE'', 
      ''ADD_NOT_NULL_WITHOUT_DEFAULT'', 
      ''INDEX_NOT_CONCURRENT'', 
      ''UNBATCHED_LARGE_DML'', 
      ''FK_WITHOUT_NOT_VALID'', 
      ''SELECT_FOR_UPDATE_UNBOUNDED'', 
      ''HEAVY_DDL_REWRITE'', 
      ''MISSING_LOCK_TIMEOUT'', 
      ''MIXED_DDL_DML_TRANSACTION'', 
      ''TRANSACTION_CONTROL'', 
      ''PSQL_META_COMMAND'', 
      ''DROP_TABLE'', 
      ''DROP_COLUMN'', 
      ''ALTER_COLUMN_TYPE'', 
      ''UNIQUE_INDEX'', 
      ''SET_NOT_NULL'', 
      ''TRUNCATE'', 
      ''MISSING_RELEASE_ROLLBACK'', 
      ''K8S_LATEST_IMAGE'', 
      ''K8S_PRIVILEGED'', 
      ''K8S_RESOURCE_LIMITS'', 
      ''K8S_HOST_NAMESPACE'', 
      ''K8S_PRIVILEGE_ESCALATION'', 
      ''K8S_RUN_AS_ROOT'', 
      ''K8S_HEALTH_PROBES'', 
      ''K8S_SINGLE_REPLICA'', 
      ''K8S_HOST_PATH'', 
      ''CONFIG_SECRET_EXPOSURE'', 
      ''CONFIG_DEBUG_ENABLED'', 
      ''CONFIG_AUTH_DISABLED'', 
      ''CONFIG_TLS_VERIFY_DISABLED'', 
      ''PRODUCTION_FULL_RELEASE'', 
      ''MISSING_OBSERVATION_METRICS'', 
      ''CHANGE_WINDOW_CONFLICT'', 
      ''DEPENDENCY_WINDOW_OVERLAP'']"
  by (simp add: default_rules_def default_rule_defs)

end
