(* ===== verification/Auth.thy ===== *)
theory Auth
  imports Identity DefaultRules
begin

text \<open>
  The handlers of \<^verbatim>\<open>internal/auth/auth.go\<close> and \<^verbatim>\<open>enterprise.go\<close>: which requests are authenticated, how sessions
  begin and end, and how administrators manage their enterprise. A handler is given the decoded body of the
  request (none when it cannot be decoded), the state of the store its checks read, and the repository of
  sessions with the state its writes find. Messages, headers and the text of the answers are not modelled, the
  status, the session cookie and the redirects are.
\<close>

section \<open>Requests and answers\<close>

record http_request =
  req_Method :: string
  req_Path :: string
  req_Host :: string
  req_TLS :: bool
  req_SessionCookie :: "string option"
  req_StateCookie :: string
  req_CSRF :: string
  req_FormCSRF :: string
  req_ActorHeader :: string
  req_Client :: string
  req_Actor :: "string option"
  req_Query :: "string \<Rightarrow> string"

datatype 'a reply = Answer nat 'a | Denied nat | Redirected string | LoginError

record auth_world =
  aw_repo :: repository
  aw_db :: db

text \<open>The answer, the session cookie it sets (the empty one removes it), and the state it leaves.\<close>

type_synonym 'a outcome = "'a reply \<times> string option \<times> auth_world"

record auth_env =
  ae_senv :: senv
  ae_bytes :: "nat \<Rightarrow> nat \<Rightarrow> string option"
  ae_address :: "string \<Rightarrow> string option"

abbreviation ae_now :: "auth_env \<Rightarrow> gotime" where "ae_now a \<equiv> se_now (ae_senv a)"

definition refuse :: "nat \<Rightarrow> auth_world \<Rightarrow> 'a outcome" where
  "refuse status w = (Denied status, None, w)"

definition found :: "err + 'a \<Rightarrow> 'b \<Rightarrow> ('a \<Rightarrow> 'b) \<Rightarrow> 'b" where
  "found x missing f = (case x of Inl _ \<Rightarrow> missing | Inr y \<Rightarrow> f y)"

text \<open>The \<open>n\<close>-th random token of a request, of so many random bytes.\<close>

definition randomToken :: "auth_env \<Rightarrow> nat \<Rightarrow> nat \<Rightarrow> string option" where
  "randomToken a n len = map_option base64_encode (ae_bytes a n len)"

section \<open>Sessions\<close>

text \<open>The raw session, which goes into the cookie, and the token against forged requests.\<close>

definition createSession ::
  "auth_config \<Rightarrow> auth_env \<Rightarrow> nat \<Rightarrow> string \<Rightarrow> repository \<Rightarrow> (string \<times> string) option \<times> repository" where
  "createSession cfg a n userID r =
     (case (randomToken a n 32, randomToken a (n + 1) 24) of
        (Some raw, Some csrf) \<Rightarrow>
          (case PutSession (tokenKey raw)
                  \<lparr> ses_UserID = userID, ses_CSRFToken = csrf, ses_ExpiresAt = ae_now a + cfg_SessionTTL cfg \<rparr> r of
             (None, r') \<Rightarrow> (Some (raw, csrf), r')
           | (Some _, r') \<Rightarrow> (None, r'))
      | _ \<Rightarrow> (None, r))"

text \<open>The session of a request: an error of the repository, or the session if there is a live one of an active
  member.\<close>

definition sessionData :: "gotime \<Rightarrow> http_request \<Rightarrow> db \<Rightarrow> repository \<Rightarrow> (unit + session option) \<times> repository" where
  "sessionData now rq snap r =
     (case req_SessionCookie rq of
        None \<Rightarrow> (Inr None, r)
      | Some raw \<Rightarrow>
          if raw = [] then (Inr None, r)
          else
            let key = tokenKey raw in
            (case GetSession now key r of
               (Inl ErrSessionNotFound, r') \<Rightarrow> (Inr None, r')
             | (Inl ErrRepository, r') \<Rightarrow> (Inl (), r')
             | (Inr v, r') \<Rightarrow>
                 if ses_ExpiresAt v < now then (Inr None, snd (DeleteSession key r'))
                 else found (User snap (ses_UserID v)) (Inr None, snd (DeleteSession key r')) (\<lambda>u.
                   if \<not> usr_Active u then (Inr None, snd (DeleteSession key r')) else (Inr (Some v), r'))))"

definition api_path :: "string \<Rightarrow> bool" where "api_path p \<longleftrightarrow> has_prefix p ''/api/''"

definition csrfValid :: "http_request \<Rightarrow> string \<Rightarrow> bool" where
  "csrfValid rq expected \<longleftrightarrow>
     (if req_Method rq \<in> set [''GET'', ''HEAD'', ''OPTIONS''] then True
      else if \<not> api_path (req_Path rq) then True
      else let actual = trim_space (req_CSRF rq) in
        if expected = [] \<or> actual = [] then False else actual = expected)"

definition publicPath :: "string \<Rightarrow> bool" where
  "publicPath p \<longleftrightarrow>
     (if p \<in> set [''/api/health'', ''/health/live'', ''/health/ready'', ''/metrics'', ''/api/auth/status'', ''/api/auth/register'',
                   ''/api/auth/login'', ''/api/auth/invitations/accept'', ''/api/integrations/gitlab/webhook'',
                   ''/api/integrations/jenkins/events'', ''/api/integrations/operations/webhook'']
         \<or> has_prefix p ''/api/gate/'' \<or> has_prefix p ''/auth/''
      then True else \<not> api_path p)"

text \<open>A request passes as nobody's, passes as a member's, or is answered at once.\<close>

datatype passage = PassPublic | PassAs string | Stopped nat | ToLogin

definition Middleware :: "auth_config \<Rightarrow> gotime \<Rightarrow> http_request \<Rightarrow> db \<Rightarrow> repository \<Rightarrow> passage \<times> repository" where
  "Middleware cfg now rq snap r =
     (let r = CleanupSessions now r in
      if publicPath (req_Path rq) then (PassPublic, r)
      else case sessionData now rq snap r of
             (Inl _, r') \<Rightarrow> (Stopped 503, r')
           | (Inr (Some v), r') \<Rightarrow>
               if \<not> csrfValid rq (ses_CSRFToken v) then (Stopped 403, r') else (PassAs (ses_UserID v), r')
           | (Inr None, r') \<Rightarrow>
               if \<not> SessionAuthEnabled cfg
               then let header = trim_space (req_ActorHeader rq);
                        actor = (if header = [] then ''usr_developer'' else header)
                    in found (User snap actor) (Stopped 401, r') (\<lambda>u.
                         if \<not> usr_Active u then (Stopped 401, r') else (PassAs actor, r'))
               else if api_path (req_Path rq) then (Stopped 401, r') else (ToLogin, r'))"

definition ActorID :: "http_request \<Rightarrow> string option" where
  "ActorID rq = (case req_Actor rq of None \<Rightarrow> None | Some i \<Rightarrow> if i = [] then None else Some i)"

definition ActorOrganization :: "db \<Rightarrow> string \<Rightarrow> string option" where
  "ActorOrganization d userID =
     (let i = trim_space userID in
      if i = [] then None
      else found (User d i) None (\<lambda>u.
        if \<not> usr_Active u \<or> trim_space (usr_OrganizationID u) = [] then None else Some (usr_OrganizationID u)))"

definition currentEnterprise :: "http_request \<Rightarrow> db \<Rightarrow> (user \<times> organization) option" where
  "currentEnterprise rq d =
     (case ActorID rq of
        None \<Rightarrow> None
      | Some i \<Rightarrow> found (User d i) None (\<lambda>u.
            if \<not> usr_Active u then None
            else found (Organization d (usr_OrganizationID u)) None (\<lambda>org. Some (u, org))))"

section \<open>Signing in\<close>

record auth_session =
  as_User :: user
  as_Organization :: organization
  as_CSRFToken :: string

record login_input =
  li_Email :: string
  li_Password :: string

text \<open>The last step of every sign-in.\<close>

definition signed_in ::
  "auth_config \<Rightarrow> auth_env \<Rightarrow> nat \<Rightarrow> nat \<Rightarrow> nat \<Rightarrow> user \<Rightarrow> organization \<Rightarrow> repository \<Rightarrow> db \<Rightarrow> auth_session outcome" where
  "signed_in cfg a n ok failed u org r d =
     (case createSession cfg a n (usr_ID u) r of
        (None, r') \<Rightarrow> refuse failed \<lparr> aw_repo = r', aw_db = d \<rparr>
      | (Some (raw, csrf), r') \<Rightarrow>
          (Answer ok \<lparr> as_User = u, as_Organization = org, as_CSRFToken = csrf \<rparr>, Some raw, \<lparr> aw_repo = r', aw_db = d \<rparr>))"

definition auth_audit :: "auth_env \<Rightarrow> nat \<Rightarrow> string \<Rightarrow> user \<Rightarrow> string \<Rightarrow> string \<Rightarrow> audit_event" where
  "auth_audit a n org u action detail =
     zero_audit_event
       \<lparr> aud_OrganizationID := org, aud_ID := NewID (ae_senv a) ''audit_'' n, aud_ActorID := usr_ID u,
         aud_ActorName := usr_Name u, aud_Action := action, aud_Detail := detail, aud_CreatedAt := ae_now a \<rparr>"

definition attempt_key :: "string \<Rightarrow> http_request \<Rightarrow> string" where
  "attempt_key email rq = tokenKey (email @ ''|'' @ req_Client rq)"

text \<open>The part of a handler that counts the attempt: refused when the repository fails or the limit is reached.\<close>

definition with_attempt ::
  "auth_env \<Rightarrow> string \<Rightarrow> int \<Rightarrow> duration \<Rightarrow> auth_world \<Rightarrow> (auth_world \<Rightarrow> 'a outcome) \<Rightarrow> 'a outcome" where
  "with_attempt a key n window w f =
     (case AllowAttempt (ae_now a) key n window (aw_repo w) of
        (Inl _, r) \<Rightarrow> refuse 503 (w\<lparr> aw_repo := r \<rparr>)
      | (Inr (allowed, _), r) \<Rightarrow> if allowed then f (w\<lparr> aw_repo := r \<rparr>) else refuse 429 (w\<lparr> aw_repo := r \<rparr>))"

definition password_matches :: "db \<Rightarrow> user \<Rightarrow> string \<Rightarrow> bool" where
  "password_matches d u password =
     found (Credential d (usr_ID u)) False (\<lambda>c.
       cred_PasswordHash c \<noteq> [] \<and> verifyPassword password (cred_PasswordSalt c) (cred_PasswordHash c))"

text \<open>The rest of a handler, once the attempt is counted and the body is decoded.\<close>

definition log_in :: "auth_config \<Rightarrow> auth_env \<Rightarrow> http_request \<Rightarrow> login_input \<Rightarrow> db \<Rightarrow> auth_world \<Rightarrow> auth_session outcome" where
  "log_in cfg a rq x snap w =
     (let email = to_lower (trim_space (li_Email x)) in
      found (UserByEmail snap email) (refuse 401 w) (\<lambda>u.
        if \<not> usr_Active u then refuse 401 w
        else found (Organization snap (usr_OrganizationID u)) (refuse 401 w) (\<lambda>org.
          if org_SSOEnforced org then refuse 403 w
          else if \<not> password_matches snap u (li_Password x) then refuse 401 w
          else case UpdateIdentityLogin (usr_ID u) (\<lambda>v. v\<lparr> usr_LastLoginAt := Some (ae_now a) \<rparr>) (\<lambda>c. c)
                      (auth_audit a 0 (usr_OrganizationID u) u ''LOCAL_LOGIN'' txt_auth_login)
                      (se_call (ae_senv a) 0) (aw_db w) of
                 (Inl _, d) \<Rightarrow> refuse 500 (w\<lparr> aw_db := d \<rparr>)
               | (Inr u', d) \<Rightarrow>
                   signed_in cfg a 0 200 500 u' org (snd (ResetAttempts (attempt_key email rq) (aw_repo w))) d)))"

definition HandleLocalLogin ::
  "auth_config \<Rightarrow> auth_env \<Rightarrow> http_request \<Rightarrow> login_input option \<Rightarrow> db \<Rightarrow> auth_world \<Rightarrow> auth_session outcome" where
  "HandleLocalLogin cfg a rq body snap w =
     (if cfg_Mode cfg = ''oidc'' then refuse 403 w
      else if req_Method rq \<noteq> ''POST'' then refuse 405 w
      else case body of
        None \<Rightarrow> refuse 400 w
      | Some x \<Rightarrow>
          with_attempt a (attempt_key (to_lower (trim_space (li_Email x))) rq) 8 (15 * minute) w (log_in cfg a rq x snap))"

section \<open>New enterprises and accepted invitations\<close>

record register_input =
  ri_OrganizationName :: string
  ri_OrganizationSlug :: string
  ri_Name :: string
  ri_Email :: string
  ri_Password :: string

definition valid_registration :: "auth_env \<Rightarrow> register_input \<Rightarrow> bool" where
  "valid_registration a x \<longleftrightarrow>
     \<not> (100 < rune_count (ri_OrganizationName x) \<or> 80 < rune_count (ri_Name x) \<or> ri_OrganizationName x = []
        \<or> ri_Name x = [] \<or> \<not> validSlug (ri_OrganizationSlug x))
     \<and> validEmail (ae_address a) (ri_Email x) \<and> validPassword (ri_Password x)"

definition normal_registration :: "register_input \<Rightarrow> register_input" where
  "normal_registration x =
     x\<lparr> ri_OrganizationName := trim_space (ri_OrganizationName x),
        ri_OrganizationSlug := to_lower (trim_space (ri_OrganizationSlug x)), ri_Name := trim_space (ri_Name x),
        ri_Email := to_lower (trim_space (ri_Email x)) \<rparr>"

definition founded :: "auth_env \<Rightarrow> register_input \<Rightarrow> organization" where
  "founded a x =
     zero_organization
       \<lparr> org_ID := NewID (ae_senv a) ''org_'' 0, org_Name := ri_OrganizationName x, org_Slug := ri_OrganizationSlug x,
         org_EmailDomains := [emailDomain (ri_Email x)], org_CreatedBy := NewID (ae_senv a) ''usr_'' 1,
         org_CreatedAt := ae_now a, org_UpdatedAt := ae_now a \<rparr>"

definition founder :: "auth_env \<Rightarrow> register_input \<Rightarrow> user" where
  "founder a x =
     zero_user
       \<lparr> usr_ID := NewID (ae_senv a) ''usr_'' 1, usr_OrganizationID := org_ID (founded a x),
         usr_OrganizationName := ri_OrganizationName x, usr_Name := ri_Name x, usr_Email := ri_Email x,
         usr_Role := RoleOwner, usr_EnterpriseAdmin := True, usr_Active := True, usr_LastLoginAt := Some (ae_now a) \<rparr>"

definition password_credential :: "string \<Rightarrow> string \<times> string \<Rightarrow> user_credential" where
  "password_credential i p = zero_user_credential\<lparr> cred_UserID := i, cred_PasswordSalt := fst p, cred_PasswordHash := snd p \<rparr>"

definition first_rules :: "auth_env \<Rightarrow> string \<Rightarrow> risk_policy list" where
  "first_rules a org =
     (let rules = DefaultRiskPolicies (ae_now a)
      in map (\<lambda>i. (rules ! i)\<lparr> pol_ID := NewID (ae_senv a) ''pol_'' (2 + i), pol_OrganizationID := org \<rparr>) [0..<length rules])"

definition register :: "auth_config \<Rightarrow> auth_env \<Rightarrow> register_input \<Rightarrow> auth_world \<Rightarrow> auth_session outcome" where
  "register cfg a x w =
     (let x = normal_registration x in
      if \<not> valid_registration a x then refuse 400 w
      else case hashPassword (ae_bytes a 0 16) (ri_Password x) of
             None \<Rightarrow> refuse 500 w
           | Some p \<Rightarrow>
               let org = founded a x; u = founder a x in
               (case CreateEnterprise org u (password_credential (usr_ID u) p) (first_rules a (org_ID org))
                       (auth_audit a 41 (org_ID org) u ''REGISTER_ENTERPRISE'' txt_auth_register)
                       (se_call (ae_senv a) 0) (aw_db w) of
                  (Inl ErrConflict, d) \<Rightarrow> refuse 409 (w\<lparr> aw_db := d \<rparr>)
                | (Inl _, d) \<Rightarrow> refuse 500 (w\<lparr> aw_db := d \<rparr>)
                | (Inr _, d) \<Rightarrow> signed_in cfg a 1 201 503 u org (aw_repo w) d))"

definition HandleRegisterEnterprise ::
  "auth_config \<Rightarrow> auth_env \<Rightarrow> http_request \<Rightarrow> register_input option \<Rightarrow> auth_world \<Rightarrow> auth_session outcome" where
  "HandleRegisterEnterprise cfg a rq body w =
     (if cfg_Mode cfg = ''oidc'' then refuse 403 w
      else if req_Method rq \<noteq> ''POST'' then refuse 405 w
      else with_attempt a (tokenKey (''register|'' @ req_Client rq)) 5 hour w (\<lambda>w.
        case body of None \<Rightarrow> refuse 400 w | Some x \<Rightarrow> register cfg a x w))"

record accept_input =
  ai_Token :: string
  ai_Name :: string
  ai_Email :: string
  ai_Password :: string

definition invited_user :: "auth_env \<Rightarrow> accept_input \<Rightarrow> organization_invite \<Rightarrow> organization \<Rightarrow> user" where
  "invited_user a x invite org =
     zero_user
       \<lparr> usr_ID := NewID (ae_senv a) ''usr_'' 0, usr_OrganizationID := org_ID org, usr_OrganizationName := org_Name org,
         usr_Name := trim_space (ai_Name x), usr_Email := to_lower (trim_space (ai_Email x)), usr_Role := inv_Role invite,
         usr_Active := True, usr_LastLoginAt := Some (ae_now a) \<rparr>"

definition join_invited :: "auth_config \<Rightarrow> auth_env \<Rightarrow> accept_input \<Rightarrow> db \<Rightarrow> auth_world \<Rightarrow> auth_session outcome" where
  "join_invited cfg a x snap w =
     found (InviteByTokenHash (ae_now a) snap (tokenKey (trim_space (ai_Token x)))) (refuse 404 w) (\<lambda>invite.
       if \<not> equal_fold (to_lower (trim_space (ai_Email x))) (inv_Email invite) then refuse 403 w
       else if trim_space (ai_Name x) = [] \<or> \<not> validPassword (ai_Password x) then refuse 400 w
       else case hashPassword (ae_bytes a 0 16) (ai_Password x) of
              None \<Rightarrow> refuse 500 w
            | Some p \<Rightarrow>
                found (Organization snap (inv_OrganizationID invite)) (refuse 404 w) (\<lambda>org.
                  let u = invited_user a x invite org in
                  (case AcceptInvite (inv_ID invite) u (password_credential (usr_ID u) p)
                          (auth_audit a 1 (org_ID org) u ''ACCEPT_INVITE''
                             (txt_auth_accept_1 @ usr_Role u @ txt_auth_accept_2)) (se_call (ae_senv a) 0) (aw_db w) of
                     (Inl ErrConflict, d) \<Rightarrow> refuse 409 (w\<lparr> aw_db := d \<rparr>)
                   | (Inl _, d) \<Rightarrow> refuse 500 (w\<lparr> aw_db := d \<rparr>)
                   | (Inr u', d) \<Rightarrow> signed_in cfg a 1 201 500 u' org (aw_repo w) d)))"

definition HandleAcceptInvite ::
  "auth_config \<Rightarrow> auth_env \<Rightarrow> http_request \<Rightarrow> accept_input option \<Rightarrow> db \<Rightarrow> auth_world \<Rightarrow> auth_session outcome" where
  "HandleAcceptInvite cfg a rq body snap w =
     (if cfg_Mode cfg = ''oidc'' then refuse 403 w
      else if req_Method rq \<noteq> ''POST'' then refuse 405 w
      else with_attempt a (tokenKey (''invite|'' @ req_Client rq)) 12 (15 * minute) w (\<lambda>w.
        case body of None \<Rightarrow> refuse 400 w | Some x \<Rightarrow> join_invited cfg a x snap w))"

section \<open>Who is signed in\<close>

definition HandleMe :: "http_request \<Rightarrow> auth_world \<Rightarrow> user outcome" where
  "HandleMe rq w =
     (if req_Method rq \<noteq> ''GET'' then refuse 405 w
      else case ActorID rq of
             None \<Rightarrow> refuse 401 w
           | Some i \<Rightarrow> found (User (aw_db w) i) (refuse 401 w) (\<lambda>u. (Answer 200 u, None, w)))"

text \<open>The session is read again for its token; a session that has gone meanwhile gives the empty token.\<close>

definition HandleSession :: "auth_env \<Rightarrow> http_request \<Rightarrow> auth_world \<Rightarrow> auth_session outcome" where
  "HandleSession a rq w =
     (if req_Method rq \<noteq> ''GET'' then refuse 405 w
      else case ActorID rq of
             None \<Rightarrow> refuse 401 w
           | Some i \<Rightarrow> found (User (aw_db w) i) (refuse 401 w) (\<lambda>u.
               if \<not> usr_Active u then refuse 401 w
               else found (Organization (aw_db w) (usr_OrganizationID u)) (refuse 401 w) (\<lambda>org.
                 case sessionData (ae_now a) rq (aw_db w) (aw_repo w) of
                   (Inl _, r) \<Rightarrow> refuse 503 (w\<lparr> aw_repo := r \<rparr>)
                 | (Inr s, r) \<Rightarrow>
                     (Answer 200 \<lparr> as_User = u, as_Organization = org,
                                    as_CSRFToken = (case s of None \<Rightarrow> [] | Some v \<Rightarrow> ses_CSRFToken v) \<rparr>,
                      None, w\<lparr> aw_repo := r \<rparr>))))"

section \<open>Who passes\<close>

lemma found_cases: "found x missing f = y \<Longrightarrow> (\<And>z. x = Inr z \<Longrightarrow> f z = y \<Longrightarrow> P) \<Longrightarrow> (missing = y \<Longrightarrow> P) \<Longrightarrow> P"
  by (auto simp: found_def split: sum.splits)

lemma GetSession_Inr:
  assumes "GetSession now k r = (Inr v, r')"
  shows "\<exists>m. r = Memory m \<and> live_session m now k = Some v"
proof (cases r)
  case (Memory m)
  obtain x m' where g: "mem_Get now k m = (x, m')" by force
  with assms have "x = Inr v" by (simp add: GetSession_def asked_repository_def Memory)
  with mem.get_live [of now k m] show ?thesis by (simp add: Memory g split: option.splits)
qed (use assms in \<open>simp add: GetSession_def asked_repository_def\<close>)

lemma sessionData_Some:
  assumes "sessionData now rq snap r = (Inr (Some v), r')"
  obtains raw m u where "req_SessionCookie rq = Some raw" "raw \<noteq> []" "r = Memory m"
    "live_session m now (tokenKey raw) = Some v" "User snap (ses_UserID v) = Inr u" "usr_Active u"
proof -
  obtain raw where c: "req_SessionCookie rq = Some raw" "raw \<noteq> []"
    using assms by (auto simp: sessionData_def split: option.splits if_splits)
  obtain x r1 where g: "GetSession now (tokenKey raw) r = (x, r1)" by force
  with assms c have v: "x = Inr v" "\<exists>u. User snap (ses_UserID v) = Inr u \<and> usr_Active u"
    by (auto simp: sessionData_def Let_def found_def split: sum.splits session_error.splits if_splits)
  from GetSession_Inr [OF g [unfolded v(1)]] that c v(2) show thesis by blast
qed

lemma CleanupSessions_Memory: "CleanupSessions now r = Memory m \<Longrightarrow> \<exists>m0. r = Memory m0 \<and> m = mem_Cleanup now m0"
  by (cases r) (auto simp: CleanupSessions_def changed_repository_def)

definition unsafe_method :: "http_request \<Rightarrow> bool" where
  "unsafe_method rq \<longleftrightarrow> req_Method rq \<notin> set [''GET'', ''HEAD'', ''OPTIONS'']"

text \<open>C4: in every configuration that the environment can give, a request passes as a member's only with the
  cookie of a live session of this member, who is active, and, when it may change something, with the token
  of this session in its header; a header that names a member is never believed, and nothing passes as a
  member's while the sessions cannot be read.\<close>

theorem only_sessions_authenticate:
  assumes "fst (Middleware (New_config (FromEnvironment parse getenv)) now rq snap r) = PassAs i"
  shows "\<exists>raw m v u. req_SessionCookie rq = Some raw \<and> raw \<noteq> [] \<and> r = Memory m
      \<and> live_session m now (tokenKey raw) = Some v \<and> ses_UserID v = i \<and> User snap i = Inr u \<and> usr_Active u
      \<and> (unsafe_method rq \<longrightarrow> trim_space (req_CSRF rq) = ses_CSRFToken v \<and> ses_CSRFToken v \<noteq> [])"
proof -
  let ?r = "CleanupSessions now r"
  have p: "\<not> publicPath (req_Path rq)" using assms by (auto simp: Middleware_def Let_def)
  then have api: "api_path (req_Path rq)" by (simp add: publicPath_def split: if_splits)
  obtain x r' where s: "sessionData now rq snap ?r = (x, r')" by force
  obtain v where v: "x = Inr (Some v)" "csrfValid rq (ses_CSRFToken v)" "ses_UserID v = i"
    using assms p s
    by (auto simp: Middleware_def FromEnvironment_enabled Let_def split: sum.splits option.splits if_splits)
  obtain raw m u where u: "req_SessionCookie rq = Some raw" "raw \<noteq> []" "?r = Memory m"
      "live_session m now (tokenKey raw) = Some v" "User snap (ses_UserID v) = Inr u" "usr_Active u"
    by (rule sessionData_Some [OF s [unfolded v(1)]])
  obtain m0 where m: "r = Memory m0" "m = mem_Cleanup now m0" using CleanupSessions_Memory [OF u(3)] by blast
  have "live_session m0 now (tokenKey raw) = Some v" using u(4) by (simp add: m mem.cleanup_keeps)
  moreover have "unsafe_method rq \<longrightarrow> trim_space (req_CSRF rq) = ses_CSRFToken v \<and> ses_CSRFToken v \<noteq> []"
    using v(2) api by (auto simp: csrfValid_def unsafe_method_def Let_def split: if_splits)
  ultimately show ?thesis using u m v(3) by blast
qed

definition sample_request :: http_request where
  "sample_request =
     \<lparr> req_Method = ''POST'', req_Path = ''/api/changes'', req_Host = ''localhost'', req_TLS = False,
       req_SessionCookie = Some ''raw'', req_StateCookie = [], req_CSRF = ''csrf'', req_FormCSRF = [],
       req_ActorHeader = [], req_Client = ''10.0.0.1'', req_Actor = None, req_Query = (\<lambda>_. []) \<rparr>"

definition sample_repository :: repository where
  "sample_repository = Memory (mem_Put (tokenKey ''raw'') (sample_session\<lparr> ses_UserID := usr_ID dev_bob \<rparr>) newMemorySessionRepository)"

theorem only_sessions_authenticate_witness:
  "fst (Middleware (New_config (FromEnvironment (\<lambda>_. None) (\<lambda>_. []))) 10 sample_request (members_db\<lparr> db_Users := [dev_bob] \<rparr>) sample_repository)
     = PassAs (usr_ID dev_bob)
   \<and> (\<exists>raw m v. req_SessionCookie sample_request = Some raw \<and> sample_repository = Memory m \<and> live_session m 10 (tokenKey raw) = Some v)"
proof -
  let ?v = "sample_session\<lparr> ses_UserID := usr_ID dev_bob \<rparr>" and ?d = "members_db\<lparr> db_Users := [dev_bob] \<rparr>"
  let ?r = "CleanupSessions 10 sample_repository"
  have facts: "trim_space ''csrf'' = ''csrf''" "publicPath (req_Path sample_request) = False"
      "api_path (req_Path sample_request) = True" by code_simp+
  have "GetSession 10 (tokenKey ''raw'') ?r = (Inr ?v, ?r)"
    by (simp add: sample_repository_def CleanupSessions_def changed_repository_def GetSession_def asked_repository_def
        mem_Put_def mem_Cleanup_def unexpired_def mem_Get_def sample_session_def)
  moreover have "User ?d (usr_ID dev_bob) = Inr dev_bob" by (simp add: User_def find_or_not_found_def lookup_by_def)
  ultimately have "sessionData 10 sample_request ?d ?r = (Inr (Some ?v), ?r)"
    by (simp add: sessionData_def sample_request_def found_def sample_session_def) (simp add: dev_bob_def)
  moreover have "csrfValid sample_request (ses_CSRFToken ?v)"
    by (simp only: csrfValid_def facts) (simp add: sample_request_def facts sample_session_def)
  ultimately have p: "fst (Middleware (New_config (FromEnvironment (\<lambda>_. None) (\<lambda>_. []))) 10 sample_request ?d sample_repository)
      = PassAs (usr_ID dev_bob)"
    by (simp add: Middleware_def facts(2))
  from only_sessions_authenticate [OF p] p show ?thesis by blast
qed

section \<open>A founder signs in\<close>

lemma hashed_nonempty: "hashPassword salt password = Some (s, h) \<Longrightarrow> h \<noteq> []"
proof
  assume h: "hashPassword salt password = Some (s, h)" "h = []"
  have "base64_decode [] = Some []" by code_simp
  then show False using verify_hashed [OF h(1)] h(2) by (auto simp: verifyPassword_def std_decode_def split: option.splits)
qed

lemma password_credential_matches:
  assumes "hashPassword salt password = Some p" "Credential d (usr_ID u) = Inr (password_credential (usr_ID u) p)"
  shows "password_matches d u password"
  using assms hashed_nonempty [of salt password "fst p" "snd p"] verify_hashed [of salt password "fst p" "snd p"]
  by (simp add: password_matches_def found_def password_credential_def)

lemma find_new: "list_all (\<lambda>x. \<not> P x) xs \<Longrightarrow> P y \<Longrightarrow> List.find P (xs @ [y]) = Some y"
  by (induction xs) auto

lemma lookup_by_new:
  assumes "k \<notin> f ` set xs" "f y = k"
  shows "lookup_by f k (xs @ [y]) = Some y"
proof -
  have "f x \<noteq> k" if "x \<in> set xs" for x using assms(1) that by blast
  then show ?thesis unfolding lookup_by_def using assms(2) by (intro find_new) (simp_all add: list_all_iff)
qed

lemma with_attempt_Answer:
  assumes "with_attempt a key n window w f = (Answer k s, c, w')"
  obtains r where "f (w\<lparr> aw_repo := r \<rparr>) = (Answer k s, c, w')"
  using assms by (auto simp: with_attempt_def refuse_def split: sum.splits prod.splits if_splits)

lemma signed_in_Answer:
  assumes "signed_in cfg a n ok failed u org r d = (Answer k s, c, w')"
  shows "as_User s = u" "as_Organization s = org" "aw_db w' = d"
    "\<exists>raw csrf. createSession cfg a n (usr_ID u) r = (Some (raw, csrf), aw_repo w') \<and> c = Some raw"
  using assms by (auto simp: signed_in_def refuse_def split: option.splits prod.splits)

lemma CreateEnterprise_Inr:
  assumes "CreateEnterprise org u cred rules ev e d = (Inr x, d')"
  shows "\<not> list_ex (\<lambda>v. equal_fold (usr_Email v) (usr_Email u)) (db_Users d)"
    "db_Organizations d' = db_Organizations d @ [org]" "db_Users d' = db_Users d @ [u]"
    "db_Credentials d' = db_Credentials d @ [cred]"
proof -
  let ?d = "append_audit e (d\<lparr> db_Organizations := db_Organizations d @ [org], db_Users := db_Users d @ [u],
      db_Credentials := db_Credentials d @ [cred], db_Policies := db_Policies d @ rules \<rparr>) ev"
  have "save_return e () ?d = (Inr x, d')" "\<not> list_ex (\<lambda>v. equal_fold (usr_Email v) (usr_Email u)) (db_Users d)"
    using assms by (auto simp: CreateEnterprise_def split: if_splits)
  then show "\<not> list_ex (\<lambda>v. equal_fold (usr_Email v) (usr_Email u)) (db_Users d)"
    "db_Organizations d' = db_Organizations d @ [org]" "db_Users d' = db_Users d @ [u]"
    "db_Credentials d' = db_Credentials d @ [cred]"
    by (cases rule: save_return_cases [of e "()" ?d]; auto simp: store_frame)+
qed

lemma HandleRegisterEnterprise_Answer:
  fixes a x
  defines "y \<equiv> normal_registration x"
  assumes "HandleRegisterEnterprise cfg a rq (Some x) w = (Answer k s, c, w')"
  obtains p where "hashPassword (ae_bytes a 0 16) (ri_Password x) = Some p" "cfg_Mode cfg \<noteq> ''oidc''"
    "\<not> list_ex (\<lambda>v. equal_fold (usr_Email v) (ri_Email y)) (db_Users (aw_db w))"
    "db_Organizations (aw_db w') = db_Organizations (aw_db w) @ [founded a y]"
    "db_Users (aw_db w') = db_Users (aw_db w) @ [founder a y]"
    "db_Credentials (aw_db w') = db_Credentials (aw_db w) @ [password_credential (usr_ID (founder a y)) p]"
    "as_User s = founder a y" "as_Organization s = founded a y"
proof -
  obtain r where f: "register cfg a x (w\<lparr> aw_repo := r \<rparr>) = (Answer k s, c, w')" and m: "cfg_Mode cfg \<noteq> ''oidc''"
    using assms(2) by (auto simp: HandleRegisterEnterprise_def refuse_def split: if_splits elim!: with_attempt_Answer)
  obtain p where p: "hashPassword (ae_bytes a 0 16) (ri_Password y) = Some p"
    using f by (auto simp: register_def refuse_def Let_def y_def split: if_splits option.splits)
  obtain z d where z: "CreateEnterprise (founded a y) (founder a y) (password_credential (usr_ID (founder a y)) p)
        (first_rules a (org_ID (founded a y))) (auth_audit a 41 (org_ID (founded a y)) (founder a y) ''REGISTER_ENTERPRISE'' txt_auth_register)
        (se_call (ae_senv a) 0) (aw_db w) = (z, d)" by force
  obtain v where v: "z = Inr v" "signed_in cfg a 1 201 503 (founder a y) (founded a y) r d = (Answer k s, c, w')"
    using f p z by (cases z) (auto simp: register_def refuse_def Let_def y_def [symmetric] split: if_splits err.splits)
  note e = CreateEnterprise_Inr [OF z [unfolded v(1)]] and i = signed_in_Answer [OF v(2)]
  have "ri_Password y = ri_Password x" "usr_Email (founder a y) = ri_Email y"
    by (simp_all add: y_def normal_registration_def founder_def)
  with that m p e i show thesis by simp
qed

definition new_identifiers :: "auth_env \<Rightarrow> db \<Rightarrow> bool" where
  "new_identifiers a d \<longleftrightarrow>
     NewID (ae_senv a) ''org_'' 0 \<notin> org_ID ` set (db_Organizations d)
     \<and> NewID (ae_senv a) ''usr_'' 1 \<notin> usr_ID ` set (db_Users d) \<union> cred_UserID ` set (db_Credentials d)"

text \<open>The outside of a login lets it through: the attempt is allowed, the store saves, there are random numbers.\<close>

definition login_possible :: "auth_env \<Rightarrow> http_request \<Rightarrow> string \<Rightarrow> repository \<Rightarrow> bool" where
  "login_possible a rq email r \<longleftrightarrow>
     req_Method rq = ''POST''
     \<and> (case fst (AllowAttempt (ae_now a) (attempt_key email rq) 8 (15 * minute) r) of Inr (ok, _) \<Rightarrow> ok | Inl _ \<Rightarrow> False)
     \<and> env_save (se_call (ae_senv a) 0) = Saved \<and> randomToken a 0 32 \<noteq> None \<and> randomToken a 1 24 \<noteq> None"

lemma createSession_Memory:
  assumes "randomToken a n 32 = Some raw" "randomToken a (n + 1) 24 = Some csrf"
  shows "createSession cfg a n i (Memory m) = (Some (raw, csrf),
    Memory (mem_Put (tokenKey raw) \<lparr> ses_UserID = i, ses_CSRFToken = csrf, ses_ExpiresAt = ae_now a + cfg_SessionTTL cfg \<rparr> m))"
  using assms by (simp add: createSession_def PutSession_def changed_repository_def)

lemma UpdateIdentityLogin_Saved:
  assumes "env_save e = Saved" "lookup_by usr_ID i (db_Users d) = Some u"
  shows "\<exists>d'. UpdateIdentityLogin i f g ev e d = (Inr (f u), d')"
proof -
  obtain n where "index_by usr_ID i (db_Users d) = Some n" "db_Users d ! n = u"
    using assms(2) index_by_lookup [of "db_Users d" usr_ID i] by auto
  then show ?thesis using assms(1) by (simp add: UpdateIdentityLogin_def Let_def)
qed

text \<open>C16: an enterprise that is registered can be entered: with the address and the password of the registration,
  whatever spaces and capitals surround the address, its founder can log in again, as the same member of the
  same enterprise.\<close>

theorem founder_can_log_in:
  assumes "HandleRegisterEnterprise cfg a rq (Some x) w = (Answer k s, c, w1)" "new_identifiers a (aw_db w)"
    "login_possible b rq' (to_lower (trim_space (li_Email y))) r"
    "to_lower (trim_space (li_Email y)) = to_lower (trim_space (ri_Email x))" "li_Password y = ri_Password x"
  shows "\<exists>s'. fst (HandleLocalLogin cfg b rq' (Some y) (aw_db w1) \<lparr> aw_repo = r, aw_db = aw_db w1 \<rparr>) = Answer 200 s'
    \<and> usr_ID (as_User s') = usr_ID (as_User s) \<and> as_Organization s' = as_Organization s"
proof -
  let ?x = "normal_registration x" and ?d = "aw_db w1"
  let ?u = "founder a ?x" and ?o = "founded a ?x" and ?e = "to_lower (trim_space (ri_Email x))"
  obtain p where p: "hashPassword (ae_bytes a 0 16) (ri_Password x) = Some p" "cfg_Mode cfg \<noteq> ''oidc''"
    "\<not> list_ex (\<lambda>v. equal_fold (usr_Email v) (ri_Email ?x)) (db_Users (aw_db w))"
    "db_Organizations ?d = db_Organizations (aw_db w) @ [?o]" "db_Users ?d = db_Users (aw_db w) @ [?u]"
    "db_Credentials ?d = db_Credentials (aw_db w) @ [password_credential (usr_ID ?u) p]"
    "as_User s = ?u" "as_Organization s = ?o"
    by (rule HandleRegisterEnterprise_Answer [OF assms(1)])
  have u: "usr_Active ?u" "usr_OrganizationID ?u = org_ID ?o" "usr_Email ?u = ?e" "ri_Email ?x = ?e" "\<not> org_SSOEnforced ?o"
    by (simp_all add: founder_def founded_def normal_registration_def zero_organization_def)
  have email: "UserByEmail ?d ?e = Inr ?u"
    using p(3) u by (simp add: UserByEmail_def p(5) find_or_not_found_def find_new list_all_iff list_ex_iff)
  have org: "Organization ?d (usr_OrganizationID ?u) = Inr ?o"
    using assms(2) by (simp add: Organization_def p(4) u find_or_not_found_def lookup_by_new new_identifiers_def founded_def)
  have "Credential ?d (usr_ID ?u) = Inr (password_credential (usr_ID ?u) p)"
    using assms(2)
    by (simp add: Credential_def p(6) find_or_not_found_def lookup_by_new new_identifiers_def founder_def password_credential_def)
  then have password: "password_matches ?d ?u (ri_Password x)" by (rule password_credential_matches [OF p(1)])
  have "lookup_by usr_ID (usr_ID ?u) (db_Users ?d) = Some ?u"
    using assms(2) by (simp add: p(5) lookup_by_new new_identifiers_def founder_def)
  note login = UpdateIdentityLogin_Saved [OF _ this]
  obtain t r2 where allowed: "AllowAttempt (ae_now b) (attempt_key ?e rq') 8 (15 * minute) r = (Inr (True, t), r2)"
    using assms(3,4) by (cases "AllowAttempt (ae_now b) (attempt_key ?e rq') 8 (15 * minute) r")
      (auto simp: login_possible_def split: sum.splits)
  then obtain m where m: "r2 = Memory m" by (cases r) (auto simp: AllowAttempt_def asked_repository_def split: prod.splits)
  obtain raw csrf where rand: "randomToken b 0 32 = Some raw" "randomToken b (0 + 1) 24 = Some csrf"
    using assms(3) by (auto simp: login_possible_def)
  have sess: "\<exists>r'. createSession cfg b 0 i (snd (ResetAttempts (attempt_key ?e rq') r2)) = (Some (raw, csrf), r')" for i
    using createSession_Memory [OF rand] by (simp add: m ResetAttempts_def changed_repository_def)
  have saved: "env_save (se_call (ae_senv b) 0) = Saved" "req_Method rq' = ''POST''"
    using assms(3) by (simp_all add: login_possible_def)
  obtain d' where d': "UpdateIdentityLogin (usr_ID ?u) (\<lambda>v. v\<lparr> usr_LastLoginAt := Some (ae_now b) \<rparr>) (\<lambda>c. c)
      (auth_audit b 0 (usr_OrganizationID ?u) ?u ''LOCAL_LOGIN'' txt_auth_login) (se_call (ae_senv b) 0) ?d
      = (Inr (?u\<lparr> usr_LastLoginAt := Some (ae_now b) \<rparr>), d')" using login saved by blast
  show ?thesis
    using sess [of "usr_ID ?u"] u(1,5)
    by (auto simp: HandleLocalLogin_def p(2,7,8) saved with_attempt_def allowed assms(4,5) log_in_def Let_def email found_def
        org password d' signed_in_def)
qed

definition sample_auth_env :: "gotime \<Rightarrow> auth_env" where
  "sample_auth_env now =
     \<lparr> ae_senv = calm now, ae_bytes = (\<lambda>_ n. Some (replicate n (CHR ''x''))), ae_address = Some \<rparr>"

definition sample_config :: auth_config where
  "sample_config = New_config (FromEnvironment (\<lambda>_. None) (\<lambda>_. []))"

definition sample_registration :: register_input where
  "sample_registration =
     \<lparr> ri_OrganizationName = ''Acme'', ri_OrganizationSlug = ''acme'', ri_Name = ''Ann'', ri_Email = ''ann@acme.io'',
       ri_Password = ''secret123'' \<rparr>"

definition empty_world :: auth_world where
  "empty_world = \<lparr> aw_repo = Memory newMemorySessionRepository, aw_db = empty_db \<rparr>"

lemma sample_random: "randomToken (sample_auth_env now) k n = Some (base64_encode (replicate n (CHR ''x'')))"
  by (simp add: randomToken_def sample_auth_env_def)

lemma sample_saved [simp]: "env_save (se_call (ae_senv (sample_auth_env now)) k) = Saved" "ae_now (sample_auth_env now) = now"
  by (simp_all add: sample_auth_env_def)

lemma sample_attempt:
  "1 \<le> n \<Longrightarrow> \<exists>t m. AllowAttempt now key n window (Memory newMemorySessionRepository) = (Inr (True, t), Memory m)"
  by (simp add: AllowAttempt_def asked_repository_def mem_AllowAttempt_def newMemorySessionRepository_def)

lemma sample_mode: "cfg_Mode sample_config \<noteq> ''oidc''" "0 \<le> cfg_SessionTTL sample_config"
  by (simp_all add: sample_config_def New_config_def FromEnvironment_def Let_def durationOr_def hour_def minute_def second_def)

lemma sample_founded:
  "\<exists>s c w. HandleRegisterEnterprise sample_config (sample_auth_env 10) sample_request (Some sample_registration) empty_world = (Answer 201 s, c, w)"
proof -
  let ?x = "normal_registration sample_registration" and ?a = "sample_auth_env 10"
  have v: "valid_registration ?a ?x" by code_simp
  obtain p where p: "hashPassword (ae_bytes ?a 0 16) (ri_Password ?x) = Some p"
    by (simp add: hashPassword_def sample_auth_env_def)
  obtain d where d: "CreateEnterprise (founded ?a ?x) (founder ?a ?x) (password_credential (usr_ID (founder ?a ?x)) p)
      (first_rules ?a (org_ID (founded ?a ?x)))
      (auth_audit ?a 41 (org_ID (founded ?a ?x)) (founder ?a ?x) ''REGISTER_ENTERPRISE'' txt_auth_register)
      (se_call (ae_senv ?a) 0) empty_db = (Inr (), d)"
    by (simp add: CreateEnterprise_def empty_db_def)
  have r: "\<exists>s c w. register sample_config ?a sample_registration \<lparr> aw_repo = Memory m, aw_db = empty_db \<rparr> = (Answer 201 s, c, w)" for m
    using createSession_Memory [OF sample_random [of 10 1 32] sample_random [of 10 "1 + 1" 24], of sample_config "usr_ID (founder ?a ?x)" m]
    by (simp add: register_def Let_def v p d signed_in_def)
  have "\<exists>m. with_attempt ?a key 5 hour empty_world f = f \<lparr> aw_repo = Memory m, aw_db = empty_db \<rparr>"
    for f :: "auth_world \<Rightarrow> auth_session outcome" and key
    using sample_attempt [of 5 "ae_now ?a" key hour] by (auto simp: with_attempt_def empty_world_def)
  with r show ?thesis
    unfolding HandleRegisterEnterprise_def by (simp add: sample_mode) (metis sample_request_def http_request.select_convs(1))
qed

theorem founder_can_log_in_witness:
  "\<exists>s c w s'. HandleRegisterEnterprise sample_config (sample_auth_env 10) sample_request (Some sample_registration) empty_world = (Answer 201 s, c, w)
    \<and> fst (HandleLocalLogin sample_config (sample_auth_env 20) sample_request (Some \<lparr> li_Email = '' Ann@Acme.io'', li_Password = ''secret123'' \<rparr>)
             (aw_db w) \<lparr> aw_repo = Memory newMemorySessionRepository, aw_db = aw_db w \<rparr>) = Answer 200 s'
    \<and> usr_ID (as_User s') = usr_ID (as_User s)"
proof -
  obtain s c w where r: "HandleRegisterEnterprise sample_config (sample_auth_env 10) sample_request (Some sample_registration) empty_world
      = (Answer 201 s, c, w)" using sample_founded by blast
  have e: "to_lower (trim_space '' Ann@Acme.io'') = to_lower (trim_space (ri_Email sample_registration))" by code_simp
  have n: "new_identifiers (sample_auth_env 10) (aw_db empty_world)" by (simp add: new_identifiers_def empty_world_def empty_db_def)
  obtain t m where m: "AllowAttempt 20 (attempt_key (to_lower (trim_space '' Ann@Acme.io'')) sample_request) 8 (15 * minute)
      (Memory newMemorySessionRepository) = (Inr (True, t), Memory m)" using sample_attempt [of 8] by fastforce
  have l: "login_possible (sample_auth_env 20) sample_request (to_lower (trim_space '' Ann@Acme.io'')) (Memory newMemorySessionRepository)"
    by (simp add: login_possible_def m sample_random) (simp add: sample_request_def)
  show ?thesis
    using founder_can_log_in [OF r n, of "sample_auth_env 20" sample_request "\<lparr> li_Email = '' Ann@Acme.io'', li_Password = ''secret123'' \<rparr>"
        "Memory newMemorySessionRepository"] r l e by (auto simp: sample_registration_def)
qed

section \<open>Joining by invitation\<close>

lemma AcceptInvite_rows:
  assumes "AcceptInvite i u cred ev e d = (Inr v, d')"
  obtains n iv where "v = u" "\<not> email_taken u d" "iv \<in> set (db_Invites d)" "inv_Role iv = usr_Role u" "env_save e = Saved"
    "db_Users d' = db_Users d @ [u]" "db_Credentials d' = db_Credentials d @ [cred]"
    "db_Organizations d' = db_Organizations d" "db_Invites d' = (db_Invites d)[n := accepted_invite (usr_ID u) (env_now e) iv]"
proof -
  obtain n where n: "find_index_of (\<lambda>iv. inv_ID iv = i \<and> inv_Status iv = InvitePending \<and> env_now e \<le> inv_ExpiresAt iv) (db_Invites d) = Some n"
    "\<not> email_taken u d" using assms by (auto simp: AcceptInvite_def split: if_splits option.splits)
  let ?iv = "db_Invites d ! n"
  let ?d = "append_audit e (d\<lparr> db_Invites := (db_Invites d)[n := accepted_invite (usr_ID u) (env_now e) ?iv],
      db_Users := db_Users d @ [u], db_Credentials := db_Credentials d @ [cred] \<rparr>) ev"
  have "save_return e u ?d = (Inr v, d')" "inv_Role ?iv = usr_Role u"
    using assms n by (auto simp: AcceptInvite_def Let_def split: if_splits)
  moreover have "?iv \<in> set (db_Invites d)" using find_index_of_SomeD [OF n(1)] by simp
  ultimately show thesis using that [of ?iv n] n(2) by (cases rule: save_return_cases [of e u ?d]) (auto simp: store_frame)
qed

lemma HandleAcceptInvite_Answer:
  assumes "HandleAcceptInvite cfg a rq (Some x) snap w = (Answer k s, c, w')"
  obtains r invite p u org d' where "cfg_Mode cfg \<noteq> ''oidc''" "hashPassword (ae_bytes a 0 16) (ai_Password x) = Some p"
    "u = invited_user a x invite org" "Organization snap (inv_OrganizationID invite) = Inr org"
    "AcceptInvite (inv_ID invite) u (password_credential (usr_ID u) p)
       (auth_audit a 1 (org_ID org) u ''ACCEPT_INVITE'' (txt_auth_accept_1 @ usr_Role u @ txt_auth_accept_2))
       (se_call (ae_senv a) 0) (aw_db w) = (Inr u, d')"
    "signed_in cfg a 1 201 500 u org r d' = (Answer k s, c, w')"
proof -
  obtain r where f: "join_invited cfg a x snap (w\<lparr> aw_repo := r \<rparr>) = (Answer k s, c, w')" and m: "cfg_Mode cfg \<noteq> ''oidc''"
    using assms by (auto simp: HandleAcceptInvite_def refuse_def split: if_splits elim!: with_attempt_Answer)
  obtain invite p org where i: "hashPassword (ae_bytes a 0 16) (ai_Password x) = Some p"
      "Organization snap (inv_OrganizationID invite) = Inr org"
      "InviteByTokenHash (ae_now a) snap (tokenKey (trim_space (ai_Token x))) = Inr invite"
    using f by (auto simp: join_invited_def refuse_def found_def split: if_splits option.splits sum.splits)
  let ?u = "invited_user a x invite org"
  obtain z d where z: "AcceptInvite (inv_ID invite) ?u (password_credential (usr_ID ?u) p)
       (auth_audit a 1 (org_ID org) ?u ''ACCEPT_INVITE'' (txt_auth_accept_1 @ usr_Role ?u @ txt_auth_accept_2))
       (se_call (ae_senv a) 0) (aw_db w) = (z, d)" by force
  obtain v where v: "z = Inr v" "signed_in cfg a 1 201 500 v org r d = (Answer k s, c, w')"
    using f i z by (cases z) (auto simp: join_invited_def refuse_def found_def Let_def split: if_splits err.splits)
  have "v = ?u" by (rule AcceptInvite_rows [OF z [unfolded v(1)]])
  with that m i z v show thesis by blast
qed

lemma createSession_Some:
  assumes "createSession cfg a n i r = (Some (raw, csrf), r')"
  obtains m where "r' = Memory (mem_Put (tokenKey raw)
      \<lparr> ses_UserID = i, ses_CSRFToken = csrf, ses_ExpiresAt = ae_now a + cfg_SessionTTL cfg \<rparr> m)"
proof (cases r)
  case (Memory m)
  then show thesis
    using assms that [of m] by (auto simp: createSession_def PutSession_def changed_repository_def split: option.splits)
qed (use assms in \<open>simp add: createSession_def PutSession_def changed_repository_def split: option.splits\<close>)

text \<open>C40: who accepts an invitation gets a live session and a working password as an active member, also of an
  enterprise that enforces single sign-on: the handler does not look at this setting, while the login with
  that very password is refused because of it.\<close>

theorem invitation_ignores_sso:
  assumes "HandleAcceptInvite cfg a rq (Some x) (aw_db w) w = (Answer k s, c, w')" "0 \<le> cfg_SessionTTL cfg"
    "NewID (ae_senv a) ''usr_'' 0 \<notin> cred_UserID ` set (db_Credentials (aw_db w))" "org_SSOEnforced (as_Organization s)"
  shows "\<exists>raw m v. c = Some raw \<and> aw_repo w' = Memory m \<and> live_session m (ae_now a) (tokenKey raw) = Some v
      \<and> ses_UserID v = usr_ID (as_User s) \<and> usr_Active (as_User s)
      \<and> password_matches (aw_db w') (as_User s) (ai_Password x)
      \<and> fst (log_in cfg b rq' \<lparr> li_Email = ai_Email x, li_Password = ai_Password x \<rparr> (aw_db w') w') = Denied 403"
proof -
  obtain r invite p u org d' where h: "hashPassword (ae_bytes a 0 16) (ai_Password x) = Some p"
    "u = invited_user a x invite org" "Organization (aw_db w) (inv_OrganizationID invite) = Inr org"
    "AcceptInvite (inv_ID invite) u (password_credential (usr_ID u) p)
       (auth_audit a 1 (org_ID org) u ''ACCEPT_INVITE'' (txt_auth_accept_1 @ usr_Role u @ txt_auth_accept_2))
       (se_call (ae_senv a) 0) (aw_db w) = (Inr u, d')"
    "signed_in cfg a 1 201 500 u org r d' = (Answer k s, c, w')"
    by (rule HandleAcceptInvite_Answer [OF assms(1)])
  have t: "\<not> email_taken u (aw_db w)" "db_Users d' = db_Users (aw_db w) @ [u]"
    "db_Credentials d' = db_Credentials (aw_db w) @ [password_credential (usr_ID u) p]" "db_Organizations d' = db_Organizations (aw_db w)"
    by (rule AcceptInvite_rows [OF h(4)]; simp)+
  note i = signed_in_Answer [OF h(5)]
  obtain raw csrf where raw: "createSession cfg a 1 (usr_ID u) r = (Some (raw, csrf), aw_repo w')" "c = Some raw" using i(4) by blast
  obtain m0 where "aw_repo w' = Memory (mem_Put (tokenKey raw)
      \<lparr> ses_UserID = usr_ID u, ses_CSRFToken = csrf, ses_ExpiresAt = ae_now a + cfg_SessionTTL cfg \<rparr> m0)"
    by (rule createSession_Some [OF raw(1)])
  moreover have "ae_now a \<le> ae_now a + cfg_SessionTTL cfg" using assms(2) by simp
  ultimately have live: "\<exists>m v. aw_repo w' = Memory m \<and> live_session m (ae_now a) (tokenKey raw) = Some v \<and> ses_UserID v = usr_ID u"
    by (auto simp: mem.put_live)
  have u: "usr_Active u" "usr_ID u = NewID (ae_senv a) ''usr_'' 0" "usr_OrganizationID u = org_ID org"
    "usr_Email u = to_lower (trim_space (ai_Email x))" by (simp_all add: h(2) invited_user_def)
  have "Credential d' (usr_ID u) = Inr (password_credential (usr_ID u) p)"
    using assms(3) by (simp add: Credential_def t(3) find_or_not_found_def lookup_by_new u(2) password_credential_def)
  then have pw: "password_matches d' u (ai_Password x)" by (rule password_credential_matches [OF h(1)])
  have "UserByEmail d' (usr_Email u) = Inr u"
    using t(1) by (simp add: UserByEmail_def t(2) find_or_not_found_def find_new email_taken_def list_all_iff list_ex_iff u(4))
  moreover have l: "lookup_by org_ID (inv_OrganizationID invite) (db_Organizations (aw_db w)) = Some org"
    using h(3) by (auto simp: Organization_def find_or_not_found_def split: option.splits)
  then have "org_ID org = inv_OrganizationID invite" by (blast dest: lookup_by_Some)
  with l have "Organization d' (org_ID org) = Inr org" by (simp add: Organization_def t(4) find_or_not_found_def)
  ultimately have "fst (log_in cfg b rq' \<lparr> li_Email = ai_Email x, li_Password = ai_Password x \<rparr> d' w') = Denied 403"
    using assms(4) u by (simp add: log_in_def found_def i refuse_def)
  with live pw raw(2) u(1) i show ?thesis by blast
qed

definition sso_db :: db where
  "sso_db = members_db\<lparr> db_Organizations := [acme\<lparr> org_SSOEnforced := True \<rparr>],
     db_Invites := [bob_invite\<lparr> inv_TokenHash := tokenKey ''t'' \<rparr>] \<rparr>"

definition sample_acceptance :: accept_input where
  "sample_acceptance = \<lparr> ai_Token = ''t'', ai_Name = ''Bob'', ai_Email = ''bob@acme.io'', ai_Password = ''secret123'' \<rparr>"

lemma sample_accepted:
  "\<exists>s c w. HandleAcceptInvite sample_config (sample_auth_env 10) sample_request (Some sample_acceptance) sso_db
     \<lparr> aw_repo = Memory newMemorySessionRepository, aw_db = sso_db \<rparr> = (Answer 201 s, c, w) \<and> org_SSOEnforced (as_Organization s)"
proof -
  let ?a = "sample_auth_env 10"
  define iv where "iv = bob_invite\<lparr> inv_TokenHash := tokenKey ''t'' \<rparr>"
  define org where "org = acme\<lparr> org_SSOEnforced := True \<rparr>"
  let ?u = "invited_user ?a sample_acceptance iv org"
  have f: "to_lower (trim_space (ai_Email sample_acceptance)) = ''bob@acme.io''" "trim_space (ai_Token sample_acceptance) = ''t''"
    "trim_space (ai_Name sample_acceptance) = ''Bob''" "validPassword (ai_Password sample_acceptance)" "\<not> equal_fold ''ann@acme.io'' ''bob@acme.io''" by code_simp+
  have i: "InviteByTokenHash 10 sso_db (tokenKey ''t'') = Inr iv"
    by (simp add: InviteByTokenHash_def sso_db_def find_or_not_found_def open_invite_def iv_def bob_invite_def)
  have o: "Organization sso_db (inv_OrganizationID iv) = Inr org"
    by (simp add: Organization_def sso_db_def find_or_not_found_def lookup_by_def iv_def org_def bob_invite_def acme_def)
  obtain p where p: "hashPassword (ae_bytes ?a 0 16) (ai_Password sample_acceptance) = Some p"
    by (simp add: hashPassword_def sample_auth_env_def)
  have e: "inv_Email iv = ''bob@acme.io''" by (simp add: iv_def bob_invite_def)
  have "\<not> email_taken ?u sso_db" "inv_Role iv = usr_Role ?u" "inv_OrganizationID iv = usr_OrganizationID ?u" "equal_fold (inv_Email iv) (usr_Email ?u)"
    by (simp_all add: email_taken_def sso_db_def members_db_def admin_ann_def invited_user_def f iv_def org_def acme_def bob_invite_def)
  moreover have "find_index_of (\<lambda>x. inv_ID x = inv_ID iv \<and> inv_Status x = InvitePending \<and> env_now (se_call (ae_senv ?a) 0) \<le> inv_ExpiresAt x)
      (db_Invites sso_db) = Some 0" "db_Invites sso_db ! 0 = iv"
    by (simp_all add: sso_db_def iv_def bob_invite_def sample_auth_env_def saved_env_def)
  ultimately obtain d where d: "AcceptInvite (inv_ID iv) ?u (password_credential (usr_ID ?u) p)
       (auth_audit ?a (Suc 0) (org_ID org) ?u ''ACCEPT_INVITE'' (txt_auth_accept_1 @ usr_Role ?u @ txt_auth_accept_2))
       (se_call (ae_senv ?a) 0) sso_db = (Inr ?u, d)"
    by (simp add: AcceptInvite_def Let_def)
  have r: "\<exists>s c w. join_invited sample_config ?a sample_acceptance sso_db \<lparr> aw_repo = Memory m, aw_db = sso_db \<rparr> = (Answer 201 s, c, w)
      \<and> org_SSOEnforced (as_Organization s)" for m
    using createSession_Memory [OF sample_random [of 10 1 32] sample_random [of 10 "1 + 1" 24], of sample_config "usr_ID ?u" m]
    by (simp add: join_invited_def Let_def found_def f e i o p d signed_in_def) (simp add: org_def)
  have "\<exists>m. with_attempt ?a key 12 (15 * minute) \<lparr> aw_repo = Memory newMemorySessionRepository, aw_db = sso_db \<rparr> f
      = f \<lparr> aw_repo = Memory m, aw_db = sso_db \<rparr>" for f :: "auth_world \<Rightarrow> auth_session outcome" and key
    using sample_attempt [of 12 "ae_now ?a" key "15 * minute"] by (auto simp: with_attempt_def)
  with r show ?thesis
    unfolding HandleAcceptInvite_def by (simp add: sample_mode) (metis sample_request_def http_request.select_convs(1))
qed

theorem invitation_ignores_sso_witness:
  "\<exists>s c w. HandleAcceptInvite sample_config (sample_auth_env 10) sample_request (Some sample_acceptance) sso_db
      \<lparr> aw_repo = Memory newMemorySessionRepository, aw_db = sso_db \<rparr> = (Answer 201 s, c, w)
    \<and> (\<exists>raw m v. c = Some raw \<and> aw_repo w = Memory m \<and> live_session m 10 (tokenKey raw) = Some v)
    \<and> fst (log_in sample_config (sample_auth_env 20) sample_request \<lparr> li_Email = ''bob@acme.io'', li_Password = ''secret123'' \<rparr> (aw_db w) w)
        = Denied 403"
proof -
  obtain s c w where r: "HandleAcceptInvite sample_config (sample_auth_env 10) sample_request (Some sample_acceptance) sso_db
      \<lparr> aw_repo = Memory newMemorySessionRepository, aw_db = sso_db \<rparr> = (Answer 201 s, c, w)" "org_SSOEnforced (as_Organization s)"
    using sample_accepted by blast
  have n: "NewID (ae_senv (sample_auth_env 10)) ''usr_'' 0 \<notin> cred_UserID ` set (db_Credentials sso_db)"
  proof -
    have "NewID (ae_senv (sample_auth_env 10)) ''usr_'' 0 = ''usr_0''" by code_simp
    then show ?thesis by (simp add: sso_db_def members_db_def)
  qed
  show ?thesis
    using invitation_ignores_sso [of sample_config "sample_auth_env 10" sample_request sample_acceptance
        "\<lparr> aw_repo = Memory newMemorySessionRepository, aw_db = sso_db \<rparr>" 201 s c w "sample_auth_env 20" sample_request]
      r n sample_mode(2) by (auto simp: sample_acceptance_def)
qed

end
