(* ===== verification/Enterprise.thy ===== *)
theory Enterprise
  imports Auth Views
begin

text \<open>
  The handlers of \<^verbatim>\<open>internal/auth/enterprise.go\<close> with which the administrators of an enterprise manage it: its
  settings, its members and its invitations. The checks read the state \<open>snap\<close>, the writes find the state of
  the world \<open>w\<close>: the store takes its lock for each of them, not for the handler.
\<close>

section \<open>Settings\<close>

record update_organization_input =
  uo_Name :: string
  uo_EmailDomains :: "string list"
  uo_AllowDomainJoin :: bool
  uo_SSOEnforced :: bool

definition with_enterprise :: "http_request \<Rightarrow> db \<Rightarrow> auth_world \<Rightarrow> (user \<Rightarrow> organization \<Rightarrow> 'a outcome) \<Rightarrow> 'a outcome" where
  "with_enterprise rq snap w f = (case currentEnterprise rq snap of None \<Rightarrow> refuse 401 w | Some (u, org) \<Rightarrow> f u org)"

definition store_reply :: "nat \<Rightarrow> auth_world \<Rightarrow> ('b \<Rightarrow> 'a reply) \<Rightarrow> (err + 'b) \<times> db \<Rightarrow> 'a outcome" where
  "store_reply conflict w f x =
     ((case fst x of Inl ErrConflict \<Rightarrow> Denied conflict | Inl _ \<Rightarrow> Denied 500 | Inr y \<Rightarrow> f y), None, w\<lparr> aw_db := snd x \<rparr>)"

definition HandleOrganization ::
  "auth_config \<Rightarrow> auth_env \<Rightarrow> http_request \<Rightarrow> update_organization_input option \<Rightarrow> db \<Rightarrow> auth_world \<Rightarrow> organization outcome" where
  "HandleOrganization cfg a rq body snap w =
     with_enterprise rq snap w (\<lambda>u org.
       if req_Method rq = ''GET'' then (Answer 200 org, None, w)
       else if req_Method rq \<noteq> ''PUT'' then refuse 405 w
       else if \<not> usr_EnterpriseAdmin u then refuse 403 w
       else case body of
         None \<Rightarrow> refuse 400 w
       | Some x \<Rightarrow>
           let domains = normalizeDomains (uo_EmailDomains x) in
           if trim_space (uo_Name x) = [] then refuse 400 w
           else if uo_AllowDomainJoin x \<and> domains = [] then refuse 400 w
           else if list_ex (\<lambda>domain. uo_AllowDomainJoin x \<and> DomainClaimedByOther snap (org_ID org) domain) domains
           then refuse 409 w
           else if uo_SSOEnforced x \<and> \<not> org_SSOEnforced org \<and> (\<not> OIDCEnabled cfg \<or> \<not> HasActiveSSOAdmin snap (org_ID org))
           then refuse 409 w
           else store_reply 409 w (Answer 200)
             (UpdateOrganization (org_ID org)
                (\<lambda>o'. (None, o'\<lparr> org_Name := trim_space (uo_Name x), org_EmailDomains := domains,
                                org_AllowDomainJoin := uo_AllowDomainJoin x, org_SSOEnforced := uo_SSOEnforced x \<rparr>))
                (auth_audit a 0 (org_ID org) u ''UPDATE_ORGANIZATION'' txt_auth_org) (se_call (ae_senv a) 0) (aw_db w)))"

section \<open>Members\<close>

definition HandleMembers :: "http_request \<Rightarrow> auth_world \<Rightarrow> user list outcome" where
  "HandleMembers rq w =
     with_enterprise rq (aw_db w) w (\<lambda>u org.
       if req_Method rq \<noteq> ''GET'' then refuse 405 w else (Answer 200 (UsersByOrganization (aw_db w) (org_ID org)), None, w))"

record update_member_input =
  um_Role :: string
  um_Active :: bool
  um_EnterpriseAdmin :: bool
  um_ApplicationGrants :: "application_grant_input list"

record member_access =
  ma_User :: user
  ma_ApplicationGrants :: "application_grant list"

text \<open>The last part of the path of a request, without slashes at its ends.\<close>

definition path_rest :: "string \<Rightarrow> http_request \<Rightarrow> string" where
  "path_rest start rq = trim_slashes (dropWhile (\<lambda>c. c = CHR ''/'') (trim_prefix (req_Path rq) start))"

definition bool_text :: "bool \<Rightarrow> string" where "bool_text b = (if b then ''true'' else ''false'')"

definition member_update :: "update_member_input \<Rightarrow> user update" where
  "member_update x v =
     (None, v\<lparr> usr_Role := um_Role x, usr_Active := um_Active x, usr_EnterpriseAdmin := um_EnterpriseAdmin x \<rparr>)"

definition member_detail :: "user \<Rightarrow> update_member_input \<Rightarrow> string" where
  "member_detail member x =
     txt_auth_member_1 @ usr_Name member @ txt_auth_member_2 @ um_Role x @ txt_auth_member_3 @ bool_text (um_Active x)
     @ txt_auth_member_4 @ bool_text (um_EnterpriseAdmin x)"

definition HandleMember ::
  "auth_env \<Rightarrow> http_request \<Rightarrow> update_member_input option \<Rightarrow> db \<Rightarrow> auth_world \<Rightarrow> member_access outcome" where
  "HandleMember a rq body snap w =
     with_enterprise rq snap w (\<lambda>u org.
       let memberID = path_rest ''/api/enterprise/members/'' rq in
       if \<not> usr_EnterpriseAdmin u then refuse 403 w
       else if memberID = [] then refuse 404 w
       else found (User snap memberID) (refuse 404 w) (\<lambda>member.
         if usr_OrganizationID member \<noteq> org_ID org then refuse 404 w
         else if req_Method rq = ''GET''
         then (Answer 200 \<lparr> ma_User = member, ma_ApplicationGrants = ApplicationGrantsByUser snap (org_ID org) (usr_ID member) \<rparr>,
               None, w)
         else if req_Method rq \<noteq> ''PUT'' then refuse 405 w
         else case body of
           None \<Rightarrow> refuse 400 w
         | Some x \<Rightarrow>
             if \<not> validRole (um_Role x) then refuse 400 w
             else if usr_ID member = usr_ID u \<and> (\<not> um_Active x \<or> \<not> um_EnterpriseAdmin x) then refuse 409 w
             else if usr_EnterpriseAdmin member \<and> (\<not> um_Active x \<or> \<not> um_EnterpriseAdmin x)
                     \<and> ActiveEnterpriseAdminCount snap (org_ID org) \<le> 1
             then refuse 409 w
             else case UpdateMember (org_ID org) memberID (member_update x) (um_ApplicationGrants x)
                         (auth_audit a 0 (org_ID org) u ''UPDATE_MEMBER'' (member_detail member x))
                         (se_call (ae_senv a) 0) (aw_db w) of
                    (Inl _, d) \<Rightarrow> refuse 500 (w\<lparr> aw_db := d \<rparr>)
                  | (Inr v, d) \<Rightarrow>
                      (Answer 200 \<lparr> ma_User = v, ma_ApplicationGrants = ApplicationGrantsByUser d (org_ID org) (usr_ID v) \<rparr>,
                       None, w\<lparr> aw_db := d \<rparr>)))"

section \<open>Invitations\<close>

record create_invite_input =
  ci_Email :: string
  ci_Role :: string
  ci_ExpiresIn :: int

datatype invites_answer = InviteList "organization_invite list" | InviteCreated organization_invite string string

text \<open>\<^verbatim>\<open>url.QueryEscape\<close>.\<close>

definition unreserved :: "char \<Rightarrow> bool" where
  "unreserved c \<longleftrightarrow> slug_char c \<or> (CHR ''A'' \<le> c \<and> c \<le> CHR ''Z'') \<or> c \<in> set ''-_.~''"

definition hex_upper :: "nat \<Rightarrow> char" where "hex_upper n = ''0123456789ABCDEF'' ! n"

definition query_escape :: "string \<Rightarrow> string" where
  "query_escape s =
     concat (map (\<lambda>c. if unreserved c then [c] else if c = CHR '' '' then ''+''
                      else [CHR ''%'', hex_upper (of_char c div 16), hex_upper (of_char c mod 16)]) s)"

definition invite_hours :: "int \<Rightarrow> int" where
  "invite_hours n = (let h = (if n \<le> 0 then 72 else n) in if 720 < h then 720 else h)"

definition invite_url :: "auth_config \<Rightarrow> http_request \<Rightarrow> string \<Rightarrow> string" where
  "invite_url cfg rq raw =
     (let base = (if cfg_PublicURL cfg = [] then (if req_TLS rq then ''https'' else ''http'') @ ''://'' @ req_Host rq
                  else cfg_PublicURL cfg)
      in trim_slashes base @ ''/?invite='' @ query_escape raw)"

definition new_invite :: "auth_env \<Rightarrow> user \<Rightarrow> organization \<Rightarrow> string \<Rightarrow> string \<Rightarrow> int \<Rightarrow> string \<Rightarrow> organization_invite" where
  "new_invite a u org email role hours raw =
     zero_organization_invite
       \<lparr> inv_ID := NewID (ae_senv a) ''inv_'' 0, inv_OrganizationID := org_ID org, inv_OrganizationName := org_Name org,
         inv_Email := email, inv_Role := role, inv_TokenHash := tokenKey raw, inv_Status := InvitePending,
         inv_ExpiresAt := ae_now a + hours * hour, inv_CreatedByID := usr_ID u, inv_CreatedByName := usr_Name u,
         inv_CreatedAt := ae_now a \<rparr>"

definition HandleInvites ::
  "auth_config \<Rightarrow> auth_env \<Rightarrow> http_request \<Rightarrow> create_invite_input option \<Rightarrow> db \<Rightarrow> auth_world \<Rightarrow> invites_answer outcome" where
  "HandleInvites cfg a rq body snap w =
     with_enterprise rq snap w (\<lambda>u org.
       if \<not> usr_EnterpriseAdmin u then refuse 403 w
       else if req_Method rq = ''GET'' then (Answer 200 (InviteList (InvitesByOrganization (ae_now a) snap (org_ID org))), None, w)
       else if req_Method rq \<noteq> ''POST'' then refuse 405 w
       else case body of
         None \<Rightarrow> refuse 400 w
       | Some x \<Rightarrow>
           let email = to_lower (trim_space (ci_Email x)) in
           if \<not> validEmail (ae_address a) email \<or> \<not> validRole (ci_Role x) then refuse 400 w
           else found (UserByEmail snap email)
             (case randomToken a 0 32 of
                None \<Rightarrow> refuse 500 w
              | Some raw \<Rightarrow>
                  let invite = new_invite a u org email (ci_Role x) (invite_hours (ci_ExpiresIn x)) raw
                  in store_reply 409 w (\<lambda>_. Answer 201 (InviteCreated invite (invite_url cfg rq raw) raw))
                       (CreateInvite invite
                          (auth_audit a 1 (org_ID org) u ''CREATE_INVITE''
                             (txt_auth_invite_1 @ email @ txt_auth_invite_2 @ ci_Role x @ txt_auth_invite_3))
                          (se_call (ae_senv a) 0) (aw_db w)))
             (\<lambda>_. refuse 409 w))"

definition HandleInvite :: "auth_env \<Rightarrow> http_request \<Rightarrow> db \<Rightarrow> auth_world \<Rightarrow> unit outcome" where
  "HandleInvite a rq snap w =
     with_enterprise rq snap w (\<lambda>u org.
       let inviteID = path_rest ''/api/enterprise/invites/'' rq in
       if \<not> usr_EnterpriseAdmin u then refuse 403 w
       else if inviteID = [] \<or> req_Method rq \<noteq> ''DELETE'' then refuse 405 w
       else case RevokeInvite (org_ID org) inviteID (auth_audit a 0 (org_ID org) u ''REVOKE_INVITE'' txt_auth_revoke)
                   (se_call (ae_senv a) 0) (aw_db w) of
              (Inl _, d) \<Rightarrow> refuse 404 (w\<lparr> aw_db := d \<rparr>)
            | (Inr _, d) \<Rightarrow> (Answer 200 (), None, w\<lparr> aw_db := d \<rparr>))"

section \<open>An enterprise keeps an administrator\<close>

lemma with_enterprise_Answer:
  assumes "with_enterprise rq snap w f = (Answer k s, c, w')"
  obtains u org where "currentEnterprise rq snap = Some (u, org)" "f u org = (Answer k s, c, w')"
  using assms by (auto simp: with_enterprise_def refuse_def split: option.splits prod.splits)

lemma currentEnterprise_Some:
  assumes "currentEnterprise rq d = Some (u, org)"
  shows "u \<in> set (db_Users d)" "usr_Active u" "usr_OrganizationID u = org_ID org"
    "lookup_by org_ID (org_ID org) (db_Organizations d) = Some org"
proof -
  obtain i where u: "lookup_by usr_ID i (db_Users d) = Some u" and a: "usr_Active u"
    and o: "lookup_by org_ID (usr_OrganizationID u) (db_Organizations d) = Some org"
    using assms by (auto simp: currentEnterprise_def found_def User_def Organization_def find_or_not_found_def
        split: option.splits sum.splits if_splits)
  show "u \<in> set (db_Users d)" using u by (blast dest: lookup_by_Some)
  show "usr_Active u" by (fact a)
  show i: "usr_OrganizationID u = org_ID org" using o by (metis lookup_by_Some)
  show "lookup_by org_ID (org_ID org) (db_Organizations d) = Some org" using o i by simp
qed

lemma length_filter_update:
  "n < length xs \<Longrightarrow>
   length (filter P (xs[n := y])) + (if P (xs ! n) then 1 else 0) = length (filter P xs) + (if P y then 1 else 0)"
proof (induction xs arbitrary: n)
  case (Cons x xs)
  then show ?case using Cons.IH [of "n - 1"] by (cases n) auto
qed simp

lemma find_stronger: "List.find P xs = Some y \<Longrightarrow> Q y \<Longrightarrow> List.find (\<lambda>x. P x \<and> Q x) xs = Some y"
  by (induction xs) (auto split: if_splits)

lemma UpdateMember_row:
  assumes "UpdateMember org i (member_update x) grants ev e d = (Inr v, d')" "lookup_by usr_ID i (db_Users d) = Some member"
    "usr_OrganizationID member = org"
  obtains n where "n < length (db_Users d)" "db_Users d ! n = member" "db_Users d' = (db_Users d)[n := v]"
    "v = snd (member_update x member)"
proof -
  obtain n where n: "find_index_of (\<lambda>u. usr_ID u = i \<and> usr_OrganizationID u = org) (db_Users d) = Some n"
    using assms(1) by (auto simp: UpdateMember_def split: option.splits)
  have "List.find (\<lambda>u. usr_ID u = i \<and> usr_OrganizationID u = org) (db_Users d) = Some member"
    using assms(2,3) by (intro find_stronger) (simp_all add: lookup_by_def)
  then have m: "db_Users d ! n = member" using n find_index_of_find by (metis option.map(2) option.inject)
  obtain rows where rows: "save_return e v (append_audit e
      (d\<lparr> db_ApplicationGrants := rows, db_Organizations := control_access org (env_now e) (db_Organizations d),
          db_Users := (db_Users d)[n := v] \<rparr>) ev) = (Inr v, d')" and v: "v = snd (member_update x member)"
  proof -
    have "\<exists>rows. save_return e (snd (member_update x member)) (append_audit e
      (d\<lparr> db_ApplicationGrants := rows, db_Organizations := control_access org (env_now e) (db_Organizations d),
          db_Users := (db_Users d)[n := snd (member_update x member)] \<rparr>) ev) = (Inr v, d')"
      using assms(1) n m by (auto simp: UpdateMember_def member_update_def split: option.splits)
    then obtain rows where r: "save_return e (snd (member_update x member)) (append_audit e
      (d\<lparr> db_ApplicationGrants := rows, db_Organizations := control_access org (env_now e) (db_Organizations d),
          db_Users := (db_Users d)[n := snd (member_update x member)] \<rparr>) ev) = (Inr v, d')" ..
    then have "v = snd (member_update x member)" by (auto simp: save_return_def split: prod.splits option.splits)
    with r that show thesis by blast
  qed
  have "db_Users d' = (db_Users d)[n := v]"
    using rows by (auto simp: save_return_def save_locked_def store_frame split: save.splits option.splits)
  with that n m v show thesis by (blast dest: find_index_of_SomeD)
qed

definition admin_of :: "string \<Rightarrow> user \<Rightarrow> bool" where
  "admin_of org u \<longleftrightarrow> usr_OrganizationID u = org \<and> usr_Active u \<and> usr_EnterpriseAdmin u"

lemma admin_count: "ActiveEnterpriseAdminCount d org = length (filter (admin_of org) (db_Users d))"
  by (simp add: ActiveEnterpriseAdminCount_def admin_of_def [abs_def])

lemma HandleMember_Answer:
  assumes "HandleMember a rq body snap w = (Answer k s, c, w')"
  obtains u org where "currentEnterprise rq snap = Some (u, org)" "usr_EnterpriseAdmin u" "w' = w"
  | u org member x v d where "currentEnterprise rq snap = Some (u, org)" "usr_EnterpriseAdmin u"
      "lookup_by usr_ID (path_rest ''/api/enterprise/members/'' rq) (db_Users snap) = Some member"
      "usr_OrganizationID member = org_ID org" "validRole (um_Role x)"
      "\<not> (usr_ID member = usr_ID u \<and> (\<not> um_Active x \<or> \<not> um_EnterpriseAdmin x))"
      "\<not> (usr_EnterpriseAdmin member \<and> (\<not> um_Active x \<or> \<not> um_EnterpriseAdmin x) \<and> ActiveEnterpriseAdminCount snap (org_ID org) \<le> 1)"
      "UpdateMember (org_ID org) (path_rest ''/api/enterprise/members/'' rq) (member_update x) (um_ApplicationGrants x)
         (auth_audit a 0 (org_ID org) u ''UPDATE_MEMBER'' (member_detail member x)) (se_call (ae_senv a) 0) (aw_db w) = (Inr v, d)"
      "w' = w\<lparr> aw_db := d \<rparr>"
proof -
  obtain u org where e: "currentEnterprise rq snap = Some (u, org)" "usr_EnterpriseAdmin u"
    using assms unfolding HandleMember_def
    by (auto simp: with_enterprise_def refuse_def Let_def split: option.splits prod.splits if_splits)
  let ?i = "path_rest ''/api/enterprise/members/'' rq"
  obtain member where m: "lookup_by usr_ID ?i (db_Users snap) = Some member" "usr_OrganizationID member = org_ID org"
    using assms e
    by (auto simp: HandleMember_def with_enterprise_def refuse_def Let_def found_def User_def find_or_not_found_def
        split: option.splits if_splits)
  have m': "User snap ?i = Inr member" by (simp add: User_def find_or_not_found_def m)
  show thesis
  proof (cases "req_Method rq = ''GET''")
    case True
    have "w' = w" using assms e m m' True
      by (auto simp: HandleMember_def with_enterprise_def refuse_def Let_def found_def split: if_splits)
    then show thesis using that(1) e by blast
  next
    case False
    obtain x where x: "body = Some x"
      using assms e m m' False
      by (auto simp: HandleMember_def with_enterprise_def refuse_def Let_def found_def split: if_splits option.splits)
    obtain z d where z: "UpdateMember (org_ID org) ?i (member_update x) (um_ApplicationGrants x)
         (auth_audit a 0 (org_ID org) u ''UPDATE_MEMBER'' (member_detail member x)) (se_call (ae_senv a) 0) (aw_db w) = (z, d)" by force
    obtain v where v: "z = Inr v" "w' = w\<lparr> aw_db := d \<rparr>"
      using assms e m m' False x z
      by (cases z) (auto simp: HandleMember_def with_enterprise_def refuse_def Let_def found_def split: if_splits)
    show thesis
      using assms e m m' False x z v that(2) [OF e m _ _ _ z [unfolded v(1)] v(2)]
      by (auto simp: HandleMember_def with_enterprise_def refuse_def Let_def found_def split: if_splits)
  qed
qed

text \<open>C15: an update of a member that is answered leaves his enterprise with an active administrator, and every
  other enterprise with as many as it had, as long as no other update comes between its checks and its write.\<close>

theorem member_update_keeps_admin:
  assumes "HandleMember a rq body (aw_db w) w = (Answer k s, c, w')" "currentEnterprise rq (aw_db w) = Some (u, org)"
  shows "1 \<le> ActiveEnterpriseAdminCount (aw_db w') (org_ID org)
    \<and> (o' = org_ID org \<or> ActiveEnterpriseAdminCount (aw_db w') o' = ActiveEnterpriseAdminCount (aw_db w) o')"
proof -
  have self: "1 \<le> ActiveEnterpriseAdminCount (aw_db w) (org_ID org)" if "usr_EnterpriseAdmin u"
  proof -
    have "u \<in> set (filter (admin_of (org_ID org)) (db_Users (aw_db w)))"
      using currentEnterprise_Some [OF assms(2)] that by (simp add: admin_of_def)
    then show ?thesis unfolding admin_count by (metis One_nat_def Suc_leI length_pos_if_in_set)
  qed
  show ?thesis
  proof (cases rule: HandleMember_Answer [OF assms(1)])
    case (1 u' org')
    then show ?thesis using self assms(2) by simp
  next
    case (2 u' org' member x v d)
    then have eq: "u' = u" "org' = org" using assms(2) by simp_all
    obtain n where n: "n < length (db_Users (aw_db w))" "db_Users (aw_db w) ! n = member" "db_Users d = (db_Users (aw_db w))[n := v]"
        "v = snd (member_update x member)"
      by (rule UpdateMember_row [OF 2(8,3,4)])
    have v: "usr_OrganizationID v = org_ID org" "usr_Active v = um_Active x" "usr_EnterpriseAdmin v = um_EnterpriseAdmin x"
      using 2(4) eq by (simp_all add: n(4) member_update_def)
    note c = length_filter_update [OF n(1), of "admin_of o'" v for o', unfolded n(2), folded n(3) admin_count]
    have "ActiveEnterpriseAdminCount d o' = ActiveEnterpriseAdminCount (aw_db w) o'" if "o' \<noteq> org_ID org" for o'
      using c [of o'] v(1) 2(4) eq that by (simp add: admin_of_def)
    moreover have "1 \<le> ActiveEnterpriseAdminCount d (org_ID org)"
    proof (cases "um_Active x \<and> um_EnterpriseAdmin x")
      case True
      then show ?thesis using c [of "org_ID org"] v self 2(2) eq by (simp add: admin_of_def split: if_splits)
    next
      case False
      then show ?thesis
        using c [of "org_ID org"] v self 2(2,7) eq by (auto simp: admin_of_def split: if_splits)
    qed
    ultimately show ?thesis using 2(9) by auto
  qed
qed

definition admin_eve :: user where
  "admin_eve = admin_ann\<lparr> usr_ID := ''usr_eve'', usr_Email := ''eve@acme.io'' \<rparr>"

definition two_admins :: db where
  "two_admins = members_db\<lparr> db_Users := [admin_ann, admin_eve] \<rparr>"

definition demotion :: update_member_input where
  "demotion = \<lparr> um_Role = RoleOwner, um_Active = True, um_EnterpriseAdmin = False, um_ApplicationGrants = [] \<rparr>"

definition member_request :: "string \<Rightarrow> string \<Rightarrow> http_request" where
  "member_request actor i =
     sample_request\<lparr> req_Method := ''PUT'', req_Path := ''/api/enterprise/members/'' @ i, req_Actor := Some actor \<rparr>"

lemma two_admins_facts:
  "currentEnterprise (member_request ''usr_ann'' i) two_admins = Some (admin_ann, acme)"
  "currentEnterprise (member_request ''usr_eve'' i) two_admins = Some (admin_eve, acme)"
  "User two_admins ''usr_ann'' = Inr admin_ann" "User two_admins ''usr_eve'' = Inr admin_eve"
  "ActiveEnterpriseAdminCount two_admins ''org_1'' = 2"
  by (simp_all add: two_admins_def members_db_def currentEnterprise_def ActorID_def member_request_def User_def Organization_def
      find_or_not_found_def lookup_by_def admin_ann_def admin_eve_def acme_def found_def zero_user_def zero_organization_def
      ActiveEnterpriseAdminCount_def)

text \<open>A demotion of another member by an administrator, when the state of the checks has a second one.\<close>

lemma demoted_by:
  assumes "currentEnterprise rq snap = Some (u, org)" "usr_EnterpriseAdmin u" "req_Method rq = ''PUT''"
    "path_rest ''/api/enterprise/members/'' rq = usr_ID m" "usr_ID m \<noteq> []" "usr_ID m \<noteq> usr_ID u"
    "User snap (usr_ID m) = Inr m" "usr_OrganizationID m = org_ID org"
    "validRole (um_Role x)" "um_ApplicationGrants x = []" "1 < ActiveEnterpriseAdminCount snap (org_ID org)"
    "env_save (se_call (ae_senv a) 0) = Saved"
    "find_index_of (\<lambda>v. usr_ID v = usr_ID m \<and> usr_OrganizationID v = org_ID org) (db_Users (aw_db w)) = Some n"
  shows "\<exists>s d. HandleMember a rq (Some x) snap w = (Answer 200 s, None, w\<lparr> aw_db := d \<rparr>)
    \<and> db_Users d = (db_Users (aw_db w))[n := snd (member_update x (db_Users (aw_db w) ! n))]"
proof -
  obtain v d where d: "UpdateMember (org_ID org) (usr_ID m) (member_update x) []
      (auth_audit a 0 (org_ID org) u ''UPDATE_MEMBER'' (member_detail m x)) (se_call (ae_senv a) 0) (aw_db w) = (Inr v, d)"
      "db_Users d = (db_Users (aw_db w))[n := snd (member_update x (db_Users (aw_db w) ! n))]"
    using assms(12,13) by (simp add: UpdateMember_def member_update_def store_frame)
  have "HandleMember a rq (Some x) snap w
      = (Answer 200 \<lparr> ma_User = v, ma_ApplicationGrants = ApplicationGrantsByUser d (org_ID org) (usr_ID v) \<rparr>, None, w\<lparr> aw_db := d \<rparr>)"
    using assms(2-11) d(1) by (simp add: HandleMember_def with_enterprise_def assms(1) Let_def found_def)
  with d(2) show ?thesis by blast
qed

text \<open>Where a member of an enterprise is in the table.\<close>

lemma member_index:
  assumes "distinct (map usr_ID us)" "u \<in> set us" "usr_OrganizationID u = i"
  obtains n where "find_index_of (\<lambda>v. usr_ID v = usr_ID u \<and> usr_OrganizationID v = i) us = Some n" "n < length us" "us ! n = u"
proof -
  have "find_index_of (\<lambda>v. usr_ID v = usr_ID u \<and> usr_OrganizationID v = i) us \<noteq> None"
    using assms(2,3) by (auto simp: find_index_of_None)
  then obtain n where n: "find_index_of (\<lambda>v. usr_ID v = usr_ID u \<and> usr_OrganizationID v = i) us = Some n" by blast
  then have "n < length us" "usr_ID (us ! n) = usr_ID u" by (auto dest: find_index_of_SomeD)
  moreover have "us ! n = u" using calculation assms(1,2) distinct_map_inj [OF assms(1)] nth_mem [of n us] by simp
  ultimately show thesis using that n by blast
qed

lemma sample_paths:
  "path_rest ''/api/enterprise/members/'' (member_request k ''usr_ann'') = ''usr_ann''"
  "path_rest ''/api/enterprise/members/'' (member_request k ''usr_eve'') = ''usr_eve''"
proof -
  have "trim_slashes (dropWhile (\<lambda>c. c = CHR ''/'') (trim_prefix (''/api/enterprise/members/'' @ i) ''/api/enterprise/members/'')) = i"
    if "i = ''usr_ann'' \<or> i = ''usr_eve''" for i using that by (elim disjE) (simp only:, code_simp)+
  then show "path_rest ''/api/enterprise/members/'' (member_request k ''usr_ann'') = ''usr_ann''"
    "path_rest ''/api/enterprise/members/'' (member_request k ''usr_eve'') = ''usr_eve''"
    unfolding path_rest_def member_request_def by (simp_all del: append_Cons append_Nil)
qed

lemma sample_demotion:
  "usr_ID admin_ann = ''usr_ann''" "usr_ID admin_eve = ''usr_eve''" "usr_OrganizationID admin_ann = ''org_1''"
  "usr_OrganizationID admin_eve = ''org_1''" "usr_EnterpriseAdmin admin_ann" "usr_EnterpriseAdmin admin_eve" "org_ID acme = ''org_1''"
  "validRole (um_Role demotion)" "um_ApplicationGrants demotion = []" "\<not> um_EnterpriseAdmin demotion"
  "req_Method (member_request k i) = ''PUT''" "db_Users two_admins = [admin_ann, admin_eve]"
  "env_save (se_call (ae_senv (sample_auth_env 10)) 0) = Saved"
  by (simp_all add: admin_ann_def admin_eve_def acme_def demotion_def member_request_def validRole_def two_admins_def)

text \<open>C39: whenever an enterprise has two active administrators, any two requests with which each takes the other's rights
  away, whose checks both read the state before either writes, are both answered with success and leave the enterprise
  without an administrator: each handler counts the administrators before the other one writes.\<close>

theorem concurrent_demotions_leave_no_admin:
  assumes actors: "currentEnterprise rq snap = Some (u, org)" "currentEnterprise rq' snap = Some (v, org)"
      "usr_EnterpriseAdmin u" "usr_EnterpriseAdmin v" "usr_ID u \<noteq> usr_ID v" "usr_ID u \<noteq> []" "usr_ID v \<noteq> []"
    and state: "aw_db w = snap" "distinct (map usr_ID (db_Users snap))" "ActiveEnterpriseAdminCount snap (org_ID org) = 2"
    and reqs: "req_Method rq = ''PUT''" "path_rest ''/api/enterprise/members/'' rq = usr_ID v"
      "req_Method rq' = ''PUT''" "path_rest ''/api/enterprise/members/'' rq' = usr_ID u"
    and bodies: "validRole (um_Role x)" "\<not> (um_Active x \<and> um_EnterpriseAdmin x)" "um_ApplicationGrants x = []"
      "validRole (um_Role y)" "\<not> (um_Active y \<and> um_EnterpriseAdmin y)" "um_ApplicationGrants y = []"
    and saves: "env_save (se_call (ae_senv a) 0) = Saved" "env_save (se_call (ae_senv b) 0) = Saved"
  shows "\<exists>s s' w1 w2. HandleMember a rq (Some x) snap w = (Answer 200 s, None, w1)
    \<and> HandleMember b rq' (Some y) snap w1 = (Answer 200 s', None, w2)
    \<and> ActiveEnterpriseAdminCount (aw_db w2) (org_ID org) = 0"
proof -
  note cu = currentEnterprise_Some [OF actors(1)] and cv = currentEnterprise_Some [OF actors(2)]
  have mem: "u \<in> set (db_Users snap)" "v \<in> set (db_Users snap)" "usr_OrganizationID u = org_ID org" "usr_OrganizationID v = org_ID org"
    "admin_of (org_ID org) u" "admin_of (org_ID org) v"
    using cu cv actors(3,4) by (auto simp: admin_of_def)
  have look: "User snap (usr_ID z) = Inr z" if "z \<in> set (db_Users snap)" for z
    using that state(2) by (simp add: User_def find_or_not_found_def lookup_by_distinct)
  obtain n where n: "find_index_of (\<lambda>z. usr_ID z = usr_ID v \<and> usr_OrganizationID z = org_ID org) (db_Users snap) = Some n"
    "n < length (db_Users snap)" "db_Users snap ! n = v"
    by (rule member_index [OF state(2) mem(2,4)])
  have two: "1 < ActiveEnterpriseAdminCount snap (org_ID org)" using state(3) by simp
  obtain s d1 where d1: "HandleMember a rq (Some x) snap w = (Answer 200 s, None, w\<lparr> aw_db := d1 \<rparr>)"
    "db_Users d1 = (db_Users snap)[n := snd (member_update x v)]"
    using demoted_by [OF actors(1,3) reqs(1,2) actors(7) actors(5) [symmetric] look [OF mem(2)] mem(4) bodies(1,3) two saves(1), of w n]
      n(1,3) state(1) by auto
  have ids: "map usr_ID (db_Users d1) = map usr_ID (db_Users snap)"
    unfolding d1(2) by (rule map_nth_update_same) (use n(2,3) in \<open>simp_all add: member_update_def\<close>)
  have u1: "u \<in> set (db_Users d1)"
    using mem(1) n(3) actors(5) by (auto simp: d1(2) in_set_conv_nth nth_list_update) (metis nth_list_update_neq)
  obtain k where k: "find_index_of (\<lambda>z. usr_ID z = usr_ID u \<and> usr_OrganizationID z = org_ID org) (db_Users d1) = Some k"
    "k < length (db_Users d1)" "db_Users d1 ! k = u"
    by (rule member_index [of "db_Users d1" u "org_ID org"]) (use u1 mem(3) ids state(2) in simp_all)
  obtain s' d2 where d2: "HandleMember b rq' (Some y) snap (w\<lparr> aw_db := d1 \<rparr>) = (Answer 200 s', None, w\<lparr> aw_db := d2 \<rparr>)"
    "db_Users d2 = (db_Users d1)[k := snd (member_update y u)]"
    using demoted_by [OF actors(2,4) reqs(3,4) actors(6) actors(5) look [OF mem(1)] mem(3) bodies(4,6) two saves(2), of "w\<lparr> aw_db := d1 \<rparr>" k]
      k(1,3) by auto
  have gone: "\<not> admin_of (org_ID org) (snd (member_update x v))" "\<not> admin_of (org_ID org) (snd (member_update y u))"
    using bodies(2,5) by (auto simp: admin_of_def member_update_def)
  have "ActiveEnterpriseAdminCount d1 (org_ID org) = 1"
    using length_filter_update [OF n(2), of "admin_of (org_ID org)" "snd (member_update x v)"] gone(1) mem(6) n(3) state(3)
    by (simp add: admin_count d1(2))
  then have "ActiveEnterpriseAdminCount d2 (org_ID org) = 0"
    using length_filter_update [OF k(2), of "admin_of (org_ID org)" "snd (member_update y u)"] gone(2) mem(5) k(3)
    by (simp add: admin_count d2(2))
  with d1(1) d2(1) show ?thesis by fastforce
qed

theorem concurrent_demotions_leave_no_admin_witness:
  "\<exists>s s' w1 w2. HandleMember (sample_auth_env 10) (member_request ''usr_ann'' ''usr_eve'') (Some demotion) two_admins
        \<lparr> aw_repo = sample_repository, aw_db = two_admins \<rparr> = (Answer 200 s, None, w1)
    \<and> HandleMember (sample_auth_env 10) (member_request ''usr_eve'' ''usr_ann'') (Some demotion) two_admins w1 = (Answer 200 s', None, w2)
    \<and> ActiveEnterpriseAdminCount (aw_db w2) (org_ID acme) = 0"
  by (rule concurrent_demotions_leave_no_admin [OF two_admins_facts(1,2)])
    (simp_all add: two_admins_facts sample_paths sample_demotion)

theorem member_update_keeps_admin_witness:
  "\<exists>s w1. HandleMember (sample_auth_env 10) (member_request ''usr_ann'' ''usr_eve'') (Some demotion) two_admins
        \<lparr> aw_repo = sample_repository, aw_db = two_admins \<rparr> = (Answer 200 s, None, w1)
    \<and> 1 \<le> ActiveEnterpriseAdminCount (aw_db w1) ''org_1''"
proof -
  let ?w = "\<lparr> aw_repo = sample_repository, aw_db = two_admins \<rparr>"
  obtain s d1 where d1: "HandleMember (sample_auth_env 10) (member_request ''usr_ann'' ''usr_eve'') (Some demotion) two_admins ?w
        = (Answer 200 s, None, ?w\<lparr> aw_db := d1 \<rparr>)"
    using demoted_by [OF two_admins_facts(1) [of "''usr_eve''"], where m = admin_eve and x = demotion and a = "sample_auth_env 10" and w = ?w and n = 1]
    by (auto simp: two_admins_facts sample_paths sample_demotion)
  from member_update_keeps_admin [of _ _ _ ?w, OF _ _, of "sample_auth_env 10" "member_request ''usr_ann'' ''usr_eve''" "Some demotion"]
    d1 two_admins_facts(1) show ?thesis by (fastforce simp: sample_demotion)
qed

end
