(* ===== verification/SignOn.thy ===== *)
theory SignOn
  imports Enterprise
begin

text \<open>
  The sign-on at an identity provider, \<^verbatim>\<open>HandleLogin\<close>, \<^verbatim>\<open>HandleCallback\<close> and \<^verbatim>\<open>HandleLogout\<close> of
  \<^verbatim>\<open>internal/auth/auth.go\<close>, with the kept discovery document. What the provider answers is a parameter, its
  document and the keys kept from it are part of the state.
\<close>

section \<open>Where a sign-on returns to\<close>

text \<open>What \<^verbatim>\<open>url.Parse\<close> refuses of a text that begins with one slash: a control character before the fragment, and a
  percent sign without two hexadecimal digits in the path or the fragment. Such a text has no scheme and no host.\<close>

definition hexadecimal :: "char \<Rightarrow> bool" where
  "hexadecimal c \<longleftrightarrow> (CHR ''0'' \<le> c \<and> c \<le> CHR ''9'') \<or> (CHR ''a'' \<le> c \<and> c \<le> CHR ''f'') \<or> (CHR ''A'' \<le> c \<and> c \<le> CHR ''F'')"

fun good_escapes :: "string \<Rightarrow> bool" where
  "good_escapes [] \<longleftrightarrow> True"
| "good_escapes (c # s) \<longleftrightarrow>
     (if c = CHR ''%'' then (case s of a # b # s' \<Rightarrow> hexadecimal a \<and> hexadecimal b \<and> good_escapes s' | _ \<Rightarrow> False)
      else good_escapes s)"

definition control_char :: "char \<Rightarrow> bool" where
  "control_char c \<longleftrightarrow> c < CHR '' '' \<or> c = CHR 0x7F"

definition parsed_path :: "string \<Rightarrow> bool" where
  "parsed_path s \<longleftrightarrow>
     (let u = takeWhile (\<lambda>c. c \<noteq> CHR ''#'') s; fragment = drop (length u + 1) s
      in \<not> list_ex control_char u \<and> good_escapes (takeWhile (\<lambda>c. c \<noteq> CHR ''?'') u) \<and> good_escapes fragment)"

definition safeNext :: "string \<Rightarrow> string" where
  "safeNext value =
     (let value = trim_space value in
      if value = [] \<or> \<not> has_prefix value ''/'' \<or> has_prefix value ''//'' then ''/''
      else if \<not> parsed_path value then ''/'' else value)"

section \<open>The provider\<close>

record discovery_document =
  doc_Issuer :: string
  doc_AuthorizationEndpoint :: string
  doc_TokenEndpoint :: string
  doc_JWKSURI :: string
  doc_EndSessionEndpoint :: string

record token_response =
  tok_IDToken :: string
  tok_Error :: string

text \<open>\<open>pv_post\<close> posts a form to an endpoint, with a user and a password if they are given: the status and the
  decoded answer. \<open>pv_token\<close> is the outside of the verification of a token, whose keys are fetched from an
  address.\<close>

record provider =
  pv_document :: "discovery_document option"
  pv_post :: "string \<Rightarrow> string \<Rightarrow> (string \<times> string) option \<Rightarrow> (nat \<times> token_response) option"
  pv_token :: "string \<Rightarrow> token_world"

record provider_cache =
  pc_document :: discovery_document
  pc_expiry :: gotime
  pc_keys :: key_cache

definition complete_document :: "auth_config \<Rightarrow> discovery_document \<Rightarrow> bool" where
  "complete_document cfg doc \<longleftrightarrow>
     \<not> (doc_Issuer doc \<noteq> cfg_Issuer cfg \<or> doc_AuthorizationEndpoint doc = [] \<or> doc_TokenEndpoint doc = [] \<or> doc_JWKSURI doc = [])"

definition discover ::
  "auth_config \<Rightarrow> gotime \<Rightarrow> provider \<Rightarrow> bool \<Rightarrow> provider_cache \<Rightarrow> discovery_document option \<times> provider_cache" where
  "discover cfg now pv force c =
     (if \<not> force \<and> doc_AuthorizationEndpoint (pc_document c) \<noteq> [] \<and> now < pc_expiry c then (Some (pc_document c), c)
      else case pv_document pv of
             None \<Rightarrow> (None, c)
           | Some doc \<Rightarrow>
               if \<not> complete_document cfg doc then (None, c)
               else (Some doc, c\<lparr> pc_document := doc, pc_expiry := now + 6 * hour \<rparr>))"

text \<open>\<^verbatim>\<open>url.Values.Encode\<close> of values whose keys are given in order.\<close>

definition encode_values :: "(string \<times> string) list \<Rightarrow> string" where
  "encode_values vs = join_str ''&'' (map (\<lambda>(k, v). query_escape k @ ''='' @ query_escape v) vs)"

definition exchange_form :: "auth_config \<Rightarrow> string \<Rightarrow> string \<Rightarrow> string" where
  "exchange_form cfg code verifier =
     encode_values ([(''client_id'', cfg_ClientID cfg)]
       @ (if cfg_ClientSecret cfg \<noteq> [] \<and> cfg_TokenAuthMethod cfg \<noteq> ''client_secret_basic''
          then [(''client_secret'', cfg_ClientSecret cfg)] else [])
       @ [(''code'', code), (''code_verifier'', verifier), (''grant_type'', ''authorization_code''),
          (''redirect_uri'', cfg_RedirectURL cfg)])"

definition exchangeCode ::
  "auth_config \<Rightarrow> provider \<Rightarrow> discovery_document \<Rightarrow> string \<Rightarrow> string \<Rightarrow> token_response option" where
  "exchangeCode cfg pv doc code verifier =
     (case pv_post pv (doc_TokenEndpoint doc) (exchange_form cfg code verifier)
             (if cfg_ClientSecret cfg \<noteq> [] \<and> cfg_TokenAuthMethod cfg = ''client_secret_basic''
              then Some (cfg_ClientID cfg, cfg_ClientSecret cfg) else None) of
        None \<Rightarrow> None
      | Some (status, token) \<Rightarrow>
          if status < 200 \<or> 300 \<le> status \<or> tok_Error token \<noteq> [] \<or> tok_IDToken token = [] then None else Some token)"

section \<open>Signing on and off\<close>

type_synonym 'a sso_outcome = "'a outcome \<times> provider_cache"

text \<open>The second part of the answer is the cookie with the state, when a new one is set.\<close>

definition authorization_url :: "auth_config \<Rightarrow> discovery_document \<Rightarrow> string \<Rightarrow> string \<Rightarrow> string \<Rightarrow> string" where
  "authorization_url cfg doc st nonce verifier =
     doc_AuthorizationEndpoint doc @ ''?'' @ encode_values
       [(''client_id'', cfg_ClientID cfg), (''code_challenge'', pkceChallenge verifier), (''code_challenge_method'', ''S256''),
        (''nonce'', nonce), (''redirect_uri'', cfg_RedirectURL cfg), (''response_type'', ''code''),
        (''scope'', join_str '' '' (cfg_Scopes cfg)), (''state'', st)]"

definition HandleLogin ::
  "auth_config \<Rightarrow> auth_env \<Rightarrow> provider \<Rightarrow> http_request \<Rightarrow> auth_world \<Rightarrow> provider_cache \<Rightarrow> unit sso_outcome \<times> string option" where
  "HandleLogin cfg a pv rq w c =
     (if req_Method rq \<noteq> ''GET'' then ((refuse 405 w, c), None)
      else if \<not> OIDCEnabled cfg then (((Redirected ''/'', None, w), c), None)
      else case discover cfg (ae_now a) pv False c of
        (None, c) \<Rightarrow> (((LoginError, None, w), c), None)
      | (Some doc, c) \<Rightarrow>
          (case (randomToken a 0 32, randomToken a 1 32, randomToken a 2 48) of
             (Some st, Some nonce, Some verifier) \<Rightarrow>
               (case PutLoginFlow (tokenKey st)
                       \<lparr> flow_Nonce = nonce, flow_CodeVerifier = verifier, flow_Next = safeNext (req_Query rq ''next''),
                         flow_ExpiresAt = ae_now a + 10 * minute \<rparr> (aw_repo w) of
                  (Some _, r) \<Rightarrow> (((LoginError, None, w\<lparr> aw_repo := r \<rparr>), c), None)
                | (None, r) \<Rightarrow>
                    (((Redirected (authorization_url cfg doc st nonce verifier), None, w\<lparr> aw_repo := r \<rparr>), c), Some st))
           | _ \<Rightarrow> (((LoginError, None, w), c), None)))"

text \<open>The verified identity of a callback, from the code and the pending login.\<close>

definition callback_identity ::
  "auth_config \<Rightarrow> auth_env \<Rightarrow> provider \<Rightarrow> string \<Rightarrow> login_flow \<Rightarrow> provider_cache \<Rightarrow> user option \<times> provider_cache" where
  "callback_identity cfg a pv code flow c =
     (case discover cfg (ae_now a) pv False c of
        (None, c) \<Rightarrow> (None, c)
      | (Some doc, c) \<Rightarrow>
          (case exchangeCode cfg pv doc code (flow_CodeVerifier flow) of
             None \<Rightarrow> (None, c)
           | Some token \<Rightarrow>
               (case verifyIDToken cfg (ae_now a) (pv_token pv (doc_JWKSURI doc)) (tok_IDToken token) (flow_Nonce flow) (pc_keys c) of
                  (None, keys) \<Rightarrow> (None, c\<lparr> pc_keys := keys \<rparr>)
                | (Some cs, keys) \<Rightarrow> (identityFromClaims cfg (ae_address a) (ae_now a) cs, c\<lparr> pc_keys := keys \<rparr>))))"

definition sso_audit :: "auth_env \<Rightarrow> user \<Rightarrow> audit_event" where
  "sso_audit a identity =
     zero_audit_event
       \<lparr> aud_ID := NewID (ae_senv a) ''audit_'' 0, aud_ActorID := usr_ID identity, aud_ActorName := usr_Name identity,
         aud_Action := ''SSO_LOGIN'', aud_Detail := txt_auth_sso, aud_CreatedAt := ae_now a \<rparr>"

definition HandleCallback ::
  "auth_config \<Rightarrow> auth_env \<Rightarrow> provider \<Rightarrow> http_request \<Rightarrow> auth_world \<Rightarrow> provider_cache \<Rightarrow> unit sso_outcome" where
  "HandleCallback cfg a pv rq w c =
     (let st = trim_space (req_Query rq ''state''); code = trim_space (req_Query rq ''code'') in
      if req_Method rq \<noteq> ''GET'' then (refuse 405 w, c)
      else if trim_space (req_Query rq ''error'') \<noteq> [] then ((LoginError, None, w), c)
      else if st = [] \<or> code = [] \<or> req_StateCookie rq \<noteq> st then ((LoginError, None, w), c)
      else case TakeLoginFlow (ae_now a) (tokenKey st) (aw_repo w) of
        (Inl _, r) \<Rightarrow> ((LoginError, None, w\<lparr> aw_repo := r \<rparr>), c)
      | (Inr flow, r) \<Rightarrow>
          if flow_ExpiresAt flow < ae_now a then ((LoginError, None, w\<lparr> aw_repo := r \<rparr>), c)
          else (case callback_identity cfg a pv code flow c of
            (None, c) \<Rightarrow> ((LoginError, None, w\<lparr> aw_repo := r \<rparr>), c)
          | (Some identity, c) \<Rightarrow>
              (case UpsertSSOUser identity (sso_audit a identity) (se_call (ae_senv a) 0) (aw_db w) of
                 (Inl _, d) \<Rightarrow> ((LoginError, None, \<lparr> aw_repo = r, aw_db = d \<rparr>), c)
               | (Inr u, d) \<Rightarrow>
                   (case createSession cfg a 0 (usr_ID u) r of
                      (None, r) \<Rightarrow> ((LoginError, None, \<lparr> aw_repo = r, aw_db = d \<rparr>), c)
                    | (Some (raw, _), r) \<Rightarrow> ((Redirected (flow_Next flow), Some raw, \<lparr> aw_repo = r, aw_db = d \<rparr>), c)))))"

definition signed_off_url :: "auth_config \<Rightarrow> discovery_document \<Rightarrow> string" where
  "signed_off_url cfg doc =
     doc_EndSessionEndpoint doc @ ''?'' @ encode_values
       [(''client_id'', cfg_ClientID cfg),
        (''post_logout_redirect_uri'', if cfg_PublicURL cfg = [] then ''/'' else cfg_PublicURL cfg)]"

definition forged_logout :: "http_request \<Rightarrow> session \<Rightarrow> bool" where
  "forged_logout rq v \<longleftrightarrow>
     (let header = trim_space (req_CSRF rq); provided = (if header = [] then trim_space (req_FormCSRF rq) else header)
      in provided = [] \<or> provided \<noteq> ses_CSRFToken v)"

definition HandleLogout ::
  "auth_config \<Rightarrow> auth_env \<Rightarrow> provider \<Rightarrow> http_request \<Rightarrow> auth_world \<Rightarrow> provider_cache \<Rightarrow> unit sso_outcome" where
  "HandleLogout cfg a pv rq w c =
     (if req_Method rq \<noteq> ''POST'' then (refuse 405 w, c)
      else case sessionData (ae_now a) rq (aw_db w) (aw_repo w) of
        (Inl _, r) \<Rightarrow> (refuse 503 (w\<lparr> aw_repo := r \<rparr>), c)
      | (Inr s, r) \<Rightarrow>
          if (case s of None \<Rightarrow> False | Some v \<Rightarrow> forged_logout rq v) then (refuse 403 (w\<lparr> aw_repo := r \<rparr>), c)
          else
            let r = (case req_SessionCookie rq of None \<Rightarrow> r | Some raw \<Rightarrow> snd (DeleteSession (tokenKey raw) r));
                w = w\<lparr> aw_repo := r \<rparr>
            in if \<not> OIDCEnabled cfg then ((Redirected ''/'', Some [], w), c)
               else (case discover cfg (ae_now a) pv False c of
                       (Some doc, c) \<Rightarrow>
                         if doc_EndSessionEndpoint doc = [] then ((Redirected ''/'', Some [], w), c)
                         else ((Redirected (signed_off_url cfg doc), Some [], w), c)
                     | (None, c) \<Rightarrow> ((Redirected ''/'', Some [], w), c)))"

section \<open>Where a sign-on returns to\<close>

text \<open>The page a sign-on returns to is a path of this site: it begins with one slash and has no control
  character before its fragment; but a backslash after the slash passes, which browsers read as a second slash,
  so that the text names another site.\<close>

lemma safe_next_is_a_path:
  "has_prefix (safeNext value) ''/'' \<and> \<not> has_prefix (safeNext value) ''//''
   \<and> list_all (\<lambda>c. \<not> control_char c) (takeWhile (\<lambda>c. c \<noteq> CHR ''#'') (safeNext value))
   \<and> safeNext [CHR ''/'', CHR 0x5C, CHR ''e'', CHR ''.'', CHR ''x''] = [CHR ''/'', CHR 0x5C, CHR ''e'', CHR ''.'', CHR ''x'']"
proof -
  have root: "has_prefix ''/'' ''/''" "\<not> has_prefix ''/'' ''//''" "\<not> control_char (CHR ''/'')" by code_simp+
  have ex: "safeNext [CHR ''/'', CHR 0x5C, CHR ''e'', CHR ''.'', CHR ''x''] = [CHR ''/'', CHR 0x5C, CHR ''e'', CHR ''.'', CHR ''x'']"
    by code_simp
  show ?thesis
    using root ex by (auto simp: safeNext_def parsed_path_def Let_def list_all_iff list_ex_iff)
qed

section \<open>Callbacks\<close>

lemma UpsertSSOUser_Inr:
  assumes "UpsertSSOUser identity ev e d = (Inr u, d')"
  shows "u \<in> set (db_Users d') \<and> usr_Active u \<and> usr_IdentityProvider u = usr_IdentityProvider identity
    \<and> (usr_Email identity \<noteq> [] \<longrightarrow> usr_Email u = usr_Email identity)"
proof -
  have known: "u \<in> set (db_Users d') \<and> usr_Active u \<and> usr_IdentityProvider u = usr_IdentityProvider identity
      \<and> (usr_Email identity \<noteq> [] \<longrightarrow> usr_Email u = usr_Email identity)"
    if "update_existing identity ev e n k d'' = (Inr u, d')" "n < length (db_Users d'')" for n k d''
    using update_existing_Inr [OF that(1)] that(2) by (auto simp: sso_refused_def sso_user_def set_update_memI)
  show ?thesis
  proof (cases rule: UpsertSSOUser_cases [of identity d ev e])
    case (linked k n)
    then show ?thesis using known [of n k d] assms index_by_Some [OF linked(2)] by simp
  next
    case (email n k d'')
    moreover have "n < length (db_Users d'')" using email(2,3) by auto
    ultimately show ?thesis using known [of n k d''] assms by simp
  next
    case (new organization role acc)
    then show ?thesis using assms
      by (auto simp: provision_sso_def Let_def save_return_def save_locked_def store_frame split: option.splits prod.splits save.splits)
  qed (use assms in simp)
qed

text \<open>Claims that the provider vouched for when it was asked with the code of a request: they are in a token it signed,
  and are for this client, in time and for this nonce.\<close>

definition vouched :: "auth_config \<Rightarrow> gotime \<Rightarrow> provider \<Rightarrow> string \<Rightarrow> login_flow \<Rightarrow> claims \<Rightarrow> bool" where
  "vouched cfg now pv code flow cs \<longleftrightarrow>
     (\<exists>c doc c' token. discover cfg now pv False c = (Some doc, c')
        \<and> exchangeCode cfg pv doc code (flow_CodeVerifier flow) = Some token
        \<and> signed_claims now (pv_token pv (doc_JWKSURI doc)) (tok_IDToken token) (pc_keys c') cs
        \<and> validateClaims cfg now cs (flow_Nonce flow) = None)"

lemma callback_identity_Some:
  assumes "callback_identity cfg a pv code flow c = (Some identity, c')"
  shows "\<exists>cs. vouched cfg (ae_now a) pv code flow cs \<and> identityFromClaims cfg (ae_address a) (ae_now a) cs = Some identity"
proof -
  obtain doc c1 token cs keys where s: "discover cfg (ae_now a) pv False c = (Some doc, c1)"
    "exchangeCode cfg pv doc code (flow_CodeVerifier flow) = Some token"
    "verifyIDToken cfg (ae_now a) (pv_token pv (doc_JWKSURI doc)) (tok_IDToken token) (flow_Nonce flow) (pc_keys c1) = (Some cs, keys)"
    "identityFromClaims cfg (ae_address a) (ae_now a) cs = Some identity"
    using assms by (auto simp: callback_identity_def split: option.splits prod.splits)
  then have "vouched cfg (ae_now a) pv code flow cs" using verifyIDToken_Some [OF s(3)] unfolding vouched_def by blast
  with s(4) show ?thesis by blast
qed

lemma identityFromClaims_provider:
  "identityFromClaims cfg parse now cs = Some identity \<Longrightarrow> usr_IdentityProvider identity = cfg_Issuer cfg
    \<and> usr_Email identity = to_lower (trim_space (string_claim cs ''email'')) \<and> usr_Email identity \<noteq> []"
  by (auto simp: identityFromClaims_def Let_def validEmail_def split: if_splits)

lemma HandleCallback_Redirected:
  fixes rq
  defines "key \<equiv> tokenKey (trim_space (req_Query rq ''state''))"
  assumes "HandleCallback cfg a pv rq w c = ((Redirected t, k, w'), c')"
  obtains flow r identity u d raw csrf r' c0 c1 where "TakeLoginFlow (ae_now a) key (aw_repo w) = (Inr flow, r)"
    "req_StateCookie rq = trim_space (req_Query rq ''state'')" "t = flow_Next flow"
    "callback_identity cfg a pv (trim_space (req_Query rq ''code'')) flow c0 = (Some identity, c1)"
    "UpsertSSOUser identity (sso_audit a identity) (se_call (ae_senv a) 0) (aw_db w) = (Inr u, d)"
    "createSession cfg a 0 (usr_ID u) r = (Some (raw, csrf), r')" "k = Some raw" "w' = \<lparr> aw_repo = r', aw_db = d \<rparr>"
  using assms unfolding HandleCallback_def Let_def refuse_def
  by (auto split: if_splits sum.splits prod.splits option.splits)

lemma createSession_flows:
  "createSession cfg a n i (Memory m) = (x, r) \<Longrightarrow> \<exists>m'. r = Memory m' \<and> mem_flows m' = mem_flows m"
  by (auto simp: createSession_def PutSession_def changed_repository_def mem_Put_def split: option.splits)


section \<open>Signing off\<close>

text \<open>Whoever signs off loses his session: after an answer other than a refusal no request with his cookie
  finds a session, at any time, and a live session was given up only with its own token against forged
  requests.\<close>

lemma logout_ends_session:
  assumes "HandleLogout cfg a pv rq w c = ((Redirected t, k, w'), c')" "req_SessionCookie rq = Some raw"
    "req_SessionCookie rq' = Some raw"
  shows "k = Some [] \<and> \<not> (\<exists>v. fst (sessionData now rq' d (aw_repo w')) = Inr (Some v))
    \<and> (fst (sessionData (ae_now a) rq (aw_db w) (aw_repo w)) = Inr (Some v) \<longrightarrow> \<not> forged_logout rq v)"
proof -
  obtain s r where s: "sessionData (ae_now a) rq (aw_db w) (aw_repo w) = (Inr s, r)"
    "s = Some v \<longrightarrow> \<not> forged_logout rq v" for v
    using assms(1) by (auto simp: HandleLogout_def refuse_def split: prod.splits sum.splits if_splits option.splits)
  have w: "k = Some []" "aw_repo w' = snd (DeleteSession (tokenKey raw) r)"
    using assms(1,2) s by (auto simp: HandleLogout_def refuse_def Let_def split: prod.splits sum.splits if_splits option.splits)
  have "\<not> (\<exists>v. fst (sessionData now rq' d (aw_repo w')) = Inr (Some v))"
  proof
    assume "\<exists>v. fst (sessionData now rq' d (aw_repo w')) = Inr (Some v)"
    then obtain v r1 where "sessionData now rq' d (aw_repo w') = (Inr (Some v), r1)" by (metis prod.collapse)
    then obtain raw' m where "req_SessionCookie rq' = Some raw'" "aw_repo w' = Memory m" "live_session m now (tokenKey raw') = Some v"
      by (rule sessionData_Some)
    then show False using w(2) assms(3)
      by (cases r) (auto simp: DeleteSession_def changed_repository_def mem.delete_live)
  qed
  with w(1) s show ?thesis by simp
qed

section \<open>A sample sign-on\<close>

definition sso_config :: auth_config where
  "sso_config = sample_config\<lparr> cfg_Mode := ''oidc'', cfg_Issuer := ''oidc'', cfg_ClientID := ''cg'', cfg_RedirectURL := ''/cb'' \<rparr>"

definition id_claims :: claims where
  "id_claims = [''iss'' \<mapsto> ClaimString ''oidc'', ''aud'' \<mapsto> ClaimString ''cg'', ''exp'' \<mapsto> ClaimNumber 1000,
     ''nonce'' \<mapsto> ClaimString ''n'', ''sub'' \<mapsto> ClaimString ''sub_ann'', ''email'' \<mapsto> ClaimString ''ann@acme.io'',
     ''email_verified'' \<mapsto> ClaimBool True]"

definition sample_header :: claims where
  "sample_header = [''alg'' \<mapsto> ClaimString ''RS256'', ''kid'' \<mapsto> ClaimString ''k2'']"

definition sample_provider :: provider where
  "sample_provider =
     \<lparr> pv_document = Some \<lparr> doc_Issuer = ''oidc'', doc_AuthorizationEndpoint = ''/a'', doc_TokenEndpoint = ''/t'',
         doc_JWKSURI = ''/k'', doc_EndSessionEndpoint = [] \<rparr>,
       pv_post = (\<lambda>_ _ _. Some (200, \<lparr> tok_IDToken = ''YQ.Yg.Yw'', tok_Error = [] \<rparr>)),
       pv_token = (\<lambda>_. \<lparr> tw_json = (\<lambda>s. if s = ''a'' then Some sample_header else Some id_claims),
         tw_rsa = (\<lambda>_ _ _ _. True), tw_keys = (\<lambda>_. Keys [sample_jwk]) \<rparr>) \<rparr>"

definition sample_flow :: login_flow where
  "sample_flow = \<lparr> flow_Nonce = ''n'', flow_CodeVerifier = ''v'', flow_Next = ''/next'', flow_ExpiresAt = 100 \<rparr>"

definition empty_cache :: provider_cache where
  "empty_cache =
     \<lparr> pc_document = \<lparr> doc_Issuer = [], doc_AuthorizationEndpoint = [], doc_TokenEndpoint = [], doc_JWKSURI = [],
         doc_EndSessionEndpoint = [] \<rparr>,
       pc_expiry = 0, pc_keys = \<lparr> kc_keys = [], kc_hidden = [], kc_expiry = 0 \<rparr> \<rparr>"

definition callback_request :: http_request where
  "callback_request = sample_request\<lparr> req_Method := ''GET'', req_StateCookie := ''st'',
     req_Query := (\<lambda>k. if k = ''state'' then ''st'' else if k = ''code'' then ''co'' else []) \<rparr>"

lemma sample_token_verified:
  "\<exists>keys. verifyIDToken sso_config 10 (pv_token sample_provider ''/k'') ''YQ.Yg.Yw'' ''n'' (pc_keys empty_cache) = (Some id_claims, keys)"
proof -
  have b: "split_on (CHR ''.'') ''YQ.Yg.Yw'' = [''YQ'', ''Yg'', ''Yw'']" "base64_decode ''YQ'' = Some ''a''"
    "base64_decode ''Yg'' = Some ''b''" "base64_decode ''Yw'' = Some ''c''" by code_simp+
  have "rsa_key_of ''k2'' [decode_over zero_jwk sample_jwk] \<noteq> None" by code_simp
  then obtain k where k: "rsa_key_of ''k2'' [decode_over zero_jwk sample_jwk] = Some k" by blast
  have "containsFold_auth [''cg''] ''cg''" by code_simp
  then have v: "validateClaims sso_config 10 id_claims ''n'' = None"
    by (simp add: validateClaims_def string_claim_def id_claims_def sso_config_def audienceContains_def audienceLength_def
        claimValues_def numberClaim_def unix_time_def unix_zero_def minute_def second_def)
  show ?thesis
    by (simp add: verifyIDToken_def b sample_provider_def sample_header_def string_claim_def signing_key_def rsaKey_def
        refreshed_keys_def empty_cache_def k v Let_def)
qed

lemma sample_identity:
  obtains identity where "identityFromClaims sso_config Some 10 id_claims = Some identity"
    "usr_IdentityProvider identity = ''oidc''" "usr_Subject identity = ''sub_ann''"
proof -
  have f: "to_lower (trim_space ''ann@acme.io'') = ''ann@acme.io''" "validEmail Some ''ann@acme.io''" by code_simp+
  have d: "cfg_AllowedDomains sso_config = []" "cfg_AllowedValues sso_config = []" "cfg_Issuer sso_config = ''oidc''"
    by (simp_all add: sso_config_def sample_config_def New_config_def FromEnvironment_def Let_def splitValues_def)
  have "string_claim id_claims ''sub'' = ''sub_ann''" "string_claim id_claims ''email'' = ''ann@acme.io''"
    by (simp_all add: string_claim_def id_claims_def)
  with f d that show thesis by (simp add: identityFromClaims_def Let_def)
qed

lemma sample_sign_on:
  "\<exists>k w c. HandleCallback sso_config (sample_auth_env 10) sample_provider callback_request
     \<lparr> aw_repo = Memory (mem_PutLoginFlow (tokenKey ''st'') sample_flow newMemorySessionRepository), aw_db = members_db \<rparr> empty_cache
     = ((Redirected ''/next'', k, w), c)"
proof -
  let ?a = "sample_auth_env 10" and ?m = "mem_PutLoginFlow (tokenKey ''st'') sample_flow newMemorySessionRepository"
  have q: "trim_space (req_Query callback_request ''state'') = ''st''" "trim_space (req_Query callback_request ''code'') = ''co''"
    "trim_space (req_Query callback_request ''error'') = []" by code_simp+
  have r: "req_Method callback_request = ''GET''" "req_StateCookie callback_request = ''st''"
    by (simp_all add: callback_request_def)
  obtain m1 where t: "TakeLoginFlow 10 (tokenKey ''st'') (Memory ?m) = (Inr sample_flow, Memory m1)"
    by (simp add: TakeLoginFlow_def asked_repository_def mem_TakeLoginFlow_def mem_PutLoginFlow_def sample_flow_def)
  obtain keys where keys: "verifyIDToken sso_config 10 (pv_token sample_provider ''/k'') ''YQ.Yg.Yw'' ''n'' (pc_keys empty_cache) = (Some id_claims, keys)"
    using sample_token_verified by blast
  obtain identity where i: "identityFromClaims sso_config Some 10 id_claims = Some identity"
    "usr_IdentityProvider identity = ''oidc''" "usr_Subject identity = ''sub_ann''" by (rule sample_identity)
  have "ae_address ?a = Some" by (simp add: sample_auth_env_def)
  then have c: "\<exists>c. callback_identity sso_config ?a sample_provider ''co'' sample_flow empty_cache = (Some identity, c)"
    using keys i(1)
    by (simp add: callback_identity_def discover_def empty_cache_def complete_document_def sample_flow_def)
      (simp add: sample_provider_def exchangeCode_def complete_document_def sso_config_def empty_cache_def)
  have fl: "flow_ExpiresAt sample_flow = 100" "flow_Next sample_flow = ''/next''" by (simp_all add: sample_flow_def)
  obtain u d where u: "UpsertSSOUser identity (sso_audit ?a identity) (se_call (ae_senv ?a) 0) members_db = (Inr u, d)"
    using i(2,3) by (simp add: UpsertSSOUser_def sso_match_def members_db_def admin_ann_def index_by_def update_existing_def
        sso_refused_def Let_def)
  show ?thesis
    using c createSession_Memory [OF sample_random [of 10 0 32] sample_random [of 10 "0 + 1" 24], of sso_config "usr_ID u" m1]
    by (auto simp: HandleCallback_def Let_def q r t u fl)
qed


lemma sample_session_found:
  "sessionData 10 sample_request (members_db\<lparr> db_Users := [dev_bob] \<rparr>) sample_repository
     = (Inr (Some (sample_session\<lparr> ses_UserID := usr_ID dev_bob \<rparr>)), sample_repository)"
proof -
  have "GetSession 10 (tokenKey ''raw'') sample_repository = (Inr (sample_session\<lparr> ses_UserID := usr_ID dev_bob \<rparr>), sample_repository)"
    by (simp add: sample_repository_def GetSession_def asked_repository_def mem_Put_def mem_Get_def sample_session_def)
  moreover have "User (members_db\<lparr> db_Users := [dev_bob] \<rparr>) (usr_ID dev_bob) = Inr dev_bob"
    by (simp add: User_def find_or_not_found_def lookup_by_def)
  ultimately show ?thesis
    by (simp add: sessionData_def sample_request_def found_def sample_session_def) (simp add: dev_bob_def)
qed

lemma logout_ends_session_witness:
  "\<exists>w c. HandleLogout sample_config (sample_auth_env 10) sample_provider sample_request
      \<lparr> aw_repo = sample_repository, aw_db = members_db\<lparr> db_Users := [dev_bob] \<rparr> \<rparr> empty_cache = ((Redirected ''/'', Some [], w), c)
    \<and> \<not> (\<exists>v. fst (sessionData 11 sample_request members_db (aw_repo w)) = Inr (Some v))"
proof -
  let ?w = "\<lparr> aw_repo = sample_repository, aw_db = members_db\<lparr> db_Users := [dev_bob] \<rparr> \<rparr>"
  have "\<not> OIDCEnabled sample_config" by (simp add: OIDCEnabled_def sample_config_def New_config_def FromEnvironment_def Let_def)
  moreover have "\<exists>r. sessionData 10 sample_request (aw_db ?w) sample_repository = (Inr (Some (sample_session\<lparr> ses_UserID := usr_ID dev_bob \<rparr>)), r)"
    using sample_session_found by auto
  moreover have "trim_space ''csrf'' = ''csrf''" by code_simp
  ultimately obtain w c where h: "HandleLogout sample_config (sample_auth_env 10) sample_provider sample_request ?w empty_cache
      = ((Redirected ''/'', Some [], w), c)"
    by (auto simp: HandleLogout_def forged_logout_def sample_request_def sample_session_def)
  have "req_SessionCookie sample_request = Some ''raw''" by (simp add: sample_request_def)
  from logout_ends_session [OF h this this, of 11 members_db] h show ?thesis by blast
qed

end
