(* ===== verification/AuthRun.thy ===== *)
theory AuthRun
  imports SignOn
begin

text \<open>
  Runs of the handlers of \<^verbatim>\<open>internal/auth\<close>: every one of them that changes the tables of members, with the
  checks of each made on any state at all, as they are when other requests come in between. The roles of the
  members and of the invitations stay the three known ones.
\<close>

section \<open>Well-typed members\<close>

definition roles_valid :: "db \<Rightarrow> bool" where
  "roles_valid d \<longleftrightarrow>
     list_all (\<lambda>u. validRole (usr_Role u)) (db_Users d) \<and> list_all (\<lambda>iv. validRole (inv_Role iv)) (db_Invites d)"

lemma list_all_update: "list_all P xs \<Longrightarrow> P y \<Longrightarrow> list_all P (xs[n := y])"
  by (auto simp: list_all_iff dest: set_update_cases)

lemma list_all_nth_update: "list_all P xs \<Longrightarrow> (P (xs ! n) \<Longrightarrow> P (f (xs ! n))) \<Longrightarrow> list_all P (xs[n := f (xs ! n)])"
  by (cases "n < length xs") (auto simp: list_all_iff list_update_beyond dest: set_update_cases)

lemma roles_save:
  assumes "clean_save e d" "roles_valid d" "roles_valid d1"
  shows "roles_valid (snd (save_return e x d1))"
  using clean_save_return [OF assms(1), of x d1] assms(2,3) by auto

lemma roles_CreateEnterprise:
  "clean_save e d \<Longrightarrow> roles_valid d \<Longrightarrow> validRole (usr_Role u) \<Longrightarrow> roles_valid (snd (CreateEnterprise org u c ps ev e d))"
  by (auto simp: CreateEnterprise_def intro!: roles_save) (simp add: roles_valid_def store_frame)

lemma roles_UpdateOrganization:
  "clean_save e d \<Longrightarrow> roles_valid d \<Longrightarrow> roles_valid (snd (UpdateOrganization i upd ev e d))"
  by (auto simp: UpdateOrganization_def Let_def split: option.splits prod.splits intro!: roles_save)
    (simp add: roles_valid_def store_frame)

lemma roles_CreateInvite:
  "clean_save e d \<Longrightarrow> roles_valid d \<Longrightarrow> validRole (inv_Role iv) \<Longrightarrow> roles_valid (snd (CreateInvite iv ev e d))"
  by (auto simp: CreateInvite_def intro!: roles_save) (simp add: roles_valid_def store_frame)

lemma roles_AcceptInvite:
  assumes "clean_save e d" "roles_valid d"
  shows "roles_valid (snd (AcceptInvite i u c ev e d))"
proof -
  have r: "roles_valid (append_audit e (d\<lparr> db_Invites := (db_Invites d)[n := accepted_invite (usr_ID u) (env_now e) (db_Invites d ! n)],
      db_Users := db_Users d @ [u], db_Credentials := db_Credentials d @ [c] \<rparr>) ev)"
    if "n < length (db_Invites d)" "inv_Role (db_Invites d ! n) = usr_Role u" for n
  proof -
    have "validRole (inv_Role (db_Invites d ! n))" using assms(2) that(1) by (simp add: roles_valid_def list_all_length)
    then show ?thesis
      using assms(2) that(2) by (simp add: roles_valid_def store_frame accepted_invite_def list_all_update)
  qed
  show ?thesis
    using assms by (auto simp: AcceptInvite_def Let_def split: option.splits intro!: roles_save r)
qed

lemma roles_RevokeInvite:
  "clean_save e d \<Longrightarrow> roles_valid d \<Longrightarrow> roles_valid (snd (RevokeInvite org i ev e d))"
  by (auto simp: RevokeInvite_def split: option.splits intro!: roles_save)
    (auto simp: roles_valid_def store_frame intro!: list_all_nth_update)

lemma roles_UpdateIdentityLogin:
  assumes "clean_save e d" "roles_valid d" "\<And>u. usr_Role (f u) = usr_Role u"
  shows "roles_valid (snd (UpdateIdentityLogin i f g ev e d))"
  using assms(1,2)
  by (auto simp: UpdateIdentityLogin_def Let_def split: option.splits intro!: roles_save)
    (auto simp: roles_valid_def store_frame assms(3) intro!: list_all_nth_update)

lemma roles_UpdateMember:
  assumes "clean_save e d" "roles_valid d" "validRole (um_Role x)"
  shows "roles_valid (snd (UpdateMember org i (member_update x) grants ev e d))"
  using assms(1,2)
  by (auto simp: UpdateMember_def member_update_def split: option.splits intro!: roles_save)
    (auto simp: roles_valid_def store_frame assms(3) intro!: list_all_nth_update)

lemma roles_update_existing:
  "clean_save e d \<Longrightarrow> roles_valid d \<Longrightarrow> d' = d \<or> (\<exists>cs. d' = d\<lparr> db_Credentials := cs \<rparr>) \<Longrightarrow>
   roles_valid (snd (update_existing identity ev e n k d'))"
  by (auto simp: update_existing_def Let_def intro!: roles_save)
    (auto simp: roles_valid_def store_frame sso_user_def intro!: list_all_nth_update)

lemma roles_provision_sso:
  assumes "clean_save e d" "roles_valid d" "\<And>k. acc = Some k \<Longrightarrow> k < length (db_Invites d)"
  shows "roles_valid (snd (provision_sso identity ev e org role acc d))"
proof -
  have "validRole (sso_role role (usr_Role identity))" by (simp add: sso_role_def validRole_def Let_def)
  then show ?thesis
    using assms(1,2)
    by (auto simp: provision_sso_def Let_def intro!: roles_save split: option.split)
      (auto simp: roles_valid_def store_frame accepted_invite_def intro!: list_all_nth_update split: option.split)
qed

lemma roles_UpsertSSOUser:
  assumes "clean_save e d" "roles_valid d"
  shows "roles_valid (snd (UpsertSSOUser identity ev e d))"
proof (cases rule: UpsertSSOUser_cases [of identity d ev e])
  case (new organization role acc)
  then show ?thesis using roles_provision_sso [OF assms, of acc] by auto
qed (use assms roles_update_existing in auto)

lemmas roles_operations =
  roles_CreateEnterprise roles_UpdateOrganization roles_CreateInvite roles_AcceptInvite roles_RevokeInvite
  roles_UpdateIdentityLogin roles_UpdateMember roles_UpsertSSOUser

section \<open>Handlers\<close>

lemma with_attempt_db:
  assumes "\<And>w'. aw_db w' = aw_db w \<Longrightarrow> P (aw_db (snd (snd (f w'))))" "P (aw_db w)"
  shows "P (aw_db (snd (snd (with_attempt a key n window w f))))"
  using assms by (auto simp: with_attempt_def refuse_def split: prod.splits sum.splits)

lemma signed_in_db [simp]: "aw_db (snd (snd (signed_in cfg a n ok failed u org r d))) = d"
  by (auto simp: signed_in_def refuse_def split: option.splits prod.splits)

lemma snd_case_prod: "(case x of (a, b) \<Rightarrow> f a b) = f (fst x) (snd x)" by (simp add: split_beta)

text \<open>The last steps of a handler, over the outcome of the operation of the store.\<close>

lemma conflict_reply_db:
  assumes "P (snd x)" "\<And>v d. P d \<Longrightarrow> P (aw_db (snd (snd (g v d))))"
  shows "P (aw_db (snd (snd (case x of (Inl ErrConflict, d) \<Rightarrow> refuse n (w\<lparr> aw_db := d \<rparr>)
    | (Inl _, d) \<Rightarrow> refuse k (w\<lparr> aw_db := d \<rparr>) | (Inr v, d) \<Rightarrow> g v d))))"
  using assms by (cases x) (auto simp: refuse_def split: sum.split err.split)

lemma plain_reply_db:
  assumes "P (snd x)" "\<And>v d. P d \<Longrightarrow> P (aw_db (snd (snd (g v d))))"
  shows "P (aw_db (snd (snd (case x of (Inl _, d) \<Rightarrow> refuse k (w\<lparr> aw_db := d \<rparr>) | (Inr v, d) \<Rightarrow> g v d))))"
  using assms by (cases x) (auto simp: refuse_def split: sum.split)

lemma found_db:
  "P (aw_db (snd (snd y))) \<Longrightarrow> (\<And>z. P (aw_db (snd (snd (f z))))) \<Longrightarrow> P (aw_db (snd (snd (found x y f))))"
  by (simp add: found_def split: sum.split)

lemma refuse_db: "P (aw_db w) \<Longrightarrow> P (aw_db (snd (snd (refuse n w))))"
  by (simp add: refuse_def)

lemma option_db:
  "P (aw_db (snd (snd y))) \<Longrightarrow> (\<And>z. P (aw_db (snd (snd (f z))))) \<Longrightarrow> P (aw_db (snd (snd (case x of None \<Rightarrow> y | Some z \<Rightarrow> f z))))"
  by (simp split: option.split)

lemma if_db:
  "(b \<Longrightarrow> P (aw_db (snd (snd x)))) \<Longrightarrow> (\<not> b \<Longrightarrow> P (aw_db (snd (snd y)))) \<Longrightarrow> P (aw_db (snd (snd (if b then x else y))))"
  by simp

lemmas reply_db = conflict_reply_db [where P = roles_valid] plain_reply_db [where P = roles_valid]
  found_db [where P = roles_valid] option_db [where P = roles_valid] if_db [where P = roles_valid] refuse_db [where P = roles_valid]

lemma roles_register:
  assumes "clean_save (se_call (ae_senv a) 0) (aw_db w)" "roles_valid (aw_db w)"
  shows "roles_valid (aw_db (snd (snd (HandleRegisterEnterprise cfg a rq body w))))"
proof -
  have "roles_valid (aw_db (snd (snd (register cfg a x w'))))" if "aw_db w' = aw_db w" for x w'
    unfolding register_def Let_def that
    by (intro reply_db) (simp_all add: that assms roles_CreateEnterprise founder_def validRole_def)
  then show ?thesis
    using assms(2) by (auto simp: HandleRegisterEnterprise_def refuse_def intro!: with_attempt_db [where P = roles_valid] split: option.splits)
qed

lemma roles_login:
  assumes "clean_save (se_call (ae_senv a) 0) (aw_db w)" "roles_valid (aw_db w)"
  shows "roles_valid (aw_db (snd (snd (HandleLocalLogin cfg a rq body snap w))))"
proof -
  have "roles_valid (aw_db (snd (snd (log_in cfg a rq x snap w'))))" if "aw_db w' = aw_db w" for x w'
    unfolding log_in_def Let_def that
    by (intro reply_db) (simp_all add: that assms roles_UpdateIdentityLogin)
  then show ?thesis
    using assms(2) by (auto simp: HandleLocalLogin_def refuse_def intro!: with_attempt_db [where P = roles_valid] split: option.splits)
qed

lemma roles_accept:
  assumes "clean_save (se_call (ae_senv a) 0) (aw_db w)" "roles_valid (aw_db w)"
  shows "roles_valid (aw_db (snd (snd (HandleAcceptInvite cfg a rq body snap w))))"
proof -
  have "roles_valid (aw_db (snd (snd (join_invited cfg a x snap w'))))" if "aw_db w' = aw_db w" for x w'
    unfolding join_invited_def Let_def that
    by (intro reply_db) (simp_all add: that assms roles_AcceptInvite)
  then show ?thesis
    using assms(2) by (auto simp: HandleAcceptInvite_def refuse_def intro!: with_attempt_db [where P = roles_valid] split: option.splits)
qed

lemma roles_organization:
  assumes "clean_save (se_call (ae_senv a) 0) (aw_db w)" "roles_valid (aw_db w)"
  shows "roles_valid (aw_db (snd (snd (HandleOrganization cfg a rq body snap w))))"
  using roles_UpdateOrganization [OF assms] assms(2)
  by (auto simp: HandleOrganization_def with_enterprise_def refuse_def store_reply_def Let_def split: option.splits)

lemma roles_member:
  assumes "clean_save (se_call (ae_senv a) 0) (aw_db w)" "roles_valid (aw_db w)"
  shows "roles_valid (aw_db (snd (snd (HandleMember a rq body snap w))))"
  using roles_UpdateMember [OF assms] assms(2)
  by (auto simp: HandleMember_def with_enterprise_def refuse_def found_def snd_case_prod Let_def split: option.splits sum.splits)

lemma roles_invites:
  assumes "clean_save (se_call (ae_senv a) 0) (aw_db w)" "roles_valid (aw_db w)"
  shows "roles_valid (aw_db (snd (snd (HandleInvites cfg a rq body snap w))))"
  using assms(2)
  by (auto simp: HandleInvites_def with_enterprise_def refuse_def found_def store_reply_def Let_def new_invite_def
      split: option.splits sum.splits intro!: roles_CreateInvite [OF assms])

lemma roles_invite:
  assumes "clean_save (se_call (ae_senv a) 0) (aw_db w)" "roles_valid (aw_db w)"
  shows "roles_valid (aw_db (snd (snd (HandleInvite a rq snap w))))"
  using roles_RevokeInvite [OF assms] assms(2)
  by (auto simp: HandleInvite_def with_enterprise_def refuse_def snd_case_prod Let_def split: option.splits sum.splits)

lemma roles_callback:
  assumes "clean_save (se_call (ae_senv a) 0) (aw_db w)" "roles_valid (aw_db w)"
  shows "roles_valid (aw_db (snd (snd (fst (HandleCallback cfg a pv rq w c)))))"
  using roles_UpsertSSOUser [OF assms] assms(2)
  by (auto simp: HandleCallback_def refuse_def snd_case_prod Let_def split: option.splits sum.splits)

text \<open>One request to the handlers that change the members, with whatever state \<open>snap\<close> its checks read.\<close>

inductive auth_step :: "auth_world \<Rightarrow> auth_world \<Rightarrow> bool" where
  step_register: "clean_save (se_call (ae_senv a) 0) (aw_db w) \<Longrightarrow>
     auth_step w (snd (snd (HandleRegisterEnterprise cfg a rq b_register w)))"
| step_login: "clean_save (se_call (ae_senv a) 0) (aw_db w) \<Longrightarrow>
     auth_step w (snd (snd (HandleLocalLogin cfg a rq b_login snap w)))"
| step_accept: "clean_save (se_call (ae_senv a) 0) (aw_db w) \<Longrightarrow>
     auth_step w (snd (snd (HandleAcceptInvite cfg a rq b_accept snap w)))"
| step_organization: "clean_save (se_call (ae_senv a) 0) (aw_db w) \<Longrightarrow>
     auth_step w (snd (snd (HandleOrganization cfg a rq b_organization snap w)))"
| step_member: "clean_save (se_call (ae_senv a) 0) (aw_db w) \<Longrightarrow>
     auth_step w (snd (snd (HandleMember a rq b_member snap w)))"
| step_invites: "clean_save (se_call (ae_senv a) 0) (aw_db w) \<Longrightarrow>
     auth_step w (snd (snd (HandleInvites cfg a rq b_invites snap w)))"
| step_invite: "clean_save (se_call (ae_senv a) 0) (aw_db w) \<Longrightarrow> auth_step w (snd (snd (HandleInvite a rq snap w)))"
| step_callback: "clean_save (se_call (ae_senv a) 0) (aw_db w) \<Longrightarrow>
     auth_step w (snd (snd (fst (HandleCallback cfg a pv rq w c))))"

inductive auth_run :: "auth_world \<Rightarrow> auth_world \<Rightarrow> bool" where
  auth_refl [simp, intro]: "auth_run w w"
| auth_more: "auth_run w w' \<Longrightarrow> auth_step w' w'' \<Longrightarrow> auth_run w w''"

lemma auth_step_roles: "auth_step w w' \<Longrightarrow> roles_valid (aw_db w) \<Longrightarrow> roles_valid (aw_db w')"
  by (induction rule: auth_step.induct)
    (simp_all add: roles_register roles_login roles_accept roles_organization roles_member roles_invites roles_invite roles_callback)

text \<open>C14: the members are well typed: whatever requests come to the handlers of registration, login, invitations,
  settings, members and single sign-on, in any order and with checks made on states that others have changed
  since, every member and every invitation keeps one of the three known roles.\<close>

theorem roles_stay_valid:
  assumes "auth_run w w'" "roles_valid (aw_db w)"
  shows "roles_valid (aw_db w')"
  using assms by (induction rule: auth_run.induct) (auto intro: auth_step_roles)

theorem roles_stay_valid_witness:
  "\<exists>s c w. HandleRegisterEnterprise sample_config (sample_auth_env 10) sample_request (Some sample_registration) empty_world = (Answer 201 s, c, w)
    \<and> roles_valid (aw_db w)"
proof -
  obtain s c w where r: "HandleRegisterEnterprise sample_config (sample_auth_env 10) sample_request (Some sample_registration) empty_world
      = (Answer 201 s, c, w)" using sample_founded by blast
  have "auth_step empty_world w" using step_register [of "sample_auth_env 10" empty_world sample_config sample_request "Some sample_registration"] r by simp
  then have "auth_run empty_world w" by (blast intro: auth_more)
  moreover have "roles_valid (aw_db empty_world)" by (simp add: roles_valid_def empty_world_def empty_db_def)
  ultimately show ?thesis using r roles_stay_valid by blast
qed

end
