(* ===== verification/GoUnmarshal.thy ===== *)
theory GoUnmarshal
  imports PassportToken
begin

text \<open>
  The decoder of \<^verbatim>\<open>encoding/json\<close>: \<open>json_parse\<close> reads a text into a tree, \<open>decode_struct\<close> stores the tree into the
  fields of a struct. Strings are read by \<open>string_body\<close> (with the escapes and the replacement of invalid UTF-8), a
  number keeps its literal, and the members of an object keep their order, because a later member overwrites an
  earlier one. The theory also reads the RFC 3339 times that \<open>rfc3339_nano\<close> prints. The main facts are that
  reading what \<open>json_enc\<close> printed gives the printed tree back, and the same for times.
\<close>

section \<open>Reading a text\<close>

datatype jval = VStr string | VNum string | VBool bool | VNull | VArr "jval list" | VObj "(string \<times> jval) list"

text \<open>A number literal: sign, integer part without leading zeros, fraction, exponent.\<close>

definition int_part :: "string \<Rightarrow> (string \<times> string) option" where
  "int_part s =
     (if s \<noteq> [] \<and> hd s = CHR ''0'' then Some (''0'', tl s)
      else let ds = digits_of s in if ds = [] then None else Some (ds, drop (length ds) s))"

definition frac_part :: "string \<Rightarrow> (string \<times> string) option" where
  "frac_part s =
     (if s \<noteq> [] \<and> hd s = CHR ''.'' then
        (let ds = digits_of (tl s) in if ds = [] then None else Some (CHR ''.'' # ds, drop (length ds) (tl s)))
      else Some ([], s))"

definition exp_part :: "string \<Rightarrow> (string \<times> string) option" where
  "exp_part s =
     (if s \<noteq> [] \<and> (hd s = CHR ''e'' \<or> hd s = CHR ''E'') then
        (let r = tl s;
             sg = (if r \<noteq> [] \<and> (hd r = CHR ''+'' \<or> hd r = CHR ''-'') then [hd r] else []);
             q = drop (length sg) r;
             ds = digits_of q
         in if ds = [] then None else Some (hd s # sg @ ds, drop (length ds) q))
      else Some ([], s))"

definition number_literal :: "string \<Rightarrow> (string \<times> string) option" where
  "number_literal s =
     (let sg = (if s \<noteq> [] \<and> hd s = CHR ''-'' then ''-'' else []) in
      case int_part (drop (length sg) s) of
        None \<Rightarrow> None
      | Some (i, r) \<Rightarrow>
          (case frac_part r of
             None \<Rightarrow> None
           | Some (f, r) \<Rightarrow> (case exp_part r of None \<Rightarrow> None | Some (e, r) \<Rightarrow> Some (sg @ i @ f @ e, r))))"

text \<open>Values, the elements of an array after its bracket or a comma, and the members of an object. Every step of the
  recursion reads a byte, so the length of the text bounds it.\<close>

fun p_value :: "nat \<Rightarrow> string \<Rightarrow> (jval \<times> string) option"
  and p_elems :: "nat \<Rightarrow> string \<Rightarrow> (jval list \<times> string) option"
  and p_fields :: "nat \<Rightarrow> string \<Rightarrow> ((string \<times> jval) list \<times> string) option" where
  "p_value 0 s = None"
| "p_value (Suc n) s =
     (case skip_ws s of
        [] \<Rightarrow> None
      | c # r \<Rightarrow>
          if c = CHR 0x22 then map_option (\<lambda>(t, q). (VStr t, q)) (string_body r)
          else if c = CHR ''['' then
            (case expect (CHR '']'') r of
               Some q \<Rightarrow> Some (VArr [], q)
             | None \<Rightarrow> map_option (\<lambda>(vs, q). (VArr vs, q)) (p_elems n r))
          else if c = CHR ''{'' then
            (case expect (CHR ''}'') r of
               Some q \<Rightarrow> Some (VObj [], q)
             | None \<Rightarrow> map_option (\<lambda>(fs, q). (VObj fs, q)) (p_fields n r))
          else if has_prefix (c # r) ''true'' then Some (VBool True, drop 3 r)
          else if has_prefix (c # r) ''false'' then Some (VBool False, drop 4 r)
          else if has_prefix (c # r) ''null'' then Some (VNull, drop 3 r)
          else map_option (\<lambda>(l, q). (VNum l, q)) (number_literal (c # r)))"
| "p_elems 0 s = None"
| "p_elems (Suc n) s =
     (case p_value n s of
        None \<Rightarrow> None
      | Some (v, r) \<Rightarrow>
          (case expect (CHR '','') r of
             Some q \<Rightarrow> map_option (\<lambda>(vs, q). (v # vs, q)) (p_elems n q)
           | None \<Rightarrow> map_option (\<lambda>q. ([v], q)) (expect (CHR '']'') r)))"
| "p_fields 0 s = None"
| "p_fields (Suc n) s =
     (case expect (CHR 0x22) s of
        None \<Rightarrow> None
      | Some r \<Rightarrow>
          (case string_body r of
             None \<Rightarrow> None
           | Some (k, r) \<Rightarrow>
               (case expect (CHR '':'') r of
                  None \<Rightarrow> None
                | Some r \<Rightarrow>
                    (case p_value n r of
                       None \<Rightarrow> None
                     | Some (v, r) \<Rightarrow>
                         (case expect (CHR '','') r of
                            Some q \<Rightarrow> map_option (\<lambda>(fs, q). ((k, v) # fs, q)) (p_fields n q)
                          | None \<Rightarrow> map_option (\<lambda>q. ([(k, v)], q)) (expect (CHR ''}'') r))))))"

text \<open>The decoder refuses texts nested deeper than 10000 levels.\<close>

fun depth :: "jval \<Rightarrow> nat" where
  "depth (VArr vs) = Suc (foldr (\<lambda>v. max (depth v)) vs 0)"
| "depth (VObj fs) = Suc (foldr (\<lambda>kv. max (depth (snd kv))) fs 0)"
| "depth v = 0"

definition json_parse :: "string \<Rightarrow> jval option" where
  "json_parse s =
     (case p_value (Suc (length s)) s of
        Some (v, r) \<Rightarrow> if skip_ws r = [] \<and> depth v \<le> 10000 then Some v else None
      | None \<Rightarrow> None)"

section \<open>Storing a tree into a struct\<close>

text \<open>The fields of a struct: the folded name of each, and what storing a value does (an error when the value has
  another type; null leaves a field alone). Unknown members are ignored.\<close>

type_synonym 'a setters = "(string \<times> (jval \<Rightarrow> 'a \<Rightarrow> 'a option)) list"

definition set_member :: "'a setters \<Rightarrow> string \<Rightarrow> jval \<Rightarrow> 'a \<Rightarrow> 'a option" where
  "set_member fs k v x = (case map_of fs (fold_name k) of None \<Rightarrow> Some x | Some f \<Rightarrow> f v x)"

primrec set_members :: "'a setters \<Rightarrow> (string \<times> jval) list \<Rightarrow> 'a \<Rightarrow> 'a option" where
  "set_members fs [] x = Some x"
| "set_members fs (kv # kvs) x =
     (case set_member fs (fst kv) (snd kv) x of None \<Rightarrow> None | Some y \<Rightarrow> set_members fs kvs y)"

definition decode_struct :: "'a setters \<Rightarrow> 'a \<Rightarrow> jval \<Rightarrow> 'a option" where
  "decode_struct fs zero v =
     (case v of VNull \<Rightarrow> Some zero | VObj kvs \<Rightarrow> set_members fs kvs zero | _ \<Rightarrow> None)"

definition put_string :: "(string \<Rightarrow> 'a \<Rightarrow> 'a) \<Rightarrow> jval \<Rightarrow> 'a \<Rightarrow> 'a option" where
  "put_string f v x = (case v of VStr s \<Rightarrow> Some (f s x) | VNull \<Rightarrow> Some x | _ \<Rightarrow> None)"

definition put_bool :: "(bool \<Rightarrow> 'a \<Rightarrow> 'a) \<Rightarrow> jval \<Rightarrow> 'a \<Rightarrow> 'a option" where
  "put_bool f v x = (case v of VBool b \<Rightarrow> Some (f b x) | VNull \<Rightarrow> Some x | _ \<Rightarrow> None)"

text \<open>The value of a literal without fraction and exponent, when it lies in a range.\<close>

definition literal_int :: "int \<Rightarrow> int \<Rightarrow> string \<Rightarrow> int option" where
  "literal_int lo hi l =
     (let neg = (l \<noteq> [] \<and> hd l = CHR ''-'');
          ds = (if neg then tl l else l);
          n = int (digits_val ds);
          i = (if neg then - n else n)
      in if ds \<noteq> [] \<and> list_all digit_char ds \<and> lo \<le> i \<and> i \<le> hi then Some i else None)"

definition put_int64 :: "(int \<Rightarrow> 'a \<Rightarrow> 'a) \<Rightarrow> jval \<Rightarrow> 'a \<Rightarrow> 'a option" where
  "put_int64 f v x =
     (case v of VNum l \<Rightarrow> map_option (\<lambda>i. f i x) (literal_int (- (2 ^ 63)) (2 ^ 63 - 1) l) | VNull \<Rightarrow> Some x | _ \<Rightarrow> None)"

text \<open>An unsigned field refuses every literal with a sign, also that of zero.\<close>

definition put_uint64 :: "(64 word \<Rightarrow> 'a \<Rightarrow> 'a) \<Rightarrow> jval \<Rightarrow> 'a \<Rightarrow> 'a option" where
  "put_uint64 f v x =
     (case v of
        VNum l \<Rightarrow> if l \<noteq> [] \<and> hd l = CHR ''-'' then None
                  else map_option (\<lambda>i. f (word_of_int i) x) (literal_int 0 (2 ^ 64 - 1) l)
      | VNull \<Rightarrow> Some x
      | _ \<Rightarrow> None)"

section \<open>Reading what was printed\<close>

fun val_of :: "json \<Rightarrow> jval" where
  "val_of (JStr s) = VStr s"
| "val_of (JInt i) = VNum (int_str i)"
| "val_of (JBool b) = VBool b"
| "val_of JNull = VNull"
| "val_of (JArr vs) = VArr (map val_of vs)"
| "val_of (JObj fs) = VObj (map (\<lambda>(k, v). (k, val_of v)) fs)"

fun utf8_ok :: "json \<Rightarrow> bool" where
  "utf8_ok (JStr s) = valid_utf8 s"
| "utf8_ok (JArr vs) = list_all utf8_ok vs"
| "utf8_ok (JObj fs) = list_all (\<lambda>kv. valid_utf8 (fst kv) \<and> utf8_ok (snd kv)) fs"
| "utf8_ok _ = True"

text \<open>What may follow a number so that its literal ends there.\<close>

definition num_stop :: "string \<Rightarrow> bool" where
  "num_stop r \<longleftrightarrow> stops r \<and> (r \<noteq> [] \<longrightarrow> hd r \<notin> set ''.eE'')"

lemma num_stop_rest [simp]: "num_stop (json_rest vs @ r)" "num_stop (json_frest fs @ r)" "num_stop []"
proof -
  show "num_stop (json_rest vs @ r)" by (cases vs) (simp_all add: num_stop_def)
  show "num_stop (json_frest fs @ r)" by (cases fs) (auto simp: num_stop_def)
  show "num_stop []" by (simp add: num_stop_def)
qed

lemma literal_nat: "num_stop r \<Longrightarrow> int_part (nat_str n @ r) = Some (nat_str n, r)"
proof (cases "n = 0")
  case True
  then show ?thesis using nat_str_zero by (simp add: int_part_def)
next
  case False
  moreover assume "num_stop r"
  moreover obtain c t where "nat_str n = c # t" using nat_str_hd by blast
  ultimately show ?thesis using nat_str_no_zero [of n] takeWhile_nat_str [of r n]
    by (simp add: int_part_def digits_of_def num_stop_def)
qed

lemma number_literal_int: "num_stop r \<Longrightarrow> number_literal (int_str i @ r) = Some (int_str i, r)"
proof -
  assume r: "num_stop r"
  then have ends: "frac_part r = Some ([], r)" "exp_part r = Some ([], r)"
    by (auto simp: num_stop_def frac_part_def exp_part_def)
  obtain c t where c: "nat_str (nat i) = c # t" "digit_char c" using nat_str_hd by blast
  then have "hd (nat_str (nat i) @ r) \<noteq> CHR ''-''" by auto
  then show ?thesis using literal_nat [OF r] ends
    by (cases "i < 0") (simp_all add: number_literal_def int_str_def Let_def)
qed

lemma json_enc_hd: "\<exists>c t. json_enc v = c # t \<and> \<not> json_ws c \<and> c \<noteq> CHR '']'' \<and> c \<noteq> CHR ''}''"
proof -
  obtain c t where c: "json_enc v = c # t" "first_kind c = json_kind v" using json_enc_first by blast
  have six: "first_kind (CHR 0x20) = 6" "first_kind (CHR 0x09) = 6" "first_kind (CHR 0x0A) = 6" "first_kind (CHR 0x0D) = 6"
    "first_kind (CHR '']'') = 6" "first_kind (CHR ''}'') = 6"
    by (simp_all add: first_kind_def digit_char_def)
  have "first_kind c \<noteq> 6" using c(2) json_kind_le [of v] by simp
  with six have "c \<noteq> CHR 0x20" "c \<noteq> CHR 0x09" "c \<noteq> CHR 0x0A" "c \<noteq> CHR 0x0D" "c \<noteq> CHR '']''" "c \<noteq> CHR ''}''"
    by metis+
  then show ?thesis using c(1) by (auto simp: json_ws_def)
qed

lemma p_value_int: "num_stop r \<Longrightarrow> p_value (Suc n) (int_str i @ r) = Some (VNum (int_str i), r)"
proof -
  assume r: "num_stop r"
  obtain c t where c: "int_str i = c # t" "first_kind c = 1" using int_str_first by blast
  have "\<not> json_ws c" "c \<noteq> CHR 0x22" "c \<noteq> CHR ''n''" using int_str_hd [of i] c(1) by auto
  moreover have "c \<noteq> CHR ''t''" "c \<noteq> CHR ''f''" "c \<noteq> CHR ''[''" "c \<noteq> CHR ''{''" using c(2) by (auto simp: first_kind_def split: if_splits)
  moreover have "number_literal (c # t @ r) = Some (c # t, r)" using number_literal_int [OF r, of i] c(1) by simp
  ultimately show ?thesis by (simp add: c(1) skip_ws_id has_prefix_def)
qed

lemma p_value_string: "valid_utf8 s \<Longrightarrow> p_value (Suc n) (json_string s @ r) = Some (VStr s, r)"
  using string_body_json [of s r] skip_ws_id [of "json_string s @ r"] by (simp add: json_string_def json_ws_def)

lemma expect_hd: "\<not> json_ws c \<Longrightarrow> expect d (c # r) = (if c = d then Some r else None)"
  by (simp add: expect_def skip_ws_def)

text \<open>One element, and the printed rest of an array.\<close>

definition reads :: "json \<Rightarrow> bool" where
  "reads v \<longleftrightarrow> (\<forall>n r. length (json_enc v) \<le> n \<longrightarrow> num_stop r \<longrightarrow> p_value n (json_enc v @ r) = Some (val_of v, r))"

definition reads_rest :: "json list \<Rightarrow> bool" where
  "reads_rest vs \<longleftrightarrow> (\<forall>n r. length (json_rest vs) \<le> Suc n \<longrightarrow> vs \<noteq> [] \<longrightarrow>
     p_elems n (tl (json_rest vs) @ r) = Some (map val_of vs, r))"

definition reads_frest :: "(string \<times> json) list \<Rightarrow> bool" where
  "reads_frest fs \<longleftrightarrow> (\<forall>n r. length (json_frest fs) \<le> Suc n \<longrightarrow> fs \<noteq> [] \<longrightarrow>
     p_fields n (tl (json_frest fs) @ r) = Some (map (\<lambda>(k, v). (k, val_of v)) fs, r))"

lemma reads_elems:
  assumes "reads v" "reads_rest vs" and n: "length (json_enc v @ json_rest vs) \<le> n"
  shows "p_elems n (json_enc v @ json_rest vs @ r) = Some (map val_of (v # vs), r)"
proof -
  obtain c t where c: "json_enc v = c # t" using json_enc_hd by blast
  obtain m where m: "n = Suc m" using n c by (cases n) auto
  have len: "length (json_rest vs) \<ge> 1" by (cases vs) auto
  have v: "p_value m (json_enc v @ json_rest vs @ r) = Some (val_of v, json_rest vs @ r)"
    using assms(1) n m len by (simp add: reads_def)
  show ?thesis
  proof (cases vs)
    case Nil
    then show ?thesis using v by (simp add: m expect_hd json_ws_def)
  next
    case (Cons u us)
    have "p_elems m (tl (json_rest vs) @ r) = Some (map val_of vs, r)"
      using assms(2) n m c Cons by (simp add: reads_rest_def)
    then show ?thesis using v Cons by (simp add: m expect_hd json_ws_def)
  qed
qed

lemma reads_fields:
  assumes "reads v" "reads_frest fs" "valid_utf8 k" and n: "length (json_string k @ CHR '':'' # json_enc v @ json_frest fs) \<le> n"
  shows "p_fields n (json_string k @ CHR '':'' # json_enc v @ json_frest fs @ r)
    = Some (map (\<lambda>(k, v). (k, val_of v)) ((k, v) # fs), r)"
proof -
  obtain m where m: "n = Suc m" using n by (cases n) auto
  have len: "length (json_frest fs) \<ge> 1" by (cases fs) auto
  have v: "p_value m (json_enc v @ json_frest fs @ r) = Some (val_of v, json_frest fs @ r)"
    using assms(1) n m len by (simp add: reads_def)
  have k: "expect (CHR 0x22) (json_string k @ q) = Some (concat (map json_char k) @ CHR 0x22 # q)" for q
    by (simp add: json_string_def json_ws_def)
  note body = string_body_json [OF assms(3)]
  show ?thesis
  proof (cases fs)
    case Nil
    then show ?thesis using v by (simp add: m k body expect_hd json_ws_def)
  next
    case (Cons f fs')
    then have h: "json_frest fs = CHR '','' # tl (json_frest fs)" by (cases f) simp
    have "p_fields m (tl (json_frest fs) @ r) = Some (map (\<lambda>(k, v). (k, val_of v)) fs, r)"
      using assms(2) n m Cons by (simp add: reads_frest_def)
    moreover have "expect (CHR '','') (json_frest fs @ r) = Some (tl (json_frest fs) @ r)"
      by (subst h) (simp add: expect_hd json_ws_def)
    ultimately show ?thesis using v by (simp add: m k body expect_hd json_ws_def)
  qed
qed

theorem reads_printed:
  shows "utf8_ok v \<Longrightarrow> reads v"
    and "list_all utf8_ok vs \<Longrightarrow> reads_rest vs"
    and "list_all (\<lambda>kv. valid_utf8 (fst kv) \<and> utf8_ok (snd kv)) fs \<Longrightarrow> reads_frest fs"
proof (induction v and vs and fs rule: json_enc_json_rest_json_frest.induct)
  case (1 s)
  show ?case unfolding reads_def
  proof (intro allI impI)
    fix n r assume "length (json_enc (JStr s)) \<le> n"
    then obtain m where "n = Suc m" by (cases n) (auto simp: json_string_def)
    then show "p_value n (json_enc (JStr s) @ r) = Some (val_of (JStr s), r)" using p_value_string 1 by simp
  qed
next
  case (2 i)
  show ?case unfolding reads_def
  proof (intro allI impI)
    fix n r assume "length (json_enc (JInt i)) \<le> n" "num_stop r"
    then obtain m where "n = Suc m" using int_str_hd [of i] by (cases n) auto
    then show "p_value n (json_enc (JInt i) @ r) = Some (val_of (JInt i), r)" using p_value_int \<open>num_stop r\<close> by simp
  qed
next
  case (3 b)
  show ?case unfolding reads_def
  proof (intro allI impI)
    fix n r assume "length (json_enc (JBool b)) \<le> n"
    then obtain m where "n = Suc m" by (cases n) (auto simp: bool_str_def split: if_splits)
    then show "p_value n (json_enc (JBool b) @ r) = Some (val_of (JBool b), r)"
      by (cases b) (simp_all add: bool_str_def skip_ws_def json_ws_def has_prefix_def)
  qed
next
  case 4
  show ?case unfolding reads_def
  proof (intro allI impI)
    fix n r assume "length (json_enc JNull) \<le> n"
    then obtain m where "n = Suc m" by (cases n) auto
    then show "p_value n (json_enc JNull @ r) = Some (val_of JNull, r)"
      by (simp add: skip_ws_def json_ws_def has_prefix_def)
  qed
next
  case 5
  show ?case unfolding reads_def
  proof (intro allI impI)
    fix n r assume "length (json_enc (JArr [])) \<le> n"
    then obtain m where "n = Suc m" by (cases n) auto
    then show "p_value n (json_enc (JArr []) @ r) = Some (val_of (JArr []), r)"
      by (simp add: skip_ws_def json_ws_def expect_def)
  qed
next
  case (6 v vs)
  show ?case unfolding reads_def
  proof (intro allI impI)
    fix n r assume n: "length (json_enc (JArr (v # vs))) \<le> n"
    then obtain m where m: "n = Suc m" by (cases n) auto
    obtain c t where c: "json_enc v = c # t" "\<not> json_ws c" "c \<noteq> CHR '']''" using json_enc_hd by blast
    have "p_elems m (json_enc v @ json_rest vs @ r) = Some (map val_of (v # vs), r)"
      using reads_elems 6 n m by simp
    then show "p_value n (json_enc (JArr (v # vs)) @ r) = Some (val_of (JArr (v # vs)), r)"
      using c by (simp add: m skip_ws_def json_ws_def expect_def)
  qed
next
  case 7
  show ?case unfolding reads_def
  proof (intro allI impI)
    fix n r assume "length (json_enc (JObj [])) \<le> n"
    then obtain m where "n = Suc m" by (cases n) auto
    then show "p_value n (json_enc (JObj []) @ r) = Some (val_of (JObj []), r)"
      by (simp add: skip_ws_def json_ws_def expect_def)
  qed
next
  case (8 k v fs)
  show ?case unfolding reads_def
  proof (intro allI impI)
    fix n r assume n: "length (json_enc (JObj ((k, v) # fs))) \<le> n"
    then obtain m where m: "n = Suc m" by (cases n) auto
    have "p_fields m (json_string k @ CHR '':'' # json_enc v @ json_frest fs @ r)
        = Some (map (\<lambda>(k, v). (k, val_of v)) ((k, v) # fs), r)"
      using reads_fields 8 n m by simp
    then show "p_value n (json_enc (JObj ((k, v) # fs)) @ r) = Some (val_of (JObj ((k, v) # fs)), r)"
      by (simp add: m skip_ws_def json_ws_def expect_def json_string_def)
  qed
next
  case (10 v vs)
  then have "reads v" "reads_rest vs" by simp_all
  then show ?case using reads_elems unfolding reads_rest_def [of "v # vs"] by simp
next
  case (12 k v fs)
  then have "reads v" "reads_frest fs" "valid_utf8 k" by simp_all
  then show ?case using reads_fields unfolding reads_frest_def [of "(k, v) # fs"] by simp
qed (simp_all add: reads_rest_def reads_frest_def)

text \<open>Reading a printed tree that is not nested too deep gives it back.\<close>

theorem json_parse_enc: "utf8_ok v \<Longrightarrow> depth (val_of v) \<le> 10000 \<Longrightarrow> json_parse (json_enc v) = Some (val_of v)"
proof -
  assume ok: "utf8_ok v" and deep: "depth (val_of v) \<le> 10000"
  have "p_value (Suc (length (json_enc v))) (json_enc v @ []) = Some (val_of v, [])"
    using reads_printed(1) [OF ok] unfolding reads_def by (meson le_SucI le_refl num_stop_rest(3))
  then have "p_value (Suc (length (json_enc v))) (json_enc v) = Some (val_of v, [])" unfolding append_Nil2 .
  then show ?thesis unfolding json_parse_def using deep by (simp add: skip_ws_def del: p_value.simps)
qed

section \<open>The bound on the steps of the reader\<close>

lemma skip_ws_shorter: "skip_ws s = c # r \<Longrightarrow> length r < length s"
  using length_dropWhile_le [of json_ws s] by (simp add: skip_ws_def)

lemma expect_shorter: "expect c s = Some r \<Longrightarrow> length r < length s"
  by (auto simp: expect_def dest: skip_ws_shorter split: list.splits if_splits)

lemma string_body_shorter: "string_body s = Some (t, r) \<Longrightarrow> length r < length s"
proof (induction s arbitrary: t rule: string_body.induct)
  case (1 s)
  show ?case
  proof (cases "s \<noteq> [] \<and> hd s = CHR 0x22")
    case True
    then show ?thesis using "1.prems" string_body.simps [of s] by (cases s) auto
  next
    case False
    then obtain u q v where q: "string_item s = Some (u, q)" "string_body q = Some (v, r)"
      using "1.prems" string_body.simps [of s] by (auto split: option.splits)
    then have "length r < length q" using "1.IH" [OF False q(1) refl] by blast
    then show ?thesis using string_item_shorter [OF q(1)] by simp
  qed
qed

lemma digits_nonempty: "digits_of s \<noteq> [] \<Longrightarrow> length (drop (length (digits_of s)) s) < length s"
  by (cases s) (auto simp: digits_of_def)

lemma int_part_shorter: "int_part s = Some (i, r) \<Longrightarrow> length r < length s"
  using digits_nonempty [of s] by (cases s) (auto simp: int_part_def Let_def split: if_splits)

lemma frac_part_no_longer: "frac_part s = Some (i, r) \<Longrightarrow> length r \<le> length s"
  by (cases s) (auto simp: frac_part_def Let_def split: if_splits)

lemma exp_part_no_longer: "exp_part s = Some (i, r) \<Longrightarrow> length r \<le> length s"
  by (cases s) (auto simp: exp_part_def Let_def split: if_splits)

lemma number_literal_shorter: "number_literal s = Some (l, r) \<Longrightarrow> length r < length s"
  by (fastforce simp: number_literal_def Let_def dest!: int_part_shorter frac_part_no_longer exp_part_no_longer
      split: option.splits if_splits)

text \<open>A reader needs no more steps than the bytes it reads.\<close>

definition steps_ok :: "(nat \<Rightarrow> string \<Rightarrow> ('a \<times> string) option) \<Rightarrow> string \<Rightarrow> 'a \<Rightarrow> string \<Rightarrow> bool" where
  "steps_ok p s v r \<longleftrightarrow> length r < length s \<and> (\<forall>k. length s \<le> length r + k \<longrightarrow> p k s = Some (v, r))"

lemma steps_okD: "steps_ok p s v r \<Longrightarrow> length s \<le> length r + k \<Longrightarrow> p k s = Some (v, r)"
  by (simp add: steps_ok_def)

lemma steps_ok_shorter: "steps_ok p s v r \<Longrightarrow> length r < length s"
  by (simp add: steps_ok_def)

lemma steps_okI:
  assumes "length r < length s" and "\<And>k. length s \<le> length r + Suc k \<Longrightarrow> p (Suc k) s = Some (v, r)"
  shows "steps_ok p s v r"
proof -
  have "p k s = Some (v, r)" if "length s \<le> length r + k" for k
    using assms that by (cases k) auto
  then show ?thesis using assms(1) by (simp add: steps_ok_def)
qed

lemma leaf_steps:
  assumes "skip_ws s = c # t" "c = CHR ''['' \<longrightarrow> expect (CHR '']'') t \<noteq> None" "c = CHR ''{'' \<longrightarrow> expect (CHR ''}'') t \<noteq> None"
    and "p_value (Suc n) s = Some (v, r)"
  shows "steps_ok p_value s v r"
proof (rule steps_okI)
  have "length t < length s" by (rule skip_ws_shorter [OF assms(1)])
  moreover have "length r < Suc (length t)" using assms
    by (auto split: if_splits option.splits dest: string_body_shorter expect_shorter number_literal_shorter)
  ultimately show "length r < length s" by simp
  show "p_value (Suc k) s = Some (v, r)" for k using assms by (auto split: if_splits)
qed

text \<open>A value that is read with any bound is read with the number of its bytes as bound.\<close>

lemma steps_enough:
  "p_value n s = Some (v, r) \<Longrightarrow> steps_ok p_value s v r"
  "p_elems n s = Some (vs, r) \<Longrightarrow> steps_ok p_elems s vs r"
  "p_fields n s = Some (fs, r) \<Longrightarrow> steps_ok p_fields s fs r"
proof (induction n s and n s and n s arbitrary: v r and vs r and fs r rule: p_value_p_elems_p_fields.induct)
  case (2 n s)
  obtain c t where t: "skip_ws s = c # t" using "2.prems" by (auto split: list.splits)
  have len: "length t < length s" by (rule skip_ws_shorter [OF t])
  consider (arr) "c = CHR ''[''" "expect (CHR '']'') t = None" | (obj) "c = CHR ''{''" "expect (CHR ''}'') t = None"
    | (leaf) "c = CHR ''['' \<longrightarrow> expect (CHR '']'') t \<noteq> None" "c = CHR ''{'' \<longrightarrow> expect (CHR ''}'') t \<noteq> None" by blast
  then show ?case
  proof cases
    case arr
    then obtain vs where vs: "v = VArr vs" "p_elems n t = Some (vs, r)" using "2.prems" t by auto
    have ih: "steps_ok p_elems t vs r" by (rule "2.IH"(1) [OF t _ arr vs(2)]) (simp add: arr)
    show ?thesis
    proof (rule steps_okI)
      show "length r < length s" using steps_ok_shorter [OF ih] len by simp
      show "p_value (Suc k) s = Some (v, r)" if "length s \<le> length r + Suc k" for k
        using arr t vs(1) steps_okD [OF ih, of k] that len by simp
    qed
  next
    case obj
    then obtain fs where fs: "v = VObj fs" "p_fields n t = Some (fs, r)" using "2.prems" t by auto
    have ih: "steps_ok p_fields t fs r" by (rule "2.IH"(2) [OF t _ _ obj fs(2)]) (simp_all add: obj)
    show ?thesis
    proof (rule steps_okI)
      show "length r < length s" using steps_ok_shorter [OF ih] len by simp
      show "p_value (Suc k) s = Some (v, r)" if "length s \<le> length r + Suc k" for k
        using obj t fs(1) steps_okD [OF ih, of k] that len by simp
    qed
  next
    case leaf
    then show ?thesis using leaf_steps t "2.prems" by blast
  qed
next
  case (4 n s)
  obtain w q where w: "p_value n s = Some (w, q)" using "4.prems" by (auto split: option.splits)
  have ihw: "steps_ok p_value s w q" by (rule "4.IH"(1) [OF w])
  show ?case
  proof (cases "expect (CHR '','') q")
    case None
    then have r: "vs = [w]" "expect (CHR '']'') q = Some r" using "4.prems" w by auto
    have less: "length r < length q" by (rule expect_shorter [OF r(2)])
    show ?thesis
    proof (rule steps_okI)
      show "length r < length s" using steps_ok_shorter [OF ihw] less by simp
      show "p_elems (Suc k) s = Some (vs, r)" if "length s \<le> length r + Suc k" for k
      proof -
        have "p_value k s = Some (w, q)" by (rule steps_okD [OF ihw]) (use that less in linarith)
        then show ?thesis using None r by simp
      qed
    qed
  next
    case (Some q')
    then obtain ws where r: "vs = w # ws" "p_elems n q' = Some (ws, r)" using "4.prems" w by auto
    have ih: "steps_ok p_elems q' ws r" by (rule "4.IH"(2) [OF w refl Some r(2)])
    have less: "length q' < length q" "length r < length q'" "length q < length s"
      using expect_shorter [OF Some] steps_ok_shorter [OF ih] steps_ok_shorter [OF ihw] by simp_all
    show ?thesis
    proof (rule steps_okI)
      show "length r < length s" using less by simp
      show "p_elems (Suc k) s = Some (vs, r)" if "length s \<le> length r + Suc k" for k
      proof -
        have "p_value k s = Some (w, q)" "p_elems k q' = Some (ws, r)"
          by (rule steps_okD [OF ihw] steps_okD [OF ih], use that less in linarith)+
        then show ?thesis using Some r(1) by simp
      qed
    qed
  qed
next
  case (6 n s)
  obtain a k b d w q where a: "expect (CHR 0x22) s = Some a" "string_body a = Some (k, b)" "expect (CHR '':'') b = Some d"
    "p_value n d = Some (w, q)" using "6.prems" by (auto split: option.splits)
  have ihw: "steps_ok p_value d w q" by (rule "6.IH"(1) [OF a(1,2) refl a(3,4)])
  have lens: "length a < length s" "length b < length a" "length d < length b" "length q < length d"
    using expect_shorter [OF a(1)] string_body_shorter [OF a(2)] expect_shorter [OF a(3)] steps_ok_shorter [OF ihw] by simp_all
  show ?case
  proof (cases "expect (CHR '','') q")
    case None
    then have r: "fs = [(k, w)]" "expect (CHR ''}'') q = Some r" using "6.prems" a by auto
    have less: "length r < length q" by (rule expect_shorter [OF r(2)])
    show ?thesis
    proof (rule steps_okI)
      show "length r < length s" using lens less by simp
      show "p_fields (Suc j) s = Some (fs, r)" if "length s \<le> length r + Suc j" for j
      proof -
        have "p_value j d = Some (w, q)" by (rule steps_okD [OF ihw]) (use that lens less in linarith)
        then show ?thesis using None r a(1-3) by simp
      qed
    qed
  next
    case (Some q')
    then obtain gs where r: "fs = (k, w) # gs" "p_fields n q' = Some (gs, r)" using "6.prems" a by auto
    have ih: "steps_ok p_fields q' gs r" by (rule "6.IH"(2) [OF a(1,2) refl a(3,4) refl Some r(2)])
    have less: "length q' < length q" "length r < length q'" using expect_shorter [OF Some] steps_ok_shorter [OF ih] by simp_all
    show ?thesis
    proof (rule steps_okI)
      show "length r < length s" using lens less by simp
      show "p_fields (Suc j) s = Some (fs, r)" if "length s \<le> length r + Suc j" for j
      proof -
        have "p_value j d = Some (w, q)" "p_fields j q' = Some (gs, r)"
          by (rule steps_okD [OF ihw] steps_okD [OF ih], use that lens less in linarith)+
        then show ?thesis using Some r(1) a(1-3) by simp
      qed
    qed
  qed
qed simp_all

text \<open>So the bound of \<open>json_parse\<close> is enough for every text: a larger one reads the same value or refuses as well.\<close>

theorem json_parse_bound: "length s \<le> n \<Longrightarrow> p_value n s = p_value (Suc (length s)) s"
proof -
  assume n: "length s \<le> n"
  have "p_value k s = Some (v, r)" if "length s \<le> k" "p_value j s = Some (v, r)" for j k v r
    using steps_okD [OF steps_enough(1) [OF that(2)], of k] that(1) by simp
  then have "p_value n s = Some x \<longleftrightarrow> p_value (Suc (length s)) s = Some x" for x
    using n by (metis le_SucI order_refl surj_pair)
  then show ?thesis by (metis not_Some_eq)
qed

end
