(* ===== verification/GoTime.thy ===== *)
theory GoTime
  imports GoUnmarshal
begin

text \<open>
  Reading the times that \<open>rfc3339_nano\<close> prints: \<^verbatim>\<open>Time.UnmarshalJSON\<close> on RFC 3339 texts, with the checks of its
  fields and the offset of the zone. The main fact is the round trip, which rests on the inverse of the calendar
  computation \<open>civil_date\<close>.
\<close>

section \<open>The calendar\<close>

definition leap_year :: "int \<Rightarrow> bool" where
  "leap_year y \<longleftrightarrow> y mod 4 = 0 \<and> (y mod 100 \<noteq> 0 \<or> y mod 400 = 0)"

definition days_in :: "int \<Rightarrow> int \<Rightarrow> int" where
  "days_in y m = (if m = 2 then (if leap_year y then 29 else 28) else if m \<in> {4, 6, 9, 11} then 30 else 31)"

definition days_of :: "int \<Rightarrow> int \<Rightarrow> int \<Rightarrow> int" where
  "days_of y m d =
     (let y = (if m \<le> 2 then y - 1 else y);
          mp = (if m \<le> 2 then m + 9 else m - 3);
          doy = (153 * mp + 2) div 5 + d - 1;
          yoe = y mod 400
      in y div 400 * 146097 + (365 * yoe + yoe div 4 - yoe div 100 + doy) - 306)"

text \<open>The first day of a year of an era, and the estimate whose quotient by 365 is the year of a day.\<close>

definition year_start :: "int \<Rightarrow> int" where "year_start y = 365 * y + y div 4 - y div 100"

definition year_guess :: "int \<Rightarrow> int" where
  "year_guess doe = doe - doe div 1460 + doe div 36524 - doe div 146096"

lemma div_succ: "1 < k \<Longrightarrow> (n + 1) div k = n div k + (if (n + 1) mod k = 0 then 1 else 0)" for n k :: int
proof -
  assume k: "1 < k"
  have n: "n + 1 = k * (n div k) + (n mod k + 1)" by simp
  have r: "0 \<le> n mod k" "n mod k < k" using k by simp_all
  show ?thesis
  proof (cases "n mod k + 1 = k")
    case True
    then have "n + 1 = k * (n div k + 1)" using n by (simp add: algebra_simps)
    then show ?thesis using k by simp
  next
    case False
    then have "(n + 1) div k = n div k" "(n + 1) mod k = n mod k + 1"
      using int_div_pos_eq [OF n] int_mod_pos_eq [OF n] r by simp_all
    then show ?thesis using r by simp
  qed
qed

lemma guess_step:
  "a' \<le> a + 1 \<Longrightarrow> b' = b + (if Q then 1 else 0) \<Longrightarrow> c' = c + (if R then 1 else 0) \<Longrightarrow> (R \<Longrightarrow> Q) \<Longrightarrow>
   n - a + b - c \<le> (n + 1) - a' + b' - c'" for n a b c :: int
  by (auto split: if_splits)

lemma year_guess_step: "year_guess n \<le> year_guess (n + 1)"
  unfolding year_guess_def
proof (rule guess_step)
  show "(n + 1) div 1460 \<le> n div 1460 + 1" unfolding div_succ [of 1460 n, simplified] by (rule add_left_mono) simp
  show "(n + 1) div 36524 = n div 36524 + (if (n + 1) mod 36524 = 0 then 1 else 0)" by (rule div_succ) simp
  show "(n + 1) div 146096 = n div 146096 + (if (n + 1) mod 146096 = 0 then 1 else 0)" by (rule div_succ) simp
  assume "(n + 1) mod 146096 = 0"
  then have "146096 dvd n + 1" by (rule mod_0_imp_dvd)
  moreover have "(36524 :: int) dvd 146096" by simp
  ultimately have "36524 dvd n + 1" by (rule dvd_trans [rotated])
  then show "(n + 1) mod 36524 = 0" by (rule dvd_imp_mod_0)
qed

lemma year_guess_mono: "a \<le> b \<Longrightarrow> year_guess a \<le> year_guess b"
proof (induction b rule: int_ge_induct)
  case (step b)
  then show ?case using year_guess_step [of b] by simp
qed simp

lemma year_table:
  "list_all (\<lambda>y. 365 * y \<le> year_guess (year_start y) \<and> year_guess (year_start (y + 1) - 1) < 365 * (y + 1)
     \<and> (year_start (y + 1) = year_start y + 365 \<or> year_start (y + 1) = year_start y + 366 \<and> leap_year (y + 1))) [0..399]"
  by code_simp

lemma year_facts:
  assumes "0 \<le> y" "y < 400"
  shows "365 * y \<le> year_guess (year_start y)" "year_guess (year_start (y + 1) - 1) < 365 * (y + 1)"
    "year_start (y + 1) = year_start y + 365 \<or> year_start (y + 1) = year_start y + 366 \<and> leap_year (y + 1)"
proof -
  have "y \<in> set [0..399]" using assms by simp
  from year_table [unfolded list_all_iff, rule_format, OF this]
  show "365 * y \<le> year_guess (year_start y)" "year_guess (year_start (y + 1) - 1) < 365 * (y + 1)"
    "year_start (y + 1) = year_start y + 365 \<or> year_start (y + 1) = year_start y + 366 \<and> leap_year (y + 1)"
    by blast+
qed

lemma year_found:
  assumes "0 \<le> doe" "doe < 146096"
  shows "\<exists>y. 0 \<le> y \<and> y < 400 \<and> year_start y \<le> doe \<and> doe < year_start (y + 1)"
proof -
  let ?P = "\<lambda>n::nat. doe < year_start (int n)"
  have "?P 400" using assms(2) by (simp add: year_start_def)
  define n where "n = (LEAST n. ?P n)"
  have n: "?P n" "n \<le> 400" unfolding n_def using LeastI [of ?P 400] Least_le [of ?P 400] \<open>?P 400\<close> by simp_all
  have "n \<noteq> 0" using n(1) assms(1) by (auto simp: year_start_def)
  then obtain m where m: "n = Suc m" by (cases n) auto
  then have "\<not> ?P m" using not_less_Least [of m ?P] by (simp add: n_def)
  then show ?thesis using n m by (intro exI [of _ "int m"]) (simp add: add.commute)
qed

lemma year_of_day:
  assumes "0 \<le> doe" "doe < 146097" and y: "y = year_guess doe div 365" and doy: "doy = doe - year_start y"
  shows "0 \<le> y \<and> y < 400 \<and> 0 \<le> doy \<and> doy \<le> 365 \<and> (doy = 365 \<longrightarrow> leap_year (y + 1))"
proof (cases "doe = 146096")
  case True
  then have "y = 399" using y by (simp add: year_guess_def)
  then show ?thesis using doy True by (simp add: year_start_def leap_year_def)
next
  case False
  then obtain a where a: "0 \<le> a" "a < 400" "year_start a \<le> doe" "doe < year_start (a + 1)"
    using year_found assms(1,2) by force
  note f = year_facts [OF a(1,2)]
  have "year_guess (year_start a) \<le> year_guess doe" "year_guess doe \<le> year_guess (year_start (a + 1) - 1)"
    using a(3,4) by (simp_all add: year_guess_mono)
  then have "365 * a \<le> year_guess doe" "year_guess doe < 365 * (a + 1)" using f(1,2) by simp_all
  then have "y = a" using int_div_pos_eq [of "year_guess doe" 365 a "year_guess doe - 365 * a"] y by simp
  then show ?thesis using doy a f(3) by auto
qed

definition month_day :: "int \<Rightarrow> int \<times> int" where
  "month_day doy = (let mp = (5 * doy + 2) div 153 in
     (if mp < 10 then mp + 3 else mp - 9, doy - (153 * mp + 2) div 5 + 1))"

lemma month_table:
  "list_all (\<lambda>doy. case month_day doy of (m, d) \<Rightarrow>
     1 \<le> m \<and> m \<le> 12 \<and> 1 \<le> d \<and> d \<le> (if m = 2 then 29 else days_in 1 m) \<and> (m = 2 \<and> d = 29 \<longrightarrow> doy = 365)
     \<and> (153 * (if m \<le> 2 then m + 9 else m - 3) + 2) div 5 + d - 1 = doy) [0..365]"
  by code_simp

lemma month_facts:
  assumes "0 \<le> doy" "doy \<le> 365" "month_day doy = (m, d)"
  shows "1 \<le> m" "m \<le> 12" "1 \<le> d" "d \<le> (if m = 2 then 29 else days_in 1 m)" "m = 2 \<and> d = 29 \<longrightarrow> doy = 365"
    "(153 * (if m \<le> 2 then m + 9 else m - 3) + 2) div 5 + d - 1 = doy"
proof -
  have "doy \<in> set [0..365]" using assms by simp
  from month_table [unfolded list_all_iff, rule_format, OF this] assms(3)
  show "1 \<le> m" "m \<le> 12" "1 \<le> d" "d \<le> (if m = 2 then 29 else days_in 1 m)" "m = 2 \<and> d = 29 \<longrightarrow> doy = 365"
    "(153 * (if m \<le> 2 then m + 9 else m - 3) + 2) div 5 + d - 1 = doy"
    by simp_all
qed

lemma leap_year_era: "leap_year (y + era * 400) \<longleftrightarrow> leap_year y"
proof -
  have "(y + era * 400) mod 4 = y mod 4" using mod_mult_self1 [of y "era * 100" 4] by (simp add: algebra_simps)
  moreover have "(y + era * 400) mod 100 = y mod 100" using mod_mult_self1 [of y "era * 4" 100] by (simp add: algebra_simps)
  moreover have "(y + era * 400) mod 400 = y mod 400" by simp
  ultimately show ?thesis by (simp only: leap_year_def)
qed

text \<open>The date of a day is a date of the calendar, and the day of that date is the day.\<close>

theorem civil_date_days_of:
  assumes "civil_date n = (y, m, d)"
  shows "days_of y m d = n \<and> 1 \<le> m \<and> m \<le> 12 \<and> 1 \<le> d \<and> d \<le> days_in y m"
proof -
  define era doe where "era = (n + 306) div 146097" and "doe = (n + 306) mod 146097"
  define yoe where "yoe = year_guess doe div 365"
  define doy where "doy = doe - year_start yoe"
  obtain m' d' where md: "month_day doy = (m', d')" by (cases "month_day doy")
  have n: "n = era * 146097 + doe - 306" unfolding era_def doe_def by simp
  have date: "y = (if m' \<le> 2 then yoe + era * 400 + 1 else yoe + era * 400)" "m = m'" "d = d'"
    using assms md unfolding civil_date_def Let_def month_day_def era_def [symmetric] doe_def [symmetric]
      year_guess_def [symmetric] yoe_def [symmetric] year_start_def [symmetric] doy_def [symmetric]
    by simp_all
  have b: "0 \<le> doe" "doe < 146097" unfolding doe_def by simp_all
  have ye: "0 \<le> yoe" "yoe < 400" "0 \<le> doy" "doy \<le> 365" "doy = 365 \<longrightarrow> leap_year (yoe + 1)"
    using year_of_day [OF b yoe_def doy_def] by blast+
  note mf = month_facts [OF ye(3,4) md]
  let ?y = "if m \<le> 2 then y - 1 else y"
  have y': "?y = yoe + era * 400" using date by simp
  then have q: "?y div 400 = era" "?y mod 400 = yoe" using ye(1,2) by simp_all
  have "days_of y m d = era * 146097 + (year_start yoe + ((153 * (if m \<le> 2 then m + 9 else m - 3) + 2) div 5 + d - 1)) - 306"
    unfolding days_of_def Let_def q year_start_def by simp
  then have "days_of y m d = n" using n doy_def unfolding mf(6) [folded date(2,3)] by simp
  moreover have "d \<le> days_in y m"
  proof (cases "m = 2")
    case True
    have "leap_year y" if "d = 29"
    proof -
      have "leap_year (yoe + 1 + era * 400)" using that True date mf(5) ye(5) leap_year_era by simp
      then show ?thesis using True date by (simp add: algebra_simps)
    qed
    then show ?thesis using mf(4) True date by (force simp: days_in_def)
  next
    case False
    then show ?thesis using mf(4) date by (simp add: days_in_def)
  qed
  ultimately show ?thesis using mf date by simp
qed

section \<open>RFC 3339\<close>

text \<open>A time with the offset of its zone in minutes.\<close>

type_synonym zoned = "gotime \<times> int"

definition zone_str :: "int \<Rightarrow> string" where
  "zone_str z = (if z = 0 then ''Z''
     else (if z < 0 then ''-'' else ''+'') @ pad_int 2 (abs z div 60) @ '':'' @ pad_int 2 (abs z mod 60))"

definition rfc3339_zoned :: "zoned \<Rightarrow> string" where
  "rfc3339_zoned tz = (case tz of (t, z) \<Rightarrow> clock_str (t + z * minute) @ frac_str (t mod second) @ zone_str z)"

definition num_field :: "nat \<Rightarrow> int \<Rightarrow> int \<Rightarrow> string \<Rightarrow> (int \<times> string) option" where
  "num_field w lo hi s =
     (let ds = take w s; n = int (digits_val ds) in
      if length ds = w \<and> list_all digit_char ds \<and> lo \<le> n \<and> n \<le> hi then Some (n, drop w s) else None)"

definition lit :: "char \<Rightarrow> string \<Rightarrow> string option" where
  "lit c s = (case s of [] \<Rightarrow> None | x # r \<Rightarrow> if x = c then Some r else None)"

definition nanos :: "string \<Rightarrow> int" where
  "nanos ds = int (digits_val (take 9 ds)) * 10 ^ (9 - length (take 9 ds))"

definition parse_frac :: "string \<Rightarrow> int \<times> string" where
  "parse_frac s =
     (if s \<noteq> [] \<and> hd s = CHR ''.'' \<and> digits_of (tl s) \<noteq> []
      then (nanos (digits_of (tl s)), drop (length (digits_of (tl s))) (tl s)) else (0, s))"

definition parse_zone :: "string \<Rightarrow> int option" where
  "parse_zone s =
     (if s = ''Z'' then Some 0
      else if length s = 6 \<and> (hd s = CHR ''+'' \<or> hd s = CHR ''-'') then
        Option.bind (num_field 2 0 23 (tl s)) (\<lambda>(h, s').
        Option.bind (lit (CHR '':'') s') (\<lambda>s'.
        map_option (\<lambda>(m, _). (if hd s = CHR ''-'' then - 1 else 1) * (60 * h + m)) (num_field 2 0 59 s')))
      else None)"

definition parse_rfc3339 :: "string \<Rightarrow> zoned option" where
  "parse_rfc3339 s =
     Option.bind (num_field 4 0 9999 s) (\<lambda>(y, s). Option.bind (lit (CHR ''-'') s) (\<lambda>s.
     Option.bind (num_field 2 1 12 s) (\<lambda>(m, s). Option.bind (lit (CHR ''-'') s) (\<lambda>s.
     Option.bind (num_field 2 1 (days_in y m) s) (\<lambda>(d, s). Option.bind (lit (CHR ''T'') s) (\<lambda>s.
     Option.bind (num_field 2 0 23 s) (\<lambda>(h, s). Option.bind (lit (CHR '':'') s) (\<lambda>s.
     Option.bind (num_field 2 0 59 s) (\<lambda>(i, s). Option.bind (lit (CHR '':'') s) (\<lambda>s.
     Option.bind (num_field 2 0 59 s) (\<lambda>(sec, s).
       (case parse_frac s of (ns, s) \<Rightarrow>
        map_option (\<lambda>z. (((days_of y m d * 86400 + h * 3600 + i * 60 + sec) * second + ns) - z * minute, z))
          (parse_zone s)))))))))))))"

definition put_time :: "(zoned \<Rightarrow> 'a \<Rightarrow> 'a) \<Rightarrow> jval \<Rightarrow> 'a \<Rightarrow> 'a option" where
  "put_time f v x =
     (case v of VStr s \<Rightarrow> map_option (\<lambda>t. f t x) (parse_rfc3339 s) | VNull \<Rightarrow> Some x | _ \<Rightarrow> None)"

section \<open>The round trip\<close>

lemma digits_val_zeros [simp]: "digits_val (replicate k (CHR ''0'') @ s) = digits_val s"
  by (induction k) (simp_all add: digits_val_def)

lemma digits_val_append: "digits_val (a @ b) = digits_val a * 10 ^ length b + digits_val b"
proof (induction b rule: rev_induct)
  case (snoc c b)
  have "digits_val (s @ [c]) = digits_val s * 10 + (of_char c - 48)" for s by (simp add: digits_val_def)
  from this [of "a @ b"] this [of b] snoc show ?case by (simp add: algebra_simps)
qed (simp add: digits_val_def)

lemma length_nat_str: "n < 10 ^ w \<Longrightarrow> 0 < w \<Longrightarrow> length (nat_str n) \<le> w"
proof (induction n arbitrary: w rule: nat_str.induct)
  case (1 n)
  show ?case
  proof (cases "n < 10")
    case True
    with 1(3) show ?thesis by (subst nat_str.simps) simp
  next
    case False
    obtain v where v: "w = Suc v" using 1(3) by (cases w) auto
    have "0 < v" using False 1(2) v by (cases v) auto
    moreover have "n div 10 < 10 ^ v" using 1(2) v by simp
    ultimately show ?thesis using 1(1) [OF False, of v] False v by (subst nat_str.simps) simp
  qed
qed

lemma pad_int_facts:
  assumes "0 \<le> i" "i < 10 ^ w" "0 < w"
  shows "length (pad_int w i) = w" "list_all digit_char (pad_int w i)" "digits_val (pad_int w i) = nat i"
proof -
  have "nat i < 10 ^ w" using assms by (simp add: nat_less_iff)
  then have "length (nat_str (nat i)) \<le> w" using length_nat_str assms(3) by blast
  then show "length (pad_int w i) = w" by (simp add: pad_int_def Let_def)
  show "list_all digit_char (pad_int w i)"
    using nat_str_digits [of "nat i"] by (auto simp: pad_int_def Let_def list_all_iff digit_char_def)
  show "digits_val (pad_int w i) = nat i" by (simp add: pad_int_def Let_def)
qed

lemma num_field_pad:
  "0 \<le> i \<Longrightarrow> i < 10 ^ w \<Longrightarrow> 0 < w \<Longrightarrow> lo \<le> i \<Longrightarrow> i \<le> hi \<Longrightarrow> num_field w lo hi (pad_int w i @ r) = Some (i, r)"
  using pad_int_facts [of i w] by (simp add: num_field_def Let_def)

lemma lit_hit [simp]: "lit c (c # r) = Some r"
  by (simp add: lit_def)

lemma strip_zeros: "\<exists>k. s = rev (dropWhile (\<lambda>c. c = CHR ''0'') (rev s)) @ replicate k (CHR ''0'')"
proof -
  have "rev s = takeWhile (\<lambda>c. c = CHR ''0'') (rev s) @ dropWhile (\<lambda>c. c = CHR ''0'') (rev s)" by simp
  moreover have "takeWhile (\<lambda>c. c = CHR ''0'') (rev s) = replicate (length (takeWhile (\<lambda>c. c = CHR ''0'') (rev s))) (CHR ''0'')"
    by (rule replicate_length_same [symmetric]) (auto dest: set_takeWhileD)
  ultimately show ?thesis by (metis rev_append rev_replicate rev_rev_ident)
qed

lemma parse_frac_str:
  assumes "0 \<le> ns" "ns < second" "stops r" "r = [] \<or> hd r \<noteq> CHR ''.''"
  shows "parse_frac (frac_str ns @ r) = (ns, r)"
proof (cases "ns = 0")
  case True
  then show ?thesis using assms(4) by (auto simp: frac_str_def parse_frac_def)
next
  case False
  define ds where "ds = rev (dropWhile (\<lambda>c. c = CHR ''0'') (rev (pad_int 9 ns)))"
  have p: "length (pad_int 9 ns) = 9" "list_all digit_char (pad_int 9 ns)" "digits_val (pad_int 9 ns) = nat ns"
    using pad_int_facts [of ns 9] assms(1,2) by (simp_all add: second_def)
  obtain k where k: "pad_int 9 ns = ds @ replicate k (CHR ''0'')" using strip_zeros unfolding ds_def by blast
  have len: "length ds + k = 9" using p(1) k by simp
  have val: "digits_val ds * 10 ^ k = nat ns"
    using p(3) k digits_val_append [of ds "replicate k (CHR ''0'')"] digits_val_zeros [of k "[]"] by (simp add: digits_val_def)
  have dig: "list_all digit_char ds" using p(2) k by simp
  have ne: "ds \<noteq> []" using val False assms(1) by (auto simp: digits_val_def)
  have "takeWhile digit_char (ds @ r) = ds" using dig assms(3) by (cases r) (auto simp: list_all_iff takeWhile_append2)
  then have d: "digits_of (ds @ r) = ds" by (simp add: digits_of_def)
  have "take 9 ds = ds" "9 - length ds = k" using len by simp_all
  then have "nanos ds = int (digits_val ds) * 10 ^ k" by (simp add: nanos_def)
  also have "\<dots> = int (digits_val ds * 10 ^ k)" by simp
  also have "\<dots> = ns" unfolding val using assms(1) by simp
  finally show ?thesis using False ne d by (simp add: frac_str_def parse_frac_def flip: ds_def)
qed

text \<open>The times whose year has four digits.\<close>

definition printable :: "gotime \<Rightarrow> bool" where
  "printable t \<longleftrightarrow> 0 \<le> fst (civil_date (t div (24 * hour))) \<and> fst (civil_date (t div (24 * hour))) \<le> 9999"

lemma parse_fields:
  assumes "0 \<le> y" "y \<le> 9999" "1 \<le> m" "m \<le> 12" "1 \<le> d" "d \<le> days_in y m" "0 \<le> h" "h \<le> 23" "0 \<le> i" "i \<le> 59"
    "0 \<le> c" "c \<le> 59" and frac: "parse_frac q = (ns, q')" and zone: "parse_zone q' = Some z"
  shows "parse_rfc3339 (pad_int 4 y @ ''-'' @ pad_int 2 m @ ''-'' @ pad_int 2 d @ ''T'' @ pad_int 2 h @ '':'' @ pad_int 2 i
      @ '':'' @ pad_int 2 c @ q)
    = Some ((days_of y m d * 86400 + h * 3600 + i * 60 + c) * second + ns - z * minute, z)"
proof -
  have "days_in y m \<le> 31" by (simp add: days_in_def)
  then have "d < 10 ^ 2" using assms(6) by simp
  then show ?thesis using assms(1-12) by (simp add: parse_rfc3339_def num_field_pad frac zone)
qed

theorem parse_rfc3339_nano: "printable t \<Longrightarrow> parse_rfc3339 (rfc3339_nano t) = Some (t, 0)"
proof -
  assume ok: "printable t"
  obtain y m d where date: "civil_date (t div (24 * hour)) = (y, m, d)" by (cases "civil_date (t div (24 * hour))")
  define s where "s = t div second mod 86400"
  have y: "0 \<le> y" "y \<le> 9999" using ok date by (simp_all add: printable_def)
  have dt: "days_of y m d = t div (24 * hour)" "1 \<le> m" "m \<le> 12" "1 \<le> d" "d \<le> days_in y m"
    using civil_date_days_of [OF date] by blast+
  have s: "0 \<le> s" "s < 86400" unfolding s_def by simp_all
  then have hms: "0 \<le> s div 3600" "s div 3600 \<le> 23" "0 \<le> s div 60 mod 60" "s div 60 mod 60 \<le> 59" "0 \<le> s mod 60" "s mod 60 \<le> 59"
    by (auto intro: order_trans [OF zdiv_mono1 [of s 86399 3600]])
  have pos: "0 < second" by (simp add: second_def)
  have frac: "parse_frac (frac_str (t mod second) @ ''Z'') = (t mod second, ''Z'')"
    by (rule parse_frac_str) (use pos in \<open>simp_all add: second_def digit_char_def\<close>)
  have day: "t div (24 * hour) * 86400 + s = t div second"
  proof -
    have "24 * hour = second * 86400" by (simp add: hour_def minute_def)
    then have "t div (24 * hour) = t div second div 86400" unfolding \<open>24 * hour = second * 86400\<close> by (simp add: zdiv_zmult2_eq)
    then show ?thesis unfolding s_def by simp
  qed
  have "s div 3600 * 3600 + s div 60 mod 60 * 60 + s mod 60 = s"
  proof -
    have "s div 3600 = s div 60 div 60" using zdiv_zmult2_eq [of 60 s 60] by simp
    then have "s div 3600 * 60 + s div 60 mod 60 = s div 60" by simp
    then show ?thesis using div_mult_mod_eq [of s 60] by linarith
  qed
  then have sum: "(t div (24 * hour) * 86400 + s div 3600 * 3600 + s div 60 mod 60 * 60 + s mod 60) * second + t mod second = t"
    using day div_mult_mod_eq [of t second] by (simp add: add.assoc)
  have zone: "parse_zone ''Z'' = Some 0" by (simp add: parse_zone_def)
  show ?thesis
    unfolding rfc3339_nano_def clock_str_def date Let_def prod.case s_def [symmetric] append_assoc
    unfolding parse_fields [OF y dt(2-5) hms frac zone] dt(1) sum by simp
qed

end
