(* ===== verification/GatewayAudit.thy ===== *)
theory GatewayAudit
  imports GoTime
begin

text \<open>
  \<^verbatim>\<open>internal/agentgateway/audit.go\<close>: the log of the gateway in front of the agent. A record carries its number, the
  hash of the previous record and an HMAC of its own text; the file holds one record per line. The file is its bytes,
  and the outcome of a write (complete, cut short, not synced) is an argument. A log that was only written by
  complete appends opens again in the state it was left in; two logs that open with the same last hash hold the same
  records unless the HMAC collides. What a failed sync leaves behind does not open any more.
\<close>

section \<open>Records\<close>

record audit_record =
  ar_Sequence :: "64 word"
  ar_Timestamp :: zoned
  ar_Operation :: string
  ar_ChangeID :: string
  ar_PrincipalHash :: string
  ar_RequestSHA256 :: string
  ar_HTTPStatus :: int
  ar_Outcome :: string
  ar_DurationMS :: int
  ar_TraceID :: string
  ar_Provider :: string
  ar_Model :: string
  ar_Risk :: string
  ar_ToolCalls :: int
  ar_InjectionSuspected :: bool
  ar_PrevHash :: string
  ar_Hash :: string

definition zero_record :: audit_record where
  "zero_record = \<lparr> ar_Sequence = 0, ar_Timestamp = (0, 0), ar_Operation = [], ar_ChangeID = [], ar_PrincipalHash = [],
     ar_RequestSHA256 = [], ar_HTTPStatus = 0, ar_Outcome = [], ar_DurationMS = 0, ar_TraceID = [], ar_Provider = [],
     ar_Model = [], ar_Risk = [], ar_ToolCalls = 0, ar_InjectionSuspected = False, ar_PrevHash = [], ar_Hash = [] \<rparr>"

definition omit_false :: "string \<Rightarrow> bool \<Rightarrow> (string \<times> json) list" where
  "omit_false k b = (if b then [(k, JBool True)] else [])"

definition record_json :: "audit_record \<Rightarrow> json" where
  "record_json r = JObj (
     [(''sequence'', JInt (uint (ar_Sequence r))), (''timestamp'', JStr (rfc3339_zoned (ar_Timestamp r))),
      (''operation'', JStr (ar_Operation r))]
     @ omit_empty ''change_id'' (ar_ChangeID r) @ omit_empty ''principal_hash'' (ar_PrincipalHash r)
     @ omit_empty ''request_sha256'' (ar_RequestSHA256 r)
     @ [(''http_status'', JInt (ar_HTTPStatus r)), (''outcome'', JStr (ar_Outcome r)), (''duration_ms'', JInt (ar_DurationMS r))]
     @ omit_empty ''trace_id'' (ar_TraceID r) @ omit_empty ''provider'' (ar_Provider r) @ omit_empty ''model'' (ar_Model r)
     @ omit_empty ''risk'' (ar_Risk r) @ omit_zero ''tool_calls'' (ar_ToolCalls r)
     @ omit_false ''injection_suspected'' (ar_InjectionSuspected r) @ omit_empty ''prev_hash'' (ar_PrevHash r)
     @ [(''hash'', JStr (ar_Hash r))])"

definition record_setters :: "audit_record setters" where
  "record_setters =
     [(''sequence'', put_uint64 (\<lambda>v. ar_Sequence_update (\<lambda>_. v))),
      (''timestamp'', put_time (\<lambda>v. ar_Timestamp_update (\<lambda>_. v))),
      (''operation'', put_string (\<lambda>v. ar_Operation_update (\<lambda>_. v))),
      (''change_id'', put_string (\<lambda>v. ar_ChangeID_update (\<lambda>_. v))),
      (''principal_hash'', put_string (\<lambda>v. ar_PrincipalHash_update (\<lambda>_. v))),
      (''request_sha256'', put_string (\<lambda>v. ar_RequestSHA256_update (\<lambda>_. v))),
      (''http_status'', put_int64 (\<lambda>v. ar_HTTPStatus_update (\<lambda>_. v))),
      (''outcome'', put_string (\<lambda>v. ar_Outcome_update (\<lambda>_. v))),
      (''duration_ms'', put_int64 (\<lambda>v. ar_DurationMS_update (\<lambda>_. v))),
      (''trace_id'', put_string (\<lambda>v. ar_TraceID_update (\<lambda>_. v))),
      (''provider'', put_string (\<lambda>v. ar_Provider_update (\<lambda>_. v))),
      (''model'', put_string (\<lambda>v. ar_Model_update (\<lambda>_. v))),
      (''risk'', put_string (\<lambda>v. ar_Risk_update (\<lambda>_. v))),
      (''tool_calls'', put_int64 (\<lambda>v. ar_ToolCalls_update (\<lambda>_. v))),
      (''injection_suspected'', put_bool (\<lambda>v. ar_InjectionSuspected_update (\<lambda>_. v))),
      (''prev_hash'', put_string (\<lambda>v. ar_PrevHash_update (\<lambda>_. v))),
      (''hash'', put_string (\<lambda>v. ar_Hash_update (\<lambda>_. v)))]"

definition decode_record :: "string \<Rightarrow> audit_record option" where
  "decode_record s = Option.bind (json_parse s) (decode_struct record_setters zero_record)"

definition record_payload :: "audit_record \<Rightarrow> string" where
  "record_payload r = json_enc (record_json (r\<lparr> ar_Hash := [] \<rparr>))"

definition sign_record :: "string \<Rightarrow> audit_record \<Rightarrow> string" where
  "sign_record key r = hex_encode (hmac_sha256 key (record_payload r))"

section \<open>The log\<close>

datatype gateway_error =
    ShortKey | OpenFailed | InvalidJSON nat | WrongSequence nat | WrongPrevious nat | WrongMAC nat | LineTooLong
  | BrokenChain nat | LogClosed | WriteError | SyncError | ReadError

record audit_log =
  al_open :: bool
  al_key :: string
  al_sequence :: "64 word"
  al_prevHash :: string
  al_verified :: bool

text \<open>The lines \<^verbatim>\<open>bufio.Scanner\<close> delivers with a buffer of 1 MiB, and whether it stopped at a longer one. A line loses a
  final carriage return; nothing follows the last line break.\<close>

definition max_line :: nat where "max_line = 1048576"

definition drop_cr :: "string \<Rightarrow> string" where
  "drop_cr l = (if l \<noteq> [] \<and> last l = CHR 0x0D then butlast l else l)"

definition raw_lines :: "string \<Rightarrow> string list" where
  "raw_lines s = (let ls = split_on (CHR 0x0A) s in if last ls = [] then butlast ls else ls)"

definition scan_lines :: "string \<Rightarrow> string list \<times> bool" where
  "scan_lines s =
     (let ls = raw_lines s; ok = takeWhile (\<lambda>l. length l < max_line) ls
      in (map drop_cr ok, length ok < length ls))"

primrec verify_lines :: "string \<Rightarrow> nat \<Rightarrow> 64 word \<Rightarrow> string \<Rightarrow> string list \<Rightarrow> gateway_error + (64 word \<times> string)" where
  "verify_lines key n expected previous [] = Inr (expected - 1, previous)"
| "verify_lines key n expected previous (l # ls) =
     (if trim_space l = [] then verify_lines key (Suc n) expected previous ls
      else case decode_record l of
             None \<Rightarrow> Inl (InvalidJSON (Suc n))
           | Some r \<Rightarrow>
               if ar_Sequence r \<noteq> expected then Inl (WrongSequence (Suc n))
               else if ar_PrevHash r \<noteq> previous then Inl (WrongPrevious (Suc n))
               else if ar_Hash r \<noteq> sign_record key r then Inl (WrongMAC (Suc n))
               else verify_lines key (Suc n) (expected + 1) (ar_Hash r) ls)"

definition verifyExisting :: "string \<Rightarrow> string \<Rightarrow> gateway_error + (64 word \<times> string)" where
  "verifyExisting key file =
     (case scan_lines file of
        (ls, long) \<Rightarrow>
          (case verify_lines key 0 1 [] ls of
             Inl e \<Rightarrow> Inl e
           | Inr r \<Rightarrow> if long then Inl LineTooLong else Inr r))"

text \<open>\<open>io\<close> says whether the directory and the file could be made, opened and secured.\<close>

definition OpenAuditLog :: "bool \<Rightarrow> string \<Rightarrow> string \<Rightarrow> gateway_error + audit_log" where
  "OpenAuditLog io key file =
     (if length key < 32 then Inl ShortKey
      else if \<not> io then Inl OpenFailed
      else case verifyExisting key file of
             Inl e \<Rightarrow> Inl e
           | Inr (n, h) \<Rightarrow> Inr \<lparr> al_open = True, al_key = key, al_sequence = n, al_prevHash = h, al_verified = True \<rparr>)"

datatype write_outcome = Written | WriteCut nat | SyncFailed

definition next_record :: "audit_log \<Rightarrow> gotime \<Rightarrow> audit_record \<Rightarrow> audit_record" where
  "next_record l tm r =
     (let r = r\<lparr> ar_Sequence := al_sequence l + 1,
                 ar_Timestamp := (if is_zero (fst (ar_Timestamp r)) then (tm, 0) else (fst (ar_Timestamp r), 0)),
                 ar_PrevHash := al_prevHash l \<rparr>
      in r\<lparr> ar_Hash := sign_record (al_key l) r \<rparr>)"

definition record_line :: "audit_record \<Rightarrow> string" where
  "record_line r = json_enc (record_json r) @ [CHR 0x0A]"

definition Append :: "gotime \<Rightarrow> write_outcome \<Rightarrow> audit_record \<Rightarrow> audit_log \<Rightarrow> string
    \<Rightarrow> (gateway_error + audit_record) \<times> audit_log \<times> string" where
  "Append tm out r l file =
     (if \<not> al_open l then (Inl LogClosed, l\<lparr> al_verified := False \<rparr>, file)
      else let r = next_record l tm r; line = record_line r in
        case out of
          WriteCut n \<Rightarrow> (Inl WriteError, l\<lparr> al_verified := False \<rparr>, file @ take n line)
        | SyncFailed \<Rightarrow> (Inl SyncError, l\<lparr> al_verified := False \<rparr>, file @ line)
        | Written \<Rightarrow> (Inr r, l\<lparr> al_sequence := ar_Sequence r, al_prevHash := ar_Hash r \<rparr>, file @ line))"

record audit_state =
  as_Verified :: bool
  as_Events :: "64 word"
  as_FileBytes :: nat
  as_LastHashPrefix :: string

text \<open>\<open>io\<close> says whether the size of the file could be read.\<close>

definition State_log :: "bool \<Rightarrow> audit_log \<Rightarrow> string \<Rightarrow> audit_state \<times> audit_log" where
  "State_log io l file =
     (let l = (if al_open l \<and> io then l else l\<lparr> al_verified := False \<rparr>)
      in (\<lparr> as_Verified = al_verified l, as_Events = al_sequence l,
            as_FileBytes = (if al_open l \<and> io then length file else 0), as_LastHashPrefix = take 16 (al_prevHash l) \<rparr>, l))"

definition Close_log :: "audit_log \<Rightarrow> audit_log" where
  "Close_log l = l\<lparr> al_open := False \<rparr>"

text \<open>The recent events, newest first, from the last 4 MiB of the file. Every line of that tail is checked again.\<close>

record gateway_event =
  ae_Sequence :: "64 word"
  ae_Timestamp :: zoned
  ae_Operation :: string
  ae_ChangeID :: string
  ae_HTTPStatus :: int
  ae_Outcome :: string
  ae_DurationMS :: int
  ae_TraceID :: string
  ae_Provider :: string
  ae_Model :: string
  ae_Risk :: string
  ae_ToolCalls :: int
  ae_InjectionSuspected :: bool

definition sanitize :: "audit_record \<Rightarrow> gateway_event" where
  "sanitize r = \<lparr> ae_Sequence = ar_Sequence r, ae_Timestamp = ar_Timestamp r, ae_Operation = ar_Operation r,
     ae_ChangeID = ar_ChangeID r, ae_HTTPStatus = ar_HTTPStatus r, ae_Outcome = ar_Outcome r, ae_DurationMS = ar_DurationMS r,
     ae_TraceID = ar_TraceID r, ae_Provider = ar_Provider r, ae_Model = ar_Model r, ae_Risk = ar_Risk r,
     ae_ToolCalls = ar_ToolCalls r, ae_InjectionSuspected = ar_InjectionSuspected r \<rparr>"

record events_page =
  ep_Events :: "gateway_event list"
  ep_Total :: "64 word"
  ep_Truncated :: bool
  ep_Verified :: bool

definition max_tail :: nat where "max_tail = 4194304"

primrec tail_records :: "string \<Rightarrow> nat \<Rightarrow> audit_record option \<Rightarrow> string list \<Rightarrow> gateway_error + audit_record list" where
  "tail_records key n prev [] = Inr []"
| "tail_records key n prev (l # ls) =
     (case decode_record l of
        None \<Rightarrow> Inl (InvalidJSON (Suc n))
      | Some r \<Rightarrow>
          if ar_Hash r \<noteq> sign_record key r then Inl (WrongMAC (Suc n))
          else if (case prev of None \<Rightarrow> False
                   | Some p \<Rightarrow> ar_Sequence r \<noteq> ar_Sequence p + 1 \<or> ar_PrevHash r \<noteq> ar_Hash p)
          then Inl (BrokenChain (Suc n))
          else case tail_records key (Suc n) (Some r) ls of Inl e \<Rightarrow> Inl e | Inr rs \<Rightarrow> Inr (r # rs))"

definition recent_limit :: "int \<Rightarrow> nat" where
  "recent_limit limit = (if limit < 1 then 20 else if limit > 100 then 100 else nat limit)"

definition recent_events :: "int \<Rightarrow> bool \<Rightarrow> audit_record list \<Rightarrow> gateway_event list" where
  "recent_events limit includeStarted rs =
     map sanitize (take (recent_limit limit)
       (filter (\<lambda>r. includeStarted \<or> \<not> has_suffix (ar_Operation r) ''_started'') (rev rs)))"

definition Recent :: "bool \<Rightarrow> int \<Rightarrow> bool \<Rightarrow> audit_log \<Rightarrow> string \<Rightarrow> (gateway_error + events_page) \<times> audit_log" where
  "Recent io limit includeStarted l file =
     (let bad = l\<lparr> al_verified := False \<rparr>;
          page = (\<lambda>evs cut. (Inr \<lparr> ep_Events = evs, ep_Total = al_sequence l, ep_Truncated = cut,
                                   ep_Verified = al_verified l \<rparr>, l)) in
      if \<not> al_open l then (Inl LogClosed, bad)
      else if \<not> io then (Inl ReadError, bad)
      else if file = [] then page [] False
      else let cut = (max_tail < length file); tail = drop (length file - max_tail) file in
        case (if cut then map_option (\<lambda>i. drop (Suc i) tail) (index_byte tail (CHR 0x0A)) else Some tail) of
          None \<Rightarrow> page [] True
        | Some content \<Rightarrow>
            let trimmed = trim_space content in
            if trimmed = [] then page [] cut
            else case tail_records (al_key l) 0 None (split_on (CHR 0x0A) trimmed) of
                   Inl e \<Rightarrow> (Inl e, bad)
                 | Inr rs \<Rightarrow> page (recent_events limit includeStarted rs) cut)"

section \<open>Records and their lines\<close>

text \<open>The fields of a printed record are read one after the other.\<close>

lemma set_members_string:
  "map_of fs (fold_name k) = Some (put_string f) \<Longrightarrow> set_members fs ((k, VStr s) # kvs) x = set_members fs kvs (f s x)"
  by (simp add: set_member_def put_string_def)

lemma set_members_omit:
  "map_of fs (fold_name k) = Some (put_string f) \<Longrightarrow> f [] x = x \<Longrightarrow>
   set_members fs (map (\<lambda>(k, v). (k, val_of v)) (omit_empty k s) @ kvs) x = set_members fs kvs (f s x)"
  by (cases "s = []") (simp_all add: omit_empty_def set_member_def put_string_def)

lemma literal_int_str: "lo \<le> i \<Longrightarrow> i \<le> hi \<Longrightarrow> literal_int lo hi (int_str i) = Some i"
proof -
  assume r: "lo \<le> i" "i \<le> hi"
  have "hd (nat_str n) \<noteq> CHR ''-''" for n using nat_str_hd [of n] by auto
  then show ?thesis using r nat_str_digits by (auto simp: literal_int_def int_str_def Let_def)
qed

definition int64 :: "int \<Rightarrow> bool" where
  "int64 i \<longleftrightarrow> - (2 ^ 63) \<le> i \<and> i \<le> 2 ^ 63 - 1"

lemma set_members_int64:
  "map_of fs (fold_name k) = Some (put_int64 f) \<Longrightarrow> int64 i \<Longrightarrow>
   set_members fs ((k, VNum (int_str i)) # kvs) x = set_members fs kvs (f i x)"
  by (simp add: set_member_def put_int64_def literal_int_str int64_def)

lemma set_members_omit_zero:
  "map_of fs (fold_name k) = Some (put_int64 f) \<Longrightarrow> int64 i \<Longrightarrow> f 0 x = x \<Longrightarrow>
   set_members fs (map (\<lambda>(k, v). (k, val_of v)) (omit_zero k i) @ kvs) x = set_members fs kvs (f i x)"
  by (cases "i = 0") (simp_all add: omit_zero_def set_member_def put_int64_def literal_int_str int64_def)

lemma set_members_uint64:
  "map_of fs (fold_name k) = Some (put_uint64 f) \<Longrightarrow>
   set_members fs ((k, VNum (int_str (uint w))) # kvs) x = set_members fs kvs (f w x)"
proof -
  assume k: "map_of fs (fold_name k) = Some (put_uint64 f)"
  have "uint w \<le> 2 ^ 64 - 1" using uint_lt2p [of w] by simp
  then have "literal_int 0 (2 ^ 64 - 1) (int_str (uint w)) = Some (uint w)" by (intro literal_int_str) simp_all
  moreover have "hd (int_str (uint w)) \<noteq> CHR ''-''" using nat_str_hd [of "nat (uint w)"] by (auto simp: int_str_def)
  ultimately show ?thesis using k by (simp add: set_member_def put_uint64_def)
qed

lemma set_members_time:
  "map_of fs (fold_name k) = Some (put_time f) \<Longrightarrow> parse_rfc3339 s = Some t \<Longrightarrow>
   set_members fs ((k, VStr s) # kvs) x = set_members fs kvs (f t x)"
  by (simp add: set_member_def put_time_def)

lemma set_members_omit_false:
  "map_of fs (fold_name k) = Some (put_bool f) \<Longrightarrow> f False x = x \<Longrightarrow>
   set_members fs (map (\<lambda>(k, v). (k, val_of v)) (omit_false k b) @ kvs) x = set_members fs kvs (f b x)"
  by (cases b) (simp_all add: omit_false_def set_member_def put_bool_def)

lemma record_names [simp]:
  "fold_name ''sequence'' = ''sequence''" "fold_name ''timestamp'' = ''timestamp''" "fold_name ''operation'' = ''operation''"
  "fold_name ''change_id'' = ''change_id''" "fold_name ''principal_hash'' = ''principal_hash''"
  "fold_name ''request_sha256'' = ''request_sha256''" "fold_name ''http_status'' = ''http_status''"
  "fold_name ''outcome'' = ''outcome''" "fold_name ''duration_ms'' = ''duration_ms''" "fold_name ''trace_id'' = ''trace_id''"
  "fold_name ''provider'' = ''provider''" "fold_name ''model'' = ''model''" "fold_name ''risk'' = ''risk''"
  "fold_name ''tool_calls'' = ''tool_calls''" "fold_name ''injection_suspected'' = ''injection_suspected''"
  "fold_name ''prev_hash'' = ''prev_hash''" "fold_name ''hash'' = ''hash''"
  by code_simp+

text \<open>The setter of each member, and from it how a printed member is read.\<close>

lemma record_setter:
  "map_of record_setters (fold_name ''sequence'') = Some (put_uint64 (\<lambda>v. ar_Sequence_update (\<lambda>_. v)))"
  "map_of record_setters (fold_name ''timestamp'') = Some (put_time (\<lambda>v. ar_Timestamp_update (\<lambda>_. v)))"
  "map_of record_setters (fold_name ''operation'') = Some (put_string (\<lambda>v. ar_Operation_update (\<lambda>_. v)))"
  "map_of record_setters (fold_name ''change_id'') = Some (put_string (\<lambda>v. ar_ChangeID_update (\<lambda>_. v)))"
  "map_of record_setters (fold_name ''principal_hash'') = Some (put_string (\<lambda>v. ar_PrincipalHash_update (\<lambda>_. v)))"
  "map_of record_setters (fold_name ''request_sha256'') = Some (put_string (\<lambda>v. ar_RequestSHA256_update (\<lambda>_. v)))"
  "map_of record_setters (fold_name ''http_status'') = Some (put_int64 (\<lambda>v. ar_HTTPStatus_update (\<lambda>_. v)))"
  "map_of record_setters (fold_name ''outcome'') = Some (put_string (\<lambda>v. ar_Outcome_update (\<lambda>_. v)))"
  "map_of record_setters (fold_name ''duration_ms'') = Some (put_int64 (\<lambda>v. ar_DurationMS_update (\<lambda>_. v)))"
  "map_of record_setters (fold_name ''trace_id'') = Some (put_string (\<lambda>v. ar_TraceID_update (\<lambda>_. v)))"
  "map_of record_setters (fold_name ''provider'') = Some (put_string (\<lambda>v. ar_Provider_update (\<lambda>_. v)))"
  "map_of record_setters (fold_name ''model'') = Some (put_string (\<lambda>v. ar_Model_update (\<lambda>_. v)))"
  "map_of record_setters (fold_name ''risk'') = Some (put_string (\<lambda>v. ar_Risk_update (\<lambda>_. v)))"
  "map_of record_setters (fold_name ''tool_calls'') = Some (put_int64 (\<lambda>v. ar_ToolCalls_update (\<lambda>_. v)))"
  "map_of record_setters (fold_name ''injection_suspected'') = Some (put_bool (\<lambda>v. ar_InjectionSuspected_update (\<lambda>_. v)))"
  "map_of record_setters (fold_name ''prev_hash'') = Some (put_string (\<lambda>v. ar_PrevHash_update (\<lambda>_. v)))"
  "map_of record_setters (fold_name ''hash'') = Some (put_string (\<lambda>v. ar_Hash_update (\<lambda>_. v)))"
  by (simp_all add: record_setters_def del: fold_name.simps)

lemmas record_steps =
  set_members_uint64 [OF record_setter(1)]
  set_members_time [OF record_setter(2)]
  set_members_string [OF record_setter(3)]
  set_members_omit [OF record_setter(4)]
  set_members_omit [OF record_setter(5)]
  set_members_omit [OF record_setter(6)]
  set_members_int64 [OF record_setter(7)]
  set_members_string [OF record_setter(8)]
  set_members_int64 [OF record_setter(9)]
  set_members_omit [OF record_setter(10)]
  set_members_omit [OF record_setter(11)]
  set_members_omit [OF record_setter(12)]
  set_members_omit [OF record_setter(13)]
  set_members_omit_zero [OF record_setter(14)]
  set_members_omit_false [OF record_setter(15)]
  set_members_omit [OF record_setter(16)]
  set_members_string [OF record_setter(17)]

text \<open>The records a gateway writes: valid texts, numbers in range and a time in UTC.\<close>

definition record_ok :: "audit_record \<Rightarrow> bool" where
  "record_ok r \<longleftrightarrow> list_all valid_utf8 [ar_Operation r, ar_ChangeID r, ar_PrincipalHash r, ar_RequestSHA256 r, ar_Outcome r,
       ar_TraceID r, ar_Provider r, ar_Model r, ar_Risk r, ar_PrevHash r, ar_Hash r]
     \<and> int64 (ar_HTTPStatus r) \<and> int64 (ar_DurationMS r) \<and> int64 (ar_ToolCalls r)
     \<and> snd (ar_Timestamp r) = 0 \<and> printable (fst (ar_Timestamp r))"

lemma rfc3339_zoned_utc: "rfc3339_zoned (t, 0) = rfc3339_nano t"
  by (simp add: rfc3339_zoned_def rfc3339_nano_def zone_str_def)

lemma decode_record_json:
  assumes "record_ok r"
  shows "decode_struct record_setters zero_record (val_of (record_json r)) = Some r"
proof -
  obtain t where t: "ar_Timestamp r = (t, 0)" "printable t" using assms by (cases "ar_Timestamp r") (simp add: record_ok_def)
  have time: "parse_rfc3339 (rfc3339_zoned (t, 0)) = Some (t, 0)"
    using parse_rfc3339_nano t by (simp add: rfc3339_zoned_utc)
  have "set_members record_setters (map (\<lambda>(k, v). (k, val_of v)) (case record_json r of JObj fs \<Rightarrow> fs)) zero_record = Some r"
    using assms unfolding record_json_def json.case map_append append_assoc
    by (simp add: record_steps time zero_record_def record_ok_def t(1) del: set_members.simps(2))
  then show ?thesis by (simp add: decode_struct_def record_json_def)
qed

text \<open>A printed record is one line: no byte below the space, and braces at both ends.\<close>

lemma json_char_printable: "c' \<in> set (json_char c) \<Longrightarrow> 32 \<le> (of_char c' :: nat)"
proof -
  have "32 \<le> (of_char (hex_digit n) :: nat)" if "n < 16" for n using that by (auto simp: hex_digit_def)
  moreover have "(of_char c :: nat) div 16 < 16" "(of_char c :: nat) mod 16 < 16" by (auto intro: less_mult_imp_div_less)
  ultimately show "c' \<in> set (json_char c) \<Longrightarrow> 32 \<le> (of_char c' :: nat)"
    by (auto simp: json_char_def Let_def split: if_splits)
qed

lemma json_string_printable: "c \<in> set (json_string s) \<Longrightarrow> 32 \<le> (of_char c :: nat)"
  by (auto simp: json_string_def dest: json_char_printable)

lemma int_str_printable: "c \<in> set (int_str i) \<Longrightarrow> 32 \<le> (of_char c :: nat)"
  using nat_str_digits [of "nat i"] nat_str_digits [of "nat (- i)"]
  by (auto simp: int_str_def list_all_iff digit_char_def Let_def split: if_splits)

lemma json_enc_printable:
  "c \<in> set (json_enc v) \<Longrightarrow> 32 \<le> (of_char c :: nat)"
  "c \<in> set (json_rest vs) \<Longrightarrow> 32 \<le> (of_char c :: nat)"
  "c \<in> set (json_frest fs) \<Longrightarrow> 32 \<le> (of_char c :: nat)"
  by (induction v and vs and fs rule: json_enc_json_rest_json_frest.induct)
    (auto dest: json_string_printable int_str_printable simp: bool_str_def split: if_splits)

lemma json_frest_last: "\<exists>m. json_frest fs = m @ ''}''"
  by (induction fs) auto

lemma ws_len_ascii:
  assumes "\<not> ascii_ws a" "(of_char a :: nat) < 128"
  shows "ws_len (a # t) = 0" "ws_len_rev (a # t) = 0"
proof -
  have no: "\<not> ws2 a x" "\<not> ws3 a x y" "\<not> ws2 x a" "\<not> ws3 x y a" for x y
    using assms(2) by (auto simp: ws2_def ws3_def Let_def)
  show "ws_len (a # t) = 0" using assms(1) no by (cases "a # t" rule: ws_len.cases) simp_all
  show "ws_len_rev (a # t) = 0" using assms(1) no by (cases "a # t" rule: ws_len_rev.cases) simp_all
qed

lemma trimmed_ends:
  assumes "\<not> ascii_ws a" "(of_char a :: nat) < 128" "\<not> ascii_ws b" "(of_char b :: nat) < 128"
  shows "trimmed (a # m @ [b])"
  using assms by (simp add: trimmed_def ws_len_ascii)

lemma record_text:
  "\<exists>m. json_enc (record_json r) = CHR ''{'' # m @ ''}''" "CHR 0x0A \<notin> set (json_enc (record_json r))"
  "trim_space (json_enc (record_json r)) = json_enc (record_json r)" "drop_cr (json_enc (record_json r)) = json_enc (record_json r)"
proof -
  obtain k v fs where o: "record_json r = JObj ((k, v) # fs)" by (auto simp: record_json_def)
  obtain m where "json_frest fs = m @ ''}''" using json_frest_last by blast
  then show ex: "\<exists>m. json_enc (record_json r) = CHR ''{'' # m @ ''}''"
    using o by (intro exI [of _ "json_string k @ CHR '':'' # json_enc v @ m"]) simp
  show "CHR 0x0A \<notin> set (json_enc (record_json r))" by (auto dest: json_enc_printable)
  show "trim_space (json_enc (record_json r)) = json_enc (record_json r)"
    using ex trimmed_ends [of "CHR ''{''" "CHR ''}''"] by (auto simp: ascii_ws_def simp flip: trimmed_iff)
  show "drop_cr (json_enc (record_json r)) = json_enc (record_json r)" using ex by (auto simp: drop_cr_def)
qed

lemma ascii_valid: "list_all (\<lambda>c. of_char c < (128 :: nat)) s \<Longrightarrow> valid_utf8 s"
  by (rule valid_ascii)

lemma pad_int_ascii: "c \<in> set (pad_int w i) \<Longrightarrow> (of_char c :: nat) < 128"
  using nat_str_digits [of "nat i"] by (auto simp: pad_int_def Let_def list_all_iff digit_char_def)

lemma rfc3339_nano_ascii: "c \<in> set (rfc3339_nano t) \<Longrightarrow> (of_char c :: nat) < 128"
  by (auto simp: rfc3339_nano_def clock_str_def frac_str_def Let_def dest!: set_dropWhileD dest: pad_int_ascii
      split: prod.splits if_splits)

lemma hex_valid: "list_all lower_hex s \<Longrightarrow> valid_utf8 s"
  by (rule valid_ascii) (auto simp: list_all_iff dest: lower_hex_not_ws)

lemma sign_record_hex: "list_all lower_hex (sign_record key r)"
  by (simp add: sign_record_def hex_encode_lower_hex)

lemma record_names_valid:
  "valid_utf8 ''sequence''" "valid_utf8 ''timestamp''" "valid_utf8 ''operation''" "valid_utf8 ''change_id''"
  "valid_utf8 ''principal_hash''" "valid_utf8 ''request_sha256''" "valid_utf8 ''http_status''" "valid_utf8
  ''outcome''" "valid_utf8 ''duration_ms''" "valid_utf8 ''trace_id''" "valid_utf8 ''provider''" "valid_utf8 ''model''"
  "valid_utf8 ''risk''" "valid_utf8 ''tool_calls''" "valid_utf8 ''injection_suspected''" "valid_utf8 ''prev_hash''"
  "valid_utf8 ''hash''"
  by (auto intro!: valid_ascii)

lemma utf8_ok_record: "record_ok r \<Longrightarrow> utf8_ok (record_json r)"
proof -
  assume ok: "record_ok r"
  have t: "valid_utf8 (rfc3339_zoned (ar_Timestamp r))"
    using ok by (cases "ar_Timestamp r") (auto simp: record_ok_def rfc3339_zoned_utc list_all_iff intro!: valid_ascii dest: rfc3339_nano_ascii)
  have e: "list_all (\<lambda>kv. valid_utf8 (fst kv) \<and> utf8_ok (snd kv)) (omit_empty k s)" if "valid_utf8 k" "valid_utf8 s" for k s
    using that by (simp add: omit_empty_def)
  have z: "list_all (\<lambda>kv. valid_utf8 (fst kv) \<and> utf8_ok (snd kv)) (omit_zero k i)" if "valid_utf8 k" for k i
    using that by (simp add: omit_zero_def)
  have f: "list_all (\<lambda>kv. valid_utf8 (fst kv) \<and> utf8_ok (snd kv)) (omit_false k i)" if "valid_utf8 k" for k i
    using that by (simp add: omit_false_def)
  show ?thesis using ok t
    by (simp add: record_json_def record_ok_def record_names_valid e z f)
qed

lemma depth_flat:
  "list_all (\<lambda>kv. depth (val_of (snd kv)) = 0) fs \<Longrightarrow> depth (val_of (JObj fs)) = 1"
  by (induction fs) auto

lemma depth_record: "depth (val_of (record_json r)) \<le> 10000"
proof -
  have e: "list_all (\<lambda>kv. depth (val_of (snd kv)) = 0) (omit_empty k s)" for k s by (simp add: omit_empty_def)
  have z: "list_all (\<lambda>kv. depth (val_of (snd kv)) = 0) (omit_zero k i)" for k i by (simp add: omit_zero_def)
  have f: "list_all (\<lambda>kv. depth (val_of (snd kv)) = 0) (omit_false k i)" for k i by (simp add: omit_false_def)
  have "depth (val_of (record_json r)) = 1" unfolding record_json_def by (rule depth_flat) (simp add: e z f)
  then show ?thesis by simp
qed

lemma decode_record_line: "record_ok r \<Longrightarrow> decode_record (json_enc (record_json r)) = Some r"
  by (simp add: decode_record_def json_parse_enc utf8_ok_record depth_record decode_record_json)

section \<open>What opens again\<close>

definition whole_lines :: "string \<Rightarrow> bool" where
  "whole_lines f \<longleftrightarrow> f = [] \<or> last f = CHR 0x0A"

lemma split_on_at: "split_on x (a @ x # b) = split_on x a @ split_on x b"
proof (induction a)
  case Nil
  then show ?case by (cases "split_on x b") simp_all
next
  case (Cons c a)
  obtain l ls where "split_on x a = l # ls" by (cases "split_on x a") auto
  with Cons show ?case by simp
qed

lemma split_on_single: "x \<notin> set l \<Longrightarrow> split_on x l = [l]"
  by (induction l) auto

lemma raw_lines_line:
  assumes "whole_lines f" "CHR 0x0A \<notin> set l"
  shows "raw_lines (f @ l @ [CHR 0x0A]) = raw_lines f @ [l]"
proof (cases f rule: rev_cases)
  case Nil
  then show ?thesis using split_on_at [of "CHR 0x0A" l "[]"] split_on_single [OF assms(2)] by (simp add: raw_lines_def)
next
  case (snoc g c)
  then have c: "c = CHR 0x0A" using assms(1) by (simp add: whole_lines_def)
  have "split_on (CHR 0x0A) (f @ l @ [CHR 0x0A]) = split_on (CHR 0x0A) g @ [l, []]"
    using split_on_at [of "CHR 0x0A" g "l @ [CHR 0x0A]"] split_on_at [of "CHR 0x0A" l "[]"] split_on_single [OF assms(2)]
    by (simp add: snoc c)
  moreover have "split_on (CHR 0x0A) f = split_on (CHR 0x0A) g @ [[]]"
    using split_on_at [of "CHR 0x0A" g "[]"] by (simp add: snoc c)
  ultimately show ?thesis by (simp add: raw_lines_def butlast_append)
qed

lemma whole_lines_line [simp]: "whole_lines (f @ l @ [CHR 0x0A])" "whole_lines []"
  by (simp_all add: whole_lines_def)

lemma verify_lines_append:
  "verify_lines key n e p (ls @ ls') =
     (case verify_lines key n e p ls of Inl err \<Rightarrow> Inl err | Inr (e', p') \<Rightarrow> verify_lines key (n + length ls) (e' + 1) p' ls')"
  by (induction ls arbitrary: n e p) (simp_all split: option.split sum.split)

lemma verify_lines_prev: "verify_lines key n e p ls = Inr (e', p') \<Longrightarrow> p' = p \<or> list_all lower_hex p'"
proof (induction ls arbitrary: n e p)
  case (Cons l ls)
  then show ?case using sign_record_hex by (fastforce split: if_splits option.splits)
qed simp

lemma takeWhile_shorter: "length (takeWhile P xs) < length xs \<longleftrightarrow> \<not> (\<forall>x \<in> set xs. P x)"
  by (induction xs) auto

lemma verifyExisting_ok:
  "verifyExisting key f = Inr r \<longleftrightarrow> (\<forall>l \<in> set (raw_lines f). length l < max_line) \<and> verify_lines key 0 1 [] (map drop_cr (raw_lines f)) = Inr r"
proof (cases "\<forall>l \<in> set (raw_lines f). length l < max_line")
  case True
  then have tw: "takeWhile (\<lambda>l. length l < max_line) (raw_lines f) = raw_lines f" by simp
  from True show ?thesis by (auto simp: verifyExisting_def scan_lines_def Let_def tw split: sum.splits)
next
  case False
  then show ?thesis
    by (auto simp: verifyExisting_def scan_lines_def Let_def takeWhile_shorter split: sum.splits)
qed

lemma verify_extend:
  assumes "verifyExisting key f = Inr (n, h)" "whole_lines f" "CHR 0x0A \<notin> set l" "drop_cr l = l"
  shows "verifyExisting key (f @ l @ [CHR 0x0A])
    = (if length l < max_line then verify_lines key (length (raw_lines f)) (n + 1) h [l] else Inl LineTooLong)"
proof -
  note ok = assms(1) [unfolded verifyExisting_ok]
  have rl: "raw_lines (f @ l @ [CHR 0x0A]) = raw_lines f @ [l]" by (rule raw_lines_line [OF assms(2,3)])
  have tw: "takeWhile (\<lambda>l. length l < max_line) (raw_lines f @ xs) = raw_lines f @ takeWhile (\<lambda>l. length l < max_line) xs" for xs
    using ok by (intro takeWhile_append2) blast
  show ?thesis
    using ok assms(4)
    by (simp add: verifyExisting_def scan_lines_def rl tw verify_lines_append Let_def del: verify_lines.simps(2) split: sum.split)
qed

text \<open>A log that matches its file.\<close>

definition log_of :: "audit_log \<Rightarrow> string \<Rightarrow> bool" where
  "log_of l f \<longleftrightarrow> al_open l \<and> 32 \<le> length (al_key l) \<and> whole_lines f
     \<and> verifyExisting (al_key l) f = Inr (al_sequence l, al_prevHash l)"

definition reopened :: "audit_log \<Rightarrow> audit_log" where
  "reopened l = l\<lparr> al_open := True, al_verified := True \<rparr>"

lemma log_of_reopens: "log_of l f \<Longrightarrow> OpenAuditLog True (al_key l) f = Inr (reopened l)"
  by (simp add: log_of_def OpenAuditLog_def reopened_def)

lemma opened_log_of: "OpenAuditLog io key f = Inr l \<Longrightarrow> whole_lines f \<Longrightarrow> log_of l f \<and> al_key l = key"
  by (auto simp: OpenAuditLog_def log_of_def split: if_splits sum.splits)

text \<open>What a caller passes to \<open>Append\<close>.\<close>

definition entry_ok :: "gotime \<Rightarrow> audit_record \<Rightarrow> bool" where
  "entry_ok tm r \<longleftrightarrow> list_all valid_utf8 [ar_Operation r, ar_ChangeID r, ar_PrincipalHash r, ar_RequestSHA256 r, ar_Outcome r,
       ar_TraceID r, ar_Provider r, ar_Model r, ar_Risk r]
     \<and> int64 (ar_HTTPStatus r) \<and> int64 (ar_DurationMS r) \<and> int64 (ar_ToolCalls r)
     \<and> printable (if is_zero (fst (ar_Timestamp r)) then tm else fst (ar_Timestamp r))"

lemma next_record_fields [simp]:
  "ar_Sequence (next_record l tm r) = al_sequence l + 1" "ar_PrevHash (next_record l tm r) = al_prevHash l"
  "ar_Hash (next_record l tm r) = sign_record (al_key l) (next_record l tm r)"
  by (simp_all add: next_record_def Let_def sign_record_def record_payload_def)

lemma next_record_ok: "log_of l f \<Longrightarrow> entry_ok tm r \<Longrightarrow> record_ok (next_record l tm r)"
proof -
  assume l: "log_of l f" and r: "entry_ok tm r"
  have "verify_lines (al_key l) 0 1 [] (map drop_cr (raw_lines f)) = Inr (al_sequence l, al_prevHash l)"
    using l by (simp add: log_of_def verifyExisting_ok)
  from verify_lines_prev [OF this] have "valid_utf8 (al_prevHash l)"
    using hex_valid [of "al_prevHash l"] by (auto simp: valid_utf8_def)
  then show ?thesis using r hex_valid [OF sign_record_hex]
    by (cases "is_zero (fst (ar_Timestamp r))") (simp_all add: record_ok_def entry_ok_def next_record_def Let_def)
qed

lemma verify_next:
  assumes "log_of l f" "entry_ok tm r"
  shows "verify_lines (al_key l) n (e + 1) h [json_enc (record_json (next_record l tm r))] =
    (if al_sequence l + 1 \<noteq> e + 1 then Inl (WrongSequence (Suc n)) else if al_prevHash l \<noteq> h then Inl (WrongPrevious (Suc n))
     else Inr (al_sequence l + 1, ar_Hash (next_record l tm r)))"
proof -
  have "json_enc (record_json (next_record l tm r)) \<noteq> []" using record_text(1) [of "next_record l tm r"] by auto
  then show ?thesis
    by (simp add: record_text(3) decode_record_line [OF next_record_ok [OF assms]] del: next_record_fields(3)) simp
qed

lemma append_verifies:
  assumes "log_of l f" "entry_ok tm r"
  shows "verifyExisting (al_key l) (f @ record_line (next_record l tm r)) =
    (if length (json_enc (record_json (next_record l tm r))) < max_line
     then Inr (al_sequence l + 1, ar_Hash (next_record l tm r)) else Inl LineTooLong)"
  using assms verify_extend [of "al_key l" f "al_sequence l" "al_prevHash l" "json_enc (record_json (next_record l tm r))"]
  by (simp add: log_of_def record_line_def record_text verify_next [OF assms] del: verify_lines.simps next_record_fields(3))

lemma Append_open:
  "al_open l \<Longrightarrow> Append tm Written r l f =
     (Inr (next_record l tm r), l\<lparr> al_sequence := al_sequence l + 1, al_prevHash := ar_Hash (next_record l tm r) \<rparr>,
      f @ record_line (next_record l tm r))"
  by (simp add: Append_def Let_def del: next_record_fields(3))

lemma record_line_whole: "whole_lines (f @ record_line r)"
  using whole_lines_line(1) [of f "json_enc (record_json r)"] by (simp add: record_line_def)

lemma log_of_append:
  assumes "log_of l f" "entry_ok tm r" and short: "length (json_enc (record_json (next_record l tm r))) < max_line"
    and step: "Append tm Written r l f = (x, l', f')"
  shows "log_of l' f' \<and> al_key l' = al_key l \<and> x = Inr (next_record l tm r)"
proof -
  have "al_open l" using assms(1) by (simp add: log_of_def)
  from step [unfolded Append_open [OF this]] show ?thesis
    using append_verifies [OF assms(1,2)] short assms(1) record_line_whole by (auto simp: log_of_def simp del: next_record_fields(3))
qed

text \<open>Complete appends of a sequence of entries, each with its time.\<close>

primrec append_all :: "(gotime \<times> audit_record) list \<Rightarrow> audit_log \<times> string \<Rightarrow> audit_log \<times> string" where
  "append_all [] lf = lf"
| "append_all (e # es) lf = append_all es (snd (Append (fst e) Written (snd e) (fst lf) (snd lf)))"

lemma append_all_Cons:
  "al_open l \<Longrightarrow> append_all (e # es) (l, f) =
     append_all es (l\<lparr> al_sequence := al_sequence l + 1, al_prevHash := ar_Hash (next_record l (fst e) (snd e)) \<rparr>,
       f @ record_line (next_record l (fst e) (snd e)))"
  by (simp add: Append_open del: next_record_fields(3))

lemma raw_lines_record: "whole_lines f \<Longrightarrow> raw_lines (f @ record_line r) = raw_lines f @ [json_enc (record_json r)]"
  using raw_lines_line [OF _ record_text(2)] by (simp add: record_line_def)

lemma append_all_lines:
  "al_open l \<Longrightarrow> whole_lines f \<Longrightarrow> \<exists>ls. raw_lines (snd (append_all es (l, f))) = raw_lines f @ ls"
proof (induction es arbitrary: l f)
  case (Cons e es)
  let ?r = "next_record l (fst e) (snd e)"
  let ?l = "l\<lparr> al_sequence := al_sequence l + 1, al_prevHash := ar_Hash ?r \<rparr>"
  have "al_open ?l" using Cons.prems(1) by simp
  then obtain ls where "raw_lines (snd (append_all es (?l, f @ record_line ?r))) = raw_lines (f @ record_line ?r) @ ls"
    using Cons.IH record_line_whole by blast
  then have "raw_lines (snd (append_all (e # es) (l, f))) = raw_lines f @ json_enc (record_json ?r) # ls"
    unfolding append_all_Cons [OF Cons.prems(1)] raw_lines_record [OF Cons.prems(2)] by simp
  then show ?case by blast
qed simp

text \<open>C17: a log opened again after any sequence of complete appends is the log they left, as long as no line reached the
  1 MiB the reader can take.\<close>

theorem complete_appends_reopen:
  assumes "log_of l f" "list_all (\<lambda>e. entry_ok (fst e) (snd e)) es"
    and "append_all es (l, f) = (l', f')" "\<forall>line \<in> set (raw_lines f'). length line < max_line"
  shows "OpenAuditLog True (al_key l) f' = Inr (reopened l')"
proof -
  have "log_of l' f' \<and> al_key l' = al_key l" using assms
  proof (induction es arbitrary: l f)
    case (Cons e es)
    let ?r = "next_record l (fst e) (snd e)"
    have op: "al_open l" "whole_lines f" using Cons.prems(1) by (simp_all add: log_of_def)
    obtain x l1 f1 where step: "Append (fst e) Written (snd e) l f = (x, l1, f1)" by (metis surj_pair)
    have f1: "f1 = f @ record_line ?r" "al_open l1" using step op(1) by (auto simp: Append_open simp del: next_record_fields(3))
    have rest: "append_all es (l1, f1) = (l', f')" using Cons.prems(3) step by simp
    have "raw_lines f1 = raw_lines f @ [json_enc (record_json ?r)]" unfolding f1(1) by (rule raw_lines_record [OF op(2)])
    moreover obtain ls where "raw_lines f' = raw_lines f1 @ ls"
      using append_all_lines [OF f1(2), of f1 es] rest f1(1) record_line_whole by auto
    ultimately have short: "length (json_enc (record_json ?r)) < max_line" using Cons.prems(4) by simp
    have "log_of l1 f1 \<and> al_key l1 = al_key l"
      using log_of_append [OF Cons.prems(1) _ short step] Cons.prems(2) by simp
    then show ?case using Cons.IH [of l1 f1] Cons.prems(2,4) rest by simp
  qed simp
  then show ?thesis using log_of_reopens by metis
qed

text \<open>C19: when the sync of an append fails after its write, the next append succeeds and reuses the number of the line
  already in the file: the log does not open any more.\<close>

theorem failed_sync_breaks_log:
  assumes "log_of l f" "entry_ok tm r" "entry_ok tm' r'"
    and "Append tm SyncFailed r l f = (x, l', f')" "Append tm' Written r' l' f' = (y, l'', f'')"
    and short: "\<forall>line \<in> set (raw_lines f''). length line < max_line"
  shows "\<exists>rec. y = Inr rec \<and> OpenAuditLog True (al_key l) f'' = Inl (WrongSequence (length (raw_lines f) + 2))"
proof -
  have l: "al_open l" "32 \<le> length (al_key l)" "whole_lines f" using assms(1) by (simp_all add: log_of_def)
  let ?a = "next_record l tm r" and ?l = "l\<lparr> al_verified := False \<rparr>"
  let ?b = "next_record ?l tm' r'"
  let ?ja = "json_enc (record_json ?a)" and ?jb = "json_enc (record_json ?b)"
  have f': "l' = ?l" "f' = f @ record_line ?a" using assms(4) l(1) by (auto simp: Append_def Let_def simp del: next_record_fields(3))
  have y: "y = Inr ?b" "f'' = f' @ record_line ?b" using assms(5) l(1) f' by (auto simp: Append_open simp del: next_record_fields(3))
  have rl: "raw_lines f' = raw_lines f @ [?ja]" "raw_lines f'' = raw_lines f @ [?ja, ?jb]"
    unfolding y(2) f'(2) raw_lines_record [OF record_line_whole] raw_lines_record [OF l(3)] by simp_all
  have ver: "verifyExisting (al_key l) f' = Inr (al_sequence l + 1, ar_Hash ?a)"
    using append_verifies [OF assms(1,2)] short rl f' by (simp del: next_record_fields(3))
  have lb: "log_of ?l f" using assms(1) by (simp add: log_of_def)
  have "verifyExisting (al_key l) f'' = verify_lines (al_key l) (length (raw_lines f')) (al_sequence l + 1 + 1) (ar_Hash ?a) [?jb]"
    using verify_extend [OF ver _ record_text(2,4), of ?b] record_line_whole [of f ?a] f' y short rl
    by (simp add: record_line_def del: next_record_fields(3) verify_lines.simps)
  also have "\<dots> = Inl (WrongSequence (length (raw_lines f) + 2))"
    using verify_next [OF lb assms(3), of "length (raw_lines f')" "al_sequence l + 1" "ar_Hash ?a"] rl
    by (simp del: next_record_fields(3) verify_lines.simps)
  finally show ?thesis using l(2) y by (simp add: OpenAuditLog_def del: next_record_fields(3))
qed

text \<open>An oversized record is accepted and locks the gateway out of its own log.\<close>

theorem long_record_locks_out:
  assumes "log_of l f" "entry_ok tm r" "max_line \<le> length (json_enc (record_json (next_record l tm r)))"
    and "Append tm Written r l f = (x, l', f')"
  shows "x = Inr (next_record l tm r) \<and> OpenAuditLog True (al_key l) f' = Inl LineTooLong"
  using append_verifies [OF assms(1,2)] assms by (auto simp: log_of_def Append_open OpenAuditLog_def simp del: next_record_fields(3))

section \<open>A concrete log\<close>

lemma length_json_char: "length (json_char c) \<le> 6"
  by (simp add: json_char_def Let_def)

lemma length_json_string: "length (json_string s) \<le> 6 * length s + 2"
proof -
  have "length (concat (map json_char s)) \<le> 6 * length s"
  proof (induction s)
    case (Cons c s)
    then show ?case using length_json_char [of c] by simp
  qed simp
  then show ?thesis by (simp add: json_string_def)
qed

text \<open>A record of a started request, and the bound of its line.\<close>

definition started_sample :: audit_record where
  "started_sample = zero_record\<lparr> ar_Operation := ''agent-ask_started'', ar_Outcome := ''started'' \<rparr>"

definition sample_log :: audit_log where
  "sample_log = \<lparr> al_open = True, al_key = replicate 32 (CHR ''k''), al_sequence = 0, al_prevHash = [], al_verified = True \<rparr>"

lemma sample_log_of: "log_of sample_log []"
  by (simp add: log_of_def sample_log_def verifyExisting_ok raw_lines_def)

lemma sample_entry_ok: "entry_ok hour started_sample"
proof -
  have "printable hour" by code_simp
  then show ?thesis
    by (simp add: entry_ok_def started_sample_def zero_record_def int64_def is_zero_def valid_ascii)
qed

lemma length_uint_str: "length (int_str (uint (w :: 64 word))) \<le> 20"
proof -
  have "uint w < int (10 ^ 20)" using uint_lt2p [of w] by simp
  then have "nat (uint w) < 10 ^ 20" by (simp only: nat_less_iff uint_ge_0 of_nat_power)
  then have "length (nat_str (nat (uint w))) \<le> 20" by (rule length_nat_str) simp
  then show ?thesis by (simp add: int_str_def)
qed

lemma length_json_object:
  "length (json_enc (JObj fs)) \<le> 2 + (\<Sum>(k, v)\<leftarrow>fs. 6 * length k + 4 + length (json_enc v))"
proof -
  have rest: "length (json_frest fs) \<le> 1 + (\<Sum>(k, v)\<leftarrow>fs. 6 * length k + 4 + length (json_enc v))" for fs
  proof (induction fs)
    case (Cons f fs)
    then show ?case using length_json_string [of "fst f"] by (cases f) simp
  qed simp
  show ?thesis
  proof (cases fs)
    case (Cons f gs)
    then show ?thesis using length_json_string [of "fst f"] rest [of gs] by (cases f) simp
  qed simp
qed

lemma sample_line_short:
  assumes "length (al_prevHash l) \<le> 64"
  shows "length (json_enc (record_json (next_record l hour started_sample))) < max_line"
proof -
  let ?r = "next_record l hour started_sample"
  have fs: "ar_Operation ?r = ''agent-ask_started''" "ar_Outcome ?r = ''started''" "ar_ChangeID ?r = []" "ar_PrincipalHash ?r = []"
    "ar_RequestSHA256 ?r = []" "ar_HTTPStatus ?r = 0" "ar_DurationMS ?r = 0" "ar_TraceID ?r = []" "ar_Provider ?r = []"
    "ar_Model ?r = []" "ar_Risk ?r = []" "ar_ToolCalls ?r = 0" "\<not> ar_InjectionSuspected ?r" "ar_Timestamp ?r = (hour, 0)"
    by (simp_all add: next_record_def started_sample_def zero_record_def Let_def is_zero_def hour_def minute_def second_def)
  have hash: "length (ar_Hash ?r) = 64" by (simp add: sign_record_def)
  have "length (rfc3339_zoned (hour, 0)) \<le> 30" by code_simp
  then have b: "length (json_string (rfc3339_zoned (hour, 0))) \<le> 182" "length (json_string (al_prevHash l)) \<le> 386"
    "length (json_string (ar_Hash ?r)) \<le> 386" "length (int_str (uint (al_sequence l + 1))) \<le> 20"
    using length_json_string [of "rfc3339_zoned (hour, 0)"] length_json_string [of "al_prevHash l"]
      length_json_string [of "ar_Hash ?r"] assms hash length_uint_str by simp_all
  have c: "length (json_string ''agent-ask_started'') \<le> 104" "length (json_string ''started'') \<le> 44" "length (int_str 0) \<le> 20"
    using length_json_string [of "''agent-ask_started''"] length_json_string [of "''started''"] length_uint_str [of 0] by simp_all
  have "length (json_enc (record_json ?r)) \<le> 3000"
    unfolding record_json_def omit_empty_def omit_zero_def omit_false_def fs
    by (rule order_trans [OF length_json_object]) (use b c in \<open>auto simp: bool_str_def simp del: next_record_fields(3)\<close>)
  then show ?thesis by (simp add: max_line_def)
qed

text \<open>One complete append to a new log.\<close>

lemma raw_lines_Nil [simp]: "raw_lines [] = []"
  by (simp add: raw_lines_def)

theorem complete_appends_reopen_witness:
  "OpenAuditLog True (replicate 32 (CHR ''k'')) (snd (append_all [(hour, started_sample)] (sample_log, []))) =
    Inr (reopened (fst (append_all [(hour, started_sample)] (sample_log, []))))"
proof -
  let ?run = "append_all [(hour, started_sample)] (sample_log, [])"
  have op: "al_open sample_log" by (simp add: sample_log_def)
  have "raw_lines (snd ?run) = [json_enc (record_json (next_record sample_log hour started_sample))]"
    unfolding append_all_Cons [OF op] using raw_lines_record [of "[]"] by simp
  then have short: "\<forall>line \<in> set (raw_lines (snd ?run)). length line < max_line"
    using sample_line_short [of sample_log] by (simp add: sample_log_def)
  have ok: "list_all (\<lambda>e. entry_ok (fst e) (snd e)) [(hour, started_sample)]" using sample_entry_ok by simp
  show ?thesis
    using complete_appends_reopen [OF sample_log_of ok surjective_pairing short] by (simp add: sample_log_def)
qed

theorem failed_sync_breaks_log_witness:
  "let (x, l1, f1) = Append hour SyncFailed started_sample sample_log [];
       (y, l2, f2) = Append hour Written started_sample l1 f1
   in (\<exists>rec. y = Inr rec) \<and> OpenAuditLog True (replicate 32 (CHR ''k'')) f2 = Inl (WrongSequence 2)"
proof -
  obtain x l1 f1 where a: "Append hour SyncFailed started_sample sample_log [] = (x, l1, f1)" by (metis surj_pair)
  obtain y l2 f2 where b: "Append hour Written started_sample l1 f1 = (y, l2, f2)" by (metis surj_pair)
  have l1: "l1 = sample_log\<lparr> al_verified := False \<rparr>" "f1 = [] @ record_line (next_record sample_log hour started_sample)"
    using a by (simp_all add: Append_def sample_log_def Let_def)
  then have op: "al_open l1" by (simp add: sample_log_def)
  have "f2 = f1 @ record_line (next_record l1 hour started_sample)" using b Append_open [OF op] by simp
  then have "raw_lines f2 = [json_enc (record_json (next_record sample_log hour started_sample)),
      json_enc (record_json (next_record l1 hour started_sample))]"
    using raw_lines_record [OF record_line_whole, of "[]"] raw_lines_record [of "[]"] unfolding l1(2) by simp
  then have short: "\<forall>line \<in> set (raw_lines f2). length line < max_line"
    using sample_line_short [of sample_log] sample_line_short [of l1] l1(1) by (simp add: sample_log_def)
  show ?thesis
    using failed_sync_breaks_log [OF sample_log_of sample_entry_ok sample_entry_ok a b short] a b
    by (simp add: sample_log_def)
qed

section \<open>What a log that opens holds\<close>

definition file_records :: "string \<Rightarrow> audit_record list" where
  "file_records f = List.map_filter decode_record (filter (\<lambda>l. trim_space l \<noteq> []) (map drop_cr (raw_lines f)))"

primrec chained :: "string \<Rightarrow> 64 word \<Rightarrow> string \<Rightarrow> audit_record list \<Rightarrow> 64 word \<times> string \<Rightarrow> bool" where
  "chained key e p [] out \<longleftrightarrow> out = (e - 1, p)"
| "chained key e p (r # rs) out \<longleftrightarrow>
     ar_Sequence r = e \<and> ar_PrevHash r = p \<and> ar_Hash r = sign_record key r \<and> chained key (e + 1) (ar_Hash r) rs out"

lemma verify_chained:
  "verify_lines key n e p ls = Inr out \<Longrightarrow> chained key e p (List.map_filter decode_record (filter (\<lambda>l. trim_space l \<noteq> []) ls)) out"
  by (induction ls arbitrary: n e p) (auto simp: List.map_filter_def split: if_splits option.splits)

lemma opened_chained: "OpenAuditLog io key f = Inr l \<Longrightarrow> chained key 1 [] (file_records f) (al_sequence l, al_prevHash l)"
  using verify_chained by (fastforce simp: OpenAuditLog_def verifyExisting_ok file_records_def split: if_splits sum.splits)

lemma chained_snoc:
  "chained key e p (rs @ [r]) out \<longleftrightarrow>
     chained key e p rs (ar_Sequence r - 1, ar_PrevHash r) \<and> ar_Hash r = sign_record key r \<and> out = (ar_Sequence r, ar_Hash r)"
  by (induction rs arbitrary: e p) auto

lemma sign_record_nonempty: "sign_record key r \<noteq> []"
  by (metis sign_record_def length_hex_encode length_hmac_sha256 list.size(3) mult_eq_0_iff zero_neq_numeral)

lemma payload_links: "record_payload r = record_payload r' \<Longrightarrow> ar_PrevHash r = ar_PrevHash r'"
proof -
  assume "record_payload r = record_payload r'"
  then have "record_json (r\<lparr> ar_Hash := [] \<rparr>) = record_json (r'\<lparr> ar_Hash := [] \<rparr>)" by (simp add: record_payload_def json_enc_inj)
  then have "map_of (case record_json (r\<lparr> ar_Hash := [] \<rparr>) of JObj fs \<Rightarrow> fs) ''prev_hash''
    = map_of (case record_json (r'\<lparr> ar_Hash := [] \<rparr>) of JObj fs \<Rightarrow> fs) ''prev_hash''" by simp
  moreover have "map_of (omit_false k b @ fs) ''prev_hash'' = map_of fs ''prev_hash''" if "k \<noteq> ''prev_hash''" for k b fs
    using that by (simp add: omit_false_def)
  ultimately show ?thesis by (simp add: record_json_def del: map_of_append split: if_splits)
qed

lemma chained_unique:
  assumes "chained key e [] rs (n, h)" "chained key e' [] rs' (n', h)"
  shows "map record_payload rs = map record_payload rs'
    \<or> (\<exists>r \<in> set rs. \<exists>r' \<in> set rs'. record_payload r \<noteq> record_payload r'
         \<and> hmac_sha256 key (record_payload r) = hmac_sha256 key (record_payload r'))"
  using assms
proof (induction rs arbitrary: rs' n n' h rule: rev_induct)
  case Nil
  then have h: "h = []" by simp
  show ?case
  proof (cases rs' rule: rev_cases)
    case (snoc ys r')
    have "ar_Hash r' = sign_record key r' \<and> (n', h) = (ar_Sequence r', ar_Hash r')"
      using Nil(2) unfolding snoc chained_snoc by blast
    then show ?thesis using sign_record_nonempty h by (metis prod.inject)
  qed simp
next
  case (snoc r rs)
  then have r: "chained key e [] rs (ar_Sequence r - 1, ar_PrevHash r)" "h = sign_record key r"
    by (simp_all add: chained_snoc)
  show ?case
  proof (cases rs' rule: rev_cases)
    case Nil
    then show ?thesis using snoc.prems(2) r(2) sign_record_nonempty [of key r] by simp
  next
    case s: (snoc ys r')
    then have r': "chained key e' [] ys (ar_Sequence r' - 1, ar_PrevHash r')" "h = sign_record key r'"
      using snoc.prems(2) by (simp_all add: chained_snoc)
    have eq: "hmac_sha256 key (record_payload r) = hmac_sha256 key (record_payload r')"
      using r(2) r'(2) by (simp add: sign_record_def)
    show ?thesis
    proof (cases "record_payload r = record_payload r'")
      case True
      then have "ar_PrevHash r = ar_PrevHash r'" by (rule payload_links)
      with snoc.IH [of "ar_Sequence r - 1" "ar_PrevHash r" ys "ar_Sequence r' - 1"] r(1) r'(1) True s show ?thesis by auto
    qed (use eq s in auto)
  qed
qed

text \<open>Two logs that open with the same last hash hold the same signed texts, unless the HMAC collides on two of them.\<close>

theorem same_head_same_records:
  assumes "OpenAuditLog io key f = Inr l" "OpenAuditLog io' key g = Inr l'" "al_prevHash l = al_prevHash l'"
  shows "map record_payload (file_records f) = map record_payload (file_records g)
    \<or> (\<exists>r \<in> set (file_records f). \<exists>r' \<in> set (file_records g). record_payload r \<noteq> record_payload r'
         \<and> hmac_sha256 key (record_payload r) = hmac_sha256 key (record_payload r'))"
  using chained_unique [of key 1 "file_records f" "al_sequence l" "al_prevHash l" 1 "file_records g" "al_sequence l'"]
    opened_chained [OF assms(1)] opened_chained [OF assms(2)] assms(3) by simp

text \<open>The file alone does not show that its last lines are missing.\<close>

lemma raw_lines_append: "whole_lines f \<Longrightarrow> raw_lines (f @ g) = raw_lines f @ raw_lines g"
proof (cases f rule: rev_cases)
  case Nil
  then show ?thesis by (simp add: raw_lines_def)
next
  case (snoc h c)
  moreover assume "whole_lines f"
  ultimately have f: "f = h @ [CHR 0x0A]" by (simp add: whole_lines_def)
  show ?thesis unfolding f raw_lines_def using split_on_at [of "CHR 0x0A" h g] split_on_at [of "CHR 0x0A" h "[]"]
    by (simp add: Let_def butlast_append)
qed

theorem truncated_log_opens:
  assumes "OpenAuditLog True key (f @ g) = Inr l" "whole_lines f"
  shows "\<exists>l'. OpenAuditLog True key f = Inr l' \<and> al_verified l'"
proof -
  obtain out where "verifyExisting key (f @ g) = Inr out" and k: "\<not> length key < 32"
    using assms(1) by (auto simp: OpenAuditLog_def split: if_splits sum.splits)
  then have "\<exists>out'. verifyExisting key f = Inr out'"
    unfolding verifyExisting_ok raw_lines_append [OF assms(2)]
    by (auto simp: verify_lines_append split: sum.splits)
  then show ?thesis using k by (auto simp: OpenAuditLog_def)
qed

section \<open>The recent events\<close>

definition written :: "audit_record list \<Rightarrow> string" where
  "written rs = concat (map record_line rs)"

definition record_texts :: "audit_record list \<Rightarrow> string list" where
  "record_texts rs = map (\<lambda>r. json_enc (record_json r)) rs"

lemma written_whole: "whole_lines (written rs)"
  by (cases rs rule: rev_cases) (simp_all add: written_def record_line_whole)

lemma raw_lines_written: "raw_lines (written rs) = record_texts rs"
proof (induction rs rule: rev_induct)
  case (snoc r rs)
  then show ?case using raw_lines_record [OF written_whole, of rs r] by (simp add: written_def record_texts_def)
qed (simp add: written_def record_texts_def raw_lines_def)

lemma file_records_written: "list_all record_ok rs \<Longrightarrow> file_records (written rs) = rs"
proof -
  have "json_enc (record_json r) \<noteq> []" for r using record_text(1) [of r] by auto
  then have "list_all record_ok rs \<Longrightarrow>
    List.map_filter decode_record (filter (\<lambda>l. trim_space l \<noteq> []) (map drop_cr (record_texts rs))) = rs"
    by (induction rs) (simp_all add: record_texts_def record_text List.map_filter_def decode_record_line)
  then show "list_all record_ok rs \<Longrightarrow> file_records (written rs) = rs" by (simp add: file_records_def raw_lines_written)
qed

lemma tail_chained:
  "chained key e p rs out \<Longrightarrow> list_all record_ok rs \<Longrightarrow>
   (\<forall>q. prev = Some q \<longrightarrow> ar_Sequence q + 1 = e \<and> ar_Hash q = p) \<Longrightarrow> tail_records key n prev (record_texts rs) = Inr rs"
proof (induction rs arbitrary: e p prev n)
  case (Cons r rs)
  then have "tail_records key (Suc n) (Some r) (record_texts rs) = Inr rs"
    by (intro Cons.IH [of "e + 1" "ar_Hash r"]) auto
  then show ?case using Cons.prems
    by (cases prev) (simp_all add: record_texts_def decode_record_line)
qed (simp add: record_texts_def)

lemma trim_line_break:
  assumes "trimmed (a # t)" "\<not> ascii_ws a" "(of_char a :: nat) < 128"
  shows "trim_space (a # t @ [CHR 0x0A]) = a # t"
proof -
  note ws = ws_len_ascii(1) [OF assms(2,3)]
  have nl: "ws_len_rev (CHR 0x0A # x) = 1" for x
    by (cases "CHR 0x0A # x" rule: ws_len_rev.cases) (auto simp: ascii_ws_def)
  have left: "trim_left (a # x) = a # x" for x
    unfolding trim_left.simps [of "a # x"] by (simp add: ws del: trim_left.simps)
  have "trim_right_rev (CHR 0x0A # x) = trim_right_rev x" for x
    unfolding trim_right_rev.simps [of "CHR 0x0A # x"] by (simp add: nl del: trim_right_rev.simps)
  then have "trim_right (a # t @ [CHR 0x0A]) = trim_right (a # t)" by (simp add: trim_right_def)
  moreover have "trim_right (a # t) = a # t" using assms(1) by (simp add: trimmed_iff trim_space_def left)
  ultimately show ?thesis by (simp add: trim_space_def left)
qed

lemma written_trimmed:
  assumes "rs \<noteq> []"
  shows "split_on (CHR 0x0A) (trim_space (written rs)) = record_texts rs \<and> trim_space (written rs) \<noteq> []"
proof -
  obtain qs q where rs: "rs = qs @ [q]" using assms by (cases rs rule: rev_cases) auto
  obtain r rs' where rs': "rs = r # rs'" using assms by (cases rs) auto
  define t where "t = written qs @ json_enc (record_json q)"
  have w: "written rs = t @ [CHR 0x0A]" by (simp add: rs t_def written_def record_line_def)
  obtain m where m: "json_enc (record_json q) = CHR ''{'' # m @ ''}''" using record_text(1) by blast
  obtain m' where m': "json_enc (record_json r) = CHR ''{'' # m' @ ''}''" using record_text(1) by blast
  have "hd (written rs) = CHR ''{''" by (simp add: rs' written_def record_line_def m')
  then have h: "hd t = CHR ''{''" using w m t_def by (cases "written qs") auto
  have "t \<noteq> []" using m t_def by simp
  then obtain u where t: "t = CHR ''{'' # u" using h by (metis list.collapse)
  have "\<exists>v. t = CHR ''{'' # v @ ''}''"
  proof (cases "written qs")
    case Nil
    then show ?thesis using m t_def by simp
  next
    case (Cons c x)
    then show ?thesis using m t_def t by (intro exI [of _ "x @ CHR ''{'' # m"]) simp
  qed
  then have "trimmed t" using trimmed_ends [of "CHR ''{''" "CHR ''}''"] by (auto simp: ascii_ws_def)
  then have tr: "trim_space (written rs) = t"
    using trim_line_break [of "CHR ''{''" u] by (simp add: w t ascii_ws_def)
  have "split_on (CHR 0x0A) (written rs) = split_on (CHR 0x0A) t @ [[]]" using split_on_at [of "CHR 0x0A" t "[]"] by (simp add: w)
  then have "raw_lines (written rs) = split_on (CHR 0x0A) t" by (simp add: raw_lines_def)
  then show ?thesis using tr t raw_lines_written by simp
qed

theorem recent_shows_last:
  assumes "log_of l (written rs)" "list_all record_ok rs" "rs \<noteq> []" "length (written rs) \<le> max_tail"
  shows "Recent True limit includeStarted l (written rs) =
    (Inr \<lparr> ep_Events = recent_events limit includeStarted rs, ep_Total = al_sequence l, ep_Truncated = False,
           ep_Verified = al_verified l \<rparr>, l)"
proof -
  have l: "al_open l" "OpenAuditLog True (al_key l) (written rs) = Inr (reopened l)"
    using assms(1) log_of_reopens by (simp_all add: log_of_def)
  have "chained (al_key l) 1 [] rs (al_sequence l, al_prevHash l)"
    using opened_chained [OF l(2)] file_records_written [OF assms(2)] by (simp add: reopened_def)
  then have "tail_records (al_key l) 0 None (record_texts rs) = Inr rs" using tail_chained [OF _ assms(2)] by blast
  moreover have "written rs \<noteq> []" using written_trimmed [OF assms(3)] by auto
  ultimately show ?thesis using assms(4) l(1) written_trimmed [OF assms(3)] by (simp add: Recent_def Let_def)
qed

end
