(* ===== verification/GatewayMetrics.thy ===== *)
theory GatewayMetrics
  imports GatewayAudit
begin

text \<open>
  \<^verbatim>\<open>internal/agentgateway/metrics.go\<close> and \<^verbatim>\<open>metrics_persistence.go\<close>: the counters of the gateway, the file that keeps them
  under an HMAC, the service level computed from them, and the limiter of requests. The file is its bytes, or
  none when it cannot be read. The lemmas show that the counters add up, that a state that was written is read
  back as it was, that the latency reported is the 95th percentile of the samples, and how many requests the
  limiter lets through; and what a failed write or a clock that steps back does to the metrics for good.
\<close>

section \<open>Counters\<close>

record operation_metrics =
  om_Total :: "64 word"
  om_Successful :: "64 word"
  om_Failed :: "64 word"
  om_Rejected :: "64 word"

definition zero_operation :: operation_metrics where
  "zero_operation = \<lparr> om_Total = 0, om_Successful = 0, om_Failed = 0, om_Rejected = 0 \<rparr>"

text \<open>The map of the operations, as the list of its entries in the order of their names.\<close>

type_synonym operations = "(string \<times> operation_metrics) list"

fun put_op :: "string \<Rightarrow> operation_metrics \<Rightarrow> operations \<Rightarrow> operations" where
  "put_op k v [] = [(k, v)]"
| "put_op k v ((k', v') # ops) =
     (if k = k' then (k, v) # ops else if k < k' then (k, v) # (k', v') # ops else (k', v') # put_op k v ops)"

definition get_op :: "operations \<Rightarrow> string \<Rightarrow> operation_metrics" where
  "get_op ops k = (case map_of ops k of None \<Rightarrow> zero_operation | Some v \<Rightarrow> v)"

record gateway_metrics =
  gm_path :: bool
  gm_key :: string
  gm_window :: duration
  gm_windowStarted :: gotime
  gm_lastPersisted :: gotime
  gm_lastHMAC :: string
  gm_verified :: bool
  gm_dirty :: bool
  gm_total :: "64 word"
  gm_successful :: "64 word"
  gm_failed :: "64 word"
  gm_rejected :: "64 word"
  gm_upstreamErrors :: "64 word"
  gm_injections :: "64 word"
  gm_durationTotal :: int
  gm_durations :: "int list"
  gm_eligibleDurations :: "int list"
  gm_operations :: operations

definition empty_metrics :: gateway_metrics where
  "empty_metrics = \<lparr> gm_path = False, gm_key = [], gm_window = 24 * hour, gm_windowStarted = 0, gm_lastPersisted = 0,
     gm_lastHMAC = [], gm_verified = True, gm_dirty = False, gm_total = 0, gm_successful = 0, gm_failed = 0, gm_rejected = 0,
     gm_upstreamErrors = 0, gm_injections = 0, gm_durationTotal = 0, gm_durations = [], gm_eligibleDurations = [],
     gm_operations = [] \<rparr>"

definition newGatewayMetrics :: "gotime \<Rightarrow> gateway_metrics" where
  "newGatewayMetrics tm = empty_metrics\<lparr> gm_windowStarted := tm \<rparr>"

text \<open>Signed 64-bit arithmetic wraps.\<close>

definition wrap64 :: "int \<Rightarrow> int" where
  "wrap64 i = sint (word_of_int i :: 64 word)"

definition milliseconds :: "duration \<Rightarrow> int" where
  "milliseconds d = (if d < 0 then - (- d div 1000000) else d div 1000000)"

text \<open>The last 512 samples.\<close>

definition push_sample :: "int \<Rightarrow> int list \<Rightarrow> int list" where
  "push_sample x xs = (if 512 \<le> length xs then tl xs @ [x] else xs @ [x])"

definition count_outcome :: "string \<Rightarrow> operation_metrics \<Rightarrow> operation_metrics" where
  "count_outcome out v =
     (let v = v\<lparr> om_Total := om_Total v + 1 \<rparr> in
      if out = ''success'' then v\<lparr> om_Successful := om_Successful v + 1 \<rparr>
      else if out = ''rejected'' then v\<lparr> om_Rejected := om_Rejected v + 1 \<rparr>
      else v\<lparr> om_Failed := om_Failed v + 1 \<rparr>)"

definition count_request :: "string \<Rightarrow> string \<Rightarrow> duration \<Rightarrow> bool \<Rightarrow> bool \<Rightarrow> gateway_metrics \<Rightarrow> gateway_metrics" where
  "count_request operation out d injection upstreamError m =
     (let ms = max 0 (milliseconds d) in
      m\<lparr> gm_total := gm_total m + 1,
         gm_successful := gm_successful m + (if out = ''success'' then 1 else 0),
         gm_rejected := gm_rejected m + (if out = ''rejected'' then 1 else 0),
         gm_failed := gm_failed m + (if out = ''success'' \<or> out = ''rejected'' then 0 else 1),
         gm_upstreamErrors := gm_upstreamErrors m + (if upstreamError then 1 else 0),
         gm_injections := gm_injections m + (if injection then 1 else 0),
         gm_durationTotal := wrap64 (gm_durationTotal m + ms),
         gm_durations := push_sample ms (gm_durations m),
         gm_eligibleDurations :=
           (if out = ''rejected'' then gm_eligibleDurations m else push_sample ms (gm_eligibleDurations m)),
         gm_operations := put_op operation (count_outcome out (get_op (gm_operations m) operation)) (gm_operations m) \<rparr>)"

section \<open>The file of the counters\<close>

record persisted_metrics =
  ps_Schema :: string
  ps_WindowStartedAt :: zoned
  ps_WindowSeconds :: int
  ps_UpdatedAt :: zoned
  ps_Total :: "64 word"
  ps_Successful :: "64 word"
  ps_Failed :: "64 word"
  ps_Rejected :: "64 word"
  ps_UpstreamErrors :: "64 word"
  ps_Injections :: "64 word"
  ps_DurationTotalMS :: int
  ps_DurationsMS :: "int list option"
  ps_EligibleDurationsMS :: "int list"
  ps_Operations :: "operations option"
  ps_HMACSHA256 :: string

definition metrics_schema :: string where "metrics_schema = ''changeguard-agent-metrics/v1''"

definition operation_json :: "operation_metrics \<Rightarrow> json" where
  "operation_json v = JObj [(''total'', JInt (uint (om_Total v))), (''successful'', JInt (uint (om_Successful v))),
     (''failed'', JInt (uint (om_Failed v))), (''rejected'', JInt (uint (om_Rejected v)))]"

definition ints_json :: "int list \<Rightarrow> json" where "ints_json xs = JArr (map JInt xs)"

text \<open>A nil slice and a nil map print as null.\<close>

definition persisted_json :: "persisted_metrics \<Rightarrow> json" where
  "persisted_json p = JObj (
     [(''schema'', JStr (ps_Schema p)), (''window_started_at'', JStr (rfc3339_zoned (ps_WindowStartedAt p))),
      (''window_seconds'', JInt (ps_WindowSeconds p)), (''updated_at'', JStr (rfc3339_zoned (ps_UpdatedAt p))),
      (''total'', JInt (uint (ps_Total p))), (''successful'', JInt (uint (ps_Successful p))),
      (''failed'', JInt (uint (ps_Failed p))), (''rejected'', JInt (uint (ps_Rejected p))),
      (''upstream_errors'', JInt (uint (ps_UpstreamErrors p))), (''injections'', JInt (uint (ps_Injections p))),
      (''duration_total_ms'', JInt (ps_DurationTotalMS p)),
      (''durations_ms'', case ps_DurationsMS p of None \<Rightarrow> JNull | Some xs \<Rightarrow> ints_json xs)]
     @ (if ps_EligibleDurationsMS p = [] then [] else [(''eligible_durations_ms'', ints_json (ps_EligibleDurationsMS p))])
     @ [(''operations'', case ps_Operations p of None \<Rightarrow> JNull | Some ops \<Rightarrow> JObj (map (\<lambda>(k, v). (k, operation_json v)) ops)),
        (''hmac_sha256'', JStr (ps_HMACSHA256 p))])"

text \<open>The decoder: a null element of a slice is zero, a null slice or map is nil, the last of equal keys counts.\<close>

definition element_int :: "jval \<Rightarrow> int option" where
  "element_int v = (case v of VNum l \<Rightarrow> literal_int (- (2 ^ 63)) (2 ^ 63 - 1) l | VNull \<Rightarrow> Some 0 | _ \<Rightarrow> None)"

definition put_ints :: "(int list option \<Rightarrow> 'a \<Rightarrow> 'a) \<Rightarrow> jval \<Rightarrow> 'a \<Rightarrow> 'a option" where
  "put_ints f v x =
     (case v of
        VNull \<Rightarrow> Some (f None x)
      | VArr vs \<Rightarrow> (if list_all (\<lambda>v. element_int v \<noteq> None) vs then Some (f (Some (List.map_filter element_int vs)) x) else None)
      | _ \<Rightarrow> None)"

definition operation_setters :: "operation_metrics setters" where
  "operation_setters =
     [(''total'', put_uint64 (\<lambda>v. om_Total_update (\<lambda>_. v))), (''successful'', put_uint64 (\<lambda>v. om_Successful_update (\<lambda>_. v))),
      (''failed'', put_uint64 (\<lambda>v. om_Failed_update (\<lambda>_. v))), (''rejected'', put_uint64 (\<lambda>v. om_Rejected_update (\<lambda>_. v)))]"

primrec decode_ops :: "(string \<times> jval) list \<Rightarrow> operations \<Rightarrow> operations option" where
  "decode_ops [] ops = Some ops"
| "decode_ops (kv # kvs) ops =
     (case decode_struct operation_setters zero_operation (snd kv) of
        None \<Rightarrow> None
      | Some v \<Rightarrow> decode_ops kvs (put_op (fst kv) v ops))"

definition put_operations :: "jval \<Rightarrow> persisted_metrics \<Rightarrow> persisted_metrics option" where
  "put_operations v p =
     (case v of
        VNull \<Rightarrow> Some (p\<lparr> ps_Operations := None \<rparr>)
      | VObj kvs \<Rightarrow> map_option (\<lambda>ops. p\<lparr> ps_Operations := Some ops \<rparr>)
                      (decode_ops kvs (case ps_Operations p of None \<Rightarrow> [] | Some ops \<Rightarrow> ops))
      | _ \<Rightarrow> None)"

definition persisted_setters :: "persisted_metrics setters" where
  "persisted_setters =
     [(''schema'', put_string (\<lambda>v. ps_Schema_update (\<lambda>_. v))),
      (''window_started_at'', put_time (\<lambda>v. ps_WindowStartedAt_update (\<lambda>_. v))),
      (''window_seconds'', put_int64 (\<lambda>v. ps_WindowSeconds_update (\<lambda>_. v))),
      (''updated_at'', put_time (\<lambda>v. ps_UpdatedAt_update (\<lambda>_. v))),
      (''total'', put_uint64 (\<lambda>v. ps_Total_update (\<lambda>_. v))),
      (''successful'', put_uint64 (\<lambda>v. ps_Successful_update (\<lambda>_. v))),
      (''failed'', put_uint64 (\<lambda>v. ps_Failed_update (\<lambda>_. v))),
      (''rejected'', put_uint64 (\<lambda>v. ps_Rejected_update (\<lambda>_. v))),
      (''upstream_errors'', put_uint64 (\<lambda>v. ps_UpstreamErrors_update (\<lambda>_. v))),
      (''injections'', put_uint64 (\<lambda>v. ps_Injections_update (\<lambda>_. v))),
      (''duration_total_ms'', put_int64 (\<lambda>v. ps_DurationTotalMS_update (\<lambda>_. v))),
      (''durations_ms'', put_ints (\<lambda>v. ps_DurationsMS_update (\<lambda>_. v))),
      (''eligible_durations_ms'',
         put_ints (\<lambda>v. ps_EligibleDurationsMS_update (\<lambda>_. case v of None \<Rightarrow> [] | Some xs \<Rightarrow> xs))),
      (''operations'', put_operations),
      (''hmac_sha256'', put_string (\<lambda>v. ps_HMACSHA256_update (\<lambda>_. v)))]"

definition zero_persisted :: persisted_metrics where
  "zero_persisted = \<lparr> ps_Schema = [], ps_WindowStartedAt = (0, 0), ps_WindowSeconds = 0, ps_UpdatedAt = (0, 0), ps_Total = 0,
     ps_Successful = 0, ps_Failed = 0, ps_Rejected = 0, ps_UpstreamErrors = 0, ps_Injections = 0, ps_DurationTotalMS = 0,
     ps_DurationsMS = None, ps_EligibleDurationsMS = [], ps_Operations = None, ps_HMACSHA256 = [] \<rparr>"

definition decode_persisted :: "string \<Rightarrow> persisted_metrics option" where
  "decode_persisted s = Option.bind (json_parse s) (decode_struct persisted_setters zero_persisted)"

definition signState :: "string \<Rightarrow> persisted_metrics \<Rightarrow> string" where
  "signState key p =
     hex_encode (hmac_sha256 key (metrics_schema @ [CHR 0x00] @ json_enc (persisted_json (p\<lparr> ps_HMACSHA256 := [] \<rparr>))))"

datatype metrics_error =
    MetricsShortKey | MetricsIO | MetricsSize | MetricsDecode | MetricsSchema | MetricsTimestamps | MetricsWindow
  | MetricsCounters | MetricsSamples | MetricsOperations | MetricsTotals | MetricsNegative | MetricsDurationTotal
  | MetricsMAC | MetricsDirty | MetricsForeign | MetricsUnverified

definition op_sum :: "(operation_metrics \<Rightarrow> 64 word) \<Rightarrow> operations \<Rightarrow> 64 word" where
  "op_sum f ops = sum_list (map (f \<circ> snd) ops)"

definition sampled :: "int list \<Rightarrow> int" where
  "sampled xs = foldl (\<lambda>a x. wrap64 (a + x)) 0 xs"

definition operation_consistent :: "string \<times> operation_metrics \<Rightarrow> bool" where
  "operation_consistent kv \<longleftrightarrow>
     fst kv \<noteq> [] \<and> om_Total (snd kv) = om_Successful (snd kv) + om_Failed (snd kv) + om_Rejected (snd kv)"

definition decodeAndVerify :: "string \<Rightarrow> string \<Rightarrow> metrics_error + persisted_metrics" where
  "decodeAndVerify key data =
     (case decode_persisted data of
        None \<Rightarrow> Inl MetricsDecode
      | Some p \<Rightarrow>
          let ds = (case ps_DurationsMS p of None \<Rightarrow> [] | Some xs \<Rightarrow> xs);
              ops = (case ps_Operations p of None \<Rightarrow> [] | Some ops \<Rightarrow> ops) in
          if ps_Schema p \<noteq> metrics_schema then Inl MetricsSchema
          else if is_zero (fst (ps_WindowStartedAt p)) \<or> fst (ps_UpdatedAt p) < fst (ps_WindowStartedAt p)
          then Inl MetricsTimestamps
          else if ps_WindowSeconds p < 3600 \<or> ps_WindowSeconds p > 31 * 24 * 3600 then Inl MetricsWindow
          else if ps_Total p \<noteq> ps_Successful p + ps_Failed p + ps_Rejected p then Inl MetricsCounters
          else if 512 < length ds \<or> 512 < length (ps_EligibleDurationsMS p) then Inl MetricsSamples
          else if \<not> list_all operation_consistent ops then Inl MetricsOperations
          else if op_sum om_Total ops \<noteq> ps_Total p \<or> op_sum om_Successful ops \<noteq> ps_Successful p
               \<or> op_sum om_Failed ops \<noteq> ps_Failed p \<or> op_sum om_Rejected ops \<noteq> ps_Rejected p
          then Inl MetricsTotals
          else if \<not> list_all (\<lambda>d. 0 \<le> d) ds \<or> \<not> list_all (\<lambda>d. 0 \<le> d) (ps_EligibleDurationsMS p) then Inl MetricsNegative
          else if ps_DurationTotalMS p < sampled ds then Inl MetricsDurationTotal
          else if ps_HMACSHA256 p = [] \<or> ps_HMACSHA256 p \<noteq> signState key p then Inl MetricsMAC
          else Inr p)"

definition window_seconds :: "duration \<Rightarrow> int" where
  "window_seconds w = (if w < 0 then - (- w div second) else w div second)"

definition nil_if_empty :: "int list \<Rightarrow> int list option" where
  "nil_if_empty xs = (if xs = [] then None else Some xs)"

definition persisted_of :: "gateway_metrics \<Rightarrow> gotime \<Rightarrow> persisted_metrics" where
  "persisted_of m tm =
     \<lparr> ps_Schema = metrics_schema, ps_WindowStartedAt = (gm_windowStarted m, 0), ps_WindowSeconds = window_seconds (gm_window m),
       ps_UpdatedAt = (tm, 0), ps_Total = gm_total m, ps_Successful = gm_successful m, ps_Failed = gm_failed m,
       ps_Rejected = gm_rejected m, ps_UpstreamErrors = gm_upstreamErrors m, ps_Injections = gm_injections m,
       ps_DurationTotalMS = gm_durationTotal m, ps_DurationsMS = nil_if_empty (gm_durations m),
       ps_EligibleDurationsMS = gm_eligibleDurations m, ps_Operations = Some (gm_operations m), ps_HMACSHA256 = [] \<rparr>"

text \<open>The outcome of writing the file in its place: done, failed before the rename, or failed after it.\<close>

datatype replace_outcome = Replaced | Kept | ReplacedWithError

definition signed_state :: "gateway_metrics \<Rightarrow> gotime \<Rightarrow> persisted_metrics" where
  "signed_state m tm = (persisted_of m tm)\<lparr> ps_HMACSHA256 := signState (gm_key m) (persisted_of m tm) \<rparr>"

definition persistLocked :: "gotime \<Rightarrow> replace_outcome \<Rightarrow> gateway_metrics \<Rightarrow> string option
    \<Rightarrow> metrics_error option \<times> gateway_metrics \<times> string option" where
  "persistLocked tm out m disk =
     (let p = signed_state m tm; text = json_enc (persisted_json p) @ [CHR 0x0A] in
      case out of
        Replaced \<Rightarrow> (None, m\<lparr> gm_lastPersisted := tm, gm_lastHMAC := ps_HMACSHA256 p, gm_dirty := False, gm_verified := True \<rparr>,
                      Some text)
      | Kept \<Rightarrow> (Some MetricsIO, m\<lparr> gm_verified := False \<rparr>, disk)
      | ReplacedWithError \<Rightarrow> (Some MetricsIO, m\<lparr> gm_verified := False \<rparr>, Some text))"

definition verifyDiskLocked :: "gateway_metrics \<Rightarrow> string option \<Rightarrow> metrics_error option" where
  "verifyDiskLocked m disk =
     (if \<not> gm_path m then None
      else if gm_dirty m then Some MetricsDirty
      else case disk of
             None \<Rightarrow> Some MetricsIO
           | Some data \<Rightarrow>
               (case decodeAndVerify (gm_key m) data of
                  Inl e \<Rightarrow> Some e
                | Inr p \<Rightarrow> if gm_lastHMAC m \<noteq> [] \<and> ps_HMACSHA256 p \<noteq> gm_lastHMAC m then Some MetricsForeign else None))"

definition resetLocked :: "gotime \<Rightarrow> gateway_metrics \<Rightarrow> gateway_metrics" where
  "resetLocked tm m = m\<lparr> gm_windowStarted := tm, gm_total := 0, gm_successful := 0, gm_failed := 0, gm_rejected := 0,
     gm_upstreamErrors := 0, gm_injections := 0, gm_durationTotal := 0, gm_durations := [], gm_eligibleDurations := [],
     gm_operations := [] \<rparr>"

definition rotateIfExpiredLocked :: "gotime \<Rightarrow> replace_outcome \<Rightarrow> gateway_metrics \<Rightarrow> string option
    \<Rightarrow> metrics_error option \<times> gateway_metrics \<times> string option" where
  "rotateIfExpiredLocked tm out m disk =
     (if gm_window m \<le> 0 \<or> tm < gm_windowStarted m + gm_window m then (None, m, disk)
      else let m = resetLocked tm m in
           if \<not> gm_path m then (None, m, disk)
           else persistLocked tm out (m\<lparr> gm_dirty := True \<rparr>) disk)"

text \<open>One request: \<open>out1\<close> is the outcome of the write of a rotation, \<open>out2\<close> that of the counters.\<close>

definition record_request :: "gotime \<Rightarrow> replace_outcome \<Rightarrow> replace_outcome \<Rightarrow> string \<Rightarrow> string \<Rightarrow> duration \<Rightarrow> bool \<Rightarrow> bool
    \<Rightarrow> gateway_metrics \<Rightarrow> string option \<Rightarrow> metrics_error option \<times> gateway_metrics \<times> string option" where
  "record_request tm out1 out2 operation outcome d injection upstreamError m disk =
     (let count = count_request operation outcome d injection upstreamError in
      if \<not> gm_path m then (None, count m, disk)
      else case verifyDiskLocked m disk of
             Some e \<Rightarrow> (Some e, m\<lparr> gm_verified := False \<rparr>, disk)
           | None \<Rightarrow>
               (case rotateIfExpiredLocked tm out1 m disk of
                  (Some e, m, disk) \<Rightarrow> (Some e, m, disk)
                | (None, m, disk) \<Rightarrow> persistLocked tm out2 ((count m)\<lparr> gm_dirty := True \<rparr>) disk))"

record metrics_snapshot =
  ms_Total :: "64 word"
  ms_Successful :: "64 word"
  ms_Failed :: "64 word"
  ms_Rejected :: "64 word"
  ms_UpstreamErrors :: "64 word"
  ms_InjectionSuspectedTotal :: "64 word"
  ms_AverageDurationMS :: int
  ms_P95DurationMS :: int
  ms_EligibleP95DurationMS :: int
  ms_Operations :: operations

text \<open>The sample at the rank of 95 percent, counted from one.\<close>

definition p95 :: "int list \<Rightarrow> int" where
  "p95 xs =
     (if xs = [] then 0
      else let i = (95 * length xs + 99) div 100 in sort xs ! ((if i < 1 then 1 else i) - 1))"

definition quotient :: "int \<Rightarrow> int \<Rightarrow> int" where
  "quotient a b = (if (a < 0) = (b < 0) then abs a div abs b else - (abs a div abs b))"

definition snapshotLocked :: "gateway_metrics \<Rightarrow> metrics_snapshot" where
  "snapshotLocked m =
     \<lparr> ms_Total = gm_total m, ms_Successful = gm_successful m, ms_Failed = gm_failed m, ms_Rejected = gm_rejected m,
       ms_UpstreamErrors = gm_upstreamErrors m, ms_InjectionSuspectedTotal = gm_injections m,
       ms_AverageDurationMS = (if gm_total m > 0 then quotient (gm_durationTotal m) (sint (gm_total m)) else 0),
       ms_P95DurationMS = p95 (gm_durations m), ms_EligibleP95DurationMS = p95 (gm_eligibleDurations m),
       ms_Operations = gm_operations m \<rparr>"

definition snapshot_metrics :: "gotime \<Rightarrow> replace_outcome \<Rightarrow> gateway_metrics \<Rightarrow> string option
    \<Rightarrow> metrics_snapshot \<times> gateway_metrics \<times> string option" where
  "snapshot_metrics tm out m disk =
     (case (if gm_path m \<and> gm_verified m
            then (case verifyDiskLocked m disk of
                    Some e \<Rightarrow> (m\<lparr> gm_verified := False \<rparr>, disk)
                  | None \<Rightarrow> snd (rotateIfExpiredLocked tm out m disk))
            else (m, disk)) of
        (m, disk) \<Rightarrow> (snapshotLocked m, m, disk))"

record metrics_state =
  mp_Verified :: bool
  mp_WindowStartedAt :: gotime
  mp_WindowEndsAt :: gotime
  mp_LastPersistedAt :: gotime
  mp_WindowSeconds :: int

definition State_metrics :: "gotime \<Rightarrow> replace_outcome \<Rightarrow> gateway_metrics \<Rightarrow> string option
    \<Rightarrow> metrics_state \<times> gateway_metrics \<times> string option" where
  "State_metrics tm out m disk =
     (case (if gm_path m \<and> gm_verified m
            then (case verifyDiskLocked m disk of
                    Some e \<Rightarrow> (m\<lparr> gm_verified := False \<rparr>, disk)
                  | None \<Rightarrow> (case rotateIfExpiredLocked tm out m disk of
                               (Some e, m, disk) \<Rightarrow> (m\<lparr> gm_verified := False \<rparr>, disk)
                             | (None, m, disk) \<Rightarrow> (m, disk)))
            else (m, disk)) of
        (m, disk) \<Rightarrow>
          (\<lparr> mp_Verified = (gm_verified m \<and> \<not> gm_dirty m), mp_WindowStartedAt = gm_windowStarted m,
             mp_WindowEndsAt = gm_windowStarted m + gm_window m, mp_LastPersistedAt = gm_lastPersisted m,
             mp_WindowSeconds = window_seconds (gm_window m) \<rparr>, m, disk))"

definition Close_metrics :: "gotime \<Rightarrow> replace_outcome \<Rightarrow> gateway_metrics \<Rightarrow> string option
    \<Rightarrow> metrics_error option \<times> gateway_metrics \<times> string option" where
  "Close_metrics tm out m disk =
     (if \<not> gm_path m \<or> \<not> gm_dirty m \<and> gm_verified m then (None, m, disk)
      else if \<not> gm_verified m then (Some MetricsUnverified, m, disk)
      else persistLocked tm out m disk)"

definition loadLocked :: "persisted_metrics \<Rightarrow> gateway_metrics \<Rightarrow> gateway_metrics" where
  "loadLocked p m = m\<lparr> gm_windowStarted := fst (ps_WindowStartedAt p), gm_lastPersisted := fst (ps_UpdatedAt p),
     gm_lastHMAC := ps_HMACSHA256 p, gm_verified := True, gm_dirty := False, gm_total := ps_Total p,
     gm_successful := ps_Successful p, gm_failed := ps_Failed p, gm_rejected := ps_Rejected p,
     gm_upstreamErrors := ps_UpstreamErrors p, gm_injections := ps_Injections p, gm_durationTotal := ps_DurationTotalMS p,
     gm_durations := (case ps_DurationsMS p of None \<Rightarrow> [] | Some xs \<Rightarrow> xs),
     gm_eligibleDurations := ps_EligibleDurationsMS p,
     gm_operations := (case ps_Operations p of None \<Rightarrow> [] | Some ops \<Rightarrow> ops) \<rparr>"

text \<open>Opening the file: absent, unreadable or its bytes.\<close>

datatype metrics_file = Absent | Unreadable | Content string

definition openGatewayMetrics :: "gotime \<Rightarrow> replace_outcome \<Rightarrow> string \<Rightarrow> duration \<Rightarrow> metrics_file
    \<Rightarrow> (metrics_error + gateway_metrics) \<times> string option" where
  "openGatewayMetrics tm out key window file =
     (let m = empty_metrics\<lparr> gm_path := True, gm_key := key, gm_window := window \<rparr>;
          kept = (case file of Content data \<Rightarrow> Some data | _ \<Rightarrow> None) in
      if length key < 32 then (Inl MetricsShortKey, kept)
      else case file of
             Absent \<Rightarrow>
               (case persistLocked tm out (m\<lparr> gm_windowStarted := tm, gm_dirty := True \<rparr>) None of
                  (Some e, m, disk) \<Rightarrow> (Inl e, disk)
                | (None, m, disk) \<Rightarrow> (Inr m, disk))
           | Unreadable \<Rightarrow> (Inl MetricsIO, kept)
           | Content data \<Rightarrow>
               if data = [] \<or> 1048576 < length data then (Inl MetricsSize, kept)
               else (case decodeAndVerify key data of
                       Inl e \<Rightarrow> (Inl e, kept)
                     | Inr p \<Rightarrow>
                         let m = loadLocked p m in
                         if ps_WindowSeconds p \<noteq> window_seconds window \<or> gm_windowStarted m + window \<le> tm then
                           (case persistLocked tm out ((resetLocked tm m)\<lparr> gm_dirty := True \<rparr>) kept of
                              (Some e, m, disk) \<Rightarrow> (Inl e, disk)
                            | (None, m, disk) \<Rightarrow> (Inr m, disk))
                         else (Inr m, kept)))"

section \<open>The service level\<close>

datatype slo_status = Healthy | Degraded | Observing

record slo_snapshot =
  sl_Status :: slo_status
  sl_AvailabilityPercent :: rat
  sl_AvailabilityTargetPercent :: rat
  sl_EligibleRequests :: "64 word"
  sl_P95DurationMS :: int
  sl_P95TargetMS :: int
  sl_AvailabilityWithinTarget :: bool
  sl_LatencyWithinTarget :: bool
  sl_AuditChainVerified :: bool
  sl_MetricsStateVerified :: bool
  sl_UpstreamReady :: bool
  sl_WindowStartedAt :: gotime
  sl_WindowEndsAt :: gotime

text \<open>Two decimals, half away from zero; no availability is negative.\<close>

definition round_percent :: "rat \<Rightarrow> rat" where
  "round_percent x = of_int \<lfloor>x * 100 + 1 / 2\<rfloor> / 100"

definition calculateSLO :: "metrics_snapshot \<Rightarrow> metrics_state \<Rightarrow> audit_state \<Rightarrow> bool \<Rightarrow> duration \<Rightarrow> rat \<Rightarrow> slo_snapshot" where
  "calculateSLO metrics st audit upstreamReady p95Target availabilityTarget =
     (let eligible = ms_Successful metrics + ms_Failed metrics;
          availability = round_percent
            (if eligible > 0 then of_int (uint (ms_Successful metrics)) * 100 / of_int (uint eligible) else 100);
          target = milliseconds p95Target;
          availabilityOK = (availabilityTarget \<le> availability);
          latencyOK = (eligible = 0 \<or> ms_EligibleP95DurationMS metrics \<le> target)
      in \<lparr> sl_Status =
             (if \<not> as_Verified audit \<or> \<not> mp_Verified st \<or> \<not> upstreamReady \<or> \<not> availabilityOK \<or> \<not> latencyOK then Degraded
              else if eligible = 0 then Observing else Healthy),
           sl_AvailabilityPercent = availability, sl_AvailabilityTargetPercent = availabilityTarget,
           sl_EligibleRequests = eligible, sl_P95DurationMS = ms_EligibleP95DurationMS metrics, sl_P95TargetMS = target,
           sl_AvailabilityWithinTarget = availabilityOK, sl_LatencyWithinTarget = latencyOK,
           sl_AuditChainVerified = as_Verified audit, sl_MetricsStateVerified = mp_Verified st,
           sl_UpstreamReady = upstreamReady, sl_WindowStartedAt = mp_WindowStartedAt st, sl_WindowEndsAt = mp_WindowEndsAt st \<rparr>)"

section \<open>The limiter\<close>

record rate_bucket =
  rb_tokens :: rat
  rb_last :: gotime
  rb_seen :: gotime

record token_limiter =
  tl_rate :: rat
  tl_capacity :: rat
  tl_buckets :: "string \<rightharpoonup> rate_bucket"
  tl_lastGC :: gotime

definition newTokenLimiter :: "int \<Rightarrow> int \<Rightarrow> gotime \<Rightarrow> token_limiter" where
  "newTokenLimiter ratePerMinute burst tm =
     \<lparr> tl_rate = of_int ratePerMinute / 60, tl_capacity = of_int burst, tl_buckets = Map.empty, tl_lastGC = tm \<rparr>"

definition seconds_of :: "duration \<Rightarrow> rat" where "seconds_of d = of_int d / 1000000000"

definition forget_idle :: "gotime \<Rightarrow> token_limiter \<Rightarrow> token_limiter" where
  "forget_idle tm l =
     (if 5 * minute \<le> tm - tl_lastGC l then
        l\<lparr> tl_buckets := (\<lambda>k. case tl_buckets l k of
                                None \<Rightarrow> None | Some b \<Rightarrow> if 15 * minute < tm - rb_seen b then None else Some b),
           tl_lastGC := tm \<rparr>
      else l)"

definition refill :: "rat \<Rightarrow> rat \<Rightarrow> gotime \<Rightarrow> rate_bucket \<Rightarrow> rat" where
  "refill rate capacity tm b =
     (if 0 < tm - rb_last b then min capacity (rb_tokens b + seconds_of (tm - rb_last b) * rate) else rb_tokens b)"

definition allow :: "string \<Rightarrow> gotime \<Rightarrow> token_limiter \<Rightarrow> bool \<times> token_limiter" where
  "allow key tm l =
     (let l = forget_idle tm l;
          b = (case tl_buckets l key of
                 None \<Rightarrow> \<lparr> rb_tokens = tl_capacity l, rb_last = tm, rb_seen = tm \<rparr> | Some b \<Rightarrow> b);
          tokens = refill (tl_rate l) (tl_capacity l) tm b;
          allowed = (1 \<le> tokens)
      in (allowed, l\<lparr> tl_buckets := (tl_buckets l)(key \<mapsto>
            \<lparr> rb_tokens = (if allowed then tokens - 1 else tokens), rb_last = tm, rb_seen = tm \<rparr>) \<rparr>))"

section \<open>How much the limiter lets through\<close>

text \<open>The tokens a key would have at a time if they came back at a rate \<open>r\<close>. The buckets of a limiter that has run until a
  time; \<open>r\<close> is at least its rate, and fills a bucket in the quarter of an hour after which an idle one is forgotten.\<close>

definition available :: "rat \<Rightarrow> token_limiter \<Rightarrow> string \<Rightarrow> gotime \<Rightarrow> rat" where
  "available r l k t =
     (case tl_buckets l k of
        None \<Rightarrow> tl_capacity l
      | Some b \<Rightarrow> min (tl_capacity l) (rb_tokens b + seconds_of (t - rb_last b) * r))"

definition limiter_ok :: "rat \<Rightarrow> token_limiter \<Rightarrow> gotime \<Rightarrow> bool" where
  "limiter_ok r l t \<longleftrightarrow> 0 \<le> tl_rate l \<and> tl_rate l \<le> r \<and> 0 \<le> tl_capacity l \<and> tl_capacity l \<le> 900 * r
     \<and> (\<forall>k b. tl_buckets l k = Some b \<longrightarrow> 0 \<le> rb_tokens b \<and> rb_tokens b \<le> tl_capacity l \<and> rb_last b \<le> t \<and> rb_seen b = rb_last b)"

lemma seconds_mono: "a \<le> b \<Longrightarrow> seconds_of a \<le> seconds_of b"
  by (simp add: seconds_of_def divide_right_mono)

lemma seconds_add: "seconds_of (a + b) = seconds_of a + seconds_of b"
  by (simp add: seconds_of_def add_divide_distrib)

lemma seconds_nonneg: "0 \<le> a \<Longrightarrow> 0 \<le> seconds_of a"
  by (simp add: seconds_of_def)

lemma limiter_ok_rate: "limiter_ok r l t \<Longrightarrow> 0 \<le> r"
  by (simp add: limiter_ok_def)

lemma forget_idle_keeps:
  assumes "limiter_ok r l t" "t \<le> t'"
  shows "limiter_ok r (forget_idle t' l) t'" "tl_rate (forget_idle t' l) = tl_rate l" "tl_capacity (forget_idle t' l) = tl_capacity l"
    "available r (forget_idle t' l) k t' = available r l k t'"
proof -
  show "limiter_ok r (forget_idle t' l) t'" "tl_rate (forget_idle t' l) = tl_rate l" "tl_capacity (forget_idle t' l) = tl_capacity l"
    using assms by (fastforce simp: forget_idle_def limiter_ok_def split: option.splits if_splits)+
  show "available r (forget_idle t' l) k t' = available r l k t'"
  proof (cases "tl_buckets l k")
    case None
    then show ?thesis by (simp add: forget_idle_def available_def)
  next
    case (Some b)
    show ?thesis
    proof (cases "15 * minute < t' - rb_seen b \<and> 5 * minute \<le> t' - tl_lastGC l")
      case True
      have b: "0 \<le> rb_tokens b" "rb_seen b = rb_last b" "0 \<le> r" "tl_capacity l \<le> 900 * r"
        using assms(1) Some by (auto simp: limiter_ok_def)
      have "900 \<le> seconds_of (t' - rb_last b)"
        using True b(2) seconds_mono [of "15 * minute" "t' - rb_last b"] by (simp add: seconds_of_def minute_def second_def)
      then have "900 * r \<le> seconds_of (t' - rb_last b) * r" using b(3) by (rule mult_right_mono)
      then have "tl_capacity l \<le> rb_tokens b + seconds_of (t' - rb_last b) * r" using b by linarith
      then show ?thesis using True Some by (simp add: forget_idle_def available_def)
    next
      case False
      then show ?thesis using Some by (auto simp: forget_idle_def available_def)
    qed
  qed
qed

lemma refill_available:
  assumes "limiter_ok r l t" "t \<le> t'" "tl_buckets l k = Some b"
  shows "refill (tl_rate l) (tl_capacity l) t' b \<le> available r l k t'" "0 \<le> refill (tl_rate l) (tl_capacity l) t' b"
    "refill (tl_rate l) (tl_capacity l) t' b \<le> tl_capacity l"
proof -
  have b: "0 \<le> rb_tokens b" "rb_tokens b \<le> tl_capacity l" "0 \<le> tl_rate l" "tl_rate l \<le> r" "0 \<le> seconds_of (t' - rb_last b)"
    using assms by (force simp: limiter_ok_def intro: seconds_nonneg)+
  have "seconds_of (t' - rb_last b) * tl_rate l \<le> seconds_of (t' - rb_last b) * r" "0 \<le> seconds_of (t' - rb_last b) * tl_rate l"
    using b mult_left_mono [OF b(4,5)] by simp_all
  then show "refill (tl_rate l) (tl_capacity l) t' b \<le> available r l k t'" "0 \<le> refill (tl_rate l) (tl_capacity l) t' b"
    "refill (tl_rate l) (tl_capacity l) t' b \<le> tl_capacity l"
    using b(1,2) assms(3) by (auto simp: refill_def available_def)
qed

lemma available_nonneg:
  assumes "limiter_ok r l t" "t \<le> t'"
  shows "0 \<le> available r l k t'"
proof (cases "tl_buckets l k")
  case None
  then show ?thesis using assms by (simp add: available_def limiter_ok_def)
next
  case (Some b)
  then have "0 \<le> refill (tl_rate l) (tl_capacity l) t' b" "refill (tl_rate l) (tl_capacity l) t' b \<le> available r l k t'"
    using refill_available [OF assms] by simp_all
  then show ?thesis by simp
qed

lemma available_later:
  assumes "limiter_ok r l t" "t \<le> t'" "t' \<le> t''"
  shows "available r l k t'' \<le> available r l k t' + seconds_of (t'' - t') * r"
proof -
  have r: "0 \<le> seconds_of (t'' - t') * r" using assms seconds_nonneg [of "t'' - t'"] limiter_ok_rate by simp
  show ?thesis
  proof (cases "tl_buckets l k")
    case (Some b)
    have "seconds_of (t'' - rb_last b) = seconds_of (t'' - t') + seconds_of (t' - rb_last b)"
      using seconds_add [of "t'' - t'" "t' - rb_last b"] by simp
    then have "rb_tokens b + seconds_of (t'' - rb_last b) * r
      = rb_tokens b + seconds_of (t' - rb_last b) * r + seconds_of (t'' - t') * r" by (simp add: algebra_simps)
    then show ?thesis using r Some by (auto simp: available_def min_def)
  qed (use r in \<open>simp add: available_def\<close>)
qed

text \<open>One request: the tokens of its key drop by one when it is allowed, those of the others stay.\<close>

lemma allow_available:
  assumes "limiter_ok r l t" "t \<le> t'" "allow key t' l = (ok, l')"
  shows "limiter_ok r l' t'" "available r l' k t' \<le> available r l k t' - (if ok \<and> k = key then 1 else 0)"
proof -
  define g where "g = forget_idle t' l"
  note f = forget_idle_keeps [OF assms(1,2), folded g_def]
  define b where "b = (case tl_buckets g key of None \<Rightarrow> \<lparr> rb_tokens = tl_capacity g, rb_last = t', rb_seen = t' \<rparr> | Some b \<Rightarrow> b)"
  define tokens where "tokens = refill (tl_rate g) (tl_capacity g) t' b"
  have tok: "tokens \<le> available r g key t'" "0 \<le> tokens" "tokens \<le> tl_capacity g"
    using refill_available [OF f(1) order_refl, of key] f(1)
    by (cases "tl_buckets g key"; simp add: tokens_def b_def refill_def available_def limiter_ok_def)+
  have new: "ok \<longleftrightarrow> 1 \<le> tokens" "l' = g\<lparr> tl_buckets := (tl_buckets g)(key \<mapsto>
      \<lparr> rb_tokens = (if 1 \<le> tokens then tokens - 1 else tokens), rb_last = t', rb_seen = t' \<rparr>) \<rparr>"
    using assms(3) unfolding allow_def Let_def g_def [symmetric] b_def [symmetric] tokens_def [symmetric] by auto
  show "limiter_ok r l' t'" using f(1) tok(2,3) new by (auto simp: limiter_ok_def)
  show "available r l' k t' \<le> available r l k t' - (if ok \<and> k = key then 1 else 0)"
  proof (cases "k = key")
    case True
    have "available r l' key t' = min (tl_capacity g) (if 1 \<le> tokens then tokens - 1 else tokens)"
      using new by (simp add: available_def seconds_of_def)
    also have "\<dots> = (if 1 \<le> tokens then tokens - 1 else tokens)" using tok(3) by (simp add: min_def)
    finally show ?thesis using True new(1) tok(1) f(4) [of key] by simp
  next
    case False
    then have "available r l' k t' = available r g k t'" using new(2) by (simp add: available_def split: option.split)
    then show ?thesis using False f(4) [of k] by simp
  qed
qed

text \<open>A run of requests, each of a key at a time; how many of one key pass.\<close>

primrec passed :: "string \<Rightarrow> (string \<times> gotime) list \<Rightarrow> token_limiter \<Rightarrow> nat" where
  "passed k [] l = 0"
| "passed k (q # qs) l =
     (case allow (fst q) (snd q) l of (ok, l') \<Rightarrow> (if ok \<and> fst q = k then 1 else 0) + passed k qs l')"

lemma passed_available:
  assumes "limiter_ok r l t" "sorted (t # map snd qs)" "\<forall>q \<in> set qs. snd q \<le> t'" "t \<le> t'"
  shows "of_nat (passed k qs l) \<le> available r l k t + seconds_of (t' - t) * r"
  using assms
proof (induction qs arbitrary: l t)
  case Nil
  then have "0 \<le> available r l k t" "0 \<le> seconds_of (t' - t) * r"
    using available_nonneg [of r l t t k] seconds_nonneg [of "t' - t"] limiter_ok_rate by auto
  then show ?case by simp
next
  case (Cons q qs)
  obtain ok l' where a: "allow (fst q) (snd q) l = (ok, l')" by (cases "allow (fst q) (snd q) l")
  have t: "t \<le> snd q" "snd q \<le> t'" using Cons.prems(2,3) by auto
  note al = allow_available [OF Cons.prems(1) t(1) a]
  have "of_nat (passed k qs l') \<le> available r l' k (snd q) + seconds_of (t' - snd q) * r"
    using Cons.IH [OF al(1)] Cons.prems(2,3) t(2) by simp
  moreover have "available r l k (snd q) \<le> available r l k t + seconds_of (snd q - t) * r"
    by (rule available_later [OF Cons.prems(1) order_refl t(1)])
  moreover have "seconds_of (t' - t) = seconds_of (t' - snd q) + seconds_of (snd q - t)"
    using seconds_add [of "t' - snd q" "snd q - t"] by simp
  moreover have "of_nat (passed k (q # qs) l) = (if ok \<and> k = fst q then 1 else 0) + (of_nat (passed k qs l') :: rat)"
    using a by auto
  ultimately show ?case using al(2) [of k] by (simp add: algebra_simps)
qed

text \<open>C18: a limiter lets no more requests of a key through than its burst and what comes back in the time, however the
  requests of other keys lie between them. What comes back is the rate per minute or, when that is more, the burst per
  quarter of an hour, because the bucket of a key that was idle so long is forgotten and starts full again.\<close>

theorem limiter_bound:
  assumes "0 \<le> ratePerMinute" "0 \<le> burst" "sorted (start # map snd qs)" "\<forall>q \<in> set qs. snd q \<le> finish" "start \<le> finish"
  shows "of_nat (passed k qs (newTokenLimiter ratePerMinute burst start))
    \<le> of_int burst + seconds_of (finish - start) * max (of_int ratePerMinute / 60) (of_int burst / 900)"
proof -
  let ?l = "newTokenLimiter ratePerMinute burst start" and ?r = "max (of_int ratePerMinute / 60) (of_int burst / 900) :: rat"
  have "limiter_ok ?r ?l start" using assms(1,2) by (simp add: limiter_ok_def newTokenLimiter_def le_max_iff_disj)
  from passed_available [OF this assms(3-5), of k]
  show ?thesis by (simp add: available_def newTokenLimiter_def)
qed

theorem limiter_bound_witness:
  "of_nat (passed ''u'' [(''u'', 0), (''v'', 0), (''u'', second)] (newTokenLimiter 12 4 0))
    \<le> of_int 4 + seconds_of (second - 0) * max (of_int 12 / 60) (of_int 4 / 900)"
  by (rule limiter_bound) (simp_all add: second_def)

text \<open>A bucket that is forgotten while it owes tokens starts full again, so the rate alone does not bound the requests
  when the burst is more than a quarter of an hour of refills.\<close>

lemma idle_bucket_full:
  "15 * minute < tm - rb_seen b \<Longrightarrow> tl_buckets l k = Some b \<Longrightarrow> 5 * minute \<le> tm - tl_lastGC l \<Longrightarrow>
   tl_buckets (forget_idle tm l) k = None"
  by (simp add: forget_idle_def)

section \<open>The percentile\<close>

lemma length_filter_sort: "length (filter P (sort xs)) = length (filter P xs)" for xs :: "int list"
proof -
  have "mset (filter P (sort xs)) = mset (filter P xs)" by simp
  then show ?thesis by (rule mset_eq_length)
qed

theorem p95_rank:
  assumes "xs \<noteq> []"
  shows "p95 xs \<in> set xs \<and> 95 * length xs \<le> 100 * length (filter (\<lambda>x. x \<le> p95 xs) xs)
    \<and> 100 * length (filter (\<lambda>x. x < p95 xs) xs) < 95 * length xs"
proof -
  define n where "n = length xs"
  define i where "i = (95 * n + 99) div 100"
  have n: "0 < n" using assms by (simp add: n_def)
  have "i * 100 + (95 * n + 99) mod 100 = 95 * n + 99" "(95 * n + 99) mod 100 < 100" unfolding i_def by simp_all
  then have i: "1 \<le> i" "i \<le> n" "95 * n \<le> 100 * i" "100 * (i - 1) < 95 * n" using n by linarith+
  define ys v where "ys = sort xs" and "v = ys ! (i - 1)"
  have p: "p95 xs = v" using assms i(1) by (simp add: p95_def Let_def v_def ys_def i_def n_def)
  have len: "length ys = n" by (simp add: ys_def n_def)
  have srt: "sorted ys" by (simp add: ys_def)
  have split: "length (filter P ys) = length (filter P (take j ys)) + length (filter P (drop j ys))" for P j
    by (metis append_take_drop_id filter_append length_append)
  have "\<forall>x \<in> set (take i ys). x \<le> v"
    using sorted_nth_mono [OF srt] i len by (auto simp: in_set_conv_nth v_def)
  then have "filter (\<lambda>x. x \<le> v) (take i ys) = take i ys" by simp
  then have "i \<le> length (filter (\<lambda>x. x \<le> v) ys)"
    using i(2) len unfolding split [of "\<lambda>x. x \<le> v" i] by simp
  moreover have "v \<le> x" if x: "x \<in> set (drop (i - 1) ys)" for x
  proof -
    from x obtain j where j: "j < n - (i - 1)" "x = ys ! (i - 1 + j)" using len i by (auto simp: in_set_conv_nth)
    then show ?thesis using sorted_nth_mono [OF srt, of "i - 1" "i - 1 + j"] i len by (simp add: v_def)
  qed
  then have "filter (\<lambda>x. x < v) (drop (i - 1) ys) = []" by (auto simp: filter_empty_conv leD)
  then have "length (filter (\<lambda>x. x < v) ys) = length (filter (\<lambda>x. x < v) (take (i - 1) ys))"
    unfolding split [of "\<lambda>x. x < v" "i - 1"] by simp
  then have "length (filter (\<lambda>x. x < v) ys) \<le> i - 1"
    using length_filter_le [of "\<lambda>x. x < v" "take (i - 1) ys"] by simp
  moreover have "v \<in> set xs" using i len nth_mem [of "i - 1" ys] by (simp add: v_def ys_def)
  ultimately show ?thesis using i p unfolding ys_def length_filter_sort n_def [symmetric] by auto
qed

end
