(* ===== verification/MetricsFile.thy ===== *)
theory MetricsFile
  imports GatewayMetrics
begin

text \<open>
  The file of the gateway's metrics: the counters stay consistent, and a state that was written is read back as it was,
  by the running gateway and by the next one. A write that fails, or a clock that is set back before the window
  began, stops the metrics for good.
\<close>

section \<open>Consistent counters\<close>

definition names_sorted :: "operations \<Rightarrow> bool" where
  "names_sorted ops \<longleftrightarrow> sorted_wrt (<) (map fst ops)"

definition samples_ok :: "int list \<Rightarrow> bool" where
  "samples_ok xs \<longleftrightarrow> length xs \<le> 512 \<and> list_all (\<lambda>x. 0 \<le> x \<and> x \<le> 9223372036854) xs"

definition metrics_ok :: "gateway_metrics \<Rightarrow> bool" where
  "metrics_ok m \<longleftrightarrow>
     gm_total m = gm_successful m + gm_failed m + gm_rejected m
     \<and> op_sum om_Total (gm_operations m) = gm_total m \<and> op_sum om_Successful (gm_operations m) = gm_successful m
     \<and> op_sum om_Failed (gm_operations m) = gm_failed m \<and> op_sum om_Rejected (gm_operations m) = gm_rejected m
     \<and> list_all operation_consistent (gm_operations m) \<and> list_all (valid_utf8 \<circ> fst) (gm_operations m)
     \<and> names_sorted (gm_operations m)
     \<and> samples_ok (gm_durations m) \<and> samples_ok (gm_eligibleDurations m)
     \<and> sum_list (gm_durations m) \<le> gm_durationTotal m \<and> gm_durationTotal m < 2 ^ 63"

lemma empty_metrics_ok: "metrics_ok (newGatewayMetrics tm)" "metrics_ok (resetLocked tm m)"
  by (simp_all add: metrics_ok_def newGatewayMetrics_def empty_metrics_def resetLocked_def op_sum_def names_sorted_def
      samples_ok_def)

lemma op_sum_Cons [simp]: "op_sum f ((k, v) # ops) = f v + op_sum f ops"
  by (simp add: op_sum_def)

lemma get_op_Cons [simp]: "get_op ((k', v) # ops) k = (if k = k' then v else get_op ops k)"
  by (simp add: get_op_def)

lemma names_sorted_Cons [simp]: "names_sorted ((k, v) # ops) \<longleftrightarrow> (\<forall>k' \<in> fst ` set ops. k < k') \<and> names_sorted ops"
  by (auto simp: names_sorted_def)

lemma put_op_names: "fst ` set (put_op k v ops) = insert k (fst ` set ops)"
  by (induction k v ops rule: put_op.induct) auto

lemma put_op_sorted: "names_sorted ops \<Longrightarrow> names_sorted (put_op k v ops)"
  by (induction k v ops rule: put_op.induct) (auto simp: put_op_names names_sorted_def [of "[]"] sorted_wrt.simps)

lemma put_op_all: "list_all P ops \<Longrightarrow> P (k, v) \<Longrightarrow> list_all P (put_op k v ops)"
  by (induction k v ops rule: put_op.induct) auto

lemma get_op_absent: "k \<notin> fst ` set ops \<Longrightarrow> get_op ops k = zero_operation"
  by (auto simp: get_op_def split: option.split dest: map_of_SomeD intro: rev_image_eqI)

lemma put_op_sum:
  "names_sorted ops \<Longrightarrow> f zero_operation = 0 \<Longrightarrow> op_sum f (put_op k v ops) = op_sum f ops - f (get_op ops k) + f v"
proof (induction k v ops rule: put_op.induct)
  case (1 k v)
  then show ?case by (simp add: op_sum_def get_op_def)
next
  case (2 k v k' v' ops)
  show ?case
  proof (cases "k = k'")
    case False
    then show ?thesis
    proof (cases "k < k'")
      case True
      then have "k \<notin> fst ` set ops" using 2(2) by auto
      then show ?thesis using True False get_op_absent 2(3) by simp
    next
      case no: False
      then show ?thesis using 2 False by simp
    qed
  qed simp
qed

lemma get_op_consistent:
  "list_all operation_consistent ops \<Longrightarrow> om_Total (get_op ops k) = om_Successful (get_op ops k) + om_Failed (get_op ops k) + om_Rejected (get_op ops k)"
  by (fastforce simp: get_op_def list_all_iff operation_consistent_def zero_operation_def split: option.split dest: map_of_SomeD)

lemma count_outcome_fields:
  "om_Total (count_outcome out v) = om_Total v + 1"
  "om_Successful (count_outcome out v) = om_Successful v + (if out = ''success'' then 1 else 0)"
  "om_Rejected (count_outcome out v) = om_Rejected v + (if out = ''rejected'' then 1 else 0)"
  "om_Failed (count_outcome out v) = om_Failed v + (if out = ''success'' \<or> out = ''rejected'' then 0 else 1)"
  by (simp_all add: count_outcome_def Let_def)

lemma push_sample_ok: "samples_ok xs \<Longrightarrow> 0 \<le> x \<Longrightarrow> x \<le> 9223372036854 \<Longrightarrow> samples_ok (push_sample x xs)"
  by (cases xs) (auto simp: samples_ok_def push_sample_def)

lemma push_sample_sum: "samples_ok xs \<Longrightarrow> sum_list (push_sample x xs) \<le> sum_list xs + x"
  by (cases xs) (auto simp: samples_ok_def push_sample_def)

lemma milliseconds_range: "int64 d \<Longrightarrow> 0 \<le> max 0 (milliseconds d) \<and> max 0 (milliseconds d) \<le> 9223372036854"
  by (auto simp: milliseconds_def int64_def)

lemma wrap64_id: "- (2 ^ 63) \<le> i \<Longrightarrow> i < 2 ^ 63 \<Longrightarrow> wrap64 i = i"
  by (simp add: wrap64_def signed_of_int signed_take_bit_int_eq_self)

text \<open>Counting a request keeps the counters consistent, until the milliseconds overflow 63 bits.\<close>

lemma count_request_ok:
  assumes "metrics_ok m" "int64 d" "valid_utf8 operation" "operation \<noteq> []"
    and no_overflow: "gm_durationTotal m + max 0 (milliseconds d) < 2 ^ 63"
  shows "metrics_ok (count_request operation out d injection upstreamError m)"
proof -
  let ?ops = "gm_operations m" and ?x = "max 0 (milliseconds d)"
  let ?v = "count_outcome out (get_op ?ops operation)"
  have srt: "names_sorted ?ops" and con: "list_all operation_consistent ?ops" using assms(1) by (simp_all add: metrics_ok_def)
  note z = zero_operation_def
  have sums: "op_sum om_Total (put_op operation ?v ?ops) = op_sum om_Total ?ops + 1"
    "op_sum om_Successful (put_op operation ?v ?ops) = op_sum om_Successful ?ops + (if out = ''success'' then 1 else 0)"
    "op_sum om_Rejected (put_op operation ?v ?ops) = op_sum om_Rejected ?ops + (if out = ''rejected'' then 1 else 0)"
    "op_sum om_Failed (put_op operation ?v ?ops) = op_sum om_Failed ?ops + (if out = ''success'' \<or> out = ''rejected'' then 0 else 1)"
    by (simp_all add: put_op_sum [OF srt] z count_outcome_fields)
  have consistent: "operation_consistent (operation, ?v)"
    using get_op_consistent [OF con, of operation] assms(4) by (simp add: operation_consistent_def count_outcome_fields)
  have x: "0 \<le> ?x" "?x \<le> 9223372036854" using milliseconds_range [OF assms(2)] by blast+
  have pos: "0 \<le> sum_list (gm_durations m)"
    using assms(1) by (intro sum_list_nonneg) (auto simp: metrics_ok_def samples_ok_def list_all_iff)
  then have w: "wrap64 (gm_durationTotal m + ?x) = gm_durationTotal m + ?x"
    using no_overflow x(1) assms(1) by (intro wrap64_id) (auto simp: metrics_ok_def)
  show ?thesis
    using assms(1,3) sums consistent put_op_sorted [OF srt] push_sample_ok [OF _ x] push_sample_sum [of "gm_durations m" ?x]
      put_op_all [of operation_consistent ?ops operation ?v] put_op_all [of "valid_utf8 \<circ> fst" ?ops operation ?v]
      no_overflow
    by (auto simp: metrics_ok_def count_request_def Let_def w)
qed

section \<open>The round trip\<close>

lemma element_int_str: "int64 i \<Longrightarrow> element_int (VNum (int_str i)) = Some i"
  by (simp add: element_int_def int64_def literal_int_str)

lemma set_members_ints:
  "map_of fs (fold_name k) = Some (put_ints f) \<Longrightarrow> list_all int64 xs \<Longrightarrow>
   set_members fs ((k, val_of (ints_json xs)) # kvs) x = set_members fs kvs (f (Some xs) x)"
proof -
  assume k: "map_of fs (fold_name k) = Some (put_ints f)" and ok: "list_all int64 xs"
  have "list_all (\<lambda>v. element_int v \<noteq> None) (map (\<lambda>i. VNum (int_str i)) xs)"
    using ok by (simp add: list_all_iff element_int_str)
  moreover have "List.map_filter element_int (map (\<lambda>i. VNum (int_str i)) xs) = xs"
    using ok by (induction xs) (simp_all add: List.map_filter_def element_int_str)
  ultimately show ?thesis using k by (simp add: set_member_def put_ints_def ints_json_def comp_def)
qed

lemma set_members_null:
  "map_of fs (fold_name k) = Some (put_ints f) \<Longrightarrow> set_members fs ((k, VNull) # kvs) x = set_members fs kvs (f None x)"
  by (simp add: set_member_def put_ints_def)

lemma operation_names [simp]:
  "fold_name ''total'' = ''total''" "fold_name ''successful'' = ''successful''" "fold_name ''failed'' = ''failed''"
  "fold_name ''rejected'' = ''rejected''"
  by code_simp+

lemma operation_setter:
  "map_of operation_setters (fold_name ''total'') = Some (put_uint64 (\<lambda>v. om_Total_update (\<lambda>_. v)))"
  "map_of operation_setters (fold_name ''successful'') = Some (put_uint64 (\<lambda>v. om_Successful_update (\<lambda>_. v)))"
  "map_of operation_setters (fold_name ''failed'') = Some (put_uint64 (\<lambda>v. om_Failed_update (\<lambda>_. v)))"
  "map_of operation_setters (fold_name ''rejected'') = Some (put_uint64 (\<lambda>v. om_Rejected_update (\<lambda>_. v)))"
  by (simp_all add: operation_setters_def del: fold_name.simps)

lemma decode_operation: "decode_struct operation_setters zero_operation (val_of (operation_json v)) = Some v"
  by (simp add: decode_struct_def operation_json_def set_members_uint64 [OF operation_setter(1)]
      set_members_uint64 [OF operation_setter(2)] set_members_uint64 [OF operation_setter(3)]
      set_members_uint64 [OF operation_setter(4)] zero_operation_def del: set_members.simps(2))

lemma put_op_last: "\<forall>k' \<in> fst ` set ops. k' < k \<Longrightarrow> put_op k v ops = ops @ [(k, v)]"
  by (induction k v ops rule: put_op.induct) (auto dest: less_asym)

lemma decode_ops_json:
  "names_sorted (ops @ ops') \<Longrightarrow> decode_ops (map (\<lambda>(k, v). (k, val_of (operation_json v))) ops') ops = Some (ops @ ops')"
proof (induction ops' arbitrary: ops)
  case (Cons kv ops')
  obtain k v where kv: "kv = (k, v)" by (cases kv)
  have "\<forall>k' \<in> fst ` set ops. k' < k" using Cons.prems by (auto simp: names_sorted_def sorted_wrt_append kv)
  then show ?case using Cons.IH [of "ops @ [kv]"] Cons.prems by (simp add: kv decode_operation put_op_last)
qed simp

lemma set_members_operations:
  "names_sorted ops \<Longrightarrow> ps_Operations p = None \<Longrightarrow>
   set_members persisted_setters ((''operations'', val_of (JObj (map (\<lambda>(k, v). (k, operation_json v)) ops))) # kvs) p =
     set_members persisted_setters kvs (p\<lparr> ps_Operations := Some ops \<rparr>)"
proof -
  assume ops: "names_sorted ops" "ps_Operations p = None"
  have f: "fold_name ''operations'' = ''operations''" by code_simp
  have "decode_ops (map (\<lambda>(k, v). (k, val_of (operation_json v))) ops) [] = Some ops"
    using decode_ops_json [of "[]" ops] ops(1) by simp
  moreover have "map_of persisted_setters ''operations'' = Some put_operations" by (simp add: persisted_setters_def)
  ultimately show ?thesis using ops(2) by (simp add: set_member_def f put_operations_def comp_def case_prod_beta' del: fold_name.simps)
qed

lemma persisted_names [simp]:
  "fold_name ''schema'' = ''schema''" "fold_name ''window_started_at'' = ''window_started_at''"
  "fold_name ''window_seconds'' = ''window_seconds''" "fold_name ''updated_at'' = ''updated_at''"
  "fold_name ''upstream_errors'' = ''upstream_errors''" "fold_name ''injections'' = ''injections''"
  "fold_name ''duration_total_ms'' = ''duration_total_ms''" "fold_name ''durations_ms'' = ''durations_ms''"
  "fold_name ''eligible_durations_ms'' = ''eligible_durations_ms''" "fold_name ''hmac_sha256'' = ''hmac_sha256''"
  by code_simp+

lemma persisted_setter:
  "map_of persisted_setters (fold_name ''schema'') = Some (put_string (\<lambda>v. ps_Schema_update (\<lambda>_. v)))"
  "map_of persisted_setters (fold_name ''window_started_at'') = Some (put_time (\<lambda>v. ps_WindowStartedAt_update (\<lambda>_. v)))"
  "map_of persisted_setters (fold_name ''window_seconds'') = Some (put_int64 (\<lambda>v. ps_WindowSeconds_update (\<lambda>_. v)))"
  "map_of persisted_setters (fold_name ''updated_at'') = Some (put_time (\<lambda>v. ps_UpdatedAt_update (\<lambda>_. v)))"
  "map_of persisted_setters (fold_name ''total'') = Some (put_uint64 (\<lambda>v. ps_Total_update (\<lambda>_. v)))"
  "map_of persisted_setters (fold_name ''successful'') = Some (put_uint64 (\<lambda>v. ps_Successful_update (\<lambda>_. v)))"
  "map_of persisted_setters (fold_name ''failed'') = Some (put_uint64 (\<lambda>v. ps_Failed_update (\<lambda>_. v)))"
  "map_of persisted_setters (fold_name ''rejected'') = Some (put_uint64 (\<lambda>v. ps_Rejected_update (\<lambda>_. v)))"
  "map_of persisted_setters (fold_name ''upstream_errors'') = Some (put_uint64 (\<lambda>v. ps_UpstreamErrors_update (\<lambda>_. v)))"
  "map_of persisted_setters (fold_name ''injections'') = Some (put_uint64 (\<lambda>v. ps_Injections_update (\<lambda>_. v)))"
  "map_of persisted_setters (fold_name ''duration_total_ms'') = Some (put_int64 (\<lambda>v. ps_DurationTotalMS_update (\<lambda>_. v)))"
  "map_of persisted_setters (fold_name ''durations_ms'') = Some (put_ints (\<lambda>v. ps_DurationsMS_update (\<lambda>_. v)))"
  "map_of persisted_setters (fold_name ''eligible_durations_ms'') =
     Some (put_ints (\<lambda>v. ps_EligibleDurationsMS_update (\<lambda>_. case v of None \<Rightarrow> [] | Some xs \<Rightarrow> xs)))"
  "map_of persisted_setters (fold_name ''hmac_sha256'') = Some (put_string (\<lambda>v. ps_HMACSHA256_update (\<lambda>_. v)))"
  by (simp_all add: persisted_setters_def del: fold_name.simps)

lemmas persisted_steps =
  set_members_string [OF persisted_setter(1)] set_members_time [OF persisted_setter(2)] set_members_int64 [OF persisted_setter(3)]
  set_members_time [OF persisted_setter(4)] set_members_uint64 [OF persisted_setter(5)] set_members_uint64 [OF persisted_setter(6)]
  set_members_uint64 [OF persisted_setter(7)] set_members_uint64 [OF persisted_setter(8)] set_members_uint64 [OF persisted_setter(9)]
  set_members_uint64 [OF persisted_setter(10)] set_members_int64 [OF persisted_setter(11)] set_members_ints [OF persisted_setter(12)]
  set_members_null [OF persisted_setter(12)] set_members_ints [OF persisted_setter(13)] set_members_string [OF persisted_setter(14)]
  set_members_operations

text \<open>What a gateway writes.\<close>

definition persisted_ok :: "persisted_metrics \<Rightarrow> bool" where
  "persisted_ok p \<longleftrightarrow>
     valid_utf8 (ps_Schema p) \<and> valid_utf8 (ps_HMACSHA256 p)
     \<and> snd (ps_WindowStartedAt p) = 0 \<and> printable (fst (ps_WindowStartedAt p))
     \<and> snd (ps_UpdatedAt p) = 0 \<and> printable (fst (ps_UpdatedAt p)) \<and> int64 (ps_WindowSeconds p) \<and> int64 (ps_DurationTotalMS p)
     \<and> (case ps_DurationsMS p of None \<Rightarrow> True | Some xs \<Rightarrow> list_all int64 xs) \<and> list_all int64 (ps_EligibleDurationsMS p)
     \<and> (case ps_Operations p of None \<Rightarrow> False | Some ops \<Rightarrow> names_sorted ops \<and> list_all (valid_utf8 \<circ> fst) ops)"

lemma decode_persisted_json:
  assumes "persisted_ok p"
  shows "decode_struct persisted_setters zero_persisted (val_of (persisted_json p)) = Some p"
proof -
  obtain t u where t: "ps_WindowStartedAt p = (t, 0)" "printable t" "ps_UpdatedAt p = (u, 0)" "printable u"
    using assms by (cases "ps_WindowStartedAt p"; cases "ps_UpdatedAt p") (simp add: persisted_ok_def)
  have time: "parse_rfc3339 (rfc3339_zoned (t, 0)) = Some (t, 0)" "parse_rfc3339 (rfc3339_zoned (u, 0)) = Some (u, 0)"
    using parse_rfc3339_nano t by (simp_all add: rfc3339_zoned_utc)
  obtain ops where ops: "ps_Operations p = Some ops" "names_sorted ops"
    using assms by (auto simp: persisted_ok_def split: option.splits)
  have "set_members persisted_setters (map (\<lambda>(k, v). (k, val_of v)) (case persisted_json p of JObj fs \<Rightarrow> fs)) zero_persisted = Some p"
    using assms unfolding persisted_json_def json.case map_append append_assoc persisted_ok_def
    by (cases "ps_DurationsMS p"; cases "ps_EligibleDurationsMS p = []")
      (simp_all add: persisted_steps time zero_persisted_def t ops del: set_members.simps(2) val_of.simps(5,6))
  then show ?thesis by (simp add: decode_struct_def persisted_json_def)
qed

text \<open>The printed text, with the line break that ends the file.\<close>

lemma json_parse_line:
  assumes "utf8_ok v" "depth (val_of v) \<le> 10000"
  shows "json_parse (json_enc v @ [CHR 0x0A]) = Some (val_of v)"
proof -
  have "num_stop [CHR 0x0A]" by (simp add: num_stop_def digit_char_def)
  then have "p_value (Suc (length (json_enc v @ [CHR 0x0A]))) (json_enc v @ [CHR 0x0A]) = Some (val_of v, [CHR 0x0A])"
    using reads_printed(1) [OF assms(1)] unfolding reads_def by (simp del: p_value.simps)
  then show ?thesis unfolding json_parse_def using assms(2) by (simp add: skip_ws_def json_ws_def del: p_value.simps)
qed

lemma persisted_names_valid:
  "valid_utf8 ''schema''" "valid_utf8 ''window_started_at''" "valid_utf8 ''window_seconds''" "valid_utf8 ''updated_at''"
  "valid_utf8 ''total''" "valid_utf8 ''successful''" "valid_utf8 ''failed''" "valid_utf8 ''rejected''"
  "valid_utf8 ''upstream_errors''" "valid_utf8 ''injections''" "valid_utf8 ''duration_total_ms''" "valid_utf8 ''durations_ms''"
  "valid_utf8 ''eligible_durations_ms''" "valid_utf8 ''operations''" "valid_utf8 ''hmac_sha256''"
  by (auto intro!: valid_ascii)

lemma utf8_ok_persisted: "persisted_ok p \<Longrightarrow> utf8_ok (persisted_json p)"
proof -
  assume ok: "persisted_ok p"
  have t: "valid_utf8 (rfc3339_zoned z)" if "snd z = 0" for z :: zoned
    using that by (cases z) (auto simp: rfc3339_zoned_utc list_all_iff intro!: valid_ascii dest: rfc3339_nano_ascii)
  have i: "utf8_ok (ints_json xs)" for xs by (simp add: ints_json_def list_all_iff)
  have o: "utf8_ok (operation_json v)" for v by (simp add: operation_json_def persisted_names_valid)
  show ?thesis using ok t
    by (auto simp: persisted_json_def persisted_ok_def persisted_names_valid i o list_all_iff split: option.splits)
qed

lemma depth_foldr: "\<forall>x \<in> set xs. f x \<le> n \<Longrightarrow> foldr (\<lambda>x. max (f x)) xs 0 \<le> (n :: nat)"
  by (induction xs) auto

lemma depth_persisted: "depth (val_of (persisted_json p)) \<le> 10000"
proof -
  have i: "depth (val_of (ints_json xs)) \<le> 9000" for xs
    using depth_foldr [of "map val_of (map JInt xs)" depth 0] by (auto simp: ints_json_def)
  have o: "depth (val_of (operation_json v)) \<le> 8000" for v by (simp add: operation_json_def)
  have m: "depth (val_of (JObj (map (\<lambda>(k, v). (k, operation_json v)) ops))) \<le> 9000" for ops
    using depth_foldr [of "map (\<lambda>(k, v). (k, val_of (operation_json v))) ops" "\<lambda>kv. depth (snd kv)" 8000] o
    by (auto simp: comp_def case_prod_beta')
  have "\<forall>kv \<in> set (case persisted_json p of JObj fs \<Rightarrow> fs). depth (val_of (snd kv)) \<le> 9000"
    using i m by (auto simp: persisted_json_def simp del: val_of.simps(6) split: option.split)
  then have "depth (val_of (JObj (case persisted_json p of JObj fs \<Rightarrow> fs))) \<le> Suc 9000"
    using depth_foldr [of "map (\<lambda>(k, v). (k, val_of v)) (case persisted_json p of JObj fs \<Rightarrow> fs)" "\<lambda>kv. depth (snd kv)" 9000]
    by (auto simp: comp_def case_prod_beta')
  then show ?thesis by (simp add: persisted_json_def)
qed

lemma decode_persisted_line: "persisted_ok p \<Longrightarrow> decode_persisted (json_enc (persisted_json p) @ [CHR 0x0A]) = Some p"
  by (simp add: decode_persisted_def json_parse_line utf8_ok_persisted depth_persisted decode_persisted_json)

section \<open>Reading back\<close>

text \<open>The settings and times of a gateway, as its configuration allows them.\<close>

definition times_ok :: "gateway_metrics \<Rightarrow> gotime \<Rightarrow> bool" where
  "times_ok m tm \<longleftrightarrow> hour \<le> gm_window m \<and> gm_window m \<le> 31 * 24 * hour \<and> printable tm \<and> printable (gm_windowStarted m)
     \<and> 0 < gm_windowStarted m"

lemma sampled_sum:
  assumes "samples_ok xs"
  shows "sampled xs = sum_list xs"
proof -
  have step: "foldl (\<lambda>a x. wrap64 (a + x)) a xs = a + sum_list xs"
    if "list_all (\<lambda>x. 0 \<le> x \<and> x \<le> 9223372036854) xs" "0 \<le> a" "a + 9223372036854 * int (length xs) < 2 ^ 63" for a xs
    using that
  proof (induction xs arbitrary: a)
    case (Cons x xs)
    then have "wrap64 (a + x) = a + x" by (intro wrap64_id) auto
    moreover have "foldl (\<lambda>a x. wrap64 (a + x)) (a + x) xs = a + x + sum_list xs"
      using Cons.prems by (intro Cons.IH) auto
    ultimately show ?case by simp
  qed simp
  show ?thesis using step [of xs 0] assms by (simp add: sampled_def samples_ok_def)
qed

lemma persisted_of_ok: "metrics_ok m \<Longrightarrow> times_ok m tm \<Longrightarrow> persisted_ok (signed_state m tm)"
proof -
  assume m: "metrics_ok m" and t: "times_ok m tm"
  have s: "valid_utf8 metrics_schema" by (auto simp: metrics_schema_def intro!: valid_ascii)
  have h: "valid_utf8 (signState k p)" for k p by (rule hex_valid) (simp add: signState_def hex_encode_lower_hex)
  have w: "0 \<le> window_seconds (gm_window m) \<and> window_seconds (gm_window m) \<le> 2678400"
  proof -
    have "0 \<le> gm_window m" using t by (simp add: times_ok_def hour_def minute_def second_def)
    moreover have "gm_window m div second \<le> 31 * 24 * hour div second"
      using t by (intro zdiv_mono1) (simp_all add: times_ok_def second_def)
    ultimately show ?thesis
      by (simp add: window_seconds_def second_def hour_def minute_def pos_imp_zdiv_nonneg_iff)
  qed
  have ints: "list_all int64 xs" if "samples_ok xs" for xs using that by (auto simp: samples_ok_def list_all_iff int64_def)
  have "0 \<le> sum_list (gm_durations m)"
    using m by (intro sum_list_nonneg) (auto simp: metrics_ok_def samples_ok_def list_all_iff)
  then have "int64 (gm_durationTotal m)" using m by (auto simp: metrics_ok_def int64_def)
  then show ?thesis using m t s h w ints
    by (auto simp: persisted_ok_def signed_state_def persisted_of_def metrics_ok_def times_ok_def nil_if_empty_def int64_def)
qed

lemma nil_if_empty [simp]: "(case nil_if_empty xs of None \<Rightarrow> [] | Some ys \<Rightarrow> ys) = xs"
  by (simp add: nil_if_empty_def)

definition state_text :: "gateway_metrics \<Rightarrow> gotime \<Rightarrow> string" where
  "state_text m tm = json_enc (persisted_json (signed_state m tm)) @ [CHR 0x0A]"

lemma decodeAndVerify_state:
  assumes "metrics_ok m" "times_ok m tm"
  shows "decodeAndVerify (gm_key m) (state_text m tm) =
    (if tm < gm_windowStarted m then Inl MetricsTimestamps else Inr (signed_state m tm))"
proof -
  have d: "decode_persisted (state_text m tm) = Some (signed_state m tm)"
    unfolding state_text_def by (rule decode_persisted_line [OF persisted_of_ok [OF assms]])
  have w: "3600 \<le> window_seconds (gm_window m) \<and> window_seconds (gm_window m) \<le> 31 * 24 * 3600"
  proof -
    have "hour div second \<le> gm_window m div second" "gm_window m div second \<le> 31 * 24 * hour div second"
      using assms(2) by (auto intro!: zdiv_mono1 simp: times_ok_def second_def)
    moreover have "0 \<le> gm_window m" using assms(2) by (simp add: times_ok_def hour_def minute_def second_def)
    ultimately show ?thesis by (simp add: window_seconds_def second_def hour_def minute_def)
  qed
  have h: "signState k p \<noteq> []" for k p
    by (metis signState_def length_hex_encode length_hmac_sha256 list.size(3) mult_eq_0_iff zero_neq_numeral)
  have mac: "signState (gm_key m) (signed_state m tm) = ps_HMACSHA256 (signed_state m tm)"
    by (simp add: signState_def signed_state_def persisted_of_def)
  have neg: "list_all (\<lambda>d. 0 \<le> d) xs" "length xs \<le> 512" if "samples_ok xs" for xs
    using that by (auto simp: samples_ok_def list_all_iff)
  have con: "gm_total m = gm_successful m + gm_failed m + gm_rejected m"
    "op_sum om_Total (gm_operations m) = gm_total m" "op_sum om_Successful (gm_operations m) = gm_successful m"
    "op_sum om_Failed (gm_operations m) = gm_failed m" "op_sum om_Rejected (gm_operations m) = gm_rejected m"
    "list_all operation_consistent (gm_operations m)" "samples_ok (gm_durations m)" "samples_ok (gm_eligibleDurations m)"
    "sum_list (gm_durations m) \<le> gm_durationTotal m"
    using assms(1) unfolding metrics_ok_def by blast+
  have fs: "ps_Schema (signed_state m tm) = metrics_schema" "fst (ps_WindowStartedAt (signed_state m tm)) = gm_windowStarted m"
    "fst (ps_UpdatedAt (signed_state m tm)) = tm" "ps_WindowSeconds (signed_state m tm) = window_seconds (gm_window m)"
    "ps_Total (signed_state m tm) = gm_total m" "ps_Successful (signed_state m tm) = gm_successful m"
    "ps_Failed (signed_state m tm) = gm_failed m" "ps_Rejected (signed_state m tm) = gm_rejected m"
    "ps_DurationTotalMS (signed_state m tm) = gm_durationTotal m" "ps_DurationsMS (signed_state m tm) = nil_if_empty (gm_durations m)"
    "ps_EligibleDurationsMS (signed_state m tm) = gm_eligibleDurations m" "ps_Operations (signed_state m tm) = Some (gm_operations m)"
    "ps_HMACSHA256 (signed_state m tm) = signState (gm_key m) (persisted_of m tm)"
    by (simp_all add: signed_state_def persisted_of_def)
  have z: "\<not> is_zero (gm_windowStarted m)" using assms(2) by (simp add: times_ok_def is_zero_def)
  show ?thesis
    unfolding decodeAndVerify_def d option.case Let_def fs nil_if_empty mac
    using w h z con neg [OF con(7)] neg [OF con(8)] sampled_sum [OF con(7)] by (simp add: not_less)
qed

lemma persistLocked_None:
  "persistLocked tm out m disk = (None, m', disk') \<longleftrightarrow>
     out = Replaced \<and> disk' = Some (state_text m tm)
     \<and> m' = m\<lparr> gm_lastPersisted := tm, gm_lastHMAC := ps_HMACSHA256 (signed_state m tm), gm_dirty := False, gm_verified := True \<rparr>"
  by (cases out) (auto simp: persistLocked_def state_text_def Let_def)

lemma loadLocked_state:
  "gm_path m \<Longrightarrow> loadLocked (signed_state m tm) (empty_metrics\<lparr> gm_path := True, gm_key := gm_key m, gm_window := gm_window m \<rparr>)
    = m\<lparr> gm_lastPersisted := tm, gm_lastHMAC := ps_HMACSHA256 (signed_state m tm), gm_dirty := False, gm_verified := True \<rparr>"
  by (rule gateway_metrics.equality) (simp_all add: loadLocked_def signed_state_def persisted_of_def empty_metrics_def)

text \<open>The state a gateway wrote is the state the next one starts with.\<close>

lemma persisted_reopens:
  assumes "metrics_ok m" "times_ok m tm" "gm_windowStarted m \<le> tm" "gm_path m" "32 \<le> length (gm_key m)"
    and wr: "persistLocked tm out m disk = (None, m', Some data)" and small: "length data \<le> 1048576"
    and start: "tm2 < gm_windowStarted m' + gm_window m'"
  shows "openGatewayMetrics tm2 out2 (gm_key m) (gm_window m) (Content data) = (Inr m', Some data)"
proof -
  have d: "data = state_text m tm" and m': "m' = m\<lparr> gm_lastPersisted := tm, gm_lastHMAC := ps_HMACSHA256 (signed_state m tm),
      gm_dirty := False, gm_verified := True \<rparr>"
    using wr by (auto simp: persistLocked_None)
  have ne: "data \<noteq> []" by (simp add: d state_text_def)
  have v: "decodeAndVerify (gm_key m) data = Inr (signed_state m tm)"
    unfolding d using decodeAndVerify_state [OF assms(1,2)] assms(3) by simp
  have w: "ps_WindowSeconds (signed_state m tm) = window_seconds (gm_window m)" by (simp add: signed_state_def persisted_of_def)
  have s: "\<not> gm_windowStarted (m\<lparr> gm_lastPersisted := tm, gm_lastHMAC := ps_HMACSHA256 (signed_state m tm), gm_dirty := False,
      gm_verified := True \<rparr>) + gm_window m \<le> tm2"
    using start m' by simp
  show ?thesis
    unfolding openGatewayMetrics_def Let_def using ne small assms(5) s
    by (simp add: v loadLocked_state [OF assms(4)] w m')
qed

lemma rotate_ok:
  assumes "metrics_ok m" "times_ok m tm" "gm_windowStarted m \<le> tm"
    and "rotateIfExpiredLocked tm out m disk = (None, m', disk')"
  shows "metrics_ok m' \<and> times_ok m' tm \<and> gm_windowStarted m' \<le> tm \<and> gm_path m' = gm_path m \<and> gm_key m' = gm_key m
    \<and> gm_window m' = gm_window m \<and> (m' = m \<or> gm_durationTotal m' = 0)"
proof (cases "gm_window m \<le> 0 \<or> tm < gm_windowStarted m + gm_window m")
  case True
  then show ?thesis using assms by (auto simp: rotateIfExpiredLocked_def)
next
  case False
  have up: "metrics_ok (x\<lparr> gm_lastPersisted := a, gm_lastHMAC := b, gm_dirty := c, gm_verified := e \<rparr>) = metrics_ok x"
    "metrics_ok (x\<lparr> gm_dirty := c \<rparr>) = metrics_ok x" for x a b c e
    by (simp_all add: metrics_ok_def)
  have "times_ok (resetLocked tm m) tm" using assms(2) False by (simp add: times_ok_def resetLocked_def)
  then show ?thesis using assms False empty_metrics_ok(2) [of tm m]
    by (cases "gm_path m") (auto simp: rotateIfExpiredLocked_def Let_def persistLocked_None up times_ok_def resetLocked_def)
qed

theorem metrics_survive_restart:
  assumes "metrics_ok m" "times_ok m tm" "gm_windowStarted m \<le> tm" "gm_path m" "32 \<le> length (gm_key m)"
    and call: "int64 d" "valid_utf8 operation" "operation \<noteq> []" "gm_durationTotal m + max 0 (milliseconds d) < 2 ^ 63"
    and step: "record_request tm out1 out2 operation outcome d injection upstreamError m disk = (None, m', Some data)"
    and small: "length data \<le> 1048576" and start: "tm2 < gm_windowStarted m' + gm_window m'"
  shows "metrics_ok m' \<and> openGatewayMetrics tm2 out3 (gm_key m) (gm_window m) (Content data) = (Inr m', Some data)"
proof -
  obtain m1 disk1 where rot: "rotateIfExpiredLocked tm out1 m disk = (None, m1, disk1)"
    and per: "persistLocked tm out2 ((count_request operation outcome d injection upstreamError m1)\<lparr> gm_dirty := True \<rparr>) disk1 = (None, m', Some data)"
    using step assms(4) by (auto simp: record_request_def Let_def split: option.splits prod.splits)
  note r = rotate_ok [OF assms(1-3) rot]
  let ?c = "(count_request operation outcome d injection upstreamError m1)\<lparr> gm_dirty := True \<rparr>"
  have ms: "max 0 (milliseconds d) < 2 ^ 63" using milliseconds_range [OF call(1)] by simp
  have "metrics_ok (count_request operation outcome d injection upstreamError m1)"
    using count_request_ok [of m1 d operation] r call ms by auto
  then have c: "metrics_ok ?c" by (simp add: metrics_ok_def)
  have f: "times_ok ?c tm" "gm_windowStarted ?c \<le> tm" "gm_path ?c" "gm_key ?c = gm_key m" "gm_window ?c = gm_window m"
    using r assms(4) by (simp_all add: count_request_def Let_def times_ok_def)
  have "metrics_ok m'" using per c by (auto simp: persistLocked_None metrics_ok_def)
  moreover have "openGatewayMetrics tm2 out3 (gm_key ?c) (gm_window ?c) (Content data) = (Inr m', Some data)"
    by (rule persisted_reopens [OF c f(1-3) _ per small start]) (use assms(5) f(4) in simp)
  ultimately show ?thesis using f by simp
qed

section \<open>What stops the metrics\<close>

text \<open>The calls of a running gateway, each with the file it finds.\<close>

datatype metrics_call =
    CallRecord gotime replace_outcome replace_outcome string string duration bool bool "string option"
  | CallSnapshot gotime replace_outcome "string option"
  | CallState gotime replace_outcome "string option"

fun call_metrics :: "metrics_call \<Rightarrow> gateway_metrics \<Rightarrow> gateway_metrics" where
  "call_metrics (CallRecord tm out1 out2 operation outcome d injection upstreamError disk) m =
     fst (snd (record_request tm out1 out2 operation outcome d injection upstreamError m disk))"
| "call_metrics (CallSnapshot tm out disk) m = fst (snd (snapshot_metrics tm out m disk))"
| "call_metrics (CallState tm out disk) m = fst (snd (State_metrics tm out m disk))"

lemma stuck_call:
  assumes "gm_path m" "gm_dirty m" "\<not> gm_verified m"
  shows "call_metrics c m = m"
proof -
  have "m\<lparr> gm_verified := False \<rparr> = m" using assms(3) by (intro gateway_metrics.equality) simp_all
  then show ?thesis using assms
    by (cases c) (simp_all add: record_request_def verifyDiskLocked_def snapshot_metrics_def State_metrics_def Let_def)
qed

lemma stuck_calls: "gm_path m \<Longrightarrow> gm_dirty m \<Longrightarrow> \<not> gm_verified m \<Longrightarrow> fold call_metrics cs m = m"
  by (induction cs) (simp_all add: stuck_call)

lemma persist_fails:
  "out \<noteq> Replaced \<Longrightarrow> fst (persistLocked tm out m disk) = Some MetricsIO \<and> fst (snd (persistLocked tm out m disk)) = m\<lparr> gm_verified := False \<rparr>"
  by (cases out) (simp_all add: persistLocked_def Let_def)

lemma rotate_cases:
  assumes "gm_path m" "rotateIfExpiredLocked tm out m disk = (e, m', disk')"
  shows "gm_path m' \<and> (e \<noteq> None \<longrightarrow> gm_dirty m' \<and> \<not> gm_verified m')"
  using assms
  by (cases out) (auto simp: rotateIfExpiredLocked_def persistLocked_def resetLocked_def Let_def split: if_splits)

text \<open>After one failed write nothing is counted any more, whatever the file holds later, and closing does not write either.\<close>

theorem failed_write_stops_metrics:
  assumes "gm_path m" "verifyDiskLocked m disk = None" "out2 \<noteq> Replaced"
    and "record_request tm out1 out2 operation outcome d injection upstreamError m disk = (e, m', disk')"
  shows "e \<noteq> None \<and> fold call_metrics cs m' = m' \<and> \<not> mp_Verified (fst (State_metrics tm' out3 m' disk''))
    \<and> fst (Close_metrics tm' out3 m' disk'') = Some MetricsUnverified"
proof -
  have "e \<noteq> None \<and> gm_path m' \<and> gm_dirty m' \<and> \<not> gm_verified m'"
  proof -
    obtain e1 m1 disk1 where r: "rotateIfExpiredLocked tm out1 m disk = (e1, m1, disk1)" by (metis surj_pair)
    note rc = rotate_cases [OF assms(1) r]
    show ?thesis
    proof (cases e1)
      case None
      then show ?thesis using assms r rc
          persist_fails [OF assms(3), of tm "(count_request operation outcome d injection upstreamError m1)\<lparr> gm_dirty := True \<rparr>" disk1]
        by (simp add: record_request_def Let_def count_request_def)
    next
      case (Some x)
      then have "e = Some x \<and> m' = m1" using assms(1,2,4) r by (auto simp: record_request_def Let_def)
      then show ?thesis using rc Some by simp
    qed
  qed
  then show ?thesis using stuck_calls [of m' cs] by (simp add: State_metrics_def Close_metrics_def)
qed

text \<open>A request counted while the clock is before the start of the window is written, and the file is refused from then
  on: by the running gateway and by the next one.\<close>

theorem clock_back_stops_metrics:
  assumes "metrics_ok m" "times_ok m tm" "gm_path m" "32 \<le> length (gm_key m)" and early: "tm < gm_windowStarted m"
    and call: "int64 d" "valid_utf8 operation" "operation \<noteq> []" "gm_durationTotal m + max 0 (milliseconds d) < 2 ^ 63"
    and step: "record_request tm out1 out2 operation outcome d injection upstreamError m disk = (None, m', Some data)"
    and small: "length data \<le> 1048576"
  shows "fst (record_request tm' out1' out2' operation' outcome' d' injection' upstreamError' m' (Some data)) = Some MetricsTimestamps
    \<and> fst (openGatewayMetrics tm' out3 (gm_key m) (gm_window m) (Content data)) = Inl MetricsTimestamps"
proof -
  let ?c = "(count_request operation outcome d injection upstreamError m)\<lparr> gm_dirty := True \<rparr>"
  have "0 < gm_window m" using assms(2) by (simp add: times_ok_def hour_def minute_def second_def)
  then have "rotateIfExpiredLocked tm out1 m disk = (None, m, disk)" using early by (simp add: rotateIfExpiredLocked_def)
  then have "persistLocked tm out2 ?c disk = (None, m', Some data)"
    using step assms(3) by (auto simp: record_request_def Let_def split: option.splits)
  then have d: "data = state_text ?c tm" and m': "gm_path m'" "\<not> gm_dirty m'" "gm_key m' = gm_key m"
    using assms(3) by (auto simp: persistLocked_None count_request_def Let_def)
  have "metrics_ok (count_request operation outcome d injection upstreamError m)" by (rule count_request_ok [OF assms(1) call])
  then have c: "metrics_ok ?c" by (simp add: metrics_ok_def)
  have f: "times_ok ?c tm" "tm < gm_windowStarted ?c" "gm_key ?c = gm_key m"
    using assms(2) early by (simp_all add: count_request_def Let_def times_ok_def)
  have v: "decodeAndVerify (gm_key m) data = Inl MetricsTimestamps"
    using decodeAndVerify_state [OF c f(1)] f(2,3) d by simp
  have "data \<noteq> []" by (simp add: d state_text_def)
  then show ?thesis using v m' small assms(4)
    by (simp add: record_request_def verifyDiskLocked_def openGatewayMetrics_def Let_def)
qed

end
