(* ===== verification/InjectionTexts.thy ===== *)
theory InjectionTexts
  imports Main
begin

text \<open>
  The non-ASCII string constants of the injection patterns and of the agent gateway that a modelled definition compares or stores, as their UTF-8
  bytes.
\<close>

definition txt_inj_ignore :: string where
  "txt_inj_ignore = [
    CHR 0xE5, CHR 0xBF, CHR 0xBD, CHR 0xE7, CHR 0x95, CHR 0xA5]"

definition txt_inj_above :: string where
  "txt_inj_above = [
    CHR 0xE4, CHR 0xBB, CHR 0xA5, CHR 0xE4, CHR 0xB8, CHR 0x8A]"

definition txt_inj_before :: string where
  "txt_inj_before = [
    CHR 0xE4, CHR 0xB9, CHR 0x8B, CHR 0xE5, CHR 0x89, CHR 0x8D]"

definition txt_inj_foregoing :: string where
  "txt_inj_foregoing = [
    CHR 0xE4, CHR 0xB8, CHR 0x8A, CHR 0xE8, CHR 0xBF, CHR 0xB0]"

definition txt_inj_all :: string where
  "txt_inj_all = [
    CHR 0xE5, CHR 0x85, CHR 0xA8, CHR 0xE9, CHR 0x83, CHR 0xA8]"

definition txt_inj_instruction :: string where
  "txt_inj_instruction = [
    CHR 0xE6, CHR 0x8C, CHR 0x87, CHR 0xE4, CHR 0xBB, CHR 0xA4]"

definition txt_inj_rule :: string where
  "txt_inj_rule = [
    CHR 0xE8, CHR 0xA7, CHR 0x84, CHR 0xE5, CHR 0x88, CHR 0x99]"

definition txt_inj_hint :: string where
  "txt_inj_hint = [
    CHR 0xE6, CHR 0x8F, CHR 0x90, CHR 0xE7, CHR 0xA4, CHR 0xBA]"

definition txt_inj_system :: string where
  "txt_inj_system = [
    CHR 0xE7, CHR 0xB3, CHR 0xBB, CHR 0xE7, CHR 0xBB, CHR 0x9F]"

definition txt_inj_unconditional :: string where
  "txt_inj_unconditional = [
    CHR 0xE6, CHR 0x97, CHR 0xA0, CHR 0xE6, CHR 0x9D, CHR 0xA1, CHR 0xE4, CHR 0xBB, CHR 0xB6]"

definition txt_inj_approve :: string where
  "txt_inj_approve = [
    CHR 0xE6, CHR 0x89, CHR 0xB9, CHR 0xE5, CHR 0x87, CHR 0x86]"

definition txt_inj_release :: string where
  "txt_inj_release = [
    CHR 0xE6, CHR 0x94, CHR 0xBE, CHR 0xE8, CHR 0xA1, CHR 0x8C]"

definition txt_inj_pass :: string where
  "txt_inj_pass = [
    CHR 0xE9, CHR 0x80, CHR 0x9A, CHR 0xE8, CHR 0xBF, CHR 0x87]"

definition txt_inj_force :: string where
  "txt_inj_force = [
    CHR 0xE5, CHR 0xBC, CHR 0xBA, CHR 0xE5, CHR 0x88, CHR 0xB6]"

definition txt_inj_judge :: string where
  "txt_inj_judge = [
    CHR 0xE5, CHR 0x88, CHR 0xA4, CHR 0xE5, CHR 0xAE, CHR 0x9A]"

definition txt_inj_output :: string where
  "txt_inj_output = [
    CHR 0xE8, CHR 0xBE, CHR 0x93, CHR 0xE5, CHR 0x87, CHR 0xBA]"

definition txt_inj_set_to :: string where
  "txt_inj_set_to = [
    CHR 0xE8, CHR 0xAE, CHR 0xBE, CHR 0xE4, CHR 0xB8, CHR 0xBA]"

definition txt_inj_low_risk :: string where
  "txt_inj_low_risk = [
    CHR 0xE4, CHR 0xBD, CHR 0x8E, CHR 0xE9, CHR 0xA3, CHR 0x8E, CHR 0xE9, CHR 0x99, CHR 0xA9]"

definition txt_inj_do_not_follow :: string where
  "txt_inj_do_not_follow = [
    CHR 0xE4, CHR 0xB8, CHR 0x8D, CHR 0xE8, CHR 0xA6, CHR 0x81, CHR 0xE9, CHR 0x81, CHR 0xB5,
    CHR 0xE5, CHR 0xBE, CHR 0xAA]"

definition txt_inj_safety :: string where
  "txt_inj_safety = [
    CHR 0xE5, CHR 0xAE, CHR 0x89, CHR 0xE5, CHR 0x85, CHR 0xA8]"

definition txt_inj_redefine :: string where
  "txt_inj_redefine = [
    CHR 0xE9, CHR 0x87, CHR 0x8D, CHR 0xE6, CHR 0x96, CHR 0xB0, CHR 0xE5, CHR 0xAE, CHR 0x9A,
    CHR 0xE4, CHR 0xB9, CHR 0x89, CHR 0xE4, CHR 0xBD, CHR 0xA0, CHR 0xE7, CHR 0x9A, CHR 0x84,
    CHR 0xE8, CHR 0xA7, CHR 0x92, CHR 0xE8, CHR 0x89, CHR 0xB2]"

definition txt_role_enterprise_admin :: string where
  "txt_role_enterprise_admin = [
    CHR 0xE4, CHR 0xBC, CHR 0x81, CHR 0xE4, CHR 0xB8, CHR 0x9A, CHR 0xE7, CHR 0xAE, CHR 0xA1,
    CHR 0xE7, CHR 0x90, CHR 0x86, CHR 0xE5, CHR 0x91, CHR 0x98]"

end
