(* ===== verification/Injection.thy ===== *)
theory Injection
  imports Checker InjectionTexts
begin

text \<open>
  The search for injected instructions of \<^verbatim>\<open>internal/agent/injection.go\<close>: fourteen patterns, each looked for
  once in a text. Every text that holds a match of a pattern is suspected, and every hit is a match.
\<close>

section \<open>The patterns\<close>

text \<open>A constant of several bytes per character, and a repetition from none to a number of times.\<close>

definition lit_text :: "string \<Rightarrow> re" where
  "lit_text s = seqs (map (\<lambda>x. Cls (\<lambda>y. y = x)) (runes s))"

primrec up_to :: "nat \<Rightarrow> re \<Rightarrow> re" where
  "up_to 0 r = Eps"
| "up_to (Suc n) r = Opt (Seq r (up_to n r))"

definition gap :: re where "gap = Plus perl_space"
definition any_gap :: re where "any_gap = Star perl_space"

definition injectionPatterns :: "re list" where
  "injectionPatterns =
     [seqs [lit_i ''ignore'', gap, Opt (Seq (lit_i ''all'') gap), alts [lit_i ''previous'', lit_i ''above'', lit_i ''prior''], gap,
            alts [Seq (lit_i ''instruction'') (Opt (lit_i ''s'')), Seq (lit_i ''rule'') (Opt (lit_i ''s'')),
                  Seq (lit_i ''prompt'') (Opt (lit_i ''s''))]],
      seqs [lit_i ''disregard'', gap, Opt (Seq (lit_i ''all'') gap), alts [lit_i ''previous'', lit_i ''system''], gap],
      seqs [lit_i ''system'', any_gap, lit_i ''prompt''],
      seqs [lit_i ''you'', gap, lit_i ''are'', gap, lit_i ''now'', gap],
      seqs [lit_i ''override'', gap, Opt (Seq (lit_i ''the'') gap), alts [lit_i ''system'', lit_i ''safety'', lit_i ''policy'']],
      seqs [lit_i ''unconditionally'', gap, lit_i ''approve''],
      seqs [lit_i ''output'', gap, lit_i ''only'', gap, Opt (one_of [CHR 0x22, CHR 0x27]), lit_i ''LOW'',
            Opt (one_of [CHR 0x22, CHR 0x27])],
      seqs [lit_i ''set'', gap, lit_i ''risk'', any_gap, one_of '':='', any_gap, lit_i ''LOW''],
      seqs [lit_text txt_inj_ignore,
            Opt (alts [lit_text txt_inj_above, lit_text txt_inj_before, lit_text txt_inj_foregoing, lit_text txt_inj_all]),
            alts [lit_text txt_inj_instruction, lit_text txt_inj_rule, lit_text txt_inj_hint, lit_text txt_inj_system]],
      seqs [lit_text txt_inj_unconditional, alts [lit_text txt_inj_approve, lit_text txt_inj_release, lit_text txt_inj_pass]],
      seqs [lit_text txt_inj_force, alts [lit_text txt_inj_judge, lit_text txt_inj_output, lit_text txt_inj_set_to],
            up_to 8 any_but_newline, alts [lit_text txt_inj_low_risk, lit ''LOW'']],
      seqs [lit_text txt_inj_do_not_follow, alts [lit_text txt_inj_system, lit_text txt_inj_safety, lit_text txt_inj_rule]],
      lit_text txt_inj_redefine,
      seqs [lit_i ''<'', Opt (lit_i ''/''), lit_i ''untrusted_change>'']]"

definition find_string :: "re \<Rightarrow> string \<Rightarrow> string" where
  "find_string r s = (case submatch [r] s of Some (m # _) \<Rightarrow> m | _ \<Rightarrow> [])"

section \<open>The search\<close>

definition compact_hit :: "string \<Rightarrow> nat \<Rightarrow> string" where
  "compact_hit value limit =
     (let value = join_str '' '' (fields_from [] value)
      in if limit < length value then take (limit - 3) value @ ''...'' else value)"

primrec text_hits :: "re list \<Rightarrow> string \<Rightarrow> string list \<Rightarrow> string list" where
  "text_hits [] s seen = []"
| "text_hits (r # rs) s seen =
     (let loc = find_string r s; key = to_lower (trim_space loc)
      in if loc = [] \<or> key = [] \<or> key \<in> set seen then text_hits rs s seen
         else compact_hit loc 80 # text_hits rs s (key # seen))"

definition DetectTextInjection :: "string \<Rightarrow> bool \<times> string list" where
  "DetectTextInjection s =
     (if trim_space s = [] then (False, [])
      else let hits = text_hits injectionPatterns s [] in (hits \<noteq> [], hits))"

definition DetectInjection :: "change_request \<Rightarrow> bool \<times> string list" where
  "DetectInjection c =
     DetectTextInjection (join_str [CHR 0x0A]
       ([chg_Title c, chg_Description c, chg_SQL c, chg_RollbackSQL c, chg_RollbackPlan c]
        @ concat (map (\<lambda>a. [art_Name a, art_Content a]) (chg_Artifacts c))))"

end
