(* ===== verification/GatewayProxy.thy ===== *)
theory GatewayProxy
  imports MetricsFile Injection Texts
begin

text \<open>
  The handlers of the gateway (\<^verbatim>\<open>internal/agentgateway/gateway.go\<close>): the protected paths, which are limited, logged
  and then forwarded to the server, and the pages for its operators. An upstream is a function from the request that
  is sent to the answer, if there is one. Requests to the protected paths interleave: the part before the answer of
  the upstream and the part after it are two steps.
\<close>

section \<open>Requests and answers\<close>

text \<open>Headers by their canonical names. A body is read to its end or to an error.\<close>

type_synonym headers = "string \<rightharpoonup> string list"

datatype body = NoBody | Stream string "string option"

record proxy_request =
  rq_Method :: string
  rq_Path :: string
  rq_RawQuery :: string
  rq_Query :: "string \<Rightarrow> string"
  rq_Header :: headers
  rq_RemoteAddr :: string
  rq_Body :: body

record http_response =
  rs_Status :: int
  rs_Header :: headers
  rs_Body :: string

record up_request =
  uq_Method :: string
  uq_Path :: string
  uq_RawQuery :: string
  uq_Header :: headers
  uq_Body :: string

record up_response =
  us_Status :: int
  us_Header :: headers
  us_Body :: body

type_synonym upstream = "up_request \<Rightarrow> up_response option"

definition header_get :: "headers \<Rightarrow> string \<Rightarrow> string" where
  "header_get h k = (case h k of Some (v # _) \<Rightarrow> v | _ \<Rightarrow> [])"

datatype body_error = BodyTooLarge | BodyFailed string

definition readLimitedBody :: "body \<Rightarrow> int \<Rightarrow> body_error + string" where
  "readLimitedBody b limit =
     (case b of
        NoBody \<Rightarrow> Inr []
      | Stream s e \<Rightarrow> if limit < int (length s) then Inl BodyTooLarge
                      else case e of Some m \<Rightarrow> Inl (BodyFailed m) | None \<Rightarrow> Inr s)"

definition body_message :: "body_error \<Rightarrow> string" where
  "body_message e = (case e of BodyTooLarge \<Rightarrow> ''request body exceeds configured limit'' | BodyFailed m \<Rightarrow> m)"

definition isHopByHopHeader :: "string \<Rightarrow> bool" where
  "isHopByHopHeader name \<longleftrightarrow> to_lower name \<in> set [''connection'', ''keep-alive'', ''proxy-authenticate'',
     ''proxy-authorization'', ''te'', ''trailer'', ''transfer-encoding'', ''upgrade'']"

definition copyRequestHeaders :: "headers \<Rightarrow> headers \<Rightarrow> headers" where
  "copyRequestHeaders destination source =
     (\<lambda>k. case source k of
            None \<Rightarrow> destination k
          | Some vs \<Rightarrow>
              if isHopByHopHeader k \<or> equal_fold k ''Content-Length'' \<or> equal_fold k ''Host'' \<or> vs = [] then destination k
              else Some ((case destination k of None \<Rightarrow> [] | Some ws \<Rightarrow> ws) @ vs))"

definition copyResponseHeaders :: "headers \<Rightarrow> headers \<Rightarrow> headers" where
  "copyResponseHeaders destination source =
     (\<lambda>k. case source k of
            None \<Rightarrow> destination k
          | Some vs \<Rightarrow>
              if isHopByHopHeader k \<or> equal_fold k ''Content-Length'' then destination k
              else if vs = [] then None else Some vs)"

definition base_headers :: headers where
  "base_headers = [''X-Content-Type-Options'' \<mapsto> [''nosniff''], ''Cache-Control'' \<mapsto> [''no-store'']]"

definition http_error :: "headers \<Rightarrow> string \<Rightarrow> int \<Rightarrow> http_response" where
  "http_error h message status =
     \<lparr> rs_Status = status,
       rs_Header = (h(''Content-Length'' := None))(''Content-Type'' \<mapsto> [''text/plain; charset=utf-8''],
                     ''X-Content-Type-Options'' \<mapsto> [''nosniff'']),
       rs_Body = message @ [CHR 0x0A] \<rparr>"

definition methodNotAllowed :: "headers \<Rightarrow> http_response" where
  "methodNotAllowed h = http_error h ''method not allowed'' 405"

section \<open>The gateway\<close>

text \<open>The parts of the address of the server behind the gateway.\<close>

record upstream_url =
  ut_Scheme :: string
  ut_Host :: string
  ut_Hostname :: string

record gateway_config =
  gc_ListenAddress :: string
  gc_UpstreamURL :: "upstream_url option"
  gc_AuditFile :: string
  gc_AuditKey :: string
  gc_MetricsFile :: string
  gc_MetricsToken :: string
  gc_MaxBodyBytes :: int
  gc_MaxResponse :: int
  gc_RatePerMinute :: int
  gc_RateBurst :: int
  gc_UpstreamTimeout :: duration
  gc_SLOP95Target :: duration
  gc_SLOAvailability :: rat
  gc_SLOWindow :: duration

text \<open>With the contents of its two files.\<close>

record gateway =
  gw_cfg :: gateway_config
  gw_audit :: audit_log
  gw_file :: string
  gw_metrics :: gateway_metrics
  gw_disk :: "string option"
  gw_limiter :: token_limiter
  gw_started :: gotime

text \<open>What the clock and the files do while a request is handled: its start, the time until its last measurement, the
  time and outcome of its appends to the log and of the writes of the metrics.\<close>

record proxy_env =
  pe_started :: gotime
  pe_duration :: duration
  pe_preflightAt :: gotime
  pe_preflightOut :: write_outcome
  pe_auditAt :: gotime
  pe_auditOut :: write_outcome
  pe_metricsAt :: gotime
  pe_rotateOut :: replace_outcome
  pe_persistOut :: replace_outcome

definition append_record :: "gotime \<Rightarrow> write_outcome \<Rightarrow> audit_record \<Rightarrow> gateway \<Rightarrow> bool \<times> gateway" where
  "append_record tm out r g =
     (case Append tm out r (gw_audit g) (gw_file g) of
        (res, l, file) \<Rightarrow> (case res of Inl _ \<Rightarrow> False | Inr _ \<Rightarrow> True, g\<lparr> gw_audit := l, gw_file := file \<rparr>))"

definition appendAudit :: "proxy_env \<Rightarrow> audit_record \<Rightarrow> gateway \<Rightarrow> gateway" where
  "appendAudit h r g = snd (append_record (pe_auditAt h) (pe_auditOut h) r g)"

definition recordMetrics :: "proxy_env \<Rightarrow> string \<Rightarrow> string \<Rightarrow> bool \<Rightarrow> bool \<Rightarrow> gateway \<Rightarrow> gateway" where
  "recordMetrics h operation outcome injection upstreamError g =
     (case record_request (pe_metricsAt h) (pe_rotateOut h) (pe_persistOut h) operation outcome (pe_duration h)
             injection upstreamError (gw_metrics g) (gw_disk g) of
        (_, m, disk) \<Rightarrow> g\<lparr> gw_metrics := m, gw_disk := disk \<rparr>)"

text \<open>Who a request is limited as: the digest of the first of its cookie, its authorization, its real address and the
  address of its connection.\<close>

definition limited_identity :: "proxy_request \<Rightarrow> string" where
  "limited_identity r =
     (let c = header_get (rq_Header r) ''Cookie''; a = header_get (rq_Header r) ''Authorization'';
          x = header_get (rq_Header r) ''X-Real-Ip''
      in if c \<noteq> [] then c else if a \<noteq> [] then a else if x \<noteq> [] then x else rq_RemoteAddr r)"

definition principalHash :: "proxy_request \<Rightarrow> string" where
  "principalHash r = hex_encode (take 8 (sha256_sum (limited_identity r)))"

definition id_char :: "char \<Rightarrow> bool" where
  "id_char c \<longleftrightarrow> is_word c \<or> c = CHR ''-''"

definition protectedPath :: "string \<Rightarrow> (string \<times> string) option" where
  "protectedPath path =
     (let r = drop 13 path; i = takeWhile id_char r; q = drop (length i) r in
      if has_prefix path ''/api/changes/'' \<and> 1 \<le> length i \<and> length i \<le> 128 then
        (if q = ''/agent-ask'' then Some (i, ''agent-ask'')
         else if q = ''/submit-check'' then Some (i, ''submit-check'') else None)
      else None)"

definition question_of :: "string \<Rightarrow> string option" where
  "question_of content = Option.bind (json_parse content) (decode_struct [(''question'', put_string (\<lambda>v _. v))] [])"

section \<open>What an answer says about the model\<close>

text \<open>\<^verbatim>\<open>strconv.Atoi\<close>: the number, and whether there was no error. A number out of range is cut to the range.\<close>

definition atoi :: "string \<Rightarrow> int \<times> bool" where
  "atoi s =
     (let neg = (s \<noteq> [] \<and> hd s = CHR ''-'');
          ds = (if s \<noteq> [] \<and> (hd s = CHR ''-'' \<or> hd s = CHR ''+'') then tl s else s);
          i = (if neg then - int (digits_val ds) else int (digits_val ds))
      in if ds = [] \<or> \<not> list_all digit_char ds then (0, False)
         else if i < - (2 ^ 63) then (- (2 ^ 63), False)
         else if 2 ^ 63 - 1 < i then (2 ^ 63 - 1, False)
         else (i, True))"

text \<open>The integer part of the float nearest to a literal, or nothing when no float is near it. A later member of an object
  replaces an earlier one of the same name.\<close>

type_synonym float_reader = "string \<Rightarrow> int option"

fun numbers_in :: "jval \<Rightarrow> string list" where
  "numbers_in (VNum l) = [l]"
| "numbers_in (VArr vs) = concat (map numbers_in vs)"
| "numbers_in (VObj fs) = concat (map (\<lambda>kv. numbers_in (snd kv)) fs)"
| "numbers_in _ = []"

type_synonym json_object = "(string \<times> jval) list"

definition json_member :: "json_object \<Rightarrow> string \<Rightarrow> jval option" where
  "json_member c k = map_of (rev c) k"

definition decode_object :: "float_reader \<Rightarrow> string \<Rightarrow> json_object option" where
  "decode_object fl content =
     (case json_parse content of
        Some VNull \<Rightarrow> Some []
      | Some (VObj kvs) \<Rightarrow> if list_all (\<lambda>l. fl l \<noteq> None) (numbers_in (VObj kvs)) then Some kvs else None
      | _ \<Rightarrow> None)"

definition textValue :: "jval option \<Rightarrow> string" where
  "textValue v = (case v of Some (VStr s) \<Rightarrow> trim_space s | _ \<Rightarrow> [])"

definition intValue :: "float_reader \<Rightarrow> jval option \<Rightarrow> int" where
  "intValue fl v =
     (case v of
        Some (VNum l) \<Rightarrow> (case fl l of Some i \<Rightarrow> i | None \<Rightarrow> 0)
      | Some (VStr s) \<Rightarrow> fst (atoi s)
      | _ \<Rightarrow> 0)"

definition boolValue :: "jval option \<Rightarrow> bool" where
  "boolValue v \<longleftrightarrow> v = Some (VBool True)"

definition latest_qa :: "json_object \<Rightarrow> json_object list" where
  "latest_qa c =
     (case json_member c ''agent_qa'' of
        Some (VArr items) \<Rightarrow> if items = [] then [] else (case last items of VObj x \<Rightarrow> [x] | _ \<Rightarrow> [])
      | _ \<Rightarrow> [])"

definition nested_candidates :: "json_object \<Rightarrow> string \<Rightarrow> json_object list" where
  "nested_candidates obj key =
     (case json_member obj key of
        Some (VObj v) \<Rightarrow> latest_qa v @ [v] @ (case json_member v ''analysis'' of Some (VObj x) \<Rightarrow> [x] | _ \<Rightarrow> [])
      | _ \<Rightarrow> [])"

definition candidates :: "json_object \<Rightarrow> json_object list" where
  "candidates obj =
     latest_qa obj @ concat (map (nested_candidates obj) [''entry'', ''analysis'', ''change'']) @ [obj]"

record agent_metadata =
  am_TraceID :: string
  am_Provider :: string
  am_Model :: string
  am_Risk :: string
  am_ToolCalls :: int
  am_InjectionSuspected :: bool

definition no_metadata :: agent_metadata where
  "no_metadata = \<lparr> am_TraceID = [], am_Provider = [], am_Model = [], am_Risk = [], am_ToolCalls = 0, am_InjectionSuspected = False \<rparr>"

definition fill_metadata :: "float_reader \<Rightarrow> json_object \<Rightarrow> agent_metadata \<Rightarrow> agent_metadata" where
  "fill_metadata fl c a =
     (let pick = (\<lambda>old k. if old = [] then textValue (json_member c k) else old) in
      \<lparr> am_TraceID = pick (am_TraceID a) ''trace_id'', am_Provider = pick (am_Provider a) ''provider'',
        am_Model = pick (am_Model a) ''model'', am_Risk = pick (am_Risk a) ''risk'',
        am_ToolCalls = (if am_ToolCalls a = 0 then intValue fl (json_member c ''tool_calls'') else am_ToolCalls a),
        am_InjectionSuspected = (boolValue (json_member c ''injection_suspected'') \<or> am_InjectionSuspected a) \<rparr>)"

definition extractAgentMetadata :: "float_reader \<Rightarrow> string \<Rightarrow> agent_metadata" where
  "extractAgentMetadata fl content =
     (case decode_object fl content of
        None \<Rightarrow> no_metadata
      | Some obj \<Rightarrow> fold (fill_metadata fl) (candidates obj) no_metadata)"

section \<open>The protected paths\<close>

text \<open>A request that was let through, with what is said about it later.\<close>

record admitted =
  ad_Operation :: string
  ad_ChangeID :: string
  ad_Principal :: string
  ad_Digest :: string
  ad_Injection :: bool
  ad_Content :: string

definition protected_headers :: headers where
  "protected_headers = base_headers(''X-Agent-Gateway'' \<mapsto> [''protected''])"

text \<open>The log entry of an operation.\<close>

definition entry :: "string \<Rightarrow> string \<Rightarrow> string \<Rightarrow> string \<Rightarrow> int \<Rightarrow> string \<Rightarrow> audit_record" where
  "entry operation changeID who digest status outcome =
     zero_record\<lparr> ar_Operation := operation, ar_ChangeID := changeID, ar_PrincipalHash := who,
       ar_RequestSHA256 := digest, ar_HTTPStatus := status, ar_Outcome := outcome \<rparr>"

definition refuse_logged :: "proxy_env \<Rightarrow> string \<Rightarrow> audit_record \<Rightarrow> gateway \<Rightarrow> gateway" where
  "refuse_logged h operation e g = appendAudit h e (recordMetrics h operation ''rejected'' False False g)"

text \<open>A question that cannot be read or is blank is refused; submissions are not looked into.\<close>

definition suspected :: "string \<Rightarrow> string \<Rightarrow> bool option" where
  "suspected operation content =
     (if operation = ''agent-ask'' then
        (case question_of content of
           None \<Rightarrow> None
         | Some q \<Rightarrow> if trim_space q = [] then None else Some (fst (DetectTextInjection q)))
      else Some False)"

definition preflight_record :: "admitted \<Rightarrow> audit_record" where
  "preflight_record a =
     (entry (ad_Operation a @ ''_started'') (ad_ChangeID a) (ad_Principal a) (ad_Digest a) 0 ''started'')
       \<lparr> ar_InjectionSuspected := ad_Injection a \<rparr>"

definition admit :: "proxy_env \<Rightarrow> proxy_request \<Rightarrow> gateway \<Rightarrow> (http_response + admitted) \<times> gateway" where
  "admit h r g =
     (case protectedPath (rq_Path r) of
        None \<Rightarrow> (Inl (http_error base_headers ''404 page not found'' 404), g)
      | Some (changeID, operation) \<Rightarrow>
          if rq_Method r \<noteq> ''POST'' then (Inl (methodNotAllowed protected_headers), g)
          else let who = principalHash r in
            case allow who (pe_started h) (gw_limiter g) of
              (False, l) \<Rightarrow>
                (Inl (http_error (protected_headers(''Retry-After'' \<mapsto> [''5''])) ''Agent request rate limit exceeded'' 429),
                 refuse_logged h operation (entry operation changeID who [] 429 ''rate_limited'') (g\<lparr> gw_limiter := l \<rparr>))
            | (True, l) \<Rightarrow>
                let g = g\<lparr> gw_limiter := l \<rparr> in
                (case readLimitedBody (rq_Body r) (gc_MaxBodyBytes (gw_cfg g)) of
                   Inl e \<Rightarrow>
                     let status = (if e = BodyTooLarge then 413 else 400) in
                     (Inl (http_error protected_headers (body_message e) status),
                      refuse_logged h operation (entry operation changeID who [] status ''invalid_request'') g)
                 | Inr content \<Rightarrow>
                     let digest = hex_encode (sha256_sum content) in
                     (case suspected operation content of
                        None \<Rightarrow>
                          (Inl (http_error protected_headers ''question is required'' 400),
                           refuse_logged h operation (entry operation changeID who digest 400 ''invalid_question'') g)
                      | Some injection \<Rightarrow>
                          let a = \<lparr> ad_Operation = operation, ad_ChangeID = changeID, ad_Principal = who,
                                    ad_Digest = digest, ad_Injection = injection, ad_Content = content \<rparr> in
                          (case append_record (pe_preflightAt h) (pe_preflightOut h) (preflight_record a) g of
                             (False, g) \<Rightarrow>
                               (Inl (http_error protected_headers ''Agent audit log unavailable'' 503),
                                recordMetrics h operation ''failed'' injection False g)
                           | (True, g) \<Rightarrow> (Inr a, g)))))"

definition version :: string where "version = ''1.3.0''"

text \<open>The request that is sent, and the answer with its whole body, if it came in time and was not too long.\<close>

definition forward_request :: "proxy_request \<Rightarrow> string \<Rightarrow> up_request" where
  "forward_request r content =
     \<lparr> uq_Method = rq_Method r, uq_Path = rq_Path r, uq_RawQuery = rq_RawQuery r,
       uq_Header = (copyRequestHeaders Map.empty (rq_Header r))(''X-Agent-Gateway'' \<mapsto> [version]), uq_Body = content \<rparr>"

definition forward :: "upstream \<Rightarrow> proxy_request \<Rightarrow> string \<Rightarrow> int \<Rightarrow> (int \<times> headers \<times> string) option" where
  "forward up r content limit =
     (case up (forward_request r content) of
        None \<Rightarrow> None
      | Some s \<Rightarrow> (case readLimitedBody (us_Body s) limit of
                     Inl e \<Rightarrow> None | Inr answer \<Rightarrow> Some (us_Status s, us_Header s, answer)))"

definition outcome_of :: "int \<Rightarrow> string" where
  "outcome_of status =
     (if 400 \<le> status \<and> status < 500 then ''rejected'' else if 500 \<le> status then ''failed'' else ''success'')"

definition completion_record :: "admitted \<Rightarrow> int \<Rightarrow> string \<Rightarrow> duration \<Rightarrow> agent_metadata \<Rightarrow> audit_record" where
  "completion_record a status outcome d meta =
     (entry (ad_Operation a) (ad_ChangeID a) (ad_Principal a) (ad_Digest a) status outcome)
       \<lparr> ar_DurationMS := milliseconds d, ar_TraceID := am_TraceID meta, ar_Provider := am_Provider meta,
         ar_Model := am_Model meta, ar_Risk := am_Risk meta, ar_ToolCalls := am_ToolCalls meta,
         ar_InjectionSuspected := am_InjectionSuspected meta \<rparr>"

definition answer_headers :: "bool \<Rightarrow> agent_metadata \<Rightarrow> headers \<Rightarrow> headers" where
  "answer_headers logged meta source =
     (let h = (if logged then protected_headers else protected_headers(''X-Agent-Audit-Status'' \<mapsto> [''incomplete'']));
          h = (copyResponseHeaders h source)(''X-Agent-Gateway'' \<mapsto> [''protected'']);
          h = (if am_TraceID meta \<noteq> [] then h(''X-Agent-Trace-Id'' \<mapsto> [am_TraceID meta]) else h)
      in if am_InjectionSuspected meta then h(''X-Agent-Input-Risk'' \<mapsto> [''suspected'']) else h)"

definition complete :: "float_reader \<Rightarrow> proxy_env \<Rightarrow> admitted \<Rightarrow> (int \<times> headers \<times> string) option \<Rightarrow> gateway
    \<Rightarrow> http_response \<times> gateway" where
  "complete fl h a answer g =
     (case answer of
        None \<Rightarrow>
          (http_error protected_headers ''Agent upstream unavailable'' 502,
           appendAudit h (completion_record a 502 ''upstream_error'' (pe_duration h) (no_metadata\<lparr> am_InjectionSuspected := ad_Injection a \<rparr>))
             (recordMetrics h (ad_Operation a) ''failed'' (ad_Injection a) True g))
      | Some (status, source, content) \<Rightarrow>
          let meta = extractAgentMetadata fl content;
              meta = (if ad_Injection a then meta\<lparr> am_InjectionSuspected := True \<rparr> else meta);
              g = recordMetrics h (ad_Operation a) (outcome_of status) (am_InjectionSuspected meta) (500 \<le> status) g
          in (case append_record (pe_auditAt h) (pe_auditOut h)
                     (completion_record a status (outcome_of status) (pe_duration h) meta) g of
                (logged, g) \<Rightarrow>
                  (\<lparr> rs_Status = status, rs_Header = answer_headers logged meta source, rs_Body = content \<rparr>, g)))"

text \<open>The whole handler, undisturbed by others.\<close>

definition handleProtectedProxy :: "float_reader \<Rightarrow> upstream \<Rightarrow> proxy_env \<Rightarrow> proxy_request \<Rightarrow> gateway \<Rightarrow> http_response \<times> gateway" where
  "handleProtectedProxy fl up h r g =
     (case admit h r g of
        (Inl resp, g) \<Rightarrow> (resp, g)
      | (Inr a, g) \<Rightarrow> complete fl h a (forward up r (ad_Content a) (gc_MaxResponse (gw_cfg g))) g)"

end
