(* ===== verification/GatewayPages.thy ===== *)
theory GatewayPages
  imports GatewayProxy
begin

text \<open>
  The other pages of the gateway: health, service level, metrics, and the summary and the events for operators, whom the
  server behind the gateway identifies, and the start of a gateway. A page is the values it shows; their layout as JSON or
  as lines of metrics is not modelled. \<open>parse_ip\<close> reads addresses as \<^verbatim>\<open>net.ParseIP\<close> does.
\<close>

section \<open>Addresses\<close>

text \<open>Four decimal fields without leading zeros.\<close>

definition v4_field :: "string \<Rightarrow> nat option" where
  "v4_field f =
     (if f = [] \<or> \<not> list_all digit_char f \<or> 1 < length f \<and> hd f = CHR ''0'' \<or> 255 < digits_val f then None
      else Some (digits_val f))"

definition parse_v4 :: "string \<Rightarrow> nat list option" where
  "parse_v4 s =
     (let fs = map v4_field (split_on (CHR ''.'') s)
      in if length fs = 4 \<and> None \<notin> set fs then Some (map the fs) else None)"

definition hex_number :: "string \<Rightarrow> nat" where
  "hex_number ds = foldl (\<lambda>n c. n * 16 + (case hex_value c of Some k \<Rightarrow> k | None \<Rightarrow> 0)) 0 ds"

text \<open>The bytes of the groups read so far, and where an ellipsis stands; a group takes two bytes, an IPv4 address at the end
  four. The fuel bounds the number of groups.\<close>

fun v6_groups :: "nat \<Rightarrow> string \<Rightarrow> nat list \<Rightarrow> nat option \<Rightarrow> (nat list \<times> nat option) option" where
  "v6_groups 0 s bs e = (if s = [] then Some (bs, e) else None)"
| "v6_groups (Suc n) s bs e =
     (let ds = takeWhile (\<lambda>c. hex_value c \<noteq> None) s; r = drop (length ds) s in
      if ds = [] \<or> 4 < length ds then None
      else if r \<noteq> [] \<and> hd r = CHR ''.'' then
        (if e = None \<and> length bs \<noteq> 12 \<or> 12 < length bs then None
         else map_option (\<lambda>v. (bs @ v, e)) (parse_v4 s))
      else let bs = bs @ [hex_number ds div 256, hex_number ds mod 256] in
        (case r of
           [] \<Rightarrow> Some (bs, e)
         | c # q \<Rightarrow>
             if c \<noteq> CHR '':'' \<or> q = [] then None
             else if hd q = CHR '':'' then
               (if e \<noteq> None then None
                else if tl q = [] then Some (bs, Some (length bs))
                else v6_groups n (tl q) bs (Some (length bs)))
             else v6_groups n q bs e))"

definition parse_v6 :: "string \<Rightarrow> nat list option" where
  "parse_v6 s =
     (let start = (if has_prefix s ''::'' then Some 0 else None);
          q = (if has_prefix s ''::'' then drop 2 s else s) in
      if start \<noteq> None \<and> q = [] then Some (replicate 16 0)
      else case v6_groups 8 q [] start of
             None \<Rightarrow> None
           | Some (bs, None) \<Rightarrow> if length bs = 16 then Some bs else None
           | Some (bs, Some e) \<Rightarrow>
               if length bs < 16 then Some (take e bs @ replicate (16 - length bs) 0 @ drop e bs) else None)"

text \<open>An address has the form of the first separator in it; an IPv4 address is also one of the sixteen bytes.\<close>

definition parse_ip :: "string \<Rightarrow> nat list option" where
  "parse_ip s =
     (case filter (\<lambda>c. c = CHR ''.'' \<or> c = CHR '':'' \<or> c = CHR ''%'') s of
        [] \<Rightarrow> None
      | c # _ \<Rightarrow>
          if CHR ''%'' \<in> set s then None
          else if c = CHR ''.'' then map_option (\<lambda>v. replicate 10 0 @ [255, 255] @ v) (parse_v4 s)
          else parse_v6 s)"

definition is_loopback :: "nat list \<Rightarrow> bool" where
  "is_loopback ip \<longleftrightarrow>
     (if take 12 ip = replicate 10 0 @ [255, 255] then ip ! 12 = 127 else ip = replicate 15 0 @ [1])"

definition loopback_host :: "string \<Rightarrow> bool" where
  "loopback_host host \<longleftrightarrow> (case parse_ip host of Some ip \<Rightarrow> is_loopback ip | None \<Rightarrow> False)"

text \<open>The host before the last colon.\<close>

definition last_colon :: "string \<Rightarrow> nat option" where
  "last_colon s = map_option (\<lambda>i. length s - Suc i) (index_byte (rev s) (CHR '':''))"

definition split_host :: "string \<Rightarrow> string option" where
  "split_host s =
     (case last_colon s of
        None \<Rightarrow> None
      | Some i \<Rightarrow>
          if hd s = CHR ''['' then
            (case index_byte s (CHR '']'') of
               None \<Rightarrow> None
             | Some e \<Rightarrow>
                 if Suc e \<noteq> i \<or> CHR ''['' \<in> set (drop 1 s) \<or> CHR '']'' \<in> set (drop (Suc e) s) then None
                 else Some (drop 1 (take e s)))
          else if CHR '':'' \<in> set (take i s) \<or> CHR ''['' \<in> set s \<or> CHR '']'' \<in> set s then None
          else Some (take i s))"

section \<open>Settings\<close>

datatype settings_error =
    NoListenAddress | NotHTTP | NotLoopback | ShortAuditKey | NoAuditFile | NoMetricsFile | BodyLimit | ResponseLimit
  | RateLimit | BurstLimit | TimeoutLimit | P95Limit | AvailabilityLimit | WindowLimit

definition Validate :: "gateway_config \<Rightarrow> settings_error option" where
  "Validate c =
     (if trim_space (gc_ListenAddress c) = [] then Some NoListenAddress
      else case gc_UpstreamURL c of
        None \<Rightarrow> Some NotHTTP
      | Some u \<Rightarrow>
          let host = to_lower (ut_Hostname u) in
          if ut_Scheme u \<noteq> ''http'' \<or> ut_Host u = [] then Some NotHTTP
          else if host \<noteq> ''localhost'' \<and> \<not> loopback_host host then Some NotLoopback
          else if length (gc_AuditKey c) < 32 then Some ShortAuditKey
          else if trim_space (gc_AuditFile c) = [] then Some NoAuditFile
          else if trim_space (gc_MetricsFile c) = [] then Some NoMetricsFile
          else if gc_MaxBodyBytes c < 1024 \<or> 1048576 < gc_MaxBodyBytes c then Some BodyLimit
          else if gc_MaxResponse c < 65536 \<or> 16777216 < gc_MaxResponse c then Some ResponseLimit
          else if gc_RatePerMinute c < 1 \<or> 600 < gc_RatePerMinute c then Some RateLimit
          else if gc_RateBurst c < 1 \<or> 100 < gc_RateBurst c then Some BurstLimit
          else if gc_UpstreamTimeout c < second \<or> 10 * minute < gc_UpstreamTimeout c then Some TimeoutLimit
          else if gc_SLOP95Target c < second \<or> 10 * minute < gc_SLOP95Target c then Some P95Limit
          else if gc_SLOAvailability c < 50 \<or> 100 < gc_SLOAvailability c then Some AvailabilityLimit
          else if gc_SLOWindow c < hour \<or> 31 * 24 * hour < gc_SLOWindow c then Some WindowLimit
          else None)"

text \<open>The start of a gateway from the contents of its two files. \<open>io\<close> says whether the log could be opened.\<close>

datatype start_error = BadSettings settings_error | BadLog gateway_error | BadMetrics metrics_error

definition New :: "gateway_config \<Rightarrow> bool \<Rightarrow> string \<Rightarrow> gotime \<Rightarrow> replace_outcome \<Rightarrow> metrics_file \<Rightarrow> start_error + gateway" where
  "New cfg io file tm out disk =
     (case Validate cfg of
        Some e \<Rightarrow> Inl (BadSettings e)
      | None \<Rightarrow>
          (case OpenAuditLog io (gc_AuditKey cfg) file of
             Inl e \<Rightarrow> Inl (BadLog e)
           | Inr l \<Rightarrow>
               (case openGatewayMetrics tm out (gc_AuditKey cfg) (gc_SLOWindow cfg) disk of
                  (Inl e, _) \<Rightarrow> Inl (BadMetrics e)
                | (Inr m, d) \<Rightarrow>
                    Inr \<lparr> gw_cfg = cfg, gw_audit = l, gw_file = file, gw_metrics = m, gw_disk = d,
                          gw_limiter = newTokenLimiter (gc_RatePerMinute cfg) (gc_RateBurst cfg) tm, gw_started = tm \<rparr>)))"

section \<open>Pages\<close>

record summary_page =
  sm_UptimeSeconds :: int
  sm_UpstreamReady :: bool
  sm_Metrics :: metrics_snapshot
  sm_MetricsState :: metrics_state
  sm_SLO :: slo_snapshot
  sm_AuditChain :: audit_state

datatype page =
    LivePage
  | ReadyPage bool bool bool
  | SLOPage slo_snapshot
  | MetricsPage metrics_snapshot metrics_state audit_state bool slo_snapshot
  | SummaryPage summary_page
  | EventsPage events_page

datatype served = Answer http_response | Page int page

text \<open>Clock and files while a page is made: for the snapshot and the state of the metrics, whether the log could be read,
  and the time of the summary.\<close>

record page_env =
  pg_snapshotAt :: gotime
  pg_snapshotOut :: replace_outcome
  pg_stateAt :: gotime
  pg_stateOut :: replace_outcome
  pg_logReadable :: bool
  pg_now :: gotime

definition page_snapshot :: "page_env \<Rightarrow> gateway \<Rightarrow> metrics_snapshot \<times> gateway" where
  "page_snapshot h g =
     (case snapshot_metrics (pg_snapshotAt h) (pg_snapshotOut h) (gw_metrics g) (gw_disk g) of
        (x, m, disk) \<Rightarrow> (x, g\<lparr> gw_metrics := m, gw_disk := disk \<rparr>))"

definition page_metrics_state :: "page_env \<Rightarrow> gateway \<Rightarrow> metrics_state \<times> gateway" where
  "page_metrics_state h g =
     (case State_metrics (pg_stateAt h) (pg_stateOut h) (gw_metrics g) (gw_disk g) of
        (x, m, disk) \<Rightarrow> (x, g\<lparr> gw_metrics := m, gw_disk := disk \<rparr>))"

definition page_audit_state :: "page_env \<Rightarrow> gateway \<Rightarrow> audit_state \<times> gateway" where
  "page_audit_state h g =
     (case State_log (pg_logReadable h) (gw_audit g) (gw_file g) of (x, l) \<Rightarrow> (x, g\<lparr> gw_audit := l \<rparr>))"

definition plain_request :: "string \<Rightarrow> headers \<Rightarrow> up_request" where
  "plain_request path hs = \<lparr> uq_Method = ''GET'', uq_Path = path, uq_RawQuery = [], uq_Header = hs, uq_Body = [] \<rparr>"

definition upstreamReady :: "upstream \<Rightarrow> bool" where
  "upstreamReady up \<longleftrightarrow>
     (case up (plain_request ''/health/ready'' Map.empty) of None \<Rightarrow> False | Some s \<Rightarrow> 200 \<le> us_Status s \<and> us_Status s < 300)"

definition get_or_head :: "proxy_request \<Rightarrow> bool" where
  "get_or_head r \<longleftrightarrow> rq_Method r = ''GET'' \<or> rq_Method r = ''HEAD''"

definition handleLive :: "proxy_request \<Rightarrow> served" where
  "handleLive r = (if get_or_head r then Page 200 LivePage else Answer (methodNotAllowed base_headers))"

definition handleReady :: "upstream \<Rightarrow> page_env \<Rightarrow> proxy_request \<Rightarrow> gateway \<Rightarrow> served \<times> gateway" where
  "handleReady up h r g =
     (if \<not> get_or_head r then (Answer (methodNotAllowed base_headers), g)
      else case page_audit_state h g of
        (au, g) \<Rightarrow> (case page_metrics_state h g of
          (st, g) \<Rightarrow>
            (Page (if as_Verified au \<and> mp_Verified st \<and> upstreamReady up then 200 else 503)
                (ReadyPage (as_Verified au) (mp_Verified st) (upstreamReady up)), g)))"

text \<open>The values that the three larger pages share, read in this order.\<close>

definition page_values :: "upstream \<Rightarrow> page_env \<Rightarrow> gateway \<Rightarrow> (metrics_snapshot \<times> metrics_state \<times> audit_state \<times> slo_snapshot) \<times> gateway" where
  "page_values up h g =
     (case page_snapshot h g of
        (x, g) \<Rightarrow> (case page_metrics_state h g of
          (st, g) \<Rightarrow> (case page_audit_state h g of
            (au, g) \<Rightarrow>
              ((x, st, au, calculateSLO x st au (upstreamReady up) (gc_SLOP95Target (gw_cfg g)) (gc_SLOAvailability (gw_cfg g))), g))))"

definition handleSLO :: "upstream \<Rightarrow> page_env \<Rightarrow> proxy_request \<Rightarrow> gateway \<Rightarrow> served \<times> gateway" where
  "handleSLO up h r g =
     (if \<not> get_or_head r then (Answer (methodNotAllowed base_headers), g)
      else case page_values up h g of
        ((_, _, _, slo), g) \<Rightarrow> (Page (if sl_Status slo = Degraded then 503 else 200) (SLOPage slo), g))"

definition metricsAuthorized :: "gateway_config \<Rightarrow> proxy_request \<Rightarrow> bool" where
  "metricsAuthorized cfg r =
     (if gc_MetricsToken cfg \<noteq> [] then
        trim_space (trim_prefix (header_get (rq_Header r) ''Authorization'') ''Bearer '') = gc_MetricsToken cfg
      else loopback_host (case split_host (rq_RemoteAddr r) of Some host \<Rightarrow> host | None \<Rightarrow> rq_RemoteAddr r))"

definition handleMetrics :: "upstream \<Rightarrow> page_env \<Rightarrow> proxy_request \<Rightarrow> gateway \<Rightarrow> served \<times> gateway" where
  "handleMetrics up h r g =
     (if rq_Method r \<noteq> ''GET'' then (Answer (methodNotAllowed base_headers), g)
      else if \<not> metricsAuthorized (gw_cfg g) r then (Answer (http_error base_headers ''unauthorized'' 401), g)
      else case page_values up h g of
        ((x, st, au, slo), g) \<Rightarrow> (Page 200 (MetricsPage x st au (upstreamReady up) slo), g))"

section \<open>Operators\<close>

record actor_identity =
  ai_ID :: string
  ai_Role :: string
  ai_EnterpriseAdmin :: bool

definition actor_setters :: "actor_identity setters" where
  "actor_setters =
     [(''id'', put_string (\<lambda>v. ai_ID_update (\<lambda>_. v))), (''role'', put_string (\<lambda>v. ai_Role_update (\<lambda>_. v))),
      (''enterprise_admin'', put_bool (\<lambda>v. ai_EnterpriseAdmin_update (\<lambda>_. v)))]"

definition decode_actor :: "string \<Rightarrow> actor_identity option" where
  "decode_actor s =
     Option.bind (json_parse s) (decode_struct actor_setters \<lparr> ai_ID = [], ai_Role = [], ai_EnterpriseAdmin = False \<rparr>)"

text \<open>The headers that tell the server who asks.\<close>

definition identity_headers :: "headers \<Rightarrow> headers" where
  "identity_headers source =
     (\<lambda>k. if k \<in> set [''Cookie'', ''Authorization'', ''User-Agent'', ''X-Real-Ip'', ''X-Forwarded-For'', ''X-Forwarded-Proto'']
            \<and> header_get source k \<noteq> [] then Some [header_get source k] else None)"

datatype auth_answer = AuthUnavailable | AuthRefused int | Actor actor_identity

definition authenticate :: "upstream \<Rightarrow> proxy_request \<Rightarrow> auth_answer" where
  "authenticate up r =
     (case up (plain_request ''/api/auth/me'' (identity_headers (rq_Header r))) of
        None \<Rightarrow> AuthUnavailable
      | Some s \<Rightarrow>
          if us_Status s \<noteq> 200 then AuthRefused (if us_Status s = 401 \<or> us_Status s = 403 then us_Status s else 502)
          else case readLimitedBody (us_Body s) 65536 of
                 Inl _ \<Rightarrow> AuthUnavailable
               | Inr content \<Rightarrow>
                   (case decode_actor content of
                      None \<Rightarrow> AuthUnavailable
                    | Some a \<Rightarrow> if ai_ID a = [] then AuthUnavailable else Actor a))"

definition operator_role :: "actor_identity \<Rightarrow> bool" where
  "operator_role a \<longleftrightarrow> ai_EnterpriseAdmin a \<or> ai_Role a = txt_role_owner \<or> ai_Role a = txt_role_enterprise_admin"

text \<open>The refusal, if there is one.\<close>

definition authorizeRuntimeOperator :: "upstream \<Rightarrow> proxy_request \<Rightarrow> http_response option" where
  "authorizeRuntimeOperator up r =
     (case authenticate up r of
        AuthUnavailable \<Rightarrow> Some (http_error base_headers ''authentication unavailable'' 502)
      | AuthRefused status \<Rightarrow> Some (http_error base_headers ''unauthorized'' status)
      | Actor a \<Rightarrow> if operator_role a then None else Some (http_error base_headers ''forbidden'' 403))"

definition handleSummary :: "upstream \<Rightarrow> page_env \<Rightarrow> proxy_request \<Rightarrow> gateway \<Rightarrow> served \<times> gateway" where
  "handleSummary up h r g =
     (if rq_Method r \<noteq> ''GET'' then (Answer (methodNotAllowed base_headers), g)
      else case authorizeRuntimeOperator up r of
        Some resp \<Rightarrow> (Answer resp, g)
      | None \<Rightarrow>
          (case page_values up h g of
             ((x, st, au, slo), g) \<Rightarrow>
               (Page 200 (SummaryPage \<lparr> sm_UptimeSeconds = window_seconds (pg_now h - gw_started g), sm_UpstreamReady = upstreamReady up,
                  sm_Metrics = x, sm_MetricsState = st, sm_SLO = slo, sm_AuditChain = au \<rparr>), g)))"

definition events_limit :: "proxy_request \<Rightarrow> int option" where
  "events_limit r =
     (let raw = trim_space (rq_Query r ''limit'') in
      if raw = [] then Some 20
      else case atoi raw of (n, ok) \<Rightarrow> if \<not> ok \<or> n < 1 then None else Some (min n 100))"

definition handleEvents :: "upstream \<Rightarrow> page_env \<Rightarrow> proxy_request \<Rightarrow> gateway \<Rightarrow> served \<times> gateway" where
  "handleEvents up h r g =
     (if rq_Method r \<noteq> ''GET'' then (Answer (methodNotAllowed base_headers), g)
      else case authorizeRuntimeOperator up r of
        Some resp \<Rightarrow> (Answer resp, g)
      | None \<Rightarrow>
          (case events_limit r of
             None \<Rightarrow> (Answer (http_error base_headers ''limit must be a positive integer'' 400), g)
           | Some limit \<Rightarrow>
               let includeStarted = (to_lower (trim_space (rq_Query r ''include_started'')) \<in> set [''1'', ''true'', ''yes'']) in
               (case Recent (pg_logReadable h) limit includeStarted (gw_audit g) (gw_file g) of
                  (Inl _, l) \<Rightarrow> (Answer (http_error base_headers ''Agent audit log unavailable'' 503), g\<lparr> gw_audit := l \<rparr>)
                | (Inr p, l) \<Rightarrow> (Page 200 (EventsPage p), g\<lparr> gw_audit := l \<rparr>))))"

definition page_path :: "proxy_request \<Rightarrow> bool" where
  "page_path r \<longleftrightarrow> rq_Path r \<in> set [''/health/live'', ''/health/ready'', ''/health/slo'', ''/metrics'',
     ''/api/agent-runtime/summary'', ''/api/agent-runtime/events'']"

definition serve_page :: "upstream \<Rightarrow> page_env \<Rightarrow> proxy_request \<Rightarrow> gateway \<Rightarrow> served \<times> gateway" where
  "serve_page up h r g =
     (if rq_Path r = ''/health/live'' then (handleLive r, g)
      else if rq_Path r = ''/health/ready'' then handleReady up h r g
      else if rq_Path r = ''/health/slo'' then handleSLO up h r g
      else if rq_Path r = ''/metrics'' then handleMetrics up h r g
      else if rq_Path r = ''/api/agent-runtime/summary'' then handleSummary up h r g
      else handleEvents up h r g)"

definition serveHTTP :: "float_reader \<Rightarrow> upstream \<Rightarrow> proxy_env \<Rightarrow> page_env \<Rightarrow> proxy_request \<Rightarrow> gateway \<Rightarrow> served \<times> gateway" where
  "serveHTTP fl up hp h r g =
     (if page_path r then serve_page up h r g
      else case handleProtectedProxy fl up hp r g of (resp, g) \<Rightarrow> (Answer resp, g))"

end
