(* ===== verification/GatewayRun.thy ===== *)
theory GatewayRun
  imports GatewayPages "HOL-Library.Sublist"
begin

text \<open>
  Runs of the gateway: requests arrive, are answered by the upstream and pages are shown in any order and with any
  outcome of the writes. Whatever is sent to the upstream has its own entry in the log before. Every request to a
  protected path leaves one entry when it is refused and two when it is forwarded, and the pages for operators are
  shown to operators only.
\<close>

section \<open>Runs\<close>

datatype gw_event =
    Arrives proxy_env proxy_request
  | Answers proxy_env nat "(int \<times> headers \<times> string) option"
  | Shows upstream page_env proxy_request

text \<open>The requests that wait for the upstream, and all that were sent to it.\<close>

record gw_run =
  rn_gateway :: gateway
  rn_waiting :: "admitted list"
  rn_sent :: "up_request list"

fun gw_step :: "float_reader \<Rightarrow> gw_event \<Rightarrow> gw_run \<Rightarrow> gw_run" where
  "gw_step fl (Arrives h r) s =
     (case admit h r (rn_gateway s) of
        (Inl _, g) \<Rightarrow> s\<lparr> rn_gateway := g \<rparr>
      | (Inr a, g) \<Rightarrow> s\<lparr> rn_gateway := g, rn_waiting := rn_waiting s @ [a],
                         rn_sent := rn_sent s @ [forward_request r (ad_Content a)] \<rparr>)"
| "gw_step fl (Answers h i answer) s =
     (if i < length (rn_waiting s) then
        s\<lparr> rn_gateway := snd (complete fl h (rn_waiting s ! i) answer (rn_gateway s)),
           rn_waiting := take i (rn_waiting s) @ drop (Suc i) (rn_waiting s) \<rparr>
      else s)"
| "gw_step fl (Shows up h r) s =
     (if page_path r then s\<lparr> rn_gateway := snd (serve_page up h r (rn_gateway s)) \<rparr> else s)"

definition started_run :: "gateway \<Rightarrow> gw_run" where
  "started_run g = \<lparr> rn_gateway = g, rn_waiting = [], rn_sent = [] \<rparr>"

section \<open>What the steps do to the log\<close>

lemma append_record_cases:
  obtains (ok) "append_record tm out r g =
      (True, g\<lparr> gw_audit := (gw_audit g)\<lparr> al_sequence := al_sequence (gw_audit g) + 1, al_prevHash := ar_Hash (next_record (gw_audit g) tm r) \<rparr>,
                gw_file := gw_file g @ record_line (next_record (gw_audit g) tm r) \<rparr>)" "out = Written" "al_open (gw_audit g)"
    | (bad) p where "append_record tm out r g = (False, g\<lparr> gw_audit := (gw_audit g)\<lparr> al_verified := False \<rparr>, gw_file := gw_file g @ p \<rparr>)"
        "out \<noteq> Written \<or> \<not> al_open (gw_audit g)"
proof (cases "al_open (gw_audit g)")
  case True
  then show ?thesis using ok bad [of "record_line (next_record (gw_audit g) tm r)"] bad
    by (cases out) (simp_all add: append_record_def Append_def Let_def next_record_def del: next_record_fields(3))
next
  case False
  then show ?thesis using bad [of "[]"] by (simp add: append_record_def Append_def)
qed

lemma recordMetrics_keeps [simp]:
  "gw_file (recordMetrics h operation outcome i u g) = gw_file g" "gw_audit (recordMetrics h operation outcome i u g) = gw_audit g"
  "gw_cfg (recordMetrics h operation outcome i u g) = gw_cfg g"
  by (simp_all add: recordMetrics_def split: prod.splits)

definition log_grows :: "gateway \<Rightarrow> gateway \<Rightarrow> string list \<Rightarrow> bool" where
  "log_grows g g' ps \<longleftrightarrow> gw_file g' = gw_file g @ concat ps \<and> al_key (gw_audit g') = al_key (gw_audit g)"

lemma append_record_grows: "\<exists>p. log_grows g (snd (append_record tm out r g)) [p]"
  by (rule append_record_cases [of tm out r g]) (auto simp: log_grows_def)

lemma log_grows_none: "gw_file g' = gw_file g \<Longrightarrow> al_key (gw_audit g') = al_key (gw_audit g) \<Longrightarrow> log_grows g g' []"
  by (simp add: log_grows_def)

lemma refuse_grows: "\<exists>p. log_grows g (refuse_logged h operation e g) [p]"
  using append_record_grows [of "recordMetrics h operation ''rejected'' False False g" "pe_auditAt h" "pe_auditOut h" e]
  by (simp add: refuse_logged_def appendAudit_def log_grows_def)

lemma complete_grows: "\<exists>p. log_grows g (snd (complete fl h a answer g)) [p]"
proof (cases answer)
  case None
  then show ?thesis
    using append_record_grows [of "recordMetrics h (ad_Operation a) ''failed'' (ad_Injection a) True g" "pe_auditAt h" "pe_auditOut h"]
    by (simp add: complete_def appendAudit_def log_grows_def)
next
  case (Some x)
  obtain status source content where x: "x = (status, source, content)" by (cases x)
  show ?thesis using append_record_grows unfolding Some x complete_def
    by (simp add: Let_def log_grows_def split: prod.splits) (metis recordMetrics_keeps(1,2) snd_conv)
qed

lemma State_log_key [simp]: "al_key (snd (State_log io l file)) = al_key l"
  by (simp add: State_log_def Let_def)

lemma Recent_key [simp]: "al_key (snd (Recent io limit b l file)) = al_key l"
  by (simp add: Recent_def Let_def split: option.splits sum.splits)

lemma page_parts_keep [simp]:
  "gw_file (snd (page_snapshot h g)) = gw_file g" "gw_audit (snd (page_snapshot h g)) = gw_audit g"
  "gw_file (snd (page_metrics_state h g)) = gw_file g" "gw_audit (snd (page_metrics_state h g)) = gw_audit g"
  "gw_file (snd (page_audit_state h g)) = gw_file g"
  by (simp_all add: page_snapshot_def page_metrics_state_def page_audit_state_def split: prod.splits)

lemma page_audit_key [simp]: "al_key (gw_audit (snd (page_audit_state h g))) = al_key (gw_audit g)"
  using State_log_key [of "pg_logReadable h" "gw_audit g" "gw_file g"]
  by (cases "State_log (pg_logReadable h) (gw_audit g) (gw_file g)") (simp add: page_audit_state_def)

lemma page_values_keep [simp]:
  "gw_file (snd (page_values up h g)) = gw_file g" "al_key (gw_audit (snd (page_values up h g))) = al_key (gw_audit g)"
proof -
  obtain x g1 where 1: "page_snapshot h g = (x, g1)" by (metis surj_pair)
  obtain st g2 where 2: "page_metrics_state h g1 = (st, g2)" by (metis surj_pair)
  obtain au g3 where 3: "page_audit_state h g2 = (au, g3)" by (metis surj_pair)
  have "gw_file g3 = gw_file g" "al_key (gw_audit g3) = al_key (gw_audit g)"
    using page_parts_keep(1,2) [of h g] page_parts_keep(3,4) [of h g1] page_parts_keep(5) [of h g2] page_audit_key [of h g2] 1 2 3 by simp_all
  then show "gw_file (snd (page_values up h g)) = gw_file g" "al_key (gw_audit (snd (page_values up h g))) = al_key (gw_audit g)"
    using 1 2 3 by (simp_all add: page_values_def)
qed

lemma snd_case: "snd (case p of (x, y) \<Rightarrow> (f x y, y)) = snd p"
  by (cases p) simp

lemma page_grows: "log_grows g (snd (serve_page up h r g)) []"
proof (rule log_grows_none)
  have v: "gw_file g2 = gw_file g \<and> al_key (gw_audit g2) = al_key (gw_audit g)" if "page_values up h g = (x, g2)" for x g2
    using page_values_keep [of up h g] that by simp
  have a: "gw_file g2 = gw_file g1 \<and> al_key (gw_audit g2) = al_key (gw_audit g1)" if "page_audit_state h g1 = (x, g2)" for x g1 g2
    using page_parts_keep(5) [of h g1] page_audit_key [of h g1] that by simp
  have m: "gw_file g2 = gw_file g1 \<and> gw_audit g2 = gw_audit g1" if "page_metrics_state h g1 = (x, g2)" for x g1 g2
    using page_parts_keep(3,4) [of h g1] that by simp
  have c: "al_key l = al_key (gw_audit g)" if "Recent io limit b (gw_audit g) (gw_file g) = (x, l)" for io limit b x l
    using Recent_key [of io limit b "gw_audit g" "gw_file g"] that by simp
  show "gw_file (snd (serve_page up h r g)) = gw_file g" "al_key (gw_audit (snd (serve_page up h r g))) = al_key (gw_audit g)"
    by (auto simp: serve_page_def handleReady_def handleSLO_def handleMetrics_def handleSummary_def handleEvents_def Let_def
        split: prod.splits option.splits sum.splits dest!: v a m c)
qed

text \<open>What is sent, and the entry it has.\<close>

definition logged_for :: "string \<Rightarrow> up_request \<Rightarrow> audit_record \<Rightarrow> bool" where
  "logged_for key q e \<longleftrightarrow>
     (case protectedPath (uq_Path q) of
        None \<Rightarrow> False
      | Some (changeID, operation) \<Rightarrow>
          uq_Method q = ''POST'' \<and> ar_Operation e = operation @ ''_started'' \<and> ar_ChangeID e = changeID
          \<and> ar_Outcome e = ''started'' \<and> ar_RequestSHA256 e = hex_encode (sha256_sum (uq_Body q))
          \<and> suspected operation (uq_Body q) = Some (ar_InjectionSuspected e) \<and> ar_Hash e = sign_record key e)"

lemma protected_operation: "protectedPath path = Some (i, operation) \<Longrightarrow> operation = ''agent-ask'' \<or> operation = ''submit-check''"
  by (auto simp: protectedPath_def Let_def split: if_splits)

text \<open>A request that is let through: its entry, the state it leaves, and what it was.\<close>

lemma admit_forwards:
  assumes "admit h r g = (Inr a, g')"
  obtains i operation l e where "protectedPath (rq_Path r) = Some (i, operation)" "rq_Method r = ''POST''"
    "allow (principalHash r) (pe_started h) (gw_limiter g) = (True, l)"
    "readLimitedBody (rq_Body r) (gc_MaxBodyBytes (gw_cfg g)) = Inr (ad_Content a)"
    "suspected operation (ad_Content a) = Some (ad_Injection a)"
    "a = \<lparr> ad_Operation = operation, ad_ChangeID = i, ad_Principal = principalHash r,
          ad_Digest = hex_encode (sha256_sum (ad_Content a)), ad_Injection = ad_Injection a, ad_Content = ad_Content a \<rparr>"
    "append_record (pe_preflightAt h) (pe_preflightOut h) (preflight_record a) (g\<lparr> gw_limiter := l \<rparr>) = (True, g')"
  using assms
  by (simp add: admit_def Let_def split: option.splits prod.splits if_splits bool.splits sum.splits)
    (drule sym, erule that, simp_all)

lemma log_grows_limiter [simp]: "log_grows (g\<lparr> gw_limiter := l \<rparr>) g' ps = log_grows g g' ps"
  by (simp add: log_grows_def)

lemma log_grows_metrics [simp]: "log_grows g (recordMetrics h operation outcome i u g') ps = log_grows g g' ps"
  by (simp add: log_grows_def)

lemma log_grows_refuse: "\<exists>ps. log_grows g (refuse_logged h operation e (g\<lparr> gw_limiter := l \<rparr>)) ps"
  using refuse_grows [of "g\<lparr> gw_limiter := l \<rparr>" h operation e] by auto

lemma append_fails_grows:
  "append_record tm out e (g\<lparr> gw_limiter := l \<rparr>) = (b, g1) \<Longrightarrow> \<exists>ps. log_grows g (recordMetrics h operation outcome i u g1) ps"
  using append_record_grows [of "g\<lparr> gw_limiter := l \<rparr>" tm out e] by auto

lemma admit_refuses: "admit h r g = (Inl resp, g') \<Longrightarrow> \<exists>ps. log_grows g g' ps"
  using log_grows_none [of g g] log_grows_refuse append_fails_grows
  by (fastforce simp: admit_def Let_def split: option.splits prod.splits if_splits bool.splits sum.splits)

lemma next_record_keeps:
  "ar_Operation (next_record l tm r) = ar_Operation r" "ar_ChangeID (next_record l tm r) = ar_ChangeID r"
  "ar_Outcome (next_record l tm r) = ar_Outcome r" "ar_RequestSHA256 (next_record l tm r) = ar_RequestSHA256 r"
  "ar_HTTPStatus (next_record l tm r) = ar_HTTPStatus r"
  "ar_InjectionSuspected (next_record l tm r) = ar_InjectionSuspected r"
  by (simp_all add: next_record_def Let_def del: next_record_fields(3))

lemma entry_fields [simp]:
  "ar_Operation (entry operation i w d st out) = operation" "ar_ChangeID (entry operation i w d st out) = i"
  "ar_Outcome (entry operation i w d st out) = out" "ar_RequestSHA256 (entry operation i w d st out) = d"
  "ar_HTTPStatus (entry operation i w d st out) = st"
  by (simp_all add: entry_def)

lemmas next_record_preflight = next_record_keeps preflight_record_def

lemma admit_cases:
  assumes "admit h r g = (res, g')"
  shows "(\<exists>ps. log_grows g g' ps \<and> (\<exists>resp. res = Inl resp))
    \<or> (\<exists>a e. res = Inr a \<and> log_grows g g' [record_line e] \<and> logged_for (al_key (gw_audit g)) (forward_request r (ad_Content a)) e)"
proof (cases res)
  case (Inl resp)
  then show ?thesis using admit_refuses assms by blast
next
  case (Inr a)
  have adm: "admit h r g = (Inr a, g')" using assms Inr by simp
  obtain i operation l where a: "protectedPath (rq_Path r) = Some (i, operation)" "rq_Method r = ''POST''"
    "suspected operation (ad_Content a) = Some (ad_Injection a)"
    "a = \<lparr> ad_Operation = operation, ad_ChangeID = i, ad_Principal = principalHash r,
          ad_Digest = hex_encode (sha256_sum (ad_Content a)), ad_Injection = ad_Injection a, ad_Content = ad_Content a \<rparr>"
    "append_record (pe_preflightAt h) (pe_preflightOut h) (preflight_record a) (g\<lparr> gw_limiter := l \<rparr>) = (True, g')"
    using admit_forwards [OF adm] by metis
  let ?e = "next_record (gw_audit g) (pe_preflightAt h) (preflight_record a)"
  have "log_grows g g' [record_line ?e]"
    using a(5) by (cases rule: append_record_cases [of "pe_preflightAt h" "pe_preflightOut h" "preflight_record a" "g\<lparr> gw_limiter := l \<rparr>"])
      (auto simp: log_grows_def)
  moreover have "logged_for (al_key (gw_audit g)) (forward_request r (ad_Content a)) ?e"
  proof -
    have "ad_Operation a = operation" "ad_ChangeID a = i" "ad_Digest a = hex_encode (sha256_sum (ad_Content a))"
      by (subst a(4), simp)+
    then show ?thesis using a(1-3)
      by (simp add: logged_for_def forward_request_def next_record_preflight)
  qed
  ultimately show ?thesis using Inr by blast
qed

text \<open>Every request that was sent has an entry of its own, in the order in which they were sent.\<close>

definition sent_logged :: "gateway \<Rightarrow> gw_run \<Rightarrow> bool" where
  "sent_logged g s \<longleftrightarrow> (\<exists>ps es. log_grows g (rn_gateway s) ps \<and> subseq (map record_line es) ps
     \<and> list_all2 (logged_for (al_key (gw_audit g))) (rn_sent s) es)"

lemma sent_logged_more:
  assumes "sent_logged g s" "log_grows (rn_gateway s) (rn_gateway s') qs" "rn_sent s' = rn_sent s"
  shows "sent_logged g s'"
proof -
  obtain ps es where p: "log_grows g (rn_gateway s) ps" "subseq (map record_line es) ps"
    "list_all2 (logged_for (al_key (gw_audit g))) (rn_sent s) es"
    using assms(1) unfolding sent_logged_def by blast
  have "log_grows g (rn_gateway s') (ps @ qs)" "subseq (map record_line es) (ps @ qs)"
    using p assms(2) by (auto simp: log_grows_def intro: list_emb_prefix)
  then show ?thesis unfolding sent_logged_def using p(3) assms(3) by metis
qed

lemma step_sent_logged: "sent_logged g s \<Longrightarrow> sent_logged g (gw_step fl ev s)"
proof (cases ev)
  case (Arrives h r)
  assume inv: "sent_logged g s"
  then obtain ps es where p: "log_grows g (rn_gateway s) ps" "subseq (map record_line es) ps"
    "list_all2 (logged_for (al_key (gw_audit g))) (rn_sent s) es"
    unfolding sent_logged_def by blast
  obtain res g' where res: "admit h r (rn_gateway s) = (res, g')" by (metis surj_pair)
  from admit_cases [OF res] show ?thesis
  proof (elim disjE exE conjE)
    fix qs resp assume "log_grows (rn_gateway s) g' qs" "res = Inl resp"
    then show ?thesis using Arrives res sent_logged_more [OF inv] by simp
  next
    fix a e
    assume a: "res = Inr a" "log_grows (rn_gateway s) g' [record_line e]"
      "logged_for (al_key (gw_audit (rn_gateway s))) (forward_request r (ad_Content a)) e"
    have "log_grows g g' (ps @ [record_line e])" using p(1) a(2) by (simp add: log_grows_def)
    moreover have "subseq (map record_line (es @ [e])) (ps @ [record_line e])" using p(2) by (simp add: subseq_append)
    moreover have "list_all2 (logged_for (al_key (gw_audit g))) (rn_sent s @ [forward_request r (ad_Content a)]) (es @ [e])"
      using p(1,3) a(3) by (simp add: log_grows_def list_all2_appendI)
    ultimately show ?thesis unfolding sent_logged_def using Arrives res a(1) by (simp del: map_append) blast
  qed
next
  case (Answers h i answer)
  assume "sent_logged g s"
  then show ?thesis using Answers complete_grows [of "rn_gateway s" fl h "rn_waiting s ! i" answer] sent_logged_more by auto
next
  case (Shows up h r)
  assume "sent_logged g s"
  then show ?thesis using Shows page_grows [of "rn_gateway s" up h r] sent_logged_more by auto
qed

lemma run_sent_logged: "sent_logged g s \<Longrightarrow> sent_logged g (fold (gw_step fl) evs s)"
  by (induction evs arbitrary: s) (simp_all add: step_sent_logged)

text \<open>C32: nothing is sent to the server before it is in the log. In every run of the gateway, from any state, with
  requests, answers and pages interleaved and with writes that fail, the log has grown by pieces, among them, in order, a
  whole signed line for each request that was sent, with its path, the digest of its body and the result of the
  search for injected instructions.\<close>

theorem forwarded_only_logged:
  "\<exists>ps es. gw_file (rn_gateway (fold (gw_step fl) evs (started_run g))) = gw_file g @ concat ps
     \<and> subseq (map record_line es) ps
     \<and> list_all2 (logged_for (al_key (gw_audit g))) (rn_sent (fold (gw_step fl) evs (started_run g))) es"
proof -
  have "sent_logged g (started_run g)"
    unfolding sent_logged_def by (rule exI [of _ "[]"]) (simp add: started_run_def log_grows_def)
  then show ?thesis using run_sent_logged unfolding sent_logged_def log_grows_def by blast
qed

section \<open>One entry or two\<close>

text \<open>An append that works.\<close>

lemma append_record_written:
  assumes "al_open (gw_audit g)"
  obtains g' where "append_record tm Written e g = (True, g')" "gw_file g' = gw_file g @ record_line (next_record (gw_audit g) tm e)"
    "al_open (gw_audit g')" "al_prevHash (gw_audit g') = ar_Hash (next_record (gw_audit g) tm e)" "gw_cfg g' = gw_cfg g"
  using assms that by (simp add: append_record_def Append_open)

lemma complete_writes:
  assumes "al_open (gw_audit g)" "pe_auditOut h = Written"
  shows "\<exists>e. gw_file (snd (complete fl h a answer g)) = gw_file g @ record_line e
    \<and> ar_Operation e = ad_Operation a \<and> ar_ChangeID e = ad_ChangeID a \<and> ar_RequestSHA256 e = ad_Digest a
    \<and> ar_HTTPStatus e = rs_Status (fst (complete fl h a answer g)) \<and> ar_PrevHash e = al_prevHash (gw_audit g)"
proof -
  have e: "ar_Operation (completion_record a st out d meta) = ad_Operation a" "ar_ChangeID (completion_record a st out d meta) = ad_ChangeID a"
    "ar_RequestSHA256 (completion_record a st out d meta) = ad_Digest a" "ar_HTTPStatus (completion_record a st out d meta) = st"
    for st out d meta
    by (simp_all add: completion_record_def)
  show ?thesis
  proof (cases answer)
    case None
    show ?thesis using assms
      by (intro exI [of _ "next_record (gw_audit g) (pe_auditAt h)
              (completion_record a 502 ''upstream_error'' (pe_duration h) (no_metadata\<lparr> am_InjectionSuspected := ad_Injection a \<rparr>))"])
        (simp add: complete_def None appendAudit_def append_record_def Append_open http_error_def e next_record_keeps)
  next
    case (Some x)
    obtain status source content where x: "x = (status, source, content)" by (cases x)
    show ?thesis using assms
      by (simp add: complete_def Some x Let_def append_record_def Append_open del: next_record_fields(3))
        (metis e next_record_keeps(1,2,4,5) next_record_fields(2))
  qed
qed

lemma refuse_writes:
  assumes "al_open (gw_audit g)" "pe_auditOut h = Written"
  shows "\<exists>e'. gw_file (refuse_logged h operation e g) = gw_file g @ record_line e' \<and> ar_Operation e' = ar_Operation e
    \<and> ar_ChangeID e' = ar_ChangeID e \<and> ar_HTTPStatus e' = ar_HTTPStatus e"
  using assms
  by (intro exI [of _ "next_record (gw_audit g) (pe_auditAt h) e"])
    (simp add: refuse_logged_def appendAudit_def append_record_def Append_open next_record_keeps)

lemma admit_one:
  assumes path: "protectedPath (rq_Path r) = Some (i, operation)" "rq_Method r = ''POST''"
    and al: "allow (principalHash r) (pe_started h) (gw_limiter g) = (ok, l)"
    and no: "\<not> (ok \<and> (case readLimitedBody (rq_Body r) (gc_MaxBodyBytes (gw_cfg g)) of Inl _ \<Rightarrow> False
                       | Inr content \<Rightarrow> suspected operation content \<noteq> None))"
  obtains hd m st out d where "st \<in> {400, 413, 429}"
    "admit h r g = (Inl (http_error hd m st), refuse_logged h operation (entry operation i (principalHash r) d st out) (g\<lparr> gw_limiter := l \<rparr>))"
proof (cases ok)
  case False
  show ?thesis by (rule that [of 429]) (use False path al in \<open>simp_all add: admit_def Let_def\<close>)
next
  case True
  show ?thesis
  proof (cases "readLimitedBody (rq_Body r) (gc_MaxBodyBytes (gw_cfg g))")
    case (Inl e)
    show ?thesis by (rule that [of "if e = BodyTooLarge then 413 else 400"]) (use Inl True path al in \<open>simp_all add: admit_def Let_def\<close>)
  next
    case (Inr content)
    then have "suspected operation content = None" using True no by simp
    then show ?thesis by (intro that [of 400]) (use Inr True path al in \<open>simp_all add: admit_def Let_def\<close>)
  qed
qed

text \<open>
  A request to a protected path by POST, while the log can be written, leaves one entry with the status of its answer when
  it is over the limit, cannot be read or asks nothing; otherwise two, which follow each other when nothing comes
  between, the second with the status of the answer.
\<close>

theorem proxy_logs_request:
  assumes "al_open (gw_audit g)" "pe_preflightOut h = Written" "pe_auditOut h = Written"
    and path: "protectedPath (rq_Path r) = Some (i, operation)" "rq_Method r = ''POST''"
  shows "if fst (allow (principalHash r) (pe_started h) (gw_limiter g))
         \<and> (case readLimitedBody (rq_Body r) (gc_MaxBodyBytes (gw_cfg g)) of Inl _ \<Rightarrow> False | Inr content \<Rightarrow> suspected operation content \<noteq> None)
    then \<exists>e1 e2. gw_file (snd (handleProtectedProxy fl up h r g)) = gw_file g @ record_line e1 @ record_line e2
      \<and> ar_Operation e1 = operation @ ''_started'' \<and> ar_ChangeID e1 = i \<and> ar_Operation e2 = operation \<and> ar_ChangeID e2 = i
      \<and> ar_RequestSHA256 e2 = ar_RequestSHA256 e1 \<and> ar_PrevHash e2 = ar_Hash e1
      \<and> ar_HTTPStatus e2 = rs_Status (fst (handleProtectedProxy fl up h r g))
    else \<exists>e. gw_file (snd (handleProtectedProxy fl up h r g)) = gw_file g @ record_line e
      \<and> ar_Operation e = operation \<and> ar_ChangeID e = i
      \<and> ar_HTTPStatus e = rs_Status (fst (handleProtectedProxy fl up h r g))
      \<and> rs_Status (fst (handleProtectedProxy fl up h r g)) \<in> {400, 413, 429}"
proof -
  obtain ok l where al: "allow (principalHash r) (pe_started h) (gw_limiter g) = (ok, l)" by (metis surj_pair)
  have one: "\<exists>e. gw_file (refuse_logged h operation (entry operation i w d st out) (g\<lparr> gw_limiter := l \<rparr>)) = gw_file g @ record_line e
      \<and> ar_Operation e = operation \<and> ar_ChangeID e = i \<and> ar_HTTPStatus e = st" for w d st out
    using refuse_writes [of "g\<lparr> gw_limiter := l \<rparr>" h operation "entry operation i w d st out"] assms(1,3) by simp
  show ?thesis
  proof (cases "ok \<and> (case readLimitedBody (rq_Body r) (gc_MaxBodyBytes (gw_cfg g)) of Inl _ \<Rightarrow> False | Inr content \<Rightarrow> suspected operation content \<noteq> None)")
    case False
    obtain hd m st out d where adm: "st \<in> {400, 413, 429}"
      "admit h r g = (Inl (http_error hd m st), refuse_logged h operation (entry operation i (principalHash r) d st out) (g\<lparr> gw_limiter := l \<rparr>))"
      by (rule admit_one [OF path al False])
    then have "handleProtectedProxy fl up h r g =
        (http_error hd m st, refuse_logged h operation (entry operation i (principalHash r) d st out) (g\<lparr> gw_limiter := l \<rparr>))"
      by (simp add: handleProtectedProxy_def)
    moreover have "rs_Status (http_error hd m st) = st" by (simp add: http_error_def)
    ultimately show ?thesis using al False adm(1) one [where w = "principalHash r" and d = d and st = st and out = out] by auto
  next
    case True
    then obtain content injection where c: "readLimitedBody (rq_Body r) (gc_MaxBodyBytes (gw_cfg g)) = Inr content"
      "suspected operation content = Some injection" by (auto split: sum.splits)
    define a where "a = \<lparr> ad_Operation = operation, ad_ChangeID = i, ad_Principal = principalHash r,
      ad_Digest = hex_encode (sha256_sum content), ad_Injection = injection, ad_Content = content \<rparr>"
    obtain g1 where g1: "append_record (pe_preflightAt h) Written (preflight_record a) (g\<lparr> gw_limiter := l \<rparr>) = (True, g1)"
      "gw_file g1 = gw_file g @ record_line (next_record (gw_audit g) (pe_preflightAt h) (preflight_record a))"
      "al_open (gw_audit g1)" "al_prevHash (gw_audit g1) = ar_Hash (next_record (gw_audit g) (pe_preflightAt h) (preflight_record a))"
      "gw_cfg g1 = gw_cfg g"
      using append_record_written [of "g\<lparr> gw_limiter := l \<rparr>" "pe_preflightAt h" "preflight_record a"] assms(1) by auto
    have adm: "admit h r g = (Inr a, g1)"
      using True al c path g1(1) assms(2) by (simp add: admit_def Let_def a_def [symmetric])
    obtain e2 where e2: "gw_file (snd (handleProtectedProxy fl up h r g)) = gw_file g1 @ record_line e2"
      "ar_Operation e2 = operation" "ar_ChangeID e2 = i" "ar_RequestSHA256 e2 = ad_Digest a"
      "ar_HTTPStatus e2 = rs_Status (fst (handleProtectedProxy fl up h r g))" "ar_PrevHash e2 = al_prevHash (gw_audit g1)"
      using complete_writes [OF g1(3) assms(3), of fl a "forward up r (ad_Content a) (gc_MaxResponse (gw_cfg g1))"]
      by (auto simp: handleProtectedProxy_def adm a_def)
    let ?e1 = "next_record (gw_audit g) (pe_preflightAt h) (preflight_record a)"
    have e1: "ar_Operation ?e1 = operation @ ''_started''" "ar_ChangeID ?e1 = i" "ar_RequestSHA256 ?e1 = ad_Digest a"
      by (simp_all add: next_record_preflight a_def)
    have "gw_file (snd (handleProtectedProxy fl up h r g)) = gw_file g @ record_line ?e1 @ record_line e2"
      using e2(1) g1(2) by simp
    moreover have "ar_RequestSHA256 e2 = ar_RequestSHA256 ?e1" "ar_PrevHash e2 = ar_Hash ?e1"
      using e1(3) e2(4,6) g1(4) by (simp_all del: next_record_fields(3))
    ultimately show ?thesis using True al e1(1,2) e2(2,3,5) by (simp del: next_record_fields) blast
  qed
qed

section \<open>Limits and metadata\<close>

text \<open>A request is limited as its first cookie says: one with a cookie that was not seen before is let through.\<close>

lemma fresh_identity_not_limited:
  "tl_buckets l k = None \<Longrightarrow> 1 \<le> tl_capacity l \<Longrightarrow> fst (allow k tm l)"
  by (simp add: allow_def forget_idle_def refill_def Let_def)

lemma cookie_is_identity:
  "header_get (rq_Header r) ''Cookie'' = c \<Longrightarrow> c \<noteq> [] \<Longrightarrow> principalHash r = hex_encode (take 8 (sha256_sum c))"
  by (simp add: principalHash_def limited_identity_def)

text \<open>The trace of the newest answer of a change is the one that is logged; its number of tool calls only when it is not zero.\<close>

lemma fill_keeps_trace: "am_TraceID a \<noteq> [] \<Longrightarrow> am_TraceID (fold (fill_metadata fl) cs a) = am_TraceID a"
  by (induction cs arbitrary: a) (simp_all add: fill_metadata_def)

lemma newest_trace_logged:
  assumes "decode_object fl content = Some obj" "latest_qa obj = [x]" "textValue (json_member x ''trace_id'') \<noteq> []"
  shows "am_TraceID (extractAgentMetadata fl content) = textValue (json_member x ''trace_id'')"
proof -
  let ?a = "fill_metadata fl x no_metadata"
  have "am_TraceID ?a = textValue (json_member x ''trace_id'')" by (simp add: fill_metadata_def no_metadata_def)
  moreover obtain rest where "candidates obj = x # rest" using assms(2) by (simp add: candidates_def)
  ultimately show ?thesis using assms(1,3) fill_keeps_trace [of ?a] by (simp add: extractAgentMetadata_def)
qed

lemma older_tool_calls_logged:
  assumes "fl ''0'' = Some 0" "fl ''5'' = Some 5"
  shows "am_ToolCalls (fold (fill_metadata fl) (candidates
      [(''agent_qa'', VArr [VObj [(''trace_id'', VStr ''tr_new''), (''tool_calls'', VNum ''0'')]]),
       (''analysis'', VObj [(''tool_calls'', VNum ''5'')])]) no_metadata) = 5"
  using assms by (simp add: candidates_def latest_qa_def nested_candidates_def json_member_def fill_metadata_def no_metadata_def intValue_def)

section \<open>Pages for operators\<close>

text \<open>A summary and events are shown only when the server says that who asks is an administrator or owner.\<close>

theorem operator_pages:
  assumes "serveHTTP fl up hp h r g = (Page status p, g')" "(\<exists>x. p = SummaryPage x) \<or> (\<exists>x. p = EventsPage x)"
  shows "\<exists>s content a. up (plain_request ''/api/auth/me'' (identity_headers (rq_Header r))) = Some s \<and> us_Status s = 200
    \<and> readLimitedBody (us_Body s) 65536 = Inr content \<and> decode_actor content = Some a \<and> ai_ID a \<noteq> [] \<and> operator_role a"
proof -
  have "authorizeRuntimeOperator up r = None"
    using assms by (auto simp: serveHTTP_def serve_page_def handleLive_def handleReady_def handleSLO_def handleMetrics_def
        handleSummary_def handleEvents_def Let_def split: prod.splits if_splits option.splits sum.splits)
  then show ?thesis
    by (auto simp: authorizeRuntimeOperator_def authenticate_def split: auth_answer.splits option.splits if_splits sum.splits)
qed

text \<open>The same for a new gateway: the server knows the caller as an administrator, who sees an empty list of events.\<close>

definition sample_config :: gateway_config where
  "sample_config = \<lparr> gc_ListenAddress = ''127.0.0.1:18081'',
     gc_UpstreamURL = Some \<lparr> ut_Scheme = ''http'', ut_Host = ''127.0.0.1:8080'', ut_Hostname = ''127.0.0.1'' \<rparr>,
     gc_AuditFile = ''audit.jsonl'', gc_AuditKey = replicate 32 (CHR ''k''), gc_MetricsFile = ''metrics.json'', gc_MetricsToken = [],
     gc_MaxBodyBytes = 131072, gc_MaxResponse = 4194304, gc_RatePerMinute = 12, gc_RateBurst = 4, gc_UpstreamTimeout = 2 * minute,
     gc_SLOP95Target = 30 * second, gc_SLOAvailability = 99, gc_SLOWindow = 24 * hour \<rparr>"

definition sample_gateway :: gateway where
  "sample_gateway = \<lparr> gw_cfg = sample_config, gw_audit = sample_log, gw_file = [], gw_metrics = newGatewayMetrics 0, gw_disk = None,
     gw_limiter = newTokenLimiter 12 4 0, gw_started = 0 \<rparr>"

definition sample_proxy_env :: proxy_env where
  "sample_proxy_env = \<lparr> pe_started = second, pe_duration = second, pe_preflightAt = second, pe_preflightOut = Written,
     pe_auditAt = 2 * second, pe_auditOut = Written, pe_metricsAt = 2 * second, pe_rotateOut = Replaced, pe_persistOut = Replaced \<rparr>"

definition sample_page_env :: page_env where
  "sample_page_env = \<lparr> pg_snapshotAt = 0, pg_snapshotOut = Replaced, pg_stateAt = 0, pg_stateOut = Replaced, pg_logReadable = True, pg_now = 0 \<rparr>"

definition sample_request :: "string \<Rightarrow> string \<Rightarrow> proxy_request" where
  "sample_request verb path = \<lparr> rq_Method = verb, rq_Path = path, rq_RawQuery = [], rq_Query = (\<lambda>_. []), rq_Header = Map.empty,
     rq_RemoteAddr = ''127.0.0.1:50000'', rq_Body = Stream [] None \<rparr>"

definition sample_upstream :: upstream where
  "sample_upstream q = Some \<lparr> us_Status = 200, us_Header = Map.empty,
     us_Body = Stream (json_enc (JObj [(''id'', JStr ''usr_1''), (''enterprise_admin'', JBool True)])) None \<rparr>"

lemma sample_config_valid: "Validate sample_config = None"
  by code_simp

lemma sample_lets_through:
  "fst (allow k second (gw_limiter sample_gateway))"
  by (simp add: sample_gateway_def newTokenLimiter_def allow_def forget_idle_def refill_def second_def minute_def Let_def)

theorem proxy_logs_request_witness:
  "\<exists>e1 e2. gw_file (snd (handleProtectedProxy (\<lambda>_. None) sample_upstream sample_proxy_env
        (sample_request ''POST'' ''/api/changes/chg_1/submit-check'') sample_gateway)) = record_line e1 @ record_line e2
     \<and> ar_Operation e1 = ''submit-check_started'' \<and> ar_ChangeID e2 = ''chg_1'' \<and> ar_PrevHash e2 = ar_Hash e1"
proof -
  let ?r = "sample_request ''POST'' ''/api/changes/chg_1/submit-check''"
  have path: "protectedPath (rq_Path ?r) = Some (''chg_1'', ''submit-check'')" "rq_Method ?r = ''POST''"
    by code_simp+
  have "readLimitedBody (rq_Body ?r) (gc_MaxBodyBytes (gw_cfg sample_gateway)) = Inr []"
    "suspected ''submit-check'' [] = Some False" "gw_file sample_gateway = []"
    by (simp_all add: sample_gateway_def sample_config_def sample_request_def readLimitedBody_def suspected_def)
  moreover have "al_open (gw_audit sample_gateway)" "pe_preflightOut sample_proxy_env = Written" "pe_auditOut sample_proxy_env = Written"
    "pe_started sample_proxy_env = second"
    by (simp_all add: sample_gateway_def sample_log_def sample_proxy_env_def)
  ultimately show ?thesis
    using proxy_logs_request [of sample_gateway sample_proxy_env ?r, OF _ _ _ path, of "\<lambda>_. None" sample_upstream] sample_lets_through
    by (auto simp del: next_record_fields(3))
qed

lemma sample_actor:
  "decode_actor (json_enc (JObj [(''id'', JStr ''usr_1''), (''enterprise_admin'', JBool True)])) =
    Some \<lparr> ai_ID = ''usr_1'', ai_Role = [], ai_EnterpriseAdmin = True \<rparr>"
proof -
  have "valid_utf8 ''usr_1''" "valid_utf8 ''id''" "valid_utf8 ''enterprise_admin''" by code_simp+
  moreover have "fold_name ''id'' = ''id''" "fold_name ''enterprise_admin'' = ''enterprise_admin''" by code_simp+
  ultimately show ?thesis
    by (simp add: decode_actor_def json_parse_enc decode_struct_def set_member_def actor_setters_def put_string_def put_bool_def
        del: json_enc.simps fold_name.simps)
qed

theorem operator_pages_witness:
  "\<exists>s content a. sample_upstream (plain_request ''/api/auth/me'' (identity_headers Map.empty)) = Some s \<and> us_Status s = 200
    \<and> readLimitedBody (us_Body s) 65536 = Inr content \<and> decode_actor content = Some a \<and> ai_ID a \<noteq> [] \<and> operator_role a"
proof -
  let ?r = "sample_request ''GET'' ''/api/agent-runtime/events''"
  have len: "length (json_enc (JObj [(''id'', JStr ''usr_1''), (''enterprise_admin'', JBool True)])) \<le> 65536"
    by (rule order_trans [OF length_json_object]) (use length_json_string [of "''usr_1''"] in \<open>simp add: bool_str_def\<close>)
  have "authorizeRuntimeOperator sample_upstream ?r = None"
    using len by (simp add: authorizeRuntimeOperator_def authenticate_def sample_upstream_def readLimitedBody_def sample_actor operator_role_def
        del: json_enc.simps)
  moreover have "events_limit ?r = Some 20" by code_simp
  moreover have "Recent True 20 b sample_log [] = (Inr \<lparr> ep_Events = [], ep_Total = 0, ep_Truncated = False, ep_Verified = True \<rparr>, sample_log)" for b
    by (simp add: Recent_def sample_log_def)
  moreover have "page_path ?r" "rq_Method ?r = ''GET''" "rq_Path ?r = ''/api/agent-runtime/events''"
    by (simp_all add: page_path_def sample_request_def)
  ultimately have "\<exists>p g'. serveHTTP (\<lambda>_. None) sample_upstream sample_proxy_env sample_page_env ?r sample_gateway = (Page 200 (EventsPage p), g')"
    by (simp add: serveHTTP_def serve_page_def handleEvents_def Let_def sample_page_env_def sample_gateway_def)
  then obtain p g' where "serveHTTP (\<lambda>_. None) sample_upstream sample_proxy_env sample_page_env ?r sample_gateway = (Page 200 (EventsPage p), g')"
    by blast
  from operator_pages [OF this] show ?thesis by (simp add: sample_request_def)
qed

end
