(* ===== verification/Spec2Isabelle.thy ===== *)
theory Spec2Isabelle
  imports PassportStore OutboxStore IdempotencyStore Dependencies Lifecycle Views AuthRun GatewayRun
begin

text \<open>
  A verification development of ChangeGuard (Go, \<^verbatim>\<open>src/internal\<close>), a server that checks planned
  changes of production systems, has them rehearsed and approved, and hands out one-time passports with which
  a release pipeline proves to a gate that what it deploys is what was approved.

  \<^bold>\<open>The program.\<close> The server keeps one state, the tables of \<^verbatim>\<open>internal/store\<close>: enterprises with their
  members, invitations, applications and rules; changes with their findings, checks, experiment reports and
  comments; passports; an outbox of experiment events; records of idempotent requests; and an audit log in
  which each event carries the digest of the previous one of its enterprise. Every operation of the store
  runs under one lock, changes a copy of the tables and saves it; a failed save restores the latest saved
  tables. The handlers of \<^verbatim>\<open>internal/service\<close> check an actor and a change first, outside that lock, and then
  call one operation of the store, so that a check and the write that rests on it may see different states.
  The handlers of \<^verbatim>\<open>internal/auth\<close> keep sessions beside the store and decide which member a request acts as.
  A worker claims the events of the outbox under a lease and settles the experiment of a change. A separate process,
  the gateway of \<^verbatim>\<open>internal/agentgateway\<close>, stands before the requests to the language model: it limits and counts them and
  logs each before it is forwarded.

  \<^bold>\<open>Conventions.\<close> A Go string is the list of its UTF-8 bytes (\<open>string\<close>; case folding is that of ASCII), a Go
  integer an \<open>int\<close> or, where its width shows (generations of leases and claims, counters of the gateway,
  SHA-256), a word; a float is an exact rational; a time is a number of nanoseconds; a slice is a list, a
  map a partial function or an association list. An enumeration of strings is a datatype where the code only
  ever holds its constants, and a string where a caller can send others. A mutating operation of the store has
  the type \<open>'a \<Rightarrow> err option \<times> 'a\<close> or returns \<open>err + 'b\<close> beside the new state, with one constructor of \<open>err\<close> per
  error the code tells apart. The outcome of a save is an argument (\<open>Saved\<close>, or \<open>SaveFailed\<close> with the tables
  another process left), as are the clock, the random identifiers and the key of the server (\<open>env\<close>,
  \<open>senv\<close>, \<open>auth_env\<close>). A handler takes the state its checks read (\<open>snap\<close>) and the state its write finds (\<open>d\<close>,
  \<open>w\<close>): equal states are an undisturbed request, different ones a request with others in between. Code that is
  not under \<^verbatim>\<open>src/\<close> is a parameter: the shadow database that rehearses a change, the requests to an identity
  provider and its RSA signatures, the decoding of request bodies, of mail addresses and of durations, the regular
  expressions an administrator writes, the nearest float of a number in an answer
  to the gateway, and the JSON text of results that are only stored. The fixed regular
  expressions of the source are terms of a verified matcher (\<open>Regex\<close>), and SHA-256, HMAC and base64 are
  defined.

  \<^bold>\<open>Theories.\<close>
  \<^item> Prelude: \<open>GoText\<close> (strings, numbers and times of the Go library), \<open>GoJson\<close> (the output of \<^verbatim>\<open>json.Marshal\<close>
    and that it determines its input), \<open>GoCrypto\<close> (SHA-256, HMAC, base64url), \<open>Regex\<close> (matching, leftmost search and
    replacement), \<open>GoUnmarshal\<close> and \<open>GoTime\<close> (reading JSON and RFC 3339 times, with
    their round trips), \<open>Tables\<close> (slices searched by an identifier; a locale whose instances are the collections of
    the store), \<open>Fencing\<close> (generation-fenced rows; a locale whose instances are leases and claims). The theories whose
    names end in \<open>Texts\<close> hold the non-ASCII constants of the source as bytes.
  \<^item> Data: \<open>GoModel\<close> (the structs and enumerations of \<^verbatim>\<open>internal/model\<close>) and \<open>DefaultRules\<close> (the 39 rules a new
    enterprise starts with).
  \<^item> Audit log: \<open>AuditChain\<close> (\<^verbatim>\<open>internal/audit\<close>): normalisation, canonical payload, digest, \<open>Link\<close> and \<open>Verify\<close>; two
    verified logs with the same head hold the same payloads unless SHA-256 collides on them.
  \<^item> Store (\<^verbatim>\<open>internal/store\<close>): \<open>Store\<close> (state, saving, audit append, changes, rules, events, signals), \<open>Members\<close>
    (\<^verbatim>\<open>organization.go\<close>: enterprises, members, invitations, applications), \<open>PassportStore\<close>, \<open>OutboxStore\<close> and
    \<open>IdempotencyStore\<close>. Each has its step relation or list of steps, the invariant every operation keeps
    (distinct identifiers, one active passport per change, unique addresses, verified chains) and what each
    operation does on every branch. A stale lease or claim is fenced out by every later one.
  \<^item> Change gate (\<^verbatim>\<open>internal/changegate\<close>): \<open>Integrity\<close> (the digest of a change binds its parts), \<open>Redact\<close> (removal of
    secrets), \<open>GateChecker\<close> (static checks of configuration and Kubernetes), \<open>PassportToken\<close> (signing and verifying).
  \<^item> Checks: \<open>Checker\<close> (\<^verbatim>\<open>internal/checker\<close>) and \<open>Conflict\<close> (\<^verbatim>\<open>internal/conflict\<close>): which findings and which pairs of
    changes are reported.
  \<^item> Service (\<^verbatim>\<open>internal/service\<close>): \<open>Access\<close> (who may act), \<open>Drafting\<close>, \<open>Findings\<close>, \<open>Window\<close>, \<open>Lifecycle\<close>, \<open>Worker\<close>,
    \<open>Gate\<close>, \<open>Dependencies\<close>, \<open>IdempotentService\<close>, \<open>Outcomes\<close> and \<open>Views\<close>, in the order a change passes through them.
    \<open>Governance\<close> composes them: the handlers and the workers interleave in any order, each on any earlier
    snapshot, and still nobody's own approval stands and a change completes only by consuming a passport.
  \<^item> Sign-on (\<^verbatim>\<open>internal/auth\<close>): \<open>Sessions\<close> (the repository of sessions and of attempts refines a table with expiry),
    \<open>Identity\<close> (configuration, passwords, identity tokens), \<open>Auth\<close> (registration, login, invitations, the middleware
    that admits a request), \<open>Enterprise\<close> (settings, members, invitations), \<open>SignOn\<close> (the identity provider),
    \<open>AuthRun\<close> (runs of all of them).
  \<^item> Agent gateway (\<^verbatim>\<open>internal/agentgateway\<close>): \<open>GatewayAudit\<close> (the log: what complete appends wrote opens again in the
    state they left, what a failed sync left does not, and two logs with one last hash hold the same records),
    \<open>GatewayMetrics\<close> (the counters, the percentile, the service level, and the bound of the limiter), \<open>MetricsFile\<close>
    (counters that were written are read back as they were; a failed write or a clock set back stops them for
    good), \<open>Injection\<close> (\<^verbatim>\<open>internal/agent/injection.go\<close>: the search for instructions in questions), \<open>GatewayProxy\<close> (the
    requests that are limited, logged and forwarded), \<open>GatewayPages\<close> (health, metrics and the pages for operators, the check
    of the settings and the start) and \<open>GatewayRun\<close> (requests, answers and pages interleaved: whatever is sent to the
    server is in the log before, and only operators see the summary and the events). The server behind the gateway
    is a parameter.

  \<^bold>\<open>Locales.\<close> An interface that several components share is a locale with its laws, interpreted on the code's
  definitions in the theory of the component that provides it: \<open>keyed_table\<close> (a collection of the store),
  \<open>audited\<close> and its extension \<open>passport_op\<close> (operations that append to the audit log or leave it alone, and keep its
  chains), \<open>member_op\<close> (operations that keep addresses and email domains unique), \<open>fenced\<close> (rows under a lease or a
  claim), \<open>governed\<close> (requests that respect the life cycle of changes), \<open>calm_op\<close> (steps of a worker), \<open>latest_wins\<close> (facts
  decided by the newest record) and \<open>session_repository\<close>.

  \<^bold>\<open>Bounds and fuel.\<close> The matcher, the JSON printer and the checks recurse on their input. The depth-first
  search over the dependencies of applications runs with fuel one more than the number of applications of the
  catalogue: every step visits an application that is not on the path yet, and \<open>validateApplicationDependencies_exact\<close>
  shows that on an acyclic catalogue it always answers and is right. The worker's loop is bounded by the number
  of due events, which \<open>worker_drains\<close> shows to be enough. Generations are 64-bit words; the fencing lemmas carry
  the condition that fewer than \<open>2 ^ 64\<close> acquisitions lie in between. The JSON reader takes the length of its text as fuel:
  \<open>json_parse_bound\<close> shows that no text needs more; a line of the gateway's log must be shorter than the 1 MiB of its reader to be read again. Cuts of texts, limits of listings and of
  attempts are those of the source.

  \<^bold>\<open>Not modelled.\<close> The pages, the routing and the JSON glue of \<^verbatim>\<open>internal/httpapi\<close>; the layout of the pages of the gateway and its
  settings in the environment; the loop around a language model
  (\<^verbatim>\<open>internal/agent\<close>, \<^verbatim>\<open>internal/modelprobe\<close>), whose behaviour is that of the provider; the branches for Postgres
  and Redis, which are programs of those servers; files, locks between processes and the loading and repair of
  a stored state; spreadsheets and the monthly report; the server's own metrics; notifications to listeners (\<open>publish\<close>); the
  command-line programs. Unstable sorts are modelled as stable ones, and the order in which Go walks a map only
  where the result does not depend on it.
\<close>

end
